(* ===== verification/GoPrelude.thy ===== *)
theory GoPrelude
  imports "HOL-Library.Word" "HOL-Library.AList" "HOL-Library.Char_ord"
    "HOL-Library.List_Lexorder" "HOL-Library.Product_Lexorder"
begin

text \<open>
  The prelude of the development: what the daemon's packages share of the Go language and
  its standard library. Strings are byte strings (Go's \<open>string\<close>), instants are integers
  counting nanoseconds from Go's zero time (1 January of year 1, UTC), durations are integers
  in nanoseconds, contexts are reduced to the error \<open>ctx.Err()\<close> returns, and a Go map is an
  association list with distinct keys whose order stands for the unspecified iteration order.
  It also holds the generic machine locale that lifts one-step facts to runs.
\<close>

named_theorems go_defs \<open>definitions that a component proof unfolds\<close>

section \<open>Contexts, instants and durations\<close>

datatype ctx_err = Canceled | DeadlineExceeded

type_synonym ctx = "ctx_err option"
type_synonym time = int
type_synonym duration = int

abbreviation isZero :: "time \<Rightarrow> bool" where
  "isZero t \<equiv> t = 0"

definition maxDuration :: duration where
  "maxDuration = 2 ^ 63 - 1"

definition minDuration :: duration where
  "minDuration = - (2 ^ 63)"

text \<open>\<open>time.Time.Sub\<close> saturates at the ends of the 64-bit duration range.\<close>

definition go_sub :: "time \<Rightarrow> time \<Rightarrow> duration" where
  "go_sub t u = (if t - u > maxDuration then maxDuration
                 else if t - u < minDuration then minDuration else t - u)"

definition nsPerMinute :: int where
  "nsPerMinute = 60000000000"

definition nsPerSecond :: int where
  "nsPerSecond = 1000000000"

text \<open>A 64-bit signed integer wraps around, an unsigned one too.\<close>

definition wrap64 :: "int \<Rightarrow> int" where
  "wrap64 n = (n + 2 ^ 63) mod 2 ^ 64 - 2 ^ 63"

lemma wrap64_small: "- (2 ^ 63) \<le> n \<Longrightarrow> n < 2 ^ 63 \<Longrightarrow> wrap64 n = n"
  by (simp add: wrap64_def)

lemma wrap64_mod: "wrap64 a mod 2 ^ 64 = a mod 2 ^ 64"
proof -
  have "wrap64 a mod 2 ^ 64 = (a + 2 ^ 63 - 2 ^ 63) mod 2 ^ 64"
    unfolding wrap64_def by (rule mod_diff_left_eq)
  then show ?thesis by simp
qed

lemma wrap64_cong: "a mod 2 ^ 64 = b mod 2 ^ 64 \<Longrightarrow> wrap64 a = wrap64 b"
  unfolding wrap64_def using mod_add_cong [of a "2 ^ 64" b "2 ^ 63" "2 ^ 63"] by simp

definition u64 :: "nat \<Rightarrow> nat" where
  "u64 n = n mod 2 ^ 64"

lemma u64_small: "n < 2 ^ 64 \<Longrightarrow> u64 n = n"
  by (simp add: u64_def)

text \<open>Natural numbers evaluate in unary, integers in binary.\<close>

lemma u64_code [code]: "u64 n = nat (int n mod 18446744073709551616)"
  by (simp add: u64_def nat_mod_distrib)

section \<open>Strings\<close>

text \<open>
  The UTF-8 encodings of the code points for which \<open>unicode.IsSpace\<close> holds. Every encoding
  starts with a byte that is never a continuation byte, so looking for an encoding at a byte
  position is the same as decoding the rune there.
\<close>

definition go_spaces :: "string list" where
  "go_spaces =
     [[CHR 0x09], [CHR 0x0A], [CHR 0x0B], [CHR 0x0C], [CHR 0x0D], [CHR 0x20],
      [CHR 0xC2, CHR 0x85], [CHR 0xC2, CHR 0xA0], [CHR 0xE1, CHR 0x9A, CHR 0x80],
      [CHR 0xE2, CHR 0x80, CHR 0x80], [CHR 0xE2, CHR 0x80, CHR 0x81],
      [CHR 0xE2, CHR 0x80, CHR 0x82], [CHR 0xE2, CHR 0x80, CHR 0x83],
      [CHR 0xE2, CHR 0x80, CHR 0x84], [CHR 0xE2, CHR 0x80, CHR 0x85],
      [CHR 0xE2, CHR 0x80, CHR 0x86], [CHR 0xE2, CHR 0x80, CHR 0x87],
      [CHR 0xE2, CHR 0x80, CHR 0x88], [CHR 0xE2, CHR 0x80, CHR 0x89],
      [CHR 0xE2, CHR 0x80, CHR 0x8A], [CHR 0xE2, CHR 0x80, CHR 0xA8],
      [CHR 0xE2, CHR 0x80, CHR 0xA9], [CHR 0xE2, CHR 0x80, CHR 0xAF],
      [CHR 0xE2, CHR 0x81, CHR 0x9F], [CHR 0xE3, CHR 0x80, CHR 0x80]]"

definition space_len :: "string list \<Rightarrow> string \<Rightarrow> nat" where
  "space_len encs s = (case find (\<lambda>e. take (length e) s = e) encs of None \<Rightarrow> 0 | Some e \<Rightarrow> length e)"

fun trim_left :: "string list \<Rightarrow> nat \<Rightarrow> string \<Rightarrow> string" where
  "trim_left encs n [] = []"
| "trim_left encs (Suc n) (c # cs) = trim_left encs n cs"
| "trim_left encs 0 (c # cs) =
     (case space_len encs (c # cs) of 0 \<Rightarrow> c # cs | Suc n \<Rightarrow> trim_left encs n cs)"

definition TrimSpace :: "string \<Rightarrow> string" where
  "TrimSpace s =
     rev (trim_left (map rev go_spaces) 0 (rev (trim_left go_spaces 0 s)))"

text \<open>\<open>strings.Fields\<close>: the maximal runs of non-space bytes.\<close>

fun fields_from :: "nat \<Rightarrow> string \<Rightarrow> string \<Rightarrow> string list" where
  "fields_from n acc [] = (if acc = [] then [] else [rev acc])"
| "fields_from (Suc n) acc (c # cs) = fields_from n acc cs"
| "fields_from 0 acc (c # cs) =
     (case space_len go_spaces (c # cs) of
        0 \<Rightarrow> fields_from 0 (c # acc) cs
      | Suc n \<Rightarrow> (if acc = [] then fields_from n [] cs
                  else rev acc # fields_from n [] cs))"

definition Fields :: "string \<Rightarrow> string list" where
  "Fields s = fields_from 0 [] s"

text \<open>\<open>strings.Split\<close> and \<open>strings.Cut\<close> at a one-byte separator.\<close>

fun split_acc :: "char \<Rightarrow> string \<Rightarrow> string \<Rightarrow> string list" where
  "split_acc sep acc [] = [rev acc]"
| "split_acc sep acc (c # cs) =
     (if c = sep then rev acc # split_acc sep [] cs else split_acc sep (c # acc) cs)"

definition Split :: "string \<Rightarrow> char \<Rightarrow> string list" where
  "Split s sep = split_acc sep [] s"

definition Cut :: "string \<Rightarrow> char \<Rightarrow> (string \<times> string) option" where
  "Cut s sep = (if sep \<in> set s
     then Some (takeWhile (\<lambda>c. c \<noteq> sep) s, tl (dropWhile (\<lambda>c. c \<noteq> sep) s)) else None)"

definition is_digit :: "char \<Rightarrow> bool" where
  "is_digit c \<longleftrightarrow> 48 \<le> (of_char c :: nat) \<and> (of_char c :: nat) \<le> 57"

definition digit_val :: "char \<Rightarrow> int" where
  "digit_val c = int (of_char c) - 48"

definition digits_val :: "string \<Rightarrow> int" where
  "digits_val s = foldl (\<lambda>a c. 10 * a + digit_val c) 0 s"

text \<open>
  \<open>strconv.Atoi\<close> on a 64-bit platform: an optional sign, then decimal digits only, in the range
  of \<open>int64\<close>; every other string is an error.
\<close>

definition Atoi :: "string \<Rightarrow> int option" where
  "Atoi s =
     (let neg = (case s of [] \<Rightarrow> False | c # _ \<Rightarrow> c = CHR ''-'');
          ds = (case s of [] \<Rightarrow> [] | c # cs \<Rightarrow> if c = CHR ''-'' \<or> c = CHR ''+'' then cs else s)
      in if ds = [] \<or> \<not> list_all is_digit ds then None
         else let v = (if neg then - digits_val ds else digits_val ds)
              in if - (2 ^ 63) \<le> v \<and> v \<le> 2 ^ 63 - 1 then Some v else None)"

text \<open>Decimal printing, and the zero padding of \<open>%06d\<close> and of time layouts.\<close>

definition digit_char :: "nat \<Rightarrow> char" where
  "digit_char d = char_of (48 + d)"

fun dec_digits :: "nat \<Rightarrow> string" where
  "dec_digits n = (if n < 10 then [digit_char n]
                   else dec_digits (n div 10) @ [digit_char (n mod 10)])"

declare dec_digits.simps [simp del]

definition pad_dec :: "nat \<Rightarrow> nat \<Rightarrow> string" where
  "pad_dec w n = (let s = dec_digits n in replicate (w - length s) (CHR ''0'') @ s)"

text \<open>
  \<open>strings.ToLower\<close> as far as it can give an ASCII letter: the ASCII capitals, the dotted capital
  I (whose lower case is the ASCII i) and the Kelvin sign. Other code points never become ASCII,
  so they are left alone; the result is only compared with ASCII words.
\<close>

fun ToLower :: "string \<Rightarrow> string" where
  "ToLower [] = []"
| "ToLower (c # cs) =
     (if take 2 (c # cs) = [CHR 0xC4, CHR 0xB0] then CHR ''i'' # ToLower (drop 1 cs)
      else if take 3 (c # cs) = [CHR 0xE2, CHR 0x84, CHR 0xAA] then CHR ''k'' # ToLower (drop 2 cs)
      else (if CHR ''A'' \<le> c \<and> c \<le> CHR ''Z'' then char_of (of_char c + 32 :: nat) else c) # ToLower cs)"

text \<open>\<open>firstNonEmpty\<close>, which several packages of the daemon repeat.\<close>

fun firstNonEmpty :: "string list \<Rightarrow> string" where
  "firstNonEmpty [] = []"
| "firstNonEmpty (v # vs) = (if TrimSpace v \<noteq> [] then TrimSpace v else firstNonEmpty vs)"

text \<open>Substrings, prefixes and suffixes, and joining with a one-byte separator.\<close>

fun Contains :: "string \<Rightarrow> string \<Rightarrow> bool" where
  "Contains [] sub = (sub = [])"
| "Contains (c # cs) sub = (take (length sub) (c # cs) = sub \<or> Contains cs sub)"

definition HasPrefix :: "string \<Rightarrow> string \<Rightarrow> bool" where
  "HasPrefix s p \<longleftrightarrow> take (length p) s = p"

definition HasSuffix :: "string \<Rightarrow> string \<Rightarrow> bool" where
  "HasSuffix s p \<longleftrightarrow> length p \<le> length s \<and> drop (length s - length p) s = p"

definition CutPrefix :: "string \<Rightarrow> string \<Rightarrow> string option" where
  "CutPrefix s p = (if HasPrefix s p then Some (drop (length p) s) else None)"

definition TrimSuffix :: "string \<Rightarrow> string \<Rightarrow> string" where
  "TrimSuffix s p = (if HasSuffix s p then take (length s - length p) s else s)"

fun Join :: "string list \<Rightarrow> char \<Rightarrow> string" where
  "Join [] sep = []"
| "Join [s] sep = s"
| "Join (s # t # ss) sep = s @ sep # Join (t # ss) sep"

text \<open>The shared identifier check, \<open>validID\<close> of the packages jobs and scheduler.\<close>

fun contains_dotdot :: "string \<Rightarrow> bool" where
  "contains_dotdot (a # b # s) = (a = CHR ''.'' \<and> b = CHR ''.'' \<or> contains_dotdot (b # s))"
| "contains_dotdot _ = False"

definition idChar :: "char \<Rightarrow> bool" where
  "idChar c \<longleftrightarrow> (let n = (of_char c :: nat) in
      (97 \<le> n \<and> n \<le> 122) \<or> (65 \<le> n \<and> n \<le> 90) \<or> (48 \<le> n \<and> n \<le> 57) \<or>
      c = CHR ''_'' \<or> c = CHR ''-'' \<or> c = CHR ''.'')"

definition validID :: "string \<Rightarrow> bool" where
  "validID s \<longleftrightarrow> s \<noteq> [] \<and> length s \<le> 128 \<and> \<not> contains_dotdot s \<and> list_all idChar s"

subsection \<open>Facts on prefixes and suffixes\<close>

lemma HasPrefix_iff: "HasPrefix s p \<longleftrightarrow> (\<exists>t. s = p @ t)"
  by (metis HasPrefix_def append_eq_conv_conj append_take_drop_id)

lemma HasSuffix_iff: "HasSuffix s p \<longleftrightarrow> (\<exists>t. s = t @ p)"
proof
  assume "HasSuffix s p"
  then have "s = take (length s - length p) s @ p" by (metis HasSuffix_def append_take_drop_id)
  then show "\<exists>t. s = t @ p" by blast
qed (auto simp: HasSuffix_def)

lemma CutPrefix_iff: "CutPrefix s p = Some t \<longleftrightarrow> s = p @ t"
  by (auto simp: CutPrefix_def HasPrefix_iff split: if_splits)

lemma TrimSuffix_append [simp]: "TrimSuffix (s @ p) p = s"
  by (simp add: TrimSuffix_def HasSuffix_def)

subsection \<open>Facts on decimal printing\<close>

lemma dec_digits_nonempty [simp]: "dec_digits n \<noteq> []"
  by (subst dec_digits.simps) simp

lemma digit_char_inj: "a < 10 \<Longrightarrow> b < 10 \<Longrightarrow> digit_char a = digit_char b \<Longrightarrow> a = b"
  by (simp add: digit_char_def char_of_eq_iff take_bit_eq_mod)

lemma is_digit_digit_char: "d < 10 \<Longrightarrow> is_digit (digit_char d)"
  by (simp add: is_digit_def digit_char_def)

lemma dec_digits_all: "list_all is_digit (dec_digits n)"
proof (induction n rule: dec_digits.induct)
  case (1 n)
  then show ?case
    by (subst dec_digits.simps) (simp add: is_digit_digit_char)
qed

lemma digits_val_snoc: "digits_val (s @ [c]) = 10 * digits_val s + digit_val c"
  by (simp add: digits_val_def)

lemma digit_val_digit_char: "d < 10 \<Longrightarrow> digit_val (digit_char d) = int d"
  by (simp add: digit_val_def digit_char_def)

lemma digits_val_dec_digits: "digits_val (dec_digits n) = int n"
proof (induction n rule: dec_digits.induct)
  case (1 n)
  show ?case
  proof (cases "n < 10")
    case True
    then show ?thesis
      by (subst dec_digits.simps) (simp add: digits_val_def digit_val_digit_char)
  next
    case False
    with 1 have "digits_val (dec_digits (n div 10)) = int (n div 10)" by simp
    with False show ?thesis
      by (subst dec_digits.simps)
        (simp add: digits_val_snoc digit_val_digit_char zdiv_int zmod_int)
  qed
qed

lemma digits_val_zeros: "digits_val (replicate k (CHR ''0'') @ s) = digits_val s"
  by (induction k) (simp_all add: digits_val_def digit_val_def)

lemma pad_dec_inj: "pad_dec w m = pad_dec w n \<Longrightarrow> m = n"
proof -
  assume "pad_dec w m = pad_dec w n"
  then have "digits_val (pad_dec w m) = digits_val (pad_dec w n)" by simp
  then show "m = n"
    by (simp add: pad_dec_def Let_def digits_val_zeros digits_val_dec_digits)
qed

lemma pad_dec_digits: "list_all is_digit (pad_dec w n)"
  using dec_digits_all [of n]
  by (auto simp: pad_dec_def Let_def list_all_iff is_digit_def)

section \<open>Go maps as association lists\<close>

abbreviation keys :: "('k \<times> 'v) list \<Rightarrow> 'k list" where
  "keys m \<equiv> map fst m"

text \<open>Proofs stay on the level of lookups: membership in the list is not what a map promises.\<close>

declare map_of_eq_Some_iff [simp del] Some_eq_map_of_iff [simp del]

lemma map_of_update [simp]: "map_of (AList.update k v m) = (map_of m)(k \<mapsto> v)"
  by (rule AList.update_conv')

lemma map_of_delete_alist [simp]: "map_of (AList.delete k m) = (map_of m)(k := None)"
  by (rule AList.delete_conv')

lemma distinct_keys_update [intro, simp]:
  "distinct (keys m) \<Longrightarrow> distinct (keys (AList.update k v m))"
  by (rule AList.distinct_update)

lemma distinct_keys_delete [intro, simp]:
  "distinct (keys m) \<Longrightarrow> distinct (keys (AList.delete k m))"
  by (rule AList.distinct_delete)

lemma in_set_update_distinct:
  "distinct (keys m) \<Longrightarrow>
    (a, x) \<in> set (AList.update k v m) \<longleftrightarrow> (if a = k then x = v else (a, x) \<in> set m)"
  by (metis distinct_keys_update fun_upd_apply map_of_eq_Some_iff map_of_update option.inject)

section \<open>Machines and runs\<close>

text \<open>
  A component is a machine whose operations change its state; what one operation keeps, a whole
  run keeps. The second locale adds a preorder that every step respects: whatever a step does
  not undo, a run does not undo.
\<close>

locale machine =
  fixes step :: "'op \<Rightarrow> 's \<Rightarrow> 's" and inv :: "'s \<Rightarrow> bool"
  assumes step_inv: "inv s \<Longrightarrow> inv (step x s)"
begin

lemma run_inv: "inv s \<Longrightarrow> inv (fold step xs s)"
  by (induction xs arbitrary: s) (auto intro: step_inv)

end

locale monotone_machine = machine step inv
  for step :: "'op \<Rightarrow> 's \<Rightarrow> 's" and inv :: "'s \<Rightarrow> bool" +
  fixes le :: "'s \<Rightarrow> 's \<Rightarrow> bool"
  assumes le_refl: "le s s"
    and le_trans: "le s t \<Longrightarrow> le t u \<Longrightarrow> le s u"
    and step_le: "inv s \<Longrightarrow> le s (step x s)"
begin

lemma run_le: "inv s \<Longrightarrow> le s (fold step xs s)"
proof (induction xs arbitrary: s)
  case Nil
  then show ?case by (simp add: le_refl)
next
  case (Cons x xs)
  from Cons.prems have "le s (step x s)" by (rule step_le)
  moreover from Cons.prems have "le (step x s) (fold step xs (step x s))"
    by (intro Cons.IH step_inv)
  ultimately show ?case by (auto intro: le_trans)
qed

end

section \<open>Snapshot stores\<close>

text \<open>
  The \<open>Store\<close> interface of the registries: \<open>load\<close> reads the last saved snapshot, \<open>save\<close> writes
  one and reports an error. A save that reports no error is the next load; a save that reports
  an error has either left the old snapshot or installed the new one, never a mixture.
\<close>

locale snapshot_store =
  fixes load :: "'w \<Rightarrow> 'e + 'snap"
    and save :: "ctx \<Rightarrow> 'snap \<Rightarrow> 'w \<Rightarrow> 'e option \<times> 'w"
    and normal :: "'snap \<Rightarrow> 'snap"
  assumes save_ok: "save c s w = (None, w') \<Longrightarrow> load w' = Inr (normal s)"
    and save_err: "save c s w = (Some e, w') \<Longrightarrow> load w' = load w \<or> load w' = Inr (normal s)"
    and normal_idem: "normal (normal s) = normal s"
begin

text \<open>A sequence of saves: what is loaded afterwards is one of the snapshots or the old one.\<close>

fun save_all :: "(ctx \<times> 'snap) list \<Rightarrow> 'w \<Rightarrow> 'w" where
  "save_all [] w = w"
| "save_all ((c, s) # xs) w = save_all xs (snd (save c s w))"

lemma save_load:
  "load (snd (save c s w)) = load w \<or> load (snd (save c s w)) = Inr (normal s)"
proof (cases "save c s w")
  case (Pair r w')
  then show ?thesis by (cases r) (auto dest: save_ok save_err)
qed

lemma load_after_saves:
  "load (save_all xs w) = load w \<or> (\<exists>(c, s) \<in> set xs. load (save_all xs w) = Inr (normal s))"
proof (induction xs arbitrary: w)
  case Nil
  then show ?case by simp
next
  case (Cons x xs)
  obtain c s where x: "x = (c, s)" by (cases x)
  show ?case
    using Cons.IH [of "snd (save c s w)"] save_load [of c s w] by (auto simp: x)
qed

end

end
