(* ===== verification/GoTime.thy ===== *)
theory GoTime
  imports GoPrelude
begin

text \<open>
  The part of package \<open>time\<close> the daemon computes with: the proleptic Gregorian calendar in UTC,
  the clock fields of an instant, \<open>AddDate\<close> by whole years, truncation to the minute and the
  layout \<open>20060102T150405.000000000Z\<close> of generated identifiers. Day 0 is 1 January of year 1,
  a Monday.
\<close>

section \<open>Calendar\<close>

definition civil_from_days :: "int \<Rightarrow> int \<times> int \<times> int" where
  "civil_from_days n =
     (let z = n + 306;
          era = z div 146097;
          doe = z mod 146097;
          yoe = (doe - doe div 1460 + doe div 36524 - doe div 146096) div 365;
          doy = doe - (365 * yoe + yoe div 4 - yoe div 100);
          mp = (5 * doy + 2) div 153;
          d = doy - (153 * mp + 2) div 5 + 1;
          m = (if mp < 10 then mp + 3 else mp - 9);
          y = yoe + era * 400 + (if m \<le> 2 then 1 else 0)
      in (y, m, d))"

definition days_from_civil :: "int \<Rightarrow> int \<Rightarrow> int \<Rightarrow> int" where
  "days_from_civil y m d =
     (let y' = (if m \<le> 2 then y - 1 else y);
          era = y' div 400;
          yoe = y' mod 400;
          mp = (m + 9) mod 12;
          doy = (153 * mp + 2) div 5 + d - 1;
          doe = yoe * 365 + yoe div 4 - yoe div 100 + doy
      in era * 146097 + doe - 306)"

definition nsPerDay :: int where
  "nsPerDay = 86400000000000"

definition dayOf :: "time \<Rightarrow> int" where
  "dayOf t = t div nsPerDay"

definition Year :: "time \<Rightarrow> int" where
  "Year t = fst (civil_from_days (dayOf t))"

definition Month :: "time \<Rightarrow> int" where
  "Month t = fst (snd (civil_from_days (dayOf t)))"

definition Day :: "time \<Rightarrow> int" where
  "Day t = snd (snd (civil_from_days (dayOf t)))"

definition Weekday :: "time \<Rightarrow> int" where
  "Weekday t = (dayOf t + 1) mod 7"

definition Hour :: "time \<Rightarrow> int" where
  "Hour t = (t mod nsPerDay) div 3600000000000"

definition Minute :: "time \<Rightarrow> int" where
  "Minute t = (t mod nsPerDay) div nsPerMinute mod 60"

definition Second :: "time \<Rightarrow> int" where
  "Second t = (t mod nsPerDay) div nsPerSecond mod 60"

definition Nanosecond :: "time \<Rightarrow> int" where
  "Nanosecond t = t mod nsPerSecond"

definition truncMinute :: "time \<Rightarrow> time" where
  "truncMinute t = t - t mod nsPerMinute"

definition addYears :: "time \<Rightarrow> int \<Rightarrow> time" where
  "addYears t n = (case civil_from_days (dayOf t) of (y, m, d) \<Rightarrow>
     days_from_civil (y + n) m d * nsPerDay + t mod nsPerDay)"

definition dateTime :: "int \<Rightarrow> int \<Rightarrow> int \<Rightarrow> int \<Rightarrow> int \<Rightarrow> time" where
  "dateTime y m d h mi = days_from_civil y m d * nsPerDay + h * 3600000000000 + mi * nsPerMinute"

section \<open>The identifier layout\<close>

definition fmtInt :: "nat \<Rightarrow> int \<Rightarrow> string" where
  "fmtInt w n = (if n < 0 then CHR ''-'' # pad_dec w (nat (- n)) else pad_dec w (nat n))"

definition fmtStamp :: "time \<Rightarrow> string" where
  "fmtStamp t = fmtInt 4 (Year t) @ fmtInt 2 (Month t) @ fmtInt 2 (Day t) @ ''T'' @
     fmtInt 2 (Hour t) @ fmtInt 2 (Minute t) @ fmtInt 2 (Second t) @ ''.'' @
     fmtInt 9 (Nanosecond t) @ ''Z''"

definition stampedID :: "string \<Rightarrow> time \<Rightarrow> 64 word \<Rightarrow> string" where
  "stampedID prefix now n = prefix @ fmtStamp now @ ''_'' @ pad_dec 6 (unat n)"

lemma append_sep_inj:
  assumes "xs @ c # ys = xs' @ c # ys'" "c \<notin> set ys" "c \<notin> set ys'"
  shows "ys = ys'"
proof -
  have tw: "takeWhile (\<lambda>x. x \<noteq> c) (rev zs @ c # ws) = rev zs" if "c \<notin> set zs" for zs ws
    using that by (subst takeWhile_append2) auto
  have "rev (xs @ c # ys) = rev (xs' @ c # ys')" using assms(1) by (rule arg_cong)
  then have "takeWhile (\<lambda>x. x \<noteq> c) (rev ys @ c # rev xs) = takeWhile (\<lambda>x. x \<noteq> c) (rev ys' @ c # rev xs')"
    by simp
  then show ?thesis using assms(2,3) by (simp add: tw)
qed

lemma digits_no_underscore: "list_all is_digit s \<Longrightarrow> CHR ''_'' \<notin> set s"
  by (auto simp: list_all_iff is_digit_def)

lemma stampedID_inj: "stampedID p t m = stampedID p' t' n \<Longrightarrow> m = n"
proof -
  assume "stampedID p t m = stampedID p' t' n"
  then have "(p @ fmtStamp t) @ CHR ''_'' # pad_dec 6 (unat m) =
             (p' @ fmtStamp t') @ CHR ''_'' # pad_dec 6 (unat n)"
    by (simp add: stampedID_def)
  then have "pad_dec 6 (unat m) = pad_dec 6 (unat n)"
    by (rule append_sep_inj) (intro digits_no_underscore pad_dec_digits)+
  then have "unat m = unat n" by (rule pad_dec_inj)
  then show "m = n" by (simp add: word_unat_eq_iff)
qed

section \<open>Facts on truncation\<close>

lemma nsPerMinute_pos [simp]: "0 < nsPerMinute"
  by (simp add: nsPerMinute_def)

lemma truncMinute_le: "truncMinute t \<le> t"
  by (simp add: truncMinute_def)

lemma truncMinute_gt: "t < truncMinute t + nsPerMinute"
  using pos_mod_bound [OF nsPerMinute_pos, of t] by (simp add: truncMinute_def)

lemma truncMinute_dvd: "nsPerMinute dvd truncMinute t"
  by (simp add: truncMinute_def minus_mod_eq_div_mult)

subsection \<open>Known dates\<close>

lemma civil_samples:
  "civil_from_days 0 = (1, 1, 1)"
  "civil_from_days 719162 = (1970, 1, 1)"
  "civil_from_days (days_from_civil 2024 2 29) = (2024, 2, 29)"
  "civil_from_days (days_from_civil 2023 2 29) = (2023, 3, 1)"
  "Weekday (dateTime 1970 1 1 0 0) = 4"
  by (code_simp, code_simp, code_simp, code_simp, code_simp)

lemma fmtStamp_sample:
  "fmtStamp (dateTime 2026 5 1 12 30 + 7) = ''20260501T123000.000000007Z''"
  by code_simp

end
