(* ===== verification/JobTypes.thy ===== *)
theory JobTypes
  imports GoTime
begin

text \<open>
  Package \<open>jobs\<close>, \<open>types.go\<close>, and the persistence half of \<open>registry.go\<close>: the job entity and its
  parts, the request types, the durable snapshot and the file store that saves it. A
  pointer field is an \<open>option\<close>; strings a JSON file may hold outside the declared constants are
  kept by the constructor \<open>StatusOther\<close>. Errors keep the sentinel they wrap and drop the
  message text.
\<close>

datatype job_err = ErrNotFound | ErrInvalidRequest | ErrInvalidState | ErrLeaseHeld
  | ErrIdempotencyConflict | ErrCtx ctx_err | ErrIO string

datatype Status = StatusQueued | StatusRunning | StatusWaitingApproval | StatusCanceling
  | StatusSucceeded | StatusFailed | StatusInterrupted | StatusOther string

fun Status_Valid :: "Status \<Rightarrow> bool" where
  "Status_Valid (StatusOther _) = False"
| "Status_Valid _ = True"

fun Status_Terminal :: "Status \<Rightarrow> bool" where
  "Status_Terminal StatusSucceeded = True"
| "Status_Terminal StatusFailed = True"
| "Status_Terminal StatusInterrupted = True"
| "Status_Terminal _ = False"

record AuditMetadata =
  Audit_Actor :: string
  Audit_Reason :: string
  Audit_RequestID :: string
  Audit_CorrelationID :: string
  Audit_CausationID :: string

record ProcessRef =
  Proc_JobID :: string
  Proc_PID :: int
  Proc_PGID :: int
  Proc_PTY :: bool
  Proc_StartedAt :: time
  Proc_ReattachedAt :: "time option"

record Failure =
  Failure_Code :: string
  Failure_Message :: string
  Failure_Fingerprint :: string
  Failure_CrashedRecovered :: bool

record Artifact =
  Artifact_ID :: string
  Artifact_Kind :: string
  Artifact_URI :: string
  Artifact_Digest :: string
  Artifact_CreatedAt :: time

record Job =
  Job_ID :: string
  Job_Kind :: string
  Job_SchemaVersion :: int
  Job_Status :: Status
  Job_LeaseHolder :: string
  Job_LeaseExpiresAt :: "time option"
  Job_CorrelationID :: string
  Job_CausationID :: string
  Job_IdempotencyKey :: string
  Job_Audit :: AuditMetadata
  Job_Process :: "ProcessRef option"
  Job_Failure :: "Failure option"
  Job_Artifacts :: "Artifact list"
  Job_CreatedAt :: time
  Job_UpdatedAt :: time
  Job_StartedAt :: "time option"
  Job_CompletedAt :: "time option"

definition HasLiveProcess :: "Job \<Rightarrow> bool" where
  "HasLiveProcess j = (case Job_Process j of None \<Rightarrow> False
     | Some p \<Rightarrow> Proc_JobID p = Job_ID j \<and> Proc_PID p > 0 \<and> Proc_PGID p > 0)"

definition LeaseExpired :: "Job \<Rightarrow> time \<Rightarrow> bool" where
  "LeaseExpired j now = (case Job_LeaseExpiresAt j of None \<Rightarrow> True | Some e \<Rightarrow> \<not> e > now)"

record ListFilter =
  Filter_Statuses :: "Status list"
  Filter_Kind :: string
  Filter_Limit :: int

record CreateRequest =
  Create_ID :: string
  Create_Kind :: string
  Create_SchemaVersion :: int
  Create_CorrelationID :: string
  Create_CausationID :: string
  Create_IdempotencyKey :: string
  Create_Audit :: AuditMetadata

record LeaseRequest =
  LeaseReq_JobID :: string
  LeaseReq_Holder :: string
  LeaseReq_Duration :: duration

record HeartbeatRequest =
  Beat_JobID :: string
  Beat_Holder :: string
  Beat_Duration :: duration

record CompleteRequest =
  Comp_JobID :: string
  Comp_Holder :: string
  Comp_Audit :: AuditMetadata

record FailRequest =
  Fail_JobID :: string
  Fail_Holder :: string
  Fail_Failure :: Failure
  Fail_Audit :: AuditMetadata

record InterruptRequest =
  Intr_JobID :: string
  Intr_Failure :: Failure
  Intr_Audit :: AuditMetadata

record CancelRequest =
  Cancel_JobID :: string
  Cancel_Audit :: AuditMetadata

definition SchemaVersion :: int where
  "SchemaVersion = 1"

section \<open>Snapshot and file store\<close>

record idempotencyRecord =
  Idem_Key :: string
  Idem_RequestHash :: string
  Idem_JobID :: string
  Idem_CreatedAt :: time

record snapshot =
  Snap_SchemaVersion :: int
  Snap_Jobs :: "(string \<times> Job) list"
  Snap_Idempotency :: "(string \<times> idempotencyRecord) list"

definition emptySnapshot :: snapshot where
  "emptySnapshot = \<lparr>Snap_SchemaVersion = SchemaVersion, Snap_Jobs = [], Snap_Idempotency = []\<rparr>"

text \<open>A nil Go map reads as an empty one, so only the schema version is left to normalise.\<close>

definition normalizeSnapshot :: "snapshot \<Rightarrow> snapshot" where
  "normalizeSnapshot s =
     (if Snap_SchemaVersion s = 0 then s\<lparr>Snap_SchemaVersion := SchemaVersion\<rparr> else s)"

text \<open>
  The file store over a small file system: the snapshot file, either absent, holding a document
  that decodes to a snapshot, or holding something that does not decode; the number of
  temporary files left behind; and a schedule of faults, one entry per call, that says which
  system call of the next \<open>Save\<close> or \<open>Load\<close> fails.
\<close>

datatype save_fault = MkdirFault | OpenFault | EncodeFault | SyncFault | CloseFault | RenameFault

datatype file_content = Absent | Doc snapshot | Corrupt

record filesys =
  fs_path :: string
  fs_file :: file_content
  fs_tmp :: nat
  fs_faults :: "save_fault option list"
  fs_unreadable :: bool

definition next_fault :: "filesys \<Rightarrow> save_fault option \<times> filesys" where
  "next_fault w = (case fs_faults w of [] \<Rightarrow> (None, w) | f # fs \<Rightarrow> (f, w\<lparr>fs_faults := fs\<rparr>))"

definition FileStore_Load :: "ctx \<Rightarrow> filesys \<Rightarrow> job_err + snapshot" where
  "FileStore_Load c w = (case c of Some e \<Rightarrow> Inl (ErrCtx e) | None \<Rightarrow>
     if fs_path w = [] then Inl ErrInvalidRequest
     else case fs_file w of
            Absent \<Rightarrow> Inr emptySnapshot
          | Doc s \<Rightarrow> if fs_unreadable w then Inl (ErrIO ''open'') else Inr (normalizeSnapshot s)
          | Corrupt \<Rightarrow> if fs_unreadable w then Inl (ErrIO ''open'') else Inl (ErrIO ''decode''))"

text \<open>
  \<open>Save\<close> writes a temporary file and renames it over the snapshot. No path removes the
  temporary file: every failure after the temporary file has been created leaves it behind.
\<close>

definition FileStore_Save :: "ctx \<Rightarrow> snapshot \<Rightarrow> filesys \<Rightarrow> job_err option \<times> filesys" where
  "FileStore_Save c s w = (case c of Some e \<Rightarrow> (Some (ErrCtx e), w) | None \<Rightarrow>
     if fs_path w = [] then (Some ErrInvalidRequest, w)
     else case next_fault w of (f, w') \<Rightarrow>
       (case f of
          None \<Rightarrow> (None, w'\<lparr>fs_file := Doc (normalizeSnapshot s)\<rparr>)
        | Some MkdirFault \<Rightarrow> (Some (ErrIO ''mkdir''), w')
        | Some OpenFault \<Rightarrow> (Some (ErrIO ''open''), w')
        | Some EncodeFault \<Rightarrow> (Some (ErrIO ''encode''), w'\<lparr>fs_tmp := fs_tmp w' + 1\<rparr>)
        | Some SyncFault \<Rightarrow> (Some (ErrIO ''sync''), w'\<lparr>fs_tmp := fs_tmp w' + 1\<rparr>)
        | Some CloseFault \<Rightarrow> (Some (ErrIO ''close''), w'\<lparr>fs_tmp := fs_tmp w' + 1\<rparr>)
        | Some RenameFault \<Rightarrow> (Some (ErrIO ''rename''), w'\<lparr>fs_tmp := fs_tmp w' + 1\<rparr>)))"

lemma normalizeSnapshot_idem [simp]: "normalizeSnapshot (normalizeSnapshot s) = normalizeSnapshot s"
  by (simp add: normalizeSnapshot_def SchemaVersion_def)

lemma normalizeSnapshot_fields [simp]:
  "Snap_Jobs (normalizeSnapshot s) = Snap_Jobs s"
  "Snap_Idempotency (normalizeSnapshot s) = Snap_Idempotency s"
  by (simp_all add: normalizeSnapshot_def)

lemmas file_store_defs = FileStore_Save_def FileStore_Load_def next_fault_def

text \<open>
  On a readable file system the file store provides the snapshot interface. The store world is
  restricted to readable files by the projection \<open>readable\<close>.
\<close>

definition readable :: "filesys \<Rightarrow> filesys" where
  "readable w = w\<lparr>fs_unreadable := False\<rparr>"

lemma FileStore_Save_ok:
  "FileStore_Save c s w = (None, w') \<Longrightarrow>
    fs_file w' = Doc (normalizeSnapshot s) \<and> fs_path w' = fs_path w \<and> fs_path w \<noteq> [] \<and>
    fs_tmp w' = fs_tmp w \<and> fs_unreadable w' = fs_unreadable w \<and> c = None"
  by (auto simp: file_store_defs split: option.splits if_splits list.splits save_fault.splits)

lemma FileStore_Save_err:
  "FileStore_Save c s w = (Some e, w') \<Longrightarrow>
    fs_file w' = fs_file w \<and> fs_path w' = fs_path w \<and> fs_unreadable w' = fs_unreadable w \<and>
    fs_tmp w \<le> fs_tmp w'"
  by (auto simp: file_store_defs split: option.splits if_splits list.splits save_fault.splits)

interpretation job_file_store:
  snapshot_store "\<lambda>w. FileStore_Load None (readable w)" FileStore_Save normalizeSnapshot
proof unfold_locales
  fix c s w w'
  assume "FileStore_Save c s w = (None, w')"
  then show "FileStore_Load None (readable w') = Inr (normalizeSnapshot s)"
    by (auto dest!: FileStore_Save_ok simp: FileStore_Load_def readable_def)
next
  fix c s w w' e
  assume "FileStore_Save c s w = (Some e, w')"
  then have "fs_file w' = fs_file w \<and> fs_path w' = fs_path w"
    by (auto dest: FileStore_Save_err)
  then show "FileStore_Load None (readable w') = FileStore_Load None (readable w) \<or>
        FileStore_Load None (readable w') = Inr (normalizeSnapshot s)"
    by (cases "fs_file w") (simp_all add: FileStore_Load_def readable_def)
qed simp

end
