(* ===== verification/JobRegistry.thy ===== *)
theory JobRegistry
  imports JobTypes
begin

text \<open>
  Package \<open>jobs\<close>, \<open>registry.go\<close>: the durable job registry as a state machine. Every method
  takes the store's \<open>Save\<close> as a parameter, the context of the call and the clock reading, and
  returns its result with the new registry. The in-memory snapshot changes before \<open>Save\<close> runs
  and is not rolled back when \<open>Save\<close> fails, as in the code. Cloning is the identity on values.
\<close>

type_synonym 'w saver = "ctx \<Rightarrow> snapshot \<Rightarrow> 'w \<Rightarrow> job_err option \<times> 'w"

record 'w FileRegistry =
  reg_store :: 'w
  reg_state :: snapshot
  reg_counter :: "64 word"

abbreviation jobs_of :: "'w FileRegistry \<Rightarrow> (string \<times> Job) list" where
  "jobs_of r \<equiv> Snap_Jobs (reg_state r)"

abbreviation idem_of :: "'w FileRegistry \<Rightarrow> (string \<times> idempotencyRecord) list" where
  "idem_of r \<equiv> Snap_Idempotency (reg_state r)"

definition NewFileRegistry ::
  "(ctx \<Rightarrow> 'w \<Rightarrow> job_err + snapshot) \<Rightarrow> ctx \<Rightarrow> 'w \<Rightarrow> job_err + 'w FileRegistry" where
  "NewFileRegistry load c w = (case load c w of Inl e \<Rightarrow> Inl e
     | Inr s \<Rightarrow> Inr \<lparr>reg_store = w, reg_state = normalizeSnapshot s, reg_counter = 0\<rparr>)"

definition persistLocked :: "'w saver \<Rightarrow> ctx \<Rightarrow> 'w FileRegistry \<Rightarrow> job_err option \<times> 'w FileRegistry" where
  "persistLocked sv c r =
     (case sv c (reg_state r) (reg_store r) of (e, w) \<Rightarrow> (e, r\<lparr>reg_store := w\<rparr>))"

text \<open>The common tail of every mutation: persist, then report the value or the save error.\<close>

definition persist_return ::
  "'w saver \<Rightarrow> ctx \<Rightarrow> 'a \<Rightarrow> 'w FileRegistry \<Rightarrow> (job_err + 'a) \<times> 'w FileRegistry" where
  "persist_return sv c x r = (case persistLocked sv c r of
       (Some e, r') \<Rightarrow> (Inl e, r') | (None, r') \<Rightarrow> (Inr x, r'))"

definition putJob :: "string \<Rightarrow> Job \<Rightarrow> 'w FileRegistry \<Rightarrow> 'w FileRegistry" where
  "putJob jid j r = r\<lparr>reg_state := (reg_state r)\<lparr>Snap_Jobs := AList.update jid j (jobs_of r)\<rparr>\<rparr>"

definition putIdem :: "string \<Rightarrow> idempotencyRecord \<Rightarrow> 'w FileRegistry \<Rightarrow> 'w FileRegistry" where
  "putIdem k x r =
     r\<lparr>reg_state := (reg_state r)\<lparr>Snap_Idempotency := AList.update k x (idem_of r)\<rparr>\<rparr>"

definition validateCreate :: "CreateRequest \<Rightarrow> job_err option" where
  "validateCreate req =
     (if Create_Kind req = [] then Some ErrInvalidRequest
      else if (if Create_SchemaVersion req = 0 then SchemaVersion else Create_SchemaVersion req)
                \<noteq> SchemaVersion then Some ErrInvalidRequest
      else if Create_ID req \<noteq> [] \<and> \<not> validID (Create_ID req) then Some ErrInvalidRequest
      else None)"

text \<open>
  \<open>hashCreateRequest\<close> blanks the identifier and hashes the JSON form of the rest. The
  composition of \<open>encoding/json\<close> and \<open>crypto/sha256\<close> is the parameter \<open>digest\<close>.
\<close>

definition hashCreateRequest :: "(CreateRequest \<Rightarrow> string) \<Rightarrow> CreateRequest \<Rightarrow> string" where
  "hashCreateRequest digest req = digest (req\<lparr>Create_ID := []\<rparr>)"

definition newJob :: "CreateRequest \<Rightarrow> string \<Rightarrow> time \<Rightarrow> Job" where
  "newJob req jid now =
     \<lparr>Job_ID = jid, Job_Kind = Create_Kind req, Job_SchemaVersion = Create_SchemaVersion req,
      Job_Status = StatusQueued, Job_LeaseHolder = [], Job_LeaseExpiresAt = None,
      Job_CorrelationID = Create_CorrelationID req, Job_CausationID = Create_CausationID req,
      Job_IdempotencyKey = Create_IdempotencyKey req, Job_Audit = Create_Audit req,
      Job_Process = None, Job_Failure = None, Job_Artifacts = [], Job_CreatedAt = now,
      Job_UpdatedAt = now, Job_StartedAt = None, Job_CompletedAt = None\<rparr>"

definition nextID :: "time \<Rightarrow> 'w FileRegistry \<Rightarrow> string \<times> 'w FileRegistry" where
  "nextID now r = (let n = reg_counter r + 1
     in (stampedID ''job_'' now n, r\<lparr>reg_counter := n\<rparr>))"

definition insertJob ::
  "'w saver \<Rightarrow> (CreateRequest \<Rightarrow> string) \<Rightarrow> ctx \<Rightarrow> time \<Rightarrow> CreateRequest \<Rightarrow> string
     \<Rightarrow> 'w FileRegistry \<Rightarrow> (job_err + Job) \<times> 'w FileRegistry" where
  "insertJob sv digest c now req jid r =
     (if \<not> validID jid then (Inl ErrInvalidRequest, r)
      else if map_of (jobs_of r) jid \<noteq> None then (Inl ErrInvalidRequest, r)
      else
        let job = newJob req jid now;
            r1 = putJob jid job r;
            r2 = (if Create_IdempotencyKey req \<noteq> [] then
                    putIdem (Create_IdempotencyKey req)
                      \<lparr>Idem_Key = Create_IdempotencyKey req,
                       Idem_RequestHash = hashCreateRequest digest req,
                       Idem_JobID = jid, Idem_CreatedAt = now\<rparr> r1
                  else r1)
        in persist_return sv c job r2)"

definition allocateJob ::
  "'w saver \<Rightarrow> (CreateRequest \<Rightarrow> string) \<Rightarrow> ctx \<Rightarrow> time \<Rightarrow> CreateRequest
     \<Rightarrow> 'w FileRegistry \<Rightarrow> (job_err + Job) \<times> 'w FileRegistry" where
  "allocateJob sv digest c now req r =
     (if Create_ID req \<noteq> [] then insertJob sv digest c now req (Create_ID req) r
      else case nextID now r of (jid, r') \<Rightarrow> insertJob sv digest c now req jid r')"

definition Create ::
  "'w saver \<Rightarrow> (CreateRequest \<Rightarrow> string) \<Rightarrow> ctx \<Rightarrow> time \<Rightarrow> CreateRequest
     \<Rightarrow> 'w FileRegistry \<Rightarrow> (job_err + Job) \<times> 'w FileRegistry" where
  "Create sv digest c now req0 r =
     (case validateCreate req0 of Some e \<Rightarrow> (Inl e, r) | None \<Rightarrow>
        let req = (if Create_SchemaVersion req0 = 0
                   then req0\<lparr>Create_SchemaVersion := SchemaVersion\<rparr> else req0)
        in if Create_IdempotencyKey req \<noteq> [] then
             (case map_of (idem_of r) (Create_IdempotencyKey req) of
                Some rec \<Rightarrow>
                  (if Idem_RequestHash rec \<noteq> hashCreateRequest digest req
                   then (Inl ErrIdempotencyConflict, r)
                   else case map_of (jobs_of r) (Idem_JobID rec) of
                          None \<Rightarrow> (Inl ErrNotFound, r)
                        | Some job \<Rightarrow> (Inr job, r))
              | None \<Rightarrow> allocateJob sv digest c now req r)
           else allocateJob sv digest c now req r)"

definition job_selected :: "ListFilter \<Rightarrow> Job \<Rightarrow> bool" where
  "job_selected f j \<longleftrightarrow> (Filter_Kind f = [] \<or> Job_Kind j = Filter_Kind f) \<and>
     (Filter_Statuses f = [] \<or> Job_Status j \<in> set (Filter_Statuses f))"

definition ListJobs :: "ctx \<Rightarrow> ListFilter \<Rightarrow> 'w FileRegistry \<Rightarrow> job_err + Job list" where
  "ListJobs c f r = (case c of Some e \<Rightarrow> Inl (ErrCtx e) | None \<Rightarrow>
     if \<not> list_all Status_Valid (Filter_Statuses f) then Inl ErrInvalidRequest
     else let jobs = sort_key (\<lambda>j. (Job_CreatedAt j, Job_ID j))
                       (filter (job_selected f) (map snd (jobs_of r)))
          in Inr (if Filter_Limit f > 0 \<and> int (length jobs) > Filter_Limit f
                  then take (nat (Filter_Limit f)) jobs else jobs))"

definition Get :: "ctx \<Rightarrow> string \<Rightarrow> 'w FileRegistry \<Rightarrow> job_err + Job" where
  "Get c jid r = (case c of Some e \<Rightarrow> Inl (ErrCtx e) | None \<Rightarrow>
     (case map_of (jobs_of r) jid of None \<Rightarrow> Inl ErrNotFound | Some j \<Rightarrow> Inr j))"

definition updateJob ::
  "'w saver \<Rightarrow> ctx \<Rightarrow> time \<Rightarrow> string \<Rightarrow> (Job \<Rightarrow> time \<Rightarrow> job_err + Job)
     \<Rightarrow> 'w FileRegistry \<Rightarrow> (job_err + Job) \<times> 'w FileRegistry" where
  "updateJob sv c now jid fn r =
     (case c of Some e \<Rightarrow> (Inl (ErrCtx e), r) | None \<Rightarrow>
        if \<not> validID jid then (Inl ErrInvalidRequest, r)
        else case map_of (jobs_of r) jid of
               None \<Rightarrow> (Inl ErrNotFound, r)
             | Some job \<Rightarrow>
                 (case fn job now of
                    Inl e \<Rightarrow> (Inl e, r)
                  | Inr job' \<Rightarrow>
                      let job'' = job'\<lparr>Job_UpdatedAt := now\<rparr>
                      in persist_return sv c job'' (putJob jid job'' r)))"

definition mergeAudit :: "AuditMetadata \<Rightarrow> AuditMetadata \<Rightarrow> AuditMetadata" where
  "mergeAudit base nxt =
     \<lparr>Audit_Actor = (if Audit_Actor nxt \<noteq> [] then Audit_Actor nxt else Audit_Actor base),
      Audit_Reason = (if Audit_Reason nxt \<noteq> [] then Audit_Reason nxt else Audit_Reason base),
      Audit_RequestID =
        (if Audit_RequestID nxt \<noteq> [] then Audit_RequestID nxt else Audit_RequestID base),
      Audit_CorrelationID =
        (if Audit_CorrelationID nxt \<noteq> [] then Audit_CorrelationID nxt else Audit_CorrelationID base),
      Audit_CausationID =
        (if Audit_CausationID nxt \<noteq> [] then Audit_CausationID nxt else Audit_CausationID base)\<rparr>"

section \<open>Lease, heartbeat and the terminal transitions\<close>

definition lease_fn :: "LeaseRequest \<Rightarrow> Job \<Rightarrow> time \<Rightarrow> job_err + Job" where
  "lease_fn req job now =
     (if Status_Terminal (Job_Status job) \<or> Job_Status job = StatusCanceling then Inl ErrInvalidState
      else if Job_LeaseHolder job \<noteq> [] \<and> Job_LeaseHolder job \<noteq> LeaseReq_Holder req
              \<and> \<not> LeaseExpired job now then Inl ErrLeaseHeld
      else Inr (job\<lparr>Job_Status := StatusRunning, Job_LeaseHolder := LeaseReq_Holder req,
                    Job_LeaseExpiresAt := Some (now + LeaseReq_Duration req),
                    Job_StartedAt := (case Job_StartedAt job of None \<Rightarrow> Some now | Some t \<Rightarrow> Some t)\<rparr>))"

definition Lease ::
  "'w saver \<Rightarrow> ctx \<Rightarrow> time \<Rightarrow> LeaseRequest \<Rightarrow> 'w FileRegistry \<Rightarrow> (job_err + Job) \<times> 'w FileRegistry" where
  "Lease sv c now req r =
     (if LeaseReq_JobID req = [] \<or> LeaseReq_Holder req = [] \<or> LeaseReq_Duration req \<le> 0
      then (Inl ErrInvalidRequest, r)
      else updateJob sv c now (LeaseReq_JobID req) (lease_fn req) r)"

definition heartbeat_fn :: "HeartbeatRequest \<Rightarrow> Job \<Rightarrow> time \<Rightarrow> job_err + Job" where
  "heartbeat_fn req job now =
     (if Job_Status job \<noteq> StatusRunning \<and> Job_Status job \<noteq> StatusWaitingApproval
      then Inl ErrInvalidState
      else if Job_LeaseHolder job \<noteq> Beat_Holder req then Inl ErrLeaseHeld
      else Inr (job\<lparr>Job_LeaseExpiresAt := Some (now + Beat_Duration req)\<rparr>))"

definition Heartbeat ::
  "'w saver \<Rightarrow> ctx \<Rightarrow> time \<Rightarrow> HeartbeatRequest \<Rightarrow> 'w FileRegistry \<Rightarrow> (job_err + Job) \<times> 'w FileRegistry" where
  "Heartbeat sv c now req r =
     (if Beat_JobID req = [] \<or> Beat_Holder req = [] \<or> Beat_Duration req \<le> 0
      then (Inl ErrInvalidRequest, r)
      else updateJob sv c now (Beat_JobID req) (heartbeat_fn req) r)"

definition complete_fn :: "CompleteRequest \<Rightarrow> Job \<Rightarrow> time \<Rightarrow> job_err + Job" where
  "complete_fn req job now =
     (if Job_Status job = StatusSucceeded then Inr job
      else if Status_Terminal (Job_Status job) then Inl ErrInvalidState
      else if Comp_Holder req \<noteq> [] \<and> Job_LeaseHolder job \<noteq> [] \<and> Job_LeaseHolder job \<noteq> Comp_Holder req
      then Inl ErrLeaseHeld
      else Inr (job\<lparr>Job_Status := StatusSucceeded, Job_Audit := mergeAudit (Job_Audit job) (Comp_Audit req),
                    Job_LeaseHolder := [], Job_LeaseExpiresAt := None, Job_CompletedAt := Some now\<rparr>))"

definition Complete ::
  "'w saver \<Rightarrow> ctx \<Rightarrow> time \<Rightarrow> CompleteRequest \<Rightarrow> 'w FileRegistry \<Rightarrow> (job_err + Job) \<times> 'w FileRegistry" where
  "Complete sv c now req r =
     (if Comp_JobID req = [] then (Inl ErrInvalidRequest, r)
      else updateJob sv c now (Comp_JobID req) (complete_fn req) r)"

definition fail_fn :: "FailRequest \<Rightarrow> Job \<Rightarrow> time \<Rightarrow> job_err + Job" where
  "fail_fn req job now =
     (if Job_Status job = StatusFailed then Inr job
      else if Status_Terminal (Job_Status job) then Inl ErrInvalidState
      else if Fail_Holder req \<noteq> [] \<and> Job_LeaseHolder job \<noteq> [] \<and> Job_LeaseHolder job \<noteq> Fail_Holder req
      then Inl ErrLeaseHeld
      else Inr (job\<lparr>Job_Failure := Some (Fail_Failure req), Job_Status := StatusFailed,
                    Job_Audit := mergeAudit (Job_Audit job) (Fail_Audit req),
                    Job_LeaseHolder := [], Job_LeaseExpiresAt := None, Job_CompletedAt := Some now\<rparr>))"

definition Fail ::
  "'w saver \<Rightarrow> ctx \<Rightarrow> time \<Rightarrow> FailRequest \<Rightarrow> 'w FileRegistry \<Rightarrow> (job_err + Job) \<times> 'w FileRegistry" where
  "Fail sv c now req r =
     (if Fail_JobID req = [] \<or> Failure_Code (Fail_Failure req) = [] then (Inl ErrInvalidRequest, r)
      else updateJob sv c now (Fail_JobID req) (fail_fn req) r)"

definition interrupt_fn :: "InterruptRequest \<Rightarrow> Job \<Rightarrow> time \<Rightarrow> job_err + Job" where
  "interrupt_fn req job now =
     (if Job_Status job = StatusInterrupted then Inr job
      else if Status_Terminal (Job_Status job) then Inl ErrInvalidState
      else Inr (job\<lparr>Job_Failure := Some (Intr_Failure req), Job_Status := StatusInterrupted,
                    Job_Audit := mergeAudit (Job_Audit job) (Intr_Audit req),
                    Job_LeaseHolder := [], Job_LeaseExpiresAt := None, Job_CompletedAt := Some now\<rparr>))"

definition Interrupt ::
  "'w saver \<Rightarrow> ctx \<Rightarrow> time \<Rightarrow> InterruptRequest \<Rightarrow> 'w FileRegistry \<Rightarrow> (job_err + Job) \<times> 'w FileRegistry" where
  "Interrupt sv c now req r =
     (if Intr_JobID req = [] \<or> Failure_Code (Intr_Failure req) = [] then (Inl ErrInvalidRequest, r)
      else updateJob sv c now (Intr_JobID req) (interrupt_fn req) r)"

definition cancel_fn :: "CancelRequest \<Rightarrow> Job \<Rightarrow> time \<Rightarrow> job_err + Job" where
  "cancel_fn req job now =
     (if Status_Terminal (Job_Status job) \<or> Job_Status job = StatusCanceling then Inr job
      else Inr (job\<lparr>Job_Status := StatusCanceling,
                    Job_Audit := mergeAudit (Job_Audit job) (Cancel_Audit req)\<rparr>))"

definition Cancel ::
  "'w saver \<Rightarrow> ctx \<Rightarrow> time \<Rightarrow> CancelRequest \<Rightarrow> 'w FileRegistry \<Rightarrow> (job_err + Job) \<times> 'w FileRegistry" where
  "Cancel sv c now req r =
     (if Cancel_JobID req = [] then (Inl ErrInvalidRequest, r)
      else updateJob sv c now (Cancel_JobID req) (cancel_fn req) r)"

definition attach_fn :: "ProcessRef \<Rightarrow> Job \<Rightarrow> time \<Rightarrow> job_err + Job" where
  "attach_fn proc job now =
     (if Status_Terminal (Job_Status job) then Inl ErrInvalidState
      else Inr (job\<lparr>Job_Process := Some proc\<rparr>))"

definition AttachProcess ::
  "'w saver \<Rightarrow> ctx \<Rightarrow> time \<Rightarrow> string \<Rightarrow> ProcessRef \<Rightarrow> 'w FileRegistry \<Rightarrow> (job_err + Job) \<times> 'w FileRegistry" where
  "AttachProcess sv c now jid proc r =
     (if jid = [] \<or> Proc_JobID proc \<noteq> jid \<or> Proc_PID proc \<le> 0 \<or> Proc_PGID proc \<le> 0
      then (Inl ErrInvalidRequest, r)
      else updateJob sv c now jid (attach_fn proc) r)"

definition detach_fn :: "Job \<Rightarrow> time \<Rightarrow> job_err + Job" where
  "detach_fn job now = Inr (job\<lparr>Job_Process := None\<rparr>)"

definition DetachProcess ::
  "'w saver \<Rightarrow> ctx \<Rightarrow> time \<Rightarrow> string \<Rightarrow> 'w FileRegistry \<Rightarrow> (job_err + Job) \<times> 'w FileRegistry" where
  "DetachProcess sv c now jid r =
     (if jid = [] then (Inl ErrInvalidRequest, r) else updateJob sv c now jid detach_fn r)"

definition artifact_fn :: "Artifact \<Rightarrow> Job \<Rightarrow> time \<Rightarrow> job_err + Job" where
  "artifact_fn a job now =
     Inr (job\<lparr>Job_Artifacts := Job_Artifacts job @
       [if isZero (Artifact_CreatedAt a) then a\<lparr>Artifact_CreatedAt := now\<rparr> else a]\<rparr>)"

definition AddArtifact ::
  "'w saver \<Rightarrow> ctx \<Rightarrow> time \<Rightarrow> string \<Rightarrow> Artifact \<Rightarrow> 'w FileRegistry \<Rightarrow> (job_err + Job) \<times> 'w FileRegistry" where
  "AddArtifact sv c now jid a r =
     (if jid = [] \<or> Artifact_ID a = [] \<or> Artifact_Kind a = [] \<or> Artifact_URI a = []
      then (Inl ErrInvalidRequest, r)
      else updateJob sv c now jid (artifact_fn a) r)"

definition ListArtifacts :: "ctx \<Rightarrow> string \<Rightarrow> 'w FileRegistry \<Rightarrow> job_err + Artifact list" where
  "ListArtifacts c jid r = (case Get c jid r of Inl e \<Rightarrow> Inl e | Inr j \<Rightarrow> Inr (Job_Artifacts j))"

section \<open>Restart recovery\<close>

definition liveByJob :: "ProcessRef list \<Rightarrow> string \<Rightarrow> ProcessRef option" where
  "liveByJob live = foldl (\<lambda>m p. if Proc_JobID p \<noteq> [] \<and> Proc_PID p > 0 \<and> Proc_PGID p > 0
                               then m(Proc_JobID p \<mapsto> p) else m) (\<lambda>_. None) live"

definition crashedFailure :: Failure where
  "crashedFailure = \<lparr>Failure_Code = ''process.crashed_recovered'',
     Failure_Message = ''daemon restarted and no live process could be reattached'',
     Failure_Fingerprint = [], Failure_CrashedRecovered = True\<rparr>"

definition recoverJob :: "time \<Rightarrow> (string \<Rightarrow> ProcessRef option) \<Rightarrow> string \<Rightarrow> Job \<Rightarrow> Job option" where
  "recoverJob now live jid job =
     (if Status_Terminal (Job_Status job) \<or> Job_Status job = StatusQueued then None
      else case live jid of
        Some proc \<Rightarrow> Some (job\<lparr>Job_Process := Some (proc\<lparr>Proc_ReattachedAt := Some now\<rparr>),
                               Job_UpdatedAt := now\<rparr>)
      | None \<Rightarrow> Some (job\<lparr>Job_Status := StatusInterrupted, Job_Process := None,
                          Job_Failure := Some crashedFailure, Job_LeaseHolder := [],
                          Job_LeaseExpiresAt := None, Job_CompletedAt := Some now,
                          Job_UpdatedAt := now\<rparr>))"

definition recoverEntry :: "time \<Rightarrow> (string \<Rightarrow> ProcessRef option) \<Rightarrow> string \<times> Job \<Rightarrow> string \<times> Job" where
  "recoverEntry now live e =
     (fst e, case recoverJob now live (fst e) (snd e) of None \<Rightarrow> snd e | Some j \<Rightarrow> j)"

definition RecoverInterrupted ::
  "'w saver \<Rightarrow> ctx \<Rightarrow> time \<Rightarrow> ProcessRef list \<Rightarrow> 'w FileRegistry
     \<Rightarrow> (job_err + Job list) \<times> 'w FileRegistry" where
  "RecoverInterrupted sv c now live r =
     (case c of Some e \<Rightarrow> (Inl (ErrCtx e), r) | None \<Rightarrow>
        let lv = liveByJob live;
            changed = List.map_filter (\<lambda>e. recoverJob now lv (fst e) (snd e)) (jobs_of r);
            r' = r\<lparr>reg_state := (reg_state r)\<lparr>Snap_Jobs := map (recoverEntry now lv) (jobs_of r)\<rparr>\<rparr>
        in if changed = [] then (Inr changed, r) else persist_return sv c changed r')"

end
