(* ===== verification/JobInvariant.thy ===== *)
theory JobInvariant
  imports JobRegistry
begin

text \<open>
  The invariant of the job registry and the order its operations respect. One lemma per
  operation, collected through the shared shape \<open>updateJob\<close>; the machine locale of the prelude
  lifts both to runs.
\<close>

section \<open>Well-formed jobs and snapshots\<close>

definition job_ok :: "Job \<Rightarrow> bool" where
  "job_ok j \<longleftrightarrow>
     Status_Valid (Job_Status j) \<and>
     (Job_LeaseHolder j = [] \<longleftrightarrow> Job_LeaseExpiresAt j = None) \<and>
     (Status_Terminal (Job_Status j) \<longleftrightarrow> Job_CompletedAt j \<noteq> None) \<and>
     (Status_Terminal (Job_Status j) \<longrightarrow> Job_LeaseHolder j = []) \<and>
     (Job_Status j = StatusQueued \<longrightarrow> Job_LeaseHolder j = [] \<and> Job_StartedAt j = None) \<and>
     (Job_Status j = StatusRunning \<longrightarrow> Job_LeaseHolder j \<noteq> [] \<and> Job_StartedAt j \<noteq> None) \<and>
     (Job_Failure j \<noteq> None \<longleftrightarrow> Job_Status j = StatusFailed \<or> Job_Status j = StatusInterrupted)"

definition jobs_ok :: "(string \<times> Job) list \<Rightarrow> bool" where
  "jobs_ok m \<longleftrightarrow> distinct (keys m) \<and>
     (\<forall>jid j. map_of m jid = Some j \<longrightarrow> Job_ID j = jid \<and> validID jid \<and> job_ok j)"

text \<open>Idempotency records and keyed jobs point at each other.\<close>

definition key_of :: "(string \<times> Job) list \<Rightarrow> string \<Rightarrow> string option" where
  "key_of m jid = map_option Job_IdempotencyKey (map_of m jid)"

definition idem_ok :: "(string \<Rightarrow> string option) \<Rightarrow> (string \<times> idempotencyRecord) list \<Rightarrow> bool" where
  "idem_ok key im \<longleftrightarrow> distinct (keys im) \<and>
     (\<forall>k x. map_of im k = Some x \<longrightarrow> Idem_Key x = k \<and> key (Idem_JobID x) = Some k) \<and>
     (\<forall>jid k. key jid = Some k \<and> k \<noteq> [] \<longrightarrow> map_option Idem_JobID (map_of im k) = Some jid)"

definition snap_ok :: "snapshot \<Rightarrow> bool" where
  "snap_ok s \<longleftrightarrow> jobs_ok (Snap_Jobs s) \<and> idem_ok (key_of (Snap_Jobs s)) (Snap_Idempotency s)"

abbreviation reg_ok :: "'w FileRegistry \<Rightarrow> bool" where
  "reg_ok r \<equiv> snap_ok (reg_state r)"

lemma snap_ok_normalize [simp]: "snap_ok (normalizeSnapshot s) = snap_ok s"
  by (simp add: snap_ok_def)

lemma snap_ok_empty [simp]: "snap_ok emptySnapshot"
  by (simp add: snap_ok_def jobs_ok_def idem_ok_def key_of_def emptySnapshot_def)

section \<open>What every per-job transition keeps\<close>

text \<open>The order on one job: identity is fixed, and a terminal outcome is final.\<close>

definition job_le :: "Job \<Rightarrow> Job \<Rightarrow> bool" where
  "job_le j j' \<longleftrightarrow>
     Job_ID j' = Job_ID j \<and> Job_Kind j' = Job_Kind j \<and> Job_CreatedAt j' = Job_CreatedAt j \<and>
     Job_IdempotencyKey j' = Job_IdempotencyKey j \<and>
     (Status_Terminal (Job_Status j) \<longrightarrow> Job_Status j' = Job_Status j \<and>
        Job_CompletedAt j' = Job_CompletedAt j \<and> Job_Failure j' = Job_Failure j)"

lemma job_le_refl [simp, intro]: "job_le j j"
  by (simp add: job_le_def)

lemma job_le_trans: "job_le i j \<Longrightarrow> job_le j k \<Longrightarrow> job_le i k"
  by (simp add: job_le_def)

definition reg_le :: "'w FileRegistry \<Rightarrow> 'w FileRegistry \<Rightarrow> bool" where
  "reg_le r r' \<longleftrightarrow>
     (\<forall>jid j. map_of (jobs_of r) jid = Some j \<longrightarrow>
        (\<exists>j'. map_of (jobs_of r') jid = Some j' \<and> job_le j j')) \<and>
     (\<forall>k x. map_of (idem_of r) k = Some x \<longrightarrow> map_of (idem_of r') k = Some x)"

lemma reg_le_refl: "reg_le r r"
  by (simp add: reg_le_def)

lemma reg_le_trans: "reg_le r s \<Longrightarrow> reg_le s t \<Longrightarrow> reg_le r t"
  unfolding reg_le_def by (meson job_le_trans)

lemma reg_le_jobD:
  "reg_le r r' \<Longrightarrow> map_of (jobs_of r) jid = Some j \<Longrightarrow>
    \<exists>j'. map_of (jobs_of r') jid = Some j' \<and> job_le j j'"
  by (simp add: reg_le_def)

lemma reg_le_idemD:
  "reg_le r r' \<Longrightarrow> map_of (idem_of r) k = Some x \<Longrightarrow> map_of (idem_of r') k = Some x"
  by (simp add: reg_le_def)

definition good_fn :: "(Job \<Rightarrow> time \<Rightarrow> job_err + Job) \<Rightarrow> bool" where
  "good_fn fn \<longleftrightarrow> (\<forall>j now j'. job_ok j \<longrightarrow> fn j now = Inr j' \<longrightarrow> job_ok j' \<and> job_le j j')"

lemmas job_fn_defs = lease_fn_def heartbeat_fn_def complete_fn_def fail_fn_def interrupt_fn_def
  cancel_fn_def attach_fn_def detach_fn_def artifact_fn_def

lemma good_fnI:
  "(\<And>j now j'. job_ok j \<Longrightarrow> fn j now = Inr j' \<Longrightarrow> job_ok j' \<and> job_le j j') \<Longrightarrow> good_fn fn"
  by (simp add: good_fn_def)

lemma job_ok_frame [simp]:
  "job_ok (j\<lparr>Job_Process := p\<rparr>) = job_ok j" "job_ok (j\<lparr>Job_Artifacts := as\<rparr>) = job_ok j"
  "job_ok (j\<lparr>Job_Audit := a\<rparr>) = job_ok j" "job_ok (j\<lparr>Job_UpdatedAt := t\<rparr>) = job_ok j"
  by (simp_all add: job_ok_def)

lemma job_le_frame [simp]:
  "job_le i (j\<lparr>Job_Process := p\<rparr>) = job_le i j" "job_le i (j\<lparr>Job_Artifacts := as\<rparr>) = job_le i j"
  "job_le i (j\<lparr>Job_Audit := a\<rparr>) = job_le i j" "job_le i (j\<lparr>Job_UpdatedAt := t\<rparr>) = job_le i j"
  "job_le i (j\<lparr>Job_LeaseHolder := h\<rparr>) = job_le i j"
  "job_le i (j\<lparr>Job_LeaseExpiresAt := e\<rparr>) = job_le i j"
  "job_le i (j\<lparr>Job_StartedAt := s\<rparr>) = job_le i j"
  by (simp_all add: job_le_def)

text \<open>The three shapes of status change: taking a lease, finishing, and asking for cancellation.\<close>

lemma job_le_status:
  "\<not> Status_Terminal (Job_Status j) \<Longrightarrow> job_le j (j\<lparr>Job_Status := st\<rparr>)"
  by (simp add: job_le_def)

lemma job_ok_lease:
  "job_ok j \<Longrightarrow> \<not> Status_Terminal (Job_Status j) \<Longrightarrow> h \<noteq> [] \<Longrightarrow> s \<noteq> None \<Longrightarrow>
    job_ok (j\<lparr>Job_Status := StatusRunning, Job_LeaseHolder := h, Job_LeaseExpiresAt := Some t,
             Job_StartedAt := s\<rparr>)"
  by (cases "Job_Status j") (auto simp: job_ok_def)

lemma job_ok_no_failure:
  "job_ok j \<Longrightarrow> \<not> Status_Terminal (Job_Status j) \<Longrightarrow> Job_Failure j = None"
  by (cases "Job_Status j") (simp_all add: job_ok_def)

lemma job_ok_canceling:
  "job_ok j \<Longrightarrow> \<not> Status_Terminal (Job_Status j) \<Longrightarrow> job_ok (j\<lparr>Job_Status := StatusCanceling\<rparr>)"
  by (cases "Job_Status j") (auto simp: job_ok_def)

lemma job_ok_extend:
  "job_ok j \<Longrightarrow> Job_LeaseHolder j \<noteq> [] \<Longrightarrow> job_ok (j\<lparr>Job_LeaseExpiresAt := Some t\<rparr>)"
  by (auto simp: job_ok_def)

lemma good_lease: "LeaseReq_Holder req \<noteq> [] \<Longrightarrow> good_fn (lease_fn req)"
  by (rule good_fnI)
    (auto simp: lease_fn_def job_le_status split: if_splits option.splits intro!: job_ok_lease)

lemma good_heartbeat: "Beat_Holder req \<noteq> [] \<Longrightarrow> good_fn (heartbeat_fn req)"
  by (rule good_fnI) (auto simp: heartbeat_fn_def split: if_splits intro: job_ok_extend)

lemma job_ok_complete:
  assumes "job_ok j" "\<not> Status_Terminal (Job_Status j)"
  shows "job_ok (j\<lparr>Job_Status := StatusSucceeded, Job_Audit := a, Job_LeaseHolder := [],
           Job_LeaseExpiresAt := None, Job_CompletedAt := Some t\<rparr>)"
  using job_ok_no_failure [OF assms] by (simp add: job_ok_def)

lemma job_le_finish:
  "\<not> Status_Terminal (Job_Status j) \<Longrightarrow>
     job_le j (j\<lparr>Job_Status := st, Job_Audit := a, Job_LeaseHolder := h,
           Job_LeaseExpiresAt := e, Job_CompletedAt := t\<rparr>)"
  "\<not> Status_Terminal (Job_Status j) \<Longrightarrow>
     job_le j (j\<lparr>Job_Failure := f, Job_Status := st, Job_Audit := a, Job_LeaseHolder := h,
           Job_LeaseExpiresAt := e, Job_CompletedAt := t\<rparr>)"
  by (simp_all add: job_le_def)

lemma job_ok_failed:
  "st = StatusFailed \<or> st = StatusInterrupted \<Longrightarrow>
   job_ok (j\<lparr>Job_Failure := Some f, Job_Status := st, Job_Audit := a, Job_LeaseHolder := [],
     Job_LeaseExpiresAt := None, Job_CompletedAt := Some t\<rparr>)"
  by (auto simp: job_ok_def)

lemma good_complete: "good_fn (complete_fn req)"
  by (rule good_fnI)
    (auto simp: complete_fn_def split: if_splits intro: job_ok_complete job_le_finish)

lemma good_fail: "good_fn (fail_fn req)"
  by (rule good_fnI)
    (auto simp: fail_fn_def split: if_splits intro: job_ok_failed job_le_finish)

lemma good_interrupt: "good_fn (interrupt_fn req)"
  by (rule good_fnI)
    (auto simp: interrupt_fn_def split: if_splits intro: job_ok_failed job_le_finish)

lemma good_cancel: "good_fn (cancel_fn req)"
  by (rule good_fnI)
    (auto simp: cancel_fn_def split: if_splits intro: job_ok_canceling job_le_status)

lemma good_attach: "good_fn (attach_fn proc)"
  by (rule good_fnI) (auto simp: attach_fn_def split: if_splits)

lemma good_detach: "good_fn detach_fn"
  by (rule good_fnI) (auto simp: detach_fn_def)

lemma good_artifact: "good_fn (artifact_fn a)"
  by (rule good_fnI) (auto simp: artifact_fn_def)

lemmas good_fns = good_lease good_heartbeat good_complete good_fail good_interrupt good_cancel
  good_attach good_detach good_artifact

section \<open>The shared shape of the mutations\<close>

lemma persist_return_state [simp]:
  "reg_state (snd (persist_return sv c x r)) = reg_state r"
  "reg_counter (snd (persist_return sv c x r)) = reg_counter r"
  by (auto simp: persist_return_def persistLocked_def split: prod.splits option.splits)

lemma persist_return_value: "fst (persist_return sv c x r) = Inr y \<Longrightarrow> y = x"
  by (auto simp: persist_return_def split: prod.splits option.splits)

lemma putJob_fields [simp]:
  "jobs_of (putJob jid j r) = AList.update jid j (jobs_of r)"
  "idem_of (putJob jid j r) = idem_of r"
  "reg_counter (putJob jid j r) = reg_counter r"
  "reg_store (putJob jid j r) = reg_store r"
  by (simp_all add: putJob_def)

lemma putIdem_fields [simp]:
  "jobs_of (putIdem k x r) = jobs_of r"
  "idem_of (putIdem k x r) = AList.update k x (idem_of r)"
  "reg_counter (putIdem k x r) = reg_counter r"
  "reg_store (putIdem k x r) = reg_store r"
  by (simp_all add: putIdem_def)

text \<open>Either nothing changes, or exactly one existing job is replaced.\<close>

lemma updateJob_state:
  "reg_state (snd (updateJob sv c now jid fn r)) = reg_state r \<or>
   (\<exists>job job'. map_of (jobs_of r) jid = Some job \<and> fn job now = Inr job' \<and>
      reg_state (snd (updateJob sv c now jid fn r)) =
        reg_state (putJob jid (job'\<lparr>Job_UpdatedAt := now\<rparr>) r))"
  by (auto simp: updateJob_def Let_def split: option.splits sum.splits)

lemma updateJob_counter [simp]: "reg_counter (snd (updateJob sv c now jid fn r)) = reg_counter r"
  by (auto simp: updateJob_def Let_def split: option.splits sum.splits)

lemma key_of_update_same:
  "map_of m jid = Some j \<Longrightarrow> job_le j j' \<Longrightarrow> key_of (AList.update jid j' m) = key_of m"
  by (auto simp: key_of_def job_le_def)

lemma jobs_ok_update:
  "jobs_ok m \<Longrightarrow> validID jid \<Longrightarrow> Job_ID j = jid \<Longrightarrow> job_ok j \<Longrightarrow> jobs_ok (AList.update jid j m)"
  by (simp add: jobs_ok_def)

lemma jobs_okD: "jobs_ok m \<Longrightarrow> map_of m jid = Some j \<Longrightarrow> Job_ID j = jid \<and> validID jid \<and> job_ok j"
  by (simp add: jobs_ok_def)

lemma putJob_ok:
  assumes "reg_ok r" "map_of (jobs_of r) jid = Some job" "job_ok job'" "job_le job job'"
  shows "reg_ok (putJob jid job' r)" and "reg_le r (putJob jid job' r)"
proof -
  from assms(1,2) have "Job_ID job = jid" "validID jid" by (auto simp: snap_ok_def dest: jobs_okD)
  moreover from assms(4) have "Job_ID job' = Job_ID job" by (simp add: job_le_def)
  ultimately show "reg_ok (putJob jid job' r)"
    using assms by (simp add: snap_ok_def jobs_ok_update key_of_update_same)
  show "reg_le r (putJob jid job' r)"
    using assms(2,4) by (simp add: reg_le_def)
qed

lemma updateJob_keeps:
  assumes "reg_ok r" "good_fn fn"
  shows "reg_ok (snd (updateJob sv c now jid fn r)) \<and> reg_le r (snd (updateJob sv c now jid fn r))"
proof (cases "reg_state (snd (updateJob sv c now jid fn r)) = reg_state r")
  case True
  with assms(1) show ?thesis by (simp add: reg_le_def)
next
  case False
  then obtain job job' where j: "map_of (jobs_of r) jid = Some job" "fn job now = Inr job'"
    and st: "reg_state (snd (updateJob sv c now jid fn r)) =
        reg_state (putJob jid (job'\<lparr>Job_UpdatedAt := now\<rparr>) r)"
    using updateJob_state [of sv c now jid fn r] by blast
  from assms j have "job_ok job'" "job_le job job'"
    by (auto simp: good_fn_def snap_ok_def dest: jobs_okD)
  then have "reg_ok (putJob jid (job'\<lparr>Job_UpdatedAt := now\<rparr>) r)"
    "reg_le r (putJob jid (job'\<lparr>Job_UpdatedAt := now\<rparr>) r)"
    using putJob_ok [OF assms(1) j(1)] by simp_all
  with st show ?thesis by (simp add: reg_le_def)
qed

section \<open>Create\<close>

definition with_key :: "(CreateRequest \<Rightarrow> string) \<Rightarrow> time \<Rightarrow> CreateRequest \<Rightarrow> string
    \<Rightarrow> 'w FileRegistry \<Rightarrow> 'w FileRegistry" where
  "with_key digest now req jid r =
     (if Create_IdempotencyKey req \<noteq> [] then
        putIdem (Create_IdempotencyKey req)
          \<lparr>Idem_Key = Create_IdempotencyKey req, Idem_RequestHash = hashCreateRequest digest req,
           Idem_JobID = jid, Idem_CreatedAt = now\<rparr> r else r)"

lemma insertJob_state:
  "reg_state (snd (insertJob sv digest c now req jid r)) = reg_state r \<or>
   (validID jid \<and> map_of (jobs_of r) jid = None \<and>
    reg_state (snd (insertJob sv digest c now req jid r)) =
      reg_state (with_key digest now req jid (putJob jid (newJob req jid now) r)))"
  by (simp add: insertJob_def with_key_def Let_def)

lemma job_ok_newJob: "job_ok (newJob req jid now)"
  by (simp add: job_ok_def newJob_def)

lemma idem_ok_insert:
  assumes "idem_ok key im" "key jid = None" "k \<noteq> []" "map_of im k = None"
    and "Idem_Key x = k" "Idem_JobID x = jid"
  shows "idem_ok (key(jid \<mapsto> k)) (AList.update k x im)"
proof -
  from assms(1,2) have "Idem_JobID y \<noteq> jid" if "map_of im k' = Some y" for k' y
    using that by (auto simp: idem_ok_def)
  moreover from assms(1,3,4) have "key i \<noteq> Some k" for i
    by (fastforce simp: idem_ok_def)
  ultimately show ?thesis using assms by (auto simp: idem_ok_def)
qed

lemma idem_ok_insert_unkeyed:
  "idem_ok key im \<Longrightarrow> key jid = None \<Longrightarrow> idem_ok (key(jid \<mapsto> [])) im"
  by (auto simp: idem_ok_def)

lemma key_of_newJob:
  "key_of (AList.update jid (newJob req jid now) m) = (key_of m)(jid \<mapsto> Create_IdempotencyKey req)"
  by (auto simp: key_of_def newJob_def)

lemma new_entry_ok:
  assumes "reg_ok r" "map_of (jobs_of r) jid = None" "validID jid"
    and "Create_IdempotencyKey req \<noteq> [] \<Longrightarrow> map_of (idem_of r) (Create_IdempotencyKey req) = None"
  shows "reg_ok (with_key digest now req jid (putJob jid (newJob req jid now) r)) \<and>
         reg_le r (with_key digest now req jid (putJob jid (newJob req jid now) r))"
proof -
  have j: "jobs_ok (AList.update jid (newJob req jid now) (jobs_of r))"
    using assms job_ok_newJob [of req jid now]
    by (intro jobs_ok_update) (auto simp: snap_ok_def newJob_def)
  have none: "key_of (jobs_of r) jid = None" using assms(2) by (simp add: key_of_def)
  have i: "idem_ok (key_of (jobs_of r)) (idem_of r)" using assms(1) by (simp add: snap_ok_def)
  show ?thesis
    using assms(2,4) j none i
    by (auto simp: with_key_def snap_ok_def key_of_newJob reg_le_def
        intro: idem_ok_insert idem_ok_insert_unkeyed)
qed

lemma insertJob_keeps:
  assumes "reg_ok r"
    and "Create_IdempotencyKey req \<noteq> [] \<Longrightarrow> map_of (idem_of r) (Create_IdempotencyKey req) = None"
  shows "reg_ok (snd (insertJob sv digest c now req jid r)) \<and>
         reg_le r (snd (insertJob sv digest c now req jid r))"
proof -
  from insertJob_state [of sv digest c now req jid r]
  show ?thesis
  proof
    assume "reg_state (snd (insertJob sv digest c now req jid r)) = reg_state r"
    with assms(1) show ?thesis by (simp add: reg_le_def)
  next
    assume *: "validID jid \<and> map_of (jobs_of r) jid = None \<and>
      reg_state (snd (insertJob sv digest c now req jid r)) =
      reg_state (with_key digest now req jid (putJob jid (newJob req jid now) r))"
    then show ?thesis
      using new_entry_ok [OF assms(1) _ _ assms(2), of jid digest now] by (auto simp: reg_le_def)
  qed
qed

lemma nextID_state [simp]: "reg_state (snd (nextID now r)) = reg_state r"
  by (simp add: nextID_def Let_def)

lemma allocateJob_keeps:
  assumes "reg_ok r"
    and "Create_IdempotencyKey req \<noteq> [] \<Longrightarrow> map_of (idem_of r) (Create_IdempotencyKey req) = None"
  shows "reg_ok (snd (allocateJob sv digest c now req r)) \<and>
         reg_le r (snd (allocateJob sv digest c now req r))"
proof (cases "Create_ID req = []")
  case False
  then show ?thesis using insertJob_keeps [OF assms] by (simp add: allocateJob_def)
next
  case True
  obtain jid r' where n: "nextID now r = (jid, r')" by (cases "nextID now r")
  then have st: "reg_state r' = reg_state r" using nextID_state [of now r] by simp
  have "reg_ok (snd (insertJob sv digest c now req jid r')) \<and>
        reg_le r' (snd (insertJob sv digest c now req jid r'))"
    using insertJob_keeps [of r' req] assms st by simp
  then show ?thesis using True n st by (simp add: allocateJob_def reg_le_def)
qed

lemma Create_keeps:
  assumes "reg_ok r"
  shows "reg_ok (snd (Create sv digest c now req r)) \<and> reg_le r (snd (Create sv digest c now req r))"
proof -
  let ?q = "if Create_SchemaVersion req = 0 then req\<lparr>Create_SchemaVersion := SchemaVersion\<rparr> else req"
  have "snd (Create sv digest c now req r) = r \<or>
     (snd (Create sv digest c now req r) = snd (allocateJob sv digest c now ?q r) \<and>
      (Create_IdempotencyKey ?q \<noteq> [] \<longrightarrow> map_of (idem_of r) (Create_IdempotencyKey ?q) = None))"
    by (auto simp: Create_def Let_def split: option.splits)
  then show ?thesis
    using assms allocateJob_keeps [OF assms, of ?q sv digest c now] by (auto simp: reg_le_refl)
qed

section \<open>RecoverInterrupted\<close>

lemma recoverJob_ok:
  "job_ok j \<Longrightarrow> recoverJob now lv jid j = Some j' \<Longrightarrow> job_ok j' \<and> job_le j j'"
  by (auto simp: recoverJob_def job_ok_def job_le_def split: if_splits option.splits)

lemma map_of_recover:
  "map_of (map (recoverEntry now lv) m) jid =
     map_option (\<lambda>j. case recoverJob now lv jid j of None \<Rightarrow> j | Some j' \<Rightarrow> j') (map_of m jid)"
  by (induction m) (auto simp: recoverEntry_def)

lemma fst_recoverEntry [simp]: "fst \<circ> recoverEntry now lv = fst"
  by (auto simp: recoverEntry_def)

lemma RecoverInterrupted_state:
  "reg_state (snd (RecoverInterrupted sv c now live r)) = reg_state r \<or>
   reg_state (snd (RecoverInterrupted sv c now live r)) =
     (reg_state r)\<lparr>Snap_Jobs := map (recoverEntry now (liveByJob live)) (jobs_of r)\<rparr>"
  by (auto simp: RecoverInterrupted_def Let_def split: option.splits)

lemma recover_entry_job:
  assumes "jobs_ok m" "map_of m jid = Some j"
  shows "\<exists>j'. map_of (map (recoverEntry now lv) m) jid = Some j' \<and> job_ok j' \<and> job_le j j'"
  using assms recoverJob_ok [of j now lv jid]
  by (cases "recoverJob now lv jid j") (auto simp: map_of_recover dest: jobs_okD)

lemma recover_jobs_ok:
  assumes "jobs_ok m"
  shows "jobs_ok (map (recoverEntry now lv) m)"
proof -
  have "Job_ID j' = jid \<and> validID jid \<and> job_ok j'"
    if j': "map_of (map (recoverEntry now lv) m) jid = Some j'" for jid j'
  proof -
    from j' obtain j where j: "map_of m jid = Some j" by (auto simp: map_of_recover)
    from recover_entry_job [OF assms j, of now lv] j' have "job_ok j'" "job_le j j'" by auto
    with jobs_okD [OF assms j] show ?thesis by (simp add: job_le_def)
  qed
  with assms show ?thesis by (simp add: jobs_ok_def)
qed

lemma recover_key_of:
  assumes "jobs_ok m"
  shows "key_of (map (recoverEntry now lv) m) = key_of m"
proof
  fix jid
  show "key_of (map (recoverEntry now lv) m) jid = key_of m jid"
  proof (cases "map_of m jid")
    case None
    then show ?thesis by (simp add: key_of_def map_of_recover)
  next
    case (Some j)
    with recover_entry_job [OF assms Some, of now lv] show ?thesis
      by (auto simp: key_of_def job_le_def)
  qed
qed

lemma RecoverInterrupted_keeps:
  assumes "reg_ok r"
  shows "reg_ok (snd (RecoverInterrupted sv c now live r)) \<and>
         reg_le r (snd (RecoverInterrupted sv c now live r))"
proof -
  have ok: "jobs_ok (jobs_of r)" and iok: "idem_ok (key_of (jobs_of r)) (idem_of r)"
    using assms by (auto simp: snap_ok_def)
  have "reg_le r (r\<lparr>reg_state := (reg_state r)\<lparr>Snap_Jobs :=
           map (recoverEntry now (liveByJob live)) (jobs_of r)\<rparr>\<rparr>)"
    using recover_entry_job [OF ok, of _ _ now "liveByJob live"]
    by (fastforce simp: reg_le_def)
  with ok iok assms show ?thesis
    using RecoverInterrupted_state [of sv c now live r]
    by (auto simp: snap_ok_def reg_le_def recover_jobs_ok recover_key_of)
qed

section \<open>The registry as a machine\<close>

datatype job_op =
    OpCreate ctx time CreateRequest
  | OpLease ctx time LeaseRequest
  | OpHeartbeat ctx time HeartbeatRequest
  | OpComplete ctx time CompleteRequest
  | OpFail ctx time FailRequest
  | OpInterrupt ctx time InterruptRequest
  | OpCancel ctx time CancelRequest
  | OpAttach ctx time string ProcessRef
  | OpDetach ctx time string
  | OpArtifact ctx time string Artifact
  | OpRecover ctx time "ProcessRef list"

fun job_step ::
  "'w saver \<Rightarrow> (CreateRequest \<Rightarrow> string) \<Rightarrow> job_op \<Rightarrow> 'w FileRegistry \<Rightarrow> 'w FileRegistry" where
  "job_step sv dg (OpCreate c now q) r = snd (Create sv dg c now q r)"
| "job_step sv dg (OpLease c now q) r = snd (Lease sv c now q r)"
| "job_step sv dg (OpHeartbeat c now q) r = snd (Heartbeat sv c now q r)"
| "job_step sv dg (OpComplete c now q) r = snd (Complete sv c now q r)"
| "job_step sv dg (OpFail c now q) r = snd (Fail sv c now q r)"
| "job_step sv dg (OpInterrupt c now q) r = snd (Interrupt sv c now q r)"
| "job_step sv dg (OpCancel c now q) r = snd (Cancel sv c now q r)"
| "job_step sv dg (OpAttach c now jid p) r = snd (AttachProcess sv c now jid p r)"
| "job_step sv dg (OpDetach c now jid) r = snd (DetachProcess sv c now jid r)"
| "job_step sv dg (OpArtifact c now jid a) r = snd (AddArtifact sv c now jid a r)"
| "job_step sv dg (OpRecover c now live) r = snd (RecoverInterrupted sv c now live r)"

lemmas job_op_defs = Lease_def Heartbeat_def Complete_def Fail_def Interrupt_def Cancel_def
  AttachProcess_def DetachProcess_def AddArtifact_def

lemma job_step_keeps: "reg_ok r \<Longrightarrow> reg_ok (job_step sv dg x r) \<and> reg_le r (job_step sv dg x r)"
  by (cases x)
    (auto simp: job_op_defs reg_le_refl Create_keeps RecoverInterrupted_keeps
      updateJob_keeps good_fns)

interpretation job_machine: monotone_machine "job_step sv dg" reg_ok reg_le for sv dg
proof unfold_locales
  fix r s t :: "'a FileRegistry"
  show "reg_le r r" by (rule reg_le_refl)
  show "reg_le r s \<Longrightarrow> reg_le s t \<Longrightarrow> reg_le r t" by (rule reg_le_trans)
next
  fix x and r :: "'a FileRegistry"
  assume "reg_ok r"
  then show "reg_ok (job_step sv dg x r)" "reg_le r (job_step sv dg x r)"
    using job_step_keeps by blast+
qed

definition freshRegistry :: "'w \<Rightarrow> 'w FileRegistry" where
  "freshRegistry w = \<lparr>reg_store = w, reg_state = emptySnapshot, reg_counter = 0\<rparr>"

lemma fresh_ok [simp]: "reg_ok (freshRegistry w)"
  by (simp add: freshRegistry_def)

end
