(* ===== verification/JobProps.thy ===== *)
theory JobProps
  imports JobInvariant
begin

text \<open>
  What the job registry promises: the invariant of every reachable registry, finality of terminal
  outcomes, exclusivity of leases, replay of idempotent creates, restart recovery, listing, and
  what a crash leaves on disk.
\<close>

section \<open>Runs from an empty registry\<close>

text \<open>
  C1. However the methods are called (any requests, clocks, contexts and save failures), the
  registry reached from an empty one is well formed: keys are unique and equal the stored
  identifiers, identifiers are valid, a job is terminal iff it has a completion time, a terminal
  job holds no lease, a running job has a holder, an expiry and a start time, a failure is
  recorded iff the job failed or was interrupted, and idempotency records and keyed jobs point
  at each other.
\<close>

theorem registry_invariant: "reg_ok (fold (job_step sv dg) ops (freshRegistry w))"
  by (rule job_machine.run_inv) simp

text \<open>
  C3. A terminal outcome is final: once a job of a reachable registry is succeeded, failed or
  interrupted, no later sequence of operations removes it or changes its status, its completion
  time or its recorded failure, nor its identity, kind, creation time or idempotency key.
\<close>

theorem terminal_outcome_final:
  assumes "map_of (jobs_of (fold (job_step sv dg) ops1 (freshRegistry w))) jid = Some j"
    and "Status_Terminal (Job_Status j)"
  shows "\<exists>j'. map_of (jobs_of (fold (job_step sv dg) (ops1 @ ops2) (freshRegistry w))) jid = Some j' \<and>
           Job_Status j' = Job_Status j \<and> Job_CompletedAt j' = Job_CompletedAt j \<and>
           Job_Failure j' = Job_Failure j \<and> Job_ID j' = jid \<and> Job_Kind j' = Job_Kind j \<and>
           Job_CreatedAt j' = Job_CreatedAt j \<and> Job_IdempotencyKey j' = Job_IdempotencyKey j"
proof -
  let ?r = "fold (job_step sv dg) ops1 (freshRegistry w)"
  have ok: "reg_ok ?r" by (rule job_machine.run_inv) simp
  then have "reg_le ?r (fold (job_step sv dg) ops2 ?r)" by (rule job_machine.run_le)
  from reg_le_jobD [OF this assms(1)]
  obtain j' where j': "map_of (jobs_of (fold (job_step sv dg) ops2 ?r)) jid = Some j'"
    and le: "job_le j j'" by blast
  from ok assms(1) have "Job_ID j = jid" by (auto simp: snap_ok_def dest: jobs_okD)
  with j' le assms(2) show ?thesis by (auto simp: job_le_def)
qed

definition sample_req :: CreateRequest where
  "sample_req = \<lparr>Create_ID = ''job-1'', Create_Kind = ''build'', Create_SchemaVersion = 0,
     Create_CorrelationID = [], Create_CausationID = [], Create_IdempotencyKey = ''k'',
     Create_Audit = \<lparr>Audit_Actor = [], Audit_Reason = [], Audit_RequestID = [],
       Audit_CorrelationID = [], Audit_CausationID = []\<rparr>\<rparr>"

definition sample_ops :: "job_op list" where
  "sample_ops =
     [OpCreate None 10 sample_req,
      OpLease None 20 \<lparr>LeaseReq_JobID = ''job-1'', LeaseReq_Holder = ''w1'', LeaseReq_Duration = 100\<rparr>,
      OpComplete None 30 \<lparr>Comp_JobID = ''job-1'', Comp_Holder = ''w1'', Comp_Audit = Create_Audit sample_req\<rparr>]"

definition good_disk :: filesys where
  "good_disk = \<lparr>fs_path = ''jobs.json'', fs_file = Absent, fs_tmp = 0, fs_faults = [], fs_unreadable = False\<rparr>"

lemma sample_run:
  "map_option Job_Status (map_of (jobs_of (fold (job_step FileStore_Save Create_Kind) sample_ops
     (freshRegistry good_disk))) ''job-1'') = Some StatusSucceeded"
  by code_simp

theorem terminal_outcome_final_witness:
  "\<exists>j'. map_of (jobs_of (fold (job_step FileStore_Save Create_Kind)
      (sample_ops @ [OpInterrupt None 40 \<lparr>Intr_JobID = ''job-1'', Intr_Failure = crashedFailure,
         Intr_Audit = Create_Audit sample_req\<rparr>]) (freshRegistry good_disk))) ''job-1'' = Some j' \<and>
     Job_Status j' = StatusSucceeded"
proof -
  obtain j where j: "map_of (jobs_of (fold (job_step FileStore_Save Create_Kind) sample_ops
      (freshRegistry good_disk))) ''job-1'' = Some j" and st: "Job_Status j = StatusSucceeded"
    using sample_run by auto
  then have "Status_Terminal (Job_Status j)" by simp
  from terminal_outcome_final [OF j this] show ?thesis unfolding st by blast
qed

section \<open>Leases\<close>

text \<open>The exact behaviour of \<open>Lease\<close> on a stored job, branch by branch.\<close>

lemma persist_return_Inr:
  "persist_return sv c x r = (Inr y, r') \<Longrightarrow> y = x \<and> reg_state r' = reg_state r"
  using persist_return_value [of sv c x r y] persist_return_state(1) [of sv c x r] by simp

lemma updateJob_Inr:
  assumes "updateJob sv c now jid fn r = (Inr j, r')"
  shows "\<exists>job job'. c = None \<and> validID jid \<and> map_of (jobs_of r) jid = Some job \<and>
           fn job now = Inr job' \<and> j = job'\<lparr>Job_UpdatedAt := now\<rparr> \<and>
           reg_state r' = reg_state (putJob jid j r)"
  using assms by (auto simp: updateJob_def Let_def split: option.splits if_splits sum.splits
      dest!: persist_return_Inr)

text \<open>What keeps a lease: the operations of callers other than the holder.\<close>

fun foreign :: "string \<Rightarrow> string \<Rightarrow> time \<Rightarrow> job_op \<Rightarrow> bool" where
  "foreign jid h e (OpLease c now q) =
     (LeaseReq_JobID q = jid \<longrightarrow> LeaseReq_Holder q \<noteq> h \<and> now < e)"
| "foreign jid h e (OpHeartbeat c now q) = (Beat_JobID q = jid \<longrightarrow> Beat_Holder q \<noteq> h)"
| "foreign jid h e (OpComplete c now q) =
     (Comp_JobID q = jid \<longrightarrow> Comp_Holder q \<noteq> h \<and> Comp_Holder q \<noteq> [])"
| "foreign jid h e (OpFail c now q) =
     (Fail_JobID q = jid \<longrightarrow> Fail_Holder q \<noteq> h \<and> Fail_Holder q \<noteq> [])"
| "foreign jid h e (OpInterrupt c now q) = (Intr_JobID q \<noteq> jid)"
| "foreign jid h e (OpCancel c now q) = (Cancel_JobID q \<noteq> jid)"
| "foreign jid h e (OpRecover c now live) = False"
| "foreign jid h e _ = True"

text \<open>
  Everything but a lease or heartbeat request of the holder itself and a lease request after the
  expiry: so any completion, failure, interruption, cancellation or restart recovery, too.
\<close>

fun rival :: "string \<Rightarrow> string \<Rightarrow> time \<Rightarrow> job_op \<Rightarrow> bool" where
  "rival jid h e (OpLease c now q) =
     (LeaseReq_JobID q = jid \<longrightarrow> LeaseReq_Holder q \<noteq> h \<and> now < e)"
| "rival jid h e (OpHeartbeat c now q) = (Beat_JobID q = jid \<longrightarrow> Beat_Holder q \<noteq> h)"
| "rival jid h e _ = True"

definition job_has :: "(Job \<Rightarrow> bool) \<Rightarrow> string \<Rightarrow> 'w FileRegistry \<Rightarrow> bool" where
  "job_has P jid r \<longleftrightarrow> (\<exists>j. map_of (jobs_of r) jid = Some j \<and> P j)"

definition holding :: "string \<Rightarrow> time \<Rightarrow> Job \<Rightarrow> bool" where
  "holding h e j \<longleftrightarrow> Job_Status j = StatusRunning \<and> Job_LeaseHolder j = h \<and> Job_LeaseExpiresAt j = Some e"

text \<open>What any rival leaves: the holder's lease, on a job perhaps being cancelled, or a job that has ended.\<close>

definition reserved :: "string \<Rightarrow> time \<Rightarrow> Job \<Rightarrow> bool" where
  "reserved h e j \<longleftrightarrow> Status_Terminal (Job_Status j) \<and> Job_LeaseHolder j = [] \<or>
     Job_Status j \<in> {StatusRunning, StatusCanceling} \<and> Job_LeaseHolder j = h \<and> Job_LeaseExpiresAt j = Some e"

abbreviation held :: "string \<Rightarrow> string \<Rightarrow> time \<Rightarrow> 'w FileRegistry \<Rightarrow> bool" where
  "held jid h e \<equiv> job_has (holding h e) jid"

lemma holding_updated [simp]:
  "holding h e (j\<lparr>Job_UpdatedAt := t\<rparr>) = holding h e j" "reserved h e (j\<lparr>Job_UpdatedAt := t\<rparr>) = reserved h e j"
  by (simp_all add: holding_def reserved_def)

lemma job_has_updateJob:
  assumes "job_has P jid r"
    and keep: "\<And>j j'. k = jid \<Longrightarrow> P j \<Longrightarrow> fn j now = Inr j' \<Longrightarrow> P (j'\<lparr>Job_UpdatedAt := now\<rparr>)"
  shows "job_has P jid (snd (updateJob sv c now k fn r))"
  using updateJob_state [of sv c now k fn r]
proof
  assume "reg_state (snd (updateJob sv c now k fn r)) = reg_state r"
  with assms(1) show ?thesis by (simp add: job_has_def)
next
  assume "\<exists>job job'. map_of (jobs_of r) k = Some job \<and> fn job now = Inr job' \<and>
      reg_state (snd (updateJob sv c now k fn r)) = reg_state (putJob k (job'\<lparr>Job_UpdatedAt := now\<rparr>) r)"
  then obtain job job' where j: "map_of (jobs_of r) k = Some job" "fn job now = Inr job'"
    and st: "reg_state (snd (updateJob sv c now k fn r)) = reg_state (putJob k (job'\<lparr>Job_UpdatedAt := now\<rparr>) r)"
    by blast
  have "job_has P jid (putJob k (job'\<lparr>Job_UpdatedAt := now\<rparr>) r)"
    using assms(1) j keep [of job job'] by (auto simp: job_has_def)
  with st show ?thesis by (simp add: job_has_def)
qed

lemma job_has_Create:
  assumes "job_has P jid r"
  shows "job_has P jid (snd (Create sv dg c now q r))"
proof -
  have ins: "job_has P jid (snd (insertJob sv dg c now p k s))" if "job_has P jid s" for p k and s :: "'a FileRegistry"
    using insertJob_state [of sv dg c now p k s] that
    by (auto simp: job_has_def with_key_def)
  have nxt: "job_has P jid (snd (nextID now s))" if "job_has P jid s" for s :: "'a FileRegistry"
    using that by (simp add: job_has_def)
  have al: "job_has P jid (snd (allocateJob sv dg c now p r))" for p
    using assms ins nxt [OF assms] by (auto simp: allocateJob_def split: prod.splits)
  then show ?thesis
    using assms by (auto simp: Create_def Let_def split: option.splits)
qed

lemma job_has_Recover:
  assumes "job_has P jid r" and keep: "\<And>j j'. P j \<Longrightarrow> recoverJob now (liveByJob live) jid j = Some j' \<Longrightarrow> P j'"
  shows "job_has P jid (snd (RecoverInterrupted sv c now live r))"
proof -
  let ?f = "recoverJob now (liveByJob live) jid"
  from assms(1) obtain j where j: "map_of (jobs_of r) jid = Some j" "P j" by (auto simp: job_has_def)
  then have "P (case ?f j of None \<Rightarrow> j | Some j' \<Rightarrow> j')" using keep by (auto split: option.split)
  with j assms(1) show ?thesis
    by (cases c) (auto simp: RecoverInterrupted_def Let_def job_has_def map_of_recover simp del: map_option_eq_Some)
qed

lemma held_foreign_step: "held jid h e r \<Longrightarrow> foreign jid h e x \<Longrightarrow> h \<noteq> [] \<Longrightarrow> held jid h e (job_step sv dg x r)"
  by (cases x)
    (auto simp: job_op_defs job_has_Create job_fn_defs LeaseExpired_def holding_def split: if_splits
      intro!: job_has_updateJob)

lemma held_foreign_run:
  "held jid h e r \<Longrightarrow> list_all (foreign jid h e) ops \<Longrightarrow> h \<noteq> [] \<Longrightarrow>
    held jid h e (fold (job_step sv dg) ops r)"
  by (induction ops arbitrary: r) (auto simp: held_foreign_step)

lemma reserved_rival_step:
  assumes "job_has (reserved h e) jid r" "rival jid h e x" "h \<noteq> []"
  shows "job_has (reserved h e) jid (job_step sv dg x r)"
proof (cases x)
  case (OpRecover c now live)
  with assms show ?thesis
    by (auto simp: reserved_def recoverJob_def split: if_splits option.splits intro!: job_has_Recover)
qed (use assms in \<open>auto simp: job_op_defs job_has_Create job_fn_defs LeaseExpired_def reserved_def split: if_splits
      intro!: job_has_updateJob\<close>)

lemma reserved_rival_run:
  "job_has (reserved h e) jid r \<Longrightarrow> list_all (rival jid h e) ops \<Longrightarrow> h \<noteq> [] \<Longrightarrow>
    job_has (reserved h e) jid (fold (job_step sv dg) ops r)"
  by (induction ops arbitrary: r) (auto simp: reserved_rival_step)

lemma Lease_held:
  assumes "Lease sv c now req r = (Inr j, r')"
  shows "held (LeaseReq_JobID req) (LeaseReq_Holder req) (now + LeaseReq_Duration req) r'"
proof -
  from assms have "updateJob sv c now (LeaseReq_JobID req) (lease_fn req) r = (Inr j, r')"
    by (auto simp: Lease_def split: if_splits)
  from updateJob_Inr [OF this] show ?thesis
    by (auto simp: job_has_def holding_def lease_fn_def split: if_splits)
qed

text \<open>
  C4. Until a granted lease expires no other worker gets the job. After \<open>Lease\<close> succeeds for a
  holder, let any operations run, completions, interruptions, cancellations and restart
  recoveries included, apart from lease and heartbeat requests of the holder itself and with
  every competing lease request made before the expiry: the job has no holder but this one, and
  one more lease request of another worker before the expiry is refused and changes nothing.
  While the operations do not end or cancel the job (a completion or failure without a holder, an
  interruption, a cancellation, a recovery) the job also stays running under the same lease, and
  the refusal is the lease-held error.
\<close>

theorem lease_exclusive_until_expiry:
  assumes "Lease sv c now req r = (Inr j, r1)"
    and "list_all (rival (LeaseReq_JobID req) (LeaseReq_Holder req) (now + LeaseReq_Duration req)) ops"
    and "r2 = fold (job_step sv dg) ops r1"
    and "LeaseReq_JobID req' = LeaseReq_JobID req" "LeaseReq_Holder req' \<noteq> LeaseReq_Holder req"
    and "LeaseReq_Holder req' \<noteq> []" "LeaseReq_Duration req' > 0"
    and "now' < now + LeaseReq_Duration req"
  shows "(\<exists>j2. map_of (jobs_of r2) (LeaseReq_JobID req) = Some j2 \<and>
        Job_LeaseHolder j2 \<in> {LeaseReq_Holder req, []} \<and>
        Lease sv None now' req' r2 =
          (Inl (if Job_Status j2 = StatusRunning then ErrLeaseHeld else ErrInvalidState), r2)) \<and>
     (list_all (foreign (LeaseReq_JobID req) (LeaseReq_Holder req) (now + LeaseReq_Duration req)) ops \<longrightarrow>
        held (LeaseReq_JobID req) (LeaseReq_Holder req) (now + LeaseReq_Duration req) r2 \<and>
        Lease sv None now' req' r2 = (Inl ErrLeaseHeld, r2))"
proof (intro conjI impI)
  let ?j = "LeaseReq_JobID req" and ?h = "LeaseReq_Holder req" and ?e = "now + LeaseReq_Duration req"
  from assms(1) have valid: "validID ?j" "?j \<noteq> []" "?h \<noteq> []"
    by (auto simp: Lease_def split: if_splits dest!: updateJob_Inr)
  note h1 = Lease_held [OF assms(1)]
  then have "job_has (reserved ?h ?e) ?j r1"
    by (auto simp: job_has_def holding_def reserved_def)
  from reserved_rival_run [OF this assms(2) valid(3), of sv dg]
  obtain j2 where j2: "map_of (jobs_of r2) ?j = Some j2" "reserved ?h ?e j2"
    by (auto simp: assms(3) job_has_def)
  from j2(2) valid(3) assms(5-8) have "lease_fn req' j2 now' =
      Inl (if Job_Status j2 = StatusRunning then ErrLeaseHeld else ErrInvalidState)"
    by (auto simp: reserved_def lease_fn_def LeaseExpired_def)
  with j2 valid assms(4-7) show "\<exists>j2. map_of (jobs_of r2) ?j = Some j2 \<and> Job_LeaseHolder j2 \<in> {?h, []} \<and>
      Lease sv None now' req' r2 =
        (Inl (if Job_Status j2 = StatusRunning then ErrLeaseHeld else ErrInvalidState), r2)"
    by (auto simp: Lease_def updateJob_def reserved_def)
  assume "list_all (foreign ?j ?h ?e) ops"
  from held_foreign_run [OF h1 this valid(3), of sv dg] show h: "held ?j ?h ?e r2" by (simp add: assms(3))
  then show "Lease sv None now' req' r2 = (Inl ErrLeaseHeld, r2)"
    using assms(4-8) valid
    by (auto simp: Lease_def updateJob_def job_has_def holding_def lease_fn_def LeaseExpired_def split: option.splits)
qed

definition leased_sample :: "filesys FileRegistry" where
  "leased_sample = fold (job_step FileStore_Save Create_Kind) [OpCreate None 10 sample_req] (freshRegistry good_disk)"

definition lease_req :: "string \<Rightarrow> duration \<Rightarrow> LeaseRequest" where
  "lease_req h d = \<lparr>LeaseReq_JobID = ''job-1'', LeaseReq_Holder = h, LeaseReq_Duration = d\<rparr>"

theorem lease_exclusive_until_expiry_witness:
  "Lease FileStore_Save None 60 (lease_req ''w2'' 10)
     (fold (job_step FileStore_Save Create_Kind) [OpLease None 50 (lease_req ''w3'' 5)]
        (snd (Lease FileStore_Save None 20 (lease_req ''w1'' 100) leased_sample)))
   = (Inl ErrLeaseHeld,
      fold (job_step FileStore_Save Create_Kind) [OpLease None 50 (lease_req ''w3'' 5)]
        (snd (Lease FileStore_Save None 20 (lease_req ''w1'' 100) leased_sample)))"
proof -
  let ?L = "Lease FileStore_Save None 20 (lease_req ''w1'' 100) leased_sample"
  have "isl (fst ?L) = False" by code_simp
  then obtain j where "?L = (Inr j, snd ?L)" by (cases ?L, cases "fst ?L") auto
  from lease_exclusive_until_expiry [OF this, of "[OpLease None 50 (lease_req ''w3'' 5)]" _ Create_Kind
      "lease_req ''w2'' 10" 60]
  show ?thesis by (simp add: lease_req_def)
qed

section \<open>Idempotent creation\<close>

lemma allocateJob_Inr:
  assumes "allocateJob sv dg c now req r = (Inr j, r')"
  shows "\<exists>jid. j = newJob req jid now \<and> map_of (jobs_of r') jid = Some j \<and>
     (Create_IdempotencyKey req \<noteq> [] \<longrightarrow> (\<exists>x. map_of (idem_of r') (Create_IdempotencyKey req) = Some x \<and>
        Idem_RequestHash x = hashCreateRequest dg req \<and> Idem_JobID x = jid))"
proof -
  have ins: "j = newJob req jid now \<and> map_of (jobs_of r') jid = Some j \<and>
     (Create_IdempotencyKey req \<noteq> [] \<longrightarrow> (\<exists>x. map_of (idem_of r') (Create_IdempotencyKey req) = Some x \<and>
        Idem_RequestHash x = hashCreateRequest dg req \<and> Idem_JobID x = jid))"
    if "insertJob sv dg c now req jid s = (Inr j, r')" for jid s
    using that by (auto simp: insertJob_def Let_def split: if_splits dest!: persist_return_Inr)
  from assms obtain jid s where "insertJob sv dg c now req jid s = (Inr j, r')"
    by (auto simp: allocateJob_def split: if_splits prod.splits)
  from ins [OF this] show ?thesis by blast
qed

lemma normalised_hash:
  "hashCreateRequest dg (req\<lparr>Create_ID := i\<rparr>) = hashCreateRequest dg req"
  by (simp add: hashCreateRequest_def)

abbreviation versioned :: "CreateRequest \<Rightarrow> CreateRequest" where
  "versioned req \<equiv> (if Create_SchemaVersion req = 0
     then req\<lparr>Create_SchemaVersion := SchemaVersion\<rparr> else req)"

lemma versioned_key [simp]: "Create_IdempotencyKey (versioned req) = Create_IdempotencyKey req"
  by simp

lemma Create_Inr_record:
  assumes "Create sv dg c now req r = (Inr j, r')" "reg_ok r" "Create_IdempotencyKey req \<noteq> []"
  shows "validateCreate req = None \<and>
    (\<exists>x. map_of (idem_of r') (Create_IdempotencyKey req) = Some x \<and>
       Idem_RequestHash x = hashCreateRequest dg (versioned req) \<and> Idem_JobID x = Job_ID j)"
proof -
  from assms(1) have v: "validateCreate req = None"
    by (auto simp: Create_def split: option.splits)
  show ?thesis
  proof (cases "map_of (idem_of r) (Create_IdempotencyKey req)")
    case None
    with assms(1,3) v have "allocateJob sv dg c now (versioned req) r = (Inr j, r')"
      by (simp add: Create_def Let_def split: if_splits)
    from allocateJob_Inr [OF this] v assms(3) show ?thesis
      by (auto simp: newJob_def split: if_splits)
  next
    case (Some x)
    with assms v have "r' = r" "Idem_RequestHash x = hashCreateRequest dg (versioned req)"
      "map_of (jobs_of r) (Idem_JobID x) = Some j"
      by (auto simp: Create_def Let_def split: if_splits option.splits)
    with Some v assms(2) show ?thesis by (auto simp: snap_ok_def dest: jobs_okD)
  qed
qed

text \<open>
  C7. Creation with an idempotency key is replayed, not repeated. After a create with a key has
  succeeded on a reachable registry, and after any further operations, a second create with the
  same key changes nothing: it returns the job of the first create when the two requests have the
  same digest (the identifier field aside), and the idempotency conflict when they differ.
\<close>

theorem create_idempotent_replay:
  assumes "Create sv dg c now req (fold (job_step sv dg) ops1 (freshRegistry w)) = (Inr j, r1)"
    and "Create_IdempotencyKey req \<noteq> []"
    and "r2 = fold (job_step sv dg) ops2 r1"
    and "validateCreate req' = None" "Create_IdempotencyKey req' = Create_IdempotencyKey req"
  shows "if hashCreateRequest dg (versioned req') = hashCreateRequest dg (versioned req)
         then (\<exists>j'. Create sv dg c' now' req' r2 = (Inr j', r2) \<and> Job_ID j' = Job_ID j \<and> job_le j j')
         else Create sv dg c' now' req' r2 = (Inl ErrIdempotencyConflict, r2)"
proof -
  let ?r = "fold (job_step sv dg) ops1 (freshRegistry w)"
  have ok: "reg_ok ?r" by (rule job_machine.run_inv) simp
  from Create_Inr_record [OF assms(1) ok assms(2)] obtain x where
    x: "map_of (idem_of r1) (Create_IdempotencyKey req) = Some x"
      "Idem_RequestHash x = hashCreateRequest dg (versioned req)" "Idem_JobID x = Job_ID j" by blast
  have ok1: "reg_ok r1" using Create_keeps [OF ok, of sv dg c now req] assms(1) by simp
  have stored: "map_of (jobs_of r1) (Job_ID j) = Some j"
  proof (cases "map_of (idem_of ?r) (Create_IdempotencyKey req)")
    case None
    with assms(1,2) have "allocateJob sv dg c now (versioned req) ?r = (Inr j, r1)"
      by (auto simp: Create_def Let_def split: if_splits option.splits)
    from allocateJob_Inr [OF this] show ?thesis by (auto simp: newJob_def)
  next
    case (Some y)
    with assms(1,2) have "r1 = ?r" "map_of (jobs_of ?r) (Idem_JobID y) = Some j"
      by (auto simp: Create_def Let_def split: if_splits option.splits)
    with ok show ?thesis by (auto simp: snap_ok_def dest: jobs_okD)
  qed
  from ok1 have "reg_le r1 r2" unfolding assms(3) by (rule job_machine.run_le)
  from reg_le_idemD [OF this x(1)] reg_le_jobD [OF this stored]
  obtain j' where "map_of (idem_of r2) (Create_IdempotencyKey req) = Some x"
    and "map_of (jobs_of r2) (Job_ID j) = Some j'" and "job_le j j'" by blast
  then show ?thesis using x(2,3) assms(2,4,5)
    by (auto simp: Create_def Let_def job_le_def)
qed

theorem create_idempotent_replay_witness:
  "\<exists>j r1 j'. Create FileStore_Save Create_Kind None 10 sample_req (freshRegistry good_disk) = (Inr j, r1) \<and>
     Create FileStore_Save Create_Kind None 90 (sample_req\<lparr>Create_ID := ''other''\<rparr>) r1 = (Inr j', r1) \<and>
     Job_ID j' = ''job-1'' \<and>
     Create FileStore_Save Create_Kind None 90 (sample_req\<lparr>Create_Kind := ''deploy''\<rparr>) r1
       = (Inl ErrIdempotencyConflict, r1)"
proof -
  let ?C = "Create FileStore_Save Create_Kind None 10 sample_req (freshRegistry good_disk)"
  have "isl (fst ?C) = False" by code_simp
  then obtain j r1 where C: "?C = (Inr j, r1)" by (cases ?C, cases "fst ?C") auto
  have "map_sum (\<lambda>_. ()) Job_ID (fst ?C) = Inr ''job-1''" by code_simp
  with C have jid: "Job_ID j = ''job-1''" by simp
  have v: "validateCreate (sample_req\<lparr>Create_ID := ''other''\<rparr>) = None"
    "validateCreate (sample_req\<lparr>Create_Kind := ''deploy''\<rparr>) = None" by code_simp+
  have C': "Create FileStore_Save Create_Kind None 10 sample_req
     (fold (job_step FileStore_Save Create_Kind) [] (freshRegistry good_disk)) = (Inr j, r1)"
    using C by simp
  have key: "Create_IdempotencyKey sample_req \<noteq> []" by (simp add: sample_req_def)
  have r1: "r1 = fold (job_step FileStore_Save Create_Kind) [] r1" by simp
  note replay = create_idempotent_replay [OF C' key r1]
  have "\<exists>j'. Create FileStore_Save Create_Kind None 90 (sample_req\<lparr>Create_ID := ''other''\<rparr>) r1 = (Inr j', r1) \<and>
      Job_ID j' = ''job-1''"
    using replay [OF v(1), of None 90] jid by (auto simp: sample_req_def hashCreateRequest_def)
  moreover have "Create FileStore_Save Create_Kind None 90 (sample_req\<lparr>Create_Kind := ''deploy''\<rparr>) r1
       = (Inl ErrIdempotencyConflict, r1)"
    using replay [OF v(2), of None 90] by (simp add: sample_req_def hashCreateRequest_def)
  ultimately show ?thesis using C by blast
qed

end
