(* ===== verification/JobDurability.thy ===== *)
theory JobDurability
  imports JobProps "HOL-Library.Multiset"
begin

text \<open>
  Restart recovery, listing, generated identifiers, and what the snapshot file holds when the
  daemon stops between or inside saves.
\<close>

section \<open>Restart recovery\<close>

lemma liveByJob_foldl:
  "foldl (\<lambda>m p. if Proc_JobID p \<noteq> [] \<and> Proc_PID p > 0 \<and> Proc_PGID p > 0
        then m(Proc_JobID p \<mapsto> p) else m) m live jid = Some p \<Longrightarrow>
   m jid = Some p \<or> (p \<in> set live \<and> Proc_JobID p = jid \<and> Proc_PID p > 0 \<and> Proc_PGID p > 0)"
proof (induction live arbitrary: m)
  case Nil
  then show ?case by simp
next
  case (Cons q live)
  from Cons.IH [of "if Proc_JobID q \<noteq> [] \<and> Proc_PID q > 0 \<and> Proc_PGID q > 0
        then m(Proc_JobID q \<mapsto> q) else m"] Cons.prems
  show ?case by (auto split: if_splits)
qed

lemma liveByJob_Some:
  "liveByJob live jid = Some p \<Longrightarrow>
     p \<in> set live \<and> Proc_JobID p = jid \<and> Proc_PID p > 0 \<and> Proc_PGID p > 0"
  unfolding liveByJob_def using liveByJob_foldl [of "\<lambda>_. None" live jid p] by simp

lemma map_filter_empty:
  "List.map_filter f xs = [] \<longleftrightarrow> (\<forall>x \<in> set xs. f x = None)"
  by (induction xs) (auto simp: map_filter_simps split: option.splits)

lemma recover_lookup:
  assumes "c = None"
  shows "map_of (jobs_of (snd (RecoverInterrupted sv c now live r))) jid =
     map_option (\<lambda>j. case recoverJob now (liveByJob live) jid j of None \<Rightarrow> j | Some j' \<Rightarrow> j')
       (map_of (jobs_of r) jid)"
proof (cases "List.map_filter (\<lambda>e. recoverJob now (liveByJob live) (fst e) (snd e)) (jobs_of r) = []")
  case True
  then have "recoverJob now (liveByJob live) jid j = None" if "map_of (jobs_of r) jid = Some j" for j
    using map_of_SomeD [OF that] by (auto simp: map_filter_empty)
  with True assms show ?thesis
    by (cases "map_of (jobs_of r) jid") (auto simp: RecoverInterrupted_def Let_def)
next
  case False
  with assms show ?thesis
    by (simp add: RecoverInterrupted_def Let_def map_of_recover)
qed

text \<open>
  The restart invariant. After \<open>RecoverInterrupted\<close> with a live context (whether or not the
  save succeeds), every stored job is queued, or terminal, or attached to a process of the given
  list that belongs to this job and is stamped as reattached now; a job without a live process
  that was neither queued nor terminal has become interrupted with the crash-recovered failure,
  holds no lease and is completed now; queued and terminal jobs are untouched.
\<close>

theorem recover_restart_invariant:
  assumes "map_of (jobs_of r) jid = Some j"
  shows "\<exists>j'. map_of (jobs_of (snd (RecoverInterrupted sv None now live r))) jid = Some j' \<and>
     (if Status_Terminal (Job_Status j) \<or> Job_Status j = StatusQueued then j' = j
      else case liveByJob live jid of
        Some p \<Rightarrow> p \<in> set live \<and> Proc_JobID p = jid \<and> Proc_PID p > 0 \<and> Proc_PGID p > 0 \<and>
          Job_Process j' = Some (p\<lparr>Proc_ReattachedAt := Some now\<rparr>) \<and> Job_Status j' = Job_Status j \<and>
          Job_UpdatedAt j' = now
      | None \<Rightarrow> Job_Status j' = StatusInterrupted \<and> Job_Process j' = None \<and>
          Job_Failure j' = Some crashedFailure \<and> Job_LeaseHolder j' = [] \<and>
          Job_LeaseExpiresAt j' = None \<and> Job_CompletedAt j' = Some now)"
  using assms liveByJob_Some [of live jid]
  by (auto simp: recover_lookup recoverJob_def split: option.splits)

theorem recover_restart_invariant_witness:
  "\<exists>j'. map_of (jobs_of (snd (RecoverInterrupted FileStore_Save None 500 []
       (snd (Lease FileStore_Save None 20 (lease_req ''w1'' 100) leased_sample))))) ''job-1'' = Some j' \<and>
     Job_Status j' = StatusInterrupted \<and> Job_CompletedAt j' = Some 500"
proof -
  let ?r = "snd (Lease FileStore_Save None 20 (lease_req ''w1'' 100) leased_sample)"
  have st: "map_option Job_Status (map_of (jobs_of ?r) ''job-1'') = Some StatusRunning" by code_simp
  then obtain j where j: "map_of (jobs_of ?r) ''job-1'' = Some j" "Job_Status j = StatusRunning" by auto
  have "liveByJob [] ''job-1'' = None" by (simp add: liveByJob_def)
  with recover_restart_invariant [OF j(1), of FileStore_Save 500 "[]"] j(2) show ?thesis by auto
qed

section \<open>Listing\<close>

text \<open>
  \<open>List\<close> with a live context and valid statuses returns exactly the stored jobs that match
  the kind and status filters, ordered by creation time and then identifier; a positive limit
  keeps the first ones only. An invalid status is refused.
\<close>

theorem list_sorted_filtered:
  "(if list_all Status_Valid (Filter_Statuses f) then
      \<exists>full out. ListJobs None f r = Inr out \<and>
        mset full = mset (filter (job_selected f) (map snd (jobs_of r))) \<and>
        sorted (map (\<lambda>j. (Job_CreatedAt j, Job_ID j)) full) \<and>
        out = (if Filter_Limit f > 0 then take (nat (Filter_Limit f)) full else full)
    else ListJobs None f r = Inl ErrInvalidRequest)"
proof (cases "list_all Status_Valid (Filter_Statuses f)")
  case False
  then show ?thesis by (simp add: ListJobs_def)
next
  case True
  define full where "full = sort_key (\<lambda>j. (Job_CreatedAt j, Job_ID j))
    (filter (job_selected f) (map snd (jobs_of r)))"
  have "mset full = mset (filter (job_selected f) (map snd (jobs_of r)))"
    by (simp add: full_def)
  moreover have "sorted (map (\<lambda>j. (Job_CreatedAt j, Job_ID j)) full)"
    unfolding full_def by (rule sorted_sort_key)
  moreover have "ListJobs None f r = Inr (if Filter_Limit f > 0 then take (nat (Filter_Limit f)) full else full)"
    using True by (auto simp: ListJobs_def Let_def full_def [symmetric])
  ultimately show ?thesis using True by auto
qed

section \<open>Generated identifiers\<close>

fun nextIDs :: "time list \<Rightarrow> 'w FileRegistry \<Rightarrow> string list" where
  "nextIDs [] r = []"
| "nextIDs (t # ts) r = (case nextID t r of (jid, r') \<Rightarrow> jid # nextIDs ts r')"

lemma nextIDs_nth:
  "i < length ts \<Longrightarrow> nextIDs ts r ! i = stampedID ''job_'' (ts ! i) (reg_counter r + 1 + of_nat i)"
proof (induction ts arbitrary: r i)
  case Nil
  then show ?case by simp
next
  case (Cons t ts)
  then show ?case
    by (cases i) (simp_all add: nextID_def Let_def algebra_simps)
qed

lemma length_nextIDs [simp]: "length (nextIDs ts r) = length ts"
  by (induction ts arbitrary: r) (auto split: prod.splits)

text \<open>
  The identifiers one registry generates are pairwise different, whatever the clock reads
  (it may stand still or run backwards), for any sequence of at most \<open>2 ^ 64\<close> generations: the
  counter alone separates them until the 64-bit counter has wrapped around.
\<close>

theorem generated_ids_distinct:
  assumes "length ts \<le> 2 ^ 64"
  shows "distinct (nextIDs ts r)"
  unfolding distinct_conv_nth
proof (intro allI impI)
  fix i k
  assume ik: "i < length (nextIDs ts r)" "k < length (nextIDs ts r)" "i \<noteq> k"
  show "nextIDs ts r ! i \<noteq> nextIDs ts r ! k"
  proof
    assume "nextIDs ts r ! i = nextIDs ts r ! k"
    with ik have "stampedID ''job_'' (ts ! i) (reg_counter r + 1 + of_nat i) =
        stampedID ''job_'' (ts ! k) (reg_counter r + 1 + of_nat k)"
      by (simp add: nextIDs_nth)
    then have "(of_nat i :: 64 word) = of_nat k" by (auto dest: stampedID_inj)
    then have "unat (of_nat i :: 64 word) = unat (of_nat k :: 64 word)" by simp
    then have "i mod 2 ^ 64 = k mod 2 ^ 64" by (simp add: unat_of_nat)
    with ik assms show False by simp
  qed
qed

theorem generated_ids_distinct_witness:
  "distinct (nextIDs [5, 5, 3] (freshRegistry good_disk))"
  by (rule generated_ids_distinct) simp

section \<open>Durability\<close>


text \<open>
  An operation leaves the memory and the store untouched, or its store is one save of the memory it
  leaves.
\<close>

definition saved_or_same :: "'w saver \<Rightarrow> 'w FileRegistry \<Rightarrow> 'w FileRegistry \<Rightarrow> bool" where
  "saved_or_same sv r r' \<longleftrightarrow> reg_state r' = reg_state r \<and> reg_store r' = reg_store r \<or>
     (\<exists>c. reg_store r' = snd (sv c (reg_state r') (reg_store r)))"


lemma saved_same [simp]: "saved_or_same sv r r"
  by (simp add: saved_or_same_def)






lemma schema_updateJob [simp]:
  "Snap_SchemaVersion (reg_state (snd (updateJob sv c now k fn r))) = Snap_SchemaVersion (reg_state r)"
  using updateJob_state [of sv c now k fn r] by (auto simp: putJob_def)

lemma schema_insertJob [simp]:
  "Snap_SchemaVersion (reg_state (snd (insertJob sv dg c now req k r))) = Snap_SchemaVersion (reg_state r)"
  by (simp add: insertJob_def Let_def persist_return_state putJob_def putIdem_def)

lemma schema_nextID [simp]:
  "Snap_SchemaVersion (reg_state (snd (nextID now r))) = Snap_SchemaVersion (reg_state r)"
  by (simp add: nextID_def Let_def)

lemma schema_step [simp]:
  "Snap_SchemaVersion (reg_state (job_step sv dg x r)) = Snap_SchemaVersion (reg_state r)"
  by (cases x) (auto simp: job_op_defs Create_def allocateJob_def nextID_def RecoverInterrupted_def persist_return_state
      Let_def split: option.splits)










definition faulty_disk :: filesys where
  "faulty_disk = good_disk\<lparr>fs_faults := [Some RenameFault, None, Some SyncFault]\<rparr>"


text \<open>
  A failed save is acknowledged by the retry. When a keyed create fails only because the
  snapshot could not be saved, the job stays in memory; the client's retry of the same request
  then succeeds without touching the store, so the acknowledged job is absent from the disk (the
  file still holds what it held before the first attempt).
\<close>

theorem create_retry_acknowledges_unsaved:
  assumes "Create FileStore_Save dg c now req r = (Inl (ErrIO e), r1)"
    and "Create_IdempotencyKey req \<noteq> []"
  shows "\<exists>j. Create FileStore_Save dg c' now' req r1 = (Inr j, r1) \<and>
           fs_file (reg_store r1) = fs_file (reg_store r)"
proof -
  from assms(1) have v: "validateCreate req = None"
    and key: "map_of (idem_of r) (Create_IdempotencyKey req) = None"
    using assms(2)
    by (auto simp: Create_def Let_def validateCreate_def split: option.splits if_splits)
  with assms have al: "allocateJob FileStore_Save dg c now (versioned req) r = (Inl (ErrIO e), r1)"
    by (simp add: Create_def Let_def split: if_splits)
  then obtain jid q where ins: "insertJob FileStore_Save dg c now (versioned req) jid q = (Inl (ErrIO e), r1)"
    and q: "reg_store q = reg_store r"
    by (auto simp: allocateJob_def nextID_def Let_def split: if_splits)
  let ?q2 = "putIdem (Create_IdempotencyKey req)
     \<lparr>Idem_Key = Create_IdempotencyKey req, Idem_RequestHash = hashCreateRequest dg (versioned req),
      Idem_JobID = jid, Idem_CreatedAt = now\<rparr> (putJob jid (newJob (versioned req) jid now) q)"
  from ins assms(2) have pr: "persist_return FileStore_Save c (newJob (versioned req) jid now) ?q2 = (Inl (ErrIO e), r1)"
    by (auto simp: insertJob_def Let_def split: if_splits)
  then have st: "reg_state r1 = reg_state ?q2"
    using persist_return_state(1) [of FileStore_Save c "newJob (versioned req) jid now" ?q2] by simp
  from pr q have "\<exists>w'. FileStore_Save c (reg_state ?q2) (reg_store r) = (Some (ErrIO e), w') \<and> reg_store r1 = w'"
    by (auto simp: persist_return_def persistLocked_def split: prod.splits option.splits)
  then have "fs_file (reg_store r1) = fs_file (reg_store r)"
    by (auto dest: FileStore_Save_err)
  moreover have "\<exists>j. Create FileStore_Save dg c' now' req r1 = (Inr j, r1)"
    using st v assms(2) by (auto simp: Create_def Let_def)
  ultimately show ?thesis by blast
qed

theorem create_retry_acknowledges_unsaved_witness:
  "\<exists>r1 j. Create FileStore_Save Create_Kind None 10 sample_req (freshRegistry faulty_disk) = (Inl (ErrIO ''rename''), r1) \<and>
     Create FileStore_Save Create_Kind None 11 sample_req r1 = (Inr j, r1) \<and>
     fs_file (reg_store r1) = Absent"
proof -
  let ?C = "Create FileStore_Save Create_Kind None 10 sample_req (freshRegistry faulty_disk)"
  have "map_sum (\<lambda>e. e) (\<lambda>_. ()) (fst ?C) = Inl (ErrIO ''rename'')" by code_simp
  then obtain r1 where C: "?C = (Inl (ErrIO ''rename''), r1)" by (cases ?C, cases "fst ?C") auto
  have "Create_IdempotencyKey sample_req \<noteq> []" by (simp add: sample_req_def)
  from create_retry_acknowledges_unsaved [OF C this, of None 11] C show ?thesis
    by (auto simp: freshRegistry_def faulty_disk_def good_disk_def)
qed

end
