(* ===== verification/JobProgress.thy ===== *)
theory JobProgress
  imports JobProps
begin

text \<open>
  Progress of the durable jobs: no job that has not ended is stuck. \<open>writable sv good\<close> says that
  saves into a good world succeed and leave it good.
\<close>

definition writable :: "'w saver \<Rightarrow> ('w \<Rightarrow> bool) \<Rightarrow> bool" where
  "writable sv good \<longleftrightarrow> (\<forall>s w. good w \<longrightarrow> fst (sv None s w) = None \<and> good (snd (sv None s w)))"

lemma updateJob_progress:
  assumes "writable sv good" "good (reg_store r)" "validID jid" "map_of (jobs_of r) jid = Some j"
    "fn j now = Inr j'"
  shows "\<exists>r'. updateJob sv None now jid fn r = (Inr (j'\<lparr>Job_UpdatedAt := now\<rparr>), r') \<and>
    jobs_of r' = AList.update jid (j'\<lparr>Job_UpdatedAt := now\<rparr>) (jobs_of r) \<and> good (reg_store r')"
proof -
  let ?r = "putJob jid (j'\<lparr>Job_UpdatedAt := now\<rparr>) r"
  obtain e w where w: "sv None (reg_state ?r) (reg_store ?r) = (e, w)" by (metis surj_pair)
  with assms(1,2) have "e = None" "good w" by (metis fst_conv snd_conv writable_def putJob_fields(4))+
  with w assms(3-5) show ?thesis
    by (auto simp: updateJob_def Let_def persist_return_def persistLocked_def simp flip: putJob_fields(1))
qed

text \<open>
  C18. No job is stuck: in a well-formed registry whose file can be written, any job that has not
  ended, one being cancelled included, can be interrupted and can be completed by its lease holder
  (without a holder when it has none); and one that is not being cancelled and whose lease is free
  or has expired can be leased by any worker, who can then complete it. (A job being cancelled is
  never leased again.)
\<close>

theorem unfinished_job_can_finish:
  assumes "writable sv good" "good (reg_store r)" "reg_ok r" "map_of (jobs_of r) jid = Some j"
    and "\<not> Status_Terminal (Job_Status j)" "jid \<noteq> []" "Failure_Code f \<noteq> []" "h \<noteq> []" "0 < d"
  shows "(\<exists>j1 r1. Interrupt sv None now \<lparr>Intr_JobID = jid, Intr_Failure = f, Intr_Audit = a\<rparr> r = (Inr j1, r1) \<and>
      map_of (jobs_of r1) jid = Some j1 \<and> Job_Status j1 = StatusInterrupted) \<and>
    (\<exists>j1 r1. Complete sv None now \<lparr>Comp_JobID = jid, Comp_Holder = Job_LeaseHolder j, Comp_Audit = a\<rparr> r = (Inr j1, r1) \<and>
      map_of (jobs_of r1) jid = Some j1 \<and> Job_Status j1 = StatusSucceeded) \<and>
    (Job_Status j \<noteq> StatusCanceling \<and> (Job_LeaseHolder j = [] \<or> LeaseExpired j now) \<longrightarrow>
     (\<exists>j1 r1 j2 r2. Lease sv None now \<lparr>LeaseReq_JobID = jid, LeaseReq_Holder = h, LeaseReq_Duration = d\<rparr> r = (Inr j1, r1) \<and>
      Complete sv None later \<lparr>Comp_JobID = jid, Comp_Holder = h, Comp_Audit = a\<rparr> r1 = (Inr j2, r2) \<and>
      map_of (jobs_of r2) jid = Some j2 \<and> Job_Status j2 = StatusSucceeded))"
proof (intro conjI impI)
  from assms(3,4) have v: "validID jid" by (auto simp: snap_ok_def dest: jobs_okD)
  note go = updateJob_progress [OF assms(1) _ v]
  let ?I = "\<lparr>Intr_JobID = jid, Intr_Failure = f, Intr_Audit = a\<rparr>"
  from assms(5) obtain i where "interrupt_fn ?I j now = Inr i" "Job_Status i = StatusInterrupted"
    by (cases "Job_Status j") (auto simp: interrupt_fn_def)
  with go [OF assms(2,4), of "interrupt_fn ?I" now i] assms(6,7)
  show "\<exists>j1 r1. Interrupt sv None now ?I r = (Inr j1, r1) \<and> map_of (jobs_of r1) jid = Some j1 \<and>
      Job_Status j1 = StatusInterrupted" by (auto simp: Interrupt_def)
  let ?H = "\<lparr>Comp_JobID = jid, Comp_Holder = Job_LeaseHolder j, Comp_Audit = a\<rparr>"
  from assms(5) obtain i where "complete_fn ?H j now = Inr i" "Job_Status i = StatusSucceeded"
    by (cases "Job_Status j") (auto simp: complete_fn_def)
  with go [OF assms(2,4), of "complete_fn ?H" now i] assms(6)
  show "\<exists>j1 r1. Complete sv None now ?H r = (Inr j1, r1) \<and> map_of (jobs_of r1) jid = Some j1 \<and>
      Job_Status j1 = StatusSucceeded" by (auto simp: Complete_def)
  let ?L = "\<lparr>LeaseReq_JobID = jid, LeaseReq_Holder = h, LeaseReq_Duration = d\<rparr>"
    and ?C = "\<lparr>Comp_JobID = jid, Comp_Holder = h, Comp_Audit = a\<rparr>"
  assume free: "Job_Status j \<noteq> StatusCanceling \<and> (Job_LeaseHolder j = [] \<or> LeaseExpired j now)"
  with assms(5) obtain l where l: "lease_fn ?L j now = Inr l" "Job_Status l = StatusRunning" "Job_LeaseHolder l = h"
    by (cases "Job_Status j") (auto simp: lease_fn_def)
  from go [OF assms(2,4), of "lease_fn ?L" now l] l(1) obtain r1 where
    r1: "updateJob sv None now jid (lease_fn ?L) r = (Inr (l\<lparr>Job_UpdatedAt := now\<rparr>), r1)"
    "map_of (jobs_of r1) jid = Some (l\<lparr>Job_UpdatedAt := now\<rparr>)" "good (reg_store r1)" by auto
  from l(2,3) obtain k where k: "complete_fn ?C (l\<lparr>Job_UpdatedAt := now\<rparr>) later = Inr k" "Job_Status k = StatusSucceeded"
    by (auto simp: complete_fn_def)
  from go [OF r1(3,2), of "complete_fn ?C" later k] k(1) obtain r2 where
    r2: "updateJob sv None later jid (complete_fn ?C) r1 = (Inr (k\<lparr>Job_UpdatedAt := later\<rparr>), r2)"
    "map_of (jobs_of r2) jid = Some (k\<lparr>Job_UpdatedAt := later\<rparr>)" by auto
  from r1(1) r2 k(2) assms(6,8,9)
  show "\<exists>j1 r1 j2 r2. Lease sv None now ?L r = (Inr j1, r1) \<and> Complete sv None later ?C r1 = (Inr j2, r2) \<and>
      map_of (jobs_of r2) jid = Some j2 \<and> Job_Status j2 = StatusSucceeded"
    by (intro exI [of _ "l\<lparr>Job_UpdatedAt := now\<rparr>"] exI [of _ r1] exI [of _ "k\<lparr>Job_UpdatedAt := later\<rparr>"] exI [of _ r2])
      (simp add: Lease_def Complete_def)
qed

definition disk_writable :: "filesys \<Rightarrow> bool" where
  "disk_writable w \<longleftrightarrow> fs_path w \<noteq> [] \<and> fs_faults w = []"

lemma file_writable: "writable FileStore_Save disk_writable"
  by (simp add: writable_def disk_writable_def FileStore_Save_def next_fault_def)

definition abandoned_sample :: "filesys FileRegistry" where
  "abandoned_sample = fold (job_step FileStore_Save Create_Kind)
     [OpCreate None 10 sample_req, OpLease None 20 (lease_req ''w1'' 100)] (freshRegistry good_disk)"

lemma abandoned_sample_job:
  "disk_writable (reg_store abandoned_sample) \<and>
   map_option (\<lambda>j. (Job_Status j, Job_LeaseHolder j, Job_LeaseExpiresAt j)) (map_of (jobs_of abandoned_sample) ''job-1'') =
     Some (StatusRunning, ''w1'', Some 120)"
  by code_simp

lemma fold_ok: "reg_ok r \<Longrightarrow> reg_ok (fold (job_step sv dg) ops r)"
  by (induction ops arbitrary: r) (simp_all add: job_step_keeps)

text \<open>A job whose worker vanished at time 20 is taken over and completed by another after its lease.\<close>

theorem unfinished_job_can_finish_witness:
  "\<exists>j1 r1 j2 r2. Lease FileStore_Save None 150 (lease_req ''w2'' 50) abandoned_sample = (Inr j1, r1) \<and>
     Complete FileStore_Save None 160
       \<lparr>Comp_JobID = ''job-1'', Comp_Holder = ''w2'', Comp_Audit = Create_Audit sample_req\<rparr> r1 = (Inr j2, r2) \<and>
     map_of (jobs_of r2) ''job-1'' = Some j2 \<and> Job_Status j2 = StatusSucceeded"
proof -
  from abandoned_sample_job obtain j where w: "disk_writable (reg_store abandoned_sample)"
    and j: "map_of (jobs_of abandoned_sample) ''job-1'' = Some j" "Job_Status j = StatusRunning"
      "Job_LeaseExpiresAt j = Some 120" by auto
  have ok: "reg_ok abandoned_sample" unfolding abandoned_sample_def by (rule fold_ok) (rule fresh_ok)
  from j have e: "\<not> Status_Terminal (Job_Status j)" "Job_Status j \<noteq> StatusCanceling" "LeaseExpired j 150"
    by (simp_all add: LeaseExpired_def)
  show ?thesis
    unfolding lease_req_def
    by (rule unfinished_job_can_finish [OF file_writable w ok j(1) e(1), of crashedFailure "''w2''" 50 150 _ 160,
          THEN conjunct2, THEN conjunct2, THEN mp])
      (use e(2,3) in \<open>simp_all add: crashedFailure_def\<close>)
qed

end
