(* ===== verification/JobLog.thy ===== *)
theory JobLog
  imports JobProps
begin

text \<open>
  Package \<open>jobs/log\<close> (\<open>store.go\<close>) and the two registry methods above it: per-job append-only
  log files read in chunks by offset. The world of log files is a map from job identifiers to
  bytes; a fault parameter says which system call of an append fails, and how many bytes a
  failed write had already appended.
\<close>

datatype log_err = LogCtx ctx_err | LogInvalidID | LogEmptyDir | LogNegativeOffset | LogIO string

datatype log_fault = LogMkdir | LogOpen | LogSeek | LogWrite nat | LogSync

record LogStore =
  Log_Dir :: string
  Log_Files :: "(string \<times> string) list"

record Chunk =
  Chunk_Offset :: int
  Chunk_NextOffset :: int
  Chunk_TotalBytes :: int
  Chunk_Data :: string
  Chunk_EOF :: bool

definition DefaultReadLimit :: int where "DefaultReadLimit = 256 * 1024"
definition MaxReadLimit :: int where "MaxReadLimit = 16 * 1024 * 1024"

definition NormalizeLimit :: "int \<Rightarrow> int" where
  "NormalizeLimit limit = (if limit \<le> 0 then DefaultReadLimit
     else if limit > MaxReadLimit then MaxReadLimit else limit)"

definition fileBytes :: "LogStore \<Rightarrow> string \<Rightarrow> string" where
  "fileBytes s jid = (case map_of (Log_Files s) jid of None \<Rightarrow> [] | Some b \<Rightarrow> b)"

definition Append :: "log_fault option \<Rightarrow> ctx \<Rightarrow> string \<Rightarrow> string \<Rightarrow> LogStore \<Rightarrow> (log_err + int) \<times> LogStore" where
  "Append fault c jid data s =
     (case c of Some e \<Rightarrow> (Inl (LogCtx e), s) | None \<Rightarrow>
      if \<not> validID jid then (Inl LogInvalidID, s)
      else if Log_Dir s = [] then (Inl LogEmptyDir, s)
      else if fault = Some LogMkdir then (Inl (LogIO ''mkdir''), s)
      else if fault = Some LogOpen then (Inl (LogIO ''open''), s)
      else
        let old = fileBytes s jid;
            opened = s\<lparr>Log_Files := AList.update jid old (Log_Files s)\<rparr>
        in (case fault of
              Some LogSeek \<Rightarrow> (Inl (LogIO ''seek''), opened)
            | Some (LogWrite n) \<Rightarrow>
                (Inl (LogIO ''write''), s\<lparr>Log_Files := AList.update jid (old @ take n data) (Log_Files s)\<rparr>)
            | Some LogSync \<Rightarrow>
                (Inl (LogIO ''sync''), s\<lparr>Log_Files := AList.update jid (old @ data) (Log_Files s)\<rparr>)
            | _ \<Rightarrow> (Inr (int (length old) + int (length data)),
                    s\<lparr>Log_Files := AList.update jid (old @ data) (Log_Files s)\<rparr>)))"

definition ReadChunk :: "ctx \<Rightarrow> string \<Rightarrow> int \<Rightarrow> int \<Rightarrow> LogStore \<Rightarrow> log_err + Chunk" where
  "ReadChunk c jid offset limit0 s =
     (case c of Some e \<Rightarrow> Inl (LogCtx e) | None \<Rightarrow>
      if \<not> validID jid then Inl LogInvalidID
      else if Log_Dir s = [] then Inl LogEmptyDir
      else if offset < 0 then Inl LogNegativeOffset
      else
        let limit = NormalizeLimit limit0 in
        (case map_of (Log_Files s) jid of
           None \<Rightarrow> Inr \<lparr>Chunk_Offset = offset, Chunk_NextOffset = offset, Chunk_TotalBytes = 0,
                        Chunk_Data = [], Chunk_EOF = True\<rparr>
         | Some bytes \<Rightarrow>
             let total = int (length bytes) in
             if offset \<ge> total then
               Inr \<lparr>Chunk_Offset = offset, Chunk_NextOffset = offset, Chunk_TotalBytes = total,
                    Chunk_Data = [], Chunk_EOF = True\<rparr>
             else
               let buf = take (nat limit) (drop (nat offset) bytes);
                   nxt = offset + int (length buf)
               in Inr \<lparr>Chunk_Offset = offset, Chunk_NextOffset = nxt, Chunk_TotalBytes = total,
                       Chunk_Data = buf, Chunk_EOF = nxt \<ge> total\<rparr>))"

text \<open>The registry methods check the job first. The logs directory is the store's.\<close>

datatype joblog_err = RegErr job_err | StoreErr log_err

definition AppendLog ::
  "log_fault option \<Rightarrow> ctx \<Rightarrow> string \<Rightarrow> string \<Rightarrow> 'w FileRegistry \<Rightarrow> LogStore
     \<Rightarrow> (joblog_err + int) \<times> LogStore" where
  "AppendLog fault c jid data r s =
     (case c of Some e \<Rightarrow> (Inl (RegErr (ErrCtx e)), s) | None \<Rightarrow>
      if \<not> validID jid then (Inl (RegErr ErrInvalidRequest), s)
      else case Get c jid r of Inl e \<Rightarrow> (Inl (RegErr e), s)
      | Inr _ \<Rightarrow> if Log_Dir s = [] then (Inl (RegErr ErrInvalidRequest), s)
         else case Append fault c jid data s of
           (Inl e, s') \<Rightarrow> (Inl (StoreErr e), s') | (Inr n, s') \<Rightarrow> (Inr n, s'))"

definition ReadLog ::
  "ctx \<Rightarrow> string \<Rightarrow> int \<Rightarrow> int \<Rightarrow> 'w FileRegistry \<Rightarrow> LogStore \<Rightarrow> joblog_err + (Chunk \<times> bool)" where
  "ReadLog c jid offset limit r s =
     (case c of Some e \<Rightarrow> Inl (RegErr (ErrCtx e)) | None \<Rightarrow>
      if \<not> validID jid \<or> offset < 0 then Inl (RegErr ErrInvalidRequest)
      else case Get c jid r of Inl e \<Rightarrow> Inl (RegErr e)
      | Inr job \<Rightarrow> (case ReadChunk c jid offset limit s of
           Inl e \<Rightarrow> Inl (StoreErr e)
         | Inr ch \<Rightarrow> Inr (ch, Status_Terminal (Job_Status job))))"

section \<open>Reading a log page by page\<close>

lemma NormalizeLimit_pos: "0 < NormalizeLimit l \<and> NormalizeLimit l \<le> MaxReadLimit"
  by (simp add: NormalizeLimit_def DefaultReadLimit_def MaxReadLimit_def)

text \<open>A client that follows \<open>NextOffset\<close> for at most \<open>n\<close> pages, stopping at the end of file.\<close>

fun follow :: "nat \<Rightarrow> string \<Rightarrow> int \<Rightarrow> int \<Rightarrow> LogStore \<Rightarrow> string" where
  "follow 0 jid off limit s = []"
| "follow (Suc n) jid off limit s =
     (case ReadChunk None jid off limit s of
        Inl _ \<Rightarrow> []
      | Inr ch \<Rightarrow> Chunk_Data ch @ (if Chunk_EOF ch then [] else follow n jid (Chunk_NextOffset ch) limit s))"

lemma ReadChunk_slice:
  assumes "validID jid" "Log_Dir s \<noteq> []" "0 \<le> off" "ReadChunk None jid off limit s = Inr ch"
  shows "Chunk_Data ch = take (nat (NormalizeLimit limit)) (drop (nat off) (fileBytes s jid)) \<and>
    Chunk_NextOffset ch = off + int (length (Chunk_Data ch)) \<and>
    (Chunk_EOF ch \<longleftrightarrow> Chunk_NextOffset ch \<ge> int (length (fileBytes s jid)))"
  using assms by (auto simp: ReadChunk_def Let_def fileBytes_def split: option.splits if_splits)

lemma ReadChunk_total:
  assumes "validID jid" "Log_Dir s \<noteq> []" "0 \<le> off"
  shows "\<exists>ch. ReadChunk None jid off limit s = Inr ch"
  using assms by (auto simp: ReadChunk_def Let_def split: option.splits)

text \<open>
  Chunked reading loses nothing and repeats nothing. For a valid job identifier, a
  configured directory and any limit (zero, negative and oversized ones included), following
  \<open>NextOffset\<close> from any offset until the end of file returns exactly the bytes of the log from
  that offset on, within one page per byte at the latest.
\<close>

theorem log_pages_reassemble:
  assumes "validID jid" "Log_Dir s \<noteq> []" "0 \<le> off"
    and "int (length (fileBytes s jid)) - off < int n"
    and "0 < n"
  shows "follow n jid off limit s = drop (nat off) (fileBytes s jid)"
  using assms
proof (induction n arbitrary: off)
  case 0
  then show ?case by simp
next
  case (Suc n)
  let ?b = "fileBytes s jid" and ?L = "nat (NormalizeLimit limit)"
  from ReadChunk_total [OF Suc.prems(1-3)] obtain ch where ch: "ReadChunk None jid off limit s = Inr ch" by blast
  note slice = ReadChunk_slice [OF Suc.prems(1-3) ch]
  have L: "0 < ?L" using NormalizeLimit_pos [of limit] by simp
  show ?case
  proof (cases "Chunk_EOF ch")
    case True
    with slice Suc.prems(3) have "length (drop (nat off) ?b) \<le> ?L" by auto
    with True ch slice show ?thesis by simp
  next
    case False
    define d where "d = length (Chunk_Data ch)"
    have lt: "off + int d < int (length ?b)" using False slice by (simp add: d_def)
    then have d: "d = ?L" using slice Suc.prems(3) by (auto simp: d_def)
    have "follow n jid (off + int d) limit s = drop (nat (off + int d)) ?b"
      using Suc.prems lt d L by (intro Suc.IH) auto
    moreover have "nat (off + int d) = d + nat off" using Suc.prems(3) by simp
    ultimately show ?thesis
      using False ch slice d by (simp add: d_def [symmetric] append_take_drop_id flip: drop_drop)
  qed
qed

definition two_line_log :: LogStore where
  "two_line_log = \<lparr>Log_Dir = ''/logs'', Log_Files = [(''job-1'', ''hello world'')]\<rparr>"

theorem log_pages_reassemble_witness: "follow 12 ''job-1'' 0 4 two_line_log = ''hello world''"
proof -
  have "validID ''job-1''" by code_simp
  from log_pages_reassemble [OF this, of two_line_log 0 12 4] show ?thesis
    by (simp add: two_line_log_def fileBytes_def)
qed

text \<open>
  Appending is atomic for readers up to the fault: a successful append returns the new end
  of file and leaves the old bytes followed by the new ones; a failing append leaves the old bytes
  followed by a prefix of the new ones; the logs of other jobs are never touched.
\<close>

theorem log_append_only:
  "\<exists>k. fileBytes (snd (Append fault c jid data s)) jid = fileBytes s jid @ take k data \<and>
    (\<forall>n. fst (Append fault c jid data s) = Inr n \<longrightarrow>
        fileBytes (snd (Append fault c jid data s)) jid = fileBytes s jid @ data \<and>
        n = int (length (fileBytes s jid @ data))) \<and>
    (\<forall>other. other \<noteq> jid \<longrightarrow> fileBytes (snd (Append fault c jid data s)) other = fileBytes s other)"
proof -
  have z: "\<exists>k. [] = take k data" "\<exists>k. data = take k data" by (metis take0) (metis take_all order_refl)
  show ?thesis
    using z
    by (auto simp: Append_def Let_def fileBytes_def split: option.splits log_fault.splits)
qed

theorem log_append_only_witness:
  "fst (Append None None ''job-1'' ''!'' two_line_log) = Inr 12 \<and>
   fileBytes (snd (Append None None ''job-1'' ''!'' two_line_log)) ''job-1'' = ''hello world!''"
proof -
  have "fst (Append None None ''job-1'' ''!'' two_line_log) = Inr 12" by code_simp
  with log_append_only [of None None "''job-1''" "''!''" two_line_log] show ?thesis
    by (auto simp: two_line_log_def fileBytes_def)
qed

end
