(* ===== verification/Cron.thy ===== *)
theory Cron
  imports GoTime
begin

text \<open>
  Package \<open>scheduler\<close>, \<open>cron.go\<close>: parsing of five-field cron expressions and the search for the
  next matching minute. A field is the list of the values it allows, in the order in which the
  parser sets them. The loop over a stepped range runs on 64-bit integers that wrap around, so
  it is a partial function whose termination on the parser's inputs is a theorem.
\<close>

datatype cron_err = CronFiveFields | CronEmptyPart | CronStep | CronNumber | CronOutside
  | CronRangeOrder | CronNoDay

record cronExpr =
  minute :: "int list"
  hour :: "int list"
  dayOfMonth :: "int list"
  month :: "int list"
  dayOfWeek :: "int list"
  dayOfMonthRestricted :: bool
  dayOfWeekRestricted :: bool

section \<open>Parsing\<close>

definition parseCronNumber :: "string \<Rightarrow> int \<Rightarrow> int \<Rightarrow> cron_err + int" where
  "parseCronNumber raw lo hi = (case Atoi raw of None \<Rightarrow> Inl CronNumber
     | Some v \<Rightarrow> if v < lo \<or> v > hi then Inl CronOutside else Inr v)"

definition cronRange :: "string \<Rightarrow> int \<Rightarrow> int \<Rightarrow> cron_err + int \<times> int" where
  "cronRange raw lo hi =
     (if raw = ''*'' then Inr (lo, hi)
      else case Cut raw (CHR ''-'') of
        Some (startRaw, endRaw) \<Rightarrow>
          (case parseCronNumber startRaw lo hi of Inl e \<Rightarrow> Inl e
           | Inr start \<Rightarrow> (case parseCronNumber endRaw lo hi of Inl e \<Rightarrow> Inl e
             | Inr ende \<Rightarrow> if start > ende then Inl CronRangeOrder else Inr (start, ende)))
      | None \<Rightarrow> (case parseCronNumber raw lo hi of Inl e \<Rightarrow> Inl e | Inr v \<Rightarrow> Inr (v, v)))"

text \<open>\<open>for value := start; value <= end; value += step\<close>, with the wrap-around of \<open>int\<close>.\<close>

partial_function (option) stepValues :: "int \<Rightarrow> int \<Rightarrow> int \<Rightarrow> int list \<Rightarrow> int list option" where
  "stepValues v ende step acc =
     (if v \<le> ende then stepValues (wrap64 (v + step)) ende step (v # acc) else Some (rev acc))"

definition parsePart :: "string \<Rightarrow> int \<Rightarrow> int \<Rightarrow> (cron_err + int list) option" where
  "parsePart raw lo hi =
     (let part = TrimSpace raw in
      if part = [] then Some (Inl CronEmptyPart)
      else
        let stepped = (case Cut part (CHR ''/'') of
            None \<Rightarrow> Inr (part, 1)
          | Some (before, after) \<Rightarrow>
              (case Atoi after of None \<Rightarrow> Inl CronStep
               | Some n \<Rightarrow> if n \<le> 0 then Inl CronStep else Inr (before, n)))
        in (case stepped of Inl e \<Rightarrow> Some (Inl e)
            | Inr (rng, step) \<Rightarrow>
                (case cronRange rng lo hi of Inl e \<Rightarrow> Some (Inl e)
                 | Inr (start, ende) \<Rightarrow> map_option Inr (stepValues start ende step []))))"

fun parseParts :: "string list \<Rightarrow> int \<Rightarrow> int \<Rightarrow> int list \<Rightarrow> (cron_err + int list) option" where
  "parseParts [] lo hi acc = Some (Inr acc)"
| "parseParts (p # ps) lo hi acc =
     (case parsePart p lo hi of None \<Rightarrow> None
      | Some (Inl e) \<Rightarrow> Some (Inl e)
      | Some (Inr vs) \<Rightarrow> parseParts ps lo hi (acc @ vs))"

definition parseCronField :: "string \<Rightarrow> int \<Rightarrow> int \<Rightarrow> (cron_err + int list) option" where
  "parseCronField raw lo hi = parseParts (Split raw (CHR '','')) lo hi []"

definition daysInMonth :: "int \<Rightarrow> int" where
  "daysInMonth m = [31, 29, 31, 30, 31, 30, 31, 31, 30, 31, 30, 31] ! nat (m - 1)"

definition validateDayMonthCombination :: "int list \<Rightarrow> int list \<Rightarrow> bool \<Rightarrow> bool" where
  "validateDayMonthCombination doms mons dowRestricted =
     (dowRestricted \<or>
      list_ex (\<lambda>m. \<not> (m < 1 \<or> m > 12) \<and> list_ex (\<lambda>d. d \<le> daysInMonth m) doms) mons)"

text \<open>Sequencing of the five fields: the first error wins, and a loop that does not return is None.\<close>

definition bindField ::
  "(cron_err + 'a) option \<Rightarrow> ('a \<Rightarrow> (cron_err + 'b) option) \<Rightarrow> (cron_err + 'b) option" where
  "bindField m f = (case m of None \<Rightarrow> None | Some (Inl e) \<Rightarrow> Some (Inl e) | Some (Inr x) \<Rightarrow> f x)"

definition parseCron :: "string \<Rightarrow> (cron_err + cronExpr) option" where
  "parseCron expr =
     (case Fields expr of
        [p0, p1, p2, p3, p4] \<Rightarrow>
          bindField (parseCronField p0 0 59) (\<lambda>mi.
          bindField (parseCronField p1 0 23) (\<lambda>ho.
          bindField (parseCronField p2 1 31) (\<lambda>doms.
          bindField (parseCronField p3 1 12) (\<lambda>mons.
          bindField (parseCronField p4 0 6) (\<lambda>dow.
            let domR = TrimSpace p2 \<noteq> ''*''; dowR = TrimSpace p4 \<noteq> ''*''
            in if \<not> validateDayMonthCombination doms mons dowR then Some (Inl CronNoDay)
               else Some (Inr \<lparr>minute = mi, hour = ho, dayOfMonth = doms, month = mons, dayOfWeek = dow,
                               dayOfMonthRestricted = domR, dayOfWeekRestricted = dowR\<rparr>))))))
      | _ \<Rightarrow> Some (Inl CronFiveFields))"

section \<open>Matching and the next run\<close>

definition cron_matches :: "cronExpr \<Rightarrow> time \<Rightarrow> bool" where
  "cron_matches c t =
     (if Minute t \<notin> set (minute c) then False
      else if Hour t \<notin> set (hour c) then False
      else if Month t \<notin> set (month c) then False
      else let domMatch = Day t \<in> set (dayOfMonth c); dowMatch = Weekday t \<in> set (dayOfWeek c)
           in if dayOfMonthRestricted c \<and> dayOfWeekRestricted c then domMatch \<or> dowMatch
              else domMatch \<and> dowMatch)"

function nextFrom :: "cronExpr \<Rightarrow> time \<Rightarrow> time \<Rightarrow> time" where
  "nextFrom c candidate deadline =
     (if candidate > deadline then 0
      else if cron_matches c candidate then candidate
      else nextFrom c (candidate + nsPerMinute) deadline)"
  by pat_completeness auto
termination
  by (relation "measure (\<lambda>(c, candidate, deadline). nat (deadline + 1 - candidate))")
    (auto simp: nsPerMinute_def)

declare nextFrom.simps [simp del]

definition firstCandidate :: "time \<Rightarrow> time" where
  "firstCandidate after = truncMinute after + nsPerMinute"

definition cronNext :: "cronExpr \<Rightarrow> time \<Rightarrow> time" where
  "cronNext c after =
     (let candidate = firstCandidate after in nextFrom c candidate (addYears candidate 5))"

section \<open>The stepped range\<close>

declare stepValues.simps [code]

lemma wrap64_over:
  assumes "2 ^ 63 \<le> n" "n < 2 ^ 64 + 2 ^ 63"
  shows "wrap64 n = n - 2 ^ 64"
proof -
  have "(n + 2 ^ 63) mod 2 ^ 64 = (n + 2 ^ 63 - 2 ^ 64) mod 2 ^ 64"
    by (rule minus_mod_self2 [symmetric])
  also have "\<dots> = n + 2 ^ 63 - 2 ^ 64"
    using assms by (intro mod_pos_pos_trivial) auto
  finally show ?thesis by (simp add: wrap64_def)
qed

lemma stepValues_stop: "\<not> v \<le> e \<Longrightarrow> stepValues v e s acc = Some (rev acc)"
  by (simp add: stepValues.simps)

text \<open>Without wrap-around the loop visits the arithmetic progression from \<open>start\<close> up to \<open>end\<close>.\<close>

lemma stepValues_progression:
  assumes "0 \<le> v" "0 < s" "e + s < 2 ^ 63"
  shows "\<exists>vs. stepValues v e s acc = Some (rev acc @ vs) \<and>
     set vs = {x. v \<le> x \<and> x \<le> e \<and> s dvd (x - v)}"
  using assms
proof (induction "nat (e + 1 - v)" arbitrary: v acc rule: less_induct)
  case less
  show ?case
  proof (cases "v \<le> e")
    case False
    then have "{x. v \<le> x \<and> x \<le> e \<and> s dvd (x - v)} = {}" by auto
    with False show ?thesis by (simp add: stepValues_stop)
  next
    case True
    with less.prems have w: "wrap64 (v + s) = v + s" by (intro wrap64_small) auto
    have "nat (e + 1 - (v + s)) < nat (e + 1 - v)" using True less.prems by simp
    from less.hyps [OF this, of "v # acc"] less.prems obtain vs where
      vs: "stepValues (v + s) e s (v # acc) = Some (rev (v # acc) @ vs)"
        "set vs = {x. v + s \<le> x \<and> x \<le> e \<and> s dvd (x - (v + s))}" by auto
    have "insert v {x. v + s \<le> x \<and> x \<le> e \<and> s dvd (x - (v + s))} =
          {x. v \<le> x \<and> x \<le> e \<and> s dvd (x - v)}" (is "?l = ?r")
    proof (intro set_eqI iffI)
      fix x assume "x \<in> ?l"
      then show "x \<in> ?r"
      proof
        assume "x = v" with True show ?thesis by simp
      next
        assume x: "x \<in> {x. v + s \<le> x \<and> x \<le> e \<and> s dvd (x - (v + s))}"
        then have "s dvd (x - (v + s)) + s" by (intro dvd_add) auto
        moreover have "(x - (v + s)) + s = x - v" by simp
        ultimately show ?thesis using x less.prems by auto
      qed
    next
      fix x assume x: "x \<in> ?r"
      show "x \<in> ?l"
      proof (cases "x = v")
        case False
        with x have "0 < x - v" "s dvd x - v" by auto
        then have "s \<le> x - v" by (metis zdvd_imp_le)
        moreover from x have "s dvd (x - v) - s" by (auto intro!: dvd_diff [of s "x - v" s])
        ultimately show ?thesis using x by (auto simp: diff_diff_eq)
      qed simp
    qed
    then have "set (v # vs) = {x. v \<le> x \<and> x \<le> e \<and> s dvd (x - v)}" using vs(2) by simp
    moreover have "stepValues v e s acc = Some (rev acc @ v # vs)"
      using True vs(1) w by (simp add: stepValues.simps [of v])
    ultimately show ?thesis by blast
  qed
qed

text \<open>
  With wrap-around (a step within \<open>end\<close> of the largest integer) the loop still returns: every two
  rounds it falls back by twice the distance of the step from \<open>2 ^ 63\<close>.
\<close>

definition wrapMeasure :: "int \<Rightarrow> int \<Rightarrow> int \<Rightarrow> nat" where
  "wrapMeasure e s v = (if v > e then 0 else if 0 \<le> v then nat (2 * v) + 3
     else if v + s < 0 then 2 else if v + s > e then 1 else nat (2 * (v + s)) + 4)"

lemma wrapMeasure_decreases:
  assumes "0 \<le> e" "e \<le> 59" "2 ^ 63 \<le> e + s" "s < 2 ^ 63" "- (2 ^ 63) \<le> v" "v \<le> e"
  shows "wrapMeasure e s (wrap64 (v + s)) < wrapMeasure e s v \<and> - (2 ^ 63) \<le> wrap64 (v + s)"
proof (cases "v + s < 2 ^ 63")
  case True
  with assms have "wrap64 (v + s) = v + s" by (intro wrap64_small) auto
  with True assms show ?thesis by (auto simp: wrapMeasure_def)
next
  case False
  with assms have "wrap64 (v + s) = v + s - 2 ^ 64" by (intro wrap64_over) auto
  with False assms show ?thesis by (auto simp: wrapMeasure_def)
qed

lemma stepValues_wrapping_returns:
  assumes "0 \<le> e" "e \<le> 59" "2 ^ 63 \<le> e + s" "s < 2 ^ 63" "- (2 ^ 63) \<le> v"
  shows "\<exists>vs. stepValues v e s acc = Some vs"
  using assms(5)
proof (induction "wrapMeasure e s v" arbitrary: v acc rule: less_induct)
  case less
  show ?case
  proof (cases "v \<le> e")
    case False
    then show ?thesis by (simp add: stepValues_stop)
  next
    case True
    note d = wrapMeasure_decreases [OF assms(1-4) less.prems True]
    from less.hyps [of "wrap64 (v + s)" "v # acc"] d obtain vs where
      "stepValues (wrap64 (v + s)) e s (v # acc) = Some vs" by blast
    with True show ?thesis by (simp add: stepValues.simps [of v])
  qed
qed

lemma stepValues_returns:
  assumes "0 \<le> v" "0 \<le> e" "e \<le> 59" "0 < s" "s < 2 ^ 63"
  shows "\<exists>vs. stepValues v e s acc = Some vs"
proof (cases "e + s < 2 ^ 63")
  case True
  with stepValues_progression [of v s e acc] assms show ?thesis by blast
next
  case False
  with assms show ?thesis by (intro stepValues_wrapping_returns) auto
qed

section \<open>Totality of the parser\<close>

lemma Atoi_range: "Atoi s = Some v \<Longrightarrow> - (2 ^ 63) \<le> v \<and> v < 2 ^ 63"
  by (auto simp: Atoi_def Let_def split: if_splits)

lemma parseCronNumber_range: "parseCronNumber raw lo hi = Inr v \<Longrightarrow> lo \<le> v \<and> v \<le> hi"
  by (auto simp: parseCronNumber_def split: option.splits if_splits)

lemma cronRange_range:
  "lo \<le> hi \<Longrightarrow> cronRange raw lo hi = Inr (a, b) \<Longrightarrow> lo \<le> a \<and> a \<le> b \<and> b \<le> hi"
  by (auto simp: cronRange_def dest!: parseCronNumber_range split: if_splits option.splits sum.splits)

lemma parsePart_returns:
  assumes "0 \<le> lo" "lo \<le> hi" "hi \<le> 59"
  shows "\<exists>x. parsePart raw lo hi = Some x"
proof -
  have "\<exists>vs. stepValues a b s [] = Some vs"
    if "cronRange r lo hi = Inr (a, b)" "0 < s" "s < 2 ^ 63" for r a b s
    using cronRange_range [OF assms(2) that(1)] that assms by (intro stepValues_returns) auto
  then show ?thesis
    by (force simp: parsePart_def Let_def split: option.splits sum.splits if_splits dest: Atoi_range)
qed

lemma parseParts_returns:
  "0 \<le> lo \<Longrightarrow> lo \<le> hi \<Longrightarrow> hi \<le> 59 \<Longrightarrow> \<exists>x. parseParts ps lo hi acc = Some x"
proof (induction ps arbitrary: acc)
  case Nil
  then show ?case by simp
next
  case (Cons p ps)
  from parsePart_returns [OF Cons.prems] obtain x where "parsePart p lo hi = Some x" by blast
  with Cons show ?case by (cases x) auto
qed

lemma parseCronField_returns:
  "0 \<le> lo \<Longrightarrow> lo \<le> hi \<Longrightarrow> hi \<le> 59 \<Longrightarrow> \<exists>x. parseCronField raw lo hi = Some x"
  unfolding parseCronField_def by (rule parseParts_returns)

lemma bindField_returns:
  "(\<exists>x. m = Some x) \<Longrightarrow> (\<And>x. \<exists>y. f x = Some y) \<Longrightarrow> \<exists>y. bindField m f = Some y"
  by (auto simp: bindField_def split: option.splits sum.splits)

end
