(* ===== verification/CronProps.thy ===== *)
theory CronProps
  imports Cron
begin

text \<open>
  What cron expressions mean: the parser always returns, a field denotes the union of its
  stepped ranges, the two day fields combine as a union when both are restricted, and the next
  run is the earliest matching minute within five years. The last section shows what the missing
  overflow check of the range loop lets through.
\<close>

section \<open>The parser\<close>

text \<open>
  C11. The parser is total: on every string, whatever its fields, ranges and 64-bit steps, all
  the range loops stop and \<open>parseCron\<close> returns an expression or an error.
\<close>

theorem parse_cron_total: "\<exists>r. parseCron expr = Some r"
proof -
  have f: "\<exists>x. parseCronField p 0 59 = Some x" "\<exists>x. parseCronField p 0 23 = Some x"
    "\<exists>x. parseCronField p 1 31 = Some x" "\<exists>x. parseCronField p 1 12 = Some x"
    "\<exists>x. parseCronField p 0 6 = Some x" for p
    by (rule parseCronField_returns; simp)+
  have "\<exists>r. bindField (parseCronField p0 0 59) (\<lambda>mi. bindField (parseCronField p1 0 23) (\<lambda>ho.
     bindField (parseCronField p2 1 31) (\<lambda>d. bindField (parseCronField p3 1 12) (\<lambda>m.
     bindField (parseCronField p4 0 6) (\<lambda>w. g mi ho d m w))))) = Some r"
    if "\<And>mi ho d m w. \<exists>y. g mi ho d m w = Some y"
    for p0 p1 p2 p3 p4 and g :: "int list \<Rightarrow> int list \<Rightarrow> int list \<Rightarrow> int list \<Rightarrow> int list \<Rightarrow> (cron_err + cronExpr) option"
    by (intro bindField_returns f that)
  then show ?thesis
    by (auto simp: parseCron_def Let_def split: list.splits)
qed

text \<open>The set a comma-separated part stands for, with mathematical integers.\<close>

definition partStep :: "string \<Rightarrow> int" where
  "partStep p = (case Cut (TrimSpace p) (CHR ''/'') of None \<Rightarrow> 1
     | Some (_, after) \<Rightarrow> (case Atoi after of None \<Rightarrow> 0 | Some n \<Rightarrow> n))"

definition partRange :: "string \<Rightarrow> string" where
  "partRange p = (case Cut (TrimSpace p) (CHR ''/'') of None \<Rightarrow> TrimSpace p | Some (before, _) \<Rightarrow> before)"

definition partDenotes :: "int \<Rightarrow> int \<Rightarrow> string \<Rightarrow> int set" where
  "partDenotes lo hi p = (case cronRange (partRange p) lo hi of Inl _ \<Rightarrow> {}
     | Inr (a, b) \<Rightarrow> {x. a \<le> x \<and> x \<le> b \<and> partStep p dvd (x - a)})"

lemma parsePart_denotes:
  assumes "0 \<le> lo" "lo \<le> hi" "hi + partStep p < 2 ^ 63" "parsePart p lo hi = Some (Inr vs)"
  shows "set vs = partDenotes lo hi p"
proof -
  from assms(4) obtain a b where r: "cronRange (partRange p) lo hi = Inr (a, b)"
    and s: "stepValues a b (partStep p) [] = Some vs" and pos: "0 < partStep p"
    by (auto simp: parsePart_def Let_def partStep_def partRange_def
        split: option.splits sum.splits if_splits)
  from cronRange_range [OF assms(2) r] have "lo \<le> a" "a \<le> b" "b \<le> hi" by auto
  with stepValues_progression [of a "partStep p" b "[]"] pos assms(1,3) s r show ?thesis
    by (auto simp: partDenotes_def)
qed

lemma parseParts_denotes:
  assumes "0 \<le> lo" "lo \<le> hi" "\<forall>p \<in> set ps. hi + partStep p < 2 ^ 63"
    and "parseParts ps lo hi acc = Some (Inr vs)"
  shows "set vs = set acc \<union> (\<Union>p \<in> set ps. partDenotes lo hi p)"
  using assms(3,4)
proof (induction ps arbitrary: acc)
  case Nil
  then show ?case by simp
next
  case (Cons p ps)
  then obtain ws where w: "parsePart p lo hi = Some (Inr ws)" "parseParts ps lo hi (acc @ ws) = Some (Inr vs)"
    by (auto split: option.splits sum.splits)
  from parsePart_denotes [OF assms(1,2) _ w(1)] Cons.prems(1) Cons.IH [OF _ w(2)]
  show ?case by auto
qed

lemma partDenotes_bounds: "lo \<le> hi \<Longrightarrow> partDenotes lo hi p \<subseteq> {lo..hi}"
  by (auto simp: partDenotes_def split: sum.splits dest: cronRange_range)

text \<open>
  A parsed field means what cron says. If no step reaches within the field's maximum of the
  64-bit limit, the values a successful parse allows are exactly the union, over the
  comma-separated parts, of the arithmetic progressions from the start of the range to its end by
  the step; in particular every value lies within the bounds of the field.
\<close>

theorem cron_field_denotes:
  assumes "parseCronField raw lo hi = Some (Inr vs)" "0 \<le> lo" "lo \<le> hi"
    and "\<forall>p \<in> set (Split raw (CHR '','')). hi + partStep p < 2 ^ 63"
  shows "set vs = (\<Union>p \<in> set (Split raw (CHR '','')). partDenotes lo hi p) \<and> set vs \<subseteq> {lo..hi}"
proof -
  have "set vs = (\<Union>p \<in> set (Split raw (CHR '','')). partDenotes lo hi p)"
    using parseParts_denotes [OF assms(2,3,4), of "[]" vs] assms(1) by (simp add: parseCronField_def)
  moreover have "\<dots> \<subseteq> {lo..hi}" using partDenotes_bounds [OF assms(3)] by blast
  ultimately show ?thesis by simp
qed

theorem cron_field_denotes_witness:
  "parseCronField ''*/20,5'' 0 59 = Some (Inr [0, 20, 40, 5]) \<and> set [0, 20, 40, 5 :: int] \<subseteq> {0..59}"
proof -
  have p: "parseCronField ''*/20,5'' 0 59 = Some (Inr [0, 20, 40, 5])" by code_simp
  have "list_all (\<lambda>p. 59 + partStep p < 2 ^ 63) (Split ''*/20,5'' (CHR '',''))" by code_simp
  then have "\<forall>p \<in> set (Split ''*/20,5'' (CHR '','')). 59 + partStep p < 2 ^ 63"
    by (simp add: list_all_iff)
  from cron_field_denotes [OF p _ _ this] have "set [0, 20, 40, 5 :: int] \<subseteq> {0..59}" by linarith
  with p show ?thesis by blast
qed

section \<open>The day rule\<close>

lemma Day_bounds: "1 \<le> Day t \<and> Day t \<le> 31"
proof -
  have "1 \<le> doy - (153 * ((5 * doy + 2) div 153) + 2) div 5 + 1 \<and>
        doy - (153 * ((5 * doy + 2) div 153) + 2) div 5 + 1 \<le> 31" for doy :: int
  proof -
    define q where "q = (5 * doy + 2) div 153"
    define r where "r = (153 * q + 2) div 5"
    have "153 * q \<le> 5 * doy + 2 \<and> 5 * doy + 2 < 153 * q + 153" unfolding q_def by linarith
    moreover have "5 * r \<le> 153 * q + 2 \<and> 153 * q + 2 < 5 * r + 5" unfolding r_def by linarith
    ultimately show ?thesis unfolding q_def [symmetric] r_def [symmetric] by linarith
  qed
  moreover have "\<exists>doy. Day t = doy - (153 * ((5 * doy + 2) div 153) + 2) div 5 + 1"
    unfolding Day_def civil_from_days_def Let_def snd_conv by (rule exI, rule refl)
  ultimately show ?thesis by metis
qed

lemma Weekday_bounds: "0 \<le> Weekday t \<and> Weekday t \<le> 6"
  by (simp add: Weekday_def)

lemma star_dom: "parseCronField ''*'' 1 31 = Some (Inr vs) \<Longrightarrow> Day t \<in> set vs"
proof -
  assume "parseCronField ''*'' 1 31 = Some (Inr vs)"
  moreover have "parseCronField ''*'' 1 31 = Some (Inr [1..31])" by code_simp
  ultimately show ?thesis using Day_bounds [of t] by auto
qed

lemma star_dow: "parseCronField ''*'' 0 6 = Some (Inr vs) \<Longrightarrow> Weekday t \<in> set vs"
proof -
  assume "parseCronField ''*'' 0 6 = Some (Inr vs)"
  moreover have "parseCronField ''*'' 0 6 = Some (Inr [0..6])" by code_simp
  ultimately show ?thesis using Weekday_bounds [of t] by auto
qed

lemma trim_star: "TrimSpace ''*'' = ''*''"
  by code_simp

lemma bindField_Inr: "bindField m f = Some (Inr y) \<longleftrightarrow> (\<exists>x. m = Some (Inr x) \<and> f x = Some (Inr y))"
  by (auto simp: bindField_def split: option.splits sum.splits)

lemma parseCron_fields:
  assumes "parseCron expr = Some (Inr c)" "Fields expr = [p0, p1, p2, p3, p4]"
  shows "parseCronField p0 0 59 = Some (Inr (minute c)) \<and> parseCronField p1 0 23 = Some (Inr (hour c)) \<and>
    parseCronField p2 1 31 = Some (Inr (dayOfMonth c)) \<and> parseCronField p3 1 12 = Some (Inr (month c)) \<and>
    parseCronField p4 0 6 = Some (Inr (dayOfWeek c)) \<and>
    dayOfMonthRestricted c = (TrimSpace p2 \<noteq> ''*'') \<and> dayOfWeekRestricted c = (TrimSpace p4 \<noteq> ''*'') \<and>
    validateDayMonthCombination (dayOfMonth c) (month c) (dayOfWeekRestricted c)"
  using assms by (auto simp: parseCron_def Let_def bindField_Inr split: if_splits)

text \<open>
  The day rule of the accepted expressions. An instant matches iff its minute, hour and month
  are allowed and its day is: on the day-of-month axis alone when the day-of-week token is the
  asterisk, on the day-of-week axis alone when the day-of-month token is, and on either axis (not
  both) when neither token is the asterisk.
\<close>

theorem cron_day_rule:
  assumes "parseCron expr = Some (Inr c)" "Fields expr = [p0, p1, p2, p3, p4]"
  shows "cron_matches c t \<longleftrightarrow>
    Minute t \<in> set (minute c) \<and> Hour t \<in> set (hour c) \<and> Month t \<in> set (month c) \<and>
    (if p4 = ''*'' then Day t \<in> set (dayOfMonth c)
     else if p2 = ''*'' then Weekday t \<in> set (dayOfWeek c)
     else if TrimSpace p2 \<noteq> ''*'' \<and> TrimSpace p4 \<noteq> ''*''
          then Day t \<in> set (dayOfMonth c) \<or> Weekday t \<in> set (dayOfWeek c)
     else Day t \<in> set (dayOfMonth c) \<and> Weekday t \<in> set (dayOfWeek c))"
  using parseCron_fields [OF assms] star_dom [of "dayOfMonth c" t] star_dow [of "dayOfWeek c" t]
  by (auto simp: cron_matches_def Let_def trim_star)

definition monday_or_15 :: cronExpr where
  "monday_or_15 = (case parseCron ''0 12 15 * 1'' of Some (Inr c) \<Rightarrow> c
     | _ \<Rightarrow> \<lparr>minute = [], hour = [], dayOfMonth = [], month = [], dayOfWeek = [],
             dayOfMonthRestricted = False, dayOfWeekRestricted = False\<rparr>)"

lemma monday_or_15_value:
  "parseCron ''0 12 15 * 1'' = Some (Inr \<lparr>minute = [0], hour = [12], dayOfMonth = [15], month = [1..12],
     dayOfWeek = [1], dayOfMonthRestricted = True, dayOfWeekRestricted = True\<rparr>)"
  by code_simp

text \<open>Monday 2 June 2025 and Sunday 15 June 2025 both match; Tuesday 3 June does not.\<close>

theorem cron_day_rule_witness:
  "cron_matches monday_or_15 (dateTime 2025 6 2 12 0) \<and> cron_matches monday_or_15 (dateTime 2025 6 15 12 0) \<and>
   \<not> cron_matches monday_or_15 (dateTime 2025 6 3 12 0)"
proof -
  have f: "Fields ''0 12 15 * 1'' = [''0'', ''12'', ''15'', ''*'', ''1'']" by code_simp
  have p: "parseCron ''0 12 15 * 1'' = Some (Inr monday_or_15)"
    by (simp add: monday_or_15_def monday_or_15_value)
  have s: "TrimSpace ''15'' = ''15''" "TrimSpace ''1'' = ''1''" by code_simp+
  have m: "minute monday_or_15 = [0]" "hour monday_or_15 = [12]" "month monday_or_15 = [1..12]"
    "dayOfMonth monday_or_15 = [15]" "dayOfWeek monday_or_15 = [1]"
    by (simp_all add: monday_or_15_def monday_or_15_value)
  have d: "Minute (dateTime 2025 6 2 12 0) = 0" "Hour (dateTime 2025 6 2 12 0) = 12" "Month (dateTime 2025 6 2 12 0) = 6"
    "Weekday (dateTime 2025 6 2 12 0) = 1"
    "Minute (dateTime 2025 6 15 12 0) = 0" "Hour (dateTime 2025 6 15 12 0) = 12" "Month (dateTime 2025 6 15 12 0) = 6"
    "Day (dateTime 2025 6 15 12 0) = 15"
    "Day (dateTime 2025 6 3 12 0) = 3" "Weekday (dateTime 2025 6 3 12 0) = 2"
    by code_simp+
  show ?thesis using cron_day_rule [OF p f] by (simp add: m d s)
qed

section \<open>The next run\<close>

lemma nextFrom_earliest:
  assumes "0 < cand"
  shows "(nextFrom c cand dl = 0 \<and> (\<forall>k. cand + int k * nsPerMinute \<le> dl \<longrightarrow> \<not> cron_matches c (cand + int k * nsPerMinute)))
     \<or> (\<exists>k. nextFrom c cand dl = cand + int k * nsPerMinute \<and> cand + int k * nsPerMinute \<le> dl \<and>
          cron_matches c (cand + int k * nsPerMinute) \<and>
          (\<forall>j < k. \<not> cron_matches c (cand + int j * nsPerMinute)))"
  using assms
proof (induction c cand dl rule: nextFrom.induct)
  case (1 c cand dl)
  have step: "cand + nsPerMinute + int k * nsPerMinute = cand + int (Suc k) * nsPerMinute" for k
    by (simp add: algebra_simps)
  consider "dl < cand" | "cand \<le> dl" "cron_matches c cand" | "cand \<le> dl" "\<not> cron_matches c cand" by linarith
  then show ?case
  proof cases
    case 1
    moreover have "0 \<le> int k * nsPerMinute" for k by (simp add: nsPerMinute_def)
    ultimately have "\<not> cand + int k * nsPerMinute \<le> dl" for k by (smt (verit))
    with 1 show ?thesis by (simp add: nextFrom.simps [of c cand])
  next
    case 2
    then show ?thesis by (intro disjI2 exI [of _ 0]) (simp add: nextFrom.simps [of c cand])
  next
    case 3
    then have eq: "nextFrom c cand dl = nextFrom c (cand + nsPerMinute) dl"
      by (simp add: nextFrom.simps [of c cand])
    have pos: "0 < cand + nsPerMinute" using "1.prems" by (simp add: add_pos_pos)
    have IH: "(nextFrom c cand dl = 0 \<and> (\<forall>k. cand + int (Suc k) * nsPerMinute \<le> dl \<longrightarrow> \<not> cron_matches c (cand + int (Suc k) * nsPerMinute)))
     \<or> (\<exists>k. nextFrom c cand dl = cand + int (Suc k) * nsPerMinute \<and> cand + int (Suc k) * nsPerMinute \<le> dl \<and>
          cron_matches c (cand + int (Suc k) * nsPerMinute) \<and>
          (\<forall>j < k. \<not> cron_matches c (cand + int (Suc j) * nsPerMinute)))"
      using "1.IH" [OF _ _ pos] 3 unfolding eq step by auto
    have first: "\<not> cron_matches c (cand + int 0 * nsPerMinute)" using 3 by simp
    from IH show ?thesis
    proof (elim disjE exE conjE)
      assume a: "nextFrom c cand dl = 0"
        and b: "\<forall>k. cand + int (Suc k) * nsPerMinute \<le> dl \<longrightarrow> \<not> cron_matches c (cand + int (Suc k) * nsPerMinute)"
      have "\<not> cron_matches c (cand + int k * nsPerMinute)" if "cand + int k * nsPerMinute \<le> dl" for k
        using that b first by (cases k) auto
      with a show ?thesis by blast
    next
      fix k assume a: "nextFrom c cand dl = cand + int (Suc k) * nsPerMinute" "cand + int (Suc k) * nsPerMinute \<le> dl"
          "cron_matches c (cand + int (Suc k) * nsPerMinute)"
        and b: "\<forall>j < k. \<not> cron_matches c (cand + int (Suc j) * nsPerMinute)"
      have "\<not> cron_matches c (cand + int j * nsPerMinute)" if "j < Suc k" for j
        using that b first by (cases j) auto
      with a show ?thesis by blast
    qed
  qed
qed

lemma aligned_after:
  assumes "nsPerMinute dvd t" "after < t"
  shows "\<exists>k. t = firstCandidate after + int k * nsPerMinute"
proof -
  from assms(1) obtain a where a: "t = nsPerMinute * a" by (elim dvdE)
  from truncMinute_dvd [of after] obtain b where b: "truncMinute after = nsPerMinute * b" by (elim dvdE)
  have "nsPerMinute * b < nsPerMinute * a" using assms(2) truncMinute_le [of after] a b by linarith
  then have "b < a" by (simp add: nsPerMinute_def)
  then have "t = firstCandidate after + int (nat (a - b - 1)) * nsPerMinute"
    by (simp add: firstCandidate_def a b algebra_simps)
  then show ?thesis ..
qed

text \<open>
  C9. \<open>Next\<close> is exact. For any instant, either it returns the zero time and no whole minute later
  than the instant and not after the five-year deadline matches, or it returns a matching whole
  minute after the instant and within the deadline, and no earlier whole minute after the instant
  matches.
\<close>

theorem cron_next_earliest:
  assumes "0 \<le> after"
  shows "(cronNext c after = 0 \<and>
       (\<forall>t. nsPerMinute dvd t \<and> after < t \<and> t \<le> addYears (firstCandidate after) 5 \<longrightarrow> \<not> cron_matches c t)) \<or>
     (after < cronNext c after \<and> cronNext c after \<le> addYears (firstCandidate after) 5 \<and>
       nsPerMinute dvd cronNext c after \<and> cron_matches c (cronNext c after) \<and>
       (\<forall>t. nsPerMinute dvd t \<and> after < t \<and> t < cronNext c after \<longrightarrow> \<not> cron_matches c t))"
proof -
  let ?f = "firstCandidate after" and ?d = "addYears (firstCandidate after) 5"
  have lt: "after < ?f" using truncMinute_gt by (simp add: firstCandidate_def)
  with assms have "0 < ?f" by simp
  have dvd: "nsPerMinute dvd ?f + int k * nsPerMinute" for k
    using truncMinute_dvd [of after] by (simp add: firstCandidate_def)
  from nextFrom_earliest [OF \<open>0 < ?f\<close>, of c ?d]
  show ?thesis
  proof (elim disjE exE conjE)
    assume "nextFrom c ?f ?d = 0" "\<forall>k. ?f + int k * nsPerMinute \<le> ?d \<longrightarrow> \<not> cron_matches c (?f + int k * nsPerMinute)"
    then show ?thesis using aligned_after [of _ after] by (auto simp: cronNext_def)
  next
    fix k assume k: "nextFrom c ?f ?d = ?f + int k * nsPerMinute" "?f + int k * nsPerMinute \<le> ?d"
      "cron_matches c (?f + int k * nsPerMinute)" "\<forall>j < k. \<not> cron_matches c (?f + int j * nsPerMinute)"
    have "\<not> cron_matches c t" if t: "nsPerMinute dvd t" "after < t" "t < ?f + int k * nsPerMinute" for t
    proof -
      from aligned_after [OF t(1,2)] obtain j where j: "t = ?f + int j * nsPerMinute" by blast
      with t(3) have "int j * nsPerMinute < int k * nsPerMinute" by simp
      then have "j < k" by (simp add: nsPerMinute_def)
      with k(4) j show ?thesis by simp
    qed
    moreover have "after < ?f + int k * nsPerMinute" using lt by (simp add: nsPerMinute_def)
    ultimately show ?thesis using k(1-3) dvd by (auto simp: cronNext_def)
  qed
qed

theorem cron_next_earliest_witness:
  "cronNext monday_or_15 (dateTime 2025 6 15 11 57) = dateTime 2025 6 15 12 0 \<and>
   \<not> cron_matches monday_or_15 (dateTime 2025 6 15 11 58)"
proof -
  have v: "cronNext monday_or_15 (dateTime 2025 6 15 11 57) = dateTime 2025 6 15 12 0" by code_simp
  have "0 \<le> dateTime 2025 6 15 11 57" "nsPerMinute dvd dateTime 2025 6 15 11 58"
    "dateTime 2025 6 15 11 57 < dateTime 2025 6 15 11 58" "dateTime 2025 6 15 11 58 < dateTime 2025 6 15 12 0"
    "dateTime 2025 6 15 12 0 \<noteq> 0" by code_simp+
  with cron_next_earliest [of "dateTime 2025 6 15 11 57" monday_or_15] v show ?thesis by auto
qed

section \<open>Steps at the 64-bit limit\<close>

text \<open>
  The range loop adds the step without an overflow check. With the largest step the loop on
  the single day 31 wraps around and sets every odd day and a row of negative values; so the
  expression for "31 February" written with that step passes the validation that rejects it
  without the step, and it matches 1 February.
\<close>

theorem cron_step_overflow:
  "parseCron ''* * 31 2 *'' = Some (Inl CronNoDay) \<and>
   (\<exists>c. parseCron ''* * 31/9223372036854775807 2 *'' = Some (Inr c) \<and>
      set (dayOfMonth c) \<inter> {1..31} = {1, 3, 5, 7, 9, 11, 13, 15, 17, 19, 21, 23, 25, 27, 29, 31} \<and>
      - (2 ^ 63) \<in> set (dayOfMonth c) \<and> cron_matches c (dateTime 2025 2 1 0 0))"
proof -
  have a: "parseCron ''* * 31 2 *'' = Some (Inl CronNoDay)" by code_simp
  have b: "case parseCron ''* * 31/9223372036854775807 2 *'' of Some (Inr c) \<Rightarrow>
      filter (\<lambda>d. 1 \<le> d) (dayOfMonth c) = [31, 29, 27, 25, 23, 21, 19, 17, 15, 13, 11, 9, 7, 5, 3, 1] \<and>
      list_all (\<lambda>d. d \<le> 31) (dayOfMonth c) \<and>
      - (2 ^ 63) \<in> set (dayOfMonth c) \<and> cron_matches c (dateTime 2025 2 1 0 0) | _ \<Rightarrow> False"
    by code_simp
  then obtain c where c: "parseCron ''* * 31/9223372036854775807 2 *'' = Some (Inr c)"
    and f: "filter (\<lambda>d. 1 \<le> d) (dayOfMonth c) = [31, 29, 27, 25, 23, 21, 19, 17, 15, 13, 11, 9, 7, 5, 3, 1]"
    and u: "list_all (\<lambda>d. d \<le> 31) (dayOfMonth c)"
    and m: "- (2 ^ 63) \<in> set (dayOfMonth c)" "cron_matches c (dateTime 2025 2 1 0 0)"
    by (auto split: option.splits sum.splits)
  have "set (dayOfMonth c) \<inter> {1..31} = set (filter (\<lambda>d. 1 \<le> d) (dayOfMonth c))"
    using u by (auto simp: list_all_iff)
  also have "\<dots> = {1, 3, 5, 7, 9, 11, 13, 15, 17, 19, 21, 23, 25, 27, 29, 31}"
    unfolding f by auto
  finally show ?thesis using a c m by blast
qed

end
