(* ===== verification/SchedTypes.thy ===== *)
theory SchedTypes
  imports Cron
begin

text \<open>
  Package \<open>scheduler\<close>, \<open>types.go\<close>, and the state and stores of \<open>store.go\<close>: schedules and their
  next run, job definitions with their normalisation and validation, the durable job, run and
  decision records, the metrics, and the memory and file stores. String enumerations keep
  unknown values in an \<open>Other\<close> constructor; errors keep the sentinel they wrap; free-form payload
  maps are association lists from names to JSON text.
\<close>

datatype sched_err = SErrInvalidDefinition | SErrNotFound | SErrInvalidState | SErrCtx ctx_err
  | SErrIO string | SErrPanic

type_synonym payload = "(string \<times> string) list"

datatype JobKind = KindDeterministic | KindGatedAgent | KindOrchestratorChat | KindExternalWebhook
  | KindOther string

fun JobKind_Valid :: "JobKind \<Rightarrow> bool" where
  "JobKind_Valid (KindOther _) = False"
| "JobKind_Valid _ = True"

datatype ScheduleType = ScheduleCron | ScheduleInterval | ScheduleEvent | ScheduleOnDemand
  | ScheduleOther string

record Schedule =
  Sch_Type :: ScheduleType
  Sch_Cron :: string
  Sch_Interval :: duration
  Sch_Event :: string

text \<open>
  The parser always returns (theorem \<open>parse_cron_total\<close>), so reading a missing result as an invalid
  definition adds no behaviour.
\<close>

definition parsedCron :: "string \<Rightarrow> sched_err + cronExpr" where
  "parsedCron expr = (case parseCron expr of Some (Inr c) \<Rightarrow> Inr c | _ \<Rightarrow> Inl SErrInvalidDefinition)"

definition Schedule_Validate :: "Schedule \<Rightarrow> sched_err option" where
  "Schedule_Validate s = (case Sch_Type s of
      ScheduleCron \<Rightarrow> (case parsedCron (Sch_Cron s) of Inl e \<Rightarrow> Some e | Inr _ \<Rightarrow> None)
    | ScheduleInterval \<Rightarrow> if Sch_Interval s \<le> 0 then Some SErrInvalidDefinition else None
    | ScheduleEvent \<Rightarrow> if Sch_Event s = [] then Some SErrInvalidDefinition else None
    | ScheduleOnDemand \<Rightarrow> None
    | ScheduleOther _ \<Rightarrow> Some SErrInvalidDefinition)"

definition Schedule_NextAfter :: "Schedule \<Rightarrow> time \<Rightarrow> sched_err + time" where
  "Schedule_NextAfter s after = (case Sch_Type s of
      ScheduleCron \<Rightarrow> (case parsedCron (Sch_Cron s) of Inl e \<Rightarrow> Inl e | Inr c \<Rightarrow> Inr (cronNext c after))
    | ScheduleInterval \<Rightarrow> if Sch_Interval s \<le> 0 then Inl SErrInvalidDefinition else Inr (after + Sch_Interval s)
    | ScheduleEvent \<Rightarrow> Inr 0
    | ScheduleOnDemand \<Rightarrow> Inr 0
    | ScheduleOther _ \<Rightarrow> Inl SErrInvalidDefinition)"

datatype MisfirePolicy = MisfireSkip | MisfireRunOnce | MisfireCatchUpBounded | MisfireOther string

definition Misfire_normalize :: "MisfirePolicy \<Rightarrow> MisfirePolicy" where
  "Misfire_normalize p = (if p = MisfireOther [] then MisfireRunOnce else p)"

definition Misfire_Valid :: "MisfirePolicy \<Rightarrow> bool" where
  "Misfire_Valid p = (case Misfire_normalize p of MisfireOther _ \<Rightarrow> False | _ \<Rightarrow> True)"

datatype RetryPolicy = RetryNone | RetryFixed | RetryExponential | RetryOther string

definition Retry_normalize :: "RetryPolicy \<Rightarrow> RetryPolicy" where
  "Retry_normalize p = (if p = RetryOther [] then RetryNone else p)"

definition Retry_Valid :: "RetryPolicy \<Rightarrow> bool" where
  "Retry_Valid p = (case Retry_normalize p of RetryOther _ \<Rightarrow> False | _ \<Rightarrow> True)"

record Repeat =
  Rep_Forever :: bool
  Rep_Limit :: int

definition RepeatForever :: Repeat where
  "RepeatForever = \<lparr>Rep_Forever = True, Rep_Limit = 0\<rparr>"

definition Repeat_exhausted :: "Repeat \<Rightarrow> int \<Rightarrow> bool" where
  "Repeat_exhausted r successes \<longleftrightarrow> \<not> Rep_Forever r \<and> Rep_Limit r > 0 \<and> successes \<ge> Rep_Limit r"

record Definition =
  Def_ID :: string
  Def_Name :: string
  Def_Kind :: JobKind
  Def_Version :: int
  Def_Revision :: int
  Def_Schedule :: Schedule
  Def_ProjectScope :: string
  Def_EnabledToolsets :: "string list"
  Def_CapabilitiesRequired :: "string list"
  Def_CapabilitiesOptional :: "string list"
  Def_Script :: string
  Def_Skills :: "string list"
  Def_Prompt :: string
  Def_Deliver :: string
  Def_Repeat :: Repeat
  Def_Paused :: bool
  Def_Timeout :: duration
  Def_MaxConcurrency :: int
  Def_MisfirePolicy :: MisfirePolicy
  Def_RetryPolicy :: RetryPolicy
  Def_DeadLetterAfter :: int
  Def_AuditAlways :: bool
  Def_MisfireGrace :: duration

definition SchedSchemaVersion :: int where
  "SchedSchemaVersion = 1"

definition Definition_Validate :: "Definition \<Rightarrow> sched_err option" where
  "Definition_Validate d =
     (if Def_ID d = [] \<or> \<not> validID (Def_ID d) then Some SErrInvalidDefinition
      else if Def_Name d = [] then Some SErrInvalidDefinition
      else if \<not> JobKind_Valid (Def_Kind d) then Some SErrInvalidDefinition
      else if Def_Version d \<noteq> SchedSchemaVersion then Some SErrInvalidDefinition
      else case Schedule_Validate (Def_Schedule d) of Some e \<Rightarrow> Some e | None \<Rightarrow>
        if \<not> Misfire_Valid (Def_MisfirePolicy d) then Some SErrInvalidDefinition
        else if \<not> Retry_Valid (Def_RetryPolicy d) then Some SErrInvalidDefinition
        else if Rep_Limit (Def_Repeat d) < 0 then Some SErrInvalidDefinition
        else if Def_MaxConcurrency d < 0 then Some SErrInvalidDefinition
        else if Def_Timeout d < 0 \<or> Def_MisfireGrace d < 0 then Some SErrInvalidDefinition
        else None)"

definition Definition_normalized :: "Definition \<Rightarrow> Definition" where
  "Definition_normalized d = d\<lparr>
     Def_Version := (if Def_Version d = 0 then SchedSchemaVersion else Def_Version d),
     Def_Kind := (if Def_Kind d = KindOther [] then KindDeterministic else Def_Kind d),
     Def_Repeat := (if Def_Repeat d = \<lparr>Rep_Forever = False, Rep_Limit = 0\<rparr> then RepeatForever else Def_Repeat d),
     Def_MaxConcurrency := (if Def_MaxConcurrency d = 0 then 1 else Def_MaxConcurrency d),
     Def_Timeout := (if Def_Timeout d = 0 then nsPerMinute else Def_Timeout d),
     Def_MisfireGrace := (if Def_MisfireGrace d = 0 then nsPerMinute else Def_MisfireGrace d),
     Def_MisfirePolicy := (if Def_MisfirePolicy d = MisfireOther [] then MisfireRunOnce else Def_MisfirePolicy d),
     Def_RetryPolicy := (if Def_RetryPolicy d = RetryOther [] then RetryNone else Def_RetryPolicy d),
     Def_AuditAlways := True\<rparr>"

section \<open>Jobs, runs and decisions\<close>

datatype JobStatus = JobStatusReady | JobStatusPaused | JobStatusError | JobStatusDeadLettered
  | JobStatusCompleted | JobStatusOther string

datatype TriggerType = TriggerScheduled | TriggerEvent | TriggerOnDemand

record Trigger =
  Trig_Type :: TriggerType
  Trig_EventType :: string
  Trig_EventKey :: string
  Trig_DueAt :: "time option"
  Trig_Data :: "(string \<times> string) list"

datatype RunStatus = RunStatusQueued | RunStatusRunning | RunStatusSucceeded | RunStatusFailed
  | RunStatusInterrupted | RunStatusSkipped | RunStatusOther string

datatype Outcome = OutcomeStarted | OutcomeSkippedByPolicy | OutcomeSkippedByMisfirePolicy
  | OutcomePaused | OutcomeLeasedElsewhere | OutcomeDeadLettered | OutcomeSchedulerError
  | OutcomeBlockedByCapability

record RunLease =
  Lease_Holder :: string
  Lease_ExpiresAt :: time

text \<open>
  The statuses of the capability checker, and the texts a decision or a run carries. The texts of
  the capability gate are kept as the list of failing references with what is wrong with each,
  instead of their quoted and joined rendering.
\<close>

datatype CapabilityStatus = CapabilityStatusOK | CapabilityStatusDegraded | CapabilityStatusMissing
  | CapabilityStatusBlockedByPolicy | CapabilityStatusUntested | CapabilityStatusOther string

datatype CapProblem = CapUnknown | CapBlockedByPolicy | CapMissing | CapUntested | CapUnrecognized string

datatype reason = NoReason | ReasonText string | ReasonCaps "(string \<times> CapProblem) list"

record Decision =
  Dec_RunID :: string
  Dec_JobID :: string
  Dec_Outcome :: Outcome
  Dec_Reason :: reason
  Dec_Trigger :: Trigger
  Dec_Audit :: bool
  Dec_CreatedAt :: time

record RunResult =
  Res_WakeAgent :: bool
  Res_Silent :: bool
  Res_Context :: payload

record SchedJob =
  SJ_Definition :: Definition
  SJ_Status :: JobStatus
  SJ_Error :: "sched_err option"
  SJ_ImportedAt :: time
  SJ_UpdatedAt :: time
  SJ_NextRunAt :: "time option"
  SJ_Lease :: "RunLease option"
  SJ_SuccessfulRuns :: int
  SJ_ConsecutiveFailures :: int
  SJ_DeadLetteredAt :: "time option"
  SJ_LastDecision :: "Decision option"
  SJ_LastDecisionPayload :: payload

record Run =
  Run_ID :: string
  Run_JobID :: string
  Run_Revision :: int
  Run_Trigger :: Trigger
  Run_Status :: RunStatus
  Run_Outcome :: Outcome
  Run_Attempt :: int
  Run_Lease :: "RunLease option"
  Run_QueuedAt :: time
  Run_StartedAt :: "time option"
  Run_CompletedAt :: "time option"
  Run_Error :: reason
  Run_Result :: "RunResult option"
  Run_Context :: payload

record Metrics =
  Met_DueRuns :: "64 word"
  Met_StartedRuns :: "64 word"
  Met_SkippedRuns :: "64 word"
  Met_Misfires :: "64 word"
  Met_LeaseSteals :: "64 word"
  Met_DeadLetters :: "64 word"
  Met_Ticks :: "64 word"
  Met_AverageTickDuration :: duration
  Met_LongestQueuedDelay :: duration
  Met_CompletionPersistFailures :: "64 word"

record State =
  St_SchemaVersion :: int
  St_Jobs :: "(string \<times> SchedJob) list"
  St_Runs :: "(string \<times> Run) list"
  St_EventDedupe :: "(string \<times> string) list"
  St_Metrics :: Metrics

definition zeroMetrics :: Metrics where
  "zeroMetrics = \<lparr>Met_DueRuns = 0, Met_StartedRuns = 0, Met_SkippedRuns = 0, Met_Misfires = 0,
     Met_LeaseSteals = 0, Met_DeadLetters = 0, Met_Ticks = 0, Met_AverageTickDuration = 0,
     Met_LongestQueuedDelay = 0, Met_CompletionPersistFailures = 0\<rparr>"

definition emptyState :: State where
  "emptyState = \<lparr>St_SchemaVersion = SchedSchemaVersion, St_Jobs = [], St_Runs = [],
     St_EventDedupe = [], St_Metrics = zeroMetrics\<rparr>"

definition normalizeState :: "State \<Rightarrow> State" where
  "normalizeState s = (if St_SchemaVersion s = 0 then s\<lparr>St_SchemaVersion := SchedSchemaVersion\<rparr> else s)"

lemma normalizeState_fields [simp]:
  "St_Jobs (normalizeState s) = St_Jobs s" "St_Runs (normalizeState s) = St_Runs s"
  "St_EventDedupe (normalizeState s) = St_EventDedupe s" "St_Metrics (normalizeState s) = St_Metrics s"
  "normalizeState (normalizeState s) = normalizeState s"
  by (simp_all add: normalizeState_def SchedSchemaVersion_def)

section \<open>Stores\<close>

definition MemoryStore_Load :: "ctx \<Rightarrow> State \<Rightarrow> sched_err + State" where
  "MemoryStore_Load c m = (case c of Some e \<Rightarrow> Inl (SErrCtx e) | None \<Rightarrow> Inr (normalizeState m))"

definition MemoryStore_Save :: "ctx \<Rightarrow> State \<Rightarrow> State \<Rightarrow> sched_err option \<times> State" where
  "MemoryStore_Save c s m = (case c of Some e \<Rightarrow> (Some (SErrCtx e), m) | None \<Rightarrow> (None, normalizeState s))"

text \<open>
  The file store removes its temporary file whenever the rename has not happened, and reports an
  error after a successful rename when the directory cannot be opened for syncing.
\<close>

datatype sched_fault = SMkdirFault | SOpenFault | SEncodeFault | SSyncFault | SCloseFault
  | SRenameFault | SDirOpenFault

datatype state_file = NoFile | StateDoc State | BadDoc

record sched_fs =
  sfs_path :: string
  sfs_file :: state_file
  sfs_tmp :: nat
  sfs_faults :: "sched_fault option list"

definition sched_fault_of :: "sched_fs \<Rightarrow> sched_fault option \<times> sched_fs" where
  "sched_fault_of w = (case sfs_faults w of [] \<Rightarrow> (None, w) | f # fs \<Rightarrow> (f, w\<lparr>sfs_faults := fs\<rparr>))"

definition SchedFile_Load :: "ctx \<Rightarrow> sched_fs \<Rightarrow> sched_err + State" where
  "SchedFile_Load c w = (case c of Some e \<Rightarrow> Inl (SErrCtx e) | None \<Rightarrow>
     if sfs_path w = [] then Inl SErrInvalidState
     else case sfs_file w of NoFile \<Rightarrow> Inr emptyState | StateDoc s \<Rightarrow> Inr (normalizeState s)
       | BadDoc \<Rightarrow> Inl (SErrIO ''decode''))"

definition SchedFile_Save :: "ctx \<Rightarrow> State \<Rightarrow> sched_fs \<Rightarrow> sched_err option \<times> sched_fs" where
  "SchedFile_Save c s w = (case c of Some e \<Rightarrow> (Some (SErrCtx e), w) | None \<Rightarrow>
     if sfs_path w = [] then (Some SErrInvalidState, w)
     else case sched_fault_of w of (f, w') \<Rightarrow>
       (case f of
          None \<Rightarrow> (None, w'\<lparr>sfs_file := StateDoc (normalizeState s)\<rparr>)
        | Some SDirOpenFault \<Rightarrow> (Some (SErrIO ''syncdir''), w'\<lparr>sfs_file := StateDoc (normalizeState s)\<rparr>)
        | Some SMkdirFault \<Rightarrow> (Some (SErrIO ''mkdir''), w')
        | Some SOpenFault \<Rightarrow> (Some (SErrIO ''open''), w')
        | Some SEncodeFault \<Rightarrow> (Some (SErrIO ''encode''), w')
        | Some SSyncFault \<Rightarrow> (Some (SErrIO ''sync''), w')
        | Some SCloseFault \<Rightarrow> (Some (SErrIO ''close''), w')
        | Some SRenameFault \<Rightarrow> (Some (SErrIO ''rename''), w')))"

lemma SchedFile_Save_cases:
  "SchedFile_Save c s w = (e, w') \<Longrightarrow>
    sfs_path w' = sfs_path w \<and> sfs_tmp w' = sfs_tmp w \<and>
    (sfs_file w' = sfs_file w \<and> e \<noteq> None \<or> sfs_file w' = StateDoc (normalizeState s) \<and> sfs_path w \<noteq> [])"
  by (auto simp: SchedFile_Save_def sched_fault_of_def
      split: option.splits if_splits list.splits sched_fault.splits)

interpretation sched_memory_store: snapshot_store "MemoryStore_Load None" MemoryStore_Save normalizeState
  by unfold_locales (auto simp: MemoryStore_Load_def MemoryStore_Save_def split: option.splits)

interpretation sched_file_store: snapshot_store "SchedFile_Load None" SchedFile_Save normalizeState
  by unfold_locales (auto simp: SchedFile_Load_def dest!: SchedFile_Save_cases)

end
