(* ===== verification/SchedRegistry.thy ===== *)
theory SchedRegistry
  imports SchedTypes
begin

text \<open>
  Package \<open>scheduler\<close>, \<open>registry.go\<close>: the tending registry. It owns job definitions, the run
  history, event deduplication and metrics, decides for every trigger whether a run starts or is
  skipped and why, leases started runs and reclaims expired leases. Methods take the store's
  \<open>Save\<close>, the context and the clock reading of the call, and return the result with the new
  registry; memory changes before the save and stays changed when the save fails.
\<close>

type_synonym 'w state_saver = "ctx \<Rightarrow> State \<Rightarrow> 'w \<Rightarrow> sched_err option \<times> 'w"

record 'w SchedReg =
  sr_store :: 'w
  sr_state :: State
  sr_runCounter :: "64 word"
  sr_leaseHolder :: string
  sr_leaseTTL :: duration
  sr_terminalRunRetention :: int
  sr_dedupeRetention :: int
  sr_capabilities :: "(string \<Rightarrow> CapabilityStatus option) option"

record RegistryConfig =
  Cfg_LeaseHolder :: string
  Cfg_LeaseTTL :: duration
  Cfg_TerminalRunRetention :: int
  Cfg_DedupeRetention :: int
  Cfg_Capabilities :: "(string \<Rightarrow> CapabilityStatus option) option"

abbreviation sjobs :: "'w SchedReg \<Rightarrow> (string \<times> SchedJob) list" where
  "sjobs r \<equiv> St_Jobs (sr_state r)"

abbreviation sruns :: "'w SchedReg \<Rightarrow> (string \<times> Run) list" where
  "sruns r \<equiv> St_Runs (sr_state r)"

abbreviation sdedupe :: "'w SchedReg \<Rightarrow> (string \<times> string) list" where
  "sdedupe r \<equiv> St_EventDedupe (sr_state r)"

abbreviation smetrics :: "'w SchedReg \<Rightarrow> Metrics" where
  "smetrics r \<equiv> St_Metrics (sr_state r)"

definition setJob :: "string \<Rightarrow> SchedJob \<Rightarrow> 'w SchedReg \<Rightarrow> 'w SchedReg" where
  "setJob k j r = r\<lparr>sr_state := (sr_state r)\<lparr>St_Jobs := AList.update k j (sjobs r)\<rparr>\<rparr>"

definition setRun :: "string \<Rightarrow> Run \<Rightarrow> 'w SchedReg \<Rightarrow> 'w SchedReg" where
  "setRun k x r = r\<lparr>sr_state := (sr_state r)\<lparr>St_Runs := AList.update k x (sruns r)\<rparr>\<rparr>"

definition setDedupe :: "string \<Rightarrow> string \<Rightarrow> 'w SchedReg \<Rightarrow> 'w SchedReg" where
  "setDedupe k x r = r\<lparr>sr_state := (sr_state r)\<lparr>St_EventDedupe := AList.update k x (sdedupe r)\<rparr>\<rparr>"

definition modMetrics :: "(Metrics \<Rightarrow> Metrics) \<Rightarrow> 'w SchedReg \<Rightarrow> 'w SchedReg" where
  "modMetrics f r = r\<lparr>sr_state := (sr_state r)\<lparr>St_Metrics := f (smetrics r)\<rparr>\<rparr>"

definition sched_persist :: "'w state_saver \<Rightarrow> ctx \<Rightarrow> 'w SchedReg \<Rightarrow> sched_err option \<times> 'w SchedReg" where
  "sched_persist sv c r = (case sv c (sr_state r) (sr_store r) of (e, w) \<Rightarrow> (e, r\<lparr>sr_store := w\<rparr>))"

definition sched_return ::
  "'w state_saver \<Rightarrow> ctx \<Rightarrow> 'a \<Rightarrow> 'w SchedReg \<Rightarrow> (sched_err + 'a) \<times> 'w SchedReg" where
  "sched_return sv c x r = (case sched_persist sv c r of
     (Some e, r') \<Rightarrow> (Inl e, r') | (None, r') \<Rightarrow> (Inr x, r'))"

section \<open>Capabilities, runs and skips\<close>

definition capProblem :: "(string \<Rightarrow> CapabilityStatus option) \<Rightarrow> string \<Rightarrow> CapProblem option" where
  "capProblem look ref = (case look ref of
      None \<Rightarrow> Some CapUnknown
    | Some CapabilityStatusOK \<Rightarrow> None
    | Some CapabilityStatusDegraded \<Rightarrow> None
    | Some CapabilityStatusBlockedByPolicy \<Rightarrow> Some CapBlockedByPolicy
    | Some CapabilityStatusMissing \<Rightarrow> Some CapMissing
    | Some CapabilityStatusUntested \<Rightarrow> Some CapUntested
    | Some (CapabilityStatusOther s) \<Rightarrow> Some (CapUnrecognized s))"

fun capReasons :: "(string \<Rightarrow> CapabilityStatus option) \<Rightarrow> string list \<Rightarrow> (string \<times> CapProblem) list" where
  "capReasons look [] = []"
| "capReasons look (capRef # refs) =
     (let ref = TrimSpace capRef in
      if ref = [] then capReasons look refs
      else case capProblem look ref of
        None \<Rightarrow> capReasons look refs | Some p \<Rightarrow> (ref, p) # capReasons look refs)"

definition evaluateRequiredCapabilities :: "'w SchedReg \<Rightarrow> SchedJob \<Rightarrow> (string \<times> CapProblem) list" where
  "evaluateRequiredCapabilities r job = (case sr_capabilities r of None \<Rightarrow> []
     | Some look \<Rightarrow> capReasons look (Def_CapabilitiesRequired (SJ_Definition job)))"

definition newRun :: "SchedJob \<Rightarrow> Trigger \<Rightarrow> Outcome \<Rightarrow> time \<Rightarrow> 'w SchedReg \<Rightarrow> Run \<times> 'w SchedReg" where
  "newRun job trigger outcome now r =
     (let n = sr_runCounter r + 1 in
      (\<lparr>Run_ID = stampedID ''trun_'' now n, Run_JobID = Def_ID (SJ_Definition job),
        Run_Revision = Def_Revision (SJ_Definition job), Run_Trigger = trigger,
        Run_Status = RunStatusQueued, Run_Outcome = outcome,
        Run_Attempt = SJ_ConsecutiveFailures job + 1, Run_Lease = None, Run_QueuedAt = now,
        Run_StartedAt = None, Run_CompletedAt = None, Run_Error = NoReason, Run_Result = None,
        Run_Context = []\<rparr>,
       r\<lparr>sr_runCounter := n\<rparr>))"

text \<open>
  \<open>recordSkipLocked\<close> stores the job with the decision noted on it. It works on its own copy of
  the job: the caller's copy does not get the decision.
\<close>

definition recordSkip ::
  "SchedJob \<Rightarrow> Trigger \<Rightarrow> Outcome \<Rightarrow> reason \<Rightarrow> time \<Rightarrow> 'w SchedReg \<Rightarrow> (Run \<times> Decision) \<times> 'w SchedReg" where
  "recordSkip job trigger outcome why now r =
     (case newRun job trigger outcome now r of (run0, r1) \<Rightarrow>
        let run = run0\<lparr>Run_Status := RunStatusSkipped, Run_Error := why, Run_CompletedAt := Some now\<rparr>;
            decision = \<lparr>Dec_RunID = Run_ID run, Dec_JobID = Def_ID (SJ_Definition job),
              Dec_Outcome = outcome, Dec_Reason = why, Dec_Trigger = trigger,
              Dec_Audit = Def_AuditAlways (SJ_Definition job), Dec_CreatedAt = now\<rparr>;
            r2 = setJob (Def_ID (SJ_Definition job))
                   (job\<lparr>SJ_LastDecision := Some decision, SJ_UpdatedAt := now\<rparr>) r1;
            r3 = modMetrics (\<lambda>m. m\<lparr>Met_DueRuns := Met_DueRuns m + 1, Met_SkippedRuns := Met_SkippedRuns m + 1\<rparr>) r2
        in ((run, decision), r3))"

definition advanceJob :: "SchedJob \<Rightarrow> time \<Rightarrow> SchedJob" where
  "advanceJob job now =
     (if Sch_Type (Def_Schedule (SJ_Definition job)) \<noteq> ScheduleCron \<and>
         Sch_Type (Def_Schedule (SJ_Definition job)) \<noteq> ScheduleInterval
      then job\<lparr>SJ_NextRunAt := None\<rparr>
      else case Schedule_NextAfter (Def_Schedule (SJ_Definition job)) now of
        Inl e \<Rightarrow> job\<lparr>SJ_Status := JobStatusError, SJ_Error := Some e, SJ_NextRunAt := None\<rparr>
      | Inr nxt \<Rightarrow> if isZero nxt then job\<lparr>SJ_Status := JobStatusError, SJ_NextRunAt := None\<rparr>
                  else job\<lparr>SJ_NextRunAt := Some nxt, SJ_UpdatedAt := now\<rparr>)"

definition maxConcurrency :: "Definition \<Rightarrow> int" where
  "maxConcurrency d = (if Def_MaxConcurrency d \<le> 0 then 1 else Def_MaxConcurrency d)"

definition live_run :: "string \<Rightarrow> time \<Rightarrow> Run \<Rightarrow> bool" where
  "live_run jid now run \<longleftrightarrow> Run_JobID run = jid \<and> Run_Status run = RunStatusRunning \<and>
     (case Run_Lease run of None \<Rightarrow> False | Some l \<Rightarrow> Lease_ExpiresAt l > now)"

definition runningRuns :: "string \<Rightarrow> time \<Rightarrow> 'w SchedReg \<Rightarrow> int" where
  "runningRuns jid now r = int (length (filter (live_run jid now) (map snd (sruns r))))"

definition lease_active :: "SchedJob \<Rightarrow> time \<Rightarrow> bool" where
  "lease_active job now = (case SJ_Lease job of None \<Rightarrow> False | Some l \<Rightarrow> Lease_ExpiresAt l > now)"

text \<open>The skip branches that advance the schedule and write the caller's copy of the job back.\<close>

definition skipAndAdvance ::
  "SchedJob \<Rightarrow> Trigger \<Rightarrow> Outcome \<Rightarrow> reason \<Rightarrow> time \<Rightarrow> 'w SchedReg \<Rightarrow> (Run \<times> Decision) \<times> 'w SchedReg" where
  "skipAndAdvance job trigger outcome why now r =
     (case recordSkip job trigger outcome why now r of ((run, decision), r1) \<Rightarrow>
        ((run, decision),
         setJob (Def_ID (SJ_Definition job)) (advanceJob job now) (setRun (Run_ID run) run r1)))"

definition startRun :: "SchedJob \<Rightarrow> Trigger \<Rightarrow> time \<Rightarrow> 'w SchedReg \<Rightarrow> (Run \<times> Decision) \<times> 'w SchedReg" where
  "startRun job trigger now r =
     (case newRun job trigger OutcomeStarted now r of (run0, r1) \<Rightarrow>
        let lease = \<lparr>Lease_Holder = sr_leaseHolder r, Lease_ExpiresAt = now + sr_leaseTTL r\<rparr>;
            run = run0\<lparr>Run_Status := RunStatusRunning, Run_StartedAt := Some now, Run_Lease := Some lease\<rparr>;
            r2 = setRun (Run_ID run) run r1;
            job1 = advanceJob (job\<lparr>SJ_Lease := Some lease, SJ_Status := JobStatusReady\<rparr>) now;
            decision = \<lparr>Dec_RunID = Run_ID run, Dec_JobID = Def_ID (SJ_Definition job),
              Dec_Outcome = OutcomeStarted, Dec_Reason = NoReason, Dec_Trigger = trigger,
              Dec_Audit = Def_AuditAlways (SJ_Definition job), Dec_CreatedAt = now\<rparr>;
            job2 = job1\<lparr>SJ_LastDecision := Some decision\<rparr>;
            r3 = setJob (Def_ID (SJ_Definition job)) job2 r2;
            delay = go_sub now (Run_QueuedAt run);
            r4 = modMetrics (\<lambda>m. m\<lparr>Met_DueRuns := Met_DueRuns m + 1, Met_StartedRuns := Met_StartedRuns m + 1,
                   Met_LongestQueuedDelay := (if delay > Met_LongestQueuedDelay m then delay
                                              else Met_LongestQueuedDelay m)\<rparr>) r3
        in ((run, decision), r4))"

definition misfired :: "SchedJob \<Rightarrow> Trigger \<Rightarrow> time \<Rightarrow> bool" where
  "misfired job trigger now \<longleftrightarrow> Trig_Type trigger = TriggerScheduled \<and>
     (case Trig_DueAt trigger of None \<Rightarrow> False
      | Some due \<Rightarrow> go_sub now due > Def_MisfireGrace (SJ_Definition job))"

definition resolveDue ::
  "SchedJob \<Rightarrow> Trigger \<Rightarrow> time \<Rightarrow> 'w SchedReg \<Rightarrow> (Run \<times> Decision) \<times> 'w SchedReg" where
  "resolveDue job trigger now r =
     (if SJ_Status job = JobStatusPaused \<or> Def_Paused (SJ_Definition job) then
        skipAndAdvance job trigger OutcomePaused (ReasonText ''job is paused'') now r
      else if SJ_Status job = JobStatusDeadLettered \<or> SJ_DeadLetteredAt job \<noteq> None then
        (case recordSkip job trigger OutcomeDeadLettered (ReasonText ''job is dead-lettered'') now r of
           ((run, decision), r1) \<Rightarrow>
             ((run, decision), setJob (Def_ID (SJ_Definition job)) job (setRun (Run_ID run) run r1)))
      else if SJ_Status job = JobStatusCompleted then
        (case recordSkip job trigger OutcomeSkippedByPolicy (ReasonText ''repeat count exhausted'') now r of
           ((run, decision), r1) \<Rightarrow> ((run, decision), setRun (Run_ID run) run r1))
      else if lease_active job now then
        skipAndAdvance job trigger OutcomeLeasedElsewhere (ReasonText ''job has an active lease'') now r
      else if runningRuns (Def_ID (SJ_Definition job)) now r \<ge> maxConcurrency (SJ_Definition job) then
        skipAndAdvance job trigger OutcomeLeasedElsewhere (ReasonText ''max concurrency reached'') now r
      else
        let late = misfired job trigger now;
            r0 = (if late then modMetrics (\<lambda>m. m\<lparr>Met_Misfires := Met_Misfires m + 1\<rparr>) r else r)
        in if late \<and> Misfire_normalize (Def_MisfirePolicy (SJ_Definition job)) = MisfireSkip then
             skipAndAdvance job trigger OutcomeSkippedByMisfirePolicy
               (ReasonText ''missed scheduled run exceeded misfire grace'') now r0
           else if evaluateRequiredCapabilities r0 job \<noteq> [] then
             skipAndAdvance job trigger OutcomeBlockedByCapability
               (ReasonCaps (evaluateRequiredCapabilities r0 job)) now r0
           else startRun job trigger now r0)"

section \<open>Reclaiming and pruning\<close>

definition expiredRun :: "time \<Rightarrow> Run \<Rightarrow> bool" where
  "expiredRun now run \<longleftrightarrow> Run_Status run = RunStatusRunning \<and>
     (case Run_Lease run of None \<Rightarrow> False | Some l \<Rightarrow> \<not> Lease_ExpiresAt l > now)"

definition interruptRun :: "time \<Rightarrow> Run \<Rightarrow> Run" where
  "interruptRun now run = run\<lparr>Run_Status := RunStatusInterrupted, Run_CompletedAt := Some now,
     Run_Error := ReasonText ''scheduler lease expired before run completed''\<rparr>"

text \<open>The job side of one reclaimed or completed run: drop the job lease of the same holder.\<close>

definition sameHolder :: "SchedJob \<Rightarrow> Run \<Rightarrow> bool" where
  "sameHolder job run = (case (SJ_Lease job, Run_Lease run) of
     (Some a, Some b) \<Rightarrow> Lease_Holder a = Lease_Holder b | _ \<Rightarrow> False)"

definition reclaimOne :: "time \<Rightarrow> string \<times> Run \<Rightarrow> 'w SchedReg \<Rightarrow> 'w SchedReg" where
  "reclaimOne now e r =
     (if \<not> expiredRun now (snd e) then r
      else
        let r1 = setRun (fst e) (interruptRun now (snd e)) r;
            r2 = (case map_of (sjobs r1) (Run_JobID (snd e)) of
                    None \<Rightarrow> r1
                  | Some job \<Rightarrow> if sameHolder job (snd e)
                      then setJob (Run_JobID (snd e)) (job\<lparr>SJ_Lease := None, SJ_UpdatedAt := now\<rparr>) r1 else r1)
        in modMetrics (\<lambda>m. m\<lparr>Met_LeaseSteals := Met_LeaseSteals m + 1\<rparr>) r2)"

definition reclaimExpiredLeases ::
  "'w state_saver \<Rightarrow> ctx \<Rightarrow> time \<Rightarrow> 'w SchedReg \<Rightarrow> sched_err option \<times> 'w SchedReg" where
  "reclaimExpiredLeases sv c now r =
     (case c of Some e \<Rightarrow> (Some (SErrCtx e), r) | None \<Rightarrow>
        if \<not> list_ex (\<lambda>e. expiredRun now (snd e)) (sruns r) then (None, r)
        else sched_persist sv c (fold (reclaimOne now) (sruns r) r))"

definition terminalRun :: "Run \<Rightarrow> bool" where
  "terminalRun run \<longleftrightarrow> Run_Status run \<in> {RunStatusSucceeded, RunStatusFailed, RunStatusInterrupted, RunStatusSkipped}"

text \<open>
  The eviction order: runs without a completion time first, by queue time, then by completion
  time. The code's sort leaves ties in an unspecified order; here ties keep the map's order.
\<close>

definition evictionKey :: "Run \<Rightarrow> nat \<times> int" where
  "evictionKey run = (case Run_CompletedAt run of None \<Rightarrow> (0, Run_QueuedAt run) | Some t \<Rightarrow> (1, t))"

definition pruneTerminalRuns :: "'w SchedReg \<Rightarrow> 'w SchedReg" where
  "pruneTerminalRuns r =
     (if sr_terminalRunRetention r \<le> 0 then r
      else
        let terminal = filter terminalRun (map snd (sruns r));
            excess = int (length terminal) - sr_terminalRunRetention r
        in if excess \<le> 0 then r
           else let victims = map Run_ID (take (nat excess) (sort_key evictionKey terminal))
                in r\<lparr>sr_state := (sr_state r)\<lparr>St_Runs := fold AList.delete victims (sruns r)\<rparr>\<rparr>)"

definition dedupeSettled :: "(string \<times> Run) list \<Rightarrow> string \<Rightarrow> bool" where
  "dedupeSettled runs runID = (case map_of runs runID of None \<Rightarrow> True | Some run \<Rightarrow> terminalRun run)"

fun dropSettled :: "(string \<Rightarrow> bool) \<Rightarrow> int \<Rightarrow> (string \<times> string) list \<Rightarrow> int \<times> (string \<times> string) list" where
  "dropSettled P excess [] = (excess, [])"
| "dropSettled P excess (e # es) =
     (if excess \<le> 0 then (excess, e # es)
      else if P (snd e) then dropSettled P (excess - 1) es
      else case dropSettled P excess es of (x, rest) \<Rightarrow> (x, e # rest))"

definition pruneEventDedupe :: "'w SchedReg \<Rightarrow> 'w SchedReg" where
  "pruneEventDedupe r =
     (if sr_dedupeRetention r \<le> 0 then r
      else
        let excess = int (length (sdedupe r)) - sr_dedupeRetention r
        in if excess \<le> 0 then r
           else case dropSettled (dedupeSettled (sruns r)) excess (sdedupe r) of (left, kept) \<Rightarrow>
             r\<lparr>sr_state := (sr_state r)\<lparr>St_EventDedupe := drop (nat left) kept\<rparr>\<rparr>)"

section \<open>Operator methods\<close>

definition NewRegistry ::
  "'w state_saver \<Rightarrow> (ctx \<Rightarrow> 'w \<Rightarrow> sched_err + State) \<Rightarrow> ctx \<Rightarrow> time \<Rightarrow> RegistryConfig \<Rightarrow> 'w
     \<Rightarrow> (sched_err + 'w SchedReg) \<times> 'w" where
  "NewRegistry sv load c now cfg w =
     (case load c w of Inl e \<Rightarrow> (Inl e, w)
      | Inr st \<Rightarrow>
          (let r = \<lparr>sr_store = w, sr_state = normalizeState st, sr_runCounter = 0,
                sr_leaseHolder = (if Cfg_LeaseHolder cfg = [] then ''hoopoe-scheduler'' else Cfg_LeaseHolder cfg),
                sr_leaseTTL = (if Cfg_LeaseTTL cfg \<le> 0 then nsPerMinute else Cfg_LeaseTTL cfg),
                sr_terminalRunRetention = Cfg_TerminalRunRetention cfg,
                sr_dedupeRetention = Cfg_DedupeRetention cfg, sr_capabilities = Cfg_Capabilities cfg\<rparr>
           in case reclaimExpiredLeases sv c now r of
                (Some e, r') \<Rightarrow> (Inl e, sr_store r') | (None, r') \<Rightarrow> (Inr r', sr_store r')))"

abbreviation timed :: "Definition \<Rightarrow> bool" where
  "timed d \<equiv> Sch_Type (Def_Schedule d) = ScheduleCron \<or> Sch_Type (Def_Schedule d) = ScheduleInterval"

definition importedJob :: "Definition \<Rightarrow> time option \<Rightarrow> SchedJob option \<Rightarrow> time \<Rightarrow> SchedJob" where
  "importedJob d nxt existing now =
     (let dl = (case existing of None \<Rightarrow> None | Some x \<Rightarrow> SJ_DeadLetteredAt x);
          st = (if Def_Paused d then JobStatusPaused else JobStatusReady)
      in \<lparr>SJ_Definition = d,
          SJ_Status = (if dl \<noteq> None then JobStatusDeadLettered else st),
          SJ_Error = None,
          SJ_ImportedAt = (case existing of None \<Rightarrow> now
             | Some x \<Rightarrow> if isZero (SJ_ImportedAt x) then now else SJ_ImportedAt x),
          SJ_UpdatedAt = now, SJ_NextRunAt = nxt, SJ_Lease = None,
          SJ_SuccessfulRuns = (case existing of None \<Rightarrow> 0 | Some x \<Rightarrow> SJ_SuccessfulRuns x),
          SJ_ConsecutiveFailures = (case existing of None \<Rightarrow> 0 | Some x \<Rightarrow> SJ_ConsecutiveFailures x),
          SJ_DeadLetteredAt = dl,
          SJ_LastDecision = (case existing of None \<Rightarrow> None | Some x \<Rightarrow> SJ_LastDecision x),
          SJ_LastDecisionPayload = (case existing of None \<Rightarrow> [] | Some x \<Rightarrow> SJ_LastDecisionPayload x)\<rparr>)"

text \<open>A definition that is not newer than the stored one gets the next revision.\<close>

definition nextRevision :: "SchedJob option \<Rightarrow> Definition \<Rightarrow> Definition" where
  "nextRevision existing d = (case existing of None \<Rightarrow> d
     | Some x \<Rightarrow> if Def_Revision d \<le> Def_Revision (SJ_Definition x)
         then d\<lparr>Def_Revision := Def_Revision (SJ_Definition x) + 1\<rparr> else d)"

definition ImportDefinition ::
  "'w state_saver \<Rightarrow> ctx \<Rightarrow> time \<Rightarrow> Definition \<Rightarrow> 'w SchedReg \<Rightarrow> (sched_err + SchedJob) \<times> 'w SchedReg" where
  "ImportDefinition sv c now def0 r =
     (let d1 = Definition_normalized def0 in
      case Definition_Validate d1 of Some e \<Rightarrow> (Inl e, r)
      | None \<Rightarrow>
          let existing = map_of (sjobs r) (Def_ID d1);
              d2 = nextRevision existing d1;
              nextRun = (if timed d2 then Schedule_NextAfter (Def_Schedule d2) (now - 1) else Inr 0)
          in (case nextRun of Inl e \<Rightarrow> (Inl e, r)
              | Inr t \<Rightarrow>
                  let job = importedJob d2 (if isZero t then None else Some t) existing now
                  in sched_return sv c job (setJob (Def_ID d2) job r)))"

definition GetJob :: "ctx \<Rightarrow> string \<Rightarrow> 'w SchedReg \<Rightarrow> sched_err + SchedJob" where
  "GetJob c jid r = (case c of Some e \<Rightarrow> Inl (SErrCtx e) | None \<Rightarrow>
     (case map_of (sjobs r) jid of None \<Rightarrow> Inl SErrNotFound | Some j \<Rightarrow> Inr j))"

definition GetRun :: "ctx \<Rightarrow> string \<Rightarrow> 'w SchedReg \<Rightarrow> sched_err + Run" where
  "GetRun c rid r = (case c of Some e \<Rightarrow> Inl (SErrCtx e) | None \<Rightarrow>
     (case map_of (sruns r) rid of None \<Rightarrow> Inl SErrNotFound | Some x \<Rightarrow> Inr x))"

definition sortedJobIDs :: "(string \<times> SchedJob) list \<Rightarrow> string list" where
  "sortedJobIDs m = sort (keys m)"

definition SchedListJobs :: "ctx \<Rightarrow> 'w SchedReg \<Rightarrow> sched_err + SchedJob list" where
  "SchedListJobs c r = (case c of Some e \<Rightarrow> Inl (SErrCtx e) | None \<Rightarrow>
     Inr (List.map_filter (map_of (sjobs r)) (sortedJobIDs (sjobs r))))"

text \<open>Lookup, change, save: the shape of pause and resume.\<close>

definition withJob ::
  "'w state_saver \<Rightarrow> ctx \<Rightarrow> string \<Rightarrow> (SchedJob \<Rightarrow> sched_err + SchedJob) \<Rightarrow> 'w SchedReg
     \<Rightarrow> (sched_err + SchedJob) \<times> 'w SchedReg" where
  "withJob sv c jid f r =
     (case c of Some e \<Rightarrow> (Inl (SErrCtx e), r) | None \<Rightarrow>
      (case map_of (sjobs r) jid of None \<Rightarrow> (Inl SErrNotFound, r)
       | Some job \<Rightarrow> (case f job of Inl e \<Rightarrow> (Inl e, r)
          | Inr job' \<Rightarrow> sched_return sv c job' (setJob jid job' r))))"

definition pause_fn :: "time \<Rightarrow> SchedJob \<Rightarrow> sched_err + SchedJob" where
  "pause_fn now job = Inr (job\<lparr>SJ_Definition := (SJ_Definition job)\<lparr>Def_Paused := True\<rparr>,
     SJ_Status := (if SJ_Status job \<noteq> JobStatusDeadLettered \<and> SJ_Status job \<noteq> JobStatusCompleted
                   then JobStatusPaused else SJ_Status job),
     SJ_UpdatedAt := now\<rparr>)"

definition PauseJob ::
  "'w state_saver \<Rightarrow> ctx \<Rightarrow> time \<Rightarrow> string \<Rightarrow> 'w SchedReg \<Rightarrow> (sched_err + SchedJob) \<times> 'w SchedReg" where
  "PauseJob sv c now jid r = withJob sv c jid (pause_fn now) r"

definition resume_fn :: "time \<Rightarrow> SchedJob \<Rightarrow> sched_err + SchedJob" where
  "resume_fn now job0 =
     (let job = job0\<lparr>SJ_Definition := (SJ_Definition job0)\<lparr>Def_Paused := False\<rparr>\<rparr> in
      if SJ_DeadLetteredAt job \<noteq> None then
        Inr (job\<lparr>SJ_Status := JobStatusDeadLettered, SJ_UpdatedAt := now\<rparr>)
      else if SJ_Status job = JobStatusCompleted then Inr (job\<lparr>SJ_UpdatedAt := now\<rparr>)
      else
        let job1 = job\<lparr>SJ_Status := JobStatusReady\<rparr> in
        if SJ_NextRunAt job1 = None \<and> timed (SJ_Definition job1) then
          (case Schedule_NextAfter (Def_Schedule (SJ_Definition job1)) now of Inl e \<Rightarrow> Inl e
           | Inr t \<Rightarrow> Inr ((if isZero t then job1 else job1\<lparr>SJ_NextRunAt := Some t\<rparr>)\<lparr>SJ_UpdatedAt := now\<rparr>))
        else Inr (job1\<lparr>SJ_UpdatedAt := now\<rparr>))"

definition ResumeJob ::
  "'w state_saver \<Rightarrow> ctx \<Rightarrow> time \<Rightarrow> string \<Rightarrow> 'w SchedReg \<Rightarrow> (sched_err + SchedJob) \<times> 'w SchedReg" where
  "ResumeJob sv c now jid r = withJob sv c jid (resume_fn now) r"

definition eventDedupeKey :: "string \<Rightarrow> string \<Rightarrow> string \<Rightarrow> string" where
  "eventDedupeKey jid eventType eventKey = jid @ [CHR 0x00] @ eventType @ [CHR 0x00] @ eventKey"

definition RemoveJob ::
  "'w state_saver \<Rightarrow> ctx \<Rightarrow> string \<Rightarrow> 'w SchedReg \<Rightarrow> (sched_err + SchedJob) \<times> 'w SchedReg" where
  "RemoveJob sv c jid r =
     (case c of Some e \<Rightarrow> (Inl (SErrCtx e), r) | None \<Rightarrow>
      (case map_of (sjobs r) jid of None \<Rightarrow> (Inl SErrNotFound, r)
       | Some job \<Rightarrow>
           let prefix = jid @ [CHR 0x00];
               r' = r\<lparr>sr_state := (sr_state r)\<lparr>St_Jobs := AList.delete jid (sjobs r),
                      St_EventDedupe := filter (\<lambda>e. take (length prefix) (fst e) \<noteq> prefix) (sdedupe r)\<rparr>\<rparr>
           in sched_return sv c job r'))"

section \<open>Triggers\<close>

text \<open>The accumulated runs and decisions of a batch, newest last.\<close>

type_synonym batch = "Run list \<times> Decision list"

definition addToBatch :: "Run \<Rightarrow> Decision \<Rightarrow> batch \<Rightarrow> batch" where
  "addToBatch run d b = (if Dec_Outcome d = OutcomeStarted then fst b @ [run] else fst b, snd b @ [d])"

definition isDue :: "SchedJob \<Rightarrow> time \<Rightarrow> bool" where
  "isDue job now = (case SJ_NextRunAt job of None \<Rightarrow> False | Some t \<Rightarrow> \<not> t > now)"

fun selectLoop :: "int \<Rightarrow> time \<Rightarrow> string list \<Rightarrow> batch \<Rightarrow> 'w SchedReg \<Rightarrow> batch \<times> 'w SchedReg" where
  "selectLoop limit now [] b r = (b, r)"
| "selectLoop limit now (jid # ids) b r =
     (if limit > 0 \<and> int (length (snd b)) \<ge> limit then (b, r)
      else case map_of (sjobs r) jid of
        None \<Rightarrow> selectLoop limit now ids b r
      | Some job \<Rightarrow>
          if \<not> isDue job now then selectLoop limit now ids b r
          else case resolveDue job \<lparr>Trig_Type = TriggerScheduled, Trig_EventType = [], Trig_EventKey = [],
                      Trig_DueAt = SJ_NextRunAt job, Trig_Data = []\<rparr> now r of
            ((run, d), r') \<Rightarrow> selectLoop limit now ids (addToBatch run d b) r')"

definition SelectDue ::
  "'w state_saver \<Rightarrow> ctx \<Rightarrow> time \<Rightarrow> int \<Rightarrow> 'w SchedReg \<Rightarrow> (sched_err + batch) \<times> 'w SchedReg" where
  "SelectDue sv c now limit r =
     (case c of Some e \<Rightarrow> (Inl (SErrCtx e), r) | None \<Rightarrow>
      (case reclaimExpiredLeases sv c now r of
         (Some e, r1) \<Rightarrow> (Inl e, r1)
       | (None, r1) \<Rightarrow>
           (case selectLoop limit now (sortedJobIDs (sjobs r1)) ([], []) r1 of (b, r2) \<Rightarrow>
              if snd b = [] then (Inr ([], []), r2)
              else sched_return sv c b (pruneTerminalRuns r2))))"

definition RunNow ::
  "'w state_saver \<Rightarrow> ctx \<Rightarrow> time \<Rightarrow> string \<Rightarrow> 'w SchedReg \<Rightarrow> (sched_err + Run \<times> Decision) \<times> 'w SchedReg" where
  "RunNow sv c now jid r =
     (case c of Some e \<Rightarrow> (Inl (SErrCtx e), r) | None \<Rightarrow>
      (case reclaimExpiredLeases sv c now r of
         (Some e, r1) \<Rightarrow> (Inl e, r1)
       | (None, r1) \<Rightarrow>
           (case map_of (sjobs r1) jid of None \<Rightarrow> (Inl SErrNotFound, r1)
            | Some job \<Rightarrow>
                (case resolveDue job \<lparr>Trig_Type = TriggerOnDemand, Trig_EventType = [], Trig_EventKey = [],
                        Trig_DueAt = None, Trig_Data = []\<rparr> now r1 of
                   ((run, d), r2) \<Rightarrow> sched_return sv c (run, d) (pruneTerminalRuns r2)))))"

definition eventTrigger :: "string \<Rightarrow> string \<Rightarrow> (string \<times> string) list \<Rightarrow> Trigger" where
  "eventTrigger et ek data = \<lparr>Trig_Type = TriggerEvent, Trig_EventType = et, Trig_EventKey = ek,
     Trig_DueAt = None, Trig_Data = data\<rparr>"

fun emitLoop ::
  "string \<Rightarrow> string \<Rightarrow> (string \<times> string) list \<Rightarrow> time \<Rightarrow> string list \<Rightarrow> batch \<Rightarrow> 'w SchedReg
     \<Rightarrow> batch \<times> 'w SchedReg" where
  "emitLoop et ek data now [] b r = (b, r)"
| "emitLoop et ek data now (jid # ids) b r =
     (case map_of (sjobs r) jid of
        None \<Rightarrow> emitLoop et ek data now ids b r
      | Some job \<Rightarrow>
          if Sch_Type (Def_Schedule (SJ_Definition job)) \<noteq> ScheduleEvent \<or>
             Sch_Event (Def_Schedule (SJ_Definition job)) \<noteq> et
          then emitLoop et ek data now ids b r
          else
            let key = eventDedupeKey (Def_ID (SJ_Definition job)) et ek in
            if ek \<noteq> [] \<and> map_of (sdedupe r) key \<noteq> None then
              (case recordSkip job (eventTrigger et ek data) OutcomeSkippedByPolicy
                      (ReasonText ''duplicate event trigger'') now r of
                 ((run, d), r1) \<Rightarrow>
                   emitLoop et ek data now ids (fst b, snd b @ [d]) (setRun (Run_ID run) run r1))
            else
              (case resolveDue job (eventTrigger et ek data) now r of
                 ((run, d), r1) \<Rightarrow>
                   emitLoop et ek data now ids (addToBatch run d b)
                     (if Dec_Outcome d = OutcomeStarted \<and> ek \<noteq> [] then setDedupe key (Run_ID run) r1 else r1)))"

definition EmitEvent ::
  "'w state_saver \<Rightarrow> ctx \<Rightarrow> time \<Rightarrow> string \<Rightarrow> string \<Rightarrow> (string \<times> string) list \<Rightarrow> 'w SchedReg
     \<Rightarrow> (sched_err + batch) \<times> 'w SchedReg" where
  "EmitEvent sv c now et ek data r =
     (case c of Some e \<Rightarrow> (Inl (SErrCtx e), r) | None \<Rightarrow>
      if et = [] then (Inl SErrInvalidState, r)
      else case reclaimExpiredLeases sv c now r of
         (Some e, r1) \<Rightarrow> (Inl e, r1)
       | (None, r1) \<Rightarrow>
           (case emitLoop et ek data now (sortedJobIDs (sjobs r1)) ([], []) r1 of (b, r2) \<Rightarrow>
              if snd b = [] then (Inr ([], []), r2)
              else sched_return sv c b (pruneTerminalRuns (pruneEventDedupe r2))))"

section \<open>Completion and metrics\<close>

definition completedJob :: "time \<Rightarrow> RunResult \<Rightarrow> string option \<Rightarrow> Run \<Rightarrow> SchedJob \<Rightarrow> SchedJob" where
  "completedJob now result runErr run job0 =
     (let job = (if sameHolder job0 run then job0\<lparr>SJ_Lease := None\<rparr> else job0)\<lparr>SJ_UpdatedAt := now\<rparr> in
      case runErr of
        Some _ \<Rightarrow>
          let n = SJ_ConsecutiveFailures job + 1; limit = Def_DeadLetterAfter (SJ_Definition job)
          in if limit > 0 \<and> n \<ge> limit
             then job\<lparr>SJ_ConsecutiveFailures := n, SJ_DeadLetteredAt := Some now, SJ_Status := JobStatusDeadLettered\<rparr>
             else job\<lparr>SJ_ConsecutiveFailures := n\<rparr>
      | None \<Rightarrow>
          let n = SJ_SuccessfulRuns job + 1;
              job1 = job\<lparr>SJ_SuccessfulRuns := n, SJ_ConsecutiveFailures := 0, SJ_Status := JobStatusReady,
                         SJ_LastDecisionPayload := Res_Context result\<rparr>
          in if Repeat_exhausted (Def_Repeat (SJ_Definition job)) n
             then job1\<lparr>SJ_Status := JobStatusCompleted, SJ_NextRunAt := None\<rparr> else job1)"

definition completedRun :: "time \<Rightarrow> RunResult \<Rightarrow> string option \<Rightarrow> Run \<Rightarrow> Run" where
  "completedRun now result runErr run = (case runErr of
      Some msg \<Rightarrow> run\<lparr>Run_CompletedAt := Some now, Run_Status := RunStatusFailed, Run_Error := ReasonText msg\<rparr>
    | None \<Rightarrow> run\<lparr>Run_CompletedAt := Some now, Run_Status := RunStatusSucceeded, Run_Result := Some result,
                  Run_Context := Res_Context result\<rparr>)"

definition diesNow :: "string option \<Rightarrow> SchedJob \<Rightarrow> bool" where
  "diesNow runErr job \<longleftrightarrow> runErr \<noteq> None \<and> Def_DeadLetterAfter (SJ_Definition job) > 0 \<and>
     SJ_ConsecutiveFailures job + 1 \<ge> Def_DeadLetterAfter (SJ_Definition job)"

text \<open>The part of \<open>CompleteRun\<close> that updates the run's job, if it still exists.\<close>

definition settleJob :: "time \<Rightarrow> RunResult \<Rightarrow> string option \<Rightarrow> Run \<Rightarrow> 'w SchedReg \<Rightarrow> 'w SchedReg" where
  "settleJob now result runErr run r =
     (case map_of (sjobs r) (Run_JobID run) of None \<Rightarrow> r
      | Some job \<Rightarrow>
          (let r' = setJob (Run_JobID run) (completedJob now result runErr run job) r
           in if diesNow runErr job
              then modMetrics (\<lambda>m. m\<lparr>Met_DeadLetters := Met_DeadLetters m + 1\<rparr>) r' else r'))"

definition CompleteRun ::
  "'w state_saver \<Rightarrow> ctx \<Rightarrow> time \<Rightarrow> string \<Rightarrow> RunResult \<Rightarrow> string option \<Rightarrow> 'w SchedReg
     \<Rightarrow> (sched_err + Run) \<times> 'w SchedReg" where
  "CompleteRun sv c now rid result runErr r =
     (case c of Some e \<Rightarrow> (Inl (SErrCtx e), r) | None \<Rightarrow>
      (case map_of (sruns r) rid of None \<Rightarrow> (Inl SErrNotFound, r)
       | Some run \<Rightarrow>
         if Run_Status run \<noteq> RunStatusRunning then (Inl SErrInvalidState, r)
         else
           let run' = completedRun now result runErr run;
               r1 = setRun rid run' r;
               r2 = settleJob now result runErr run' r1;
               r3 = pruneTerminalRuns r2
           in (case sched_persist sv c r3 of
                 (Some e, r4) \<Rightarrow>
                   (Inl e, modMetrics (\<lambda>m. m\<lparr>Met_CompletionPersistFailures := Met_CompletionPersistFailures m + 1\<rparr>) r4)
               | (None, r4) \<Rightarrow> (Inr run', r4))))"

text \<open>Signed 64-bit division truncates towards zero; a zero divisor panics.\<close>

definition go_div :: "int \<Rightarrow> int \<Rightarrow> int" where
  "go_div a b = wrap64 (sgn a * sgn b * (\<bar>a\<bar> div \<bar>b\<bar>))"

definition RecordTickDuration ::
  "'w state_saver \<Rightarrow> ctx \<Rightarrow> duration \<Rightarrow> 'w SchedReg \<Rightarrow> sched_err option \<times> 'w SchedReg" where
  "RecordTickDuration sv c d r =
     (case c of Some e \<Rightarrow> (Some (SErrCtx e), r) | None \<Rightarrow>
      let ticks = Met_Ticks (smetrics r) + 1;
          count = sint ticks;
          r1 = modMetrics (\<lambda>m. m\<lparr>Met_Ticks := ticks\<rparr>) r
      in if count = 0 then (Some SErrPanic, r1)
         else let total = wrap64 (wrap64 (Met_AverageTickDuration (smetrics r) * wrap64 (count - 1)) + d)
              in sched_persist sv c (modMetrics (\<lambda>m. m\<lparr>Met_AverageTickDuration := go_div total count\<rparr>) r1))"

end
