(* ===== verification/SchedInvariant.thy ===== *)
theory SchedInvariant
  imports SchedRegistry
begin

text \<open>
  The tending registry as a machine: what a resolved trigger does to the maps, the invariant of
  the state and its preservation by every method, and the facts about single jobs (definition,
  dead-letter mark) that the methods keep.
\<close>

section \<open>Frames of the setters\<close>

lemma setter_fields [simp]:
  "sjobs (setJob k j r) = AList.update k j (sjobs r)" "sruns (setJob k j r) = sruns r"
  "sdedupe (setJob k j r) = sdedupe r" "smetrics (setJob k j r) = smetrics r"
  "sjobs (setRun k x r) = sjobs r" "sruns (setRun k x r) = AList.update k x (sruns r)"
  "sdedupe (setRun k x r) = sdedupe r" "smetrics (setRun k x r) = smetrics r"
  "sjobs (setDedupe k s r) = sjobs r" "sruns (setDedupe k s r) = sruns r"
  "sdedupe (setDedupe k s r) = AList.update k s (sdedupe r)"
  "sjobs (modMetrics f r) = sjobs r" "sruns (modMetrics f r) = sruns r"
  "sdedupe (modMetrics f r) = sdedupe r" "smetrics (modMetrics f r) = f (smetrics r)"
  by (simp_all add: setJob_def setRun_def setDedupe_def modMetrics_def)

lemma sched_return_state [simp]: "sr_state (snd (sched_return sv c x r)) = sr_state r"
  by (auto simp: sched_return_def sched_persist_def split: prod.splits option.splits)

lemma sched_persist_state [simp]: "sr_state (snd (sched_persist sv c r)) = sr_state r"
  by (auto simp: sched_persist_def split: prod.splits)

lemma sched_return_Inr: "sched_return sv c x r = (Inr y, r') \<Longrightarrow> y = x \<and> sr_state r' = sr_state r"
  using sched_return_state [of sv c x r]
  by (auto simp: sched_return_def split: prod.splits option.splits)

section \<open>Advancing a job\<close>

lemma advanceJob_keeps [simp]:
  "SJ_Definition (advanceJob j now) = SJ_Definition j"
  "SJ_DeadLetteredAt (advanceJob j now) = SJ_DeadLetteredAt j"
  "SJ_Lease (advanceJob j now) = SJ_Lease j"
  "SJ_LastDecision (advanceJob j now) = SJ_LastDecision j"
  "SJ_SuccessfulRuns (advanceJob j now) = SJ_SuccessfulRuns j"
  "SJ_ConsecutiveFailures (advanceJob j now) = SJ_ConsecutiveFailures j"
  by (simp_all add: advanceJob_def split: sum.split)

lemma advanceJob_status:
  "SJ_Status (advanceJob j now) = SJ_Status j \<or> SJ_Status (advanceJob j now) = JobStatusError"
  by (simp add: advanceJob_def split: sum.split)

section \<open>One resolved trigger\<close>

definition run_ok :: "Run \<Rightarrow> bool" where
  "run_ok x \<longleftrightarrow>
     (Run_Status x = RunStatusRunning \<or> terminalRun x) \<and>
     (Run_Status x = RunStatusRunning \<longleftrightarrow> Run_CompletedAt x = None) \<and>
     (Run_Status x = RunStatusSkipped \<longleftrightarrow> Run_Outcome x \<noteq> OutcomeStarted) \<and>
     (Run_Outcome x = OutcomeStarted \<longrightarrow> Run_Lease x \<noteq> None \<and> Run_StartedAt x \<noteq> None)"

definition job_wf :: "SchedJob \<Rightarrow> bool" where
  "job_wf j \<longleftrightarrow> (SJ_Status j = JobStatusDeadLettered \<longrightarrow> SJ_DeadLetteredAt j \<noteq> None)"

text \<open>
  What a resolved trigger leaves: one run is recorded, one job is replaced by a job with the same
  definition and dead-letter mark, and a started run leases the job.
\<close>

definition resolved :: "SchedJob \<Rightarrow> time \<Rightarrow> 'w SchedReg \<Rightarrow> Run \<Rightarrow> Decision \<Rightarrow> 'w SchedReg \<Rightarrow> SchedJob \<Rightarrow> bool" where
  "resolved job now r run d r' job' \<longleftrightarrow>
     map_of (sjobs r') = (map_of (sjobs r))(Def_ID (SJ_Definition job) \<mapsto> job') \<and>
     (distinct (keys (sjobs r)) \<longrightarrow> distinct (keys (sjobs r'))) \<and>
     sruns r' = AList.update (Run_ID run) run (sruns r) \<and>
     sdedupe r' = sdedupe r \<and>
     sr_terminalRunRetention r' = sr_terminalRunRetention r \<and>
     sr_dedupeRetention r' = sr_dedupeRetention r \<and>
     run_ok run \<and> Run_JobID run = Def_ID (SJ_Definition job) \<and>
     Dec_RunID d = Run_ID run \<and> Dec_JobID d = Def_ID (SJ_Definition job) \<and>
     Dec_Audit d = Def_AuditAlways (SJ_Definition job) \<and>
     Run_Outcome run = Dec_Outcome d \<and>
     SJ_Definition job' = SJ_Definition job \<and> SJ_DeadLetteredAt job' = SJ_DeadLetteredAt job \<and>
     (job_wf job \<longrightarrow> job_wf job') \<and>
     (Dec_Outcome d = OutcomeStarted \<longrightarrow> Run_Status run = RunStatusRunning \<and>
        Run_Lease run = Some \<lparr>Lease_Holder = sr_leaseHolder r, Lease_ExpiresAt = now + sr_leaseTTL r\<rparr> \<and>
        SJ_Lease job' = Run_Lease run)"

lemma recordSkip_effect:
  assumes "recordSkip job t oc why now r = ((run, d), r')"
  shows "sjobs r' = AList.update (Def_ID (SJ_Definition job))
           (job\<lparr>SJ_LastDecision := Some d, SJ_UpdatedAt := now\<rparr>) (sjobs r) \<and>
    sruns r' = sruns r \<and> sdedupe r' = sdedupe r \<and>
    sr_terminalRunRetention r' = sr_terminalRunRetention r \<and> sr_dedupeRetention r' = sr_dedupeRetention r \<and>
    Run_Status run = RunStatusSkipped \<and> Run_CompletedAt run = Some now \<and> Run_Outcome run = oc \<and>
    Run_JobID run = Def_ID (SJ_Definition job) \<and> Dec_Outcome d = oc \<and> Dec_Reason d = why \<and>
    Dec_RunID d = Run_ID run \<and> Dec_JobID d = Def_ID (SJ_Definition job) \<and>
    Dec_Audit d = Def_AuditAlways (SJ_Definition job) \<and> Dec_Trigger d = t"
  using assms
  by (auto simp: recordSkip_def newRun_def Let_def modMetrics_def setJob_def)

lemma skipAndAdvance_resolved:
  assumes "skipAndAdvance job t oc why now r = ((run, d), r')" "oc \<noteq> OutcomeStarted"
  shows "resolved job now r run d r' (advanceJob job now) \<and> Dec_Outcome d = oc \<and>
    Dec_Reason d = why"
proof -
  from assms(1) obtain r1 where s: "recordSkip job t oc why now r = ((run, d), r1)"
    and r': "r' = setJob (Def_ID (SJ_Definition job)) (advanceJob job now) (setRun (Run_ID run) run r1)"
    by (auto simp: skipAndAdvance_def split: prod.splits)
  have "job_wf job \<longrightarrow> job_wf (advanceJob job now)"
    using advanceJob_status [of job now] by (auto simp: job_wf_def)
  with recordSkip_effect [OF s] assms(2) show ?thesis
    by (auto simp: r' resolved_def run_ok_def terminalRun_def setJob_def setRun_def)
qed

lemma startRun_resolved:
  assumes "startRun job t now r = ((run, d), r')"
  shows "\<exists>job'. resolved job now r run d r' job' \<and> Dec_Outcome d = OutcomeStarted \<and>
    Run_Status run = RunStatusRunning \<and> SJ_LastDecision job' = Some d"
proof -
  let ?l = "\<lparr>Lease_Holder = sr_leaseHolder r, Lease_ExpiresAt = now + sr_leaseTTL r\<rparr>"
  let ?j = "(advanceJob (job\<lparr>SJ_Lease := Some ?l, SJ_Status := JobStatusReady\<rparr>) now)\<lparr>SJ_LastDecision := Some d\<rparr>"
  have "job_wf ?j"
    using advanceJob_status [of "job\<lparr>SJ_Lease := Some ?l, SJ_Status := JobStatusReady\<rparr>" now]
    by (auto simp: job_wf_def)
  then have "resolved job now r run d r' ?j \<and> Dec_Outcome d = OutcomeStarted \<and>
      Run_Status run = RunStatusRunning"
    using assms
    by (auto simp: startRun_def newRun_def Let_def resolved_def run_ok_def terminalRun_def
        modMetrics_def setJob_def setRun_def)
  then show ?thesis by (intro exI [of _ ?j]) simp
qed

lemma resolved_late:
  "resolved job now (modMetrics f r) run d r' job' \<Longrightarrow> resolved job now r run d r' job'"
  by (simp add: resolved_def modMetrics_def)

text \<open>The guards under which a trigger starts a run.\<close>

definition startable :: "SchedJob \<Rightarrow> Trigger \<Rightarrow> time \<Rightarrow> 'w SchedReg \<Rightarrow> bool" where
  "startable job t now r \<longleftrightarrow>
     SJ_Status job \<noteq> JobStatusPaused \<and> \<not> Def_Paused (SJ_Definition job) \<and>
     SJ_Status job \<noteq> JobStatusDeadLettered \<and> SJ_DeadLetteredAt job = None \<and>
     SJ_Status job \<noteq> JobStatusCompleted \<and> \<not> lease_active job now \<and>
     runningRuns (Def_ID (SJ_Definition job)) now r < maxConcurrency (SJ_Definition job) \<and>
     \<not> (misfired job t now \<and> Misfire_normalize (Def_MisfirePolicy (SJ_Definition job)) = MisfireSkip) \<and>
     evaluateRequiredCapabilities r job = []"

lemma capabilities_late [simp]:
  "evaluateRequiredCapabilities (modMetrics f r) job = evaluateRequiredCapabilities r job"
  by (simp add: evaluateRequiredCapabilities_def modMetrics_def)

lemma deadLetter_resolved:
  assumes "recordSkip job t oc why now r = ((run, d), r1)" "oc \<noteq> OutcomeStarted"
  shows "resolved job now r run d (setJob (Def_ID (SJ_Definition job)) job (setRun (Run_ID run) run r1)) job"
  using recordSkip_effect [OF assms(1)] assms(2)
  by (auto simp: resolved_def run_ok_def terminalRun_def setJob_def setRun_def)

lemma completed_resolved:
  assumes "recordSkip job t oc why now r = ((run, d), r1)" "oc \<noteq> OutcomeStarted"
  shows "resolved job now r run d (setRun (Run_ID run) run r1)
           (job\<lparr>SJ_LastDecision := Some d, SJ_UpdatedAt := now\<rparr>)"
  using recordSkip_effect [OF assms(1)] assms(2)
  by (auto simp: resolved_def run_ok_def terminalRun_def setRun_def job_wf_def)

lemma resolveDue_resolved:
  assumes "resolveDue job t now r = ((run, d), r')"
  shows "(\<exists>job'. resolved job now r run d r' job') \<and> (Dec_Outcome d = OutcomeStarted \<longleftrightarrow> startable job t now r)"
proof -
  let ?dead = "SJ_Status job = JobStatusDeadLettered \<or> SJ_DeadLetteredAt job \<noteq> None"
  let ?paused = "SJ_Status job = JobStatusPaused \<or> Def_Paused (SJ_Definition job)"
  have skip: "(\<exists>job'. resolved job now r run d r' job') \<and> Dec_Outcome d \<noteq> OutcomeStarted"
    if "skipAndAdvance job t oc why now q = ((run, d), r')" "oc \<noteq> OutcomeStarted"
      "q = r \<or> q = modMetrics f r" for oc why q f
    using skipAndAdvance_resolved [OF that(1,2)] that(2,3) resolved_late by (metis (no_types, lifting))
  consider (paused) ?paused | (dead) "\<not> ?paused" ?dead
    | (completed) "\<not> ?paused" "\<not> ?dead" "SJ_Status job = JobStatusCompleted"
    | (leased) "\<not> ?paused" "\<not> ?dead" "SJ_Status job \<noteq> JobStatusCompleted" "lease_active job now"
    | (full) "\<not> ?paused" "\<not> ?dead" "SJ_Status job \<noteq> JobStatusCompleted" "\<not> lease_active job now"
        "runningRuns (Def_ID (SJ_Definition job)) now r \<ge> maxConcurrency (SJ_Definition job)"
    | (free) "\<not> ?paused" "\<not> ?dead" "SJ_Status job \<noteq> JobStatusCompleted" "\<not> lease_active job now"
        "\<not> runningRuns (Def_ID (SJ_Definition job)) now r \<ge> maxConcurrency (SJ_Definition job)"
    by blast
  then show ?thesis
  proof cases
    case paused
    then have "skipAndAdvance job t OutcomePaused (ReasonText ''job is paused'') now r = ((run, d), r')"
      using assms by (simp add: resolveDue_def)
    from skip [OF this] paused show ?thesis by (auto simp: startable_def)
  next
    case dead
    then obtain r1 where s: "recordSkip job t OutcomeDeadLettered (ReasonText ''job is dead-lettered'') now r = ((run, d), r1)"
      and r': "r' = setJob (Def_ID (SJ_Definition job)) job (setRun (Run_ID run) run r1)"
      using assms by (auto simp: resolveDue_def split: prod.splits)
    from deadLetter_resolved [OF s] recordSkip_effect [OF s] dead r' show ?thesis
      by (auto simp: startable_def)
  next
    case completed
    then obtain r1 where s: "recordSkip job t OutcomeSkippedByPolicy (ReasonText ''repeat count exhausted'') now r = ((run, d), r1)"
      and r': "r' = setRun (Run_ID run) run r1"
      using assms by (auto simp: resolveDue_def split: prod.splits)
    from completed_resolved [OF s] recordSkip_effect [OF s] completed r' show ?thesis
      by (auto simp: startable_def)
  next
    case leased
    then have "skipAndAdvance job t OutcomeLeasedElsewhere (ReasonText ''job has an active lease'') now r = ((run, d), r')"
      using assms by (simp add: resolveDue_def)
    from skip [OF this] leased show ?thesis by (auto simp: startable_def)
  next
    case full
    then have "skipAndAdvance job t OutcomeLeasedElsewhere (ReasonText ''max concurrency reached'') now r = ((run, d), r')"
      using assms by (simp add: resolveDue_def)
    from skip [OF this] full show ?thesis by (auto simp: startable_def)
  next
    case free
    let ?r0 = "if misfired job t now then modMetrics (\<lambda>m. m\<lparr>Met_Misfires := Met_Misfires m + 1\<rparr>) r else r"
    have q: "?r0 = r \<or> ?r0 = modMetrics (\<lambda>m. m\<lparr>Met_Misfires := Met_Misfires m + 1\<rparr>) r" by simp
    have caps: "evaluateRequiredCapabilities ?r0 job = evaluateRequiredCapabilities r job" by simp
    show ?thesis
    proof (cases "misfired job t now \<and> Misfire_normalize (Def_MisfirePolicy (SJ_Definition job)) = MisfireSkip")
      case True
      with free assms have "skipAndAdvance job t OutcomeSkippedByMisfirePolicy
          (ReasonText ''missed scheduled run exceeded misfire grace'') now ?r0 = ((run, d), r')"
        by (simp add: resolveDue_def Let_def)
      from skip [OF this _ q] True show ?thesis by (auto simp: startable_def)
    next
      case m: False
      show ?thesis
      proof (cases "evaluateRequiredCapabilities r job = []")
        case False
        with m free assms caps have "skipAndAdvance job t OutcomeBlockedByCapability
            (ReasonCaps (evaluateRequiredCapabilities r job)) now ?r0 = ((run, d), r')"
          by (simp add: resolveDue_def Let_def split: if_splits)
        from skip [OF this _ q] False show ?thesis by (auto simp: startable_def)
      next
        case True
        with m free assms caps have "startRun job t now ?r0 = ((run, d), r')"
          by (simp add: resolveDue_def Let_def split: if_splits)
        from startRun_resolved [OF this] obtain job' where
          "resolved job now ?r0 run d r' job'" "Dec_Outcome d = OutcomeStarted" by blast
        moreover from this(1) have "resolved job now r run d r' job'"
          by (cases "misfired job t now") (auto dest: resolved_late)
        moreover have "startable job t now r" using free m True by (auto simp: startable_def)
        ultimately show ?thesis by blast
      qed
    qed
  qed
qed

end
