(* ===== verification/SchedMachine.thy ===== *)
theory SchedMachine
  imports SchedInvariant
begin

text \<open>
  Lifting facts about one resolved trigger to the batch methods. The locale collects what a
  property of the registry has to survive (a resolved trigger, a recorded duplicate, a reclaimed
  run, the prunings); its lemmas give the three trigger methods at once. It is interpreted for
  the state invariant, for the concurrency bound and for the dead-letter mark.
\<close>

section \<open>The invariant\<close>

definition sched_ok :: "State \<Rightarrow> bool" where
  "sched_ok st \<longleftrightarrow> distinct (keys (St_Jobs st)) \<and> distinct (keys (St_Runs st)) \<and>
     (\<forall>k j. map_of (St_Jobs st) k = Some j \<longrightarrow> validID k \<and> Def_ID (SJ_Definition j) = k \<and> job_wf j) \<and>
     (\<forall>k x. map_of (St_Runs st) k = Some x \<longrightarrow> Run_ID x = k \<and> run_ok x)"

lemma sched_ok_jobD: "sched_ok (sr_state r) \<Longrightarrow> map_of (sjobs r) k = Some j \<Longrightarrow>
    validID k \<and> Def_ID (SJ_Definition j) = k \<and> job_wf j"
  by (simp add: sched_ok_def)

lemma sched_ok_runD: "sched_ok (sr_state r) \<Longrightarrow> map_of (sruns r) k = Some x \<Longrightarrow> Run_ID x = k \<and> run_ok x"
  by (simp add: sched_ok_def)

lemma sched_ok_distinct: "sched_ok (sr_state r) \<Longrightarrow> distinct (keys (sruns r))"
  by (simp add: sched_ok_def)

section \<open>Batches\<close>

lemma fold_delete_keys: "distinct (keys m) \<Longrightarrow> distinct (keys (fold AList.delete ks m))"
  by (induction ks arbitrary: m) auto

lemma map_of_fold_delete: "map_of (fold AList.delete ks m) k = (if k \<in> set ks then None else map_of m k)"
  by (induction ks arbitrary: m) auto

lemma reclaimOne_runs:
  "k \<noteq> fst e \<Longrightarrow> map_of (sruns (reclaimOne now e r)) k = map_of (sruns r) k"
  by (auto simp: reclaimOne_def Let_def split: option.splits)

lemma retention_frames [simp]:
  "sr_dedupeRetention (setJob k j r) = sr_dedupeRetention r"
  "sr_dedupeRetention (setRun k x r) = sr_dedupeRetention r"
  "sr_dedupeRetention (setDedupe k v r) = sr_dedupeRetention r"
  "sr_dedupeRetention (modMetrics f r) = sr_dedupeRetention r"
  "sr_dedupeRetention (snd (sched_persist sv c r)) = sr_dedupeRetention r"
  "sr_dedupeRetention (snd (sched_return sv c y r)) = sr_dedupeRetention r"
  "sr_dedupeRetention (pruneTerminalRuns r) = sr_dedupeRetention r"
  "sr_dedupeRetention (pruneEventDedupe r) = sr_dedupeRetention r"
  by (auto simp: setJob_def setRun_def setDedupe_def modMetrics_def sched_return_def sched_persist_def
      pruneTerminalRuns_def pruneEventDedupe_def Let_def split: prod.splits option.splits)

lemma reclaimOne_retention [simp]: "sr_dedupeRetention (reclaimOne now e r) = sr_dedupeRetention r"
  by (auto simp: reclaimOne_def Let_def split: option.split)

locale trigger_invariant =
  fixes Q :: "'w SchedReg \<Rightarrow> bool" and now :: time
  assumes wf: "Q s \<Longrightarrow> sched_ok (sr_state s)"
    and state_only: "sr_state s' = sr_state s \<Longrightarrow> sr_dedupeRetention s' = sr_dedupeRetention s \<Longrightarrow> Q s \<Longrightarrow> Q s'"
    and resolve: "Q s \<Longrightarrow> map_of (sjobs s) jid = Some job \<Longrightarrow> resolveDue job t now s = ((run, d), s') \<Longrightarrow> Q s'"
    and duplicate: "Q s \<Longrightarrow> map_of (sjobs s) jid = Some job \<Longrightarrow>
        recordSkip job t OutcomeSkippedByPolicy why now s = ((run, d), s') \<Longrightarrow> Q (setRun (Run_ID run) run s')"
    and dedupe_entry: "Q s \<Longrightarrow> Q (setDedupe k v s)"
    and reclaim: "Q s \<Longrightarrow> map_of (sruns s) (fst e) = Some (snd e) \<Longrightarrow> Q (reclaimOne now e s)"
    and prune_runs: "Q s \<Longrightarrow> Q (pruneTerminalRuns s)"
    and prune_dedupe: "Q s \<Longrightarrow> Q (pruneEventDedupe s)"
begin

lemma selectLoop_keeps: "Q r \<Longrightarrow> Q (snd (selectLoop limit now ids b r))"
proof (induction ids arbitrary: b r)
  case Nil
  then show ?case by simp
next
  case (Cons jid ids)
  show ?case
  proof (cases "map_of (sjobs r) jid")
    case None
    with Cons show ?thesis by simp
  next
    case (Some job)
    obtain run d r' where "resolveDue job \<lparr>Trig_Type = TriggerScheduled, Trig_EventType = [], Trig_EventKey = [],
        Trig_DueAt = SJ_NextRunAt job, Trig_Data = []\<rparr> now r = ((run, d), r')" by (metis surj_pair)
    with Some Cons resolve [OF Cons.prems Some this] show ?thesis by simp
  qed
qed

lemma emitLoop_keeps: "Q r \<Longrightarrow> Q (snd (emitLoop et ek data now ids b r))"
proof (induction ids arbitrary: b r)
  case Nil
  then show ?case by simp
next
  case (Cons jid ids)
  show ?case
  proof (cases "map_of (sjobs r) jid")
    case None
    with Cons show ?thesis by simp
  next
    case (Some job)
    obtain run d r' where a: "resolveDue job (eventTrigger et ek data) now r = ((run, d), r')" by (metis surj_pair)
    obtain run2 d2 r2 where s: "recordSkip job (eventTrigger et ek data) OutcomeSkippedByPolicy
        (ReasonText ''duplicate event trigger'') now r = ((run2, d2), r2)" by (metis surj_pair)
    have q: "Q r'" using resolve [OF Cons.prems Some a] .
    have q2: "Q (setRun (Run_ID run2) run2 r2)" using duplicate [OF Cons.prems Some s] .
    have q3: "Q (setDedupe k v r')" for k v using q by (rule dedupe_entry)
    from Some a s show ?thesis by (simp add: Let_def Cons.IH Cons.prems q q2 q3)
  qed
qed

lemma reclaim_fold:
  "Q s \<Longrightarrow> distinct (keys es) \<Longrightarrow> (\<And>e. e \<in> set es \<Longrightarrow> map_of (sruns s) (fst e) = Some (snd e)) \<Longrightarrow>
    Q (fold (reclaimOne now) es s)"
proof (induction es arbitrary: s)
  case Nil
  then show ?case by simp
next
  case (Cons e es)
  have "Q (reclaimOne now e s)" using Cons.prems by (intro reclaim) auto
  moreover have "map_of (sruns (reclaimOne now e s)) (fst x) = Some (snd x)" if "x \<in> set es" for x
  proof -
    from that have "fst x \<in> set (keys es)" by simp
    moreover from Cons.prems(2) have "fst e \<notin> set (keys es)" by simp
    ultimately have "fst x \<noteq> fst e" by metis
    with Cons.prems(3) [of x] that show ?thesis by (simp add: reclaimOne_runs)
  qed
  ultimately show ?case using Cons.prems(2) by (auto intro: Cons.IH)
qed

lemma reclaim_keeps: "Q r \<Longrightarrow> Q (snd (reclaimExpiredLeases sv c now r))"
proof -
  assume q: "Q r"
  have "Q (fold (reclaimOne now) (sruns r) r)"
    using q sched_ok_distinct [OF wf [OF q]] by (intro reclaim_fold) (auto simp: map_of_is_SomeI)
  then have "Q (snd (sched_persist sv c (fold (reclaimOne now) (sruns r) r)))"
    by (rule state_only [rotated 2]) simp_all
  with q show ?thesis by (auto simp: reclaimExpiredLeases_def split: option.splits)
qed

lemma return_keeps: "Q r \<Longrightarrow> Q (snd (sched_return sv c x r))"
  by (rule state_only) simp_all

lemma SelectDue_keeps:
  assumes "Q r"
  shows "Q (snd (SelectDue sv c now limit r))"
proof -
  obtain e r1 where rc: "reclaimExpiredLeases sv c now r = (e, r1)" by (metis surj_pair)
  with reclaim_keeps [OF assms, of sv c] have q1: "Q r1" by simp
  obtain b r2 where sl: "selectLoop limit now (sortedJobIDs (sjobs r1)) ([], []) r1 = (b, r2)" by (metis surj_pair)
  with selectLoop_keeps [OF q1, of limit "sortedJobIDs (sjobs r1)" "([], [])"] have q2: "Q r2" by simp
  have "Q (snd (sched_return sv c b (pruneTerminalRuns r2)))"
    by (rule return_keeps, rule prune_runs, rule q2)
  with assms q1 q2 rc sl show ?thesis
    by (cases c; simp add: SelectDue_def split: option.split)
qed

lemma RunNow_keeps:
  assumes "Q r"
  shows "Q (snd (RunNow sv c now jid r))"
proof -
  obtain e r1 where rc: "reclaimExpiredLeases sv c now r = (e, r1)" by (metis surj_pair)
  with reclaim_keeps [OF assms, of sv c] have q1: "Q r1" by simp
  show ?thesis
  proof (cases "map_of (sjobs r1) jid")
    case None
    with assms q1 rc show ?thesis by (cases c; simp add: RunNow_def split: option.split)
  next
    case (Some job)
    obtain run d r2 where a: "resolveDue job \<lparr>Trig_Type = TriggerOnDemand, Trig_EventType = [], Trig_EventKey = [],
        Trig_DueAt = None, Trig_Data = []\<rparr> now r1 = ((run, d), r2)" by (metis surj_pair)
    have "Q (snd (sched_return sv c (run, d) (pruneTerminalRuns r2)))"
      by (rule return_keeps, rule prune_runs, rule resolve [OF q1 Some a])
    with assms q1 rc Some a show ?thesis by (cases c; simp add: RunNow_def split: option.split)
  qed
qed

lemma EmitEvent_keeps:
  assumes "Q r"
  shows "Q (snd (EmitEvent sv c now et ek data r))"
proof -
  obtain e r1 where rc: "reclaimExpiredLeases sv c now r = (e, r1)" by (metis surj_pair)
  with reclaim_keeps [OF assms, of sv c] have q1: "Q r1" by simp
  obtain b r2 where el: "emitLoop et ek data now (sortedJobIDs (sjobs r1)) ([], []) r1 = (b, r2)" by (metis surj_pair)
  with emitLoop_keeps [OF q1, of et ek data "sortedJobIDs (sjobs r1)" "([], [])"] have q2: "Q r2" by simp
  have "Q (snd (sched_return sv c b (pruneTerminalRuns (pruneEventDedupe r2))))"
    by (rule return_keeps, rule prune_runs, rule prune_dedupe, rule q2)
  with assms q1 q2 rc el show ?thesis
    by (cases c; simp add: EmitEvent_def split: option.split)
qed

end

section \<open>Preservation by the single steps\<close>

lemma sched_ok_resolved:
  assumes "sched_ok (sr_state r)" "map_of (sjobs r) jid = Some job" "resolved job now r run d r' job'"
  shows "sched_ok (sr_state r')"
proof -
  from sched_ok_jobD [OF assms(1,2)] have k: "validID jid" "Def_ID (SJ_Definition job) = jid" "job_wf job" by auto
  with assms(1,3) show ?thesis
    unfolding sched_ok_def resolved_def by (auto split: if_splits)
qed

lemma recordSkip_resolved:
  assumes "recordSkip job t oc why now r = ((run, d), r1)" "oc \<noteq> OutcomeStarted"
  shows "\<exists>job'. resolved job now r run d (setRun (Run_ID run) run r1) job'"
  using completed_resolved [OF assms] by blast

lemma sched_ok_resolveDue:
  assumes "sched_ok (sr_state r)" "map_of (sjobs r) jid = Some job" "resolveDue job t now r = ((run, d), r')"
  shows "sched_ok (sr_state r')"
proof -
  from resolveDue_resolved [OF assms(3)] obtain job' where "resolved job now r run d r' job'" by blast
  from sched_ok_resolved [OF assms(1,2) this] show ?thesis .
qed

lemma sched_ok_duplicate:
  assumes "sched_ok (sr_state r)" "map_of (sjobs r) jid = Some job"
    and "recordSkip job t OutcomeSkippedByPolicy why now r = ((run, d), r')"
  shows "sched_ok (sr_state (setRun (Run_ID run) run r'))"
proof -
  from recordSkip_resolved [OF assms(3)] obtain job' where
    "resolved job now r run d (setRun (Run_ID run) run r') job'" by auto
  from sched_ok_resolved [OF assms(1,2) this] show ?thesis .
qed

lemma sched_ok_reclaimOne:
  assumes "sched_ok (sr_state r)" "map_of (sruns r) (fst e) = Some (snd e)"
  shows "sched_ok (sr_state (reclaimOne now e r))"
proof -
  from sched_ok_runD [OF assms] have "Run_ID (snd e) = fst e" "run_ok (snd e)" by auto
  then have "Run_ID (interruptRun now (snd e)) = fst e \<and> (expiredRun now (snd e) \<longrightarrow> run_ok (interruptRun now (snd e)))"
    by (auto simp: interruptRun_def run_ok_def terminalRun_def expiredRun_def)
  with assms(1) show ?thesis
    by (auto simp: reclaimOne_def Let_def sched_ok_def job_wf_def split: option.splits)
qed

lemma prune_fields [simp]:
  "sjobs (pruneTerminalRuns r) = sjobs r" "sdedupe (pruneTerminalRuns r) = sdedupe r"
  "sjobs (pruneEventDedupe r) = sjobs r" "sruns (pruneEventDedupe r) = sruns r"
  by (auto simp: pruneTerminalRuns_def pruneEventDedupe_def Let_def split: prod.splits)

lemma prune_runs_submap:
  "map_of (sruns (pruneTerminalRuns r)) k = Some x \<Longrightarrow> map_of (sruns r) k = Some x"
  by (auto simp: pruneTerminalRuns_def Let_def map_of_fold_delete split: if_splits)

lemma prune_runs_distinct:
  "distinct (keys (sruns r)) \<Longrightarrow> distinct (keys (sruns (pruneTerminalRuns r)))"
  by (auto simp: pruneTerminalRuns_def Let_def fold_delete_keys)

lemma sched_ok_prune:
  "sched_ok (sr_state r) \<Longrightarrow> sched_ok (sr_state (pruneTerminalRuns r))"
  "sched_ok (sr_state r) \<Longrightarrow> sched_ok (sr_state (pruneEventDedupe r))"
  using prune_runs_submap [of r] prune_runs_distinct [of r] unfolding sched_ok_def
  by (simp, metis) simp

interpretation ok_triggers: trigger_invariant "\<lambda>s. sched_ok (sr_state s)" now for now
proof unfold_locales
  fix s s' :: "'a SchedReg" and jid job t run d
  assume "sched_ok (sr_state s)" "map_of (sjobs s) jid = Some job" "resolveDue job t now s = ((run, d), s')"
  then show "sched_ok (sr_state s')"
    by (rule sched_ok_resolveDue)
next
  fix s s' :: "'a SchedReg" and jid job t why run d
  assume "sched_ok (sr_state s)" "map_of (sjobs s) jid = Some job"
    and "recordSkip job t OutcomeSkippedByPolicy why now s = ((run, d), s')"
  then show "sched_ok (sr_state (setRun (Run_ID run) run s'))"
    by (rule sched_ok_duplicate)
next
  fix s :: "'a SchedReg" and k v
  assume "sched_ok (sr_state s)"
  then show "sched_ok (sr_state (setDedupe k v s))" by (simp add: sched_ok_def)
qed (simp_all add: sched_ok_reclaimOne sched_ok_prune)

section \<open>The operator methods and completion\<close>

definition Import_state :: "Definition \<Rightarrow> 'w SchedReg \<Rightarrow> 'w SchedReg \<Rightarrow> bool" where
  "Import_state d0 r r' \<longleftrightarrow> sr_state r' = sr_state r \<or>
     (\<exists>d nxt now. validID (Def_ID d) \<and> Def_ID d = Def_ID d0 \<and> maxConcurrency d = maxConcurrency d0 \<and>
        sr_state r' = sr_state (setJob (Def_ID d) (importedJob d nxt (map_of (sjobs r) (Def_ID d)) now) r))"

lemma normalized_fields [simp]:
  "Def_ID (nextRevision x d) = Def_ID d" "maxConcurrency (nextRevision x d) = maxConcurrency d"
  "Def_ID (Definition_normalized d) = Def_ID d"
  "maxConcurrency (Definition_normalized d) = maxConcurrency d"
  by (simp_all add: Definition_normalized_def maxConcurrency_def nextRevision_def split: option.split)

lemma Validate_validID: "Definition_Validate d = None \<Longrightarrow> validID (Def_ID d)"
  by (auto simp: Definition_Validate_def split: if_splits)

lemma ImportDefinition_state: "Import_state d r (snd (ImportDefinition sv c now d r))"
proof (cases "Definition_Validate (Definition_normalized d) = None")
  case False
  then have "sr_state (snd (ImportDefinition sv c now d r)) = sr_state r"
    by (auto simp: ImportDefinition_def Let_def)
  then show ?thesis by (simp add: Import_state_def)
next
  case True
  let ?d = "nextRevision (map_of (sjobs r) (Def_ID (Definition_normalized d))) (Definition_normalized d)"
  show ?thesis
  proof (cases "if timed ?d then Schedule_NextAfter (Def_Schedule ?d) (now - 1) else Inr 0")
    case (Inl e)
    with True have "sr_state (snd (ImportDefinition sv c now d r)) = sr_state r"
      by (simp add: ImportDefinition_def Let_def del: normalized_fields)
    then show ?thesis by (simp add: Import_state_def)
  next
    case (Inr t)
    with True have st: "sr_state (snd (ImportDefinition sv c now d r)) =
        sr_state (setJob (Def_ID (Definition_normalized d)) (importedJob ?d (if isZero t then None else Some t)
          (map_of (sjobs r) (Def_ID (Definition_normalized d))) now) r)"
      by (simp add: ImportDefinition_def Let_def del: normalized_fields(3,4))
    from True Validate_validID [of "Definition_normalized d"] have "validID (Def_ID ?d)" by simp
    with st show ?thesis unfolding Import_state_def
      by (intro disjI2 exI [of _ ?d] exI [of _ "if isZero t then None else Some t"] exI [of _ now]) simp
  qed
qed

lemma importedJob_wf:
  "Def_ID (SJ_Definition (importedJob d nxt ex now)) = Def_ID d \<and> job_wf (importedJob d nxt ex now)"
  by (simp add: importedJob_def Let_def job_wf_def)

lemma withJob_state:
  "sr_state (snd (withJob sv c jid f r)) = sr_state r \<or>
   (\<exists>job job'. map_of (sjobs r) jid = Some job \<and> f job = Inr job' \<and>
      sr_state (snd (withJob sv c jid f r)) = sr_state (setJob jid job' r))"
  by (auto simp: withJob_def split: option.splits sum.splits)

lemma pause_fn_keeps:
  "pause_fn now j = Inr j' \<Longrightarrow> Def_ID (SJ_Definition j') = Def_ID (SJ_Definition j) \<and>
    Def_MaxConcurrency (SJ_Definition j') = Def_MaxConcurrency (SJ_Definition j) \<and>
    SJ_DeadLetteredAt j' = SJ_DeadLetteredAt j \<and> (job_wf j \<longrightarrow> job_wf j')"
  by (auto simp: pause_fn_def job_wf_def split: if_splits)

lemma resume_fn_keeps:
  "resume_fn now j = Inr j' \<Longrightarrow> Def_ID (SJ_Definition j') = Def_ID (SJ_Definition j) \<and>
    Def_MaxConcurrency (SJ_Definition j') = Def_MaxConcurrency (SJ_Definition j) \<and>
    SJ_DeadLetteredAt j' = SJ_DeadLetteredAt j \<and> (job_wf j \<longrightarrow> job_wf j')"
  by (auto simp: resume_fn_def Let_def job_wf_def split: if_splits sum.splits)

lemma RemoveJob_state:
  "sr_state (snd (RemoveJob sv c jid r)) = sr_state r \<or>
   (\<exists>dd. sr_state (snd (RemoveJob sv c jid r)) =
      (sr_state r)\<lparr>St_Jobs := AList.delete jid (sjobs r), St_EventDedupe := dd\<rparr>)"
  by (auto simp: RemoveJob_def Let_def split: option.splits)

lemma completedJob_keeps:
  "SJ_Definition (completedJob now res e run j) = SJ_Definition j \<and>
   (SJ_DeadLetteredAt j \<noteq> None \<longrightarrow> SJ_DeadLetteredAt (completedJob now res e run j) \<noteq> None) \<and>
   (job_wf j \<longrightarrow> job_wf (completedJob now res e run j))"
  by (auto simp: completedJob_def Let_def job_wf_def split: option.splits)

lemma completedRun_keeps:
  "Run_ID (completedRun now res e x) = Run_ID x \<and> Run_JobID (completedRun now res e x) = Run_JobID x \<and>
   Run_Status (completedRun now res e x) \<noteq> RunStatusRunning \<and>
   (run_ok x \<longrightarrow> Run_Status x = RunStatusRunning \<longrightarrow> run_ok (completedRun now res e x))"
  by (auto simp: completedRun_def run_ok_def terminalRun_def split: option.splits)

text \<open>Completion sets one run and one job, then prunes; the save changes neither.\<close>

lemma settleJob_fields:
  "sruns (settleJob now res e run r) = sruns r \<and> sdedupe (settleJob now res e run r) = sdedupe r \<and>
   sjobs (settleJob now res e run r) = (case map_of (sjobs r) (Run_JobID run) of None \<Rightarrow> sjobs r
     | Some job \<Rightarrow> AList.update (Run_JobID run) (completedJob now res e run job) (sjobs r))"
  by (simp add: settleJob_def Let_def split: option.split)

lemma CompleteRun_state:
  "sr_state (snd (CompleteRun sv c now rid res e r)) = sr_state r \<or>
   (\<exists>run. map_of (sruns r) rid = Some run \<and> Run_Status run = RunStatusRunning \<and>
      (let q = pruneTerminalRuns (settleJob now res e (completedRun now res e run)
                 (setRun rid (completedRun now res e run) r))
       in sruns (snd (CompleteRun sv c now rid res e r)) = sruns q \<and>
          sjobs (snd (CompleteRun sv c now rid res e r)) = sjobs q \<and>
          sdedupe (snd (CompleteRun sv c now rid res e r)) = sdedupe q))"
proof (cases "c = None \<and> (\<exists>run. map_of (sruns r) rid = Some run \<and> Run_Status run = RunStatusRunning)")
  case False
  then have "sr_state (snd (CompleteRun sv c now rid res e r)) = sr_state r"
    by (cases c; cases "map_of (sruns r) rid"; simp add: CompleteRun_def)
  then show ?thesis ..
next
  case True
  then obtain run where run: "map_of (sruns r) rid = Some run" "Run_Status run = RunStatusRunning" "c = None" by blast
  let ?x = "completedRun now res e run"
  let ?q = "pruneTerminalRuns (settleJob now res e ?x (setRun rid ?x r))"
  obtain er r4 where p: "sched_persist sv None ?q = (er, r4)" by (metis surj_pair)
  then have st: "sr_state r4 = sr_state ?q"
    using sched_persist_state [of sv None ?q] by simp
  have "snd (CompleteRun sv c now rid res e r) = (case er of None \<Rightarrow> r4
     | Some _ \<Rightarrow> modMetrics (\<lambda>m. m\<lparr>Met_CompletionPersistFailures := Met_CompletionPersistFailures m + 1\<rparr>) r4)"
    using run p by (simp add: CompleteRun_def Let_def split: option.split)
  then have "sruns (snd (CompleteRun sv c now rid res e r)) = sruns ?q"
    "sjobs (snd (CompleteRun sv c now rid res e r)) = sjobs ?q"
    "sdedupe (snd (CompleteRun sv c now rid res e r)) = sdedupe ?q"
    using st by (simp_all split: option.splits)
  with run show ?thesis unfolding Let_def by blast
qed

lemma RecordTick_fields:
  "sjobs (snd (RecordTickDuration sv c d r)) = sjobs r \<and> sruns (snd (RecordTickDuration sv c d r)) = sruns r \<and>
   sdedupe (snd (RecordTickDuration sv c d r)) = sdedupe r"
  by (auto simp: RecordTickDuration_def Let_def split: option.splits)

lemma sched_ok_fields:
  "sjobs r' = sjobs r \<Longrightarrow> sruns r' = sruns r \<Longrightarrow> sched_ok (sr_state r') = sched_ok (sr_state r)"
  by (simp add: sched_ok_def)

lemma sched_ok_setJob:
  "sched_ok (sr_state r) \<Longrightarrow> validID k \<Longrightarrow> Def_ID (SJ_Definition j) = k \<Longrightarrow> job_wf j \<Longrightarrow> sched_ok (sr_state (setJob k j r))"
  by (auto simp: sched_ok_def)

lemma sched_ok_setRun:
  "sched_ok (sr_state r) \<Longrightarrow> Run_ID x = k \<Longrightarrow> run_ok x \<Longrightarrow> sched_ok (sr_state (setRun k x r))"
  by (auto simp: sched_ok_def)

lemma sched_ok_settleJob:
  assumes "sched_ok (sr_state r)"
  shows "sched_ok (sr_state (settleJob now res e run r))"
proof (cases "map_of (sjobs r) (Run_JobID run)")
  case None
  with assms show ?thesis by (simp add: settleJob_def)
next
  case (Some job)
  from sched_ok_jobD [OF assms Some] completedJob_keeps [of now res e run job]
  have "sched_ok (sr_state (setJob (Run_JobID run) (completedJob now res e run job) r))"
    by (intro sched_ok_setJob assms) auto
  moreover from Some have "sjobs (settleJob now res e run r) = sjobs (setJob (Run_JobID run) (completedJob now res e run job) r)"
    "sruns (settleJob now res e run r) = sruns (setJob (Run_JobID run) (completedJob now res e run job) r)"
    using settleJob_fields [of now res e run r] by simp_all
  ultimately show ?thesis using sched_ok_fields by blast
qed

lemma CompleteRun_ok:
  assumes "sched_ok (sr_state r)"
  shows "sched_ok (sr_state (snd (CompleteRun sv c now rid res e r)))"
  using CompleteRun_state [of sv c now rid res e r]
proof (elim disjE exE conjE)
  assume "sr_state (snd (CompleteRun sv c now rid res e r)) = sr_state r"
  with assms show ?thesis by simp
next
  fix run
  let ?x = "completedRun now res e run"
  let ?q = "pruneTerminalRuns (settleJob now res e ?x (setRun rid ?x r))"
  assume run: "map_of (sruns r) rid = Some run" "Run_Status run = RunStatusRunning"
    and out: "let q = ?q in sruns (snd (CompleteRun sv c now rid res e r)) = sruns q \<and>
          sjobs (snd (CompleteRun sv c now rid res e r)) = sjobs q \<and>
          sdedupe (snd (CompleteRun sv c now rid res e r)) = sdedupe q"
  from sched_ok_runD [OF assms run(1)] completedRun_keeps [of now res e run] run(2)
  have "sched_ok (sr_state (setRun rid ?x r))" by (intro sched_ok_setRun assms) auto
  then have "sched_ok (sr_state ?q)" by (intro sched_ok_prune sched_ok_settleJob)
  with out show ?thesis
    unfolding Let_def using sched_ok_fields [of "snd (CompleteRun sv c now rid res e r)" ?q] by blast
qed

datatype sched_op =
    SImport ctx time Definition
  | SPause ctx time string
  | SResume ctx time string
  | SRemove ctx string
  | SSelect ctx time int
  | SRunNow ctx time string
  | SEmit ctx time string string "(string \<times> string) list"
  | SComplete ctx time string RunResult "string option"
  | STick ctx duration

fun sched_step :: "'w state_saver \<Rightarrow> sched_op \<Rightarrow> 'w SchedReg \<Rightarrow> 'w SchedReg" where
  "sched_step sv (SImport c now d) r = snd (ImportDefinition sv c now d r)"
| "sched_step sv (SPause c now jid) r = snd (PauseJob sv c now jid r)"
| "sched_step sv (SResume c now jid) r = snd (ResumeJob sv c now jid r)"
| "sched_step sv (SRemove c jid) r = snd (RemoveJob sv c jid r)"
| "sched_step sv (SSelect c now limit) r = snd (SelectDue sv c now limit r)"
| "sched_step sv (SRunNow c now jid) r = snd (RunNow sv c now jid r)"
| "sched_step sv (SEmit c now et ek data) r = snd (EmitEvent sv c now et ek data r)"
| "sched_step sv (SComplete c now rid res e) r = snd (CompleteRun sv c now rid res e r)"
| "sched_step sv (STick c d) r = snd (RecordTickDuration sv c d r)"

lemma withJob_ok:
  assumes "sched_ok (sr_state r)"
    and "\<And>j j'. f j = Inr j' \<Longrightarrow> Def_ID (SJ_Definition j') = Def_ID (SJ_Definition j) \<and> (job_wf j \<longrightarrow> job_wf j')"
  shows "sched_ok (sr_state (snd (withJob sv c jid f r)))"
  using withJob_state [of sv c jid f r]
proof (elim disjE exE conjE)
  fix job job'
  assume j: "map_of (sjobs r) jid = Some job" "f job = Inr job'"
    and st: "sr_state (snd (withJob sv c jid f r)) = sr_state (setJob jid job' r)"
  from sched_ok_jobD [OF assms(1) j(1)] assms(2) [OF j(2)] have "sched_ok (sr_state (setJob jid job' r))"
    by (intro sched_ok_setJob assms(1)) auto
  with st show ?thesis by simp
qed (use assms in simp)

lemma sched_step_ok: "sched_ok (sr_state r) \<Longrightarrow> sched_ok (sr_state (sched_step sv x r))"
proof (cases x)
  case (SImport c now d)
  assume ok: "sched_ok (sr_state r)"
  from ImportDefinition_state [of d r sv c now] ok importedJob_wf SImport show ?thesis
    by (auto simp: Import_state_def intro!: sched_ok_setJob)
next
  case (SRemove c jid)
  assume ok: "sched_ok (sr_state r)"
  from RemoveJob_state [of sv c jid r] ok SRemove show ?thesis
    by (auto simp: sched_ok_def split: if_splits)
next
  case (STick c d)
  assume "sched_ok (sr_state r)"
  with STick RecordTick_fields [of sv c d r] show ?thesis by (simp add: sched_ok_def)
qed (auto simp: PauseJob_def ResumeJob_def CompleteRun_ok ok_triggers.SelectDue_keeps
    ok_triggers.RunNow_keeps ok_triggers.EmitEvent_keeps intro!: withJob_ok dest: pause_fn_keeps resume_fn_keeps)

interpretation sched_machine: machine "sched_step sv" "\<lambda>r. sched_ok (sr_state r)" for sv
  by unfold_locales (rule sched_step_ok)

section \<open>Invariants of runs\<close>

lemma retention_ops:
  "sr_dedupeRetention (snd (ImportDefinition sv c now d r)) = sr_dedupeRetention r"
  "sr_dedupeRetention (snd (withJob sv c jid f r)) = sr_dedupeRetention r"
  "sr_dedupeRetention (snd (RemoveJob sv c jid r)) = sr_dedupeRetention r"
  "sr_dedupeRetention (snd (RecordTickDuration sv c dur r)) = sr_dedupeRetention r"
  by (simp_all add: ImportDefinition_def withJob_def RemoveJob_def RecordTickDuration_def Let_def
      split: option.split sum.split)

lemma retention_complete [simp]:
  "sr_dedupeRetention (settleJob now res e run r) = sr_dedupeRetention r"
  "sr_dedupeRetention (snd (CompleteRun sv c now rid res e r)) = sr_dedupeRetention r"
proof -
  show s: "sr_dedupeRetention (settleJob now res e run r) = sr_dedupeRetention r" for run r
    by (simp add: settleJob_def Let_def split: option.split)
  have p: "sched_persist sv None q = (e', q') \<Longrightarrow> sr_dedupeRetention q' = sr_dedupeRetention q" for e' q q'
    by (simp add: sched_persist_def split: prod.splits) auto
  show "sr_dedupeRetention (snd (CompleteRun sv c now rid res e r)) = sr_dedupeRetention r"
    by (auto simp: CompleteRun_def Let_def s split: option.split prod.split dest!: p)
qed

text \<open>The clock readings of a run of operations.\<close>

fun op_clock :: "sched_op \<Rightarrow> time option" where
  "op_clock (SImport c now d) = Some now"
| "op_clock (SPause c now jid) = Some now"
| "op_clock (SResume c now jid) = Some now"
| "op_clock (SSelect c now limit) = Some now"
| "op_clock (SRunNow c now jid) = Some now"
| "op_clock (SEmit c now et ek data) = Some now"
| "op_clock (SComplete c now rid res e) = Some now"
| "op_clock x = None"

definition clock_after :: "time \<Rightarrow> sched_op \<Rightarrow> time" where
  "clock_after now x = (case op_clock x of None \<Rightarrow> now | Some t \<Rightarrow> t)"

fun clocks_run :: "(time \<Rightarrow> time \<Rightarrow> bool) \<Rightarrow> time \<Rightarrow> sched_op list \<Rightarrow> bool" where
  "clocks_run ord now [] = True"
| "clocks_run ord now (x # xs) = (ord now (clock_after now x) \<and> clocks_run ord (clock_after now x) xs)"

definition last_clock :: "time \<Rightarrow> sched_op list \<Rightarrow> time" where
  "last_clock now ops = fold (\<lambda>x t. clock_after t x) ops now"

text \<open>
  A property that the trigger steps keep at every clock reading, and that survives what the
  operator methods and completions do to a job, is kept by every run of allowed operations.
\<close>

locale run_invariant =
  fixes Q :: "time \<Rightarrow> 'w SchedReg \<Rightarrow> bool"
    and ord :: "time \<Rightarrow> time \<Rightarrow> bool"
    and allowed :: "sched_op \<Rightarrow> bool"
  assumes triggers: "trigger_invariant (Q now) now"
    and later: "Q now s \<Longrightarrow> ord now now' \<Longrightarrow> Q now' s"
    and fields: "Q now s \<Longrightarrow> sjobs s' = sjobs s \<Longrightarrow> sruns s' = sruns s \<Longrightarrow> sdedupe s' = sdedupe s \<Longrightarrow>
        sr_dedupeRetention s' = sr_dedupeRetention s \<Longrightarrow> Q now s'"
    and relabel: "Q now s \<Longrightarrow> map_of (sjobs s) jid = Some j \<Longrightarrow>
        Def_ID (SJ_Definition j') = Def_ID (SJ_Definition j) \<Longrightarrow>
        Def_MaxConcurrency (SJ_Definition j') = Def_MaxConcurrency (SJ_Definition j) \<Longrightarrow>
        (SJ_DeadLetteredAt j \<noteq> None \<longrightarrow> SJ_DeadLetteredAt j' \<noteq> None) \<Longrightarrow> (job_wf j \<longrightarrow> job_wf j') \<Longrightarrow>
        Q now (setJob jid j' s)"
    and imported: "Q now s \<Longrightarrow> allowed (SImport c t d0) \<Longrightarrow> Def_ID d = Def_ID d0 \<Longrightarrow>
        maxConcurrency d = maxConcurrency d0 \<Longrightarrow> validID (Def_ID d) \<Longrightarrow>
        Q now (setJob (Def_ID d) (importedJob d nxt (map_of (sjobs s) (Def_ID d)) now') s)"
    and removed: "Q now s \<Longrightarrow> allowed (SRemove c jid) \<Longrightarrow> map_of (sjobs s) jid = Some j \<Longrightarrow>
        Q now (s\<lparr>sr_state := (sr_state s)\<lparr>St_Jobs := AList.delete jid (sjobs s),
          St_EventDedupe := filter (\<lambda>e. take (length jid + 1) (fst e) \<noteq> jid @ [CHR 0x00]) (sdedupe s)\<rparr>\<rparr>)"
    and completed: "Q now s \<Longrightarrow> map_of (sruns s) rid = Some run \<Longrightarrow> Run_Status run = RunStatusRunning \<Longrightarrow>
        Q now (setRun rid (completedRun now res e run) s)"
begin

lemma same_state: "Q now s \<Longrightarrow> sr_state s' = sr_state s \<Longrightarrow> sr_dedupeRetention s' = sr_dedupeRetention s \<Longrightarrow> Q now s'"
  by (rule fields) simp_all

lemma withJob_keeps:
  assumes "Q now r"
    and f: "\<And>j j'. f j = Inr j' \<Longrightarrow> Def_ID (SJ_Definition j') = Def_ID (SJ_Definition j) \<and>
      Def_MaxConcurrency (SJ_Definition j') = Def_MaxConcurrency (SJ_Definition j) \<and>
      SJ_DeadLetteredAt j' = SJ_DeadLetteredAt j \<and> (job_wf j \<longrightarrow> job_wf j')"
  shows "Q now (snd (withJob sv c jid f r))"
  using withJob_state [of sv c jid f r]
proof (elim disjE exE conjE)
  fix job job'
  assume j: "map_of (sjobs r) jid = Some job" "f job = Inr job'"
    and st: "sr_state (snd (withJob sv c jid f r)) = sr_state (setJob jid job' r)"
  from f [OF j(2)] have "Q now (setJob jid job' r)" by (intro relabel [OF assms(1) j(1)]) auto
  from same_state [OF this st] show ?thesis by (simp add: retention_ops)
qed (use same_state [OF assms(1)] in \<open>simp add: retention_ops\<close>)

lemma import_keeps:
  assumes "Q now r" "allowed (SImport c0 t d)"
  shows "Q now (snd (ImportDefinition sv c now' d r))"
  using ImportDefinition_state [of d r sv c now'] unfolding Import_state_def
proof (elim disjE exE conjE)
  fix d' nxt n
  assume d: "validID (Def_ID d')" "Def_ID d' = Def_ID d" "maxConcurrency d' = maxConcurrency d"
    and st: "sr_state (snd (ImportDefinition sv c now' d r)) =
      sr_state (setJob (Def_ID d') (importedJob d' nxt (map_of (sjobs r) (Def_ID d')) n) r)"
  from same_state [OF imported [OF assms d(2,3,1)] st] show ?thesis by (simp add: retention_ops)
qed (use same_state [OF assms(1)] in \<open>simp add: retention_ops\<close>)

lemma remove_keeps:
  assumes "Q now r" "allowed (SRemove c0 jid)"
  shows "Q now (snd (RemoveJob sv c jid r))"
proof (cases "c = None \<and> map_of (sjobs r) jid \<noteq> None")
  case False
  then have "snd (RemoveJob sv c jid r) = r" by (auto simp: RemoveJob_def split: option.split)
  with assms show ?thesis by simp
next
  case True
  then obtain j where j: "map_of (sjobs r) jid = Some j" by auto
  let ?s = "r\<lparr>sr_state := (sr_state r)\<lparr>St_Jobs := AList.delete jid (sjobs r),
    St_EventDedupe := filter (\<lambda>e. take (length jid + 1) (fst e) \<noteq> jid @ [CHR 0x00]) (sdedupe r)\<rparr>\<rparr>"
  from True have "sr_state (snd (RemoveJob sv c jid r)) = sr_state ?s" by (auto simp: RemoveJob_def Let_def)
  from same_state [OF removed [OF assms j] this] show ?thesis by (simp add: retention_ops)
qed

lemma settle_keeps:
  assumes "Q now r"
  shows "Q now (settleJob now' res e run r)"
proof (cases "map_of (sjobs r) (Run_JobID run)")
  case None
  with assms show ?thesis by (simp add: settleJob_def)
next
  case (Some job)
  let ?s = "setJob (Run_JobID run) (completedJob now' res e run job) r"
  from completedJob_keeps [of now' res e run job] have "Q now ?s" by (intro relabel [OF assms Some]) auto
  from fields [OF this] Some settleJob_fields [of now' res e run r] show ?thesis by simp
qed

lemma complete_keeps:
  assumes "Q now r"
  shows "Q now (snd (CompleteRun sv c now rid res e r))"
  using CompleteRun_state [of sv c now rid res e r]
proof (elim disjE exE conjE)
  fix run
  let ?x = "completedRun now res e run"
  assume run: "map_of (sruns r) rid = Some run" "Run_Status run = RunStatusRunning"
    and out: "let q = pruneTerminalRuns (settleJob now res e ?x (setRun rid ?x r))
       in sruns (snd (CompleteRun sv c now rid res e r)) = sruns q \<and>
          sjobs (snd (CompleteRun sv c now rid res e r)) = sjobs q \<and>
          sdedupe (snd (CompleteRun sv c now rid res e r)) = sdedupe q"
  have "Q now (pruneTerminalRuns (settleJob now res e ?x (setRun rid ?x r)))"
    by (intro trigger_invariant.prune_runs [OF triggers] settle_keeps completed assms run)
  from fields [OF this] out show ?thesis by (simp add: Let_def)
qed (use same_state [OF assms(1)] in simp)

lemma step_keeps:
  assumes "Q now r" "allowed x" "ord now (clock_after now x)"
  shows "Q (clock_after now x) (sched_step sv x r)"
proof -
  from later [OF assms(1,3)] have q: "Q (clock_after now x) r" .
  show ?thesis
  proof (cases x)
    case (STick c d)
    have "Q (clock_after now x) (snd (RecordTickDuration sv c d r))"
      using RecordTick_fields [of sv c d r] by (intro fields [OF q]) (simp_all add: retention_ops)
    with STick show ?thesis by simp
  qed (use q assms(2) in \<open>auto simp: clock_after_def PauseJob_def ResumeJob_def
      intro: import_keeps remove_keeps complete_keeps withJob_keeps [OF _ pause_fn_keeps]
        withJob_keeps [OF _ resume_fn_keeps]
        trigger_invariant.SelectDue_keeps [OF triggers] trigger_invariant.RunNow_keeps [OF triggers]
        trigger_invariant.EmitEvent_keeps [OF triggers]\<close>)
qed

lemma run_keeps:
  "Q now r \<Longrightarrow> list_all allowed ops \<Longrightarrow> clocks_run ord now ops \<Longrightarrow>
    Q (last_clock now ops) (fold (sched_step sv) ops r)"
  by (induction ops arbitrary: now r) (auto simp: last_clock_def intro: step_keeps)

end

end
