(* ===== verification/SchedProps.thy ===== *)
theory SchedProps
  imports SchedMachine
begin

text \<open>
  What the tending registry guarantees over whole runs: its invariant, what a trigger decides,
  the concurrency bound and the dead-letter mark.
\<close>

section \<open>The invariant and the decision\<close>

text \<open>
  C2. Whatever sequence of imports, pauses, resumes, removals, ticks, manual runs, events and
  completions is applied to a registry with an empty state, with whatever save errors: its maps
  have distinct keys, every job and run is stored under its own id, a job marked dead-lettered
  has its time, a run is running or finished, exactly the running ones lack a completion time,
  exactly the refused ones are skipped, and a started one has a lease and a start time.
\<close>

theorem scheduler_invariant:
  "sched_ok (sr_state (fold (sched_step sv) ops (r\<lparr>sr_state := emptyState\<rparr>)))"
  by (rule sched_machine.run_inv) (simp add: sched_ok_def emptyState_def)

text \<open>
  C6. Resolving a trigger starts a run exactly when the job is not paused, dead-lettered or
  completed, has no active lease, has room under its concurrency limit, is not refused by the
  misfire policy and has its capabilities. Either way one run is recorded, only this job's entry
  changes (its definition and dead-letter mark do not), and the decision names that run; a
  started run holds the lease it put on the job.
\<close>

theorem trigger_decision:
  assumes "resolveDue job t now r = ((run, d), r')"
  shows "(Dec_Outcome d = OutcomeStarted \<longleftrightarrow> startable job t now r) \<and>
    map_of (sruns r') = (map_of (sruns r))(Run_ID run \<mapsto> run) \<and> sdedupe r' = sdedupe r \<and>
    Run_Outcome run = Dec_Outcome d \<and> Dec_RunID d = Run_ID run \<and>
    Dec_Audit d = Def_AuditAlways (SJ_Definition job) \<and>
    (\<exists>job'. map_of (sjobs r') = (map_of (sjobs r))(Def_ID (SJ_Definition job) \<mapsto> job') \<and>
       SJ_Definition job' = SJ_Definition job \<and> SJ_DeadLetteredAt job' = SJ_DeadLetteredAt job \<and>
       (if startable job t now r
        then Run_Status run = RunStatusRunning \<and> SJ_Lease job' = Run_Lease run \<and>
          Run_Lease run = Some \<lparr>Lease_Holder = sr_leaseHolder r, Lease_ExpiresAt = now + sr_leaseTTL r\<rparr>
        else Run_Status run = RunStatusSkipped))"
proof -
  from resolveDue_resolved [OF assms] obtain job' where
    res: "resolved job now r run d r' job'" and st: "Dec_Outcome d = OutcomeStarted \<longleftrightarrow> startable job t now r" by blast
  from res st show ?thesis
    by (intro conjI exI [of _ job']) (auto simp: resolved_def run_ok_def)
qed

section \<open>The concurrency bound\<close>

text \<open>
  \<open>pol\<close> gives every job id a number that no import of the id exceeds with its limit; it bounds the live
  runs while the clock does not go back.
\<close>

definition live_count :: "string \<Rightarrow> time \<Rightarrow> (string \<times> Run) list \<Rightarrow> nat" where
  "live_count jid now m = length (filter (live_run jid now) (map snd m))"

definition capped :: "(string \<Rightarrow> nat) \<Rightarrow> time \<Rightarrow> 'w SchedReg \<Rightarrow> bool" where
  "capped pol now r \<longleftrightarrow> (\<forall>k. live_count k now (sruns r) \<le> pol k) \<and>
     (\<forall>k j. map_of (sjobs r) k = Some j \<longrightarrow> maxConcurrency (SJ_Definition j) \<le> int (pol k))"

lemma live_count_update:
  "live_count jid now (AList.update k v m) \<le> live_count jid now m + (if live_run jid now v then 1 else 0)"
  by (induction m) (auto simp: live_count_def)

lemma live_count_update_dead:
  "\<not> live_run jid now v \<Longrightarrow> live_count jid now (AList.update k v m) \<le> live_count jid now m"
  using live_count_update [of jid now k v m] by simp

lemma live_count_delete: "live_count jid now (AList.delete k m) \<le> live_count jid now m"
  by (induction m) (auto simp: live_count_def)

lemma live_count_fold_delete: "live_count jid now (fold AList.delete ks m) \<le> live_count jid now m"
proof (induction ks arbitrary: m)
  case Nil
  then show ?case by simp
next
  case (Cons k ks)
  from Cons.IH [of "AList.delete k m"] live_count_delete [of jid now k m] show ?case by simp
qed

lemma live_count_later:
  assumes "now \<le> now'"
  shows "live_count jid now' m \<le> live_count jid now m"
proof (induction m)
  case Nil
  then show ?case by (simp add: live_count_def)
next
  case (Cons a m)
  have "live_run jid now' (snd a) \<Longrightarrow> live_run jid now (snd a)"
    using assms by (auto simp: live_run_def split: option.splits)
  with Cons show ?case by (auto simp: live_count_def)
qed

lemma capped_later: "capped pol now r \<Longrightarrow> now \<le> now' \<Longrightarrow> capped pol now' r"
  unfolding capped_def using live_count_later le_trans by blast

lemma capped_fewer:
  assumes "capped pol now r" "\<And>k. live_count k now (sruns r') \<le> live_count k now (sruns r)"
    and "\<And>k j. map_of (sjobs r') k = Some j \<Longrightarrow>
      \<exists>j0. map_of (sjobs r) k = Some j0 \<and> maxConcurrency (SJ_Definition j) = maxConcurrency (SJ_Definition j0)"
  shows "capped pol now r'"
  unfolding capped_def
proof (intro conjI allI impI)
  fix k
  from assms(1,2) show "live_count k now (sruns r') \<le> pol k"
    unfolding capped_def by (meson le_trans)
next
  fix k j
  assume "map_of (sjobs r') k = Some j"
  from assms(3) [OF this] assms(1) show "maxConcurrency (SJ_Definition j) \<le> int (pol k)"
    unfolding capped_def by metis
qed

lemma capped_resolved:
  assumes "capped pol now r" "sched_ok (sr_state r)" "map_of (sjobs r) jid = Some job"
    and res: "resolved job now r run d r' job'"
    and room: "Dec_Outcome d = OutcomeStarted \<Longrightarrow>
      runningRuns (Def_ID (SJ_Definition job)) now r < maxConcurrency (SJ_Definition job)"
  shows "capped pol now r'"
proof -
  from sched_ok_jobD [OF assms(2,3)] have jid: "Def_ID (SJ_Definition job) = jid" by simp
  from assms(1,3) have cap: "maxConcurrency (SJ_Definition job) \<le> int (pol jid)"
    unfolding capped_def by blast
  from res jid have runs: "sruns r' = AList.update (Run_ID run) run (sruns r)"
    and jobs: "map_of (sjobs r') = (map_of (sjobs r))(jid \<mapsto> job')"
    and same: "SJ_Definition job' = SJ_Definition job" and rj: "Run_JobID run = jid"
    and ro: "run_ok run" "Run_Outcome run = Dec_Outcome d" by (auto simp: resolved_def)
  have "live_count k now (sruns r') \<le> pol k" for k
  proof (cases "live_run k now run")
    case True
    then have k: "k = jid" and "Run_Status run = RunStatusRunning" using rj by (auto simp: live_run_def)
    with ro have "Dec_Outcome d = OutcomeStarted" by (auto simp: run_ok_def)
    from room [OF this] jid cap k have "live_count k now (sruns r) < pol k"
      by (simp add: runningRuns_def live_count_def)
    with live_count_update [of k now "Run_ID run" run "sruns r"] runs show ?thesis by (auto split: if_splits)
  next
    case False
    from live_count_update_dead [OF this] have "live_count k now (sruns r') \<le> live_count k now (sruns r)"
      by (simp add: runs)
    with assms(1) show ?thesis unfolding capped_def by (meson le_trans)
  qed
  moreover from assms(1) cap same have
    "map_of (sjobs r') k = Some j \<Longrightarrow> maxConcurrency (SJ_Definition j) \<le> int (pol k)" for k j
    unfolding capped_def jobs by (auto split: if_splits)
  ultimately show ?thesis unfolding capped_def by blast
qed

lemma interrupted_not_live: "\<not> live_run k now (interruptRun now x)"
  by (simp add: live_run_def interruptRun_def)

lemma completed_not_live: "\<not> live_run k now (completedRun now' res e x)"
  using completedRun_keeps [of now' res e x] by (auto simp: live_run_def)

lemma reclaimOne_jobs:
  "map_of (sjobs (reclaimOne now e r)) k = Some j \<Longrightarrow>
    \<exists>j0. map_of (sjobs r) k = Some j0 \<and> SJ_Definition j = SJ_Definition j0 \<and>
      SJ_DeadLetteredAt j = SJ_DeadLetteredAt j0 \<and> SJ_NextRunAt j = SJ_NextRunAt j0"
  by (cases "expiredRun now (snd e)"; cases "map_of (sjobs r) (Run_JobID (snd e))")
    (auto simp: reclaimOne_def Let_def split: if_splits)

lemma reclaimOne_sruns:
  "sruns (reclaimOne now e r) = (if expiredRun now (snd e)
     then AList.update (fst e) (interruptRun now (snd e)) (sruns r) else sruns r)"
  by (auto simp: reclaimOne_def Let_def split: option.splits)

lemma prune_live_count: "live_count k now (sruns (pruneTerminalRuns r)) \<le> live_count k now (sruns r)"
  by (simp add: pruneTerminalRuns_def Let_def live_count_fold_delete)

lemma capped_state: "sr_state s' = sr_state s \<Longrightarrow> capped pol now s \<Longrightarrow> capped pol now s'"
  by (simp add: capped_def)

interpretation cap_triggers: trigger_invariant "\<lambda>s. sched_ok (sr_state s) \<and> capped pol now s" now for pol now
proof unfold_locales
  fix s s' :: "'a SchedReg" and jid job t run d
  assume q: "sched_ok (sr_state s) \<and> capped pol now s" and j: "map_of (sjobs s) jid = Some job"
    and res: "resolveDue job t now s = ((run, d), s')"
  from resolveDue_resolved [OF res] obtain job' where r: "resolved job now s run d s' job'"
    and st: "Dec_Outcome d = OutcomeStarted \<longleftrightarrow> startable job t now s" by blast
  from st have "Dec_Outcome d = OutcomeStarted \<Longrightarrow>
      runningRuns (Def_ID (SJ_Definition job)) now s < maxConcurrency (SJ_Definition job)"
    by (simp add: startable_def)
  from capped_resolved [OF conjunct2 [OF q] conjunct1 [OF q] j r this] have "capped pol now s'" .
  with q sched_ok_resolveDue [OF _ j res] show "sched_ok (sr_state s') \<and> capped pol now s'" by blast
next
  fix s s' :: "'a SchedReg" and jid job t why run d
  assume q: "sched_ok (sr_state s) \<and> capped pol now s" and j: "map_of (sjobs s) jid = Some job"
    and res: "recordSkip job t OutcomeSkippedByPolicy why now s = ((run, d), s')"
  from recordSkip_resolved [OF res] obtain job' where
    r: "resolved job now s run d (setRun (Run_ID run) run s') job'" by auto
  from recordSkip_effect [OF res] have "Dec_Outcome d \<noteq> OutcomeStarted" by simp
  then have "Dec_Outcome d = OutcomeStarted \<Longrightarrow>
      runningRuns (Def_ID (SJ_Definition job)) now s < maxConcurrency (SJ_Definition job)" by simp
  from capped_resolved [OF conjunct2 [OF q] conjunct1 [OF q] j r this]
  have "capped pol now (setRun (Run_ID run) run s')" .
  with q sched_ok_duplicate [OF _ j res]
  show "sched_ok (sr_state (setRun (Run_ID run) run s')) \<and> capped pol now (setRun (Run_ID run) run s')" by blast
next
  fix s :: "'a SchedReg" and e
  assume q: "sched_ok (sr_state s) \<and> capped pol now s" and e: "map_of (sruns s) (fst e) = Some (snd e)"
  have "capped pol now (reclaimOne now e s)"
  proof (rule capped_fewer)
    from q show "capped pol now s" by simp
  qed (auto simp: reclaimOne_sruns live_count_update_dead interrupted_not_live dest: reclaimOne_jobs)
  with q e show "sched_ok (sr_state (reclaimOne now e s)) \<and> capped pol now (reclaimOne now e s)"
    by (simp add: sched_ok_reclaimOne)
next
  fix s :: "'a SchedReg" and k v
  assume "sched_ok (sr_state s) \<and> capped pol now s"
  then show "sched_ok (sr_state (setDedupe k v s)) \<and> capped pol now (setDedupe k v s)"
    by (simp add: sched_ok_def capped_def)
next
  fix s :: "'a SchedReg"
  assume q: "sched_ok (sr_state s) \<and> capped pol now s"
  have "capped pol now (pruneTerminalRuns s)"
  proof (rule capped_fewer)
    from q show "capped pol now s" by simp
  qed (simp_all add: prune_live_count)
  with q show "sched_ok (sr_state (pruneTerminalRuns s)) \<and> capped pol now (pruneTerminalRuns s)"
    by (simp add: sched_ok_prune)
next
  fix s :: "'a SchedReg"
  assume "sched_ok (sr_state s) \<and> capped pol now s"
  then show "sched_ok (sr_state (pruneEventDedupe s)) \<and> capped pol now (pruneEventDedupe s)"
    by (simp add: sched_ok_prune capped_def)
next
  fix s s' :: "'a SchedReg"
  assume "sr_state s' = sr_state s" "sr_dedupeRetention s' = sr_dedupeRetention s"
    and "sched_ok (sr_state s) \<and> capped pol now s"
  then show "sched_ok (sr_state s') \<and> capped pol now s'" by (simp add: capped_def)
qed simp

text \<open>What the imports of a run may set.\<close>

fun import_limit :: "(string \<Rightarrow> nat) \<Rightarrow> sched_op \<Rightarrow> bool" where
  "import_limit pol (SImport c now d) = (maxConcurrency d \<le> int (pol (Def_ID d)))"
| "import_limit pol x = True"

interpretation cap_runs: run_invariant
  "\<lambda>now s. sched_ok (sr_state s) \<and> capped pol now s" "(\<le>)" "import_limit pol" for pol
proof unfold_locales
  fix now now' :: time and s :: "'a SchedReg"
  assume "sched_ok (sr_state s) \<and> capped pol now s" "now \<le> now'"
  then show "sched_ok (sr_state s) \<and> capped pol now' s" using capped_later by blast
next
  fix now :: time and s :: "'a SchedReg" and jid j j'
  assume q: "sched_ok (sr_state s) \<and> capped pol now s" and j: "map_of (sjobs s) jid = Some j"
    and same: "Def_ID (SJ_Definition j') = Def_ID (SJ_Definition j)"
      "Def_MaxConcurrency (SJ_Definition j') = Def_MaxConcurrency (SJ_Definition j)" "job_wf j \<longrightarrow> job_wf j'"
  from q j sched_ok_jobD [OF conjunct1 [OF q] j] same have "sched_ok (sr_state (setJob jid j' s))"
    by (intro sched_ok_setJob) auto
  moreover have "capped pol now (setJob jid j' s)"
  proof (rule capped_fewer)
    from q show "capped pol now s" by simp
    have "maxConcurrency (SJ_Definition j') = maxConcurrency (SJ_Definition j)"
      using same(2) by (simp add: maxConcurrency_def)
    with j show "\<exists>j0. map_of (sjobs s) k = Some j0 \<and>
        maxConcurrency (SJ_Definition i) = maxConcurrency (SJ_Definition j0)"
      if "map_of (sjobs (setJob jid j' s)) k = Some i" for k i using that by (auto split: if_splits)
  qed simp
  ultimately show "sched_ok (sr_state (setJob jid j' s)) \<and> capped pol now (setJob jid j' s)" by blast
next
  fix now t now' :: time and s :: "'a SchedReg" and c d0 d nxt
  assume q: "sched_ok (sr_state s) \<and> capped pol now s" and l: "import_limit pol (SImport c t d0)"
    and d: "Def_ID d = Def_ID d0" "maxConcurrency d = maxConcurrency d0" and v: "validID (Def_ID d)"
  let ?s = "setJob (Def_ID d) (importedJob d nxt (map_of (sjobs s) (Def_ID d)) now') s"
  from q v have "sched_ok (sr_state ?s)" by (intro sched_ok_setJob) (simp_all add: importedJob_wf)
  moreover from q l d have "capped pol now ?s" by (simp add: capped_def importedJob_def Let_def)
  ultimately show "sched_ok (sr_state ?s) \<and> capped pol now ?s" by blast
next
  fix now :: time and s :: "'a SchedReg" and rid run now' res e
  assume q: "sched_ok (sr_state s) \<and> capped pol now s" and r: "map_of (sruns s) rid = Some run"
    "Run_Status run = RunStatusRunning"
  from sched_ok_runD [OF conjunct1 [OF q] r(1)] completedRun_keeps [of now res e run] r(2)
  have ok: "sched_ok (sr_state (setRun rid (completedRun now res e run) s))"
    by (intro sched_ok_setRun conjunct1 [OF q]) auto
  have "capped pol now (setRun rid (completedRun now res e run) s)"
  proof (rule capped_fewer)
    from q show "capped pol now s" by simp
  qed (simp_all add: live_count_update_dead completed_not_live)
  with ok show "sched_ok (sr_state (setRun rid (completedRun now res e run) s)) \<and>
      capped pol now (setRun rid (completedRun now res e run) s)" by blast
qed (auto simp: sched_ok_def capped_def split: if_splits)

text \<open>
  C5. Whatever is imported, removed, ticked, triggered or completed from an empty state by a clock
  that never goes back, at no point are more leased runs of a job in progress than the largest
  concurrency limit (\<open>pol k\<close>) any import of its id has carried, also when a removal or a re-import
  has dropped the job's own lease. (A re-import with a smaller limit does not end runs that are
  already live; it bounds those that start later.)
\<close>

theorem concurrency_bound:
  assumes "list_all (import_limit pol) ops" "clocks_run (\<le>) start ops"
  shows "live_count k (last_clock start ops)
    (sruns (fold (sched_step sv) ops (r\<lparr>sr_state := emptyState\<rparr>))) \<le> pol k"
proof -
  have "sched_ok (sr_state (r\<lparr>sr_state := emptyState\<rparr>)) \<and> capped pol start (r\<lparr>sr_state := emptyState\<rparr>)"
    by (simp add: sched_ok_def capped_def emptyState_def live_count_def)
  from cap_runs.run_keeps [OF this assms] show ?thesis unfolding capped_def by blast
qed

section \<open>Dead letters\<close>

definition started_of :: "string \<Rightarrow> (string \<times> Run) list \<Rightarrow> string set" where
  "started_of jid m = {k. \<exists>x. map_of m k = Some x \<and> Run_JobID x = jid \<and> Run_Outcome x = OutcomeStarted}"

definition buried :: "string \<Rightarrow> string set \<Rightarrow> 'w SchedReg \<Rightarrow> bool" where
  "buried jid K r \<longleftrightarrow> (\<exists>j. map_of (sjobs r) jid = Some j \<and> SJ_DeadLetteredAt j \<noteq> None) \<and>
     started_of jid (sruns r) \<subseteq> K"

lemma started_of_update:
  "\<not> (Run_JobID x = jid \<and> Run_Outcome x = OutcomeStarted) \<Longrightarrow>
    started_of jid (AList.update k x m) \<subseteq> started_of jid m"
  by (auto simp: started_of_def split: if_splits)

lemma started_of_replace:
  "map_of m k = Some x \<Longrightarrow> Run_JobID x' = Run_JobID x \<Longrightarrow> Run_Outcome x' = Run_Outcome x \<Longrightarrow>
    started_of jid (AList.update k x' m) = started_of jid m"
  by (auto simp: started_of_def split: if_splits)

lemma buried_resolved:
  assumes "buried jid K r" "sched_ok (sr_state r)" "map_of (sjobs r) k = Some job"
    and res: "resolved job now r run d r' job'"
    and dead: "Dec_Outcome d = OutcomeStarted \<Longrightarrow> SJ_DeadLetteredAt job = None"
  shows "buried jid K r'"
proof -
  from sched_ok_jobD [OF assms(2,3)] have k: "Def_ID (SJ_Definition job) = k" by simp
  from assms(1) obtain j where j: "map_of (sjobs r) jid = Some j" "SJ_DeadLetteredAt j \<noteq> None"
    and K: "started_of jid (sruns r) \<subseteq> K" by (auto simp: buried_def)
  have "\<not> (Run_JobID run = jid \<and> Run_Outcome run = OutcomeStarted)"
    using res k dead j assms(3) by (auto simp: resolved_def)
  from started_of_update [OF this, of "Run_ID run" "sruns r"] K res
  have "started_of jid (sruns r') \<subseteq> K" by (auto simp: resolved_def)
  moreover have "\<exists>j. map_of (sjobs r') jid = Some j \<and> SJ_DeadLetteredAt j \<noteq> None"
    using res j k assms(3) by (cases "k = jid") (auto simp: resolved_def)
  ultimately show ?thesis unfolding buried_def by blast
qed

lemma buried_fields:
  "buried jid K r \<Longrightarrow> sjobs r' = sjobs r \<Longrightarrow> sruns r' = sruns r \<Longrightarrow> buried jid K r'"
  by (simp add: buried_def)

lemma buried_reclaimOne:
  assumes "buried jid K r" "map_of (sruns r) (fst e) = Some (snd e)"
  shows "buried jid K (reclaimOne now e r)"
proof -
  have "started_of jid (sruns (reclaimOne now e r)) = started_of jid (sruns r)"
    using started_of_replace [OF assms(2), of "interruptRun now (snd e)" jid]
    by (simp add: reclaimOne_sruns interruptRun_def)
  moreover have "\<exists>j. map_of (sjobs (reclaimOne now e r)) jid = Some j \<and> SJ_DeadLetteredAt j \<noteq> None"
    if "map_of (sjobs r) jid = Some j" "SJ_DeadLetteredAt j \<noteq> None" for j
    using that by (cases "expiredRun now (snd e)"; cases "map_of (sjobs r) (Run_JobID (snd e))")
      (auto simp: reclaimOne_def Let_def)
  ultimately show ?thesis using assms(1) unfolding buried_def by metis
qed

lemma buried_prune: "buried jid K r \<Longrightarrow> buried jid K (pruneTerminalRuns r)"
  using prune_runs_submap [of r] unfolding buried_def started_of_def by (auto 4 3)

interpretation dead_triggers: trigger_invariant "\<lambda>s. sched_ok (sr_state s) \<and> buried jid K s" now for jid K now
proof unfold_locales
  fix s s' :: "'a SchedReg" and k job t run d
  assume q: "sched_ok (sr_state s) \<and> buried jid K s" and j: "map_of (sjobs s) k = Some job"
    and res: "resolveDue job t now s = ((run, d), s')"
  from resolveDue_resolved [OF res] obtain job' where r: "resolved job now s run d s' job'"
    and st: "Dec_Outcome d = OutcomeStarted \<longleftrightarrow> startable job t now s" by blast
  from st have "Dec_Outcome d = OutcomeStarted \<Longrightarrow> SJ_DeadLetteredAt job = None" by (simp add: startable_def)
  from buried_resolved [OF conjunct2 [OF q] conjunct1 [OF q] j r this] have "buried jid K s'" .
  with q sched_ok_resolveDue [OF _ j res] show "sched_ok (sr_state s') \<and> buried jid K s'" by blast
next
  fix s s' :: "'a SchedReg" and k job t why run d
  assume q: "sched_ok (sr_state s) \<and> buried jid K s" and j: "map_of (sjobs s) k = Some job"
    and res: "recordSkip job t OutcomeSkippedByPolicy why now s = ((run, d), s')"
  from recordSkip_resolved [OF res] obtain job' where
    r: "resolved job now s run d (setRun (Run_ID run) run s') job'" by auto
  from recordSkip_effect [OF res] have "Dec_Outcome d = OutcomeStarted \<Longrightarrow> SJ_DeadLetteredAt job = None" by simp
  from buried_resolved [OF conjunct2 [OF q] conjunct1 [OF q] j r this]
  have "buried jid K (setRun (Run_ID run) run s')" .
  with q sched_ok_duplicate [OF _ j res]
  show "sched_ok (sr_state (setRun (Run_ID run) run s')) \<and> buried jid K (setRun (Run_ID run) run s')" by blast
qed (auto simp: sched_ok_reclaimOne buried_reclaimOne sched_ok_prune buried_prune
    elim: buried_fields, auto simp: sched_ok_def intro: buried_fields)

fun not_removing :: "string \<Rightarrow> sched_op \<Rightarrow> bool" where
  "not_removing jid (SRemove c k) = (k \<noteq> jid)"
| "not_removing jid x = True"

lemma buried_setJob:
  assumes "buried jid K s"
    and "k = jid \<Longrightarrow> SJ_DeadLetteredAt j' \<noteq> None"
  shows "buried jid K (setJob k j' s)"
  using assms by (auto simp: buried_def)

lemma clocks_any: "clocks_run (\<lambda>_ _. True) t ops"
  by (induction ops arbitrary: t) simp_all

lemma importedJob_dead:
  "SJ_DeadLetteredAt (importedJob d nxt ex now) = (case ex of None \<Rightarrow> None | Some x \<Rightarrow> SJ_DeadLetteredAt x)"
  by (simp add: importedJob_def Let_def)

interpretation dead_runs: run_invariant
  "\<lambda>now s. sched_ok (sr_state s) \<and> buried jid K s" "\<lambda>_ _. True" "not_removing jid" for jid K
proof unfold_locales
  fix now :: time and s :: "'a SchedReg" and k j j'
  assume q: "sched_ok (sr_state s) \<and> buried jid K s" and j: "map_of (sjobs s) k = Some j"
    and same: "Def_ID (SJ_Definition j') = Def_ID (SJ_Definition j)" "job_wf j \<longrightarrow> job_wf j'"
    and dead: "SJ_DeadLetteredAt j \<noteq> None \<longrightarrow> SJ_DeadLetteredAt j' \<noteq> None"
  from q j sched_ok_jobD [OF conjunct1 [OF q] j] same have "sched_ok (sr_state (setJob k j' s))"
    by (intro sched_ok_setJob) auto
  moreover have "buried jid K (setJob k j' s)"
    using q j dead by (intro buried_setJob) (auto simp: buried_def)
  ultimately show "sched_ok (sr_state (setJob k j' s)) \<and> buried jid K (setJob k j' s)" by blast
next
  fix now t now' :: time and s :: "'a SchedReg" and c and d0 d :: Definition and nxt
  assume q: "sched_ok (sr_state s) \<and> buried jid K s" and v: "validID (Def_ID d)"
  let ?s = "setJob (Def_ID d) (importedJob d nxt (map_of (sjobs s) (Def_ID d)) now') s"
  from q v have "sched_ok (sr_state ?s)" by (intro sched_ok_setJob) (simp_all add: importedJob_wf)
  moreover from q have "buried jid K ?s"
    by (intro buried_setJob) (auto simp: buried_def importedJob_dead)
  ultimately show "sched_ok (sr_state ?s) \<and> buried jid K ?s" by blast
next
  fix now :: time and s :: "'a SchedReg" and rid run res e
  assume q: "sched_ok (sr_state s) \<and> buried jid K s" and r: "map_of (sruns s) rid = Some run"
    "Run_Status run = RunStatusRunning"
  let ?x = "completedRun now res e run"
  from sched_ok_runD [OF conjunct1 [OF q] r(1)] completedRun_keeps [of now res e run] r(2)
  have ok: "sched_ok (sr_state (setRun rid ?x s))" by (intro sched_ok_setRun conjunct1 [OF q]) auto
  have "Run_Outcome ?x = Run_Outcome run" by (simp add: completedRun_def split: option.split)
  with started_of_replace [OF r(1), of ?x jid] completedRun_keeps [of now res e run]
  have "started_of jid (AList.update rid ?x (sruns s)) = started_of jid (sruns s)" by simp
  with q have "buried jid K (setRun rid ?x s)" by (simp add: buried_def)
  with ok show "sched_ok (sr_state (setRun rid ?x s)) \<and> buried jid K (setRun rid ?x s)" by blast
qed (auto simp: sched_ok_def buried_def split: if_splits)

text \<open>
  C8. A dead-lettered job stays dead-lettered and is never started again by a tick, a manual
  run or an event, whatever is paused, resumed, re-imported, completed or reclaimed in between:
  only removing the job clears the mark. Runs of it may be evicted, none is added.
\<close>

theorem dead_letter_absorbing:
  assumes "sched_ok (sr_state r)" "map_of (sjobs r) jid = Some j" "SJ_DeadLetteredAt j \<noteq> None"
    and "list_all (not_removing jid) ops"
  shows "(\<exists>j'. map_of (sjobs (fold (sched_step sv) ops r)) jid = Some j' \<and> SJ_DeadLetteredAt j' \<noteq> None) \<and>
    started_of jid (sruns (fold (sched_step sv) ops r)) \<subseteq> started_of jid (sruns r)"
proof -
  have "clocks_run (\<lambda>_ _. True) 0 ops" by (rule clocks_any)
  with assms dead_runs.run_keeps [of r jid "started_of jid (sruns r)" ops 0 sv] show ?thesis
    by (simp add: buried_def)
qed

end
