(* ===== verification/SchedHistory.thy ===== *)
theory SchedHistory
  imports SchedProps
begin

text \<open>
  What the tending registry keeps of its history: event deduplication, the retention of finished
  runs, the decisions of a tick, completion and restart.
\<close>

section \<open>Event deduplication\<close>

definition seen :: "string \<Rightarrow> 'w SchedReg \<Rightarrow> bool" where
  "seen key r \<longleftrightarrow> sr_dedupeRetention r \<le> 0 \<and> map_of (sdedupe r) key \<noteq> None"

lemma seen_fields:
  "seen key r \<Longrightarrow> sdedupe r' = sdedupe r \<Longrightarrow> sr_dedupeRetention r' = sr_dedupeRetention r \<Longrightarrow> seen key r'"
  by (simp add: seen_def)

lemma seen_resolved: "seen key r \<Longrightarrow> resolved job now r run d r' job' \<Longrightarrow> seen key r'"
  by (simp add: seen_def resolved_def)

lemma reclaimOne_dedupe [simp]: "sdedupe (reclaimOne now e r) = sdedupe r"
  by (auto simp: reclaimOne_def Let_def split: option.split)

lemma seen_prune: "seen key r \<Longrightarrow> seen key (pruneEventDedupe r)"
  by (simp add: seen_def pruneEventDedupe_def)

interpretation seen_triggers: trigger_invariant "\<lambda>s. sched_ok (sr_state s) \<and> seen key s" now for key now
proof unfold_locales
  fix s s' :: "'a SchedReg" and k job t run d
  assume q: "sched_ok (sr_state s) \<and> seen key s" and j: "map_of (sjobs s) k = Some job"
    and res: "resolveDue job t now s = ((run, d), s')"
  from resolveDue_resolved [OF res] obtain job' where r: "resolved job now s run d s' job'" by blast
  from q sched_ok_resolveDue [OF _ j res] seen_resolved [OF _ r]
  show "sched_ok (sr_state s') \<and> seen key s'" by blast
next
  fix s s' :: "'a SchedReg" and k job t why run d
  assume q: "sched_ok (sr_state s) \<and> seen key s" and j: "map_of (sjobs s) k = Some job"
    and res: "recordSkip job t OutcomeSkippedByPolicy why now s = ((run, d), s')"
  from recordSkip_resolved [OF res] obtain job' where
    r: "resolved job now s run d (setRun (Run_ID run) run s') job'" by auto
  from q sched_ok_duplicate [OF _ j res] seen_resolved [OF _ r]
  show "sched_ok (sr_state (setRun (Run_ID run) run s')) \<and> seen key (setRun (Run_ID run) run s')" by blast
next
  fix s :: "'a SchedReg" and k v
  assume "sched_ok (sr_state s) \<and> seen key s"
  then show "sched_ok (sr_state (setDedupe k v s)) \<and> seen key (setDedupe k v s)"
    by (simp add: sched_ok_def seen_def)
qed (auto simp: sched_ok_reclaimOne sched_ok_prune seen_prune elim: seen_fields)

lemma validID_no_nul: "validID k \<Longrightarrow> CHR 0x00 \<notin> set k"
  by (auto simp: validID_def list_all_iff idChar_def)

lemma nul_split: "CHR 0x00 \<notin> set a \<Longrightarrow> CHR 0x00 \<notin> set b \<Longrightarrow> a @ CHR 0x00 # x = b @ CHR 0x00 # y \<Longrightarrow> a = b \<and> x = y"
proof (induction a arbitrary: b)
  case Nil
  then show ?case by (cases b) auto
next
  case (Cons c a)
  then show ?case by (cases b) auto
qed

lemma dedupe_key_kept:
  assumes "validID k" "validID jid" "k \<noteq> jid"
  shows "take (length k + 1) (eventDedupeKey jid et ek) \<noteq> k @ [CHR 0x00]"
proof
  assume "take (length k + 1) (eventDedupeKey jid et ek) = k @ [CHR 0x00]"
  then have "eventDedupeKey jid et ek = (k @ [CHR 0x00]) @ drop (length k + 1) (eventDedupeKey jid et ek)"
    by (metis append_take_drop_id)
  then have "jid @ CHR 0x00 # (et @ [CHR 0x00] @ ek) = k @ CHR 0x00 # drop (length k + 1) (eventDedupeKey jid et ek)"
    by (simp add: eventDedupeKey_def)
  from nul_split [OF _ _ this] assms validID_no_nul show False by blast
qed

lemma map_of_filter_key: "map_of (filter (\<lambda>e. P (fst e)) m) k = (if P k then map_of m k else None)"
  by (induction m) auto

lemma sched_ok_remove:
  "sched_ok (sr_state s) \<Longrightarrow> sched_ok (sr_state (s\<lparr>sr_state := (sr_state s)\<lparr>St_Jobs := AList.delete jid (sjobs s),
     St_EventDedupe := dd\<rparr>\<rparr>))"
  by (auto simp: sched_ok_def split: if_splits)

text \<open>The dedupe mark of a job with a valid id survives every operation but the job's removal.\<close>

definition marked :: "string \<Rightarrow> string \<Rightarrow> string \<Rightarrow> 'w SchedReg \<Rightarrow> bool" where
  "marked jid et ek r \<longleftrightarrow> sched_ok (sr_state r) \<and> seen (eventDedupeKey jid et ek) r \<and> validID jid"

interpretation mark_runs: run_invariant
  "\<lambda>now s. marked jid et ek s" "\<lambda>_ _. True" "not_removing jid" for jid et ek
proof (intro run_invariant.intro)
  fix now :: time
  show "trigger_invariant (marked jid et ek :: 'a SchedReg \<Rightarrow> bool) now"
  proof (cases "validID jid")
    case True
    then have "marked jid et ek = (\<lambda>s :: 'a SchedReg. sched_ok (sr_state s) \<and> seen (eventDedupeKey jid et ek) s)"
      by (simp add: marked_def fun_eq_iff)
    then show ?thesis using seen_triggers.trigger_invariant_axioms by metis
  next
    case False
    then show ?thesis by unfold_locales (simp_all add: marked_def)
  qed
next
  fix now :: time and s :: "'a SchedReg" and k j j'
  assume q: "marked jid et ek s" and j: "map_of (sjobs s) k = Some j"
    and same: "Def_ID (SJ_Definition j') = Def_ID (SJ_Definition j)" "job_wf j \<longrightarrow> job_wf j'"
  from q have ok: "sched_ok (sr_state s)" by (simp add: marked_def)
  from sched_ok_jobD [OF ok j] same have "sched_ok (sr_state (setJob k j' s))"
    by (intro sched_ok_setJob ok) auto
  with q show "marked jid et ek (setJob k j' s)" by (auto simp: marked_def elim: seen_fields)
next
  fix now t now' :: time and s :: "'a SchedReg" and c and d0 d :: Definition and nxt
  assume q: "marked jid et ek s" and v: "validID (Def_ID d)"
  let ?s = "setJob (Def_ID d) (importedJob d nxt (map_of (sjobs s) (Def_ID d)) now') s"
  from q v have "sched_ok (sr_state ?s)"
    by (intro sched_ok_setJob) (simp_all add: importedJob_wf marked_def)
  with q show "marked jid et ek ?s" by (auto simp: marked_def elim: seen_fields)
next
  fix now :: time and s :: "'a SchedReg" and c k j
  assume q: "marked jid et ek s" and k: "not_removing jid (SRemove c k)" and j: "map_of (sjobs s) k = Some j"
  from q have ok: "sched_ok (sr_state s)" by (simp add: marked_def)
  from q sched_ok_jobD [OF ok j] k
  have "take (length k + 1) (eventDedupeKey jid et ek) \<noteq> k @ [CHR 0x00]"
    by (intro dedupe_key_kept) (auto simp: marked_def)
  with q show "marked jid et ek (s\<lparr>sr_state := (sr_state s)\<lparr>St_Jobs := AList.delete k (sjobs s),
      St_EventDedupe := filter (\<lambda>e. take (length k + 1) (fst e) \<noteq> k @ [CHR 0x00]) (sdedupe s)\<rparr>\<rparr>)"
    using map_of_filter_key [of "\<lambda>x. take (Suc (length k)) x \<noteq> k @ [CHR 0x00]" "sdedupe s"]
    unfolding marked_def by (intro conjI sched_ok_remove) (auto simp: seen_def)
next
  fix now :: time and s :: "'a SchedReg" and rid run res e
  assume q: "marked jid et ek s" and r: "map_of (sruns s) rid = Some run" "Run_Status run = RunStatusRunning"
  from q have ok: "sched_ok (sr_state s)" by (simp add: marked_def)
  from sched_ok_runD [OF ok r(1)] completedRun_keeps [of now res e run] r(2)
  have "sched_ok (sr_state (setRun rid (completedRun now res e run) s))" by (intro sched_ok_setRun ok) auto
  with q show "marked jid et ek (setRun rid (completedRun now res e run) s)"
    by (auto simp: marked_def elim: seen_fields)
qed (auto simp: marked_def sched_ok_def elim: seen_fields)

text \<open>What one event does, job by job.\<close>

lemma emitLoop_decisions:
  assumes "emitLoop et ek data now ids b r = (b', r')" "sched_ok (sr_state r)" "ek \<noteq> []"
  shows "(\<forall>k. map_of (sdedupe r) k \<noteq> None \<longrightarrow> map_of (sdedupe r') k \<noteq> None) \<and>
    sr_dedupeRetention r' = sr_dedupeRetention r \<and>
    (\<forall>d \<in> set (snd b'). d \<in> set (snd b) \<or>
       (Dec_Outcome d = OutcomeStarted \<longrightarrow>
          map_of (sdedupe r) (eventDedupeKey (Dec_JobID d) et ek) = None \<and>
          map_of (sdedupe r') (eventDedupeKey (Dec_JobID d) et ek) \<noteq> None))"
  using assms
proof (induction ids arbitrary: b r)
  case Nil
  then show ?case by simp
next
  case (Cons jid ids)
  show ?case
  proof (cases "map_of (sjobs r) jid")
    case None
    with Cons show ?thesis by simp
  next
    case (Some job)
    from sched_ok_jobD [OF Cons.prems(2) Some] have jid: "Def_ID (SJ_Definition job) = jid" by simp
    let ?key = "eventDedupeKey jid et ek"
    obtain run d r1 where a: "resolveDue job (eventTrigger et ek data) now r = ((run, d), r1)" by (metis surj_pair)
    obtain run2 d2 r2 where s: "recordSkip job (eventTrigger et ek data) OutcomeSkippedByPolicy
        (ReasonText ''duplicate event trigger'') now r = ((run2, d2), r2)" by (metis surj_pair)
    consider (other) "Sch_Type (Def_Schedule (SJ_Definition job)) \<noteq> ScheduleEvent \<or>
          Sch_Event (Def_Schedule (SJ_Definition job)) \<noteq> et"
      | (dup) "Sch_Type (Def_Schedule (SJ_Definition job)) = ScheduleEvent"
          "Sch_Event (Def_Schedule (SJ_Definition job)) = et" "map_of (sdedupe r) ?key \<noteq> None"
      | (new) "Sch_Type (Def_Schedule (SJ_Definition job)) = ScheduleEvent"
          "Sch_Event (Def_Schedule (SJ_Definition job)) = et" "map_of (sdedupe r) ?key = None" by blast
    then show ?thesis
    proof cases
      case other
      with Some Cons show ?thesis by auto
    next
      case dup
      from recordSkip_effect [OF s] have d2: "Dec_Outcome d2 \<noteq> OutcomeStarted" "sdedupe r2 = sdedupe r"
        "sr_dedupeRetention r2 = sr_dedupeRetention r" by auto
      from dup Some s jid Cons.prems have
        "emitLoop et ek data now ids (fst b, snd b @ [d2]) (setRun (Run_ID run2) run2 r2) = (b', r')" by simp
      from Cons.IH [OF this sched_ok_duplicate [OF Cons.prems(2) Some s] Cons.prems(3)] d2
      show ?thesis by auto
    next
      case new
      from resolveDue_resolved [OF a] jid have dd: "sdedupe r1 = sdedupe r"
        "sr_dedupeRetention r1 = sr_dedupeRetention r" "Dec_JobID d = jid" by (auto simp: resolved_def)
      let ?r2 = "if Dec_Outcome d = OutcomeStarted then setDedupe ?key (Run_ID run) r1 else r1"
      from sched_ok_resolveDue [OF Cons.prems(2) Some a] have ok: "sched_ok (sr_state ?r2)"
        by (simp add: sched_ok_def)
      from new Some a jid Cons.prems have
        "emitLoop et ek data now ids (addToBatch run d b) ?r2 = (b', r')" by (simp add: Let_def)
      from Cons.IH [OF this ok Cons.prems(3)] dd new show ?thesis
        by (auto simp: addToBatch_def split: if_splits)
    qed
  qed
qed

lemma reclaim_dedupe:
  "sdedupe (snd (reclaimExpiredLeases sv c now r)) = sdedupe r \<and>
   sr_dedupeRetention (snd (reclaimExpiredLeases sv c now r)) = sr_dedupeRetention r"
proof -
  have "sdedupe (fold (reclaimOne now) es q) = sdedupe q \<and>
      sr_dedupeRetention (fold (reclaimOne now) es q) = sr_dedupeRetention q" for es and q :: "'a SchedReg"
    by (induction es arbitrary: q) auto
  then show ?thesis by (auto simp: reclaimExpiredLeases_def split: option.split)
qed

lemma EmitEvent_decisions:
  assumes "EmitEvent sv c now et ek data r = (Inr b, r')" "sched_ok (sr_state r)" "ek \<noteq> []"
    and "d \<in> set (snd b)" "Dec_Outcome d = OutcomeStarted" "sr_dedupeRetention r \<le> 0"
  shows "map_of (sdedupe r) (eventDedupeKey (Dec_JobID d) et ek) = None \<and>
    seen (eventDedupeKey (Dec_JobID d) et ek) r'"
proof -
  obtain e r1 where rc: "reclaimExpiredLeases sv c now r = (e, r1)" by (metis surj_pair)
  have ok1: "sched_ok (sr_state r1)" using ok_triggers.reclaim_keeps [OF assms(2), of sv c now] rc by simp
  from reclaim_dedupe [of sv c now r] rc have dd: "sdedupe r1 = sdedupe r" "sr_dedupeRetention r1 \<le> 0"
    using assms(6) by auto
  obtain b2 r2 where el: "emitLoop et ek data now (sortedJobIDs (sjobs r1)) ([], []) r1 = (b2, r2)" by (metis surj_pair)
  from assms(1) rc have "c = None" "e = None" by (auto simp: EmitEvent_def split: option.splits if_splits)
  have ret: "sched_return sv None x q = (y, r') \<Longrightarrow> sr_dedupeRetention r' = sr_dedupeRetention q"
    for x :: batch and q y using retention_frames(6) [of sv None x q] by simp
  from \<open>c = None\<close> \<open>e = None\<close> assms(1) rc el have out: "b = b2 \<and> sdedupe r' = sdedupe r2 \<and> sr_dedupeRetention r' = sr_dedupeRetention r2"
    if "snd b2 \<noteq> []" "sr_dedupeRetention r2 \<le> 0"
    using that by (auto simp: EmitEvent_def pruneEventDedupe_def split: if_splits dest: sched_return_Inr ret)
  from emitLoop_decisions [OF el ok1 assms(3)] dd(2) have r2: "sr_dedupeRetention r2 \<le> 0" by simp
  have "snd b2 \<noteq> []" using assms(1,4) rc el \<open>c = None\<close> \<open>e = None\<close>
    by (auto simp: EmitEvent_def split: if_splits)
  from emitLoop_decisions [OF el ok1 assms(3)] out [OF this r2] assms(4,5) dd r2
  show ?thesis by (auto simp: seen_def)
qed

text \<open>
  Without a dedupe retention bound, an event with a key starts a job at most once: once an
  event has started the job, no later event of the same type and key starts it again, whatever
  happens in between (restart of the batch, completion, re-import, pruning of runs), unless the
  job itself is removed.
\<close>

theorem event_starts_once:
  assumes "sched_ok (sr_state r)" "sr_dedupeRetention r \<le> 0" "ek \<noteq> []" "validID jid"
    and "EmitEvent sv c now et ek data r = (Inr b, r1)"
    and "d \<in> set (snd b)" "Dec_JobID d = jid" "Dec_Outcome d = OutcomeStarted"
    and "list_all (not_removing jid) ops"
    and "EmitEvent sv c' now' et ek data' (fold (sched_step sv) ops r1) = (Inr b', r2)"
    and "d' \<in> set (snd b')" "Dec_JobID d' = jid"
  shows "Dec_Outcome d' \<noteq> OutcomeStarted"
proof
  assume started: "Dec_Outcome d' = OutcomeStarted"
  from EmitEvent_decisions [OF assms(5,1,3,6,8,2)] assms(7) have "seen (eventDedupeKey jid et ek) r1" by simp
  moreover have "sched_ok (sr_state r1)"
    using ok_triggers.EmitEvent_keeps [OF assms(1), of sv c now et ek data] assms(5) by simp
  ultimately have "marked jid et ek r1" using assms(4) by (simp add: marked_def)
  from mark_runs.run_keeps [OF this assms(9) clocks_any]
  have m: "sched_ok (sr_state (fold (sched_step sv) ops r1))"
    "seen (eventDedupeKey jid et ek) (fold (sched_step sv) ops r1)" by (auto simp: marked_def)
  from EmitEvent_decisions [OF assms(10) m(1) assms(3,11) started] m(2) assms(12) show False
    by (simp add: seen_def)
qed

end
