(* ===== verification/SchedTick.thy ===== *)
theory SchedTick
  imports SchedHistory "HOL-Library.Multiset"
begin

text \<open>
  The retention of finished runs, the decisions of a tick, completion and restart, and where the
  registry's bookkeeping departs from what it means to do.
\<close>

section \<open>Retention of finished runs\<close>

lemma fold_delete_filter: "fold AList.delete ks m = filter (\<lambda>e. fst e \<notin> set ks) m"
  by (induction ks arbitrary: m) (auto simp: AList.delete_eq intro!: filter_cong)

lemma sched_ok_run_ids: "sched_ok (sr_state r) \<Longrightarrow> map Run_ID (map snd (sruns r)) = keys (sruns r)"
  by (auto simp: sched_ok_def intro!: map_cong dest: map_of_is_SomeI)

lemma filter_not_prefix:
  "distinct (map f (ys @ zs)) \<Longrightarrow> filter (\<lambda>x. f x \<notin> f ` set ys) (ys @ zs) = zs"
  by (auto simp: filter_empty_conv intro!: filter_True)

lemma filter_by_id:
  "map Run_ID (map snd m) = keys m \<Longrightarrow>
    filter P (map snd (filter (\<lambda>e. fst e \<notin> V) m)) = filter (\<lambda>x. Run_ID x \<notin> V) (filter P (map snd m))"
  by (induction m) auto

text \<open>Dropping the first elements of a sorted list: how many are left, and which.\<close>

lemma evict_list:
  fixes g :: "'a \<Rightarrow> 'k :: linorder" and f :: "'a \<Rightarrow> 'b" and n :: nat
  assumes "distinct (map f T)"
  defines "V \<equiv> f ` set (take n (sort_key g T))"
  shows "length (filter (\<lambda>x. f x \<notin> V) T) = length T - n"
    and "x \<in> set T \<Longrightarrow> f x \<in> V \<Longrightarrow> y \<in> set T \<Longrightarrow> f y \<notin> V \<Longrightarrow> g x \<le> g y"
proof -
  let ?S = "sort_key g T"
  have set_S: "set ?S = set T" by simp
  have "mset (map f ?S) = mset (map f T)" by simp
  with assms(1) have dS: "distinct (map f ?S)" by (metis mset_eq_imp_distinct_iff)
  have parts: "take n ?S @ drop n ?S = ?S" by simp
  have drp: "filter (\<lambda>x. f x \<notin> V) ?S = drop n ?S"
    using filter_not_prefix [of f "take n ?S" "drop n ?S"] dS unfolding V_def parts by blast
  have "length (filter (\<lambda>x. f x \<notin> V) T) = size (filter_mset (\<lambda>x. f x \<notin> V) (mset T))"
    by (metis mset_filter size_mset)
  also have "\<dots> = size (filter_mset (\<lambda>x. f x \<notin> V) (mset ?S))" by (simp only: mset_sort)
  also have "\<dots> = length (filter (\<lambda>x. f x \<notin> V) ?S)"
    by (metis mset_filter size_mset)
  finally show "length (filter (\<lambda>x. f x \<notin> V) T) = length T - n" by (simp add: drp)
  assume x: "x \<in> set T" "f x \<in> V" and y: "y \<in> set T" "f y \<notin> V"
  from y have "y \<in> set (filter (\<lambda>x. f x \<notin> V) ?S)" by simp
  then have yd: "y \<in> set (drop n ?S)" by (simp only: drp)
  from x obtain z where z: "z \<in> set (take n ?S)" "f z = f x" by (auto simp: V_def)
  then have "z \<in> set T" by (metis in_set_takeD set_S)
  with assms(1) x z have "z = x" by (auto simp: distinct_map dest: inj_onD)
  with z have xt: "x \<in> set (take n ?S)" by simp
  have "sorted (map g (take n ?S @ drop n ?S))" by simp
  then have "sorted (map g (take n ?S) @ map g (drop n ?S))" by (simp only: map_append)
  with xt yd show "g x \<le> g y" by (auto simp: sorted_append)
qed

definition victims_of :: "'w SchedReg \<Rightarrow> string set" where
  "victims_of r = (let T = filter terminalRun (map snd (sruns r))
     in Run_ID ` set (take (nat (int (length T) - sr_terminalRunRetention r)) (sort_key evictionKey T)))"

lemma prune_filter:
  "0 < sr_terminalRunRetention r \<Longrightarrow>
    sruns (pruneTerminalRuns r) = filter (\<lambda>e. fst e \<notin> victims_of r) (sruns r)"
  by (simp add: pruneTerminalRuns_def Let_def fold_delete_filter victims_of_def)

lemma victims_terminal:
  assumes "sched_ok (sr_state r)" "k \<in> victims_of r" "map_of (sruns r) k = Some x"
  shows "terminalRun x"
proof -
  let ?T = "filter terminalRun (map snd (sruns r))"
  from assms(2) obtain y where y: "k = Run_ID y"
    "y \<in> set (take (nat (int (length ?T) - sr_terminalRunRetention r)) (sort_key evictionKey ?T))"
    unfolding victims_of_def Let_def by blast
  from in_set_takeD [OF y(2)] have yT: "y \<in> set (map snd (sruns r))" "terminalRun y" by simp_all
  from yT(1) obtain e where "e \<in> set (sruns r)" "snd e = y" unfolding set_map by blast
  then have e: "map_of (sruns r) (fst e) = Some y"
    using sched_ok_distinct [OF assms(1)] by (metis map_of_is_SomeI prod.collapse)
  from sched_ok_runD [OF assms(1) e] y(1) e assms(3) yT(2) show ?thesis by simp
qed

lemma prune_lookup:
  "0 < sr_terminalRunRetention r \<Longrightarrow>
    map_of (sruns (pruneTerminalRuns r)) k = (if k \<in> victims_of r then None else map_of (sruns r) k)"
  unfolding prune_filter using map_of_filter_key [of "\<lambda>k. k \<notin> victims_of r" "sruns r" k] by simp

lemma prune_keeps_active:
  assumes "sched_ok (sr_state r)" "map_of (sruns r) k = Some x" "\<not> terminalRun x"
  shows "map_of (sruns (pruneTerminalRuns r)) k = Some x"
proof (cases "0 < sr_terminalRunRetention r")
  case True
  with victims_terminal [OF assms(1) _ assms(2)] assms(2,3) show ?thesis by (auto simp: prune_lookup)
next
  case False
  with assms(2) show ?thesis by (simp add: pruneTerminalRuns_def)
qed

text \<open>
  With a retention bound, pruning leaves at most that many finished runs, touches no run in
  progress, and evicts oldest first: no evicted run finished after one that was kept.
\<close>

theorem retention_keeps_newest:
  assumes "sched_ok (sr_state r)" "0 < sr_terminalRunRetention r"
  shows "int (length (filter terminalRun (map snd (sruns (pruneTerminalRuns r))))) \<le> sr_terminalRunRetention r \<and>
    (\<forall>k x. map_of (sruns r) k = Some x \<and> \<not> terminalRun x \<longrightarrow> map_of (sruns (pruneTerminalRuns r)) k = Some x) \<and>
    (\<forall>k x k' x'. map_of (sruns r) k = Some x \<and> map_of (sruns (pruneTerminalRuns r)) k = None \<and>
       map_of (sruns (pruneTerminalRuns r)) k' = Some x' \<and> terminalRun x' \<longrightarrow> evictionKey x \<le> evictionKey x')"
proof (intro conjI allI impI; (elim conjE)?)
  let ?T = "filter terminalRun (map snd (sruns r))"
  let ?n = "nat (int (length ?T) - sr_terminalRunRetention r)"
  have V: "victims_of r = Run_ID ` set (take ?n (sort_key evictionKey ?T))" by (simp add: victims_of_def Let_def)
  have ids: "map Run_ID (map snd (sruns r)) = keys (sruns r)" using sched_ok_run_ids [OF assms(1)] .
  then have dT: "distinct (map Run_ID ?T)"
    using sched_ok_distinct [OF assms(1)] distinct_map_filter [of Run_ID "map snd (sruns r)" terminalRun] by metis
  have "length (filter terminalRun (map snd (sruns (pruneTerminalRuns r)))) = length ?T - ?n"
    unfolding prune_filter [OF assms(2)] filter_by_id [OF ids]
    unfolding V by (rule evict_list(1) [OF dT])
  then show "int (length (filter terminalRun (map snd (sruns (pruneTerminalRuns r))))) \<le> sr_terminalRunRetention r"
    using assms(2) by linarith
  show "map_of (sruns (pruneTerminalRuns r)) k = Some x"
    if "map_of (sruns r) k = Some x" "\<not> terminalRun x" for k x
    using prune_keeps_active [OF assms(1) that] .
  have inT: "x \<in> set ?T" if "map_of (sruns r) k = Some x" "terminalRun x" for k x
  proof -
    from map_of_SomeD [OF that(1)] have "x \<in> snd ` set (sruns r)" by (simp add: rev_image_eqI)
    with that(2) show ?thesis by simp
  qed
  fix k x k' x'
  assume x: "map_of (sruns r) k = Some x" "map_of (sruns (pruneTerminalRuns r)) k = None"
    and x': "map_of (sruns (pruneTerminalRuns r)) k' = Some x'" "terminalRun x'"
  from x have v: "k \<in> victims_of r" using prune_lookup [OF assms(2), of k] by (auto split: if_splits)
  from x'(1) have v': "k' \<notin> victims_of r" "map_of (sruns r) k' = Some x'"
    using prune_lookup [OF assms(2), of k'] by (auto split: if_splits)
  from evict_list(2) [OF dT inT [OF x(1) victims_terminal [OF assms(1) v x(1)]] _ inT [OF v'(2) x'(2)], of ?n evictionKey]
    v v'(1) sched_ok_runD [OF assms(1) x(1)] sched_ok_runD [OF assms(1) v'(2)]
  show "evictionKey x \<le> evictionKey x'" unfolding V by simp
qed

section \<open>The decisions of a tick\<close>

definition due_in :: "(string \<times> SchedJob) list \<Rightarrow> time \<Rightarrow> string \<Rightarrow> bool" where
  "due_in m now k = (case map_of m k of None \<Rightarrow> False | Some j \<Rightarrow> isDue j now)"

text \<open>The first \<open>limit\<close> of a list, or all of it when the limit is not positive.\<close>

definition upto_limit :: "int \<Rightarrow> 'a list \<Rightarrow> 'a list" where
  "upto_limit limit xs = (if limit > 0 then take (nat limit) xs else xs)"

lemma due_in_cong: "map_of m' k = map_of m k \<Longrightarrow> due_in m' now k = due_in m now k"
  by (simp add: due_in_def)

lemma selectLoop_decisions:
  assumes "selectLoop limit now ids b r = (b', r')" "sched_ok (sr_state r)" "distinct ids"
    and "limit > 0 \<Longrightarrow> int (length (snd b)) \<le> limit"
  shows "map Dec_JobID (snd b') = upto_limit limit (map Dec_JobID (snd b) @ filter (due_in (sjobs r) now) ids) \<and>
    (map Run_ID (fst b) = map Dec_RunID (filter (\<lambda>d. Dec_Outcome d = OutcomeStarted) (snd b)) \<longrightarrow>
     map Run_ID (fst b') = map Dec_RunID (filter (\<lambda>d. Dec_Outcome d = OutcomeStarted) (snd b'))) \<and>
    (\<forall>k. k \<notin> set ids \<longrightarrow> map_of (sjobs r') k = map_of (sjobs r) k)"
  using assms
proof (induction ids arbitrary: b r)
  case Nil
  then show ?case by (auto simp: upto_limit_def)
next
  case (Cons jid ids)
  consider (full) "limit > 0" "int (length (snd b)) \<ge> limit"
    | (skip) "\<not> (limit > 0 \<and> int (length (snd b)) \<ge> limit)" "\<not> due_in (sjobs r) now jid"
    | (go) job where "\<not> (limit > 0 \<and> int (length (snd b)) \<ge> limit)" "map_of (sjobs r) jid = Some job" "isDue job now"
    by (cases "map_of (sjobs r) jid") (auto simp: due_in_def)
  then show ?case
  proof cases
    case full
    with Cons.prems have "length (snd b) = nat limit" "(b', r') = (b, r)" by auto
    with full show ?thesis by (auto simp: upto_limit_def)
  next
    case skip
    with Cons.prems(1) have "selectLoop limit now ids b r = (b', r')"
      by (auto simp: due_in_def split: option.splits if_splits)
    from Cons.IH [OF this] Cons.prems skip(2) show ?thesis by simp
  next
    case go
    obtain run d r1 where a: "resolveDue job \<lparr>Trig_Type = TriggerScheduled, Trig_EventType = [], Trig_EventKey = [],
        Trig_DueAt = SJ_NextRunAt job, Trig_Data = []\<rparr> now r = ((run, d), r1)" by (metis surj_pair)
    from sched_ok_jobD [OF Cons.prems(2) go(2)] have jid: "Def_ID (SJ_Definition job) = jid" by simp
    from resolveDue_resolved [OF a] jid obtain job' where
      r1: "map_of (sjobs r1) = (map_of (sjobs r))(jid \<mapsto> job')" "Dec_JobID d = jid" "Dec_RunID d = Run_ID run"
      by (auto simp: resolved_def)
    let ?b = "addToBatch run d b"
    from go a Cons.prems(1) have l: "selectLoop limit now ids ?b r1 = (b', r')" by auto
    have len: "limit > 0 \<Longrightarrow> int (length (snd ?b)) \<le> limit" using go(1) by (auto simp: addToBatch_def)
    have due: "filter (due_in (sjobs r1) now) ids = filter (due_in (sjobs r) now) ids"
      using Cons.prems(3) r1(1) by (intro filter_cong) (auto simp: due_in_def)
    from go have dj: "due_in (sjobs r) now jid" by (simp add: due_in_def)
    from Cons.IH [OF l sched_ok_resolveDue [OF Cons.prems(2) go(2) a] _ len] Cons.prems(3) due dj r1
    show ?thesis by (auto simp: addToBatch_def)
  qed
qed

lemma reclaim_jobs:
  "due_in (sjobs (snd (reclaimExpiredLeases sv c now r))) t = due_in (sjobs r) t \<and>
   keys (sjobs (snd (reclaimExpiredLeases sv c now r))) = keys (sjobs r)"
proof -
  have one: "due_in (sjobs (reclaimOne now e q)) t = due_in (sjobs q) t \<and>
      keys (sjobs (reclaimOne now e q)) = keys (sjobs q)" for e and q :: "'a SchedReg"
  proof (cases "map_of (sjobs q) (Run_JobID (snd e))")
    case None
    then show ?thesis by (simp add: reclaimOne_def Let_def)
  next
    case (Some job)
    then have "Run_JobID (snd e) \<in> set (keys (sjobs q))" by (metis domI dom_map_of_conv_image_fst set_map)
    then have "keys (AList.update (Run_JobID (snd e)) v (sjobs q)) = keys (sjobs q)" for v
      by (simp add: AList.update_keys)
    with Some show ?thesis
      by (auto simp: reclaimOne_def Let_def due_in_def isDue_def fun_eq_iff)
  qed
  have "due_in (sjobs (fold (reclaimOne now) es q)) t = due_in (sjobs q) t \<and>
      keys (sjobs (fold (reclaimOne now) es q)) = keys (sjobs q)" for es and q :: "'a SchedReg"
    by (induction es arbitrary: q) (simp_all add: one)
  then show ?thesis by (auto simp: reclaimExpiredLeases_def split: option.split)
qed

text \<open>
  A successful tick decides every due job exactly once, in the order of the ids (the first
  \<open>limit\<close> of them when a limit is given), and returns exactly the runs its decisions started.
\<close>

theorem tick_decides_due_jobs:
  assumes "sched_ok (sr_state r)" "SelectDue sv c now limit r = (Inr (runs, decisions), r')"
  shows "map Dec_JobID decisions = upto_limit limit (filter (due_in (sjobs r) now) (sort (keys (sjobs r)))) \<and>
    map Run_ID runs = map Dec_RunID (filter (\<lambda>d. Dec_Outcome d = OutcomeStarted) decisions)"
proof -
  obtain e r1 where rc: "reclaimExpiredLeases sv c now r = (e, r1)" by (metis surj_pair)
  have ok1: "sched_ok (sr_state r1)" using ok_triggers.reclaim_keeps [OF assms(1), of sv c now] rc by simp
  obtain b r2 where sl: "selectLoop limit now (sortedJobIDs (sjobs r1)) ([], []) r1 = (b, r2)" by (metis surj_pair)
  from assms(2) rc have "c = None" "e = None" by (auto simp: SelectDue_def split: option.splits)
  with assms(2) rc sl have b: "b = (runs, decisions)" if "snd b \<noteq> []"
    using that by (auto simp: SelectDue_def dest: sched_return_Inr)
  have d: "distinct (sortedJobIDs (sjobs r1))" using ok1 by (simp add: sortedJobIDs_def sched_ok_def)
  from selectLoop_decisions [OF sl ok1 d] reclaim_jobs [of sv c now r now] rc
  have spec: "map Dec_JobID (snd b) = upto_limit limit (filter (due_in (sjobs r) now) (sort (keys (sjobs r))))"
    "map Run_ID (fst b) = map Dec_RunID (filter (\<lambda>d. Dec_Outcome d = OutcomeStarted) (snd b))"
    by (simp_all add: sortedJobIDs_def)
  show ?thesis
  proof (cases "snd b = []")
    case True
    with assms(2) rc sl \<open>c = None\<close> \<open>e = None\<close> have "runs = []" "decisions = []" by (auto simp: SelectDue_def)
    with spec True show ?thesis by simp
  next
    case False
    from b [OF this] spec show ?thesis by simp
  qed
qed

end
