(* ===== verification/SchedOutcomes.thy ===== *)
theory SchedOutcomes
  imports SchedTick
begin

text \<open>
  How runs end: completion and the failure count, the lease between two starts, the restart of
  the registry, and two places where its bookkeeping does not do what it means to.
\<close>

section \<open>Completion\<close>

lemma CompleteRun_effect:
  assumes "sched_ok (sr_state r)" "map_of (sruns r) rid = Some run" "Run_Status run = RunStatusRunning"
  shows "map_of (sjobs (snd (CompleteRun sv None now rid res e r))) =
      (case map_of (sjobs r) (Run_JobID run) of None \<Rightarrow> map_of (sjobs r)
       | Some job \<Rightarrow> (map_of (sjobs r))(Run_JobID run \<mapsto> completedJob now res e (completedRun now res e run) job))"
    and "k \<noteq> rid \<Longrightarrow> map_of (sruns r) k = Some x \<Longrightarrow> Run_Status x = RunStatusRunning \<Longrightarrow>
      map_of (sruns (snd (CompleteRun sv None now rid res e r))) k = Some x"
proof -
  let ?x = "completedRun now res e run"
  let ?s = "settleJob now res e ?x (setRun rid ?x r)"
  let ?q = "pruneTerminalRuns ?s"
  obtain er r4 where p: "sched_persist sv None ?q = (er, r4)" by (metis surj_pair)
  then have st: "sr_state r4 = sr_state ?q" using sched_persist_state [of sv None ?q] by simp
  have "snd (CompleteRun sv None now rid res e r) = (case er of None \<Rightarrow> r4
     | Some _ \<Rightarrow> modMetrics (\<lambda>m. m\<lparr>Met_CompletionPersistFailures := Met_CompletionPersistFailures m + 1\<rparr>) r4)"
    using assms p by (simp add: CompleteRun_def Let_def split: option.split)
  then have out: "sruns (snd (CompleteRun sv None now rid res e r)) = sruns ?q"
    "sjobs (snd (CompleteRun sv None now rid res e r)) = sjobs ?q"
    using st by (simp_all split: option.splits)
  have jid: "Run_JobID ?x = Run_JobID run" by (simp add: completedRun_keeps)
  show "map_of (sjobs (snd (CompleteRun sv None now rid res e r))) =
      (case map_of (sjobs r) (Run_JobID run) of None \<Rightarrow> map_of (sjobs r)
       | Some job \<Rightarrow> (map_of (sjobs r))(Run_JobID run \<mapsto> completedJob now res e (completedRun now res e run) job))"
    using settleJob_fields [of now res e ?x "setRun rid ?x r"] out jid by (simp split: option.split)
  assume k: "k \<noteq> rid" "map_of (sruns r) k = Some x" "Run_Status x = RunStatusRunning"
  from sched_ok_runD [OF assms(1,2)] completedRun_keeps [of now res e run] assms(3)
  have "sched_ok (sr_state ?s)" by (intro sched_ok_settleJob sched_ok_setRun assms(1)) auto
  moreover have "map_of (sruns ?s) k = Some x"
    using settleJob_fields [of now res e ?x "setRun rid ?x r"] k by simp
  moreover have "\<not> terminalRun x" using k(3) by (simp add: terminalRun_def)
  ultimately show "map_of (sruns (snd (CompleteRun sv None now rid res e r))) k = Some x"
    unfolding out(1) by (rule prune_keeps_active)
qed

definition failAll ::
  "'w state_saver \<Rightarrow> RunResult \<Rightarrow> time \<Rightarrow> (string \<times> string) list \<Rightarrow> 'w SchedReg \<Rightarrow> 'w SchedReg" where
  "failAll sv res now fails r =
     fold (\<lambda>(rid, msg) s. snd (CompleteRun sv None now rid res (Some msg) s)) fails r"

lemma completedJob_failure:
  "SJ_ConsecutiveFailures (completedJob now res (Some msg) run j) = SJ_ConsecutiveFailures j + 1 \<and>
   SJ_Definition (completedJob now res (Some msg) run j) = SJ_Definition j \<and>
   (SJ_DeadLetteredAt (completedJob now res (Some msg) run j) \<noteq> None \<longleftrightarrow>
     SJ_DeadLetteredAt j \<noteq> None \<or> Def_DeadLetterAfter (SJ_Definition j) > 0 \<and>
     SJ_ConsecutiveFailures j + 1 \<ge> Def_DeadLetterAfter (SJ_Definition j))"
  by (auto simp: completedJob_def Let_def)

text \<open>
  A job is dead-lettered exactly when its consecutive failures reach the limit of its
  definition: failing further runs of a job that is below the limit adds their number to the
  count, and the mark is set if and only if the count has reached the limit, whether or not the
  saves succeed and with whatever retention of finished runs.
\<close>

theorem failures_reach_dead_letter:
  assumes "sched_ok (sr_state r)" "map_of (sjobs r) jid = Some job" "SJ_DeadLetteredAt job = None"
    and "0 < Def_DeadLetterAfter (SJ_Definition job)"
    and "SJ_ConsecutiveFailures job < Def_DeadLetterAfter (SJ_Definition job)"
    and "distinct (map fst fails)"
    and "\<forall>(rid, msg) \<in> set fails. \<exists>run. map_of (sruns r) rid = Some run \<and>
      Run_Status run = RunStatusRunning \<and> Run_JobID run = jid"
  shows "\<exists>job'. map_of (sjobs (failAll sv res now fails r)) jid = Some job' \<and>
    SJ_ConsecutiveFailures job' = SJ_ConsecutiveFailures job + int (length fails) \<and>
    (SJ_DeadLetteredAt job' \<noteq> None \<longleftrightarrow>
       SJ_ConsecutiveFailures job + int (length fails) \<ge> Def_DeadLetterAfter (SJ_Definition job))"
proof -
  have "\<exists>job'. map_of (sjobs (failAll sv res now fails r)) jid = Some job' \<and>
      SJ_ConsecutiveFailures job' = SJ_ConsecutiveFailures job + int (length fails) \<and>
      (SJ_DeadLetteredAt job' \<noteq> None \<longleftrightarrow>
         SJ_ConsecutiveFailures job + int (length fails) \<ge> Def_DeadLetterAfter (SJ_Definition job))"
    if "SJ_DeadLetteredAt job \<noteq> None \<longleftrightarrow> SJ_ConsecutiveFailures job \<ge> Def_DeadLetterAfter (SJ_Definition job)"
      "0 < Def_DeadLetterAfter (SJ_Definition job)"
    using assms(1,2,6,7) that
  proof (induction fails arbitrary: r job)
    case Nil
    then show ?case by (simp add: failAll_def)
  next
    case (Cons f fails)
    obtain rid msg where f: "f = (rid, msg)" by (cases f)
    with Cons.prems(4) obtain run where run: "map_of (sruns r) rid = Some run"
      "Run_Status run = RunStatusRunning" "Run_JobID run = jid" by auto
    let ?r = "snd (CompleteRun sv None now rid res (Some msg) r)"
    let ?j = "completedJob now res (Some msg) (completedRun now res (Some msg) run) job"
    note fail = completedJob_failure [of now res msg "completedRun now res (Some msg) run" job]
    have step: "failAll sv res now (f # fails) r = failAll sv res now fails ?r" by (simp add: failAll_def f)
    have j: "map_of (sjobs ?r) jid = Some ?j"
      using CompleteRun_effect(1) [OF Cons.prems(1) run(1,2)] run(3) Cons.prems(2) by simp
    have "\<forall>(rid', msg) \<in> set fails. \<exists>run. map_of (sruns ?r) rid' = Some run \<and>
        Run_Status run = RunStatusRunning \<and> Run_JobID run = jid"
    proof clarify
      fix rid' msg'
      assume m: "(rid', msg') \<in> set fails"
      with Cons.prems(3) f have "rid' \<noteq> rid" by (auto simp: rev_image_eqI)
      with m Cons.prems(4) CompleteRun_effect(2) [OF Cons.prems(1) run(1,2)]
      show "\<exists>run. map_of (sruns ?r) rid' = Some run \<and> Run_Status run = RunStatusRunning \<and> Run_JobID run = jid"
        by fastforce
    qed
    moreover have "distinct (map fst fails)" using Cons.prems(3) by simp
    moreover have "SJ_DeadLetteredAt ?j \<noteq> None \<longleftrightarrow> SJ_ConsecutiveFailures ?j \<ge> Def_DeadLetterAfter (SJ_Definition ?j)"
      using fail Cons.prems(5,6) by auto
    moreover have "0 < Def_DeadLetterAfter (SJ_Definition ?j)" using fail Cons.prems(6) by simp
    ultimately show ?case
      using Cons.IH [OF CompleteRun_ok [OF Cons.prems(1)] j] fail step by (simp add: add.assoc)
  qed
  with assms(3-5) show ?thesis by simp
qed

section \<open>The job lease\<close>

text \<open>
  After a trigger has started a run of a job, no further trigger starts it before that run's
  lease expires, whatever the job's concurrency limit: the lease on the job is checked before the
  limit, so a limit above one never has two runs in progress this way.
\<close>

theorem lease_blocks_second_start:
  assumes "resolveDue job t now r = ((run, d), r')" "Dec_Outcome d = OutcomeStarted"
    and "map_of (sjobs r') (Def_ID (SJ_Definition job)) = Some job'"
    and "now' < now + sr_leaseTTL r"
    and "resolveDue job' t' now' r' = ((run2, d2), r2)"
  shows "Dec_Outcome d2 \<noteq> OutcomeStarted \<and> Run_Status run2 = RunStatusSkipped"
proof -
  from resolveDue_resolved [OF assms(1)] assms(2,3) have
    "SJ_Lease job' = Some \<lparr>Lease_Holder = sr_leaseHolder r, Lease_ExpiresAt = now + sr_leaseTTL r\<rparr>"
    by (auto simp: resolved_def)
  with assms(4) have "\<not> startable job' t' now' r'" by (simp add: startable_def lease_active_def)
  with resolveDue_resolved [OF assms(5)] show ?thesis by (auto simp: resolved_def run_ok_def)
qed

section \<open>Restart\<close>

lemma fold_reclaim_runs:
  assumes "distinct (keys es)"
  shows "map_of (sruns (fold (reclaimOne now) es q)) k =
    (case map_of es k of None \<Rightarrow> map_of (sruns q) k
     | Some x \<Rightarrow> if expiredRun now x then Some (interruptRun now x) else map_of (sruns q) k)"
  using assms
proof (induction es arbitrary: q)
  case Nil
  then show ?case by simp
next
  case (Cons e es)
  from Cons.prems have "map_of es (fst e) = None" by (simp add: map_of_eq_None_iff)
  with Cons show ?case by (auto simp: reclaimOne_sruns split: option.split)
qed

text \<open>
  A registry that opens successfully has no run left in progress whose lease has expired:
  each such run of the loaded state is interrupted with the time of the restart, every other run
  is as it was loaded.
\<close>

theorem restart_interrupts_expired:
  assumes "load c w = Inr st" "sched_ok (normalizeState st)" "NewRegistry sv load c now cfg w = (Inr r, w')"
  shows "(\<forall>k x. map_of (sruns r) k = Some x \<longrightarrow> \<not> expiredRun now x) \<and>
    (\<forall>k. map_of (sruns r) k = map_option (\<lambda>x. if expiredRun now x then interruptRun now x else x)
       (map_of (St_Runs (normalizeState st)) k))"
proof -
  define r0 where "r0 = \<lparr>sr_store = w, sr_state = normalizeState st, sr_runCounter = 0,
      sr_leaseHolder = (if Cfg_LeaseHolder cfg = [] then ''hoopoe-scheduler'' else Cfg_LeaseHolder cfg),
      sr_leaseTTL = (if Cfg_LeaseTTL cfg \<le> 0 then nsPerMinute else Cfg_LeaseTTL cfg),
      sr_terminalRunRetention = Cfg_TerminalRunRetention cfg,
      sr_dedupeRetention = Cfg_DedupeRetention cfg, sr_capabilities = Cfg_Capabilities cfg\<rparr>"
  have st: "sr_state r0 = normalizeState st" by (simp add: r0_def)
  from assms(1,3) have rc: "reclaimExpiredLeases sv c now r0 = (None, r)"
    by (auto simp: NewRegistry_def r0_def [symmetric] split: prod.splits option.splits)
  let ?f = "\<lambda>x. if expiredRun now x then interruptRun now x else x"
  have d: "distinct (keys (sruns r0))" using assms(2) st by (simp add: sched_ok_def)
  have "map_of (sruns r) k = map_option ?f (map_of (sruns r0) k)" for k
  proof (cases "list_ex (\<lambda>e. expiredRun now (snd e)) (sruns r0)")
    case True
    with rc have "sched_persist sv c (fold (reclaimOne now) (sruns r0) r0) = (None, r)"
      by (auto simp: reclaimExpiredLeases_def split: option.splits)
    then have "sr_state r = sr_state (fold (reclaimOne now) (sruns r0) r0)"
      using sched_persist_state [of sv c "fold (reclaimOne now) (sruns r0) r0"] by simp
    then show ?thesis using fold_reclaim_runs [OF d, of now r0 k] by (simp split: option.split)
  next
    case False
    with rc have r: "r = r0" by (auto simp: reclaimExpiredLeases_def split: option.splits)
    have "\<not> expiredRun now x" if "map_of (sruns r0) k = Some x" for x
      using False map_of_SomeD [OF that] by (auto simp: list_ex_iff)
    then show ?thesis by (cases "map_of (sruns r0) k") (auto simp: r)
  qed
  moreover have "\<not> expiredRun now (interruptRun now x)" for x by (simp add: expiredRun_def interruptRun_def)
  ultimately show ?thesis by (auto simp: st split: if_splits)
qed

section \<open>Departures\<close>

lemma skipAndAdvance_job:
  assumes "skipAndAdvance job t oc why now r = ((run, d), r')"
  shows "map_of (sjobs r') (Def_ID (SJ_Definition job)) = Some (advanceJob job now)"
  using assms by (auto simp: skipAndAdvance_def split: prod.splits)

text \<open>
  The decision that refuses a trigger is not kept on the job, although it is recorded with
  the run: except for a completed job, every refusal writes back the caller's copy of the job, so
  the job still shows the decision before it.
\<close>

theorem refusal_not_kept_on_job:
  assumes "resolveDue job t now r = ((run, d), r')" "Dec_Outcome d \<noteq> OutcomeStarted"
    and "SJ_Status job \<noteq> JobStatusCompleted"
  shows "\<exists>job'. map_of (sjobs r') (Def_ID (SJ_Definition job)) = Some job' \<and>
    SJ_LastDecision job' = SJ_LastDecision job"
proof (cases "\<exists>oc why q. skipAndAdvance job t oc why now q = ((run, d), r')")
  case True
  then show ?thesis using skipAndAdvance_job by fastforce
next
  case no_skip: False
  show ?thesis
  proof (cases "SJ_Status job = JobStatusDeadLettered \<or> SJ_DeadLetteredAt job \<noteq> None")
    case True
    with no_skip assms(1) obtain r1 where "r' = setJob (Def_ID (SJ_Definition job)) job (setRun (Run_ID run) run r1)"
      by (auto simp: resolveDue_def split: prod.splits if_splits)
    then show ?thesis by simp
  next
    case False
    with no_skip assms(1,3) obtain q where "startRun job t now q = ((run, d), r')"
      by (auto simp: resolveDue_def Let_def split: if_splits)
    from startRun_resolved [OF this] assms(2) show ?thesis by blast
  qed
qed

lemma selectLoop_dead:
  assumes "selectLoop limit now ids b r = (b', r')" "sched_ok (sr_state r)" "distinct ids"
    and "map_of (sjobs r) jid = Some job" "SJ_DeadLetteredAt job \<noteq> None"
    and "SJ_Status job \<noteq> JobStatusPaused" "\<not> Def_Paused (SJ_Definition job)"
  shows "map_of (sjobs r') jid = Some job"
  using assms
proof (induction ids arbitrary: b r)
  case Nil
  then show ?case by simp
next
  case (Cons k ids)
  show ?case
  proof (cases "map_of (sjobs r) k")
    case None
    with Cons show ?thesis by (auto split: if_splits)
  next
    case (Some j)
    obtain run d r1 where a: "resolveDue j \<lparr>Trig_Type = TriggerScheduled, Trig_EventType = [], Trig_EventKey = [],
        Trig_DueAt = SJ_NextRunAt j, Trig_Data = []\<rparr> now r = ((run, d), r1)" by (metis surj_pair)
    have keep: "map_of (sjobs r1) jid = Some job"
    proof (cases "k = jid")
      case True
      with a Some Cons.prems have "\<exists>r2. r1 = setJob (Def_ID (SJ_Definition job)) job (setRun (Run_ID run) run r2)"
        by (auto simp: resolveDue_def split: prod.splits)
      with sched_ok_jobD [OF Cons.prems(2,4)] show ?thesis by auto
    next
      case False
      with resolveDue_resolved [OF a] sched_ok_jobD [OF Cons.prems(2) Some] Cons.prems(4)
      show ?thesis by (auto simp: resolved_def)
    qed
    show ?thesis
      using Cons.prems Some a keep Cons.IH [OF _ Cons.prems(2) _ Cons.prems(4-7)]
        Cons.IH [OF _ sched_ok_resolveDue [OF Cons.prems(2) Some a] _ keep Cons.prems(5-7)]
      by (auto split: if_splits)
  qed
qed

text \<open>
  A dead-lettered job keeps its place in the schedule: a job that is due when it is
  dead-lettered is still due after every tick, so each tick decides it again and records another
  skipped run, which with a retention bound pushes the history of the other jobs out.
\<close>

theorem dead_letter_stays_due:
  assumes "sched_ok (sr_state r)" "map_of (sjobs r) jid = Some job" "SJ_DeadLetteredAt job \<noteq> None"
    and "SJ_Status job \<noteq> JobStatusPaused" "\<not> Def_Paused (SJ_Definition job)" "isDue job now"
    and "SJ_Lease job = None"
    and "SelectDue sv c now 0 r = (Inr (runs, decisions), r')"
  shows "map_of (sjobs r') jid = Some job \<and> jid \<in> set (map Dec_JobID decisions)"
proof -
  obtain e r1 where rc: "reclaimExpiredLeases sv c now r = (e, r1)" by (metis surj_pair)
  have ok1: "sched_ok (sr_state r1)" using ok_triggers.reclaim_keeps [OF assms(1), of sv c now] rc by simp
  have "map_of (sjobs (fold (reclaimOne now) es q)) jid = Some job"
    if "map_of (sjobs q) jid = Some job" for es and q :: "'a SchedReg"
    using that
  proof (induction es arbitrary: q)
    case (Cons e es)
    have "map_of (sjobs (reclaimOne now e q)) jid = Some job"
      using Cons.prems assms(7) by (cases "map_of (sjobs q) (Run_JobID (snd e))")
        (auto simp: reclaimOne_def Let_def sameHolder_def)
    from Cons.IH [OF this] show ?case by simp
  qed simp
  with assms(2) rc have j1: "map_of (sjobs r1) jid = Some job"
    by (auto simp: reclaimExpiredLeases_def sched_persist_def split: option.splits if_splits prod.splits)
  obtain b r2 where sl: "selectLoop 0 now (sortedJobIDs (sjobs r1)) ([], []) r1 = (b, r2)" by (metis surj_pair)
  from assms(8) rc have ce: "c = None" "e = None" by (auto simp: SelectDue_def split: option.splits)
  have d: "distinct (sortedJobIDs (sjobs r1))" using ok1 by (simp add: sortedJobIDs_def sched_ok_def)
  from selectLoop_dead [OF sl ok1 d j1 assms(3-5)] have "map_of (sjobs r2) jid = Some job" .
  with assms(8) rc sl ce have "map_of (sjobs r') jid = Some job"
    by (auto simp: SelectDue_def split: if_splits dest!: sched_return_Inr)
  moreover have "jid \<in> set (map Dec_JobID (snd b)) \<and> (snd b \<noteq> [] \<longrightarrow> b = (runs, decisions))"
  proof -
    have "jid \<in> set (keys (sjobs r1))" using j1 by (metis domI dom_map_of_conv_image_fst set_map)
    then have "jid \<in> set (filter (due_in (sjobs r1) now) (sortedJobIDs (sjobs r1)))"
      using j1 assms(6) by (simp add: due_in_def sortedJobIDs_def)
    moreover from selectLoop_decisions [OF sl ok1 d] have
      "map Dec_JobID (snd b) = filter (due_in (sjobs r1) now) (sortedJobIDs (sjobs r1))"
      by (simp add: upto_limit_def)
    moreover from assms(8) rc sl ce have "snd b \<noteq> [] \<Longrightarrow> b = (runs, decisions)"
      by (auto simp: SelectDue_def dest: sched_return_Inr)
    ultimately show ?thesis by simp
  qed
  ultimately show ?thesis by auto
qed

end
