(* ===== verification/SchedWitness.thy ===== *)
theory SchedWitness
  imports SchedOutcomes
begin

text \<open>
  Concrete registries, built by running the operations on an empty memory store, at which the
  scheduler's theorems are applied.
\<close>

definition noon :: time where
  "noon = dateTime 2025 6 15 12 0"

definition sample_def :: "string \<Rightarrow> ScheduleType \<Rightarrow> Definition" where
  "sample_def jid ty = \<lparr>Def_ID = jid, Def_Name = jid, Def_Kind = KindDeterministic, Def_Version = 1,
     Def_Revision = 0,
     Def_Schedule = \<lparr>Sch_Type = ty, Sch_Cron = [], Sch_Interval = nsPerMinute, Sch_Event = ''push''\<rparr>,
     Def_ProjectScope = [], Def_EnabledToolsets = [], Def_CapabilitiesRequired = [''git''],
     Def_CapabilitiesOptional = [], Def_Script = [], Def_Skills = [], Def_Prompt = [], Def_Deliver = [],
     Def_Repeat = RepeatForever, Def_Paused = False, Def_Timeout = 0, Def_MaxConcurrency = 2,
     Def_MisfirePolicy = MisfireRunOnce, Def_RetryPolicy = RetryNone, Def_DeadLetterAfter = 1,
     Def_AuditAlways = True, Def_MisfireGrace = 0\<rparr>"

definition sample_base :: "State SchedReg" where
  "sample_base = \<lparr>sr_store = emptyState, sr_state = emptyState, sr_runCounter = 0,
     sr_leaseHolder = ''hoopoe'', sr_leaseTTL = nsPerMinute, sr_terminalRunRetention = 0,
     sr_dedupeRetention = 0,
     sr_capabilities = Some (\<lambda>ref. if ref = ''git'' then Some CapabilityStatusOK else None)\<rparr>"

definition no_result :: RunResult where
  "no_result = \<lparr>Res_WakeAgent = False, Res_Silent = True, Res_Context = []\<rparr>"

definition sample_after :: "sched_op list \<Rightarrow> State SchedReg" where
  "sample_after ops = fold (sched_step MemoryStore_Save) ops (sample_base\<lparr>sr_state := emptyState\<rparr>)"

lemma sample_ok: "sched_ok (sr_state (sample_after ops))"
  unfolding sample_after_def by (rule sched_machine.run_inv) (simp add: sched_ok_def emptyState_def)

definition two_jobs :: "sched_op list" where
  "two_jobs = [SImport None noon (sample_def ''nightly'' ScheduleInterval),
     SImport None noon (sample_def ''watch'' ScheduleEvent)]"

abbreviation sample_run1 :: string where
  "sample_run1 \<equiv> hd (keys (sruns (sample_after (two_jobs @ [SRunNow None noon ''nightly'']))))"

abbreviation started_ops :: "sched_op list" where
  "started_ops \<equiv> two_jobs @ [SRunNow None noon ''nightly'']"

definition dead_ops :: "sched_op list" where
  "dead_ops = started_ops @ [SComplete None (noon + 5) sample_run1 no_result (Some ''exit 1'')]"

abbreviation manual :: Trigger where
  "manual \<equiv> \<lparr>Trig_Type = TriggerOnDemand, Trig_EventType = [], Trig_EventKey = [], Trig_DueAt = None, Trig_Data = []\<rparr>"

definition nightly_of :: "State SchedReg \<Rightarrow> SchedJob" where
  "nightly_of r = the (map_of (sjobs r) ''nightly'')"

text \<open>What the witnesses read of the job ''nightly'', evaluated once for each registry.\<close>

definition facts_of :: "SchedJob \<Rightarrow> (string \<times> JobStatus \<times> bool \<times> int \<times> int \<times> int) \<times> (time option \<times> RunLease option \<times> time option \<times> Outcome option)" where
  "facts_of j = ((Def_ID (SJ_Definition j), SJ_Status j, Def_Paused (SJ_Definition j), SJ_ConsecutiveFailures j,
      Def_DeadLetterAfter (SJ_Definition j), Def_MaxConcurrency (SJ_Definition j)),
     (SJ_DeadLetteredAt j, SJ_Lease j, SJ_NextRunAt j, map_option Dec_Outcome (SJ_LastDecision j)))"

lemma nightly_two: "map_option facts_of (map_of (sjobs (sample_after two_jobs)) ''nightly'') =
    Some ((''nightly'', JobStatusReady, False, 0, 1, 2), (None, None, Some (noon - 1 + nsPerMinute), None))"
  by code_simp

lemma nightly_started: "map_option facts_of (map_of (sjobs (sample_after started_ops)) ''nightly'') =
    Some ((''nightly'', JobStatusReady, False, 0, 1, 2),
      (None, Some \<lparr>Lease_Holder = ''hoopoe'', Lease_ExpiresAt = noon + nsPerMinute\<rparr>, Some (noon + nsPerMinute),
       Some OutcomeStarted))"
  by code_simp

lemma nightly_dead: "map_option facts_of (map_of (sjobs (sample_after dead_ops)) ''nightly'') =
    Some ((''nightly'', JobStatusDeadLettered, False, 1, 1, 2),
      (Some (noon + 5), None, Some (noon + nsPerMinute), Some OutcomeStarted))"
  by code_simp

lemma nightly_in:
  "map_of (sjobs (sample_after started_ops)) ''nightly'' = Some (nightly_of (sample_after started_ops))"
  "map_of (sjobs (sample_after two_jobs)) ''nightly'' = Some (nightly_of (sample_after two_jobs))"
  "map_of (sjobs (sample_after dead_ops)) ''nightly'' = Some (nightly_of (sample_after dead_ops))"
  using nightly_started nightly_two nightly_dead by (auto simp: nightly_of_def)

lemma nightly_facts:
  "facts_of (nightly_of (sample_after two_jobs)) =
    ((''nightly'', JobStatusReady, False, 0, 1, 2), (None, None, Some (noon - 1 + nsPerMinute), None))"
  "facts_of (nightly_of (sample_after started_ops)) = ((''nightly'', JobStatusReady, False, 0, 1, 2),
      (None, Some \<lparr>Lease_Holder = ''hoopoe'', Lease_ExpiresAt = noon + nsPerMinute\<rparr>, Some (noon + nsPerMinute),
       Some OutcomeStarted))"
  "facts_of (nightly_of (sample_after dead_ops)) = ((''nightly'', JobStatusDeadLettered, False, 1, 1, 2),
      (Some (noon + 5), None, Some (noon + nsPerMinute), Some OutcomeStarted))"
  using nightly_started nightly_two nightly_dead by (auto simp: nightly_of_def)

theorem trigger_decision_witness:
  "\<exists>run d r'. resolveDue (nightly_of (sample_after two_jobs)) manual noon (sample_after two_jobs) = ((run, d), r') \<and>
     Dec_Outcome d = OutcomeStarted \<and> Run_Status run = RunStatusRunning"
proof -
  let ?j = "nightly_of (sample_after two_jobs)"
  obtain run d r' where e: "resolveDue ?j manual noon (sample_after two_jobs) = ((run, d), r')" by (metis surj_pair)
  have "startable ?j manual noon (sample_after two_jobs)" by code_simp
  with trigger_decision [OF e] e show ?thesis by auto
qed

theorem concurrency_bound_witness:
  "live_count ''nightly'' noon (sruns (sample_after (started_ops @ [SRunNow None noon ''nightly'']))) \<le> 2"
proof -
  let ?ops = "started_ops @ [SRunNow None noon ''nightly'']"
  have "list_all (import_limit (\<lambda>_. 2)) ?ops" "clocks_run (\<le>) 0 ?ops" "last_clock 0 ?ops = noon" by code_simp+
  with concurrency_bound [of "\<lambda>_. 2" ?ops 0 "''nightly''" MemoryStore_Save sample_base] show ?thesis
    unfolding sample_after_def by simp
qed

theorem dead_letter_absorbing_witness:
  "SJ_DeadLetteredAt (nightly_of (sample_after dead_ops)) \<noteq> None \<and>
   started_of ''nightly'' (sruns (fold (sched_step MemoryStore_Save)
     [SResume None (noon + 6) ''nightly'', SRunNow None (noon + 7) ''nightly''] (sample_after dead_ops)))
   \<subseteq> started_of ''nightly'' (sruns (sample_after dead_ops))"
proof -
  have d: "SJ_DeadLetteredAt (nightly_of (sample_after dead_ops)) \<noteq> None"
    using nightly_facts(3) by (simp add: facts_of_def)
  have "list_all (not_removing ''nightly'') [SResume None (noon + 6) ''nightly'', SRunNow None (noon + 7) ''nightly'']"
    by simp
  from dead_letter_absorbing [OF sample_ok nightly_in(3) d this, of MemoryStore_Save] d show ?thesis by blast
qed

text \<open>An event started the event job; the same event does not start it again.\<close>

theorem event_starts_once_witness:
  "\<exists>b r1 b' r2. EmitEvent MemoryStore_Save None noon ''push'' ''sha1'' [] (sample_after two_jobs) = (Inr b, r1) \<and>
     map (\<lambda>d. (Dec_JobID d, Dec_Outcome d)) (snd b) = [(''watch'', OutcomeStarted)] \<and>
     EmitEvent MemoryStore_Save None (noon + 1) ''push'' ''sha1'' []
       (fold (sched_step MemoryStore_Save) [SPause None noon ''watch''] r1) = (Inr b', r2) \<and>
     (\<forall>d' \<in> set (snd b'). Dec_JobID d' = ''watch'' \<longrightarrow> Dec_Outcome d' \<noteq> OutcomeStarted)"
proof -
  let ?E = "EmitEvent MemoryStore_Save None noon ''push'' ''sha1'' [] (sample_after two_jobs)"
  have "map_sum (\<lambda>e. e) (\<lambda>b. map (\<lambda>d. (Dec_JobID d, Dec_Outcome d)) (snd b)) (fst ?E) =
    Inr [(''watch'', OutcomeStarted)]" by code_simp
  then obtain b r1 where e: "?E = (Inr b, r1)"
    and b: "map (\<lambda>d. (Dec_JobID d, Dec_Outcome d)) (snd b) = [(''watch'', OutcomeStarted)]"
    by (cases ?E; cases "fst ?E") auto
  from b obtain d where d: "d \<in> set (snd b)" "Dec_JobID d = ''watch''" "Dec_Outcome d = OutcomeStarted" by auto
  let ?ops = "[SPause None noon ''watch'']"
  let ?F = "EmitEvent MemoryStore_Save None (noon + 1) ''push'' ''sha1'' []
    (fold (sched_step MemoryStore_Save) ?ops (snd ?E))"
  have "map_sum (\<lambda>e. e) (\<lambda>_. ()) (fst ?F) = Inr ()" by code_simp
  then obtain b' r2 where f: "EmitEvent MemoryStore_Save None (noon + 1) ''push'' ''sha1'' []
      (fold (sched_step MemoryStore_Save) ?ops r1) = (Inr b', r2)"
    using e by (cases ?F; cases "fst ?F") auto
  have "sr_dedupeRetention (sample_after two_jobs) \<le> 0" "validID ''watch''" by code_simp+
  moreover have "list_all (not_removing ''watch'') ?ops" by simp
  ultimately have "\<forall>d' \<in> set (snd b'). Dec_JobID d' = ''watch'' \<longrightarrow> Dec_Outcome d' \<noteq> OutcomeStarted"
    using event_starts_once [OF sample_ok _ _ _ e d(1,2,3) _ f] by blast
  with e b f show ?thesis by (intro exI conjI)
qed

definition busy_ops :: "sched_op list" where
  "busy_ops = dead_ops @ [SRunNow None (noon + 6) ''nightly'', SRunNow None (noon + 7) ''nightly'']"

theorem retention_keeps_newest_witness:
  "length (filter terminalRun (map snd (sruns (sample_after busy_ops)))) = 3 \<and>
   length (filter terminalRun (map snd (sruns (pruneTerminalRuns
     ((sample_after busy_ops)\<lparr>sr_terminalRunRetention := 2\<rparr>))))) \<le> 2"
proof -
  let ?r = "(sample_after busy_ops)\<lparr>sr_terminalRunRetention := 2\<rparr>"
  have "sched_ok (sr_state ?r)" using sample_ok by simp
  from retention_keeps_newest [OF this] have
    "length (filter terminalRun (map snd (sruns (pruneTerminalRuns ?r)))) \<le> 2" by simp
  moreover have "length (filter terminalRun (map snd (sruns (sample_after busy_ops)))) = 3" by code_simp
  ultimately show ?thesis by blast
qed

theorem tick_decides_due_jobs_witness:
  "\<exists>runs decisions r'. SelectDue MemoryStore_Save None (noon + nsPerMinute) 0 (sample_after two_jobs) =
     (Inr (runs, decisions), r') \<and> map Dec_JobID decisions = [''nightly'']"
proof -
  let ?S = "SelectDue MemoryStore_Save None (noon + nsPerMinute) 0 (sample_after two_jobs)"
  have "map_sum (\<lambda>e. e) (\<lambda>_. ()) (fst ?S) = Inr ()" by code_simp
  then obtain runs decisions r' where s: "?S = (Inr (runs, decisions), r')"
    by (cases ?S; cases "fst ?S") auto
  have "upto_limit 0 (filter (due_in (sjobs (sample_after two_jobs)) (noon + nsPerMinute))
    (sort (keys (sjobs (sample_after two_jobs))))) = [''nightly'']" by code_simp
  with tick_decides_due_jobs [OF sample_ok s] s show ?thesis by auto
qed

theorem failures_reach_dead_letter_witness:
  "\<exists>job'. map_of (sjobs (failAll MemoryStore_Save no_result (noon + 5) [(sample_run1, ''exit 1'')]
     (sample_after started_ops))) ''nightly'' = Some job' \<and> SJ_DeadLetteredAt job' \<noteq> None"
proof -
  let ?j = "nightly_of (sample_after started_ops)"
  have j: "SJ_DeadLetteredAt ?j = None" "0 < Def_DeadLetterAfter (SJ_Definition ?j)"
    "SJ_ConsecutiveFailures ?j < Def_DeadLetterAfter (SJ_Definition ?j)"
    "SJ_ConsecutiveFailures ?j + 1 \<ge> Def_DeadLetterAfter (SJ_Definition ?j)"
    using nightly_facts(2) by (simp_all add: facts_of_def)
  have "map_option (\<lambda>x. (Run_Status x, Run_JobID x)) (map_of (sruns (sample_after started_ops)) sample_run1) =
    Some (RunStatusRunning, ''nightly'')" by code_simp
  then have "\<forall>(rid, msg) \<in> set [(sample_run1, ''exit 1'')]. \<exists>run. map_of (sruns (sample_after started_ops)) rid = Some run \<and>
      Run_Status run = RunStatusRunning \<and> Run_JobID run = ''nightly''" by auto
  from failures_reach_dead_letter [OF sample_ok nightly_in(1) j(1,2,3) _ this, of MemoryStore_Save no_result "noon + 5"]
  obtain job' where "map_of (sjobs (failAll MemoryStore_Save no_result (noon + 5) [(sample_run1, ''exit 1'')]
      (sample_after started_ops))) ''nightly'' = Some job'"
    "SJ_DeadLetteredAt job' \<noteq> None \<longleftrightarrow> SJ_ConsecutiveFailures ?j + 1 \<ge> Def_DeadLetterAfter (SJ_Definition ?j)"
    by auto
  with j(4) show ?thesis by blast
qed

theorem lease_blocks_second_start_witness:
  "\<exists>run d r' job' run2 d2 r2. Def_MaxConcurrency (SJ_Definition (nightly_of (sample_after two_jobs))) = 2 \<and>
     resolveDue (nightly_of (sample_after two_jobs)) manual noon (sample_after two_jobs) = ((run, d), r') \<and>
     Dec_Outcome d = OutcomeStarted \<and> map_of (sjobs r') ''nightly'' = Some job' \<and>
     resolveDue job' manual (noon + 1) r' = ((run2, d2), r2) \<and> Run_Status run2 = RunStatusSkipped"
proof -
  let ?j = "nightly_of (sample_after two_jobs)" and ?r = "sample_after two_jobs"
  let ?R = "resolveDue ?j manual noon ?r"
  obtain run d r' where e: "?R = ((run, d), r')" by (metis surj_pair)
  have "Dec_Outcome (snd (fst ?R)) = OutcomeStarted" by code_simp
  with e have st: "Dec_Outcome d = OutcomeStarted" by simp
  have "map_option (\<lambda>_. ()) (map_of (sjobs (snd ?R)) ''nightly'') = Some ()" by code_simp
  with e obtain job' where j': "map_of (sjobs r') ''nightly'' = Some job'" by auto
  obtain run2 d2 r2 where e2: "resolveDue job' manual (noon + 1) r' = ((run2, d2), r2)" by (metis surj_pair)
  have ttl: "noon + 1 < noon + sr_leaseTTL ?r" by code_simp
  have j: "Def_ID (SJ_Definition ?j) = ''nightly''" "Def_MaxConcurrency (SJ_Definition ?j) = 2"
    using nightly_facts(1) by (simp_all add: facts_of_def)
  from lease_blocks_second_start [OF e st _ ttl e2] j' j(1) have "Run_Status run2 = RunStatusSkipped" by simp
  with e st j' e2 j(2) show ?thesis by blast
qed

theorem restart_interrupts_expired_witness:
  "\<exists>r w'. NewRegistry MemoryStore_Save MemoryStore_Load None (noon + 2 * nsPerMinute)
     \<lparr>Cfg_LeaseHolder = [], Cfg_LeaseTTL = 0, Cfg_TerminalRunRetention = 0, Cfg_DedupeRetention = 0,
       Cfg_Capabilities = None\<rparr> (sr_state (sample_after started_ops)) = (Inr r, w') \<and>
     (\<forall>k x. map_of (sruns r) k = Some x \<longrightarrow> \<not> expiredRun (noon + 2 * nsPerMinute) x)"
proof -
  let ?c = "\<lparr>Cfg_LeaseHolder = [], Cfg_LeaseTTL = 0, Cfg_TerminalRunRetention = 0, Cfg_DedupeRetention = 0,
       Cfg_Capabilities = None\<rparr>"
  let ?st = "sr_state (sample_after started_ops)"
  let ?N = "NewRegistry MemoryStore_Save MemoryStore_Load None (noon + 2 * nsPerMinute) ?c ?st"
  have "map_sum (\<lambda>e. e) (\<lambda>_. ()) (fst ?N) = Inr ()" by code_simp
  then obtain r w' where n: "?N = (Inr r, w')" by (cases ?N; cases "fst ?N") auto
  have l: "MemoryStore_Load None ?st = Inr (normalizeState ?st)" by (simp add: MemoryStore_Load_def)
  have "sched_ok (normalizeState (normalizeState ?st))" using sample_ok [of started_ops] by (simp add: sched_ok_def)
  from restart_interrupts_expired [OF l this n] n show ?thesis by blast
qed

theorem refusal_not_kept_on_job_witness:
  "\<exists>run d r' job'. resolveDue (nightly_of (sample_after started_ops)) manual noon (sample_after started_ops) = ((run, d), r') \<and>
     Dec_Outcome d = OutcomeLeasedElsewhere \<and> map_of (sjobs r') ''nightly'' = Some job' \<and>
     map_option Dec_Outcome (SJ_LastDecision job') = Some OutcomeStarted"
proof -
  let ?j = "nightly_of (sample_after started_ops)"
  let ?R = "resolveDue ?j manual noon (sample_after started_ops)"
  obtain run d r' where e: "?R = ((run, d), r')" by (metis surj_pair)
  have "Dec_Outcome (snd (fst ?R)) = OutcomeLeasedElsewhere" by code_simp
  with e have d: "Dec_Outcome d = OutcomeLeasedElsewhere" by simp
  have j: "SJ_Status ?j \<noteq> JobStatusCompleted" "Def_ID (SJ_Definition ?j) = ''nightly''"
    "map_option Dec_Outcome (SJ_LastDecision ?j) = Some OutcomeStarted"
    using nightly_facts(2) by (simp_all add: facts_of_def)
  from refusal_not_kept_on_job [OF e _ j(1)] d j(2,3) e show ?thesis by auto
qed

theorem dead_letter_stays_due_witness:
  "\<exists>runs decisions r'. SelectDue MemoryStore_Save None (noon + 10 * nsPerMinute) 0 (sample_after dead_ops) =
     (Inr (runs, decisions), r') \<and> ''nightly'' \<in> set (map Dec_JobID decisions) \<and>
     map_of (sjobs r') ''nightly'' = Some (nightly_of (sample_after dead_ops)) \<and>
     isDue (nightly_of (sample_after dead_ops)) (noon + 10 * nsPerMinute)"
proof -
  let ?j = "nightly_of (sample_after dead_ops)"
  let ?S = "SelectDue MemoryStore_Save None (noon + 10 * nsPerMinute) 0 (sample_after dead_ops)"
  have "map_sum (\<lambda>e. e) (\<lambda>_. ()) (fst ?S) = Inr ()" by code_simp
  then obtain runs decisions r' where s: "?S = (Inr (runs, decisions), r')"
    by (cases ?S; cases "fst ?S") auto
  have j: "SJ_DeadLetteredAt ?j \<noteq> None" "SJ_Status ?j \<noteq> JobStatusPaused" "\<not> Def_Paused (SJ_Definition ?j)"
    "isDue ?j (noon + 10 * nsPerMinute)" "SJ_Lease ?j = None"
    using nightly_facts(3) by (simp_all add: facts_of_def isDue_def nsPerMinute_def)
  from dead_letter_stays_due [OF sample_ok nightly_in(3) j s] s j(4) show ?thesis by blast
qed

end
