(* ===== verification/GoStrings.thy ===== *)
theory GoStrings
  imports GoPrelude
begin

text \<open>
  Facts on the string functions of the prelude that several components share: trimming white space,
  fields, splitting at a separator and joining.
\<close>

section \<open>Trimming twice is trimming once\<close>

lemma space_len_0: "[] \<notin> set encs \<Longrightarrow> space_len encs s = 0 \<longleftrightarrow> (\<forall>e \<in> set encs. take (length e) s \<noteq> e)"
proof (cases "find (\<lambda>e. take (length e) s = e) encs")
  case None
  then have "\<forall>e \<in> set encs. take (length e) s \<noteq> e" by (simp add: find_None_iff)
  with None show ?thesis by (simp add: space_len_def)
next
  case (Some e)
  assume ne: "[] \<notin> set encs"
  from Some have e: "e \<in> set encs" "take (length e) s = e" by (auto simp: find_Some_iff)
  with ne have "length e \<noteq> 0" by auto
  with Some e show ?thesis by (auto simp: space_len_def)
qed

lemma space_len_prefix: "[] \<notin> set encs \<Longrightarrow> space_len encs (r @ t) = 0 \<Longrightarrow> space_len encs r = 0"
proof -
  assume e: "[] \<notin> set encs" and z: "space_len encs (r @ t) = 0"
  have "take (length x) r \<noteq> x" if "x \<in> set encs" for x
  proof
    assume "take (length x) r = x"
    then have "take (length x) (r @ t) = x" by (metis append_take_drop_id append_eq_conv_conj append.assoc)
    with z that space_len_0 [OF e] show False by blast
  qed
  then show ?thesis using space_len_0 [OF e] by blast
qed

lemma trim_left_stops: "space_len encs (trim_left encs n s) = 0 \<or> trim_left encs n s = []"
  by (induction encs n s rule: trim_left.induct) (auto split: nat.split)

lemma trim_left_suffix: "\<exists>p. s = p @ trim_left encs n s"
proof (induction encs n s rule: trim_left.induct)
  case (3 encs c cs)
  show ?case
  proof (cases "space_len encs (c # cs)")
    case 0
    then show ?thesis by simp
  next
    case (Suc n)
    from 3 [OF Suc] obtain p where "cs = p @ trim_left encs n cs" by blast
    with Suc show ?thesis by (intro exI [of _ "c # p"]) simp
  qed
qed (auto intro: exI [of _ "_ # _"])

lemma trim_left_id: "space_len encs s = 0 \<or> s = [] \<Longrightarrow> trim_left encs 0 s = s"
  by (cases s) auto

lemma TrimSpace_idem [simp]: "TrimSpace (TrimSpace s) = TrimSpace s"
proof -
  let ?l = "trim_left go_spaces 0 s" and ?rs = "map rev go_spaces"
  let ?r = "TrimSpace s"
  have ne: "[] \<notin> set go_spaces" "[] \<notin> set ?rs" by (simp_all add: go_spaces_def)
  from trim_left_suffix [of "rev ?l" ?rs 0] obtain p where p: "rev ?l = p @ rev ?r"
    by (auto simp: TrimSpace_def)
  then have l: "?l = ?r @ rev p" by (metis rev_append rev_rev_ident)
  have "space_len go_spaces ?r = 0 \<or> ?r = []"
  proof (cases "?l = []")
    case True
    with l show ?thesis by simp
  next
    case False
    with trim_left_stops [of go_spaces 0 s] have "space_len go_spaces ?l = 0" by blast
    with l space_len_prefix [OF ne(1), of ?r "rev p"] show ?thesis by metis
  qed
  then have left: "trim_left go_spaces 0 ?r = ?r" by (rule trim_left_id)
  have "rev ?r = trim_left ?rs 0 (rev ?l)" by (simp add: TrimSpace_def)
  with trim_left_stops [of ?rs 0 "rev ?l"] have "space_len ?rs (rev ?r) = 0 \<or> rev ?r = []" by metis
  then have right: "trim_left ?rs 0 (rev ?r) = rev ?r" by (rule trim_left_id)
  show ?thesis
    unfolding TrimSpace_def [of "TrimSpace s"] left right by simp
qed

lemma no_space_start:
  assumes "\<And>e. e \<in> set encs \<Longrightarrow> e \<noteq> [] \<and> c \<noteq> hd e"
  shows "trim_left encs 0 (c # cs) = c # cs"
proof -
  have "take (length e) (c # cs) \<noteq> e" if "e \<in> set encs" for e
    using assms [OF that] by (cases e) auto
  then have "find (\<lambda>e. take (length e) (c # cs) = e) encs = None" by (auto simp: find_None_iff)
  then have "space_len encs (c # cs) = 0" unfolding space_len_def by simp
  then show ?thesis by simp
qed

lemma go_spaces_ne: "[] \<notin> set go_spaces"
  by (simp add: go_spaces_def)


text \<open>A byte that neither starts nor ends the encoding of a space; the printable ASCII bytes are such.\<close>

definition plain_char :: "char \<Rightarrow> bool" where
  "plain_char c \<longleftrightarrow> list_all (\<lambda>e. c \<noteq> hd e \<and> c \<noteq> last e) go_spaces"

definition printable :: "char \<Rightarrow> bool" where
  "printable c \<longleftrightarrow> 33 \<le> (of_char c :: nat) \<and> (of_char c :: nat) < 127"

lemma printable_plain: "printable c \<Longrightarrow> plain_char c"
proof -
  assume c: "printable c"
  have "of_char (hd e) \<notin> {33..<127::nat} \<and> of_char (last e) \<notin> {33..<127::nat}" if "e \<in> set go_spaces" for e
    using that by (auto simp: go_spaces_def)
  with c show ?thesis by (auto simp: plain_char_def printable_def list_all_iff)
qed

lemma plain_D: "plain_char c \<Longrightarrow> e \<in> set go_spaces \<Longrightarrow> e \<noteq> [] \<and> c \<noteq> hd e \<and> c \<noteq> last e"
  using go_spaces_ne by (auto simp: plain_char_def list_all_iff)

lemma trim_left_plain: "plain_char c \<Longrightarrow> trim_left go_spaces 0 (c # cs) = c # cs"
  by (rule no_space_start) (blast dest: plain_D)

lemma trim_right_plain: "plain_char c \<Longrightarrow> trim_left (map rev go_spaces) 0 (c # cs) = c # cs"
  by (rule no_space_start) (auto dest!: plain_D simp: hd_rev)

lemma TrimSpace_plain:
  assumes "s \<noteq> [] \<Longrightarrow> plain_char (hd s)" "s \<noteq> [] \<Longrightarrow> plain_char (last s)"
  shows "TrimSpace s = s"
proof (cases "s = []")
  case True
  then show ?thesis by (simp add: TrimSpace_def)
next
  case False
  have "trim_left go_spaces 0 s = s" using trim_left_plain [OF assms(1)] False by (cases s) auto
  moreover have "trim_left (map rev go_spaces) 0 (rev s) = rev s"
    using trim_right_plain [OF assms(2), of "tl (rev s)"] False
    by (metis hd_rev list.collapse rev_is_Nil_conv)
  ultimately show ?thesis by (simp add: TrimSpace_def)
qed

lemma TrimSpace_blank: "TrimSpace (CHR '' '' # s) = TrimSpace s"
proof -
  have "space_len go_spaces (CHR '' '' # s) = 1" by (simp add: space_len_def go_spaces_def)
  then show ?thesis by (simp add: TrimSpace_def)
qed

lemma fields_plain:
  "list_all plain_char p \<Longrightarrow> fields_from 0 acc (p @ s) = fields_from 0 (rev p @ acc) s"
proof (induction p arbitrary: acc)
  case (Cons c p)
  then have "take (length e) (c # p @ s) \<noteq> e" if "e \<in> set go_spaces" for e
    using plain_D [OF _ that, of c] by (cases e) auto
  then have "space_len go_spaces (c # p @ s) = 0" using space_len_0 [OF go_spaces_ne] by blast
  with Cons show ?case by simp
qed simp

lemma Fields_Join:
  assumes "\<forall>p \<in> set ps. p \<noteq> [] \<and> list_all plain_char p"
  shows "Fields (Join ps (CHR '' '')) = ps"
  using assms
proof (induction ps "CHR '' ''" rule: Join.induct)
  case (2 p)
  then show ?case using fields_plain [of p "[]" "[]"] by (simp add: Fields_def)
next
  case (3 p q ps)
  have sp: "space_len go_spaces (CHR '' '' # t) = 1" for t by (simp add: space_len_def go_spaces_def)
  from 3 show ?case
    using fields_plain [of p "[]" "CHR '' '' # Join (q # ps) (CHR '' '')"] by (simp add: Fields_def sp)
qed (simp add: Fields_def)

section \<open>Splitting and joining\<close>

lemma split_acc_plain: "sep \<notin> set s \<Longrightarrow> split_acc sep acc s = [rev acc @ s]"
  by (induction sep acc s rule: split_acc.induct) auto

lemma split_acc_sep: "sep \<notin> set s \<Longrightarrow> split_acc sep acc (s @ sep # t) = (rev acc @ s) # split_acc sep [] t"
  by (induction s arbitrary: acc) auto

lemma Split_two: "sep \<notin> set s \<Longrightarrow> sep \<notin> set t \<Longrightarrow> Split (s @ sep # t) sep = [s, t]"
  by (simp add: Split_def split_acc_sep split_acc_plain)

lemma Split_plain: "sep \<notin> set s \<Longrightarrow> Split s sep = [s]"
  by (simp add: Split_def split_acc_plain)

lemma Split_sep: "sep \<notin> set s \<Longrightarrow> Split (s @ sep # t) sep = s # Split t sep"
  by (simp add: Split_def split_acc_sep)

lemma Cut_sep: "sep \<notin> set k \<Longrightarrow> Cut (k @ sep # v) sep = Some (k, v)"
proof -
  assume "sep \<notin> set k"
  then have "takeWhile (\<lambda>c. c \<noteq> sep) (k @ sep # v) = k" "dropWhile (\<lambda>c. c \<noteq> sep) (k @ sep # v) = sep # v"
    by (induction k) auto
  then show ?thesis by (simp add: Cut_def)
qed

lemma Split_nonempty [simp]: "Split s sep \<noteq> []"
proof -
  have "split_acc sep acc s \<noteq> []" for acc by (induction sep acc s rule: split_acc.induct) auto
  then show ?thesis by (simp add: Split_def)
qed

lemma Split_Join:
  "ss \<noteq> [] \<Longrightarrow> \<forall>s \<in> set ss. sep \<notin> set s \<Longrightarrow> Split (Join ss sep) sep = ss"
  by (induction ss sep rule: Join.induct) (simp_all add: Split_plain Split_sep)

lemma Split_no_sep: "s \<in> set (Split t sep) \<Longrightarrow> sep \<notin> set s"
proof -
  have "s \<in> set (split_acc sep acc t) \<Longrightarrow> sep \<notin> set acc \<Longrightarrow> sep \<notin> set s" for acc
    by (induction sep acc t rule: split_acc.induct) (auto split: if_splits)
  then show "s \<in> set (Split t sep) \<Longrightarrow> sep \<notin> set s" by (auto simp: Split_def)
qed

lemma Join_Split: "Join (Split t sep) sep = t"
proof -
  have "Join (split_acc sep acc t) sep = rev acc @ t" for acc
  proof (induction sep acc t rule: split_acc.induct)
    case (2 sep acc c cs)
    have "Join (x # split_acc sep [] cs) sep = x @ sep # Join (split_acc sep [] cs) sep" for x
      using Split_nonempty [of cs sep] by (cases "split_acc sep [] cs") (auto simp: Split_def)
    with 2 show ?case by auto
  qed simp
  then show ?thesis by (simp add: Split_def)
qed

lemma Split_lines:
  "\<forall>l \<in> set ls. sep \<notin> set l \<Longrightarrow> Split (concat (map (\<lambda>l. l @ [sep]) ls)) sep = ls @ [[]]"
  by (induction ls) (simp_all add: Split_plain Split_sep)

end
