(* ===== verification/ApprovalTypes.thy ===== *)
theory ApprovalTypes
  imports GoStrings
begin

text \<open>
  The records of the unified approval queue (package \<open>approvals\<close> and the schema types it uses
  from \<open>packages/schemas/go/schemas.gen.go\<close>), and the stores behind it: the in-memory store and
  the append-only log file with its torn and oversized lines. An open enum of the code (a Go
  string type) keeps its unknown values under an \<open>Other\<close> constructor; JSON values of a command
  are kept as data.
\<close>

section \<open>Enums and records\<close>

datatype appr_err = AErrCtx ctx_err | AErrInvalidRequest | AErrNotFound | AErrInvalidTransition
  | AErrExpired | AErrIO string

datatype ApprovalState = Approved | Denied | Expired | Pending | Revoked | StateOther string

datatype ApprovalSource = ApprovalSourceDcg | ApprovalSourceHoopoePolicy | SourceOther string

datatype ApprovalScope = Once | ThisBead | ThisProjectSession | ThisSwarm | ScopeOther string

datatype ApprovalRiskClass = Critical | High | Low | Medium | RiskOther string

datatype ActorKind = ActorKindAgent | ActorKindApproval | ActorKindDcg | ActorKindScheduler
  | ActorKindSystem | ActorKindUser | ActorOther string

definition Source_Valid :: "ApprovalSource \<Rightarrow> bool" where
  "Source_Valid s = (case s of SourceOther _ \<Rightarrow> False | _ \<Rightarrow> True)"

definition Scope_Valid :: "ApprovalScope \<Rightarrow> bool" where
  "Scope_Valid s = (case s of ScopeOther _ \<Rightarrow> False | _ \<Rightarrow> True)"

definition Risk_Valid :: "ApprovalRiskClass \<Rightarrow> bool" where
  "Risk_Valid s = (case s of RiskOther _ \<Rightarrow> False | _ \<Rightarrow> True)"

definition ActorKind_Valid :: "ActorKind \<Rightarrow> bool" where
  "ActorKind_Valid k = (case k of ActorOther _ \<Rightarrow> False | _ \<Rightarrow> True)"

datatype json = JNull | JBool bool | JNum string | JStr string | JArr "json list"
  | JObj "(string \<times> json) list"

record Actor =
  Actor_Kind :: ActorKind
  Actor_Id :: "string option"
  Actor_DisplayName :: "string option"

record CommandSpec =
  Cmd_Args :: "(string \<times> json) list option"
  Cmd_IdempotencyKey :: "string option"
  Cmd_Kind :: string
  Cmd_Postconditions :: "string list option"
  Cmd_Preconditions :: "string list option"
  Cmd_Target :: "(string \<times> json) list option"

record Approval =
  Ap_AgentId :: "string option"
  Ap_BeadId :: "string option"
  Ap_DecidedAt :: "time option"
  Ap_DecisionActor :: "Actor option"
  Ap_DecisionNote :: "string option"
  Ap_EvidenceRefs :: "string list option"
  Ap_ExpiresAt :: "time option"
  Ap_Id :: string
  Ap_PolicyRule :: "string option"
  Ap_ProjectId :: "string option"
  Ap_Reason :: "string option"
  Ap_RequestActor :: Actor
  Ap_RequestedAction :: CommandSpec
  Ap_RequestedAt :: time
  Ap_RiskClass :: ApprovalRiskClass
  Ap_SchemaVersion :: int
  Ap_Scope :: ApprovalScope
  Ap_Source :: ApprovalSource
  Ap_State :: ApprovalState
  Ap_SwarmId :: "string option"

record ApprovalDecisionRequest =
  ADR_DecisionActor :: Actor
  ADR_Note :: "string option"
  ADR_Scope :: "ApprovalScope option"

definition stringPtrOrNil :: "string \<Rightarrow> string option" where
  "stringPtrOrNil v = (if TrimSpace v = [] then None else Some (TrimSpace v))"

definition stringSlicePtrOrNil :: "string list \<Rightarrow> string list option" where
  "stringSlicePtrOrNil vs =
     (let out = filter (\<lambda>v. v \<noteq> []) (map TrimSpace vs) in if out = [] then None else Some out)"

definition stringValue :: "string option \<Rightarrow> string" where
  "stringValue v = (case v of None \<Rightarrow> [] | Some s \<Rightarrow> s)"

definition cloneStringSlicePtr :: "string list option \<Rightarrow> string list option" where
  "cloneStringSlicePtr v = (case v of None \<Rightarrow> None | Some vs \<Rightarrow> stringSlicePtrOrNil vs)"

text \<open>
  Copying a record shares nothing with the original; as a value it is the same but for the string
  lists, which lose their blank entries and the blanks around the others.
\<close>

definition cloneCommandSpec :: "CommandSpec \<Rightarrow> CommandSpec" where
  "cloneCommandSpec c = c\<lparr>Cmd_Preconditions := cloneStringSlicePtr (Cmd_Preconditions c),
     Cmd_Postconditions := cloneStringSlicePtr (Cmd_Postconditions c)\<rparr>"

definition cloneApproval :: "Approval \<Rightarrow> Approval" where
  "cloneApproval a = a\<lparr>Ap_EvidenceRefs := cloneStringSlicePtr (Ap_EvidenceRefs a),
     Ap_RequestedAction := cloneCommandSpec (Ap_RequestedAction a)\<rparr>"

definition commandIdempotencyKey :: "CommandSpec \<Rightarrow> string" where
  "commandIdempotencyKey c = (case Cmd_IdempotencyKey c of None \<Rightarrow> [] | Some k \<Rightarrow> TrimSpace k)"

lemma clone_fields [simp]:
  "Ap_Id (cloneApproval a) = Ap_Id a" "Ap_State (cloneApproval a) = Ap_State a"
  "Ap_Scope (cloneApproval a) = Ap_Scope a" "Ap_Source (cloneApproval a) = Ap_Source a"
  "Ap_PolicyRule (cloneApproval a) = Ap_PolicyRule a" "Ap_ExpiresAt (cloneApproval a) = Ap_ExpiresAt a"
  "Ap_DecidedAt (cloneApproval a) = Ap_DecidedAt a" "Ap_DecisionActor (cloneApproval a) = Ap_DecisionActor a"
  "Ap_ProjectId (cloneApproval a) = Ap_ProjectId a" "Ap_BeadId (cloneApproval a) = Ap_BeadId a"
  "Ap_SwarmId (cloneApproval a) = Ap_SwarmId a" "Ap_Reason (cloneApproval a) = Ap_Reason a"
  "Cmd_Kind (cloneCommandSpec c) = Cmd_Kind c" "Cmd_Target (cloneCommandSpec c) = Cmd_Target c"
  "commandIdempotencyKey (cloneCommandSpec c) = commandIdempotencyKey c"
  "Ap_RequestedAction (cloneApproval a) = cloneCommandSpec (Ap_RequestedAction a)"
  by (simp_all add: cloneApproval_def cloneCommandSpec_def commandIdempotencyKey_def)

lemma slice_idem: "cloneStringSlicePtr (cloneStringSlicePtr v) = cloneStringSlicePtr v"
proof -
  have "filter (\<lambda>v. v \<noteq> []) (map TrimSpace (filter (\<lambda>v. v \<noteq> []) (map TrimSpace vs))) =
      filter (\<lambda>v. v \<noteq> []) (map TrimSpace vs)" for vs
    by (induction vs) auto
  then show ?thesis
    by (auto simp: cloneStringSlicePtr_def stringSlicePtrOrNil_def Let_def split: option.split)
qed

lemma clone_idem [simp]: "cloneApproval (cloneApproval a) = cloneApproval a"
  by (simp add: cloneApproval_def cloneCommandSpec_def slice_idem)

lemma clone_updates [simp]:
  "cloneApproval (a\<lparr>Ap_State := st\<rparr>) = (cloneApproval a)\<lparr>Ap_State := st\<rparr>"
  "cloneApproval (a\<lparr>Ap_ExpiresAt := e\<rparr>) = (cloneApproval a)\<lparr>Ap_ExpiresAt := e\<rparr>"
  "cloneApproval (a\<lparr>Ap_Scope := sc\<rparr>) = (cloneApproval a)\<lparr>Ap_Scope := sc\<rparr>"
  by (simp_all add: cloneApproval_def)

section \<open>The store interface\<close>

text \<open>
  \<open>Store\<close>: what a store holds is an ordered map, in the order of first appearance; \<open>readable\<close>
  is that map, or nothing when no read can succeed any more; \<open>wf\<close> is the representation
  invariant. A save either makes the store hold
  the copy of its record, or leaves it as it was, or makes it unreadable.
\<close>

locale approval_store =
  fixes save :: "ctx \<Rightarrow> Approval \<Rightarrow> 's \<Rightarrow> appr_err option \<times> 's"
    and get :: "ctx \<Rightarrow> string \<Rightarrow> 's \<Rightarrow> appr_err + Approval option"
    and list :: "ctx \<Rightarrow> 's \<Rightarrow> appr_err + Approval list"
    and readable :: "'s \<Rightarrow> (string \<times> Approval) list option"
    and wf :: "'s \<Rightarrow> bool"
  assumes get_reads: "wf s \<Longrightarrow> get c i s = Inr r \<Longrightarrow>
        \<exists>v. readable s = Some v \<and> r = map_option cloneApproval (map_of v i)"
    and list_reads: "wf s \<Longrightarrow> list c s = Inr xs \<Longrightarrow>
        \<exists>v. readable s = Some v \<and> xs = map (cloneApproval \<circ> snd) v"
    and save_ok: "wf s \<Longrightarrow> readable s = Some v \<Longrightarrow> save c a s = (None, s') \<Longrightarrow>
        readable s' = None \<or> readable s' = Some (AList.update (Ap_Id a) (cloneApproval a) v)"
    and save_err: "wf s \<Longrightarrow> readable s = Some v \<Longrightarrow> save c a s = (Some e, s') \<Longrightarrow>
        readable s' = None \<or> readable s' = Some v \<or>
        readable s' = Some (AList.update (Ap_Id a) (cloneApproval a) v)"
    and stays_unreadable: "wf s \<Longrightarrow> readable s = None \<Longrightarrow> readable (snd (save c a s)) = None"
    and save_wf: "wf s \<Longrightarrow> wf (snd (save c a s))"
    and view_keys: "wf s \<Longrightarrow> readable s = Some v \<Longrightarrow>
        distinct (keys v) \<and> (\<forall>k a. map_of v k = Some a \<longrightarrow> Ap_Id a = k)"
begin

text \<open>What any save, successful or not, does to a map that can still be read.\<close>

lemma save_view:
  assumes "wf s" "readable (snd (save c a s)) = Some v'"
  shows "\<exists>v. readable s = Some v \<and> (v' = v \<or> v' = AList.update (Ap_Id a) (cloneApproval a) v)"
proof (cases "readable s")
  case None
  with stays_unreadable [of s c a] assms show ?thesis by simp
next
  case (Some v)
  obtain e s' where sv: "save c a s = (e, s')" by (cases "save c a s")
  with assms have r: "readable s' = Some v'" by simp
  from sv save_ok [OF assms(1) Some, of c a s'] save_err [OF assms(1) Some, of c a _ s']
  have "readable s' = None \<or> readable s' = Some v \<or> readable s' = Some (AList.update (Ap_Id a) (cloneApproval a) v)"
    by (cases e) auto
  with r Some show ?thesis by auto
qed

end

section \<open>The in-memory store\<close>

record MemStore =
  ms_items :: "(string \<times> Approval) list"
  ms_order :: "string list"

definition Mem_Save :: "ctx \<Rightarrow> Approval \<Rightarrow> MemStore \<Rightarrow> appr_err option \<times> MemStore" where
  "Mem_Save c a s =
     (if TrimSpace (Ap_Id a) = [] then (Some AErrInvalidRequest, s)
      else (None, s\<lparr>ms_items := AList.update (Ap_Id a) (cloneApproval a) (ms_items s),
        ms_order := (if map_of (ms_items s) (Ap_Id a) = None then ms_order s @ [Ap_Id a] else ms_order s)\<rparr>))"

definition Mem_Get :: "ctx \<Rightarrow> string \<Rightarrow> MemStore \<Rightarrow> appr_err + Approval option" where
  "Mem_Get c i s = Inr (map_option cloneApproval (map_of (ms_items s) i))"

definition Mem_List :: "ctx \<Rightarrow> MemStore \<Rightarrow> appr_err + Approval list" where
  "Mem_List c s = Inr (map cloneApproval (List.map_filter (map_of (ms_items s)) (ms_order s)))"

definition NewMemoryStore :: MemStore where
  "NewMemoryStore = \<lparr>ms_items = [], ms_order = []\<rparr>"

text \<open>The items follow the order list: under this invariant a listing is the map.\<close>

definition mem_wf :: "MemStore \<Rightarrow> bool" where
  "mem_wf s \<longleftrightarrow> ms_order s = keys (ms_items s) \<and> distinct (ms_order s) \<and>
     (\<forall>k a. map_of (ms_items s) k = Some a \<longrightarrow> Ap_Id a = k)"

lemma keys_update: "keys (AList.update k v m) = (if k \<in> set (keys m) then keys m else keys m @ [k])"
  by (induction m) auto

lemma map_filter_keys: "distinct (keys m) \<Longrightarrow> List.map_filter (map_of m) (keys m) = map snd m"
proof -
  assume d: "distinct (keys m)"
  have "List.map_filter (map_of m) (keys m) = map (the \<circ> map_of m) (keys m)"
    unfolding List.map_filter_def by (auto simp: filter_id_conv map_of_eq_None_iff intro!: arg_cong [where f = "map _"])
  also have "\<dots> = map (\<lambda>e. the (map_of m (fst e))) m" by simp
  also have "\<dots> = map snd m"
    using d by (intro map_cong) (auto simp: map_of_is_SomeI)
  finally show ?thesis .
qed

interpretation memory_approvals: approval_store Mem_Save Mem_Get Mem_List "\<lambda>s. Some (ms_items s)" mem_wf
proof unfold_locales
  fix s c xs
  assume "mem_wf s" "Mem_List c s = Inr xs"
  then show "\<exists>v. Some (ms_items s) = Some v \<and> xs = map (cloneApproval \<circ> snd) v"
    using map_filter_keys [of "ms_items s"] by (auto simp: Mem_List_def mem_wf_def)
next
  fix s c a
  assume "mem_wf s"
  then show "mem_wf (snd (Mem_Save c a s))"
    by (auto simp: mem_wf_def Mem_Save_def keys_update map_of_eq_None_iff)
qed (auto simp: Mem_Get_def Mem_Save_def mem_wf_def split: if_splits)

end
