(* ===== verification/ApprovalQueue.thy ===== *)
theory ApprovalQueue
  imports ApprovalTypes
begin

text \<open>
  Package \<open>approvals\<close>, \<open>queue.go\<close> and \<open>agent_gate.go\<close>: the unified approval queue. Its methods run
  on any store: they take the three operations of the \<open>Store\<close> interface as a record. A method that
  reads the clock several times takes the readings as a function of their number. The queue is not
  nil, and the generator of identifiers (random by default) is an argument. The JSON rendering and
  the SHA-256 digest of the standard library are fields of the configuration: the code only
  compares their results.
\<close>

record 's StoreIO =
  io_save :: "ctx \<Rightarrow> Approval \<Rightarrow> 's \<Rightarrow> appr_err option \<times> 's"
  io_get :: "ctx \<Rightarrow> string \<Rightarrow> 's \<Rightarrow> appr_err + Approval option"
  io_list :: "ctx \<Rightarrow> 's \<Rightarrow> appr_err + Approval list"

record QueueCfg =
  q_defaultTTL :: duration
  q_canonicalJSON :: "json \<Rightarrow> string"
  q_sha256Hex :: "string \<Rightarrow> string"

type_synonym clock = "nat \<Rightarrow> time"

definition QueueDefaultTTL :: duration where
  "QueueDefaultTTL = 15 * nsPerMinute"

definition NewQueue :: "duration \<Rightarrow> (json \<Rightarrow> string) \<Rightarrow> (string \<Rightarrow> string) \<Rightarrow> QueueCfg" where
  "NewQueue ttl canon sha = \<lparr>q_defaultTTL = (if ttl \<le> 0 then QueueDefaultTTL else ttl),
     q_canonicalJSON = canon, q_sha256Hex = sha\<rparr>"

section \<open>Requests\<close>

record ApprRequest =
  Req_Source :: ApprovalSource
  Req_PolicyRule :: string
  Req_Action :: CommandSpec
  Req_Actor :: Actor
  Req_Reason :: string
  Req_EvidenceRefs :: "string list"
  Req_ProjectID :: string
  Req_BeadID :: string
  Req_AgentID :: string
  Req_SwarmID :: string
  Req_Scope :: ApprovalScope
  Req_RiskClass :: ApprovalRiskClass
  Req_ExpiresAt :: "time option"
  Req_RequestedAt :: time
  Req_IdempotencyKey :: string

definition defaultSource :: "ApprovalSource \<Rightarrow> ApprovalSource" where
  "defaultSource s = (if s = SourceOther [] then ApprovalSourceHoopoePolicy else s)"

definition defaultScope :: "ApprovalScope \<Rightarrow> ApprovalScope" where
  "defaultScope s = (if s = ScopeOther [] then Once else s)"

definition defaultRisk :: "ApprovalRiskClass \<Rightarrow> ApprovalRiskClass" where
  "defaultRisk r = (if r = RiskOther [] then High else r)"

definition defaultPolicyRule :: "ApprovalSource \<Rightarrow> string" where
  "defaultPolicyRule s = (if s = ApprovalSourceDcg then ''dcg'' else ''hoopoe-policy:unspecified'')"

definition source_text :: "ApprovalSource \<Rightarrow> string" where
  "source_text s = (case s of ApprovalSourceDcg \<Rightarrow> ''dcg''
     | ApprovalSourceHoopoePolicy \<Rightarrow> ''hoopoe_policy'' | SourceOther t \<Rightarrow> t)"

definition target_json :: "(string \<times> json) list option \<Rightarrow> json" where
  "target_json t = (case t of None \<Rightarrow> JNull | Some m \<Rightarrow> JObj m)"

definition derivedIdempotencyKey :: "QueueCfg \<Rightarrow> ApprRequest \<Rightarrow> string" where
  "derivedIdempotencyKey cfg r = q_sha256Hex cfg (q_canonicalJSON cfg (JObj
     [(''source'', JStr (source_text (Req_Source r))), (''rule'', JStr (Req_PolicyRule r)),
      (''kind'', JStr (Cmd_Kind (Req_Action r))), (''target'', target_json (Cmd_Target (Req_Action r))),
      (''projectId'', JStr (Req_ProjectID r)), (''beadId'', JStr (Req_BeadID r)),
      (''agentId'', JStr (Req_AgentID r)), (''swarmId'', JStr (Req_SwarmID r))]))"

definition requestKey :: "QueueCfg \<Rightarrow> ApprRequest \<Rightarrow> string" where
  "requestKey cfg r =
     (let k1 = TrimSpace (Req_IdempotencyKey r);
          k2 = (if k1 = [] then commandIdempotencyKey (Req_Action r) else k1)
      in if k2 = [] then derivedIdempotencyKey cfg r else k2)"

definition normalizeRequest :: "QueueCfg \<Rightarrow> time \<Rightarrow> ApprRequest \<Rightarrow> appr_err + ApprRequest" where
  "normalizeRequest cfg now r0 =
     (let src = defaultSource (Req_Source r0) in
      if \<not> Source_Valid src then Inl AErrInvalidRequest
      else if Cmd_Kind (Req_Action r0) = [] then Inl AErrInvalidRequest
      else if \<not> ActorKind_Valid (Actor_Kind (Req_Actor r0)) then Inl AErrInvalidRequest
      else if \<not> Scope_Valid (defaultScope (Req_Scope r0)) then Inl AErrInvalidRequest
      else if \<not> Risk_Valid (defaultRisk (Req_RiskClass r0)) then Inl AErrInvalidRequest
      else
        let target = (case Cmd_Target (Req_Action r0) of None \<Rightarrow> Some [] | Some t \<Rightarrow> Some t);
            at = (if isZero (Req_RequestedAt r0) then now else Req_RequestedAt r0);
            expires = (case Req_ExpiresAt r0 of None \<Rightarrow> at + q_defaultTTL cfg
              | Some e \<Rightarrow> if isZero e then at + q_defaultTTL cfg else e);
            rule = (if TrimSpace (Req_PolicyRule r0) = [] then defaultPolicyRule src
                    else TrimSpace (Req_PolicyRule r0));
            r1 = r0\<lparr>Req_Source := src, Req_Scope := defaultScope (Req_Scope r0),
              Req_RiskClass := defaultRisk (Req_RiskClass r0), Req_RequestedAt := at,
              Req_ExpiresAt := Some expires, Req_PolicyRule := rule,
              Req_Action := (Req_Action r0)\<lparr>Cmd_Target := target\<rparr>\<rparr>;
            key = requestKey cfg r1
        in if \<not> expires > at then Inl AErrInvalidRequest
           else Inr (r1\<lparr>Req_IdempotencyKey := key,
             Req_Action := (Req_Action r1)\<lparr>Cmd_IdempotencyKey := stringPtrOrNil key\<rparr>\<rparr>))"

section \<open>Expiry\<close>

definition expireIfNeeded ::
  "'s StoreIO \<Rightarrow> ctx \<Rightarrow> time \<Rightarrow> Approval \<Rightarrow> 's \<Rightarrow> (appr_err + Approval) \<times> 's" where
  "expireIfNeeded io c now a s =
     (case Ap_ExpiresAt a of None \<Rightarrow> (Inr a, s)
      | Some e \<Rightarrow>
          if Ap_State a \<noteq> Pending \<and> Ap_State a \<noteq> Approved then (Inr a, s)
          else if now < e then (Inr a, s)
          else case io_save io c (a\<lparr>Ap_State := Expired\<rparr>) s of
            (Some err, s') \<Rightarrow> (Inl err, s') | (None, s') \<Rightarrow> (Inr (a\<lparr>Ap_State := Expired\<rparr>), s'))"

fun expireAll ::
  "'s StoreIO \<Rightarrow> ctx \<Rightarrow> time \<Rightarrow> Approval list \<Rightarrow> 's \<Rightarrow> (appr_err + Approval list) \<times> 's" where
  "expireAll io c now [] s = (Inr [], s)"
| "expireAll io c now (a # as) s =
     (case expireIfNeeded io c now a s of
        (Inl e, s1) \<Rightarrow> (Inl e, s1)
      | (Inr a', s1) \<Rightarrow> (case expireAll io c now as s1 of
          (Inl e, s2) \<Rightarrow> (Inl e, s2) | (Inr as', s2) \<Rightarrow> (Inr (a' # as'), s2)))"

definition listLocked :: "'s StoreIO \<Rightarrow> ctx \<Rightarrow> time \<Rightarrow> 's \<Rightarrow> (appr_err + Approval list) \<times> 's" where
  "listLocked io c now s = (case io_list io c s of Inl e \<Rightarrow> (Inl e, s)
     | Inr items \<Rightarrow> expireAll io c now items s)"

definition sameRequest :: "ApprRequest \<Rightarrow> Approval \<Rightarrow> bool" where
  "sameRequest r a \<longleftrightarrow> Ap_State a \<notin> {Denied, Revoked, Expired} \<and> Ap_Source a = Req_Source r \<and>
     stringValue (Ap_PolicyRule a) = Req_PolicyRule r \<and>
     commandIdempotencyKey (Ap_RequestedAction a) = Req_IdempotencyKey r"

definition findExisting ::
  "'s StoreIO \<Rightarrow> ctx \<Rightarrow> time \<Rightarrow> ApprRequest \<Rightarrow> 's \<Rightarrow> (appr_err + Approval option) \<times> 's" where
  "findExisting io c now r s = (case listLocked io c now s of
     (Inl e, s1) \<Rightarrow> (Inl e, s1)
   | (Inr items, s1) \<Rightarrow> (Inr (map_option cloneApproval (find (sameRequest r) items)), s1))"

definition newApproval :: "ApprRequest \<Rightarrow> string \<Rightarrow> Approval" where
  "newApproval r i = \<lparr>Ap_AgentId = stringPtrOrNil (Req_AgentID r), Ap_BeadId = stringPtrOrNil (Req_BeadID r),
     Ap_DecidedAt = None, Ap_DecisionActor = None, Ap_DecisionNote = None,
     Ap_EvidenceRefs = stringSlicePtrOrNil (Req_EvidenceRefs r), Ap_ExpiresAt = Req_ExpiresAt r, Ap_Id = i,
     Ap_PolicyRule = stringPtrOrNil (Req_PolicyRule r), Ap_ProjectId = stringPtrOrNil (Req_ProjectID r),
     Ap_Reason = stringPtrOrNil (Req_Reason r), Ap_RequestActor = Req_Actor r,
     Ap_RequestedAction = Req_Action r, Ap_RequestedAt = Req_RequestedAt r,
     Ap_RiskClass = Req_RiskClass r, Ap_SchemaVersion = 1, Ap_Scope = Req_Scope r,
     Ap_Source = Req_Source r, Ap_State = Pending, Ap_SwarmId = stringPtrOrNil (Req_SwarmID r)\<rparr>"

definition QueueRequest ::
  "'s StoreIO \<Rightarrow> QueueCfg \<Rightarrow> (ApprRequest \<Rightarrow> string + string) \<Rightarrow> clock \<Rightarrow> ctx \<Rightarrow> ApprRequest \<Rightarrow> 's
     \<Rightarrow> (appr_err + Approval \<times> bool) \<times> 's" where
  "QueueRequest io cfg gen clk c req s =
     (case normalizeRequest cfg (clk 0) req of Inl e \<Rightarrow> (Inl e, s)
      | Inr n \<Rightarrow> (case findExisting io c (clk 1) n s of
          (Inl e, s1) \<Rightarrow> (Inl e, s1)
        | (Inr (Some a), s1) \<Rightarrow> (Inr (a, False), s1)
        | (Inr None, s1) \<Rightarrow> (case gen n of Inl e \<Rightarrow> (Inl (AErrIO e), s1)
            | Inr i0 \<Rightarrow>
                if TrimSpace i0 = [] then (Inl AErrInvalidRequest, s1)
                else case io_save io c (newApproval n (TrimSpace i0)) s1 of
                  (Some e, s2) \<Rightarrow> (Inl e, s2)
                | (None, s2) \<Rightarrow> (Inr (cloneApproval (newApproval n (TrimSpace i0)), True), s2))))"

section \<open>Lookup and listing\<close>

definition QueueGet ::
  "'s StoreIO \<Rightarrow> clock \<Rightarrow> ctx \<Rightarrow> string \<Rightarrow> 's \<Rightarrow> (appr_err + Approval option) \<times> 's" where
  "QueueGet io clk c i s =
     (case io_get io c (TrimSpace i) s of Inl e \<Rightarrow> (Inl e, s) | Inr None \<Rightarrow> (Inr None, s)
      | Inr (Some a) \<Rightarrow> (case expireIfNeeded io c (clk 0) a s of
          (Inl e, s1) \<Rightarrow> (Inl e, s1) | (Inr a', s1) \<Rightarrow> (Inr (Some (cloneApproval a')), s1)))"

record ApprListFilter =
  AF_ProjectID :: string
  AF_Source :: "ApprovalSource option"
  AF_States :: "ApprovalState list"
  AF_IncludeExpired :: bool

definition filterAccepts :: "ApprListFilter \<Rightarrow> Approval \<Rightarrow> bool" where
  "filterAccepts f a \<longleftrightarrow>
     \<not> (AF_ProjectID f \<noteq> [] \<and> stringValue (Ap_ProjectId a) \<noteq> AF_ProjectID f) \<and>
     \<not> (case AF_Source f of None \<Rightarrow> False | Some src \<Rightarrow> Ap_Source a \<noteq> src) \<and>
     \<not> (\<not> AF_IncludeExpired f \<and> Ap_State a = Expired) \<and>
     \<not> (AF_States f \<noteq> [] \<and> Ap_State a \<notin> set (AF_States f))"

definition QueueList ::
  "'s StoreIO \<Rightarrow> clock \<Rightarrow> ctx \<Rightarrow> ApprListFilter \<Rightarrow> 's \<Rightarrow> (appr_err + Approval list) \<times> 's" where
  "QueueList io clk c f s = (case listLocked io c (clk 0) s of
     (Inl e, s1) \<Rightarrow> (Inl e, s1)
   | (Inr items, s1) \<Rightarrow> (Inr (map cloneApproval (filter (filterAccepts f) items)), s1))"

section \<open>Decisions\<close>

text \<open>Fetch an approval by its trimmed id and mark it expired when its time has come.\<close>

definition fetch ::
  "'s StoreIO \<Rightarrow> ctx \<Rightarrow> time \<Rightarrow> string \<Rightarrow> 's \<Rightarrow> (appr_err + Approval) \<times> 's" where
  "fetch io c now i s =
     (case io_get io c (TrimSpace i) s of Inl e \<Rightarrow> (Inl e, s) | Inr None \<Rightarrow> (Inl AErrNotFound, s)
      | Inr (Some a) \<Rightarrow> expireIfNeeded io c now a s)"

definition saveDecided :: "'s StoreIO \<Rightarrow> ctx \<Rightarrow> Approval \<Rightarrow> 's \<Rightarrow> (appr_err + Approval) \<times> 's" where
  "saveDecided io c a s = (case io_save io c a s of
     (Some e, s1) \<Rightarrow> (Inl e, s1) | (None, s1) \<Rightarrow> (Inr (cloneApproval a), s1))"

definition decided :: "ApprovalState \<Rightarrow> time \<Rightarrow> ApprovalDecisionRequest \<Rightarrow> Approval \<Rightarrow> Approval" where
  "decided state now d a = a\<lparr>Ap_State := state, Ap_DecidedAt := Some now,
     Ap_DecisionActor := Some (ADR_DecisionActor d), Ap_DecisionNote := ADR_Note d\<rparr>"

definition decide ::
  "'s StoreIO \<Rightarrow> clock \<Rightarrow> ctx \<Rightarrow> string \<Rightarrow> ApprovalState \<Rightarrow> ApprovalDecisionRequest \<Rightarrow> 's
     \<Rightarrow> (appr_err + Approval) \<times> 's" where
  "decide io clk c i state d s =
     (if state \<noteq> Approved \<and> state \<noteq> Denied \<and> state \<noteq> Revoked then (Inl AErrInvalidRequest, s)
      else if \<not> ActorKind_Valid (Actor_Kind (ADR_DecisionActor d)) then (Inl AErrInvalidRequest, s)
      else case fetch io c (clk 0) i s of
        (Inl e, s1) \<Rightarrow> (Inl e, s1)
      | (Inr a, s1) \<Rightarrow>
          if Ap_State a \<noteq> Pending then
            (Inl (if Ap_State a = Expired then AErrExpired else AErrInvalidTransition), s1)
          else case ADR_Scope d of
            None \<Rightarrow> saveDecided io c (decided state (clk 1) d a) s1
          | Some sc \<Rightarrow>
              if \<not> Scope_Valid sc then (Inl AErrInvalidRequest, s1)
              else saveDecided io c ((decided state (clk 1) d a)\<lparr>Ap_Scope := sc\<rparr>) s1)"

definition QueueApprove where
  "QueueApprove io clk c i d s = decide io clk c i Approved d s"

definition QueueDeny where
  "QueueDeny io clk c i d s = decide io clk c i Denied d s"

definition QueueRevoke where
  "QueueRevoke io clk c i d s = decide io clk c i Revoked d s"

definition ConsumeOnce ::
  "'s StoreIO \<Rightarrow> clock \<Rightarrow> ctx \<Rightarrow> string \<Rightarrow> ApprovalDecisionRequest \<Rightarrow> 's \<Rightarrow> (appr_err + Approval) \<times> 's" where
  "ConsumeOnce io clk c i d s =
     (if \<not> ActorKind_Valid (Actor_Kind (ADR_DecisionActor d)) then (Inl AErrInvalidRequest, s)
      else case fetch io c (clk 0) i s of
        (Inl e, s1) \<Rightarrow> (Inl e, s1)
      | (Inr a, s1) \<Rightarrow>
          if Ap_State a = Expired then (Inl AErrExpired, s1)
          else if Ap_State a \<noteq> Approved then (Inl AErrInvalidTransition, s1)
          else if Ap_Scope a \<noteq> Once then (Inl AErrInvalidTransition, s1)
          else saveDecided io c (decided Revoked (clk 1) d a) s1)"

definition QueueExtend ::
  "'s StoreIO \<Rightarrow> clock \<Rightarrow> ctx \<Rightarrow> string \<Rightarrow> time \<Rightarrow> 's \<Rightarrow> (appr_err + Approval) \<times> 's" where
  "QueueExtend io clk c i expiresAt s =
     (if isZero expiresAt then (Inl AErrInvalidRequest, s)
      else case fetch io c (clk 0) i s of
        (Inl e, s1) \<Rightarrow> (Inl e, s1)
      | (Inr a, s1) \<Rightarrow>
          if Ap_State a = Denied \<or> Ap_State a = Revoked \<or> Ap_State a = Expired
          then (Inl AErrInvalidTransition, s1)
          else saveDecided io c (a\<lparr>Ap_ExpiresAt := Some expiresAt\<rparr>) s1)"

section \<open>Checks\<close>

record CheckRequest =
  Chk_Action :: CommandSpec
  Chk_ProjectID :: string
  Chk_BeadID :: string
  Chk_AgentID :: string
  Chk_SwarmID :: string

record CheckResult =
  Res_Allowed :: bool
  Res_ApprovalID :: string
  Res_Scope :: ApprovalScope
  Res_Reason :: string

definition sameCommandApproval :: "QueueCfg \<Rightarrow> CommandSpec \<Rightarrow> CommandSpec \<Rightarrow> ApprovalScope \<Rightarrow> bool" where
  "sameCommandApproval cfg approved requested scope =
     (if Cmd_Kind approved \<noteq> Cmd_Kind requested then False
      else if scope = Once \<and> (commandIdempotencyKey approved \<noteq> [] \<or> commandIdempotencyKey requested \<noteq> [])
      then commandIdempotencyKey approved \<noteq> [] \<and>
           commandIdempotencyKey approved = commandIdempotencyKey requested
      else q_canonicalJSON cfg (target_json (Cmd_Target approved)) =
           q_canonicalJSON cfg (target_json (Cmd_Target requested)))"

definition approvalCovers :: "QueueCfg \<Rightarrow> Approval \<Rightarrow> CheckRequest \<Rightarrow> bool" where
  "approvalCovers cfg a req =
     (if \<not> sameCommandApproval cfg (Ap_RequestedAction a) (Chk_Action req) (Ap_Scope a) then False
      else let project = (stringValue (Ap_ProjectId a) \<noteq> [] \<and> stringValue (Ap_ProjectId a) = Chk_ProjectID req)
        in case Ap_Scope a of
          Once \<Rightarrow> True
        | ThisBead \<Rightarrow> project \<and> stringValue (Ap_BeadId a) \<noteq> [] \<and> stringValue (Ap_BeadId a) = Chk_BeadID req
        | ThisSwarm \<Rightarrow> project \<and> stringValue (Ap_SwarmId a) \<noteq> [] \<and> stringValue (Ap_SwarmId a) = Chk_SwarmID req
        | ThisProjectSession \<Rightarrow> project
        | ScopeOther _ \<Rightarrow> False)"

definition QueueCheck ::
  "'s StoreIO \<Rightarrow> QueueCfg \<Rightarrow> clock \<Rightarrow> ctx \<Rightarrow> CheckRequest \<Rightarrow> 's \<Rightarrow> (appr_err + CheckResult) \<times> 's" where
  "QueueCheck io cfg clk c req s = (case listLocked io c (clk 0) s of
     (Inl e, s1) \<Rightarrow> (Inl e, s1)
   | (Inr items, s1) \<Rightarrow>
       (case find (\<lambda>a. Ap_State a = Approved \<and> approvalCovers cfg a req) items of
          None \<Rightarrow> (Inr \<lparr>Res_Allowed = False, Res_ApprovalID = [], Res_Scope = ScopeOther [],
            Res_Reason = ''no approved approval covers the requested action''\<rparr>, s1)
        | Some a \<Rightarrow> (Inr \<lparr>Res_Allowed = True, Res_ApprovalID = Ap_Id a, Res_Scope = Ap_Scope a,
            Res_Reason = []\<rparr>, s1)))"

end
