(* ===== verification/ApprovalIngest.thy ===== *)
theory ApprovalIngest
  imports ApprovalQueue
begin

text \<open>
  The producers of approvals: verdicts of the destructive-command guard (\<open>IngestDCG\<close>), the
  co-signature gate (\<open>RequireSLB\<close>), both in \<open>queue.go\<close>, and the agent's approval gate
  (\<open>agent_gate.go\<close>). \<open>fmt.Sprint\<close> of a non-string target value is an argument.
\<close>

section \<open>Verdicts of the command guard\<close>

datatype DCGDecision = DecisionAllowed | DecisionBlocked | DecisionRequiresConfirmation
  | DecisionOther string

definition decision_text :: "DCGDecision \<Rightarrow> string" where
  "decision_text d = (case d of DecisionAllowed \<Rightarrow> ''allowed'' | DecisionBlocked \<Rightarrow> ''blocked''
     | DecisionRequiresConfirmation \<Rightarrow> ''requires_confirmation'' | DecisionOther t \<Rightarrow> t)"

record DCGEvidence =
  Ev_RuleID :: string
  Ev_PackID :: string
  Ev_SchemaVersion :: int

record ApprovalSourceEntry =
  Ent_Source :: string
  Ent_Actor :: string
  Ent_Command :: string
  Ent_Decision :: DCGDecision
  Ent_Severity :: string
  Ent_Reason :: string
  Ent_Evidence :: DCGEvidence

record DCGIngestRequest =
  Dcg_Entry :: ApprovalSourceEntry
  Dcg_Action :: CommandSpec
  Dcg_ProjectID :: string
  Dcg_BeadID :: string
  Dcg_AgentID :: string
  Dcg_SwarmID :: string
  Dcg_Scope :: ApprovalScope
  Dcg_RiskClass :: ApprovalRiskClass
  Dcg_ExpiresAt :: "time option"
  Dcg_IdempotencyKey :: string

datatype DCGIngestResult = DCGIngestAllowed | DCGIngestQueued Approval | DCGIngestBlocked Approval

definition sourceOrDefault :: "string \<Rightarrow> string \<Rightarrow> string" where
  "sourceOrDefault source fallback = (if TrimSpace source = [] then fallback else TrimSpace source)"

definition riskFromDCGSeverity :: "string \<Rightarrow> DCGDecision \<Rightarrow> ApprovalRiskClass" where
  "riskFromDCGSeverity severity d =
     (let s = ToLower (TrimSpace severity) in
      if s \<in> {''critical'', ''destructive''} then Critical
      else if s = ''high'' then High
      else if s \<in> {''medium'', ''moderate''} then Medium
      else if s \<in> {''low'', ''info'', ''informational''} then Low
      else if d = DecisionBlocked then Critical
      else if d = DecisionRequiresConfirmation then High else Low)"

definition dcgActor :: Actor where
  "dcgActor = \<lparr>Actor_Kind = ActorKindDcg, Actor_Id = stringPtrOrNil ''dcg'', Actor_DisplayName = None\<rparr>"

definition actorFromDCG :: "string \<Rightarrow> Actor" where
  "actorFromDCG actor = (if TrimSpace actor = [] then dcgActor
     else \<lparr>Actor_Kind = ActorKindAgent, Actor_Id = Some (TrimSpace actor), Actor_DisplayName = None\<rparr>)"

definition dcgCommandSpec :: "QueueCfg \<Rightarrow> ApprovalSourceEntry \<Rightarrow> CommandSpec" where
  "dcgCommandSpec cfg e = \<lparr>Cmd_Args = None, Cmd_IdempotencyKey = None, Cmd_Kind = ''dcg.guarded_command'',
     Cmd_Postconditions = None, Cmd_Preconditions = None,
     Cmd_Target = Some ((''source'', JStr (sourceOrDefault (Ent_Source e) ''dcg'')) #
       (if TrimSpace (Ent_Command e) \<noteq> []
        then [(''commandSha256'', JStr (q_sha256Hex cfg (Ent_Command e)))] else []))\<rparr>"

definition dcgEvidenceRefs :: "ApprovalSourceEntry \<Rightarrow> string list" where
  "dcgEvidenceRefs e =
     (if Ent_Source e \<noteq> [] then [''dcg:source:'' @ Ent_Source e] else []) @
     (if Ev_RuleID (Ent_Evidence e) \<noteq> [] then [''dcg:rule:'' @ Ev_RuleID (Ent_Evidence e)] else []) @
     (if Ev_PackID (Ent_Evidence e) \<noteq> [] then [''dcg:pack:'' @ Ev_PackID (Ent_Evidence e)] else []) @
     (if Ev_SchemaVersion (Ent_Evidence e) > 0
      then [''dcg:schema:'' @ dec_digits (nat (Ev_SchemaVersion (Ent_Evidence e)))] else [])"

definition dcgRequestToApprovalRequest :: "QueueCfg \<Rightarrow> DCGIngestRequest \<Rightarrow> ApprRequest" where
  "dcgRequestToApprovalRequest cfg req =
     (let e = Dcg_Entry req in
      \<lparr>Req_Source = ApprovalSourceDcg, Req_PolicyRule = sourceOrDefault (Ent_Source e) ''dcg'',
       Req_Action = (if Cmd_Kind (Dcg_Action req) = [] then dcgCommandSpec cfg e else Dcg_Action req),
       Req_Actor = actorFromDCG (Ent_Actor e),
       Req_Reason = (if TrimSpace (Ent_Reason e) = []
         then ''DCG verdict '' @ [CHR 0x22] @ decision_text (Ent_Decision e) @ [CHR 0x22] @ '' from '' @
              sourceOrDefault (Ent_Source e) ''dcg''
         else TrimSpace (Ent_Reason e)),
       Req_EvidenceRefs = dcgEvidenceRefs e, Req_ProjectID = Dcg_ProjectID req,
       Req_BeadID = Dcg_BeadID req, Req_AgentID = Dcg_AgentID req, Req_SwarmID = Dcg_SwarmID req,
       Req_Scope = defaultScope (Dcg_Scope req),
       Req_RiskClass = (if Dcg_RiskClass req = RiskOther []
         then riskFromDCGSeverity (Ent_Severity e) (Ent_Decision e) else Dcg_RiskClass req),
       Req_ExpiresAt = Dcg_ExpiresAt req, Req_RequestedAt = 0,
       Req_IdempotencyKey = firstNonEmpty [Dcg_IdempotencyKey req,
         Ent_Source e @ ''|'' @ Ent_Command e @ ''|'' @ decision_text (Ent_Decision e)]\<rparr>)"

definition dcgBlockDecision :: ApprovalDecisionRequest where
  "dcgBlockDecision = \<lparr>ADR_DecisionActor = dcgActor,
     ADR_Note = stringPtrOrNil ''DCG blocked the command before execution'', ADR_Scope = None\<rparr>"

text \<open>
  A blocked verdict is queued and then denied, in two critical sections; the readings of the clock
  continue from the first to the second.
\<close>

definition IngestDCG ::
  "'s StoreIO \<Rightarrow> QueueCfg \<Rightarrow> (ApprRequest \<Rightarrow> string + string) \<Rightarrow> clock \<Rightarrow> ctx \<Rightarrow> DCGIngestRequest \<Rightarrow> 's
     \<Rightarrow> (appr_err + DCGIngestResult) \<times> 's" where
  "IngestDCG io cfg gen clk c req s =
     (case Ent_Decision (Dcg_Entry req) of
        DecisionAllowed \<Rightarrow> (Inr DCGIngestAllowed, s)
      | DecisionRequiresConfirmation \<Rightarrow>
          (case QueueRequest io cfg gen clk c (dcgRequestToApprovalRequest cfg req) s of
             (Inl e, s1) \<Rightarrow> (Inl e, s1) | (Inr (a, _), s1) \<Rightarrow> (Inr (DCGIngestQueued a), s1))
      | DecisionBlocked \<Rightarrow>
          (case QueueRequest io cfg gen clk c (dcgRequestToApprovalRequest cfg req) s of
             (Inl e, s1) \<Rightarrow> (Inl e, s1)
           | (Inr (a, _), s1) \<Rightarrow>
               (case QueueDeny io (\<lambda>n. clk (n + 2)) c (Ap_Id a) dcgBlockDecision s1 of
                  (Inl e, s2) \<Rightarrow> (Inl e, s2) | (Inr d, s2) \<Rightarrow> (Inr (DCGIngestBlocked d), s2)))
      | DecisionOther _ \<Rightarrow> (Inl AErrInvalidRequest, s))"

section \<open>Co-signatures\<close>

record SLBRequest =
  SLB_Enabled :: bool
  SLB_Class :: string
  SLB_Action :: CommandSpec
  SLB_Actor :: Actor
  SLB_Reason :: string
  SLB_EvidenceRefs :: "string list"
  SLB_ProjectID :: string
  SLB_BeadID :: string
  SLB_AgentID :: string
  SLB_SwarmID :: string
  SLB_Scope :: ApprovalScope
  SLB_RiskClass :: ApprovalRiskClass
  SLB_ExpiresAt :: "time option"
  SLB_IdempotencyKey :: string

definition slbRequest :: "SLBRequest \<Rightarrow> ApprRequest" where
  "slbRequest req = \<lparr>Req_Source = ApprovalSourceHoopoePolicy,
     Req_PolicyRule = ''slb:'' @ (if TrimSpace (SLB_Class req) = [] then ''destructive'' else TrimSpace (SLB_Class req)),
     Req_Action = SLB_Action req, Req_Actor = SLB_Actor req,
     Req_Reason = (if TrimSpace (SLB_Reason req) = []
       then ''SLB co-signature is required for this action class'' else TrimSpace (SLB_Reason req)),
     Req_EvidenceRefs = SLB_EvidenceRefs req, Req_ProjectID = SLB_ProjectID req,
     Req_BeadID = SLB_BeadID req, Req_AgentID = SLB_AgentID req, Req_SwarmID = SLB_SwarmID req,
     Req_Scope = (if SLB_Scope req = ScopeOther [] then Once else SLB_Scope req),
     Req_RiskClass = (if SLB_RiskClass req = RiskOther [] then Critical else SLB_RiskClass req),
     Req_ExpiresAt = SLB_ExpiresAt req, Req_RequestedAt = 0,
     Req_IdempotencyKey = SLB_IdempotencyKey req\<rparr>"

definition RequireSLB ::
  "'s StoreIO \<Rightarrow> QueueCfg \<Rightarrow> (ApprRequest \<Rightarrow> string + string) \<Rightarrow> clock \<Rightarrow> ctx \<Rightarrow> SLBRequest \<Rightarrow> 's
     \<Rightarrow> (appr_err + Approval option) \<times> 's" where
  "RequireSLB io cfg gen clk c req s =
     (if \<not> SLB_Enabled req then (Inr None, s)
      else case QueueRequest io cfg gen clk c (slbRequest req) s of
        (Inl e, s1) \<Rightarrow> (Inl e, s1) | (Inr (a, _), s1) \<Rightarrow> (Inr (Some a), s1))"

section \<open>The agent's gate\<close>

record GateAction =
  Act_Args :: "(string \<times> json) list option"
  Act_IdempotencyKey :: string
  Act_Kind :: string
  Act_Postconditions :: "string list option"
  Act_Preconditions :: "string list option"
  Act_Target :: "(string \<times> json) list option"

record GateRequest =
  Gate_Action :: GateAction
  Gate_RunId :: string
  Gate_JobId :: string
  Gate_EvidenceRefs :: "string list option"
  Gate_PlanRisk :: ApprovalRiskClass
  Gate_SpecRisk :: ApprovalRiskClass
  Gate_Reason :: string
  Gate_DryRunSummary :: string
  Gate_RequestedAt :: time

datatype GateState = ApprovalApproved | ApprovalDenied | ApprovalPending

record GateDecision =
  GD_State :: GateState
  GD_ApprovalID :: string
  GD_Reason :: string
  GD_DecidedAt :: time

definition agentApprovalState :: "ApprovalState \<Rightarrow> GateState" where
  "agentApprovalState s = (case s of Approved \<Rightarrow> ApprovalApproved | Denied \<Rightarrow> ApprovalDenied
     | Revoked \<Rightarrow> ApprovalDenied | _ \<Rightarrow> ApprovalPending)"

definition riskRank :: "ApprovalRiskClass \<Rightarrow> int" where
  "riskRank r = (case r of Critical \<Rightarrow> 4 | High \<Rightarrow> 3 | Medium \<Rightarrow> 2 | Low \<Rightarrow> 1 | RiskOther _ \<Rightarrow> 0)"

definition maxRisk :: "ApprovalRiskClass \<Rightarrow> ApprovalRiskClass \<Rightarrow> ApprovalRiskClass" where
  "maxRisk a b = (if riskRank a \<ge> riskRank b then a else b)"

definition targetString :: "(json \<Rightarrow> string) \<Rightarrow> (string \<times> json) list option \<Rightarrow> string \<Rightarrow> string" where
  "targetString sprint target k =
     (case (case target of None \<Rightarrow> None | Some m \<Rightarrow> map_of m k) of
        None \<Rightarrow> [] | Some (JStr s) \<Rightarrow> TrimSpace s | Some v \<Rightarrow> TrimSpace (sprint v))"

definition actionToCommandSpec :: "GateAction \<Rightarrow> CommandSpec" where
  "actionToCommandSpec a = \<lparr>Cmd_Args = Act_Args a, Cmd_IdempotencyKey = stringPtrOrNil (Act_IdempotencyKey a),
     Cmd_Kind = Act_Kind a, Cmd_Postconditions = cloneStringSlicePtr (Act_Postconditions a),
     Cmd_Preconditions = cloneStringSlicePtr (Act_Preconditions a), Cmd_Target = Act_Target a\<rparr>"

definition actorFromActionPlan :: "GateRequest \<Rightarrow> Actor" where
  "actorFromActionPlan r =
     (if TrimSpace (Gate_RunId r) \<noteq> []
      then \<lparr>Actor_Kind = ActorKindAgent, Actor_Id = stringPtrOrNil (Gate_RunId r),
            Actor_DisplayName = stringPtrOrNil (Gate_JobId r)\<rparr>
      else \<lparr>Actor_Kind = ActorKindScheduler, Actor_Id = stringPtrOrNil (Gate_JobId r), Actor_DisplayName = None\<rparr>)"

definition approvalReason :: "GateRequest \<Rightarrow> string" where
  "approvalReason r =
     (if TrimSpace (Gate_Reason r) \<noteq> [] then Gate_Reason r
      else if TrimSpace (Gate_DryRunSummary r) \<noteq> [] then Gate_DryRunSummary r
      else Act_Kind (Gate_Action r) @ '' requires approval'')"

definition gateRequest :: "(json \<Rightarrow> string) \<Rightarrow> GateRequest \<Rightarrow> ApprRequest" where
  "gateRequest sprint r =
     (let target = targetString sprint (Act_Target (Gate_Action r)) in
      \<lparr>Req_Source = ApprovalSourceHoopoePolicy,
       Req_PolicyRule = ''hoopoe-policy:'' @ Act_Kind (Gate_Action r),
       Req_Action = actionToCommandSpec (Gate_Action r), Req_Actor = actorFromActionPlan r,
       Req_Reason = approvalReason r,
       Req_EvidenceRefs = (case Gate_EvidenceRefs r of None \<Rightarrow> [] | Some vs \<Rightarrow> vs),
       Req_ProjectID = target ''projectId'', Req_BeadID = target ''beadId'',
       Req_AgentID = target ''agentId'', Req_SwarmID = target ''swarmId'', Req_Scope = Once,
       Req_RiskClass = maxRisk (Gate_PlanRisk r) (Gate_SpecRisk r), Req_ExpiresAt = None,
       Req_RequestedAt = Gate_RequestedAt r, Req_IdempotencyKey = []\<rparr>)"

definition RequestApproval ::
  "'s StoreIO \<Rightarrow> QueueCfg \<Rightarrow> (json \<Rightarrow> string) \<Rightarrow> (ApprRequest \<Rightarrow> string + string) \<Rightarrow> clock \<Rightarrow> ctx \<Rightarrow> GateRequest
     \<Rightarrow> 's \<Rightarrow> (appr_err + GateDecision) \<times> 's" where
  "RequestApproval io cfg sprint gen clk c r s =
     (case QueueRequest io cfg gen clk c (gateRequest sprint r) s of
        (Inl e, s1) \<Rightarrow> (Inl e, s1)
      | (Inr (a, _), s1) \<Rightarrow> (Inr \<lparr>GD_State = agentApprovalState (Ap_State a), GD_ApprovalID = Ap_Id a,
          GD_Reason = stringValue (Ap_Reason a),
          GD_DecidedAt = (case Ap_DecidedAt a of None \<Rightarrow> 0 | Some t \<Rightarrow> t)\<rparr>, s1))"

end
