(* ===== verification/ApprovalSpec.thy ===== *)
theory ApprovalSpec
  imports ApprovalIngest
begin

text \<open>
  The abstract specification of the approval queue: the life cycle of one approval as an inductive
  relation, the steps of the ordered map of approvals, and what every path of such steps keeps.
  The queue's operations are related to it in \<open>ApprovalRefine\<close>.
\<close>

section \<open>The life cycle of one approval\<close>

definition live :: "Approval \<Rightarrow> bool" where
  "live a \<longleftrightarrow> Ap_State a \<notin> {Denied, Revoked, Expired}"

inductive appr_step :: "Approval \<Rightarrow> Approval \<Rightarrow> bool" where
  expire: "Ap_State a = Pending \<or> Ap_State a = Approved \<Longrightarrow> appr_step a (a\<lparr>Ap_State := Expired\<rparr>)"
| decide: "Ap_State a = Pending \<Longrightarrow> st \<in> {Approved, Denied, Revoked} \<Longrightarrow>
    ActorKind_Valid (Actor_Kind (ADR_DecisionActor d)) \<Longrightarrow> appr_step a (decided st t d a)"
| rescope: "Ap_State a = Pending \<Longrightarrow> st \<in> {Approved, Denied, Revoked} \<Longrightarrow> Scope_Valid sc \<Longrightarrow>
    ActorKind_Valid (Actor_Kind (ADR_DecisionActor d)) \<Longrightarrow> appr_step a ((decided st t d a)\<lparr>Ap_Scope := sc\<rparr>)"
| consume: "Ap_State a = Approved \<Longrightarrow> Ap_Scope a = Once \<Longrightarrow>
    ActorKind_Valid (Actor_Kind (ADR_DecisionActor d)) \<Longrightarrow> appr_step a (decided Revoked t d a)"
| extend: "live a \<Longrightarrow> appr_step a (a\<lparr>Ap_ExpiresAt := Some e\<rparr>)"

inductive_cases appr_stepE: "appr_step a a'"

text \<open>Whom an approval belongs to: the producer, the rule and the idempotency key.\<close>

definition origin :: "Approval \<Rightarrow> ApprovalSource \<times> string \<times> string" where
  "origin a = (Ap_Source a, stringValue (Ap_PolicyRule a), commandIdempotencyKey (Ap_RequestedAction a))"

lemma origin_clone [simp]: "origin (cloneApproval a) = origin a"
  by (simp add: origin_def)

lemma live_clone [simp]: "live (cloneApproval a) = live a"
  by (simp add: live_def)

lemma decided_fields [simp]:
  "Ap_Id (decided st t d a) = Ap_Id a" "Ap_State (decided st t d a) = st" "origin (decided st t d a) = origin a"
  "Ap_Scope (decided st t d a) = Ap_Scope a" "Ap_DecidedAt (decided st t d a) = Some t"
  "Ap_DecisionActor (decided st t d a) = Some (ADR_DecisionActor d)" "Ap_Source (decided st t d a) = Ap_Source a"
  "Ap_RiskClass (decided st t d a) = Ap_RiskClass a" "Ap_ExpiresAt (decided st t d a) = Ap_ExpiresAt a"
  "Ap_RequestedAction (decided st t d a) = Ap_RequestedAction a"
  by (simp_all add: decided_def origin_def)

text \<open>A step starts from a live approval, keeps its id and origin, and never brings one back.\<close>

lemma appr_step_facts: "appr_step a a' \<Longrightarrow> live a \<and> Ap_Id a' = Ap_Id a \<and> origin a' = origin a"
  by (erule appr_stepE) (auto simp: live_def origin_def decided_def)

text \<open>The well-formed approvals.\<close>

fun decision_ok :: "ApprovalState \<Rightarrow> time option \<Rightarrow> Actor option \<Rightarrow> bool" where
  "decision_ok Pending at actor = (at = None \<and> actor = None)"
| "decision_ok Expired at actor = True"
| "decision_ok (StateOther _) at actor = False"
| "decision_ok _ (Some _) (Some actor) = ActorKind_Valid (Actor_Kind actor)"
| "decision_ok _ _ _ = False"

definition appr_ok :: "Approval \<Rightarrow> bool" where
  "appr_ok a \<longleftrightarrow> decision_ok (Ap_State a) (Ap_DecidedAt a) (Ap_DecisionActor a) \<and>
     Scope_Valid (Ap_Scope a) \<and> Source_Valid (Ap_Source a) \<and> Risk_Valid (Ap_RiskClass a) \<and>
     Ap_ExpiresAt a \<noteq> None \<and> TrimSpace (Ap_Id a) = Ap_Id a \<and> Ap_Id a \<noteq> []"

lemma appr_ok_clone [simp]: "appr_ok (cloneApproval a) = appr_ok a"
  by (simp add: appr_ok_def cloneApproval_def)

lemma appr_step_ok: "appr_step a a' \<Longrightarrow> appr_ok a \<Longrightarrow> appr_ok a'"
  by (erule appr_stepE) (auto simp: appr_ok_def decided_def)

section \<open>The steps of the queue\<close>

type_synonym view = "(string \<times> Approval) list"

definition normal_request :: "ApprRequest \<Rightarrow> bool" where
  "normal_request n \<longleftrightarrow> Source_Valid (Req_Source n) \<and> Scope_Valid (Req_Scope n) \<and> Risk_Valid (Req_RiskClass n) \<and>
     Req_ExpiresAt n \<noteq> None \<and> Req_PolicyRule n \<noteq> [] \<and> TrimSpace (Req_PolicyRule n) = Req_PolicyRule n \<and>
     TrimSpace (Req_IdempotencyKey n) = Req_IdempotencyKey n \<and>
     Cmd_IdempotencyKey (Req_Action n) = stringPtrOrNil (Req_IdempotencyKey n)"

text \<open>
  A step changes nothing, or moves one approval along its life cycle, or adds a pending approval for
  a request that no live approval answers. \<open>G\<close> bounds the ids new approvals may get.
\<close>

inductive queue_step :: "string set \<Rightarrow> view \<Rightarrow> view \<Rightarrow> bool" for G where
  change: "map_of v i = Some a \<Longrightarrow> appr_step (cloneApproval a) a' \<Longrightarrow>
    queue_step G v (AList.update i (cloneApproval a') v)"
| new: "normal_request n \<Longrightarrow> i \<in> G \<Longrightarrow> TrimSpace i = i \<Longrightarrow> i \<noteq> [] \<Longrightarrow>
    (\<forall>k a. map_of v k = Some a \<longrightarrow> \<not> sameRequest n a) \<Longrightarrow>
    queue_step G v (AList.update i (cloneApproval (newApproval n i)) v)"

inductive_cases queue_stepE: "queue_step G v v'"

abbreviation queue_steps :: "string set \<Rightarrow> view \<Rightarrow> view \<Rightarrow> bool" where
  "queue_steps G \<equiv> (queue_step G)\<^sup>*\<^sup>*"

lemma queue_step_mono: "G \<subseteq> H \<Longrightarrow> queue_step G v v' \<Longrightarrow> queue_step H v v'"
  by (erule queue_stepE) (auto intro: queue_step.intros)

lemma queue_steps_mono: "G \<subseteq> H \<Longrightarrow> queue_steps G v v' \<Longrightarrow> queue_steps H v v'"
  by (metis predicate2I queue_step_mono rtranclp_mono predicate2D)

section \<open>What the steps keep\<close>

text \<open>A denied, revoked or expired approval is never touched again, unless its id is generated anew.\<close>

lemma final_step:
  "queue_step G v v' \<Longrightarrow> map_of v i = Some a \<Longrightarrow> \<not> live a \<Longrightarrow> i \<notin> G \<Longrightarrow> map_of v' i = Some a"
  by (erule queue_stepE) (auto dest: appr_step_facts)

lemma final_steps:
  "queue_steps G v v' \<Longrightarrow> map_of v i = Some a \<Longrightarrow> \<not> live a \<Longrightarrow> i \<notin> G \<Longrightarrow> map_of v' i = Some a"
  by (induction rule: rtranclp_induct) (auto intro: final_step)

definition all_ok :: "view \<Rightarrow> bool" where
  "all_ok v \<longleftrightarrow> (\<forall>k a. map_of v k = Some a \<longrightarrow> appr_ok a)"

definition one_live :: "view \<Rightarrow> bool" where
  "one_live v \<longleftrightarrow> (\<forall>i j a b. map_of v i = Some a \<and> map_of v j = Some b \<and> live a \<and> live b \<and>
     origin a = origin b \<longrightarrow> i = j)"

lemma newApproval_ok: "normal_request n \<Longrightarrow> TrimSpace i = i \<Longrightarrow> i \<noteq> [] \<Longrightarrow> appr_ok (newApproval n i)"
  by (simp add: normal_request_def appr_ok_def newApproval_def)

lemma newApproval_origin:
  "normal_request n \<Longrightarrow> origin (newApproval n i) = (Req_Source n, Req_PolicyRule n, Req_IdempotencyKey n)"
  by (simp add: normal_request_def origin_def newApproval_def stringPtrOrNil_def stringValue_def
      commandIdempotencyKey_def)

lemma sameRequest_origin:
  "sameRequest n a \<longleftrightarrow> live a \<and> origin a = (Req_Source n, Req_PolicyRule n, Req_IdempotencyKey n)"
  by (auto simp: sameRequest_def live_def origin_def)

lemma all_ok_step: "queue_step G v v' \<Longrightarrow> all_ok v \<Longrightarrow> all_ok v'"
proof (erule queue_stepE)
  fix i a a'
  assume o: "all_ok v" and a: "map_of v i = Some a" "appr_step (cloneApproval a) a'"
    and v': "v' = AList.update i (cloneApproval a') v"
  from o a(1) have "appr_ok (cloneApproval a)" by (simp add: all_ok_def)
  with a(2) have "appr_ok a'" by (rule appr_step_ok)
  with o show "all_ok v'" by (simp add: all_ok_def v')
qed (auto simp: all_ok_def newApproval_ok)

lemma one_live_step: "queue_step G v v' \<Longrightarrow> one_live v \<Longrightarrow> one_live v'"
proof (erule queue_stepE)
  fix i a a'
  assume o: "one_live v" and a: "map_of v i = Some a" "appr_step (cloneApproval a) a'"
    and v': "v' = AList.update i (cloneApproval a') v"
  from appr_step_facts [OF a(2)] have "live a" "origin a' = origin a" by auto
  with o a(1) show "one_live v'" unfolding one_live_def v' by (auto split: if_splits)
next
  fix n i
  assume o: "one_live v" and n: "normal_request n" "\<forall>k a. map_of v k = Some a \<longrightarrow> \<not> sameRequest n a"
    and v': "v' = AList.update i (cloneApproval (newApproval n i)) v"
  from n have f: "map_of v k = Some a \<Longrightarrow> live a \<Longrightarrow> origin a \<noteq> origin (newApproval n i)" for k a
    by (auto simp: newApproval_origin sameRequest_origin)
  from o f show "one_live v'" unfolding one_live_def v' by (simp split: if_split) metis
qed

lemma steps_keep: "queue_steps G v v' \<Longrightarrow> all_ok v \<and> one_live v \<Longrightarrow> all_ok v' \<and> one_live v'"
  by (induction rule: rtranclp_induct) (auto intro: all_ok_step one_live_step)

end
