(* ===== verification/JsonlLog.thy ===== *)
theory JsonlLog
  imports GoPrelude
begin

text \<open>
  Append-only files of JSON lines, as the daemon keeps its approvals, pairings and sessions. A line
  is a whole record or bytes that do not parse; after the last newline there may be the torn tail of
  a write that failed, either unparsable or a whole record that only lacks its newline. The next
  append continues on that tail. A reader scans the lines with the line limit of \<open>bufio.Scanner\<close>
  (64 KiB): \<open>fits\<close> says whether the JSON of a record stays under it; a longer line, a line that does
  not parse or one the reader's step refuses fails the whole scan. Records are taken to come back from
  their JSON as they were, as records with valid UTF-8 texts do; all others must be thought of as not
  fitting. The write fault of each append is
  the head of the file's fault list.
\<close>

datatype 'a log_line = Record 'a | Garbage

datatype 'a log_tail = NoTail | TornTail | WholeTail 'a

datatype append_fault = FaultLock string | FaultOpen string | FaultTorn string | FaultNoNewline string
  | FaultSync string

record 'a log_file =
  lf_lines :: "'a log_line list"
  lf_tail :: "'a log_tail"
  lf_faults :: "append_fault option list"

definition next_append_fault :: "'a log_file \<Rightarrow> append_fault option" where
  "next_append_fault s = (case lf_faults s of [] \<Rightarrow> None | f # _ \<Rightarrow> f)"

text \<open>What a complete record written behind the tail makes of the file, and what a torn one does.\<close>

definition append_line :: "'a \<Rightarrow> 'a log_file \<Rightarrow> 'a log_file" where
  "append_line a s = (case lf_tail s of
     NoTail \<Rightarrow> s\<lparr>lf_lines := lf_lines s @ [Record a]\<rparr>
   | _ \<Rightarrow> s\<lparr>lf_lines := lf_lines s @ [Garbage], lf_tail := NoTail\<rparr>)"

definition torn_tail :: "'a option \<Rightarrow> 'a log_file \<Rightarrow> 'a log_file" where
  "torn_tail whole s = s\<lparr>lf_tail := (case (lf_tail s, whole) of
     (NoTail, Some a) \<Rightarrow> WholeTail a | _ \<Rightarrow> TornTail)\<rparr>"

text \<open>Lock, open, write, sync and close: the message of the call that failed, and the file left.\<close>

definition append_record :: "'a \<Rightarrow> 'a log_file \<Rightarrow> string option \<times> 'a log_file" where
  "append_record a s =
     (let s0 = s\<lparr>lf_faults := tl (lf_faults s)\<rparr> in
      case next_append_fault s of
        None \<Rightarrow> (None, append_line a s0)
      | Some (FaultLock m) \<Rightarrow> (Some m, s0)
      | Some (FaultOpen m) \<Rightarrow> (Some m, s0)
      | Some (FaultTorn m) \<Rightarrow> (Some m, torn_tail None s0)
      | Some (FaultNoNewline m) \<Rightarrow> (Some m, torn_tail (Some a) s0)
      | Some (FaultSync m) \<Rightarrow> (Some m, append_line a s0))"

datatype 'e scan_err = ScanTooLong | ScanMalformed | ScanStep 'e

fun scan_lines :: "('a \<Rightarrow> bool) \<Rightarrow> ('a \<Rightarrow> 's \<Rightarrow> 'e + 's) \<Rightarrow> 'a log_line list \<Rightarrow> 's \<Rightarrow> 'e scan_err + 's" where
  "scan_lines fits step [] st = Inr st"
| "scan_lines fits step (Garbage # ls) st = Inl ScanMalformed"
| "scan_lines fits step (Record a # ls) st =
     (if \<not> fits a then Inl ScanTooLong
      else case step a st of Inl e \<Rightarrow> Inl (ScanStep e) | Inr st' \<Rightarrow> scan_lines fits step ls st')"

definition tail_lines :: "'a log_tail \<Rightarrow> 'a log_line list" where
  "tail_lines t = (case t of NoTail \<Rightarrow> [] | TornTail \<Rightarrow> [Garbage] | WholeTail a \<Rightarrow> [Record a])"

definition scan_log :: "('a \<Rightarrow> bool) \<Rightarrow> ('a \<Rightarrow> 's \<Rightarrow> 'e + 's) \<Rightarrow> 'a log_file \<Rightarrow> 's \<Rightarrow> 'e scan_err + 's" where
  "scan_log fits step s st = scan_lines fits step (lf_lines s @ tail_lines (lf_tail s)) st"

definition empty_file :: "'a log_file" where
  "empty_file = \<lparr>lf_lines = [], lf_tail = NoTail, lf_faults = []\<rparr>"

section \<open>What an append does to a scan\<close>

lemma scan_append:
  "scan_lines fits step (xs @ ys) st = (case scan_lines fits step xs st of Inl e \<Rightarrow> Inl e | Inr m \<Rightarrow> scan_lines fits step ys m)"
  by (induction fits step xs st rule: scan_lines.induct) (simp_all split: sum.split)

lemma scan_faults [simp]: "scan_log fits step (s\<lparr>lf_faults := f\<rparr>) st = scan_log fits step s st"
  by (simp add: scan_log_def)

lemma scan_empty [simp]: "scan_log fits step empty_file st = Inr st"
  by (simp add: scan_log_def empty_file_def tail_lines_def)

lemma scan_append_line:
  "scan_log fits step (append_line a s) st = Inr w \<Longrightarrow>
   \<exists>v. lf_tail s = NoTail \<and> scan_log fits step s st = Inr v \<and> fits a \<and> step a v = Inr w"
  by (auto simp: append_line_def scan_log_def tail_lines_def scan_append
      split: log_tail.splits sum.splits if_splits)

lemma scan_torn_tail:
  "scan_log fits step (torn_tail whole s) st = Inr w \<Longrightarrow>
   \<exists>a v. whole = Some a \<and> scan_log fits step s st = Inr v \<and> step a v = Inr w"
  by (auto simp: torn_tail_def scan_log_def tail_lines_def scan_append
      split: log_tail.splits option.splits sum.splits if_splits)

lemma too_long_unreadable: "\<not> fits a \<Longrightarrow> scan_log fits step (append_line a s) st \<noteq> Inr w"
  by (auto dest: scan_append_line)

lemma torn_unreadable: "scan_log fits step (torn_tail None s) st \<noteq> Inr w"
  by (auto dest: scan_torn_tail)

text \<open>
  After any append, successful or not, a file that can still be scanned holds what it held, or that
  and the record; a successful one holds the record.
\<close>

lemma append_record_scan:
  assumes "scan_log fits step (snd (append_record a s)) st = Inr w"
  shows "\<exists>v. scan_log fits step s st = Inr v \<and>
    (step a v = Inr w \<or> fst (append_record a s) \<noteq> None \<and> w = v)"
proof -
  let ?s0 = "s\<lparr>lf_faults := tl (lf_faults s)\<rparr>"
  from assms scan_append_line [of fits step a ?s0 st w] scan_torn_tail [of fits step None ?s0 st w]
    scan_torn_tail [of fits step "Some a" ?s0 st w]
  show ?thesis
    by (auto simp: append_record_def Let_def split: option.splits append_fault.splits)
qed

lemma append_record_ok:
  "lf_faults s = [] \<Longrightarrow> lf_tail s = NoTail \<Longrightarrow> append_record a s = (None, s\<lparr>lf_lines := lf_lines s @ [Record a]\<rparr>)"
  by (cases s) (simp add: append_record_def next_append_fault_def append_line_def Let_def)

end
