(* ===== verification/ApprovalLog.thy ===== *)
theory ApprovalLog
  imports ApprovalQueue JsonlLog
begin

text \<open>
  \<open>file_store.go\<close>: approvals as an append-only log of JSON lines, replayed by every read. Reading
  and locking for a read do not fail here except for the contents of the file.
\<close>

type_synonym ApprFile = "Approval log_file"

definition AFile_Save :: "ctx \<Rightarrow> Approval \<Rightarrow> ApprFile \<Rightarrow> appr_err option \<times> ApprFile" where
  "AFile_Save c a s =
     (if Ap_Id a = [] then (Some AErrInvalidRequest, s)
      else case c of Some e \<Rightarrow> (Some (AErrCtx e), s) | None \<Rightarrow>
        (case append_record (cloneApproval a) s of
           (Some m, s') \<Rightarrow> (Some (AErrIO m), s') | (None, s') \<Rightarrow> (None, s')))"

text \<open>
  \<open>loadUnlocked\<close>: the records by id, the last one of an id wins, in the order of the first one. A
  line that is unparsable, too long or without an id fails the load.
\<close>

definition replayApproval :: "Approval \<Rightarrow> (string \<times> Approval) list \<Rightarrow> appr_err + (string \<times> Approval) list" where
  "replayApproval a m = (if Ap_Id a = [] then Inl AErrInvalidRequest else Inr (AList.update (Ap_Id a) a m))"

definition loadUnlocked :: "(Approval \<Rightarrow> bool) \<Rightarrow> ApprFile \<Rightarrow> appr_err + (string \<times> Approval) list" where
  "loadUnlocked fits s = (case scan_log fits replayApproval s [] of
     Inl ScanTooLong \<Rightarrow> Inl (AErrIO ''token too long'') | Inl ScanMalformed \<Rightarrow> Inl AErrInvalidRequest
   | Inl (ScanStep e) \<Rightarrow> Inl e | Inr m \<Rightarrow> Inr m)"

definition AFile_Get :: "(Approval \<Rightarrow> bool) \<Rightarrow> ctx \<Rightarrow> string \<Rightarrow> ApprFile \<Rightarrow> appr_err + Approval option" where
  "AFile_Get fits c i s = (case c of Some e \<Rightarrow> Inl (AErrCtx e) | None \<Rightarrow>
     (case loadUnlocked fits s of Inl e \<Rightarrow> Inl e | Inr m \<Rightarrow> Inr (map_option cloneApproval (map_of m i))))"

definition AFile_List :: "(Approval \<Rightarrow> bool) \<Rightarrow> ctx \<Rightarrow> ApprFile \<Rightarrow> appr_err + Approval list" where
  "AFile_List fits c s = (case c of Some e \<Rightarrow> Inl (AErrCtx e) | None \<Rightarrow>
     (case loadUnlocked fits s of Inl e \<Rightarrow> Inl e | Inr m \<Rightarrow> Inr (map (cloneApproval \<circ> snd) m)))"

section \<open>The log is a store\<close>

definition file_view :: "(Approval \<Rightarrow> bool) \<Rightarrow> ApprFile \<Rightarrow> (string \<times> Approval) list option" where
  "file_view fits s = (case loadUnlocked fits s of Inl e \<Rightarrow> None | Inr m \<Rightarrow> Some m)"

lemma load_scan: "loadUnlocked fits s = Inr m \<longleftrightarrow> scan_log fits replayApproval s [] = Inr m"
  by (auto simp: loadUnlocked_def split: sum.split scan_err.split)

lemma view_scan: "file_view fits s = Some m \<longleftrightarrow> scan_log fits replayApproval s [] = Inr m"
  by (auto simp: file_view_def load_scan [symmetric] split: sum.split)

definition keyed :: "(string \<times> Approval) list \<Rightarrow> bool" where
  "keyed m \<longleftrightarrow> distinct (keys m) \<and> (\<forall>k a. map_of m k = Some a \<longrightarrow> Ap_Id a = k)"

lemma keyed_update: "keyed m \<Longrightarrow> keyed (AList.update (Ap_Id a) a m)"
  by (auto simp: keyed_def)

lemma replay_keyed: "scan_lines fits replayApproval ls m = Inr v \<Longrightarrow> keyed m \<Longrightarrow> keyed v"
proof (induction fits replayApproval ls m rule: scan_lines.induct)
  case (3 fits a ls m)
  from 3(2) have a: "fits a" "replayApproval a m = Inr (AList.update (Ap_Id a) a m)"
    "scan_lines fits replayApproval ls (AList.update (Ap_Id a) a m) = Inr v"
    by (auto simp: replayApproval_def split: if_splits)
  from 3(1) [OF _ a(2,3) keyed_update [OF 3(3)]] a(1) show ?case by simp
qed simp_all

lemma AFile_Save_view:
  assumes "file_view fits (snd (AFile_Save c a s)) = Some w"
  shows "\<exists>v. file_view fits s = Some v \<and> (w = AList.update (Ap_Id a) (cloneApproval a) v \<or> fst (AFile_Save c a s) \<noteq> None \<and> w = v)"
proof (cases "Ap_Id a \<noteq> [] \<and> c = None")
  case False
  with assms show ?thesis by (auto simp: AFile_Save_def split: option.splits)
next
  case True
  then have s: "snd (AFile_Save c a s) = snd (append_record (cloneApproval a) s)"
    "fst (AFile_Save c a s) = None \<longleftrightarrow> fst (append_record (cloneApproval a) s) = None"
    by (auto simp: AFile_Save_def split: prod.split option.split)
  from append_record_scan [OF assms [unfolded s(1) view_scan]] s(2) show ?thesis
    by (auto simp: view_scan replayApproval_def split: if_splits)
qed

lemma AFile_Save_None: "file_view fits s = None \<Longrightarrow> file_view fits (snd (AFile_Save c a s)) = None"
  using AFile_Save_view [of fits c a s] by (cases "file_view fits (snd (AFile_Save c a s))") auto

interpretation file_approvals: approval_store AFile_Save "AFile_Get fits" "AFile_List fits" "file_view fits" "\<lambda>_. True"
  for fits
proof unfold_locales
  fix s v c a s'
  assume "file_view fits s = Some v" "AFile_Save c a s = (None, s')"
  with AFile_Save_view [of fits c a s] show "file_view fits s' = None \<or>
      file_view fits s' = Some (AList.update (Ap_Id a) (cloneApproval a) v)" by (cases "file_view fits s'") auto
next
  fix s v c a e s'
  assume "file_view fits s = Some v" "AFile_Save c a s = (Some e, s')"
  with AFile_Save_view [of fits c a s] show "file_view fits s' = None \<or> file_view fits s' = Some v \<or>
      file_view fits s' = Some (AList.update (Ap_Id a) (cloneApproval a) v)" by (cases "file_view fits s'") auto
next
  fix s c a
  assume "file_view fits s = None"
  then show "file_view fits (snd (AFile_Save c a s)) = None" by (rule AFile_Save_None)
next
  fix s v
  assume "file_view fits s = Some v"
  then have "scan_lines fits replayApproval (lf_lines s @ tail_lines (lf_tail s)) [] = Inr v"
    by (simp add: view_scan scan_log_def)
  from replay_keyed [OF this] have "keyed v" by (simp add: keyed_def)
  then show "distinct (keys v) \<and> (\<forall>k a. map_of v k = Some a \<longrightarrow> Ap_Id a = k)"
    unfolding keyed_def .
qed (auto simp: AFile_Get_def AFile_List_def file_view_def split: option.splits sum.splits)

end
