(* ===== verification/ApprovalRefine.thy ===== *)
theory ApprovalRefine
  imports ApprovalSpec ApprovalLog
begin

text \<open>
  The queue's operations refine the abstract steps: on any store that keeps the \<open>Store\<close> laws, what
  an operation does to the map the store holds is a path of \<open>queue_step\<close>, whichever saves fail.
  Proved once in the locale of the store interface, it holds for the memory store and the log.
\<close>

definition markExpired :: "time \<Rightarrow> Approval \<Rightarrow> Approval" where
  "markExpired now a = (case Ap_ExpiresAt a of None \<Rightarrow> a
     | Some e \<Rightarrow> if (Ap_State a = Pending \<or> Ap_State a = Approved) \<and> \<not> now < e
               then a\<lparr>Ap_State := Expired\<rparr> else a)"

lemma markExpired_clone [simp]: "cloneApproval (markExpired now a) = markExpired now (cloneApproval a)"
  by (simp add: markExpired_def split: option.split)

lemma markExpired_Id [simp]: "Ap_Id (markExpired now a) = Ap_Id a"
  by (simp add: markExpired_def split: option.split)

lemma set_Expired_id: "a\<lparr>Ap_State := Expired\<rparr> = a \<longleftrightarrow> Ap_State a = Expired"
  by (cases a) (auto)

lemma expireIfNeeded_eq:
  "expireIfNeeded io c now a s =
     (if markExpired now a = a then (Inr a, s)
      else case io_save io c (markExpired now a) s of
        (Some e, s') \<Rightarrow> (Inl e, s') | (None, s') \<Rightarrow> (Inr (markExpired now a), s'))"
proof (cases "Ap_ExpiresAt a")
  case None
  then show ?thesis by (simp add: expireIfNeeded_def markExpired_def)
next
  case (Some e)
  show ?thesis
  proof (cases "(Ap_State a = Pending \<or> Ap_State a = Approved) \<and> \<not> now < e")
    case True
    then have ne: "Ap_State a \<noteq> Expired" and t: "\<not> (Ap_State a \<noteq> Pending \<and> Ap_State a \<noteq> Approved)" by auto
    from True Some have m: "markExpired now a = a\<lparr>Ap_State := Expired\<rparr>" by (simp add: markExpired_def)
    show ?thesis
      unfolding m expireIfNeeded_def Some option.case if_not_P [OF t]
      using True ne set_Expired_id [of a] by simp
  next
    case False
    with Some show ?thesis by (auto simp: expireIfNeeded_def markExpired_def)
  qed
qed

lemma expireIfNeeded_Inr:
  assumes "expireIfNeeded io c now a s = (Inr a', s')"
  shows "a' = markExpired now a \<and> (markExpired now a = a \<longrightarrow> s' = s)"
proof (cases "markExpired now a = a")
  case True
  with assms show ?thesis unfolding expireIfNeeded_eq by simp
next
  case False
  obtain r t where "io_save io c (markExpired now a) s = (r, t)" by (metis surj_pair)
  with assms False show ?thesis unfolding expireIfNeeded_eq by (cases r) simp_all
qed

lemma markExpired_cases: "markExpired now a = a \<or> Ap_State (markExpired now a) = Expired"
  by (simp add: markExpired_def split: option.split)

lemma markExpired_step: "markExpired now a \<noteq> a \<Longrightarrow> appr_step a (markExpired now a)"
  by (auto simp: markExpired_def intro: appr_step.expire split: option.splits if_splits)

lemma expireAll_result: "expireAll io c now as s = (Inr as', s') \<Longrightarrow> as' = map (markExpired now) as"
proof (induction as arbitrary: s as')
  case Nil
  then show ?case by simp
next
  case (Cons a as)
  from Cons.prems obtain a1 s1 where 1: "expireIfNeeded io c now a s = (Inr a1, s1)"
    by (auto split: prod.splits sum.splits)
  with Cons.prems obtain as1 where 2: "expireAll io c now as s1 = (Inr as1, s')" "as' = a1 # as1"
    by (auto split: prod.splits sum.splits)
  from expireIfNeeded_Inr [OF 1] have "a1 = markExpired now a" by blast
  with Cons.IH [OF 2(1)] 2(2) show ?case by simp
qed

section \<open>Requests are made normal\<close>

lemma requestKey_trimmed:
  assumes "\<And>x. TrimSpace (q_sha256Hex cfg x) = q_sha256Hex cfg x"
  shows "TrimSpace (requestKey cfg r) = requestKey cfg r"
  using assms by (simp add: requestKey_def derivedIdempotencyKey_def commandIdempotencyKey_def Let_def
      split: option.split)

lemma defaultPolicyRule_facts:
  "defaultPolicyRule src \<noteq> []" "TrimSpace (defaultPolicyRule src) = defaultPolicyRule src"
proof -
  show "defaultPolicyRule src \<noteq> []" by (simp add: defaultPolicyRule_def)
  have "TrimSpace ''dcg'' = ''dcg''" "TrimSpace ''hoopoe-policy:unspecified'' = ''hoopoe-policy:unspecified''"
    by code_simp+
  then show "TrimSpace (defaultPolicyRule src) = defaultPolicyRule src" by (simp add: defaultPolicyRule_def)
qed

lemma normalizeRequest_normal:
  assumes "\<And>x. TrimSpace (q_sha256Hex cfg x) = q_sha256Hex cfg x" "normalizeRequest cfg now r = Inr n"
  shows "normal_request n"
  using assms(2) requestKey_trimmed [OF assms(1)] defaultPolicyRule_facts
  by (auto simp: normalizeRequest_def normal_request_def Let_def split: if_splits)

text \<open>
  The ids a draw can hand out, and those the draws of a run can: \<open>gen k\<close> is the draw of the operation
  after which \<open>k\<close> others follow.
\<close>

definition drawable :: "(ApprRequest \<Rightarrow> string + string) \<Rightarrow> string set" where
  "drawable gen = {TrimSpace i |n i. gen n = Inr i}"

definition generated :: "(nat \<Rightarrow> ApprRequest \<Rightarrow> string + string) \<Rightarrow> string set" where
  "generated gen = {TrimSpace i |k n i. gen k n = Inr i}"

lemma drawable_generated: "drawable (gen k) \<subseteq> generated gen"
  by (auto simp: drawable_def generated_def)

section \<open>Every operation\<close>

text \<open>
  The operations of the queue as data, each with its context and its arguments; one configuration
  and value printer serve a whole run, and every operation draws its identifier anew.
\<close>

datatype appr_op = OpRequest ApprRequest | OpGet string | OpList ApprListFilter
  | OpDecide string ApprovalState ApprovalDecisionRequest | OpConsume string ApprovalDecisionRequest
  | OpExtend string time | OpCheck CheckRequest | OpIngest DCGIngestRequest | OpSLB SLBRequest
  | OpGate GateRequest

fun appr_exec :: "'s StoreIO \<Rightarrow> QueueCfg \<Rightarrow> (json \<Rightarrow> string) \<Rightarrow> (ApprRequest \<Rightarrow> string + string) \<Rightarrow>
    clock \<times> ctx \<times> appr_op \<Rightarrow> 's \<Rightarrow> 's" where
  "appr_exec io cfg sprint gen (clk, c, OpRequest r) s = snd (QueueRequest io cfg gen clk c r s)"
| "appr_exec io cfg sprint gen (clk, c, OpGet i) s = snd (QueueGet io clk c i s)"
| "appr_exec io cfg sprint gen (clk, c, OpList f) s = snd (QueueList io clk c f s)"
| "appr_exec io cfg sprint gen (clk, c, OpDecide i st d) s = snd (decide io clk c i st d s)"
| "appr_exec io cfg sprint gen (clk, c, OpConsume i d) s = snd (ConsumeOnce io clk c i d s)"
| "appr_exec io cfg sprint gen (clk, c, OpExtend i e) s = snd (QueueExtend io clk c i e s)"
| "appr_exec io cfg sprint gen (clk, c, OpCheck r) s = snd (QueueCheck io cfg clk c r s)"
| "appr_exec io cfg sprint gen (clk, c, OpIngest r) s = snd (IngestDCG io cfg gen clk c r s)"
| "appr_exec io cfg sprint gen (clk, c, OpSLB r) s = snd (RequireSLB io cfg gen clk c r s)"
| "appr_exec io cfg sprint gen (clk, c, OpGate r) s = snd (RequestApproval io cfg sprint gen clk c r s)"

fun appr_run :: "'s StoreIO \<Rightarrow> QueueCfg \<Rightarrow> (json \<Rightarrow> string) \<Rightarrow> (nat \<Rightarrow> ApprRequest \<Rightarrow> string + string) \<Rightarrow>
    (clock \<times> ctx \<times> appr_op) list \<Rightarrow> 's \<Rightarrow> 's" where
  "appr_run io cfg sprint gen [] s = s"
| "appr_run io cfg sprint gen (x # xs) s = appr_run io cfg sprint gen xs (appr_exec io cfg sprint (gen (length xs)) x s)"

section \<open>Over any store\<close>

context approval_store
begin

abbreviation IO :: "'s StoreIO" where
  "IO \<equiv> \<lparr>io_save = save, io_get = get, io_list = list\<rparr>"

text \<open>\<open>moves G s s'\<close>: what can be read afterwards was reached by abstract steps.\<close>

definition moves :: "string set \<Rightarrow> 's \<Rightarrow> 's \<Rightarrow> bool" where
  "moves G s s' \<longleftrightarrow> wf s' \<and>
     (\<forall>v'. readable s' = Some v' \<longrightarrow> (\<exists>v. readable s = Some v \<and> queue_steps G v v'))"

lemma moves_refl: "wf s \<Longrightarrow> moves G s s"
  by (simp add: moves_def)

lemma moves_trans: "moves G s t \<Longrightarrow> moves G t u \<Longrightarrow> moves G s u"
  unfolding moves_def by (meson rtranclp_trans)

lemma moves_wf: "moves G s t \<Longrightarrow> wf t"
  by (simp add: moves_def)

lemma moves_mono: "moves G s t \<Longrightarrow> G \<subseteq> H \<Longrightarrow> moves H s t"
  unfolding moves_def using queue_steps_mono by blast

lemma save_moves:
  assumes "wf s" and step: "\<And>v. readable s = Some v \<Longrightarrow> queue_step G v (AList.update (Ap_Id a) (cloneApproval a) v)"
  shows "moves G s (snd (save c a s))"
  unfolding moves_def
proof (intro conjI allI impI)
  show "wf (snd (save c a s))" using save_wf [OF assms(1)] .
next
  fix v'
  assume "readable (snd (save c a s)) = Some v'"
  from save_view [OF assms(1) this] obtain v where v: "readable s = Some v"
    "v' = v \<or> v' = AList.update (Ap_Id a) (cloneApproval a) v" by blast
  with step [OF v(1)] show "\<exists>v. readable s = Some v \<and> queue_steps G v v'" by auto
qed

text \<open>An approval as the queue holds it: a copy of what the store has under its id.\<close>

definition held :: "'s \<Rightarrow> Approval \<Rightarrow> bool" where
  "held s a \<longleftrightarrow> (\<forall>v. readable s = Some v \<longrightarrow> (\<exists>b. map_of v (Ap_Id a) = Some b \<and> a = cloneApproval b))"

lemma save_step_moves:
  assumes "wf s" "held s a" "appr_step a a'"
  shows "moves G s (snd (save c a' s))"
proof (rule save_moves [OF assms(1)])
  fix v
  assume "readable s = Some v"
  with assms(2) obtain b where b: "map_of v (Ap_Id a) = Some b" "a = cloneApproval b" by (auto simp: held_def)
  from appr_step_facts [OF assms(3)] have "Ap_Id a' = Ap_Id a" by simp
  with queue_step.change [OF b(1), of a' G] assms(3) b(2)
  show "queue_step G v (AList.update (Ap_Id a') (cloneApproval a') v)" by simp
qed

lemma get_held:
  assumes "wf s" "get c i s = Inr (Some a)"
  shows "held s a \<and> Ap_Id a = i"
proof -
  from get_reads [OF assms] obtain v b where v: "readable s = Some v" "map_of v i = Some b" "a = cloneApproval b"
    by (cases "map_of (the (readable s)) i") auto
  with view_keys [OF assms(1) v(1)] have "Ap_Id b = i" by blast
  with v show ?thesis by (simp add: held_def)
qed

lemma expire_moves:
  assumes "wf s" "held s a"
  shows "moves G s (snd (expireIfNeeded IO c now a s))"
proof (cases "markExpired now a = a")
  case True
  with assms show ?thesis by (simp add: expireIfNeeded_eq moves_refl)
next
  case False
  from save_step_moves [OF assms markExpired_step [OF False], of G c] False show ?thesis
    by (auto simp: expireIfNeeded_eq split: prod.split option.split)
qed

lemma fetch_moves:
  assumes "wf s"
  shows "moves G s (snd (fetch IO c now i s))"
proof (cases "get c (TrimSpace i) s")
  case (Inl e)
  with assms show ?thesis by (simp add: fetch_def moves_refl)
next
  case (Inr r)
  show ?thesis
  proof (cases r)
    case None
    with Inr assms show ?thesis by (simp add: fetch_def moves_refl)
  next
    case (Some a)
    with Inr get_held [OF assms] have "held s a" by simp
    from expire_moves [OF assms this] Inr Some show ?thesis by (simp add: fetch_def)
  qed
qed

text \<open>A fetched approval that has not expired is the stored one.\<close>

lemma fetch_live:
  assumes "wf s" "fetch IO c now i s = (Inr a, s1)" "Ap_State a \<noteq> Expired"
  shows "s1 = s \<and> held s a \<and> Ap_Id a = TrimSpace i \<and> markExpired now a = a"
proof -
  from assms(2) obtain b where g: "get c (TrimSpace i) s = Inr (Some b)"
    and e: "expireIfNeeded IO c now b s = (Inr a, s1)"
    by (auto simp: fetch_def split: sum.splits option.splits)
  from expireIfNeeded_Inr [OF e] have a: "a = markExpired now b" and s1: "markExpired now b = b \<longrightarrow> s1 = s"
    by blast+
  from a assms(3) markExpired_cases [of now b] have b: "markExpired now b = b" by metis
  with a have ab: "a = b" by simp
  from b s1 have "s1 = s" by blast
  moreover from get_held [OF assms(1) g] ab have "held s a" "Ap_Id a = TrimSpace i" by blast+
  moreover from b ab have "markExpired now a = a" by blast
  ultimately show ?thesis by blast
qed

lemma saveDecided_moves:
  "wf s \<Longrightarrow> held s a \<Longrightarrow> appr_step a a' \<Longrightarrow> moves G s (snd (saveDecided IO c a' s))"
  using save_step_moves [of s a a' G c] by (auto simp: saveDecided_def split: prod.split option.split)

lemma decide_moves:
  assumes "wf s"
  shows "moves G s (snd (decide IO clk c i st d s))"
proof (cases "(st = Approved \<or> st = Denied \<or> st = Revoked) \<and> ActorKind_Valid (Actor_Kind (ADR_DecisionActor d))")
  case False
  then show ?thesis by (auto simp: decide_def moves_refl assms)
next
  case True
  obtain r s1 where f: "fetch IO c (clk 0) i s = (r, s1)" by (metis surj_pair)
  with fetch_moves [OF assms, of G c "clk 0" i] have m: "moves G s s1" by simp
  show ?thesis
  proof (cases "\<exists>a. r = Inr a \<and> Ap_State a = Pending")
    case False
    with True f m show ?thesis by (auto simp: decide_def split: sum.split)
  next
    case p: True
    then obtain a where a: "r = Inr a" "Ap_State a = Pending" by blast
    from fetch_live [OF assms f [unfolded a(1)]] a(2) have s1: "s1 = s" "held s a" by auto
    from appr_step.decide [of a st d "clk 1"] True a(2)
    have s: "appr_step a (decided st (clk 1) d a)" by auto
    have sc: "Scope_Valid x \<Longrightarrow> appr_step a ((decided st (clk 1) d a)\<lparr>Ap_Scope := x\<rparr>)" for x
      using appr_step.rescope [of a st x d "clk 1"] True a(2) by auto
    show ?thesis
    proof (cases "ADR_Scope d")
      case None
      with True f a s1 saveDecided_moves [OF assms s1(2) s, of G c] show ?thesis
        by (auto simp: decide_def)
    next
      case (Some x)
      show ?thesis
      proof (cases "Scope_Valid x")
        case False
        with True f a s1 Some assms show ?thesis by (auto simp: decide_def moves_refl)
      next
        case sv: True
        from True f a s1 Some sv saveDecided_moves [OF assms s1(2) sc [OF sv], of G c]
        show ?thesis by (auto simp: decide_def)
      qed
    qed
  qed
qed

lemma ConsumeOnce_moves:
  assumes "wf s"
  shows "moves G s (snd (ConsumeOnce IO clk c i d s))"
proof -
  obtain r s1 where f: "fetch IO c (clk 0) i s = (r, s1)" by (metis surj_pair)
  with fetch_moves [OF assms, of G c "clk 0" i] have m: "moves G s s1" by simp
  show ?thesis
  proof (cases "ActorKind_Valid (Actor_Kind (ADR_DecisionActor d)) \<and>
      (\<exists>a. r = Inr a \<and> Ap_State a = Approved \<and> Ap_Scope a = Once)")
    case False
    with f m show ?thesis by (auto simp: ConsumeOnce_def moves_refl assms split: sum.split)
  next
    case True
    then obtain a where a: "r = Inr a" "Ap_State a = Approved" "Ap_Scope a = Once"
      "ActorKind_Valid (Actor_Kind (ADR_DecisionActor d))" by blast
    from fetch_live [OF assms f [unfolded a(1)]] a(2) have s1: "s1 = s" "held s a" by auto
    from saveDecided_moves [OF assms s1(2) appr_step.consume [OF a(2,3,4)]] f a s1
    show ?thesis by (auto simp: ConsumeOnce_def)
  qed
qed

lemma Extend_moves:
  assumes "wf s"
  shows "moves G s (snd (QueueExtend IO clk c i e s))"
proof -
  obtain r s1 where f: "fetch IO c (clk 0) i s = (r, s1)" by (metis surj_pair)
  with fetch_moves [OF assms, of G c "clk 0" i] have m: "moves G s s1" by simp
  show ?thesis
  proof (cases "\<not> isZero e \<and> (\<exists>a. r = Inr a \<and> live a)")
    case False
    with f m show ?thesis by (auto simp: QueueExtend_def live_def moves_refl assms split: sum.split)
  next
    case True
    then obtain a where a: "r = Inr a" "live a" "\<not> isZero e" by blast
    then have ne: "Ap_State a \<noteq> Expired" by (simp add: live_def)
    from fetch_live [OF assms f [unfolded a(1)] ne] have s1: "s1 = s" "held s a" by auto
    from saveDecided_moves [OF assms s1(2) appr_step.extend [OF a(2)]] f a s1
    show ?thesis by (auto simp: QueueExtend_def live_def)
  qed
qed

text \<open>Expiring a whole listing: the approvals not yet reached stay as the store has them.\<close>

lemma save_held: "wf s \<Longrightarrow> held s b \<Longrightarrow> Ap_Id b \<noteq> Ap_Id a \<Longrightarrow> held (snd (save c a s)) b"
  unfolding held_def by (auto dest!: save_view)

lemma expire_held:
  assumes "wf s" "held s b" "Ap_Id b \<noteq> Ap_Id a"
  shows "held (snd (expireIfNeeded IO c now a s)) b"
proof (cases "markExpired now a = a")
  case True
  with assms show ?thesis by (simp add: expireIfNeeded_eq)
next
  case False
  from save_held [of s b "markExpired now a" c] assms have "held (snd (save c (markExpired now a) s)) b" by simp
  with False show ?thesis by (auto simp: expireIfNeeded_eq split: prod.split option.split)
qed

lemma expireAll_moves:
  "wf s \<Longrightarrow> (\<forall>a \<in> set as. held s a) \<Longrightarrow> distinct (map Ap_Id as) \<Longrightarrow> moves G s (snd (expireAll IO c now as s))"
proof (induction as arbitrary: s)
  case Nil
  then show ?case by (simp add: moves_refl)
next
  case (Cons a as)
  obtain r s1 where e: "expireIfNeeded IO c now a s = (r, s1)" by (metis surj_pair)
  from Cons.prems expire_moves [of s a G c now] e have m: "moves G s s1" by simp
  from Cons.prems(2,3) have h: "\<forall>b \<in> set as. held s b \<and> Ap_Id b \<noteq> Ap_Id a"
    by (simp, metis image_eqI)
  with expire_held [OF Cons.prems(1), of _ a c now] e have h: "\<forall>b \<in> set as. held s1 b" by simp
  from Cons.IH [OF moves_wf [OF m] h] Cons.prems(3) have "moves G s1 (snd (expireAll IO c now as s1))" by simp
  from moves_trans [OF m this] m e show ?case by (auto split: sum.split prod.split)
qed

lemma list_held:
  assumes "wf s" "list c s = Inr as"
  shows "(\<forall>a \<in> set as. held s a) \<and> distinct (map Ap_Id as) \<and>
    (\<exists>v. readable s = Some v \<and> as = map (cloneApproval \<circ> snd) v \<and> map Ap_Id as = keys v)"
proof -
  from list_reads [OF assms] obtain v where v: "readable s = Some v" "as = map (cloneApproval \<circ> snd) v" by blast
  from view_keys [OF assms(1) v(1)] have d: "distinct (keys v)" and
    k: "map_of v i = Some b \<Longrightarrow> Ap_Id b = i" for i b by auto
  have e: "(i, b) \<in> set v \<Longrightarrow> map_of v i = Some b \<and> Ap_Id b = i" for i b
    using k map_of_is_SomeI [OF d] by metis
  have ids: "map Ap_Id as = keys v" unfolding v(2) by (auto dest: e)
  have "held s a" if "a \<in> set as" for a
  proof -
    from that v(2) obtain i b where "(i, b) \<in> set v" "a = cloneApproval b" by auto
    with e [of i b] v(1) show ?thesis by (simp add: held_def)
  qed
  moreover have "distinct (map Ap_Id as)" unfolding ids by (rule d)
  ultimately show ?thesis using v ids by blast
qed

lemma listLocked_moves:
  assumes "wf s"
  shows "moves G s (snd (listLocked IO c now s))"
proof (cases "list c s")
  case (Inl e)
  with assms show ?thesis by (simp add: listLocked_def moves_refl)
next
  case (Inr as)
  from list_held [OF assms Inr] have "\<forall>a \<in> set as. held s a" "distinct (map Ap_Id as)" by auto
  from expireAll_moves [OF assms this] Inr show ?thesis by (simp add: listLocked_def)
qed

text \<open>What a listing that succeeds leaves in the store, and what it returns.\<close>

lemma expire_view:
  assumes "wf s" "held s a" "expireIfNeeded IO c now a s = (Inr a', s')" "readable s' = Some v'"
  shows "\<exists>v. readable s = Some v \<and> (\<forall>k. k \<noteq> Ap_Id a \<longrightarrow> map_of v' k = map_of v k) \<and>
    map_option cloneApproval (map_of v' (Ap_Id a)) = Some (markExpired now a)"
proof (cases "markExpired now a = a")
  case True
  with assms(3) have "s' = s" by (simp add: expireIfNeeded_eq)
  with assms True show ?thesis by (auto simp: held_def)
next
  case False
  with assms(3) have sv: "save c (markExpired now a) s = (None, s')"
    by (auto simp: expireIfNeeded_eq split: prod.splits option.splits)
  with save_view [OF assms(1), of c "markExpired now a" v'] assms(4) obtain v where
    v: "readable s = Some v" by auto
  from save_ok [OF assms(1) v sv] assms(4)
  have v': "v' = AList.update (Ap_Id a) (cloneApproval (markExpired now a)) v" by simp
  from assms(2) v have "cloneApproval a = a" by (auto simp: held_def)
  with v v' show ?thesis by simp
qed

lemma expireAll_view:
  "wf s \<Longrightarrow> (\<forall>a \<in> set as. held s a) \<Longrightarrow> distinct (map Ap_Id as) \<Longrightarrow>
   expireAll IO c now as s = (Inr as', s') \<Longrightarrow> readable s' = Some v' \<Longrightarrow>
   \<exists>v. readable s = Some v \<and> (\<forall>k. k \<notin> Ap_Id ` set as \<longrightarrow> map_of v' k = map_of v k) \<and>
     (\<forall>a \<in> set as. map_option cloneApproval (map_of v' (Ap_Id a)) = Some (markExpired now a))"
proof (induction as arbitrary: s as')
  case Nil
  then show ?case by simp
next
  case (Cons a as)
  from Cons.prems(4) obtain a1 s1 as1 where e: "expireIfNeeded IO c now a s = (Inr a1, s1)"
    and r: "expireAll IO c now as s1 = (Inr as1, s')"
    by (auto split: prod.splits sum.splits)
  from Cons.prems(2,3) have h: "\<forall>b \<in> set as. held s b \<and> Ap_Id b \<noteq> Ap_Id a"
    by (simp, metis image_eqI)
  with expire_held [OF Cons.prems(1), of _ a c now] e have h1: "\<forall>b \<in> set as. held s1 b" by simp
  from Cons.prems expire_moves [of s a "{}" c now] e have w: "wf s1" by (simp add: moves_def)
  from Cons.IH [OF w h1 _ r Cons.prems(5)] Cons.prems(3) obtain v1 where v1: "readable s1 = Some v1"
    "\<forall>k. k \<notin> Ap_Id ` set as \<longrightarrow> map_of v' k = map_of v1 k"
    "\<forall>a \<in> set as. map_option cloneApproval (map_of v' (Ap_Id a)) = Some (markExpired now a)" by auto
  from expire_view [OF Cons.prems(1) _ e v1(1)] Cons.prems(2) obtain v where v: "readable s = Some v"
    "\<forall>k. k \<noteq> Ap_Id a \<longrightarrow> map_of v1 k = map_of v k"
    "map_option cloneApproval (map_of v1 (Ap_Id a)) = Some (markExpired now a)" by auto
  from Cons.prems(3) have "Ap_Id a \<notin> Ap_Id ` set as" by simp
  with v1(2) v(3) have "map_option cloneApproval (map_of v' (Ap_Id a)) = Some (markExpired now a)" by metis
  with v1(3) have "\<forall>b \<in> set (a # as). map_option cloneApproval (map_of v' (Ap_Id b)) = Some (markExpired now b)"
    by simp
  moreover from v1(2) v(2) have "\<forall>k. k \<notin> Ap_Id ` set (a # as) \<longrightarrow> map_of v' k = map_of v k" by simp
  ultimately show ?case using v(1) by blast
qed

lemma listLocked_view:
  assumes "wf s" "listLocked IO c now s = (Inr as, s')" "readable s' = Some v'"
  shows "\<exists>v. readable s = Some v \<and> as = map (markExpired now \<circ> cloneApproval \<circ> snd) v \<and>
    (\<forall>k. map_option cloneApproval (map_of v' k) = map_option (markExpired now \<circ> cloneApproval) (map_of v k))"
proof -
  from assms(2) obtain xs where xs: "list c s = Inr xs" "expireAll IO c now xs s = (Inr as, s')"
    by (auto simp: listLocked_def split: sum.splits)
  from list_held [OF assms(1) xs(1)] obtain v where h: "\<forall>a \<in> set xs. held s a" "distinct (map Ap_Id xs)"
    and v: "readable s = Some v" "xs = map (cloneApproval \<circ> snd) v" "map Ap_Id xs = keys v" by auto
  from expireAll_view [OF assms(1) h xs(2) assms(3)] v(1) have o:
    "\<And>k. k \<notin> Ap_Id ` set xs \<Longrightarrow> map_of v' k = map_of v k"
    "\<And>a. a \<in> set xs \<Longrightarrow> map_option cloneApproval (map_of v' (Ap_Id a)) = Some (markExpired now a)" by auto
  have "map_option cloneApproval (map_of v' k) = map_option (markExpired now \<circ> cloneApproval) (map_of v k)" for k
  proof (cases "map_of v k")
    case None
    then have "k \<notin> set (keys v)" by (simp add: map_of_eq_None_iff)
    with v(3) have "k \<notin> Ap_Id ` set xs" by (metis list.set_map)
    with o(1) None show ?thesis by simp
  next
    case (Some b)
    then have "(k, b) \<in> set v" by (rule map_of_SomeD)
    with v(2) have "cloneApproval b \<in> set xs" by force
    moreover from view_keys [OF assms(1) v(1)] Some have "Ap_Id b = k" by blast
    ultimately show ?thesis using o(2) [of "cloneApproval b"] Some by simp
  qed
  moreover have "as = map (markExpired now \<circ> cloneApproval \<circ> snd) v"
    using expireAll_result [OF xs(2)] v(2) by simp
  ultimately show ?thesis using v(1) by blast
qed

lemma sameRequest_clone [simp]: "sameRequest n (cloneApproval a) = sameRequest n a"
  by (simp add: sameRequest_origin)

lemma findExisting_moves: "wf s \<Longrightarrow> moves G s (snd (findExisting IO c now n s))"
  using listLocked_moves [of s G c now]
  by (auto simp: findExisting_def split: prod.split sum.split)

lemma findExisting_none:
  assumes "wf s" "findExisting IO c now n s = (Inr None, s')" "readable s' = Some v'" "map_of v' k = Some x"
  shows "\<not> sameRequest n x"
proof -
  from assms(2) obtain as where as: "listLocked IO c now s = (Inr as, s')" "find (sameRequest n) as = None"
    by (auto simp: findExisting_def split: prod.splits sum.splits)
  from listLocked_view [OF assms(1) as(1) assms(3)] obtain v where
    v: "as = map (markExpired now \<circ> cloneApproval \<circ> snd) v"
    "map_option cloneApproval (map_of v' k) = map_option (markExpired now \<circ> cloneApproval) (map_of v k)" by blast
  from v(2) assms(4) obtain b where b: "map_of v k = Some b" "cloneApproval x = markExpired now (cloneApproval b)"
    by (cases "map_of v k") auto
  from b(1) have "(k, b) \<in> set v" by (rule map_of_SomeD)
  with v(1) b(2) have "cloneApproval x \<in> set as" by force
  with as(2) show ?thesis by (auto simp: find_None_iff)
qed

lemma QueueRequest_moves:
  assumes "wf s" and sha: "\<And>x. TrimSpace (q_sha256Hex cfg x) = q_sha256Hex cfg x"
  shows "moves (drawable gen) s (snd (QueueRequest IO cfg gen clk c req s))"
proof (cases "normalizeRequest cfg (clk 0) req")
  case (Inl e)
  with assms show ?thesis by (simp add: QueueRequest_def moves_refl)
next
  case (Inr n)
  obtain r s1 where f: "findExisting IO c (clk 1) n s = (r, s1)" by (metis surj_pair)
  with findExisting_moves [OF assms(1), of "drawable gen" c "clk 1" n] have m: "moves (drawable gen) s s1"
    by simp
  show ?thesis
  proof (cases "\<exists>i. r = Inr None \<and> gen n = Inr i \<and> TrimSpace i \<noteq> []")
    case False
    with Inr f m show ?thesis by (auto simp: QueueRequest_def split: sum.split option.split)
  next
    case True
    then obtain i where i: "r = Inr None" "gen n = Inr i" "TrimSpace i \<noteq> []" by blast
    have "queue_step (drawable gen) v
        (AList.update (Ap_Id (newApproval n (TrimSpace i))) (cloneApproval (newApproval n (TrimSpace i))) v)"
      if "readable s1 = Some v" for v
    proof -
      have "\<forall>k a. map_of v k = Some a \<longrightarrow> \<not> sameRequest n a"
        using findExisting_none [OF assms(1) f [unfolded i(1)] that] by blast
      from queue_step.new [OF normalizeRequest_normal [OF sha Inr] _ _ i(3) this, of "drawable gen"] i(2)
      show ?thesis by (auto simp: newApproval_def drawable_def)
    qed
    from moves_trans [OF m save_moves [OF moves_wf [OF m] this]]
    have "moves (drawable gen) s (snd (save c (newApproval n (TrimSpace i)) s1))" by blast
    with Inr f i show ?thesis
      by (auto simp: QueueRequest_def split: prod.split option.split)
  qed
qed

lemma QueueGet_moves:
  assumes "wf s"
  shows "moves G s (snd (QueueGet IO clk c i s))"
proof (cases "\<exists>a. get c (TrimSpace i) s = Inr (Some a)")
  case False
  with assms show ?thesis by (auto simp: QueueGet_def moves_refl split: sum.split option.split)
next
  case True
  then obtain a where a: "get c (TrimSpace i) s = Inr (Some a)" by blast
  with get_held [OF assms] have "held s a" by blast
  from expire_moves [OF assms this, of G c "clk 0"] a show ?thesis
    by (auto simp: QueueGet_def split: prod.split sum.split)
qed

lemma QueueList_moves: "wf s \<Longrightarrow> moves G s (snd (QueueList IO clk c f s))"
  using listLocked_moves [of s G c "clk 0"] by (auto simp: QueueList_def split: prod.split sum.split)

lemma QueueCheck_moves: "wf s \<Longrightarrow> moves G s (snd (QueueCheck IO cfg clk c r s))"
  using listLocked_moves [of s G c "clk 0"]
  by (auto simp: QueueCheck_def split: prod.split sum.split option.split)

lemma IngestDCG_moves:
  assumes "wf s" "\<And>x. TrimSpace (q_sha256Hex cfg x) = q_sha256Hex cfg x"
  shows "moves (drawable gen) s (snd (IngestDCG IO cfg gen clk c r s))"
proof -
  obtain x s1 where q: "QueueRequest IO cfg gen clk c (dcgRequestToApprovalRequest cfg r) s = (x, s1)"
    by (metis surj_pair)
  with QueueRequest_moves [OF assms, of gen clk c "dcgRequestToApprovalRequest cfg r"]
  have m: "moves (drawable gen) s s1" by simp
  have d: "moves (drawable gen) s (snd (QueueDeny IO k c i d s1))" for k i d
    unfolding QueueDeny_def using moves_trans [OF m decide_moves [OF moves_wf [OF m]]] .
  show ?thesis
  proof (cases "Ent_Decision (Dcg_Entry r) = DecisionBlocked")
    case False
    with q m assms(1) show ?thesis
      by (auto simp: IngestDCG_def moves_refl split: DCGDecision.split sum.split)
  next
    case b: True
    show ?thesis
    proof (cases x)
      case (Inl e)
      with q m b show ?thesis by (simp add: IngestDCG_def)
    next
      case (Inr y)
      obtain a t where y: "y = (a, t)" by (cases y)
      from d [of "\<lambda>n. clk (n + 2)" "Ap_Id a" dcgBlockDecision] q b Inr y show ?thesis
        by (auto simp: IngestDCG_def split: prod.split sum.split)
    qed
  qed
qed

lemma RequireSLB_moves:
  assumes "wf s" "\<And>x. TrimSpace (q_sha256Hex cfg x) = q_sha256Hex cfg x"
  shows "moves (drawable gen) s (snd (RequireSLB IO cfg gen clk c r s))"
  using QueueRequest_moves [OF assms, of gen clk c "slbRequest r"] assms(1)
  by (auto simp: RequireSLB_def moves_refl split: prod.split sum.split)

lemma RequestApproval_moves:
  assumes "wf s" "\<And>x. TrimSpace (q_sha256Hex cfg x) = q_sha256Hex cfg x"
  shows "moves (drawable gen) s (snd (RequestApproval IO cfg sprint gen clk c r s))"
  using QueueRequest_moves [OF assms, of gen clk c "gateRequest sprint r"]
  by (auto simp: RequestApproval_def split: prod.split sum.split)

lemma exec_moves:
  assumes "wf s" "\<And>x. TrimSpace (q_sha256Hex cfg x) = q_sha256Hex cfg x"
  shows "moves (drawable gen) s (appr_exec IO cfg sprint gen (clk, c, a) s)"
  using assms
  by (cases a) (simp_all add: QueueRequest_moves QueueGet_moves QueueList_moves decide_moves ConsumeOnce_moves
      Extend_moves QueueCheck_moves IngestDCG_moves RequireSLB_moves RequestApproval_moves)

lemma run_moves:
  assumes "wf s" and sha: "\<And>x. TrimSpace (q_sha256Hex cfg x) = q_sha256Hex cfg x"
  shows "moves (generated gen) s (appr_run IO cfg sprint gen xs s)"
  using assms(1)
proof (induction xs arbitrary: s)
  case Nil
  then show ?case by (simp add: moves_refl)
next
  case (Cons x xs)
  obtain clk c a where x: "x = (clk, c, a)" by (cases x)
  from moves_mono [OF exec_moves [OF Cons.prems sha] drawable_generated]
  have m: "moves (generated gen) s (appr_exec IO cfg sprint (gen (length xs)) x s)" by (simp add: x)
  from moves_trans [OF m Cons.IH [OF moves_wf [OF m]]] show ?case by simp
qed

end

end
