(* ===== verification/ApprovalResults.thy ===== *)
theory ApprovalResults
  imports ApprovalRefine
begin

text \<open>
  What the queue's operations answer, over any store that keeps the \<open>Store\<close> laws: checks, single use,
  requests that an approval already answers, decisions that are refused, and what no operation that
  only looks touches.
\<close>

section \<open>Results\<close>

definition unexpired :: "time \<Rightarrow> Approval \<Rightarrow> bool" where
  "unexpired now a \<longleftrightarrow> (case Ap_ExpiresAt a of None \<Rightarrow> True | Some e \<Rightarrow> now < e)"

text \<open>An approval that lets a command through.\<close>

definition usable :: "QueueCfg \<Rightarrow> time \<Rightarrow> CheckRequest \<Rightarrow> Approval \<Rightarrow> bool" where
  "usable cfg now req a \<longleftrightarrow> Ap_State a = Approved \<and> unexpired now a \<and> approvalCovers cfg a req"

lemma approvalCovers_clone [simp]: "approvalCovers cfg (cloneApproval a) req = approvalCovers cfg a req"
  by (auto simp: approvalCovers_def sameCommandApproval_def Let_def split: ApprovalScope.split)

lemma unexpired_clone [simp]: "unexpired now (cloneApproval a) = unexpired now a"
  by (simp add: unexpired_def)

lemma markExpired_keeps: "unexpired now a \<or> (Ap_State a \<noteq> Pending \<and> Ap_State a \<noteq> Approved) \<Longrightarrow> markExpired now a = a"
  by (auto simp: markExpired_def unexpired_def split: option.split)

lemma markExpired_Approved: "Ap_State (markExpired now a) = Approved \<longleftrightarrow> Ap_State a = Approved \<and> unexpired now a"
  by (auto simp: markExpired_def unexpired_def split: option.split)

lemma markExpired_live: "live (markExpired now a) \<Longrightarrow> markExpired now a = a"
  using markExpired_cases [of now a] by (auto simp: live_def)

text \<open>Steps that add nothing have the same ids.\<close>

lemma closed_steps_dom: "queue_steps {} v v' \<Longrightarrow> dom (map_of v') = dom (map_of v)"
proof (induction rule: rtranclp_induct)
  case (step y z)
  from step(2) have "dom (map_of z) = dom (map_of y)" by (cases rule: queue_step.cases) auto
  with step(3) show ?case by simp
qed simp

context approval_store
begin

lemma listLocked_items:
  assumes "wf s" "listLocked IO c now s = (Inr as, s')"
  shows "\<exists>v. readable s = Some v \<and> (\<forall>x. x \<in> set as \<longleftrightarrow>
    (\<exists>i a. map_of v i = Some a \<and> Ap_Id a = i \<and> x = markExpired now (cloneApproval a)))"
proof -
  from assms(2) obtain xs where xs: "list c s = Inr xs" "expireAll IO c now xs s = (Inr as, s')"
    by (auto simp: listLocked_def split: sum.splits)
  from list_reads [OF assms(1) xs(1)] obtain v where v: "readable s = Some v" "xs = map (cloneApproval \<circ> snd) v"
    by blast
  from view_keys [OF assms(1) v(1)] have d: "distinct (keys v)" and
    k: "\<And>i b. map_of v i = Some b \<Longrightarrow> Ap_Id b = i" by auto
  have "x \<in> set as \<longleftrightarrow> (\<exists>i a. (i, a) \<in> set v \<and> x = markExpired now (cloneApproval a))" for x
    unfolding expireAll_result [OF xs(2)] v(2) by force
  moreover have "(i, a) \<in> set v \<longleftrightarrow> map_of v i = Some a \<and> Ap_Id a = i" for i a
    using k map_of_is_SomeI [OF d] map_of_SomeD by metis
  ultimately show ?thesis using v(1) by metis
qed

lemma QueueCheck_result:
  assumes "wf s" "QueueCheck IO cfg clk c req s = (Inr r, s')"
  shows "\<exists>v. readable s = Some v \<and>
    (Res_Allowed r \<longleftrightarrow> (\<exists>i a. map_of v i = Some a \<and> usable cfg (clk 0) req a)) \<and>
    (Res_Allowed r \<longrightarrow> (\<exists>a. map_of v (Res_ApprovalID r) = Some a \<and> usable cfg (clk 0) req a \<and> Res_Scope r = Ap_Scope a))"
proof -
  from assms(2) obtain as where as: "listLocked IO c (clk 0) s = (Inr as, s')"
    by (auto simp: QueueCheck_def split: prod.splits sum.splits option.splits)
  from listLocked_items [OF assms(1) as] obtain v where v: "readable s = Some v"
    "\<And>x. x \<in> set as \<longleftrightarrow> (\<exists>i a. map_of v i = Some a \<and> Ap_Id a = i \<and> x = markExpired (clk 0) (cloneApproval a))"
    by blast
  let ?P = "\<lambda>a. Ap_State a = Approved \<and> approvalCovers cfg a req"
  have P: "?P (markExpired (clk 0) (cloneApproval a)) \<longleftrightarrow> usable cfg (clk 0) req a" for a
  proof (cases "unexpired (clk 0) a")
    case True
    then have "markExpired (clk 0) (cloneApproval a) = cloneApproval a" by (simp add: markExpired_keeps)
    with True show ?thesis by (simp add: usable_def)
  next
    case False
    then show ?thesis by (simp add: usable_def markExpired_Approved)
  qed
  show ?thesis
  proof (cases "find ?P as")
    case None
    then have "\<not> (\<exists>x \<in> set as. ?P x)" by (simp add: find_None_iff)
    then have "\<not> (\<exists>i a. map_of v i = Some a \<and> usable cfg (clk 0) req a)"
      using v view_keys [OF assms(1) v(1)] P by metis
    with None as assms(2) v(1) show ?thesis by (auto simp: QueueCheck_def)
  next
    case (Some x)
    then have x: "x \<in> set as" "?P x" by (auto simp: find_Some_iff)
    from x(1) v(2) obtain i a where a: "map_of v i = Some a" "Ap_Id a = i" "x = markExpired (clk 0) (cloneApproval a)"
      by blast
    from x(2) P a(3) have u: "usable cfg (clk 0) req a" by blast
    then have "x = cloneApproval a" unfolding a(3) by (simp add: usable_def markExpired_keeps)
    with Some as assms(2) have "Res_Allowed r" "Res_ApprovalID r = i" "Res_Scope r = Ap_Scope a"
      by (auto simp: QueueCheck_def a(2))
    with a(1) u v(1) show ?thesis by (intro exI [of _ v]) auto
  qed
qed

text \<open>Consuming: what a success was entitled to, and what it leaves behind.\<close>

lemma fetch_stored:
  assumes "wf s" "fetch IO c now i s = (Inr a, s1)"
  shows "\<exists>v b. readable s = Some v \<and> map_of v (TrimSpace i) = Some b \<and> a = markExpired now (cloneApproval b)"
proof -
  from assms(2) obtain b where g: "get c (TrimSpace i) s = Inr (Some b)"
    and e: "expireIfNeeded IO c now b s = (Inr a, s1)"
    by (auto simp: fetch_def split: sum.splits option.splits)
  from get_reads [OF assms(1) g] obtain v x where "readable s = Some v" "map_of v (TrimSpace i) = Some x"
    "b = cloneApproval x" by (cases "map_of (the (readable s)) (TrimSpace i)") auto
  with expireIfNeeded_Inr [OF e] show ?thesis by blast
qed

lemma saveDecided_view:
  assumes "wf s" "saveDecided IO c a s = (Inr a', s')" "readable s' = Some v'"
  shows "map_of v' (Ap_Id a) = Some (cloneApproval a) \<and> a' = cloneApproval a"
proof -
  from assms(2) have sv: "save c a s = (None, s')" and a': "a' = cloneApproval a"
    by (auto simp: saveDecided_def split: prod.splits option.splits)
  with save_view [OF assms(1), of c a v'] assms(3) obtain v where v: "readable s = Some v" by auto
  from save_ok [OF assms(1) v sv] assms(3) a' show ?thesis by simp
qed

lemma ConsumeOnce_success:
  assumes "wf s" "ConsumeOnce IO clk c i d s = (Inr a', s')"
  shows "\<exists>a. fetch IO c (clk 0) i s = (Inr a, s) \<and> Ap_Id a = TrimSpace i \<and> Ap_State a = Approved \<and> Ap_Scope a = Once \<and>
    saveDecided IO c (decided Revoked (clk 1) d a) s = (Inr a', s')"
proof -
  from assms(2) obtain a s1 where f: "fetch IO c (clk 0) i s = (Inr a, s1)"
    by (auto simp: ConsumeOnce_def split: prod.splits sum.splits if_splits)
  with assms(2) have st: "Ap_State a = Approved" "Ap_Scope a = Once"
    "saveDecided IO c (decided Revoked (clk 1) d a) s1 = (Inr a', s')"
    by (auto simp: ConsumeOnce_def split: if_splits)
  then have "Ap_State a \<noteq> Expired" by simp
  from fetch_live [OF assms(1) f this] f st show ?thesis by auto
qed

lemma ConsumeOnce_from:
  assumes "wf s" "ConsumeOnce IO clk c i d s = (Inr a', s')"
  shows "\<exists>v a. readable s = Some v \<and> map_of v (TrimSpace i) = Some a \<and> Ap_State a = Approved \<and> Ap_Scope a = Once \<and>
    unexpired (clk 0) a"
proof -
  from ConsumeOnce_success [OF assms] obtain a where a: "fetch IO c (clk 0) i s = (Inr a, s)"
    "Ap_State a = Approved" "Ap_Scope a = Once" by blast
  from fetch_stored [OF assms(1) a(1)] obtain v b where b: "readable s = Some v" "map_of v (TrimSpace i) = Some b"
    "a = markExpired (clk 0) (cloneApproval b)" by blast
  from a(2) b(3) have u: "unexpired (clk 0) b" "Ap_State b = Approved" by (simp_all add: markExpired_Approved)
  then have "a = cloneApproval b" unfolding b(3) by (simp add: markExpired_keeps)
  with a(3) b u show ?thesis by auto
qed

lemma ConsumeOnce_leaves:
  assumes "wf s" "ConsumeOnce IO clk c i d s = (Inr a', s')" "readable s' = Some v'"
  shows "\<exists>a. map_of v' (TrimSpace i) = Some a \<and> Ap_State a = Revoked"
proof -
  from ConsumeOnce_success [OF assms(1,2)] obtain a where a: "Ap_Id a = TrimSpace i"
    "saveDecided IO c (decided Revoked (clk 1) d a) s = (Inr a', s')" by blast
  from saveDecided_view [OF assms(1) a(2) assms(3)] a(1) show ?thesis by simp
qed

text \<open>After a consumption, whatever runs: no second one, and no check names the approval.\<close>

lemma consumed_stays:
  assumes "wf s" "ConsumeOnce IO clk c i d s = (Inr a', s1)" "moves G s1 s2" "TrimSpace i \<notin> G"
    "readable s2 = Some v"
  shows "\<exists>a. map_of v (TrimSpace i) = Some a \<and> Ap_State a = Revoked"
proof -
  from assms(3,5) obtain v1 where v1: "readable s1 = Some v1" "queue_steps G v1 v" by (auto simp: moves_def)
  from ConsumeOnce_leaves [OF assms(1,2) v1(1)] obtain a where
    a: "map_of v1 (TrimSpace i) = Some a" "Ap_State a = Revoked" by blast
  then have "\<not> live a" by (simp add: live_def)
  from final_steps [OF v1(2) a(1) this assms(4)] a(2) show ?thesis by blast
qed

text \<open>A request that a live approval answers is given that approval, and adds none.\<close>

lemma findExisting_some:
  assumes "wf s" "findExisting IO c now n s = (Inr r, s')" "readable s = Some v" "one_live v"
    and a: "map_of v i = Some a" "sameRequest n a" "unexpired now a"
  shows "r = Some (cloneApproval a)"
proof -
  from assms(2) obtain as where as: "listLocked IO c now s = (Inr as, s')"
    and r: "r = map_option cloneApproval (find (sameRequest n) as)"
    by (auto simp: findExisting_def split: prod.splits sum.splits)
  from listLocked_items [OF assms(1) as] assms(3) have m:
    "\<And>x. x \<in> set as \<longleftrightarrow> (\<exists>i a. map_of v i = Some a \<and> Ap_Id a = i \<and> x = markExpired now (cloneApproval a))"
    by auto
  from view_keys [OF assms(1,3)] a(1) have "Ap_Id a = i" by blast
  with m a have "cloneApproval a \<in> set as" using markExpired_keeps [of now "cloneApproval a"] by (metis unexpired_clone)
  then obtain x where x: "find (sameRequest n) as = Some x" "x \<in> set as" "sameRequest n x"
    using a(2) by (cases "find (sameRequest n) as") (auto simp: find_None_iff find_Some_iff)
  from x(2) m obtain j b where b: "map_of v j = Some b" "x = markExpired now (cloneApproval b)" by blast
  from x(3) have "live x" by (simp add: sameRequest_origin)
  with b(2) have xb: "x = cloneApproval b" using markExpired_live by metis
  from x(3) a(2) xb have "live b" "live a" "origin b = origin a" by (simp_all add: sameRequest_origin)
  with assms(4) a(1) b(1) have "j = i" unfolding one_live_def by blast
  with b(1) a(1) xb x(1) r show ?thesis by simp
qed

lemma expireAll_keys:
  assumes "wf s" "listLocked IO c now s = (r, s')" "readable s' = Some v'"
  shows "\<exists>v. readable s = Some v \<and> queue_steps {} v v'"
  using listLocked_moves [OF assms(1), of "{}" c now] assms(2,3) by (simp add: moves_def)

lemma QueueRequest_existing:
  assumes "wf s" "readable s = Some v" "one_live v" "normalizeRequest cfg (clk 0) req = Inr n"
    and a: "map_of v i = Some a" "sameRequest n a" "unexpired (clk 1) a"
    and r: "QueueRequest IO cfg gen clk c req s = (r, s')"
  shows "r \<in> range Inl \<or> r = Inr (cloneApproval a, False)" and "moves {} s s'"
proof -
  obtain f s1 where f: "findExisting IO c (clk 1) n s = (f, s1)" by (metis surj_pair)
  have "f \<in> range Inl \<or> f = Inr (Some (cloneApproval a))"
    using findExisting_some [OF assms(1) _ assms(2,3) a] f by (cases f) auto
  with f assms(4) r have "(r \<in> range Inl \<or> r = Inr (cloneApproval a, False)) \<and> s' = s1"
    by (auto simp: QueueRequest_def)
  with findExisting_moves [OF assms(1), of "{}" c "clk 1" n] f
  show "r \<in> range Inl \<or> r = Inr (cloneApproval a, False)" "moves {} s s'" by auto
qed

text \<open>A decision needs a pending approval.\<close>

lemma decide_from_pending:
  assumes "wf s" "decide IO clk c i st d s = (Inr a', s')"
  shows "\<exists>v a. readable s = Some v \<and> map_of v (TrimSpace i) = Some a \<and> Ap_State a = Pending \<and> unexpired (clk 0) a"
proof -
  from assms(2) obtain a s1 where f: "fetch IO c (clk 0) i s = (Inr a, s1)" and p: "Ap_State a = Pending"
    by (auto simp: decide_def split: prod.splits sum.splits if_splits)
  from fetch_stored [OF assms(1) f] obtain v b where b: "readable s = Some v" "map_of v (TrimSpace i) = Some b"
    "a = markExpired (clk 0) (cloneApproval b)" by blast
  from p b(3) have "Ap_State b = Pending \<and> unexpired (clk 0) b"
    by (auto simp: markExpired_def unexpired_def split: option.splits if_splits)
  with b show ?thesis by blast
qed

text \<open>Looking at the queue leaves alone what has not expired, also when a save fails on the way.\<close>

definition keeps :: "time \<Rightarrow> 's \<Rightarrow> 's \<Rightarrow> bool" where
  "keeps now s s' \<longleftrightarrow> (\<forall>v'. readable s' = Some v' \<longrightarrow> (\<exists>v. readable s = Some v \<and>
     (\<forall>k a. map_of v k = Some a \<and> unexpired now a \<longrightarrow> (\<exists>b. map_of v' k = Some b \<and> cloneApproval b = cloneApproval a))))"

lemma keeps_refl: "keeps now s s"
  by (auto simp: keeps_def)

lemma keeps_trans: "keeps now s t \<Longrightarrow> keeps now t u \<Longrightarrow> keeps now s u"
  unfolding keeps_def by (metis unexpired_clone)

lemma expire_keeps:
  assumes "wf s" "held s a"
  shows "keeps now s (snd (expireIfNeeded IO c now a s))"
proof (cases "markExpired now a = a")
  case True
  then show ?thesis by (simp add: expireIfNeeded_eq keeps_refl)
next
  case False
  then have u: "\<not> unexpired now a" using markExpired_keeps by blast
  have "keeps now s (snd (save c (markExpired now a) s))"
    unfolding keeps_def
  proof (intro allI impI)
    fix v'
    assume "readable (snd (save c (markExpired now a) s)) = Some v'"
    from save_view [OF assms(1) this] obtain v where v: "readable s = Some v"
      "v' = v \<or> v' = AList.update (Ap_Id a) (cloneApproval (markExpired now a)) v" by auto
    from assms(2) v(1) u have "map_of v (Ap_Id a) = Some b \<Longrightarrow> \<not> unexpired now b" for b
      by (auto simp: held_def)
    with v show "\<exists>v. readable s = Some v \<and> (\<forall>k a. map_of v k = Some a \<and> unexpired now a \<longrightarrow>
        (\<exists>b. map_of v' k = Some b \<and> cloneApproval b = cloneApproval a))"
      by (intro exI [of _ v]) auto
  qed
  with False show ?thesis by (auto simp: expireIfNeeded_eq split: prod.split option.split)
qed

lemma expireAll_keeps:
  "wf s \<Longrightarrow> (\<forall>a \<in> set as. held s a) \<Longrightarrow> distinct (map Ap_Id as) \<Longrightarrow> keeps now s (snd (expireAll IO c now as s))"
proof (induction as arbitrary: s)
  case Nil
  then show ?case by (simp add: keeps_refl)
next
  case (Cons a as)
  obtain r s1 where e: "expireIfNeeded IO c now a s = (r, s1)" by (metis surj_pair)
  from Cons.prems expire_moves [of s a "{}" c now] expire_keeps [of s a now c] e
  have m: "wf s1" "keeps now s s1" by (simp_all add: moves_def)
  from Cons.prems(2,3) have h: "\<forall>b \<in> set as. held s b \<and> Ap_Id b \<noteq> Ap_Id a"
    by (simp, metis image_eqI)
  with expire_held [OF Cons.prems(1), of _ a c now] e have h: "\<forall>b \<in> set as. held s1 b" by simp
  from Cons.IH [OF m(1) h] Cons.prems(3) have "keeps now s1 (snd (expireAll IO c now as s1))" by simp
  from keeps_trans [OF m(2) this] m(2) e show ?case by (auto split: sum.split prod.split)
qed

lemma findExisting_keeps:
  assumes "wf s"
  shows "keeps now s (snd (findExisting IO c now n s))"
proof (cases "list c s")
  case (Inl e)
  with assms show ?thesis by (simp add: findExisting_def listLocked_def keeps_refl)
next
  case (Inr as)
  from list_held [OF assms Inr] have "\<forall>a \<in> set as. held s a" "distinct (map Ap_Id as)" by auto
  from expireAll_keeps [OF assms this, of now c] Inr show ?thesis
    by (auto simp: findExisting_def listLocked_def split: prod.split sum.split)
qed

lemma fetch_keeps:
  assumes "wf s"
  shows "keeps now s (snd (fetch IO c now i s))"
proof (cases "\<exists>a. get c (TrimSpace i) s = Inr (Some a)")
  case False
  then show ?thesis by (auto simp: fetch_def keeps_refl split: sum.split option.split)
next
  case True
  then obtain a where a: "get c (TrimSpace i) s = Inr (Some a)" by blast
  with get_held [OF assms] have "held s a" by blast
  from expire_keeps [OF assms this] a show ?thesis by (simp add: fetch_def)
qed

text \<open>A decision on an approved approval is refused and changes nothing.\<close>

lemma decide_approved:
  assumes "wf s" "readable s = Some v" "map_of v (TrimSpace i) = Some a" "Ap_State a = Approved"
  shows "fst (decide IO clk c i st d s) \<in> range Inl" and "keeps (clk 0) s (snd (decide IO clk c i st d s))"
proof -
  obtain r s1 where f: "fetch IO c (clk 0) i s = (r, s1)" by (metis surj_pair)
  have p: "Ap_State x \<noteq> Pending" if "r = Inr x" for x
  proof -
    from fetch_stored [OF assms(1) f [unfolded that]] assms(2,3)
    have "x = markExpired (clk 0) (cloneApproval a)" by auto
    with assms(4) show ?thesis by (auto simp: markExpired_def split: option.split)
  qed
  with f show "fst (decide IO clk c i st d s) \<in> range Inl"
    by (cases r) (auto simp: decide_def)
  from p f fetch_keeps [OF assms(1), of "clk 0" c i] show "keeps (clk 0) s (snd (decide IO clk c i st d s))"
    by (cases r) (auto simp: decide_def keeps_refl)
qed

text \<open>A blocked verdict for a request that an approved approval answers.\<close>

lemma IngestDCG_approved:
  assumes "wf s" "readable s = Some v" "one_live v" "all_ok v"
    and n: "normalizeRequest cfg (clk 0) (dcgRequestToApprovalRequest cfg req) = Inr n"
    and a: "map_of v i = Some a" "Ap_State a = Approved" "sameRequest n a" "unexpired (clk 1) a" "unexpired (clk 2) a"
    and d: "Ent_Decision (Dcg_Entry req) = DecisionBlocked"
    and r: "IngestDCG IO cfg gen clk c req s = (r, s')"
  shows "r \<in> range Inl" and "\<forall>v'. readable s' = Some v' \<longrightarrow> (\<exists>b. map_of v' i = Some b \<and> cloneApproval b = cloneApproval a)"
proof -
  obtain q s1 where q: "QueueRequest IO cfg gen clk c (dcgRequestToApprovalRequest cfg req) s = (q, s1)"
    by (metis surj_pair)
  from QueueRequest_existing [OF assms(1-3) n a(1,3,4) q]
  have q1: "q \<in> range Inl \<or> q = Inr (cloneApproval a, False)" and m: "wf s1" by (simp_all add: moves_def)
  obtain f s2 where f: "findExisting IO c (clk 1) n s = (f, s2)" by (metis surj_pair)
  have "f \<in> range Inl \<or> f = Inr (Some (cloneApproval a))"
    using findExisting_some [OF assms(1) _ assms(2,3) a(1,3,4)] f by (cases f) auto
  with f n q have "s2 = s1" by (auto simp: QueueRequest_def)
  with findExisting_keeps [OF assms(1), of "clk 1" c n] f have k: "keeps (clk 1) s s1" by simp
  have ki: "\<exists>b. map_of v1 i = Some b \<and> cloneApproval b = cloneApproval a" if "readable s1 = Some v1" for v1
  proof -
    from k that assms(2) have "\<forall>k a. map_of v k = Some a \<and> unexpired (clk 1) a \<longrightarrow>
        (\<exists>b. map_of v1 k = Some b \<and> cloneApproval b = cloneApproval a)"
      unfolding keeps_def by (metis option.inject)
    with a(1,4) show ?thesis by blast
  qed
  have "r \<in> range Inl \<and> (\<forall>v'. readable s' = Some v' \<longrightarrow> (\<exists>b. map_of v' i = Some b \<and> cloneApproval b = cloneApproval a))"
  proof (cases q)
    case (Inl e)
    with q r d ki show ?thesis by (auto simp: IngestDCG_def)
  next
    case (Inr y)
    with q1 have q2: "q = Inr (cloneApproval a, False)" by auto
    from view_keys [OF assms(1,2)] a(1) assms(4) have i: "Ap_Id a = i" "TrimSpace i = i"
      by (auto simp: all_ok_def appr_ok_def)
    obtain x t where x: "decide IO (\<lambda>n. clk (n + 2)) c i Denied dcgBlockDecision s1 = (x, t)" by (metis surj_pair)
    have "x \<in> range Inl \<and> (\<forall>v'. readable t = Some v' \<longrightarrow> (\<exists>b. map_of v' i = Some b \<and> cloneApproval b = cloneApproval a))"
    proof (cases "readable s1")
      case None
      from decide_moves [OF m, of "{}" "\<lambda>n. clk (n + 2)" c i Denied dcgBlockDecision] x None
      have "readable t = None" by (auto simp: moves_def)
      moreover from decide_from_pending [OF m, of "\<lambda>n. clk (n + 2)" c i Denied dcgBlockDecision] x None
      have "x \<in> range Inl" by (cases x) auto
      ultimately show ?thesis by simp
    next
      case (Some v1)
      from ki [OF Some] obtain b where b: "map_of v1 i = Some b" "cloneApproval b = cloneApproval a" by blast
      from b(2) a(2) have ba: "Ap_State b = Approved" by (metis clone_fields(2))
      from b(2) a(5) have bu: "unexpired (clk 2) b" by (metis unexpired_clone)
      from decide_approved [OF m Some _ ba, of i "\<lambda>n. clk (n + 2)" c Denied dcgBlockDecision] b(1) i(2) x
      have "x \<in> range Inl" "keeps (clk 2) s1 t" by (simp_all add: numeral_2_eq_2)
      moreover have "\<exists>b. map_of v' i = Some b \<and> cloneApproval b = cloneApproval a" if "readable t = Some v'" for v'
      proof -
        from calculation(2) that Some have "\<forall>k a. map_of v1 k = Some a \<and> unexpired (clk 2) a \<longrightarrow>
            (\<exists>b. map_of v' k = Some b \<and> cloneApproval b = cloneApproval a)"
          unfolding keeps_def by (metis option.inject)
        with b bu show ?thesis by metis
      qed
      ultimately show ?thesis by blast
    qed
    with q q2 r d i(1) x show ?thesis by (auto simp: IngestDCG_def QueueDeny_def)
  qed
  then show "r \<in> range Inl" "\<forall>v'. readable s' = Some v' \<longrightarrow> (\<exists>b. map_of v' i = Some b \<and> cloneApproval b = cloneApproval a)"
    by blast+
qed

end

end
