(* ===== verification/ApprovalProps.thy ===== *)
theory ApprovalProps
  imports ApprovalResults
begin

text \<open>
  What the approval queue promises, on both of its stores: the theorems about whole runs, about
  checks and single use, about idempotent requests, and about the log file. The lemmas are proved
  over the store interface and reach the stores through its two interpretations.
\<close>

definition log_io :: "(Approval \<Rightarrow> bool) \<Rightarrow> ApprFile StoreIO" where
  "log_io fits = \<lparr>io_save = AFile_Save, io_get = AFile_Get fits, io_list = AFile_List fits\<rparr>"

definition mem_io :: "MemStore StoreIO" where
  "mem_io = \<lparr>io_save = Mem_Save, io_get = Mem_Get, io_list = Mem_List\<rparr>"

text \<open>The digest has no blanks around it (it is hexadecimal), so a derived key is its own trim.\<close>

definition digest_trimmed :: "QueueCfg \<Rightarrow> bool" where
  "digest_trimmed cfg \<longleftrightarrow> (\<forall>x. TrimSpace (q_sha256Hex cfg x) = q_sha256Hex cfg x)"

lemma log_run:
  assumes "digest_trimmed cfg" "file_view fits (appr_run (log_io fits) cfg sprint gen xs s) = Some v'"
  shows "\<exists>v. file_view fits s = Some v \<and> queue_steps (generated gen) v v'"
  using file_approvals.run_moves [where s = s and cfg = cfg and gen = gen and fits = fits and sprint = sprint and xs = xs] assms
  by (simp add: digest_trimmed_def log_io_def file_approvals.moves_def)

lemma mem_run:
  assumes "digest_trimmed cfg" "mem_wf s"
  shows "mem_wf (appr_run mem_io cfg sprint gen xs s) \<and>
    queue_steps (generated gen) (ms_items s) (ms_items (appr_run mem_io cfg sprint gen xs s))"
  using memory_approvals.run_moves [where s = s and cfg = cfg and gen = gen and sprint = sprint and xs = xs] assms
  by (simp add: digest_trimmed_def mem_io_def memory_approvals.moves_def)

section \<open>Whole runs\<close>

text \<open>
  C12. The queue refines its life cycle: any sequence of its operations, with any contexts, clocks
  and write faults, takes the approvals that can be read from the log file, or that the memory
  store holds, along steps of the abstract queue: an approval is only added pending for a request no
  live approval answers, and then only decided, rescoped with its decision, expired, extended or
  consumed.
\<close>

theorem approvals_refine_lifecycle:
  assumes "digest_trimmed cfg" "mem_wf m"
    and "file_view fits (appr_run (log_io fits) cfg sprint gen xs s) = Some v'"
  shows "(\<exists>v. file_view fits s = Some v \<and> queue_steps (generated gen) v v') \<and>
    queue_steps (generated gen) (ms_items m) (ms_items (appr_run mem_io cfg sprint gen xs m))"
  using log_run [OF assms(1,3)] mem_run [OF assms(1,2)] by simp

text \<open>
  Denied, revoked and expired are final: such an approval is still there, unchanged, after any
  operations with any faults, as long as the file can be read and its id is not generated again.
\<close>

theorem closed_approval_final:
  assumes "digest_trimmed cfg" "\<not> live a" "i \<notin> generated gen"
    and "file_view fits s = Some v" "map_of v i = Some a"
    and "file_view fits (appr_run (log_io fits) cfg sprint gen xs s) = Some v'"
  shows "map_of v' i = Some a"
  using log_run [OF assms(1,6)] final_steps assms(2-5) by auto

text \<open>
  C13. Every approval the queue keeps is well-formed, on either store: its enums are values of the
  schema, it has an expiry and a nonblank trimmed id, a pending one has no decision, and an approved,
  denied or revoked one has the time and the legitimate actor of its decision.
\<close>

theorem approvals_well_formed:
  assumes "digest_trimmed cfg"
    and "file_view fits (appr_run (log_io fits) cfg sprint gen xs (empty_file\<lparr>lf_faults := fs\<rparr>)) = Some v"
  shows "all_ok v \<and> all_ok (ms_items (appr_run mem_io cfg sprint gen xs NewMemoryStore))"
proof -
  let ?s = "empty_file\<lparr>lf_faults := fs\<rparr> :: ApprFile"
  have e: "all_ok [] \<and> one_live []" by (simp add: all_ok_def one_live_def)
  have "file_view fits ?s = Some []" by (simp add: view_scan)
  with log_run [OF assms] have "queue_steps (generated gen) [] v" by simp
  from steps_keep [OF this e] have 1: "all_ok v" by blast
  have "mem_wf NewMemoryStore" by (simp add: mem_wf_def NewMemoryStore_def)
  from mem_run [OF assms(1) this, of sprint gen xs]
  have "queue_steps (generated gen) [] (ms_items (appr_run mem_io cfg sprint gen xs NewMemoryStore))"
    by (simp add: NewMemoryStore_def)
  from steps_keep [OF this e] 1 show ?thesis by blast
qed

text \<open>
  C14. At most one live approval answers a request: two stored approvals that are neither denied,
  revoked nor expired differ in their source, their policy rule or their idempotency key.
\<close>

theorem one_live_approval_per_request:
  assumes "digest_trimmed cfg" "file_view fits s = Some v0" "all_ok v0" "one_live v0"
    and "file_view fits (appr_run (log_io fits) cfg sprint gen xs s) = Some v"
    and "map_of v i = Some a" "map_of v j = Some b" "live a" "live b"
    and "Ap_Source a = Ap_Source b" "stringValue (Ap_PolicyRule a) = stringValue (Ap_PolicyRule b)"
    and "commandIdempotencyKey (Ap_RequestedAction a) = commandIdempotencyKey (Ap_RequestedAction b)"
  shows "i = j"
proof -
  from log_run [OF assms(1,5)] assms(2) have "queue_steps (generated gen) v0 v" by auto
  from steps_keep [OF this] assms(3,4) have o: "one_live v" by blast
  from assms(10-12) have "origin a = origin b" by (simp add: origin_def)
  with o assms(6-9) show ?thesis unfolding one_live_def by blast
qed

section \<open>Checks and single use\<close>

text \<open>
  C15. A check allows a command exactly when some stored approval is approved, not past its expiry at
  the time of the check, and covers the command; the approval it names is one of these, with its
  scope.
\<close>

theorem check_sound_complete:
  assumes "QueueCheck (log_io fits) cfg clk c req s = (Inr r, s')"
  shows "\<exists>v. file_view fits s = Some v \<and>
    (Res_Allowed r \<longleftrightarrow> (\<exists>i a. map_of v i = Some a \<and> Ap_State a = Approved \<and> unexpired (clk 0) a \<and> approvalCovers cfg a req)) \<and>
    (Res_Allowed r \<longrightarrow> (\<exists>a. map_of v (Res_ApprovalID r) = Some a \<and> Ap_State a = Approved \<and> unexpired (clk 0) a \<and>
       approvalCovers cfg a req \<and> Res_Scope r = Ap_Scope a))"
  using file_approvals.QueueCheck_result [where s = s and fits = fits and cfg = cfg and clk = clk and c = c and req = req and r = r and s' = s'] assms
  by (simp add: log_io_def usable_def)

text \<open>
  C16. A single-use approval works once: it is consumed only when stored approved, unexpired and of
  scope once; after a successful consumption, whatever operations and faults follow, it can not be
  consumed again and no check names it.
\<close>

theorem consumed_only_once:
  assumes "digest_trimmed cfg" "ConsumeOnce (log_io fits) clk c i d s = (Inr a, s1)" "TrimSpace i \<notin> generated gen"
  shows "(\<exists>v b. file_view fits s = Some v \<and> map_of v (TrimSpace i) = Some b \<and> Ap_State b = Approved \<and>
      Ap_Scope b = Once \<and> unexpired (clk 0) b) \<and>
    fst (ConsumeOnce (log_io fits) clk' c' i d' (appr_run (log_io fits) cfg sprint gen xs s1)) \<in> range Inl \<and>
    \<not> (\<exists>r s3. QueueCheck (log_io fits) cfg clk' c' req (appr_run (log_io fits) cfg sprint gen xs s1) = (Inr r, s3) \<and>
      Res_Allowed r \<and> Res_ApprovalID r = TrimSpace i)"
proof -
  let ?io = "\<lparr>io_save = AFile_Save, io_get = AFile_Get fits, io_list = AFile_List fits\<rparr>"
  let ?s = "appr_run ?io cfg sprint gen xs s1"
  note c = assms(2) [unfolded log_io_def]
  have m: "file_approvals.moves fits (generated gen) s1 ?s"
    by (rule file_approvals.run_moves) (use assms(1) in \<open>simp_all add: digest_trimmed_def\<close>)
  have gone: "\<exists>b. map_of v (TrimSpace i) = Some b \<and> Ap_State b = Revoked" if "file_view fits ?s = Some v" for v
    by (rule file_approvals.consumed_stays [OF TrueI c m assms(3) that])
  have 1: "fst (ConsumeOnce ?io clk' c' i d' ?s) \<in> range Inl"
  proof (cases "ConsumeOnce ?io clk' c' i d' ?s")
    case (Pair x t)
    show ?thesis
    proof (cases x)
      case (Inr b)
      from file_approvals.ConsumeOnce_from [OF TrueI Pair [unfolded Inr]] gone show ?thesis by force
    qed (simp add: Pair)
  qed
  have 2: "\<not> (Res_Allowed r \<and> Res_ApprovalID r = TrimSpace i)"
    if "QueueCheck ?io cfg clk' c' req ?s = (Inr r, s3)" for r s3
    using file_approvals.QueueCheck_result [OF TrueI that] gone by (force simp: usable_def)
  from file_approvals.ConsumeOnce_from [OF TrueI c] 1 2 show ?thesis unfolding log_io_def by blast
qed

section \<open>Requests\<close>

text \<open>
  A request is idempotent: when an unexpired live approval has its source, policy rule and key,
  the request returns that approval as not new and the store has the same ids as before.
\<close>

theorem request_returns_existing:
  assumes "mem_wf m" "one_live (ms_items m)" "normalizeRequest cfg (clk 0) req = Inr n"
    and "map_of (ms_items m) i = Some a" "sameRequest n a" "unexpired (clk 1) a"
    and "QueueRequest mem_io cfg gen clk c req m = (Inr (b, new), m')"
  shows "b = cloneApproval a \<and> \<not> new \<and> dom (map_of (ms_items m')) = dom (map_of (ms_items m))"
proof -
  note e = memory_approvals.QueueRequest_existing [OF assms(1) refl assms(2-6) assms(7) [unfolded mem_io_def]]
  from e(1) have "b = cloneApproval a \<and> \<not> new" by auto
  moreover from e(2) have "queue_steps {} (ms_items m) (ms_items m')" by (simp add: memory_approvals.moves_def)
  ultimately show ?thesis using closed_steps_dom by blast
qed

text \<open>
  A verdict of the command guard that blocks a command does not take back an approval of it: when
  an approved approval answers the verdict's request, ingesting the verdict fails, the approval stays
  approved and covers the same commands.
\<close>

theorem blocked_verdict_keeps_approval:
  assumes "mem_wf m" "one_live (ms_items m)" "all_ok (ms_items m)"
    and "normalizeRequest cfg (clk 0) (dcgRequestToApprovalRequest cfg req) = Inr n"
    and "map_of (ms_items m) i = Some a" "Ap_State a = Approved" "sameRequest n a"
    and "unexpired (clk 1) a" "unexpired (clk 2) a" "Ent_Decision (Dcg_Entry req) = DecisionBlocked"
    and "IngestDCG mem_io cfg gen clk c req m = (r, m')"
  shows "r \<in> range Inl \<and> (\<exists>b. map_of (ms_items m') i = Some b \<and> cloneApproval b = cloneApproval a \<and>
    (\<forall>chk. approvalCovers cfg b chk = approvalCovers cfg a chk))"
proof -
  note e = memory_approvals.IngestDCG_approved [OF assms(1) refl assms(2-10) assms(11) [unfolded mem_io_def]]
  from e(2) obtain b where "map_of (ms_items m') i = Some b" "cloneApproval b = cloneApproval a" by auto
  moreover from this(2) have "approvalCovers cfg b chk = approvalCovers cfg a chk" for chk
    by (metis approvalCovers_clone)
  ultimately show ?thesis using e(1) by blast
qed

section \<open>The log file\<close>

definition save_all :: "(ctx \<Rightarrow> Approval \<Rightarrow> 's \<Rightarrow> appr_err option \<times> 's) \<Rightarrow> Approval list \<Rightarrow> 's \<Rightarrow> 's" where
  "save_all save as s = fold (\<lambda>a s. snd (save None a s)) as s"

definition same_store :: "(Approval \<Rightarrow> bool) \<Rightarrow> ApprFile \<Rightarrow> MemStore \<Rightarrow> bool" where
  "same_store fits s m \<longleftrightarrow> lf_tail s = NoTail \<and> lf_faults s = [] \<and>
     scan_log fits replayApproval s [] = Inr (ms_items m) \<and> mem_wf m"

lemma same_store_save:
  assumes "same_store fits s m" "TrimSpace (Ap_Id a) \<noteq> []" "fits (cloneApproval a)"
  shows "same_store fits (snd (AFile_Save None a s)) (snd (Mem_Save None a m))"
proof -
  have "TrimSpace [] = []" by code_simp
  with assms(2) have ne: "Ap_Id a \<noteq> []" by auto
  from assms(1) have s: "lf_tail s = NoTail" "lf_faults s = []"
    "scan_lines fits replayApproval (lf_lines s) [] = Inr (ms_items m)"
    by (auto simp: same_store_def scan_log_def tail_lines_def)
  from assms(1) have w: "mem_wf (snd (Mem_Save None a m))"
    using memory_approvals.save_wf by (simp add: same_store_def)
  with s ne assms(2,3) show ?thesis
    by (simp add: same_store_def AFile_Save_def append_record_ok scan_log_def tail_lines_def scan_append
        replayApproval_def Mem_Save_def)
qed

lemma same_store_saves:
  "same_store fits s m \<Longrightarrow> \<forall>a \<in> set as. TrimSpace (Ap_Id a) \<noteq> [] \<and> fits (cloneApproval a) \<Longrightarrow>
   same_store fits (save_all AFile_Save as s) (save_all Mem_Save as m)"
  by (induction as arbitrary: s m) (auto simp: save_all_def intro: same_store_save)

text \<open>
  C17. The log file is the memory store as long as nothing goes wrong: after any sequence of saves without
  write faults, of records with an id that is not blank and a JSON line that the scanner takes and the
  decoder reads back (\<open>fits\<close>), reading an approval or listing them by replaying the log gives exactly
  what the memory store gives. (One save outside these bounds blocks the log for good, see
  \<open>unreadable_line_blocks_queue\<close>.)
\<close>

theorem log_replay_is_memory:
  assumes "\<forall>a \<in> set as. TrimSpace (Ap_Id a) \<noteq> [] \<and> fits (cloneApproval a)"
  shows "AFile_Get fits None i (save_all AFile_Save as empty_file) = Mem_Get None i (save_all Mem_Save as NewMemoryStore) \<and>
    AFile_List fits None (save_all AFile_Save as empty_file) = Mem_List None (save_all Mem_Save as NewMemoryStore)"
proof -
  have "same_store fits empty_file NewMemoryStore"
    by (simp add: same_store_def NewMemoryStore_def mem_wf_def) (simp add: empty_file_def)
  from same_store_saves [OF this assms]
  have e: "loadUnlocked fits (save_all AFile_Save as empty_file) = Inr (ms_items (save_all Mem_Save as NewMemoryStore))"
    "mem_wf (save_all Mem_Save as NewMemoryStore)" by (simp_all add: same_store_def load_scan)
  from map_filter_keys [of "ms_items (save_all Mem_Save as NewMemoryStore)"] e(2) have "Mem_List None (save_all Mem_Save as NewMemoryStore) =
      Inr (map (cloneApproval \<circ> snd) (ms_items (save_all Mem_Save as NewMemoryStore)))"
    by (auto simp: Mem_List_def mem_wf_def)
  with e(1) show ?thesis by (simp add: AFile_Get_def AFile_List_def Mem_Get_def)
qed

text \<open>
  A line the log can not read back is fatal: when a record longer than a line is saved, which
  reports success, or a write is cut off in the middle, then whatever operations follow, every get,
  listing and check fails for good.
\<close>

theorem unreadable_line_blocks_queue:
  assumes "digest_trimmed cfg" "AFile_Save None a s = (r, s1)"
    and "r = None \<and> \<not> fits (cloneApproval a) \<or> Ap_Id a \<noteq> [] \<and> next_append_fault s = Some (FaultTorn msg)"
  shows "fst (QueueGet (log_io fits) clk c i (appr_run (log_io fits) cfg sprint gen xs s1)) \<in> range Inl \<and>
    fst (QueueList (log_io fits) clk c f (appr_run (log_io fits) cfg sprint gen xs s1)) \<in> range Inl \<and>
    fst (QueueCheck (log_io fits) cfg clk c req (appr_run (log_io fits) cfg sprint gen xs s1)) \<in> range Inl"
proof -
  let ?s = "appr_run (log_io fits) cfg sprint gen xs s1"
  have "file_view fits s1 \<noteq> Some v" for v
  proof (cases "r = None")
    case True
    with assms(2) have ok: "fst (append_record (cloneApproval a) s) = None" "s1 = snd (append_record (cloneApproval a) s)"
      and "Ap_Id a \<noteq> []" by (auto simp: AFile_Save_def split: if_splits prod.splits option.splits)
    with True assms(3) have "\<not> fits (cloneApproval a)"
      by (auto simp: append_record_def Let_def)
    moreover from ok have "s1 = append_line (cloneApproval a) (s\<lparr>lf_faults := tl (lf_faults s)\<rparr>)"
      by (auto simp: append_record_def Let_def split: option.splits append_fault.splits)
    ultimately show ?thesis by (simp add: view_scan too_long_unreadable)
  next
    case False
    with assms(3) have "Ap_Id a \<noteq> []" "next_append_fault s = Some (FaultTorn msg)" by auto
    with assms(2) have "s1 = torn_tail None (s\<lparr>lf_faults := tl (lf_faults s)\<rparr>)"
      by (simp add: AFile_Save_def append_record_def Let_def)
    then show ?thesis by (simp add: view_scan torn_unreadable)
  qed
  then have "file_view fits s1 = None" by (cases "file_view fits s1") auto
  with log_run [OF assms(1), of fits sprint gen xs s1] have "file_view fits ?s = None"
    by (cases "file_view fits ?s") auto
  then obtain e where "loadUnlocked fits ?s = Inl e" by (auto simp: file_view_def split: sum.splits)
  then show ?thesis
    by (auto simp: log_io_def QueueGet_def QueueList_def QueueCheck_def listLocked_def AFile_Get_def AFile_List_def
        split: option.split)
qed

end
