(* ===== verification/ApprovalWitness.thy ===== *)
theory ApprovalWitness
  imports ApprovalProps
begin

text \<open>
  The theorems of the approval queue at concrete inputs: a request for one command, its approval
  and its consumption, on the log file and on the memory store.
\<close>

definition w_cfg :: QueueCfg where
  "w_cfg = NewQueue 0 (\<lambda>_. ''{}'') (\<lambda>_. ''00ff'')"

definition w_actor :: Actor where
  "w_actor = \<lparr>Actor_Kind = ActorKindUser, Actor_Id = Some ''alice'', Actor_DisplayName = None\<rparr>"

definition w_cmd :: CommandSpec where
  "w_cmd = \<lparr>Cmd_Args = None, Cmd_IdempotencyKey = None, Cmd_Kind = ''git.push'', Cmd_Postconditions = None,
     Cmd_Preconditions = None, Cmd_Target = None\<rparr>"

definition w_req :: ApprRequest where
  "w_req = \<lparr>Req_Source = SourceOther [], Req_PolicyRule = ''force-push'', Req_Action = w_cmd, Req_Actor = w_actor,
     Req_Reason = [], Req_EvidenceRefs = [], Req_ProjectID = ''p1'', Req_BeadID = [], Req_AgentID = [],
     Req_SwarmID = [], Req_Scope = ScopeOther [], Req_RiskClass = RiskOther [], Req_ExpiresAt = Some 1000,
     Req_RequestedAt = 0, Req_IdempotencyKey = ''k1''\<rparr>"

definition w_dec :: ApprovalDecisionRequest where
  "w_dec = \<lparr>ADR_DecisionActor = w_actor, ADR_Note = None, ADR_Scope = None\<rparr>"

definition w_gen :: "string \<Rightarrow> ApprRequest \<Rightarrow> string + string" where
  "w_gen i n = Inr i"

definition w_gens :: "string \<Rightarrow> nat \<Rightarrow> ApprRequest \<Rightarrow> string + string" where
  "w_gens i k = w_gen i"

definition w_print :: "json \<Rightarrow> string" where
  "w_print j = []"

definition w_at :: "time \<Rightarrow> clock" where
  "w_at t n = t"

definition w_chk :: CheckRequest where
  "w_chk = \<lparr>Chk_Action = w_cmd\<lparr>Cmd_IdempotencyKey := Some ''k1''\<rparr>, Chk_ProjectID = ''p1'', Chk_BeadID = [],
     Chk_AgentID = [], Chk_SwarmID = []\<rparr>"

definition w_ops :: "(clock \<times> ctx \<times> appr_op) list" where
  "w_ops = [(w_at 100, None, OpRequest w_req), (w_at 200, None, OpDecide ''ap-1'' Approved w_dec)]"

definition w_log :: ApprFile where
  "w_log = appr_run (log_io (\<lambda>_. True)) w_cfg w_print (w_gens ''ap-1'') w_ops empty_file"

definition w_mem :: MemStore where
  "w_mem = appr_run mem_io w_cfg w_print (w_gens ''ap-1'') w_ops NewMemoryStore"

lemma w_digest: "digest_trimmed w_cfg"
proof -
  have "TrimSpace ''00ff'' = ''00ff''" by code_simp
  then show ?thesis by (simp add: digest_trimmed_def w_cfg_def NewQueue_def)
qed

lemma w_generated: "TrimSpace i = i \<Longrightarrow> generated (w_gens i) = {i}"
  by (auto simp: generated_def w_gens_def w_gen_def)

lemma w_trim: "TrimSpace ''ap-1'' = ''ap-1'' \<and> TrimSpace ''ap-2'' = ''ap-2''"
  by code_simp

lemma w_log_view:
  "map_option (map (\<lambda>(i, a). (i, Ap_State a, Ap_Scope a, Ap_ExpiresAt a))) (file_view (\<lambda>_. True) w_log) =
     Some [(''ap-1'', Approved, Once, Some 1000)]"
  by code_simp

lemma w_mem_view:
  "map (\<lambda>(i, a). (i, Ap_State a, Ap_Scope a, Ap_ExpiresAt a)) (ms_items w_mem) = [(''ap-1'', Approved, Once, Some 1000)]"
  by code_simp

text \<open>What the operations kept in the sample stores, from the general facts about runs.\<close>

lemma new_store_ok: "mem_wf NewMemoryStore" "all_ok [] \<and> one_live []"
  by (simp_all add: mem_wf_def NewMemoryStore_def all_ok_def one_live_def)

lemma w_mem_ok: "mem_wf w_mem \<and> all_ok (ms_items w_mem) \<and> one_live (ms_items w_mem)"
proof -
  from mem_run [OF w_digest new_store_ok(1), of w_print "w_gens ''ap-1''" w_ops]
  have "mem_wf w_mem" and q: "queue_steps (generated (w_gens ''ap-1'')) [] (ms_items w_mem)"
    by (simp_all add: w_mem_def NewMemoryStore_def)
  with steps_keep [OF q new_store_ok(2)] show ?thesis by simp
qed

lemma w_log_ok: "file_view (\<lambda>_. True) w_log = Some v \<Longrightarrow> all_ok v \<and> one_live v"
proof -
  assume v: "file_view (\<lambda>_. True) w_log = Some v"
  have e: "file_view (\<lambda>_. True) empty_file = Some []"
    by (simp add: view_scan)
  from log_run [OF w_digest v [unfolded w_log_def]] e
  have "queue_steps (generated (w_gens ''ap-1'')) [] v" by simp
  from steps_keep [OF this new_store_ok(2)] show ?thesis .
qed

section \<open>Whole runs\<close>

theorem approvals_refine_lifecycle_witness:
  "\<exists>v'. file_view (\<lambda>_. True) w_log = Some v' \<and> queue_steps (generated (w_gens ''ap-1'')) [] v' \<and>
     queue_steps (generated (w_gens ''ap-1'')) (ms_items NewMemoryStore) (ms_items w_mem)"
proof -
  from w_log_view obtain v' where v': "file_view (\<lambda>_. True) w_log = Some v'" by auto
  have e: "file_view (\<lambda>_. True) empty_file = Some []"
    by (simp add: view_scan)
  from approvals_refine_lifecycle [OF w_digest new_store_ok(1) v' [unfolded w_log_def]] e v'
  show ?thesis unfolding w_mem_def by simp
qed

abbreviation w_io :: "ApprFile StoreIO" where
  "w_io \<equiv> log_io (\<lambda>_. True)"

definition w_used :: ApprFile where
  "w_used = snd (ConsumeOnce w_io (w_at 300) None ''ap-1'' w_dec w_log)"

definition w_later :: "(clock \<times> ctx \<times> appr_op) list" where
  "w_later = [(w_at 400, None, OpDecide ''ap-1'' Approved w_dec), (w_at 500, None, OpRequest w_req)]"

definition w_last :: ApprFile where
  "w_last = appr_run w_io w_cfg w_print (w_gens ''ap-2'') w_later w_used"

lemma w_used_view:
  "map_option (map (\<lambda>(i, a). (i, Ap_State a))) (file_view (\<lambda>_. True) w_used) = Some [(''ap-1'', Revoked)]"
  by code_simp

lemma w_last_view:
  "map_option (map (\<lambda>(i, a). (i, Ap_State a))) (file_view (\<lambda>_. True) w_last) =
     Some [(''ap-1'', Revoked), (''ap-2'', Pending)]"
  by code_simp

lemma w_consumed: "\<exists>a. ConsumeOnce w_io (w_at 300) None ''ap-1'' w_dec w_log = (Inr a, w_used)"
proof -
  have "isl (fst (ConsumeOnce w_io (w_at 300) None ''ap-1'' w_dec w_log)) = False" by code_simp
  then show ?thesis unfolding w_used_def
    by (cases "ConsumeOnce w_io (w_at 300) None ''ap-1'' w_dec w_log",
      cases "fst (ConsumeOnce w_io (w_at 300) None ''ap-1'' w_dec w_log)") auto
qed

lemma w_not_generated: "TrimSpace ''ap-1'' \<notin> generated (w_gens ''ap-2'')"
  using w_trim w_generated [of "''ap-2''"] by simp

theorem closed_approval_final_witness:
  "\<exists>v v' a. file_view (\<lambda>_. True) w_used = Some v \<and> map_of v ''ap-1'' = Some a \<and> Ap_State a = Revoked \<and>
     file_view (\<lambda>_. True) w_last = Some v' \<and> map_of v' ''ap-1'' = Some a"
proof -
  from w_used_view obtain v a where v: "file_view (\<lambda>_. True) w_used = Some v" "map_of v ''ap-1'' = Some a"
    "Ap_State a = Revoked" by auto
  from w_last_view obtain v' where v': "file_view (\<lambda>_. True) w_last = Some v'" by auto
  from v(3) have "\<not> live a" by (simp add: live_def)
  from closed_approval_final [OF w_digest this _ v(1,2) v' [unfolded w_last_def]] w_not_generated w_trim v v'
  show ?thesis by auto
qed

lemma w_empty: "empty_file\<lparr>lf_faults := []\<rparr> = empty_file"
  by (simp add: empty_file_def)

theorem approvals_well_formed_witness:
  "\<exists>v. file_view (\<lambda>_. True) w_log = Some v \<and> all_ok v \<and> all_ok (ms_items w_mem)"
proof -
  from w_log_view obtain v where v: "file_view (\<lambda>_. True) w_log = Some v" by auto
  have "file_view (\<lambda>_. True) (appr_run w_io w_cfg w_print (w_gens ''ap-1'') w_ops (empty_file\<lparr>lf_faults := []\<rparr>)) = Some v"
    unfolding w_empty using v by (simp add: w_log_def)
  from approvals_well_formed [OF w_digest this] v show ?thesis
    unfolding w_mem_def by simp
qed

text \<open>After the consumption a second request was added: the only live approval of its origin.\<close>

theorem one_live_approval_per_request_witness:
  "{i. \<exists>v a. file_view (\<lambda>_. True) w_last = Some v \<and> map_of v i = Some a \<and> live a \<and>
     origin a = (ApprovalSourceHoopoePolicy, ''force-push'', ''k1'')} = {''ap-2''}"
proof -
  from w_last_view obtain v b where v: "file_view (\<lambda>_. True) w_last = Some v" "map_of v ''ap-2'' = Some b" by auto
  have "map_option (\<lambda>v. map_option (\<lambda>b. live b \<and> origin b = (ApprovalSourceHoopoePolicy, ''force-push'', ''k1''))
      (map_of v ''ap-2'')) (file_view (\<lambda>_. True) w_last) = Some (Some True)" by code_simp
  with v have b: "live b" "origin b = (ApprovalSourceHoopoePolicy, ''force-push'', ''k1'')" by auto
  from w_log_view obtain v0 where v0: "file_view (\<lambda>_. True) w_log = Some v0" by auto
  from w_log_ok [OF v0] have ok: "all_ok v0" "one_live v0" by auto
  have last: "w_last = appr_run w_io w_cfg w_print (w_gens ''ap-2'')
      ((w_at 300, None, OpConsume ''ap-1'' w_dec) # w_later) w_log" by (simp add: w_last_def w_used_def)
  have eq: "i = ''ap-2''" if "map_of v i = Some a" "live a" "origin a = (ApprovalSourceHoopoePolicy, ''force-push'', ''k1'')"
    for i a
  proof -
    from that(3) b(2) have "origin a = origin b" by (simp only:)
    then have o: "Ap_Source a = Ap_Source b" "stringValue (Ap_PolicyRule a) = stringValue (Ap_PolicyRule b)"
      "commandIdempotencyKey (Ap_RequestedAction a) = commandIdempotencyKey (Ap_RequestedAction b)"
      by (simp_all only: origin_def prod.inject)
    show ?thesis
      by (rule one_live_approval_per_request [OF w_digest v0 ok v(1) [unfolded last] that(1) v(2) that(2) b(1) o])
  qed
  show ?thesis
  proof (rule set_eqI, rule iffI)
    fix i
    assume "i \<in> {i. \<exists>v a. file_view (\<lambda>_. True) w_last = Some v \<and> map_of v i = Some a \<and> live a \<and>
      origin a = (ApprovalSourceHoopoePolicy, ''force-push'', ''k1'')}"
    then obtain v' a where a: "file_view (\<lambda>_. True) w_last = Some v'" "map_of v' i = Some a" "live a"
      "origin a = (ApprovalSourceHoopoePolicy, ''force-push'', ''k1'')" by blast
    from a(1) v(1) have "v' = v" by (simp only: option.inject)
    with a eq show "i \<in> {''ap-2''}" by blast
  qed (use v b in blast)
qed

section \<open>Checks and single use\<close>

theorem check_sound_complete_witness:
  "\<exists>v a. file_view (\<lambda>_. True) w_log = Some v \<and> map_of v ''ap-1'' = Some a \<and> Ap_State a = Approved \<and>
     unexpired 300 a \<and> approvalCovers w_cfg a w_chk"
proof -
  have "map_sum (\<lambda>e. ()) (\<lambda>r. (Res_Allowed r, Res_ApprovalID r)) (fst (QueueCheck w_io w_cfg (w_at 300) None w_chk w_log)) =
      Inr (True, ''ap-1'')" by code_simp
  then obtain r s' where r: "QueueCheck w_io w_cfg (w_at 300) None w_chk w_log = (Inr r, s')" "Res_Allowed r"
    "Res_ApprovalID r = ''ap-1''"
    by (cases "QueueCheck w_io w_cfg (w_at 300) None w_chk w_log", cases "fst (QueueCheck w_io w_cfg (w_at 300) None w_chk w_log)") auto
  from check_sound_complete [OF r(1)] r(2,3) show ?thesis by (auto simp: w_at_def)
qed

theorem consumed_only_once_witness:
  "fst (ConsumeOnce w_io (w_at 600) None ''ap-1'' w_dec w_last) \<in> range Inl \<and>
   \<not> (\<exists>r s3. QueueCheck w_io w_cfg (w_at 600) None w_chk w_last = (Inr r, s3) \<and> Res_Allowed r \<and> Res_ApprovalID r = ''ap-1'')"
proof -
  from w_consumed obtain a where "ConsumeOnce w_io (w_at 300) None ''ap-1'' w_dec w_log = (Inr a, w_used)" by blast
  from consumed_only_once [OF w_digest this w_not_generated, of "w_at 600" None w_dec w_print w_later w_chk] w_trim
  show ?thesis unfolding w_last_def by simp
qed

section \<open>Requests\<close>

definition w_norm :: "time \<Rightarrow> ApprRequest \<Rightarrow> ApprRequest" where
  "w_norm t r = (case normalizeRequest w_cfg t r of Inl e \<Rightarrow> r | Inr n \<Rightarrow> n)"

lemma w_request_facts:
  "\<not> isl (normalizeRequest w_cfg 300 w_req) \<and>
   map_option (\<lambda>a. (sameRequest (w_norm 300 w_req) a, unexpired 300 a)) (map_of (ms_items w_mem) ''ap-1'') =
     Some (True, True)"
  by code_simp

lemma w_norm_eq: "\<not> isl (normalizeRequest w_cfg t r) \<Longrightarrow> normalizeRequest w_cfg t r = Inr (w_norm t r)"
  by (cases "normalizeRequest w_cfg t r") (simp_all add: w_norm_def)

lemma w_request_again:
  "map_sum (\<lambda>e. ()) snd (fst (QueueRequest mem_io w_cfg (w_gen ''ap-2'') (w_at 300) None w_req w_mem)) = Inr False"
  by code_simp

theorem request_returns_existing_witness:
  "\<exists>a m'. map_of (ms_items w_mem) ''ap-1'' = Some a \<and>
     QueueRequest mem_io w_cfg (w_gen ''ap-2'') (w_at 300) None w_req w_mem = (Inr (cloneApproval a, False), m') \<and>
     dom (map_of (ms_items m')) = dom (map_of (ms_items w_mem))"
proof -
  from w_request_facts obtain a where a: "map_of (ms_items w_mem) ''ap-1'' = Some a"
    "sameRequest (w_norm 300 w_req) a" "unexpired 300 a" by auto
  from w_request_facts w_norm_eq have n: "normalizeRequest w_cfg (w_at 300 0) w_req = Inr (w_norm 300 w_req)"
    by (simp add: w_at_def)
  let ?q = "QueueRequest mem_io w_cfg (w_gen ''ap-2'') (w_at 300) None w_req w_mem"
  from w_request_again obtain b new m' where q: "?q = (Inr (b, new), m')"
    by (cases ?q, cases "fst ?q") auto
  from w_mem_ok have ok: "mem_wf w_mem" "one_live (ms_items w_mem)" by auto
  from a(3) have u: "unexpired (w_at 300 1) a" by (simp add: w_at_def)
  from request_returns_existing [OF ok n a(1,2) u q] a(1) q show ?thesis by auto
qed

definition w_verdict :: "DCGDecision \<Rightarrow> DCGIngestRequest" where
  "w_verdict d = \<lparr>Dcg_Entry = \<lparr>Ent_Source = ''dcg'', Ent_Actor = ''agent-7'', Ent_Command = ''rm -rf build'',
       Ent_Decision = d, Ent_Severity = [], Ent_Reason = [],
       Ent_Evidence = \<lparr>Ev_RuleID = [], Ev_PackID = [], Ev_SchemaVersion = 0\<rparr>\<rparr>,
     Dcg_Action = w_cmd, Dcg_ProjectID = ''p1'', Dcg_BeadID = [], Dcg_AgentID = [], Dcg_SwarmID = [],
     Dcg_Scope = ScopeOther [], Dcg_RiskClass = RiskOther [], Dcg_ExpiresAt = Some 1000, Dcg_IdempotencyKey = ''k2''\<rparr>"

definition w_dcg_ops :: "(clock \<times> ctx \<times> appr_op) list" where
  "w_dcg_ops = [(w_at 100, None, OpIngest (w_verdict DecisionRequiresConfirmation)),
     (w_at 200, None, OpDecide ''ap-1'' Approved w_dec)]"

definition w_dcg :: MemStore where
  "w_dcg = appr_run mem_io w_cfg w_print (w_gens ''ap-1'') w_dcg_ops NewMemoryStore"

lemma w_dcg_facts:
  "\<not> isl (normalizeRequest w_cfg 300 (dcgRequestToApprovalRequest w_cfg (w_verdict DecisionBlocked))) \<and>
   map_option (\<lambda>a. (sameRequest (w_norm 300 (dcgRequestToApprovalRequest w_cfg (w_verdict DecisionBlocked))) a,
     unexpired 300 a, Ap_State a)) (map_of (ms_items w_dcg) ''ap-1'') = Some (True, True, Approved)"
  by code_simp

lemma w_dcg_ok: "mem_wf w_dcg \<and> all_ok (ms_items w_dcg) \<and> one_live (ms_items w_dcg)"
proof -
  from mem_run [OF w_digest new_store_ok(1), of w_print "w_gens ''ap-1''" w_dcg_ops]
  have "mem_wf w_dcg" and q: "queue_steps (generated (w_gens ''ap-1'')) [] (ms_items w_dcg)"
    by (simp_all add: w_dcg_def NewMemoryStore_def)
  with steps_keep [OF q new_store_ok(2)] show ?thesis by simp
qed

theorem blocked_verdict_keeps_approval_witness:
  "\<exists>b. fst (IngestDCG mem_io w_cfg (w_gen ''ap-2'') (w_at 300) None (w_verdict DecisionBlocked) w_dcg) \<in> range Inl \<and>
     map_of (ms_items (snd (IngestDCG mem_io w_cfg (w_gen ''ap-2'') (w_at 300) None (w_verdict DecisionBlocked) w_dcg)))
       ''ap-1'' = Some b \<and> Ap_State b = Approved"
proof -
  let ?q = "IngestDCG mem_io w_cfg (w_gen ''ap-2'') (w_at 300) None (w_verdict DecisionBlocked) w_dcg"
  from w_dcg_facts obtain a where a: "map_of (ms_items w_dcg) ''ap-1'' = Some a" "Ap_State a = Approved"
    "sameRequest (w_norm 300 (dcgRequestToApprovalRequest w_cfg (w_verdict DecisionBlocked))) a" "unexpired 300 a" by auto
  from w_dcg_facts w_norm_eq have n: "normalizeRequest w_cfg (w_at 300 0)
      (dcgRequestToApprovalRequest w_cfg (w_verdict DecisionBlocked)) =
      Inr (w_norm 300 (dcgRequestToApprovalRequest w_cfg (w_verdict DecisionBlocked)))" by (simp add: w_at_def)
  from w_dcg_ok have ok: "mem_wf w_dcg" "one_live (ms_items w_dcg)" "all_ok (ms_items w_dcg)" by auto
  from a(4) have u: "unexpired (w_at 300 1) a" "unexpired (w_at 300 2) a" by (simp_all add: w_at_def)
  have d: "Ent_Decision (Dcg_Entry (w_verdict DecisionBlocked)) = DecisionBlocked" by (simp add: w_verdict_def)
  from blocked_verdict_keeps_approval [OF ok n a(1-3) u d, of "w_gen ''ap-2''" None "fst ?q" "snd ?q"]
  obtain b where b: "fst ?q \<in> range Inl" "map_of (ms_items (snd ?q)) ''ap-1'' = Some b"
    "cloneApproval b = cloneApproval a" by auto
  from b(3) a(2) have "Ap_State b = Approved" by (metis clone_fields(2))
  with b show ?thesis by blast
qed

section \<open>The log file\<close>

definition w_saves :: "Approval list" where
  "w_saves = [newApproval w_req ''ap-1'', newApproval w_req ''ap-2'',
     decided Approved 200 w_dec (newApproval w_req ''ap-1'')]"

theorem log_replay_is_memory_witness:
  "AFile_Get (\<lambda>_. True) None ''ap-1'' (save_all AFile_Save w_saves empty_file) =
     Mem_Get None ''ap-1'' (save_all Mem_Save w_saves NewMemoryStore) \<and>
   AFile_List (\<lambda>_. True) None (save_all AFile_Save w_saves empty_file) =
     Mem_List None (save_all Mem_Save w_saves NewMemoryStore)"
  by (rule log_replay_is_memory) (simp add: w_saves_def w_trim newApproval_def decided_def)

theorem unreadable_line_blocks_queue_witness:
  "fst (QueueCheck (log_io (\<lambda>_. False)) w_cfg (w_at 300) None w_chk
     (appr_run (log_io (\<lambda>_. False)) w_cfg w_print (w_gens ''ap-2'') w_ops
       (snd (AFile_Save None (newApproval w_req ''ap-1'') empty_file)))) \<in> range Inl"
proof -
  have s: "AFile_Save None (newApproval w_req ''ap-1'') empty_file =
      (None, snd (AFile_Save None (newApproval w_req ''ap-1'') empty_file))"
    by (simp add: AFile_Save_def newApproval_def append_record_ok empty_file_def)
  show ?thesis
    by (rule unreadable_line_blocks_queue [OF w_digest s, of "\<lambda>_. False" "[]", THEN conjunct2, THEN conjunct2]) simp
qed

end
