(* ===== verification/GoEncoding.thy ===== *)
theory GoEncoding
  imports GoStrings
begin

text \<open>
  The text encodings of byte strings the daemon uses: \<open>encoding/hex\<close> and the unpadded URL alphabet of
  \<open>encoding/base64\<close>, with their decoders as the library has them (upper-case digits are accepted, line
  breaks are skipped, the unused bits of the last base64 digit are ignored), and that decoding gives
  back what was encoded.
\<close>

section \<open>Hexadecimal\<close>

definition hexDigits :: string where
  "hexDigits = ''0123456789abcdef''"

definition nib :: "nat \<Rightarrow> char" where
  "nib n = hexDigits ! n"

definition hexEncode :: "string \<Rightarrow> string" where
  "hexEncode s = concat (map (\<lambda>c. [nib (of_char c div 16), nib (of_char c mod 16)]) s)"

definition hexVal :: "char \<Rightarrow> nat option" where
  "hexVal c = map_of (zip (hexDigits @ ''ABCDEF'') ([0..<16] @ [10..<16])) c"

fun hexDecode :: "string \<Rightarrow> string option" where
  "hexDecode [] = Some []"
| "hexDecode [c] = None"
| "hexDecode (c # d # cs) = (case (hexVal c, hexVal d, hexDecode cs) of
     (Some x, Some y, Some r) \<Rightarrow> Some (char_of (16 * x + y) # r) | _ \<Rightarrow> None)"

lemma byte_bound [simp]: "(of_char c :: nat) < 256"
  by (rule nat_of_char_less_256)

lemma hexVal_nib: "n < 16 \<Longrightarrow> hexVal (nib n) = Some n"
proof -
  have "list_all (\<lambda>n. hexVal (nib n) = Some n) [0..<16]" by code_simp
  then show "n < 16 \<Longrightarrow> hexVal (nib n) = Some n" by (simp add: list_all_iff)
qed

lemma hex_roundtrip [simp]: "hexDecode (hexEncode s) = Some s"
proof (induction s)
  case Nil
  then show ?case by (simp add: hexEncode_def)
next
  case (Cons c s)
  have "(of_char c :: nat) div 16 < 16" using byte_bound [of c] by linarith
  then have h: "hexVal (nib (of_char c div 16)) = Some (of_char c div 16)"
    "hexVal (nib (of_char c mod 16)) = Some (of_char c mod 16)" by (simp_all add: hexVal_nib)
  have "hexEncode (c # s) = nib (of_char c div 16) # nib (of_char c mod 16) # hexEncode s"
    by (simp add: hexEncode_def)
  with Cons h show ?case by simp
qed

section \<open>Base64\<close>

definition b64Digits :: string where
  "b64Digits = ''ABCDEFGHIJKLMNOPQRSTUVWXYZabcdefghijklmnopqrstuvwxyz0123456789-_''"

definition b64Char :: "nat \<Rightarrow> char" where
  "b64Char n = b64Digits ! n"

definition b64Val :: "char \<Rightarrow> nat option" where
  "b64Val c = map_of (zip b64Digits [0..<64]) c"

fun sextets :: "nat list \<Rightarrow> nat list" where
  "sextets [] = []"
| "sextets [a] = [a div 4, a mod 4 * 16]"
| "sextets [a, b] = [a div 4, a mod 4 * 16 + b div 16, b mod 16 * 4]"
| "sextets (a # b # c # r) =
     a div 4 # (a mod 4 * 16 + b div 16) # (b mod 16 * 4 + c div 64) # c mod 64 # sextets r"

fun octets :: "nat list \<Rightarrow> nat list option" where
  "octets [] = Some []"
| "octets [x] = None"
| "octets [x, y] = Some [x * 4 + y div 16]"
| "octets [x, y, z] = Some [x * 4 + y div 16, y mod 16 * 16 + z div 4]"
| "octets (x # y # z # w # r) = map_option (\<lambda>bs.
     (x * 4 + y div 16) # (y mod 16 * 16 + z div 4) # (z mod 4 * 64 + w) # bs) (octets r)"

definition b64Encode :: "string \<Rightarrow> string" where
  "b64Encode s = map b64Char (sextets (map of_char s))"

definition b64Decode :: "string \<Rightarrow> string option" where
  "b64Decode s =
     (let ds = map b64Val (filter (\<lambda>c. c \<noteq> CHR 0x0A \<and> c \<noteq> CHR 0x0D) s)
      in if None \<in> set ds then None else map_option (map char_of) (octets (map the ds)))"

lemma b64Val_Char: "n < 64 \<Longrightarrow> b64Val (b64Char n) = Some n \<and> b64Char n \<in> set b64Digits"
proof -
  have "list_all (\<lambda>n. b64Val (b64Char n) = Some n \<and> b64Char n \<in> set b64Digits) [0..<64]" by code_simp
  then show "n < 64 \<Longrightarrow> b64Val (b64Char n) = Some n \<and> b64Char n \<in> set b64Digits" by (simp add: list_all_iff)
qed

lemma sextets_bound: "\<forall>b \<in> set bs. b < 256 \<Longrightarrow> \<forall>x \<in> set (sextets bs). x < 64"
  by (induction bs rule: sextets.induct) auto

lemma octets_sextets: "\<forall>b \<in> set bs. b < 256 \<Longrightarrow> octets (sextets bs) = Some bs"
proof (induction bs rule: sextets.induct)
  case (3 a b)
  then have "b < 256" by simp
  then have "b div 16 < 16" by linarith
  then have "b div 16 div 16 = 0" "b div 16 mod 16 = b div 16" by simp_all
  then show ?case by simp
next
  case (4 a b c r)
  then have ih: "octets (sextets r) = Some r" and bd: "b < 256" "c < 256" by simp_all
  have "a div 4 * 4 + (a mod 4 * 16 + b div 16) div 16 = a" using bd by simp
  moreover have "(a mod 4 * 16 + b div 16) mod 16 * 16 + (b mod 16 * 4 + c div 64) div 4 = b" using bd by simp
  moreover have "(b mod 16 * 4 + c div 64) mod 4 * 64 + c mod 64 = c" using bd by simp
  ultimately show ?case using ih by simp
qed simp_all

lemma b64_chars: "c \<in> set (b64Encode s) \<Longrightarrow> c \<in> set b64Digits"
proof -
  assume "c \<in> set (b64Encode s)"
  then obtain x where "x \<in> set (sextets (map of_char s))" "c = b64Char x" by (auto simp: b64Encode_def)
  moreover from this(1) sextets_bound [of "map of_char s"] have "x < 64" by auto
  ultimately show ?thesis using b64Val_Char by blast
qed

lemma b64_plain: "CHR ''.'' \<notin> set (b64Encode s)" "CHR 0x0A \<notin> set (b64Encode s)" "CHR 0x0D \<notin> set (b64Encode s)"
proof -
  have "CHR ''.'' \<notin> set b64Digits" "CHR 0x0A \<notin> set b64Digits" "CHR 0x0D \<notin> set b64Digits" by code_simp+
  then show "CHR ''.'' \<notin> set (b64Encode s)" "CHR 0x0A \<notin> set (b64Encode s)" "CHR 0x0D \<notin> set (b64Encode s)"
    using b64_chars by blast+
qed

lemma b64_roundtrip [simp]: "b64Decode (b64Encode s) = Some s"
proof -
  let ?x = "sextets (map of_char s)"
  have b: "\<forall>x \<in> set ?x. x < 64" by (rule sextets_bound) simp
  have "filter (\<lambda>c. c \<noteq> CHR 0x0A \<and> c \<noteq> CHR 0x0D) (b64Encode s) = b64Encode s"
    using b64_plain(2,3) [of s] by (auto simp: filter_id_conv)
  moreover have "map b64Val (b64Encode s) = map Some ?x"
    using b b64Val_Char by (simp add: b64Encode_def)
  moreover have "octets ?x = Some (map of_char s)" by (rule octets_sextets) simp
  ultimately show ?thesis by (simp add: b64Decode_def o_def)
qed

end
