(* ===== verification/AuthPairing.thy ===== *)
theory AuthPairing
  imports JsonlLog GoEncoding
begin

text \<open>
  Package \<open>auth\<close>, \<open>bootstrap.go\<close> and \<open>pairing_store.go\<close>: pairing tokens as events in an append-only
  log. The state of the service is the log file; every operation replays it under the file lock and
  appends at most one event. Draws from the random source and SHA-256 are arguments.
\<close>

datatype pair_err = PErrCtx ctx_err | PErrNotFound | PErrConsumed | PErrRevoked | PErrInvalidToken
  | PErrInvalidRequest | PErrIO string

datatype PairingRole = PairingRoleOwner | PairingRoleClient | RoleOther string

definition Role_valid :: "PairingRole \<Rightarrow> bool" where
  "Role_valid r = (case r of PairingRoleOwner \<Rightarrow> True | PairingRoleClient \<Rightarrow> True | RoleOther _ \<Rightarrow> False)"

record PairingRecord =
  PR_TokenID :: string
  PR_DisplayToken :: string
  PR_Role :: PairingRole
  PR_CreatedAt :: time
  PR_ConsumedAt :: "time option"
  PR_ConsumedBy :: string
  PR_RevokedAt :: "time option"
  PR_RevokedBy :: string

definition Pairing_Active :: "PairingRecord \<Rightarrow> bool" where
  "Pairing_Active r \<longleftrightarrow> PR_ConsumedAt r = None \<and> PR_RevokedAt r = None"

record IssuedPairing =
  IP_TokenID :: string
  IP_DisplayToken :: string
  IP_Role :: PairingRole
  IP_CreatedAt :: time

datatype pairingEventType = PairingCreated | PairingConsumed | PairingRevoked | PairingEventOther string

record pairingEvent =
  PE_SchemaVersion :: int
  PE_Type :: pairingEventType
  PE_TokenID :: string
  PE_DisplayToken :: string
  PE_Role :: PairingRole
  PE_Time :: time
  PE_ConsumedBy :: string
  PE_RevokedBy :: string

record pairingState =
  PS_records :: "(string \<times> PairingRecord) list"
  PS_tokenIDByToken :: "(string \<times> string) list"

definition PairingSchemaVersion :: int where
  "PairingSchemaVersion = 1"

definition PairingTokenLength :: nat where
  "PairingTokenLength = 12"

definition PairingAlphabet :: string where
  "PairingAlphabet = ''123456789ABCDEFGHJKMNPQRSTVWXYZ''"

section \<open>Replaying the log\<close>

definition emptyPairingState :: pairingState where
  "emptyPairingState = \<lparr>PS_records = [], PS_tokenIDByToken = []\<rparr>"

definition putRecord :: "string \<Rightarrow> PairingRecord \<Rightarrow> pairingState \<Rightarrow> pairingState" where
  "putRecord i r st = st\<lparr>PS_records := AList.update i r (PS_records st)\<rparr>"

definition applyPairingEvent :: "pairingEvent \<Rightarrow> pairingState \<Rightarrow> pair_err + pairingState" where
  "applyPairingEvent ev st =
     (if PE_SchemaVersion ev \<noteq> PairingSchemaVersion then Inl PErrInvalidRequest
      else if PE_TokenID ev = [] then Inl PErrInvalidRequest
      else case PE_Type ev of
        PairingCreated \<Rightarrow>
          if PE_DisplayToken ev = [] \<or> \<not> Role_valid (PE_Role ev) then Inl PErrInvalidRequest
          else if map_of (PS_records st) (PE_TokenID ev) \<noteq> None then Inl PErrInvalidRequest
          else Inr ((putRecord (PE_TokenID ev)
            \<lparr>PR_TokenID = PE_TokenID ev, PR_DisplayToken = PE_DisplayToken ev, PR_Role = PE_Role ev,
             PR_CreatedAt = PE_Time ev, PR_ConsumedAt = None, PR_ConsumedBy = [], PR_RevokedAt = None,
             PR_RevokedBy = []\<rparr> st)
            \<lparr>PS_tokenIDByToken := AList.update (PE_DisplayToken ev) (PE_TokenID ev) (PS_tokenIDByToken st)\<rparr>)
      | PairingConsumed \<Rightarrow>
          (case map_of (PS_records st) (PE_TokenID ev) of None \<Rightarrow> Inl PErrInvalidRequest
           | Some r \<Rightarrow> Inr (putRecord (PE_TokenID ev)
               (r\<lparr>PR_ConsumedAt := Some (PE_Time ev), PR_ConsumedBy := PE_ConsumedBy ev\<rparr>) st))
      | PairingRevoked \<Rightarrow>
          (case map_of (PS_records st) (PE_TokenID ev) of None \<Rightarrow> Inl PErrInvalidRequest
           | Some r \<Rightarrow> Inr (putRecord (PE_TokenID ev)
               (r\<lparr>PR_RevokedAt := Some (PE_Time ev), PR_RevokedBy := PE_RevokedBy ev\<rparr>) st))
      | PairingEventOther _ \<Rightarrow> Inl PErrInvalidRequest)"

type_synonym pairing_log = "pairingEvent log_file"

definition loadPairings :: "(pairingEvent \<Rightarrow> bool) \<Rightarrow> ctx \<Rightarrow> pairing_log \<Rightarrow> pair_err + pairingState" where
  "loadPairings fits c s = (case c of Some e \<Rightarrow> Inl (PErrCtx e) | None \<Rightarrow>
     (case scan_log fits applyPairingEvent s emptyPairingState of
        Inl ScanTooLong \<Rightarrow> Inl (PErrIO ''token too long'') | Inl ScanMalformed \<Rightarrow> Inl (PErrIO ''json'')
      | Inl (ScanStep e) \<Rightarrow> Inl e | Inr st \<Rightarrow> Inr st))"

definition listRecords :: "pairingState \<Rightarrow> PairingRecord list" where
  "listRecords st = sort_key (\<lambda>r. (PR_CreatedAt r, PR_TokenID r)) (map snd (PS_records st))"

text \<open>
  \<open>withLockedState\<close>: load, decide, append. The decision yields the value the operation returns and
  the event to append, if any (the code's slices hold at most one).
\<close>

definition withLockedState ::
  "(pairingEvent \<Rightarrow> bool) \<Rightarrow> ctx \<Rightarrow> (pairingState \<Rightarrow> pair_err + 'a \<times> pairingEvent option) \<Rightarrow> pairing_log
     \<Rightarrow> (pair_err + 'a) \<times> pairing_log" where
  "withLockedState fits c fn s =
     (case loadPairings fits c s of Inl e \<Rightarrow> (Inl e, s)
      | Inr st \<Rightarrow> (case fn st of Inl e \<Rightarrow> (Inl e, s)
        | Inr (x, None) \<Rightarrow> (Inr x, s)
        | Inr (x, Some ev) \<Rightarrow> (case append_record ev s of
            (Some m, s') \<Rightarrow> (Inl (PErrIO m), s') | (None, s') \<Rightarrow> (Inr x, s'))))"

section \<open>Tokens\<close>

text \<open>\<open>draws i\<close> is the i-th draw below 31 from the random source, or its error.\<close>

fun draw_token :: "nat \<Rightarrow> (nat \<Rightarrow> string + nat) \<Rightarrow> string + string" where
  "draw_token 0 draws = Inr []"
| "draw_token (Suc n) draws = (case draws 0 of Inl e \<Rightarrow> Inl e
     | Inr k \<Rightarrow> (case draw_token n (\<lambda>i. draws (Suc i)) of Inl e \<Rightarrow> Inl e
        | Inr t \<Rightarrow> Inr (PairingAlphabet ! k # t)))"

definition GeneratePairingToken :: "(nat \<Rightarrow> string + nat) \<Rightarrow> string + string" where
  "GeneratePairingToken draws = draw_token PairingTokenLength draws"

text \<open>
  \<open>strings.ToUpper\<close> as far as it can give an ASCII letter: the ASCII small letters, the long s and
  the dotless i. Other code points never become ASCII, and a token with one is refused either way.
\<close>

fun ToUpper :: "string \<Rightarrow> string" where
  "ToUpper [] = []"
| "ToUpper (c # cs) =
     (if take 2 (c # cs) = [CHR 0xC5, CHR 0xBF] then CHR ''S'' # ToUpper (drop 1 cs)
      else if take 2 (c # cs) = [CHR 0xC4, CHR 0xB1] then CHR ''I'' # ToUpper (drop 1 cs)
      else (if CHR ''a'' \<le> c \<and> c \<le> CHR ''z'' then char_of (of_char c - 32 :: nat) else c) # ToUpper cs)"

definition NormalizePairingToken :: "string \<Rightarrow> pair_err + string" where
  "NormalizePairingToken token =
     (let t = ToUpper (TrimSpace (filter (\<lambda>c. c \<notin> {CHR ''-'', CHR '' '', CHR 0x09, CHR 0x0A, CHR 0x0D}) token))
      in if length t \<noteq> PairingTokenLength then Inl PErrInvalidToken
         else if \<not> list_all (\<lambda>c. c \<in> set PairingAlphabet) t then Inl PErrInvalidToken
         else Inr t)"

definition tokenID :: "(string \<Rightarrow> string) \<Rightarrow> string \<Rightarrow> string" where
  "tokenID sha token = ''pair_'' @ hexEncode (take 8 (sha token))"

text \<open>Up to eight tokens are drawn; \<open>gens i\<close> is the stream of draws of the i-th attempt.\<close>

fun uniqueToken :: "nat \<Rightarrow> (nat \<Rightarrow> nat \<Rightarrow> string + nat) \<Rightarrow> pairingState \<Rightarrow> pair_err + string" where
  "uniqueToken 0 gens st = Inl PErrInvalidRequest"
| "uniqueToken (Suc n) gens st = (case GeneratePairingToken (gens 0) of Inl e \<Rightarrow> Inl (PErrIO e)
     | Inr t \<Rightarrow> if map_of (PS_tokenIDByToken st) t = None then Inr t else uniqueToken n (\<lambda>i. gens (Suc i)) st)"

section \<open>The service\<close>

definition newPairingCreatedEvent :: "IssuedPairing \<Rightarrow> time \<Rightarrow> pairingEvent" where
  "newPairingCreatedEvent p now = \<lparr>PE_SchemaVersion = PairingSchemaVersion, PE_Type = PairingCreated,
     PE_TokenID = IP_TokenID p, PE_DisplayToken = IP_DisplayToken p, PE_Role = IP_Role p, PE_Time = now,
     PE_ConsumedBy = [], PE_RevokedBy = []\<rparr>"

definition issuePairing :: "(string \<Rightarrow> string) \<Rightarrow> PairingRole \<Rightarrow> time \<Rightarrow> string \<Rightarrow> IssuedPairing" where
  "issuePairing sha role now token = \<lparr>IP_TokenID = tokenID sha token, IP_DisplayToken = token, IP_Role = role,
     IP_CreatedAt = now\<rparr>"

definition EnsureInitialPairing ::
  "(pairingEvent \<Rightarrow> bool) \<Rightarrow> (string \<Rightarrow> string) \<Rightarrow> ctx \<Rightarrow> time \<Rightarrow> (nat \<Rightarrow> string + nat) \<Rightarrow> pairing_log
     \<Rightarrow> (pair_err + IssuedPairing option) \<times> pairing_log" where
  "EnsureInitialPairing fits sha c now draws s = withLockedState fits c (\<lambda>st.
     if PS_records st \<noteq> [] then Inr (None, None)
     else case GeneratePairingToken draws of Inl e \<Rightarrow> Inl (PErrIO e)
       | Inr t \<Rightarrow> Inr (Some (issuePairing sha PairingRoleOwner now t),
           Some (newPairingCreatedEvent (issuePairing sha PairingRoleOwner now t) now))) s"

definition CreatePairing ::
  "(pairingEvent \<Rightarrow> bool) \<Rightarrow> (string \<Rightarrow> string) \<Rightarrow> ctx \<Rightarrow> time \<Rightarrow> (nat \<Rightarrow> nat \<Rightarrow> string + nat) \<Rightarrow> PairingRole
     \<Rightarrow> pairing_log \<Rightarrow> (pair_err + IssuedPairing) \<times> pairing_log" where
  "CreatePairing fits sha c now gens role0 s =
     (let role = (if role0 = RoleOther [] then PairingRoleClient else role0) in
      if \<not> Role_valid role then (Inl PErrInvalidRequest, s)
      else withLockedState fits c (\<lambda>st. case uniqueToken 8 gens st of Inl e \<Rightarrow> Inl e
        | Inr t \<Rightarrow> Inr (issuePairing sha role now t,
            Some (newPairingCreatedEvent (issuePairing sha role now t) now))) s)"

text \<open>What indexing a Go map without the key yields.\<close>

definition zeroPairing :: PairingRecord where
  "zeroPairing = \<lparr>PR_TokenID = [], PR_DisplayToken = [], PR_Role = RoleOther [], PR_CreatedAt = 0,
     PR_ConsumedAt = None, PR_ConsumedBy = [], PR_RevokedAt = None, PR_RevokedBy = []\<rparr>"

definition consumePairing_fn :: "time \<Rightarrow> string \<Rightarrow> string \<Rightarrow> pairingState \<Rightarrow> pair_err + PairingRecord \<times> pairingEvent option" where
  "consumePairing_fn now inst token st =
     (case map_of (PS_tokenIDByToken st) token of None \<Rightarrow> Inl PErrNotFound
      | Some i \<Rightarrow>
          let r = (case map_of (PS_records st) i of None \<Rightarrow> zeroPairing | Some r \<Rightarrow> r)
          in if PR_RevokedAt r \<noteq> None then Inl PErrRevoked
            else if PR_ConsumedAt r \<noteq> None then Inl PErrConsumed
            else Inr (r\<lparr>PR_ConsumedAt := Some now, PR_ConsumedBy := TrimSpace inst\<rparr>,
              Some \<lparr>PE_SchemaVersion = PairingSchemaVersion, PE_Type = PairingConsumed, PE_TokenID = i,
                PE_DisplayToken = [], PE_Role = RoleOther [], PE_Time = now, PE_ConsumedBy = TrimSpace inst,
                PE_RevokedBy = []\<rparr>))"

definition ConsumePairing ::
  "(pairingEvent \<Rightarrow> bool) \<Rightarrow> ctx \<Rightarrow> time \<Rightarrow> string \<Rightarrow> string \<Rightarrow> pairing_log \<Rightarrow> (pair_err + PairingRecord) \<times> pairing_log" where
  "ConsumePairing fits c now token inst s =
     (case NormalizePairingToken token of Inl e \<Rightarrow> (Inl e, s)
      | Inr t \<Rightarrow> if TrimSpace inst = [] then (Inl PErrInvalidRequest, s)
                 else withLockedState fits c (consumePairing_fn now inst t) s)"

definition revokePairing_fn :: "time \<Rightarrow> string \<Rightarrow> string \<Rightarrow> pairingState \<Rightarrow> pair_err + PairingRecord \<times> pairingEvent option" where
  "revokePairing_fn now actor i st =
     (case map_of (PS_records st) i of None \<Rightarrow> Inl PErrNotFound
      | Some r \<Rightarrow> if PR_RevokedAt r \<noteq> None then Inr (r, None)
          else Inr (r\<lparr>PR_RevokedAt := Some now, PR_RevokedBy := TrimSpace actor\<rparr>,
            Some \<lparr>PE_SchemaVersion = PairingSchemaVersion, PE_Type = PairingRevoked, PE_TokenID = i,
              PE_DisplayToken = [], PE_Role = RoleOther [], PE_Time = now, PE_ConsumedBy = [],
              PE_RevokedBy = TrimSpace actor\<rparr>))"

definition RevokePairing ::
  "(pairingEvent \<Rightarrow> bool) \<Rightarrow> ctx \<Rightarrow> time \<Rightarrow> string \<Rightarrow> string \<Rightarrow> pairing_log \<Rightarrow> (pair_err + PairingRecord) \<times> pairing_log" where
  "RevokePairing fits c now i actor s =
     (if TrimSpace i = [] then (Inl PErrInvalidRequest, s)
      else withLockedState fits c (revokePairing_fn now actor i) s)"

definition ListPairings :: "(pairingEvent \<Rightarrow> bool) \<Rightarrow> ctx \<Rightarrow> pairing_log \<Rightarrow> pair_err + PairingRecord list" where
  "ListPairings fits c s = (case loadPairings fits c s of Inl e \<Rightarrow> Inl e | Inr st \<Rightarrow> Inr (listRecords st))"

end
