(* ===== verification/AuthPairingProps.thy ===== *)
theory AuthPairingProps
  imports AuthPairing
begin

text \<open>
  Pairing tokens: the invariant of the replayed log, that no operation revives a token once it was
  consumed or revoked, and that an issued token can be consumed.
\<close>

section \<open>Operations and the log\<close>

lemma load_scan_pairings:
  "loadPairings fits None s = Inr st \<longleftrightarrow> scan_log fits applyPairingEvent s emptyPairingState = Inr st"
  by (auto simp: loadPairings_def split: sum.split scan_err.split)

lemma load_ctx: "loadPairings fits c s = Inr st \<Longrightarrow> c = None \<and> loadPairings fits None s = Inr st"
  by (cases c) (simp_all add: loadPairings_def)

text \<open>Whatever the fault, the log afterwards replays to what it did, or to that and one decided event.\<close>

lemma withLocked_after:
  assumes "loadPairings fits None (snd (withLockedState fits c fn s)) = Inr w"
  shows "\<exists>v. loadPairings fits None s = Inr v \<and>
    (w = v \<or> (\<exists>x ev. fn v = Inr (x, Some ev) \<and> applyPairingEvent ev v = Inr w))"
proof (cases "\<exists>v x ev. loadPairings fits c s = Inr v \<and> fn v = Inr (x, Some ev)")
  case False
  then have "snd (withLockedState fits c fn s) = s"
    by (auto simp: withLockedState_def split: sum.split option.split)
  with assms show ?thesis by simp
next
  case True
  then obtain v x ev where v: "loadPairings fits c s = Inr v" "fn v = Inr (x, Some ev)" by blast
  then have s: "snd (withLockedState fits c fn s) = snd (append_record ev s)"
    by (auto simp: withLockedState_def split: prod.split option.split)
  from load_ctx [OF v(1)] have v1: "scan_log fits applyPairingEvent s emptyPairingState = Inr v"
    by (simp add: load_scan_pairings)
  from append_record_scan [OF assms [unfolded s load_scan_pairings]] v1 v(2) show ?thesis
    unfolding load_scan_pairings by auto
qed

lemma withLocked_success:
  assumes "withLockedState fits c fn s = (Inr x, s')"
  shows "\<exists>v. loadPairings fits None s = Inr v \<and> ((fn v = Inr (x, None) \<and> s' = s) \<or>
    (\<exists>ev. fn v = Inr (x, Some ev) \<and> (\<forall>w. loadPairings fits None s' = Inr w \<longrightarrow> applyPairingEvent ev v = Inr w)))"
proof -
  from assms obtain v r where v: "loadPairings fits c s = Inr v" "fn v = Inr (x, r)"
    by (auto simp: withLockedState_def split: sum.splits option.splits prod.splits)
  from load_ctx [OF v(1)] have l: "loadPairings fits None s = Inr v" by simp
  show ?thesis
  proof (cases r)
    case None
    with v assms l show ?thesis by (simp add: withLockedState_def)
  next
    case (Some ev)
    with v assms have "append_record ev s = (None, s')"
      by (auto simp: withLockedState_def split: prod.splits option.splits)
    then have "applyPairingEvent ev v = Inr w" if "loadPairings fits None s' = Inr w" for w
      using append_record_scan [of fits applyPairingEvent ev s emptyPairingState w] that l
      by (simp add: load_scan_pairings)
    with v(2) Some l show ?thesis by blast
  qed
qed

section \<open>The invariant\<close>

definition pair_ok :: "pairingState \<Rightarrow> bool" where
  "pair_ok st \<longleftrightarrow>
     (\<forall>i r. map_of (PS_records st) i = Some r \<longrightarrow> PR_TokenID r = i \<and> map_of (PS_tokenIDByToken st) (PR_DisplayToken r) = Some i) \<and>
     (\<forall>t i. map_of (PS_tokenIDByToken st) t = Some i \<longrightarrow> (\<exists>r. map_of (PS_records st) i = Some r \<and> PR_DisplayToken r = t))"

text \<open>Events that keep the invariant: a token is created only when no token has its text.\<close>

definition fresh_event :: "pairingEvent \<Rightarrow> pairingState \<Rightarrow> bool" where
  "fresh_event ev st \<longleftrightarrow> (PE_Type ev = PairingCreated \<longrightarrow> map_of (PS_tokenIDByToken st) (PE_DisplayToken ev) = None)"

lemma putRecord_fields [simp]:
  "PS_records (putRecord i r st) = AList.update i r (PS_records st)"
  "PS_tokenIDByToken (putRecord i r st) = PS_tokenIDByToken st"
  by (simp_all add: putRecord_def)

lemma apply_cases:
  assumes "applyPairingEvent ev st = Inr w"
  obtains (created) r where "PE_Type ev = PairingCreated" "PR_TokenID r = PE_TokenID ev" "PR_DisplayToken r = PE_DisplayToken ev"
      "PR_Role r = PE_Role ev" "PR_ConsumedAt r = None" "PR_RevokedAt r = None"
      "map_of (PS_records st) (PE_TokenID ev) = None" "PS_records w = AList.update (PE_TokenID ev) r (PS_records st)"
      "PS_tokenIDByToken w = AList.update (PE_DisplayToken ev) (PE_TokenID ev) (PS_tokenIDByToken st)"
  | (changed) r r' where "PE_Type ev \<noteq> PairingCreated" "map_of (PS_records st) (PE_TokenID ev) = Some r"
      "PR_TokenID r' = PR_TokenID r" "PR_DisplayToken r' = PR_DisplayToken r" "PR_Role r' = PR_Role r"
      "\<not> Pairing_Active r'" "PS_records w = AList.update (PE_TokenID ev) r' (PS_records st)"
      "PS_tokenIDByToken w = PS_tokenIDByToken st"
proof (cases "PE_Type ev")
  case PairingCreated
  with assms show ?thesis
    by (intro created) (auto simp: applyPairingEvent_def split: if_splits)
next
  case PairingConsumed
  with assms obtain r where "map_of (PS_records st) (PE_TokenID ev) = Some r"
    "w = putRecord (PE_TokenID ev) (r\<lparr>PR_ConsumedAt := Some (PE_Time ev), PR_ConsumedBy := PE_ConsumedBy ev\<rparr>) st"
    by (auto simp: applyPairingEvent_def split: if_splits option.splits)
  with PairingConsumed show ?thesis by (intro changed) (auto simp: Pairing_Active_def)
next
  case PairingRevoked
  with assms obtain r where "map_of (PS_records st) (PE_TokenID ev) = Some r"
    "w = putRecord (PE_TokenID ev) (r\<lparr>PR_RevokedAt := Some (PE_Time ev), PR_RevokedBy := PE_RevokedBy ev\<rparr>) st"
    by (auto simp: applyPairingEvent_def split: if_splits option.splits)
  with PairingRevoked show ?thesis by (intro changed) (auto simp: Pairing_Active_def)
next
  case (PairingEventOther t)
  with assms show ?thesis by (auto simp: applyPairingEvent_def split: if_splits)
qed

lemma pair_okI:
  "(\<And>i r. map_of (PS_records st) i = Some r \<Longrightarrow>
      PR_TokenID r = i \<and> map_of (PS_tokenIDByToken st) (PR_DisplayToken r) = Some i) \<Longrightarrow>
   (\<And>t i. map_of (PS_tokenIDByToken st) t = Some i \<Longrightarrow> \<exists>r. map_of (PS_records st) i = Some r \<and> PR_DisplayToken r = t) \<Longrightarrow>
   pair_ok st"
  unfolding pair_ok_def by blast

lemma pair_okD:
  assumes "pair_ok st"
  shows "map_of (PS_records st) i = Some r \<Longrightarrow> PR_TokenID r = i"
    and "map_of (PS_records st) i = Some r \<Longrightarrow> map_of (PS_tokenIDByToken st) (PR_DisplayToken r) = Some i"
    and "map_of (PS_tokenIDByToken st) t = Some i \<Longrightarrow> \<exists>r. map_of (PS_records st) i = Some r \<and> PR_DisplayToken r = t"
  using assms unfolding pair_ok_def by blast+

lemma apply_ok:
  assumes "applyPairingEvent ev st = Inr w" "pair_ok st" "fresh_event ev st"
  shows "pair_ok w"
  using assms(1)
proof (cases rule: apply_cases)
  case (created r)
  with assms(3) have new: "map_of (PS_tokenIDByToken st) (PE_DisplayToken ev) = None" by (simp add: fresh_event_def)
  show ?thesis
  proof (rule pair_okI)
    fix i x
    assume "map_of (PS_records w) i = Some x"
    with created have "i = PE_TokenID ev \<and> x = r \<or> i \<noteq> PE_TokenID ev \<and> map_of (PS_records st) i = Some x"
      by (auto split: if_splits)
    moreover from new pair_okD(2) [OF assms(2)] have "map_of (PS_records st) i = Some x \<Longrightarrow> PR_DisplayToken x \<noteq> PE_DisplayToken ev"
      by fastforce
    ultimately show "PR_TokenID x = i \<and> map_of (PS_tokenIDByToken w) (PR_DisplayToken x) = Some i"
      using created pair_okD(1,2) [OF assms(2)] by auto
  next
    fix t i
    assume "map_of (PS_tokenIDByToken w) t = Some i"
    with created have "t = PE_DisplayToken ev \<and> i = PE_TokenID ev \<or> map_of (PS_tokenIDByToken st) t = Some i"
      by (auto split: if_splits)
    then show "\<exists>r. map_of (PS_records w) i = Some r \<and> PR_DisplayToken r = t"
      using created pair_okD(3) [OF assms(2), of t i] by auto
  qed
next
  case (changed r r')
  show ?thesis
  proof (rule pair_okI)
    fix i x
    assume "map_of (PS_records w) i = Some x"
    with changed have "i = PE_TokenID ev \<and> x = r' \<or> map_of (PS_records st) i = Some x" by (auto split: if_splits)
    then show "PR_TokenID x = i \<and> map_of (PS_tokenIDByToken w) (PR_DisplayToken x) = Some i"
      using changed pair_okD(1,2) [OF assms(2)] by auto
  next
    fix t i
    assume "map_of (PS_tokenIDByToken w) t = Some i"
    with changed have "map_of (PS_tokenIDByToken st) t = Some i" by simp
    from pair_okD(3) [OF assms(2) this] show "\<exists>r. map_of (PS_records w) i = Some r \<and> PR_DisplayToken r = t"
      using changed by auto
  qed
qed

definition spent :: "string \<Rightarrow> pairingState \<Rightarrow> bool" where
  "spent t st \<longleftrightarrow> (\<exists>i r. map_of (PS_tokenIDByToken st) t = Some i \<and> map_of (PS_records st) i = Some r \<and> \<not> Pairing_Active r)"

lemma apply_spent:
  assumes "applyPairingEvent ev st = Inr w" "spent t st" "fresh_event ev st"
  shows "spent t w"
proof -
  from assms(2) obtain i r where i: "map_of (PS_tokenIDByToken st) t = Some i" "map_of (PS_records st) i = Some r"
    "\<not> Pairing_Active r" unfolding spent_def by blast
  from assms(1) show ?thesis
  proof (cases rule: apply_cases)
    case (created q)
    with assms(3) i(1) have "t \<noteq> PE_DisplayToken ev" by (auto simp: fresh_event_def)
    moreover from created i(2) have "i \<noteq> PE_TokenID ev" by auto
    ultimately show ?thesis using i created by (simp add: spent_def)
  next
    case (changed q q')
    with i show ?thesis by (cases "i = PE_TokenID ev") (simp_all add: spent_def)
  qed
qed

section \<open>Runs\<close>

datatype pair_op = POpEnsure time "nat \<Rightarrow> string + nat" | POpCreate time "nat \<Rightarrow> nat \<Rightarrow> string + nat" PairingRole
  | POpConsume time string string | POpRevoke time string string

fun pair_exec :: "(pairingEvent \<Rightarrow> bool) \<Rightarrow> (string \<Rightarrow> string) \<Rightarrow> ctx \<times> pair_op \<Rightarrow> pairing_log \<Rightarrow> pairing_log" where
  "pair_exec fits sha (c, POpEnsure now draws) s = snd (EnsureInitialPairing fits sha c now draws s)"
| "pair_exec fits sha (c, POpCreate now gens role) s = snd (CreatePairing fits sha c now gens role s)"
| "pair_exec fits sha (c, POpConsume now token inst) s = snd (ConsumePairing fits c now token inst s)"
| "pair_exec fits sha (c, POpRevoke now i actor) s = snd (RevokePairing fits c now i actor s)"

abbreviation pair_run :: "(pairingEvent \<Rightarrow> bool) \<Rightarrow> (string \<Rightarrow> string) \<Rightarrow> (ctx \<times> pair_op) list \<Rightarrow> pairing_log \<Rightarrow> pairing_log" where
  "pair_run fits sha \<equiv> fold (pair_exec fits sha)"

lemma uniqueToken_fresh: "uniqueToken n gens st = Inr t \<Longrightarrow> map_of (PS_tokenIDByToken st) t = None"
  by (induction n gens st rule: uniqueToken.induct) (auto split: sum.splits if_splits)

lemma consume_fn_Inr:
  assumes "consumePairing_fn now inst t v = Inr (x, r)"
  shows "\<exists>i y. map_of (PS_tokenIDByToken v) t = Some i \<and>
    y = (case map_of (PS_records v) i of None \<Rightarrow> zeroPairing | Some r \<Rightarrow> r) \<and> Pairing_Active y \<and>
    x = y\<lparr>PR_ConsumedAt := Some now, PR_ConsumedBy := TrimSpace inst\<rparr> \<and>
    (\<exists>ev. r = Some ev \<and> PE_Type ev = PairingConsumed \<and> PE_TokenID ev = i \<and> PE_Time ev = now \<and> PE_ConsumedBy ev = TrimSpace inst)"
  using assms by (simp add: consumePairing_fn_def Let_def Pairing_Active_def split: option.splits if_splits) auto

lemma revoke_fn_Inr:
  assumes "revokePairing_fn now actor i v = Inr (x, r)"
  shows "\<exists>y. map_of (PS_records v) i = Some y \<and> PR_DisplayToken x = PR_DisplayToken y \<and> PR_RevokedAt x \<noteq> None \<and>
    (r = None \<and> x = y \<or> (\<exists>ev. r = Some ev \<and> PE_Type ev = PairingRevoked \<and> PE_TokenID ev = i))"
  using assms by (auto simp: revokePairing_fn_def split: option.splits if_splits)

text \<open>One operation: the log replays to what it did, or to that and one fresh event.\<close>

lemma exec_after:
  assumes "loadPairings fits None (pair_exec fits sha x s) = Inr w"
  shows "\<exists>v. loadPairings fits None s = Inr v \<and>
    (w = v \<or> (\<exists>ev. applyPairingEvent ev v = Inr w \<and> (pair_ok v \<longrightarrow> fresh_event ev v)))"
proof -
  obtain c a where x: "x = (c, a)" by (cases x)
  have go: ?thesis if "pair_exec fits sha x s = s" using assms that by auto
  show ?thesis
  proof (cases a)
    case (POpEnsure now draws)
    have f: "pair_ok v \<longrightarrow> fresh_event (newPairingCreatedEvent p now) v" if "PS_records v = []" for v p
    proof
      assume ok: "pair_ok v"
      from that pair_okD(3) [OF ok] have "map_of (PS_tokenIDByToken v) t = None" for t
        by (cases "map_of (PS_tokenIDByToken v) t") auto
      then show "fresh_event (newPairingCreatedEvent p now) v" by (simp add: fresh_event_def)
    qed
    from withLocked_after [OF assms [unfolded x POpEnsure pair_exec.simps EnsureInitialPairing_def]] f
    show ?thesis by (auto split: if_splits sum.splits)
  next
    case (POpCreate now gens role)
    show ?thesis
    proof (cases "Role_valid (if role = RoleOther [] then PairingRoleClient else role)")
      case False
      then show ?thesis by (intro go) (simp add: x POpCreate CreatePairing_def Let_def)
    next
      case True
      let ?fn = "\<lambda>st. case uniqueToken 8 gens st of Inl e \<Rightarrow> Inl e
        | Inr t \<Rightarrow> Inr (issuePairing sha (if role = RoleOther [] then PairingRoleClient else role) now t,
            Some (newPairingCreatedEvent (issuePairing sha (if role = RoleOther [] then PairingRoleClient else role) now t) now))"
      have e: "pair_exec fits sha x s = snd (withLockedState fits c ?fn s)"
        using True by (simp add: x POpCreate CreatePairing_def Let_def)
      have "fresh_event ev v" if "?fn v = Inr (y, Some ev)" for v y ev
        using that by (auto simp: fresh_event_def newPairingCreatedEvent_def issuePairing_def
            dest: uniqueToken_fresh split: sum.splits)
      with withLocked_after [OF assms [unfolded e]] show ?thesis by blast
    qed
  next
    case (POpConsume now token inst)
    show ?thesis
    proof (cases "\<exists>t. NormalizePairingToken token = Inr t \<and> TrimSpace inst \<noteq> []")
      case False
      then show ?thesis by (intro go) (auto simp: x POpConsume ConsumePairing_def split: sum.split)
    next
      case True
      then obtain t where "pair_exec fits sha x s = snd (withLockedState fits c (consumePairing_fn now inst t) s)"
        by (auto simp: x POpConsume ConsumePairing_def)
      have "fresh_event ev v" if "consumePairing_fn now inst t v = Inr (y, Some ev)" for v y ev
        using consume_fn_Inr [OF that] by (auto simp: fresh_event_def)
      with withLocked_after [OF assms [unfolded \<open>pair_exec fits sha x s = _\<close>]] show ?thesis by blast
    qed
  next
    case (POpRevoke now i actor)
    show ?thesis
    proof (cases "TrimSpace i = []")
      case True
      then show ?thesis by (intro go) (simp add: x POpRevoke RevokePairing_def)
    next
      case False
      then have "pair_exec fits sha x s = snd (withLockedState fits c (revokePairing_fn now actor i) s)"
        by (simp add: x POpRevoke RevokePairing_def)
      have "fresh_event ev v" if "revokePairing_fn now actor i v = Inr (y, Some ev)" for v y ev
        using revoke_fn_Inr [OF that] by (auto simp: fresh_event_def)
      with withLocked_after [OF assms [unfolded \<open>pair_exec fits sha x s = _\<close>]] show ?thesis by blast
    qed
  qed
qed

text \<open>\<open>sound\<close>: what the log replays to, if anything, is well-formed; \<open>dead t\<close>: and the token is spent.\<close>

definition sound :: "(pairingEvent \<Rightarrow> bool) \<Rightarrow> pairing_log \<Rightarrow> bool" where
  "sound fits s \<longleftrightarrow> (\<forall>v. loadPairings fits None s = Inr v \<longrightarrow> pair_ok v)"

definition dead :: "(pairingEvent \<Rightarrow> bool) \<Rightarrow> string \<Rightarrow> pairing_log \<Rightarrow> bool" where
  "dead fits t s \<longleftrightarrow> (\<forall>v. loadPairings fits None s = Inr v \<longrightarrow> spent t v)"

lemma exec_sound: "sound fits s \<Longrightarrow> sound fits (pair_exec fits sha x s)"
  unfolding sound_def by (blast dest: exec_after intro: apply_ok)

lemma exec_dead: "sound fits s \<Longrightarrow> dead fits t s \<Longrightarrow> dead fits t (pair_exec fits sha x s)"
  unfolding sound_def dead_def by (blast dest: exec_after intro: apply_spent)

lemma run_sound: "sound fits s \<Longrightarrow> sound fits (pair_run fits sha xs s)"
  by (induction xs arbitrary: s) (simp_all add: exec_sound)

lemma run_dead: "sound fits s \<Longrightarrow> dead fits t s \<Longrightarrow> dead fits t (pair_run fits sha xs s)"
  by (induction xs arbitrary: s) (simp_all add: exec_sound exec_dead)

lemma new_log_sound: "sound fits (empty_file\<lparr>lf_faults := fs\<rparr>)"
proof -
  have "loadPairings fits None (empty_file\<lparr>lf_faults := fs\<rparr>) = Inr emptyPairingState"
    by (simp add: load_scan_pairings)
  then show ?thesis by (auto simp: sound_def pair_ok_def emptyPairingState_def)
qed

lemma Consume_success:
  assumes "ConsumePairing fits c now token inst s = (Inr x, s')"
  shows "\<exists>t. NormalizePairingToken token = Inr t \<and> withLockedState fits c (consumePairing_fn now inst t) s = (Inr x, s')"
  using assms by (auto simp: ConsumePairing_def split: sum.splits if_splits)

lemma Consume_dead:
  assumes "dead fits t s" "NormalizePairingToken token = Inr t"
  shows "fst (ConsumePairing fits c now token inst s) \<in> range Inl"
proof (cases "ConsumePairing fits c now token inst s")
  case (Pair r s')
  show ?thesis
  proof (cases r)
    case (Inr x)
    from Consume_success [OF Pair [unfolded Inr]] assms(2)
    have "withLockedState fits c (consumePairing_fn now inst t) s = (Inr x, s')" by simp
    from withLocked_success [OF this] obtain v o' where v: "loadPairings fits None s = Inr v"
      "consumePairing_fn now inst t v = Inr (x, o')" by blast
    from assms(1) v(1) have "spent t v" by (simp add: dead_def)
    with consume_fn_Inr [OF v(2)] show ?thesis by (auto simp: spent_def)
  qed (simp add: Pair)
qed

lemma Consume_kills:
  assumes "sound fits s" "ConsumePairing fits c now token inst s = (Inr x, s')"
  shows "NormalizePairingToken token = Inr (PR_DisplayToken x) \<and> sound fits s' \<and> dead fits (PR_DisplayToken x) s'"
proof -
  from Consume_success [OF assms(2)] obtain t where t: "NormalizePairingToken token = Inr t"
    and w: "withLockedState fits c (consumePairing_fn now inst t) s = (Inr x, s')" by blast
  from exec_sound [OF assms(1), of undefined "(c, POpConsume now token inst)"] assms(2) have sd: "sound fits s'" by simp
  from withLocked_success [OF w] obtain v o' where v: "loadPairings fits None s = Inr v"
    "consumePairing_fn now inst t v = Inr (x, o')"
    and after: "\<And>ev w. o' = Some ev \<Longrightarrow> loadPairings fits None s' = Inr w \<Longrightarrow> applyPairingEvent ev v = Inr w" by auto
  from assms(1) v(1) have ok: "pair_ok v" by (simp add: sound_def)
  from consume_fn_Inr [OF v(2)] obtain i ev where i: "map_of (PS_tokenIDByToken v) t = Some i"
    and ev: "o' = Some ev" "PE_Type ev = PairingConsumed" "PE_TokenID ev = i"
    and x: "PR_DisplayToken x = PR_DisplayToken (case map_of (PS_records v) i of None \<Rightarrow> zeroPairing | Some r \<Rightarrow> r)" by auto
  from pair_okD(3) [OF ok i] x have d: "PR_DisplayToken x = t" by auto
  have "spent t w" if "loadPairings fits None s' = Inr w" for w
    using after [OF ev(1) that]
  proof (cases rule: apply_cases)
    case (changed r r')
    with i ev(3) show ?thesis by (simp add: spent_def)
  qed (simp add: ev(2))
  with t d sd show ?thesis by (simp add: dead_def)
qed

lemma Revoke_kills:
  assumes "sound fits s" "RevokePairing fits c now i actor s = (Inr x, s')"
  shows "sound fits s' \<and> dead fits (PR_DisplayToken x) s'"
proof -
  from assms(2) have w: "withLockedState fits c (revokePairing_fn now actor i) s = (Inr x, s')"
    by (auto simp: RevokePairing_def split: if_splits)
  from exec_sound [OF assms(1), of undefined "(c, POpRevoke now i actor)"] assms(2) have sd: "sound fits s'" by simp
  from withLocked_success [OF w] obtain v o' where v: "loadPairings fits None s = Inr v"
    "revokePairing_fn now actor i v = Inr (x, o')"
    and after: "\<And>ev w. o' = Some ev \<Longrightarrow> loadPairings fits None s' = Inr w \<Longrightarrow> applyPairingEvent ev v = Inr w"
    and same: "o' = None \<Longrightarrow> s' = s" by auto
  from assms(1) v(1) have ok: "pair_ok v" by (simp add: sound_def)
  from revoke_fn_Inr [OF v(2)] obtain y where y: "map_of (PS_records v) i = Some y"
    "PR_DisplayToken x = PR_DisplayToken y" "PR_RevokedAt x \<noteq> None"
    and o': "o' = None \<and> x = y \<or> (\<exists>ev. o' = Some ev \<and> PE_Type ev = PairingRevoked \<and> PE_TokenID ev = i)" by blast
  from pair_okD(2) [OF ok y(1)] y(2) have t: "map_of (PS_tokenIDByToken v) (PR_DisplayToken x) = Some i" by simp
  have "spent (PR_DisplayToken x) w" if l: "loadPairings fits None s' = Inr w" for w
  proof (cases o')
    case None
    with same l v(1) have "w = v" by simp
    moreover from None o' y(3) have "\<not> Pairing_Active y" by (auto simp: Pairing_Active_def)
    ultimately show ?thesis using t y(1) by (auto simp: spent_def)
  next
    case (Some ev)
    with o' have ev: "PE_Type ev = PairingRevoked" "PE_TokenID ev = i" by auto
    from after [OF Some l] show ?thesis
    proof (cases rule: apply_cases)
      case (changed r r')
      with t ev(2) show ?thesis by (simp add: spent_def)
    qed (simp add: ev(1))
  qed
  with sd show ?thesis by (simp add: dead_def)
qed

section \<open>Single use\<close>

text \<open>
  C19. A pairing token works at most once and never after its revocation: when a consumption or a
  revocation has succeeded, no later consumption of that token succeeds, whatever operations, write
  faults and restarts lie between.
\<close>

theorem pairing_token_single_use:
  assumes "ConsumePairing fits c now token inst (pair_run fits sha xs (empty_file\<lparr>lf_faults := fs\<rparr>)) = (Inr r, s1) \<or>
      RevokePairing fits c now i actor (pair_run fits sha xs (empty_file\<lparr>lf_faults := fs\<rparr>)) = (Inr r, s1)"
    and "NormalizePairingToken token' = Inr (PR_DisplayToken r)"
  shows "fst (ConsumePairing fits c' now' token' inst' (pair_run fits sha ys s1)) \<in> range Inl"
proof -
  have "sound fits s1 \<and> dead fits (PR_DisplayToken r) s1"
    using assms(1) Consume_kills [OF run_sound [OF new_log_sound]] Revoke_kills [OF run_sound [OF new_log_sound]] by blast
  with run_dead have "dead fits (PR_DisplayToken r) (pair_run fits sha ys s1)" by blast
  from Consume_dead [OF this assms(2)] show ?thesis .
qed

section \<open>Issued tokens\<close>

text \<open>A token over the alphabet normalises to itself.\<close>

definition proper_token :: "string \<Rightarrow> bool" where
  "proper_token t \<longleftrightarrow> length t = PairingTokenLength \<and> list_all (\<lambda>c. c \<in> set PairingAlphabet) t"

lemma alphabet_facts:
  "list_all (\<lambda>c. c \<notin> {CHR ''-'', CHR '' '', CHR 0x09, CHR 0x0A, CHR 0x0D} \<and> c \<noteq> CHR 0xC5 \<and> c \<noteq> CHR 0xC4 \<and>
     \<not> (CHR ''a'' \<le> c \<and> c \<le> CHR ''z'') \<and> list_all (\<lambda>e. c \<noteq> hd e \<and> c \<noteq> last e) go_spaces) PairingAlphabet"
  by code_simp

lemma alphabet_D:
  assumes "c \<in> set PairingAlphabet"
  shows "c \<notin> {CHR ''-'', CHR '' '', CHR 0x09, CHR 0x0A, CHR 0x0D}" "c \<noteq> CHR 0xC5" "c \<noteq> CHR 0xC4"
    "\<not> (CHR ''a'' \<le> c \<and> c \<le> CHR ''z'')" "e \<in> set go_spaces \<Longrightarrow> c \<noteq> hd e \<and> c \<noteq> last e"
  using alphabet_facts [unfolded list_all_iff, rule_format, OF assms] by auto

lemma proper_trim:
  assumes "list_all (\<lambda>c. c \<in> set PairingAlphabet) t"
  shows "TrimSpace t = t"
proof (rule TrimSpace_plain)
  have "plain_char c" if "c \<in> set t" for c
    using that assms alphabet_D(5) by (auto simp: plain_char_def list_all_iff)
  then show "t \<noteq> [] \<Longrightarrow> plain_char (hd t)" "t \<noteq> [] \<Longrightarrow> plain_char (last t)" by simp_all
qed

lemma proper_upper: "list_all (\<lambda>c. c \<in> set PairingAlphabet) t \<Longrightarrow> ToUpper t = t"
proof (induction t)
  case (Cons c t)
  then have c: "c \<in> set PairingAlphabet" and ih: "ToUpper t = t" by simp_all
  have "take 2 (c # t) \<noteq> [CHR 0xC5, CHR 0xBF]" "take 2 (c # t) \<noteq> [CHR 0xC4, CHR 0xB1]"
    using alphabet_D(2,3) [OF c] by (auto simp: numeral_2_eq_2)
  with alphabet_D(4) [OF c] ih show ?case by auto
qed simp

lemma proper_normal: "proper_token t \<Longrightarrow> NormalizePairingToken t = Inr t"
proof -
  assume p: "proper_token t"
  then have "filter (\<lambda>c. c \<notin> {CHR ''-'', CHR '' '', CHR 0x09, CHR 0x0A, CHR 0x0D}) t = t"
    unfolding proper_token_def by (intro filter_True) (metis alphabet_D(1) list_all_iff)
  with p proper_trim [of t] proper_upper [of t] show ?thesis
    by (simp add: NormalizePairingToken_def proper_token_def Let_def)
qed

definition fair_draws :: "(nat \<Rightarrow> string + nat) \<Rightarrow> bool" where
  "fair_draws draws \<longleftrightarrow> (\<forall>i k. draws i = Inr k \<longrightarrow> k < length PairingAlphabet)"

lemma draw_proper:
  "fair_draws draws \<Longrightarrow> draw_token n draws = Inr t \<Longrightarrow> length t = n \<and> list_all (\<lambda>c. c \<in> set PairingAlphabet) t"
proof (induction n draws arbitrary: t rule: draw_token.induct)
  case (2 n draws)
  from 2(3) obtain k u where k: "draws 0 = Inr k" "draw_token n (\<lambda>i. draws (Suc i)) = Inr u" "t = PairingAlphabet ! k # u"
    by (auto split: sum.splits)
  from 2(2) have "fair_draws (\<lambda>i. draws (Suc i))" "k < length PairingAlphabet"
    using k(1) unfolding fair_draws_def by blast+
  with 2(1) [OF k(1) this(1) k(2)] k(3) show ?case by simp
qed simp

lemma generated_proper: "fair_draws draws \<Longrightarrow> GeneratePairingToken draws = Inr t \<Longrightarrow> proper_token t"
  using draw_proper by (auto simp: GeneratePairingToken_def proper_token_def)

lemma unique_proper: "(\<And>i. fair_draws (gens i)) \<Longrightarrow> uniqueToken n gens st = Inr t \<Longrightarrow> proper_token t"
  by (induction n gens st rule: uniqueToken.induct) (auto split: sum.splits if_splits intro: generated_proper)

text \<open>
  A token that was issued is accepted: when a pairing was created, the log can be read and the
  next write succeeds, consuming the token as it was displayed returns a record with the role it was
  created with.
\<close>

theorem issued_pairing_accepted:
  assumes "\<And>i. fair_draws (gens i)" "CreatePairing fits sha None now gens role s = (Inr p, s1)"
    and "loadPairings fits None s1 = Inr w" "next_append_fault s1 = None" "TrimSpace inst \<noteq> []"
  shows "\<exists>r s2. ConsumePairing fits None now' (IP_DisplayToken p) inst s1 = (Inr r, s2) \<and>
    PR_Role r = IP_Role p \<and> PR_ConsumedBy r = TrimSpace inst"
proof -
  let ?role = "if role = RoleOther [] then PairingRoleClient else role"
  let ?fn = "\<lambda>st. case uniqueToken 8 gens st of Inl e \<Rightarrow> Inl e
    | Inr t \<Rightarrow> Inr (issuePairing sha ?role now t, Some (newPairingCreatedEvent (issuePairing sha ?role now t) now))"
  from assms(2) have "withLockedState fits None ?fn s = (Inr p, s1)"
    by (auto simp: CreatePairing_def Let_def split: if_splits)
  from withLocked_success [OF this] obtain v o' where f: "?fn v = Inr (p, o')"
    and o': "\<And>ev w. o' = Some ev \<Longrightarrow> loadPairings fits None s1 = Inr w \<Longrightarrow> applyPairingEvent ev v = Inr w" by auto
  from f obtain t where v: "uniqueToken 8 gens v = Inr t" "p = issuePairing sha ?role now t"
    and ev: "o' = Some (newPairingCreatedEvent p now)"
    by (cases "uniqueToken 8 gens v") auto
  from o' [OF ev assms(3)] have ap: "applyPairingEvent (newPairingCreatedEvent p now) v = Inr w" .
  from ap obtain r where w: "map_of (PS_tokenIDByToken w) t = Some (IP_TokenID p)" "map_of (PS_records w) (IP_TokenID p) = Some r"
    "PR_Role r = IP_Role p" "Pairing_Active r"
  proof (cases rule: apply_cases)
    case (created r)
    with v(2) that [of r] show ?thesis
      by (simp add: newPairingCreatedEvent_def issuePairing_def Pairing_Active_def)
  qed (simp add: newPairingCreatedEvent_def)
  from unique_proper [OF assms(1) v(1)] have n: "NormalizePairingToken (IP_DisplayToken p) = Inr t"
    by (simp add: v(2) issuePairing_def proper_normal)
  have "\<exists>s2. append_record ev s1 = (None, s2)" for ev
    using assms(4) by (simp add: append_record_def Let_def)
  then obtain s2 where ok: "\<And>ev. append_record ev s1 = (None, s2 ev)" by metis
  from n assms(3,5) w ok show ?thesis
    by (auto simp: ConsumePairing_def withLockedState_def consumePairing_fn_def Pairing_Active_def Let_def)
qed

end
