(* ===== verification/AuthSession.thy ===== *)
theory AuthSession
  imports AuthPairing
begin

text \<open>
  Package \<open>auth\<close>, \<open>secret_store.go\<close> and \<open>session.go\<close>: the signing secret with its generation, and
  bearer and WebSocket tokens bound to sessions. The state is the secret's file, the append-only log
  of session records, and the table of sessions in memory. The JSON form of claims and HMAC-SHA256
  are a parameter (\<open>token_codec\<close>); base64 and hexadecimal are modelled. A method that reads the
  clock twice takes its readings as a function of their number.
\<close>

datatype auth_err = AuthInvalidToken | AuthTokenExpired | AuthSignatureMismatch | AuthWrongKind
  | AuthSessionRevoked | AuthSessionNotFound | AuthSecretNotInitialized | AuthSecretCorrupted | AuthIO string

section \<open>The signing secret\<close>

record SecretSnapshot =
  Sec_SchemaVersion :: int
  Sec_Generation :: int
  Sec_Secret :: string
  Sec_HexSecret :: string
  Sec_CreatedAt :: time
  Sec_RotatedFrom :: int

text \<open>The file: absent, not readable, not JSON of the expected shape, or a document.\<close>

datatype secret_file = SecretAbsent | SecretUnreadable string | SecretMalformed | SecretDoc SecretSnapshot

definition SecretSchemaVersion :: int where
  "SecretSchemaVersion = 1"

definition SecretByteLength :: nat where
  "SecretByteLength = 32"

definition loadSecret :: "secret_file \<Rightarrow> auth_err + SecretSnapshot" where
  "loadSecret f = (case f of SecretAbsent \<Rightarrow> Inl AuthSecretNotInitialized | SecretUnreadable m \<Rightarrow> Inl (AuthIO m)
     | SecretMalformed \<Rightarrow> Inl AuthSecretCorrupted
     | SecretDoc d \<Rightarrow>
         if Sec_SchemaVersion d \<noteq> SecretSchemaVersion then Inl AuthSecretCorrupted
         else if Sec_HexSecret d = [] then Inl AuthSecretCorrupted
         else case hexDecode (Sec_HexSecret d) of None \<Rightarrow> Inl AuthSecretCorrupted
           | Some raw \<Rightarrow> if length raw \<noteq> SecretByteLength then Inl AuthSecretCorrupted
               else Inr (d\<lparr>Sec_Secret := raw\<rparr>))"

text \<open>
  The write goes through a temporary file that is renamed: a fault before the rename leaves the old
  file. The raw secret is not part of the document. \<open>rnd\<close> is what the random source gives for 32
  bytes.
\<close>

definition createSecret ::
  "time \<Rightarrow> string + string \<Rightarrow> string option \<Rightarrow> int \<Rightarrow> int \<Rightarrow> secret_file \<Rightarrow> (auth_err + SecretSnapshot) \<times> secret_file" where
  "createSecret now rnd fault generation rotatedFrom f =
     (case rnd of Inl e \<Rightarrow> (Inl (AuthIO e), f)
      | Inr raw \<Rightarrow>
          let snap = \<lparr>Sec_SchemaVersion = SecretSchemaVersion,
            Sec_Generation = (if generation < 1 then 1 else generation), Sec_Secret = raw,
            Sec_HexSecret = hexEncode raw, Sec_CreatedAt = now, Sec_RotatedFrom = rotatedFrom\<rparr>
          in case fault of Some m \<Rightarrow> (Inl (AuthIO m), f) | None \<Rightarrow> (Inr snap, SecretDoc (snap\<lparr>Sec_Secret := []\<rparr>)))"

definition EnsureInitialized ::
  "time \<Rightarrow> string + string \<Rightarrow> string option \<Rightarrow> secret_file \<Rightarrow> (auth_err + SecretSnapshot) \<times> secret_file" where
  "EnsureInitialized now rnd fault f =
     (case loadSecret f of Inr s \<Rightarrow> (Inr s, f)
      | Inl e \<Rightarrow> if e = AuthSecretNotInitialized then createSecret now rnd fault 0 0 f else (Inl e, f))"

definition Rotate ::
  "time \<Rightarrow> string + string \<Rightarrow> string option \<Rightarrow> secret_file \<Rightarrow> (auth_err + SecretSnapshot) \<times> secret_file" where
  "Rotate now rnd fault f =
     (case loadSecret f of
        Inr prev \<Rightarrow> createSecret now rnd fault (Sec_Generation prev + 1) (Sec_Generation prev) f
      | Inl e \<Rightarrow> if e = AuthSecretNotInitialized then createSecret now rnd fault 1 0 f else (Inl e, f))"

section \<open>Tokens\<close>

datatype TokenKind = TokenKindBearer | TokenKindWSToken | KindOther string

record Claims =
  Cl_SchemaVersion :: int
  Cl_SID :: string
  Cl_Role :: PairingRole
  Cl_Kind :: TokenKind
  Cl_IssuedAt :: time
  Cl_ExpiresAt :: time
  Cl_Generation :: int

record token_codec =
  tc_marshal :: "Claims \<Rightarrow> string + string"
  tc_unmarshal :: "string \<Rightarrow> Claims option"
  tc_hmac :: "string \<Rightarrow> string \<Rightarrow> string"

definition BearerTTL :: duration where
  "BearerTTL = 30 * 24 * 60 * nsPerMinute"

definition WSTokenTTL :: duration where
  "WSTokenTTL = 5 * nsPerMinute"

definition ClockSkewTolerance :: duration where
  "ClockSkewTolerance = 60 * nsPerSecond"

definition SessionSchemaVersion :: int where
  "SessionSchemaVersion = 1"

definition signClaims :: "token_codec \<Rightarrow> string \<Rightarrow> Claims \<Rightarrow> auth_err + string" where
  "signClaims k secret claims = (case tc_marshal k claims of Inl e \<Rightarrow> Inl (AuthIO e)
     | Inr b \<Rightarrow> Inr (b64Encode b @ CHR ''.'' # b64Encode (tc_hmac k secret (b64Encode b))))"

text \<open>Eight hexadecimal digits of the time and sixteen of the random source.\<close>

definition generateSID :: "nat \<Rightarrow> string + string \<Rightarrow> auth_err + string" where
  "generateSID unix rnd = (case rnd of Inl e \<Rightarrow> Inl (AuthIO e)
     | Inr r \<Rightarrow> Inr (''sid_'' @ hexEncode (map (\<lambda>b. char_of (unix div 2 ^ b mod 256)) [24, 16, 8, 0]) @ hexEncode r))"

section \<open>Session records\<close>

record SessionRecord =
  Ses_SchemaVersion :: int
  Ses_SID :: string
  Ses_Role :: PairingRole
  Ses_IssuedAt :: time
  Ses_ExpiresAt :: time
  Ses_RevokedAt :: "time option"
  Ses_RevokedBy :: string
  Ses_Generation :: int

definition Session_Active :: "SessionRecord \<Rightarrow> time \<Rightarrow> bool" where
  "Session_Active r now \<longleftrightarrow> Ses_RevokedAt r = None \<and> \<not> (\<not> isZero (Ses_ExpiresAt r) \<and> now > Ses_ExpiresAt r)"

definition validateSessionRecord :: "SessionRecord \<Rightarrow> auth_err option" where
  "validateSessionRecord r =
     (if Ses_SchemaVersion r \<noteq> SessionSchemaVersion then Some AuthInvalidToken
      else if Ses_SID r = [] then Some AuthInvalidToken
      else if \<not> Role_valid (Ses_Role r) then Some AuthInvalidToken
      else if isZero (Ses_IssuedAt r) then Some AuthInvalidToken
      else if isZero (Ses_ExpiresAt r) then Some AuthInvalidToken
      else if Ses_Generation r < 1 then Some AuthInvalidToken
      else None)"

definition versionedSession :: "SessionRecord \<Rightarrow> SessionRecord" where
  "versionedSession r = (if Ses_SchemaVersion r = 0 then r\<lparr>Ses_SchemaVersion := SessionSchemaVersion\<rparr> else r)"

definition appendSessionRecord :: "SessionRecord \<Rightarrow> SessionRecord log_file \<Rightarrow> auth_err option \<times> SessionRecord log_file" where
  "appendSessionRecord r s =
     (case validateSessionRecord (versionedSession r) of Some e \<Rightarrow> (Some e, s)
      | None \<Rightarrow> (case append_record (versionedSession r) s of
          (Some m, s') \<Rightarrow> (Some (AuthIO m), s') | (None, s') \<Rightarrow> (None, s')))"

text \<open>Replaying the log: the last record of a session wins; those of other generations are skipped.\<close>

definition loadSessionStep ::
  "int \<Rightarrow> SessionRecord \<Rightarrow> (string \<times> SessionRecord) list \<Rightarrow> auth_err + (string \<times> SessionRecord) list" where
  "loadSessionStep currentGeneration r0 m =
     (let r = versionedSession r0 in
      case validateSessionRecord r of Some e \<Rightarrow> Inl e
      | None \<Rightarrow> if Ses_Generation r \<noteq> currentGeneration then Inr m else Inr (AList.update (Ses_SID r) r m))"

definition loadSessionRecords ::
  "(SessionRecord \<Rightarrow> bool) \<Rightarrow> int \<Rightarrow> SessionRecord log_file \<Rightarrow> auth_err + (string \<times> SessionRecord) list" where
  "loadSessionRecords fits g s = (case scan_log fits (loadSessionStep g) s [] of
     Inl ScanTooLong \<Rightarrow> Inl (AuthIO ''token too long'') | Inl ScanMalformed \<Rightarrow> Inl (AuthIO ''json'')
   | Inl (ScanStep e) \<Rightarrow> Inl e | Inr m \<Rightarrow> Inr m)"

section \<open>The service\<close>

record SessionSvc =
  sv_secret :: secret_file
  sv_log :: "SessionRecord log_file"
  sv_sessions :: "(string \<times> SessionRecord) list"

definition NewSessionCredentialService ::
  "(SessionRecord \<Rightarrow> bool) \<Rightarrow> secret_file \<Rightarrow> SessionRecord log_file \<Rightarrow> auth_err + SessionSvc" where
  "NewSessionCredentialService fits f log = (case loadSecret f of Inl e \<Rightarrow> Inl e
     | Inr snap \<Rightarrow> (case loadSessionRecords fits (Sec_Generation snap) log of Inl e \<Rightarrow> Inl e
        | Inr m \<Rightarrow> Inr \<lparr>sv_secret = f, sv_log = log, sv_sessions = m\<rparr>))"

record IssuedBearer =
  IB_Token :: string
  IB_SID :: string
  IB_Role :: PairingRole
  IB_IssuedAt :: time
  IB_ExpiresAt :: time

record IssuedWSToken =
  IW_Token :: string
  IW_SID :: string
  IW_IssuedAt :: time
  IW_ExpiresAt :: time

definition bearerClaims :: "PairingRole \<Rightarrow> string \<Rightarrow> time \<Rightarrow> int \<Rightarrow> Claims" where
  "bearerClaims role sid now g = \<lparr>Cl_SchemaVersion = SessionSchemaVersion, Cl_SID = sid, Cl_Role = role,
     Cl_Kind = TokenKindBearer, Cl_IssuedAt = now, Cl_ExpiresAt = now + BearerTTL, Cl_Generation = g\<rparr>"

definition newSession :: "PairingRole \<Rightarrow> string \<Rightarrow> time \<Rightarrow> int \<Rightarrow> SessionRecord" where
  "newSession role sid now g = \<lparr>Ses_SchemaVersion = SessionSchemaVersion, Ses_SID = sid, Ses_Role = role,
     Ses_IssuedAt = now, Ses_ExpiresAt = now + BearerTTL, Ses_RevokedAt = None, Ses_RevokedBy = [],
     Ses_Generation = g\<rparr>"

definition IssueBearer ::
  "token_codec \<Rightarrow> PairingRole \<Rightarrow> auth_err + string \<Rightarrow> time \<Rightarrow> SessionSvc \<Rightarrow> (auth_err + IssuedBearer) \<times> SessionSvc" where
  "IssueBearer k role gen now s =
     (if \<not> Role_valid role then (Inl AuthInvalidToken, s)
      else case loadSecret (sv_secret s) of Inl e \<Rightarrow> (Inl e, s)
      | Inr snap \<Rightarrow> (case gen of Inl e \<Rightarrow> (Inl e, s)
        | Inr sid \<Rightarrow> (case signClaims k (Sec_Secret snap) (bearerClaims role sid now (Sec_Generation snap)) of
            Inl e \<Rightarrow> (Inl e, s)
          | Inr token \<Rightarrow>
              let r = newSession role sid now (Sec_Generation snap) in
              case appendSessionRecord r (sv_log s) of
                (Some e, log') \<Rightarrow> (Inl e, s\<lparr>sv_log := log'\<rparr>)
              | (None, log') \<Rightarrow> (Inr \<lparr>IB_Token = token, IB_SID = sid, IB_Role = role, IB_IssuedAt = now,
                    IB_ExpiresAt = now + BearerTTL\<rparr>,
                  s\<lparr>sv_log := log', sv_sessions := AList.update sid r (sv_sessions s)\<rparr>))))"

definition verify :: "token_codec \<Rightarrow> TokenKind \<Rightarrow> time \<Rightarrow> string \<Rightarrow> SessionSvc \<Rightarrow> auth_err + Claims" where
  "verify k kind now token s =
     (if token = [] then Inl AuthInvalidToken
      else case Split token (CHR ''.'') of
        [p0, p1] \<Rightarrow>
          (case b64Decode p0 of None \<Rightarrow> Inl AuthInvalidToken
           | Some claimsBytes \<Rightarrow> (case b64Decode p1 of None \<Rightarrow> Inl AuthInvalidToken
             | Some sig \<Rightarrow> (case loadSecret (sv_secret s) of Inl e \<Rightarrow> Inl e
               | Inr snap \<Rightarrow>
                   if sig \<noteq> tc_hmac k (Sec_Secret snap) p0 then Inl AuthSignatureMismatch
                   else case tc_unmarshal k claimsBytes of None \<Rightarrow> Inl AuthInvalidToken
                     | Some c \<Rightarrow>
                         if Cl_SchemaVersion c \<noteq> SessionSchemaVersion then Inl AuthInvalidToken
                         else if Cl_Kind c \<noteq> kind then Inl AuthWrongKind
                         else if Cl_Generation c \<noteq> Sec_Generation snap then Inl AuthSignatureMismatch
                         else if Cl_IssuedAt c > now + ClockSkewTolerance then Inl AuthInvalidToken
                         else if now > Cl_ExpiresAt c + ClockSkewTolerance then Inl AuthTokenExpired
                         else case map_of (sv_sessions s) (Cl_SID c) of None \<Rightarrow> Inl AuthSessionNotFound
                           | Some r \<Rightarrow> if Ses_RevokedAt r \<noteq> None then Inl AuthSessionRevoked else Inr c)))
      | _ \<Rightarrow> Inl AuthInvalidToken)"

definition VerifyBearer where
  "VerifyBearer k now token s = verify k TokenKindBearer now token s"

definition VerifyWSToken where
  "VerifyWSToken k now token s = verify k TokenKindWSToken now token s"

definition IssueWSToken ::
  "token_codec \<Rightarrow> (nat \<Rightarrow> time) \<Rightarrow> string \<Rightarrow> SessionSvc \<Rightarrow> auth_err + IssuedWSToken" where
  "IssueWSToken k clk bearer s =
     (case VerifyBearer k (clk 0) bearer s of Inl e \<Rightarrow> Inl e
      | Inr b \<Rightarrow> (case loadSecret (sv_secret s) of Inl e \<Rightarrow> Inl e
        | Inr snap \<Rightarrow>
            let c = \<lparr>Cl_SchemaVersion = SessionSchemaVersion, Cl_SID = Cl_SID b, Cl_Role = Cl_Role b,
              Cl_Kind = TokenKindWSToken, Cl_IssuedAt = clk 1, Cl_ExpiresAt = clk 1 + WSTokenTTL,
              Cl_Generation = Sec_Generation snap\<rparr>
            in case signClaims k (Sec_Secret snap) c of Inl e \<Rightarrow> Inl e
              | Inr token \<Rightarrow> Inr \<lparr>IW_Token = token, IW_SID = Cl_SID b, IW_IssuedAt = clk 1,
                  IW_ExpiresAt = clk 1 + WSTokenTTL\<rparr>))"

definition RevokeSession :: "string \<Rightarrow> string \<Rightarrow> time \<Rightarrow> SessionSvc \<Rightarrow> (auth_err + bool) \<times> SessionSvc" where
  "RevokeSession sid actor now s =
     (if sid = [] then (Inl AuthInvalidToken, s)
      else case map_of (sv_sessions s) sid of None \<Rightarrow> (Inl AuthSessionNotFound, s)
      | Some r \<Rightarrow>
          if Ses_RevokedAt r \<noteq> None then (Inr False, s)
          else let r' = r\<lparr>Ses_RevokedAt := Some now, Ses_RevokedBy := actor\<rparr> in
            case appendSessionRecord r' (sv_log s) of
              (Some e, log') \<Rightarrow> (Inl e, s\<lparr>sv_log := log'\<rparr>)
            | (None, log') \<Rightarrow> (Inr True, s\<lparr>sv_log := log', sv_sessions := AList.update sid r' (sv_sessions s)\<rparr>))"

definition RotateSecret ::
  "time \<Rightarrow> string + string \<Rightarrow> string option \<Rightarrow> SessionSvc \<Rightarrow> (auth_err + SecretSnapshot) \<times> SessionSvc" where
  "RotateSecret now rnd fault s = (case Rotate now rnd fault (sv_secret s) of
     (Inl e, f) \<Rightarrow> (Inl e, s\<lparr>sv_secret := f\<rparr>)
   | (Inr snap, f) \<Rightarrow> (Inr snap, s\<lparr>sv_secret := f, sv_sessions := []\<rparr>))"

definition ListSessions :: "SessionSvc \<Rightarrow> SessionRecord list" where
  "ListSessions s = sort_key (\<lambda>r. (Ses_IssuedAt r, Ses_SID r)) (map snd (sv_sessions s))"

end
