(* ===== verification/AuthSessionProps.thy ===== *)
theory AuthSessionProps
  imports AuthSession
begin

text \<open>
  Sessions: revocation and rotation hold for good, across any operations, write faults and restarts,
  for whatever tokens are presented; and an issued bearer verifies exactly within its time window.
\<close>

section \<open>The records a log can contain\<close>

definition recs :: "'a log_file \<Rightarrow> 'a set" where
  "recs s = {r. Record r \<in> set (lf_lines s @ tail_lines (lf_tail s))}"

lemma recs_append: "recs (snd (append_record a s)) \<subseteq> insert a (recs s)"
  by (auto simp: append_record_def append_line_def torn_tail_def recs_def tail_lines_def Let_def
      split: option.splits append_fault.splits log_tail.splits)

lemma recs_appendSession: "recs (snd (appendSessionRecord r s)) \<subseteq> insert (versionedSession r) (recs s)"
  using recs_append [of "versionedSession r" s]
  by (auto simp: appendSessionRecord_def split: option.split prod.split)

lemma versioned_fields [simp]:
  "Ses_SID (versionedSession r) = Ses_SID r" "Ses_Generation (versionedSession r) = Ses_Generation r"
  "Ses_RevokedAt (versionedSession r) = Ses_RevokedAt r"
  by (simp_all add: versionedSession_def)

text \<open>What a replay at generation \<open>g\<close> can hold under a session id.\<close>

lemma scan_sessions:
  "scan_lines fits (loadSessionStep g) ls m = Inr v \<Longrightarrow> map_of v sid = Some r \<Longrightarrow>
   map_of m sid = Some r \<or> (\<exists>r0. Record r0 \<in> set ls \<and> r = versionedSession r0 \<and> Ses_SID r = sid \<and> Ses_Generation r = g)"
proof (induction fits "loadSessionStep g" ls m rule: scan_lines.induct)
  case (3 fits a ls m)
  from 3(2) obtain m1 where m1: "fits a" "loadSessionStep g a m = Inr m1" "scan_lines fits (loadSessionStep g) ls m1 = Inr v"
    by (auto split: if_splits sum.splits)
  from 3(1) [OF _ m1(2,3) 3(3)] m1(1) have "map_of m1 sid = Some r \<or>
    (\<exists>r0. Record r0 \<in> set ls \<and> r = versionedSession r0 \<and> Ses_SID r = sid \<and> Ses_Generation r = g)" by simp
  moreover have "map_of m1 sid = Some r \<Longrightarrow> map_of m sid = Some r \<or>
      r = versionedSession a \<and> Ses_SID r = sid \<and> Ses_Generation r = g"
    using m1(2) by (auto simp: loadSessionStep_def Let_def split: option.splits if_splits)
  ultimately show ?case by auto
qed simp_all

lemma load_sessions:
  assumes "loadSessionRecords fits g log = Inr v" "map_of v sid = Some r"
  shows "\<exists>r0 \<in> recs log. r = versionedSession r0 \<and> Ses_SID r = sid \<and> Ses_Generation r = g"
proof -
  from assms(1) have "scan_lines fits (loadSessionStep g) (lf_lines log @ tail_lines (lf_tail log)) [] = Inr v"
    by (auto simp: loadSessionRecords_def scan_log_def split: sum.splits scan_err.splits)
  from scan_sessions [OF this assms(2)] show ?thesis by (auto simp: recs_def)
qed

lemma load_append:
  assumes "loadSessionRecords fits g (snd (appendSessionRecord r s)) = Inr w"
  shows "\<exists>v. loadSessionRecords fits g s = Inr v \<and>
    (w = v \<and> fst (appendSessionRecord r s) \<noteq> None \<or> loadSessionStep g (versionedSession r) v = Inr w)"
proof (cases "validateSessionRecord (versionedSession r)")
  case (Some e)
  with assms show ?thesis by (simp add: appendSessionRecord_def)
next
  case None
  then have a: "snd (appendSessionRecord r s) = snd (append_record (versionedSession r) s)"
    "fst (appendSessionRecord r s) = None \<longleftrightarrow> fst (append_record (versionedSession r) s) = None"
    by (auto simp: appendSessionRecord_def split: prod.split option.split)
  have l: "loadSessionRecords fits g t = Inr m \<longleftrightarrow> scan_log fits (loadSessionStep g) t [] = Inr m" for t m
    by (auto simp: loadSessionRecords_def split: sum.split scan_err.split)
  from append_record_scan [OF assms [unfolded a(1) l]] show ?thesis unfolding l a(2) by blast
qed

section \<open>Operations\<close>

datatype auth_op = AIssue PairingRole "auth_err + string" time | ARevoke string string time
  | ARotate time "string + string" "string option" | ARestart

text \<open>Verifying and issuing WebSocket tokens change nothing. A restart may fail: then nothing runs.\<close>

fun auth_exec :: "token_codec \<Rightarrow> (SessionRecord \<Rightarrow> bool) \<Rightarrow> auth_op \<Rightarrow> SessionSvc \<Rightarrow> SessionSvc option" where
  "auth_exec k fits (AIssue role gen now) s = Some (snd (IssueBearer k role gen now s))"
| "auth_exec k fits (ARevoke sid actor now) s = Some (snd (RevokeSession sid actor now s))"
| "auth_exec k fits (ARotate now rnd fault) s = Some (snd (RotateSecret now rnd fault s))"
| "auth_exec k fits ARestart s = (case NewSessionCredentialService fits (sv_secret s) (sv_log s) of
     Inl e \<Rightarrow> None | Inr s' \<Rightarrow> Some s')"

fun auth_run :: "token_codec \<Rightarrow> (SessionRecord \<Rightarrow> bool) \<Rightarrow> auth_op list \<Rightarrow> SessionSvc \<Rightarrow> SessionSvc option" where
  "auth_run k fits [] s = Some s"
| "auth_run k fits (x # xs) s = (case auth_exec k fits x s of None \<Rightarrow> None | Some s' \<Rightarrow> auth_run k fits xs s')"

fun issued_sid :: "auth_op \<Rightarrow> string list" where
  "issued_sid (AIssue role (Inr sid) now) = [sid]"
| "issued_sid _ = []"

text \<open>Shapes of the state changes.\<close>

lemma IssueBearer_cases:
  obtains (same) "snd (IssueBearer k role gen now s) = s"
  | (failed) sid r where "gen = Inr sid" "Ses_SID r = sid" "Ses_RevokedAt r = None"
      "snd (IssueBearer k role gen now s) = s\<lparr>sv_log := snd (appendSessionRecord r (sv_log s))\<rparr>"
  | (ok) sid r where "gen = Inr sid" "Ses_SID r = sid" "Ses_RevokedAt r = None"
      "fst (appendSessionRecord r (sv_log s)) = None"
      "snd (IssueBearer k role gen now s) =
         s\<lparr>sv_log := snd (appendSessionRecord r (sv_log s)), sv_sessions := AList.update sid r (sv_sessions s)\<rparr>"
proof (cases "\<exists>snap sid token. Role_valid role \<and> loadSecret (sv_secret s) = Inr snap \<and> gen = Inr sid \<and>
    signClaims k (Sec_Secret snap) (bearerClaims role sid now (Sec_Generation snap)) = Inr token")
  case False
  then have "snd (IssueBearer k role gen now s) = s"
    by (auto simp: IssueBearer_def split: sum.split)
  then show ?thesis by (rule same)
next
  case True
  then obtain snap sid token where t: "Role_valid role" "loadSecret (sv_secret s) = Inr snap" "gen = Inr sid"
    "signClaims k (Sec_Secret snap) (bearerClaims role sid now (Sec_Generation snap)) = Inr token" by blast
  let ?r = "newSession role sid now (Sec_Generation snap)"
  have f: "Ses_SID ?r = sid" "Ses_RevokedAt ?r = None" by (simp_all add: newSession_def)
  show ?thesis
  proof (cases "appendSessionRecord ?r (sv_log s)")
    case (Pair e log)
    show ?thesis
    proof (cases e)
      case None
      with t Pair f show ?thesis by (intro ok [of sid ?r]) (simp_all add: IssueBearer_def)
    next
      case (Some x)
      with t Pair f show ?thesis by (intro failed [of sid ?r]) (simp_all add: IssueBearer_def)
    qed
  qed
qed

lemma RevokeSession_cases:
  obtains (same) "snd (RevokeSession sid actor now s) = s" "fst (RevokeSession sid actor now s) \<noteq> Inr True"
  | (failed) r where "map_of (sv_sessions s) sid = Some r"
      "fst (RevokeSession sid actor now s) \<noteq> Inr True"
      "snd (RevokeSession sid actor now s) =
         s\<lparr>sv_log := snd (appendSessionRecord (r\<lparr>Ses_RevokedAt := Some now, Ses_RevokedBy := actor\<rparr>) (sv_log s))\<rparr>"
  | (ok) r where "map_of (sv_sessions s) sid = Some r"
      "fst (appendSessionRecord (r\<lparr>Ses_RevokedAt := Some now, Ses_RevokedBy := actor\<rparr>) (sv_log s)) = None"
      "snd (RevokeSession sid actor now s) =
         s\<lparr>sv_log := snd (appendSessionRecord (r\<lparr>Ses_RevokedAt := Some now, Ses_RevokedBy := actor\<rparr>) (sv_log s)),
           sv_sessions := AList.update sid (r\<lparr>Ses_RevokedAt := Some now, Ses_RevokedBy := actor\<rparr>) (sv_sessions s)\<rparr>"
proof (cases "\<exists>r. sid \<noteq> [] \<and> map_of (sv_sessions s) sid = Some r \<and> Ses_RevokedAt r = None")
  case False
  then show ?thesis by (intro same) (auto simp: RevokeSession_def split: option.split)
next
  case True
  then obtain r where r: "sid \<noteq> []" "map_of (sv_sessions s) sid = Some r" "Ses_RevokedAt r = None" by blast
  let ?r = "r\<lparr>Ses_RevokedAt := Some now, Ses_RevokedBy := actor\<rparr>"
  show ?thesis
  proof (cases "appendSessionRecord ?r (sv_log s)")
    case (Pair e log)
    show ?thesis
    proof (cases e)
      case None
      with r Pair show ?thesis by (intro ok [of r]) (simp_all add: RevokeSession_def)
    next
      case (Some x)
      with r Pair show ?thesis by (intro failed [of r]) (simp_all add: RevokeSession_def)
    qed
  qed
qed

section \<open>One generation per session\<close>

definition all_recs :: "SessionSvc \<Rightarrow> SessionRecord set" where
  "all_recs s = recs (sv_log s) \<union> {r. \<exists>sid. map_of (sv_sessions s) sid = Some r}"

text \<open>
  Every record belongs to a session id that was issued, the table is keyed by ids, and all records of
  one session carry the generation it was issued under.
\<close>

definition consistent :: "string set \<Rightarrow> SessionSvc \<Rightarrow> bool" where
  "consistent S s \<longleftrightarrow> (\<forall>r \<in> all_recs s. Ses_SID r \<in> S) \<and>
     (\<forall>sid r. map_of (sv_sessions s) sid = Some r \<longrightarrow> Ses_SID r = sid) \<and>
     (\<forall>r \<in> all_recs s. \<forall>r' \<in> all_recs s. Ses_SID r = Ses_SID r' \<longrightarrow> Ses_Generation r = Ses_Generation r')"

lemma consistentD:
  assumes "consistent S s"
  shows "r \<in> all_recs s \<Longrightarrow> Ses_SID r \<in> S"
    and "map_of (sv_sessions s) sid = Some r \<Longrightarrow> Ses_SID r = sid"
    and "r \<in> all_recs s \<Longrightarrow> r' \<in> all_recs s \<Longrightarrow> Ses_SID r = Ses_SID r' \<Longrightarrow> Ses_Generation r = Ses_Generation r'"
  using assms unfolding consistent_def by blast+

lemma consistent_mono: "consistent S s \<Longrightarrow> S \<subseteq> T \<Longrightarrow> consistent T s"
  unfolding consistent_def by blast

lemma consistent_subset:
  assumes "consistent S s" "all_recs s' \<subseteq> all_recs s"
    "\<And>sid r. map_of (sv_sessions s') sid = Some r \<Longrightarrow> Ses_SID r = sid"
  shows "consistent S s'"
  using assms unfolding consistent_def by blast

lemma consistent_add:
  assumes "consistent S s" "all_recs s' \<subseteq> {a, versionedSession a} \<union> all_recs s"
    "\<And>sid r. map_of (sv_sessions s') sid = Some r \<Longrightarrow> Ses_SID r = sid"
    "Ses_SID a \<notin> S \<or> (\<exists>r \<in> all_recs s. Ses_SID r = Ses_SID a \<and> Ses_Generation r = Ses_Generation a)"
  shows "consistent (insert (Ses_SID a) S) s'"
proof -
  note old = consistentD(1) [OF assms(1)] and same = consistentD(3) [OF assms(1)]
  have g: "r \<in> all_recs s \<Longrightarrow> Ses_SID r = Ses_SID a \<Longrightarrow> Ses_Generation r = Ses_Generation a" for r
    using assms(4) old same by metis
  have c: "r \<in> all_recs s' \<Longrightarrow> r \<in> all_recs s \<or> Ses_SID r = Ses_SID a \<and> Ses_Generation r = Ses_Generation a" for r
    using assms(2) by auto
  have "Ses_SID r \<in> insert (Ses_SID a) S" if "r \<in> all_recs s'" for r using c [OF that] old by auto
  moreover have "Ses_Generation r = Ses_Generation r'"
    if "r \<in> all_recs s'" "r' \<in> all_recs s'" "Ses_SID r = Ses_SID r'" for r r'
    using c [OF that(1)] c [OF that(2)] that(3) g same by metis
  ultimately show ?thesis using assms(3) unfolding consistent_def by blast
qed

lemma table_update:
  "{r. \<exists>i. map_of (AList.update sid a m) i = Some r} \<subseteq> insert a {r. \<exists>i. map_of m i = Some r}"
  by (auto split: if_splits)

lemma keyed_table:
  assumes "consistent S s" "sv_sessions s' = AList.update (Ses_SID a) a (sv_sessions s)" "map_of (sv_sessions s') i = Some q"
  shows "Ses_SID q = i"
proof (cases "i = Ses_SID a")
  case True
  with assms(2,3) show ?thesis by simp
next
  case False
  with assms(2,3) have "map_of (sv_sessions s) i = Some q" by simp
  with consistentD(2) [OF assms(1)] show ?thesis by simp
qed

text \<open>An operation that appends a record and may put it into the table.\<close>

lemma appended_consistent:
  assumes "consistent S s" "sv_log s' = snd (appendSessionRecord a (sv_log s))"
    and "sv_sessions s' = sv_sessions s \<or> sv_sessions s' = AList.update (Ses_SID a) a (sv_sessions s)"
    and "Ses_SID a \<notin> S \<or> (\<exists>r \<in> all_recs s. Ses_SID r = Ses_SID a \<and> Ses_Generation r = Ses_Generation a)"
  shows "consistent (insert (Ses_SID a) S) s'"
proof (rule consistent_add [OF assms(1) _ _ assms(4)])
  have "{r. \<exists>i. map_of (sv_sessions s') i = Some r} \<subseteq> insert a {r. \<exists>i. map_of (sv_sessions s) i = Some r}"
    using assms(3)
  proof
    assume "sv_sessions s' = AList.update (Ses_SID a) a (sv_sessions s)"
    then show ?thesis by (simp only: table_update)
  qed auto
  with recs_appendSession [of a "sv_log s"] show "all_recs s' \<subseteq> {a, versionedSession a} \<union> all_recs s"
    unfolding all_recs_def assms(2) by blast
  show "Ses_SID q = i" if "map_of (sv_sessions s') i = Some q" for i q
    using assms(3)
  proof
    assume "sv_sessions s' = sv_sessions s"
    with that consistentD(2) [OF assms(1)] show ?thesis by simp
  qed (use keyed_table [OF assms(1) _ that] in blast)
qed

lemma exec_consistent:
  assumes "consistent S s" "auth_exec k fits x s = Some s'" "set (issued_sid x) \<inter> S = {}"
  shows "consistent (set (issued_sid x) \<union> S) s'"
proof (cases x)
  case (AIssue role gen now)
  with assms(2) have s': "s' = snd (IssueBearer k role gen now s)" by simp
  show ?thesis
  proof (cases rule: IssueBearer_cases [of k role gen now s])
    case same
    with s' assms(1) show ?thesis by (simp add: consistent_mono [OF assms(1)])
  next
    case (failed sid r)
    with AIssue assms(3) have n: "set (issued_sid x) = {Ses_SID r}" "Ses_SID r \<notin> S" by auto
    have "consistent (insert (Ses_SID r) S) s'"
      by (rule appended_consistent [OF assms(1)]) (use failed s' n in simp_all)
    with n show ?thesis by simp
  next
    case (ok sid r)
    with AIssue assms(3) have n: "set (issued_sid x) = {Ses_SID r}" "Ses_SID r \<notin> S" by auto
    have "consistent (insert (Ses_SID r) S) s'"
      by (rule appended_consistent [OF assms(1)]) (use ok s' n in simp_all)
    with n show ?thesis by simp
  qed
next
  case (ARevoke sid actor now)
  with assms(2) have s': "s' = snd (RevokeSession sid actor now s)" by simp
  have key: "map_of (sv_sessions s) i = Some q \<Longrightarrow> Ses_SID q = i" for i q using consistentD(2) [OF assms(1)] .
  have old: "r \<in> all_recs s \<Longrightarrow> Ses_SID r \<in> S" for r using consistentD(1) [OF assms(1)] .
  have i: "issued_sid x = []" by (simp add: ARevoke)
  let ?r = "\<lambda>r. r\<lparr>Ses_RevokedAt := Some now, Ses_RevokedBy := actor\<rparr>"
  show ?thesis
  proof (cases rule: RevokeSession_cases [of sid actor now s])
    case same
    with s' assms(1) i show ?thesis by simp
  next
    case (failed r)
    then have r: "r \<in> all_recs s" by (auto simp: all_recs_def)
    have "consistent (insert (Ses_SID (?r r)) S) s'"
      by (rule appended_consistent [OF assms(1)]) (use failed s' in simp, use failed s' in simp, use r in auto)
    with old [OF r] i show ?thesis by (simp add: insert_absorb)
  next
    case (ok r)
    then have r: "r \<in> all_recs s" by (auto simp: all_recs_def)
    have "consistent (insert (Ses_SID (?r r)) S) s'"
      by (rule appended_consistent [OF assms(1)]) (use ok s' in simp, use ok s' key [of sid r] in simp, use r in auto)
    with old [OF r] i show ?thesis by (simp add: insert_absorb)
  qed
next
  case (ARotate now rnd fault)
  have i: "issued_sid x = []" by (simp add: ARotate)
  have "all_recs s' \<subseteq> all_recs s \<and> (sv_sessions s' = sv_sessions s \<or> sv_sessions s' = [])"
    using assms(2) by (auto simp: ARotate RotateSecret_def all_recs_def split: prod.splits sum.splits)
  with consistentD(2) [OF assms(1)] have "consistent S s'"
    by (intro consistent_subset [OF assms(1)]) auto
  with i show ?thesis by simp
next
  case ARestart
  have i: "issued_sid x = []" by (simp add: ARestart)
  from assms(2) obtain g m where m: "loadSessionRecords fits g (sv_log s) = Inr m" "s' = s\<lparr>sv_sessions := m\<rparr>"
    by (auto simp: ARestart NewSessionCredentialService_def split: sum.splits)
  have ld: "map_of m sid = Some r \<Longrightarrow> \<exists>r0 \<in> recs (sv_log s). r = versionedSession r0 \<and> Ses_SID r = sid" for sid r
    using load_sessions [OF m(1)] by blast
  have o: "r \<in> all_recs s' \<Longrightarrow> \<exists>r0 \<in> all_recs s. Ses_SID r = Ses_SID r0 \<and> Ses_Generation r = Ses_Generation r0" for r
    using ld unfolding all_recs_def m(2) by fastforce
  have "consistent S s'"
    unfolding consistent_def
  proof (intro conjI ballI allI impI)
    fix r
    assume "r \<in> all_recs s'"
    with o consistentD(1) [OF assms(1)] show "Ses_SID r \<in> S" by metis
  next
    fix sid r
    assume "map_of (sv_sessions s') sid = Some r"
    with ld m(2) show "Ses_SID r = sid" by auto
  next
    fix r r'
    assume "r \<in> all_recs s'" "r' \<in> all_recs s'" "Ses_SID r = Ses_SID r'"
    with o consistentD(3) [OF assms(1)] show "Ses_Generation r = Ses_Generation r'" by metis
  qed
  with i show ?thesis by simp
qed

lemma run_consistent:
  "consistent S s \<Longrightarrow> auth_run k fits xs s = Some s' \<Longrightarrow> distinct (concat (map issued_sid xs)) \<Longrightarrow>
   set (concat (map issued_sid xs)) \<inter> S = {} \<Longrightarrow> consistent (set (concat (map issued_sid xs)) \<union> S) s'"
proof (induction xs arbitrary: s S)
  case (Cons x xs)
  from Cons.prems(2) obtain s1 where s1: "auth_exec k fits x s = Some s1" "auth_run k fits xs s1 = Some s'"
    by (auto split: option.splits)
  from exec_consistent [OF Cons.prems(1) s1(1)] Cons.prems(4) have c: "consistent (set (issued_sid x) \<union> S) s1" by auto
  from Cons.IH [OF c s1(2)] Cons.prems(3,4)
  have "consistent (set (concat (map issued_sid xs)) \<union> (set (issued_sid x) \<union> S)) s'" by auto
  then show ?case by (simp add: Un_assoc Un_left_commute Un_commute)
qed simp

section \<open>Revocation is final\<close>

text \<open>In the table, and in what any replay of the log yields, the session is revoked if it is there.\<close>

definition log_dead :: "(SessionRecord \<Rightarrow> bool) \<Rightarrow> string \<Rightarrow> SessionRecord log_file \<Rightarrow> bool" where
  "log_dead fits sid log \<longleftrightarrow> (\<forall>g v r. loadSessionRecords fits g log = Inr v \<and> map_of v sid = Some r \<longrightarrow> Ses_RevokedAt r \<noteq> None)"

definition session_dead :: "(SessionRecord \<Rightarrow> bool) \<Rightarrow> string \<Rightarrow> SessionSvc \<Rightarrow> bool" where
  "session_dead fits sid s \<longleftrightarrow> log_dead fits sid (sv_log s) \<and>
     (\<forall>r. map_of (sv_sessions s) sid = Some r \<longrightarrow> Ses_RevokedAt r \<noteq> None)"

lemma step_sessions:
  "loadSessionStep g r v = Inr w \<Longrightarrow> w = v \<and> Ses_Generation r \<noteq> g \<or> w = AList.update (Ses_SID r) (versionedSession r) v \<and> Ses_Generation r = g"
  by (auto simp: loadSessionStep_def Let_def split: option.splits if_splits)

lemma append_dead:
  assumes "log_dead fits sid log" "Ses_SID r \<noteq> sid \<or> Ses_RevokedAt r \<noteq> None"
  shows "log_dead fits sid (snd (appendSessionRecord r log))"
  unfolding log_dead_def
proof (intro allI impI, elim conjE)
  fix g w q
  assume w: "loadSessionRecords fits g (snd (appendSessionRecord r log)) = Inr w" "map_of w sid = Some q"
  from load_append [OF w(1)] obtain v where v: "loadSessionRecords fits g log = Inr v"
    "w = v \<or> loadSessionStep g (versionedSession r) v = Inr w" by blast
  from v(2) have "w = v \<or> w = AList.update (Ses_SID r) (versionedSession (versionedSession r)) v"
    using step_sessions by fastforce
  then show "Ses_RevokedAt q \<noteq> None"
  proof
    assume "w = v"
    with v(1) w(2) assms(1) show ?thesis unfolding log_dead_def by blast
  next
    assume "w = AList.update (Ses_SID r) (versionedSession (versionedSession r)) v"
    with w(2) have "Ses_SID r = sid \<and> q = versionedSession (versionedSession r) \<or> map_of v sid = Some q"
      by (auto split: if_splits)
    with v(1) assms show ?thesis unfolding log_dead_def by auto
  qed
qed

lemma exec_dead_session:
  assumes "session_dead fits sid s" "auth_exec k fits x s = Some s'" "sid \<notin> set (issued_sid x)"
  shows "session_dead fits sid s'"
proof -
  from assms(1) have d: "log_dead fits sid (sv_log s)"
    "\<And>r. map_of (sv_sessions s) sid = Some r \<Longrightarrow> Ses_RevokedAt r \<noteq> None" by (auto simp: session_dead_def)
  show ?thesis
  proof (cases x)
    case (AIssue role gen now)
    with assms(2) have s': "s' = snd (IssueBearer k role gen now s)" by simp
    show ?thesis
    proof (cases rule: IssueBearer_cases [of k role gen now s])
      case (failed i r)
      with AIssue assms(3) have "Ses_SID r \<noteq> sid" by auto
      with failed s' d append_dead [OF d(1), of r] show ?thesis by (simp add: session_dead_def)
    next
      case (ok i r)
      with AIssue assms(3) have "Ses_SID r \<noteq> sid" "i \<noteq> sid" by auto
      with ok s' d append_dead [OF d(1), of r] show ?thesis by (simp add: session_dead_def)
    qed (use s' assms(1) in simp)
  next
    case (ARevoke i actor now)
    with assms(2) have s': "s' = snd (RevokeSession i actor now s)" by simp
    show ?thesis
    proof (cases rule: RevokeSession_cases [of i actor now s])
      case (failed r)
      with s' d append_dead [OF d(1), of "r\<lparr>Ses_RevokedAt := Some now, Ses_RevokedBy := actor\<rparr>"]
      show ?thesis by (simp add: session_dead_def)
    next
      case (ok r)
      with s' d append_dead [OF d(1), of "r\<lparr>Ses_RevokedAt := Some now, Ses_RevokedBy := actor\<rparr>"]
      show ?thesis by (simp add: session_dead_def)
    qed (use s' assms(1) in simp)
  next
    case (ARotate now rnd fault)
    with assms(2) d show ?thesis
      by (auto simp: RotateSecret_def session_dead_def split: prod.splits sum.splits)
  next
    case ARestart
    with assms(2) d show ?thesis
      by (auto simp: NewSessionCredentialService_def session_dead_def log_dead_def split: sum.splits)
  qed
qed

lemma run_dead_session:
  "session_dead fits sid s \<Longrightarrow> auth_run k fits xs s = Some s' \<Longrightarrow> sid \<notin> set (concat (map issued_sid xs)) \<Longrightarrow> session_dead fits sid s'"
proof (induction xs arbitrary: s)
  case (Cons x xs)
  from Cons.prems(2) obtain s1 where s1: "auth_exec k fits x s = Some s1" "auth_run k fits xs s1 = Some s'"
    by (auto split: option.splits)
  from exec_dead_session [OF Cons.prems(1) s1(1)] Cons.prems(3) Cons.IH [OF _ s1(2)] show ?case by simp
qed simp

lemma revoke_dead:
  assumes "consistent S s" "RevokeSession sid actor now s = (Inr True, s')"
  shows "session_dead fits sid s' \<and> sid \<in> S"
proof -
  have f: "fst (RevokeSession sid actor now s) = Inr True" using assms(2) by simp
  show ?thesis
  proof (cases rule: RevokeSession_cases [of sid actor now s])
    case (ok r)
    let ?r = "r\<lparr>Ses_RevokedAt := Some now, Ses_RevokedBy := actor\<rparr>"
    have r: "r \<in> all_recs s" "Ses_SID r = sid"
      using ok(1) consistentD(2) [OF assms(1) ok(1)] by (auto simp: all_recs_def)
    have "log_dead fits sid (snd (appendSessionRecord ?r (sv_log s)))"
      unfolding log_dead_def
    proof (intro allI impI, elim conjE)
      fix g w q
      assume w: "loadSessionRecords fits g (snd (appendSessionRecord ?r (sv_log s))) = Inr w" "map_of w sid = Some q"
      from load_append [OF w(1)] ok(2) obtain v where v: "loadSessionRecords fits g (sv_log s) = Inr v"
        "loadSessionStep g (versionedSession ?r) v = Inr w" by auto
      from step_sessions [OF v(2)] show "Ses_RevokedAt q \<noteq> None"
      proof
        assume a: "w = v \<and> Ses_Generation (versionedSession ?r) \<noteq> g"
        with w(2) have "map_of v sid = Some q" by simp
        from load_sessions [OF v(1) this] obtain r0 where r0: "r0 \<in> recs (sv_log s)" "q = versionedSession r0"
          "Ses_SID q = sid" "Ses_Generation q = g" by blast
        then have "r0 \<in> all_recs s" "Ses_SID r0 = Ses_SID r" using r(2) by (simp_all add: all_recs_def)
        from consistentD(3) [OF assms(1) this(1) r(1) this(2)] r0 a show ?thesis by simp
      next
        assume "w = AList.update (Ses_SID (versionedSession ?r)) (versionedSession (versionedSession ?r)) v \<and>
          Ses_Generation (versionedSession ?r) = g"
        with w(2) r(2) show ?thesis by auto
      qed
    qed
    with ok assms(2) consistentD(1) [OF assms(1) r(1)] r(2) show ?thesis by (simp add: session_dead_def)
  qed (use f in simp_all)
qed

lemma verify_session:
  "verify k kind now token s = Inr c \<Longrightarrow> \<exists>r. map_of (sv_sessions s) (Cl_SID c) = Some r \<and> Ses_RevokedAt r = None"
  by (auto simp: verify_def split: list.splits option.splits sum.splits if_splits)

lemma fresh_consistent: "consistent {} \<lparr>sv_secret = f, sv_log = empty_file\<lparr>lf_faults := fs\<rparr>, sv_sessions = []\<rparr>"
  by (simp add: consistent_def all_recs_def recs_def empty_file_def tail_lines_def)

text \<open>
  C20. A revoked session stays revoked: when a revocation has reported success, no token, genuine or
  not, bearer or WebSocket, verifies for that session any more, whatever operations, write faults,
  rotations and restarts follow, as long as session ids are not generated twice.
\<close>

theorem revoked_session_never_verifies:
  assumes "auth_run k fits xs \<lparr>sv_secret = f, sv_log = empty_file\<lparr>lf_faults := fs\<rparr>, sv_sessions = []\<rparr> = Some s"
    and "RevokeSession sid actor now s = (Inr True, s1)" "auth_run k fits ys s1 = Some s2"
    and "distinct (concat (map issued_sid (xs @ ys)))"
  shows "verify k kind now' token s2 \<notin> {Inr c |c. Cl_SID c = sid}"
proof -
  from run_consistent [OF fresh_consistent assms(1)] assms(4)
  have "consistent (set (concat (map issued_sid xs))) s" by simp
  from revoke_dead [OF this assms(2)] have d: "session_dead fits sid s1" "sid \<in> set (concat (map issued_sid xs))" by auto
  with assms(4) have "sid \<notin> set (concat (map issued_sid ys))" by auto
  from run_dead_session [OF d(1) assms(3) this] verify_session [of k kind now' token s2]
  show ?thesis by (auto simp: session_dead_def)
qed

section \<open>Rotation invalidates every token\<close>

lemma verify_claims:
  "verify k kind now token s = Inr c \<Longrightarrow>
   \<exists>p0 p1 b d. Split token (CHR ''.'') = [p0, p1] \<and> b64Decode p0 = Some b \<and> tc_unmarshal k b = Some c \<and>
     loadSecret (sv_secret s) = Inr d \<and> Cl_Generation c = Sec_Generation d"
  by (auto simp: verify_def split: list.splits option.splits sum.splits if_splits)

definition above :: "int \<Rightarrow> SessionSvc \<Rightarrow> bool" where
  "above g s \<longleftrightarrow> sv_secret s \<noteq> SecretAbsent \<and> (\<forall>d. loadSecret (sv_secret s) = Inr d \<longrightarrow> g < Sec_Generation d)"

lemma load_created:
  "createSecret now rnd fault g from f = (Inr snap, f') \<Longrightarrow>
   f' \<noteq> SecretAbsent \<and> (\<forall>d. loadSecret f' = Inr d \<longrightarrow> Sec_Generation d = max 1 g)"
  by (auto simp: createSecret_def loadSecret_def Let_def split: sum.splits option.splits if_splits)

lemma load_absent: "loadSecret f = Inl AuthSecretNotInitialized \<longleftrightarrow> f = SecretAbsent"
  by (auto simp: loadSecret_def split: secret_file.split option.split)

lemma rotate_above:
  assumes "RotateSecret now rnd fault s = (Inr snap, s')" "loadSecret (sv_secret s) = Inr d"
  shows "above (Sec_Generation d) s'"
proof -
  from assms obtain f' where "createSecret now rnd fault (Sec_Generation d + 1) (Sec_Generation d) (sv_secret s) = (Inr snap, f')"
    "sv_secret s' = f'"
    by (auto simp: RotateSecret_def Rotate_def split: prod.splits sum.splits)
  with load_created [OF this(1)] show ?thesis by (auto simp: above_def)
qed

lemma createSecret_err: "createSecret now rnd fault g from f = (Inl e, f') \<Longrightarrow> f' = f"
  by (auto simp: createSecret_def Let_def split: sum.splits option.splits)

lemma exec_above:
  assumes "above g s" "auth_exec k fits x s = Some s'"
  shows "above g s'"
proof (cases x)
  case (AIssue role gen now)
  with assms have s': "s' = snd (IssueBearer k role gen now s)" by simp
  have "sv_secret s' = sv_secret s"
    unfolding s' by (cases rule: IssueBearer_cases [of k role gen now s]) simp_all
  with assms(1) show ?thesis by (simp add: above_def)
next
  case (ARevoke i actor now)
  with assms have s': "s' = snd (RevokeSession i actor now s)" by simp
  have "sv_secret s' = sv_secret s"
    unfolding s' by (cases rule: RevokeSession_cases [of i actor now s]) simp_all
  with assms(1) show ?thesis by (simp add: above_def)
next
  case (ARotate now rnd fault)
  then have s': "s' = snd (RotateSecret now rnd fault s)" using assms(2) by simp
  show ?thesis
  proof (cases "loadSecret (sv_secret s)")
    case (Inl e)
    with assms(1) load_absent [of "sv_secret s"] have "e \<noteq> AuthSecretNotInitialized" by (auto simp: above_def)
    with Inl s' have "sv_secret s' = sv_secret s" by (simp add: RotateSecret_def Rotate_def)
    with assms(1) show ?thesis by (simp add: above_def)
  next
    case (Inr d)
    obtain r t where r: "RotateSecret now rnd fault s = (r, t)" by (metis surj_pair)
    show ?thesis
    proof (cases r)
      case (Inl e)
      with r \<open>loadSecret (sv_secret s) = Inr d\<close> s' have "sv_secret s' = sv_secret s"
        by (auto simp: RotateSecret_def Rotate_def split: prod.splits sum.splits dest: createSecret_err)
      with assms(1) show ?thesis by (simp add: above_def)
    next
      case (Inr snap)
      from rotate_above [OF r [unfolded Inr] \<open>loadSecret (sv_secret s) = Inr d\<close>] r s' assms(1)
        \<open>loadSecret (sv_secret s) = Inr d\<close>
      show ?thesis unfolding above_def by fastforce
    qed
  qed
next
  case ARestart
  with assms show ?thesis by (auto simp: NewSessionCredentialService_def above_def split: sum.splits)
qed

lemma run_above: "above g s \<Longrightarrow> auth_run k fits xs s = Some s' \<Longrightarrow> above g s'"
  by (induction xs arbitrary: s) (auto split: option.splits intro: exec_above)

text \<open>
  C21. Rotating the secret revokes everything: a token that verified before a successful rotation
  never verifies again, as either kind, whatever operations and restarts follow.
\<close>

theorem rotation_revokes_everything:
  assumes "verify k kind now token s = Inr c" "RotateSecret now1 rnd fault s = (Inr snap, s1)"
    and "auth_run k fits ys s1 = Some s2"
  shows "verify k kind' now' token s2 \<in> range Inl"
proof (cases "verify k kind' now' token s2")
  case (Inr c')
  from verify_claims [OF assms(1)] obtain p0 p1 b d where 1: "Split token (CHR ''.'') = [p0, p1]" "b64Decode p0 = Some b"
    "tc_unmarshal k b = Some c" "loadSecret (sv_secret s) = Inr d" "Cl_Generation c = Sec_Generation d" by blast
  from verify_claims [OF Inr] 1 obtain d' where 2: "c' = c" "loadSecret (sv_secret s2) = Inr d'" "Cl_Generation c' = Sec_Generation d'"
    by auto
  from run_above [OF rotate_above [OF assms(2) 1(4)] assms(3)] 2 1(5) show ?thesis by (simp add: above_def)
qed simp

section \<open>The time window of a bearer\<close>

definition codec_ok :: "token_codec \<Rightarrow> bool" where
  "codec_ok k \<longleftrightarrow> (\<forall>c b. tc_marshal k c = Inr b \<longrightarrow> tc_unmarshal k b = Some c)"

text \<open>
  C22. An issued bearer verifies exactly from one minute before it was issued until one minute after
  its thirty days, with the role, session and generation it was issued for; outside of that it is
  invalid or expired, and it never passes as a WebSocket token.
\<close>

theorem issued_bearer_verifies:
  assumes "codec_ok k" "IssueBearer k role (Inr sid) now s = (Inr b, s1)"
  shows "IB_ExpiresAt b = now + BearerTTL \<and>
    VerifyWSToken k t (IB_Token b) s1 = Inl AuthWrongKind \<and>
    (\<exists>g. VerifyBearer k t (IB_Token b) s1 =
      (if t + ClockSkewTolerance < now then Inl AuthInvalidToken
       else if now + BearerTTL + ClockSkewTolerance < t then Inl AuthTokenExpired
       else Inr (bearerClaims role sid now g)))"
proof -
  from assms(2) obtain snap token where d: "loadSecret (sv_secret s) = Inr snap"
    "signClaims k (Sec_Secret snap) (bearerClaims role sid now (Sec_Generation snap)) = Inr token"
    and b: "IB_Token b = token" "IB_ExpiresAt b = now + BearerTTL"
    and s1: "sv_secret s1 = sv_secret s" "map_of (sv_sessions s1) sid = Some (newSession role sid now (Sec_Generation snap))"
    by (auto simp: IssueBearer_def Let_def split: if_splits sum.splits prod.splits option.splits)
  let ?c = "bearerClaims role sid now (Sec_Generation snap)"
  from d(2) obtain m where m: "tc_marshal k ?c = Inr m"
    "token = b64Encode m @ CHR ''.'' # b64Encode (tc_hmac k (Sec_Secret snap) (b64Encode m))"
    by (auto simp: signClaims_def split: sum.splits)
  from m(1) assms(1) have u: "tc_unmarshal k m = Some ?c" by (simp add: codec_ok_def)
  have sp: "Split token (CHR ''.'') = [b64Encode m, b64Encode (tc_hmac k (Sec_Secret snap) (b64Encode m))]"
    unfolding m(2) by (rule Split_two) (rule b64_plain(1))+
  have ne: "token \<noteq> []" by (simp add: m(2))
  have "VerifyWSToken k t token s1 = Inl AuthWrongKind"
    using sp ne u d(1) s1 by (simp add: VerifyWSToken_def verify_def bearerClaims_def)
  moreover have "VerifyBearer k t token s1 =
      (if t + ClockSkewTolerance < now then Inl AuthInvalidToken
       else if now + BearerTTL + ClockSkewTolerance < t then Inl AuthTokenExpired else Inr ?c)"
    using sp ne u d(1) s1 by (simp add: VerifyBearer_def verify_def bearerClaims_def newSession_def)
  ultimately show ?thesis unfolding b(1) using b(2) by blast
qed

end
