(* ===== verification/AuthWitness.thy ===== *)
theory AuthWitness
  imports AuthPairingProps AuthSessionProps
begin

text \<open>The theorems on pairing tokens and sessions at concrete inputs.\<close>

section \<open>Pairing tokens\<close>

definition w_draws :: "nat \<Rightarrow> string + nat" where
  "w_draws i = Inr (i mod 31)"

definition w_sha :: "string \<Rightarrow> string" where
  "w_sha t = t"

definition any_size :: "'a \<Rightarrow> bool" where
  "any_size a = True"

definition w_paired :: pairing_log where
  "w_paired = pair_run any_size w_sha [(None, POpEnsure 100 w_draws)] (empty_file\<lparr>lf_faults := []\<rparr>)"

definition w_consume :: "(pair_err + PairingRecord) \<times> pairing_log" where
  "w_consume = ConsumePairing any_size None 200 ''1234-5678-9abc'' ''desktop-1'' w_paired"

lemma w_consume_facts:
  "map_sum (\<lambda>e. ()) PR_DisplayToken (fst w_consume) = Inr ''123456789ABC'' \<and>
   NormalizePairingToken ''123456789abc'' = Inr ''123456789ABC''"
  by code_simp

theorem pairing_token_single_use_witness:
  "fst (ConsumePairing any_size None 300 ''123456789abc'' ''desktop-2'' (snd w_consume)) \<in> range Inl"
proof -
  from w_consume_facts obtain r where "fst w_consume = Inr r" and d: "PR_DisplayToken r = ''123456789ABC''"
    by (cases "fst w_consume") auto
  then obtain s1 where r: "w_consume = (Inr r, s1)" by (metis prod.collapse)
  from w_consume_facts have n: "NormalizePairingToken ''123456789abc'' = Inr (PR_DisplayToken r)" using d by simp
  from r(1) have "ConsumePairing any_size None 200 ''1234-5678-9abc'' ''desktop-1''
      (pair_run any_size w_sha [(None, POpEnsure 100 w_draws)] (empty_file\<lparr>lf_faults := []\<rparr>)) = (Inr r, s1)"
    by (simp add: w_consume_def w_paired_def)
  from pairing_token_single_use [OF disjI1 [OF this] n, of None 300 "''desktop-2''" "[]"]
  show ?thesis by (simp add: r)
qed

definition w_create :: "(pair_err + IssuedPairing) \<times> pairing_log" where
  "w_create = CreatePairing any_size w_sha None 150 (\<lambda>_. w_draws) (RoleOther []) empty_file"

lemma w_create_facts:
  "map_sum (\<lambda>e. ()) (\<lambda>p. (IP_DisplayToken p, IP_Role p)) (fst w_create) = Inr (''123456789ABC'', PairingRoleClient) \<and>
   \<not> isl (loadPairings any_size None (snd w_create)) \<and> next_append_fault (snd w_create) = None \<and> TrimSpace ''d'' \<noteq> []"
  by code_simp

theorem issued_pairing_accepted_witness:
  "\<exists>r s2. ConsumePairing any_size None 200 ''123456789ABC'' ''d'' (snd w_create) = (Inr r, s2) \<and>
     PR_Role r = PairingRoleClient"
proof -
  have "length PairingAlphabet = 31" by code_simp
  then have f: "fair_draws w_draws" by (simp add: fair_draws_def w_draws_def)
  from w_create_facts obtain p where "fst w_create = Inr p" and d: "IP_DisplayToken p = ''123456789ABC''"
    "IP_Role p = PairingRoleClient" by (cases "fst w_create") auto
  then obtain s1 where p: "w_create = (Inr p, s1)" by (metis prod.collapse)
  from p have s1: "snd w_create = s1" by (metis snd_conv)
  from w_create_facts s1 obtain w where w: "loadPairings any_size None s1 = Inr w" "next_append_fault s1 = None"
    "TrimSpace ''d'' \<noteq> []" by (cases "loadPairings any_size None s1") auto
  from issued_pairing_accepted [OF f p [unfolded w_create_def] w, of 200] d s1 show ?thesis by auto
qed

section \<open>Sessions\<close>

definition w_secret :: secret_file where
  "w_secret = SecretDoc \<lparr>Sec_SchemaVersion = 1, Sec_Generation = 1, Sec_Secret = [],
     Sec_HexSecret = hexEncode (replicate 32 CHR ''s''), Sec_CreatedAt = 50, Sec_RotatedFrom = 0\<rparr>"

definition w_claims :: Claims where
  "w_claims = bearerClaims PairingRoleOwner ''sid_1'' 100 1"

definition w_codec :: token_codec where
  "w_codec = \<lparr>tc_marshal = (\<lambda>c. if c = w_claims then Inr ''claims'' else Inl ''unsupported''),
     tc_unmarshal = (\<lambda>b. if b = ''claims'' then Some w_claims else None), tc_hmac = (\<lambda>key m. key)\<rparr>"

definition w_svc :: SessionSvc where
  "w_svc = \<lparr>sv_secret = w_secret, sv_log = empty_file\<lparr>lf_faults := []\<rparr>, sv_sessions = []\<rparr>"

definition w_token :: string where
  "w_token = b64Encode ''claims'' @ CHR ''.'' # b64Encode (replicate 32 CHR ''s'')"

definition w_session :: SessionRecord where
  "w_session = newSession PairingRoleOwner ''sid_1'' 100 1"

definition w_issued :: SessionSvc where
  "w_issued = w_svc\<lparr>sv_log := \<lparr>lf_lines = [Record w_session], lf_tail = NoTail, lf_faults = []\<rparr>,
     sv_sessions := [(''sid_1'', w_session)]\<rparr>"

definition w_revoked :: SessionSvc where
  "w_revoked = snd (RevokeSession ''sid_1'' ''owner'' 300 w_issued)"

lemma w_codec_ok: "codec_ok w_codec"
  by (simp add: codec_ok_def w_codec_def split: if_split)

lemma w_secret_loads: "\<exists>d. loadSecret w_secret = Inr d \<and> Sec_Secret d = replicate 32 CHR ''s'' \<and> Sec_Generation d = 1"
proof -
  have "hexEncode (replicate 32 CHR ''s'') \<noteq> []" by (simp add: hexEncode_def)
  then show ?thesis by (simp add: loadSecret_def w_secret_def SecretSchemaVersion_def SecretByteLength_def)
qed

lemma w_issue: "IssueBearer w_codec PairingRoleOwner (Inr ''sid_1'') 100 w_svc =
   (Inr \<lparr>IB_Token = w_token, IB_SID = ''sid_1'', IB_Role = PairingRoleOwner, IB_IssuedAt = 100,
      IB_ExpiresAt = 100 + BearerTTL\<rparr>, w_issued)"
proof -
  have "Role_valid PairingRoleOwner" by code_simp
  have "validateSessionRecord w_session = None \<and> versionedSession w_session = w_session" by code_simp
  then have "appendSessionRecord w_session (empty_file\<lparr>lf_faults := []\<rparr>) =
      (None, \<lparr>lf_lines = [Record w_session], lf_tail = NoTail, lf_faults = []\<rparr>)"
    by (simp add: appendSessionRecord_def append_record_def append_line_def empty_file_def
        Let_def next_append_fault_def)
  with w_secret_loads \<open>Role_valid PairingRoleOwner\<close> show ?thesis
    by (auto simp: IssueBearer_def signClaims_def w_codec_def w_claims_def w_token_def w_issued_def w_svc_def
        w_session_def [symmetric])
qed

lemma w_verify: "verify w_codec TokenKindBearer 200 w_token w_issued = Inr w_claims"
proof -
  have "Split w_token (CHR ''.'') = [b64Encode ''claims'', b64Encode (replicate 32 CHR ''s'')]"
    unfolding w_token_def by (rule Split_two) (simp_all add: b64_plain)
  moreover have "w_token \<noteq> []" by (simp add: w_token_def)
  moreover have "sv_secret w_issued = w_secret" "map_of (sv_sessions w_issued) ''sid_1'' = Some w_session"
    "Ses_RevokedAt w_session = None"
    by (simp_all add: w_issued_def w_svc_def w_session_def newSession_def)
  moreover have "Cl_SchemaVersion w_claims = SessionSchemaVersion \<and> Cl_Kind w_claims = TokenKindBearer \<and>
     Cl_Generation w_claims = 1 \<and> \<not> Cl_IssuedAt w_claims > 200 + ClockSkewTolerance \<and>
     \<not> 200 > Cl_ExpiresAt w_claims + ClockSkewTolerance \<and> Cl_SID w_claims = ''sid_1''" by code_simp
  ultimately show ?thesis using w_secret_loads by (auto simp: verify_def w_codec_def)
qed

lemma w_revoke: "RevokeSession ''sid_1'' ''owner'' 300 w_issued = (Inr True, w_revoked)"
proof -
  have "\<not> isl (fst (RevokeSession ''sid_1'' ''owner'' 300 w_issued)) \<and>
     fst (RevokeSession ''sid_1'' ''owner'' 300 w_issued) = Inr True" by code_simp
  then show ?thesis by (simp add: w_revoked_def prod_eq_iff)
qed

lemma w_restart: "\<exists>s2. auth_run w_codec any_size [ARestart] w_revoked = Some s2"
proof -
  have "\<not> isl (loadSessionRecords any_size 1 (sv_log w_revoked))" by code_simp
  moreover have "sv_secret w_revoked = w_secret" by code_simp
  ultimately show ?thesis using w_secret_loads
    by (auto simp: NewSessionCredentialService_def isl_def split: sum.splits)
qed

theorem revoked_session_never_verifies_witness:
  "\<exists>s2. auth_run w_codec any_size [ARestart] w_revoked = Some s2 \<and>
     verify w_codec TokenKindBearer 500 w_token s2 \<notin> {Inr c |c. Cl_SID c = ''sid_1''}"
proof -
  from w_restart obtain s2 where s2: "auth_run w_codec any_size [ARestart] w_revoked = Some s2" by blast
  have run: "auth_run w_codec any_size [AIssue PairingRoleOwner (Inr ''sid_1'') 100]
      \<lparr>sv_secret = w_secret, sv_log = empty_file\<lparr>lf_faults := []\<rparr>, sv_sessions = []\<rparr> = Some w_issued"
    using w_issue by (simp add: w_svc_def)
  from revoked_session_never_verifies [OF run w_revoke s2, of TokenKindBearer 500 w_token] s2
  show ?thesis by simp
qed

theorem rotation_revokes_everything_witness:
  "verify w_codec TokenKindBearer 500 w_token
     (snd (RotateSecret 400 (Inr (replicate 32 CHR ''t'')) None w_issued)) \<in> range Inl"
proof -
  let ?r = "RotateSecret 400 (Inr (replicate 32 CHR ''t'')) None w_issued"
  have "sv_secret w_issued = w_secret" by (simp add: w_issued_def w_svc_def)
  then obtain snap s1 where r: "?r = (Inr snap, s1)" using w_secret_loads
    by (auto simp: RotateSecret_def Rotate_def createSecret_def Let_def)
  from rotation_revokes_everything [OF w_verify r, of any_size "[]"] show ?thesis by (simp add: r)
qed

theorem issued_bearer_verifies_witness:
  "VerifyBearer w_codec (100 + BearerTTL + 2 * ClockSkewTolerance) w_token w_issued = Inl AuthTokenExpired \<and>
   (\<exists>g. VerifyBearer w_codec 200 w_token w_issued = Inr (bearerClaims PairingRoleOwner ''sid_1'' 100 g))"
proof -
  have g: "ClockSkewTolerance > 0" "\<not> 200 + ClockSkewTolerance < 100" "\<not> 100 + BearerTTL + ClockSkewTolerance < 200"
    "\<not> 100 + BearerTTL + 2 * ClockSkewTolerance + ClockSkewTolerance < 100"
    by (simp_all add: ClockSkewTolerance_def BearerTTL_def nsPerSecond_def nsPerMinute_def)
  note th = issued_bearer_verifies [OF w_codec_ok w_issue]
  from th [of 200] th [of "100 + BearerTTL + 2 * ClockSkewTolerance"] g show ?thesis by auto
qed

end
