(* ===== verification/EventHub.thy ===== *)
theory EventHub
  imports GoPrelude
begin

text \<open>
  Package \<open>api\<close>, \<open>events.go\<close>: the hub that numbers the events of each channel, keeps a window of them
  for replay and hands them to subscribers over bounded Go channels; with the replay endpoint of
  \<open>router.go\<close> and its response in \<open>wire.go\<close>. The redactor, the JSON encoder, the clock and the random
  identifiers are arguments. \<open>'d\<close> is what producers put into events.
\<close>

definition eventSchemaVersion :: int where
  "eventSchemaVersion = 1"

definition defaultReplayCapacity :: int where
  "defaultReplayCapacity = 1024"

definition defaultSubscriberCapacity :: int where
  "defaultSubscriberCapacity = 64"

definition EventTypeEncodeError :: string where
  "EventTypeEncodeError = ''_encode_error''"

section \<open>Events\<close>

text \<open>The payloads: a producer's, or one of the maps the hub builds itself.\<close>

datatype 'd event_data = Payload 'd
  | EncodeErrorData string "string option" "string option"
  | LagData nat
  | GapData nat nat nat nat
  | HeartbeatData
  | CompatData int int

record 'd Event =
  Evt_EventID :: string
  Evt_SchemaVersion :: int
  Evt_Channel :: string
  Evt_Type :: string
  Evt_Sequence :: nat
  Evt_Time :: time
  Evt_Actor :: "'d option"
  Evt_CausationID :: string
  Evt_CorrelationID :: string
  Evt_Data :: "'d event_data"

record 'd PublishInput =
  Pub_Channel :: string
  Pub_Type :: string
  Pub_Actor :: "'d option"
  Pub_CausationID :: string
  Pub_CorrelationID :: string
  Pub_Data :: 'd

text \<open>What the hub is given: the redaction of data and actors, and the error of \<open>json.Marshal\<close>, if any.\<close>

record 'd hub_lib =
  hl_redactData :: "'d \<Rightarrow> 'd"
  hl_redactActor :: "'d \<Rightarrow> 'd"
  hl_marshalError :: "'d \<Rightarrow> string option"

section \<open>The hub\<close>

text \<open>
  The Go channel of a subscriber outlives its entry in the table: a publisher that took the
  subscriber before it was closed still sends to it. \<open>h_wire\<close> is what the connection of a
  subscriber has been sent.
\<close>

record 'd EventHub =
  h_replayCapacity :: nat
  h_subscriberCapacity :: nat
  h_sequences :: "(string \<times> nat) list"
  h_events :: "'d Event list"
  h_subscribers :: "(nat \<times> string list) list"
  h_nextSubscriberID :: nat
  h_queue :: "nat \<Rightarrow> 'd Event list"
  h_wire :: "nat \<Rightarrow> 'd Event list"

definition newEventHub :: "int \<Rightarrow> int \<Rightarrow> 'd EventHub" where
  "newEventHub replay subscriber =
     \<lparr>h_replayCapacity = nat (if replay \<le> 0 then defaultReplayCapacity else replay),
      h_subscriberCapacity = nat (if subscriber \<le> 0 then defaultSubscriberCapacity else subscriber),
      h_sequences = [], h_events = [], h_subscribers = [], h_nextSubscriberID = 0,
      h_queue = (\<lambda>_. []), h_wire = (\<lambda>_. [])\<rparr>"

definition LastSequence :: "string \<Rightarrow> 'd EventHub \<Rightarrow> nat" where
  "LastSequence ch h = (case map_of (h_sequences h) ch of None \<Rightarrow> 0 | Some n \<Rightarrow> n)"

definition nextSequence :: "string \<Rightarrow> 'd EventHub \<Rightarrow> nat \<times> 'd EventHub" where
  "nextSequence ch h = (let n = u64 (LastSequence ch h + 1) in
     (n, h\<lparr>h_sequences := AList.update ch n (h_sequences h)\<rparr>))"

definition wants :: "string \<Rightarrow> nat \<times> string list \<Rightarrow> bool" where
  "wants ch sub = (ch \<in> set (snd sub))"

text \<open>The part of \<open>Publish\<close> before the lock: defaults, redaction, and the marker for data that does not encode.\<close>

definition preparePublish :: "'d hub_lib \<Rightarrow> 'd PublishInput \<Rightarrow> string \<times> string \<times> 'd option \<times> 'd event_data" where
  "preparePublish lib inp =
     (let ch = (if Pub_Channel inp = [] then ''_system'' else Pub_Channel inp);
          ty = (if Pub_Type inp = [] then ''daemon.event'' else Pub_Type inp);
          d = hl_redactData lib (Pub_Data inp);
          a = map_option (hl_redactActor lib) (Pub_Actor inp);
          dErr = hl_marshalError lib d;
          aErr = (case a of None \<Rightarrow> None | Some x \<Rightarrow> hl_marshalError lib x)
      in if dErr \<noteq> None \<or> aErr \<noteq> None
         then (ch, EventTypeEncodeError, if aErr \<noteq> None then None else a, EncodeErrorData ty dErr aErr)
         else (ch, ty, a, Payload d))"

text \<open>The part under the lock: number the event, append it, cut the window, collect the subscribers.\<close>

definition publishLocked ::
  "'d hub_lib \<Rightarrow> 'd PublishInput \<Rightarrow> string \<Rightarrow> time \<Rightarrow> 'd EventHub \<Rightarrow> 'd Event \<times> nat list \<times> 'd EventHub" where
  "publishLocked lib inp eid now h =
     (case preparePublish lib inp of (ch, ty, a, d) \<Rightarrow>
      case nextSequence ch h of (n, h1) \<Rightarrow>
        let ev = \<lparr>Evt_EventID = eid, Evt_SchemaVersion = eventSchemaVersion, Evt_Channel = ch, Evt_Type = ty,
                  Evt_Sequence = n, Evt_Time = now, Evt_Actor = a, Evt_CausationID = Pub_CausationID inp,
                  Evt_CorrelationID = Pub_CorrelationID inp, Evt_Data = d\<rparr>;
            evs = h_events h1 @ [ev]
        in (ev, map fst (filter (wants ch) (h_subscribers h1)),
            h1\<lparr>h_events := drop (length evs - h_replayCapacity h1) evs\<rparr>))"

definition lagEvent :: "string \<Rightarrow> time \<Rightarrow> 'd Event \<Rightarrow> 'd Event" where
  "lagEvent eid now ev = \<lparr>Evt_EventID = eid, Evt_SchemaVersion = eventSchemaVersion, Evt_Channel = Evt_Channel ev,
     Evt_Type = ''_lag'', Evt_Sequence = Evt_Sequence ev, Evt_Time = now, Evt_Actor = None, Evt_CausationID = [],
     Evt_CorrelationID = [], Evt_Data = LagData (Evt_Sequence ev)\<rparr>"

text \<open>
  \<open>deliver\<close> is three operations on the Go channel, none of which blocks: offer the event; when the
  channel is full, discard its oldest element and offer a marker instead. Other goroutines may run
  between them. \<open>offer\<close> is a send with a \<open>default\<close> branch.
\<close>

definition offer :: "nat \<Rightarrow> 'a \<Rightarrow> 'a list \<Rightarrow> 'a list option" where
  "offer cap x q = (if length q < cap then Some (q @ [x]) else None)"

definition deliver :: "nat \<Rightarrow> 'd Event \<Rightarrow> 'd Event \<Rightarrow> 'd Event list \<Rightarrow> 'd Event list" where
  "deliver cap ev lag q = (case offer cap ev q of Some q' \<Rightarrow> q'
     | None \<Rightarrow> (case offer cap lag (tl q) of Some q' \<Rightarrow> q' | None \<Rightarrow> tl q))"

definition deliverTo :: "'d Event \<Rightarrow> nat \<times> 'd Event \<Rightarrow> 'd EventHub \<Rightarrow> 'd EventHub" where
  "deliverTo ev t h = h\<lparr>h_queue := (h_queue h)
     (fst t := deliver (h_subscriberCapacity h) ev (snd t) (h_queue h (fst t)))\<rparr>"

text \<open>\<open>Publish\<close> by itself: nobody else runs between its lock and the last delivery. \<open>lag i\<close> is the id and time of the marker for subscriber \<open>i\<close>.\<close>

definition Publish ::
  "'d hub_lib \<Rightarrow> 'd PublishInput \<Rightarrow> string \<Rightarrow> time \<Rightarrow> (nat \<Rightarrow> string \<times> time) \<Rightarrow> 'd EventHub \<Rightarrow> 'd Event \<times> 'd EventHub" where
  "Publish lib inp eid now lag h =
     (case publishLocked lib inp eid now h of (ev, subs, h1) \<Rightarrow>
        (ev, fold (deliverTo ev) (map (\<lambda>i. (i, lagEvent (fst (lag i)) (snd (lag i)) ev)) subs) h1))"

definition Subscribe :: "string list \<Rightarrow> 'd EventHub \<Rightarrow> nat \<times> 'd EventHub" where
  "Subscribe channels h =
     (let i = u64 (h_nextSubscriberID h + 1); chs = (if channels = [] then [''_system''] else channels)
      in (i, h\<lparr>h_nextSubscriberID := i, h_subscribers := AList.update i chs (h_subscribers h),
               h_queue := (h_queue h)(i := []), h_wire := (h_wire h)(i := [])\<rparr>))"

definition CloseSubscriber :: "nat \<Rightarrow> 'd EventHub \<Rightarrow> 'd EventHub" where
  "CloseSubscriber i h = h\<lparr>h_subscribers := AList.delete i (h_subscribers h)\<rparr>"

text \<open>One turn of the loop that streams a subscription: take the next event and send it.\<close>

definition streamNext :: "nat \<Rightarrow> 'd EventHub \<Rightarrow> 'd EventHub" where
  "streamNext i h = (case h_queue h i of [] \<Rightarrow> h
     | ev # q \<Rightarrow> h\<lparr>h_queue := (h_queue h)(i := q), h_wire := (h_wire h)(i := h_wire h i @ [ev])\<rparr>)"

section \<open>Publishers that interleave\<close>

text \<open>
  A goroutine in \<open>Publish\<close> after its lock: the event, the subscribers still to serve with their markers,
  and which of the three operations of \<open>deliver\<close> is next. A step is one operation on a Go channel.
\<close>

datatype phase = Offering | Discarding | Marking

record 'd publisher =
  pb_event :: "'d Event"
  pb_todo :: "(nat \<times> 'd Event) list"
  pb_phase :: phase

definition publisherStep :: "'d publisher \<Rightarrow> 'd EventHub \<Rightarrow> 'd publisher \<times> 'd EventHub" where
  "publisherStep p h = (case pb_todo p of [] \<Rightarrow> (p, h)
     | (i, lag) # rest \<Rightarrow>
       let q = h_queue h i; put = (\<lambda>q'. h\<lparr>h_queue := (h_queue h)(i := q')\<rparr>); cap = h_subscriberCapacity h
       in case pb_phase p of
         Offering \<Rightarrow> (case offer cap (pb_event p) q of Some q' \<Rightarrow> (p\<lparr>pb_todo := rest\<rparr>, put q')
            | None \<Rightarrow> (p\<lparr>pb_phase := Discarding\<rparr>, h))
       | Discarding \<Rightarrow> (p\<lparr>pb_phase := Marking\<rparr>, put (tl q))
       | Marking \<Rightarrow> (p\<lparr>pb_todo := rest, pb_phase := Offering\<rparr>,
            case offer cap lag q of Some q' \<Rightarrow> put q' | None \<Rightarrow> h))"

text \<open>
  \<open>hub_reach lib r s es h ps\<close>: the hub can come to \<open>h\<close> with the publishers \<open>ps\<close> under way, having
  numbered the events \<open>es\<close>. The order in which a publisher serves its subscribers is that of a Go map.
\<close>

inductive hub_reach ::
  "'d hub_lib \<Rightarrow> int \<Rightarrow> int \<Rightarrow> 'd Event list \<Rightarrow> 'd EventHub \<Rightarrow> 'd publisher list \<Rightarrow> bool" for lib r s where
  reach_new: "hub_reach lib r s [] (newEventHub r s) []"
| reach_publish: "hub_reach lib r s es h ps \<Longrightarrow> publishLocked lib inp eid now h = (ev, subs, h') \<Longrightarrow>
    distinct order \<Longrightarrow> set order = set subs \<Longrightarrow>
    hub_reach lib r s (es @ [ev]) h'
      (\<lparr>pb_event = ev, pb_todo = map (\<lambda>i. (i, lagEvent (fst (lag i)) (snd (lag i)) ev)) order, pb_phase = Offering\<rparr> # ps)"
| reach_deliver: "hub_reach lib r s es h ps \<Longrightarrow> k < length ps \<Longrightarrow> publisherStep (ps ! k) h = (p, h') \<Longrightarrow>
    hub_reach lib r s es h' (ps[k := p])"
| reach_subscribe: "hub_reach lib r s es h ps \<Longrightarrow> hub_reach lib r s es (snd (Subscribe chs h)) ps"
| reach_close: "hub_reach lib r s es h ps \<Longrightarrow> hub_reach lib r s es (CloseSubscriber i h) ps"
| reach_stream: "hub_reach lib r s es h ps \<Longrightarrow> hub_reach lib r s es (streamNext i h) ps"

section \<open>Replay\<close>

record 'd replayWindow =
  rw_Events :: "'d Event list"
  rw_Gap :: bool
  rw_OldestRetained :: nat
  rw_LastSequence :: nat

text \<open>One turn of the loop over the retained events: the collected ones and the least sequence so far.\<close>

definition windowStep :: "string \<Rightarrow> nat \<Rightarrow> 'd Event \<Rightarrow> 'd Event list \<times> nat \<Rightarrow> 'd Event list \<times> nat" where
  "windowStep ch since ev acc =
     (if Evt_Channel ev \<noteq> ch then acc
      else (if Evt_Sequence ev > since then fst acc @ [ev] else fst acc,
            if snd acc = 0 \<or> Evt_Sequence ev < snd acc then Evt_Sequence ev else snd acc))"

definition replayWindow :: "string \<Rightarrow> nat \<Rightarrow> 'd EventHub \<Rightarrow> 'd replayWindow" where
  "replayWindow ch since h =
     (case fold (windowStep ch since) (h_events h) ([], 0) of (out, oldest) \<Rightarrow>
        \<lparr>rw_Events = out,
         rw_Gap = (if since = 0 then False else if oldest > 0 then since < oldest - 1 else LastSequence ch h > since),
         rw_OldestRetained = oldest, rw_LastSequence = LastSequence ch h\<rparr>)"

definition Replay :: "string \<Rightarrow> nat \<Rightarrow> 'd EventHub \<Rightarrow> 'd Event list \<times> bool" where
  "Replay ch since h = (rw_Events (replayWindow ch since h), rw_Gap (replayWindow ch since h))"

record 'd ChannelSnapshot =
  cs_LastSequence :: nat
  cs_Cursor :: nat
  cs_Replayed :: "'d Event list"
  cs_Gap :: bool
  cs_Repair :: string

definition repairForGap :: "bool \<Rightarrow> string" where
  "repairForGap gap = (if gap then ''replayEvents'' else [])"

definition gapEvent :: "string \<Rightarrow> time \<Rightarrow> string \<Rightarrow> nat \<Rightarrow> 'd replayWindow \<Rightarrow> 'd Event" where
  "gapEvent eid now ch cursor w =
     \<lparr>Evt_EventID = eid, Evt_SchemaVersion = eventSchemaVersion, Evt_Channel = ch, Evt_Type = ''_gap'',
      Evt_Sequence = rw_LastSequence w, Evt_Time = now, Evt_Actor = None, Evt_CausationID = [],
      Evt_CorrelationID = [],
      Evt_Data = GapData (u64 (cursor + 1))
        (if rw_OldestRetained w > 0 then rw_OldestRetained w - 1 else rw_LastSequence w)
        (rw_OldestRetained w) (rw_LastSequence w)\<rparr>"

text \<open>\<open>cursors\<close> is a Go map; a channel that occurs twice is snapshot twice, the second time over the first.\<close>

definition snapshotChannel ::
  "(string \<times> nat) list \<Rightarrow> (string \<Rightarrow> string \<times> time) \<Rightarrow> 'd EventHub \<Rightarrow> string
     \<Rightarrow> (string \<times> 'd ChannelSnapshot) list \<times> 'd Event list \<Rightarrow> (string \<times> 'd ChannelSnapshot) list \<times> 'd Event list" where
  "snapshotChannel cursors stamp h ch acc =
     (let cursor = (case map_of cursors ch of None \<Rightarrow> 0 | Some n \<Rightarrow> n); w = replayWindow ch cursor h
      in (AList.update ch \<lparr>cs_LastSequence = rw_LastSequence w, cs_Cursor = cursor, cs_Replayed = rw_Events w,
            cs_Gap = rw_Gap w, cs_Repair = repairForGap (rw_Gap w)\<rparr> (fst acc),
          if rw_Gap w then snd acc @ [gapEvent (fst (stamp ch)) (snd (stamp ch)) ch cursor w] else snd acc))"

definition SnapshotWithGaps ::
  "string list \<Rightarrow> (string \<times> nat) list \<Rightarrow> (string \<Rightarrow> string \<times> time) \<Rightarrow> 'd EventHub
     \<Rightarrow> (string \<times> 'd ChannelSnapshot) list \<times> 'd Event list" where
  "SnapshotWithGaps channels cursors stamp h =
     fold (snapshotChannel cursors stamp h) (if channels = [] then [''_system''] else channels) ([], [])"

text \<open>Control events go to one connection and take the channel's current number without using it up.\<close>

definition transientEvent :: "string \<Rightarrow> time \<Rightarrow> string \<Rightarrow> string \<Rightarrow> 'd event_data \<Rightarrow> 'd EventHub \<Rightarrow> 'd Event" where
  "transientEvent eid now ch ty d h =
     \<lparr>Evt_EventID = eid, Evt_SchemaVersion = eventSchemaVersion, Evt_Channel = ch, Evt_Type = ty,
      Evt_Sequence = LastSequence ch h, Evt_Time = now, Evt_Actor = None, Evt_CausationID = [],
      Evt_CorrelationID = [], Evt_Data = d\<rparr>"

definition HubHeartbeat :: "string \<Rightarrow> time \<Rightarrow> 'd EventHub \<Rightarrow> 'd Event" where
  "HubHeartbeat eid now h = transientEvent eid now ''_system'' ''heartbeat'' HeartbeatData h"

definition CompatibilityWarning :: "string \<Rightarrow> time \<Rightarrow> int \<Rightarrow> 'd EventHub \<Rightarrow> 'd Event" where
  "CompatibilityWarning eid now v h =
     transientEvent eid now ''_system'' ''_compatibility_warning'' (CompatData v eventSchemaVersion) h"

section \<open>The replay endpoint\<close>

definition stringPtr :: "string \<Rightarrow> string option" where
  "stringPtr s = (if s = [] then None else Some s)"

record 'd WsEventEnvelope =
  We_EventId :: string
  We_SchemaVersion :: int
  We_Channel :: string
  We_Type :: string
  We_Sequence :: int
  We_Time :: time
  We_CausationId :: "string option"
  We_CorrelationId :: "string option"
  We_Data :: "'d event_data"

record 'd EventReplayResponse =
  Er_Channel :: string
  Er_Events :: "'d WsEventEnvelope list"
  Er_LatestSequence :: int
  Er_RetentionHorizon :: "int option"
  Er_Truncated :: bool

text \<open>The conversion \<open>int(n)\<close> of an unsigned number.\<close>

definition int_of_u64 :: "nat \<Rightarrow> int" where
  "int_of_u64 n = wrap64 (int n)"

definition eventEnvelope :: "'d Event \<Rightarrow> 'd WsEventEnvelope" where
  "eventEnvelope ev = \<lparr>We_EventId = Evt_EventID ev, We_SchemaVersion = Evt_SchemaVersion ev,
     We_Channel = Evt_Channel ev, We_Type = Evt_Type ev, We_Sequence = int_of_u64 (Evt_Sequence ev),
     We_Time = Evt_Time ev, We_CausationId = stringPtr (Evt_CausationID ev),
     We_CorrelationId = stringPtr (Evt_CorrelationID ev), We_Data = Evt_Data ev\<rparr>"

definition eventReplayResponse :: "'d replayWindow \<Rightarrow> string \<Rightarrow> 'd EventReplayResponse" where
  "eventReplayResponse w ch = \<lparr>Er_Channel = ch, Er_Events = map eventEnvelope (rw_Events w),
     Er_LatestSequence = int_of_u64 (rw_LastSequence w),
     Er_RetentionHorizon = (if rw_OldestRetained w > 0 then Some (int_of_u64 (rw_OldestRetained w)) else None),
     Er_Truncated = False\<rparr>"

text \<open>\<open>strconv.ParseUint\<close> in base 10 with 64 bits; \<open>None\<close> is its error.\<close>

definition ParseUint :: "string \<Rightarrow> nat option" where
  "ParseUint s = (if s \<noteq> [] \<and> list_all is_digit s \<and> digits_val s < 2 ^ 64 then Some (nat (digits_val s)) else None)"

definition parseSequence :: "string \<Rightarrow> nat option" where
  "parseSequence raw = (if raw = [] then Some 0 else ParseUint raw)"

datatype replay_err = MissingChannel | InvalidSince | NonMonotonicSince

definition handleEventReplay :: "string \<Rightarrow> string \<Rightarrow> 'd EventHub \<Rightarrow> replay_err + 'd EventReplayResponse" where
  "handleEventReplay channel since h =
     (if TrimSpace channel = [] then Inl MissingChannel
      else case parseSequence since of None \<Rightarrow> Inl InvalidSince
      | Some n \<Rightarrow> if n > LastSequence (TrimSpace channel) h then Inl NonMonotonicSince
          else Inr (eventReplayResponse (replayWindow (TrimSpace channel) n h) (TrimSpace channel)))"

definition validateCursorMap :: "(string \<times> nat) list \<Rightarrow> 'd EventHub \<Rightarrow> bool" where
  "validateCursorMap cursors h = list_all (\<lambda>c. \<not> snd c > LastSequence (fst c) h) cursors"

end
