(* ===== verification/EventHubProps.thy ===== *)
theory EventHubProps
  imports EventHub
begin

text \<open>
  The hub under any interleaving: what replay returns and when it reports a gap, what is bounded, and
  what a subscriber can miss.
\<close>

section \<open>Numbering and the window\<close>

abbreviation on_channel :: "string \<Rightarrow> 'd Event list \<Rightarrow> 'd Event list" where
  "on_channel ch \<equiv> filter (\<lambda>e. Evt_Channel e = ch)"

definition hub_ok :: "'d Event list \<Rightarrow> 'd EventHub \<Rightarrow> bool" where
  "hub_ok es h \<longleftrightarrow> 0 < h_replayCapacity h \<and> 0 < h_subscriberCapacity h \<and>
     h_events h = drop (length es - h_replayCapacity h) es \<and>
     (\<forall>ch. map Evt_Sequence (on_channel ch es) = [1..<Suc (length (on_channel ch es))] \<and>
           LastSequence ch h = length (on_channel ch es))"

lemma hub_ok_new: "hub_ok [] (newEventHub r s)"
  by (simp add: hub_ok_def newEventHub_def LastSequence_def defaultReplayCapacity_def defaultSubscriberCapacity_def)

text \<open>Only the locked part of \<open>Publish\<close> touches the numbering and the window.\<close>

definition same_log :: "'d EventHub \<Rightarrow> 'd EventHub \<Rightarrow> bool" where
  "same_log h h' \<longleftrightarrow> h_replayCapacity h' = h_replayCapacity h \<and> h_subscriberCapacity h' = h_subscriberCapacity h \<and>
     h_events h' = h_events h \<and> h_sequences h' = h_sequences h"

lemma same_log_ok: "same_log h h' \<Longrightarrow> hub_ok es h \<Longrightarrow> hub_ok es h'"
  by (simp add: same_log_def hub_ok_def LastSequence_def)

lemma same_log_refl [simp]: "same_log h h"
  by (simp add: same_log_def)

lemma same_log_trans: "same_log h h' \<Longrightarrow> same_log h' h'' \<Longrightarrow> same_log h h''"
  by (simp add: same_log_def)

lemma same_log_ops [simp]:
  "same_log h (snd (Subscribe chs h))" "same_log h (CloseSubscriber i h)" "same_log h (streamNext i h)"
  "same_log h (deliverTo ev t h)"
  by (simp_all add: same_log_def Subscribe_def Let_def CloseSubscriber_def streamNext_def deliverTo_def split: list.split)

lemma same_log_fold: "same_log h (fold (deliverTo ev) ts h)"
proof (induction ts arbitrary: h)
  case (Cons t ts)
  show ?case unfolding fold_simps comp_def by (rule same_log_trans [OF same_log_ops(4) Cons.IH])
qed simp

lemma publisherStep_log: "same_log h (snd (publisherStep p h))"
  by (auto simp: publisherStep_def same_log_def Let_def split: list.split prod.split phase.split option.split)

lemma LastSequence_next: "LastSequence c (snd (nextSequence ch h)) = (if c = ch then u64 (LastSequence ch h + 1) else LastSequence c h)"
  by (simp add: nextSequence_def Let_def LastSequence_def)

lemma publishLocked_facts:
  assumes "publishLocked lib inp eid now h = (ev, subs, h')"
  shows "Evt_Sequence ev = u64 (LastSequence (Evt_Channel ev) h + 1)"
    and "h_events h' = drop (length (h_events h @ [ev]) - h_replayCapacity h) (h_events h @ [ev])"
    and "LastSequence c h' = (if c = Evt_Channel ev then Evt_Sequence ev else LastSequence c h)"
    and "subs = map fst (filter (wants (Evt_Channel ev)) (h_subscribers h))"
    and "h_replayCapacity h' = h_replayCapacity h" "h_subscriberCapacity h' = h_subscriberCapacity h"
    and "h_queue h' = h_queue h" "h_wire h' = h_wire h" "h_subscribers h' = h_subscribers h"
    and "h_nextSubscriberID h' = h_nextSubscriberID h"
    and "\<forall>n. Evt_Data ev \<noteq> LagData n"
  using assms
  by (auto simp: publishLocked_def nextSequence_def preparePublish_def LastSequence_def Let_def
      split: prod.splits if_splits)

lemma window_snoc:
  "drop (length (drop (length es - cap) es @ [e]) - cap) (drop (length es - cap) es @ [e]) = drop (length (es @ [e]) - cap) (es @ [e])"
proof (cases "length es < cap")
  case True
  then show ?thesis by simp
next
  case False
  then show ?thesis by (cases "cap = 0") (auto simp: Suc_diff_le)
qed

lemma publish_ok:
  assumes "hub_ok es h" "publishLocked lib inp eid now h = (ev, subs, h')" "length es + 1 < 2 ^ 64"
  shows "hub_ok (es @ [ev]) h'"
proof -
  note f = publishLocked_facts [OF assms(2)]
  from assms(1) have l: "LastSequence c h = length (on_channel c es)"
    "map Evt_Sequence (on_channel c es) = [1..<Suc (length (on_channel c es))]" for c
    by (simp_all add: hub_ok_def)
  have "length (on_channel (Evt_Channel ev) es) \<le> length es" by simp
  with assms(3) have "length (on_channel (Evt_Channel ev) es) + 1 < 2 ^ 64" by linarith
  then have s: "Evt_Sequence ev = Suc (length (on_channel (Evt_Channel ev) es))"
    using f(1) l(1) by (simp add: u64_small)
  from assms(1) f(2) have "h_events h' = drop (length (es @ [ev]) - h_replayCapacity h) (es @ [ev])"
    unfolding hub_ok_def by (metis window_snoc)
  with assms(1) f(3,5,6) s l show ?thesis by (simp add: hub_ok_def)
qed

lemma reach_ok: "hub_reach lib r s es h ps \<Longrightarrow> length es < 2 ^ 64 \<Longrightarrow> hub_ok es h"
proof (induction rule: hub_reach.induct)
  case (reach_publish es h ps inp eid now ev subs h' order lag)
  then show ?case by (intro publish_ok [OF _ reach_publish.hyps(2)]) auto
next
  case (reach_deliver es h ps k p h')
  then show ?case by (metis publisherStep_log same_log_ok snd_conv)
qed (auto simp: hub_ok_new intro: same_log_ok [OF same_log_ops(1)] same_log_ok [OF same_log_ops(2)] same_log_ok [OF same_log_ops(3)])

section \<open>Replay\<close>

lemma windowStep_other: "fold (windowStep ch since) xs acc = fold (windowStep ch since) (on_channel ch xs) acc"
  by (induction xs arbitrary: acc) (simp_all add: windowStep_def)

lemma windowStep_run:
  "map Evt_Sequence xs = [Suc a..<Suc a + length xs] \<Longrightarrow> \<forall>x \<in> set xs. Evt_Channel x = ch \<Longrightarrow> o1 \<noteq> 0 \<longrightarrow> o1 \<le> Suc a \<Longrightarrow>
   fold (windowStep ch since) xs (out, o1) =
     (out @ drop (since - a) xs, if o1 = 0 \<and> xs \<noteq> [] then Suc a else o1)"
proof (induction xs arbitrary: a out o1)
  case (Cons x xs)
  from Cons.prems(1) have "[Suc a..<Suc a + length (x # xs)] = Suc a # [Suc (Suc a)..<Suc (Suc a) + length xs]"
    by (simp add: upt_rec)
  with Cons.prems(1) have x: "Evt_Sequence x = Suc a" "map Evt_Sequence xs = [Suc (Suc a)..<Suc (Suc a) + length xs]" by auto
  from Cons.prems(2) have c: "Evt_Channel x = ch" "\<forall>y \<in> set xs. Evt_Channel y = ch" by auto
  have w: "windowStep ch since x (out, o1) =
      (if Suc a > since then out @ [x] else out, if o1 = 0 then Suc a else o1)"
    using x(1) c(1) Cons.prems(3) by (auto simp: windowStep_def)
  show ?case
    unfolding fold_simps comp_def w
    by (subst Cons.IH [OF x(2) c(2)]) (use Cons.prems(3) in \<open>auto simp: drop_Cons' Suc_diff_Suc\<close>)
qed simp

lemma drop_eq_iff: "drop a xs = drop b xs \<longleftrightarrow> a = b \<or> (length xs \<le> a \<and> length xs \<le> b)"
proof
  assume "drop a xs = drop b xs"
  then have "length xs - a = length xs - b" by (metis length_drop)
  then show "a = b \<or> (length xs \<le> a \<and> length xs \<le> b)" by linarith
qed auto

lemma replay_window:
  assumes "hub_ok es h"
  obtains j where "j \<le> length (on_channel ch es)" "length es \<le> h_replayCapacity h \<Longrightarrow> j = 0"
    "\<And>since. replayWindow ch since h = \<lparr>rw_Events = drop (max j since) (on_channel ch es),
       rw_Gap = (if since = 0 then False else if j < length (on_channel ch es) then since < j else since < length (on_channel ch es)),
       rw_OldestRetained = (if j < length (on_channel ch es) then Suc j else 0),
       rw_LastSequence = length (on_channel ch es)\<rparr>"
proof -
  let ?k = "length es - h_replayCapacity h" let ?evs = "on_channel ch es"
  define j where "j = length (on_channel ch (take ?k es))"
  have split: "?evs = on_channel ch (take ?k es) @ on_channel ch (drop ?k es)"
    by (metis append_take_drop_id filter_append)
  then have kept: "on_channel ch (drop ?k es) = drop j ?evs" and j: "j \<le> length ?evs" by (simp_all add: j_def)
  from assms have ev: "h_events h = drop ?k es" and seq: "map Evt_Sequence ?evs = [1..<Suc (length ?evs)]"
    and last: "LastSequence ch h = length ?evs" by (simp_all add: hub_ok_def)
  have "map Evt_Sequence (drop j ?evs) = [Suc j..<Suc j + length (drop j ?evs)]"
    using j by (simp add: drop_map [symmetric] seq drop_upt del: upt_Suc)
  moreover have "\<forall>x \<in> set (drop j ?evs). Evt_Channel x = ch" by (auto dest: in_set_dropD)
  ultimately have "fold (windowStep ch since) (drop j ?evs) ([], 0) =
      ([] @ drop (since - j) (drop j ?evs), if (0::nat) = 0 \<and> drop j ?evs \<noteq> [] then Suc j else 0)" for since
    by (rule windowStep_run) simp
  moreover have "since - j + j = max j since" for since by (simp add: max_def)
  ultimately have "fold (windowStep ch since) (h_events h) ([], 0) =
      (drop (max j since) ?evs, if j < length ?evs then Suc j else 0)" for since
    unfolding ev by (subst windowStep_other) (simp only: kept drop_drop append_Nil, simp)
  then have "replayWindow ch since h = \<lparr>rw_Events = drop (max j since) ?evs,
       rw_Gap = (if since = 0 then False else if j < length ?evs then since < j else since < length ?evs),
       rw_OldestRetained = (if j < length ?evs then Suc j else 0), rw_LastSequence = length ?evs\<rparr>" for since
    by (simp add: replayWindow_def last)
  moreover have "length es \<le> h_replayCapacity h \<Longrightarrow> j = 0" by (simp add: j_def)
  ultimately show ?thesis using that j by blast
qed

text \<open>
  C23. Replay under any interleaving of publishers, subscribers and deliveries: the events numbered on a
  channel carry 1, 2, 3 and so on; the window holds the events after the cursor up to a lost prefix,
  which is empty until the buffer has overflowed; it reports a gap exactly when the cursor is above
  zero and the prefix is not empty, and then the gap event names exactly the lost numbers. (For the
  cursor zero no gap is ever reported, whatever is lost.)
\<close>

theorem hub_replay_exact:
  assumes "hub_reach lib r s es h ps" "length es < 2 ^ 64"
  shows "let evs = on_channel ch es; w = replayWindow ch since h in
    map Evt_Sequence evs = [1..<Suc (length evs)] \<and> rw_LastSequence w = length evs \<and>
    (\<exists>lost. drop since evs = lost @ rw_Events w \<and> (length es \<le> h_replayCapacity h \<longrightarrow> lost = []) \<and>
      (rw_Gap w \<longleftrightarrow> 0 < since \<and> lost \<noteq> []) \<and>
      (rw_Gap w \<longrightarrow> (\<exists>from to. Evt_Data (gapEvent eid now ch since w) = GapData from to (rw_OldestRetained w) (rw_LastSequence w) \<and>
         map Evt_Sequence lost = [from..<Suc to])))"
proof -
  let ?evs = "on_channel ch es" and ?w = "replayWindow ch since h"
  from reach_ok [OF assms] have ok: "hub_ok es h" .
  then have seq: "map Evt_Sequence ?evs = [1..<Suc (length ?evs)]" by (simp add: hub_ok_def)
  have "length ?evs \<le> length es" by simp
  with assms(2) have small: "length ?evs < 2 ^ 64" by linarith
  from replay_window [OF ok] obtain j where j: "j \<le> length ?evs" "length es \<le> h_replayCapacity h \<Longrightarrow> j = 0"
    and w: "replayWindow ch since h = \<lparr>rw_Events = drop (max j since) ?evs,
       rw_Gap = (if since = 0 then False else if j < length ?evs then since < j else since < length ?evs),
       rw_OldestRetained = (if j < length ?evs then Suc j else 0), rw_LastSequence = length ?evs\<rparr>" by metis
  let ?lost = "take (j - since) (drop since ?evs)"
  have evs: "rw_Events ?w = drop (max j since) ?evs" and last: "rw_LastSequence ?w = length ?evs"
    by (simp_all add: w)
  have "drop (j - since) (drop since ?evs) = drop (max j since) ?evs" by (simp add: max_def)
  then have split: "drop since ?evs = ?lost @ rw_Events ?w" by (metis evs append_take_drop_id)
  have gap: "rw_Gap ?w \<longleftrightarrow> 0 < since \<and> ?lost \<noteq> []" using j(1) unfolding w by auto
  have named: "\<exists>from to. Evt_Data (gapEvent eid now ch since ?w) = GapData from to (rw_OldestRetained ?w) (rw_LastSequence ?w) \<and>
      map Evt_Sequence ?lost = [from..<Suc to]" if "rw_Gap ?w"
  proof -
    from that gap have g: "0 < since" "since < j" by auto
    have "map Evt_Sequence ?lost = [Suc since..<Suc j]"
      using g j(1) by (simp add: take_map [symmetric] drop_map [symmetric] seq drop_upt take_upt del: upt_Suc)
    moreover have "u64 (since + 1) = Suc since" using g j(1) small by (simp add: u64_small)
    ultimately show ?thesis using g j(1)
      by (intro exI [of _ "Suc since"] exI [of _ j]) (auto simp: gapEvent_def w max_def)
  qed
  show ?thesis unfolding Let_def using seq last split gap named j(2) by (intro conjI exI [of _ ?lost]) simp_all
qed

section \<open>What the queues hold\<close>

definition genuine :: "'d Event list \<Rightarrow> 'd Event set" where
  "genuine es = set es \<union> {lagEvent i t e |i t e. e \<in> set es}"

definition queues_ok :: "'d Event list \<Rightarrow> 'd EventHub \<Rightarrow> 'd publisher list \<Rightarrow> bool" where
  "queues_ok es h ps \<longleftrightarrow>
     (\<forall>i. length (h_queue h i) \<le> h_subscriberCapacity h \<and> set (h_queue h i) \<union> set (h_wire h i) \<subseteq> genuine es) \<and>
     (\<forall>p \<in> set ps. pb_event p \<in> set es \<and> (\<forall>t \<in> set (pb_todo p). snd t \<in> genuine es))"

lemma genuine_mono: "genuine es \<subseteq> genuine (es @ [ev])"
  by (auto simp: genuine_def)

lemma genuine_event: "e \<in> set es \<Longrightarrow> e \<in> genuine es"
  by (simp add: genuine_def)

lemma offer_Some: "offer cap x q = Some q' \<Longrightarrow> q' = q @ [x] \<and> length q' \<le> cap"
  by (auto simp: offer_def split: if_splits)

text \<open>A step on a channel: the queue of one subscriber is replaced by one that the publisher may have.\<close>

lemma publisherStep_cases:
  assumes "publisherStep p h = (p', h')"
  obtains (none) "h' = h" "pb_event p' = pb_event p" "set (pb_todo p') \<subseteq> set (pb_todo p)"
  | (put) i q where "h' = h\<lparr>h_queue := (h_queue h)(i := q)\<rparr>" "pb_event p' = pb_event p" "set (pb_todo p') \<subseteq> set (pb_todo p)"
      "length q \<le> max (h_subscriberCapacity h) (length (h_queue h i))"
      "set q \<subseteq> insert (pb_event p) (snd ` set (pb_todo p)) \<union> set (h_queue h i)"
proof (cases "pb_todo p")
  case Nil
  with assms none show ?thesis by (simp add: publisherStep_def)
next
  case (Cons t rest)
  obtain i lag where t: "t = (i, lag)" by (cases t)
  show ?thesis
  proof (cases "pb_phase p")
    case Offering
    show ?thesis
    proof (cases "offer (h_subscriberCapacity h) (pb_event p) (h_queue h i)")
      case None
      with assms Cons t Offering show ?thesis by (intro none) (auto simp: publisherStep_def Let_def)
    next
      case (Some q)
      with assms Cons t Offering offer_Some [OF Some] show ?thesis
        by (intro put [of i q]) (auto simp: publisherStep_def Let_def)
    qed
  next
    case Discarding
    have "set (tl (h_queue h i)) \<subseteq> set (h_queue h i)" by (cases "h_queue h i") auto
    with assms Cons t Discarding show ?thesis
      by (intro put [of i "tl (h_queue h i)"]) (auto simp: publisherStep_def Let_def)
  next
    case Marking
    show ?thesis
    proof (cases "offer (h_subscriberCapacity h) lag (h_queue h i)")
      case None
      with assms Cons t Marking show ?thesis by (intro none) (auto simp: publisherStep_def Let_def)
    next
      case (Some q)
      with assms Cons t Marking offer_Some [OF Some] show ?thesis
        by (intro put [of i q]) (auto simp: publisherStep_def Let_def)
    qed
  qed
qed

lemma queues_okD:
  assumes "queues_ok es h ps"
  shows "length (h_queue h i) \<le> h_subscriberCapacity h" "e \<in> set (h_queue h i) \<Longrightarrow> e \<in> genuine es"
    "e \<in> set (h_wire h i) \<Longrightarrow> e \<in> genuine es" "p \<in> set ps \<Longrightarrow> pb_event p \<in> set es"
    "p \<in> set ps \<Longrightarrow> t \<in> set (pb_todo p) \<Longrightarrow> snd t \<in> genuine es"
  using assms unfolding queues_ok_def by blast+

lemma queues_okI:
  assumes "\<And>i. length (h_queue h i) \<le> h_subscriberCapacity h" "\<And>i e. e \<in> set (h_queue h i) \<Longrightarrow> e \<in> genuine es"
    "\<And>i e. e \<in> set (h_wire h i) \<Longrightarrow> e \<in> genuine es" "\<And>p. p \<in> set ps \<Longrightarrow> pb_event p \<in> set es"
    "\<And>p t. p \<in> set ps \<Longrightarrow> t \<in> set (pb_todo p) \<Longrightarrow> snd t \<in> genuine es"
  shows "queues_ok es h ps"
  using assms unfolding queues_ok_def by blast

lemma queues_ok_deliver:
  assumes "queues_ok es h ps" "k < length ps" "publisherStep (ps ! k) h = (p, h')"
  shows "queues_ok es h' (ps[k := p])"
proof -
  note D = queues_okD [OF assms(1)]
  from assms(2) have k: "ps ! k \<in> set ps" by simp
  have c: "h_subscriberCapacity h' = h_subscriberCapacity h" using publisherStep_log [of h "ps ! k"] assms(3)
    by (simp add: same_log_def)
  have p: "pb_event p = pb_event (ps ! k) \<and> set (pb_todo p) \<subseteq> set (pb_todo (ps ! k))"
    using assms(3) by (cases rule: publisherStep_cases) simp_all
  have ps: "x \<in> set (ps[k := p]) \<Longrightarrow> x = p \<or> x \<in> set ps" for x using set_update_subset_insert by fast
  have wire: "h_wire h' = h_wire h" using assms(3) by (cases rule: publisherStep_cases) simp_all
  have q: "length (h_queue h' i) \<le> h_subscriberCapacity h \<and> set (h_queue h' i) \<subseteq> genuine es" for i
    using assms(3)
  proof (cases rule: publisherStep_cases)
    case none
    then show ?thesis using D(1,2) by auto
  next
    case (put j q)
    have "set q \<subseteq> genuine es" using put(5) D(2) D(5) [OF k] genuine_event [OF D(4) [OF k]] by fastforce
    moreover have "length q \<le> h_subscriberCapacity h" using put(4) D(1) [of j] by simp
    ultimately show ?thesis using put(1) D(1,2) by auto
  qed
  show ?thesis
  proof (rule queues_okI)
    fix x assume "x \<in> set (ps[k := p])"
    from ps [OF this] show "pb_event x \<in> set es" using p D(4) k by auto
  next
    fix x t assume "x \<in> set (ps[k := p])" "t \<in> set (pb_todo x)"
    with ps [OF this(1)] show "snd t \<in> genuine es" using p D(5) k by blast
  qed (use q D(3) in \<open>auto simp: c wire\<close>)
qed

lemma queues_ok_publish:
  assumes "queues_ok es h ps" "publishLocked lib inp eid now h = (ev, subs, h')"
  shows "queues_ok (es @ [ev]) h' (\<lparr>pb_event = ev, pb_todo = map (\<lambda>i. (i, lagEvent (fst (lag i)) (snd (lag i)) ev)) order,
    pb_phase = Offering\<rparr> # ps)"
proof -
  note D = queues_okD [OF assms(1)] and f = publishLocked_facts [OF assms(2)]
  have g: "lagEvent a b ev \<in> genuine (es @ [ev])" for a b by (auto simp: genuine_def)
  have m: "e \<in> genuine es \<Longrightarrow> e \<in> genuine (es @ [ev])" for e using genuine_mono by blast
  show ?thesis
  proof (rule queues_okI)
    fix p t assume "p \<in> set (\<lparr>pb_event = ev, pb_todo = map (\<lambda>i. (i, lagEvent (fst (lag i)) (snd (lag i)) ev)) order,
      pb_phase = Offering\<rparr> # ps)" "t \<in> set (pb_todo p)"
    then show "snd t \<in> genuine (es @ [ev])" using m [OF D(5) [of p t]] g by auto
  qed (use D f m in \<open>auto simp: f(6,7,8)\<close>)
qed

lemma reach_queues: "hub_reach lib r s es h ps \<Longrightarrow> queues_ok es h ps"
proof (induction rule: hub_reach.induct)
  case reach_new
  then show ?case by (simp add: queues_ok_def newEventHub_def)
next
  case (reach_publish es h ps inp eid now ev subs h' order lag)
  then show ?case by (intro queues_ok_publish)
next
  case (reach_deliver es h ps k p h')
  then show ?case by (intro queues_ok_deliver)
next
  case (reach_subscribe es h ps chs)
  then show ?case by (auto simp: queues_ok_def Subscribe_def Let_def)
next
  case (reach_close es h ps i)
  then show ?case by (simp add: queues_ok_def CloseSubscriber_def)
next
  case (reach_stream es h ps i)
  note D = queues_okD [OF reach_stream.IH]
  show ?case
  proof (cases "h_queue h i")
    case Nil
    with reach_stream.IH show ?thesis by (simp add: streamNext_def)
  next
    case (Cons e q)
    with D(1) [of i] D(2) [of _ i] have "length q \<le> h_subscriberCapacity h" "e \<in> genuine es" "\<And>x. x \<in> set q \<Longrightarrow> x \<in> genuine es"
      by auto
    then show ?thesis using Cons by (intro queues_okI) (use D in \<open>auto simp: streamNext_def split: if_splits\<close>)
  qed
qed

text \<open>
  Memory is bounded whatever publishers interleave: a subscriber's channel never holds more than its
  capacity and the window never more than the replay capacity; and a connection is only ever sent
  events that were numbered, or lag markers that name one of them.
\<close>

theorem hub_memory_bounded:
  assumes "hub_reach lib r s es h ps" "length es < 2 ^ 64"
  shows "length (h_queue h i) \<le> h_subscriberCapacity h \<and> length (h_events h) \<le> h_replayCapacity h \<and>
    (\<forall>e \<in> set (h_wire h i). e \<in> set es \<or> (\<exists>x \<in> set es. Evt_Data e = LagData (Evt_Sequence x) \<and> Evt_Channel e = Evt_Channel x))"
proof -
  note D = queues_okD [OF reach_queues [OF assms(1)]]
  have "e \<in> set es \<or> (\<exists>x \<in> set es. Evt_Data e = LagData (Evt_Sequence x) \<and> Evt_Channel e = Evt_Channel x)"
    if "e \<in> set (h_wire h i)" for e
    using D(3) [OF that] by (auto simp: genuine_def lagEvent_def)
  moreover have "length (h_events h) \<le> h_replayCapacity h"
    using reach_ok [OF assms] by (simp add: hub_ok_def)
  ultimately show ?thesis using D(1) by blast
qed

end
