(* ===== verification/EventStream.thy ===== *)
theory EventStream
  imports EventHubProps
begin

text \<open>
  What a connection can miss. While publishers do not overlap, a client that subscribes to one channel,
  takes a snapshot and then reads its stream has every event, or is told of the loss. Overlapping
  publishers, and subscriptions to several channels, break this.
\<close>

section \<open>Operations\<close>

datatype 'd hub_op = HPublish "'d PublishInput" string time "nat \<Rightarrow> string \<times> time" | HSubscribe "string list"
  | HClose nat | HStream nat

fun hub_exec :: "'d hub_lib \<Rightarrow> 'd hub_op \<Rightarrow> 'd EventHub \<Rightarrow> 'd EventHub" where
  "hub_exec lib (HPublish inp eid now lag) h = snd (Publish lib inp eid now lag h)"
| "hub_exec lib (HSubscribe chs) h = snd (Subscribe chs h)"
| "hub_exec lib (HClose i) h = CloseSubscriber i h"
| "hub_exec lib (HStream i) h = streamNext i h"

abbreviation hub_run :: "'d hub_lib \<Rightarrow> 'd hub_op list \<Rightarrow> 'd EventHub \<Rightarrow> 'd EventHub" where
  "hub_run lib \<equiv> fold (hub_exec lib)"

text \<open>The events a run publishes.\<close>

fun op_log :: "'d hub_lib \<Rightarrow> 'd hub_op \<Rightarrow> 'd EventHub \<Rightarrow> 'd Event list" where
  "op_log lib (HPublish inp eid now lag) h = [fst (Publish lib inp eid now lag h)]"
| "op_log lib _ h = []"

fun hub_log :: "'d hub_lib \<Rightarrow> 'd hub_op list \<Rightarrow> 'd EventHub \<Rightarrow> 'd Event list" where
  "hub_log lib [] h = []"
| "hub_log lib (x # xs) h = op_log lib x h @ hub_log lib xs (hub_exec lib x h)"

lemma hub_log_append: "hub_log lib (xs @ ys) h = hub_log lib xs h @ hub_log lib ys (hub_run lib xs h)"
  by (induction xs arbitrary: h) simp_all

lemma length_hub_log: "length (hub_log lib xs h) \<le> length xs"
proof (induction xs arbitrary: h)
  case (Cons x xs)
  have "length (op_log lib x h) \<le> 1" by (cases x) simp_all
  with Cons [of "hub_exec lib x h"] show ?case by simp
qed simp

section \<open>One delivery\<close>

lemma Publish_parts:
  obtains subs h1 where "publishLocked lib inp eid now h = (fst (Publish lib inp eid now lag h), subs, h1)"
    "snd (Publish lib inp eid now lag h) = fold (deliverTo (fst (Publish lib inp eid now lag h)))
       (map (\<lambda>i. (i, lagEvent (fst (lag i)) (snd (lag i)) (fst (Publish lib inp eid now lag h)))) subs) h1"
  by (cases "publishLocked lib inp eid now h") (auto simp: Publish_def)

lemma deliverTo_fields [simp]:
  "h_subscriberCapacity (deliverTo ev t h) = h_subscriberCapacity h" "h_wire (deliverTo ev t h) = h_wire h"
  "h_subscribers (deliverTo ev t h) = h_subscribers h" "h_nextSubscriberID (deliverTo ev t h) = h_nextSubscriberID h"
  "h_queue (deliverTo ev t h) i = (if i = fst t then deliver (h_subscriberCapacity h) ev (snd t) (h_queue h i) else h_queue h i)"
  by (simp_all add: deliverTo_def)

lemma deliver_fields [simp]:
  "h_subscriberCapacity (fold (deliverTo ev) ts h) = h_subscriberCapacity h" "h_wire (fold (deliverTo ev) ts h) = h_wire h"
  "h_subscribers (fold (deliverTo ev) ts h) = h_subscribers h"
  "h_nextSubscriberID (fold (deliverTo ev) ts h) = h_nextSubscriberID h"
  by (induction ts arbitrary: h) simp_all

lemma deliver_queue:
  "distinct (map fst ts) \<Longrightarrow> h_queue (fold (deliverTo ev) ts h) i =
     (case map_of ts i of None \<Rightarrow> h_queue h i | Some lag \<Rightarrow> deliver (h_subscriberCapacity h) ev lag (h_queue h i))"
proof (induction ts arbitrary: h)
  case (Cons t ts)
  then have "i = fst t \<Longrightarrow> map_of ts i = None" by (simp add: map_of_eq_None_iff)
  with Cons show ?case by (cases t) (auto split: option.split)
qed simp

section \<open>A subscription to one channel\<close>

text \<open>Every event of the channel since the subscription is on the wire or queued, or a marker at or after it is.\<close>

definition seen :: "nat \<Rightarrow> 'd EventHub \<Rightarrow> 'd Event set" where
  "seen i h = set (h_wire h i) \<union> set (h_queue h i)"

definition accounted :: "'d Event set \<Rightarrow> 'd Event \<Rightarrow> bool" where
  "accounted S e \<longleftrightarrow> e \<in> S \<or> (\<exists>m \<in> S. \<exists>n. Evt_Data m = LagData n \<and> Evt_Channel m = Evt_Channel e \<and> Evt_Sequence e \<le> n)"

definition follows :: "nat \<Rightarrow> string \<Rightarrow> 'd Event list \<Rightarrow> 'd Event list \<Rightarrow> nat \<Rightarrow> 'd EventHub \<Rightarrow> bool" where
  "follows i ch es0 es budget h \<longleftrightarrow>
     hub_ok (es0 @ es) h \<and> map_of (h_subscribers h) i = Some [ch] \<and> distinct (keys (h_subscribers h)) \<and>
     i \<le> h_nextSubscriberID h \<and> h_nextSubscriberID h + budget < 2 ^ 64 \<and> length (es0 @ es) + budget < 2 ^ 64 \<and>
     (\<forall>e \<in> set es. Evt_Channel e = ch \<longrightarrow> accounted (seen i h) e)"

lemma followsD:
  assumes "follows i ch es0 es n h"
  shows "hub_ok (es0 @ es) h" "map_of (h_subscribers h) i = Some [ch]" "distinct (keys (h_subscribers h))"
    "i \<le> h_nextSubscriberID h" "h_nextSubscriberID h + n < 2 ^ 64" "length (es0 @ es) + n < 2 ^ 64"
    "e \<in> set es \<Longrightarrow> Evt_Channel e = ch \<Longrightarrow> accounted (seen i h) e"
  using assms unfolding follows_def by blast+

lemma hub_ok_bound: "hub_ok es h \<Longrightarrow> e \<in> set es \<Longrightarrow> Evt_Sequence e \<le> LastSequence (Evt_Channel e) h"
proof -
  assume ok: "hub_ok es h" and e: "e \<in> set es"
  let ?c = "on_channel (Evt_Channel e) es"
  from e have "Evt_Sequence e \<in> set (map Evt_Sequence ?c)" by auto
  moreover from ok have "map Evt_Sequence ?c = [1..<Suc (length ?c)]" "LastSequence (Evt_Channel e) h = length ?c"
    by (simp_all add: hub_ok_def)
  ultimately show ?thesis by auto
qed

lemma accounted_mono: "S \<subseteq> T \<Longrightarrow> accounted S e \<Longrightarrow> accounted T e"
  unfolding accounted_def by blast

text \<open>The step that can lose an event: delivering to a full queue.\<close>

lemma deliver_accounts:
  assumes "0 < cap" "length q \<le> cap" "Evt_Sequence e \<le> Evt_Sequence ev" "Evt_Channel e = Evt_Channel ev"
    and "e = ev \<or> accounted (set w \<union> set q) e"
  shows "accounted (set w \<union> set (deliver cap ev (lagEvent a b ev) q)) e"
proof (cases "length q < cap")
  case True
  then have "set (deliver cap ev (lagEvent a b ev) q) = insert ev (set q)" by (simp add: deliver_def offer_def)
  with assms(5) show ?thesis unfolding accounted_def by auto
next
  case False
  with assms(1,2) have "q \<noteq> []" "length (tl q) < cap" by auto
  with False have "lagEvent a b ev \<in> set (deliver cap ev (lagEvent a b ev) q)" by (simp add: deliver_def offer_def)
  moreover have "Evt_Data (lagEvent a b ev) = LagData (Evt_Sequence ev)" "Evt_Channel (lagEvent a b ev) = Evt_Channel ev"
    by (simp_all add: lagEvent_def)
  ultimately show ?thesis using assms(3,4) unfolding accounted_def by auto
qed

lemma follows_publish:
  assumes "follows i ch es0 es (Suc n) h" "\<forall>j. length (h_queue h j) \<le> h_subscriberCapacity h"
  shows "follows i ch es0 (es @ op_log lib (HPublish inp eid now lag) h) n (hub_exec lib (HPublish inp eid now lag) h)"
proof -
  note D = followsD [OF assms(1)]
  let ?ev = "fst (Publish lib inp eid now lag h)" and ?h = "snd (Publish lib inp eid now lag h)"
  obtain subs h1 where p: "publishLocked lib inp eid now h = (?ev, subs, h1)"
    and h: "?h = fold (deliverTo ?ev) (map (\<lambda>i. (i, lagEvent (fst (lag i)) (snd (lag i)) ?ev)) subs) h1"
    by (rule Publish_parts)
  note f = publishLocked_facts [OF p]
  from publish_ok [OF D(1) p] D(6) have ok1: "hub_ok (es0 @ (es @ [?ev])) h1" by simp
  then have ok: "hub_ok (es0 @ (es @ [?ev])) ?h" unfolding h by (rule same_log_ok [OF same_log_fold])
  from ok1 have cap: "0 < h_subscriberCapacity h1" by (simp add: hub_ok_def)
  have subs: "distinct subs" using D(3) f(4) by (simp add: distinct_map_filter)
  then have q: "h_queue ?h i = (if i \<in> set subs then deliver (h_subscriberCapacity h1) ?ev
      (lagEvent (fst (lag i)) (snd (lag i)) ?ev) (h_queue h i) else h_queue h i)"
    unfolding h using f(7) by (subst deliver_queue) (auto simp: comp_def map_of_map_restrict)
  have wire: "h_wire ?h = h_wire h" unfolding h using f(8) by simp
  have acc: "accounted (seen i ?h) e" if e: "e \<in> set (es @ [?ev])" "Evt_Channel e = ch" for e
  proof (cases "i \<in> set subs")
    case False
    have "Evt_Channel ?ev \<noteq> ch"
    proof
      assume "Evt_Channel ?ev = ch"
      moreover have "(i, [ch]) \<in> set (h_subscribers h)" using D(2) by (rule map_of_SomeD)
      ultimately show False using False f(4) by (force simp: wants_def)
    qed
    with e have "e \<in> set es" by auto
    from D(7) [OF this e(2)] show ?thesis using False by (simp add: seen_def q wire)
  next
    case True
    then obtain chs where "(i, chs) \<in> set (h_subscribers h)" "Evt_Channel ?ev \<in> set chs"
      using f(4) by (auto simp: wants_def)
    with D(2,3) have c: "Evt_Channel ?ev = ch" by (auto simp: map_of_is_SomeI)
    have "Evt_Sequence e \<le> LastSequence (Evt_Channel e) h1" by (rule hub_ok_bound [OF ok1]) (use e(1) in auto)
    with f(3) c e(2) have le: "Evt_Sequence e \<le> Evt_Sequence ?ev" by simp
    have "e = ?ev \<or> accounted (set (h_wire h i) \<union> set (h_queue h i)) e"
      using D(7) [of e] e by (auto simp: seen_def)
    from deliver_accounts [OF cap _ le _ this] assms(2) f(6) c e(2) True show ?thesis
      by (simp add: seen_def q wire)
  qed
  have "h_nextSubscriberID ?h = h_nextSubscriberID h" "h_subscribers ?h = h_subscribers h"
    unfolding h using f(9,10) by simp_all
  with ok D acc show ?thesis by (simp add: follows_def)
qed

lemma follows_exec:
  assumes "follows i ch es0 es (Suc n) h" "\<forall>j. length (h_queue h j) \<le> h_subscriberCapacity h" "x \<noteq> HClose i"
  shows "follows i ch es0 (es @ op_log lib x h) n (hub_exec lib x h)"
proof (cases x)
  case (HPublish inp eid now lag)
  with follows_publish [OF assms(1,2)] show ?thesis by simp
next
  case (HSubscribe chs)
  note D = followsD [OF assms(1)]
  have new: "u64 (h_nextSubscriberID h + 1) = Suc (h_nextSubscriberID h)" using D(5) by (simp add: u64_small)
  have ok: "hub_ok (es0 @ es) (snd (Subscribe chs h))" by (rule same_log_ok [OF same_log_ops(1) D(1)])
  have "seen i (snd (Subscribe chs h)) = seen i h" using D(4) new by (simp add: Subscribe_def seen_def Let_def)
  with D ok new HSubscribe show ?thesis by (simp add: follows_def Subscribe_def Let_def)
next
  case (HClose j)
  note D = followsD [OF assms(1)]
  have ok: "hub_ok (es0 @ es) (CloseSubscriber j h)" by (rule same_log_ok [OF same_log_ops(2) D(1)])
  have "seen i (CloseSubscriber j h) = seen i h" by (simp add: CloseSubscriber_def seen_def)
  with D ok HClose assms(3) show ?thesis by (simp add: follows_def CloseSubscriber_def)
next
  case (HStream j)
  note D = followsD [OF assms(1)]
  have ok: "hub_ok (es0 @ es) (streamNext j h)" by (rule same_log_ok [OF same_log_ops(3) D(1)])
  have "seen i (streamNext j h) = seen i h" by (auto simp: streamNext_def seen_def split: list.split)
  moreover have "h_subscribers (streamNext j h) = h_subscribers h" "h_nextSubscriberID (streamNext j h) = h_nextSubscriberID h"
    by (simp_all add: streamNext_def split: list.split)
  ultimately show ?thesis using D ok HStream by (simp add: follows_def)
qed

text \<open>The queues stay bounded in these runs too.\<close>

definition fits_queues :: "'d EventHub \<Rightarrow> bool" where
  "fits_queues h \<longleftrightarrow> (\<forall>j. length (h_queue h j) \<le> h_subscriberCapacity h)"

lemma deliver_bound: "length q \<le> cap \<Longrightarrow> length (deliver cap ev lag q) \<le> cap"
  by (auto simp: deliver_def offer_def split: option.split)

lemma fits_deliver: "fits_queues h \<Longrightarrow> fits_queues (fold (deliverTo ev) ts h)"
proof (induction ts arbitrary: h)
  case (Cons t ts)
  have "fits_queues (deliverTo ev t h)" using Cons.prems by (simp add: fits_queues_def deliver_bound)
  from Cons.IH [OF this] show ?case by simp
qed simp

lemma fits_exec: "fits_queues h \<Longrightarrow> fits_queues (hub_exec lib x h)"
proof (cases x)
  case (HPublish inp eid now lag)
  assume fits: "fits_queues h"
  obtain subs h1 where p: "publishLocked lib inp eid now h = (fst (Publish lib inp eid now lag h), subs, h1)"
    and h: "snd (Publish lib inp eid now lag h) = fold (deliverTo (fst (Publish lib inp eid now lag h)))
       (map (\<lambda>i. (i, lagEvent (fst (lag i)) (snd (lag i)) (fst (Publish lib inp eid now lag h)))) subs) h1"
    by (rule Publish_parts)
  have "fits_queues h1" using fits publishLocked_facts(6,7) [OF p] by (simp add: fits_queues_def)
  then show ?thesis unfolding HPublish hub_exec.simps h by (rule fits_deliver)
next
  case (HStream j)
  assume fits: "fits_queues h"
  show ?thesis
  proof (cases "h_queue h j")
    case Nil
    with fits HStream show ?thesis by (simp add: streamNext_def)
  next
    case (Cons e q)
    with fits have "length q \<le> h_subscriberCapacity h" unfolding fits_queues_def by (metis Suc_leD length_Cons)
    with fits Cons HStream show ?thesis by (simp add: streamNext_def fits_queues_def)
  qed
qed (auto simp: fits_queues_def Subscribe_def CloseSubscriber_def Let_def)

lemma fits_run: "fits_queues h \<Longrightarrow> fits_queues (hub_run lib xs h)"
  by (induction xs arbitrary: h) (simp_all add: fits_exec)

lemma follows_run:
  "follows i ch es0 es (length xs + n) h \<Longrightarrow> fits_queues h \<Longrightarrow> HClose i \<notin> set xs \<Longrightarrow>
   follows i ch es0 (es @ hub_log lib xs h) n (hub_run lib xs h)"
proof (induction xs arbitrary: h es)
  case (Cons x xs)
  from Cons.prems have "follows i ch es0 (es @ op_log lib x h) (length xs + n) (hub_exec lib x h)"
    by (intro follows_exec) (auto simp: fits_queues_def)
  from Cons.IH [OF this fits_exec [OF Cons.prems(2)]] Cons.prems(3) show ?case by simp
qed simp

text \<open>Any run: the numbering is in order, the table of subscribers is a map, its ids do not exceed the counter.\<close>

definition run_ok :: "'d Event list \<Rightarrow> nat \<Rightarrow> 'd EventHub \<Rightarrow> bool" where
  "run_ok es budget h \<longleftrightarrow> hub_ok es h \<and> fits_queues h \<and> distinct (keys (h_subscribers h)) \<and>
     h_nextSubscriberID h + budget < 2 ^ 64 \<and> length es + budget < 2 ^ 64"

lemma run_ok_exec: "run_ok es (Suc n) h \<Longrightarrow> run_ok (es @ op_log lib x h) n (hub_exec lib x h)"
proof -
  assume ok: "run_ok es (Suc n) h"
  then have D: "hub_ok es h" "fits_queues h" "distinct (keys (h_subscribers h))"
    "h_nextSubscriberID h + Suc n < 2 ^ 64" "length es + Suc n < 2 ^ 64" by (simp_all add: run_ok_def)
  note fits = fits_exec [OF D(2), of lib x]
  show ?thesis
  proof (cases x)
    case (HPublish inp eid now lag)
    obtain subs h1 where p: "publishLocked lib inp eid now h = (fst (Publish lib inp eid now lag h), subs, h1)"
      and h: "snd (Publish lib inp eid now lag h) = fold (deliverTo (fst (Publish lib inp eid now lag h)))
         (map (\<lambda>i. (i, lagEvent (fst (lag i)) (snd (lag i)) (fst (Publish lib inp eid now lag h)))) subs) h1"
      by (rule Publish_parts)
    from publish_ok [OF D(1) p] D(5) have "hub_ok (es @ op_log lib x h) h1" by (simp add: HPublish)
    then have "hub_ok (es @ op_log lib x h) (hub_exec lib x h)"
      unfolding HPublish hub_exec.simps h by (rule same_log_ok [OF same_log_fold])
    moreover have "h_subscribers (hub_exec lib x h) = h_subscribers h" "h_nextSubscriberID (hub_exec lib x h) = h_nextSubscriberID h"
      unfolding HPublish hub_exec.simps h using publishLocked_facts(9,10) [OF p] by simp_all
    ultimately show ?thesis using D fits by (simp add: run_ok_def HPublish)
  next
    case (HSubscribe chs)
    have "hub_ok es (hub_exec lib x h)" unfolding HSubscribe by (simp add: same_log_ok [OF same_log_ops(1) D(1)])
    with D fits HSubscribe show ?thesis by (simp add: run_ok_def Subscribe_def Let_def u64_small)
  next
    case (HClose j)
    have "hub_ok es (hub_exec lib x h)" unfolding HClose by (simp add: same_log_ok [OF same_log_ops(2) D(1)])
    with D fits HClose show ?thesis by (simp add: run_ok_def CloseSubscriber_def)
  next
    case (HStream j)
    have "hub_ok es (hub_exec lib x h)" unfolding HStream by (simp add: same_log_ok [OF same_log_ops(3) D(1)])
    moreover have "h_subscribers (hub_exec lib x h) = h_subscribers h \<and> h_nextSubscriberID (hub_exec lib x h) = h_nextSubscriberID h"
      unfolding HStream by (simp add: streamNext_def split: list.split)
    ultimately show ?thesis using D fits HStream by (simp add: run_ok_def)
  qed
qed

lemma run_ok_run: "run_ok es (length xs + n) h \<Longrightarrow> run_ok (es @ hub_log lib xs h) n (hub_run lib xs h)"
proof (induction xs arbitrary: h es)
  case (Cons x xs)
  then have "run_ok (es @ op_log lib x h) (length xs + n) (hub_exec lib x h)" by (intro run_ok_exec) simp
  from Cons.IH [OF this] show ?case by simp
qed simp

lemma run_ok_new: "n < 2 ^ 64 \<Longrightarrow> run_ok [] n (newEventHub r s)"
  by (simp add: run_ok_def hub_ok_new fits_queues_def) (simp add: newEventHub_def)

section \<open>Nothing is lost unseen\<close>

lemma follows_subscribe:
  assumes "run_ok es (Suc n) h" "Subscribe [ch] h = (i, h')"
  shows "follows i ch es [] n h' \<and> fits_queues h'"
proof -
  from assms(1) have D: "hub_ok es h" "fits_queues h" "distinct (keys (h_subscribers h))"
    "h_nextSubscriberID h + Suc n < 2 ^ 64" "length es + Suc n < 2 ^ 64" by (simp_all add: run_ok_def)
  have i: "i = Suc (h_nextSubscriberID h)" and h': "h' = snd (Subscribe [ch] h)"
    using assms(2) D(4) by (auto simp: Subscribe_def Let_def u64_small)
  have "hub_ok es h'" unfolding h' by (rule same_log_ok [OF same_log_ops(1) D(1)])
  then show ?thesis using D i unfolding h'
    by (simp add: follows_def fits_queues_def Subscribe_def Let_def u64_small)
qed

lemma on_channel_drop:
  assumes "hub_ok es h" "e \<in> set es" "Evt_Channel e = ch" "since < Evt_Sequence e"
  shows "e \<in> set (drop since (on_channel ch es))"
proof -
  let ?evs = "on_channel ch es"
  from assms(2,3) have "e \<in> set ?evs" by simp
  then obtain k where k: "k < length ?evs" "?evs ! k = e" by (metis in_set_conv_nth)
  from assms(1) have "map Evt_Sequence ?evs = [1..<Suc (length ?evs)]" by (simp add: hub_ok_def)
  then have "map Evt_Sequence ?evs ! k = Suc k" using k(1) by (simp del: upt_Suc)
  with k assms(4) have "since \<le> k" by simp
  with k have "drop since ?evs ! (k - since) = e" "k - since < length (drop since ?evs)" by auto
  then show ?thesis by (metis nth_mem)
qed

lemma snapshot_one:
  "SnapshotWithGaps [ch] [(ch, cursor)] stamp h = ([(ch, c)], gaps) \<Longrightarrow>
     cs_Replayed c = rw_Events (replayWindow ch cursor h) \<and> cs_Gap c = rw_Gap (replayWindow ch cursor h)"
  by (auto simp: SnapshotWithGaps_def snapshotChannel_def Let_def)

text \<open>
  C24. A client that subscribes to a channel, then takes a snapshot from its cursor and reads its stream
  accounts for every event above the cursor, also for those published between the two calls: the event
  is in the snapshot, or on the wire or in the queue, or a lag marker at or after its number is, or the
  snapshot reports a gap. The client has a cursor above zero, or the replay window had not overflowed
  when it took the snapshot: a client without a cursor is told nothing of events that are gone.
  Publishers are taken not to overlap.
\<close>

theorem stream_accounts_for_events:
  assumes "length ops1 + length ops2 + length ops3 + 1 < 2 ^ 64"
    and "h1 = hub_run lib ops1 (newEventHub r s)" "Subscribe [ch] h1 = (i, h2)"
    and "h3 = hub_run lib ops2 h2" "SnapshotWithGaps [ch] [(ch, cursor)] stamp h3 = ([(ch, c)], gaps)"
    and "HClose i \<notin> set ops2 \<union> set ops3" "0 < cursor \<or> length (hub_log lib ops1 (newEventHub r s) @ hub_log lib ops2 h2) \<le> h_replayCapacity h3"
    and "e \<in> set (hub_log lib ops1 (newEventHub r s) @ hub_log lib ops2 h2 @ hub_log lib ops3 h3)"
    and "Evt_Channel e = ch" "cursor < Evt_Sequence e"
  shows "e \<in> set (cs_Replayed c) \<or> cs_Gap c \<or> accounted (seen i (hub_run lib ops3 h3)) e"
proof -
  let ?l1 = "hub_log lib ops1 (newEventHub r s)" and ?l2 = "hub_log lib ops2 h2" and ?l3 = "hub_log lib ops3 h3"
  have "run_ok [] (length ops1 + Suc (length ops2 + length ops3)) (newEventHub r s)"
    by (rule run_ok_new) (use assms(1) in simp)
  from run_ok_run [OF this, of lib] have "run_ok ?l1 (Suc (length ops2 + length ops3)) h1" by (simp add: assms(2))
  from follows_subscribe [OF this assms(3)] have f: "follows i ch ?l1 [] (length ops2 + length ops3) h2" "fits_queues h2" by simp_all
  from follows_run [OF f, of lib] assms(4,6) have f3: "follows i ch ?l1 ?l2 (length ops3) h3" by simp
  from fits_run [OF f(2), of lib ops2] assms(4) have "fits_queues h3" by simp
  from follows_run [OF _ this, of i ch ?l1 ?l2 ops3 0 lib] f3 assms(6)
  have f4: "follows i ch ?l1 (?l2 @ ?l3) 0 (hub_run lib ops3 h3)" by simp
  show ?thesis
  proof (cases "e \<in> set (?l2 @ ?l3)")
    case True
    from followsD(7) [OF f4 True assms(9)] show ?thesis by blast
  next
    case False
    with assms(8) have e: "e \<in> set (?l1 @ ?l2)" by simp
    have ok: "hub_ok (?l1 @ ?l2) h3" using followsD(1) [OF f3] .
    from replay_window [OF ok, of ch] obtain j where j: "length (?l1 @ ?l2) \<le> h_replayCapacity h3 \<Longrightarrow> j = 0"
      and w: "replayWindow ch cursor h3 = \<lparr>rw_Events = drop (max j cursor) (on_channel ch (?l1 @ ?l2)),
       rw_Gap = (if cursor = 0 then False else if j < length (on_channel ch (?l1 @ ?l2)) then cursor < j else cursor < length (on_channel ch (?l1 @ ?l2))),
       rw_OldestRetained = (if j < length (on_channel ch (?l1 @ ?l2)) then Suc j else 0),
       rw_LastSequence = length (on_channel ch (?l1 @ ?l2))\<rparr>" by metis
    have "e \<in> set (drop cursor (on_channel ch (?l1 @ ?l2)))" by (rule on_channel_drop [OF ok e assms(9,10)])
    moreover have "cursor < length (on_channel ch (?l1 @ ?l2))" using calculation by (cases "length (on_channel ch (?l1 @ ?l2)) \<le> cursor") auto
    ultimately show ?thesis using snapshot_one [OF assms(5)] w j assms(7)
      by (cases "cursor < j") (auto simp: max_def split: if_splits)
  qed
qed

end
