(* ===== verification/EventRaces.thy ===== *)
theory EventRaces
  imports EventStream
begin

text \<open>
  Publishers step by step: a publisher that nobody interrupts does what \<open>Publish\<close> is defined to do; two
  that overlap, or a subscription to two channels, can lose an event without a trace.
\<close>

section \<open>A publisher alone\<close>

lemma deliver_alone:
  assumes "hub_reach lib r s es h (p # ps)" "pb_phase p = Offering"
  shows "\<exists>p'. hub_reach lib r s es (fold (deliverTo (pb_event p)) (pb_todo p) h) (p' # ps) \<and> pb_todo p' = []"
  using assms
proof (induction "pb_todo p" arbitrary: p h)
  case Nil
  then show ?case by (intro exI [of _ p]) simp
next
  case (Cons t ts)
  obtain i lag where t: "t = (i, lag)" by (cases t)
  let ?q = "h_queue h i" and ?put = "\<lambda>h q. h\<lparr>h_queue := (h_queue h)(i := q)\<rparr>"
  let ?cap = "h_subscriberCapacity h" and ?p = "p\<lparr>pb_todo := ts\<rparr>"
  have todo: "pb_todo p = (i, lag) # ts" using Cons.hyps(2) t by simp
  have step: "hub_reach lib r s es h' (x # ps) \<Longrightarrow> publisherStep x h' = (x', h'') \<Longrightarrow> hub_reach lib r s es h'' (x' # ps)"
    for h' h'' x x' using reach_deliver [of lib r s es h' "x # ps" 0 x' h''] by simp
  have "hub_reach lib r s es (deliverTo (pb_event p) t h) (?p # ps)"
  proof (cases "offer ?cap (pb_event p) ?q")
    case (Some q')
    then have "publisherStep p h = (?p, ?put h q')" using todo Cons.prems(2) by (simp add: publisherStep_def)
    from step [OF Cons.prems(1) this] Some t show ?thesis by (simp add: deliverTo_def deliver_def)
  next
    case None
    let ?p1 = "p\<lparr>pb_phase := Discarding\<rparr>" and ?p2 = "p\<lparr>pb_phase := Marking\<rparr>" and ?h2 = "?put h (tl ?q)"
    from None have "publisherStep p h = (?p1, h)" using todo Cons.prems(2) by (simp add: publisherStep_def)
    from step [OF Cons.prems(1) this] have 1: "hub_reach lib r s es h (?p1 # ps)" .
    have "publisherStep ?p1 h = (?p2, ?h2)" using todo by (simp add: publisherStep_def)
    from step [OF 1 this] have 2: "hub_reach lib r s es ?h2 (?p2 # ps)" .
    have eq: "p\<lparr>pb_todo := ts, pb_phase := Offering\<rparr> = ?p" using Cons.prems(2) by (cases p) simp
    show ?thesis
    proof (cases "offer ?cap lag (tl ?q)")
      case None2: None
      then have "publisherStep ?p2 ?h2 = (?p, ?h2)" using todo eq by (simp add: publisherStep_def)
      from step [OF 2 this] None None2 t show ?thesis by (simp add: deliverTo_def deliver_def)
    next
      case (Some q')
      then have "publisherStep ?p2 ?h2 = (?p, ?put h q')" using todo eq by (simp add: publisherStep_def)
      from step [OF 2 this] None Some t show ?thesis by (simp add: deliverTo_def deliver_def)
    qed
  qed
  from Cons.hyps(1) [of ?p, OF _ this] Cons.prems(2) todo t show ?case by simp
qed

lemma reach_keys: "hub_reach lib r s es h ps \<Longrightarrow> distinct (keys (h_subscribers h))"
proof (induction rule: hub_reach.induct)
  case (reach_publish es h ps inp eid now ev subs h' order lag)
  then show ?case using publishLocked_facts(9) by metis
next
  case (reach_deliver es h ps k p h')
  from reach_deliver.hyps(3) have "h_subscribers h' = h_subscribers h" by (cases rule: publisherStep_cases) simp_all
  with reach_deliver.IH show ?case by simp
qed (auto simp: newEventHub_def Subscribe_def Let_def CloseSubscriber_def streamNext_def split: list.split)

text \<open>
  \<open>Publish\<close> as one operation refines the small steps: from any reachable hub, whatever publishers are
  under way, a publisher that runs without interruption brings the hub to exactly the state of \<open>Publish\<close>
  and has served every subscriber.
\<close>

theorem publish_is_uninterrupted_steps:
  assumes "hub_reach lib r s es h ps"
  shows "\<exists>p. hub_reach lib r s (es @ [fst (Publish lib inp eid now lag h)]) (snd (Publish lib inp eid now lag h)) (p # ps) \<and>
    pb_todo p = []"
proof -
  let ?ev = "fst (Publish lib inp eid now lag h)"
  obtain subs h1 where p: "publishLocked lib inp eid now h = (?ev, subs, h1)"
    and h: "snd (Publish lib inp eid now lag h) = fold (deliverTo ?ev) (map (\<lambda>i. (i, lagEvent (fst (lag i)) (snd (lag i)) ?ev)) subs) h1"
    by (rule Publish_parts)
  have "distinct subs" using reach_keys [OF assms] publishLocked_facts(4) [OF p] by (simp add: distinct_map_filter)
  from deliver_alone [OF reach_publish [OF assms p this refl, of lag]] show ?thesis unfolding h by simp
qed

section \<open>Schedules\<close>

text \<open>A schedule: somebody publishes, or the k-th publisher under way (the latest is 0) does its next step.\<close>

datatype 'd sched = SPublish "'d PublishInput" | SDeliver nat

type_synonym 'd conc = "'d Event list \<times> 'd EventHub \<times> 'd publisher list"

definition sched_exec :: "'d hub_lib \<Rightarrow> 'd sched \<Rightarrow> 'd conc \<Rightarrow> 'd conc" where
  "sched_exec lib x c = (case c of (es, h, ps) \<Rightarrow> (case x of
     SPublish inp \<Rightarrow> (case publishLocked lib inp [] 0 h of (ev, subs, h') \<Rightarrow>
       (es @ [ev], h', \<lparr>pb_event = ev, pb_todo = map (\<lambda>i. (i, lagEvent [] 0 ev)) subs, pb_phase = Offering\<rparr> # ps))
   | SDeliver k \<Rightarrow> if k < length ps then (case publisherStep (ps ! k) h of (p, h') \<Rightarrow> (es, h', ps[k := p])) else c))"

abbreviation conc_reach :: "'d hub_lib \<Rightarrow> int \<Rightarrow> int \<Rightarrow> 'd conc \<Rightarrow> bool" where
  "conc_reach lib r s c \<equiv> hub_reach lib r s (fst c) (fst (snd c)) (snd (snd c))"

lemma sched_reach: "conc_reach lib r s c \<Longrightarrow> conc_reach lib r s (fold (sched_exec lib) xs c)"
proof (induction xs arbitrary: c)
  case (Cons x xs)
  obtain es h ps where c: "c = (es, h, ps)" by (cases c)
  with Cons.prems have r: "hub_reach lib r s es h ps" by simp
  have "conc_reach lib r s (sched_exec lib x c)"
  proof (cases x)
    case (SPublish inp)
    obtain ev subs h' where p: "publishLocked lib inp [] 0 h = (ev, subs, h')" by (cases "publishLocked lib inp [] 0 h")
    have "distinct subs" using reach_keys [OF r] publishLocked_facts(4) [OF p] by (simp add: distinct_map_filter)
    from reach_publish [OF r p this refl, of "\<lambda>_. ([], 0)"] p c SPublish show ?thesis by (simp add: sched_exec_def)
  next
    case (SDeliver k)
    then show ?thesis using r c reach_deliver [OF r, of k] by (simp add: sched_exec_def split: prod.split)
  qed
  from Cons.IH [OF this] show ?case by simp
qed simp

definition plain_lib :: "unit hub_lib" where
  "plain_lib = \<lparr>hl_redactData = id, hl_redactActor = id, hl_marshalError = (\<lambda>_. None)\<rparr>"

definition tick :: "string \<Rightarrow> unit PublishInput" where
  "tick ch = \<lparr>Pub_Channel = ch, Pub_Type = ''tick'', Pub_Actor = None, Pub_CausationID = [], Pub_CorrelationID = [],
     Pub_Data = ()\<rparr>"

text \<open>A hub with room for one event per subscriber, and subscriber 1 on the given channels.\<close>

definition small_hub :: "string list \<Rightarrow> unit EventHub" where
  "small_hub chs = snd (Subscribe chs (newEventHub 4 1))"

lemma small_hub_reach: "conc_reach plain_lib 4 1 ([], small_hub chs, [])"
  unfolding small_hub_def using reach_subscribe [OF reach_new] by simp

definition lossy :: "unit sched list" where
  "lossy = [SPublish (tick ''c''), SDeliver 0, SPublish (tick ''c''), SPublish (tick ''c''),
     SDeliver 0, SDeliver 0, SDeliver 1, SDeliver 0]"

definition lossy_end :: "unit conc" where
  "lossy_end = fold (sched_exec plain_lib) lossy ([], small_hub [''c''], [])"

lemma lossy_facts:
  "list_all (\<lambda>p. pb_todo p = []) (snd (snd lossy_end)) \<and> map Evt_Sequence (fst lossy_end) = [1, 2, 3] \<and>
   h_queue (fst (snd lossy_end)) 1 = [fst lossy_end ! 1] \<and> h_wire (fst (snd lossy_end)) 1 = [] \<and>
   map_of (h_subscribers (fst (snd lossy_end))) 1 = Some [''c''] \<and>
   map Evt_Channel (fst lossy_end) = [''c'', ''c'', ''c''] \<and> Evt_Data (fst lossy_end ! 1) = Payload ()"
  by code_simp

text \<open>
  Overlapping publishers can lose the newest event for good: three publishers on the one channel of a
  subscriber that was there from the start all finish their deliveries, and the event numbered 3 is
  neither queued nor sent, no lag marker tells of it, and nothing with a higher number will, until
  somebody publishes again. (One publisher empties the full queue to make room for its marker; another
  takes that room for its event; the first then drops its marker.)
\<close>

theorem overlapping_publishers_lose_event:
  "\<exists>xs es h ps e. fold (sched_exec plain_lib) xs ([], small_hub [''c''], []) = (es, h, ps) \<and>
     conc_reach plain_lib 4 1 (es, h, ps) \<and> pb_todo ` set ps \<subseteq> {[]} \<and>
     map_of (h_subscribers h) 1 = Some [''c''] \<and> e \<in> set es \<and> Evt_Channel e = ''c'' \<and>
     Evt_Sequence e = LastSequence ''c'' h \<and> \<not> accounted (seen 1 h) e \<and> Evt_Sequence ` seen 1 h \<subseteq> {..<Evt_Sequence e}"
proof -
  obtain es h ps where c: "lossy_end = (es, h, ps)" by (cases lossy_end)
  note f = lossy_facts [unfolded c fst_conv snd_conv]
  from f have len: "length es = 3" by (metis length_Cons length_map list.size(3) numeral_3_eq_3)
  then have seq: "Evt_Sequence (es ! 2) = 3" "Evt_Sequence (es ! 1) = 2" "Evt_Channel (es ! 2) = ''c''"
    using f by (auto simp: numeral_3_eq_3 numeral_2_eq_2 length_Suc_conv)
  have "conc_reach plain_lib 4 1 lossy_end" unfolding lossy_end_def by (rule sched_reach [OF small_hub_reach])
  then have r: "hub_reach plain_lib 4 1 es h ps" by (simp add: c)
  have "LastSequence ''c'' h = length (on_channel ''c'' es)"
    using reach_ok [OF r] len by (simp add: hub_ok_def)
  also have "on_channel ''c'' es = es"
  proof (rule filter_True, rule ballI)
    fix x assume "x \<in> set es"
    then have "Evt_Channel x \<in> set (map Evt_Channel es)" by simp
    with f show "Evt_Channel x = ''c''" by simp
  qed
  finally have last: "LastSequence ''c'' h = 3" using len by simp
  have s: "seen 1 h = {es ! 1}" using f by (simp add: seen_def)
  have "es ! 2 \<noteq> es ! 1" using seq by auto
  then have "\<not> accounted (seen 1 h) (es ! 2)" unfolding s accounted_def using f by auto
  moreover have "es ! 2 \<in> set es" using len by simp
  moreover have "fold (sched_exec plain_lib) lossy ([], small_hub [''c''], []) = (es, h, ps)" using c by (simp add: lossy_end_def)
  moreover have "Evt_Sequence ` seen 1 h \<subseteq> {..<Evt_Sequence (es ! 2)}" unfolding s using seq by simp
  moreover have "pb_todo ` set ps \<subseteq> {[]}" using f by (auto simp: list_all_iff)
  moreover have "Evt_Sequence (es ! 2) = LastSequence ''c'' h" using seq last by simp
  ultimately show ?thesis using r f seq(3) unfolding fst_conv snd_conv by blast
qed

definition two_ticks :: "unit hub_op list" where
  "two_ticks = [HPublish (tick ''a'') [] 0 (\<lambda>_. ([], 0)), HPublish (tick ''b'') [] 0 (\<lambda>_. ([], 0))]"

text \<open>
  A subscription to several channels can lose an event of one of them although publishers do not
  overlap: the marker for a full queue carries the channel of the event that came last, not that of
  the event thrown out, so nothing the client is sent names the channel that lost its event.
\<close>

theorem lag_marker_names_wrong_channel:
  "let h0 = small_hub [''a'', ''b'']; h = hub_run plain_lib two_ticks h0; es = hub_log plain_lib two_ticks h0 in
     map Evt_Channel es = [''a'', ''b''] \<and> \<not> accounted (seen 1 h) (hd es) \<and> Evt_Channel ` seen 1 h = {''b''}"
proof -
  let ?h = "hub_run plain_lib two_ticks (small_hub [''a'', ''b''])" and ?es = "hub_log plain_lib two_ticks (small_hub [''a'', ''b''])"
  have f: "map Evt_Channel ?es = [''a'', ''b''] \<and> map Evt_Channel (h_queue ?h 1) = [''b''] \<and> h_wire ?h 1 = []" by code_simp
  then have b: "Evt_Channel ` seen 1 ?h = {''b''}" by (auto simp: seen_def map_eq_Cons_conv)
  from f have a: "Evt_Channel (hd ?es) = ''a''" by (metis hd_map list.map_disc_iff list.sel(1) list.distinct(1))
  have "Evt_Channel m = ''b''" if "m \<in> seen 1 ?h" for m using b that by blast
  then have "\<not> accounted (seen 1 ?h) (hd ?es)" using a unfolding accounted_def by fastforce
  with f b show ?thesis by (simp add: Let_def)
qed

end
