(* ===== verification/EventWitness.thy ===== *)
theory EventWitness
  imports EventRaces
begin

text \<open>The theorems on the event hub at concrete runs.\<close>

definition gapped :: "unit conc" where
  "gapped = fold (sched_exec plain_lib) (replicate 6 (SPublish (tick ''c''))) ([], small_hub [''c''], [])"

lemma gapped_reach: "hub_reach plain_lib 4 1 (fst gapped) (fst (snd gapped)) (snd (snd gapped))"
  unfolding gapped_def by (rule sched_reach [OF small_hub_reach])

lemma gapped_facts:
  "length (fst gapped) = 6 \<and> map Evt_Sequence (rw_Events (replayWindow ''c'' 1 (fst (snd gapped)))) = [3, 4, 5, 6] \<and>
   rw_Gap (replayWindow ''c'' 1 (fst (snd gapped)))"
  by code_simp

theorem hub_replay_exact_witness:
  "rw_Events (replayWindow ''c'' 1 (fst (snd gapped))) \<noteq> drop 1 (on_channel ''c'' (fst gapped)) \<and>
   (\<exists>lost. lost \<noteq> [] \<and> drop 1 (on_channel ''c'' (fst gapped)) = lost @ rw_Events (replayWindow ''c'' 1 (fst (snd gapped))))"
proof -
  have "length (fst gapped) < 2 ^ 64" using gapped_facts by simp
  from hub_replay_exact [OF gapped_reach this, of "''c''" 1 "[]" 0] gapped_facts
  show ?thesis unfolding Let_def by auto
qed

theorem hub_memory_bounded_witness:
  "length (h_queue (fst (snd gapped)) 1) \<le> h_subscriberCapacity (fst (snd gapped)) \<and>
   length (h_events (fst (snd gapped))) \<le> h_replayCapacity (fst (snd gapped))"
proof -
  have "length (fst gapped) < 2 ^ 64" using gapped_facts by simp
  from hub_memory_bounded [OF gapped_reach this, of 1] show ?thesis by simp
qed

theorem publish_is_uninterrupted_steps_witness:
  "\<exists>p. hub_reach plain_lib 4 1 (fst gapped @ [fst (Publish plain_lib (tick ''c'') [] 0 (\<lambda>_. ([], 0)) (fst (snd gapped)))])
     (snd (Publish plain_lib (tick ''c'') [] 0 (\<lambda>_. ([], 0)) (fst (snd gapped)))) (p # snd (snd gapped)) \<and> pb_todo p = []"
  by (rule publish_is_uninterrupted_steps [OF gapped_reach])

text \<open>A stream: one event before the subscription, one between it and the snapshot, two after.\<close>

definition pub_c :: "unit hub_op" where
  "pub_c = HPublish (tick ''c'') [] 0 (\<lambda>_. ([], 0))"

definition w_before :: "unit EventHub" where
  "w_before = hub_run plain_lib [pub_c] (newEventHub 4 1)"

definition w_subscribed :: "unit EventHub" where
  "w_subscribed = snd (Subscribe [''c''] w_before)"

definition w_between :: "unit EventHub" where
  "w_between = hub_run plain_lib [pub_c] w_subscribed"

definition w_all :: "unit Event list" where
  "w_all = hub_log plain_lib [pub_c] (newEventHub 4 1) @ hub_log plain_lib [pub_c] w_subscribed @
     hub_log plain_lib [HStream 1, pub_c, pub_c] w_between"

definition w_snapshot :: "unit ChannelSnapshot" where
  "w_snapshot = snd (hd (fst (SnapshotWithGaps [''c''] [(''c'', 1)] (\<lambda>_. ([], 0)) w_between)))"

lemma stream_facts:
  "map Evt_Sequence w_all = [1, 2, 3, 4] \<and> map Evt_Channel w_all = [''c'', ''c'', ''c'', ''c'']"
  "fst (Subscribe [''c''] w_before) = 1"
  "\<not> cs_Gap w_snapshot"
  by code_simp+

theorem stream_accounts_for_events_witness:
  "w_all ! 2 \<in> set (cs_Replayed w_snapshot) \<or>
   accounted (seen 1 (hub_run plain_lib [HStream 1, pub_c, pub_c] w_between)) (w_all ! 2)"
proof -
  have sub: "Subscribe [''c''] w_before = (1, w_subscribed)"
    using stream_facts(2) by (simp add: w_subscribed_def prod_eq_iff)
  have snap: "SnapshotWithGaps [''c''] [(''c'', 1)] (\<lambda>_. ([], 0)) w_between = ([(''c'', w_snapshot)],
      snd (SnapshotWithGaps [''c''] [(''c'', 1)] (\<lambda>_. ([], 0)) w_between))"
    unfolding w_snapshot_def by (simp add: SnapshotWithGaps_def snapshotChannel_def Let_def)
  have "length (map Evt_Sequence w_all) = 4" using stream_facts(1) by simp
  then have len: "length w_all = 4" by simp
  then have "map Evt_Channel w_all ! 2 = Evt_Channel (w_all ! 2)" "map Evt_Sequence w_all ! 2 = Evt_Sequence (w_all ! 2)" by simp_all
  then have e: "Evt_Channel (w_all ! 2) = ''c''" "Evt_Sequence (w_all ! 2) = 3" using stream_facts(1) by simp_all
  from len have mem: "w_all ! 2 \<in> set w_all" by simp
  show ?thesis
    using stream_accounts_for_events [of "[pub_c]" "[pub_c]" "[HStream 1, pub_c, pub_c]" w_before plain_lib 4 1 "''c''" 1
      w_subscribed w_between 1 "\<lambda>_. ([], 0)" w_snapshot _ "w_all ! 2", OF _ w_before_def sub w_between_def snap]
      mem e stream_facts(3) by (simp add: w_all_def pub_c_def)
qed

end
