(* ===== verification/AuditIndex.thy ===== *)
theory AuditIndex
  imports GoPrelude
begin

text \<open>
  Package \<open>audit\<close>, \<open>writer.go\<close>: audit entries, queries, and the index in memory, a bounded window of
  entries with three tables from a key to the positions of the entries that have it. \<open>'d\<close> is what
  callers put into an entry's data. The conversions to lower case and to text are arguments.
\<close>

datatype 'd audit_value = AVStr string | AVInt int | AVOther 'd

record AuditActor =
  Act_Kind :: string
  Act_ID :: string
  Act_RunID :: string

record AuditArtifactRef =
  Art_Kind :: string
  Art_ID :: string
  Art_URI :: string
  Art_Digest :: string

record 'd Entry =
  En_SchemaVersion :: int
  En_EventID :: string
  En_Seq :: nat
  En_Time :: time
  En_ProjectID :: string
  En_Actor :: AuditActor
  En_Action :: string
  En_Reason :: string
  En_CommandPreview :: string
  En_Result :: string
  En_ArtifactRefs :: "AuditArtifactRef list"
  En_CorrelationID :: string
  En_CausationID :: string
  En_ApprovalID :: string
  En_Data :: "(string \<times> 'd audit_value) list"

definition GlobalProjectID :: string where
  "GlobalProjectID = ''global''"

definition normalizeProjectID :: "string \<Rightarrow> string" where
  "normalizeProjectID p = (if TrimSpace p = [] then GlobalProjectID else p)"

section \<open>Queries\<close>

record Query =
  Q_ProjectID :: string
  Q_ActorKind :: string
  Q_ActorID :: string
  Q_Action :: string
  Q_Result :: string
  Q_CorrelationID :: string
  Q_CausationID :: string
  Q_Search :: string
  Q_From :: time
  Q_To :: time
  Q_Limit :: int
  Q_Reverse :: bool

record 'd text_lib =
  tl_lower :: "string \<Rightarrow> string"
  tl_sprint :: "'d audit_value \<Rightarrow> string"

definition entryMatchesSearch :: "'d text_lib \<Rightarrow> 'd Entry \<Rightarrow> string \<Rightarrow> bool" where
  "entryMatchesSearch lib e query =
     (let q = tl_lower lib (TrimSpace query);
          haystack = [En_EventID e, En_ProjectID e, Act_ID (En_Actor e), Act_Kind (En_Actor e), En_Action e,
              En_Result e, En_Reason e, En_CommandPreview e, En_CorrelationID e, En_CausationID e, En_ApprovalID e] @
            concat (map (\<lambda>r. [Art_Kind r, Art_ID r, Art_URI r, Art_Digest r]) (En_ArtifactRefs e)) @
            concat (map (\<lambda>(k, v). [k, tl_sprint lib v]) (En_Data e))
      in if q = [] then True else list_ex (\<lambda>c. Contains (tl_lower lib c) q) haystack)"

definition query_matches :: "'d text_lib \<Rightarrow> Query \<Rightarrow> 'd Entry \<Rightarrow> bool" where
  "query_matches lib q e =
     (if Q_ProjectID q \<noteq> [] \<and> normalizeProjectID (Q_ProjectID q) \<noteq> normalizeProjectID (En_ProjectID e) then False
      else if Q_ActorKind q \<noteq> [] \<and> Q_ActorKind q \<noteq> Act_Kind (En_Actor e) then False
      else if Q_ActorID q \<noteq> [] \<and> Q_ActorID q \<noteq> Act_ID (En_Actor e) then False
      else if Q_Action q \<noteq> [] \<and> Q_Action q \<noteq> En_Action e then False
      else if Q_Result q \<noteq> [] \<and> Q_Result q \<noteq> En_Result e then False
      else if Q_CorrelationID q \<noteq> [] \<and> Q_CorrelationID q \<noteq> En_CorrelationID e then False
      else if Q_CausationID q \<noteq> [] \<and> Q_CausationID q \<noteq> En_CausationID e then False
      else if Q_Search q \<noteq> [] \<and> \<not> entryMatchesSearch lib e (Q_Search q) then False
      else if \<not> isZero (Q_From q) \<and> En_Time e < Q_From q then False
      else if \<not> isZero (Q_To q) \<and> En_Time e > Q_To q then False
      else True)"

definition earlierEntry :: "'d Entry \<Rightarrow> 'd Entry \<Rightarrow> bool" where
  "earlierEntry l r =
     (if En_Time l \<noteq> En_Time r then En_Time l < En_Time r
      else if En_ProjectID l = En_ProjectID r \<and> En_Seq l \<noteq> En_Seq r then En_Seq l < En_Seq r
      else En_EventID l < En_EventID r)"

definition laterEntry :: "'d Entry \<Rightarrow> 'd Entry \<Rightarrow> bool" where
  "laterEntry l r =
     (if En_Time l \<noteq> En_Time r then En_Time l > En_Time r
      else if En_ProjectID l = En_ProjectID r \<and> En_Seq l \<noteq> En_Seq r then En_Seq l > En_Seq r
      else En_EventID l > En_EventID r)"

text \<open>
  \<open>sort.SliceStable\<close> as stable insertion from the right, which is what it runs on up to twenty elements;
  beyond, it merges such blocks, with the same result for every order.
\<close>

fun insertStable :: "('a \<Rightarrow> 'a \<Rightarrow> bool) \<Rightarrow> 'a \<Rightarrow> 'a list \<Rightarrow> 'a list" where
  "insertStable before x [] = [x]"
| "insertStable before x (y # ys) = (if before x y then y # insertStable before x ys else x # y # ys)"

definition sortStable :: "('a \<Rightarrow> 'a \<Rightarrow> bool) \<Rightarrow> 'a list \<Rightarrow> 'a list" where
  "sortStable before xs = rev (fold (insertStable before) xs [])"

section \<open>The index\<close>

record 'd Index =
  ix_entries :: "'d Entry list"
  ix_byProject :: "(string \<times> nat list) list"
  ix_byActor :: "(string \<times> nat list) list"
  ix_byAction :: "(string \<times> nat list) list"
  ix_maxEntries :: int

definition actorQueryKey :: "string \<Rightarrow> string \<Rightarrow> string" where
  "actorQueryKey kind i =
     (if kind \<noteq> [] \<and> i \<noteq> [] then kind @ CHR 0x00 # i
      else if kind \<noteq> [] then kind
      else if i \<noteq> [] then CHR 0x00 # i
      else [])"

definition actorIndexKeys :: "string \<Rightarrow> string \<Rightarrow> string list" where
  "actorIndexKeys kind i =
     (if kind \<noteq> [] then [kind] else []) @ (if i \<noteq> [] then [CHR 0x00 # i] else []) @
     (if kind \<noteq> [] \<and> i \<noteq> [] then [actorQueryKey kind i] else [])"

definition addPos :: "nat \<Rightarrow> string \<Rightarrow> (string \<times> nat list) list \<Rightarrow> (string \<times> nat list) list" where
  "addPos pos key m = AList.update key ((case map_of m key of None \<Rightarrow> [] | Some l \<Rightarrow> l) @ [pos]) m"

definition rewriteIndexes :: "nat \<Rightarrow> (string \<times> nat list) list \<Rightarrow> (string \<times> nat list) list" where
  "rewriteIndexes excess m =
     filter (\<lambda>e. snd e \<noteq> []) (map (\<lambda>(k, l). (k, map (\<lambda>i. i - excess) (filter (\<lambda>i. i \<ge> excess) l))) m)"

definition evictBeyondMax :: "'d Index \<Rightarrow> 'd Index" where
  "evictBeyondMax ix =
     (let excess = int (length (ix_entries ix)) - ix_maxEntries ix in
      if ix_maxEntries ix \<le> 0 then ix
      else if excess \<le> 0 then ix
      else ix\<lparr>ix_entries := drop (nat excess) (ix_entries ix),
              ix_byProject := rewriteIndexes (nat excess) (ix_byProject ix),
              ix_byActor := rewriteIndexes (nat excess) (ix_byActor ix),
              ix_byAction := rewriteIndexes (nat excess) (ix_byAction ix)\<rparr>)"

definition index_add :: "'d Entry \<Rightarrow> 'd Index \<Rightarrow> 'd Index" where
  "index_add e0 ix =
     (let e = e0\<lparr>En_ProjectID := normalizeProjectID (En_ProjectID e0)\<rparr>; pos = length (ix_entries ix)
      in evictBeyondMax (ix\<lparr>ix_entries := ix_entries ix @ [e],
           ix_byProject := addPos pos (En_ProjectID e) (ix_byProject ix),
           ix_byAction := (if En_Action e \<noteq> [] then addPos pos (En_Action e) (ix_byAction ix) else ix_byAction ix),
           ix_byActor := fold (addPos pos) (actorIndexKeys (Act_Kind (En_Actor e)) (Act_ID (En_Actor e))) (ix_byActor ix)\<rparr>))"

definition emptyIndex :: "int \<Rightarrow> 'd Index" where
  "emptyIndex maxEntries = \<lparr>ix_entries = [], ix_byProject = [], ix_byActor = [], ix_byAction = [],
     ix_maxEntries = maxEntries\<rparr>"

definition NewIndexWithConfig :: "'d Entry list \<Rightarrow> int \<Rightarrow> 'd Index" where
  "NewIndexWithConfig entries maxEntries =
     (let kept = (if maxEntries > 0 \<and> int (length entries) > maxEntries
          then drop (length entries - nat maxEntries) entries else entries)
      in fold index_add kept (emptyIndex maxEntries))"

definition chooseShorter :: "nat list option \<Rightarrow> nat list option \<Rightarrow> nat list option" where
  "chooseShorter next candidates = (case next of None \<Rightarrow> candidates
     | Some n \<Rightarrow> (case candidates of None \<Rightarrow> Some n
        | Some c \<Rightarrow> if length n < length c then Some n else Some c))"

definition candidateIndexes :: "Query \<Rightarrow> 'd Index \<Rightarrow> nat list" where
  "candidateIndexes q ix =
     (let c0 = None;
          c1 = (if Q_ProjectID q \<noteq> [] then chooseShorter (map_of (ix_byProject ix) (normalizeProjectID (Q_ProjectID q))) c0 else c0);
          c2 = (if Q_Action q \<noteq> [] then chooseShorter (map_of (ix_byAction ix) (Q_Action q)) c1 else c1);
          c3 = (if Q_ActorKind q \<noteq> [] \<or> Q_ActorID q \<noteq> []
                then chooseShorter (map_of (ix_byActor ix) (actorQueryKey (Q_ActorKind q) (Q_ActorID q))) c2 else c2)
      in case c3 of None \<Rightarrow> [0..<length (ix_entries ix)] | Some c \<Rightarrow> c)"

definition limitEntries :: "int \<Rightarrow> 'a list \<Rightarrow> 'a list" where
  "limitEntries limit out = (if limit > 0 \<and> int (length out) > limit then take (nat limit) out else out)"

definition index_query :: "'d text_lib \<Rightarrow> Query \<Rightarrow> 'd Index \<Rightarrow> 'd Entry list" where
  "index_query lib q ix =
     (if ix_entries ix = [] then []
      else let out = filter (query_matches lib q) (map (\<lambda>i. ix_entries ix ! i) (candidateIndexes q ix))
        in limitEntries (Q_Limit q) (sortStable (if Q_Reverse q then laterEntry else earlierEntry) out))"

section \<open>The tables list exactly the positions of their keys\<close>

definition positions :: "('a \<Rightarrow> bool) \<Rightarrow> 'a list \<Rightarrow> nat list" where
  "positions P xs = filter (\<lambda>i. P (xs ! i)) [0..<length xs]"

definition table_ok :: "('a \<Rightarrow> string list) \<Rightarrow> 'a list \<Rightarrow> (string \<times> nat list) list \<Rightarrow> bool" where
  "table_ok ks xs m \<longleftrightarrow> distinct (keys m) \<and>
     (\<forall>k. map_of m k = (if positions (\<lambda>x. k \<in> set (ks x)) xs = [] then None else Some (positions (\<lambda>x. k \<in> set (ks x)) xs)))"

lemma positions_snoc: "positions P (xs @ [x]) = positions P xs @ (if P x then [length xs] else [])"
proof -
  have "filter (\<lambda>i. P ((xs @ [x]) ! i)) [0..<length xs] = filter (\<lambda>i. P (xs ! i)) [0..<length xs]"
    by (rule filter_cong) (auto simp: nth_append)
  then show ?thesis by (simp add: positions_def)
qed

lemma positions_entries: "map ((!) xs) (positions P xs) = filter P xs"
  unfolding positions_def filter_map [unfolded comp_def, symmetric] map_nth ..

lemma positions_drop: "map (\<lambda>i. i - k) (filter (\<lambda>i. k \<le> i) (positions P xs)) = positions P (drop k xs)"
proof (induction xs rule: rev_induct)
  case Nil
  then show ?case by (simp add: positions_def)
next
  case (snoc x xs)
  then show ?case by (cases "k \<le> length xs") (auto simp: positions_snoc)
qed

lemma fold_addPos:
  "distinct ks \<Longrightarrow> map_of (fold (addPos pos) ks m) k =
     (if k \<in> set ks then Some ((case map_of m k of None \<Rightarrow> [] | Some l \<Rightarrow> l) @ [pos]) else map_of m k)"
  by (induction ks arbitrary: m) (auto simp: addPos_def)

lemma fold_addPos_distinct: "distinct (keys m) \<Longrightarrow> distinct (keys (fold (addPos pos) ks m))"
  by (induction ks arbitrary: m) (simp_all add: addPos_def)

lemma table_ok_add:
  assumes "table_ok ks xs m" "distinct (ks x)"
  shows "table_ok ks (xs @ [x]) (fold (addPos (length xs)) (ks x) m)"
  using assms by (auto simp: table_ok_def fold_addPos fold_addPos_distinct positions_snoc)

lemma map_of_rewrite:
  "distinct (keys m) \<Longrightarrow> map_of (rewriteIndexes n m) k = (case map_of m k of None \<Rightarrow> None
     | Some l \<Rightarrow> if map (\<lambda>i. i - n) (filter (\<lambda>i. n \<le> i) l) = [] then None else Some (map (\<lambda>i. i - n) (filter (\<lambda>i. n \<le> i) l)))"
proof (induction m)
  case (Cons e m)
  moreover have "k \<notin> set (keys m) \<Longrightarrow> map_of (rewriteIndexes n m) k = None"
    by (force simp: rewriteIndexes_def map_of_eq_None_iff)
  ultimately show ?case by (cases e) (auto simp: rewriteIndexes_def map_of_eq_None_iff split: option.split)
qed (simp add: rewriteIndexes_def)

lemma rewrite_distinct: "distinct (keys m) \<Longrightarrow> distinct (keys (rewriteIndexes n m))"
proof -
  assume "distinct (keys m)"
  then have "distinct (keys (map (\<lambda>(k, l). (k, map (\<lambda>i. i - n) (filter (\<lambda>i. n \<le> i) l))) m))"
    by (simp add: comp_def case_prod_unfold)
  then show ?thesis unfolding rewriteIndexes_def by (simp add: distinct_map_filter)
qed

lemma table_ok_drop:
  assumes "table_ok ks xs m"
  shows "table_ok ks (drop n xs) (rewriteIndexes n m)"
proof -
  have "map_of (rewriteIndexes n m) k = (if positions (\<lambda>x. k \<in> set (ks x)) (drop n xs) = [] then None
      else Some (positions (\<lambda>x. k \<in> set (ks x)) (drop n xs)))" for k
    using assms unfolding table_ok_def map_of_rewrite [OF conjunct1 [OF assms [unfolded table_ok_def]]]
    by (auto simp: positions_drop [symmetric])
  with assms show ?thesis by (auto simp: table_ok_def intro: rewrite_distinct)
qed

section \<open>A query through the tables is a scan of the window\<close>

abbreviation normalEntry :: "'d Entry \<Rightarrow> 'd Entry" where
  "normalEntry e \<equiv> e\<lparr>En_ProjectID := normalizeProjectID (En_ProjectID e)\<rparr>"

definition retained :: "int \<Rightarrow> 'a list \<Rightarrow> 'a list" where
  "retained n xs = (if n > 0 then drop (length xs - nat n) xs else xs)"

abbreviation actionKeys :: "'d Entry \<Rightarrow> string list" where
  "actionKeys e \<equiv> if En_Action e \<noteq> [] then [En_Action e] else []"

abbreviation actorKeys :: "'d Entry \<Rightarrow> string list" where
  "actorKeys e \<equiv> actorIndexKeys (Act_Kind (En_Actor e)) (Act_ID (En_Actor e))"

definition index_ok :: "'d Index \<Rightarrow> bool" where
  "index_ok ix \<longleftrightarrow> table_ok (\<lambda>e. [En_ProjectID e]) (ix_entries ix) (ix_byProject ix) \<and>
     table_ok actionKeys (ix_entries ix) (ix_byAction ix) \<and> table_ok actorKeys (ix_entries ix) (ix_byActor ix) \<and>
     (\<forall>e \<in> set (ix_entries ix). normalizeProjectID (En_ProjectID e) = En_ProjectID e)"

lemma normalize_idem [simp]: "normalizeProjectID (normalizeProjectID p) = normalizeProjectID p"
proof -
  have "TrimSpace GlobalProjectID \<noteq> []" by code_simp
  then show ?thesis by (simp add: normalizeProjectID_def)
qed

lemma actorKeys_distinct: "CHR 0x00 \<notin> set kind \<Longrightarrow> distinct (actorIndexKeys kind i)"
  by (cases kind) (auto simp: actorIndexKeys_def actorQueryKey_def)

lemma evict_entries: "ix_entries (evictBeyondMax ix) = retained (ix_maxEntries ix) (ix_entries ix)"
  "ix_maxEntries (evictBeyondMax ix) = ix_maxEntries ix"
  by (auto simp: evictBeyondMax_def retained_def Let_def nat_diff_distrib intro: arg_cong2 [where f = drop])

lemma evict_ok: "index_ok ix \<Longrightarrow> index_ok (evictBeyondMax ix)"
  by (auto simp: evictBeyondMax_def index_ok_def Let_def table_ok_drop dest: in_set_dropD)

lemma add_ok:
  assumes "index_ok ix" "CHR 0x00 \<notin> set (Act_Kind (En_Actor e))"
  shows "index_ok (index_add e ix)"
proof -
  let ?e = "normalEntry e" and ?n = "length (ix_entries ix)"
  from assms(1) have t: "table_ok (\<lambda>e. [En_ProjectID e]) (ix_entries ix) (ix_byProject ix)"
    "table_ok actionKeys (ix_entries ix) (ix_byAction ix)" "table_ok actorKeys (ix_entries ix) (ix_byActor ix)"
    "\<forall>e \<in> set (ix_entries ix). normalizeProjectID (En_ProjectID e) = En_ProjectID e" by (simp_all add: index_ok_def)
  have 1: "table_ok (\<lambda>e. [En_ProjectID e]) (ix_entries ix @ [?e]) (addPos ?n (En_ProjectID ?e) (ix_byProject ix))"
    using table_ok_add [OF t(1), of ?e] by simp
  have 2: "table_ok actionKeys (ix_entries ix @ [?e])
      (if En_Action ?e \<noteq> [] then addPos ?n (En_Action ?e) (ix_byAction ix) else ix_byAction ix)"
    using table_ok_add [OF t(2), of ?e] by (cases "En_Action e = []") simp_all
  have 3: "table_ok actorKeys (ix_entries ix @ [?e]) (fold (addPos ?n) (actorKeys ?e) (ix_byActor ix))"
    using table_ok_add [OF t(3), of ?e] actorKeys_distinct [OF assms(2)] by simp
  show ?thesis unfolding index_add_def Let_def
    by (rule evict_ok) (use 1 2 3 t(4) in \<open>simp add: index_ok_def\<close>)
qed

lemma retained_snoc: "retained n (retained n xs @ [x]) = retained n (xs @ [x])"
  by (cases "length xs < nat n") (auto simp: retained_def Suc_diff_le)

lemma retained_twice: "retained n (retained n xs @ ys) = retained n (xs @ ys)"
proof (induction ys rule: rev_induct)
  case Nil
  then show ?case by (simp add: retained_def)
next
  case (snoc y ys)
  have "retained n (retained n xs @ ys @ [y]) = retained n (retained n (retained n xs @ ys) @ [y])"
    using retained_snoc [of n "retained n xs @ ys" y] by simp
  with snoc retained_snoc [of n "xs @ ys" y] show ?case by simp
qed

lemma retained_idem [simp]: "retained n (retained n xs) = retained n xs"
  using retained_twice [of n xs "[]"] by simp

lemma add_entries: "ix_entries (index_add e ix) = retained (ix_maxEntries ix) (ix_entries ix @ [normalEntry e])"
  "ix_maxEntries (index_add e ix) = ix_maxEntries ix"
  by (simp_all add: index_add_def Let_def evict_entries)

lemma adds_entries:
  "ix_entries ix = retained (ix_maxEntries ix) (ix_entries ix) \<Longrightarrow>
   ix_entries (fold index_add es ix) = retained (ix_maxEntries ix) (ix_entries ix @ map normalEntry es) \<and>
   ix_maxEntries (fold index_add es ix) = ix_maxEntries ix"
proof (induction es arbitrary: ix)
  case (Cons e es)
  have "ix_entries (index_add e ix) = retained (ix_maxEntries (index_add e ix)) (ix_entries (index_add e ix))"
    by (simp add: add_entries)
  from Cons.IH [OF this] show ?case by (simp add: add_entries retained_twice)
qed simp

lemma adds_ok:
  "index_ok ix \<Longrightarrow> \<forall>e \<in> set es. CHR 0x00 \<notin> set (Act_Kind (En_Actor e)) \<Longrightarrow> index_ok (fold index_add es ix)"
  by (induction es arbitrary: ix) (simp_all add: add_ok)

lemma new_index:
  assumes "\<forall>e \<in> set es. CHR 0x00 \<notin> set (Act_Kind (En_Actor e))"
  shows "index_ok (NewIndexWithConfig es n)" "ix_entries (NewIndexWithConfig es n) = retained n (map normalEntry es)"
    "ix_maxEntries (NewIndexWithConfig es n) = n"
proof -
  have e: "index_ok (emptyIndex n)" by (simp add: index_ok_def emptyIndex_def table_ok_def positions_def)
  have k: "NewIndexWithConfig es n = fold index_add (retained n es) (emptyIndex n)"
    by (auto simp: NewIndexWithConfig_def retained_def Let_def)
  have r: "ix_entries (emptyIndex n) = retained (ix_maxEntries (emptyIndex n)) (ix_entries (emptyIndex n))"
    by (simp add: emptyIndex_def retained_def)
  have "\<forall>e \<in> set (retained n es). CHR 0x00 \<notin> set (Act_Kind (En_Actor e))"
    using assms by (auto simp: retained_def dest: in_set_dropD)
  from adds_ok [OF e this] k show "index_ok (NewIndexWithConfig es n)" by simp
  have m: "map normalEntry (retained n es) = retained n (map normalEntry es)" by (simp add: retained_def drop_map)
  from adds_entries [OF r, of "retained n es"] k m 
  show "ix_entries (NewIndexWithConfig es n) = retained n (map normalEntry es)" "ix_maxEntries (NewIndexWithConfig es n) = n"
    by (simp_all add: emptyIndex_def)
qed

text \<open>What the tables may offer: every entry that matches.\<close>

definition offers :: "('a \<Rightarrow> bool) \<Rightarrow> 'a list \<Rightarrow> nat list option \<Rightarrow> bool" where
  "offers M xs c \<longleftrightarrow> (case c of None \<Rightarrow> True | Some l \<Rightarrow> \<exists>P. l = positions P xs \<and> (\<forall>x \<in> set xs. M x \<longrightarrow> P x))"

lemma offers_choose: "offers M xs a \<Longrightarrow> offers M xs b \<Longrightarrow> offers M xs (chooseShorter a b)"
  by (cases a; cases b) (simp_all add: chooseShorter_def)

lemma offers_table:
  "table_ok ks xs m \<Longrightarrow> \<forall>x \<in> set xs. M x \<longrightarrow> k \<in> set (ks x) \<Longrightarrow> offers M xs (map_of m k)"
  by (auto simp: table_ok_def offers_def)

lemma offers_filter: "offers M xs (Some l) \<Longrightarrow> filter M (map ((!) xs) l) = filter M xs"
proof -
  assume "offers M xs (Some l)"
  then obtain P where P: "l = positions P xs" "\<forall>x \<in> set xs. M x \<longrightarrow> P x" by (auto simp: offers_def)
  then show ?thesis unfolding P(1) positions_entries filter_filter by (intro filter_cong) auto
qed

lemma query_matchesD:
  assumes "query_matches lib q e"
  shows "Q_ProjectID q \<noteq> [] \<Longrightarrow> normalizeProjectID (Q_ProjectID q) = normalizeProjectID (En_ProjectID e)"
    "Q_ActorKind q \<noteq> [] \<Longrightarrow> Q_ActorKind q = Act_Kind (En_Actor e)" "Q_ActorID q \<noteq> [] \<Longrightarrow> Q_ActorID q = Act_ID (En_Actor e)"
    "Q_Action q \<noteq> [] \<Longrightarrow> Q_Action q = En_Action e"
  using assms by (simp_all add: query_matches_def split: if_splits)

lemma actor_key_matches:
  "query_matches lib q e \<Longrightarrow> Q_ActorKind q \<noteq> [] \<or> Q_ActorID q \<noteq> [] \<Longrightarrow>
   actorQueryKey (Q_ActorKind q) (Q_ActorID q) \<in> set (actorKeys e)"
  using query_matchesD(2,3) [of lib q e] by (cases "Q_ActorKind q = []"; cases "Q_ActorID q = []")
    (auto simp: actorIndexKeys_def actorQueryKey_def)

lemma candidates_offer:
  assumes "index_ok ix"
  shows "filter (query_matches lib q) (map ((!) (ix_entries ix)) (candidateIndexes q ix)) = filter (query_matches lib q) (ix_entries ix)"
proof -
  let ?es = "ix_entries ix" and ?M = "query_matches lib q"
  from assms have t: "table_ok (\<lambda>e. [En_ProjectID e]) ?es (ix_byProject ix)" "table_ok actionKeys ?es (ix_byAction ix)"
    "table_ok actorKeys ?es (ix_byActor ix)" and n: "\<forall>e \<in> set ?es. normalizeProjectID (En_ProjectID e) = En_ProjectID e"
    by (simp_all add: index_ok_def)
  have p: "Q_ProjectID q \<noteq> [] \<Longrightarrow> offers ?M ?es (map_of (ix_byProject ix) (normalizeProjectID (Q_ProjectID q)))"
    using n by (intro offers_table [OF t(1)]) (auto dest: query_matchesD(1))
  have a: "Q_Action q \<noteq> [] \<Longrightarrow> offers ?M ?es (map_of (ix_byAction ix) (Q_Action q))"
    by (intro offers_table [OF t(2)]) (auto dest: query_matchesD(4))
  have c: "Q_ActorKind q \<noteq> [] \<or> Q_ActorID q \<noteq> [] \<Longrightarrow> offers ?M ?es (map_of (ix_byActor ix) (actorQueryKey (Q_ActorKind q) (Q_ActorID q)))"
    by (intro offers_table [OF t(3)]) (simp add: actor_key_matches)
  have none: "offers ?M ?es None" by (simp add: offers_def)
  define c1 where "c1 = (if Q_ProjectID q \<noteq> [] then chooseShorter (map_of (ix_byProject ix) (normalizeProjectID (Q_ProjectID q))) None else None)"
  define c2 where "c2 = (if Q_Action q \<noteq> [] then chooseShorter (map_of (ix_byAction ix) (Q_Action q)) c1 else c1)"
  define c3 where "c3 = (if Q_ActorKind q \<noteq> [] \<or> Q_ActorID q \<noteq> []
      then chooseShorter (map_of (ix_byActor ix) (actorQueryKey (Q_ActorKind q) (Q_ActorID q))) c2 else c2)"
  have "offers ?M ?es c1" using p none by (simp add: c1_def offers_choose)
  then have "offers ?M ?es c2" using a by (simp add: c2_def offers_choose)
  then have o: "offers ?M ?es c3" using c by (simp add: c3_def offers_choose)
  have "candidateIndexes q ix = (case c3 of None \<Rightarrow> [0..<length ?es] | Some l \<Rightarrow> l)"
    by (simp add: candidateIndexes_def Let_def c1_def c2_def c3_def)
  then show ?thesis using o by (cases c3) (simp_all add: map_nth offers_filter)
qed

text \<open>
  C25. The index of the audit log answers every query exactly as a scan would: after any entries loaded
  from the file and any appended since, with any bound on the window, a query gives the matching ones
  among the retained latest entries, sorted and cut to the limit, whatever tables it went through and
  however often they were rewritten by evictions. (No actor kind may contain a zero byte.)
\<close>

theorem audit_query_is_scan:
  assumes "\<forall>e \<in> set (loaded @ appended). CHR 0x00 \<notin> set (Act_Kind (En_Actor e))"
  shows "index_query lib q (fold index_add appended (NewIndexWithConfig loaded n)) =
    limitEntries (Q_Limit q) (sortStable (if Q_Reverse q then laterEntry else earlierEntry)
      (filter (query_matches lib q) (retained n (map normalEntry (loaded @ appended)))))"
proof -
  let ?ix = "fold index_add appended (NewIndexWithConfig loaded n)"
  note new = new_index [of loaded n]
  have l: "\<forall>e \<in> set loaded. CHR 0x00 \<notin> set (Act_Kind (En_Actor e))" using assms by simp
  from adds_ok [OF new(1) [OF l]] assms have ok: "index_ok ?ix" by simp
  have "ix_entries (NewIndexWithConfig loaded n) = retained (ix_maxEntries (NewIndexWithConfig loaded n)) (ix_entries (NewIndexWithConfig loaded n))"
    using new(2,3) [OF l] by simp
  from adds_entries [OF this, of appended] new(2,3) [OF l]
  have e: "ix_entries ?ix = retained n (map normalEntry (loaded @ appended))" by (simp add: retained_twice)
  show ?thesis
  proof (cases "ix_entries ?ix = []")
    case True
    then show ?thesis using e by (simp add: index_query_def sortStable_def limitEntries_def)
  next
    case False
    then show ?thesis unfolding e [symmetric] index_query_def by (simp add: Let_def candidates_offer [OF ok])
  qed
qed

end
