(* ===== verification/AuditWriter.thy ===== *)
theory AuditWriter
  imports AuditIndex JsonlLog
begin

text \<open>
  Package \<open>audit\<close>, \<open>writer.go\<close>: the writer of the audit log, any number of them on one file. An append
  redacts the entry, locks the file, reads it to learn the numbers other writers gave, numbers the
  entry and the trace entries of its redaction, writes them line by line and adds them to the index.
  The redactor with its JSON round trip is an argument, as are the clock and the random identifiers.
\<close>

definition AuditSchemaVersion :: int where
  "AuditSchemaVersion = 2"

definition ActionRedactionTrace :: string where
  "ActionRedactionTrace = ''audit.redaction_trace''"

definition ResultSuccess :: string where
  "ResultSuccess = ''success''"

definition ActorSystem :: string where
  "ActorSystem = ''system''"

record TraceEvent =
  Tr_Time :: time
  Tr_Redactor :: string
  Tr_PatternID :: string
  Tr_Context :: string
  Tr_BytesRedacted :: int
  Tr_Count :: int

section \<open>Lines of the file\<close>

record 'd legacyEntry =
  Le_EventID :: string
  Le_Type :: string
  Le_Time :: time
  Le_ActorKind :: string
  Le_ActorID :: string
  Le_CorrelationID :: string
  Le_CausationID :: string
  Le_Data :: "(string \<times> 'd audit_value) list"

text \<open>A line that is JSON: an entry of the current version, of version 1, or of another one.\<close>

datatype 'd audit_doc = DocV2 "'d Entry" | DocV1 "'d legacyEntry" | DocOther int

type_synonym 'd audit_file = "'d audit_doc log_file"

text \<open>
  \<open>au_redact\<close> is \<open>redactEntry\<close> up to its last step, \<open>au_redactLegacy\<close> the redaction of old data, \<open>au_fits\<close>
  whether a line stays under the 4 MiB of the reader.
\<close>

record 'd audit_lib =
  au_redact :: "'d Entry \<Rightarrow> string + 'd Entry \<times> TraceEvent list"
  au_redactLegacy :: "(string \<times> 'd audit_value) list \<Rightarrow> (string \<times> 'd audit_value) list"
  au_fits :: "'d audit_doc \<Rightarrow> bool"

definition normalizeDecodedEntry :: "'d Entry \<Rightarrow> 'd Entry" where
  "normalizeDecodedEntry e = e\<lparr>En_ProjectID := normalizeProjectID (En_ProjectID e),
     En_SchemaVersion := (if En_SchemaVersion e = 0 then AuditSchemaVersion else En_SchemaVersion e)\<rparr>"

definition legacyAsEntry :: "'d audit_lib \<Rightarrow> 'd legacyEntry \<Rightarrow> 'd Entry" where
  "legacyAsEntry lib l = \<lparr>En_SchemaVersion = AuditSchemaVersion, En_EventID = Le_EventID l, En_Seq = 0,
     En_Time = Le_Time l, En_ProjectID = GlobalProjectID,
     En_Actor = \<lparr>Act_Kind = Le_ActorKind l, Act_ID = Le_ActorID l, Act_RunID = []\<rparr>, En_Action = Le_Type l,
     En_Reason = [], En_CommandPreview = [], En_Result = [], En_ArtifactRefs = [],
     En_CorrelationID = Le_CorrelationID l, En_CausationID = Le_CausationID l, En_ApprovalID = [],
     En_Data = (if Le_Data l = [] then [] else au_redactLegacy lib (Le_Data l))\<rparr>"

definition DecodeEntry :: "'d audit_lib \<Rightarrow> 'd audit_doc \<Rightarrow> string + 'd Entry" where
  "DecodeEntry lib d = (case d of DocV2 e \<Rightarrow> Inr (normalizeDecodedEntry e)
     | DocV1 l \<Rightarrow> Inr (normalizeDecodedEntry (legacyAsEntry lib l))
     | DocOther v \<Rightarrow> Inl ''unsupported schema version'')"

definition readStep :: "'d audit_lib \<Rightarrow> 'd audit_doc \<Rightarrow> 'd Entry list \<Rightarrow> string + 'd Entry list" where
  "readStep lib d es = (case DecodeEntry lib d of Inl m \<Rightarrow> Inl m | Inr e \<Rightarrow> Inr (es @ [e]))"

definition readEntries :: "'d audit_lib \<Rightarrow> 'd audit_file \<Rightarrow> string + 'd Entry list" where
  "readEntries lib f = (case scan_log (au_fits lib) (readStep lib) f [] of
     Inl ScanTooLong \<Rightarrow> Inl ''audit: scan'' | Inl ScanMalformed \<Rightarrow> Inl ''audit: decode line''
   | Inl (ScanStep m) \<Rightarrow> Inl m | Inr es \<Rightarrow> Inr es)"

section \<open>The writer\<close>

record 'd AuditWriter =
  aw_seqs :: "(string \<times> nat) list"
  aw_index :: "'d Index"

definition lastSeq :: "string \<Rightarrow> 'd AuditWriter \<Rightarrow> nat" where
  "lastSeq p w = (case map_of (aw_seqs w) p of None \<Rightarrow> 0 | Some n \<Rightarrow> n)"

definition nextSeq :: "string \<Rightarrow> 'd AuditWriter \<Rightarrow> nat \<times> 'd AuditWriter" where
  "nextSeq p0 w = (let p = normalizeProjectID p0; n = u64 (lastSeq p w + 1)
     in (n, w\<lparr>aw_seqs := AList.update p n (aw_seqs w)\<rparr>))"

definition recordSeq :: "string \<Rightarrow> nat \<Rightarrow> 'd AuditWriter \<Rightarrow> 'd AuditWriter" where
  "recordSeq p0 n w = (let p = normalizeProjectID p0 in
     if n > lastSeq p w then w\<lparr>aw_seqs := AList.update p n (aw_seqs w)\<rparr> else w)"

definition projectsIn :: "'d Entry list \<Rightarrow> string list" where
  "projectsIn es = map (\<lambda>e. normalizeProjectID (En_ProjectID e)) es"

definition refreshSequences :: "'d audit_lib \<Rightarrow> string list \<Rightarrow> 'd audit_file \<Rightarrow> 'd AuditWriter \<Rightarrow> string + 'd AuditWriter" where
  "refreshSequences lib ps f w = (if ps = [] then Inr w
     else case readEntries lib f of Inl m \<Rightarrow> Inl m
     | Inr es \<Rightarrow> Inr (fold (\<lambda>e. if normalizeProjectID (En_ProjectID e) \<in> set ps
         then recordSeq (En_ProjectID e) (En_Seq e) else id) es w))"

text \<open>Failures of one append: of the lock, of opening the file to read it, of the k-th write, of the sync.\<close>

datatype written = WroteNothing | WroteSome | WroteAllButNewline

datatype audit_fault = AFLock string | AFRead string | AFWrite nat written string | AFSync string

definition prepareEntry :: "string \<Rightarrow> time \<Rightarrow> 'd Entry \<Rightarrow> 'd Entry" where
  "prepareEntry eid now e = e\<lparr>En_SchemaVersion := AuditSchemaVersion,
     En_EventID := (if En_EventID e = [] then eid else En_EventID e),
     En_Time := (if isZero (En_Time e) then now else En_Time e),
     En_ProjectID := normalizeProjectID (En_ProjectID e)\<rparr>"

definition traceEntry :: "string \<Rightarrow> TraceEvent \<Rightarrow> 'd Entry \<Rightarrow> 'd Entry" where
  "traceEntry eid t source = \<lparr>En_SchemaVersion = AuditSchemaVersion, En_EventID = eid, En_Seq = 0,
     En_Time = Tr_Time t, En_ProjectID = En_ProjectID source,
     En_Actor = \<lparr>Act_Kind = ActorSystem, Act_ID = ''daemon.redaction'', Act_RunID = []\<rparr>,
     En_Action = ActionRedactionTrace, En_Reason = [], En_CommandPreview = [], En_Result = ResultSuccess,
     En_ArtifactRefs = [], En_CorrelationID = En_CorrelationID source, En_CausationID = En_EventID source,
     En_ApprovalID = [],
     En_Data = [(''redactor'', AVStr (Tr_Redactor t)), (''pattern_id'', AVStr (Tr_PatternID t)),
       (''context'', AVStr (Tr_Context t)), (''bytes_redacted'', AVInt (Tr_BytesRedacted t)),
       (''count'', AVInt (Tr_Count t))]\<rparr>"

text \<open>
  What \<open>Append\<close> does before the lock. \<open>gen k\<close> and \<open>clk k\<close> are the k-th identifier drawn and reading of the
  clock: 0 for the entry, 1 for the redacted one, the others for the traces.
\<close>

definition appendRecords ::
  "'d audit_lib \<Rightarrow> (nat \<Rightarrow> string) \<Rightarrow> (nat \<Rightarrow> time) \<Rightarrow> 'd Entry \<Rightarrow> string + 'd Entry list \<times> TraceEvent list" where
  "appendRecords lib gen clk entry =
     (case au_redact lib (prepareEntry (gen 0) (clk 0) (entry\<lparr>En_Seq := 0\<rparr>)) of Inl m \<Rightarrow> Inl m
      | Inr (e, traces) \<Rightarrow>
          let redacted = prepareEntry (gen 1) (clk 1) e
          in Inr (redacted # map (\<lambda>(k, t). prepareEntry (gen k) (clk k) (traceEntry (gen k) t redacted))
               (zip [2..<2 + length traces] traces), traces))"

text \<open>What a write leaves in the file.\<close>

definition write_doc :: "audit_fault option \<Rightarrow> nat \<Rightarrow> 'd audit_doc \<Rightarrow> 'd audit_file \<Rightarrow> string option \<times> 'd audit_file" where
  "write_doc fault k d f = (case fault of
     Some (AFWrite j wr m) \<Rightarrow> if j = k
       then (Some m, case wr of WroteNothing \<Rightarrow> f | WroteSome \<Rightarrow> torn_tail None f | WroteAllButNewline \<Rightarrow> torn_tail (Some d) f)
       else (None, append_line d f)
   | _ \<Rightarrow> (None, append_line d f))"

fun writeRecords ::
  "audit_fault option \<Rightarrow> nat \<Rightarrow> 'd Entry list \<Rightarrow> 'd AuditWriter \<Rightarrow> 'd audit_file
     \<Rightarrow> (string + 'd Entry list) \<times> 'd AuditWriter \<times> 'd audit_file" where
  "writeRecords fault k [] w f = (Inr [], w, f)"
| "writeRecords fault k (r # rs) w f =
     (case nextSeq (En_ProjectID r) w of (n, w1) \<Rightarrow>
      let r' = r\<lparr>En_Seq := n\<rparr> in
      case write_doc fault k (DocV2 r') f of
        (Some m, f1) \<Rightarrow> (Inl m, w1, f1)
      | (None, f1) \<Rightarrow> (case writeRecords fault (Suc k) rs (w1\<lparr>aw_index := index_add r' (aw_index w1)\<rparr>) f1 of
            (Inl m, w2, f2) \<Rightarrow> (Inl m, w2, f2)
          | (Inr out, w2, f2) \<Rightarrow> (Inr (r' # out), w2, f2)))"

definition AuditAppend ::
  "'d audit_lib \<Rightarrow> (nat \<Rightarrow> string) \<Rightarrow> (nat \<Rightarrow> time) \<Rightarrow> audit_fault option \<Rightarrow> 'd Entry \<Rightarrow> 'd AuditWriter \<Rightarrow> 'd audit_file
     \<Rightarrow> (string + 'd Entry \<times> TraceEvent list) \<times> 'd AuditWriter \<times> 'd audit_file" where
  "AuditAppend lib gen clk fault entry w f =
     (case appendRecords lib gen clk entry of Inl m \<Rightarrow> (Inl m, w, f)
      | Inr (records, traces) \<Rightarrow> (case fault of Some (AFLock m) \<Rightarrow> (Inl m, w, f)
        | Some (AFRead m) \<Rightarrow> (Inl m, w, f)
        | _ \<Rightarrow> (case refreshSequences lib (projectsIn records) f w of Inl m \<Rightarrow> (Inl m, w, f)
          | Inr w1 \<Rightarrow> (case writeRecords fault 0 records w1 f of
                (Inl m, w2, f2) \<Rightarrow> (Inl m, w2, f2)
              | (Inr out, w2, f2) \<Rightarrow> (case fault of Some (AFSync m) \<Rightarrow> (Inl m, w2, f2)
                  | _ \<Rightarrow> (Inr (hd out, traces), w2, f2))))))"

definition defaultIndexMaxEntries :: int where
  "defaultIndexMaxEntries = 50000"

definition NewWriter :: "'d audit_lib \<Rightarrow> int \<Rightarrow> audit_fault option \<Rightarrow> 'd audit_file \<Rightarrow> string + 'd AuditWriter" where
  "NewWriter lib maxEntries fault f =
     (let cap = (if maxEntries = 0 then defaultIndexMaxEntries else if maxEntries < 0 then 0 else maxEntries) in
      case fault of Some (AFLock m) \<Rightarrow> Inl m | Some (AFRead m) \<Rightarrow> Inl m
      | _ \<Rightarrow> (case readEntries lib f of Inl m \<Rightarrow> Inl m
         | Inr es \<Rightarrow> Inr (fold (\<lambda>e. recordSeq (En_ProjectID e) (En_Seq e)) es
             \<lparr>aw_seqs = [], aw_index = NewIndexWithConfig es cap\<rparr>)))"

definition AuditQuery :: "'d text_lib \<Rightarrow> Query \<Rightarrow> 'd AuditWriter \<Rightarrow> 'd Entry list" where
  "AuditQuery lib q w = index_query lib q (aw_index w)"

definition RecentAuditEvents :: "'d text_lib \<Rightarrow> string \<Rightarrow> int \<Rightarrow> 'd AuditWriter \<Rightarrow> 'd Entry list" where
  "RecentAuditEvents lib p limit w = AuditQuery lib
     \<lparr>Q_ProjectID = p, Q_ActorKind = [], Q_ActorID = [], Q_Action = [], Q_Result = [], Q_CorrelationID = [],
      Q_CausationID = [], Q_Search = [], Q_From = 0, Q_To = 0, Q_Limit = limit, Q_Reverse = True\<rparr> w"

end
