(* ===== verification/AuditProps.thy ===== *)
theory AuditProps
  imports AuditWriter
begin

text \<open>
  The numbers of the audit log, with any number of writers on one file and any failures; and what a line
  longer than the reader's limit does to the log.
\<close>

section \<open>Any number of writers on one file\<close>

record 'd audit_world =
  au_file :: "'d audit_file"
  au_writers :: "'d AuditWriter list"

datatype 'd audit_op = AuOpen int "audit_fault option"
  | AuAppend nat "nat \<Rightarrow> string" "nat \<Rightarrow> time" "audit_fault option" "'d Entry"

fun audit_exec :: "'d audit_lib \<Rightarrow> 'd audit_op \<Rightarrow> 'd audit_world \<Rightarrow> 'd audit_world" where
  "audit_exec lib (AuOpen cap fault) s = (case NewWriter lib cap fault (au_file s) of Inl m \<Rightarrow> s
     | Inr w \<Rightarrow> s\<lparr>au_writers := au_writers s @ [w]\<rparr>)"
| "audit_exec lib (AuAppend k gen clk fault entry) s =
     (if k < length (au_writers s) then
        (case AuditAppend lib gen clk fault entry (au_writers s ! k) (au_file s) of
           (r, w, f) \<Rightarrow> \<lparr>au_file = f, au_writers = (au_writers s)[k := w]\<rparr>)
      else s)"

abbreviation audit_run :: "'d audit_lib \<Rightarrow> 'd audit_op list \<Rightarrow> 'd audit_world \<Rightarrow> 'd audit_world" where
  "audit_run lib \<equiv> fold (audit_exec lib)"

definition audit_start :: "'d audit_world" where
  "audit_start = \<lparr>au_file = empty_file, au_writers = []\<rparr>"

text \<open>How many numbers an operation can use up, and whether anything fails in it.\<close>

fun op_size :: "'d audit_lib \<Rightarrow> 'd audit_op \<Rightarrow> nat" where
  "op_size lib (AuOpen cap fault) = 0"
| "op_size lib (AuAppend k gen clk fault entry) =
     (case appendRecords lib gen clk entry of Inl m \<Rightarrow> 0 | Inr (rs, ts) \<Rightarrow> length rs)"

fun no_write_fault :: "'d audit_op \<Rightarrow> bool" where
  "no_write_fault (AuOpen cap fault) = True"
| "no_write_fault (AuAppend k gen clk fault entry) = (\<forall>j wr m. fault \<noteq> Some (AFWrite j wr m))"

section \<open>The counters\<close>

abbreviation of_project :: "string \<Rightarrow> 'd Entry list \<Rightarrow> 'd Entry list" where
  "of_project p \<equiv> filter (\<lambda>e. En_ProjectID e = p)"

lemma lastSeq_record:
  "lastSeq p (recordSeq q n w) = (if p = normalizeProjectID q then max (lastSeq p w) n else lastSeq p w)"
  by (auto simp: recordSeq_def lastSeq_def Let_def)

lemma lastSeq_next:
  "nextSeq q w = (n, w') \<Longrightarrow> n = u64 (lastSeq (normalizeProjectID q) w + 1) \<and>
     lastSeq p w' = (if p = normalizeProjectID q then n else lastSeq p w)"
  by (auto simp: nextSeq_def lastSeq_def Let_def)

lemma lastSeq_index [simp]: "lastSeq p (w\<lparr>aw_index := ix\<rparr>) = lastSeq p w"
  by (simp add: lastSeq_def)

text \<open>Reading raises the counters to the largest number read, of the projects asked for.\<close>

definition top_seq :: "string \<Rightarrow> 'd Entry list \<Rightarrow> nat" where
  "top_seq p es = fold max (map En_Seq (of_project p es)) 0"

lemma top_seq_snoc: "top_seq p (es @ [e]) = (if En_ProjectID e = p then max (En_Seq e) (top_seq p es) else top_seq p es)"
  by (simp add: top_seq_def)

lemma top_seq_Nil [simp]: "top_seq p [] = 0"
  by (simp add: top_seq_def)

lemma top_seq_ge: "e \<in> set es \<Longrightarrow> En_ProjectID e = p \<Longrightarrow> En_Seq e \<le> top_seq p es"
  by (induction es rule: rev_induct) (auto simp: top_seq_snoc)

lemma fold_record:
  assumes "\<forall>e \<in> set es. normalizeProjectID (En_ProjectID e) = En_ProjectID e"
  shows "lastSeq p (fold (\<lambda>e. if normalizeProjectID (En_ProjectID e) \<in> P then recordSeq (En_ProjectID e) (En_Seq e) else id) es w) =
    (if p \<in> P then max (lastSeq p w) (top_seq p es) else lastSeq p w)"
  using assms by (induction es rule: rev_induct) (auto simp: lastSeq_record top_seq_snoc)

section \<open>What can be read after a write\<close>

lemma read_scan: "readEntries lib f = Inr es \<longleftrightarrow> scan_log (au_fits lib) (readStep lib) f [] = Inr es"
  by (auto simp: readEntries_def split: sum.split scan_err.split)

lemma readStep_V2: "readStep lib (DocV2 e) es = Inr w \<longleftrightarrow> w = es @ [normalizeDecodedEntry e]"
  by (auto simp: readStep_def DecodeEntry_def)

lemma read_append_line:
  "readEntries lib (append_line (DocV2 e) f) = Inr w \<Longrightarrow>
   \<exists>es. readEntries lib f = Inr es \<and> w = es @ [normalizeDecodedEntry e]"
  using scan_append_line [of "au_fits lib" "readStep lib" "DocV2 e" f "[]" w] by (auto simp: read_scan readStep_V2)

lemma read_torn_tail:
  "readEntries lib (torn_tail whole f) = Inr w \<Longrightarrow>
   \<exists>es d. readEntries lib f = Inr es \<and> whole = Some d \<and> readStep lib d es = Inr w"
  using scan_torn_tail [of "au_fits lib" "readStep lib" whole f "[]" w] by (auto simp: read_scan)

lemma read_write_doc:
  assumes "write_doc fault k (DocV2 e) f = (r, f')" "readEntries lib f' = Inr w"
  shows "\<exists>es. readEntries lib f = Inr es \<and> (w = es @ [normalizeDecodedEntry e] \<or> r \<noteq> None \<and> w = es)"
proof -
  have line: "\<exists>es. readEntries lib f = Inr es \<and> w = es @ [normalizeDecodedEntry e]" if "f' = append_line (DocV2 e) f"
    using read_append_line assms(2) that by blast
  have torn: "f' \<noteq> torn_tail None f" using read_torn_tail [of lib None f w] assms(2) by auto
  have whole: "\<exists>es. readEntries lib f = Inr es \<and> w = es @ [normalizeDecodedEntry e]" if "f' = torn_tail (Some (DocV2 e)) f"
    using read_torn_tail [of lib "Some (DocV2 e)" f w] assms(2) that by (auto simp: readStep_V2)
  from assms(1) consider "f' = append_line (DocV2 e) f" | "f' = torn_tail None f" | "f' = torn_tail (Some (DocV2 e)) f"
    | "f' = f" "r \<noteq> None"
    by (auto simp: write_doc_def split: option.splits audit_fault.splits if_splits written.splits)
  then show ?thesis
  proof cases
    case 4
    with assms(2) show ?thesis by blast
  qed (use line torn whole in blast)+
qed

lemma read_normal: "readEntries lib f = Inr es \<Longrightarrow> \<forall>e \<in> set es. normalizeProjectID (En_ProjectID e) = En_ProjectID e"
proof -
  have "scan_lines fits (readStep lib) ls es0 = Inr es \<Longrightarrow> \<forall>e \<in> set es0. normalizeProjectID (En_ProjectID e) = En_ProjectID e \<Longrightarrow>
      \<forall>e \<in> set es. normalizeProjectID (En_ProjectID e) = En_ProjectID e" for fits ls es0
  proof (induction fits "readStep lib" ls es0 rule: scan_lines.induct)
    case (3 fits d ls st)
    show ?case
    proof (cases "DecodeEntry lib d")
      case (Inl m)
      with 3(2) show ?thesis by (simp add: readStep_def split: if_splits)
    next
      case (Inr e)
      then have "normalizeProjectID (En_ProjectID e) = En_ProjectID e"
        by (auto simp: DecodeEntry_def normalizeDecodedEntry_def split: audit_doc.splits)
      then have n: "\<forall>x \<in> set (st @ [e]). normalizeProjectID (En_ProjectID x) = En_ProjectID x" using 3(3) by simp
      from 3(2) Inr have f: "\<not> \<not> fits d" and sc: "scan_lines fits (readStep lib) ls (st @ [e]) = Inr es"
        by (simp_all add: readStep_def split: if_splits)
      from Inr have "readStep lib d st = Inr (st @ [e])" by (simp add: readStep_def)
      from 3(1) [OF f this sc n] show ?thesis .
    qed
  qed simp_all
  from this [of "au_fits lib" _ "[]"] show "readEntries lib f = Inr es \<Longrightarrow>
      \<forall>e \<in> set es. normalizeProjectID (En_ProjectID e) = En_ProjectID e" by (simp add: read_scan scan_log_def)
qed

section \<open>Numbers increase\<close>

definition increasing :: "'d Entry list \<Rightarrow> bool" where
  "increasing es \<longleftrightarrow> (\<forall>p. sorted_wrt (<) (map En_Seq (of_project p es)))"

lemma increasing_snoc:
  assumes "increasing es" "top_seq (En_ProjectID e) es < En_Seq e"
  shows "increasing (es @ [e])"
proof -
  have "En_Seq x < En_Seq e" if "x \<in> set es" "En_ProjectID x = En_ProjectID e" for x
    using top_seq_ge [OF that] assms(2) by simp
  with assms(1) show ?thesis by (auto simp: increasing_def sorted_wrt_append)
qed

text \<open>
  The state while a writer that has read the file writes: for the projects it writes to, its counter is
  not below any number in the file, and all numbers stay under a bound.
\<close>

definition ahead :: "'d audit_lib \<Rightarrow> string set \<Rightarrow> nat \<Rightarrow> 'd AuditWriter \<Rightarrow> 'd audit_file \<Rightarrow> bool" where
  "ahead lib P N w f \<longleftrightarrow> (\<forall>p. lastSeq p w \<le> N) \<and>
     (\<forall>es. readEntries lib f = Inr es \<longrightarrow> increasing es \<and> (\<forall>p. top_seq p es \<le> N) \<and> (\<forall>p \<in> P. top_seq p es \<le> lastSeq p w))"

lemma ahead_mono: "ahead lib P N w f \<Longrightarrow> N \<le> M \<Longrightarrow> ahead lib P M w f"
  unfolding ahead_def by (meson order_trans)

lemma write_step:
  assumes "ahead lib P N w f" "N + 1 < 2 ^ 64" "normalizeProjectID (En_ProjectID r) = p" "p \<in> P"
    "nextSeq (En_ProjectID r) w = (n, w1)" "write_doc fault k (DocV2 (r\<lparr>En_Seq := n\<rparr>)) f = (e, f1)"
  shows "ahead lib P (Suc N) (w1\<lparr>aw_index := ix\<rparr>) f1"
    and "\<And>q. lastSeq q w1 = (if q = p then n else lastSeq q w)" "n = Suc (lastSeq p w)"
    and "readEntries lib f1 = Inr es' \<Longrightarrow> \<exists>es d. readEntries lib f = Inr es \<and> top_seq p es < n \<and>
      En_ProjectID d = p \<and> En_Seq d = n \<and> (es' = es @ [d] \<or> e \<noteq> None \<and> es' = es)"
proof -
  let ?r = "r\<lparr>En_Seq := n\<rparr>" let ?d = "normalizeDecodedEntry ?r"
  have le: "lastSeq q w \<le> N" for q using assms(1) by (simp add: ahead_def)
  show n: "n = Suc (lastSeq p w)" and w1: "\<And>q. lastSeq q w1 = (if q = p then n else lastSeq q w)"
    using lastSeq_next [OF assms(5)] le [of p] assms(2,3) by (auto simp: u64_small)
  have d: "En_ProjectID ?d = p" "En_Seq ?d = n" using assms(3) by (simp_all add: normalizeDecodedEntry_def)
  have top: "top_seq p es < n" if "readEntries lib f = Inr es" for es
    using assms(1,4) that n by (auto simp: ahead_def le_imp_less_Suc)
  show read: "readEntries lib f1 = Inr es' \<Longrightarrow> \<exists>es d. readEntries lib f = Inr es \<and> top_seq p es < n \<and>
      En_ProjectID d = p \<and> En_Seq d = n \<and> (es' = es @ [d] \<or> e \<noteq> None \<and> es' = es)" for es'
    using read_write_doc [OF assms(6)] top d by metis
  show "ahead lib P (Suc N) (w1\<lparr>aw_index := ix\<rparr>) f1"
    unfolding ahead_def
  proof (rule conjI; intro allI impI)
    fix q show "lastSeq q (w1\<lparr>aw_index := ix\<rparr>) \<le> Suc N" using le [of q] le [of p] n w1 by simp
  next
    fix es' assume "readEntries lib f1 = Inr es'"
    from read [OF this] obtain es d where es: "readEntries lib f = Inr es" "top_seq p es < n" "En_ProjectID d = p" "En_Seq d = n"
      "es' = es @ [d] \<or> es' = es" by auto
    with assms(1) have old: "increasing es" "\<forall>p. top_seq p es \<le> N" "\<forall>p \<in> P. top_seq p es \<le> lastSeq p w" by (simp_all add: ahead_def)
    have nN: "n \<le> Suc N" using n le by simp
    have "increasing es'" using es(5) old(1) increasing_snoc [of es d] es(2-4) by auto
    moreover have "top_seq q es' \<le> Suc N" for q using es(5,3,4) old(2) nN by (auto simp: top_seq_snoc le_SucI)
    moreover have "top_seq q es' \<le> lastSeq q w1" if "q \<in> P" for q
      using es(2-5) old(3) that w1 by (auto simp: top_seq_snoc)
    ultimately show "increasing es' \<and> (\<forall>p. top_seq p es' \<le> Suc N) \<and> (\<forall>p \<in> P. top_seq p es' \<le> lastSeq p (w1\<lparr>aw_index := ix\<rparr>))"
      by simp
  qed
qed

text \<open>The shape of a run of writes.\<close>

lemma writeRecords_Cons:
  assumes "writeRecords fault k (r # rs) w f = (out, w', f')"
  obtains n w1 e f1 where "nextSeq (En_ProjectID r) w = (n, w1)" "write_doc fault k (DocV2 (r\<lparr>En_Seq := n\<rparr>)) f = (e, f1)"
    "e \<noteq> None \<Longrightarrow> w' = w1 \<and> f' = f1"
    "e = None \<Longrightarrow> \<exists>out'. writeRecords fault (Suc k) rs (w1\<lparr>aw_index := index_add (r\<lparr>En_Seq := n\<rparr>) (aw_index w1)\<rparr>) f1 = (out', w', f')"
proof -
  obtain n w1 where nx: "nextSeq (En_ProjectID r) w = (n, w1)" by (cases "nextSeq (En_ProjectID r) w")
  obtain e f1 where wr: "write_doc fault k (DocV2 (r\<lparr>En_Seq := n\<rparr>)) f = (e, f1)"
    by (cases "write_doc fault k (DocV2 (r\<lparr>En_Seq := n\<rparr>)) f")
  from assms nx wr show ?thesis
    by (intro that [OF nx wr]) (auto simp: Let_def split: option.splits prod.splits sum.splits)
qed

lemma writeRecords_ahead:
  assumes "ahead lib P N w f" "N + length rs < 2 ^ 64" "\<forall>r \<in> set rs. normalizeProjectID (En_ProjectID r) \<in> P"
    "writeRecords fault k rs w f = (out, w', f')"
  shows "ahead lib P (N + length rs) w' f'"
  using assms
proof (induction rs arbitrary: N k w f out)
  case (Cons r rs)
  from Cons.prems(4) obtain n w1 e f1 where st: "nextSeq (En_ProjectID r) w = (n, w1)"
    "write_doc fault k (DocV2 (r\<lparr>En_Seq := n\<rparr>)) f = (e, f1)" and fail: "e \<noteq> None \<Longrightarrow> w' = w1 \<and> f' = f1"
    and go: "e = None \<Longrightarrow> \<exists>out'. writeRecords fault (Suc k) rs (w1\<lparr>aw_index := index_add (r\<lparr>En_Seq := n\<rparr>) (aw_index w1)\<rparr>) f1 = (out', w', f')"
    by (rule writeRecords_Cons) blast
  have a: "ahead lib P (Suc N) (w1\<lparr>aw_index := ix\<rparr>) f1" for ix
    by (rule write_step(1) [OF Cons.prems(1) _ refl _ st]) (use Cons.prems(2,3) in auto)
  show ?case
  proof (cases e)
    case (Some m)
    then have "ahead lib P (Suc N) w' f'" using a [of "aw_index w1"] fail by simp
    then show ?thesis by (rule ahead_mono) simp
  next
    case None
    with go obtain out' where "writeRecords fault (Suc k) rs (w1\<lparr>aw_index := index_add (r\<lparr>En_Seq := n\<rparr>) (aw_index w1)\<rparr>) f1 = (out', w', f')"
      by blast
    from Cons.IH [OF a _ _ this] Cons.prems(2,3) show ?thesis by simp
  qed
qed simp

text \<open>Without failing writes no number is skipped, and no counter runs ahead of the file.\<close>

definition gapless :: "'d Entry list \<Rightarrow> bool" where
  "gapless es \<longleftrightarrow> (\<forall>p. map En_Seq (of_project p es) = [1..<Suc (length (of_project p es))])"

lemma gapless_top: "gapless es \<Longrightarrow> top_seq p es = length (of_project p es)"
proof -
  have "fold max [1..<Suc n] 0 = n" for n :: nat by (induction n) (simp_all add: max_def)
  then show "gapless es \<Longrightarrow> ?thesis" by (simp add: gapless_def top_seq_def del: upt_Suc)
qed

definition no_lead :: "'d audit_lib \<Rightarrow> 'd AuditWriter set \<Rightarrow> 'd audit_file \<Rightarrow> bool" where
  "no_lead lib V f \<longleftrightarrow> (\<forall>es. readEntries lib f = Inr es \<longrightarrow> gapless es \<and> (\<forall>v \<in> V. \<forall>p. lastSeq p v \<le> top_seq p es))"

lemma writeRecords_no_lead:
  assumes "ahead lib P N w f" "N + length rs < 2 ^ 64" "\<forall>r \<in> set rs. normalizeProjectID (En_ProjectID r) \<in> P"
    "writeRecords fault k rs w f = (out, w', f')" "\<forall>j wr m. fault \<noteq> Some (AFWrite j wr m)" "no_lead lib (insert w V) f"
  shows "no_lead lib (insert w' V) f'"
  using assms
proof (induction rs arbitrary: N k w f out)
  case (Cons r rs)
  let ?p = "normalizeProjectID (En_ProjectID r)"
  from Cons.prems(4) obtain n w1 e f1 where st: "nextSeq (En_ProjectID r) w = (n, w1)"
    "write_doc fault k (DocV2 (r\<lparr>En_Seq := n\<rparr>)) f = (e, f1)"
    and go: "e = None \<Longrightarrow> \<exists>out'. writeRecords fault (Suc k) rs (w1\<lparr>aw_index := index_add (r\<lparr>En_Seq := n\<rparr>) (aw_index w1)\<rparr>) f1 = (out', w', f')"
    by (rule writeRecords_Cons) blast
  have "N + 1 < 2 ^ 64" "?p \<in> P" using Cons.prems(2,3) by auto
  note S = write_step [OF Cons.prems(1) this(1) refl this(2) st]
  have e: "e = None" using st(2) Cons.prems(5) by (auto simp: write_doc_def split: option.splits audit_fault.splits)
  let ?w1 = "w1\<lparr>aw_index := index_add (r\<lparr>En_Seq := n\<rparr>) (aw_index w1)\<rparr>"
  have lead: "no_lead lib (insert ?w1 V) f1"
    unfolding no_lead_def
  proof (intro allI impI)
    fix es' assume "readEntries lib f1 = Inr es'"
    from S(4) [OF this] e obtain es d where es: "readEntries lib f = Inr es" "En_ProjectID d = ?p" "En_Seq d = n" "es' = es @ [d]"
      "top_seq ?p es < n" by auto
    with Cons.prems(6) have old: "gapless es" "\<forall>v \<in> insert w V. \<forall>p. lastSeq p v \<le> top_seq p es" by (simp_all add: no_lead_def)
    have "lastSeq ?p w \<le> top_seq ?p es" using old(2) by simp
    then have n: "n = Suc (length (of_project ?p es))" using S(3) es(5) gapless_top [OF old(1), of ?p] by linarith
    have "gapless es'" using old(1) n es(2,3) unfolding es(4) by (simp add: gapless_def)
    moreover have "lastSeq p v \<le> top_seq p es'" if "v \<in> insert ?w1 V" for p v
      using that old(2) S(2) es(2,3,5) unfolding es(4) by (auto simp: top_seq_snoc le_max_iff_disj)
    ultimately show "gapless es' \<and> (\<forall>v \<in> insert ?w1 V. \<forall>p. lastSeq p v \<le> top_seq p es')" by blast
  qed
  from go [OF e] obtain out' where "writeRecords fault (Suc k) rs ?w1 f1 = (out', w', f')" by blast
  from Cons.IH [OF S(1) _ _ this Cons.prems(5) lead] Cons.prems(2,3) show ?case by simp
qed simp

section \<open>One append\<close>

lemma refresh_seqs:
  assumes "refreshSequences lib ps f w = Inr w1" "ps \<noteq> []"
  obtains es where "readEntries lib f = Inr es"
    "\<And>p. lastSeq p w1 = (if p \<in> set ps then max (lastSeq p w) (top_seq p es) else lastSeq p w)"
proof -
  from assms obtain es where es: "readEntries lib f = Inr es"
    "w1 = fold (\<lambda>e. if normalizeProjectID (En_ProjectID e) \<in> set ps then recordSeq (En_ProjectID e) (En_Seq e) else id) es w"
    by (auto simp: refreshSequences_def split: sum.splits)
  from that [OF es(1)] fold_record [OF read_normal [OF es(1)], of _ "set ps" w] es(2) show ?thesis by simp
qed

text \<open>An append leaves writer and file alone, or it read the file and then wrote the records.\<close>

lemma AuditAppend_cases:
  assumes "AuditAppend lib gen clk fault entry w f = (r, w', f')"
  obtains (same) "w' = w" "f' = f"
  | (wrote) rs traces w1 out where "appendRecords lib gen clk entry = Inr (rs, traces)"
      "refreshSequences lib (projectsIn rs) f w = Inr w1" "writeRecords fault 0 rs w1 f = (out, w', f')"
proof (cases "\<exists>rs traces w1. appendRecords lib gen clk entry = Inr (rs, traces) \<and>
    refreshSequences lib (projectsIn rs) f w = Inr w1 \<and> \<not> (\<exists>m. fault = Some (AFLock m) \<or> fault = Some (AFRead m))")
  case True
  then obtain rs traces w1 where t: "appendRecords lib gen clk entry = Inr (rs, traces)"
    "refreshSequences lib (projectsIn rs) f w = Inr w1" "\<And>m. fault \<noteq> Some (AFLock m)" "\<And>m. fault \<noteq> Some (AFRead m)" by blast
  obtain out w2 f2 where w: "writeRecords fault 0 rs w1 f = (out, w2, f2)" by (cases "writeRecords fault 0 rs w1 f")
  from assms t w have "w' = w2" "f' = f2"
    by (auto simp: AuditAppend_def split: option.splits audit_fault.splits sum.splits)
  with w wrote [OF t(1,2)] show ?thesis by simp
next
  case False
  with assms have "w' = w \<and> f' = f"
    by (auto simp: AuditAppend_def split: sum.splits prod.splits option.splits audit_fault.splits)
  with same show ?thesis by blast
qed

lemma appendRecords_nonempty: "appendRecords lib gen clk entry = Inr (rs, traces) \<Longrightarrow> rs \<noteq> []"
  by (auto simp: appendRecords_def Let_def split: sum.splits)

definition file_ok :: "'d audit_lib \<Rightarrow> nat \<Rightarrow> 'd audit_file \<Rightarrow> bool" where
  "file_ok lib N f \<longleftrightarrow> (\<forall>es. readEntries lib f = Inr es \<longrightarrow> increasing es \<and> (\<forall>p. top_seq p es \<le> N))"

lemma ahead_file: "ahead lib P N w f \<Longrightarrow> file_ok lib N f \<and> (\<forall>p. lastSeq p w \<le> N)"
  by (simp add: ahead_def file_ok_def)

lemma refresh_ahead:
  assumes "refreshSequences lib (projectsIn rs) f w = Inr w1" "rs \<noteq> []" "file_ok lib N f" "\<forall>p. lastSeq p w \<le> N"
  shows "ahead lib (set (projectsIn rs)) N w1 f"
proof -
  have "projectsIn rs \<noteq> []" using assms(2) by (simp add: projectsIn_def)
  from refresh_seqs [OF assms(1) this] obtain es where es: "readEntries lib f = Inr es"
    "\<And>p. lastSeq p w1 = (if p \<in> set (projectsIn rs) then max (lastSeq p w) (top_seq p es) else lastSeq p w)" by blast
  with assms(3,4) show ?thesis by (auto simp: ahead_def file_ok_def)
qed

lemma refresh_no_lead:
  assumes "refreshSequences lib (projectsIn rs) f w = Inr w1" "rs \<noteq> []" "no_lead lib (insert w V) f"
  shows "no_lead lib (insert w1 V) f"
proof -
  have "projectsIn rs \<noteq> []" using assms(2) by (simp add: projectsIn_def)
  from refresh_seqs [OF assms(1) this] obtain es where es: "readEntries lib f = Inr es"
    "\<And>p. lastSeq p w1 = (if p \<in> set (projectsIn rs) then max (lastSeq p w) (top_seq p es) else lastSeq p w)" by blast
  with assms(3) show ?thesis by (auto simp: no_lead_def)
qed

lemma projectsIn_set: "\<forall>r \<in> set rs. normalizeProjectID (En_ProjectID r) \<in> set (projectsIn rs)"
  by (simp add: projectsIn_def)

section \<open>Runs\<close>

definition world_ok :: "'d audit_lib \<Rightarrow> nat \<Rightarrow> 'd audit_world \<Rightarrow> bool" where
  "world_ok lib N s \<longleftrightarrow> file_ok lib N (au_file s) \<and> (\<forall>w \<in> set (au_writers s). \<forall>p. lastSeq p w \<le> N)"

lemma NewWriter_seqs:
  assumes "NewWriter lib cap fault f = Inr w"
  obtains es where "readEntries lib f = Inr es" "\<And>p. lastSeq p w = top_seq p es"
proof -
  from assms obtain es ix where es: "readEntries lib f = Inr es"
    "w = fold (\<lambda>e. recordSeq (En_ProjectID e) (En_Seq e)) es \<lparr>aw_seqs = [], aw_index = ix\<rparr>"
    by (auto simp: NewWriter_def Let_def split: option.splits audit_fault.splits sum.splits)
  have "lastSeq p \<lparr>aw_seqs = [], aw_index = ix\<rparr> = 0" for p by (simp add: lastSeq_def)
  with fold_record [OF read_normal [OF es(1)], of _ UNIV "\<lparr>aw_seqs = [], aw_index = ix\<rparr>"] es that show ?thesis by simp
qed

lemma world_exec:
  assumes "world_ok lib N s" "N + op_size lib x < 2 ^ 64"
  shows "world_ok lib (N + op_size lib x) (audit_exec lib x s)"
proof (cases x)
  case (AuOpen cap fault)
  show ?thesis
  proof (cases "NewWriter lib cap fault (au_file s)")
    case (Inl m)
    with assms AuOpen show ?thesis by simp
  next
    case (Inr w)
    from NewWriter_seqs [OF Inr] obtain es where "readEntries lib (au_file s) = Inr es" "\<And>p. lastSeq p w = top_seq p es" by blast
    with assms(1) Inr AuOpen show ?thesis by (auto simp: world_ok_def file_ok_def)
  qed
next
  case (AuAppend k gen clk fault entry)
  show ?thesis
  proof (cases "k < length (au_writers s)")
    case False
    with assms(1) AuAppend show ?thesis
      by (auto simp: world_ok_def file_ok_def intro: trans_le_add1 split: sum.split)
  next
    case True
    let ?w = "au_writers s ! k"
    obtain r w' f' where ap: "AuditAppend lib gen clk fault entry ?w (au_file s) = (r, w', f')"
      by (cases "AuditAppend lib gen clk fault entry ?w (au_file s)")
    from True have w: "?w \<in> set (au_writers s)" by simp
    have e: "audit_exec lib x s = \<lparr>au_file = f', au_writers = (au_writers s)[k := w']\<rparr>" using AuAppend True ap by simp
    have "file_ok lib (N + op_size lib x) f' \<and> (\<forall>p. lastSeq p w' \<le> N + op_size lib x)"
      using ap
    proof (cases rule: AuditAppend_cases)
      case same
      with assms(1) w show ?thesis by (auto simp: world_ok_def file_ok_def intro: trans_le_add1)
    next
      case (wrote rs traces w1 out)
      have n: "rs \<noteq> []" using appendRecords_nonempty [OF wrote(1)] .
      have "ahead lib (set (projectsIn rs)) N w1 (au_file s)"
        by (rule refresh_ahead [OF wrote(2) n]) (use assms(1) w in \<open>auto simp: world_ok_def\<close>)
      from writeRecords_ahead [OF this _ projectsIn_set wrote(3)] assms(2) AuAppend wrote(1)
      have "ahead lib (set (projectsIn rs)) (N + op_size lib x) w' f'" by simp
      then show ?thesis by (rule ahead_file)
    qed
    moreover have "lastSeq p v \<le> N + op_size lib x" if "v \<in> set (au_writers s)" for p v
      using assms(1) that by (auto simp: world_ok_def intro: trans_le_add1)
    ultimately show ?thesis unfolding e world_ok_def
      by (auto dest!: set_update_subset_insert [THEN subsetD])
  qed
qed

lemma world_run:
  "world_ok lib N s \<Longrightarrow> N + sum_list (map (op_size lib) xs) < 2 ^ 64 \<Longrightarrow>
   world_ok lib (N + sum_list (map (op_size lib) xs)) (audit_run lib xs s)"
proof (induction xs arbitrary: N s)
  case (Cons x xs)
  from world_exec [OF Cons.prems(1), of x] Cons.prems(2) have "world_ok lib (N + op_size lib x) (audit_exec lib x s)" by simp
  from Cons.IH [OF this] Cons.prems(2) show ?case by (simp add: add.assoc)
qed simp

lemma exec_no_lead:
  assumes "world_ok lib N s" "N + op_size lib x < 2 ^ 64" "no_write_fault x" "no_lead lib (set (au_writers s)) (au_file s)"
  shows "no_lead lib (set (au_writers (audit_exec lib x s))) (au_file (audit_exec lib x s))"
proof (cases x)
  case (AuOpen cap fault)
  show ?thesis
  proof (cases "NewWriter lib cap fault (au_file s)")
    case (Inl m)
    with assms AuOpen show ?thesis by simp
  next
    case (Inr w)
    from NewWriter_seqs [OF Inr] obtain es where "readEntries lib (au_file s) = Inr es" "\<And>p. lastSeq p w = top_seq p es" by blast
    with assms(4) Inr AuOpen show ?thesis by (auto simp: no_lead_def)
  qed
next
  case (AuAppend k gen clk fault entry)
  show ?thesis
  proof (cases "k < length (au_writers s)")
    case False
    with assms(4) AuAppend show ?thesis by simp
  next
    case True
    let ?w = "au_writers s ! k"
    obtain r w' f' where ap: "AuditAppend lib gen clk fault entry ?w (au_file s) = (r, w', f')"
      by (cases "AuditAppend lib gen clk fault entry ?w (au_file s)")
    from True have w: "?w \<in> set (au_writers s)" by simp
    have e: "audit_exec lib x s = \<lparr>au_file = f', au_writers = (au_writers s)[k := w']\<rparr>" using AuAppend True ap by simp
    have nl: "no_lead lib (insert ?w (set (au_writers s))) (au_file s)" using assms(4) w by (simp add: insert_absorb)
    have "no_lead lib (insert w' (set (au_writers s))) f'"
      using ap
    proof (cases rule: AuditAppend_cases)
      case same
      with nl show ?thesis by simp
    next
      case (wrote rs traces w1 out)
      have n: "rs \<noteq> []" using appendRecords_nonempty [OF wrote(1)] .
      have a: "ahead lib (set (projectsIn rs)) N w1 (au_file s)"
        by (rule refresh_ahead [OF wrote(2) n]) (use assms(1) w in \<open>auto simp: world_ok_def\<close>)
      show ?thesis
        by (rule writeRecords_no_lead [OF a _ projectsIn_set wrote(3) _ refresh_no_lead [OF wrote(2) n nl]])
          (use assms(2,3) AuAppend wrote(1) in auto)
    qed
    then show ?thesis unfolding e no_lead_def by (auto dest!: set_update_subset_insert [THEN subsetD])
  qed
qed

lemma run_no_lead:
  "world_ok lib N s \<Longrightarrow> N + sum_list (map (op_size lib) xs) < 2 ^ 64 \<Longrightarrow> list_all no_write_fault xs \<Longrightarrow>
   no_lead lib (set (au_writers s)) (au_file s) \<Longrightarrow>
   no_lead lib (set (au_writers (audit_run lib xs s))) (au_file (audit_run lib xs s))"
proof (induction xs arbitrary: N s)
  case (Cons x xs)
  from Cons.prems(2) have b: "N + op_size lib x < 2 ^ 64" "N + op_size lib x + sum_list (map (op_size lib) xs) < 2 ^ 64" by simp_all
  from Cons.prems(3) have f: "no_write_fault x" "list_all no_write_fault xs" by simp_all
  from Cons.IH [OF world_exec [OF Cons.prems(1) b(1)] b(2) f(2) exec_no_lead [OF Cons.prems(1) b(1) f(1) Cons.prems(4)]]
  show ?case by simp
qed simp

lemma read_empty: "readEntries lib empty_file = Inr []"
  by (simp add: read_scan)

lemma start_ok: "world_ok lib 0 audit_start" "no_lead lib (set (au_writers audit_start)) (au_file audit_start)"
  by (auto simp: world_ok_def file_ok_def audit_start_def read_empty increasing_def no_lead_def gapless_def)

text \<open>
  C26. The numbers of the audit log. Any number of writers open one file and append to it, with failures of
  locks, reads, writes and syncs anywhere: as long as the file can be read, the numbers of each project
  increase strictly along the file, so no two entries of a project share one; and when no write fails
  they are 1, 2, 3 and so on without a gap, although each writer counts for itself.
\<close>

theorem audit_numbers_increase:
  assumes "sum_list (map (op_size lib) xs) < 2 ^ 64" "readEntries lib (au_file (audit_run lib xs audit_start)) = Inr es"
  shows "sorted_wrt (<) (map En_Seq (of_project p es)) \<and>
    (list_all no_write_fault xs \<longrightarrow> map En_Seq (of_project p es) = [1..<Suc (length (of_project p es))])"
proof -
  have "sorted_wrt (<) (map En_Seq (of_project p es))"
    using world_run [OF start_ok(1), of lib xs] assms by (auto simp: world_ok_def file_ok_def increasing_def)
  moreover have "map En_Seq (of_project p es) = [1..<Suc (length (of_project p es))]" if "list_all no_write_fault xs"
    using run_no_lead [OF start_ok(1) _ that start_ok(2)] assms by (auto simp: no_lead_def gapless_def simp del: upt_Suc)
  ultimately show ?thesis by blast
qed

section \<open>A line that is too long\<close>

lemma unreadable_append:
  assumes "readEntries lib f = Inl m"
  shows "AuditAppend lib gen clk fault entry w f \<in> {(Inl m', w, f) |m'. True}" and "NewWriter lib cap fault f \<in> range Inl"
proof -
  have "appendRecords lib gen clk entry = Inr (rs, ts) \<Longrightarrow> refreshSequences lib (projectsIn rs) f w = Inl m" for rs ts
    using appendRecords_nonempty [of lib gen clk entry rs ts] assms by (simp add: refreshSequences_def projectsIn_def)
  then show "AuditAppend lib gen clk fault entry w f \<in> {(Inl m', w, f) |m'. True}"
    by (auto simp: AuditAppend_def split: sum.split option.split audit_fault.split)
  show "NewWriter lib cap fault f \<in> range Inl"
    using assms by (auto simp: NewWriter_def Let_def split: option.split audit_fault.split)
qed

lemma unreadable_run:
  "readEntries lib (au_file s) = Inl m \<Longrightarrow> au_file (audit_run lib xs s) = au_file s \<and> au_writers (audit_run lib xs s) = au_writers s"
proof (induction xs arbitrary: s)
  case (Cons x xs)
  have "au_file (audit_exec lib x s) = au_file s \<and> au_writers (audit_exec lib x s) = au_writers s"
  proof (cases x)
    case (AuOpen cap fault)
    with unreadable_append(2) [OF Cons.prems, of cap fault] show ?thesis by (auto split: sum.split)
  next
    case (AuAppend k gen clk fault entry)
    with unreadable_append(1) [OF Cons.prems, of gen clk fault entry "au_writers s ! k"] show ?thesis
      by (cases "AuditAppend lib gen clk fault entry (au_writers s ! k) (au_file s)") (auto simp: list_update_id)
  qed
  with Cons.IH [of "audit_exec lib x s"] Cons.prems show ?case by simp
qed simp

text \<open>
  One entry whose line is longer than the reader's 4 MiB closes the audit log for good: it is appended
  with success, and from then on every append of every writer fails and no new writer can be opened,
  whatever is tried in between.
\<close>

theorem oversized_entry_closes_log:
  assumes "AuditAppend lib gen clk None entry w f = (Inr (e, traces), w', f')" "\<not> au_fits lib (DocV2 e)"
  shows "let s = audit_run lib xs \<lparr>au_file = f', au_writers = ws\<rparr> in
    au_file s = f' \<and> fst (AuditAppend lib gen' clk' fault entry' v (au_file s)) \<in> range Inl \<and>
    NewWriter lib cap fault (au_file s) \<in> range Inl"
proof -
  from assms(1) obtain rs w1 out where ap: "appendRecords lib gen clk entry = Inr (rs, traces)"
    "writeRecords None 0 rs w1 f = (Inr out, w', f')" "e = hd out"
    by (auto simp: AuditAppend_def split: sum.splits prod.splits)
  from appendRecords_nonempty [OF ap(1)] obtain r rs' where rs: "rs = r # rs'" by (cases rs) auto
  obtain n w2 where nx: "nextSeq (En_ProjectID r) w1 = (n, w2)" by (cases "nextSeq (En_ProjectID r) w1")
  from ap(2,3) nx obtain out' where e: "e = r\<lparr>En_Seq := n\<rparr>" and rest:
    "writeRecords None (Suc 0) rs' (w2\<lparr>aw_index := index_add e (aw_index w2)\<rparr>) (append_line (DocV2 e) f) = (out', w', f')"
    by (auto simp: rs write_doc_def Let_def split: sum.splits prod.splits)
  have bad: "\<exists>m. readEntries lib (append_line (DocV2 e) f) = Inl m"
    using too_long_unreadable [of "au_fits lib" "DocV2 e" "readStep lib" f "[]"] assms(2)
    by (cases "readEntries lib (append_line (DocV2 e) f)") (auto simp: read_scan)
  have stays: "\<exists>m. readEntries lib g' = Inl m" if "\<exists>m. readEntries lib g = Inl m" "writeRecords None k qs x g = (y, x', g')" for g g' k qs x x' y
    using that
  proof (induction qs arbitrary: k x g y)
    case (Cons q qs)
    from Cons.prems(2) obtain n x1 e1 g1 where st: "write_doc None k (DocV2 (q\<lparr>En_Seq := n\<rparr>)) g = (e1, g1)"
      and f: "e1 \<noteq> None \<Longrightarrow> g' = g1" and go: "e1 = None \<Longrightarrow> \<exists>y'. writeRecords None (Suc k) qs (x1\<lparr>aw_index := index_add (q\<lparr>En_Seq := n\<rparr>) (aw_index x1)\<rparr>) g1 = (y', x', g')"
      by (rule writeRecords_Cons) blast
    have "\<exists>m. readEntries lib g1 = Inl m"
      using Cons.prems(1) read_write_doc [OF st, of lib] by (cases "readEntries lib g1") auto
    then show ?case using Cons.IH f go by (cases e1) blast+
  qed auto
  from stays [OF bad rest] obtain m where m: "readEntries lib f' = Inl m" by blast
  from unreadable_run [of lib "\<lparr>au_file = f', au_writers = ws\<rparr>" m xs] m
  have "au_file (audit_run lib xs \<lparr>au_file = f', au_writers = ws\<rparr>) = f'" by simp
  moreover have "fst (AuditAppend lib gen' clk' fault entry' v f') \<in> range Inl"
    using unreadable_append(1) [OF m, of gen' clk' fault entry' v] by auto
  ultimately show ?thesis using unreadable_append(2) [OF m] by (simp add: Let_def)
qed

end
