(* ===== verification/AuditWitness.thy ===== *)
theory AuditWitness
  imports AuditProps
begin

text \<open>The theorems on the audit log at concrete inputs, and why its order of entries is not an order.\<close>

definition plain_text :: "unit text_lib" where
  "plain_text = \<lparr>tl_lower = id, tl_sprint = (\<lambda>v. [])\<rparr>"

definition sample_entry :: "string \<Rightarrow> string \<Rightarrow> string \<Rightarrow> unit Entry" where
  "sample_entry i project action = \<lparr>En_SchemaVersion = 2, En_EventID = i, En_Seq = 0, En_Time = 7, En_ProjectID = project,
     En_Actor = \<lparr>Act_Kind = ''user'', Act_ID = ''u1'', Act_RunID = []\<rparr>, En_Action = action, En_Reason = [],
     En_CommandPreview = [], En_Result = ResultSuccess, En_ArtifactRefs = [], En_CorrelationID = [],
     En_CausationID = [], En_ApprovalID = [], En_Data = []\<rparr>"

definition by_user :: Query where
  "by_user = \<lparr>Q_ProjectID = [], Q_ActorKind = ''user'', Q_ActorID = [], Q_Action = [], Q_Result = [], Q_CorrelationID = [],
     Q_CausationID = [], Q_Search = [], Q_From = 0, Q_To = 0, Q_Limit = 1, Q_Reverse = True\<rparr>"

theorem audit_query_is_scan_witness:
  "index_query plain_text by_user (fold index_add [sample_entry ''e2'' ''p'' ''run''] (NewIndexWithConfig [sample_entry ''e1'' ''p'' ''run''] 1)) =
   limitEntries 1 (sortStable laterEntry (filter (query_matches plain_text by_user)
     (retained 1 (map normalEntry [sample_entry ''e1'' ''p'' ''run'', sample_entry ''e2'' ''p'' ''run'']))))"
proof -
  have "\<forall>e \<in> set ([sample_entry ''e1'' ''p'' ''run''] @ [sample_entry ''e2'' ''p'' ''run'']). CHR 0x00 \<notin> set (Act_Kind (En_Actor e))"
    by (simp add: sample_entry_def)
  from audit_query_is_scan [OF this, of plain_text by_user 1] show ?thesis by (simp add: by_user_def)
qed

definition small_lib :: "unit audit_lib" where
  "small_lib = \<lparr>au_redact = (\<lambda>e. Inr (e, [])), au_redactLegacy = id,
     au_fits = (\<lambda>d. case d of DocV2 e \<Rightarrow> En_Action e \<noteq> ''huge'' | _ \<Rightarrow> True)\<rparr>"

definition sample_run :: "unit audit_op list" where
  "sample_run = [AuOpen 0 None, AuOpen 0 None, AuAppend 0 (\<lambda>_. ''i'') (\<lambda>_. 9) None (sample_entry ''a'' ''p'' ''run''),
     AuAppend 1 (\<lambda>_. ''i'') (\<lambda>_. 9) None (sample_entry ''b'' ''p'' ''run''),
     AuAppend 0 (\<lambda>_. ''i'') (\<lambda>_. 9) (Some (AFSync ''io'')) (sample_entry ''c'' ''p'' ''run'')]"

definition sample_read :: "unit Entry list" where
  "sample_read = (case readEntries small_lib (au_file (audit_run small_lib sample_run audit_start)) of Inl m \<Rightarrow> [] | Inr es \<Rightarrow> es)"

lemma sample_facts:
  "\<not> isl (readEntries small_lib (au_file (audit_run small_lib sample_run audit_start))) \<and>
   map En_EventID (of_project ''p'' sample_read) = [''a'', ''b'', ''c''] \<and> map (op_size small_lib) sample_run = [0, 0, 1, 1, 1]"
  by code_simp

theorem audit_numbers_increase_witness:
  "map En_Seq (of_project ''p'' sample_read) = [1, 2, 3]"
proof -
  from sample_facts have r: "readEntries small_lib (au_file (audit_run small_lib sample_run audit_start)) = Inr sample_read"
    by (auto simp: sample_read_def isl_def split: sum.splits)
  have s: "sum_list (map (op_size small_lib) sample_run) < 2 ^ 64" using sample_facts by simp
  have f: "list_all no_write_fault sample_run" by (simp add: sample_run_def)
  have "length (map En_EventID (of_project ''p'' sample_read)) = 3" using sample_facts by simp
  then have "length (of_project ''p'' sample_read) = 3" by simp
  with audit_numbers_increase [OF s r, of "''p''"] f
  have "map En_Seq (of_project ''p'' sample_read) = [1..<Suc 3]" by (simp del: upt_Suc)
  then show ?thesis by (simp add: upt_rec)
qed

definition huge_append :: "(string + unit Entry \<times> TraceEvent list) \<times> unit AuditWriter \<times> unit audit_file" where
  "huge_append = AuditAppend small_lib (\<lambda>_. ''i'') (\<lambda>_. 9) None (sample_entry ''a'' ''p'' ''huge'')
     \<lparr>aw_seqs = [], aw_index = emptyIndex 0\<rparr> empty_file"

lemma huge_facts: "map_sum id (\<lambda>r. au_fits small_lib (DocV2 (fst r))) (fst huge_append) = Inr False"
  by code_simp

theorem oversized_entry_closes_log_witness:
  "\<not> isl (fst huge_append) \<and> NewWriter small_lib 0 None (snd (snd huge_append)) \<in> range Inl"
proof -
  obtain r w f where h: "huge_append = (r, w, f)" by (cases huge_append)
  then have "map_sum id (\<lambda>r. au_fits small_lib (DocV2 (fst r))) r = Inr False" using huge_facts by (metis fst_conv)
  then obtain e ts where r: "r = Inr (e, ts)" "\<not> au_fits small_lib (DocV2 e)" by (cases r) auto
  from oversized_entry_closes_log [OF h [unfolded huge_append_def r(1)] r(2), where xs = "[]" and ws = "[]" and cap = 0 and fault = None]
  have "NewWriter small_lib 0 None f \<in> range Inl" by (simp add: Let_def)
  then show ?thesis unfolding h r(1) by simp
qed

section \<open>The order of entries\<close>

text \<open>
  At one instant, entries of one project are ordered by number and entries of different projects by event
  id. These two do not fit together: three entries can each be earlier than the next, in a circle, so
  what a sorted page of the log shows depends on the order the entries came in.
\<close>

theorem entry_order_is_circular:
  "\<exists>a b c :: unit Entry. earlierEntry a b \<and> earlierEntry b c \<and> earlierEntry c a"
proof -
  let ?a = "(sample_entry ''z'' ''p'' ''run'')\<lparr>En_Seq := 1\<rparr>" and ?b = "(sample_entry ''a'' ''p'' ''run'')\<lparr>En_Seq := 2\<rparr>"
    and ?c = "sample_entry ''m'' ''q'' ''run''"
  have "earlierEntry ?a ?b \<and> earlierEntry ?b ?c \<and> earlierEntry ?c ?a" by code_simp
  then show ?thesis by blast
qed

end
