(* ===== verification/GoPath.thy ===== *)
theory GoPath
  imports GoStrings
begin

text \<open>
  Lexical path operations of \<open>path/filepath\<close> on Unix, and the division of a string into runes that a
  \<open>range\<close> loop makes.
\<close>

section \<open>Paths\<close>

text \<open>
  \<open>filepath.Clean\<close> on Unix, component by component: empty and dot components vanish, a dot-dot removes
  the component before it, stays at the root, and is kept at the front of a relative path. The stack
  holds the components in reverse.
\<close>

definition cleanStep :: "bool \<Rightarrow> string list \<Rightarrow> string \<Rightarrow> string list" where
  "cleanStep rooted out c =
     (if c = [] \<or> c = ''.'' then out
      else if c = ''..'' then
        (case out of [] \<Rightarrow> if rooted then [] else [''..'']
         | d # ds \<Rightarrow> if d = ''..'' then ''..'' # out else ds)
      else c # out)"

definition Clean :: "string \<Rightarrow> string" where
  "Clean p =
     (let rooted = HasPrefix p ''/'';
          out = rev (foldl (cleanStep rooted) [] (Split p (CHR ''/'')))
      in if rooted then CHR ''/'' # Join out (CHR ''/'')
         else if out = [] then ''.'' else Join out (CHR ''/''))"

text \<open>\<open>filepath.Base\<close>: the last component, after trailing slashes.\<close>

definition Base :: "string \<Rightarrow> string" where
  "Base p = (if p = [] then ''.''
     else let q = rev (dropWhile (\<lambda>c. c = CHR ''/'') (rev p))
       in if q = [] then ''/'' else last (Split q (CHR ''/'')))"

text \<open>\<open>filepath.Join\<close> of a directory and a name that is not empty.\<close>

definition JoinPath :: "string \<Rightarrow> string \<Rightarrow> string" where
  "JoinPath dir name = Clean (if dir = [] then name else dir @ CHR ''/'' # name)"

text \<open>
  A name without slashes and other than the dot entries ends the joined path, after a part that
  depends on the directory only.
\<close>

lemma Join_snoc: "Join (xs @ [n]) sep = (if xs = [] then n else Join xs sep @ sep # n)"
proof (induction xs)
  case (Cons x xs)
  then show ?case by (cases xs) auto
qed simp

lemma Split_snoc:
  assumes "sep \<notin> set n"
  shows "Split (s @ sep # n) sep = Split s sep @ [n]"
proof -
  have "split_acc sep acc (s @ sep # n) = split_acc sep acc s @ [n]" for acc
    using assms by (induction s arbitrary: acc) (simp_all add: split_acc_plain)
  then show ?thesis by (simp add: Split_def)
qed

lemma JoinPath_name:
  assumes "CHR ''/'' \<notin> set n" "n \<notin> {[], ''.'', ''..''}"
  shows "\<exists>pre. \<forall>m. CHR ''/'' \<notin> set m \<and> m \<notin> {[], ''.'', ''..''} \<longrightarrow> JoinPath dir m = pre @ m"
proof (cases "dir = []")
  case True
  have "JoinPath dir m = [] @ m" if "CHR ''/'' \<notin> set m" "m \<notin> {[], ''.'', ''..''}" for m
    using that True by (cases m) (auto simp: JoinPath_def Clean_def HasPrefix_def Split_plain cleanStep_def)
  then show ?thesis by blast
next
  case False
  let ?root = "HasPrefix dir ''/''"
  let ?out = "rev (foldl (cleanStep ?root) [] (Split dir (CHR ''/'')))"
  have r: "HasPrefix (dir @ x) ''/'' = ?root" for x using False by (cases dir) (auto simp: HasPrefix_def)
  have "JoinPath dir m = (if ?root then ''/'' else []) @ (if ?out = [] then [] else Join ?out (CHR ''/'') @ ''/'') @ m"
    if "CHR ''/'' \<notin> set m" "m \<notin> {[], ''.'', ''..''}" for m
    using that False by (simp add: JoinPath_def Clean_def r Split_snoc cleanStep_def Join_snoc Let_def)
  then show ?thesis by (intro exI [of _ "(if ?root then ''/'' else []) @ (if ?out = [] then [] else Join ?out (CHR ''/'') @ ''/'')"]) simp
qed

lemma JoinPath_inj:
  assumes "CHR ''/'' \<notin> set m" "m \<notin> {[], ''.'', ''..''}" "CHR ''/'' \<notin> set n" "n \<notin> {[], ''.'', ''..''}"
    and "JoinPath dir m @ s = JoinPath dir n @ t"
  shows "m @ s = n @ t"
proof -
  obtain pre where "\<forall>m. CHR ''/'' \<notin> set m \<and> m \<notin> {[], ''.'', ''..''} \<longrightarrow> JoinPath dir m = pre @ m"
    using JoinPath_name [OF assms(1,2)] by blast
  with assms have "pre @ m @ s = pre @ n @ t" by (metis append.assoc)
  then show ?thesis by simp
qed

section \<open>Runes\<close>

text \<open>
  The bytes a \<open>range\<close> loop takes for the rune at the front: a well-formed UTF-8 sequence, or one byte
  when there is none.
\<close>

definition cont :: "nat \<Rightarrow> bool" where
  "cont b \<longleftrightarrow> 0x80 \<le> b \<and> b \<le> 0xBF"

fun runeLen :: "nat list \<Rightarrow> nat" where
  "runeLen (a # b # c # d # _) =
     (if 0xC2 \<le> a \<and> a \<le> 0xDF \<and> cont b then 2
      else if (a = 0xE0 \<and> 0xA0 \<le> b \<or> a = 0xED \<and> b \<le> 0x9F \<or> a \<in> {0xE1..0xEC} \<or> a \<in> {0xEE, 0xEF}) \<and> cont b \<and> cont c
        then 3
      else if (a = 0xF0 \<and> 0x90 \<le> b \<or> a = 0xF4 \<and> b \<le> 0x8F \<or> a \<in> {0xF1..0xF3}) \<and> cont b \<and> cont c \<and> cont d then 4
      else 1)"
| "runeLen [a, b, c] =
     (if 0xC2 \<le> a \<and> a \<le> 0xDF \<and> cont b then 2
      else if (a = 0xE0 \<and> 0xA0 \<le> b \<or> a = 0xED \<and> b \<le> 0x9F \<or> a \<in> {0xE1..0xEC} \<or> a \<in> {0xEE, 0xEF}) \<and> cont b \<and> cont c
        then 3
      else 1)"
| "runeLen [a, b] = (if 0xC2 \<le> a \<and> a \<le> 0xDF \<and> cont b then 2 else 1)"
| "runeLen _ = 1"

text \<open>The first bytes of the runes: the rune itself where it is ASCII, a byte from 128 otherwise.\<close>

fun runeHeads :: "nat \<Rightarrow> string \<Rightarrow> string" where
  "runeHeads n [] = []"
| "runeHeads 0 (c # cs) = c # runeHeads (runeLen (map of_char (take 4 (c # cs))) - 1) cs"
| "runeHeads (Suc n) (c # cs) = runeHeads n cs"

lemma runeHeads_set: "set (runeHeads n s) \<subseteq> set s"
  by (induction n s rule: runeHeads.induct) auto

end
