(* ===== verification/PrivAllowlist.thy ===== *)
theory PrivAllowlist
  imports GoEncoding GoPath
begin

text \<open>
  Package \<open>security/privsep\<close>, \<open>allowlist.go\<close>: the allowlist of the privileged setup helper, its parser
  with the canonical text the digest is taken of, and the matching of arguments against the shapes of
  an entry. SHA-256 is a parameter; the line scanner (\<open>bufio\<close>, 64 KiB) and the service-name pattern are modelled.
\<close>

datatype priv_err = PrivInvalidAllowlist | PrivActionNotAllowed | PrivArgvShapeMismatch
  | PrivChecksumMismatch | PrivTokenMissing | PrivExpired | PrivInvalid | PrivAlreadyUsed
  | PrivActionMismatch | PrivInvalidInvocation | PrivBootstrapRejected | PrivIO string

record AllowlistEntry =
  Ent_Action :: string
  Ent_ArgPatterns :: "string list"
  Ent_AuditRequired :: bool

record Allowlist =
  All_Entries :: "AllowlistEntry list"
  All_Digest :: string

definition BootstrapActionAllowed :: "string \<Rightarrow> bool" where
  "BootstrapActionAllowed action \<longleftrightarrow>
     action \<in> {''install-systemd-unit'', ''create-hoopoe-user'', ''chown-acfs-paths'',
       ''register-helper-allowlist''}"

definition isKnownAction :: "string \<Rightarrow> bool" where
  "isKnownAction action \<longleftrightarrow>
     action \<in> {''install-systemd-unit'', ''uninstall-systemd-unit'', ''chown-projects'', ''repair-acfs'',
       ''restart-service'', ''bind-privileged-port'', ''create-hoopoe-user'', ''chown-acfs-paths'',
       ''register-helper-allowlist''}"

text \<open>
  Both sides of every comparison of digests pass through \<open>normalizeDigest\<close>, and one of them is the
  digest of a parsed allowlist, which is ASCII: \<open>ToLower\<close> is exact for these comparisons.
\<close>

definition normalizeDigest :: "string \<Rightarrow> string" where
  "normalizeDigest value =
     (let v = TrimSpace (ToLower value) in
      if v = [] then [] else if HasPrefix v ''sha256:'' then v else ''sha256:'' @ v)"

section \<open>Parsing\<close>

record parse_state =
  ps_entries :: "AllowlistEntry list"
  ps_current :: AllowlistEntry
  ps_canonical :: string

definition noEntry :: AllowlistEntry where
  "noEntry = \<lparr>Ent_Action = [], Ent_ArgPatterns = [], Ent_AuditRequired = False\<rparr>"

definition flush :: "parse_state \<Rightarrow> priv_err + parse_state" where
  "flush st =
     (let cur = ps_current st in
      if Ent_Action cur = [] \<and> Ent_ArgPatterns cur = [] \<and> \<not> Ent_AuditRequired cur then Inr st
      else if \<not> isKnownAction (Ent_Action cur) then Inl PrivInvalidAllowlist
      else if Ent_ArgPatterns cur = [] then Inl PrivInvalidAllowlist
      else Inr (st\<lparr>ps_entries := ps_entries st @ [cur], ps_current := noEntry\<rparr>))"

definition splitArgs :: "string \<Rightarrow> string list" where
  "splitArgs value = filter (\<lambda>f. f \<noteq> []) (map TrimSpace (Fields value))"

definition newline :: char where
  "newline = CHR 0x0A"

definition parseLine :: "string \<Rightarrow> parse_state \<Rightarrow> priv_err + parse_state" where
  "parseLine raw st =
     (let line = TrimSpace raw; cur = ps_current st in
      if line = [] \<or> HasPrefix line ''#'' then Inr st
      else if line = ''----'' then flush st
      else case Cut line (CHR '':'') of None \<Rightarrow> Inl PrivInvalidAllowlist
        | Some (k, v) \<Rightarrow>
            let key = TrimSpace k; value = TrimSpace v in
            if key = ''action'' then
              Inr (st\<lparr>ps_current := cur\<lparr>Ent_Action := value\<rparr>,
                ps_canonical := ps_canonical st @ ''action:'' @ value @ [newline]\<rparr>)
            else if key = ''args'' then
              Inr (st\<lparr>ps_current := cur\<lparr>Ent_ArgPatterns := splitArgs value\<rparr>,
                ps_canonical := ps_canonical st @ ''args:'' @ Join (splitArgs value) (CHR '' '') @ [newline]\<rparr>)
            else if key = ''audit'' then
              if value \<noteq> ''required'' then Inl PrivInvalidAllowlist
              else Inr (st\<lparr>ps_current := cur\<lparr>Ent_AuditRequired := True\<rparr>,
                ps_canonical := ps_canonical st @ ''audit:required'' @ [newline]\<rparr>)
            else Inl PrivInvalidAllowlist)"

text \<open>
  The scanner: lines end at a newline, a trailing carriage return is dropped, an unterminated last
  line counts unless it is empty, and a line of 65536 bytes or more stops the scan.
\<close>

definition text_lines :: "string \<Rightarrow> string list" where
  "text_lines s = (let ls = Split s newline in if last ls = [] then butlast ls else ls)"

definition dropCR :: "string \<Rightarrow> string" where
  "dropCR l = (if l \<noteq> [] \<and> last l = CHR 0x0D then butlast l else l)"

definition line_too_long :: "string \<Rightarrow> bool" where
  "line_too_long l \<longleftrightarrow> 65536 \<le> int (length l)"

fun parseLines :: "string list \<Rightarrow> parse_state \<Rightarrow> priv_err + parse_state" where
  "parseLines [] st = Inr st"
| "parseLines (l # ls) st =
     (if line_too_long l then Inl (PrivIO ''scan allowlist'')
      else case parseLine (dropCR l) st of Inl e \<Rightarrow> Inl e | Inr st' \<Rightarrow> parseLines ls st')"

definition ParseAllowlist :: "(string \<Rightarrow> string) \<Rightarrow> string \<Rightarrow> priv_err + Allowlist" where
  "ParseAllowlist sha256 s =
     (case parseLines (text_lines s) \<lparr>ps_entries = [], ps_current = noEntry, ps_canonical = []\<rparr> of
        Inl e \<Rightarrow> Inl e
      | Inr st \<Rightarrow> (case flush st of Inl e \<Rightarrow> Inl e
          | Inr st' \<Rightarrow> if ps_entries st' = [] then Inl PrivInvalidAllowlist
              else Inr \<lparr>All_Entries = ps_entries st',
                All_Digest = ''sha256:'' @ hexEncode (sha256 (ps_canonical st'))\<rparr>))"

text \<open>\<open>readFile\<close> is what reading the file gives: its bytes or an error.\<close>

definition LoadAllowlist ::
  "(string \<Rightarrow> string) \<Rightarrow> (string \<Rightarrow> string + string) \<Rightarrow> string \<Rightarrow> priv_err + Allowlist" where
  "LoadAllowlist sha256 readFile path =
     (if TrimSpace path = [] then Inl PrivInvalidAllowlist
      else case readFile (Clean (TrimSpace path)) of Inl m \<Rightarrow> Inl (PrivIO m)
        | Inr data \<Rightarrow> ParseAllowlist sha256 data)"

definition DefaultAllowlistText :: string where
  "DefaultAllowlistText = concat (map (\<lambda>l. l @ [newline])
     [''action: install-systemd-unit'',
      ''args: --unit-path=/etc/systemd/system/hoopoe.service --source=*'', ''audit: required'', ''----'',
      ''action: uninstall-systemd-unit'',
      ''args: --unit-path=/etc/systemd/system/hoopoe.service'', ''audit: required'', ''----'',
      ''action: chown-projects'', ''args: --path=<project-path>'', ''audit: required'', ''----'',
      ''action: repair-acfs'', ''args: --doctor=true --auto-fix=<bool>'', ''audit: required'', ''----'',
      ''action: restart-service'', ''args: --service=<service>'', ''audit: required'', ''----'',
      ''action: bind-privileged-port'', ''args: --port=<privileged-port>'', ''audit: required'', ''----'',
      ''action: create-hoopoe-user'', ''args: --user=hoopoe'', ''audit: required'', ''----'',
      ''action: chown-acfs-paths'', ''args: --path=<project-path>'', ''audit: required'', ''----'',
      ''action: register-helper-allowlist'', ''args: --path=*'', ''audit: required''])"

definition Allowlist_Entry :: "Allowlist \<Rightarrow> string \<Rightarrow> AllowlistEntry option" where
  "Allowlist_Entry a action = find (\<lambda>e. Ent_Action e = action) (All_Entries a)"

definition ValidateChecksum :: "Allowlist \<Rightarrow> string \<Rightarrow> priv_err option" where
  "ValidateChecksum a expected0 =
     (let expected = normalizeDigest expected0 in
      if expected = [] then None
      else if normalizeDigest (All_Digest a) \<noteq> expected then Some PrivChecksumMismatch else None)"

section \<open>Matching arguments\<close>

definition validProjectPath :: "string \<Rightarrow> bool" where
  "validProjectPath value \<longleftrightarrow>
     Clean value = ''/data/projects'' \<or> HasPrefix (Clean value) ''/data/projects/''"

text \<open>The pattern \<open>^[a-zA-Z0-9_.@-]+\.service$\<close>.\<close>

definition serviceChar :: "char \<Rightarrow> bool" where
  "serviceChar c \<longleftrightarrow> idChar c \<or> c = CHR ''@''"

definition serviceNamePattern :: "string \<Rightarrow> bool" where
  "serviceNamePattern s \<longleftrightarrow> HasSuffix s ''.service'' \<and>
     (let body = TrimSuffix s ''.service'' in body \<noteq> [] \<and> list_all serviceChar body)"

definition validServiceName :: "string \<Rightarrow> bool" where
  "validServiceName value \<longleftrightarrow>
     \<not> (value = [] \<or> Contains value ''/'' \<or> Contains value ''..'') \<and> serviceNamePattern value"

text \<open>The port is a 64-bit \<open>int\<close>.\<close>

fun portLoop :: "int \<Rightarrow> string \<Rightarrow> int option" where
  "portLoop port [] = Some port"
| "portLoop port (r # rs) =
     (if \<not> is_digit r then None else portLoop (wrap64 (wrap64 (port * 10) + digit_val r)) rs)"

definition validPrivilegedPort :: "string \<Rightarrow> bool" where
  "validPrivilegedPort value \<longleftrightarrow> value \<noteq> [] \<and>
     (case portLoop 0 value of None \<Rightarrow> False | Some port \<Rightarrow> 0 < port \<and> port < 1024)"

definition argPatternMatches :: "string \<Rightarrow> string \<Rightarrow> bool" where
  "argPatternMatches pattern value =
     (if Contains pattern ''<bool>'' then
        (case CutPrefix value (TrimSuffix pattern ''<bool>'') of None \<Rightarrow> False
         | Some v \<Rightarrow> v = ''true'' \<or> v = ''false'')
      else if Contains pattern ''<service>'' then
        (case CutPrefix value (TrimSuffix pattern ''<service>'') of None \<Rightarrow> False
         | Some v \<Rightarrow> validServiceName v)
      else if Contains pattern ''<privileged-port>'' then
        (case CutPrefix value (TrimSuffix pattern ''<privileged-port>'') of None \<Rightarrow> False
         | Some v \<Rightarrow> validPrivilegedPort v)
      else if Contains pattern ''<project-path>'' then
        (case CutPrefix value (TrimSuffix pattern ''<project-path>'') of None \<Rightarrow> False
         | Some v \<Rightarrow> validProjectPath v)
      else if HasSuffix pattern ''*'' then
        HasPrefix value (TrimSuffix pattern ''*'') \<and> length (TrimSuffix pattern ''*'') < length value
      else value = pattern)"

definition ValidateArgs :: "AllowlistEntry \<Rightarrow> string list \<Rightarrow> priv_err option" where
  "ValidateArgs entry args =
     (if length args \<noteq> length (Ent_ArgPatterns entry) then Some PrivArgvShapeMismatch
      else if list_all2 argPatternMatches (Ent_ArgPatterns entry) args then None
      else Some PrivArgvShapeMismatch)"

definition CommandPreview :: "AllowlistEntry \<Rightarrow> string list \<Rightarrow> string" where
  "CommandPreview entry args = Join (Ent_Action entry # args) (CHR '' '')"

definition defaultEntries :: "AllowlistEntry list" where
  "defaultEntries = map (\<lambda>(a, ps). \<lparr>Ent_Action = a, Ent_ArgPatterns = ps, Ent_AuditRequired = True\<rparr>)
     [(''install-systemd-unit'', [''--unit-path=/etc/systemd/system/hoopoe.service'', ''--source=*'']),
      (''uninstall-systemd-unit'', [''--unit-path=/etc/systemd/system/hoopoe.service'']),
      (''chown-projects'', [''--path=<project-path>'']),
      (''repair-acfs'', [''--doctor=true'', ''--auto-fix=<bool>'']),
      (''restart-service'', [''--service=<service>'']),
      (''bind-privileged-port'', [''--port=<privileged-port>'']),
      (''create-hoopoe-user'', [''--user=hoopoe'']),
      (''chown-acfs-paths'', [''--path=<project-path>'']),
      (''register-helper-allowlist'', [''--path=*''])]"

end
