(* ===== verification/PrivToken.thy ===== *)
theory PrivToken
  imports PrivAllowlist
begin

text \<open>
  Package \<open>security/privsep\<close>, \<open>token.go\<close>: minting and validating approval tokens, the replay store, and
  the validator that asks the daemon over its socket. The JSON form of claims and HMAC-SHA256 are a
  parameter (\<open>priv_codec\<close>), as is the daemon behind the socket. The replay store reads the clock once
  for every entry it visits, so a call takes its readings as a function of the entry's key.
\<close>

section \<open>Claims\<close>

definition PrivSchemaVersion :: int where
  "PrivSchemaVersion = 1"

record TokenClaims =
  Tk_SchemaVersion :: int
  Tk_ApprovalID :: string
  Tk_Actor :: string
  Tk_Action :: string
  Tk_Nonce :: string
  Tk_ExpiresAt :: time
  Tk_AllowlistDigest :: string

record TokenRequest =
  Tr_ApprovalID :: string
  Tr_Actor :: string
  Tr_Action :: string
  Tr_ExpiresAt :: time
  Tr_AllowlistDigest :: string

record TokenValidationRequest =
  Tv_Action :: string
  Tv_AllowlistDigest :: string
  Tv_Now :: time

record priv_codec =
  pc_marshal :: "TokenClaims \<Rightarrow> string + string"
  pc_unmarshal :: "string \<Rightarrow> TokenClaims option"
  pc_hmac :: "string \<Rightarrow> string \<Rightarrow> string"

section \<open>Minting\<close>

definition randomNonce :: "string + string \<Rightarrow> priv_err + string" where
  "randomNonce rnd = (case rnd of Inl e \<Rightarrow> Inl (PrivIO e) | Inr b \<Rightarrow> Inr (hexEncode b))"

definition mintedClaims :: "TokenRequest \<Rightarrow> string \<Rightarrow> TokenClaims" where
  "mintedClaims req nonce = \<lparr>Tk_SchemaVersion = PrivSchemaVersion,
     Tk_ApprovalID = TrimSpace (Tr_ApprovalID req), Tk_Actor = TrimSpace (Tr_Actor req),
     Tk_Action = TrimSpace (Tr_Action req), Tk_Nonce = nonce, Tk_ExpiresAt = Tr_ExpiresAt req,
     Tk_AllowlistDigest = normalizeDigest (Tr_AllowlistDigest req)\<rparr>"

definition Mint :: "priv_codec \<Rightarrow> string \<Rightarrow> string + string \<Rightarrow> TokenRequest \<Rightarrow> priv_err + string" where
  "Mint k secret rnd req =
     (if length secret < 16 then Inl PrivInvalid
      else case randomNonce rnd of Inl e \<Rightarrow> Inl e
        | Inr nonce \<Rightarrow>
            let claims = mintedClaims req nonce in
            if Tk_ApprovalID claims = [] \<or> Tk_Actor claims = [] \<or> Tk_Action claims = [] \<or>
               Tk_AllowlistDigest claims = [] \<or> isZero (Tk_ExpiresAt claims) then Inl PrivInvalid
            else case pc_marshal k claims of Inl e \<Rightarrow> Inl (PrivIO e)
              | Inr payload \<Rightarrow>
                  Inr (b64Encode payload @ CHR ''.'' # b64Encode (pc_hmac k secret (b64Encode payload))))"

section \<open>The replay store\<close>

text \<open>A nil store pointer, or the consumed keys with the expiry of their tokens.\<close>

datatype MemoryTokenStore = NilTokenStore | TokenStore "(string \<times> time) list"

definition NewMemoryTokenStore :: MemoryTokenStore where
  "NewMemoryTokenStore = TokenStore []"

definition consumeKey :: "string \<Rightarrow> string \<Rightarrow> string" where
  "consumeKey approvalID nonce = approvalID @ CHR '':'' # nonce"

definition pruneConsumed :: "(string \<Rightarrow> time) \<Rightarrow> (string \<times> time) list \<Rightarrow> (string \<times> time) list" where
  "pruneConsumed clk consumed = filter (\<lambda>(existing, expiry). \<not> expiry < clk existing) consumed"

fun TokenStore_Consume ::
  "(string \<Rightarrow> time) \<Rightarrow> string \<Rightarrow> string \<Rightarrow> time \<Rightarrow> MemoryTokenStore \<Rightarrow> (priv_err + bool) \<times> MemoryTokenStore" where
  "TokenStore_Consume clk approvalID nonce expiresAt NilTokenStore = (Inl PrivInvalid, NilTokenStore)"
| "TokenStore_Consume clk approvalID nonce expiresAt (TokenStore consumed) =
     (let key = consumeKey approvalID nonce; kept = pruneConsumed clk consumed in
      if key \<in> set (keys kept) then (Inr False, TokenStore kept)
      else (Inr True, TokenStore (AList.update key expiresAt kept)))"

section \<open>Validating\<close>

text \<open>
  The claims a token carries, if the secret signed it; then the checks against the request. \<open>aNow\<close> is
  the authority's own clock.
\<close>

definition openToken :: "priv_codec \<Rightarrow> string \<Rightarrow> string \<Rightarrow> priv_err + TokenClaims" where
  "openToken k secret token =
     (if TrimSpace token = [] then Inl PrivTokenMissing
      else if length secret < 16 then Inl PrivInvalid
      else case Cut token (CHR ''.'') of None \<Rightarrow> Inl PrivInvalid
        | Some (payloadText, signatureText) \<Rightarrow>
      (case b64Decode signatureText of None \<Rightarrow> Inl PrivInvalid
        | Some signature \<Rightarrow>
      if signature \<noteq> pc_hmac k secret payloadText then Inl PrivInvalid
      else case b64Decode payloadText of None \<Rightarrow> Inl PrivInvalid
        | Some payload \<Rightarrow>
      (case pc_unmarshal k payload of None \<Rightarrow> Inl PrivInvalid
        | Some claims \<Rightarrow>
      if Tk_SchemaVersion claims \<noteq> PrivSchemaVersion \<or> Tk_ApprovalID claims = [] \<or>
         Tk_Nonce claims = [] \<or> Tk_Action claims = [] then Inl PrivInvalid
      else Inr claims)))"

definition checkToken ::
  "priv_codec \<Rightarrow> string \<Rightarrow> time \<Rightarrow> string \<Rightarrow> TokenValidationRequest \<Rightarrow> priv_err + TokenClaims" where
  "checkToken k secret aNow token req =
     (case openToken k secret token of Inl e \<Rightarrow> Inl e
      | Inr claims \<Rightarrow>
          let now = (if isZero (Tv_Now req) then aNow else Tv_Now req) in
          if \<not> Tk_ExpiresAt claims > now then Inl PrivExpired
          else if Tv_Action req \<noteq> [] \<and> Tk_Action claims \<noteq> Tv_Action req then Inl PrivActionMismatch
          else if normalizeDigest (Tv_AllowlistDigest req) \<noteq> [] \<and>
             normalizeDigest (Tk_AllowlistDigest claims) \<noteq> normalizeDigest (Tv_AllowlistDigest req)
             then Inl PrivChecksumMismatch
          else Inr claims)"

text \<open>A store of \<open>None\<close> is the authority without a store.\<close>

definition ValidateApprovalToken ::
  "priv_codec \<Rightarrow> string \<Rightarrow> time \<Rightarrow> (string \<Rightarrow> time) \<Rightarrow> string \<Rightarrow> TokenValidationRequest \<Rightarrow>
     MemoryTokenStore option \<Rightarrow> (priv_err + TokenClaims) \<times> MemoryTokenStore option" where
  "ValidateApprovalToken k secret aNow clk token req store =
     (case checkToken k secret aNow token req of Inl e \<Rightarrow> (Inl e, store)
      | Inr claims \<Rightarrow>
          (case store of None \<Rightarrow> (Inl PrivInvalid, None)
           | Some s \<Rightarrow>
               (case TokenStore_Consume clk (Tk_ApprovalID claims) (Tk_Nonce claims) (Tk_ExpiresAt claims) s of
                  (Inl e, s') \<Rightarrow> (Inl e, Some s')
                | (Inr False, s') \<Rightarrow> (Inl PrivAlreadyUsed, Some s')
                | (Inr True, s') \<Rightarrow> (Inr claims, Some s'))))"

text \<open>
  The validator over the daemon's socket: the request body goes to the daemon, which gives a transport
  error or a status with the claims its body decodes to, if it does.
\<close>

datatype socket_reply = SocketError string | SocketReply int "TokenClaims option"

definition SocketValidate ::
  "string \<Rightarrow> (string \<times> string \<times> string \<Rightarrow> 'd \<Rightarrow> socket_reply \<times> 'd) \<Rightarrow> string \<Rightarrow>
     TokenValidationRequest \<Rightarrow> 'd \<Rightarrow> (priv_err + TokenClaims) \<times> 'd" where
  "SocketValidate socketPath daemon token req d =
     (if TrimSpace socketPath = [] then (Inl PrivInvalid, d)
      else case daemon (token, Tv_Action req, normalizeDigest (Tv_AllowlistDigest req)) d of
        (SocketError m, d') \<Rightarrow> (Inl (PrivIO m), d')
      | (SocketReply code body, d') \<Rightarrow>
          (if code \<noteq> 200 then Inl PrivInvalid
           else case body of None \<Rightarrow> Inl (PrivIO ''decode'')
             | Some out \<Rightarrow>
                 if Tk_SchemaVersion out \<noteq> PrivSchemaVersion \<or> Tk_ApprovalID out = [] \<or> Tk_Action out = []
                   then Inl PrivInvalid
                 else if Tv_Action req \<noteq> [] \<and> Tk_Action out \<noteq> Tv_Action req then Inl PrivActionMismatch
                 else if normalizeDigest (Tv_AllowlistDigest req) \<noteq> [] \<and>
                   normalizeDigest (Tk_AllowlistDigest out) \<noteq> normalizeDigest (Tv_AllowlistDigest req)
                   then Inl PrivChecksumMismatch
                 else Inr out, d'))"

section \<open>The contract of a validator\<close>

text \<open>
  What the engine relies on: claims that are accepted name the requested action and the digest of the
  allowlist in force.
\<close>

locale token_validator =
  fixes validate :: "string \<Rightarrow> TokenValidationRequest \<Rightarrow> 'v \<Rightarrow> (priv_err + TokenClaims) \<times> 'v"
  assumes accepted_action: "validate token req v = (Inr c, v') \<Longrightarrow> Tv_Action req \<noteq> [] \<Longrightarrow> Tk_Action c = Tv_Action req"
    and accepted_digest: "validate token req v = (Inr c, v') \<Longrightarrow> normalizeDigest (Tv_AllowlistDigest req) \<noteq> [] \<Longrightarrow>
      normalizeDigest (Tk_AllowlistDigest c) = normalizeDigest (Tv_AllowlistDigest req)"
    and accepted_approval: "validate token req v = (Inr c, v') \<Longrightarrow> Tk_ApprovalID c \<noteq> []"
begin

lemma accepted_claims:
  "validate token req v = (Inr c, v') \<Longrightarrow> Tv_Action req \<noteq> [] \<Longrightarrow> normalizeDigest (Tv_AllowlistDigest req) \<noteq> [] \<Longrightarrow>
     Tk_Action c = Tv_Action req \<and> Tk_ApprovalID c \<noteq> [] \<and>
     normalizeDigest (Tk_AllowlistDigest c) = normalizeDigest (Tv_AllowlistDigest req)"
  using accepted_action accepted_digest accepted_approval by blast

end

text \<open>A token is genuine when its signature was made with the secret and its payload is the claims.\<close>

definition genuineToken :: "priv_codec \<Rightarrow> string \<Rightarrow> string \<Rightarrow> TokenClaims \<Rightarrow> bool" where
  "genuineToken k secret token c \<longleftrightarrow>
     (case Cut token (CHR ''.'') of None \<Rightarrow> False
      | Some (p, s) \<Rightarrow> b64Decode s = Some (pc_hmac k secret p) \<and>
          (case b64Decode p of None \<Rightarrow> False | Some b \<Rightarrow> pc_unmarshal k b = Some c))"

lemma openToken_Inr:
  assumes "openToken k secret token = Inr c"
  shows "genuineToken k secret token c" "16 \<le> length secret" "Tk_ApprovalID c \<noteq> []" "Tk_Nonce c \<noteq> []"
  using assms
  by (auto simp: openToken_def genuineToken_def Let_def split: if_splits option.splits prod.splits)

lemma checkToken_Inr:
  assumes "checkToken k secret aNow token req = Inr c"
  shows "openToken k secret token = Inr c"
    "Tv_Action req \<noteq> [] \<Longrightarrow> Tk_Action c = Tv_Action req"
    "normalizeDigest (Tv_AllowlistDigest req) \<noteq> [] \<Longrightarrow>
       normalizeDigest (Tk_AllowlistDigest c) = normalizeDigest (Tv_AllowlistDigest req)"
    "(if isZero (Tv_Now req) then aNow else Tv_Now req) < Tk_ExpiresAt c"
  using assms by (auto simp: checkToken_def Let_def split: if_splits sum.splits)

lemma Validate_Inr:
  "ValidateApprovalToken k secret aNow clk token req store = (Inr c, store') \<longleftrightarrow>
     checkToken k secret aNow token req = Inr c \<and>
     (\<exists>consumed. store = Some (TokenStore consumed) \<and>
        consumeKey (Tk_ApprovalID c) (Tk_Nonce c) \<notin> set (keys (pruneConsumed clk consumed)) \<and>
        store' = Some (TokenStore (AList.update (consumeKey (Tk_ApprovalID c) (Tk_Nonce c)) (Tk_ExpiresAt c)
          (pruneConsumed clk consumed))))"
  by (auto simp: ValidateApprovalToken_def Let_def elim!: TokenStore_Consume.elims
      split: sum.splits option.splits prod.splits bool.splits if_splits)

interpretation hmacv: token_validator "ValidateApprovalToken k secret aNow clk"
  by unfold_locales (auto simp: Validate_Inr dest: checkToken_Inr openToken_Inr(3))

lemma SocketValidate_Inr:
  assumes "SocketValidate socketPath daemon token req d = (Inr c, d')"
  shows "TrimSpace socketPath \<noteq> []"
    "daemon (token, Tv_Action req, normalizeDigest (Tv_AllowlistDigest req)) d = (SocketReply 200 (Some c), d')"
    "Tk_ApprovalID c \<noteq> []" "Tv_Action req \<noteq> [] \<Longrightarrow> Tk_Action c = Tv_Action req"
    "normalizeDigest (Tv_AllowlistDigest req) \<noteq> [] \<Longrightarrow>
       normalizeDigest (Tk_AllowlistDigest c) = normalizeDigest (Tv_AllowlistDigest req)"
  using assms by (auto simp: SocketValidate_def split: if_splits option.splits prod.splits socket_reply.splits)

interpretation socketv: token_validator "SocketValidate socketPath daemon"
  by unfold_locales (auto dest: SocketValidate_Inr)

end
