(* ===== verification/PrivEngine.thy ===== *)
theory PrivEngine
  imports PrivToken
begin

text \<open>
  Package \<open>security/privsep\<close>, \<open>engine.go\<close>, \<open>runner.go\<close> and \<open>boundary.go\<close>, and the helper's command
  \<open>scripts/setup-helper/main.go\<close>: the checks before a privileged action runs, the command line the
  action becomes, and the audit event of every run. The validator, the command runner and the audit
  sink are arguments with a state each; the clock readings of a run are a record.
\<close>

section \<open>Invocations, results and audit events\<close>

datatype Mode = ModeBootstrap | ModeSteadyState | ModeOther string

datatype ResultStatus = ResultSucceeded | ResultRejected | ResultFailed | ResultNone

record Invocation =
  Inv_Mode :: Mode
  Inv_Action :: string
  Inv_Args :: "string list"
  Inv_Actor :: string
  Inv_ApprovalToken :: string
  Inv_Allowlist :: Allowlist
  Inv_ExpectedAllowlistDigest :: string

record HelperResult =
  Hr_SchemaVersion :: int
  Hr_Status :: ResultStatus
  Hr_Action :: string
  Hr_Actor :: string
  Hr_BootstrapMode :: bool
  Hr_ApprovalID :: string
  Hr_AllowlistDigest :: string
  Hr_CommandPreview :: string
  Hr_ExitCode :: int
  Hr_Error :: "priv_err option"
  Hr_StartedAt :: time
  Hr_CompletedAt :: time

record HelperAuditEvent =
  Ha_SchemaVersion :: int
  Ha_Source :: string
  Ha_Action :: string
  Ha_Result :: ResultStatus
  Ha_Actor :: string
  Ha_BootstrapMode :: bool
  Ha_ApprovalID :: string
  Ha_AllowlistDigest :: string
  Ha_CommandPreview :: string
  Ha_ExitCode :: int
  Ha_Error :: "priv_err option"
  Ha_Time :: time

record ActionResult =
  Ar_ExitCode :: int
  Ar_Output :: string

section \<open>The command lines of the actions\<close>

definition DaemonUser :: string where
  "DaemonUser = ''hoopoe''"

definition DaemonGroup :: string where
  "DaemonGroup = ''hoopoe''"

definition DefaultAllowlistPath :: string where
  "DefaultAllowlistPath = ''/etc/hoopoe/setup-helper.allowed''"

record DaemonUserSpec =
  Dus_User :: string
  Dus_Group :: string
  Dus_Home :: string
  Dus_Shell :: string
  Dus_WritablePaths :: "string list"
  Dus_ReadOnlyPaths :: "string list"
  Dus_ForbiddenPaths :: "string list"

definition DefaultDaemonUserSpec :: DaemonUserSpec where
  "DefaultDaemonUserSpec = \<lparr>Dus_User = DaemonUser, Dus_Group = DaemonGroup,
     Dus_Home = ''/var/lib/hoopoe'', Dus_Shell = ''/usr/sbin/nologin'',
     Dus_WritablePaths = [''/var/lib/hoopoe'', ''/data/projects'', ''/tmp''],
     Dus_ReadOnlyPaths = [''/etc/hoopoe''],
     Dus_ForbiddenPaths = [''/etc/systemd/system'', ''/usr/local/bin'', ''/var/log'']\<rparr>"

definition UserAddArgv :: "DaemonUserSpec \<Rightarrow> string list" where
  "UserAddArgv s = [''useradd'', ''--system'',
     ''--home-dir'', firstNonEmpty [Dus_Home s, ''/var/lib/hoopoe''],
     ''--shell'', firstNonEmpty [Dus_Shell s, ''/usr/sbin/nologin''],
     ''--user-group'', ''--comment'', ''Hoopoe daemon least-privilege user'',
     firstNonEmpty [Dus_User s, DaemonUser]]"

text \<open>The sudo rule that lets the daemon's user start the helper.\<close>

definition SudoersRule :: "string \<Rightarrow> string" where
  "SudoersRule helperPath = DaemonUser @ '' ALL=(root) NOPASSWD: '' @
     Clean (firstNonEmpty [helperPath, ''/usr/local/bin/hoopoe-setup-helper'']) @
     '' run --approval-token=*'' @ [newline]"

definition ValidateSudoersRule :: "string \<Rightarrow> string \<Rightarrow> bool" where
  "ValidateSudoersRule rule helperPath \<longleftrightarrow> TrimSpace rule = TrimSpace (SudoersRule helperPath)"

fun arg :: "string \<Rightarrow> string list \<Rightarrow> string option" where
  "arg prefix [] = None"
| "arg prefix (v # vs) = (case CutPrefix v prefix of Some r \<Rightarrow> Some r | None \<Rightarrow> arg prefix vs)"

definition actionArgv :: "string \<Rightarrow> string list \<Rightarrow> priv_err + string list" where
  "actionArgv action args =
     (let need = (\<lambda>prefix k. case arg prefix args of None \<Rightarrow> Inl PrivArgvShapeMismatch | Some v \<Rightarrow> k v) in
      if action = ''create-hoopoe-user'' then Inr (UserAddArgv DefaultDaemonUserSpec)
      else if action = ''install-systemd-unit'' then
        need ''--unit-path='' (\<lambda>unitPath. need ''--source='' (\<lambda>source.
          Inr [''install'', ''-m'', ''0644'', source, unitPath]))
      else if action = ''uninstall-systemd-unit'' then
        need ''--unit-path='' (\<lambda>unitPath. Inr [''systemctl'', ''disable'', ''--now'', Base unitPath])
      else if action = ''chown-projects'' \<or> action = ''chown-acfs-paths'' then
        need ''--path='' (\<lambda>path. Inr [''chown'', ''-R'', DaemonUser @ '':'' @ DaemonGroup, path])
      else if action = ''repair-acfs'' then
        need ''--auto-fix='' (\<lambda>autoFix.
          Inr (if autoFix = ''true'' then [''acfs'', ''doctor'', ''--auto-fix''] else [''acfs'', ''doctor'']))
      else if action = ''restart-service'' then
        need ''--service='' (\<lambda>service. Inr [''systemctl'', ''restart'', service])
      else if action = ''register-helper-allowlist'' then
        need ''--path='' (\<lambda>path. Inr [''install'', ''-m'', ''0644'', path, DefaultAllowlistPath])
      else if action = ''bind-privileged-port'' then Inr [''true'']
      else Inl PrivActionNotAllowed)"

text \<open>
  The state of the system is the list of the command lines that were started on it; \<open>runner\<close> says how
  each of them ends.
\<close>

type_synonym system = "string list list"
type_synonym executor = "string \<Rightarrow> string list \<Rightarrow> system \<Rightarrow> (ActionResult \<times> priv_err option) \<times> system"

definition CommandExecutor :: "(string list \<Rightarrow> ActionResult \<times> priv_err option) \<Rightarrow> executor" where
  "CommandExecutor runner action args sys =
     (case actionArgv action args of
        Inl e \<Rightarrow> ((\<lparr>Ar_ExitCode = 1, Ar_Output = []\<rparr>, Some e), sys)
      | Inr argv \<Rightarrow> (runner argv, sys @ [argv]))"

definition dryRunExecutor :: executor where
  "dryRunExecutor action args sys = ((\<lparr>Ar_ExitCode = 0, Ar_Output = ''dry-run''\<rparr>, None), sys)"

section \<open>The audit sink\<close>

text \<open>
  The file of JSON lines: a fault before the write leaves it alone, a fault of the final sync comes
  after the line is in. An empty path drops the event.
\<close>

datatype sink_fault = SinkOpen string | SinkSync string

definition FileAuditSink ::
  "ctx \<Rightarrow> string \<Rightarrow> sink_fault option \<Rightarrow> HelperAuditEvent \<Rightarrow> HelperAuditEvent list \<Rightarrow>
     bool \<times> HelperAuditEvent list" where
  "FileAuditSink c path fault event log =
     (if c \<noteq> None then (False, log)
      else if TrimSpace path = [] then (True, log)
      else case fault of None \<Rightarrow> (True, log @ [event])
        | Some (SinkOpen m) \<Rightarrow> (False, log) | Some (SinkSync m) \<Rightarrow> (False, log @ [event]))"

section \<open>The engine\<close>

record 'v Engine =
  Eng_TokenValidator :: "(string \<Rightarrow> TokenValidationRequest \<Rightarrow> 'v \<Rightarrow> (priv_err + TokenClaims) \<times> 'v) option"
  Eng_Executor :: "executor option"
  Eng_Audit :: "(HelperAuditEvent \<Rightarrow> HelperAuditEvent list \<Rightarrow> bool \<times> HelperAuditEvent list) option"

record 'v engine_world =
  ew_validator :: 'v
  ew_system :: system
  ew_audit :: "HelperAuditEvent list"

record readings =
  rd_started :: time
  rd_validate :: time
  rd_finished :: time

definition NoopAuditSink :: "HelperAuditEvent \<Rightarrow> HelperAuditEvent list \<Rightarrow> bool \<times> HelperAuditEvent list" where
  "NoopAuditSink event log = (True, log)"

definition auditEvent :: "HelperResult \<Rightarrow> ResultStatus \<Rightarrow> HelperAuditEvent" where
  "auditEvent r status = \<lparr>Ha_SchemaVersion = PrivSchemaVersion, Ha_Source = ''hoopoe-setup-helper'',
     Ha_Action = Hr_Action r, Ha_Result = status, Ha_Actor = Hr_Actor r,
     Ha_BootstrapMode = Hr_BootstrapMode r, Ha_ApprovalID = Hr_ApprovalID r,
     Ha_AllowlistDigest = Hr_AllowlistDigest r, Ha_CommandPreview = Hr_CommandPreview r,
     Ha_ExitCode = Hr_ExitCode r, Ha_Error = Hr_Error r, Ha_Time = Hr_CompletedAt r\<rparr>"

definition finish ::
  "'v Engine \<Rightarrow> readings \<Rightarrow> HelperResult \<Rightarrow> priv_err option \<Rightarrow> ResultStatus \<Rightarrow> 'v engine_world \<Rightarrow>
     (HelperResult \<times> priv_err option) \<times> 'v engine_world" where
  "finish e rd r0 cause status w =
     (let r1 = r0\<lparr>Hr_Status := status, Hr_CompletedAt := rd_finished rd\<rparr>;
          r = (case cause of None \<Rightarrow> r1
               | Some c \<Rightarrow> r1\<lparr>Hr_Error := Some c,
                   Hr_ExitCode := (if Hr_ExitCode r1 = 0 then 1 else Hr_ExitCode r1)\<rparr>);
          sink = (case Eng_Audit e of None \<Rightarrow> NoopAuditSink | Some s \<Rightarrow> s)
      in ((r, cause), w\<lparr>ew_audit := snd (sink (auditEvent r status) (ew_audit w))\<rparr>))"

definition startResult :: "readings \<Rightarrow> Invocation \<Rightarrow> HelperResult" where
  "startResult rd iv = \<lparr>Hr_SchemaVersion = PrivSchemaVersion, Hr_Status = ResultNone,
     Hr_Action = TrimSpace (Inv_Action iv), Hr_Actor = TrimSpace (Inv_Actor iv),
     Hr_BootstrapMode = (Inv_Mode iv = ModeBootstrap), Hr_ApprovalID = [],
     Hr_AllowlistDigest = All_Digest (Inv_Allowlist iv), Hr_CommandPreview = [], Hr_ExitCode = 0,
     Hr_Error = None, Hr_StartedAt = rd_started rd, Hr_CompletedAt = rd_started rd\<rparr>"

text \<open>The checks before the switch on the mode: the refusal, or the entry of the action.\<close>

definition precheck :: "Invocation \<Rightarrow> priv_err + AllowlistEntry" where
  "precheck iv =
     (let action = TrimSpace (Inv_Action iv) in
      if action = [] then Inl PrivInvalidInvocation
      else if Inv_Mode iv \<noteq> ModeBootstrap \<and> Inv_Mode iv \<noteq> ModeSteadyState then Inl PrivInvalidInvocation
      else if All_Entries (Inv_Allowlist iv) = [] then Inl PrivInvalidAllowlist
      else case ValidateChecksum (Inv_Allowlist iv) (Inv_ExpectedAllowlistDigest iv) of Some e \<Rightarrow> Inl e
        | None \<Rightarrow> (case Allowlist_Entry (Inv_Allowlist iv) action of None \<Rightarrow> Inl PrivActionNotAllowed
            | Some entry \<Rightarrow> (case ValidateArgs entry (Inv_Args iv) of Some e \<Rightarrow> Inl e | None \<Rightarrow> Inr entry)))"

text \<open>The switch: the result goes on with its actor and approval, or the refusal; the validator moves.\<close>

definition authorize ::
  "'v Engine \<Rightarrow> readings \<Rightarrow> Invocation \<Rightarrow> HelperResult \<Rightarrow> 'v \<Rightarrow> (priv_err + HelperResult) \<times> 'v" where
  "authorize e rd iv r v =
     (if Inv_Mode iv = ModeBootstrap then
        (if \<not> BootstrapActionAllowed (Hr_Action r) then Inl PrivBootstrapRejected
         else Inr (if Hr_Actor r = [] then r\<lparr>Hr_Actor := ''bootstrap''\<rparr> else r), v)
      else case Eng_TokenValidator e of None \<Rightarrow> (Inl PrivInvalidInvocation, v)
        | Some validate \<Rightarrow>
            (case validate (Inv_ApprovalToken iv) \<lparr>Tv_Action = Hr_Action r,
                 Tv_AllowlistDigest = All_Digest (Inv_Allowlist iv), Tv_Now = rd_validate rd\<rparr> v of
               (Inl err, v') \<Rightarrow> (Inl err, v')
             | (Inr claims, v') \<Rightarrow>
                 (let r' = r\<lparr>Hr_ApprovalID := Tk_ApprovalID claims\<rparr> in
                  (Inr (if Hr_Actor r' = [] then r'\<lparr>Hr_Actor := Tk_Actor claims\<rparr> else r'), v'))))"

definition Engine_Run ::
  "'v Engine \<Rightarrow> readings \<Rightarrow> Invocation \<Rightarrow> 'v engine_world \<Rightarrow>
     (HelperResult \<times> priv_err option) \<times> 'v engine_world" where
  "Engine_Run e rd iv w =
     (let result = startResult rd iv in
      case precheck iv of Inl err \<Rightarrow> finish e rd result (Some err) ResultRejected w
      | Inr entry \<Rightarrow>
          (let previewed = result\<lparr>Hr_CommandPreview := CommandPreview entry (Inv_Args iv)\<rparr> in
           case authorize e rd iv previewed (ew_validator w) of
             (Inl err, v) \<Rightarrow> finish e rd previewed (Some err) ResultRejected (w\<lparr>ew_validator := v\<rparr>)
           | (Inr allowed, v) \<Rightarrow>
               (case Eng_Executor e of
                  None \<Rightarrow> finish e rd allowed (Some PrivInvalidInvocation) ResultRejected (w\<lparr>ew_validator := v\<rparr>)
                | Some execute \<Rightarrow>
                    (case execute (Hr_Action allowed) (Inv_Args iv) (ew_system w) of
                       ((res, err), sys) \<Rightarrow>
                         finish e rd (allowed\<lparr>Hr_ExitCode := Ar_ExitCode res\<rparr>) err
                           (if err = None then ResultSucceeded else ResultFailed)
                           (w\<lparr>ew_validator := v, ew_system := sys\<rparr>)))))"

section \<open>The helper's command\<close>

record helper_flags =
  Fl_action :: string
  Fl_allowlist :: string
  Fl_expectedDigest :: string
  Fl_approvalToken :: string
  Fl_daemonSocket :: string
  Fl_approvalSecretFile :: string
  Fl_auditLog :: string
  Fl_dryRun :: bool
  Fl_args :: "string list"

text \<open>
  The environment of a process: the files it can read, the daemon behind the socket, its clock, the
  runner of commands and the faults of the audit file. The validator's state of a process that reads a
  secret file is a replay store of its own; the daemon keeps the other.
\<close>

record 'd helper_env =
  He_codec :: priv_codec
  He_sha256 :: "string \<Rightarrow> string"
  He_readFile :: "string \<Rightarrow> string + string"
  He_daemon :: "string \<times> string \<times> string \<Rightarrow> 'd \<Rightarrow> socket_reply \<times> 'd"
  He_runner :: "string list \<Rightarrow> ActionResult \<times> priv_err option"
  He_readings :: readings
  He_clock :: "string \<Rightarrow> time"
  He_fault :: "sink_fault option"

definition tokenValidator ::
  "'d helper_env \<Rightarrow> string \<Rightarrow> string \<Rightarrow>
     (string \<Rightarrow> TokenValidationRequest \<Rightarrow> MemoryTokenStore option \<times> 'd \<Rightarrow>
        (priv_err + TokenClaims) \<times> MemoryTokenStore option \<times> 'd) option" where
  "tokenValidator env socketPath secretPath =
     (if TrimSpace socketPath \<noteq> [] then
        Some (\<lambda>token req (s, d). case SocketValidate socketPath (He_daemon env) token req d of (r, d') \<Rightarrow> (r, s, d'))
      else if TrimSpace secretPath = [] then None
      else case He_readFile env secretPath of
        Inl m \<Rightarrow> Some (\<lambda>token req v. (Inl (PrivIO m), v))
      | Inr content \<Rightarrow> Some (\<lambda>token req (s, d).
          case ValidateApprovalToken (He_codec env) (TrimSpace content) (rd_validate (He_readings env))
            (He_clock env) token req s of (r, s') \<Rightarrow> (r, s', d)))"

text \<open>\<open>run\<close> is the mode \<open>ModeSteadyState\<close>, \<open>bootstrap\<close> the other; \<open>sys\<close> and \<open>log\<close> are what is on the machine.\<close>

definition runHelper ::
  "'d helper_env \<Rightarrow> Mode \<Rightarrow> helper_flags \<Rightarrow> 'd \<Rightarrow> system \<Rightarrow> HelperAuditEvent list \<Rightarrow>
     (priv_err + HelperResult \<times> priv_err option) \<times> 'd \<times> system \<times> HelperAuditEvent list" where
  "runHelper env mode fl d sys log =
     (case LoadAllowlist (He_sha256 env) (He_readFile env) (Fl_allowlist fl) of Inl e \<Rightarrow> (Inl e, d, sys, log)
      | Inr allowlist \<Rightarrow>
          (case Engine_Run
             \<lparr>Eng_TokenValidator = tokenValidator env (Fl_daemonSocket fl) (Fl_approvalSecretFile fl),
              Eng_Executor = Some (if Fl_dryRun fl then dryRunExecutor else CommandExecutor (He_runner env)),
              Eng_Audit = Some (FileAuditSink None (Fl_auditLog fl) (He_fault env))\<rparr>
             (He_readings env)
             \<lparr>Inv_Mode = mode, Inv_Action = Fl_action fl, Inv_Args = Fl_args fl, Inv_Actor = [],
              Inv_ApprovalToken = Fl_approvalToken fl, Inv_Allowlist = allowlist,
              Inv_ExpectedAllowlistDigest = Fl_expectedDigest fl\<rparr>
             \<lparr>ew_validator = (Some NewMemoryTokenStore, d), ew_system = sys, ew_audit = log\<rparr>
           of (res, w) \<Rightarrow> (Inr res, snd (ew_validator w), ew_system w, ew_audit w)))"

end
