(* ===== verification/PrivAllowlistProps.thy ===== *)
theory PrivAllowlistProps
  imports PrivAllowlist
begin

text \<open>
  Facts on the allowlist of the setup helper: an allowlist written in the file format is read back,
  the default text gives the default entries, the project-path shape confines a path to the projects
  directory, the port shape is exact for short numbers and wraps for long ones, and two different
  allowlists can have the same digest.
\<close>

section \<open>Writing and reading an allowlist\<close>

definition entryLines :: "AllowlistEntry \<Rightarrow> string list" where
  "entryLines e = [''action: '' @ Ent_Action e, ''args: '' @ Join (Ent_ArgPatterns e) (CHR '' '')] @
     (if Ent_AuditRequired e then [''audit: required''] else [])"

fun allowlistLines :: "AllowlistEntry list \<Rightarrow> string list" where
  "allowlistLines [] = []"
| "allowlistLines [e] = entryLines e"
| "allowlistLines (e # f # es) = entryLines e @ [''----''] @ allowlistLines (f # es)"

definition printAllowlist :: "AllowlistEntry list \<Rightarrow> string" where
  "printAllowlist es = concat (map (\<lambda>l. l @ [newline]) (allowlistLines es))"

definition canonicalEntry :: "AllowlistEntry \<Rightarrow> string" where
  "canonicalEntry e = ''action:'' @ Ent_Action e @ [newline] @
     ''args:'' @ Join (Ent_ArgPatterns e) (CHR '' '') @ [newline] @
     (if Ent_AuditRequired e then ''audit:required'' @ [newline] else [])"

definition writableEntry :: "AllowlistEntry \<Rightarrow> bool" where
  "writableEntry e \<longleftrightarrow> isKnownAction (Ent_Action e) \<and> Ent_ArgPatterns e \<noteq> [] \<and>
     list_all (\<lambda>p. p \<noteq> [] \<and> list_all printable p) (Ent_ArgPatterns e) \<and>
     int (length (Join (Ent_ArgPatterns e) (CHR '' ''))) < 65000"

lemma known_action_cases:
  "isKnownAction a \<Longrightarrow> a \<noteq> [] \<and> list_all printable a \<and> length a < 40"
  unfolding isKnownAction_def by (elim insertE; simp add: printable_def)

lemma TrimSpace_printable:
  "s \<noteq> [] \<Longrightarrow> printable (hd s) \<Longrightarrow> printable (last s) \<Longrightarrow> TrimSpace s = s"
  by (rule TrimSpace_plain) (simp_all add: printable_plain)

lemma Join_ends:
  assumes "ps \<noteq> []" "list_all (\<lambda>p. p \<noteq> [] \<and> list_all printable p) ps"
  shows "Join ps sep \<noteq> [] \<and> printable (hd (Join ps sep)) \<and> printable (last (Join ps sep))"
  using assms by (induction ps sep rule: Join.induct) (auto simp: list_all_iff)

lemma splitArgs_Join:
  assumes "list_all (\<lambda>p. p \<noteq> [] \<and> list_all printable p) ps"
  shows "splitArgs (Join ps (CHR '' '')) = ps"
proof -
  have "Fields (Join ps (CHR '' '')) = ps"
    using assms printable_plain by (intro Fields_Join) (auto simp: list_all_iff)
  moreover have "map TrimSpace ps = ps"
    using assms by (intro map_idI TrimSpace_printable) (auto simp: list_all_iff)
  moreover have "filter (\<lambda>f. f \<noteq> []) ps = ps" using assms by (intro filter_True) (auto simp: list_all_iff)
  ultimately show ?thesis by (simp add: splitArgs_def)
qed

text \<open>A line of a key, a colon, a blank and a value.\<close>

lemma keyed_line:
  assumes k: "k \<noteq> []" "list_all (\<lambda>c. printable c \<and> c \<noteq> CHR '':'') k"
    and v: "v \<noteq> []" "printable (hd v)" "printable (last v)"
  shows "TrimSpace (k @ '': '' @ v) = k @ '': '' @ v"
    "Cut (k @ '': '' @ v) (CHR '':'') = Some (k, CHR '' '' # v)"
    "TrimSpace k = k" "TrimSpace (CHR '' '' # v) = v" "dropCR (k @ '': '' @ v) = k @ '': '' @ v"
proof -
  have hk: "printable (hd k)" "printable (last k)" using k by (auto simp: list_all_iff)
  show "TrimSpace (k @ '': '' @ v) = k @ '': '' @ v" using k v hk by (intro TrimSpace_printable) auto
  show "TrimSpace k = k" using k hk by (intro TrimSpace_printable) auto
  show "TrimSpace (CHR '' '' # v) = v" using v by (simp add: TrimSpace_blank TrimSpace_printable)
  have "CHR '':'' \<notin> set k" using k(2) by (auto simp: list_all_iff)
  from Cut_sep [OF this, of "CHR '' '' # v"] show "Cut (k @ '': '' @ v) (CHR '':'') = Some (k, CHR '' '' # v)" by simp
  have "last v \<noteq> CHR 0x0D" using v(3) by (auto simp: printable_def)
  then show "dropCR (k @ '': '' @ v) = k @ '': '' @ v" using v(1) by (simp add: dropCR_def)
qed

lemma parse_action:
  assumes "isKnownAction a"
  shows "parseLines ((''action: '' @ a) # ls) st = parseLines ls
    (st\<lparr>ps_current := (ps_current st)\<lparr>Ent_Action := a\<rparr>,
        ps_canonical := ps_canonical st @ ''action:'' @ a @ [newline]\<rparr>)"
proof -
  from known_action_cases [OF assms] have a: "a \<noteq> []" "printable (hd a)" "printable (last a)" "length a < 40"
    by (auto simp: list_all_iff)
  have k: "list_all (\<lambda>c. printable c \<and> c \<noteq> CHR '':'') ''action''" by (simp add: printable_def)
  note l = keyed_line [OF _ k a(1-3), simplified]
  have "\<not> line_too_long (''action: '' @ a)" using a(4) by (simp add: line_too_long_def)
  then show ?thesis by (simp add: l parseLine_def HasPrefix_def Let_def)
qed

lemma parse_args:
  assumes "ps \<noteq> []" "list_all (\<lambda>p. p \<noteq> [] \<and> list_all printable p) ps"
    "int (length (Join ps (CHR '' ''))) < 65000"
  shows "parseLines ((''args: '' @ Join ps (CHR '' '')) # ls) st = parseLines ls
    (st\<lparr>ps_current := (ps_current st)\<lparr>Ent_ArgPatterns := ps\<rparr>,
        ps_canonical := ps_canonical st @ ''args:'' @ Join ps (CHR '' '') @ [newline]\<rparr>)"
proof -
  note v = Join_ends [OF assms(1,2), of "CHR '' ''"]
  have k: "list_all (\<lambda>c. printable c \<and> c \<noteq> CHR '':'') ''args''" by (simp add: printable_def)
  note l = keyed_line [OF _ k v [THEN conjunct1] v [THEN conjunct2, THEN conjunct1]
      v [THEN conjunct2, THEN conjunct2], simplified]
  have "\<not> line_too_long (''args: '' @ Join ps (CHR '' ''))" using assms(3) by (simp add: line_too_long_def)
  then show ?thesis by (simp add: l parseLine_def HasPrefix_def Let_def splitArgs_Join [OF assms(2)])
qed

lemma parse_audit:
  "parseLines (''audit: required'' # ls) st = parseLines ls
    (st\<lparr>ps_current := (ps_current st)\<lparr>Ent_AuditRequired := True\<rparr>,
        ps_canonical := ps_canonical st @ ''audit:required'' @ [newline]\<rparr>)"
proof -
  have k: "list_all (\<lambda>c. printable c \<and> c \<noteq> CHR '':'') ''audit''" by (simp add: printable_def)
  have v: "printable (hd ''required'')" "printable (last ''required'')" by (simp_all add: printable_def)
  note l = keyed_line [OF _ k _ v, simplified]
  show ?thesis by (simp add: l parseLine_def HasPrefix_def Let_def line_too_long_def)
qed

lemma parse_separator:
  "parseLines (''----'' # ls) st = (case flush st of Inl e \<Rightarrow> Inl e | Inr st' \<Rightarrow> parseLines ls st')"
proof -
  have "TrimSpace ''----'' = ''----''" by (rule TrimSpace_printable) (simp_all add: printable_def)
  then show ?thesis by (simp add: parseLine_def HasPrefix_def Let_def line_too_long_def dropCR_def)
qed

lemma parse_entry:
  assumes "writableEntry e"
  shows "parseLines (entryLines e @ ls) \<lparr>ps_entries = es, ps_current = noEntry, ps_canonical = t\<rparr> =
    parseLines ls \<lparr>ps_entries = es, ps_current = e, ps_canonical = t @ canonicalEntry e\<rparr>"
  using assms
  by (cases e) (simp add: writableEntry_def entryLines_def parse_action [simplified] parse_args [simplified]
      parse_audit [simplified] canonicalEntry_def noEntry_def)

lemma flush_entry:
  "writableEntry e \<Longrightarrow> flush \<lparr>ps_entries = es, ps_current = e, ps_canonical = t\<rparr> =
     Inr \<lparr>ps_entries = es @ [e], ps_current = noEntry, ps_canonical = t\<rparr>"
  using known_action_cases by (auto simp: writableEntry_def flush_def)

lemma parse_lines:
  assumes "es \<noteq> []" "list_all writableEntry es"
  shows "\<exists>st. parseLines (allowlistLines es) \<lparr>ps_entries = fs, ps_current = noEntry, ps_canonical = t\<rparr> = Inr st \<and>
    flush st = Inr \<lparr>ps_entries = fs @ es, ps_current = noEntry,
      ps_canonical = t @ concat (map canonicalEntry es)\<rparr>"
  using assms
proof (induction es arbitrary: fs t rule: allowlistLines.induct)
  case (2 e)
  then show ?case using parse_entry [of e "[]"] by (simp add: flush_entry)
next
  case (3 e f es)
  from 3(3) have e: "writableEntry e" and r: "list_all writableEntry (f # es)" by simp_all
  show ?case
    using 3(1) [OF _ r, of "fs @ [e]" "t @ canonicalEntry e"]
    by (simp add: parse_entry [OF e] parse_separator [simplified] flush_entry [OF e])
qed simp

lemma newline_not_printable: "printable c \<Longrightarrow> c \<noteq> newline"
  by (auto simp: printable_def newline_def)

lemma Join_no_newline:
  "list_all (\<lambda>p. p \<noteq> [] \<and> list_all printable p) ps \<Longrightarrow> newline \<notin> set (Join ps (CHR '' ''))"
  by (induction ps "CHR '' ''" rule: Join.induct)
    (auto simp: list_all_iff newline_def dest: newline_not_printable)

lemma entry_no_newline:
  assumes "writableEntry e" "l \<in> set (entryLines e)"
  shows "newline \<notin> set l"
proof -
  have a: "newline \<notin> set (Ent_Action e)"
    using assms(1) known_action_cases [of "Ent_Action e"] newline_not_printable
    by (auto simp: writableEntry_def list_all_iff)
  have "newline \<notin> set (Join (Ent_ArgPatterns e) (CHR '' ''))"
    using assms(1) by (intro Join_no_newline) (simp add: writableEntry_def)
  with a assms(2) show ?thesis by (auto simp: entryLines_def newline_def split: if_splits)
qed

lemma lines_no_newline:
  "list_all writableEntry es \<Longrightarrow> \<forall>l \<in> set (allowlistLines es). newline \<notin> set l"
  by (induction es rule: allowlistLines.induct) (auto dest: entry_no_newline simp: newline_def)

lemma parse_print:
  assumes "es \<noteq> []" "list_all writableEntry es"
  shows "ParseAllowlist h (printAllowlist es) = Inr \<lparr>All_Entries = es,
    All_Digest = ''sha256:'' @ hexEncode (h (concat (map canonicalEntry es)))\<rparr>"
proof -
  have "text_lines (printAllowlist es) = allowlistLines es"
    by (simp add: text_lines_def printAllowlist_def Split_lines [OF lines_no_newline [OF assms(2)]])
  with parse_lines [OF assms, of "[]" "[]"] assms(1) show ?thesis by (auto simp: ParseAllowlist_def)
qed

lemma default_parses:
  "ParseAllowlist h DefaultAllowlistText = Inr \<lparr>All_Entries = defaultEntries,
     All_Digest = ''sha256:'' @ hexEncode (h (concat (map canonicalEntry defaultEntries)))\<rparr>"
proof -
  have "DefaultAllowlistText = printAllowlist defaultEntries" by code_simp
  moreover have "list_all writableEntry defaultEntries" by code_simp
  moreover have "defaultEntries \<noteq> []" by (simp add: defaultEntries_def)
  ultimately show ?thesis using parse_print by metis
qed

text \<open>
  An allowlist of known actions with printable shapes, written in the file format, is read back as it
  was, and its digest is taken of its canonical text.
\<close>

theorem allowlist_roundtrip:
  assumes "es \<noteq> []" "list_all writableEntry es"
  shows "ParseAllowlist sha (printAllowlist es) = Inr \<lparr>All_Entries = es,
    All_Digest = ''sha256:'' @ hexEncode (sha (concat (map canonicalEntry es)))\<rparr>"
  using assms by (rule parse_print)

theorem allowlist_roundtrip_witness:
  "ParseAllowlist (\<lambda>s. take 2 s) (printAllowlist defaultEntries) =
     Inr \<lparr>All_Entries = defaultEntries, All_Digest = ''sha256:6163''\<rparr>"
proof -
  have "defaultEntries \<noteq> []" "list_all writableEntry defaultEntries"
    "hexEncode (take 2 (concat (map canonicalEntry defaultEntries))) = ''6163''" by code_simp+
  with allowlist_roundtrip [of defaultEntries "\<lambda>s. take 2 s"] show ?thesis by simp
qed

text \<open>Whatever text is parsed, the entries have known actions and shapes.\<close>

definition entry_ok :: "AllowlistEntry \<Rightarrow> bool" where
  "entry_ok e \<longleftrightarrow> isKnownAction (Ent_Action e) \<and> Ent_ArgPatterns e \<noteq> []"

lemma flush_ok:
  "flush st = Inr st' \<Longrightarrow> list_all entry_ok (ps_entries st) \<Longrightarrow> list_all entry_ok (ps_entries st')"
  by (auto simp: flush_def Let_def entry_ok_def split: if_splits)

lemma parseLine_ok:
  "parseLine l st = Inr st' \<Longrightarrow> list_all entry_ok (ps_entries st) \<Longrightarrow> list_all entry_ok (ps_entries st')"
  by (auto simp: parseLine_def Let_def flush_ok split: if_splits option.splits prod.splits)

lemma parseLines_ok:
  "parseLines ls st = Inr st' \<Longrightarrow> list_all entry_ok (ps_entries st) \<Longrightarrow> list_all entry_ok (ps_entries st')"
  by (induction ls st rule: parseLines.induct) (auto split: if_splits sum.splits dest: parseLine_ok)

lemma parsed_ok:
  assumes "ParseAllowlist h s = Inr a"
  shows "All_Entries a \<noteq> []" "list_all entry_ok (All_Entries a)" "\<exists>d. All_Digest a = ''sha256:'' @ hexEncode d"
proof -
  from assms obtain st st' where
    p: "parseLines (text_lines s) \<lparr>ps_entries = [], ps_current = noEntry, ps_canonical = []\<rparr> = Inr st"
    "flush st = Inr st'" "ps_entries st' \<noteq> []"
    "a = \<lparr>All_Entries = ps_entries st', All_Digest = ''sha256:'' @ hexEncode (h (ps_canonical st'))\<rparr>"
    by (auto simp: ParseAllowlist_def split: sum.splits if_splits)
  from parseLines_ok [OF p(1)] flush_ok [OF p(2)] have "list_all entry_ok (ps_entries st')" by simp
  with p(3,4) show "All_Entries a \<noteq> []" "list_all entry_ok (All_Entries a)"
    "\<exists>d. All_Digest a = ''sha256:'' @ hexEncode d" by auto
qed

text \<open>A digest the parser makes is in its normal form.\<close>

lemma ToLower_id:
  "\<forall>c \<in> set s. c \<noteq> CHR 0xC4 \<and> c \<noteq> CHR 0xE2 \<and> \<not> (CHR ''A'' \<le> c \<and> c \<le> CHR ''Z'') \<Longrightarrow> ToLower s = s"
  by (induction s) (auto simp: numeral_2_eq_2 numeral_3_eq_3)

lemma normal_digest: "normalizeDigest (''sha256:'' @ hexEncode d) = ''sha256:'' @ hexEncode d"
proof -
  let ?s = "''sha256:'' @ hexEncode d"
  have chars: "list_all (\<lambda>c. c \<noteq> CHR 0xC4 \<and> c \<noteq> CHR 0xE2 \<and> \<not> (CHR ''A'' \<le> c \<and> c \<le> CHR ''Z'') \<and> printable c)
    (''sha256:'' @ hexDigits)" by code_simp
  have "nib (of_char c div 16) \<in> set hexDigits" "nib (of_char c mod 16) \<in> set hexDigits" for c :: char
  proof -
    have "(of_char c :: nat) div 16 < 16" using byte_bound [of c] by linarith
    then show "nib (of_char c div 16) \<in> set hexDigits" "nib (of_char c mod 16) \<in> set hexDigits"
      unfolding nib_def by (intro nth_mem; simp add: hexDigits_def)+
  qed
  then have "set (hexEncode d) \<subseteq> set hexDigits" by (auto simp: hexEncode_def)
  then have "set ?s \<subseteq> set (''sha256:'' @ hexDigits)" unfolding set_append by (rule Un_mono [OF subset_refl])
  moreover define s where "s = ?s"
  ultimately have sub: "set s \<subseteq> set (''sha256:'' @ hexDigits)" by (simp only: s_def)
  have c: "c \<noteq> CHR 0xC4 \<and> c \<noteq> CHR 0xE2 \<and> \<not> (CHR ''A'' \<le> c \<and> c \<le> CHR ''Z'') \<and> printable c"
    if "c \<in> set s" for c
    by (rule chars [unfolded list_all_iff, rule_format, OF subsetD [OF sub that]])
  have ne: "s \<noteq> []" by (simp add: s_def)
  have "ToLower s = s" by (rule ToLower_id) (simp add: c)
  moreover have "TrimSpace s = s" by (rule TrimSpace_printable [OF ne]) (simp_all add: c ne)
  moreover have "HasPrefix s ''sha256:''" by (simp add: s_def HasPrefix_def)
  ultimately have "normalizeDigest s = s" using ne by (simp add: normalizeDigest_def)
  then show ?thesis by (simp only: s_def)
qed

section \<open>Paths\<close>

text \<open>
  Where a path leads without symbolic links: the components from the root, a dot-dot leading to the
  parent and the root being its own parent.
\<close>

definition walkStep :: "string list \<Rightarrow> string \<Rightarrow> string list" where
  "walkStep d c = (if c = [] \<or> c = ''.'' then d else if c = ''..'' then butlast d else d @ [c])"

definition walk :: "string \<Rightarrow> string list" where
  "walk p = foldl walkStep [] (Split p (CHR ''/''))"

definition names_ok :: "string list \<Rightarrow> bool" where
  "names_ok d \<longleftrightarrow> list_all (\<lambda>c. c \<noteq> [] \<and> CHR ''/'' \<notin> set c) d"

lemma clean_is_walk:
  assumes "''..'' \<notin> set d"
  shows "foldl (cleanStep True) (rev d) cs = rev (foldl walkStep d cs)"
  using assms
proof (induction cs arbitrary: d)
  case (Cons c cs)
  have d: "''..'' \<notin> set (walkStep d c)" using Cons.prems by (auto simp: walkStep_def dest: in_set_butlastD)
  have "cleanStep True (rev d) c = rev (walkStep d c)"
  proof (cases "rev d")
    case Nil
    then show ?thesis by (simp add: cleanStep_def walkStep_def)
  next
    case (Cons x xs)
    then have dx: "d = rev xs @ [x]" by (metis rev_eq_Cons_iff rev_rev_ident)
    with \<open>''..'' \<notin> set d\<close> have "x \<noteq> ''..''" by auto
    with dx show ?thesis by (simp add: cleanStep_def walkStep_def)
  qed
  with Cons.IH [OF d] show ?case by simp
qed simp

lemma names_clean:
  "names_ok out \<Longrightarrow> \<forall>c \<in> set cs. CHR ''/'' \<notin> set c \<Longrightarrow> names_ok (foldl (cleanStep rooted) out cs)"
proof (induction cs arbitrary: out)
  case (Cons c cs)
  then have "names_ok (cleanStep rooted out c)"
    by (cases out) (auto simp: names_ok_def cleanStep_def)
  with Cons show ?case by simp
qed simp

lemma Clean_rooted:
  assumes "HasPrefix p ''/''"
  shows "Clean p = CHR ''/'' # Join (walk p) (CHR ''/'')" "names_ok (walk p)"
proof -
  have w: "foldl (cleanStep True) [] (Split p (CHR ''/'')) = rev (walk p)"
    using clean_is_walk [of "[]"] by (simp add: walk_def)
  show "Clean p = CHR ''/'' # Join (walk p) (CHR ''/'')" using assms w by (simp add: Clean_def Let_def)
  have "names_ok (rev (walk p))"
    unfolding w [symmetric] by (rule names_clean) (auto simp: names_ok_def dest: Split_no_sep)
  then show "names_ok (walk p)" by (simp add: names_ok_def)
qed

lemma Join_head:
  "names_ok ss \<Longrightarrow> ss \<noteq> [] \<Longrightarrow> Join ss sep \<noteq> [] \<and> hd (Join ss sep) \<noteq> CHR ''/''"
  by (induction ss sep rule: Join.induct) (auto simp: names_ok_def dest: hd_in_set)

lemma Clean_relative:
  assumes "\<not> HasPrefix p ''/''"
  shows "Clean p \<noteq> [] \<and> hd (Clean p) \<noteq> CHR ''/''"
proof -
  let ?o = "foldl (cleanStep False) [] (Split p (CHR ''/''))"
  have "names_ok ?o" by (rule names_clean) (auto simp: names_ok_def dest: Split_no_sep)
  then have "names_ok (rev ?o)" by (simp add: names_ok_def)
  from Join_head [OF this] assms show ?thesis by (auto simp: Clean_def Let_def)
qed

lemma Join_eq_iff:
  assumes "names_ok ss" "ss \<noteq> []"
  shows "Join ss (CHR ''/'') = t \<longleftrightarrow> ss = Split t (CHR ''/'')"
  using assms Split_Join [of ss "CHR ''/''"] by (auto simp: Join_Split names_ok_def list_all_iff)

lemma projects_split: "Split ''data/projects'' (CHR ''/'') = [''data'', ''projects'']"
  "Split (''data/projects/'' @ t) (CHR ''/'') = ''data'' # ''projects'' # Split t (CHR ''/'')"
  using Split_sep [of "CHR ''/''" "''data''"] Split_sep [of "CHR ''/''" "''projects''"]
    Split_plain [of "CHR ''/''" "''projects''"] by simp_all

lemma take_two: "take 2 xs = [a, b] \<longleftrightarrow> (\<exists>r. xs = a # b # r)"
  by (cases xs; cases "tl xs") auto

lemma under_projects:
  assumes n: "names_ok d"
  shows "CHR ''/'' # Join d (CHR ''/'') = ''/data/projects'' \<or>
      HasPrefix (CHR ''/'' # Join d (CHR ''/'')) ''/data/projects/'' \<longleftrightarrow>
    take 2 d = [''data'', ''projects'']" (is "?l \<longleftrightarrow> ?r")
proof (cases "d = []")
  case False
  note j = Join_eq_iff [OF n False]
  show ?thesis
  proof
    assume ?l
    then consider "Join d (CHR ''/'') = ''data/projects''"
      | t where "Join d (CHR ''/'') = ''data/projects/'' @ t" by (auto simp: HasPrefix_iff)
    then show ?r
    proof cases
      case 1
      with j [of "''data/projects''"] show ?thesis by (simp add: projects_split)
    next
      case 2
      with j [of "''data/projects/'' @ t"] show ?thesis using projects_split(2) [of t] by simp
    qed
  next
    assume ?r
    then obtain r where d: "d = ''data'' # ''projects'' # r" by (auto simp: take_two)
    then show ?l by (cases r) (auto simp: HasPrefix_def)
  qed
qed (simp add: HasPrefix_def)

lemma project_path_resolves:
  "validProjectPath p \<longleftrightarrow> HasPrefix p ''/'' \<and> take 2 (walk p) = [''data'', ''projects'']"
proof (cases "HasPrefix p ''/''")
  case True
  then show ?thesis
    using under_projects [OF Clean_rooted(2) [OF True]]
    by (simp only: validProjectPath_def Clean_rooted(1) [OF True]) blast
next
  case False
  from Clean_relative [OF this] have "Clean p \<noteq> ''/data/projects''" "\<not> HasPrefix (Clean p) ''/data/projects/''"
    by (cases "Clean p"; auto simp: HasPrefix_def)+
  with False show ?thesis by (simp add: validProjectPath_def)
qed

text \<open>
  C29. The project-path shape of an argument accepts a path exactly if it is absolute and leads, without
  symbolic links, to the projects directory or below it, whatever dots and dot-dots it has.
\<close>

theorem project_path_confined:
  "validProjectPath p \<longleftrightarrow> HasPrefix p ''/'' \<and> take 2 (walk p) = [''data'', ''projects'']"
  by (rule project_path_resolves)

section \<open>Ports\<close>

lemma wrap64_step: "wrap64 (wrap64 (wrap64 a * 10) + d) = wrap64 (10 * a + d)"
proof (rule wrap64_cong)
  have "wrap64 (wrap64 a * 10) mod 2 ^ 64 = (10 * a) mod 2 ^ 64"
    using mod_mult_cong [OF wrap64_mod refl, of a 10] unfolding wrap64_mod by (simp only: mult.commute)
  then show "(wrap64 (wrap64 a * 10) + d) mod 2 ^ 64 = (10 * a + d) mod 2 ^ 64" by (rule mod_add_cong) simp
qed

lemma portLoop_value:
  "portLoop (wrap64 a) v = (if list_all is_digit v
     then Some (wrap64 (foldl (\<lambda>a c. 10 * a + digit_val c) a v)) else None)"
proof (induction v arbitrary: a)
  case (Cons c v)
  show ?case unfolding portLoop.simps wrap64_step Cons.IH by simp
qed simp

text \<open>
  The port shape accepts the decimal strings whose value, as a 64-bit number that wraps around, is a
  privileged port. A long enough string that stands for a huge number is therefore accepted.
\<close>

theorem privileged_port_wraps:
  "(validPrivilegedPort v \<longleftrightarrow> v \<noteq> [] \<and> list_all is_digit v \<and>
      0 < wrap64 (digits_val v) \<and> wrap64 (digits_val v) < 1024) \<and>
   validPrivilegedPort ''18446744073709551696'' \<and> digits_val ''18446744073709551696'' = 2 ^ 64 + 80"
proof -
  have z: "portLoop 0 v = (if list_all is_digit v then Some (wrap64 (digits_val v)) else None)"
    using portLoop_value [of 0 v] by (simp add: wrap64_def digits_val_def)
  have "validPrivilegedPort ''18446744073709551696''" by code_simp
  moreover have "digits_val ''18446744073709551696'' = 2 ^ 64 + 80" by code_simp
  ultimately show ?thesis by (simp add: validPrivilegedPort_def z)
qed

section \<open>The digest\<close>

text \<open>
  The canonical text holds the keys and values in order but not the separators. Two files that differ
  only in where the separator stands are two allowlists with one digest.
\<close>

definition separated :: "string list \<Rightarrow> string list \<Rightarrow> string" where
  "separated ls ms = concat (map (\<lambda>l. l @ [newline]) (ls @ [''----''] @ ms))"

definition chownLines :: "string list" where
  "chownLines = [''action: chown-projects'', ''args: --path=*'']"

definition registerLine :: string where
  "registerLine = ''action: register-helper-allowlist''"

definition restartLines :: "string list" where
  "restartLines = [''args: --service=<service>'', ''action: restart-service'']"

definition pathEntry :: "string \<Rightarrow> AllowlistEntry" where
  "pathEntry a = \<lparr>Ent_Action = a, Ent_ArgPatterns = [''--path=*''], Ent_AuditRequired = False\<rparr>"

definition restartEntry :: AllowlistEntry where
  "restartEntry = \<lparr>Ent_Action = ''restart-service'', Ent_ArgPatterns = [''--service=<service>''],
     Ent_AuditRequired = False\<rparr>"

theorem allowlist_digest_ambiguous:
  "\<exists>digest.
     ParseAllowlist sha (separated chownLines (registerLine # restartLines)) =
       Inr \<lparr>All_Entries = [pathEntry ''chown-projects'', restartEntry], All_Digest = digest\<rparr> \<and>
     ParseAllowlist sha (separated (chownLines @ [registerLine]) restartLines) =
       Inr \<lparr>All_Entries = [pathEntry ''register-helper-allowlist'', restartEntry], All_Digest = digest\<rparr>"
proof -
  have l: "text_lines (separated ls ms) = ls @ [''----''] @ ms"
    if "\<forall>l \<in> set (ls @ [''----''] @ ms). newline \<notin> set l" for ls ms
    by (simp only: text_lines_def separated_def Split_lines [OF that]) (simp add: butlast_append)
  have p: "parseLines (''args: --path=*'' # ls) st = parseLines ls
      (st\<lparr>ps_current := (ps_current st)\<lparr>Ent_ArgPatterns := [''--path=*'']\<rparr>,
        ps_canonical := ps_canonical st @ ''args:--path=*'' @ [newline]\<rparr>)" for ls st
    using parse_args [of "[''--path=*'']" ls st] by (simp add: printable_def)
  have s: "parseLines (''args: --service=<service>'' # ls) st = parseLines ls
      (st\<lparr>ps_current := (ps_current st)\<lparr>Ent_ArgPatterns := [''--service=<service>'']\<rparr>,
        ps_canonical := ps_canonical st @ ''args:--service=<service>'' @ [newline]\<rparr>)" for ls st
    using parse_args [of "[''--service=<service>'']" ls st] by (simp add: printable_def)
  have known: "isKnownAction ''chown-projects''" "isKnownAction ''register-helper-allowlist''"
    "isKnownAction ''restart-service''" by (simp_all add: isKnownAction_def)
  have a: "parseLines (''action: chown-projects'' # ls) st = parseLines ls
      (st\<lparr>ps_current := (ps_current st)\<lparr>Ent_Action := ''chown-projects''\<rparr>,
        ps_canonical := ps_canonical st @ ''action:chown-projects'' @ [newline]\<rparr>)"
    "parseLines (''action: register-helper-allowlist'' # ls) st = parseLines ls
      (st\<lparr>ps_current := (ps_current st)\<lparr>Ent_Action := ''register-helper-allowlist''\<rparr>,
        ps_canonical := ps_canonical st @ ''action:register-helper-allowlist'' @ [newline]\<rparr>)"
    "parseLines (''action: restart-service'' # ls) st = parseLines ls
      (st\<lparr>ps_current := (ps_current st)\<lparr>Ent_Action := ''restart-service''\<rparr>,
        ps_canonical := ps_canonical st @ ''action:restart-service'' @ [newline]\<rparr>)" for ls st
    using known [THEN parse_action, of ls st] by simp_all
  have t: "text_lines (separated chownLines (registerLine # restartLines)) =
      [''action: chown-projects'', ''args: --path=*'', ''----'', ''action: register-helper-allowlist'',
       ''args: --service=<service>'', ''action: restart-service'']"
    "text_lines (separated (chownLines @ [registerLine]) restartLines) =
      [''action: chown-projects'', ''args: --path=*'', ''action: register-helper-allowlist'', ''----'',
       ''args: --service=<service>'', ''action: restart-service'']"
    by (subst l; simp add: chownLines_def registerLine_def restartLines_def newline_def)+
  show ?thesis
    by (simp add: ParseAllowlist_def t a p s parse_separator isKnownAction_def
        flush_def noEntry_def pathEntry_def restartEntry_def del: parseLines.simps(2))
qed

end
