(* ===== verification/PrivTokenProps.thy ===== *)
theory PrivTokenProps
  imports PrivToken
begin

text \<open>
  Facts on approval tokens: a minted token is accepted while it is fresh, an accepted token is not
  accepted again while the clock of the replay store has not passed its expiry, and it is accepted
  again when that clock passes the expiry between the check of the token and the prune of the store.
\<close>

abbreviation claimKey :: "TokenClaims \<Rightarrow> string" where
  "claimKey c \<equiv> consumeKey (Tk_ApprovalID c) (Tk_Nonce c)"

section \<open>Single use\<close>

record attempt =
  At_Token :: string
  At_Request :: TokenValidationRequest
  At_Now :: time
  At_Clock :: "string \<Rightarrow> time"

text \<open>The claims a sequence of attempts on one authority accepts, in order.\<close>

fun acceptedClaims ::
  "priv_codec \<Rightarrow> string \<Rightarrow> attempt list \<Rightarrow> MemoryTokenStore option \<Rightarrow> TokenClaims list" where
  "acceptedClaims k secret [] store = []"
| "acceptedClaims k secret (a # as) store =
     (case ValidateApprovalToken k secret (At_Now a) (At_Clock a) (At_Token a) (At_Request a) store of
        (Inl e, store') \<Rightarrow> acceptedClaims k secret as store'
      | (Inr c, store') \<Rightarrow> c # acceptedClaims k secret as store')"

definition spentUntil :: "string \<Rightarrow> time \<Rightarrow> MemoryTokenStore option \<Rightarrow> bool" where
  "spentUntil key e store \<longleftrightarrow> (case store of Some (TokenStore m) \<Rightarrow> map_of m key = Some e | _ \<Rightarrow> False)"

lemma prune_keeps:
  "map_of m key = Some e \<Longrightarrow> clk key \<le> e \<Longrightarrow> map_of (pruneConsumed clk m) key = Some e"
  by (induction m) (auto simp: pruneConsumed_def split: if_splits)

lemma prune_drops:
  "(\<And>e. (key, e) \<in> set m \<Longrightarrow> e < clk key) \<Longrightarrow> key \<notin> set (keys (pruneConsumed clk m))"
  by (auto simp: pruneConsumed_def)

lemma map_of_key: "map_of m key = Some e \<Longrightarrow> key \<in> fst ` set m"
  by (metis domI dom_map_of_conv_image_fst)

lemma Validate_spent:
  assumes "spentUntil key e store" "clk key \<le> e"
    "ValidateApprovalToken k secret aNow clk token req store = (r, store')"
  shows "spentUntil key e store' \<and> (\<forall>c. r = Inr c \<longrightarrow> claimKey c \<noteq> key)"
proof -
  from assms(1) obtain m where m: "store = Some (TokenStore m)" "map_of m key = Some e"
    by (auto simp: spentUntil_def split: option.splits MemoryTokenStore.splits)
  note p = prune_keeps [of m key e clk, OF m(2) assms(2)]
  note pk = map_of_key [OF p]
  show ?thesis
  proof (cases "checkToken k secret aNow token req")
    case (Inl x)
    with assms(1,3) show ?thesis by (auto simp: ValidateApprovalToken_def)
  next
    case (Inr c)
    show ?thesis
    proof (cases "claimKey c = key")
      case True
      with pk have "claimKey c \<in> fst ` set (pruneConsumed clk m)" by simp
      with assms(3) Inr m p show ?thesis by (simp add: ValidateApprovalToken_def Let_def spentUntil_def) auto
    next
      case False
      with assms(3) Inr m p show ?thesis
        by (auto simp: ValidateApprovalToken_def Let_def spentUntil_def split: if_splits)
    qed
  qed
qed

lemma spent_not_accepted:
  assumes "spentUntil key e store" "\<forall>a \<in> set as. At_Clock a key \<le> e"
  shows "\<forall>c \<in> set (acceptedClaims k secret as store). claimKey c \<noteq> key"
  using assms
proof (induction as arbitrary: store)
  case (Cons a as)
  obtain r store' where v: "ValidateApprovalToken k secret (At_Now a) (At_Clock a) (At_Token a) (At_Request a) store =
      (r, store')" by fastforce
  from Validate_spent [OF Cons.prems(1) _ v] Cons.prems(2)
  have s: "spentUntil key e store'" "\<forall>c. r = Inr c \<longrightarrow> claimKey c \<noteq> key" by auto
  from Cons.IH [OF s(1)] Cons.prems(2) s(2) v show ?case by (auto split: sum.splits)
qed simp

lemma accepted_spent:
  "ValidateApprovalToken k secret aNow clk token req store = (Inr c, store') \<Longrightarrow>
     spentUntil (claimKey c) (Tk_ExpiresAt c) store'"
  by (auto simp: Validate_Inr spentUntil_def)

text \<open>
  Once a token is accepted, no sequence of later attempts on the same authority accepts a token of the
  same approval and nonce, as long as the clock of the replay store does not pass its expiry.
\<close>

theorem approval_token_single_use:
  assumes "ValidateApprovalToken k secret aNow clk token req store = (Inr c, store')"
    and "\<forall>a \<in> set later. At_Clock a (claimKey c) \<le> Tk_ExpiresAt c"
  shows "\<forall>c' \<in> set (acceptedClaims k secret later store'). claimKey c' \<noteq> claimKey c"
  using spent_not_accepted [OF accepted_spent [OF assms(1)] assms(2)] .

section \<open>Across the expiry\<close>

text \<open>
  The token's expiry is compared with a time read before the replay store is asked; the store drops
  the keys whose expiry its own clock has passed. A second use whose check falls before the expiry and
  whose prune falls after it is accepted, whatever happened to the store before.
\<close>

theorem token_replayed_across_expiry:
  assumes "ValidateApprovalToken k secret aNow clk token req (Some (TokenStore m)) = (Inr c, store')"
    and "distinct (keys m)"
    and "Tv_Now req < t" "t < Tk_ExpiresAt c" "Tk_ExpiresAt c < clk' (claimKey c)"
    and "\<not> isZero (Tv_Now req)" "\<not> isZero t"
  shows "fst (ValidateApprovalToken k secret aNow clk' token (req\<lparr>Tv_Now := t\<rparr>) store') = Inr c"
proof -
  note v = assms(1) [unfolded Validate_Inr]
  from v have check: "checkToken k secret aNow token req = Inr c" by simp
  from check assms(4,7) have check': "checkToken k secret aNow token (req\<lparr>Tv_Now := t\<rparr>) = Inr c"
    by (auto simp: checkToken_def Let_def split: if_splits sum.splits)
  let ?p = "AList.update (claimKey c) (Tk_ExpiresAt c) (pruneConsumed clk m)"
  from v have s: "store' = Some (TokenStore ?p)" by auto
  have d: "distinct (keys (pruneConsumed clk m))"
    using assms(2) by (simp add: pruneConsumed_def distinct_map_filter)
  have "claimKey c \<notin> set (keys (pruneConsumed clk' ?p))"
    using assms(5) by (intro prune_drops) (simp add: in_set_update_distinct [OF d])
  with check' s show ?thesis by (simp add: ValidateApprovalToken_def Let_def)
qed

section \<open>Minted tokens\<close>

text \<open>
  A minted token is accepted by the authority of the same secret for its action and digest while it
  has not expired and its key is not in the replay store; the claims are the trimmed request.
\<close>

theorem minted_token_accepted:
  assumes "Mint k secret (Inr raw) mreq = Inr token"
    and "\<And>c b. pc_marshal k c = Inr b \<Longrightarrow> pc_unmarshal k b = Some c"
    and "raw \<noteq> []" "Tv_Action req = TrimSpace (Tr_Action mreq)"
    and "normalizeDigest (Tv_AllowlistDigest req) = normalizeDigest (normalizeDigest (Tr_AllowlistDigest mreq))"
    and "\<not> isZero (Tv_Now req)" "Tv_Now req < Tr_ExpiresAt mreq"
    and "claimKey (mintedClaims mreq (hexEncode raw)) \<notin> set (keys m)"
  shows "fst (ValidateApprovalToken k secret aNow clk token req (Some (TokenStore m))) =
    Inr (mintedClaims mreq (hexEncode raw))"
proof -
  let ?c = "mintedClaims mreq (hexEncode raw)"
  from assms(1) obtain p where p: "pc_marshal k ?c = Inr p"
    "token = b64Encode p @ CHR ''.'' # b64Encode (pc_hmac k secret (b64Encode p))" "16 \<le> length secret"
    "Tk_ApprovalID ?c \<noteq> []" "Tk_Action ?c \<noteq> []"
    by (auto simp: Mint_def randomNonce_def Let_def split: if_splits sum.splits)
  have "Cut token (CHR ''.'') = Some (b64Encode p, b64Encode (pc_hmac k secret (b64Encode p)))"
    unfolding p(2) by (rule Cut_sep) (rule b64_plain)
  moreover have "TrimSpace token \<noteq> []"
  proof -
    have "list_all printable b64Digits" by code_simp
    then have "\<forall>c \<in> set token. printable c" using b64_chars by (auto simp: p(2) list_all_iff printable_def)
    moreover have "token \<noteq> []" by (simp add: p(2))
    ultimately show ?thesis using TrimSpace_plain [of token] printable_plain by simp
  qed
  moreover have "hexEncode raw \<noteq> []" using assms(3) by (cases raw) (auto simp: hexEncode_def)
  ultimately have check: "checkToken k secret aNow token req = Inr ?c"
    using p assms(2,4-7) by (simp add: checkToken_def openToken_def Let_def) (simp add: mintedClaims_def)
  have "claimKey ?c \<notin> set (keys (pruneConsumed clk m))" using assms(8) by (auto simp: pruneConsumed_def)
  with check show ?thesis by (simp add: ValidateApprovalToken_def Let_def)
qed

end
