(* ===== verification/PrivEngineProps.thy ===== *)
theory PrivEngineProps
  imports PrivEngine PrivAllowlistProps PrivTokenProps
begin

text \<open>
  Facts on the engine and the setup helper: what must hold before a privileged command runs, which
  commands the default allowlist lets run, the audit event of every run, and that a helper process
  with a secret file forgets the tokens of the processes before it.
\<close>

section \<open>What a run does\<close>

text \<open>A run ends in one \<open>finish\<close>, after no command or one.\<close>

datatype 'v run_end = Refused priv_err HelperResult 'v
  | Executed AllowlistEntry HelperResult "ActionResult \<times> priv_err option" 'v system

definition runEnd :: "'v Engine \<Rightarrow> readings \<Rightarrow> Invocation \<Rightarrow> 'v engine_world \<Rightarrow> 'v run_end" where
  "runEnd e rd iv w =
     (case precheck iv of Inl err \<Rightarrow> Refused err (startResult rd iv) (ew_validator w)
      | Inr entry \<Rightarrow>
          (let p = (startResult rd iv)\<lparr>Hr_CommandPreview := CommandPreview entry (Inv_Args iv)\<rparr> in
           case authorize e rd iv p (ew_validator w) of
             (Inl err, v) \<Rightarrow> Refused err p v
           | (Inr a, v) \<Rightarrow> (case Eng_Executor e of None \<Rightarrow> Refused PrivInvalidInvocation a v
               | Some ex \<Rightarrow> (case ex (Hr_Action a) (Inv_Args iv) (ew_system w) of
                   (res, sys) \<Rightarrow> Executed entry a res v sys))))"

lemma Engine_Run_end:
  "Engine_Run e rd iv w =
     (case runEnd e rd iv w of
        Refused err r v \<Rightarrow> finish e rd r (Some err) ResultRejected (w\<lparr>ew_validator := v\<rparr>)
      | Executed entry r res v sys \<Rightarrow> finish e rd (r\<lparr>Hr_ExitCode := Ar_ExitCode (fst res)\<rparr>) (snd res)
          (if snd res = None then ResultSucceeded else ResultFailed) (w\<lparr>ew_validator := v, ew_system := sys\<rparr>))"
  by (simp add: Engine_Run_def runEnd_def Let_def split: sum.split prod.split option.split)

lemma finish_world:
  "ew_validator (snd (finish e rd r cause status w)) = ew_validator w"
  "ew_system (snd (finish e rd r cause status w)) = ew_system w"
  "snd (fst (finish e rd r cause status w)) = cause"
  "Hr_Status (fst (fst (finish e rd r cause status w))) = status"
  "Hr_Action (fst (fst (finish e rd r cause status w))) = Hr_Action r"
  by (simp_all add: finish_def Let_def split: option.split)

lemma startResult_fields [simp]:
  "Hr_Action (startResult rd iv) = TrimSpace (Inv_Action iv)"
  by (simp add: startResult_def)

lemma authorize_action: "authorize e rd iv r v = (Inr a, v') \<Longrightarrow> Hr_Action a = Hr_Action r"
  by (auto simp: authorize_def Let_def split: if_splits option.splits prod.splits sum.splits)

lemma precheck_Inr:
  assumes "precheck iv = Inr entry"
  shows "TrimSpace (Inv_Action iv) \<noteq> []" "Inv_Mode iv = ModeBootstrap \<or> Inv_Mode iv = ModeSteadyState"
    "Allowlist_Entry (Inv_Allowlist iv) (TrimSpace (Inv_Action iv)) = Some entry"
    "list_all2 argPatternMatches (Ent_ArgPatterns entry) (Inv_Args iv)"
    "ValidateChecksum (Inv_Allowlist iv) (Inv_ExpectedAllowlistDigest iv) = None"
  using assms by (auto simp: precheck_def Let_def ValidateArgs_def split: if_splits option.splits)

lemma Executed_parts:
  assumes "runEnd e rd iv w = Executed entry r res v sys"
  shows "precheck iv = Inr entry" "Hr_Action r = TrimSpace (Inv_Action iv)"
    "authorize e rd iv ((startResult rd iv)\<lparr>Hr_CommandPreview := CommandPreview entry (Inv_Args iv)\<rparr>)
       (ew_validator w) = (Inr r, v)"
    "\<exists>ex. Eng_Executor e = Some ex \<and> ex (TrimSpace (Inv_Action iv)) (Inv_Args iv) (ew_system w) = (res, sys)"
  using assms
  by (auto simp: runEnd_def Let_def dest: authorize_action split: sum.splits prod.splits option.splits)

lemma run_end_world:
  "Engine_Run e rd iv w = (res, w') \<Longrightarrow> runEnd e rd iv w = Refused err r v \<Longrightarrow>
     ew_system w' = ew_system w \<and> ew_validator w' = v \<and> snd res = Some err \<and> Hr_Status (fst res) = ResultRejected"
  "Engine_Run e rd iv w = (res, w') \<Longrightarrow> runEnd e rd iv w = Executed entry r out v sys \<Longrightarrow>
     ew_system w' = sys \<and> ew_validator w' = v \<and> snd res = snd out \<and>
     Hr_Status (fst res) = (if snd out = None then ResultSucceeded else ResultFailed)"
proof -
  assume r: "Engine_Run e rd iv w = (res, w')"
  then have f: "res = fst (Engine_Run e rd iv w)" "w' = snd (Engine_Run e rd iv w)" by simp_all
  show "runEnd e rd iv w = Refused err r v \<Longrightarrow>
     ew_system w' = ew_system w \<and> ew_validator w' = v \<and> snd res = Some err \<and> Hr_Status (fst res) = ResultRejected"
    unfolding f Engine_Run_end by (simp add: finish_world)
  show "runEnd e rd iv w = Executed entry r out v sys \<Longrightarrow>
     ew_system w' = sys \<and> ew_validator w' = v \<and> snd res = snd out \<and>
     Hr_Status (fst res) = (if snd out = None then ResultSucceeded else ResultFailed)"
    unfolding f Engine_Run_end by (simp add: finish_world)
qed

lemma CommandExecutor_cases:
  "CommandExecutor runner a args sys = (res, sys') \<Longrightarrow> sys' = sys \<or>
     (\<exists>argv. actionArgv a args = Inr argv \<and> sys' = sys @ [argv])"
  by (auto simp: CommandExecutor_def split: sum.splits)

text \<open>What a run with a validator of the contract has checked when it starts a command.\<close>

definition allowedBy :: "Invocation \<Rightarrow> AllowlistEntry \<Rightarrow> bool" where
  "allowedBy iv entry \<longleftrightarrow>
     Allowlist_Entry (Inv_Allowlist iv) (TrimSpace (Inv_Action iv)) = Some entry \<and>
     list_all2 argPatternMatches (Ent_ArgPatterns entry) (Inv_Args iv)"

lemma command_started:
  assumes "Engine_Run e rd iv w = (res, w')" "ew_system w' \<noteq> ew_system w"
    and "Eng_Executor e = Some (CommandExecutor runner)"
  obtains entry r out v sys argv where "runEnd e rd iv w = Executed entry r out v sys"
    "actionArgv (TrimSpace (Inv_Action iv)) (Inv_Args iv) = Inr argv"
    "ew_system w' = ew_system w @ [argv]" "ew_validator w' = v"
proof (cases "runEnd e rd iv w")
  case (Refused err r v)
  from run_end_world(1) [OF assms(1) this] assms(2) show ?thesis by simp
next
  case (Executed entry r out v sys)
  note w = run_end_world(2) [OF assms(1) Executed]
  from Executed_parts(4) [OF Executed] assms(3)
  have "CommandExecutor runner (TrimSpace (Inv_Action iv)) (Inv_Args iv) (ew_system w) = (out, sys)" by auto
  with w CommandExecutor_cases assms(2) Executed that show ?thesis by metis
qed

context token_validator
begin

lemma started_authorised:
  assumes "runEnd e rd iv w = Executed entry r out v sys" "Eng_TokenValidator e = Some validate"
    and "Inv_Mode iv \<noteq> ModeBootstrap"
  shows "\<exists>c. validate (Inv_ApprovalToken iv) \<lparr>Tv_Action = TrimSpace (Inv_Action iv),
      Tv_AllowlistDigest = All_Digest (Inv_Allowlist iv), Tv_Now = rd_validate rd\<rparr> (ew_validator w) = (Inr c, v) \<and>
    Tk_Action c = TrimSpace (Inv_Action iv) \<and> Tk_ApprovalID c \<noteq> [] \<and> Hr_ApprovalID r = Tk_ApprovalID c"
proof -
  note p = Executed_parts [OF assms(1)]
  from p(3) assms(2,3) obtain c where
    c: "validate (Inv_ApprovalToken iv) \<lparr>Tv_Action = TrimSpace (Inv_Action iv),
      Tv_AllowlistDigest = All_Digest (Inv_Allowlist iv), Tv_Now = rd_validate rd\<rparr> (ew_validator w) = (Inr c, v)"
    and r: "Hr_ApprovalID r = Tk_ApprovalID c"
    by (auto simp: authorize_def Let_def split: prod.splits sum.splits if_splits)
  from precheck_Inr(1) [OF p(1)] accepted_action [OF c] accepted_approval [OF c] c r show ?thesis by auto
qed

end

text \<open>
  C27. A command starts only for an action of the allowlist with arguments of its shape, and it is the
  action's command line, alone. In bootstrap mode the action is a bootstrap action; in the steady
  state the token is signed with the secret for this action and unexpired at the reading of the run's
  clock; the replay store held no entry for it that is unexpired by the store's own clock, and holds one
  afterwards. (An entry the store's clock has just expired does not stop the token, see
  \<open>token_replayed_across_expiry\<close>.)
\<close>

theorem privileged_command_authorised:
  assumes "Engine_Run \<lparr>Eng_TokenValidator = Some (ValidateApprovalToken k secret aNow clk),
      Eng_Executor = Some (CommandExecutor runner), Eng_Audit = sink\<rparr> rd iv w = (res, w')"
    and "ew_system w' \<noteq> ew_system w" and "\<not> isZero (rd_validate rd)"
  shows "\<exists>entry argv. ew_system w' = ew_system w @ [argv] \<and> allowedBy iv entry \<and>
    actionArgv (TrimSpace (Inv_Action iv)) (Inv_Args iv) = Inr argv \<and>
    (Inv_Mode iv = ModeBootstrap \<and> BootstrapActionAllowed (TrimSpace (Inv_Action iv)) \<or>
     Inv_Mode iv = ModeSteadyState \<and>
     (\<exists>c m. genuineToken k secret (Inv_ApprovalToken iv) c \<and> Tk_Action c = TrimSpace (Inv_Action iv) \<and>
        rd_validate rd < Tk_ExpiresAt c \<and> ew_validator w = Some (TokenStore m) \<and>
        claimKey c \<notin> set (keys (pruneConsumed clk m)) \<and>
        ew_validator w' = Some (TokenStore (AList.update (claimKey c) (Tk_ExpiresAt c) (pruneConsumed clk m)))))"
proof -
  let ?e = "\<lparr>Eng_TokenValidator = Some (ValidateApprovalToken k secret aNow clk),
      Eng_Executor = Some (CommandExecutor runner), Eng_Audit = sink\<rparr>"
  obtain entry r out v sys argv where x: "runEnd ?e rd iv w = Executed entry r out v sys"
    "actionArgv (TrimSpace (Inv_Action iv)) (Inv_Args iv) = Inr argv"
    "ew_system w' = ew_system w @ [argv]" "ew_validator w' = v"
    by (rule command_started [OF assms(1,2), of runner]) simp_all
  note p = Executed_parts [OF x(1)]
  from precheck_Inr(3,4) [OF p(1)] have a: "allowedBy iv entry" by (simp add: allowedBy_def)
  show ?thesis
  proof (cases "Inv_Mode iv = ModeBootstrap")
    case True
    with p(3) have "BootstrapActionAllowed (TrimSpace (Inv_Action iv))"
      by (simp add: authorize_def split: if_splits)
    with True x a show ?thesis by blast
  next
    case False
    with precheck_Inr(2) [OF p(1)] have m: "Inv_Mode iv = ModeSteadyState" by blast
    obtain c where c: "ValidateApprovalToken k secret aNow clk (Inv_ApprovalToken iv)
        \<lparr>Tv_Action = TrimSpace (Inv_Action iv), Tv_AllowlistDigest = All_Digest (Inv_Allowlist iv),
         Tv_Now = rd_validate rd\<rparr> (ew_validator w) = (Inr c, v)" "Tk_Action c = TrimSpace (Inv_Action iv)"
      using hmacv.started_authorised [where k = k and secret = secret and aNow = aNow and clk = clk,
          OF x(1) _ False] by auto
    from c(1) [unfolded Validate_Inr] have ck: "checkToken k secret aNow (Inv_ApprovalToken iv)
        \<lparr>Tv_Action = TrimSpace (Inv_Action iv), Tv_AllowlistDigest = All_Digest (Inv_Allowlist iv),
         Tv_Now = rd_validate rd\<rparr> = Inr c" by (rule conjunct1)
    from openToken_Inr(1) [OF checkToken_Inr(1) [OF ck]] checkToken_Inr(4) [OF ck] assms(3)
    have "genuineToken k secret (Inv_ApprovalToken iv) c" "rd_validate rd < Tk_ExpiresAt c" by simp_all
    with c x a m show ?thesis unfolding Validate_Inr by blast
  qed
qed

section \<open>The default allowlist\<close>

definition unitFile :: string where
  "unitFile = ''/etc/systemd/system/hoopoe.service''"

text \<open>The command lines an operator of the default allowlist expects as root.\<close>

inductive_set expectedCommands :: "string list set" where
  create_user: "UserAddArgv DefaultDaemonUserSpec \<in> expectedCommands"
| install_unit: "s \<noteq> [] \<Longrightarrow> [''install'', ''-m'', ''0644'', s, unitFile] \<in> expectedCommands"
| disable_unit: "[''systemctl'', ''disable'', ''--now'', ''hoopoe.service''] \<in> expectedCommands"
| chown_projects: "HasPrefix p ''/'' \<Longrightarrow> take 2 (walk p) = [''data'', ''projects''] \<Longrightarrow>
    [''chown'', ''-R'', ''hoopoe:hoopoe'', p] \<in> expectedCommands"
| doctor: "[''acfs'', ''doctor''] \<in> expectedCommands"
| doctor_fix: "[''acfs'', ''doctor'', ''--auto-fix''] \<in> expectedCommands"
| restart: "validServiceName s \<Longrightarrow> [''systemctl'', ''restart'', s] \<in> expectedCommands"
| install_allowlist: "p \<noteq> [] \<Longrightarrow>
    [''install'', ''-m'', ''0644'', p, ''/etc/hoopoe/setup-helper.allowed''] \<in> expectedCommands"
| bind_port: "[''true''] \<in> expectedCommands"

lemma cut_case:
  "(case CutPrefix v p of None \<Rightarrow> False | Some x \<Rightarrow> Q x) \<longleftrightarrow> (\<exists>x. Q x \<and> v = p @ x)"
  by (auto simp: CutPrefix_iff split: option.split) (auto simp: CutPrefix_def HasPrefix_iff)

lemma star_case: "HasPrefix v p \<and> length p < length v \<longleftrightarrow> (\<exists>x. x \<noteq> [] \<and> v = p @ x)"
  by (auto simp: HasPrefix_iff)

lemma shapes:
  "argPatternMatches ''--unit-path=/etc/systemd/system/hoopoe.service'' v \<longleftrightarrow>
     v = ''--unit-path=/etc/systemd/system/hoopoe.service''"
  "argPatternMatches ''--doctor=true'' v \<longleftrightarrow> v = ''--doctor=true''"
  "argPatternMatches ''--path=<project-path>'' v \<longleftrightarrow> (\<exists>p. validProjectPath p \<and> v = ''--path='' @ p)"
  "argPatternMatches ''--auto-fix=<bool>'' v \<longleftrightarrow>
     (\<exists>b. (b = ''true'' \<or> b = ''false'') \<and> v = ''--auto-fix='' @ b)"
  "argPatternMatches ''--service=<service>'' v \<longleftrightarrow> (\<exists>s. validServiceName s \<and> v = ''--service='' @ s)"
  unfolding cut_case [symmetric]
  by (simp_all add: argPatternMatches_def TrimSuffix_def HasSuffix_def)

lemma star_shapes:
  "argPatternMatches ''--source=*'' v \<longleftrightarrow> (\<exists>s. s \<noteq> [] \<and> v = ''--source='' @ s)"
  "argPatternMatches ''--path=*'' v \<longleftrightarrow> (\<exists>p. p \<noteq> [] \<and> v = ''--path='' @ p)"
  unfolding star_case [symmetric]
  by (simp_all add: argPatternMatches_def TrimSuffix_def HasSuffix_def)

lemma list_all2_one: "list_all2 P [a] xs \<longleftrightarrow> (\<exists>x. xs = [x] \<and> P a x)"
  "list_all2 P [a, b] xs \<longleftrightarrow> (\<exists>x y. xs = [x, y] \<and> P a x \<and> P b y)"
  by (auto simp: list_all2_Cons1)

lemma unit_literal: "''--unit-path=/etc/systemd/system/hoopoe.service'' = ''--unit-path='' @ unitFile"
  by (simp add: unitFile_def)

lemma unit_shape:
  "argPatternMatches ''--unit-path=/etc/systemd/system/hoopoe.service'' v \<longleftrightarrow> v = ''--unit-path='' @ unitFile"
  unfolding unit_literal [symmetric] by (rule shapes)

lemma Base_unit: "Base unitFile = ''hoopoe.service''"
  by code_simp

lemma action_lines:
  "actionArgv ''create-hoopoe-user'' as = Inr (UserAddArgv DefaultDaemonUserSpec)"
  "actionArgv ''install-systemd-unit'' [''--unit-path='' @ u, ''--source='' @ s] =
     Inr [''install'', ''-m'', ''0644'', s, u]"
  "actionArgv ''uninstall-systemd-unit'' [''--unit-path='' @ u] = Inr [''systemctl'', ''disable'', ''--now'', Base u]"
  "actionArgv ''chown-projects'' [''--path='' @ p] = Inr [''chown'', ''-R'', ''hoopoe:hoopoe'', p]"
  "actionArgv ''chown-acfs-paths'' [''--path='' @ p] = Inr [''chown'', ''-R'', ''hoopoe:hoopoe'', p]"
  "actionArgv ''repair-acfs'' [''--doctor=true'', ''--auto-fix='' @ b] =
     Inr (if b = ''true'' then [''acfs'', ''doctor'', ''--auto-fix''] else [''acfs'', ''doctor''])"
  "actionArgv ''restart-service'' [''--service='' @ s] = Inr [''systemctl'', ''restart'', s]"
  "actionArgv ''register-helper-allowlist'' [''--path='' @ p] =
     Inr [''install'', ''-m'', ''0644'', p, ''/etc/hoopoe/setup-helper.allowed'']"
  "actionArgv ''bind-privileged-port'' as = Inr [''true'']"
  by (simp_all add: actionArgv_def CutPrefix_def HasPrefix_def DaemonUser_def DaemonGroup_def
      DefaultAllowlistPath_def)
text \<open>An action is confined to the expected commands by the shapes of its arguments.\<close>

definition confined :: "string \<Rightarrow> string list \<Rightarrow> bool" where
  "confined a ps \<longleftrightarrow> (\<forall>as argv. list_all2 argPatternMatches ps as \<longrightarrow> actionArgv a as = Inr argv \<longrightarrow>
     argv \<in> expectedCommands)"

lemma confinedI:
  "(\<And>as argv. list_all2 argPatternMatches ps as \<Longrightarrow> actionArgv a as = Inr argv \<Longrightarrow> argv \<in> expectedCommands) \<Longrightarrow>
     confined a ps"
  by (simp add: confined_def)

lemma confined_unit:
  "confined ''install-systemd-unit'' [''--unit-path=/etc/systemd/system/hoopoe.service'', ''--source=*'']"
proof (rule confinedI)
  fix as argv
  assume "list_all2 argPatternMatches [''--unit-path=/etc/systemd/system/hoopoe.service'', ''--source=*''] as"
    and r: "actionArgv ''install-systemd-unit'' as = Inr argv"
  then obtain s where s: "s \<noteq> []" "as = [''--unit-path='' @ unitFile, ''--source='' @ s]"
    unfolding list_all2_one unit_shape star_shapes by iprover
  from r show "argv \<in> expectedCommands"
    unfolding s(2) action_lines sum.inject by (elim subst) (rule install_unit [OF s(1)])
qed

lemma confined_disable:
  "confined ''uninstall-systemd-unit'' [''--unit-path=/etc/systemd/system/hoopoe.service'']"
proof (rule confinedI)
  fix as argv
  assume "list_all2 argPatternMatches [''--unit-path=/etc/systemd/system/hoopoe.service''] as"
    and r: "actionArgv ''uninstall-systemd-unit'' as = Inr argv"
  then have s: "as = [''--unit-path='' @ unitFile]" unfolding list_all2_one unit_shape by iprover
  from r show "argv \<in> expectedCommands"
    unfolding s action_lines sum.inject Base_unit by (elim subst) (rule disable_unit)
qed

lemma confined_chown:
  assumes "\<And>p. actionArgv a [''--path='' @ p] = Inr [''chown'', ''-R'', ''hoopoe:hoopoe'', p]"
  shows "confined a [''--path=<project-path>'']"
proof (rule confinedI)
  fix as argv
  assume "list_all2 argPatternMatches [''--path=<project-path>''] as" and r: "actionArgv a as = Inr argv"
  then obtain p where p: "validProjectPath p" "as = [''--path='' @ p]"
    unfolding list_all2_one shapes by iprover
  from r show "argv \<in> expectedCommands"
    unfolding p(2) assms sum.inject
    by (elim subst) (use p(1) in \<open>simp add: project_path_resolves chown_projects\<close>)
qed

lemma confined_doctor: "confined ''repair-acfs'' [''--doctor=true'', ''--auto-fix=<bool>'']"
proof (rule confinedI)
  fix as argv
  assume "list_all2 argPatternMatches [''--doctor=true'', ''--auto-fix=<bool>''] as"
    and r: "actionArgv ''repair-acfs'' as = Inr argv"
  then obtain b where b: "as = [''--doctor=true'', ''--auto-fix='' @ b]"
    unfolding list_all2_one shapes by iprover
  from r show "argv \<in> expectedCommands"
    unfolding b action_lines sum.inject by (elim subst) (simp add: doctor doctor_fix)
qed

lemma confined_restart: "confined ''restart-service'' [''--service=<service>'']"
proof (rule confinedI)
  fix as argv
  assume "list_all2 argPatternMatches [''--service=<service>''] as"
    and r: "actionArgv ''restart-service'' as = Inr argv"
  then obtain s where s: "validServiceName s" "as = [''--service='' @ s]"
    unfolding list_all2_one shapes by iprover
  from r show "argv \<in> expectedCommands"
    unfolding s(2) action_lines sum.inject by (elim subst) (rule restart [OF s(1)])
qed

lemma confined_register: "confined ''register-helper-allowlist'' [''--path=*'']"
proof (rule confinedI)
  fix as argv
  assume "list_all2 argPatternMatches [''--path=*''] as"
    and r: "actionArgv ''register-helper-allowlist'' as = Inr argv"
  then obtain p where p: "p \<noteq> []" "as = [''--path='' @ p]" unfolding list_all2_one star_shapes by iprover
  from r show "argv \<in> expectedCommands"
    unfolding p(2) action_lines sum.inject by (elim subst) (rule install_allowlist [OF p(1)])
qed

lemma confined_fixed: "confined ''bind-privileged-port'' ps" "confined ''create-hoopoe-user'' ps"
  unfolding confined_def action_lines sum.inject using bind_port create_user by blast+

lemma default_confined: "list_all (\<lambda>e. confined (Ent_Action e) (Ent_ArgPatterns e)) defaultEntries"
  unfolding defaultEntries_def list.map prod.case list.pred_inject AllowlistEntry.select_convs
  by (intro conjI TrueI confined_unit confined_disable confined_doctor confined_restart confined_register
      confined_fixed confined_chown action_lines, simp)

lemma default_commands:
  assumes "allowedBy iv entry" "All_Entries (Inv_Allowlist iv) = defaultEntries"
    and "actionArgv (TrimSpace (Inv_Action iv)) (Inv_Args iv) = Inr argv"
  shows "argv \<in> expectedCommands"
proof -
  from assms(1,2) have "entry \<in> set defaultEntries" "Ent_Action entry = TrimSpace (Inv_Action iv)"
    "list_all2 argPatternMatches (Ent_ArgPatterns entry) (Inv_Args iv)"
    by (auto simp: allowedBy_def Allowlist_Entry_def find_Some_iff)
  with assms(3) default_confined show ?thesis by (auto simp: list_all_iff confined_def)
qed

section \<open>The helper\<close>

text \<open>The engine, the invocation and the world of a helper process.\<close>

definition helperEngine :: "'d helper_env \<Rightarrow> helper_flags \<Rightarrow> (MemoryTokenStore option \<times> 'd) Engine" where
  "helperEngine env fl = \<lparr>Eng_TokenValidator = tokenValidator env (Fl_daemonSocket fl) (Fl_approvalSecretFile fl),
     Eng_Executor = Some (if Fl_dryRun fl then dryRunExecutor else CommandExecutor (He_runner env)),
     Eng_Audit = Some (FileAuditSink None (Fl_auditLog fl) (He_fault env))\<rparr>"

definition helperInvocation :: "Mode \<Rightarrow> helper_flags \<Rightarrow> Allowlist \<Rightarrow> Invocation" where
  "helperInvocation mode fl allowlist = \<lparr>Inv_Mode = mode, Inv_Action = Fl_action fl, Inv_Args = Fl_args fl,
     Inv_Actor = [], Inv_ApprovalToken = Fl_approvalToken fl, Inv_Allowlist = allowlist,
     Inv_ExpectedAllowlistDigest = Fl_expectedDigest fl\<rparr>"

definition helperWorld :: "'d \<Rightarrow> system \<Rightarrow> HelperAuditEvent list \<Rightarrow> (MemoryTokenStore option \<times> 'd) engine_world" where
  "helperWorld d sys log = \<lparr>ew_validator = (Some NewMemoryTokenStore, d), ew_system = sys, ew_audit = log\<rparr>"

lemma runHelper_Inr:
  "runHelper env mode fl d sys log = (Inr res, d', sys', log') \<longleftrightarrow>
     (\<exists>allowlist w. LoadAllowlist (He_sha256 env) (He_readFile env) (Fl_allowlist fl) = Inr allowlist \<and>
        Engine_Run (helperEngine env fl) (He_readings env) (helperInvocation mode fl allowlist)
          (helperWorld d sys log) = (res, w) \<and>
        d' = snd (ew_validator w) \<and> sys' = ew_system w \<and> log' = ew_audit w)"
  by (auto simp: runHelper_def helperEngine_def helperInvocation_def helperWorld_def split: sum.splits prod.splits)

lemma runHelper_Inl:
  "runHelper env mode fl d sys log = (Inl e, d', sys', log') \<Longrightarrow> d' = d \<and> sys' = sys \<and> log' = log"
  by (auto simp: runHelper_def split: sum.splits prod.splits)

lemma dry_run_keeps:
  assumes "Engine_Run e rd iv w = (res, w')" "Eng_Executor e = Some dryRunExecutor"
  shows "ew_system w' = ew_system w"
proof (cases "runEnd e rd iv w")
  case (Refused err r v)
  from run_end_world(1) [OF assms(1) this] show ?thesis by blast
next
  case (Executed entry r out v sys)
  from Executed_parts(4) [OF Executed] assms(2) have "sys = ew_system w"
    by (auto simp: dryRunExecutor_def)
  with run_end_world(2) [OF assms(1) Executed] show ?thesis by simp
qed

text \<open>
  C28. When the file the allowlist flag names holds the default allowlist, then whatever the other flags, the
  token, the files and the clock, a helper process starts no command or exactly one of the expected
  ones. (With an allowlist of its own a caller runs what it likes, see \<open>helper_trusts_caller_files\<close>.)
\<close>

theorem helper_runs_expected_commands:
  assumes "He_readFile env (Clean (TrimSpace (Fl_allowlist fl))) = Inr DefaultAllowlistText"
    and "runHelper env mode fl d sys log = (res, d', sys', log')"
  shows "sys' = sys \<or> (\<exists>argv. argv \<in> expectedCommands \<and> sys' = sys @ [argv])"
proof (cases res)
  case (Inl e)
  with assms(2) runHelper_Inl show ?thesis by metis
next
  case (Inr r)
  from assms(2) [unfolded Inr runHelper_Inr] obtain a w where
    a: "LoadAllowlist (He_sha256 env) (He_readFile env) (Fl_allowlist fl) = Inr a"
    and w: "Engine_Run (helperEngine env fl) (He_readings env) (helperInvocation mode fl a)
      (helperWorld d sys log) = (r, w)" "sys' = ew_system w"
    by blast
  have wd: "ew_system (helperWorld d sys log) = sys" by (simp add: helperWorld_def)
  from a assms(1) have d: "All_Entries (Inv_Allowlist (helperInvocation mode fl a)) = defaultEntries"
    by (auto simp: LoadAllowlist_def default_parses helperInvocation_def split: if_splits)
  show ?thesis
  proof (cases "ew_system w = sys \<or> Fl_dryRun fl")
    case True
    with w dry_run_keeps [OF w(1)] wd show ?thesis by (auto simp: helperEngine_def)
  next
    case False
    with wd have ne: "ew_system w \<noteq> ew_system (helperWorld d sys log)" by simp
    from False have ex: "Eng_Executor (helperEngine env fl) = Some (CommandExecutor (He_runner env))"
      by (simp add: helperEngine_def)
    obtain entry rr out v sy argv where x:
      "runEnd (helperEngine env fl) (He_readings env) (helperInvocation mode fl a) (helperWorld d sys log) =
        Executed entry rr out v sy"
      "actionArgv (TrimSpace (Inv_Action (helperInvocation mode fl a))) (Inv_Args (helperInvocation mode fl a)) = Inr argv"
      "ew_system w = ew_system (helperWorld d sys log) @ [argv]"
      by (rule command_started [OF w(1) ne ex])
    from precheck_Inr(3,4) [OF Executed_parts(1) [OF x(1)]] have "allowedBy (helperInvocation mode fl a) entry"
      by (simp add: allowedBy_def)
    from default_commands [OF this d x(2)] x(3) w(2) wd show ?thesis by auto
  qed
qed

section \<open>The audit trail and the replay of tokens\<close>

lemma finish_file:
  assumes "Eng_Audit e = Some (FileAuditSink None path None)" "TrimSpace path \<noteq> []" "Hr_Error r = None"
    and "finish e rd r cause status w = ((r', err), w')"
  shows "ew_audit w' = ew_audit w @ [auditEvent r' (Hr_Status r')] \<and> Hr_Error r' = err \<and>
    (err \<noteq> None \<longrightarrow> Hr_ExitCode r' \<noteq> 0)"
  using assms by (cases "Hr_ExitCode r = 0") (auto simp: finish_def FileAuditSink_def Let_def split: option.splits)

lemma authorize_error:
  "authorize e rd iv r v = (Inr a, v') \<Longrightarrow> Hr_Error r = None \<Longrightarrow> Hr_Error a = None"
  by (auto simp: authorize_def Let_def split: if_splits option.splits prod.splits sum.splits)

lemma runEnd_error:
  "runEnd e rd iv w = Refused err r v \<Longrightarrow> Hr_Error r = None"
  "runEnd e rd iv w = Executed entry r out v sys \<Longrightarrow> Hr_Error r = None"
  by (auto simp: runEnd_def Let_def startResult_def dest: authorize_error
      split: sum.splits prod.splits option.splits)

text \<open>
  With an audit path and no fault of its file, every run of the helper past the loading of the
  allowlist, refused or not, leaves one event with the result, the actor, the approval, the error and
  the exit code it reports; a refused run has started nothing, and a run that reports an error has an
  exit code other than zero.
\<close>

theorem helper_run_audited:
  assumes "runHelper env mode fl d sys log = (Inr (r, err), d', sys', log')"
    and "TrimSpace (Fl_auditLog fl) \<noteq> []" "He_fault env = None"
  shows "log' = log @ [auditEvent r (Hr_Status r)] \<and> Hr_Error r = err \<and>
    (Hr_Status r = ResultSucceeded \<longleftrightarrow> err = None) \<and> (Hr_Status r = ResultRejected \<longrightarrow> sys' = sys) \<and>
    (err \<noteq> None \<longrightarrow> Hr_ExitCode r \<noteq> 0)"
proof -
  from assms(1) [unfolded runHelper_Inr] obtain iv w where
    w: "Engine_Run (helperEngine env fl) (He_readings env) iv (helperWorld d sys log) = ((r, err), w)"
      "sys' = ew_system w" "log' = ew_audit w"
    by blast
  have a: "Eng_Audit (helperEngine env fl) = Some (FileAuditSink None (Fl_auditLog fl) None)"
    by (simp add: helperEngine_def assms(3))
  have wd: "ew_system (helperWorld d sys log) = sys" "ew_audit (helperWorld d sys log) = log"
    by (simp_all add: helperWorld_def)
  show ?thesis
  proof (cases "runEnd (helperEngine env fl) (He_readings env) iv (helperWorld d sys log)")
    case (Refused x r0 v)
    with finish_file [OF a assms(2) runEnd_error(1) [OF Refused] w(1) [unfolded Engine_Run_end Refused run_end.case]]
      run_end_world(1) [OF w(1) Refused] w(2,3) wd show ?thesis by simp
  next
    case (Executed entry r0 out v s)
    have "Hr_Error (r0\<lparr>Hr_ExitCode := Ar_ExitCode (fst out)\<rparr>) = None" using runEnd_error(2) [OF Executed] by simp
    from finish_file [OF a assms(2) this w(1) [unfolded Engine_Run_end Executed run_end.case]]
      run_end_world(2) [OF w(1) Executed] w(2,3) wd show ?thesis by auto
  qed
qed

lemma validator_alone:
  assumes "TrimSpace (Fl_daemonSocket fl) = []"
    and "Eng_TokenValidator (helperEngine env fl) = Some validate"
  shows "snd (snd (validate token req (s, d))) = d"
  using assms by (auto simp: helperEngine_def tokenValidator_def split: if_splits sum.splits prod.splits)

lemma runEnd_again:
  assumes "runEnd e rd iv w = Executed entry r out v (ew_system w @ [argv])"
    and "Eng_Executor e = Some (CommandExecutor runner)" "ew_validator w' = ew_validator w"
  shows "runEnd e rd iv w' = Executed entry r out v (ew_system w' @ [argv])"
proof -
  note p = Executed_parts [OF assms(1)]
  from p(4) assms(2) have "CommandExecutor runner (TrimSpace (Inv_Action iv)) (Inv_Args iv) (ew_system w) =
    (out, ew_system w @ [argv])" by simp
  then have "CommandExecutor runner (TrimSpace (Inv_Action iv)) (Inv_Args iv) (ew_system w') =
    (out, ew_system w' @ [argv])" by (auto simp: CommandExecutor_def split: sum.splits)
  with p(1-3) assms(2,3) show ?thesis by (simp add: runEnd_def Let_def)
qed

text \<open>
  Without a daemon socket a helper process keeps its replay store to itself: when a process has run a
  command on a token, the next process given the same flags at the same clock reading runs it again.
\<close>

theorem helper_process_forgets_tokens:
  assumes "runHelper env mode fl d sys log = (res, d', sys @ [argv], log')"
    and "TrimSpace (Fl_daemonSocket fl) = []"
  shows "\<exists>log''. runHelper env mode fl d' (sys @ [argv]) log' = (res, d', sys @ [argv, argv], log'')"
proof -
  obtain r where r: "res = Inr r" using runHelper_Inl [of env mode fl d sys log] assms(1) by (cases res) auto
  from assms(1) [unfolded r runHelper_Inr] obtain a w where
    a: "LoadAllowlist (He_sha256 env) (He_readFile env) (Fl_allowlist fl) = Inr a"
    and w: "Engine_Run (helperEngine env fl) (He_readings env) (helperInvocation mode fl a)
      (helperWorld d sys log) = (r, w)" "d' = snd (ew_validator w)" "sys @ [argv] = ew_system w" by blast
  let ?e = "helperEngine env fl" and ?rd = "He_readings env" and ?iv = "helperInvocation mode fl a"
  have wd: "ew_system (helperWorld d s l) = s" "ew_validator (helperWorld d s l) = (Some NewMemoryTokenStore, d)" for s l
    by (simp_all add: helperWorld_def)
  have ne: "ew_system w \<noteq> ew_system (helperWorld d sys log)" unfolding w(3) [symmetric] wd by simp
  with dry_run_keeps [OF w(1)] have "\<not> Fl_dryRun fl" by (auto simp: helperEngine_def)
  then have ex: "Eng_Executor ?e = Some (CommandExecutor (He_runner env))" by (simp add: helperEngine_def)
  obtain entry rr out v sy where x: "runEnd ?e ?rd ?iv (helperWorld d sys log) = Executed entry rr out v sy"
    by (rule command_started [OF w(1) ne ex]) blast
  from run_end_world(2) [OF w(1) x] w(3) have sy: "sy = sys @ [argv]" and v: "ew_validator w = v" by simp_all
  have "snd v = d"
    using Executed_parts(3) [OF x] validator_alone [OF assms(2), of env]
    by (auto simp: authorize_def Let_def wd split: if_splits option.splits prod.splits sum.splits)
      (metis snd_conv)+
  with w(2) v have d: "d' = d" by simp
  have "runEnd ?e ?rd ?iv (helperWorld d sys log) =
      Executed entry rr out v (ew_system (helperWorld d sys log) @ [argv])" using x sy by (simp add: wd)
  from runEnd_again [OF this ex, of "helperWorld d (sys @ [argv]) log'"]
  have x2: "runEnd ?e ?rd ?iv (helperWorld d (sys @ [argv]) log') = Executed entry rr out v (sys @ [argv, argv])"
    by (simp add: wd)
  obtain r2 w2 where w2: "Engine_Run ?e ?rd ?iv (helperWorld d (sys @ [argv]) log') = (r2, w2)" by fastforce
  have "r2 = r"
    using w(1) w2 unfolding Engine_Run_end x x2 run_end.case by (auto simp: finish_def Let_def)
  with run_end_world(2) [OF w2 x2] have "ew_system w2 = sys @ [argv, argv]" "snd (ew_validator w2) = d"
    using \<open>snd v = d\<close> by simp_all
  with a w2 \<open>r2 = r\<close> show ?thesis unfolding r d runHelper_Inr by metis
qed

section \<open>The files the caller names\<close>

text \<open>
  The allowlist and the secret file are flags of the helper, and the sudo rule fixes only the first
  flag. An allowlist of one entry that leaves both paths of the unit action open:
\<close>

definition openEntry :: AllowlistEntry where
  "openEntry = \<lparr>Ent_Action = ''install-systemd-unit'', Ent_ArgPatterns = [''--unit-path=*'', ''--source=*''],
     Ent_AuditRequired = True\<rparr>"

definition openDigest :: "(string \<Rightarrow> string) \<Rightarrow> string" where
  "openDigest sha = ''sha256:'' @ hexEncode (sha (canonicalEntry openEntry))"

lemma open_parses:
  "ParseAllowlist sha (printAllowlist [openEntry]) = Inr \<lparr>All_Entries = [openEntry], All_Digest = openDigest sha\<rparr>"
proof -
  have "list_all writableEntry [openEntry]" by code_simp
  from parse_print [OF _ this] show ?thesis by (simp add: openDigest_def)
qed

lemma open_shape:
  "argPatternMatches ''--unit-path=*'' v \<longleftrightarrow> (\<exists>s. s \<noteq> [] \<and> v = ''--unit-path='' @ s)"
  unfolding star_case [symmetric]
  by (simp_all add: argPatternMatches_def TrimSuffix_def HasSuffix_def)

definition openInvocation :: "string \<Rightarrow> string \<Rightarrow> string \<Rightarrow> (string \<Rightarrow> string) \<Rightarrow> Invocation" where
  "openInvocation source target token sha = \<lparr>Inv_Mode = ModeSteadyState, Inv_Action = ''install-systemd-unit'',
     Inv_Args = [''--unit-path='' @ target, ''--source='' @ source], Inv_Actor = [], Inv_ApprovalToken = token,
     Inv_Allowlist = \<lparr>All_Entries = [openEntry], All_Digest = openDigest sha\<rparr>,
     Inv_ExpectedAllowlistDigest = []\<rparr>"

lemma trimmed_unit: "TrimSpace ''install-systemd-unit'' = ''install-systemd-unit''"
  by code_simp

lemma open_precheck:
  "source \<noteq> [] \<Longrightarrow> target \<noteq> [] \<Longrightarrow> precheck (openInvocation source target token sha) = Inr openEntry"
proof -
  assume st: "source \<noteq> []" "target \<noteq> []"
  have "ValidateChecksum a [] = None" for a
  proof -
    have "normalizeDigest [] = []" by code_simp
    then show ?thesis by (simp add: ValidateChecksum_def)
  qed
  moreover have "ValidateArgs openEntry [''--unit-path='' @ target, ''--source='' @ source] = None"
  proof -
    have "list_all2 argPatternMatches [''--unit-path=*'', ''--source=*''] [''--unit-path='' @ target, ''--source='' @ source]"
      unfolding list_all2_one open_shape star_shapes using st by iprover
    then show ?thesis by (simp add: ValidateArgs_def openEntry_def del: list_all2_Cons)
  qed
  moreover have "Allowlist_Entry \<lparr>All_Entries = [openEntry], All_Digest = openDigest sha\<rparr> ''install-systemd-unit'' =
    Some openEntry" by (simp add: Allowlist_Entry_def openEntry_def)
  ultimately show ?thesis by (simp add: precheck_def openInvocation_def trimmed_unit Let_def del: append.simps)
qed

text \<open>
  Whoever can start the helper and read-write two files runs \<open>install\<close> with any source and any target:
  the allowlist is the one file, the secret the other, and the token is minted with that secret.
\<close>

theorem helper_trusts_caller_files:
  assumes "He_readFile env (Clean (TrimSpace (Fl_allowlist fl))) = Inr (printAllowlist [openEntry])"
    and "TrimSpace (Fl_allowlist fl) \<noteq> []"
    and "TrimSpace (Fl_daemonSocket fl) = []" "TrimSpace (Fl_approvalSecretFile fl) \<noteq> []"
    and "He_readFile env (Fl_approvalSecretFile fl) = Inr secret" "TrimSpace secret = secret"
    and "Mint (He_codec env) secret (Inr raw) \<lparr>Tr_ApprovalID = ''x'', Tr_Actor = ''x'',
      Tr_Action = ''install-systemd-unit'', Tr_ExpiresAt = expiry,
      Tr_AllowlistDigest = openDigest (He_sha256 env)\<rparr> = Inr (Fl_approvalToken fl)"
    and "\<And>c b. pc_marshal (He_codec env) c = Inr b \<Longrightarrow> pc_unmarshal (He_codec env) b = Some c"
    and "raw \<noteq> []" "rd_validate (He_readings env) < expiry" "\<not> isZero (rd_validate (He_readings env))"
    and "Fl_action fl = ''install-systemd-unit''" "Fl_expectedDigest fl = []" "\<not> Fl_dryRun fl"
    and "Fl_args fl = [''--unit-path='' @ target, ''--source='' @ source]" "source \<noteq> []" "target \<noteq> []"
  shows "\<exists>res log'. runHelper env ModeSteadyState fl d sys log =
    (res, d, sys @ [[''install'', ''-m'', ''0644'', source, target]], log')"
proof -
  let ?e = "helperEngine env fl" and ?rd = "He_readings env" and ?sha = "He_sha256 env"
  let ?allow = "\<lparr>All_Entries = [openEntry], All_Digest = openDigest ?sha\<rparr>"
  let ?iv = "openInvocation source target (Fl_approvalToken fl) ?sha"
  let ?w = "helperWorld d sys log"
  let ?req = "\<lparr>Tv_Action = ''install-systemd-unit'', Tv_AllowlistDigest = openDigest ?sha, Tv_Now = rd_validate ?rd\<rparr>"
  let ?argv = "[''install'', ''-m'', ''0644'', source, target]"
  have load: "LoadAllowlist ?sha (He_readFile env) (Fl_allowlist fl) = Inr ?allow"
    by (simp add: LoadAllowlist_def assms(1,2) open_parses)
  have iv: "helperInvocation ModeSteadyState fl ?allow = ?iv"
    by (simp add: helperInvocation_def openInvocation_def assms del: append.simps)
  obtain c where "fst (ValidateApprovalToken (He_codec env) secret (rd_validate ?rd) (He_clock env)
      (Fl_approvalToken fl) ?req (Some (TokenStore []))) = Inr c"
    using minted_token_accepted [OF assms(7,8,9), of ?req "[]" "rd_validate ?rd" "He_clock env"] assms(10,11)
    by (simp add: trimmed_unit openDigest_def normal_digest del: append.simps)
  then obtain s' where v: "ValidateApprovalToken (He_codec env) secret (rd_validate ?rd) (He_clock env)
      (Fl_approvalToken fl) ?req (Some (TokenStore [])) = (Inr c, s')" by (metis prod.collapse)
  have val: "Eng_TokenValidator ?e = Some (\<lambda>token req (s, d).
      case ValidateApprovalToken (He_codec env) secret (rd_validate ?rd) (He_clock env) token req s of (r, s') \<Rightarrow> (r, s', d))"
    by (simp add: helperEngine_def tokenValidator_def assms(3-6))
  have auth: "\<exists>a. authorize ?e ?rd ?iv r (Some NewMemoryTokenStore, d) = (Inr a, (s', d)) \<and> Hr_Action a = Hr_Action r"
    if "Hr_Action r = ''install-systemd-unit''" for r
    using v that by (simp add: authorize_def val openInvocation_def NewMemoryTokenStore_def Let_def)
  have act: "Hr_Action (startResult ?rd ?iv) = ''install-systemd-unit''"
    by (simp add: openInvocation_def trimmed_unit)
  obtain a where a: "authorize ?e ?rd ?iv ((startResult ?rd ?iv)\<lparr>Hr_CommandPreview := CommandPreview openEntry (Inv_Args ?iv)\<rparr>)
      (Some NewMemoryTokenStore, d) = (Inr a, (s', d))" "Hr_Action a = ''install-systemd-unit''"
    using auth [of "(startResult ?rd ?iv)\<lparr>Hr_CommandPreview := CommandPreview openEntry (Inv_Args ?iv)\<rparr>"] act by auto
  have ex: "Eng_Executor ?e = Some (CommandExecutor (He_runner env))" by (simp add: helperEngine_def assms(14))
  have args: "Inv_Args ?iv = [''--unit-path='' @ target, ''--source='' @ source]" by (simp add: openInvocation_def)
  have run: "CommandExecutor (He_runner env) ''install-systemd-unit'' (Inv_Args ?iv) sys = (He_runner env ?argv, sys @ [?argv])"
    unfolding CommandExecutor_def args action_lines by simp
  have x: "runEnd ?e ?rd ?iv ?w = Executed openEntry a (He_runner env ?argv) (s', d) (sys @ [?argv])"
    using a run unfolding runEnd_def open_precheck [OF assms(16,17)] ex by (simp add: helperWorld_def Let_def)
  obtain r w where r: "Engine_Run ?e ?rd ?iv ?w = (r, w)" by fastforce
  from run_end_world(2) [OF r x] have "ew_system w = sys @ [?argv]" "ew_validator w = (s', d)" by simp_all
  with load r iv show ?thesis
    by (intro exI [of _ "Inr r"] exI [of _ "ew_audit w"], unfold runHelper_Inr,
        intro exI [of _ ?allow] exI [of _ w]) simp
qed

end
