(* ===== verification/PrivWitness.thy ===== *)
theory PrivWitness
  imports PrivEngineProps
begin

text \<open>
  Concrete instances of the properties of the setup helper: one token, the default allowlist, and a
  helper process that reads its secret from a file.
\<close>

definition w_mint :: TokenRequest where
  "w_mint = \<lparr>Tr_ApprovalID = ''ap'', Tr_Actor = ''me'', Tr_Action = ''repair-acfs'', Tr_ExpiresAt = 500,
     Tr_AllowlistDigest = ''sha256:78''\<rparr>"

definition w_tclaims :: TokenClaims where
  "w_tclaims = mintedClaims w_mint ''6162''"

definition w_pcodec :: priv_codec where
  "w_pcodec = \<lparr>pc_marshal = (\<lambda>c. if c = w_tclaims then Inr ''claims'' else Inl ''unsupported''),
     pc_unmarshal = (\<lambda>b. if b = ''claims'' then Some w_tclaims else None), pc_hmac = (\<lambda>key m. take 4 key)\<rparr>"

definition w_secretKey :: string where
  "w_secretKey = ''0123456789abcdef''"

definition w_ptoken :: string where
  "w_ptoken = b64Encode ''claims'' @ CHR ''.'' # b64Encode ''0123''"

definition w_treq :: "time \<Rightarrow> TokenValidationRequest" where
  "w_treq t = \<lparr>Tv_Action = ''repair-acfs'', Tv_AllowlistDigest = ''sha256:78'', Tv_Now = t\<rparr>"

definition w_usedStore :: "MemoryTokenStore option" where
  "w_usedStore = Some (TokenStore [(''ap:6162'', 500)])"

definition w_again :: attempt where
  "w_again = \<lparr>At_Token = w_ptoken, At_Request = w_treq 200, At_Now = 200, At_Clock = (\<lambda>_. 300)\<rparr>"

lemma w_first_use:
  "ValidateApprovalToken w_pcodec w_secretKey 100 (\<lambda>_. 100) w_ptoken (w_treq 100) (Some (TokenStore [])) =
     (Inr w_tclaims, w_usedStore)"
  by code_simp

lemma w_tclaims_facts: "claimKey w_tclaims = ''ap:6162''" "Tk_ExpiresAt w_tclaims = 500"
  by code_simp+

theorem minted_token_accepted_witness:
  "Mint w_pcodec w_secretKey (Inr ''ab'') w_mint = Inr w_ptoken \<and>
   fst (ValidateApprovalToken w_pcodec w_secretKey 100 (\<lambda>_. 100) w_ptoken (w_treq 100) (Some (TokenStore []))) =
     Inr (mintedClaims w_mint (hexEncode ''ab''))"
proof -
  have m: "Mint w_pcodec w_secretKey (Inr ''ab'') w_mint = Inr w_ptoken" by code_simp
  have k: "pc_marshal w_pcodec c = Inr b \<Longrightarrow> pc_unmarshal w_pcodec b = Some c" for c b
    by (auto simp: w_pcodec_def split: if_splits)
  have "Tv_Action (w_treq 100) = TrimSpace (Tr_Action w_mint)"
    "normalizeDigest (Tv_AllowlistDigest (w_treq 100)) = normalizeDigest (normalizeDigest (Tr_AllowlistDigest w_mint))"
    "\<not> isZero (Tv_Now (w_treq 100))" "Tv_Now (w_treq 100) < Tr_ExpiresAt w_mint"
    by code_simp+
  with m minted_token_accepted [OF m k, of "w_treq 100" "[]" 100 "\<lambda>_. 100"] show ?thesis by simp
qed

theorem approval_token_single_use_witness:
  "''ap:6162'' \<notin> claimKey ` set (acceptedClaims w_pcodec w_secretKey [w_again, w_again] w_usedStore)"
proof -
  have "\<forall>a \<in> set [w_again, w_again]. At_Clock a (claimKey w_tclaims) \<le> Tk_ExpiresAt w_tclaims"
    by (simp add: w_tclaims_facts w_again_def)
  note unused = approval_token_single_use [OF w_first_use this]
  have not_image: "k \<notin> f ` S" if "\<forall>x \<in> S. f x \<noteq> k" for k f S using that by auto
  have "claimKey w_tclaims \<notin> claimKey ` set (acceptedClaims w_pcodec w_secretKey [w_again, w_again] w_usedStore)"
    by (rule not_image [OF unused])
  then show ?thesis unfolding w_tclaims_facts .
qed

theorem token_replayed_across_expiry_witness:
  "fst (ValidateApprovalToken w_pcodec w_secretKey 100 (\<lambda>_. 501) w_ptoken ((w_treq 100)\<lparr>Tv_Now := 499\<rparr>) w_usedStore) =
     Inr w_tclaims"
  by (rule token_replayed_across_expiry [OF w_first_use]) (simp_all add: w_tclaims_facts w_treq_def)

section \<open>A helper process\<close>

definition w_allow :: Allowlist where
  "w_allow = \<lparr>All_Entries = defaultEntries, All_Digest = ''sha256:78''\<rparr>"

definition w_env :: "unit helper_env" where
  "w_env = \<lparr>He_codec = w_pcodec, He_sha256 = (\<lambda>_. ''x''),
     He_readFile = (\<lambda>path. if path = ''allow'' then Inr DefaultAllowlistText else Inr w_secretKey),
     He_daemon = (\<lambda>_ d. (SocketError ''none'', d)),
     He_runner = (\<lambda>argv. (\<lparr>Ar_ExitCode = 0, Ar_Output = []\<rparr>, None)),
     He_readings = \<lparr>rd_started = 90, rd_validate = 100, rd_finished = 120\<rparr>, He_clock = (\<lambda>_. 110),
     He_fault = None\<rparr>"

definition w_flags :: helper_flags where
  "w_flags = \<lparr>Fl_action = ''repair-acfs'', Fl_allowlist = ''allow'', Fl_expectedDigest = [],
     Fl_approvalToken = w_ptoken, Fl_daemonSocket = [], Fl_approvalSecretFile = ''secret'',
     Fl_auditLog = ''audit'', Fl_dryRun = False, Fl_args = [''--doctor=true'', ''--auto-fix=true'']\<rparr>"

lemma w_read: "He_readFile w_env (Clean (TrimSpace (Fl_allowlist w_flags))) = Inr DefaultAllowlistText"
proof -
  have "Clean (TrimSpace (Fl_allowlist w_flags)) = ''allow''" by code_simp
  then show ?thesis by (simp add: w_env_def)
qed

lemma w_load: "LoadAllowlist (He_sha256 w_env) (He_readFile w_env) (Fl_allowlist w_flags) = Inr w_allow"
proof -
  have "TrimSpace (Fl_allowlist w_flags) \<noteq> []" "hexEncode ''x'' = ''78''" by code_simp+
  then show ?thesis
    by (simp add: LoadAllowlist_def w_read default_parses w_allow_def) (simp add: w_env_def)
qed

definition w_helperRun :: "(HelperResult \<times> priv_err option) \<times> (MemoryTokenStore option \<times> unit) engine_world" where
  "w_helperRun = Engine_Run (helperEngine w_env w_flags) (He_readings w_env)
     (helperInvocation ModeSteadyState w_flags w_allow) (helperWorld () [] [])"

lemma w_helperRun_facts:
  "ew_system (snd w_helperRun) = [[''acfs'', ''doctor'', ''--auto-fix'']]" "snd (fst w_helperRun) = None"
  "ew_validator (snd w_helperRun) = (w_usedStore, ())"
  by code_simp+

lemma w_helper:
  "runHelper w_env ModeSteadyState w_flags () [] [] =
     (Inr (fst w_helperRun), (), [[''acfs'', ''doctor'', ''--auto-fix'']], ew_audit (snd w_helperRun))"
proof -
  have "Engine_Run (helperEngine w_env w_flags) (He_readings w_env)
     (helperInvocation ModeSteadyState w_flags w_allow) (helperWorld () [] []) = (fst w_helperRun, snd w_helperRun)"
    by (simp add: w_helperRun_def)
  then show ?thesis unfolding runHelper_Inr using w_load w_helperRun_facts
    by (intro exI [of _ w_allow] exI [of _ "snd w_helperRun"]) simp
qed

theorem privileged_command_authorised_witness:
  "\<exists>entry argv. [[''acfs'', ''doctor'', ''--auto-fix'']] = [] @ [argv] \<and>
     allowedBy (helperInvocation ModeSteadyState w_flags w_allow) entry"
proof -
  let ?e = "\<lparr>Eng_TokenValidator = Some (ValidateApprovalToken w_pcodec w_secretKey 100 (\<lambda>_. 110)),
    Eng_Executor = Some (CommandExecutor (He_runner w_env)), Eng_Audit = None\<rparr>"
  let ?w = "\<lparr>ew_validator = Some (TokenStore []), ew_system = [], ew_audit = []\<rparr>"
  let ?r = "Engine_Run ?e (He_readings w_env) (helperInvocation ModeSteadyState w_flags w_allow) ?w"
  have s: "ew_system (snd ?r) = [[''acfs'', ''doctor'', ''--auto-fix'']]" by code_simp
  have r: "?r = (fst ?r, snd ?r)" by simp
  have "ew_system (snd ?r) \<noteq> ew_system ?w" unfolding s by simp
  moreover have "\<not> isZero (rd_validate (He_readings w_env))" by code_simp
  ultimately show ?thesis
    using privileged_command_authorised [OF r] unfolding s by auto
qed

theorem helper_runs_expected_commands_witness:
  "[''acfs'', ''doctor'', ''--auto-fix''] \<in> expectedCommands"
  using helper_runs_expected_commands [OF w_read w_helper] by simp

theorem helper_run_audited_witness:
  "ew_audit (snd w_helperRun) = [auditEvent (fst (fst w_helperRun)) (Hr_Status (fst (fst w_helperRun)))]"
proof -
  have a: "TrimSpace (Fl_auditLog w_flags) \<noteq> []" "He_fault w_env = None" by (code_simp, simp add: w_env_def)
  have "runHelper w_env ModeSteadyState w_flags () [] [] = (Inr (fst (fst w_helperRun), snd (fst w_helperRun)), (),
     [[''acfs'', ''doctor'', ''--auto-fix'']], ew_audit (snd w_helperRun))" using w_helper by simp
  from helper_run_audited [OF this a] show ?thesis by simp
qed

theorem helper_process_forgets_tokens_witness:
  "\<exists>log''. runHelper w_env ModeSteadyState w_flags () [[''acfs'', ''doctor'', ''--auto-fix'']] (ew_audit (snd w_helperRun)) =
     (Inr (fst w_helperRun), (), [[''acfs'', ''doctor'', ''--auto-fix''], [''acfs'', ''doctor'', ''--auto-fix'']], log'')"
proof -
  have "TrimSpace (Fl_daemonSocket w_flags) = []" by code_simp
  then show ?thesis
    using helper_process_forgets_tokens [where sys = "[]" and argv = "[''acfs'', ''doctor'', ''--auto-fix'']",
        simplified, OF w_helper] by simp
qed

section \<open>A caller's own files\<close>

definition w_openMint :: TokenRequest where
  "w_openMint = \<lparr>Tr_ApprovalID = ''x'', Tr_Actor = ''x'', Tr_Action = ''install-systemd-unit'', Tr_ExpiresAt = 500,
     Tr_AllowlistDigest = openDigest (\<lambda>_. ''x'')\<rparr>"

definition w_openEnv :: "unit helper_env" where
  "w_openEnv = w_env\<lparr>He_codec := \<lparr>
       pc_marshal = (\<lambda>c. if c = mintedClaims w_openMint ''6162'' then Inr ''claims'' else Inl ''unsupported''),
       pc_unmarshal = (\<lambda>b. if b = ''claims'' then Some (mintedClaims w_openMint ''6162'') else None),
       pc_hmac = (\<lambda>key m. take 4 key)\<rparr>,
     He_readFile := (\<lambda>path. if path = ''/tmp/a'' then Inr (printAllowlist [openEntry]) else Inr w_secretKey)\<rparr>"

definition w_openFlags :: helper_flags where
  "w_openFlags = w_flags\<lparr>Fl_action := ''install-systemd-unit'', Fl_allowlist := ''/tmp/a'',
     Fl_approvalSecretFile := ''/tmp/s'',
     Fl_args := [''--unit-path='' @ ''/etc/sudoers.d/x'', ''--source='' @ ''/tmp/x'']\<rparr>"

theorem helper_trusts_caller_files_witness:
  "\<exists>res log'. runHelper w_openEnv ModeSteadyState w_openFlags () [] [] =
    (res, (), [[''install'', ''-m'', ''0644'', ''/tmp/x'', ''/etc/sudoers.d/x'']], log')"
proof -
  have p: "Clean (TrimSpace (Fl_allowlist w_openFlags)) = ''/tmp/a''" by code_simp
  have f: "He_readFile w_openEnv (Clean (TrimSpace (Fl_allowlist w_openFlags))) = Inr (printAllowlist [openEntry])"
    unfolding p by (simp add: w_openEnv_def)
  have k: "pc_marshal (He_codec w_openEnv) c = Inr b \<Longrightarrow> pc_unmarshal (He_codec w_openEnv) b = Some c" for c b
    by (auto simp: w_openEnv_def split: if_splits)
  have m: "Mint (He_codec w_openEnv) w_secretKey (Inr ''ab'') w_openMint = Inr (Fl_approvalToken w_openFlags)"
    by code_simp
  have sha: "He_sha256 w_openEnv = (\<lambda>_. ''x'')" by (simp add: w_openEnv_def w_env_def)
  have t: "TrimSpace (Fl_allowlist w_openFlags) \<noteq> []" "TrimSpace (Fl_daemonSocket w_openFlags) = []"
    "TrimSpace (Fl_approvalSecretFile w_openFlags) \<noteq> []" "TrimSpace w_secretKey = w_secretKey"
    by code_simp+
  have r: "He_readFile w_openEnv (Fl_approvalSecretFile w_openFlags) = Inr w_secretKey"
    by (simp add: w_openEnv_def w_openFlags_def)
  have v: "rd_validate (He_readings w_openEnv) = 100" by (simp add: w_openEnv_def w_env_def)
  show ?thesis
    using helper_trusts_caller_files [OF f t(1-3) r t(4) m [unfolded w_openMint_def sha [symmetric]] k, of "''/etc/sudoers.d/x''" "''/tmp/x''" "()" "[]" "[]"]
    by (simp add: v w_openFlags_def w_flags_def)
qed

end
