(* ===== verification/Migrations.thy ===== *)
theory Migrations
  imports GoTime
begin

text \<open>
  Package \<open>migrations\<close>: the registry of schema migrations, the runner with its backup-then-apply steps
  (\<open>runner.go\<close>), the backups of the database file with their retention (\<open>backup.go\<close>) and the reported
  state (\<open>state.go\<close>). A database is the content a process opening its file reads: its data, which is
  abstract, and the meta table. A migration is the functions its author registered; the runner hands
  each of them the database as the transaction sees it. What the driver and the file system may refuse
  is given per migration.
\<close>

section \<open>Databases and migrations\<close>

datatype stage = StageBackup | StageBegin | StagePre | StageUp | StagePost | StageInsert | StageCommit

text \<open>\<open>MigFailed s i b\<close>: migration \<open>i\<close> stopped at stage \<open>s\<close>; \<open>b\<close> says that the restore failed too.\<close>

datatype mig_err = MigDuplicateID | MigRegistryGap | MigAppliedGap | MigNotReversible | MigNoFunction
  | MigMetaTable | MigBackup string | MigSQL string | MigFailed stage int bool

record meta_row =
  mr_id :: int
  mr_description :: string
  mr_appliedAt :: time

text \<open>The rows of the meta table, or \<open>None\<close> before it is created.\<close>

record 'd database =
  db_data :: 'd
  db_meta :: "meta_row list option"

type_synonym 'd tx_fn = "'d database \<Rightarrow> mig_err + 'd database"

record 'd MigrationFunc =
  IDValue :: int
  DescriptionValue :: string
  UpFn :: "'d tx_fn option"
  DownFn :: "'d tx_fn option"
  PreCheckFn :: "'d tx_fn option"
  PostCheckFn :: "'d tx_fn option"
  IsReversible :: bool

definition Migration_Up :: "'d MigrationFunc \<Rightarrow> 'd tx_fn" where
  "Migration_Up m tx = (case UpFn m of None \<Rightarrow> Inl MigNoFunction | Some f \<Rightarrow> f tx)"

definition Migration_Down :: "'d MigrationFunc \<Rightarrow> 'd tx_fn" where
  "Migration_Down m tx = (if \<not> IsReversible m then Inl MigNotReversible
     else case DownFn m of None \<Rightarrow> Inl MigNoFunction | Some f \<Rightarrow> f tx)"

definition Migration_PreCheck :: "'d MigrationFunc \<Rightarrow> 'd tx_fn" where
  "Migration_PreCheck m tx = (case PreCheckFn m of None \<Rightarrow> Inr tx | Some f \<Rightarrow> f tx)"

definition Migration_PostCheck :: "'d MigrationFunc \<Rightarrow> 'd tx_fn" where
  "Migration_PostCheck m tx = (case PostCheckFn m of None \<Rightarrow> Inr tx | Some f \<Rightarrow> f tx)"

section \<open>The registry\<close>

type_synonym 'd MigRegistry = "'d MigrationFunc list"

definition Register :: "'d MigrationFunc \<Rightarrow> 'd MigRegistry \<Rightarrow> mig_err option \<times> 'd MigRegistry" where
  "Register m r = (if IDValue m \<in> IDValue ` set r then (Some MigDuplicateID, r)
     else (None, sort_key IDValue (r @ [m])))"

fun validateFrom :: "int \<Rightarrow> 'd MigRegistry \<Rightarrow> mig_err option" where
  "validateFrom want [] = None"
| "validateFrom want (m # ms) = (if IDValue m \<noteq> want then Some MigRegistryGap else validateFrom (want + 1) ms)"

definition validateRegistry :: "'d MigRegistry \<Rightarrow> mig_err option" where
  "validateRegistry r = validateFrom 1 r"

section \<open>Backups of the database file\<close>

text \<open>
  The world: the database file, if it exists, and the files of the backup directory by name. A
  placeholder for an absent database has no content.
\<close>

record 'd backup =
  bk_content :: "'d database option"
  bk_mtime :: time

record 'd mig_world =
  mw_live :: "'d database option"
  mw_backups :: "(string \<times> 'd backup) list"

record backup_env =
  be_mkdirFails :: bool
  be_statFails :: bool
  be_createFails :: bool
  be_copyFails :: bool
  be_renameFails :: bool
  be_readDirFails :: bool
  be_infoFails :: "string \<Rightarrow> bool"
  be_removeFails :: "string \<Rightarrow> bool"
  be_now :: time
  be_mtime :: time

record restore_env =
  re_copyFails :: bool
  re_renameFails :: bool
  re_removeFails :: bool

text \<open>The layout \<open>2006-01-02T15-04-05.999999999Z\<close>: the fraction loses its trailing zeros.\<close>

definition fmtBackupTime :: "time \<Rightarrow> string" where
  "fmtBackupTime t =
     (let frac = rev (dropWhile (\<lambda>c. c = CHR ''0'') (rev (fmtInt 9 (Nanosecond t))))
      in fmtInt 4 (Year t) @ ''-'' @ fmtInt 2 (Month t) @ ''-'' @ fmtInt 2 (Day t) @ ''T'' @
         fmtInt 2 (Hour t) @ ''-'' @ fmtInt 2 (Minute t) @ ''-'' @ fmtInt 2 (Second t) @
         (if frac = [] then [] else CHR ''.'' # frac) @ ''Z'')"

definition formatPath :: "int \<Rightarrow> time \<Rightarrow> string \<Rightarrow> string" where
  "formatPath fromVersion t suffix =
     ''daemon-'' @ fmtInt 1 fromVersion @ CHR ''-'' # fmtBackupTime t @
     (if suffix = [] then [] else CHR ''-'' # suffix) @ ''.db''"

text \<open>Newest first; the files beyond the bound are removed until a removal fails.\<close>

definition backupCandidates :: "backup_env \<Rightarrow> (string \<times> 'd backup) list \<Rightarrow> (string \<times> 'd backup) list" where
  "backupCandidates e bks = sort_key (\<lambda>(_, b). - bk_mtime b)
     (filter (\<lambda>(n, _). HasPrefix n ''daemon-'' \<and> HasSuffix n ''.db'' \<and> \<not> be_infoFails e n) bks)"

definition prune :: "int \<Rightarrow> backup_env \<Rightarrow> (string \<times> 'd backup) list \<Rightarrow> (string \<times> 'd backup) list" where
  "prune keepRecent e bks =
     (let candidates = backupCandidates e bks in
      if be_readDirFails e \<or> int (length candidates) \<le> keepRecent then bks
      else fold AList.delete
        (map fst (takeWhile (\<lambda>(n, _). \<not> be_removeFails e n) (drop (nat keepRecent) candidates))) bks)"

definition FileBackup ::
  "int \<Rightarrow> backup_env \<Rightarrow> int \<Rightarrow> 'd mig_world \<Rightarrow> (mig_err + string) \<times> 'd mig_world" where
  "FileBackup keepRecent e fromVersion w =
     (if be_mkdirFails e then (Inl (MigBackup ''mkdir''), w)
      else if be_statFails e then (Inl (MigBackup ''stat''), w)
      else case mw_live w of
        None \<Rightarrow>
          (let placeholder = formatPath fromVersion (be_now e) ''absent'' in
           if be_createFails e then (Inl (MigBackup ''create''), w)
           else (Inr placeholder, w\<lparr>mw_backups := AList.update placeholder
             \<lparr>bk_content = None, bk_mtime = be_mtime e\<rparr> (mw_backups w)\<rparr>))
      | Some live \<Rightarrow>
          (let finalPath = formatPath fromVersion (be_now e) [] in
           if be_copyFails e \<or> be_renameFails e then (Inl (MigBackup ''copy''), w)
           else let bks = AList.update finalPath \<lparr>bk_content = Some live, bk_mtime = be_mtime e\<rparr> (mw_backups w)
             in (Inr finalPath, w\<lparr>mw_backups := (if keepRecent > 0 then prune keepRecent e bks else bks)\<rparr>)))"

definition FileRestore :: "restore_env \<Rightarrow> string \<Rightarrow> 'd mig_world \<Rightarrow> mig_err option \<times> 'd mig_world" where
  "FileRestore e path w =
     (if path = [] then (Some (MigBackup ''empty path''), w)
      else if Contains path ''-absent.'' then
        (if re_removeFails e \<and> mw_live w \<noteq> None then (Some (MigBackup ''remove''), w)
         else (None, w\<lparr>mw_live := None\<rparr>))
      else case map_of (mw_backups w) path of None \<Rightarrow> (Some (MigBackup ''open''), w)
        | Some b \<Rightarrow> if re_copyFails e \<or> re_renameFails e then (Some (MigBackup ''copy''), w)
            else (None, w\<lparr>mw_live := bk_content b\<rparr>))"

section \<open>The runner\<close>

text \<open>
  How the driver answers a commit: done; refused with the old database on disk; or reported as an error
  although the new one is on disk.
\<close>

datatype commit_outcome = CommitOk | CommitLost | CommitKept

record ('be, 're) step_env =
  se_backup :: 'be
  se_beginFails :: bool
  se_insertFails :: bool
  se_commit :: commit_outcome
  se_now :: time
  se_restore :: 're

datatype meta_fault = MetaOk | MetaCreateFails | MetaReadFails

definition openDatabase :: "'d \<Rightarrow> 'd mig_world \<Rightarrow> 'd database" where
  "openDatabase fresh w = (case mw_live w of None \<Rightarrow> \<lparr>db_data = fresh, db_meta = None\<rparr> | Some db \<Rightarrow> db)"

text \<open>Opening a database whose file is absent creates it; \<open>fresh\<close> is the data of a new one.\<close>

definition EnsureMetaTable :: "'d \<Rightarrow> meta_fault \<Rightarrow> 'd mig_world \<Rightarrow> mig_err option \<times> 'd mig_world" where
  "EnsureMetaTable fresh f w =
     (if f = MetaCreateFails then (Some MigMetaTable, w)
      else let db = openDatabase fresh w in
        (None, w\<lparr>mw_live := Some (case db_meta db of None \<Rightarrow> db\<lparr>db_meta := Some []\<rparr> | Some _ \<Rightarrow> db)\<rparr>))"

fun versionFrom :: "int \<Rightarrow> int \<Rightarrow> int list \<Rightarrow> mig_err + int" where
  "versionFrom want last_id [] = Inr last_id"
| "versionFrom want last_id (i # is) = (if i \<noteq> want then Inl MigAppliedGap else versionFrom (want + 1) i is)"

definition metaRows :: "'d database \<Rightarrow> meta_row list" where
  "metaRows db = (case db_meta db of None \<Rightarrow> [] | Some rows \<Rightarrow> sort_key mr_id rows)"

definition CurrentVersion :: "'d \<Rightarrow> meta_fault \<Rightarrow> 'd mig_world \<Rightarrow> (mig_err + int) \<times> 'd mig_world" where
  "CurrentVersion fresh f w =
     (case EnsureMetaTable fresh f w of (Some e, w1) \<Rightarrow> (Inl e, w1)
      | (None, w1) \<Rightarrow>
          if f = MetaReadFails then (Inl MigMetaTable, w1)
          else (versionFrom 1 0 (map mr_id (metaRows (openDatabase fresh w1))), w1))"

definition Pending :: "'d \<Rightarrow> meta_fault \<Rightarrow> 'd MigRegistry \<Rightarrow> 'd mig_world \<Rightarrow>
    (mig_err + 'd MigrationFunc list) \<times> 'd mig_world" where
  "Pending fresh f registry w =
     (case CurrentVersion fresh f w of (Inl e, w1) \<Rightarrow> (Inl e, w1)
      | (Inr current, w1) \<Rightarrow> (Inr (filter (\<lambda>m. IDValue m > current) registry), w1))"

text \<open>The insert of the meta row: the id is the primary key.\<close>

definition insertMeta :: "'d MigrationFunc \<Rightarrow> time \<Rightarrow> 'd database \<Rightarrow> mig_err + 'd database" where
  "insertMeta m now tx =
     (case db_meta tx of None \<Rightarrow> Inl MigMetaTable
      | Some rows \<Rightarrow>
          if IDValue m \<in> mr_id ` set rows then Inl MigMetaTable
          else Inr (tx\<lparr>db_meta := Some (rows @ [\<lparr>mr_id = IDValue m, mr_description = DescriptionValue m,
            mr_appliedAt = now\<rparr>])\<rparr>))"

text \<open>The body of the transaction: the stage that fails, or the database to commit.\<close>

definition transact :: "'d MigrationFunc \<Rightarrow> ('be, 're) step_env \<Rightarrow> 'd database \<Rightarrow> stage + 'd database" where
  "transact m e db =
     (case Migration_PreCheck m db of Inl _ \<Rightarrow> Inl StagePre
      | Inr tx1 \<Rightarrow>
     (case Migration_Up m tx1 of Inl _ \<Rightarrow> Inl StageUp
      | Inr tx2 \<Rightarrow>
     (case Migration_PostCheck m tx2 of Inl _ \<Rightarrow> Inl StagePost
      | Inr tx3 \<Rightarrow>
     (if se_insertFails e then Inl StageInsert
      else case insertMeta m (se_now e) tx3 of Inl _ \<Rightarrow> Inl StageInsert | Inr tx4 \<Rightarrow> Inr tx4))))"

definition failRestore where
  "failRestore restore e path s m applied w =
     (case restore (se_restore e) path w of
        (None, w') \<Rightarrow> ((applied, Some (MigFailed s (IDValue m) False)), w')
      | (Some _, w') \<Rightarrow> ((applied, Some (MigFailed s (IDValue m) True)), w'))"

text \<open>One pending migration after another; a rollback leaves the database as it was at the begin.\<close>

fun applyAll ::
  "('be \<Rightarrow> int \<Rightarrow> 'd mig_world \<Rightarrow> (mig_err + string) \<times> 'd mig_world) \<Rightarrow>
   ('re \<Rightarrow> string \<Rightarrow> 'd mig_world \<Rightarrow> mig_err option \<times> 'd mig_world) \<Rightarrow> 'd \<Rightarrow> (int \<Rightarrow> ('be, 're) step_env) \<Rightarrow>
   'd MigrationFunc list \<Rightarrow> int \<Rightarrow> 'd MigrationFunc list \<Rightarrow> 'd mig_world \<Rightarrow>
   ('d MigrationFunc list \<times> mig_err option) \<times> 'd mig_world" where
  "applyAll backup restore fresh env [] current applied w = ((applied, None), w)"
| "applyAll backup restore fresh env (m # ms) current applied w =
     (let e = env (IDValue m) in
      case backup (se_backup e) current w of
        (Inl _, w1) \<Rightarrow> ((applied, Some (MigFailed StageBackup (IDValue m) False)), w1)
      | (Inr path, w1) \<Rightarrow>
          if se_beginFails e then ((applied, Some (MigFailed StageBegin (IDValue m) False)), w1)
          else (case transact m e (openDatabase fresh w1) of
            Inl StagePre \<Rightarrow> ((applied, Some (MigFailed StagePre (IDValue m) False)), w1)
          | Inl s \<Rightarrow> failRestore restore e path s m applied w1
          | Inr tx \<Rightarrow>
              (case se_commit e of
                 CommitOk \<Rightarrow> applyAll backup restore fresh env ms (IDValue m) (applied @ [m]) (w1\<lparr>mw_live := Some tx\<rparr>)
               | CommitLost \<Rightarrow> failRestore restore e path StageCommit m applied w1
               | CommitKept \<Rightarrow> failRestore restore e path StageCommit m applied (w1\<lparr>mw_live := Some tx\<rparr>))))"

text \<open>\<open>mf 0\<close> and \<open>mf 1\<close> are the faults of the two readings of the current version.\<close>

definition Runner_Run where
  "Runner_Run backup restore fresh mf env registry w =
     (case validateRegistry registry of Some e \<Rightarrow> (([], Some e), w)
      | None \<Rightarrow>
     (case Pending fresh (mf 0) registry w of (Inl e, w1) \<Rightarrow> (([], Some e), w1)
      | (Inr pending, w1) \<Rightarrow>
          if pending = [] then (([], None), w1)
          else (case CurrentVersion fresh (mf (1::nat)) w1 of (Inl e, w2) \<Rightarrow> (([], Some e), w2)
            | (Inr current, w2) \<Rightarrow> applyAll backup restore fresh env pending current [] w2)))"

section \<open>The reported state\<close>

datatype mig_phase = PhaseIdle | PhaseRunning | PhaseFailed | PhaseRollback | PhaseUnset

record MigState =
  ms_schemaVersion :: int
  ms_appliedAt :: time
  ms_pending :: "string list"
  ms_phase :: mig_phase

definition lastAppliedAt :: "int \<Rightarrow> 'd database \<Rightarrow> mig_err + time" where
  "lastAppliedAt current db =
     (if current = 0 then Inr 0
      else case find (\<lambda>r. mr_id r = current) (metaRows db) of None \<Rightarrow> Inl MigMetaTable
        | Some r \<Rightarrow> Inr (mr_appliedAt r))"

definition Provider_State ::
  "'d \<Rightarrow> (nat \<Rightarrow> meta_fault) \<Rightarrow> 'd MigRegistry \<Rightarrow> mig_phase \<Rightarrow> 'd mig_world \<Rightarrow> (mig_err + MigState) \<times> 'd mig_world" where
  "Provider_State fresh mf registry phase w =
     (case CurrentVersion fresh (mf 0) w of (Inl e, w1) \<Rightarrow> (Inl e, w1)
      | (Inr current, w1) \<Rightarrow>
     (case Pending fresh (mf 1) registry w1 of (Inl e, w2) \<Rightarrow> (Inl e, w2)
      | (Inr pending, w2) \<Rightarrow>
     (case lastAppliedAt current (openDatabase fresh w2) of Inl e \<Rightarrow> (Inl e, w2)
      | Inr appliedAt \<Rightarrow>
          (Inr \<lparr>ms_schemaVersion = current, ms_appliedAt = appliedAt,
             ms_pending = map (\<lambda>m. fmtInt 4 (IDValue m) @ CHR '' '' # DescriptionValue m) pending,
             ms_phase = (if phase = PhaseUnset then PhaseIdle else phase)\<rparr>, w2))))"

end
