(* ===== verification/MigrationProps.thy ===== *)
theory MigrationProps
  imports Migrations GoStrings "HOL-Library.Multiset"
begin

text \<open>
  Facts on schema migrations: what a backup and its restore promise (the locale \<open>backuper\<close>), that every
  run of the runner leaves the database after a prefix of the pending migrations, that any number of
  failing runs followed by more runs go through the same chain, and what the retention of backups
  keeps.
\<close>

section \<open>The chain of databases\<close>

inductive migrates :: "(int \<Rightarrow> ('be, 're) step_env) \<Rightarrow> 'd database \<Rightarrow> 'd MigrationFunc list \<Rightarrow> 'd database \<Rightarrow> bool"
  for env where
  chain_nil: "migrates env db [] db"
| chain_step: "transact m (env (IDValue m)) db = Inr db1 \<Longrightarrow> migrates env db1 ms db2 \<Longrightarrow> migrates env db (m # ms) db2"

inductive_cases chain_ConsE: "migrates env db (m # ms) db'"
inductive_simps chain_Nil_iff [simp]: "migrates env db [] db'"

lemma chain_append: "migrates env db ms db1 \<Longrightarrow> migrates env db1 ns db2 \<Longrightarrow> migrates env db (ms @ ns) db2"
  by (induction rule: migrates.induct) (auto intro: migrates.intros)

lemma chain_cong:
  "migrates env db ms db' \<Longrightarrow> \<forall>m \<in> set ms. env' (IDValue m) = env (IDValue m) \<Longrightarrow> migrates env' db ms db'"
  by (induction rule: migrates.induct) (auto intro: migrates.intros)

definition withMeta :: "'d database \<Rightarrow> 'd database" where
  "withMeta db = (case db_meta db of None \<Rightarrow> db\<lparr>db_meta := Some []\<rparr> | Some _ \<Rightarrow> db)"

lemma withMeta_idem [simp]: "withMeta (withMeta db) = withMeta db"
  by (auto simp: withMeta_def split: option.split)

lemma withMeta_rows [simp]: "metaRows (withMeta db) = metaRows db"
  by (auto simp: withMeta_def metaRows_def split: option.split)

lemma transact_meta: "transact m e db = Inr db' \<Longrightarrow> withMeta db' = db'"
  by (auto simp: transact_def insertMeta_def withMeta_def split: sum.splits if_splits option.splits)

lemma chain_meta: "migrates env db ms db' \<Longrightarrow> withMeta db = db \<Longrightarrow> withMeta db' = db'"
  by (induction rule: migrates.induct) (auto dest: transact_meta)

section \<open>Backups\<close>

text \<open>
  What the runner relies on: a backup does not touch the live database, a restore that fails does not
  either, and one that succeeds from the backups as they were brings back the database of the backup.
\<close>

locale backuper =
  fixes backup :: "'be \<Rightarrow> int \<Rightarrow> 'd mig_world \<Rightarrow> (mig_err + string) \<times> 'd mig_world"
    and restore :: "'re \<Rightarrow> string \<Rightarrow> 'd mig_world \<Rightarrow> mig_err option \<times> 'd mig_world"
  assumes backup_live: "backup e v w = (r, w') \<Longrightarrow> mw_live w' = mw_live w"
    and restore_refused: "restore f p w = (Some x, w') \<Longrightarrow> mw_live w' = mw_live w"
    and restore_done: "backup e v w = (Inr p, w1) \<Longrightarrow> mw_backups w2 = mw_backups w1 \<Longrightarrow>
      restore f p w2 = (None, w3) \<Longrightarrow> mw_live w3 = mw_live w"
begin

lemma open_backup: "backup e v w = (r, w') \<Longrightarrow> openDatabase fresh w' = openDatabase fresh w"
  by (simp add: openDatabase_def backup_live)

text \<open>Giving up at a stage: the old database, or what was there if the restore fails.\<close>

lemma fail_restore:
  assumes "backup b v w0 = (Inr p, w1)" "mw_backups w = mw_backups w1"
    and "failRestore restore e p s m applied w = ((applied', err), w')"
  shows "applied' = applied \<and> (\<exists>x. err = Some (MigFailed s (IDValue m) x) \<and>
    (openDatabase fresh w' = openDatabase fresh w0 \<or> x \<and> openDatabase fresh w' = openDatabase fresh w))"
  using assms restore_done [OF assms(1,2)] restore_refused
  by (auto simp: failRestore_def openDatabase_def split: prod.splits option.splits)

lemma applyAll_chain:
  assumes "applyAll backup restore fresh env ms cur app w = ((applied, err), w')"
  shows "\<exists>taken rest. ms = taken @ rest \<and>
    migrates env (openDatabase fresh w) taken (openDatabase fresh w') \<and>
    (applied = app @ taken \<and> (err = None \<longrightarrow> rest = []) \<or>
     (\<exists>d m. taken = d @ [m] \<and> applied = app @ d \<and> err = Some (MigFailed StageCommit (IDValue m) True)))"
  using assms
proof (induction ms arbitrary: cur app w)
  case Nil
  then show ?case by (auto intro: chain_nil)
next
  case (Cons m ms)
  let ?e = "env (IDValue m)"
  have stop: ?case if "applied = app" "err \<noteq> None" "openDatabase fresh w' = openDatabase fresh w"
    using that by (intro exI [of _ "[]"] exI [of _ "m # ms"]) simp
  obtain r w1 where b: "backup (se_backup ?e) cur w = (r, w1)" by fastforce
  note o = open_backup [OF b, where fresh = fresh]
  show ?case
  proof (cases r)
    case (Inl x)
    with Cons.prems b o show ?thesis by (intro stop) (auto simp: Let_def)
  next
    case (Inr p)
    note bp = b [unfolded Inr]
    show ?thesis
    proof (cases "se_beginFails ?e")
      case True
      with Cons.prems bp o show ?thesis by (intro stop) (auto simp: Let_def)
    next
      case nb: False
      show ?thesis
      proof (cases "transact m ?e (openDatabase fresh w1)")
        case (Inl s)
        show ?thesis
        proof (cases "s = StagePre")
          case True
          with Cons.prems bp o nb Inl show ?thesis by (intro stop) (auto simp: Let_def)
        next
          case False
          with Cons.prems bp nb Inl have f: "failRestore restore ?e p s m app w1 = ((applied, err), w')"
            by (cases s) (simp_all add: Let_def)
          from fail_restore [OF bp refl f, where fresh = fresh] o show ?thesis by (intro stop) auto
        qed
      next
        case tx: (Inr tx)
        let ?k = "w1\<lparr>mw_live := Some tx\<rparr>"
        have ok: "openDatabase fresh ?k = tx" by (simp add: openDatabase_def)
        have one: "migrates env (openDatabase fresh w) [m] tx" using tx o by (auto intro: migrates.intros)
        show ?thesis
        proof (cases "se_commit ?e")
          case CommitOk
          with Cons.prems bp nb tx
          have "applyAll backup restore fresh env ms (IDValue m) (app @ [m]) ?k = ((applied, err), w')"
            by (simp add: Let_def)
          from Cons.IH [OF this] ok obtain taken rest where t: "ms = taken @ rest"
            "migrates env tx taken (openDatabase fresh w')"
            "applied = (app @ [m]) @ taken \<and> (err = None \<longrightarrow> rest = []) \<or>
             (\<exists>d n. taken = d @ [n] \<and> applied = (app @ [m]) @ d \<and> err = Some (MigFailed StageCommit (IDValue n) True))"
            by auto
          from chain_append [OF one t(2)] t(1,3) show ?thesis
            by (intro exI [of _ "m # taken"] exI [of _ rest]) (auto intro: exI [of _ "m # _"])
        next
          case CommitLost
          with Cons.prems bp nb tx have f: "failRestore restore ?e p StageCommit m app w1 = ((applied, err), w')"
            by (simp add: Let_def)
          from fail_restore [OF bp refl f, where fresh = fresh] o show ?thesis by (intro stop) auto
        next
          case CommitKept
          with Cons.prems bp nb tx have f: "failRestore restore ?e p StageCommit m app ?k = ((applied, err), w')"
            by (simp add: Let_def)
          have "mw_backups ?k = mw_backups w1" by simp
          from fail_restore [OF bp this f, where fresh = fresh] ok consider
            "applied = app" "err \<noteq> None" "openDatabase fresh w' = openDatabase fresh w"
            | "applied = app" "err = Some (MigFailed StageCommit (IDValue m) True)" "openDatabase fresh w' = tx"
            by auto
          then show ?thesis
          proof cases
            case 2
            with one show ?thesis by (intro exI [of _ "[m]"] exI [of _ ms]) simp
          qed (rule stop)
        qed
      qed
    qed
  qed
qed

end

section \<open>The file backups keep the contract\<close>

lemma Contains_set: "Contains s t \<Longrightarrow> set t \<subseteq> set s"
proof (induction s)
  case (Cons a s)
  show ?case
  proof (cases "Contains s t")
    case True
    with Cons.IH show ?thesis by auto
  next
    case False
    with Cons.prems have "t = take (length t) (a # s)" by simp
    then show ?thesis by (metis set_take_subset)
  qed
qed simp

lemma fmtInt_chars: "c \<in> set (fmtInt n i) \<Longrightarrow> is_digit c \<or> c = CHR ''-''"
  using pad_dec_digits by (auto simp: fmtInt_def list_all_iff split: if_splits)

lemma formatPath_no_s: "CHR ''s'' \<notin> set (formatPath v t [])"
proof -
  have d: "CHR ''s'' \<notin> set (fmtInt n i)" for n i
    by (auto dest: fmtInt_chars simp: is_digit_def)
  then have "CHR ''s'' \<notin> set (fmtBackupTime t)"
    by (auto simp: fmtBackupTime_def Let_def dest: set_dropWhileD)
  with d show ?thesis by (auto simp: formatPath_def)
qed

lemma formatPath_not_absent: "\<not> Contains (formatPath v t []) ''-absent.''"
  using Contains_set [of "formatPath v t []" "''-absent.''"] formatPath_no_s [of v t] by auto

lemma Contains_suffix: "Contains t sub \<Longrightarrow> Contains (s @ t) sub"
  by (induction s) auto

lemma formatPath_absent: "Contains (formatPath v t ''absent'') ''-absent.''"
proof -
  have "Contains (''-absent'' @ ''.db'') ''-absent.''" by simp
  from Contains_suffix [OF this, of "''daemon-'' @ fmtInt 1 v @ CHR ''-'' # fmtBackupTime t"]
  show ?thesis by (simp add: formatPath_def)
qed

lemma map_of_deletes: "map_of (fold AList.delete ks m) k = (if k \<in> set ks then None else map_of m k)"
  by (induction ks arbitrary: m) auto

lemma backups_lookup:
  "map_of (prune keep e bks) n = None \<or> map_of (prune keep e bks) n = map_of bks n"
  by (auto simp: prune_def Let_def map_of_deletes)

lemma FileBackup_live: "FileBackup keep e v w = (r, w') \<Longrightarrow> mw_live w' = mw_live w"
  by (auto simp: FileBackup_def Let_def split: if_splits option.splits)

lemma FileRestore_refused: "FileRestore f p w = (Some x, w') \<Longrightarrow> mw_live w' = mw_live w"
  by (auto simp: FileRestore_def split: if_splits option.splits)

lemma FileRestore_done:
  assumes b: "FileBackup keep e v w = (Inr p, w1)" and s: "mw_backups w2 = mw_backups w1"
    and r: "FileRestore f p w2 = (None, w3)"
  shows "mw_live w3 = mw_live w"
proof (cases "mw_live w")
  case None
  with b have "p = formatPath v (be_now e) ''absent''" by (auto simp: FileBackup_def Let_def split: if_splits)
  with formatPath_absent have "Contains p ''-absent.''" by simp
  with r None show ?thesis by (auto simp: FileRestore_def split: if_splits)
next
  case (Some live)
  let ?b = "\<lparr>bk_content = Some live, bk_mtime = be_mtime e\<rparr>"
  let ?bks = "AList.update p ?b (mw_backups w)"
  from b Some have p: "p = formatPath v (be_now e) []"
    "mw_backups w1 = (if keep > 0 then prune keep e ?bks else ?bks)"
    by (auto simp: FileBackup_def Let_def split: if_splits)
  have "map_of (mw_backups w2) p = None \<or> map_of (mw_backups w2) p = Some ?b"
    using backups_lookup [of keep e ?bks p] by (auto simp: s p(2))
  with r p(1) Some formatPath_not_absent show ?thesis
    by (auto simp: FileRestore_def split: if_splits option.splits)
qed

interpretation file_backups: backuper "FileBackup keep" FileRestore
  by unfold_locales (blast intro: FileBackup_live FileRestore_refused FileRestore_done)+

section \<open>Versions\<close>

definition versionOf :: "'d database \<Rightarrow> mig_err + int" where
  "versionOf db = versionFrom 1 0 (map mr_id (metaRows db))"

definition pendingOf :: "'d MigRegistry \<Rightarrow> 'd database \<Rightarrow> 'd MigrationFunc list" where
  "pendingOf registry db = (case versionOf db of Inl _ \<Rightarrow> [] | Inr v \<Rightarrow> filter (\<lambda>m. v < IDValue m) registry)"

lemma versionOf_withMeta [simp]: "versionOf (withMeta db) = versionOf db"
  by (simp add: versionOf_def)

lemma pendingOf_withMeta [simp]: "pendingOf registry (withMeta db) = pendingOf registry db"
  by (simp add: pendingOf_def)

lemma EnsureMetaTable_open:
  assumes "EnsureMetaTable fresh f w = (r, w1)"
  shows "withMeta (openDatabase fresh w1) = withMeta (openDatabase fresh w)"
    "r = None \<Longrightarrow> openDatabase fresh w1 = withMeta (openDatabase fresh w)"
  using assms by (auto simp: EnsureMetaTable_def openDatabase_def withMeta_def Let_def split: if_splits option.splits)

lemma CurrentVersion_open:
  assumes "CurrentVersion fresh f w = (r, w1)"
  shows "withMeta (openDatabase fresh w1) = withMeta (openDatabase fresh w)"
    "r = Inr v \<Longrightarrow> openDatabase fresh w1 = withMeta (openDatabase fresh w) \<and> versionOf (openDatabase fresh w) = Inr v"
proof -
  obtain x w0 where e: "EnsureMetaTable fresh f w = (x, w0)" by fastforce
  note o = EnsureMetaTable_open [OF e]
  have w: "w1 = w0" using assms e by (auto simp: CurrentVersion_def split: option.splits if_splits)
  with o show "withMeta (openDatabase fresh w1) = withMeta (openDatabase fresh w)" by simp
  assume r: "r = Inr v"
  with assms e have "x = None" "versionOf (openDatabase fresh w0) = Inr v"
    by (auto simp: CurrentVersion_def versionOf_def split: option.splits if_splits)
  with o w show "openDatabase fresh w1 = withMeta (openDatabase fresh w) \<and> versionOf (openDatabase fresh w) = Inr v"
    by simp
qed

context backuper
begin

lemma run_chain:
  assumes "Runner_Run backup restore fresh mf env registry w = ((applied, err), w')"
  shows "\<exists>taken rest. pendingOf registry (openDatabase fresh w) = taken @ rest \<and>
    migrates env (withMeta (openDatabase fresh w)) taken (withMeta (openDatabase fresh w')) \<and>
    (applied = taken \<and> (err = None \<longrightarrow> rest = []) \<or>
     (\<exists>m. taken = applied @ [m] \<and> err = Some (MigFailed StageCommit (IDValue m) True)))"
proof -
  have stop: ?thesis if "applied = []" "err \<noteq> None \<or> pendingOf registry (openDatabase fresh w) = []"
    "withMeta (openDatabase fresh w') = withMeta (openDatabase fresh w)"
    using that by (intro exI [of _ "[]"] exI [of _ "pendingOf registry (openDatabase fresh w)"]) auto
  obtain r w1 where c1: "CurrentVersion fresh (mf 0) w = (r, w1)" by fastforce
  note o1 = CurrentVersion_open [OF c1]
  show ?thesis
  proof (cases "validateRegistry registry")
    case (Some e)
    with assms have "applied = []" "err = Some e" "w' = w" by (simp_all add: Runner_Run_def)
    then show ?thesis by (intro stop) simp_all
  next
    case None
    show ?thesis
    proof (cases r)
      case (Inl e)
      with assms None c1 o1(1) show ?thesis by (intro stop) (auto simp: Runner_Run_def Pending_def)
    next
      case (Inr v)
      from o1(2) [OF Inr] have p: "pendingOf registry (openDatabase fresh w) = filter (\<lambda>m. v < IDValue m) registry"
        by (simp add: pendingOf_def)
      obtain q w2 where c2: "CurrentVersion fresh (mf 1) w1 = (q, w2)" by fastforce
      note o2 = CurrentVersion_open [OF c2]
      show ?thesis
      proof (cases "pendingOf registry (openDatabase fresh w) = []")
        case True
        with assms None c1 Inr o1(1) p show ?thesis by (intro stop) (auto simp: Runner_Run_def Pending_def)
      next
        case ne: False
        show ?thesis
        proof (cases q)
          case (Inl e)
          with assms None c1 Inr ne p c2 o2(1) o1(1) show ?thesis
            by (intro stop) (auto simp: Runner_Run_def Pending_def)
        next
          case q: (Inr v2)
          with assms None c1 Inr ne p c2
          have "applyAll backup restore fresh env (pendingOf registry (openDatabase fresh w)) v2 [] w2 = ((applied, err), w')"
            by (simp add: Runner_Run_def Pending_def)
          from applyAll_chain [OF this] obtain taken rest where
            t: "pendingOf registry (openDatabase fresh w) = taken @ rest"
              "migrates env (openDatabase fresh w2) taken (openDatabase fresh w')"
              "applied = taken \<and> (err = None \<longrightarrow> rest = []) \<or>
               (\<exists>m. taken = applied @ [m] \<and> err = Some (MigFailed StageCommit (IDValue m) True))" by auto
          have "openDatabase fresh w2 = withMeta (openDatabase fresh w)" using o2(2) [OF q] o1(2) [OF Inr] by simp
          with t(2) have c: "migrates env (withMeta (openDatabase fresh w)) taken (openDatabase fresh w')" by simp
          with chain_meta [OF c] t show ?thesis by (intro exI [of _ taken] exI [of _ rest]) simp
        qed
      qed
    qed
  qed
qed

end

text \<open>
  Whatever the backup, the file system and the driver refuse, a run leaves the database after a prefix
  of the pending migrations, each applied whole with its row in the meta table. The run reports that
  prefix, and all of it when it reports no error; the one exception is a commit that the driver
  reports as failed although it is on disk, when the restore then fails too.
\<close>

theorem migrations_apply_prefix:
  assumes "Runner_Run (FileBackup keep) FileRestore fresh mf env registry w = ((applied, err), w')"
  shows "\<exists>taken rest. pendingOf registry (openDatabase fresh w) = taken @ rest \<and>
    migrates env (withMeta (openDatabase fresh w)) taken (withMeta (openDatabase fresh w')) \<and>
    (applied = taken \<and> (err = None \<longrightarrow> rest = []) \<or>
     (\<exists>m. taken = applied @ [m] \<and> err = Some (MigFailed StageCommit (IDValue m) True)))"
  using assms by (rule file_backups.run_chain)

section \<open>Running again\<close>

definition keeps_meta :: "'d tx_fn \<Rightarrow> bool" where
  "keeps_meta f \<longleftrightarrow> (\<forall>tx tx'. f tx = Inr tx' \<longrightarrow> db_meta tx' = db_meta tx)"

text \<open>A migration that leaves the runner's own table alone.\<close>

definition minds_its_tables :: "'d MigrationFunc \<Rightarrow> bool" where
  "minds_its_tables m \<longleftrightarrow> keeps_meta (Migration_PreCheck m) \<and> keeps_meta (Migration_Up m) \<and>
     keeps_meta (Migration_PostCheck m)"

lemma versionFrom_iff:
  "versionFrom want l is = Inr v \<longleftrightarrow>
     is = map (\<lambda>i. want + int i) [0..<length is] \<and> v = (if is = [] then l else want + int (length is) - 1)"
proof (induction want l "is" rule: versionFrom.induct)
  case (2 want l i "is")
  have "map (\<lambda>j. want + int j) [0..<Suc (length is)] = want # map (\<lambda>j. want + 1 + int j) [0..<length is]"
    unfolding upt_conv_Cons [OF zero_less_Suc] by (simp add: map_Suc_upt [symmetric] o_def add.assoc del: upt_Suc map_Suc_upt)
  with 2 show ?case by (auto simp del: upt_Suc)
qed auto

lemma validateFrom_ids:
  "validateFrom k r = None \<Longrightarrow> map IDValue r = map (\<lambda>i. k + int i) [0..<length r]"
proof (induction k r rule: validateFrom.induct)
  case (2 k m ms)
  have "map (\<lambda>j. k + int j) [0..<Suc (length ms)] = k # map (\<lambda>j. k + 1 + int j) [0..<length ms]"
    unfolding upt_conv_Cons [OF zero_less_Suc] by (simp add: map_Suc_upt [symmetric] o_def add.assoc del: upt_Suc map_Suc_upt)
  with 2 show ?case by (auto simp del: upt_Suc split: if_splits)
qed simp

lemma validate_nth: "validateRegistry r = None \<Longrightarrow> i < length r \<Longrightarrow> IDValue (r ! i) = 1 + int i"
  using arg_cong [where f = "\<lambda>xs. xs ! i", OF validateFrom_ids [of 1 r]] by (simp add: validateRegistry_def)

lemma pending_drop:
  assumes "validateRegistry r = None" "0 \<le> v"
  shows "filter (\<lambda>m. v < IDValue m) r = drop (nat v) r"
proof -
  have "filter (\<lambda>m. v < IDValue m) r = filter (\<lambda>m. v < IDValue m) (take (nat v) r) @ filter (\<lambda>m. v < IDValue m) (drop (nat v) r)"
    by (metis append_take_drop_id filter_append)
  moreover have "\<forall>m \<in> set (take (nat v) r). \<not> v < IDValue m"
    using validate_nth [OF assms(1)] assms(2) by (auto simp: in_set_conv_nth)
  moreover have "\<forall>m \<in> set (drop (nat v) r). v < IDValue m"
    using validate_nth [OF assms(1)] assms(2) by (auto simp: in_set_conv_nth)
  ultimately show ?thesis by (simp add: filter_empty_conv filter_id_conv)
qed

lemma version_nonneg: "versionOf db = Inr v \<Longrightarrow> 0 \<le> v"
  by (auto simp: versionOf_def versionFrom_iff split: if_splits)

lemma sorted_ids: "map mr_id (sort_key mr_id rows) = sort (map mr_id rows)"
  by (rule properties_for_sort [symmetric]) simp_all

lemma versionOf_rows:
  "db_meta db = Some rows \<Longrightarrow> versionOf db = Inr v \<Longrightarrow> sort (map mr_id rows) = map (\<lambda>i. 1 + int i) [0..<nat v] \<and> 0 \<le> v"
  by (auto simp: versionOf_def metaRows_def sorted_ids versionFrom_iff split: if_splits)

lemma transact_rows:
  assumes t: "transact m e db = Inr db'" and k: "minds_its_tables m"
  shows "\<exists>rows. db_meta db = Some rows \<and> db_meta db' =
    Some (rows @ [\<lparr>mr_id = IDValue m, mr_description = DescriptionValue m, mr_appliedAt = se_now e\<rparr>])"
proof -
  from t obtain t1 t2 t3 where s: "Migration_PreCheck m db = Inr t1" "Migration_Up m t1 = Inr t2"
    "Migration_PostCheck m t2 = Inr t3" "insertMeta m (se_now e) t3 = Inr db'"
    by (auto simp: transact_def split: sum.splits if_splits)
  with k have "db_meta t3 = db_meta db" by (simp add: minds_its_tables_def keeps_meta_def)
  with s(4) show ?thesis by (auto simp: insertMeta_def split: option.splits if_splits)
qed

lemma version_step:
  assumes t: "transact m e db = Inr db'" and k: "minds_its_tables m" and v: "versionOf db = Inr v" "IDValue m = v + 1"
  shows "versionOf db' = Inr (v + 1)"
proof -
  from transact_rows [OF t k] obtain rows where rows: "db_meta db = Some rows"
    "db_meta db' = Some (rows @ [\<lparr>mr_id = IDValue m, mr_description = DescriptionValue m, mr_appliedAt = se_now e\<rparr>])"
    by blast
  from versionOf_rows [OF rows(1) v(1)] have r: "sort (map mr_id rows) = map (\<lambda>i. 1 + int i) [0..<nat v]" "0 \<le> v"
    by simp_all
  have "sort (map mr_id rows @ [v + 1]) = map (\<lambda>i. 1 + int i) [0..<nat v] @ [v + 1]"
  proof (rule properties_for_sort)
    show "mset (map (\<lambda>i. 1 + int i) [0..<nat v] @ [v + 1]) = mset (map mr_id rows @ [v + 1])"
      by (simp flip: r(1))
    show "sorted (map (\<lambda>i. 1 + int i) [0..<nat v] @ [v + 1])"
      using r(2) by (auto simp: sorted_append sorted_map intro: sorted_wrt_mono_rel [OF _ sorted_upt])
  qed
  also have "\<dots> = map (\<lambda>i. 1 + int i) [0..<Suc (nat v)]" using r(2) by simp
  finally show ?thesis
    using r(2) by (simp add: versionOf_def metaRows_def rows(2) sorted_ids v(2) versionFrom_iff)
qed

lemma chain_version:
  assumes "migrates env db ms db'" "versionOf db = Inr v" "\<forall>m \<in> set ms. minds_its_tables m"
    and "\<And>i. i < length ms \<Longrightarrow> IDValue (ms ! i) = v + 1 + int i"
  shows "versionOf db' = Inr (v + int (length ms))"
  using assms
proof (induction arbitrary: v rule: migrates.induct)
  case (chain_step m db db1 ms db2)
  have "IDValue m = v + 1" using chain_step.prems(3) [of 0] by simp
  with chain_step.hyps(1) chain_step.prems(1,2) have "versionOf db1 = Inr (v + 1)" by (intro version_step) simp_all
  moreover have "IDValue (ms ! i) = v + 1 + 1 + int i" if "i < length ms" for i
    using chain_step.prems(3) [of "Suc i"] that by simp
  ultimately have "versionOf db2 = Inr (v + 1 + int (length ms))"
    using chain_step.prems(2) by (intro chain_step.IH) simp_all
  then show ?case by (simp add: algebra_simps)
qed simp

lemma run_version:
  assumes r: "Runner_Run (FileBackup keep) FileRestore fresh mf env registry w = ((applied, err), w')"
    and ok: "validateRegistry registry = None" "\<forall>m \<in> set registry. minds_its_tables m"
    and v: "versionOf (openDatabase fresh w) = Inr v"
  obtains k where "k \<le> length registry - nat v"
    "migrates env (withMeta (openDatabase fresh w)) (take k (drop (nat v) registry)) (withMeta (openDatabase fresh w'))"
    "versionOf (openDatabase fresh w') = Inr (v + int k)" "err = None \<Longrightarrow> k = length registry - nat v"
proof -
  note nn = version_nonneg [OF v]
  have p: "pendingOf registry (openDatabase fresh w) = drop (nat v) registry"
    using pending_drop [OF ok(1) nn] v by (simp add: pendingOf_def)
  from file_backups.run_chain [OF r] obtain taken rest where t: "drop (nat v) registry = taken @ rest"
    "migrates env (withMeta (openDatabase fresh w)) taken (withMeta (openDatabase fresh w'))"
    "err = None \<longrightarrow> rest = []" unfolding p by auto
  let ?k = "length taken"
  have len: "length registry - nat v = ?k + length rest" using arg_cong [OF t(1), of length] by simp
  have tk: "taken = take ?k (drop (nat v) registry)" using t(1) by simp
  have "IDValue (taken ! i) = v + 1 + int i" if "i < ?k" for i
  proof -
    have "taken ! i = registry ! (nat v + i)" by (subst tk) (use that len nn in \<open>simp add: nth_drop\<close>)
    then show ?thesis using validate_nth [OF ok(1), of "nat v + i"] that len nn by simp
  qed
  moreover have "\<forall>m \<in> set taken. minds_its_tables m"
    using ok(2) tk by (metis in_set_dropD in_set_takeD)
  ultimately have "versionOf (withMeta (openDatabase fresh w')) = Inr (v + int ?k)"
    using v by (intro chain_version [OF t(2)]) simp_all
  with t(2,3) tk len show thesis by (intro that [of ?k]) simp_all
qed

text \<open>Any number of runs, each with its own faults.\<close>

definition run_all ::
  "int \<Rightarrow> 'd \<Rightarrow> 'd MigRegistry \<Rightarrow> ((nat \<Rightarrow> meta_fault) \<times> (int \<Rightarrow> (backup_env, restore_env) step_env)) list \<Rightarrow>
     'd mig_world \<Rightarrow> 'd mig_world" where
  "run_all keep fresh registry runs w =
     fold (\<lambda>(mf, env) w. snd (Runner_Run (FileBackup keep) FileRestore fresh mf env registry w)) runs w"

lemma join_chains:
  fixes env1 env2 :: "int \<Rightarrow> ('be, 're) step_env"
  assumes "validateRegistry registry = None" "0 \<le> v"
    and "migrates env1 db (take k (drop (nat v) registry)) db1"
    and "migrates env2 db1 (take j (drop (nat (v + int k)) registry)) db2"
  shows "\<exists>env :: int \<Rightarrow> ('be, 're) step_env. migrates env db (take (k + j) (drop (nat v) registry)) db2"
proof -
  let ?a = "take k (drop (nat v) registry)" and ?b = "take j (drop (nat (v + int k)) registry)"
  let ?env = "\<lambda>i. if i \<le> v + int k then env1 i else env2 i"
  have d: "nat (v + int k) = nat v + k" using assms(2) by simp
  have ab: "take (k + j) (drop (nat v) registry) = ?a @ ?b"
    unfolding take_add drop_drop by (simp add: d add.commute)
  have "IDValue m \<le> v + int k" if "m \<in> set ?a" for m
    using that validate_nth [OF assms(1)] assms(2) by (auto simp: in_set_conv_nth)
  then have "migrates ?env db ?a db1" by (intro chain_cong [OF assms(3)]) simp
  moreover have "v + int k < IDValue m" if "m \<in> set ?b" for m
    using that validate_nth [OF assms(1)] assms(2) by (auto simp: in_set_conv_nth d)
  then have "migrates ?env db1 ?b db2" by (intro chain_cong [OF assms(4)]) fastforce
  ultimately show ?thesis unfolding ab using chain_append by blast
qed

lemma runs_version:
  assumes ok: "validateRegistry registry = None" "\<forall>m \<in> set registry. minds_its_tables m"
    and v: "versionOf (openDatabase fresh w) = Inr v"
  shows "\<exists>(env :: int \<Rightarrow> (backup_env, restore_env) step_env) k. k \<le> length registry - nat v \<and>
    migrates env (withMeta (openDatabase fresh w)) (take k (drop (nat v) registry))
      (withMeta (openDatabase fresh (run_all keep fresh registry runs w))) \<and>
    versionOf (openDatabase fresh (run_all keep fresh registry runs w)) = Inr (v + int k)"
  using v
proof (induction runs arbitrary: w v)
  case Nil
  then show ?case by (auto simp: run_all_def intro!: exI [of _ 0])
next
  case (Cons x runs)
  obtain mf env where x: "x = (mf, env)" by (cases x)
  obtain applied err w1 where r: "Runner_Run (FileBackup keep) FileRestore fresh mf env registry w = ((applied, err), w1)"
    by (metis prod.collapse)
  note nn = version_nonneg [OF Cons.prems]
  obtain k where k: "k \<le> length registry - nat v"
    "migrates env (withMeta (openDatabase fresh w)) (take k (drop (nat v) registry)) (withMeta (openDatabase fresh w1))"
    "versionOf (openDatabase fresh w1) = Inr (v + int k)"
    by (rule run_version [OF r ok Cons.prems])
  from Cons.IH [OF k(3)] obtain env2 :: "int \<Rightarrow> (backup_env, restore_env) step_env" and j where j: "j \<le> length registry - nat (v + int k)"
    "migrates env2 (withMeta (openDatabase fresh w1)) (take j (drop (nat (v + int k)) registry))
      (withMeta (openDatabase fresh (run_all keep fresh registry runs w1)))"
    "versionOf (openDatabase fresh (run_all keep fresh registry runs w1)) = Inr (v + int k + int j)" by auto
  have "run_all keep fresh registry (x # runs) w = run_all keep fresh registry runs w1"
    by (simp add: run_all_def x r)
  moreover from join_chains [OF ok(1) nn k(2) j(2)] obtain env3 :: "int \<Rightarrow> (backup_env, restore_env) step_env" where
    "migrates env3 (withMeta (openDatabase fresh w)) (take (k + j) (drop (nat v) registry))
      (withMeta (openDatabase fresh (run_all keep fresh registry runs w1)))" ..
  moreover have "k + j \<le> length registry - nat v" using k(1) j(1) nn by linarith
  ultimately show ?case using j(3) by (intro exI [of _ env3] exI [of _ "k + j"]) (simp add: algebra_simps)
qed

text \<open>
  C30. However many runs fail, at whatever point, the first run after them that reports no error has taken
  the database through exactly the migrations that were missing at the start, each once and in order,
  as one run without faults would have; the version is then that of the registry.
\<close>

theorem failing_runs_resume:
  assumes "validateRegistry registry = None" "\<forall>m \<in> set registry. minds_its_tables m"
    and "versionOf (openDatabase fresh w) = Inr v"
    and "Runner_Run (FileBackup keep) FileRestore fresh mf env registry (run_all keep fresh registry runs w) =
      ((applied, None), w')"
  shows "\<exists>env :: int \<Rightarrow> (backup_env, restore_env) step_env. migrates env (withMeta (openDatabase fresh w)) (drop (nat v) registry) (withMeta (openDatabase fresh w')) \<and>
    versionOf (openDatabase fresh w') = Inr (max v (int (length registry)))"
proof -
  note nn = version_nonneg [OF assms(3)]
  let ?w = "run_all keep fresh registry runs w"
  from runs_version [OF assms(1-3)] obtain env1 :: "int \<Rightarrow> (backup_env, restore_env) step_env" and k where k: "k \<le> length registry - nat v"
    "migrates env1 (withMeta (openDatabase fresh w)) (take k (drop (nat v) registry)) (withMeta (openDatabase fresh ?w))"
    "versionOf (openDatabase fresh ?w) = Inr (v + int k)" by blast
  obtain j where j: "migrates env (withMeta (openDatabase fresh ?w)) (take j (drop (nat (v + int k)) registry))
      (withMeta (openDatabase fresh w'))"
    "versionOf (openDatabase fresh w') = Inr (v + int k + int j)" "j = length registry - nat (v + int k)"
    by (rule run_version [OF assms(4,1,2) k(3)]) simp
  have kj: "k + j = length registry - nat v" using k(1) j(3) nn by linarith
  from join_chains [OF assms(1) nn k(2) j(1)] kj j(2) show ?thesis
    using nn by (auto simp: max_def) 
qed

section \<open>Retention\<close>

definition isBackupName :: "string \<Rightarrow> bool" where
  "isBackupName n \<longleftrightarrow> HasPrefix n ''daemon-'' \<and> HasSuffix n ''.db''"

lemma formatPath_name: "isBackupName (formatPath v t suffix)"
proof -
  let ?m = "fmtInt 1 v @ CHR ''-'' # fmtBackupTime t @ (if suffix = [] then [] else CHR ''-'' # suffix)"
  have "HasSuffix ((''daemon-'' @ ?m) @ ''.db'') ''.db''" unfolding HasSuffix_iff by blast
  moreover have "HasPrefix (''daemon-'' @ ?m @ ''.db'') ''daemon-''" unfolding HasPrefix_iff by blast
  ultimately show ?thesis by (simp add: isBackupName_def formatPath_def)
qed

lemma candidates_set:
  "set (backupCandidates e bks) = {x \<in> set bks. isBackupName (fst x) \<and> \<not> be_infoFails e (fst x)}"
  by (auto simp: backupCandidates_def isBackupName_def)

lemma candidates_distinct: "distinct (keys bks) \<Longrightarrow> distinct (keys (backupCandidates e bks))"
  unfolding backupCandidates_def by (simp add: distinct_map distinct_filter inj_on_def)

lemma candidates_sorted:
  "i < j \<Longrightarrow> j < length (backupCandidates e bks) \<Longrightarrow>
     bk_mtime (snd (backupCandidates e bks ! j)) \<le> bk_mtime (snd (backupCandidates e bks ! i))"
proof -
  assume ij: "i < j" "j < length (backupCandidates e bks)"
  have "sorted (map (\<lambda>(_, b). - bk_mtime b) (backupCandidates e bks))"
    unfolding backupCandidates_def by (rule sorted_sort_key)
  from sorted_nth_mono [OF this, of i j] ij show ?thesis by (simp add: case_prod_beta)
qed

text \<open>The files a backup may remove: the candidates from a position on.\<close>

lemma prune_removed:
  assumes "distinct (keys bks)"
  shows "map_of (prune keep e bks) n = map_of bks n \<or>
    (\<exists>i. nat keep \<le> i \<and> i < length (backupCandidates e bks) \<and> fst (backupCandidates e bks ! i) = n)"
proof -
  let ?c = "backupCandidates e bks"
  have "\<exists>i. nat keep \<le> i \<and> i < length ?c \<and> fst (?c ! i) = n"
    if x: "x \<in> set (takeWhile P (drop (nat keep) ?c))" "n = fst x" for x P
  proof -
    from x(1) have "x \<in> set (drop (nat keep) ?c)" by (rule set_takeWhileD [THEN conjunct1])
    then obtain j where "j < length ?c - nat keep" "x = ?c ! (nat keep + j)" by (auto simp: in_set_conv_nth)
    with x(2) show ?thesis by (intro exI [of _ "nat keep + j"]) auto
  qed
  then show ?thesis by (auto simp: prune_def Let_def map_of_deletes)
qed

text \<open>A backup newer than every other file is still there after the pruning it starts.\<close>

lemma newest_not_pruned:
  assumes "distinct (keys bks)" "map_of bks p = Some b" "0 < keep"
    and "\<And>n c. (n, c) \<in> set bks \<Longrightarrow> n \<noteq> p \<Longrightarrow> bk_mtime c < bk_mtime b"
  shows "map_of (prune keep e bks) p = Some b"
proof (rule ccontr)
  let ?c = "backupCandidates e bks"
  assume "map_of (prune keep e bks) p \<noteq> Some b"
  with prune_removed [OF assms(1), of keep e p] assms(2) obtain i where
    i: "nat keep \<le> i" "i < length ?c" "fst (?c ! i) = p" by auto
  have s: "set ?c \<subseteq> set bks" using candidates_set by blast
  from i(2) have "0 < length ?c" by linarith
  with i(2) s have "?c ! i \<in> set bks" "?c ! 0 \<in> set bks" using nth_mem by blast+
  moreover have "fst (?c ! 0) \<noteq> p"
  proof
    assume "fst (?c ! 0) = p"
    with i \<open>0 < length ?c\<close> have "keys ?c ! 0 = keys ?c ! i" "0 < i" using assms(3) by simp_all
    with i(2) candidates_distinct [OF assms(1), of e] show False
      by (metis length_map less_trans nth_eq_iff_index_eq less_not_refl)
  qed
  ultimately have "bk_mtime (snd (?c ! 0)) < bk_mtime b" "snd (?c ! i) = b"
    using assms(1,2,4) i(3) by (metis prod.collapse, metis map_of_is_SomeI option.inject prod.collapse)
  moreover have "bk_mtime (snd (?c ! i)) \<le> bk_mtime (snd (?c ! 0))"
    using i assms(3) by (intro candidates_sorted) auto
  ultimately show False by simp
qed

text \<open>
  A backup that succeeds on an existing database, and whose file is newer than the others, can be
  restored: copying it back gives the database as it was, whatever the migration did meanwhile.
\<close>

theorem fresh_backup_restores:
  assumes "FileBackup keep e v w = (Inr p, w1)" "mw_live w = Some live" "distinct (keys (mw_backups w))"
    and "\<forall>(n, c) \<in> set (mw_backups w). n \<noteq> p \<longrightarrow> bk_mtime c < be_mtime e"
    and "mw_backups w2 = mw_backups w1" "\<not> re_copyFails f" "\<not> re_renameFails f"
  shows "FileRestore f p w2 = (None, w2\<lparr>mw_live := Some live\<rparr>)"
proof -
  let ?b = "\<lparr>bk_content = Some live, bk_mtime = be_mtime e\<rparr>"
  let ?bks = "AList.update p ?b (mw_backups w)"
  from assms(1,2) have p: "p = formatPath v (be_now e) []"
    "mw_backups w1 = (if keep > 0 then prune keep e ?bks else ?bks)"
    by (auto simp: FileBackup_def Let_def split: if_splits)
  have "map_of (mw_backups w1) p = Some ?b"
  proof (cases "0 < keep")
    case True
    have "map_of (prune keep e ?bks) p = Some ?b"
    proof (rule newest_not_pruned [OF _ _ True])
      show "bk_mtime c < bk_mtime ?b" if "(n, c) \<in> set ?bks" "n \<noteq> p" for n c
        using that assms(3,4) by (auto simp: in_set_update_distinct)
    qed (use assms(3) in simp_all)
    with p(2) True show ?thesis by simp
  qed (simp add: p(2))
  moreover have "p \<noteq> []" by (simp add: p(1) formatPath_def)
  moreover have "\<not> Contains p ''-absent.''" using formatPath_not_absent p(1) by simp
  ultimately show ?thesis using assms(5-7) by (simp add: FileRestore_def)
qed

section \<open>A backup that removes itself\<close>

lemma all_removed: "\<forall>n. \<not> be_removeFails e n \<Longrightarrow> takeWhile (\<lambda>(n, _). \<not> be_removeFails e n) xs = xs"
  by (simp add: takeWhile_eq_all_conv case_prod_beta)

text \<open>
  Pruning goes by modification times. When as many backups as are kept have a later time than the new
  one (the clock was set back), the backup removes the file it has just written and reports success
  with its path; a failing migration then has nothing to restore.
\<close>

theorem own_backup_pruned:
  assumes "mw_live w = Some live" "0 < keep"
    and "formatPath v (be_now e) [] \<notin> set (keys (mw_backups w))" "distinct (keys (mw_backups w))"
    and "keep \<le> int (length (filter (\<lambda>(n, b). isBackupName n \<and> be_mtime e < bk_mtime b) (mw_backups w)))"
    and "\<not> be_mkdirFails e" "\<not> be_statFails e" "\<not> be_copyFails e" "\<not> be_renameFails e"
    and "\<not> be_readDirFails e" "\<forall>n. \<not> be_infoFails e n" "\<forall>n. \<not> be_removeFails e n"
  shows "\<exists>w1. FileBackup keep e v w = (Inr (formatPath v (be_now e) []), w1) \<and>
    (\<forall>f w2. mw_backups w2 = mw_backups w1 \<longrightarrow>
       FileRestore f (formatPath v (be_now e) []) w2 = (Some (MigBackup ''open''), w2))"
proof -
  let ?p = "formatPath v (be_now e) []" and ?b = "\<lparr>bk_content = Some live, bk_mtime = be_mtime e\<rparr>"
  let ?bks = "AList.update ?p ?b (mw_backups w)"
  let ?c = "backupCandidates e ?bks"
  let ?later = "filter (\<lambda>(n, b). isBackupName n \<and> be_mtime e < bk_mtime b) (mw_backups w)"
  have d: "distinct (keys ?bks)" using assms(4) by simp
  have "(?p, ?b) \<in> set ?c"
    using assms(11) formatPath_name by (simp add: candidates_set in_set_update_distinct [OF assms(4)])
  then obtain i where i: "i < length ?c" "?c ! i = (?p, ?b)" by (auto simp: in_set_conv_nth)
  have later: "set ?later \<subseteq> set (take i ?c)"
  proof
    fix x
    assume x: "x \<in> set ?later"
    then obtain n b where nb: "x = (n, b)" "(n, b) \<in> set (mw_backups w)" "isBackupName n" by auto
    then have "fst x \<in> set (keys (mw_backups w))" by force
    with assms(3) have xp: "fst x \<noteq> ?p" by metis
    with nb have "x \<in> set ?c"
      using assms(11) by (simp add: candidates_set in_set_update_distinct [OF assms(4)])
    then obtain j where j: "j < length ?c" "?c ! j = x" by (auto simp: in_set_conv_nth)
    have "\<not> i < j" using candidates_sorted [of i j e ?bks] i j x by auto
    moreover have "i \<noteq> j" using i j xp by auto
    ultimately show "x \<in> set (take i ?c)" using i j by (auto simp: in_set_conv_nth intro!: exI [of _ j])
  qed
  have "distinct (mw_backups w)" using assms(4) by (simp add: distinct_map)
  then have "length ?later = card (set ?later)" by (intro distinct_card [symmetric] distinct_filter)
  also have "\<dots> \<le> card (set (take i ?c))" using later by (intro card_mono) simp_all
  also have "\<dots> \<le> i" by (rule le_trans [OF card_length]) simp
  finally have ki: "nat keep \<le> i" using assms(5) by simp
  then have "?c ! i = drop (nat keep) ?c ! (i - nat keep)" using i(1) by simp
  then have "(?p, ?b) \<in> set (drop (nat keep) ?c)" using i ki by (metis diff_less_mono length_drop nth_mem)
  then have "?p \<in> fst ` set (drop (nat keep) ?c)" by force
  moreover have "\<not> int (length ?c) \<le> keep" using i(1) ki assms(2) by linarith
  ultimately have gone: "map_of (prune keep e ?bks) ?p = None"
    using assms(10) by (simp add: prune_def Let_def map_of_deletes all_removed [OF assms(12)])
  let ?w1 = "w\<lparr>mw_backups := prune keep e ?bks\<rparr>"
  have "FileBackup keep e v w = (Inr ?p, ?w1)" using assms by (simp add: FileBackup_def Let_def)
  moreover have "?p \<noteq> []" by (simp add: formatPath_def)
  ultimately show ?thesis using gone formatPath_not_absent by (intro exI [of _ ?w1]) (simp add: FileRestore_def)
qed

end
