(* ===== verification/MigrationWitness.thy ===== *)
theory MigrationWitness
  imports MigrationProps
begin

text \<open>
  Concrete instances of the properties of schema migrations: three migrations on a database that is a
  number, a run whose second commit fails after it is on disk, and backups with a clock set back.
\<close>

definition w_mig :: "int \<Rightarrow> int MigrationFunc" where
  "w_mig i = \<lparr>IDValue = i, DescriptionValue = ''add'', UpFn = Some (\<lambda>tx. Inr (tx\<lparr>db_data := db_data tx * 10 + i\<rparr>)),
     DownFn = None, PreCheckFn = None, PostCheckFn = None, IsReversible = False\<rparr>"

definition w_reg :: "int MigRegistry" where
  "w_reg = [w_mig 1, w_mig 2, w_mig 3]"

definition w_benv :: "time \<Rightarrow> backup_env" where
  "w_benv t = \<lparr>be_mkdirFails = False, be_statFails = False, be_createFails = False, be_copyFails = False,
     be_renameFails = False, be_readDirFails = False, be_infoFails = (\<lambda>_. False), be_removeFails = (\<lambda>_. False),
     be_now = t, be_mtime = t\<rparr>"

definition w_renv :: restore_env where
  "w_renv = \<lparr>re_copyFails = False, re_renameFails = False, re_removeFails = False\<rparr>"

text \<open>In the first run the commit of migration 2 is reported as failed although it is on disk.\<close>

definition w_env1 :: "int \<Rightarrow> (backup_env, restore_env) step_env" where
  "w_env1 i = \<lparr>se_backup = w_benv (100 + i), se_beginFails = False, se_insertFails = False,
     se_commit = (if i = 2 then CommitKept else CommitOk), se_now = 100 + i, se_restore = w_renv\<rparr>"

definition w_env2 :: "int \<Rightarrow> (backup_env, restore_env) step_env" where
  "w_env2 i = (w_env1 i)\<lparr>se_backup := w_benv (200 + i), se_commit := CommitOk, se_now := 200 + i\<rparr>"

definition w_start :: "int mig_world" where
  "w_start = \<lparr>mw_live = None, mw_backups = []\<rparr>"

abbreviation w_run where
  "w_run env w \<equiv> Runner_Run (FileBackup 5) FileRestore 0 (\<lambda>_. MetaOk) env w_reg w"

definition w_failed :: "int mig_world" where
  "w_failed = snd (w_run w_env1 w_start)"

lemma w_first: "map IDValue (fst (fst (w_run w_env1 w_start))) = [1]"
  "snd (fst (w_run w_env1 w_start)) = Some (MigFailed StageCommit 2 False)"
  "db_data (openDatabase 0 w_failed) = 1"
  by code_simp+

lemma w_second: "snd (fst (w_run w_env2 w_failed)) = None"
  "db_data (openDatabase 0 (snd (w_run w_env2 w_failed))) = 123"
  by code_simp+

theorem migrations_apply_prefix_witness:
  "\<exists>taken. migrates w_env1 (withMeta (openDatabase 0 w_start)) taken (withMeta (openDatabase 0 w_failed)) \<and>
     fst (fst (w_run w_env1 w_start)) = taken"
proof -
  have r: "w_run w_env1 w_start = ((fst (fst (w_run w_env1 w_start)), snd (fst (w_run w_env1 w_start))), w_failed)"
    by (simp add: w_failed_def)
  from migrations_apply_prefix [OF r] show ?thesis unfolding w_first(2) by auto
qed

theorem failing_runs_resume_witness:
  "\<exists>env :: int \<Rightarrow> (backup_env, restore_env) step_env.
     migrates env (withMeta (openDatabase 0 w_start)) w_reg (withMeta (openDatabase 0 (snd (w_run w_env2 w_failed)))) \<and>
     versionOf (openDatabase 0 (snd (w_run w_env2 w_failed))) = Inr 3"
proof -
  have v: "validateRegistry w_reg = None" by code_simp
  have m: "\<forall>m \<in> set w_reg. minds_its_tables m"
    by (auto simp: w_reg_def minds_its_tables_def keeps_meta_def Migration_PreCheck_def Migration_Up_def
        Migration_PostCheck_def w_mig_def)
  have s: "versionOf (openDatabase 0 w_start) = Inr 0" by code_simp
  have a: "run_all 5 0 w_reg [((\<lambda>_. MetaOk), w_env1)] w_start = w_failed"
    by (simp add: run_all_def w_failed_def)
  have r: "w_run w_env2 w_failed = ((fst (fst (w_run w_env2 w_failed)), None), snd (w_run w_env2 w_failed))"
    using w_second(1) by (metis prod.collapse)
  have "length w_reg = 3" by (simp add: w_reg_def)
  with failing_runs_resume [OF v m s, of 5 "\<lambda>_. MetaOk" w_env2 "[((\<lambda>_. MetaOk), w_env1)]", unfolded a, OF r]
  show ?thesis by simp
qed

section \<open>Backups\<close>

definition w_live :: "int mig_world" where
  "w_live = \<lparr>mw_live = Some \<lparr>db_data = 7, db_meta = Some []\<rparr>,
     mw_backups = [(''daemon-0-x.db'', \<lparr>bk_content = None, bk_mtime = 50\<rparr>)]\<rparr>"

theorem fresh_backup_restores_witness:
  "\<exists>p. FileRestore w_renv p ((snd (FileBackup 1 (w_benv 90) 0 w_live))\<lparr>mw_live := None\<rparr>) =
     (None, (snd (FileBackup 1 (w_benv 90) 0 w_live))\<lparr>mw_live := Some \<lparr>db_data = 7, db_meta = Some []\<rparr>\<rparr>)"
proof -
  have "\<not> isl (fst (FileBackup 1 (w_benv 90) 0 w_live))" by code_simp
  then obtain p where "fst (FileBackup 1 (w_benv 90) 0 w_live) = Inr p" by (metis sum.collapse(2))
  then have b: "FileBackup 1 (w_benv 90) 0 w_live = (Inr p, snd (FileBackup 1 (w_benv 90) 0 w_live))"
    by (metis prod.collapse)
  have l: "mw_live w_live = Some \<lparr>db_data = 7, db_meta = Some []\<rparr>" by (simp add: w_live_def)
  show ?thesis
    using fresh_backup_restores [OF b l, of "(snd (FileBackup 1 (w_benv 90) 0 w_live))\<lparr>mw_live := None\<rparr>" w_renv]
    by (auto simp: w_live_def w_benv_def w_renv_def)
qed

theorem own_backup_pruned_witness:
  "\<exists>w1. FileBackup 1 (w_benv 10) 0 w_live = (Inr ''daemon-0-0001-01-01T00-00-00.00000001Z.db'', w1) \<and>
     FileRestore w_renv ''daemon-0-0001-01-01T00-00-00.00000001Z.db'' w1 = (Some (MigBackup ''open''), w1)"
proof -
  have p: "formatPath 0 (be_now (w_benv 10)) [] = ''daemon-0-0001-01-01T00-00-00.00000001Z.db''" by code_simp
  have k: "(1::int) \<le> int (length (filter (\<lambda>(n, b). isBackupName n \<and> be_mtime (w_benv 10) < bk_mtime b) (mw_backups w_live)))"
    by code_simp
  have l: "mw_live w_live = Some \<lparr>db_data = 7, db_meta = Some []\<rparr>" by (simp add: w_live_def)
  have n: "formatPath 0 (be_now (w_benv 10)) [] \<notin> set (keys (mw_backups w_live))" unfolding p by (simp add: w_live_def)
  have "\<exists>w1. FileBackup 1 (w_benv 10) 0 w_live = (Inr (formatPath 0 (be_now (w_benv 10)) []), w1) \<and>
     (\<forall>f w2. mw_backups w2 = mw_backups w1 \<longrightarrow>
        FileRestore f (formatPath 0 (be_now (w_benv 10)) []) w2 = (Some (MigBackup ''open''), w2))"
    by (rule own_backup_pruned [OF l _ n _ k]) (simp_all add: w_benv_def w_live_def)
  then show ?thesis unfolding p by blast
qed

end
