(* ===== verification/Release.thy ===== *)
theory Release
  imports GoEncoding GoTime "HOL-Library.List_Lexorder" "HOL-Library.Char_ord"
begin

text \<open>
  Package \<open>release\<close> (\<open>verification.go\<close>): the checks a daemon binary must pass before it is installed:
  its digest, its signature by a trusted key, its provenance attestation, its bill of materials against
  the known vulnerabilities, the audited override of all of them, and the inventory record of what was
  accepted. SHA-256, Ed25519 and the decoding of JSON are parameters; the texts of diagnostics are left
  out, their codes and severities kept.
\<close>

section \<open>Data\<close>

datatype rel_err = RelInvalidManifest string | RelChecksumMismatch | RelSignatureInvalid string
  | RelAttestationInvalid string | RelSBOMInvalid string | RelSBOMPolicy | RelOverrideRequired "rel_err list"
  | RelOverrideAuditFailure string | RelAckAudit string | RelInventoryInvalid string | RelIO string

datatype RelStatus = StatusUnset | StatusVerified | StatusWarning | StatusOverride

record ArtifactManifest =
  Art_Name :: string
  Art_SHA256 :: string

record SigningManifest =
  Sig_KeyID :: string
  Sig_Identity :: string
  Sig_Algorithm :: string

record ProvenancePolicy =
  Prov_BuilderID :: string
  Prov_WorkflowRef :: string
  Prov_WorkflowPath :: string
  Prov_MinSLSALevel :: int
  Prov_RequireReproducible :: "bool option"

record Compatibility =
  Compat_MinDesktopVersion :: string
  Compat_MinAPIVersion :: string

record Manifest =
  Man_SchemaVersion :: int
  Man_Version :: string
  Man_Channel :: string
  Man_Artifact :: ArtifactManifest
  Man_SourceCommit :: string
  Man_Signing :: SigningManifest
  Man_Provenance :: ProvenancePolicy
  Man_Compatibility :: Compatibility

record TrustedKey =
  Key_KeyID :: string
  Key_Identity :: string
  Key_Public :: string

record Attestation =
  Att_PredicateType :: string
  Att_Subjects :: "ArtifactManifest list"
  Att_SourceCommit :: string
  Att_BuilderID :: string
  Att_WorkflowRef :: string
  Att_WorkflowPath :: string
  Att_SLSALevel :: int
  Att_Reproducible :: bool

record SBOMPackage =
  Pkg_Name :: string
  Pkg_Version :: string
  Pkg_PURL :: string

record Vulnerability =
  Vul_ID :: string
  Vul_Package :: string
  Vul_Version :: string
  Vul_Severity :: string
  Vul_FixedVersion :: string
  Vul_Source :: string

record SBOM =
  Sbom_SchemaVersion :: int
  Sbom_Format :: string
  Sbom_Packages :: "SBOMPackage list"
  Sbom_Vulnerabilities :: "Vulnerability list"

record CVEDatabase =
  Cve_SchemaVersion :: int
  Cve_GeneratedAt :: string
  Cve_Records :: "Vulnerability list"

record Override =
  Ovr_Enabled :: bool
  Ovr_Actor :: string
  Ovr_Reason :: string
  Ovr_At :: time

record SBOMAcknowledgement =
  Ack_Accepted :: bool
  Ack_Actor :: string
  Ack_Reason :: string
  Ack_At :: time

record VerifyRequest =
  Vr_Manifest :: Manifest
  Vr_Binary :: string
  Vr_Signature :: string
  Vr_Attestation :: string
  Vr_SBOM :: string
  Vr_CVEDatabase :: CVEDatabase
  Vr_Override :: Override
  Vr_SBOMAcknowledgement :: SBOMAcknowledgement

record RelDiagnostic =
  Diag_Code :: string
  Diag_Severity :: string

record OverrideRecord =
  Or_Actor :: string
  Or_Reason :: string
  Or_At :: string

record SBOMPolicy =
  Sp_AcknowledgedBy :: string
  Sp_AcknowledgedAt :: string
  Sp_Reason :: string
  Sp_Findings :: "Vulnerability list"

record InventoryRecord =
  Inv_SchemaVersion :: int
  Inv_VerifiedAt :: string
  Inv_Status :: RelStatus
  Inv_Version :: string
  Inv_Channel :: string
  Inv_ArtifactName :: string
  Inv_Checksum :: string
  Inv_SBOMDigest :: string
  Inv_AttestationDigest :: string
  Inv_SourceCommit :: string
  Inv_BuilderID :: string
  Inv_WorkflowRef :: string
  Inv_WorkflowPath :: string
  Inv_SLSALevel :: int
  Inv_Reproducible :: bool
  Inv_SigningIdentity :: string
  Inv_SigningKeyID :: string
  Inv_MinDesktopVersion :: string
  Inv_MinAPIVersion :: string
  Inv_Override :: "OverrideRecord option"
  Inv_SBOMPolicy :: "SBOMPolicy option"
  Inv_DiagnosticsBanner :: string

record VerificationResult =
  Ver_Status :: RelStatus
  Ver_Inventory :: "InventoryRecord option"
  Ver_Diagnostics :: "RelDiagnostic list"
  Ver_DiagnosticsBanner :: string

text \<open>The data of the two audit events, and the event.\<close>

datatype RelAuditData = OverrideData string string "string list" | AckData string nat string

record RelAuditEvent =
  Rae_Action :: string
  Rae_Actor :: string
  Rae_Reason :: string
  Rae_Timestamp :: time
  Rae_Result :: string
  Rae_Data :: RelAuditData

text \<open>The zero inventory of a refused release is \<open>None\<close>. \<open>'w\<close> is what the audit sink writes to.\<close>

record 'w Verifier =
  Vf_TrustedKeys :: "TrustedKey list"
  Vf_Audit :: "(RelAuditEvent \<Rightarrow> 'w \<Rightarrow> string option \<times> 'w) option"

record release_codec =
  rc_sha256 :: "string \<Rightarrow> string"
  rc_ed25519Verify :: "string \<Rightarrow> string \<Rightarrow> string \<Rightarrow> bool"
  rc_attestation :: "string \<Rightarrow> Attestation option"
  rc_sbom :: "string \<Rightarrow> SBOM option"
  rc_inventory :: "InventoryRecord \<Rightarrow> string"
  rc_loadInventory :: "string \<Rightarrow> InventoryRecord option"

definition RelSchemaVersion :: int where
  "RelSchemaVersion = 1"

definition DefaultMinimumSLSALevel :: int where
  "DefaultMinimumSLSALevel = 3"

definition InsecureOverrideBanner :: string where
  "InsecureOverrideBanner =
     ''Daemon installed with provenance verification BYPASSED. Production use is unsupported.''"

definition SBOMWarningBanner :: string where
  "SBOMWarningBanner = ''Daemon installed after SBOM vulnerability acknowledgement.''"

section \<open>Digests and severities\<close>

definition rel_normalizeDigest :: "string \<Rightarrow> string option" where
  "rel_normalizeDigest digest =
     (let d = TrimSpace (ToLower digest);
          d = (case CutPrefix d ''sha256:'' of None \<Rightarrow> d | Some r \<Rightarrow> r)
      in if length d \<noteq> 64 then None
         else case hexDecode d of None \<Rightarrow> None | Some decoded \<Rightarrow> Some (''sha256:'' @ hexEncode decoded))"

definition DigestBytes :: "release_codec \<Rightarrow> string \<Rightarrow> string" where
  "DigestBytes k data = ''sha256:'' @ hexEncode (rc_sha256 k data)"

definition isBlockingSeverity :: "string \<Rightarrow> bool" where
  "isBlockingSeverity severity \<longleftrightarrow> ToLower severity \<in> {''high'', ''critical''}"

definition severityRank :: "string \<Rightarrow> nat" where
  "severityRank severity =
     (let s = ToLower severity in
      if s = ''critical'' then 5 else if s = ''high'' then 4 else if s = ''medium'' then 3
      else if s = ''low'' then 2 else 1)"

definition maxFindingSeverity :: "Vulnerability list \<Rightarrow> string" where
  "maxFindingSeverity findings = foldl (\<lambda>out f.
     if severityRank (Vul_Severity f) > severityRank out then Vul_Severity f else out) ''info'' findings"

definition diagnosticCodes :: "RelDiagnostic list \<Rightarrow> string list" where
  "diagnosticCodes diagnostics = sort (map Diag_Code diagnostics)"

text \<open>\<open>2006-01-02T15:04:05.999999999Z\<close>, the layout \<open>RFC3339Nano\<close> in UTC.\<close>

definition fmtRFC3339Nano :: "time \<Rightarrow> string" where
  "fmtRFC3339Nano t =
     (let frac = rev (dropWhile (\<lambda>c. c = CHR ''0'') (rev (fmtInt 9 (Nanosecond t))))
      in fmtInt 4 (Year t) @ ''-'' @ fmtInt 2 (Month t) @ ''-'' @ fmtInt 2 (Day t) @ ''T'' @
         fmtInt 2 (Hour t) @ '':'' @ fmtInt 2 (Minute t) @ '':'' @ fmtInt 2 (Second t) @
         (if frac = [] then [] else CHR ''.'' # frac) @ ''Z'')"

definition eventTime :: "time \<Rightarrow> time \<Rightarrow> time" where
  "eventTime value fallback = (if isZero value then fallback else value)"

section \<open>The parts of the verification\<close>

definition blank :: "string \<Rightarrow> bool" where
  "blank s \<longleftrightarrow> TrimSpace s = []"

definition Manifest_validate :: "Manifest \<Rightarrow> rel_err option" where
  "Manifest_validate m =
     (if Man_SchemaVersion m \<noteq> RelSchemaVersion then Some (RelInvalidManifest ''schemaVersion'')
      else if blank (Man_Version m) then Some (RelInvalidManifest ''version'')
      else if blank (Art_Name (Man_Artifact m)) then Some (RelInvalidManifest ''artifact name'')
      else if rel_normalizeDigest (Art_SHA256 (Man_Artifact m)) = None then Some (RelInvalidManifest ''sha256'')
      else if blank (Man_SourceCommit m) then Some (RelInvalidManifest ''source commit'')
      else if Sig_Algorithm (Man_Signing m) \<noteq> ''ed25519'' then Some (RelInvalidManifest ''algorithm'')
      else if blank (Sig_KeyID (Man_Signing m)) \<or> blank (Sig_Identity (Man_Signing m))
        then Some (RelInvalidManifest ''signing'')
      else if blank (Prov_BuilderID (Man_Provenance m)) \<or> blank (Prov_WorkflowRef (Man_Provenance m))
          \<or> blank (Prov_WorkflowPath (Man_Provenance m)) then Some (RelInvalidManifest ''provenance'')
      else None)"

definition Inventory_validate :: "InventoryRecord \<Rightarrow> rel_err option" where
  "Inventory_validate r =
     (if Inv_SchemaVersion r \<noteq> RelSchemaVersion then Some (RelInventoryInvalid ''schemaVersion'')
      else if Inv_Status r = StatusUnset then Some (RelInventoryInvalid ''status'')
      else if blank (Inv_VerifiedAt r) \<or> blank (Inv_Version r) \<or> blank (Inv_ArtifactName r)
        then Some (RelInventoryInvalid ''metadata'')
      else if rel_normalizeDigest (Inv_Checksum r) = None then Some (RelInventoryInvalid ''checksum'')
      else if rel_normalizeDigest (Inv_SBOMDigest r) = None then Some (RelInventoryInvalid ''sbom digest'')
      else if rel_normalizeDigest (Inv_AttestationDigest r) = None
        then Some (RelInventoryInvalid ''attestation digest'')
      else None)"

definition signaturePayload :: "Manifest \<Rightarrow> string \<Rightarrow> string" where
  "signaturePayload m digest =
     Join [''hoopoe-daemon-release-v1'', Art_Name (Man_Artifact m), digest, Man_SourceCommit m,
       Sig_Identity (Man_Signing m)] (CHR 0x0A)"

text \<open>The first trusted key of the manifest's name decides.\<close>

fun keyCheck :: "release_codec \<Rightarrow> Manifest \<Rightarrow> string \<Rightarrow> string \<Rightarrow> TrustedKey list \<Rightarrow> rel_err option" where
  "keyCheck k m digest signature [] = Some (RelSignatureInvalid ''not found'')"
| "keyCheck k m digest signature (key # ks) =
     (if Key_KeyID key \<noteq> Sig_KeyID (Man_Signing m) \<or> Key_Identity key \<noteq> Sig_Identity (Man_Signing m)
      then keyCheck k m digest signature ks
      else if length (Key_Public key) \<noteq> 32 then Some (RelSignatureInvalid ''public key'')
      else if rc_ed25519Verify k (Key_Public key) (signaturePayload m digest) signature then None
      else Some (RelSignatureInvalid ''payload''))"

definition verifySignature :: "release_codec \<Rightarrow> TrustedKey list \<Rightarrow> Manifest \<Rightarrow> string \<Rightarrow> string \<Rightarrow> rel_err option" where
  "verifySignature k ks m digest signature =
     (if length signature \<noteq> 64 then Some (RelSignatureInvalid ''size'')
      else keyCheck k m digest signature ks)"

definition parseAttestation :: "release_codec \<Rightarrow> string \<Rightarrow> rel_err + Attestation" where
  "parseAttestation k data =
     (case rc_attestation k data of None \<Rightarrow> Inl (RelAttestationInvalid ''decode'')
      | Some a \<Rightarrow> if blank (Att_PredicateType a) \<or> Att_Subjects a = []
          then Inl (RelAttestationInvalid ''incomplete'') else Inr a)"

definition subjectMatches :: "Manifest \<Rightarrow> string \<Rightarrow> ArtifactManifest \<Rightarrow> bool" where
  "subjectMatches m digest s \<longleftrightarrow>
     rel_normalizeDigest (Art_SHA256 s) = Some digest \<and> Art_Name s = Art_Name (Man_Artifact m)"

definition minLevel :: "ProvenancePolicy \<Rightarrow> int" where
  "minLevel p = (if Prov_MinSLSALevel p = 0 then DefaultMinimumSLSALevel else Prov_MinSLSALevel p)"

definition requireReproducible :: "ProvenancePolicy \<Rightarrow> bool" where
  "requireReproducible p = (case Prov_RequireReproducible p of None \<Rightarrow> True | Some b \<Rightarrow> b)"

definition verifyAttestation :: "Manifest \<Rightarrow> Attestation \<Rightarrow> string \<Rightarrow> rel_err option" where
  "verifyAttestation m a digest =
     (let p = Man_Provenance m in
      if Att_SourceCommit a \<noteq> Man_SourceCommit m then Some (RelAttestationInvalid ''source commit'')
      else if Att_BuilderID a \<noteq> Prov_BuilderID p then Some (RelAttestationInvalid ''builder id'')
      else if Att_WorkflowRef a \<noteq> Prov_WorkflowRef p then Some (RelAttestationInvalid ''workflow ref'')
      else if Att_WorkflowPath a \<noteq> Prov_WorkflowPath p then Some (RelAttestationInvalid ''workflow path'')
      else if Att_SLSALevel a < minLevel p then Some (RelAttestationInvalid ''SLSA level'')
      else if requireReproducible p \<and> \<not> Att_Reproducible a then Some (RelAttestationInvalid ''reproducible'')
      else if list_ex (subjectMatches m digest) (Att_Subjects a) then None
      else Some (RelAttestationInvalid ''subject''))"

definition parseSBOM :: "release_codec \<Rightarrow> string \<Rightarrow> rel_err + SBOM" where
  "parseSBOM k data =
     (case rc_sbom k data of None \<Rightarrow> Inl (RelSBOMInvalid ''decode'')
      | Some s \<Rightarrow>
          if Sbom_SchemaVersion s \<noteq> RelSchemaVersion then Inl (RelSBOMInvalid ''schemaVersion'')
          else if Sbom_Packages s = [] then Inl (RelSBOMInvalid ''empty'')
          else if list_ex (\<lambda>p. blank (Pkg_Name p) \<or> blank (Pkg_Version p)) (Sbom_Packages s)
            then Inl (RelSBOMInvalid ''package'')
          else Inr s)"

definition CVEDatabase_validate :: "CVEDatabase \<Rightarrow> rel_err option" where
  "CVEDatabase_validate db =
     (if Cve_SchemaVersion db \<noteq> 0 \<and> Cve_SchemaVersion db \<noteq> RelSchemaVersion
      then Some (RelSBOMInvalid ''cve database schemaVersion'')
      else if list_ex (\<lambda>r. blank (Vul_ID r) \<or> blank (Vul_Package r) \<or> blank (Vul_Severity r)) (Cve_Records db)
        then Some (RelSBOMInvalid ''cve database record'')
      else None)"

section \<open>Vulnerabilities\<close>

definition findingKey :: "Vulnerability \<Rightarrow> string" where
  "findingKey f = Vul_Package f @ CHR 0x00 # Vul_Version f @ CHR 0x00 # Vul_ID f"

fun dedupeFindings :: "string list \<Rightarrow> Vulnerability list \<Rightarrow> Vulnerability list" where
  "dedupeFindings seen [] = []"
| "dedupeFindings seen (f # fs) =
     (if findingKey f \<in> set seen then dedupeFindings seen fs
      else f # dedupeFindings (findingKey f # seen) fs)"

definition sbomFindings :: "Vulnerability list \<Rightarrow> Vulnerability list" where
  "sbomFindings vulns = map (\<lambda>v. if Vul_Source v = [] then v\<lparr>Vul_Source := ''sbom''\<rparr> else v)
     (filter (\<lambda>v. isBlockingSeverity (Vul_Severity v)) vulns)"

definition recordMatches :: "SBOMPackage \<Rightarrow> Vulnerability \<Rightarrow> bool" where
  "recordMatches p r \<longleftrightarrow> isBlockingSeverity (Vul_Severity r) \<and> Vul_Package r = Pkg_Name p \<and>
     (Vul_Version r = [] \<or> Vul_Version r = Pkg_Version p)"

definition recordFinding :: "SBOMPackage \<Rightarrow> Vulnerability \<Rightarrow> Vulnerability" where
  "recordFinding p r = r\<lparr>Vul_Version := (if Vul_Version r \<noteq> [] then Vul_Version r else Pkg_Version p),
     Vul_Source := (if Vul_Source r = [] then ''last-known-good-cve-db'' else Vul_Source r)\<rparr>"

text \<open>
  \<open>sort.Slice\<close> may exchange findings of one package and id; the sort here keeps their order, on which
  only the source shown for a duplicate depends.
\<close>

definition policyFindings :: "SBOM \<Rightarrow> CVEDatabase \<Rightarrow> Vulnerability list" where
  "policyFindings sbom db =
     dedupeFindings [] (sort_key (\<lambda>f. Vul_Package f @ CHR 0x00 # Vul_ID f)
       (sbomFindings (Sbom_Vulnerabilities sbom) @
        concat (map (\<lambda>p. map (recordFinding p) (filter (recordMatches p) (Cve_Records db))) (Sbom_Packages sbom))))"

section \<open>Verify\<close>

definition Override_valid :: "Override \<Rightarrow> bool" where
  "Override_valid o' \<longleftrightarrow> Ovr_Enabled o' \<and> \<not> blank (Ovr_Actor o') \<and> \<not> blank (Ovr_Reason o')"

definition Ack_valid :: "SBOMAcknowledgement \<Rightarrow> bool" where
  "Ack_valid a \<longleftrightarrow> Ack_Accepted a \<and> \<not> blank (Ack_Actor a) \<and> \<not> blank (Ack_Reason a)"

definition Verifier_audit :: "'w Verifier \<Rightarrow> RelAuditEvent \<Rightarrow> 'w \<Rightarrow> string option \<times> 'w" where
  "Verifier_audit v event w = (case Vf_Audit v of None \<Rightarrow> (None, w) | Some sink \<Rightarrow> sink event w)"

definition noAttestation :: Attestation where
  "noAttestation = \<lparr>Att_PredicateType = [], Att_Subjects = [], Att_SourceCommit = [], Att_BuilderID = [],
     Att_WorkflowRef = [], Att_WorkflowPath = [], Att_SLSALevel = 0, Att_Reproducible = False\<rparr>"

definition inventoryRecord ::
  "Manifest \<Rightarrow> Attestation \<Rightarrow> string \<Rightarrow> string \<Rightarrow> string \<Rightarrow> time \<Rightarrow> RelStatus \<Rightarrow> InventoryRecord" where
  "inventoryRecord m a checksum sbomDigest attestationDigest now status =
     \<lparr>Inv_SchemaVersion = RelSchemaVersion, Inv_VerifiedAt = fmtRFC3339Nano now, Inv_Status = status,
      Inv_Version = Man_Version m, Inv_Channel = Man_Channel m, Inv_ArtifactName = Art_Name (Man_Artifact m),
      Inv_Checksum = checksum, Inv_SBOMDigest = sbomDigest, Inv_AttestationDigest = attestationDigest,
      Inv_SourceCommit = Man_SourceCommit m, Inv_BuilderID = Att_BuilderID a,
      Inv_WorkflowRef = Att_WorkflowRef a, Inv_WorkflowPath = Att_WorkflowPath a,
      Inv_SLSALevel = Att_SLSALevel a, Inv_Reproducible = Att_Reproducible a,
      Inv_SigningIdentity = Sig_Identity (Man_Signing m), Inv_SigningKeyID = Sig_KeyID (Man_Signing m),
      Inv_MinDesktopVersion = Compat_MinDesktopVersion (Man_Compatibility m),
      Inv_MinAPIVersion = Compat_MinAPIVersion (Man_Compatibility m), Inv_Override = None,
      Inv_SBOMPolicy = None, Inv_DiagnosticsBanner = []\<rparr>"

definition diag :: "string \<Rightarrow> string \<Rightarrow> RelDiagnostic" where
  "diag code severity = \<lparr>Diag_Code = code, Diag_Severity = severity\<rparr>"

definition refused :: "RelDiagnostic list \<Rightarrow> VerificationResult" where
  "refused diagnostics = \<lparr>Ver_Status = StatusUnset, Ver_Inventory = None, Ver_Diagnostics = diagnostics,
     Ver_DiagnosticsBanner = []\<rparr>"

text \<open>
  The checks before the policy: each failed one has its diagnostic and joins the fatal error. Beside
  them the attestation that was read, or the zero one, and the bill of materials, if it was read.
\<close>

definition releaseChecks ::
  "release_codec \<Rightarrow> TrustedKey list \<Rightarrow> VerifyRequest \<Rightarrow> string \<Rightarrow>
     (RelDiagnostic \<times> rel_err) list \<times> Attestation \<times> SBOM option" where
  "releaseChecks k ks req expected =
     (let m = Vr_Manifest req;
          checksum = (if DigestBytes k (Vr_Binary req) \<noteq> expected
            then [(diag ''checksum_mismatch'' ''critical'', RelChecksumMismatch)] else []);
          signature = (case verifySignature k ks m expected (Vr_Signature req) of None \<Rightarrow> []
            | Some e \<Rightarrow> [(diag ''signature_invalid'' ''critical'', e)]);
          (attestation, att) = (case parseAttestation k (Vr_Attestation req) of
              Inl e \<Rightarrow> ([(diag ''attestation_invalid'' ''critical'', e)], noAttestation)
            | Inr a \<Rightarrow> ((case verifyAttestation m a expected of None \<Rightarrow> []
                | Some e \<Rightarrow> [(diag ''attestation_invalid'' ''critical'', e)]), a));
          (sbom, bill) = (case parseSBOM k (Vr_SBOM req) of
              Inl e \<Rightarrow> ([(diag ''sbom_invalid'' ''critical'', e)], None)
            | Inr s \<Rightarrow> ([], Some s))
      in (checksum @ signature @ attestation @ sbom, att, bill))"

definition overrideEvent :: "release_codec \<Rightarrow> time \<Rightarrow> VerifyRequest \<Rightarrow> RelDiagnostic list \<Rightarrow> RelAuditEvent" where
  "overrideEvent k now req diagnostics =
     \<lparr>Rae_Action = ''release.verification.override'', Rae_Actor = Ovr_Actor (Vr_Override req),
      Rae_Reason = Ovr_Reason (Vr_Override req), Rae_Timestamp = eventTime (Ovr_At (Vr_Override req)) now,
      Rae_Result = ''override'', Rae_Data = OverrideData (Art_Name (Man_Artifact (Vr_Manifest req)))
        (DigestBytes k (Vr_Binary req)) (diagnosticCodes diagnostics)\<rparr>"

definition overridden ::
  "release_codec \<Rightarrow> time \<Rightarrow> VerifyRequest \<Rightarrow> string \<Rightarrow> RelDiagnostic list \<Rightarrow> Attestation \<Rightarrow> VerificationResult" where
  "overridden k now req expected diagnostics att =
     \<lparr>Ver_Status = StatusOverride,
      Ver_Inventory = Some ((inventoryRecord (Vr_Manifest req) att expected (DigestBytes k (Vr_SBOM req))
          (DigestBytes k (Vr_Attestation req)) now StatusOverride)
        \<lparr>Inv_Override := Some \<lparr>Or_Actor = Ovr_Actor (Vr_Override req), Or_Reason = Ovr_Reason (Vr_Override req),
            Or_At = fmtRFC3339Nano (eventTime (Ovr_At (Vr_Override req)) now)\<rparr>,
         Inv_DiagnosticsBanner := InsecureOverrideBanner\<rparr>),
      Ver_Diagnostics = diagnostics @ [diag ''insecure_override'' ''critical''],
      Ver_DiagnosticsBanner = InsecureOverrideBanner\<rparr>"

definition ackEvent :: "time \<Rightarrow> VerifyRequest \<Rightarrow> Vulnerability list \<Rightarrow> RelAuditEvent" where
  "ackEvent now req findings =
     \<lparr>Rae_Action = ''release.sbom.acknowledged'', Rae_Actor = Ack_Actor (Vr_SBOMAcknowledgement req),
      Rae_Reason = Ack_Reason (Vr_SBOMAcknowledgement req),
      Rae_Timestamp = eventTime (Ack_At (Vr_SBOMAcknowledgement req)) now, Rae_Result = ''acknowledged'',
      Rae_Data = AckData (Art_Name (Man_Artifact (Vr_Manifest req))) (length findings)
        (maxFindingSeverity findings)\<rparr>"

definition accepted ::
  "release_codec \<Rightarrow> time \<Rightarrow> VerifyRequest \<Rightarrow> string \<Rightarrow> Attestation \<Rightarrow> Vulnerability list \<Rightarrow> VerificationResult" where
  "accepted k now req expected att findings =
     (let status = (if findings = [] then StatusVerified else StatusWarning);
          banner = (if findings = [] then [] else SBOMWarningBanner);
          record = inventoryRecord (Vr_Manifest req) att expected (DigestBytes k (Vr_SBOM req))
            (DigestBytes k (Vr_Attestation req)) now status
      in \<lparr>Ver_Status = status,
          Ver_Inventory = Some (if findings = [] then record
            else record\<lparr>Inv_SBOMPolicy := Some \<lparr>Sp_AcknowledgedBy = Ack_Actor (Vr_SBOMAcknowledgement req),
                  Sp_AcknowledgedAt = fmtRFC3339Nano (eventTime (Ack_At (Vr_SBOMAcknowledgement req)) now),
                  Sp_Reason = Ack_Reason (Vr_SBOMAcknowledgement req), Sp_Findings = findings\<rparr>,
                Inv_DiagnosticsBanner := banner\<rparr>),
          Ver_Diagnostics = (if findings = [] then []
            else [diag ''sbom_acknowledged'' (maxFindingSeverity findings)]),
          Ver_DiagnosticsBanner = banner\<rparr>)"

text \<open>The policy part, reached when no check failed.\<close>

definition policyPart ::
  "release_codec \<Rightarrow> 'w Verifier \<Rightarrow> time \<Rightarrow> VerifyRequest \<Rightarrow> string \<Rightarrow> Attestation \<Rightarrow> SBOM \<Rightarrow> 'w \<Rightarrow>
     (VerificationResult \<times> rel_err option) \<times> 'w" where
  "policyPart k v now req expected att bill w =
     (case CVEDatabase_validate (Vr_CVEDatabase req) of
        Some e \<Rightarrow> ((refused [diag ''cve_db_invalid'' ''critical''], Some e), w)
      | None \<Rightarrow>
          (let findings = policyFindings bill (Vr_CVEDatabase req) in
           if findings \<noteq> [] \<and> \<not> Ack_valid (Vr_SBOMAcknowledgement req)
           then ((refused [diag ''sbom_ack_required'' (maxFindingSeverity findings)], Some RelSBOMPolicy), w)
           else if findings = [] then ((accepted k now req expected att [], None), w)
           else case Verifier_audit v (ackEvent now req findings) w of
                  (Some e, w') \<Rightarrow> ((refused [], Some (RelAckAudit e)), w')
                | (None, w') \<Rightarrow> ((accepted k now req expected att findings, None), w')))"

definition Verify ::
  "release_codec \<Rightarrow> 'w Verifier \<Rightarrow> time \<Rightarrow> VerifyRequest \<Rightarrow> 'w \<Rightarrow> (VerificationResult \<times> rel_err option) \<times> 'w" where
  "Verify k v now req w =
     (case Manifest_validate (Vr_Manifest req) of Some e \<Rightarrow> ((refused [], Some e), w)
      | None \<Rightarrow>
     (case rel_normalizeDigest (Art_SHA256 (Man_Artifact (Vr_Manifest req))) of
        None \<Rightarrow> ((refused [], Some (RelInvalidManifest ''sha256'')), w)
      | Some expected \<Rightarrow>
          (case releaseChecks k (Vf_TrustedKeys v) req expected of
             ([], att, Some bill) \<Rightarrow> policyPart k v now req expected att bill w
           | (failed, att, _) \<Rightarrow>
               (let diagnostics = map fst failed in
                if \<not> Override_valid (Vr_Override req)
                then ((refused diagnostics, Some (RelOverrideRequired (map snd failed))), w)
                else case Verifier_audit v (overrideEvent k now req diagnostics) w of
                       (Some e, w') \<Rightarrow> ((refused diagnostics, Some (RelOverrideAuditFailure e)), w')
                     | (None, w') \<Rightarrow> ((overridden k now req expected diagnostics att, None), w')))))"

end
