(* ===== verification/Upgrade.thy ===== *)
theory Upgrade
  imports Release
begin

text \<open>
  Package \<open>upgrade\<close>, \<open>service.go\<close>: the service that replaces the daemon's binary. It fetches a release,
  has it verified, checks that the desktop is new enough, backs up, stops the service, installs, starts
  and checks it, and rolls back when one of the last three fails. The interfaces it calls are functions
  on a world \<open>'w\<close>; a clock reading is named after the place that takes it. Error texts are kept as data.

  Every change of the service's state is one critical section. The list of the states after each of
  them, newest first, is what callers of \<open>State\<close> can see while an upgrade runs.
\<close>

section \<open>Data\<close>

datatype upg_err = UpInvalidRequest string | UpInProgress | UpFetch string
  | UpVerificationFailed rel_err | UpAuditOverride string | UpDesktopUpgradeRequired | UpBackupFailed string
  | UpStopFailed string | UpInstallFailed string | UpStartFailed string | UpPostInstallFailed string
  | UpRollbackFailed "string list" upg_err

datatype Phase = PhIdle | PhFetching | PhVerifying | PhBackingUp | PhStopping | PhInstalling | PhStarting
  | PhChecking | PhRollingBack | PhSucceeded | PhFailed | PhRolledBack

datatype WriteMode = WriteModeNormal | WriteModeReadOnlyDiagnostics

record UpgradeState =
  Us_Phase :: Phase
  Us_WriteMode :: WriteMode
  Us_InProgress :: bool
  Us_TargetVersion :: string
  Us_StartedAt :: time
  Us_CompletedAt :: time
  Us_LastError :: "upg_err option"
  Us_InsecureOverride :: bool
  Us_DiagnosticsBanner :: string

definition RefusesWrites :: "UpgradeState \<Rightarrow> bool" where
  "RefusesWrites s \<longleftrightarrow> Us_WriteMode s = WriteModeReadOnlyDiagnostics"

record ReleaseLocation =
  Loc_BinaryURL :: string
  Loc_ManifestURL :: string
  Loc_SignatureURL :: string
  Loc_AttestationURL :: string
  Loc_SBOMURL :: string
  Loc_CVEDatabaseURL :: string

record UpgradeRequest =
  Uq_SchemaVersion :: int
  Uq_Release :: ReleaseLocation
  Uq_TargetBinaryPath :: string
  Uq_InventoryPath :: string
  Uq_DatabasePath :: string
  Uq_ConfigPaths :: "string list"
  Uq_BackupDir :: string
  Uq_CurrentDesktopVersion :: string
  Uq_CurrentAPIVersion :: string
  Uq_ExpectedVersion :: string
  Uq_Override :: Override
  Uq_SBOMAcknowledgement :: SBOMAcknowledgement
  Uq_Actor :: string
  Uq_Reason :: string
  Uq_Force :: bool

record ReleaseBundle =
  Rb_Manifest :: Manifest
  Rb_Binary :: string
  Rb_Signature :: string
  Rb_Attestation :: string
  Rb_SBOM :: string
  Rb_CVEDatabase :: CVEDatabase

record UpgradeResult =
  Ur_Status :: Phase
  Ur_Version :: string
  Ur_BackupID :: string
  Ur_RolledBack :: bool
  Ur_Verification :: VerificationResult
  Ur_Diagnostics :: "RelDiagnostic list"
  Ur_DiagnosticsBanner :: string
  Ur_State :: UpgradeState

record BackupRequest =
  Bq_TargetBinaryPath :: string
  Bq_DatabasePath :: string
  Bq_ConfigPaths :: "string list"
  Bq_BackupDir :: string
  Bq_Version :: string

record BackupFile =
  Bf_Kind :: string
  Bf_SourcePath :: string
  Bf_BackupPath :: string
  Bf_Present :: bool

record BackupRecord =
  Br_ID :: string
  Br_TargetBinaryPath :: string
  Br_DatabasePath :: string
  Br_ConfigPaths :: "string list"
  Br_Files :: "BackupFile list"

record InstallRequest =
  Iq_TargetBinaryPath :: string
  Iq_InventoryPath :: string
  Iq_Binary :: string
  Iq_Inventory :: InventoryRecord

record PostInstallCheck =
  Pc_ExpectedVersion :: string
  Pc_ExpectedAPIVersion :: string
  Pc_CurrentDesktopVersion :: string
  Pc_Inventory :: InventoryRecord

datatype UpAuditData = UpNoData | UpOverrideData string string "string list" string
  | UpFailData string upg_err | UpBackupData string string upg_err | UpDoneData string string RelStatus

record UpAuditEvent =
  Uae_Action :: string
  Uae_Actor :: string
  Uae_Reason :: string
  Uae_Timestamp :: time
  Uae_Result :: string
  Uae_Data :: UpAuditData

text \<open>The dependencies of the service; the audit sink is \<open>NoopAudit\<close> when none is given.\<close>

record 'w Upgrader =
  Up_Fetch :: "(ReleaseLocation \<Rightarrow> 'w \<Rightarrow> (string + ReleaseBundle) \<times> 'w) option"
  Up_Verify :: "(time \<Rightarrow> VerifyRequest \<Rightarrow> 'w \<Rightarrow> (VerificationResult \<times> rel_err option) \<times> 'w) option"
  Up_Backup :: "((BackupRequest \<Rightarrow> 'w \<Rightarrow> (string + BackupRecord) \<times> 'w) \<times>
                 (BackupRecord \<Rightarrow> 'w \<Rightarrow> string option \<times> 'w)) option"
  Up_ServiceManager :: "((nat \<Rightarrow> 'w \<Rightarrow> string option \<times> 'w) \<times> (nat \<Rightarrow> 'w \<Rightarrow> string option \<times> 'w)) option"
  Up_Installer :: "(InstallRequest \<Rightarrow> 'w \<Rightarrow> string option \<times> 'w) option"
  Up_Checker :: "(PostInstallCheck \<Rightarrow> 'w \<Rightarrow> string option \<times> 'w) option"
  Up_Audit :: "(UpAuditEvent \<Rightarrow> 'w \<Rightarrow> string option \<times> 'w) option"

datatype clock_site = AtBegin | AtStarted | AtVerify | AtOverride | AtFinish | AtReport

section \<open>Versions\<close>

definition versionPart :: "string \<Rightarrow> int" where
  "versionPart part =
     (let digits = takeWhile is_digit (TrimSpace part)
      in if digits = [] then 0 else case Atoi digits of None \<Rightarrow> 0 | Some n \<Rightarrow> n)"

definition TrimPrefix :: "string \<Rightarrow> string \<Rightarrow> string" where
  "TrimPrefix s p = (case CutPrefix s p of None \<Rightarrow> s | Some r \<Rightarrow> r)"

definition parseVersion :: "string \<Rightarrow> int list" where
  "parseVersion value =
     (let v = TrimPrefix (TrimSpace (TrimPrefix value ''v'')) ''api-''
      in if v = [] then [] else map versionPart (Split v (CHR ''.'')))"

fun partsAtLeast :: "int list \<Rightarrow> int list \<Rightarrow> bool" where
  "partsAtLeast [] [] = True"
| "partsAtLeast (c # cs) [] = (if c > 0 then True else if c < 0 then False else partsAtLeast cs [])"
| "partsAtLeast [] (m # ms) = (if 0 > m then True else if 0 < m then False else partsAtLeast [] ms)"
| "partsAtLeast (c # cs) (m # ms) = (if c > m then True else if c < m then False else partsAtLeast cs ms)"

definition versionAtLeast :: "string \<Rightarrow> string \<Rightarrow> bool" where
  "versionAtLeast current minimum = partsAtLeast (parseVersion current) (parseVersion minimum)"

definition checkCompatibility :: "Manifest \<Rightarrow> string \<Rightarrow> string \<Rightarrow> upg_err option" where
  "checkCompatibility m currentDesktop currentAPI =
     (let minDesktop = Compat_MinDesktopVersion (Man_Compatibility m);
          minAPI = Compat_MinAPIVersion (Man_Compatibility m)
      in if minDesktop \<noteq> [] \<and> currentDesktop \<noteq> [] \<and> \<not> versionAtLeast currentDesktop minDesktop
         then Some UpDesktopUpgradeRequired
         else if minAPI \<noteq> [] \<and> currentAPI \<noteq> [] \<and> \<not> versionAtLeast currentAPI minAPI
         then Some UpDesktopUpgradeRequired else None)"

section \<open>The state of the service\<close>

type_synonym upgrade_states = "UpgradeState list"

definition idleState :: UpgradeState where
  "idleState = \<lparr>Us_Phase = PhIdle, Us_WriteMode = WriteModeNormal, Us_InProgress = False,
     Us_TargetVersion = [], Us_StartedAt = 0, Us_CompletedAt = 0, Us_LastError = None,
     Us_InsecureOverride = False, Us_DiagnosticsBanner = []\<rparr>"

definition NewService :: upgrade_states where
  "NewService = [idleState]"

definition begin_upgrade :: "(clock_site \<Rightarrow> time) \<Rightarrow> UpgradeRequest \<Rightarrow> upgrade_states \<Rightarrow> upgrade_states option" where
  "begin_upgrade now req ss =
     (if Us_InProgress (hd ss) then None
      else Some (\<lparr>Us_Phase = PhFetching, Us_WriteMode = WriteModeReadOnlyDiagnostics, Us_InProgress = True,
        Us_TargetVersion = Uq_ExpectedVersion req, Us_StartedAt = now AtBegin, Us_CompletedAt = 0,
        Us_LastError = None, Us_InsecureOverride = Ovr_Enabled (Uq_Override req),
        Us_DiagnosticsBanner = []\<rparr> # ss))"

definition setTarget :: "string \<Rightarrow> upgrade_states \<Rightarrow> upgrade_states" where
  "setTarget version ss = (hd ss)\<lparr>Us_TargetVersion := version\<rparr> # ss"

definition setPhase :: "Phase \<Rightarrow> upg_err option \<Rightarrow> string \<Rightarrow> upgrade_states \<Rightarrow> upgrade_states" where
  "setPhase phase lastErr banner ss =
     (hd ss)\<lparr>Us_Phase := phase,
       Us_LastError := (case lastErr of None \<Rightarrow> Us_LastError (hd ss) | Some e \<Rightarrow> Some e),
       Us_DiagnosticsBanner := (if banner \<noteq> [] then banner else Us_DiagnosticsBanner (hd ss))\<rparr> # ss"

definition finish_upgrade ::
  "(clock_site \<Rightarrow> time) \<Rightarrow> Phase \<Rightarrow> upg_err option \<Rightarrow> string \<Rightarrow> bool \<Rightarrow> upgrade_states \<Rightarrow> upgrade_states" where
  "finish_upgrade now phase lastErr banner keepReadOnly ss =
     (hd ss)\<lparr>Us_Phase := phase, Us_InProgress := False,
       Us_WriteMode := (if keepReadOnly then WriteModeReadOnlyDiagnostics else WriteModeNormal),
       Us_CompletedAt := now AtFinish, Us_LastError := lastErr, Us_DiagnosticsBanner := banner\<rparr> # ss"

text \<open>The report; between the end of an upgrade and its report no other one begins here.\<close>

definition upgradeResult :: "string \<Rightarrow> VerificationResult \<Rightarrow> BackupRecord option \<Rightarrow> upgrade_states \<Rightarrow> UpgradeResult" where
  "upgradeResult version verification backup ss =
     \<lparr>Ur_Status = Us_Phase (hd ss), Ur_Version = version,
      Ur_BackupID = (case backup of None \<Rightarrow> [] | Some b \<Rightarrow> Br_ID b), Ur_RolledBack = False,
      Ur_Verification = verification, Ur_Diagnostics = Ver_Diagnostics verification,
      Ur_DiagnosticsBanner = Ver_DiagnosticsBanner verification, Ur_State = hd ss\<rparr>"

definition validateUpgrade :: "'w Upgrader \<Rightarrow> UpgradeRequest \<Rightarrow> upg_err option" where
  "validateUpgrade u req =
     (if Uq_SchemaVersion req \<noteq> 0 \<and> Uq_SchemaVersion req \<noteq> 1 then Some (UpInvalidRequest ''schemaVersion'')
      else if Up_Fetch u = None then Some (UpInvalidRequest ''fetcher'')
      else if Up_Verify u = None then Some (UpInvalidRequest ''verifier'')
      else if Up_Backup u = None then Some (UpInvalidRequest ''backup store'')
      else if Up_ServiceManager u = None then Some (UpInvalidRequest ''service manager'')
      else if Up_Installer u = None then Some (UpInvalidRequest ''installer'')
      else if Up_Checker u = None then Some (UpInvalidRequest ''post-install checker'')
      else if blank (Uq_TargetBinaryPath req) then Some (UpInvalidRequest ''targetBinaryPath'')
      else None)"

section \<open>The upgrade\<close>

definition upAudit :: "'w Upgrader \<Rightarrow> UpAuditEvent \<Rightarrow> 'w \<Rightarrow> string option \<times> 'w" where
  "upAudit u event w = (case Up_Audit u of None \<Rightarrow> (None, w) | Some sink \<Rightarrow> sink event w)"

text \<open>What the steps after the start share: the actor and reason, the version, the verification.\<close>

record upgrade_run =
  Run_Actor :: string
  Run_Reason :: string
  Run_Version :: string
  Run_Verification :: VerificationResult

definition runEvent :: "upgrade_run \<Rightarrow> time \<Rightarrow> string \<Rightarrow> string \<Rightarrow> UpAuditData \<Rightarrow> UpAuditEvent" where
  "runEvent run t action result data = \<lparr>Uae_Action = action, Uae_Actor = Run_Actor run,
     Uae_Reason = Run_Reason run, Uae_Timestamp = t, Uae_Result = result, Uae_Data = data\<rparr>"

definition isRollbackFailed :: "upg_err \<Rightarrow> bool" where
  "isRollbackFailed e = (case e of UpRollbackFailed _ _ \<Rightarrow> True | _ \<Rightarrow> False)"

type_synonym 'w upgrade_end = "(UpgradeResult \<times> upg_err option) \<times> upgrade_states \<times> 'w"

definition fail_upgrade ::
  "'w Upgrader \<Rightarrow> (clock_site \<Rightarrow> time) \<Rightarrow> upgrade_run \<Rightarrow> BackupRecord option \<Rightarrow> upg_err \<Rightarrow> upgrade_states \<Rightarrow> 'w \<Rightarrow>
     'w upgrade_end" where
  "fail_upgrade u now run backup e ss w =
     (let ss' = finish_upgrade now PhFailed (Some e) (Ver_DiagnosticsBanner (Run_Verification run)) (isRollbackFailed e) ss;
          w' = snd (upAudit u (runEvent run (now AtReport) ''daemon.upgrade.failed'' ''failed''
            (UpFailData (Run_Version run) e)) w)
      in ((upgradeResult (Run_Version run) (Run_Verification run) backup ss', Some e), ss', w'))"

definition rollback_upgrade ::
  "'w Upgrader \<Rightarrow> (nat \<Rightarrow> 'w \<Rightarrow> string option \<times> 'w) \<Rightarrow> (nat \<Rightarrow> 'w \<Rightarrow> string option \<times> 'w) \<Rightarrow>
   (BackupRecord \<Rightarrow> 'w \<Rightarrow> string option \<times> 'w) \<Rightarrow> (clock_site \<Rightarrow> time) \<Rightarrow> upgrade_run \<Rightarrow> BackupRecord \<Rightarrow>
   upg_err \<Rightarrow> upgrade_states \<Rightarrow> 'w \<Rightarrow> 'w upgrade_end" where
  "rollback_upgrade u stop start restore now run backup cause ss w =
     (let banner = Ver_DiagnosticsBanner (Run_Verification run);
          ss1 = setPhase PhRollingBack (Some cause) banner ss;
          (e1, w1) = stop 1 w;
          (e2, w2) = restore backup w1;
          (e3, w3) = start 1 w2;
          errs = concat (map (\<lambda>e. case e of None \<Rightarrow> [] | Some m \<Rightarrow> [m]) [e1, e2, e3])
      in if errs \<noteq> [] then
           (let combined = UpRollbackFailed errs cause;
                ss2 = finish_upgrade now PhFailed (Some combined) banner True ss1;
                w4 = snd (upAudit u (runEvent run (now AtReport) ''daemon.upgrade.failed'' ''rollback_failed''
                  (UpBackupData (Run_Version run) (Br_ID backup) combined)) w3)
            in ((upgradeResult (Run_Version run) (Run_Verification run) (Some backup) ss2, Some combined), ss2, w4))
         else
           (let ss2 = finish_upgrade now PhRolledBack (Some cause) banner False ss1;
                w4 = snd (upAudit u (runEvent run (now AtReport) ''daemon.upgrade.rolled_back'' ''rolled_back''
                  (UpBackupData (Run_Version run) (Br_ID backup) cause)) w3)
            in (((upgradeResult (Run_Version run) (Run_Verification run) (Some backup) ss2)
                   \<lparr>Ur_RolledBack := True, Ur_Status := PhRolledBack\<rparr>, Some cause), ss2, w4)))"

definition backupRequestOf :: "UpgradeRequest \<Rightarrow> string \<Rightarrow> BackupRequest" where
  "backupRequestOf req version = \<lparr>Bq_TargetBinaryPath = Uq_TargetBinaryPath req,
     Bq_DatabasePath = Uq_DatabasePath req, Bq_ConfigPaths = Uq_ConfigPaths req,
     Bq_BackupDir = Uq_BackupDir req, Bq_Version = version\<rparr>"

definition installRequestOf :: "UpgradeRequest \<Rightarrow> ReleaseBundle \<Rightarrow> InventoryRecord \<Rightarrow> InstallRequest" where
  "installRequestOf req bundle inventory = \<lparr>Iq_TargetBinaryPath = Uq_TargetBinaryPath req,
     Iq_InventoryPath = Uq_InventoryPath req, Iq_Binary = Rb_Binary bundle, Iq_Inventory = inventory\<rparr>"

definition postCheckOf :: "UpgradeRequest \<Rightarrow> ReleaseBundle \<Rightarrow> InventoryRecord \<Rightarrow> PostInstallCheck" where
  "postCheckOf req bundle inventory =
     \<lparr>Pc_ExpectedVersion = firstNonEmpty [Uq_ExpectedVersion req, Man_Version (Rb_Manifest bundle)],
      Pc_ExpectedAPIVersion = Compat_MinAPIVersion (Man_Compatibility (Rb_Manifest bundle)),
      Pc_CurrentDesktopVersion = Uq_CurrentDesktopVersion req, Pc_Inventory = inventory\<rparr>"

text \<open>From the backup on.\<close>

definition installPart ::
  "'w Upgrader \<Rightarrow> (nat \<Rightarrow> 'w \<Rightarrow> string option \<times> 'w) \<Rightarrow> (nat \<Rightarrow> 'w \<Rightarrow> string option \<times> 'w) \<Rightarrow>
   (BackupRecord \<Rightarrow> 'w \<Rightarrow> string option \<times> 'w) \<Rightarrow> (InstallRequest \<Rightarrow> 'w \<Rightarrow> string option \<times> 'w) \<Rightarrow>
   (PostInstallCheck \<Rightarrow> 'w \<Rightarrow> string option \<times> 'w) \<Rightarrow> (clock_site \<Rightarrow> time) \<Rightarrow> UpgradeRequest \<Rightarrow> ReleaseBundle \<Rightarrow>
   InventoryRecord \<Rightarrow> upgrade_run \<Rightarrow> BackupRecord \<Rightarrow> upgrade_states \<Rightarrow> 'w \<Rightarrow> 'w upgrade_end" where
  "installPart u stop start restore install check now req bundle inventory run backup ss w =
     (let banner = Ver_DiagnosticsBanner (Run_Verification run);
          back = rollback_upgrade u stop start restore now run backup;
          ss1 = setPhase PhInstalling None banner ss
      in case install (installRequestOf req bundle inventory) w of
           (Some e, w1) \<Rightarrow> back (UpInstallFailed e) ss1 w1
         | (None, w1) \<Rightarrow>
      (let ss2 = setPhase PhStarting None banner ss1 in
       case start 0 w1 of (Some e, w2) \<Rightarrow> back (UpStartFailed e) ss2 w2
       | (None, w2) \<Rightarrow>
      (let ss3 = setPhase PhChecking None banner ss2 in
       case check (postCheckOf req bundle inventory) w2 of
         (Some e, w3) \<Rightarrow> back (UpPostInstallFailed e) ss3 w3
       | (None, w3) \<Rightarrow>
           (let ss4 = finish_upgrade now PhSucceeded None banner False ss3;
                w4 = snd (upAudit u (runEvent run (now AtReport) ''daemon.upgrade.succeeded'' ''succeeded''
                  (UpDoneData (Run_Version run) (Br_ID backup) (Ver_Status (Run_Verification run)))) w3)
            in ((upgradeResult (Run_Version run) (Run_Verification run) (Some backup) ss4, None), ss4, w4)))))"

definition backupPart ::
  "'w Upgrader \<Rightarrow> (BackupRequest \<Rightarrow> 'w \<Rightarrow> (string + BackupRecord) \<times> 'w) \<Rightarrow> (nat \<Rightarrow> 'w \<Rightarrow> string option \<times> 'w) \<Rightarrow>
   (clock_site \<Rightarrow> time) \<Rightarrow> UpgradeRequest \<Rightarrow> upgrade_run \<Rightarrow>
   (BackupRecord \<Rightarrow> upgrade_states \<Rightarrow> 'w \<Rightarrow> 'w upgrade_end) \<Rightarrow> upgrade_states \<Rightarrow> 'w \<Rightarrow> 'w upgrade_end" where
  "backupPart u takeBackup stop now req run k ss w =
     (let banner = Ver_DiagnosticsBanner (Run_Verification run);
          ss1 = setPhase PhBackingUp None banner ss
      in case takeBackup (backupRequestOf req (Run_Version run)) w of
           (Inl e, w1) \<Rightarrow> fail_upgrade u now run None (UpBackupFailed e) ss1 w1
         | (Inr backup, w1) \<Rightarrow>
             (let ss2 = setPhase PhStopping None banner ss1 in
              case stop 0 w1 of (Some e, w2) \<Rightarrow> fail_upgrade u now run (Some backup) (UpStopFailed e) ss2 w2
              | (None, w2) \<Rightarrow> k backup ss2 w2))"

definition insecureEvent :: "time \<Rightarrow> UpgradeRequest \<Rightarrow> ReleaseBundle \<Rightarrow> upgrade_run \<Rightarrow> UpAuditEvent" where
  "insecureEvent t req bundle run = \<lparr>Uae_Action = ''daemon.upgrade.insecure_dev_override'',
     Uae_Actor = firstNonEmpty [Ovr_Actor (Uq_Override req), Run_Actor run],
     Uae_Reason = firstNonEmpty [Ovr_Reason (Uq_Override req), Run_Reason run],
     Uae_Timestamp = t, Uae_Result = ''override'',
     Uae_Data = UpOverrideData (Run_Version run) (Art_Name (Man_Artifact (Rb_Manifest bundle)))
       (map Diag_Code (Ver_Diagnostics (Run_Verification run))) ''INSECURE''\<rparr>"

text \<open>An accepted release goes on when its override, if it has one, is audited and the desktop is new enough.\<close>

definition gatePart ::
  "'w Upgrader \<Rightarrow> (clock_site \<Rightarrow> time) \<Rightarrow> UpgradeRequest \<Rightarrow> ReleaseBundle \<Rightarrow> upgrade_run \<Rightarrow> 'w \<Rightarrow>
     upg_err option \<times> 'w" where
  "gatePart u now req bundle run w =
     (case (if Ver_Status (Run_Verification run) = StatusOverride
            then upAudit u (insecureEvent (now AtOverride) req bundle run) w else (None, w)) of
        (Some e, w1) \<Rightarrow> (Some (UpAuditOverride e), w1)
      | (None, w1) \<Rightarrow> (checkCompatibility (Rb_Manifest bundle) (Uq_CurrentDesktopVersion req)
          (Uq_CurrentAPIVersion req), w1))"

definition noVerification :: VerificationResult where
  "noVerification = refused []"

definition verifyRequestOf :: "UpgradeRequest \<Rightarrow> ReleaseBundle \<Rightarrow> VerifyRequest" where
  "verifyRequestOf req bundle = \<lparr>Vr_Manifest = Rb_Manifest bundle, Vr_Binary = Rb_Binary bundle,
     Vr_Signature = Rb_Signature bundle, Vr_Attestation = Rb_Attestation bundle, Vr_SBOM = Rb_SBOM bundle,
     Vr_CVEDatabase = Rb_CVEDatabase bundle, Vr_Override = Uq_Override req,
     Vr_SBOMAcknowledgement = Uq_SBOMAcknowledgement req\<rparr>"

text \<open>The inventory of a result with an error is never looked at; \<open>zeroInventory\<close> is Go's zero value.\<close>

definition zeroInventory :: InventoryRecord where
  "zeroInventory = (inventoryRecord \<lparr>Man_SchemaVersion = 0, Man_Version = [], Man_Channel = [],
     Man_Artifact = \<lparr>Art_Name = [], Art_SHA256 = []\<rparr>, Man_SourceCommit = [],
     Man_Signing = \<lparr>Sig_KeyID = [], Sig_Identity = [], Sig_Algorithm = []\<rparr>,
     Man_Provenance = \<lparr>Prov_BuilderID = [], Prov_WorkflowRef = [], Prov_WorkflowPath = [],
       Prov_MinSLSALevel = 0, Prov_RequireReproducible = None\<rparr>,
     Man_Compatibility = \<lparr>Compat_MinDesktopVersion = [], Compat_MinAPIVersion = []\<rparr>\<rparr> noAttestation [] [] [] 0
     StatusUnset)\<lparr>Inv_SchemaVersion := 0, Inv_VerifiedAt := []\<rparr>"

definition inventoryOf :: "VerificationResult \<Rightarrow> InventoryRecord" where
  "inventoryOf v = (case Ver_Inventory v of None \<Rightarrow> zeroInventory | Some r \<Rightarrow> r)"

definition Upgrade ::
  "'w Upgrader \<Rightarrow> (clock_site \<Rightarrow> time) \<Rightarrow> UpgradeRequest \<Rightarrow> upgrade_states \<Rightarrow> 'w \<Rightarrow> 'w upgrade_end" where
  "Upgrade u now req ss w =
     (case (validateUpgrade u req, Up_Fetch u, Up_Verify u, Up_Backup u, Up_ServiceManager u, Up_Installer u, Up_Checker u) of
        (None, Some fetch, Some verify, Some (takeBackup, restore), Some (stop, start), Some install, Some check) \<Rightarrow>
     (case begin_upgrade now req ss of
        None \<Rightarrow> ((upgradeResult [] noVerification None ss, Some UpInProgress), ss, w)
      | Some ss0 \<Rightarrow>
     (let run0 = \<lparr>Run_Actor = firstNonEmpty [Uq_Actor req, Ovr_Actor (Uq_Override req), ''operator''],
            Run_Reason = firstNonEmpty [Uq_Reason req, Ovr_Reason (Uq_Override req)],
            Run_Version = [], Run_Verification = noVerification\<rparr>;
          w0 = snd (upAudit u (runEvent run0 (now AtStarted) ''daemon.upgrade.started'' ''started'' UpNoData) w);
          ss1 = setPhase PhFetching None [] ss0
      in case fetch (Uq_Release req) w0 of
           (Inl e, w1) \<Rightarrow> fail_upgrade u now run0 None (UpFetch e) ss1 w1
         | (Inr bundle, w1) \<Rightarrow>
      (let ss2 = setPhase PhVerifying None [] (setTarget (Man_Version (Rb_Manifest bundle)) ss1)
       in case verify (now AtVerify) (verifyRequestOf req bundle) w1 of
            ((v, failed), w2) \<Rightarrow>
      (let run = run0\<lparr>Run_Version := Man_Version (Rb_Manifest bundle), Run_Verification := v\<rparr>
       in case failed of Some e \<Rightarrow> fail_upgrade u now run None (UpVerificationFailed e) ss2 w2
          | None \<Rightarrow>
              (case gatePart u now req bundle run w2 of
                 (Some e, w3) \<Rightarrow> fail_upgrade u now run None e ss2 w3
               | (None, w3) \<Rightarrow>
                   backupPart u takeBackup stop now req run
                     (installPart u stop start restore install check now req bundle (inventoryOf v) run) ss2 w3)))))
      | (e, _) \<Rightarrow> ((upgradeResult [] noVerification None ss, e), ss, w))"

section \<open>The HTTP handler\<close>

datatype upg_response = UpProblem int string "UpgradeResult option" | UpShowState UpgradeState
  | UpAccepted UpgradeResult

definition statusForError :: "upg_err \<Rightarrow> int" where
  "statusForError e = (case e of UpInvalidRequest _ \<Rightarrow> 400 | UpInProgress \<Rightarrow> 409
     | UpVerificationFailed _ \<Rightarrow> 412 | UpDesktopUpgradeRequired \<Rightarrow> 412
     | UpBackupFailed _ \<Rightarrow> 500 | UpRollbackFailed _ _ \<Rightarrow> 500 | _ \<Rightarrow> 502)"

definition codeForError :: "upg_err \<Rightarrow> string" where
  "codeForError e = (case e of UpInvalidRequest _ \<Rightarrow> ''upgrade.invalid_request''
     | UpInProgress \<Rightarrow> ''upgrade.in_progress''
     | UpVerificationFailed _ \<Rightarrow> ''upgrade.verification_failed''
     | UpDesktopUpgradeRequired \<Rightarrow> ''upgrade.desktop_upgrade_required''
     | UpBackupFailed _ \<Rightarrow> ''upgrade.backup_failed''
     | UpRollbackFailed _ _ \<Rightarrow> ''upgrade.rollback_failed''
     | UpPostInstallFailed _ \<Rightarrow> ''upgrade.post_install_failed'' | _ \<Rightarrow> ''upgrade.failed'')"

text \<open>The body is the decoded request, or \<open>None\<close> when it does not decode; no service is \<open>None\<close>.\<close>

definition ServeHTTP ::
  "'w Upgrader option \<Rightarrow> (clock_site \<Rightarrow> time) \<Rightarrow> string \<Rightarrow> UpgradeRequest option \<Rightarrow> upgrade_states \<Rightarrow> 'w \<Rightarrow>
     upg_response \<times> upgrade_states \<times> 'w" where
  "ServeHTTP service now verb body ss w =
     (if verb = ''GET'' then
        (case service of None \<Rightarrow> (UpProblem 503 ''upgrade_unavailable'' None, ss, w)
         | Some _ \<Rightarrow> (UpShowState (hd ss), ss, w))
      else if verb = ''POST'' then
        (case service of None \<Rightarrow> (UpProblem 503 ''upgrade_unavailable'' None, ss, w)
         | Some u \<Rightarrow>
             (case body of None \<Rightarrow> (UpProblem 400 ''invalid_json'' None, ss, w)
              | Some req \<Rightarrow>
                  (case Upgrade u now req ss w of
                     ((r, Some e), ss', w') \<Rightarrow> (UpProblem (statusForError e) (codeForError e) (Some r), ss', w')
                   | ((r, None), ss', w') \<Rightarrow> (UpAccepted r, ss', w'))))
      else (UpProblem 405 ''method_not_allowed'' None, ss, w))"

end
