(* ===== verification/ReleaseProps.thy ===== *)
theory ReleaseProps
  imports Upgrade
begin

text \<open>
  What the verification of a release accepts, as one condition; which fields of a manifest its signature
  leaves open; that the vulnerability policy reports every blocking vulnerability; and that versions are
  compared as numbers, part by part.
\<close>

section \<open>Acceptance\<close>

definition trustedKeyFor :: "TrustedKey list \<Rightarrow> Manifest \<Rightarrow> TrustedKey option" where
  "trustedKeyFor ks m = find (\<lambda>key. Key_KeyID key = Sig_KeyID (Man_Signing m) \<and>
     Key_Identity key = Sig_Identity (Man_Signing m)) ks"

definition signed :: "release_codec \<Rightarrow> TrustedKey list \<Rightarrow> Manifest \<Rightarrow> string \<Rightarrow> string \<Rightarrow> bool" where
  "signed k ks m digest signature \<longleftrightarrow> length signature = 64 \<and>
     (\<exists>key. trustedKeyFor ks m = Some key \<and> length (Key_Public key) = 32 \<and>
        rc_ed25519Verify k (Key_Public key) (signaturePayload m digest) signature)"

definition attested :: "Manifest \<Rightarrow> Attestation \<Rightarrow> string \<Rightarrow> bool" where
  "attested m a digest \<longleftrightarrow>
     Att_SourceCommit a = Man_SourceCommit m \<and> Att_BuilderID a = Prov_BuilderID (Man_Provenance m) \<and>
     Att_WorkflowRef a = Prov_WorkflowRef (Man_Provenance m) \<and>
     Att_WorkflowPath a = Prov_WorkflowPath (Man_Provenance m) \<and>
     minLevel (Man_Provenance m) \<le> Att_SLSALevel a \<and>
     (requireReproducible (Man_Provenance m) \<longrightarrow> Att_Reproducible a) \<and>
     (\<exists>s \<in> set (Att_Subjects a). Art_Name s = Art_Name (Man_Artifact m) \<and>
        rel_normalizeDigest (Art_SHA256 s) = Some digest)"

text \<open>
  A genuine release: the binary has the manifest's digest, a trusted key signed it, the attestation
  speaks of it, and the bill of materials can be read.
\<close>

definition genuine :: "release_codec \<Rightarrow> TrustedKey list \<Rightarrow> VerifyRequest \<Rightarrow> string \<Rightarrow> Attestation \<Rightarrow> SBOM \<Rightarrow> bool" where
  "genuine k ks req digest a bill \<longleftrightarrow>
     DigestBytes k (Vr_Binary req) = digest \<and> signed k ks (Vr_Manifest req) digest (Vr_Signature req) \<and>
     parseAttestation k (Vr_Attestation req) = Inr a \<and> attested (Vr_Manifest req) a digest \<and>
     parseSBOM k (Vr_SBOM req) = Inr bill"

lemma keyCheck_iff: "keyCheck k m digest sig ks = None \<longleftrightarrow>
  (\<exists>key. trustedKeyFor ks m = Some key \<and> length (Key_Public key) = 32 \<and>
     rc_ed25519Verify k (Key_Public key) (signaturePayload m digest) sig)"
  by (induction ks) (auto simp: trustedKeyFor_def)

lemma verifySignature_iff: "verifySignature k ks m digest sig = None \<longleftrightarrow> signed k ks m digest sig"
  by (simp add: verifySignature_def signed_def keyCheck_iff)

lemma verifyAttestation_iff: "verifyAttestation m a digest = None \<longleftrightarrow> attested m a digest"
  by (auto simp: verifyAttestation_def attested_def Let_def list_ex_iff subjectMatches_def)

lemma releaseChecks_pass:
  "releaseChecks k ks req digest = ([], a, Some bill) \<longleftrightarrow> genuine k ks req digest a bill"
  by (auto simp: releaseChecks_def genuine_def Let_def verifySignature_iff [symmetric]
      verifyAttestation_iff [symmetric] split: option.splits sum.splits prod.splits)

lemma releaseChecks_bill: "releaseChecks k ks req digest = ([], a, b) \<Longrightarrow> b \<noteq> None"
  by (auto simp: releaseChecks_def Let_def split: option.splits sum.splits prod.splits if_splits)

definition manifestDigest :: "VerifyRequest \<Rightarrow> string option" where
  "manifestDigest req = (if Manifest_validate (Vr_Manifest req) = None
     then rel_normalizeDigest (Art_SHA256 (Man_Artifact (Vr_Manifest req))) else None)"

text \<open>The vulnerability policy: nothing to report, or an acknowledgement that is audited.\<close>

definition policyCleared :: "'w Verifier \<Rightarrow> time \<Rightarrow> VerifyRequest \<Rightarrow> SBOM \<Rightarrow> 'w \<Rightarrow> 'w \<Rightarrow> bool" where
  "policyCleared v now req bill w w' \<longleftrightarrow>
     CVEDatabase_validate (Vr_CVEDatabase req) = None \<and>
     (let findings = policyFindings bill (Vr_CVEDatabase req) in
      if findings = [] then w' = w
      else Ack_valid (Vr_SBOMAcknowledgement req) \<and> Verifier_audit v (ackEvent now req findings) w = (None, w'))"

definition overrideAudited ::
  "release_codec \<Rightarrow> 'w Verifier \<Rightarrow> time \<Rightarrow> VerifyRequest \<Rightarrow> RelDiagnostic list \<Rightarrow> 'w \<Rightarrow> 'w \<Rightarrow> bool" where
  "overrideAudited k v now req diagnostics w w' \<longleftrightarrow> diagnostics \<noteq> [] \<and> Override_valid (Vr_Override req) \<and>
     Verifier_audit v (overrideEvent k now req diagnostics) w = (None, w')"

lemma policyPart_accepts:
  "policyPart k v now req digest a bill w = ((r, None), w') \<longleftrightarrow>
     r = accepted k now req digest a (policyFindings bill (Vr_CVEDatabase req)) \<and>
     policyCleared v now req bill w w'"
  by (auto simp: policyPart_def policyCleared_def Let_def split: option.splits prod.splits if_splits)

lemma Verify_genuine:
  assumes "manifestDigest req = Some digest" "genuine k (Vf_TrustedKeys v) req digest a bill"
  shows "Verify k v now req w = policyPart k v now req digest a bill w"
  using assms by (auto simp: Verify_def manifestDigest_def releaseChecks_pass [symmetric] split: if_splits)

lemma accepted_status: "Ver_Status (accepted k now req digest a fs) \<noteq> StatusOverride"
  by (simp add: accepted_def Let_def)

lemma Verify_accepts:
  "Verify k v now req w = ((r, None), w') \<longleftrightarrow>
     (\<exists>digest a bill. manifestDigest req = Some digest \<and> genuine k (Vf_TrustedKeys v) req digest a bill \<and>
        policyCleared v now req bill w w' \<and>
        r = accepted k now req digest a (policyFindings bill (Vr_CVEDatabase req))) \<or>
     (\<exists>digest failed a b. manifestDigest req = Some digest \<and>
        releaseChecks k (Vf_TrustedKeys v) req digest = (failed, a, b) \<and>
        overrideAudited k v now req (map fst failed) w w' \<and>
        r = overridden k now req digest (map fst failed) a)"
  (is "?L \<longleftrightarrow> ?G \<or> ?O")
proof (cases "manifestDigest req")
  case None
  then have "snd (fst (Verify k v now req w)) \<noteq> None"
    by (auto simp: Verify_def manifestDigest_def split: option.splits if_splits)
  with None show ?thesis by auto
next
  case (Some digest)
  obtain failed a b where c: "releaseChecks k (Vf_TrustedKeys v) req digest = (failed, a, b)"
    by (metis prod_cases3)
  show ?thesis
  proof (cases failed)
    case Nil
    with c releaseChecks_bill obtain bill where b: "b = Some bill" by blast
    from c Nil b have g: "genuine k (Vf_TrustedKeys v) req digest a bill" by (simp add: releaseChecks_pass)
    have u: "genuine k (Vf_TrustedKeys v) req digest a' bill' \<longleftrightarrow> a' = a \<and> bill' = bill" for a' bill'
      using c Nil b by (auto simp: releaseChecks_pass [symmetric])
    show ?thesis using Some c Nil u
      by (auto simp: Verify_genuine [OF Some g] policyPart_accepts overrideAudited_def)
  next
    case (Cons f fs)
    with c have g: "\<not> genuine k (Vf_TrustedKeys v) req digest a' bill'" for a' bill'
      by (simp add: releaseChecks_pass [symmetric])
    from Some c Cons have "?L \<longleftrightarrow> overrideAudited k v now req (map fst failed) w w' \<and>
        r = overridden k now req digest (map fst failed) a"
      by (auto simp: Verify_def manifestDigest_def overrideAudited_def Let_def split: if_splits option.splits prod.splits)
    with Some c g show ?thesis by auto
  qed
qed

text \<open>
  A verification succeeds in one of two ways. The release is genuine and its vulnerabilities are none
  or acknowledged; then the status is not that of an override. Or some check failed, the override names
  an actor and a reason, and its event, with the codes of all failed checks, is in the audit log.
\<close>

theorem release_accepted_iff:
  "Verify k v now req w = ((r, None), w') \<longleftrightarrow>
     (\<exists>digest a bill. manifestDigest req = Some digest \<and> genuine k (Vf_TrustedKeys v) req digest a bill \<and>
        policyCleared v now req bill w w' \<and>
        r = accepted k now req digest a (policyFindings bill (Vr_CVEDatabase req))) \<or>
     (\<exists>digest failed a b. manifestDigest req = Some digest \<and>
        releaseChecks k (Vf_TrustedKeys v) req digest = (failed, a, b) \<and>
        overrideAudited k v now req (map fst failed) w w' \<and>
        r = overridden k now req digest (map fst failed) a)"
  by (rule Verify_accepts)

section \<open>What the signature covers\<close>

text \<open>
  A manifest with another version, other compatibility bounds and another provenance policy, which asks
  for nothing, and an attestation that anyone can write for it.
\<close>

definition reissued :: "VerifyRequest \<Rightarrow> string \<Rightarrow> string \<Rightarrow> Compatibility \<Rightarrow> string \<Rightarrow> VerifyRequest" where
  "reissued req builder version c att = req\<lparr>Vr_Manifest := (Vr_Manifest req)\<lparr>Man_Version := version,
     Man_Provenance := \<lparr>Prov_BuilderID = builder, Prov_WorkflowRef = builder, Prov_WorkflowPath = builder,
       Prov_MinSLSALevel = -1, Prov_RequireReproducible = Some False\<rparr>,
     Man_Compatibility := c\<rparr>, Vr_Attestation := att\<rparr>"

definition ownAttestation :: "VerifyRequest \<Rightarrow> string \<Rightarrow> Attestation" where
  "ownAttestation req builder = \<lparr>Att_PredicateType = builder, Att_Subjects = [Man_Artifact (Vr_Manifest req)],
     Att_SourceCommit = Man_SourceCommit (Vr_Manifest req), Att_BuilderID = builder,
     Att_WorkflowRef = builder, Att_WorkflowPath = builder, Att_SLSALevel = 0, Att_Reproducible = False\<rparr>"

lemma payload_reissued:
  "signaturePayload (Vr_Manifest (reissued req builder version c att)) digest = signaturePayload (Vr_Manifest req) digest"
  by (simp add: signaturePayload_def reissued_def)

lemma signed_reissued:
  "signed k ks (Vr_Manifest (reissued req builder version c att)) digest sig \<longleftrightarrow> signed k ks (Vr_Manifest req) digest sig"
  by (simp add: signed_def payload_reissued) (simp add: trustedKeyFor_def reissued_def)

lemma genuine_reissued:
  assumes "genuine k ks req digest a bill" "manifestDigest req = Some digest"
    and "rc_attestation k att = Some (ownAttestation req builder)" "\<not> blank builder" "\<not> blank version"
  shows "genuine k ks (reissued req builder version c att) digest (ownAttestation req builder) bill"
    and "manifestDigest (reissued req builder version c att) = Some digest"
proof -
  let ?req = "reissued req builder version c att"
  have same: "Vr_Binary ?req = Vr_Binary req" "Vr_Signature ?req = Vr_Signature req"
    "Vr_SBOM ?req = Vr_SBOM req" "Vr_Attestation ?req = att" by (simp_all add: reissued_def)
  have d: "rel_normalizeDigest (Art_SHA256 (Man_Artifact (Vr_Manifest req))) = Some digest"
    using assms(2) by (simp add: manifestDigest_def split: if_splits)
  have "attested (Vr_Manifest ?req) (ownAttestation req builder) digest"
    using d by (simp add: attested_def reissued_def ownAttestation_def minLevel_def requireReproducible_def)
  moreover have "parseAttestation k att = Inr (ownAttestation req builder)"
    using assms(3,4) by (simp add: parseAttestation_def ownAttestation_def)
  ultimately show "genuine k ks ?req digest (ownAttestation req builder) bill"
    using assms(1) by (simp add: genuine_def same signed_reissued)
  show "manifestDigest ?req = Some digest"
    using assms(2,4,5) by (auto simp: manifestDigest_def Manifest_validate_def reissued_def split: if_splits)
qed

text \<open>
  C34. The signature covers the artifact's name and digest, the source commit and the identity, nothing else
  of the manifest; and the attestation is compared with the manifest only. So a genuine release is
  accepted again under any version, any compatibility bounds and any builder, by whoever can serve the
  manifest and the attestation, and the inventory then records the claimed version and builder.
\<close>

theorem signature_leaves_policy_open:
  assumes "Verify k v now req w = ((r, None), w')" "Ver_Status r \<noteq> StatusOverride"
    and "rc_attestation k att = Some (ownAttestation req builder)" "\<not> blank builder" "\<not> blank version"
  shows "\<exists>r'. Verify k v now (reissued req builder version c att) w = ((r', None), w') \<and>
    Ver_Status r' = Ver_Status r \<and>
    map_option Inv_Version (Ver_Inventory r') = Some version \<and>
    map_option Inv_BuilderID (Ver_Inventory r') = Some builder"
proof -
  let ?req = "reissued req builder version c att"
  have "overridden k now req digest ds a \<noteq> r" for digest ds a using assms(2) by (auto simp: overridden_def)
  with assms(1) [unfolded Verify_accepts] obtain digest a bill where
    d: "manifestDigest req = Some digest" and g: "genuine k (Vf_TrustedKeys v) req digest a bill"
    and p: "policyCleared v now req bill w w'"
    and r: "r = accepted k now req digest a (policyFindings bill (Vr_CVEDatabase req))" by blast
  have g': "genuine k (Vf_TrustedKeys v) ?req digest (ownAttestation req builder) bill"
    and d': "manifestDigest ?req = Some digest"
    by (rule genuine_reissued [OF g d assms(3-5)])+
  have "Vr_CVEDatabase ?req = Vr_CVEDatabase req" "Vr_SBOMAcknowledgement ?req = Vr_SBOMAcknowledgement req"
    "ackEvent now ?req = ackEvent now req" by (auto simp: reissued_def ackEvent_def)
  with p have p': "policyCleared v now ?req bill w w'" by (simp only: policyCleared_def)
  have f: "policyFindings bill (Vr_CVEDatabase ?req) = policyFindings bill (Vr_CVEDatabase req)"
    by (simp add: reissued_def)
  let ?r = "accepted k now ?req digest (ownAttestation req builder) (policyFindings bill (Vr_CVEDatabase req))"
  have "Verify k v now ?req w = ((?r, None), w')"
    unfolding Verify_accepts using d' g' p' f by metis
  moreover have "Ver_Status ?r = Ver_Status r" "map_option Inv_Version (Ver_Inventory ?r) = Some version"
    "map_option Inv_BuilderID (Ver_Inventory ?r) = Some builder"
    by (simp_all add: r accepted_def inventoryRecord_def Let_def reissued_def ownAttestation_def)
  ultimately show ?thesis by blast
qed

text \<open>
  An override accepts a binary whose digest is not the manifest's, and the inventory still records the
  manifest's digest as that of the installed binary.
\<close>

theorem override_records_other_digest:
  assumes "Verify k v now req w = ((r, None), w')" "Ver_Status r = StatusOverride"
    and "manifestDigest req = Some digest" "DigestBytes k (Vr_Binary req) \<noteq> digest"
  shows "map_option Inv_Checksum (Ver_Inventory r) = Some digest"
proof -
  from assms(1) [unfolded Verify_accepts] accepted_status assms(2,3) obtain ds a
    where "r = overridden k now req digest ds a" by (metis option.inject)
  then show ?thesis by (simp add: overridden_def inventoryRecord_def)
qed

section \<open>The vulnerability policy\<close>

lemma dedupe_keys: "findingKey ` set (dedupeFindings seen fs) = findingKey ` set fs - set seen"
  by (induction seen fs rule: dedupeFindings.induct) auto

lemma dedupe_subset: "set (dedupeFindings seen fs) \<subseteq> set fs"
  by (induction seen fs rule: dedupeFindings.induct) auto

lemma dedupe_distinct: "distinct (map findingKey (dedupeFindings seen fs))"
proof (induction seen fs rule: dedupeFindings.induct)
  case (2 seen f fs)
  have "findingKey f \<notin> findingKey ` set (dedupeFindings (findingKey f # seen) fs)"
    by (simp add: dedupe_keys)
  with 2 show ?case by simp
qed simp

lemma findingKey_source [simp]: "findingKey (v\<lparr>Vul_Source := s\<rparr>) = findingKey v"
  by (simp add: findingKey_def)

lemma sbom_keys: "findingKey ` set (sbomFindings vs) = findingKey ` {u \<in> set vs. isBlockingSeverity (Vul_Severity u)}"
proof -
  let ?named = "\<lambda>u. if Vul_Source u = [] then u\<lparr>Vul_Source := ''sbom''\<rparr> else u"
  have "set (sbomFindings vs) = ?named ` {u \<in> set vs. isBlockingSeverity (Vul_Severity u)}"
    by (simp only: sbomFindings_def set_map set_filter)
  moreover have "findingKey (?named u) = findingKey u" for u by simp
  ultimately show ?thesis by (simp only: image_image)
qed

text \<open>
  The findings stand for the blocking vulnerabilities, each once: those the bill of materials lists, and
  those of the database whose record names a package of the bill, at its version or at any.
\<close>

theorem policy_findings_exact:
  "findingKey ` set (policyFindings bill db) =
     findingKey ` {u \<in> set (Sbom_Vulnerabilities bill). isBlockingSeverity (Vul_Severity u)} \<union>
     (\<Union>p \<in> set (Sbom_Packages bill). findingKey ` recordFinding p ` {u \<in> set (Cve_Records db). recordMatches p u}) \<and>
   distinct (map findingKey (policyFindings bill db)) \<and>
   list_all (\<lambda>u. isBlockingSeverity (Vul_Severity u)) (policyFindings bill db)"
proof (intro conjI)
  let ?all = "sbomFindings (Sbom_Vulnerabilities bill) @
    concat (map (\<lambda>p. map (recordFinding p) (filter (recordMatches p) (Cve_Records db))) (Sbom_Packages bill))"
  have "findingKey ` set (policyFindings bill db) = findingKey ` set ?all"
    by (simp add: policyFindings_def dedupe_keys)
  also have "\<dots> = findingKey ` {u \<in> set (Sbom_Vulnerabilities bill). isBlockingSeverity (Vul_Severity u)} \<union>
     (\<Union>p \<in> set (Sbom_Packages bill). findingKey ` recordFinding p ` {u \<in> set (Cve_Records db). recordMatches p u})"
    by (simp add: sbom_keys image_Un image_UN image_image)
  finally show "findingKey ` set (policyFindings bill db) = \<dots>" .
  show "distinct (map findingKey (policyFindings bill db))" by (simp add: policyFindings_def dedupe_distinct)
  have "set (policyFindings bill db) \<subseteq> set ?all" using dedupe_subset by (fastforce simp: policyFindings_def)
  moreover have "\<forall>u \<in> set ?all. isBlockingSeverity (Vul_Severity u)"
    by (auto simp: sbomFindings_def recordMatches_def recordFinding_def)
  ultimately show "list_all (\<lambda>u. isBlockingSeverity (Vul_Severity u)) (policyFindings bill db)"
    by (auto simp: list_all_iff)
qed

section \<open>Versions\<close>

definition padTo :: "nat \<Rightarrow> int list \<Rightarrow> int list" where
  "padTo n xs = xs @ replicate (n - length xs) 0"

lemma atLeast_padded:
  "length cs \<le> n \<Longrightarrow> length ms \<le> n \<Longrightarrow> partsAtLeast cs ms \<longleftrightarrow> padTo n ms \<le> padTo n cs"
proof (induction cs ms arbitrary: n rule: partsAtLeast.induct)
  case (2 c cs)
  then obtain n' where n: "n = Suc n'" "length cs \<le> n'" by (cases n) auto
  with 2(1) [of n'] show ?case by (auto simp: padTo_def)
next
  case (3 m ms)
  then obtain n' where n: "n = Suc n'" "length ms \<le> n'" by (cases n) auto
  with 3(1) [of n'] show ?case by (auto simp: padTo_def)
next
  case (4 c cs m ms)
  then obtain n' where n: "n = Suc n'" "length cs \<le> n'" "length ms \<le> n'" by (cases n) auto
  with 4(1) [of n'] show ?case by (auto simp: padTo_def)
qed (simp add: padTo_def)

text \<open>
  One version is at least another exactly when its parts, filled up with zeros, are not smaller in the
  order of lists.
\<close>

theorem version_order_lexicographic:
  "versionAtLeast a b \<longleftrightarrow>
     padTo (max (length (parseVersion a)) (length (parseVersion b))) (parseVersion b) \<le>
     padTo (max (length (parseVersion a)) (length (parseVersion b))) (parseVersion a)"
  unfolding versionAtLeast_def by (rule atLeast_padded) simp_all

text \<open>A part too large for an integer counts as zero, so a huge version is older than version 1.\<close>

theorem huge_version_is_old:
  "\<not> versionAtLeast ''99999999999999999999.0'' ''1.0''"
  by code_simp

end
