(* ===== verification/UpgradeFiles.thy ===== *)
theory UpgradeFiles
  imports Upgrade GoPath
begin

text \<open>
  Package \<open>upgrade\<close>, \<open>io.go\<close>, and the inventory file of package \<open>release\<close>: the fetcher over HTTP, the
  backup store and the installer on files, and the service manager over \<open>systemctl\<close>. The file system is
  a map from paths to nodes; directories other than those standing at a path that is used are left out.
  What may fail is given per path: before anything is written, or with a temporary file left behind.
\<close>

section \<open>Fetching\<close>

datatype http_reply = HttpError string | HttpReply int string

record fetch_codec =
  fc_manifest :: "string \<Rightarrow> Manifest option"
  fc_cveDatabase :: "string \<Rightarrow> CVEDatabase option"

definition defaultDownloadLimit :: int where
  "defaultDownloadLimit = 256 * 2 ^ 20"

text \<open>The reader is limited to one byte more than allowed; the addition is of 64-bit numbers.\<close>

definition fetchURL :: "(string \<Rightarrow> http_reply) \<Rightarrow> int \<Rightarrow> string \<Rightarrow> string + string" where
  "fetchURL get limit rawURL =
     (if blank rawURL then Inl ''url is required''
      else case get rawURL of HttpError e \<Rightarrow> Inl e
        | HttpReply status body \<Rightarrow>
            if status < 200 \<or> status \<ge> 300 then Inl ''unexpected status''
            else let data = take (nat (wrap64 (limit + 1))) body
              in if int (length data) > limit then Inl ''response too long'' else Inr data)"

definition HTTPFetch ::
  "fetch_codec \<Rightarrow> (string \<Rightarrow> http_reply) \<Rightarrow> int \<Rightarrow> ReleaseLocation \<Rightarrow> string + ReleaseBundle" where
  "HTTPFetch c get maxBytes loc =
     (let limit = (if maxBytes \<le> 0 then defaultDownloadLimit else maxBytes);
          fetch = fetchURL get limit
      in case fetch (Loc_BinaryURL loc) of Inl e \<Rightarrow> Inl e | Inr binary \<Rightarrow>
        (case fetch (Loc_ManifestURL loc) of Inl e \<Rightarrow> Inl e | Inr manifestBytes \<Rightarrow>
        (case fetch (Loc_SignatureURL loc) of Inl e \<Rightarrow> Inl e | Inr signature \<Rightarrow>
        (case fetch (Loc_AttestationURL loc) of Inl e \<Rightarrow> Inl e | Inr attestation \<Rightarrow>
        (case fetch (Loc_SBOMURL loc) of Inl e \<Rightarrow> Inl e | Inr sbom \<Rightarrow>
        (case fc_manifest c manifestBytes of None \<Rightarrow> Inl ''manifest decode'' | Some manifest \<Rightarrow>
          (let bundle = (\<lambda>db. \<lparr>Rb_Manifest = manifest, Rb_Binary = binary, Rb_Signature = signature,
                 Rb_Attestation = attestation, Rb_SBOM = sbom, Rb_CVEDatabase = db\<rparr>)
           in if blank (Loc_CVEDatabaseURL loc)
              then Inr (bundle \<lparr>Cve_SchemaVersion = RelSchemaVersion, Cve_GeneratedAt = [], Cve_Records = []\<rparr>)
              else case fetch (Loc_CVEDatabaseURL loc) of Inl e \<Rightarrow> Inl e
                | Inr cveBytes \<Rightarrow> (case fc_cveDatabase c cveBytes of None \<Rightarrow> Inl ''cve database decode''
                    | Some db \<Rightarrow> Inr (bundle db)))))))))"

section \<open>Files\<close>

datatype node = NFile string nat | NDir

type_synonym files = "string \<Rightarrow> node option"

datatype io_fault = IoOk | IoEarly string | IoTemp string

type_synonym io_faults = "string \<Rightarrow> io_fault"

definition tmpPath :: "string \<Rightarrow> string" where
  "tmpPath path = path @ ''.tmp''"

text \<open>Data to a temporary file beside the destination, which then replaces it.\<close>

definition writeFileAtomic :: "io_faults \<Rightarrow> string \<Rightarrow> string \<Rightarrow> nat \<Rightarrow> files \<Rightarrow> string option \<times> files" where
  "writeFileAtomic io dst data mode fs =
     (case io dst of IoEarly e \<Rightarrow> (Some e, fs)
      | IoTemp part \<Rightarrow> if fs (tmpPath dst) = Some NDir then (Some ''write temp'', fs)
          else (Some ''write temp'', fs(tmpPath dst \<mapsto> NFile part mode))
      | IoOk \<Rightarrow>
          if fs (tmpPath dst) = Some NDir then (Some ''write temp'', fs)
          else if fs dst = Some NDir then (Some ''rename'', fs(tmpPath dst \<mapsto> NFile data mode))
          else (None, fs(tmpPath dst := None, dst \<mapsto> NFile data mode)))"

text \<open>
  Opening the temporary file truncates it, also when it is the source. Mode 0 stands for the source's
  mode, or \<open>0o600\<close>.
\<close>

definition copyMode :: "nat \<Rightarrow> nat \<Rightarrow> nat" where
  "copyMode mode srcMode = (if mode \<noteq> 0 then mode else if srcMode \<noteq> 0 then srcMode else 384)"

definition copyFileAtomic :: "io_faults \<Rightarrow> string \<Rightarrow> string \<Rightarrow> nat \<Rightarrow> files \<Rightarrow> string option \<times> files" where
  "copyFileAtomic io src dst mode fs =
     (case io dst of IoEarly e \<Rightarrow> (Some e, fs)
      | _ \<Rightarrow>
     (case fs src of None \<Rightarrow> (Some ''open source'', fs)
      | Some NDir \<Rightarrow>
          if fs (tmpPath dst) = Some NDir then (Some ''open temp'', fs)
          else (Some ''copy'', fs(tmpPath dst \<mapsto> NFile [] 384))
      | Some (NFile c m) \<Rightarrow>
          writeFileAtomic io dst (if src = tmpPath dst then [] else c) (copyMode mode m) fs))"

definition copyIfExists :: "io_faults \<Rightarrow> string \<Rightarrow> string \<Rightarrow> files \<Rightarrow> (string + bool) \<times> files" where
  "copyIfExists io src dst fs =
     (case io src of IoEarly e \<Rightarrow> (Inl e, fs)
      | _ \<Rightarrow>
     (case fs src of None \<Rightarrow> (Inr False, fs)
      | Some NDir \<Rightarrow> (Inl ''is a directory'', fs)
      | Some (NFile c m) \<Rightarrow> (case copyFileAtomic io src dst m fs of
            (Some e, fs') \<Rightarrow> (Inl e, fs') | (None, fs') \<Rightarrow> (Inr True, fs'))))"

section \<open>The backup store\<close>

definition safeChar :: "char \<Rightarrow> char" where
  "safeChar c = (if idChar c then c else CHR ''_'')"

definition safeName :: "string \<Rightarrow> string" where
  "safeName value =
     (let v = TrimSpace value in if v = [] then ''empty'' else map safeChar (runeHeads 0 v))"

definition backupID :: "string \<Rightarrow> time \<Rightarrow> string" where
  "backupID version t =
     ''daemon-upgrade-'' @ safeName (firstNonEmpty [version, ''unknown'']) @ CHR ''-'' #
     fmtInt 4 (Year t) @ fmtInt 2 (Month t) @ fmtInt 2 (Day t) @ ''T'' @
     fmtInt 2 (Hour t) @ fmtInt 2 (Minute t) @ fmtInt 2 (Second t) @ ''Z''"

definition configKind :: "nat \<Rightarrow> string" where
  "configKind i = ''config-'' @ pad_dec 2 (Suc i)"

text \<open>The files to back up: kind and path, blank paths left out.\<close>

definition backupCandidateFiles :: "BackupRequest \<Rightarrow> (string \<times> string) list" where
  "backupCandidateFiles req =
     filter (\<lambda>(kind, path). \<not> blank path)
       ((''binary'', Bq_TargetBinaryPath req) # (''database'', Bq_DatabasePath req) #
        map (\<lambda>i. (configKind i, Bq_ConfigPaths req ! i)) [0..<length (Bq_ConfigPaths req)])"

definition backupPathOf :: "string \<Rightarrow> string \<Rightarrow> string \<Rightarrow> string" where
  "backupPathOf root kind path = JoinPath root (kind @ CHR ''-'' # safeName (Base path))"

fun backupFiles ::
  "io_faults \<Rightarrow> string \<Rightarrow> (string \<times> string) list \<Rightarrow> BackupFile list \<Rightarrow> files \<Rightarrow> (string + BackupFile list) \<times> files" where
  "backupFiles io root [] done_files fs = (Inr done_files, fs)"
| "backupFiles io root ((kind, path) # cs) done_files fs =
     (case copyIfExists io path (backupPathOf root kind path) fs of
        (Inl e, fs') \<Rightarrow> (Inl e, fs')
      | (Inr present, fs') \<Rightarrow>
          backupFiles io root cs (done_files @ [\<lparr>Bf_Kind = kind, Bf_SourcePath = path,
            Bf_BackupPath = backupPathOf root kind path, Bf_Present = present\<rparr>]) fs')"

text \<open>\<open>io root\<close> may refuse the directory of the backup.\<close>

definition FileStoreBackup ::
  "io_faults \<Rightarrow> string \<Rightarrow> time \<Rightarrow> BackupRequest \<Rightarrow> files \<Rightarrow> (string + BackupRecord) \<times> files" where
  "FileStoreBackup io storeDir now req fs =
     (let backupDir = firstNonEmpty [Bq_BackupDir req, storeDir];
          ident = backupID (Bq_Version req) now;
          root = JoinPath backupDir ident
      in if backupDir = [] then (Inl ''backupDir is required'', fs)
         else case io root of IoOk \<Rightarrow>
           (case backupFiles io root (backupCandidateFiles req) [] fs of
              (Inl e, fs') \<Rightarrow> (Inl e, fs')
            | (Inr bfs, fs') \<Rightarrow>
                if bfs = [] then (Inl ''nothing to back up'', fs')
                else (Inr \<lparr>Br_ID = ident, Br_TargetBinaryPath = Bq_TargetBinaryPath req,
                  Br_DatabasePath = Bq_DatabasePath req, Br_ConfigPaths = Bq_ConfigPaths req,
                  Br_Files = bfs\<rparr>, fs'))
         | _ \<Rightarrow> (Inl ''mkdir backup dir'', fs))"

fun restoreFiles :: "io_faults \<Rightarrow> BackupFile list \<Rightarrow> files \<Rightarrow> string option \<times> files" where
  "restoreFiles io [] fs = (None, fs)"
| "restoreFiles io (b # bs) fs =
     (if \<not> Bf_Present b then restoreFiles io bs fs
      else case copyFileAtomic io (Bf_BackupPath b) (Bf_SourcePath b) 0 fs of
        (Some e, fs') \<Rightarrow> (Some e, fs') | (None, fs') \<Rightarrow> restoreFiles io bs fs')"

definition FileStoreRestore :: "io_faults \<Rightarrow> BackupRecord \<Rightarrow> files \<Rightarrow> string option \<times> files" where
  "FileStoreRestore io record fs =
     (if Br_ID record = [] then (Some ''empty ID'', fs) else restoreFiles io (Br_Files record) fs)"

section \<open>Installing\<close>

definition WriteInventory :: "release_codec \<Rightarrow> io_faults \<Rightarrow> string \<Rightarrow> InventoryRecord \<Rightarrow> files \<Rightarrow> string option \<times> files" where
  "WriteInventory k io path record fs =
     (case Inventory_validate record of Some _ \<Rightarrow> (Some ''invalid inventory'', fs)
      | None \<Rightarrow> writeFileAtomic io path (rc_inventory k record @ [CHR 0x0A]) 384 fs)"

definition LoadInventory :: "release_codec \<Rightarrow> string \<Rightarrow> files \<Rightarrow> rel_err + InventoryRecord" where
  "LoadInventory k path fs =
     (case fs path of Some (NFile c m) \<Rightarrow>
          (case rc_loadInventory k c of None \<Rightarrow> Inl (RelIO ''inventory decode'')
           | Some r \<Rightarrow> (case Inventory_validate r of Some e \<Rightarrow> Inl e | None \<Rightarrow> Inr r))
      | _ \<Rightarrow> Inl (RelIO ''inventory read''))"

definition FileInstall :: "release_codec \<Rightarrow> io_faults \<Rightarrow> InstallRequest \<Rightarrow> files \<Rightarrow> string option \<times> files" where
  "FileInstall k io req fs =
     (if blank (Iq_TargetBinaryPath req) then (Some ''targetBinaryPath is required'', fs)
      else if Iq_Binary req = [] then (Some ''binary is empty'', fs)
      else case writeFileAtomic io (Iq_TargetBinaryPath req) (Iq_Binary req) 493 fs of
             (Some e, fs') \<Rightarrow> (Some e, fs')
           | (None, fs') \<Rightarrow>
               if blank (Iq_InventoryPath req) then (None, fs')
               else WriteInventory k io (Iq_InventoryPath req) (Iq_Inventory req) fs')"

section \<open>The service manager\<close>

definition systemctlArgv :: "string \<Rightarrow> bool \<Rightarrow> string \<Rightarrow> string list" where
  "systemctlArgv unit user action =
     ''systemctl'' # (if user then [''--user''] else []) @ [action, firstNonEmpty [unit, ''hoopoe.service'']]"

text \<open>
  The world of an upgrade: the files, the commands that were run, and the two audit logs. The runner
  says how each command ends, and what the service it starts or stops makes of the files meanwhile.
\<close>

record upgrade_world =
  uw_files :: files
  uw_system :: "string list list"
  uw_releaseAudit :: "RelAuditEvent list"
  uw_audit :: "UpAuditEvent list"

definition SystemdRun ::
  "(nat \<Rightarrow> string list \<Rightarrow> files \<Rightarrow> string option \<times> files) \<Rightarrow> string \<Rightarrow> bool \<Rightarrow> string \<Rightarrow> nat \<Rightarrow> upgrade_world \<Rightarrow>
     string option \<times> upgrade_world" where
  "SystemdRun runner unit user action n w =
     (let argv = systemctlArgv unit user action;
          (e, fs) = runner n argv (uw_files w)
      in (e, w\<lparr>uw_files := fs, uw_system := uw_system w @ [argv]\<rparr>))"

section \<open>The production service\<close>

text \<open>
  The outside of an upgrade: the codecs, the network, the runner, the post-install check, the faults of
  the installation and of the restore, and of the two audit logs.
\<close>

record upgrade_env =
  Ue_codec :: release_codec
  Ue_fetchCodec :: fetch_codec
  Ue_get :: "string \<Rightarrow> http_reply"
  Ue_maxBytes :: int
  Ue_trustedKeys :: "TrustedKey list"
  Ue_backupDir :: string
  Ue_backupNow :: time
  Ue_unit :: string
  Ue_user :: bool
  Ue_runner :: "nat \<Rightarrow> string list \<Rightarrow> files \<Rightarrow> string option \<times> files"
  Ue_check :: "PostInstallCheck \<Rightarrow> string option"
  Ue_backupIO :: io_faults
  Ue_installIO :: io_faults
  Ue_restoreIO :: io_faults
  Ue_releaseAuditFault :: "string option"
  Ue_auditFault :: "UpAuditEvent \<Rightarrow> string option"

definition onFiles :: "(files \<Rightarrow> 'a \<times> files) \<Rightarrow> upgrade_world \<Rightarrow> 'a \<times> upgrade_world" where
  "onFiles f w = (case f (uw_files w) of (r, fs) \<Rightarrow> (r, w\<lparr>uw_files := fs\<rparr>))"

definition releaseSink :: "string option \<Rightarrow> RelAuditEvent \<Rightarrow> upgrade_world \<Rightarrow> string option \<times> upgrade_world" where
  "releaseSink fault ev w = (case fault of Some e \<Rightarrow> (Some e, w)
     | None \<Rightarrow> (None, w\<lparr>uw_releaseAudit := uw_releaseAudit w @ [ev]\<rparr>))"

definition upgradeSink :: "(UpAuditEvent \<Rightarrow> string option) \<Rightarrow> UpAuditEvent \<Rightarrow> upgrade_world \<Rightarrow> string option \<times> upgrade_world" where
  "upgradeSink fault ev w = (case fault ev of Some e \<Rightarrow> (Some e, w)
     | None \<Rightarrow> (None, w\<lparr>uw_audit := uw_audit w @ [ev]\<rparr>))"

definition verifierOf :: "upgrade_env \<Rightarrow> upgrade_world Verifier" where
  "verifierOf e = \<lparr>Vf_TrustedKeys = Ue_trustedKeys e, Vf_Audit = Some (releaseSink (Ue_releaseAuditFault e))\<rparr>"

definition productionUpgrader :: "upgrade_env \<Rightarrow> upgrade_world Upgrader" where
  "productionUpgrader e =
     \<lparr>Up_Fetch = Some (\<lambda>loc w. (HTTPFetch (Ue_fetchCodec e) (Ue_get e) (Ue_maxBytes e) loc, w)),
      Up_Verify = Some (Verify (Ue_codec e) (verifierOf e)),
      Up_Backup = Some (\<lambda>req. onFiles (FileStoreBackup (Ue_backupIO e) (Ue_backupDir e) (Ue_backupNow e) req),
        \<lambda>record. onFiles (FileStoreRestore (Ue_restoreIO e) record)),
      Up_ServiceManager = Some (SystemdRun (Ue_runner e) (Ue_unit e) (Ue_user e) ''stop'',
        SystemdRun (Ue_runner e) (Ue_unit e) (Ue_user e) ''start''),
      Up_Installer = Some (\<lambda>req. onFiles (FileInstall (Ue_codec e) (Ue_installIO e) req)),
      Up_Checker = Some (\<lambda>c w. (Ue_check e c, w)),
      Up_Audit = Some (upgradeSink (Ue_auditFault e))\<rparr>"

end
