(* ===== verification/UpgradeProps.thy ===== *)
theory UpgradeProps
  imports ReleaseProps UpgradeFiles
begin

text \<open>
  The upgrade service: which states its callers can see while it runs, that an upgrade without an accepted
  release changes nothing on the machine, and what a rollback brings back and what it leaves.
\<close>

section \<open>The states that can be seen\<close>

text \<open>The phases in the order they can follow each other.\<close>

definition phaseEdge :: "Phase \<Rightarrow> Phase \<Rightarrow> bool" where
  "phaseEdge p q \<longleftrightarrow> p = q \<or> (p, q) \<in> {(PhFetching, PhVerifying), (PhFetching, PhFailed),
     (PhVerifying, PhBackingUp), (PhVerifying, PhFailed), (PhBackingUp, PhStopping), (PhBackingUp, PhFailed),
     (PhStopping, PhInstalling), (PhStopping, PhFailed), (PhInstalling, PhStarting), (PhInstalling, PhRollingBack),
     (PhStarting, PhChecking), (PhStarting, PhRollingBack), (PhChecking, PhSucceeded),
     (PhChecking, PhRollingBack), (PhRollingBack, PhRolledBack), (PhRollingBack, PhFailed)}"

definition busy :: "UpgradeState \<Rightarrow> bool" where
  "busy s \<longleftrightarrow> Us_InProgress s \<and> RefusesWrites s"

text \<open>Newest first, every state follows from the one before it.\<close>

definition follows_on :: "UpgradeState \<Rightarrow> UpgradeState \<Rightarrow> bool" where
  "follows_on new old \<longleftrightarrow> phaseEdge (Us_Phase old) (Us_Phase new)"

definition restState :: "upg_err option \<Rightarrow> UpgradeState \<Rightarrow> bool" where
  "restState err s \<longleftrightarrow> \<not> Us_InProgress s \<and> Us_LastError s = err \<and>
     (RefusesWrites s \<longleftrightarrow> (\<exists>e. err = Some e \<and> isRollbackFailed e)) \<and> (err = None \<longleftrightarrow> Us_Phase s = PhSucceeded)"

text \<open>From the state at the head, a part of an upgrade goes through busy states to a state of rest.\<close>

definition comesToRest :: "upgrade_states \<Rightarrow> 'w upgrade_end \<Rightarrow> bool" where
  "comesToRest ss out \<longleftrightarrow> (\<exists>fin mid. fst (snd out) = fin # mid @ ss \<and> list_all busy mid \<and>
     restState (snd (fst out)) fin \<and> successively follows_on (fin # mid @ [hd ss]))"

lemma comesToRest_push:
  assumes "comesToRest (s # ss) out" "busy s" "follows_on s (hd ss)"
  shows "comesToRest ss out"
proof -
  from assms(1) obtain fin mid where m: "fst (snd out) = fin # mid @ s # ss" "list_all busy mid"
    "restState (snd (fst out)) fin" "successively follows_on (fin # mid @ [s])" by (auto simp: comesToRest_def)
  have "successively follows_on ((fin # mid @ [s]) @ [hd ss])"
    unfolding successively_append_iff using m(4) assms(3) by simp
  then show ?thesis unfolding comesToRest_def
    using m assms(2) by (intro exI [of _ fin] exI [of _ "mid @ [s]"]) simp
qed

lemma comesToRest_end:
  "fst (snd out) = fin # ss \<Longrightarrow> restState (snd (fst out)) fin \<Longrightarrow> follows_on fin (hd ss) \<Longrightarrow> comesToRest ss out"
  unfolding comesToRest_def by (intro exI [of _ fin] exI [of _ "[]"]) simp

lemma setPhase_push:
  assumes "comesToRest (setPhase ph e b ss) out" "busy (hd ss)" "phaseEdge (Us_Phase (hd ss)) ph"
  shows "comesToRest ss out"
  using comesToRest_push [of "hd (setPhase ph e b ss)" ss out] assms
  by (simp add: setPhase_def busy_def RefusesWrites_def follows_on_def)

lemma setPhase_hd [simp]:
  "busy (hd (setPhase ph e b ss)) = busy (hd ss)" "Us_Phase (hd (setPhase ph e b ss)) = ph"
  by (simp_all add: setPhase_def busy_def RefusesWrites_def)

lemma setTarget_hd [simp]:
  "busy (hd (setTarget t ss)) = busy (hd ss)" "Us_Phase (hd (setTarget t ss)) = Us_Phase (hd ss)"
  by (simp_all add: setTarget_def busy_def RefusesWrites_def)

lemma finish_rest:
  assumes "fst (snd out) = finish_upgrade now ph err b keep ss" "snd (fst out) = err"
    and "keep \<longleftrightarrow> (\<exists>e. err = Some e \<and> isRollbackFailed e)" "err = None \<longleftrightarrow> ph = PhSucceeded"
    and "phaseEdge (Us_Phase (hd ss)) ph"
  shows "comesToRest ss out"
  by (rule comesToRest_end [OF assms(1) [unfolded finish_upgrade_def]])
    (use assms in \<open>auto simp: restState_def RefusesWrites_def follows_on_def\<close>)

lemma fail_rest:
  "phaseEdge (Us_Phase (hd ss)) PhFailed \<Longrightarrow> comesToRest ss (fail_upgrade u now run backup e ss w)"
  by (rule finish_rest [where err = "Some e" and ph = PhFailed and keep = "isRollbackFailed e"])
    (auto simp: fail_upgrade_def Let_def)

lemma rollback_rest:
  assumes "busy (hd ss)" "phaseEdge (Us_Phase (hd ss)) PhRollingBack" "\<not> isRollbackFailed cause"
  shows "comesToRest ss (rollback_upgrade u stop start restore now run backup cause ss w)"
proof (rule setPhase_push [OF _ assms(1,2)])
  let ?out = "rollback_upgrade u stop start restore now run backup cause ss w"
  let ?b = "Ver_DiagnosticsBanner (Run_Verification run)"
  let ?ss = "setPhase PhRollingBack (Some cause) ?b ss"
  have "(\<exists>errs. fst (snd ?out) = finish_upgrade now PhFailed (Some (UpRollbackFailed errs cause)) ?b True ?ss \<and>
      snd (fst ?out) = Some (UpRollbackFailed errs cause)) \<or>
    fst (snd ?out) = finish_upgrade now PhRolledBack (Some cause) ?b False ?ss \<and> snd (fst ?out) = Some cause"
    by (auto simp: rollback_upgrade_def Let_def split: prod.splits)
  then show "comesToRest ?ss ?out"
  proof (elim disjE exE conjE)
    fix errs
    assume "fst (snd ?out) = finish_upgrade now PhFailed (Some (UpRollbackFailed errs cause)) ?b True ?ss"
      "snd (fst ?out) = Some (UpRollbackFailed errs cause)"
    then show ?thesis by (rule finish_rest) (simp_all add: isRollbackFailed_def phaseEdge_def)
  next
    assume "fst (snd ?out) = finish_upgrade now PhRolledBack (Some cause) ?b False ?ss"
      "snd (fst ?out) = Some cause"
    then show ?thesis by (rule finish_rest) (use assms(3) in \<open>simp_all add: phaseEdge_def\<close>)
  qed
qed

lemma installPart_rest:
  assumes "busy (hd ss)" "Us_Phase (hd ss) = PhStopping"
  shows "comesToRest ss (installPart u stop start restore install check now req bundle inventory run backup ss w)"
proof -
  note steps = installPart_def Let_def
  note edge = phaseEdge_def
  let ?b = "Ver_DiagnosticsBanner (Run_Verification run)"
  let ?s1 = "setPhase PhInstalling None ?b ss"
  let ?s2 = "setPhase PhStarting None ?b ?s1"
  let ?s3 = "setPhase PhChecking None ?b ?s2"
  note undo = rollback_rest [where u = u and stop = stop and start = start and restore = restore and now = now
      and run = run and backup = backup]
  have r1: "comesToRest ss (rollback_upgrade u stop start restore now run backup (UpInstallFailed e) ?s1 w')" for e w'
    by (rule setPhase_push [OF undo assms(1)]) (simp_all add: assms edge isRollbackFailed_def)
  have r2: "comesToRest ss (rollback_upgrade u stop start restore now run backup (UpStartFailed e) ?s2 w')" for e w'
    by (rule setPhase_push [OF setPhase_push [OF undo] assms(1)]) (simp_all add: assms edge isRollbackFailed_def)
  have r3: "comesToRest ss (rollback_upgrade u stop start restore now run backup (UpPostInstallFailed e) ?s3 w')" for e w'
    by (rule setPhase_push [OF setPhase_push [OF setPhase_push [OF undo]] assms(1)])
      (simp_all add: assms edge isRollbackFailed_def)
  have r4: "comesToRest ss out" if "fst (snd out) = finish_upgrade now PhSucceeded None ?b False ?s3"
    "snd (fst out) = None" for out :: "'w upgrade_end"
    by (rule setPhase_push [OF setPhase_push [OF setPhase_push [OF finish_rest [OF that]]] assms(1)])
      (simp_all add: assms edge)
  show ?thesis by (auto simp: steps r1 r2 r3 intro!: r4 split: prod.splits option.splits)
qed

lemma backupPart_rest:
  assumes "busy (hd ss)" "Us_Phase (hd ss) = PhVerifying"
    and "\<And>b ss w. busy (hd ss) \<Longrightarrow> Us_Phase (hd ss) = PhStopping \<Longrightarrow> comesToRest ss (k b ss w)"
  shows "comesToRest ss (backupPart u takeBackup stop now req run k ss w)"
proof -
  let ?b = "Ver_DiagnosticsBanner (Run_Verification run)"
  let ?s1 = "setPhase PhBackingUp None ?b ss"
  let ?s2 = "setPhase PhStopping None ?b ?s1"
  note fail = fail_rest [where u = u and now = now and run = run]
  have r1: "comesToRest ss (fail_upgrade u now run b e ?s1 w')" for b e w'
    by (rule setPhase_push [OF fail assms(1)]) (simp_all add: assms phaseEdge_def)
  have r2: "comesToRest ss (fail_upgrade u now run b e ?s2 w')" for b e w'
    by (rule setPhase_push [OF setPhase_push [OF fail] assms(1)]) (simp_all add: assms phaseEdge_def)
  have r3: "comesToRest ss (k b ?s2 w')" for b w'
    by (rule setPhase_push [OF setPhase_push [OF assms(3)] assms(1)]) (simp_all add: assms phaseEdge_def)
  show ?thesis by (auto simp: backupPart_def Let_def r1 r2 r3 split: prod.splits option.splits sum.splits)
qed


lemma validate_ports:
  assumes "validateUpgrade u req = None"
  obtains fetch verify takeBackup restore stop start install check where
    "Up_Fetch u = Some fetch" "Up_Verify u = Some verify" "Up_Backup u = Some (takeBackup, restore)"
    "Up_ServiceManager u = Some (stop, start)" "Up_Installer u = Some install" "Up_Checker u = Some check"
  using assms by (fastforce simp: validateUpgrade_def split: if_splits)

lemma gate_not_rollback: "gatePart u now req bundle run w = (Some e, w') \<Longrightarrow> \<not> isRollbackFailed e"
  by (auto simp: gatePart_def checkCompatibility_def Let_def isRollbackFailed_def
      split: if_splits option.splits prod.splits)

lemma Upgrade_rest:
  assumes "validateUpgrade u req = None" "\<not> Us_InProgress (hd ss)"
  shows "\<exists>s. busy s \<and> Us_Phase s = PhFetching \<and>
    (\<exists>fin mid. fst (snd (Upgrade u now req ss w)) = fin # mid @ s # ss \<and> list_all busy mid \<and>
       restState (snd (fst (Upgrade u now req ss w))) fin \<and> successively follows_on (fin # mid @ [s]))"
proof -
  obtain fetch verify takeBackup restore stop start install check where
    p: "Up_Fetch u = Some fetch" "Up_Verify u = Some verify" "Up_Backup u = Some (takeBackup, restore)"
    "Up_ServiceManager u = Some (stop, start)" "Up_Installer u = Some install" "Up_Checker u = Some check"
    by (rule validate_ports [OF assms(1)])
  obtain s where s: "begin_upgrade now req ss = Some (s # ss)" "busy s" "Us_Phase s = PhFetching"
    using assms(2) by (auto simp: begin_upgrade_def busy_def RefusesWrites_def)
  let ?s1 = "setPhase PhFetching None [] (s # ss)"
  have push1: "comesToRest (s # ss) out" if "comesToRest ?s1 out" for out :: "'a upgrade_end"
    by (rule setPhase_push [OF that]) (simp_all add: s phaseEdge_def)
  let ?s2 = "\<lambda>v. setPhase PhVerifying None [] (setTarget v ?s1)"
  have push2: "comesToRest (s # ss) out" if "comesToRest (?s2 v) out" for out :: "'a upgrade_end" and v
  proof (rule push1)
    have "comesToRest (setTarget v ?s1) out"
      by (rule setPhase_push [OF that]) (simp_all add: s phaseEdge_def)
    then show "comesToRest ?s1 out"
      by (intro comesToRest_push [of "hd (setTarget v ?s1)" ?s1 out])
        (simp_all add: setTarget_def setPhase_def busy_def follows_on_def phaseEdge_def s(2) [unfolded busy_def RefusesWrites_def] RefusesWrites_def)
  qed
  have f1: "comesToRest (s # ss) (fail_upgrade u now run b e ?s1 w')" for run b e w'
    by (rule push1 [OF fail_rest]) (simp add: phaseEdge_def)
  have f2: "comesToRest (s # ss) (fail_upgrade u now run b e (?s2 v) w')" for run b e w' v
    by (rule push2 [OF fail_rest]) (simp add: phaseEdge_def)
  have f3: "comesToRest (s # ss) (backupPart u takeBackup stop now req run
      (installPart u stop start restore install check now req rb iv run) (?s2 v) w')" for run rb iv v w'
    by (rule push2 [OF backupPart_rest]) (simp_all add: s installPart_rest)
  have "comesToRest (s # ss) (Upgrade u now req ss w)"
    by (simp only: Upgrade_def assms(1) p s(1) Let_def option.case prod.case)
      (intro conjI allI impI f1 f2 f3 | split sum.split prod.split option.split)+
  then show ?thesis unfolding comesToRest_def using s(2,3) by (metis list.sel(1))
qed

text \<open>
  While a service is busy, another call changes neither its state nor the machine, whatever it asks for.
\<close>

definition turnsAway :: "'w itself \<Rightarrow> UpgradeState \<Rightarrow> bool" where
  "turnsAway t s \<longleftrightarrow> (\<forall>(u :: 'w Upgrader) now req rest w.
     snd (Upgrade u now req (s # rest) w) = (s # rest, w) \<and> snd (fst (Upgrade u now req (s # rest) w)) \<noteq> None)"

lemma busy_turnsAway:
  assumes "busy s"
  shows "turnsAway TYPE('w) s"
proof -
  have "snd (Upgrade u now req (s # rest) w) = (s # rest, w) \<and> snd (fst (Upgrade u now req (s # rest) w)) \<noteq> None"
    for u :: "'w Upgrader" and now req rest w
  proof (cases "validateUpgrade u req")
    case None
    then obtain fetch verify takeBackup restore stop start install check where
      p: "Up_Fetch u = Some fetch" "Up_Verify u = Some verify" "Up_Backup u = Some (takeBackup, restore)"
      "Up_ServiceManager u = Some (stop, start)" "Up_Installer u = Some install" "Up_Checker u = Some check"
      by (rule validate_ports)
    from assms have "begin_upgrade now req (s # rest) = None" by (simp add: begin_upgrade_def busy_def)
    with None p show ?thesis by (simp add: Upgrade_def)
  next
    case (Some e)
    then show ?thesis by (simp add: Upgrade_def)
  qed
  then show ?thesis by (simp add: turnsAway_def)
qed

text \<open>
  C32. From the moment an upgrade begins until it comes to rest, every state that callers can see refuses
  writes and turns other upgrades away, and the phases follow the order of the life cycle. At rest,
  writes are refused exactly when a rollback failed, and the phase is that of success exactly when no
  error is returned.
\<close>

theorem upgrade_refuses_writes_throughout:
  assumes "Upgrade u now req ss w = ((r, err), ss', w')" "validateUpgrade u req = None" "\<not> Us_InProgress (hd ss)"
  shows "\<exists>fin mid. ss' = fin # mid @ ss \<and> mid \<noteq> [] \<and> Us_Phase (last mid) = PhFetching \<and>
    list_all (\<lambda>s. RefusesWrites s \<and> turnsAway TYPE('w) s) mid \<and> successively follows_on (fin # mid) \<and>
    \<not> Us_InProgress fin \<and> (RefusesWrites fin \<longleftrightarrow> (\<exists>e. err = Some e \<and> isRollbackFailed e)) \<and>
    (err = None \<longleftrightarrow> Us_Phase fin = PhSucceeded)"
proof -
  from Upgrade_rest [OF assms(2,3), of now w] assms(1) obtain s fin mid where
    s: "busy s" "Us_Phase s = PhFetching" and m: "ss' = fin # mid @ s # ss" "list_all busy mid" "restState err fin"
    "successively follows_on (fin # mid @ [s])" by auto
  from s(1) m(2) have "list_all (\<lambda>s. RefusesWrites s \<and> turnsAway TYPE('w) s) (mid @ [s])"
    by (auto simp: list_all_iff busy_turnsAway) (auto simp: busy_def)
  with s m show ?thesis by (intro exI [of _ fin] exI [of _ "mid @ [s]"]) (simp add: restState_def)
qed


section \<open>What the dependencies keep\<close>

lemma fail_not_rolled_back: "\<not> Ur_RolledBack (fst (fst (fail_upgrade u now run b e ss w)))"
  by (simp add: fail_upgrade_def Let_def upgradeResult_def)

text \<open>
  A property of the world that fetching, verifying and auditing keep; and one that all dependencies keep.
\<close>

locale quiet_ports =
  fixes u :: "'w Upgrader" and P :: "'w \<Rightarrow> bool"
  assumes fetch_keeps: "Up_Fetch u = Some fetch \<Longrightarrow> P w \<Longrightarrow> P (snd (fetch loc w))"
    and verify_keeps: "Up_Verify u = Some verify \<Longrightarrow> P w \<Longrightarrow> P (snd (verify t vreq w))"
    and audit_keeps: "P w \<Longrightarrow> P (snd (upAudit u ev w))"
begin

lemma fail_keeps: "P w \<Longrightarrow> P (snd (snd (fail_upgrade u now run b e ss w)))"
  by (simp add: fail_upgrade_def Let_def audit_keeps)

lemma gate_keeps: "P w \<Longrightarrow> P (snd (gatePart u now req rb run w))"
  using audit_keeps [of w "insecureEvent (now AtOverride) req rb run"]
  by (cases "upAudit u (insecureEvent (now AtOverride) req rb run) w") (auto simp: gatePart_def split: option.split)

text \<open>Either the property is kept to the end, or it is until a fetched release was verified and let through.\<close>

lemma refused_or_gated:
  assumes "P w" "Up_Fetch u = Some fetch" "Up_Verify u = Some verify" "Up_Backup u = Some (takeBackup, restore)"
    "Up_ServiceManager u = Some (stop, start)" "Up_Installer u = Some install" "Up_Checker u = Some check"
  shows "P (snd (snd (Upgrade u now req ss w))) \<and> \<not> Ur_RolledBack (fst (fst (Upgrade u now req ss w))) \<or>
    (\<exists>rb v w0 w1 w2 w3 run ss'. P w3 \<and> fetch (Uq_Release req) w0 = (Inr rb, w1) \<and>
       verify (now AtVerify) (verifyRequestOf req rb) w1 = ((v, None), w2) \<and>
       Run_Version run = Man_Version (Rb_Manifest rb) \<and> Run_Verification run = v \<and>
       gatePart u now req rb run w2 = (None, w3) \<and>
       Upgrade u now req ss w = backupPart u takeBackup stop now req run
         (installPart u stop start restore install check now req rb (inventoryOf v) run) ss' w3)"
proof (cases "validateUpgrade u req = None \<and> begin_upgrade now req ss \<noteq> None")
  case False
  with assms show ?thesis by (auto simp: Upgrade_def upgradeResult_def split: option.split)
next
  case True
  then obtain ss0 where v: "validateUpgrade u req = None" and b: "begin_upgrade now req ss = Some ss0" by auto
  let ?run = "\<lparr>Run_Actor = firstNonEmpty [Uq_Actor req, Ovr_Actor (Uq_Override req), ''operator''],
     Run_Reason = firstNonEmpty [Uq_Reason req, Ovr_Reason (Uq_Override req)],
     Run_Version = [], Run_Verification = noVerification\<rparr>"
  define w0 where "w0 = snd (upAudit u (runEvent ?run (now AtStarted) ''daemon.upgrade.started'' ''started'' UpNoData) w)"
  note unf = Upgrade_def v b assms(2-7) Let_def option.case prod.case sum.case w0_def [symmetric]
  have p0: "P w0" unfolding w0_def by (rule audit_keeps [OF assms(1)])
  obtain f w1 where f: "fetch (Uq_Release req) w0 = (f, w1)" by fastforce
  with fetch_keeps [OF assms(2) p0, of "Uq_Release req"] have p1: "P w1" by simp
  show ?thesis
  proof (cases f)
    case (Inl e)
    then show ?thesis by (simp only: unf f) (simp add: fail_keeps fail_not_rolled_back p1)
  next
    case (Inr rb)
    obtain v' err w2 where g: "verify (now AtVerify) (verifyRequestOf req rb) w1 = ((v', err), w2)"
      by (metis prod.collapse)
    with verify_keeps [OF assms(3) p1, of "now AtVerify" "verifyRequestOf req rb"] have p2: "P w2" by simp
    let ?run' = "?run\<lparr>Run_Version := Man_Version (Rb_Manifest rb), Run_Verification := v'\<rparr>"
    show ?thesis
    proof (cases err)
      case (Some e)
      then show ?thesis by (simp only: unf f Inr g) (simp add: fail_keeps fail_not_rolled_back p2)
    next
      case None
      obtain d w3 where d: "gatePart u now req rb ?run' w2 = (d, w3)" by fastforce
      with gate_keeps [OF p2, of now req rb ?run'] have p3: "P w3" by simp
      show ?thesis
      proof (cases d)
        case (Some e)
        with d show ?thesis by (simp only: unf f Inr g None) (simp add: fail_keeps fail_not_rolled_back p3)
      next
        case None': None
        have "Run_Version ?run' = Man_Version (Rb_Manifest rb)" "Run_Verification ?run' = v'" by simp_all
        moreover have "\<exists>ss'. Upgrade u now req ss w = backupPart u takeBackup stop now req ?run'
            (installPart u stop start restore install check now req rb (inventoryOf v') ?run') ss' w3"
          by (simp only: unf f Inr g None d None') blast
        ultimately show ?thesis using p3 f g Inr None None' d by blast
      qed
    qed
  qed
qed

end

locale steady_ports = quiet_ports +
  assumes backup_keeps: "Up_Backup u = Some (takeBackup, restore) \<Longrightarrow> P w \<Longrightarrow> P (snd (takeBackup breq w))"
    and restore_keeps: "Up_Backup u = Some (takeBackup, restore) \<Longrightarrow> P w \<Longrightarrow> P (snd (restore r w))"
    and stop_keeps: "Up_ServiceManager u = Some (stop, start) \<Longrightarrow> P w \<Longrightarrow> P (snd (stop n w))"
    and start_keeps: "Up_ServiceManager u = Some (stop, start) \<Longrightarrow> P w \<Longrightarrow> P (snd (start n w))"
    and install_keeps: "Up_Installer u = Some install \<Longrightarrow> P w \<Longrightarrow> P (snd (install ireq w))"
    and check_keeps: "Up_Checker u = Some check \<Longrightarrow> P w \<Longrightarrow> P (snd (check c w))"
begin

lemma rollback_keeps:
  assumes "Up_Backup u = Some (takeBackup, restore)" "Up_ServiceManager u = Some (stop, start)" "P w"
  shows "P (snd (snd (rollback_upgrade u stop start restore now run b cause ss w)))"
proof -
  obtain e1 w1 where 1: "stop 1 w = (e1, w1)" by fastforce
  obtain e2 w2 where 2: "restore b w1 = (e2, w2)" by fastforce
  obtain e3 w3 where 3: "start 1 w2 = (e3, w3)" by fastforce
  have p1: "P w1" using stop_keeps [OF assms(2,3)] 1 by (metis snd_conv)
  have p2: "P w2" using restore_keeps [OF assms(1) p1] 2 by (metis snd_conv)
  have p3: "P w3" using start_keeps [OF assms(2) p2] 3 by (metis snd_conv)
  show ?thesis by (simp only: rollback_upgrade_def Let_def 1 2 3 prod.case) (simp add: p3 audit_keeps)
qed

lemma install_part_keeps:
  assumes "Up_Backup u = Some (takeBackup, restore)" "Up_ServiceManager u = Some (stop, start)"
    "Up_Installer u = Some install" "Up_Checker u = Some check" "P w"
  shows "P (snd (snd (installPart u stop start restore install check now req rb iv run b ss w)))"
proof -
  note undo = rollback_keeps [OF assms(1,2)]
  obtain e1 w1 where 1: "install (installRequestOf req rb iv) w = (e1, w1)" by fastforce
  obtain e2 w2 where 2: "start 0 w1 = (e2, w2)" by fastforce
  obtain e3 w3 where 3: "check (postCheckOf req rb iv) w2 = (e3, w3)" by fastforce
  have p1: "P w1" using install_keeps [OF assms(3,5)] 1 by (metis snd_conv)
  have p2: "P w2" using start_keeps [OF assms(2) p1] 2 by (metis snd_conv)
  have p3: "P w3" using check_keeps [OF assms(4) p2] 3 by (metis snd_conv)
  show ?thesis
    by (simp only: installPart_def Let_def 1 2 3 prod.case)
      (simp add: undo p1 p2 p3 audit_keeps split: option.split)
qed

lemma backup_part_keeps:
  assumes "Up_Backup u = Some (takeBackup, restore)" "Up_ServiceManager u = Some (stop, start)"
    "Up_Installer u = Some install" "Up_Checker u = Some check" "P w"
  shows "P (snd (snd (backupPart u takeBackup stop now req run
    (installPart u stop start restore install check now req rb iv run) ss w)))"
proof -
  obtain r w1 where 1: "takeBackup (backupRequestOf req (Run_Version run)) w = (r, w1)" by fastforce
  obtain e w2 where 2: "stop 0 w1 = (e, w2)" by fastforce
  have p1: "P w1" using backup_keeps [OF assms(1,5)] 1 by (metis snd_conv)
  have p2: "P w2" using stop_keeps [OF assms(2) p1] 2 by (metis snd_conv)
  show ?thesis
    by (simp only: backupPart_def Let_def 1 2 prod.case)
      (simp add: p1 p2 fail_keeps install_part_keeps [OF assms(1-4)] split: option.split sum.split)
qed

end

section \<open>Nothing changes without an accepted release\<close>

lemma production_ports:
  "Up_Fetch (productionUpgrader e) = Some (\<lambda>loc w. (HTTPFetch (Ue_fetchCodec e) (Ue_get e) (Ue_maxBytes e) loc, w))"
  "Up_Verify (productionUpgrader e) = Some (Verify (Ue_codec e) (verifierOf e))"
  "Up_Backup (productionUpgrader e) =
     Some (\<lambda>req. onFiles (FileStoreBackup (Ue_backupIO e) (Ue_backupDir e) (Ue_backupNow e) req),
       \<lambda>record. onFiles (FileStoreRestore (Ue_restoreIO e) record))"
  "Up_ServiceManager (productionUpgrader e) = Some (SystemdRun (Ue_runner e) (Ue_unit e) (Ue_user e) ''stop'',
     SystemdRun (Ue_runner e) (Ue_unit e) (Ue_user e) ''start'')"
  "Up_Installer (productionUpgrader e) = Some (\<lambda>req. onFiles (FileInstall (Ue_codec e) (Ue_installIO e) req))"
  "Up_Checker (productionUpgrader e) = Some (\<lambda>c w. (Ue_check e c, w))"
  "upAudit (productionUpgrader e) = upgradeSink (Ue_auditFault e)"
  by (simp_all add: productionUpgrader_def upAudit_def fun_eq_iff)

lemma Verify_world:
  assumes "\<And>ev w. P w \<Longrightarrow> P (snd (Verifier_audit v ev w))" "P w"
  shows "P (snd (Verify k v t req w))"
proof -
  have h: "Verifier_audit v ev w = (x, y) \<Longrightarrow> P y" for ev x y using assms by (metis snd_conv)
  have "P (snd (policyPart k v t req d a bill w))" for d a bill
    using assms(2) by (auto simp: policyPart_def Let_def dest: h split: option.split prod.split)
  with assms(2) show ?thesis
    by (auto simp: Verify_def Let_def dest: h split: option.split prod.split list.split)
qed

lemma sink_world:
  "uw_files (snd (Verifier_audit (verifierOf e) ev w)) = uw_files w"
  "uw_system (snd (Verifier_audit (verifierOf e) ev w)) = uw_system w"
  "uw_audit (snd (Verifier_audit (verifierOf e) ev w)) = uw_audit w"
  "set (uw_releaseAudit w) \<subseteq> set (uw_releaseAudit (snd (Verifier_audit (verifierOf e) ev w)))"
  "uw_files (snd (upgradeSink f uev w)) = uw_files w"
  "uw_system (snd (upgradeSink f uev w)) = uw_system w"
  "uw_releaseAudit (snd (upgradeSink f uev w)) = uw_releaseAudit w"
  "set (uw_audit w) \<subseteq> set (uw_audit (snd (upgradeSink f uev w)))"
  by (auto simp: Verifier_audit_def verifierOf_def releaseSink_def upgradeSink_def split: option.splits)

lemma port_logs:
  "uw_releaseAudit (snd (onFiles f w)) = uw_releaseAudit w" "uw_audit (snd (onFiles f w)) = uw_audit w"
  "uw_releaseAudit (snd (SystemdRun r unit us act n w)) = uw_releaseAudit w"
  "uw_audit (snd (SystemdRun r unit us act n w)) = uw_audit w"
  by (simp_all add: onFiles_def SystemdRun_def Let_def split: prod.split)

interpretation untouched: quiet_ports "productionUpgrader e" "\<lambda>w :: upgrade_world. uw_files w = fs \<and> uw_system w = sys"
proof
  fix verify :: "time \<Rightarrow> VerifyRequest \<Rightarrow> upgrade_world \<Rightarrow> (VerificationResult \<times> rel_err option) \<times> upgrade_world"
  fix w :: upgrade_world and t vreq
  assume v: "Up_Verify (productionUpgrader e) = Some verify" and p: "uw_files w = fs \<and> uw_system w = sys"
  have "uw_files (snd (Verify (Ue_codec e) (verifierOf e) t vreq w)) = fs \<and>
    uw_system (snd (Verify (Ue_codec e) (verifierOf e) t vreq w)) = sys"
    by (rule Verify_world [where P = "\<lambda>w :: upgrade_world. uw_files w = fs \<and> uw_system w = sys"]) (use p in \<open>simp_all add: sink_world\<close>)
  with v show "uw_files (snd (verify t vreq w)) = fs \<and> uw_system (snd (verify t vreq w)) = sys"
    by (simp add: production_ports)
qed (auto simp: production_ports sink_world)

interpretation logged: steady_ports "productionUpgrader e"
  "\<lambda>w :: upgrade_world. R \<subseteq> set (uw_releaseAudit w) \<and> A \<subseteq> set (uw_audit w)"
proof
  fix verify :: "time \<Rightarrow> VerifyRequest \<Rightarrow> upgrade_world \<Rightarrow> (VerificationResult \<times> rel_err option) \<times> upgrade_world"
  fix w :: upgrade_world and t vreq
  assume v: "Up_Verify (productionUpgrader e) = Some verify"
    and p: "R \<subseteq> set (uw_releaseAudit w) \<and> A \<subseteq> set (uw_audit w)"
  have "R \<subseteq> set (uw_releaseAudit (snd (Verify (Ue_codec e) (verifierOf e) t vreq w))) \<and>
    A \<subseteq> set (uw_audit (snd (Verify (Ue_codec e) (verifierOf e) t vreq w)))"
    by (rule Verify_world [where P = "\<lambda>w :: upgrade_world. R \<subseteq> set (uw_releaseAudit w) \<and> A \<subseteq> set (uw_audit w)"])
      (use p sink_world(4) in \<open>fastforce simp: sink_world\<close>)+
  with v show "R \<subseteq> set (uw_releaseAudit (snd (verify t vreq w))) \<and> A \<subseteq> set (uw_audit (snd (verify t vreq w)))"
    by (simp add: production_ports)
next
  fix w :: upgrade_world and ev
  assume "R \<subseteq> set (uw_releaseAudit w) \<and> A \<subseteq> set (uw_audit w)"
  then show "R \<subseteq> set (uw_releaseAudit (snd (upAudit (productionUpgrader e) ev w))) \<and>
    A \<subseteq> set (uw_audit (snd (upAudit (productionUpgrader e) ev w)))"
    using sink_world(8) by (fastforce simp: production_ports sink_world)
qed (auto simp: production_ports port_logs)

text \<open>What lets a release through, seen at the end in the two audit logs.\<close>

definition releaseCleared :: "upgrade_env \<Rightarrow> time \<Rightarrow> VerifyRequest \<Rightarrow> upgrade_world \<Rightarrow> bool" where
  "releaseCleared e t vr w \<longleftrightarrow> (\<exists>digest. manifestDigest vr = Some digest \<and>
     ((\<exists>a bill. genuine (Ue_codec e) (Ue_trustedKeys e) vr digest a bill \<and>
        CVEDatabase_validate (Vr_CVEDatabase vr) = None \<and>
        (policyFindings bill (Vr_CVEDatabase vr) = [] \<or> Ack_valid (Vr_SBOMAcknowledgement vr) \<and>
           ackEvent t vr (policyFindings bill (Vr_CVEDatabase vr)) \<in> set (uw_releaseAudit w))) \<or>
      Override_valid (Vr_Override vr) \<and>
        (\<exists>ds. ds \<noteq> [] \<and> overrideEvent (Ue_codec e) t vr ds \<in> set (uw_releaseAudit w)) \<and>
        (\<exists>ev \<in> set (uw_audit w). Uae_Action ev = ''daemon.upgrade.insecure_dev_override'')))"

lemma cleared_mono:
  assumes "releaseCleared e t vr w"
    and "set (uw_releaseAudit w) \<subseteq> set (uw_releaseAudit w') \<and> set (uw_audit w) \<subseteq> set (uw_audit w')"
  shows "releaseCleared e t vr w'"
  using assms unfolding releaseCleared_def by blast

lemma gate_cleared:
  assumes "Verify (Ue_codec e) (verifierOf e) t vr w1 = ((v, None), w2)" "Run_Verification run = v"
    and "gatePart (productionUpgrader e) now req rb run w2 = (None, w3)"
  shows "releaseCleared e t vr w3 \<and>
    checkCompatibility (Rb_Manifest rb) (Uq_CurrentDesktopVersion req) (Uq_CurrentAPIVersion req) = None"
proof
  show "checkCompatibility (Rb_Manifest rb) (Uq_CurrentDesktopVersion req) (Uq_CurrentAPIVersion req) = None"
    using assms(3) by (auto simp: gatePart_def split: if_splits option.splits prod.splits)
  have keys: "Vf_TrustedKeys (verifierOf e) = Ue_trustedKeys e" by (simp add: verifierOf_def)
  have logs: "set (uw_releaseAudit w2) \<subseteq> set (uw_releaseAudit w3)"
    using logged.gate_keeps [of "set (uw_releaseAudit w2)" w2 "{}" e now req rb run] assms(3) by simp
  have put: "ev \<in> set (uw_releaseAudit w2)" if "Verifier_audit (verifierOf e) ev w1 = (None, w2)" for ev
    using that by (auto simp: Verifier_audit_def verifierOf_def releaseSink_def split: option.splits)
  from assms(1) [unfolded Verify_accepts] show "releaseCleared e t vr w3"
  proof (elim disjE exE conjE)
    fix digest a bill
    assume "manifestDigest vr = Some digest" "genuine (Ue_codec e) (Vf_TrustedKeys (verifierOf e)) vr digest a bill"
      "policyCleared (verifierOf e) t vr bill w1 w2"
    with put logs show ?thesis
      unfolding releaseCleared_def policyCleared_def Let_def keys by (metis subsetD)
  next
    fix digest failed a b
    assume d: "manifestDigest vr = Some digest" and o: "overrideAudited (Ue_codec e) (verifierOf e) t vr (map fst failed) w1 w2"
      and v: "v = overridden (Ue_codec e) t vr digest (map fst failed) a"
    have "insecureEvent (now AtOverride) req rb run \<in> set (uw_audit w3)"
      using assms(2,3) v by (auto simp: gatePart_def overridden_def production_ports upgradeSink_def split: option.splits prod.splits)
    moreover have "Uae_Action (insecureEvent (now AtOverride) req rb run) = ''daemon.upgrade.insecure_dev_override''"
      by (simp add: insecureEvent_def)
    moreover have "overrideEvent (Ue_codec e) t vr (map fst failed) \<in> set (uw_releaseAudit w3)"
      using put logs o by (auto simp: overrideAudited_def)
    ultimately show ?thesis using d o unfolding releaseCleared_def overrideAudited_def by metis
  qed
qed

lemma untouched_or_cleared:
  assumes "Upgrade (productionUpgrader e) now req ss w = (out, ss', w')"
    and "uw_files w' \<noteq> uw_files w \<or> uw_system w' \<noteq> uw_system w"
  shows "\<exists>rb. HTTPFetch (Ue_fetchCodec e) (Ue_get e) (Ue_maxBytes e) (Uq_Release req) = Inr rb \<and>
    releaseCleared e (now AtVerify) (verifyRequestOf req rb) w' \<and>
    checkCompatibility (Rb_Manifest rb) (Uq_CurrentDesktopVersion req) (Uq_CurrentAPIVersion req) = None"
proof -
  let ?p = "productionUpgrader e"
  from untouched.refused_or_gated [OF _ production_ports(1-6) [of e], of w "uw_files w" "uw_system w" now req ss] assms
  obtain rb v w0 w1 w2 w3 run st where
    f: "(HTTPFetch (Ue_fetchCodec e) (Ue_get e) (Ue_maxBytes e) (Uq_Release req), w0) = (Inr rb, w1)"
    and v: "Verify (Ue_codec e) (verifierOf e) (now AtVerify) (verifyRequestOf req rb) w1 = ((v, None), w2)"
      "Run_Verification run = v"
    and g: "gatePart ?p now req rb run w2 = (None, w3)"
    and k: "w' = snd (snd (Upgrade ?p now req ss w))"
    and u: "Upgrade ?p now req ss w =
       backupPart ?p (\<lambda>req. onFiles (FileStoreBackup (Ue_backupIO e) (Ue_backupDir e) (Ue_backupNow e) req))
         (SystemdRun (Ue_runner e) (Ue_unit e) (Ue_user e) ''stop'') now req run
         (installPart ?p (SystemdRun (Ue_runner e) (Ue_unit e) (Ue_user e) ''stop'')
           (SystemdRun (Ue_runner e) (Ue_unit e) (Ue_user e) ''start'')
           (\<lambda>record. onFiles (FileStoreRestore (Ue_restoreIO e) record))
           (\<lambda>req. onFiles (FileInstall (Ue_codec e) (Ue_installIO e) req)) (\<lambda>c w. (Ue_check e c, w))
           now req rb (inventoryOf v) run) st w3"
    by auto
  have "set (uw_releaseAudit w3) \<subseteq> set (uw_releaseAudit w') \<and> set (uw_audit w3) \<subseteq> set (uw_audit w')"
    unfolding k u by (rule logged.backup_part_keeps [OF production_ports(3-6)]) simp
  with gate_cleared [OF v g] cleared_mono have "releaseCleared e (now AtVerify) (verifyRequestOf req rb) w'" by metis
  with gate_cleared [OF v g] f show ?thesis by auto
qed

text \<open>
  C31. If an upgrade has changed any file or run any command, then the release it fetched was cleared: it is
  genuine and its vulnerabilities are none or acknowledged with an audited event, or a valid override is
  on record in both audit logs; and the code's compatibility check has found nothing against the desktop
  and API versions the request gives (it compares only what is given).
\<close>

theorem upgrade_needs_accepted_release:
  assumes "Upgrade (productionUpgrader e) now req ss w = (out, ss', w')"
    and "uw_files w' \<noteq> uw_files w \<or> uw_system w' \<noteq> uw_system w"
  shows "\<exists>rb. HTTPFetch (Ue_fetchCodec e) (Ue_get e) (Ue_maxBytes e) (Uq_Release req) = Inr rb \<and>
    releaseCleared e (now AtVerify) (verifyRequestOf req rb) w' \<and>
    checkCompatibility (Rb_Manifest rb) (Uq_CurrentDesktopVersion req) (Uq_CurrentAPIVersion req) = None"
  using assms by (rule untouched_or_cleared)

end
