(* ===== verification/UpgradeRollback.thy ===== *)
theory UpgradeRollback
  imports UpgradeProps
begin

text \<open>
  The backup store on files: what a restore brings back, as the locale \<open>backup_store\<close> and its
  interpretation; and with it what a rollback leaves on the machine.
\<close>

section \<open>Files\<close>

lemma write_ok:
  "writeFileAtomic io dst data mode fs = (None, fs') \<Longrightarrow> fs' = fs(tmpPath dst := None, dst \<mapsto> NFile data mode)"
  by (auto simp: writeFileAtomic_def split: io_fault.splits if_splits)

lemma write_frame:
  "writeFileAtomic io dst data mode fs = (r, fs') \<Longrightarrow> q \<noteq> dst \<Longrightarrow> q \<noteq> tmpPath dst \<Longrightarrow> fs' q = fs q"
  by (auto simp: writeFileAtomic_def split: io_fault.splits if_splits)

lemma copy_frame:
  "copyFileAtomic io src dst mode fs = (r, fs') \<Longrightarrow> q \<noteq> dst \<Longrightarrow> q \<noteq> tmpPath dst \<Longrightarrow> fs' q = fs q"
  by (auto simp: copyFileAtomic_def write_frame split: io_fault.splits option.splits node.splits if_splits)

lemma copy_ok:
  assumes "copyFileAtomic io src dst mode fs = (None, fs')" "fs src = Some (NFile c m)" "src \<noteq> tmpPath dst"
  shows "fs' = fs(tmpPath dst := None, dst \<mapsto> NFile c (copyMode mode m))"
  using assms by (auto simp: copyFileAtomic_def split: io_fault.splits dest: write_ok)

lemma copyIfExists_frame:
  "copyIfExists io src dst fs = (r, fs') \<Longrightarrow> q \<noteq> dst \<Longrightarrow> q \<noteq> tmpPath dst \<Longrightarrow> fs' q = fs q"
  by (auto simp: copyIfExists_def copy_frame split: io_fault.splits option.splits node.splits prod.splits)

section \<open>The plan of a backup\<close>

lemma tmpPath_neq [simp]: "tmpPath p \<noteq> p" "p \<noteq> tmpPath p" by (simp_all add: tmpPath_def)

lemma tmpPath_inj [simp]: "tmpPath p = tmpPath q \<longleftrightarrow> p = q" by (simp add: tmpPath_def)

text \<open>Paths that are written by an upgrade, and paths of a backup, keep out of each other's way.\<close>

definition apart :: "string set \<Rightarrow> string set \<Rightarrow> bool" where
  "apart P H \<longleftrightarrow> (\<forall>p \<in> P. \<forall>h \<in> H. p \<noteq> h \<and> tmpPath p \<noteq> h \<and> p \<noteq> tmpPath h) \<and>
     (\<forall>p \<in> P. \<forall>q \<in> P. p \<noteq> tmpPath q)"

lemma apartD:
  assumes "apart P H"
  shows "p \<in> P \<Longrightarrow> h \<in> H \<Longrightarrow> p \<noteq> h" "p \<in> P \<Longrightarrow> h \<in> H \<Longrightarrow> tmpPath p \<noteq> h"
    "p \<in> P \<Longrightarrow> h \<in> H \<Longrightarrow> p \<noteq> tmpPath h" "p \<in> P \<Longrightarrow> q \<in> P \<Longrightarrow> p \<noteq> tmpPath q"
  using assms unfolding apart_def by blast+

lemma apart_mono: "apart P H \<Longrightarrow> P' \<subseteq> P \<Longrightarrow> H' \<subseteq> H \<Longrightarrow> apart P' H'"
  unfolding apart_def by blast

definition planned :: "string \<Rightarrow> (string \<times> string) list \<Rightarrow> string set" where
  "planned root cs = (\<lambda>(kind, path). backupPathOf root kind path) ` set cs"

lemma planned_Cons: "planned root ((k, p) # cs) = insert (backupPathOf root k p) (planned root cs)"
  by (simp add: planned_def)

text \<open>A backup path of its own for every file.\<close>

definition separate :: "string \<Rightarrow> (string \<times> string) list \<Rightarrow> bool" where
  "separate root cs \<longleftrightarrow> distinct (map (\<lambda>(k, p). backupPathOf root k p) cs) \<and>
     (\<forall>h \<in> planned root cs. \<forall>g \<in> planned root cs. h \<noteq> tmpPath g)"

lemma separate_Cons:
  assumes "separate root ((k, p) # cs)"
  shows "separate root cs" "backupPathOf root k p \<notin> planned root cs"
    "backupPathOf root k p \<notin> tmpPath ` planned root cs" "\<forall>h \<in> planned root cs. h \<noteq> tmpPath (backupPathOf root k p)"
  using assms by (auto simp: separate_def planned_def)

lemma safeName_safe: "CHR ''/'' \<notin> set (safeName v)"
proof -
  have "safeChar c \<noteq> CHR ''/''" for c by (auto simp: safeChar_def idChar_def Let_def)
  then have "CHR ''/'' \<noteq> safeChar c" for c by metis
  then show ?thesis by (auto simp: safeName_def Let_def)
qed

definition backupKind :: "string \<Rightarrow> bool" where
  "backupKind k \<longleftrightarrow> k = ''binary'' \<or> k = ''database'' \<or> (\<exists>i. k = configKind i)"

lemma digits_plain: "list_all is_digit ds \<Longrightarrow> CHR ''/'' \<notin> set ds \<and> CHR ''-'' \<notin> set ds"
  by (auto simp: list_all_iff is_digit_def)

lemma kind_plain: "backupKind k \<Longrightarrow> CHR ''/'' \<notin> set k"
  using digits_plain [OF pad_dec_digits] by (auto simp: backupKind_def configKind_def)

lemma kind_neq: "backupKind k \<Longrightarrow> k @ x \<notin> {[], ''.'', ''..''}"
  by (auto simp: backupKind_def configKind_def)

lemma kind_inj:
  assumes "backupKind k" "backupKind l" "k @ CHR ''-'' # x = l @ CHR ''-'' # y"
  shows "k = l"
proof -
  have tw: "takeWhile (\<lambda>c. c \<noteq> CHR ''-'') (s @ CHR ''-'' # z) = s" if "CHR ''-'' \<notin> set s" for s z :: string
    using that by (subst takeWhile_append2) auto
  have cfg: "configKind i @ CHR ''-'' # z = ''config-'' @ pad_dec 2 (Suc i) @ CHR ''-'' # z" for i z
    by (simp add: configKind_def)
  show ?thesis
  proof (cases "\<exists>i j. k = configKind i \<and> l = configKind j")
    case True
    then obtain i j where ij: "k = configKind i" "l = configKind j" by blast
    with assms(3) have "pad_dec 2 (Suc i) @ CHR ''-'' # x = pad_dec 2 (Suc j) @ CHR ''-'' # y" by (simp add: cfg)
    then have "pad_dec 2 (Suc i) = pad_dec 2 (Suc j)"
      using tw digits_plain [OF pad_dec_digits] by metis
    with ij show ?thesis by (simp add: configKind_def)
  next
    case False
    with assms show ?thesis by (auto simp: backupKind_def cfg)
  qed
qed

lemma candidate_kinds:
  "(k, p) \<in> set (backupCandidateFiles req) \<Longrightarrow> backupKind k"
  "distinct (map fst (backupCandidateFiles req))"
proof -
  show "(k, p) \<in> set (backupCandidateFiles req) \<Longrightarrow> backupKind k"
    by (auto simp: backupCandidateFiles_def backupKind_def split: if_splits)
  have c: "configKind i = configKind j \<longleftrightarrow> i = j" for i j
    using pad_dec_inj [of 2 "Suc i" "Suc j"] by (auto simp: configKind_def)
  have "distinct (map fst ((''binary'', Bq_TargetBinaryPath req) # (''database'', Bq_DatabasePath req) #
        map (\<lambda>i. (configKind i, Bq_ConfigPaths req ! i)) [0..<length (Bq_ConfigPaths req)]))"
    by (simp add: o_def distinct_map inj_on_def c) (auto simp: configKind_def)
  then show "distinct (map fst (backupCandidateFiles req))"
    unfolding backupCandidateFiles_def by (rule distinct_map_filter)
qed

lemma backupPath_name:
  assumes "backupKind k"
  shows "CHR ''/'' \<notin> set (k @ CHR ''-'' # safeName v)" "k @ CHR ''-'' # safeName v \<notin> {[], ''.'', ''..''}"
  using kind_plain [OF assms] safeName_safe kind_neq [OF assms] by auto

lemma backupPath_inj:
  assumes "backupKind k" "backupKind l" "backupPathOf root k p @ s = backupPathOf root l q @ t"
  shows "k = l"
proof -
  from JoinPath_inj [OF backupPath_name [OF assms(1)] backupPath_name [OF assms(2)] assms(3) [unfolded backupPathOf_def]]
  have "k @ CHR ''-'' # (safeName (Base p) @ s) = l @ CHR ''-'' # (safeName (Base q) @ t)" by simp
  with assms(1,2) show ?thesis by (rule kind_inj)
qed

lemma candidates_separate: "separate root (backupCandidateFiles req)"
proof -
  let ?cs = "backupCandidateFiles req"
  have inj: "k = l \<and> p = q" if "(k, p) \<in> set ?cs" "(l, q) \<in> set ?cs"
    "backupPathOf root k p @ s = backupPathOf root l q @ t" for k p l q s t
  proof -
    have "k = l" using backupPath_inj [OF candidate_kinds(1) [OF that(1)] candidate_kinds(1) [OF that(2)] that(3)] .
    with that(1,2) candidate_kinds(2) show ?thesis by (auto dest: eq_key_imp_eq_value)
  qed
  have "distinct ?cs" using candidate_kinds(2) by (auto dest: distinct_map [THEN iffD1])
  moreover have "inj_on (\<lambda>(k, p). backupPathOf root k p) (set ?cs)"
    using inj [where s = "[]" and t = "[]"] by (auto simp: inj_on_def)
  ultimately have "distinct (map (\<lambda>(k, p). backupPathOf root k p) ?cs)" by (simp add: distinct_map)
  moreover have "h \<noteq> tmpPath g" if hg: "h \<in> planned root ?cs" "g \<in> planned root ?cs" for h g
  proof
    assume e: "h = tmpPath g"
    from hg obtain k p l q where kp: "(k, p) \<in> set ?cs" "h = backupPathOf root k p"
      and lq: "(l, q) \<in> set ?cs" "g = backupPathOf root l q" by (auto simp: planned_def)
    from inj [OF kp(1) lq(1), of "[]" "''.tmp''"] e kp(2) lq(2) have "h = g" by (simp add: tmpPath_def)
    with e show False by simp
  qed
  ultimately show ?thesis by (simp add: separate_def)
qed

section \<open>Backing up and restoring\<close>

lemma backupFiles_frame:
  "backupFiles io root cs bs fs = (r, fs') \<Longrightarrow> q \<notin> planned root cs \<Longrightarrow> q \<notin> tmpPath ` planned root cs \<Longrightarrow> fs' q = fs q"
proof (induction io root cs bs fs arbitrary: r fs' rule: backupFiles.induct)
  case (2 io root kind path cs bs fs)
  let ?d = "backupPathOf root kind path"
  have q: "q \<noteq> ?d" "q \<noteq> tmpPath ?d" "q \<notin> planned root cs" "q \<notin> tmpPath ` planned root cs"
    using 2(3,4) by (auto simp: planned_Cons)
  obtain x fs1 where c: "copyIfExists io path ?d fs = (x, fs1)" by fastforce
  have f: "fs1 q = fs q" using copyIfExists_frame [OF c q(1,2)] .
  show ?case
  proof (cases x)
    case (Inl e)
    with 2(2) c f show ?thesis by simp
  next
    case (Inr present)
    with 2(1) [OF c [symmetric] Inr] 2(2) c q f show ?thesis by simp
  qed
qed simp

text \<open>How a file is written down in a backup.\<close>

definition recorded :: "files \<Rightarrow> files \<Rightarrow> BackupFile \<Rightarrow> bool" where
  "recorded fs fs' b \<longleftrightarrow> (case fs (Bf_SourcePath b) of None \<Rightarrow> \<not> Bf_Present b
     | Some (NFile c m) \<Rightarrow> Bf_Present b \<and> fs' (Bf_BackupPath b) = Some (NFile c (copyMode m m))
     | Some NDir \<Rightarrow> False)"

lemma copy_recorded:
  assumes "copyIfExists io path d fs = (Inr present, fs1)" "path \<noteq> tmpPath d" "path \<noteq> d"
  shows "recorded fs fs1 \<lparr>Bf_Kind = k, Bf_SourcePath = path, Bf_BackupPath = d, Bf_Present = present\<rparr>"
proof (cases "fs path")
  case None
  with assms(1) show ?thesis by (auto simp: copyIfExists_def recorded_def split: io_fault.splits)
next
  case (Some n)
  then show ?thesis
  proof (cases n)
    case (NFile c m)
    with Some assms(1) have p: "present" "copyFileAtomic io path d m fs = (None, fs1)"
      by (auto simp: copyIfExists_def split: io_fault.splits option.splits prod.splits)
    from copy_ok [OF p(2)] Some NFile assms(2) have "fs1 d = Some (NFile c (copyMode m m))" by simp
    with p(1) Some NFile show ?thesis by (simp add: recorded_def)
  next
    case NDir
    with Some assms(1) show ?thesis by (auto simp: copyIfExists_def split: io_fault.splits)
  qed
qed

lemma backupFiles_records:
  assumes "backupFiles io root cs bs fs = (Inr out, fs')" "separate root cs" "apart (snd ` set cs) (planned root cs)"
  shows "\<exists>new. out = bs @ new \<and> map Bf_SourcePath new = map snd cs \<and>
    map Bf_BackupPath new = map (\<lambda>(k, p). backupPathOf root k p) cs \<and> (\<forall>b \<in> set new. recorded fs fs' b)"
  using assms
proof (induction io root cs bs fs arbitrary: out fs' rule: backupFiles.induct)
  case (2 io root kind path cs bs fs)
  let ?d = "backupPathOf root kind path"
  note sep = separate_Cons [OF 2(3)]
  have ap: "apart (snd ` set cs) (planned root cs)" by (rule apart_mono [OF 2(4)]) (auto simp: planned_Cons)
  have src: "p \<noteq> ?d" "p \<noteq> tmpPath ?d" if "p \<in> insert path (snd ` set cs)" for p
    using that apartD(1,3) [OF 2(4), of p ?d] by (auto simp: planned_Cons)
  obtain x fs1 where c: "copyIfExists io path ?d fs = (x, fs1)" by fastforce
  with 2(2) obtain present where x: "x = Inr present" by (cases x) auto
  let ?b = "\<lparr>Bf_Kind = kind, Bf_SourcePath = path, Bf_BackupPath = ?d, Bf_Present = present\<rparr>"
  from 2(2) c x have rest: "backupFiles io root cs (bs @ [?b]) fs1 = (Inr out, fs')" by simp
  from 2(1) [OF c [symmetric] x rest sep(1) ap] obtain new where new: "out = (bs @ [?b]) @ new"
    "map Bf_SourcePath new = map snd cs" "map Bf_BackupPath new = map (\<lambda>(k, p). backupPathOf root k p) cs"
    "\<forall>b \<in> set new. recorded fs1 fs' b" by blast
  have "recorded fs fs1 ?b" using copy_recorded [OF c [unfolded x]] src [of path] by simp
  moreover have "fs' ?d = fs1 ?d" by (rule backupFiles_frame [OF rest]) (use sep in auto)
  ultimately have b: "recorded fs fs' ?b" by (auto simp: recorded_def split: option.splits node.splits)
  have "recorded fs fs' b" if "b \<in> set new" for b
  proof -
    have "Bf_SourcePath b \<in> snd ` set cs"
      using that new(2) by (metis image_eqI list.set_map)
    with src have "fs1 (Bf_SourcePath b) = fs (Bf_SourcePath b)" by (intro copyIfExists_frame [OF c]) auto
    with new(4) that show ?thesis by (auto simp: recorded_def)
  qed
  with b new show ?case by (intro exI [of _ "?b # new"]) auto
qed simp

text \<open>What a restored file is: a mode of zero has become \<open>0o600\<close>.\<close>

fun restoredNode :: "node \<Rightarrow> node" where
  "restoredNode (NFile c m) = NFile c (if m = 0 then 384 else m)"
| "restoredNode NDir = NDir"

lemma restoreFiles_frame:
  assumes "restoreFiles io bs fs = (r, fs')" "\<And>b. b \<in> set bs \<Longrightarrow> Bf_Present b \<Longrightarrow> q \<noteq> Bf_SourcePath b \<and> q \<noteq> tmpPath (Bf_SourcePath b)"
  shows "fs' q = fs q"
  using assms
proof (induction io bs fs arbitrary: r fs' rule: restoreFiles.induct)
  case (2 io b bs fs)
  show ?case
  proof (cases "Bf_Present b")
    case True
    obtain x fs1 where c: "copyFileAtomic io (Bf_BackupPath b) (Bf_SourcePath b) 0 fs = (x, fs1)" by fastforce
    have f: "fs1 q = fs q" by (rule copy_frame [OF c]) (use 2(4) [of b] True in auto)
    show ?thesis
    proof (cases x)
      case None
      with True c 2(3) have "restoreFiles io bs fs1 = (r, fs')" by simp
      from 2(2) [OF _ c [symmetric] None this] True 2(4) f show ?thesis by simp
    next
      case (Some e)
      with True c 2(3) f show ?thesis by simp
    qed
  next
    case False
    with 2 show ?thesis by simp
  qed
qed simp

text \<open>A restore that succeeds puts at every recorded source what the backup has for it.\<close>

lemma restoreFiles_back:
  assumes "restoreFiles io bs fs = (None, fs')" "apart (Bf_SourcePath ` set bs) (Bf_BackupPath ` set bs)"
    and "\<And>b. b \<in> set bs \<Longrightarrow> Bf_Present b \<Longrightarrow> \<exists>c m. fs (Bf_BackupPath b) = Some (NFile c m) \<and>
      want (Bf_SourcePath b) = Some (NFile c (copyMode 0 m))"
  shows "\<forall>b \<in> set bs. Bf_Present b \<longrightarrow> fs' (Bf_SourcePath b) = want (Bf_SourcePath b)"
  using assms
proof (induction io bs fs arbitrary: fs' rule: restoreFiles.induct)
  case (2 io b bs fs)
  have ap: "apart (Bf_SourcePath ` set bs) (Bf_BackupPath ` set bs)" by (rule apart_mono [OF 2(4)]) auto
  show ?case
  proof (cases "Bf_Present b")
    case True
    let ?s = "Bf_SourcePath b"
    from 2(5) [of b] True obtain c m where cm: "fs (Bf_BackupPath b) = Some (NFile c m)"
      "want ?s = Some (NFile c (copyMode 0 m))" by auto
    from 2(3) True obtain fs1 where c: "copyFileAtomic io (Bf_BackupPath b) ?s 0 fs = (None, fs1)"
      and rest: "restoreFiles io bs fs1 = (None, fs')" by (auto split: option.splits prod.splits)
    have "Bf_BackupPath b \<noteq> tmpPath ?s" using apartD(2) [OF 2(4), of ?s "Bf_BackupPath b"] by auto
    from copy_ok [OF c cm(1) this] have f1: "fs1 = fs(tmpPath ?s := None, ?s \<mapsto> NFile c (copyMode 0 m))" .
    have keep: "fs1 (Bf_BackupPath d) = fs (Bf_BackupPath d)" if "d \<in> set bs" for d
      by (rule copy_frame [OF c]) (use that apartD(1,2) [OF 2(4), of ?s "Bf_BackupPath d"] in auto)
    have IH: "\<forall>d \<in> set bs. Bf_Present d \<longrightarrow> fs' (Bf_SourcePath d) = want (Bf_SourcePath d)"
    proof (rule 2(2) [OF _ c [symmetric] refl rest ap])
      fix d assume "d \<in> set bs" "Bf_Present d"
      with 2(5) [of d] keep show "\<exists>c m. fs1 (Bf_BackupPath d) = Some (NFile c m) \<and>
        want (Bf_SourcePath d) = Some (NFile c (copyMode 0 m))" by auto
    qed (use True in simp)
    have "fs' ?s = want ?s"
    proof (cases "\<exists>d \<in> set bs. Bf_Present d \<and> Bf_SourcePath d = ?s")
      case True
      with IH show ?thesis by metis
    next
      case False
      then have "fs' ?s = fs1 ?s" by (intro restoreFiles_frame [OF rest]) (use apartD(4) [OF 2(4), of ?s] in auto)
      with f1 cm show ?thesis by simp
    qed
    with IH True show ?thesis by auto
  next
    case False
    with 2 ap show ?thesis by simp
  qed
qed simp


section \<open>The contract of a backup store\<close>

text \<open>
  \<open>look\<close> shows the files of a world, \<open>covers\<close> are the files a request asks for and \<open>places\<close> where their
  backups go. A restore, some time after the backup and with the backup still in place, brings back the
  files that there were; neither operation touches a file that there was not.
\<close>

locale backup_store =
  fixes backup :: "BackupRequest \<Rightarrow> 'w \<Rightarrow> (string + BackupRecord) \<times> 'w"
    and restore :: "BackupRecord \<Rightarrow> 'w \<Rightarrow> string option \<times> 'w"
    and look :: "'w \<Rightarrow> string \<Rightarrow> node option"
    and covers :: "BackupRequest \<Rightarrow> string set"
    and places :: "BackupRequest \<Rightarrow> string set"
  assumes restore_back: "apart (covers breq) (places breq) \<Longrightarrow> backup breq w = (Inr r, w1) \<Longrightarrow>
      (\<forall>q \<in> places breq. look w2 q = look w1 q) \<Longrightarrow> restore r w2 = (None, w3) \<Longrightarrow>
      p \<in> covers breq \<Longrightarrow> look w p = Some n \<Longrightarrow> look w3 p = Some (restoredNode n)"
    and restore_absent: "apart (covers breq) (places breq) \<Longrightarrow> backup breq w = (Inr r, w1) \<Longrightarrow>
      restore r w2 = (x, w3) \<Longrightarrow> p \<in> covers breq \<Longrightarrow> look w p = None \<Longrightarrow> look w3 p = look w2 p"
    and backup_frame: "apart (covers breq) (places breq) \<Longrightarrow> backup breq w = (y, w1) \<Longrightarrow>
      p \<in> covers breq \<Longrightarrow> look w1 p = look w p"

definition coveredFiles :: "BackupRequest \<Rightarrow> string set" where
  "coveredFiles req = snd ` set (backupCandidateFiles req)"

definition backupRoot :: "string \<Rightarrow> time \<Rightarrow> BackupRequest \<Rightarrow> string" where
  "backupRoot storeDir now req = JoinPath (firstNonEmpty [Bq_BackupDir req, storeDir]) (backupID (Bq_Version req) now)"

definition backupPlaces :: "string \<Rightarrow> time \<Rightarrow> BackupRequest \<Rightarrow> string set" where
  "backupPlaces storeDir now req = planned (backupRoot storeDir now req) (backupCandidateFiles req)"

lemma FileStoreBackup_frame:
  assumes "apart (coveredFiles req) (backupPlaces dir now req)" "FileStoreBackup io dir now req fs = (y, fs')"
    and "p \<in> coveredFiles req"
  shows "fs' p = fs p"
proof -
  have "p \<notin> backupPlaces dir now req" "p \<notin> tmpPath ` backupPlaces dir now req"
    using apartD(1,3) [OF assms(1)] assms(3) by blast+
  then have "fs2 p = fs p" if "backupFiles io (backupRoot dir now req) (backupCandidateFiles req) [] fs = (x, fs2)" for x fs2
    using backupFiles_frame [OF that] by (simp add: backupPlaces_def)
  with assms(2) show ?thesis
    by (auto simp: FileStoreBackup_def Let_def backupRoot_def split: if_splits io_fault.splits prod.splits sum.splits)
qed

lemma FileStoreBackup_records:
  assumes "apart (coveredFiles req) (backupPlaces dir now req)" "FileStoreBackup io dir now req fs = (Inr r, fs')"
  shows "map Bf_SourcePath (Br_Files r) = map snd (backupCandidateFiles req)" "\<forall>b \<in> set (Br_Files r). recorded fs fs' b"
    "Bf_SourcePath ` set (Br_Files r) = coveredFiles req" "Bf_BackupPath ` set (Br_Files r) = backupPlaces dir now req"
    "Br_ID r \<noteq> []"
proof -
  let ?root = "backupRoot dir now req"
  from assms(2) have b: "backupFiles io ?root (backupCandidateFiles req) [] fs = (Inr (Br_Files r), fs')" "Br_ID r \<noteq> []"
    by (auto simp: FileStoreBackup_def Let_def backupRoot_def backupID_def split: if_splits io_fault.splits prod.splits sum.splits)
  from backupFiles_records [OF b(1) candidates_separate assms(1) [unfolded coveredFiles_def backupPlaces_def]]
  have n: "map Bf_SourcePath (Br_Files r) = map snd (backupCandidateFiles req)"
    "map Bf_BackupPath (Br_Files r) = map (\<lambda>(k, p). backupPathOf ?root k p) (backupCandidateFiles req)"
    "\<forall>b \<in> set (Br_Files r). recorded fs fs' b" by auto
  then show "map Bf_SourcePath (Br_Files r) = map snd (backupCandidateFiles req)"
    "\<forall>b \<in> set (Br_Files r). recorded fs fs' b" "Br_ID r \<noteq> []" using b(2) by auto
  show "Bf_SourcePath ` set (Br_Files r) = coveredFiles req" "Bf_BackupPath ` set (Br_Files r) = backupPlaces dir now req"
    unfolding coveredFiles_def backupPlaces_def planned_def using n(1,2) by (metis list.set_map)+
qed

lemma restored_again: "copyMode 0 (copyMode m m) = (if m = 0 then 384 else m)" by (simp add: copyMode_def)

lemma FileStore_back:
  assumes "apart (coveredFiles req) (backupPlaces dir now req)" "FileStoreBackup io dir now req fs = (Inr r, fs1)"
    and "\<forall>q \<in> backupPlaces dir now req. fs2 q = fs1 q" "FileStoreRestore io' r fs2 = (None, fs3)"
    and "p \<in> coveredFiles req" "fs p = Some n"
  shows "fs3 p = Some (restoredNode n)"
proof -
  note rec = FileStoreBackup_records [OF assms(1,2)]
  let ?want = "\<lambda>q. map_option restoredNode (fs q)"
  from assms(4) have rest: "restoreFiles io' (Br_Files r) fs2 = (None, fs3)"
    by (simp add: FileStoreRestore_def rec(5))
  have have_it: "\<exists>c m. fs2 (Bf_BackupPath b) = Some (NFile c m) \<and> ?want (Bf_SourcePath b) = Some (NFile c (copyMode 0 m))"
    if "b \<in> set (Br_Files r)" "Bf_Present b" for b
  proof -
    have "Bf_BackupPath b \<in> backupPlaces dir now req" unfolding rec(4) [symmetric] using that(1) by simp
    with assms(3) have "fs2 (Bf_BackupPath b) = fs1 (Bf_BackupPath b)" by blast
    moreover from rec(2) that(1) have "recorded fs fs1 b" by blast
    ultimately show ?thesis using that(2)
      by (cases "fs (Bf_SourcePath b)")
        (auto simp: recorded_def restored_again split: node.splits)
  qed
  have all: "\<forall>b \<in> set (Br_Files r). Bf_Present b \<longrightarrow> fs3 (Bf_SourcePath b) = ?want (Bf_SourcePath b)"
    by (rule restoreFiles_back [OF rest _ have_it]) (simp_all add: rec(3,4) assms(1))
  from assms(5) obtain b where b: "b \<in> set (Br_Files r)" "Bf_SourcePath b = p" unfolding rec(3) [symmetric] by blast
  moreover from b(1) rec(2) have "recorded fs fs1 b" by blast
  ultimately have "Bf_Present b" using assms(6) by (auto simp: recorded_def split: node.splits)
  with all b assms(6) show ?thesis by auto
qed

lemma FileStore_absent:
  assumes "apart (coveredFiles req) (backupPlaces dir now req)" "FileStoreBackup io dir now req fs = (Inr r, fs1)"
    and "FileStoreRestore io' r fs2 = (x, fs3)" "p \<in> coveredFiles req" "fs p = None"
  shows "fs3 p = fs2 p"
proof -
  note rec = FileStoreBackup_records [OF assms(1,2)]
  have "p \<noteq> Bf_SourcePath b \<and> p \<noteq> tmpPath (Bf_SourcePath b)" if b: "b \<in> set (Br_Files r)" "Bf_Present b" for b
  proof -
    have "Bf_SourcePath b \<in> coveredFiles req" unfolding rec(3) [symmetric] using b(1) by simp
    with apartD(4) [OF assms(1)] assms(4) have "p \<noteq> tmpPath (Bf_SourcePath b)" by blast
    moreover from rec(2) b(1) have "recorded fs fs1 b" by blast
    with b(2) assms(5) have "p \<noteq> Bf_SourcePath b" by (auto simp: recorded_def)
    ultimately show ?thesis by simp
  qed
  with assms(3) rec(5) show ?thesis by (auto simp: FileStoreRestore_def intro!: restoreFiles_frame)
qed

lemma onFiles_eq: "onFiles f w = (r, w') \<Longrightarrow> f (uw_files w) = (r, uw_files w')"
  by (auto simp: onFiles_def split: prod.splits)

interpretation file_store: backup_store "\<lambda>req. onFiles (FileStoreBackup io dir now req)"
  "\<lambda>r. onFiles (FileStoreRestore io' r)" uw_files coveredFiles "backupPlaces dir now"
  by unfold_locales (blast dest: onFiles_eq intro: FileStore_back FileStore_absent FileStoreBackup_frame)+


section \<open>Rollback\<close>

text \<open>The attempt that leads to a rollback: the install, the start or the check refuses.\<close>

definition attempted ::
  "(nat \<Rightarrow> 'w \<Rightarrow> string option \<times> 'w) \<Rightarrow> (InstallRequest \<Rightarrow> 'w \<Rightarrow> string option \<times> 'w) \<Rightarrow>
   (PostInstallCheck \<Rightarrow> 'w \<Rightarrow> string option \<times> 'w) \<Rightarrow> InstallRequest \<Rightarrow> PostInstallCheck \<Rightarrow> 'w \<Rightarrow> upg_err \<Rightarrow> 'w \<Rightarrow> bool" where
  "attempted start install check ireq pc w e w' \<longleftrightarrow>
     (\<exists>m. install ireq w = (Some m, w') \<and> e = UpInstallFailed m) \<or>
     (\<exists>w1. install ireq w = (None, w1) \<and>
        ((\<exists>m. start 0 w1 = (Some m, w') \<and> e = UpStartFailed m) \<or>
         (\<exists>w2. start 0 w1 = (None, w2) \<and> (\<exists>m. check pc w2 = (Some m, w') \<and> e = UpPostInstallFailed m))))"

lemma failed_not_rolled_back: "fail_upgrade u now run b e ss w = ((r, err), st) \<Longrightarrow> \<not> Ur_RolledBack r"
  using fail_not_rolled_back [of u now run b e ss w] by simp

lemma rollback_worlds:
  assumes "rollback_upgrade u stop start restore now run b cause ss w = ((r, err), ss', w')" "Ur_RolledBack r"
  shows "err = Some cause \<and> (\<exists>w1 w2 w3 ev. stop 1 w = (None, w1) \<and> restore b w1 = (None, w2) \<and>
    start 1 w2 = (None, w3) \<and> w' = snd (upAudit u ev w3))"
proof -
  obtain e1 w1 where 1: "stop 1 w = (e1, w1)" by fastforce
  obtain e2 w2 where 2: "restore b w1 = (e2, w2)" by fastforce
  obtain e3 w3 where 3: "start 1 w2 = (e3, w3)" by fastforce
  note unf = assms(1) [unfolded rollback_upgrade_def Let_def 1 2 3 prod.case]
  have none: "e1 = None" "e2 = None" "e3 = None"
    using unf assms(2) by (auto simp: upgradeResult_def split: if_splits option.splits)
  with unf have "err = Some cause" "\<exists>ev. w' = snd (upAudit u ev w3)" by auto
  with 1 2 3 none show ?thesis by auto
qed

lemma installPart_worlds:
  assumes "installPart u stop start restore install check now req rb iv run b ss w = ((r, err), ss', w')" "Ur_RolledBack r"
  shows "\<exists>e w0 w1 w2 w3 ev. err = Some e \<and>
    attempted start install check (installRequestOf req rb iv) (postCheckOf req rb iv) w e w0 \<and>
    stop 1 w0 = (None, w1) \<and> restore b w1 = (None, w2) \<and> start 1 w2 = (None, w3) \<and> w' = snd (upAudit u ev w3)"
proof -
  obtain e1 w1 where 1: "install (installRequestOf req rb iv) w = (e1, w1)" by fastforce
  obtain e2 w2 where 2: "start 0 w1 = (e2, w2)" by fastforce
  obtain e3 w3 where 3: "check (postCheckOf req rb iv) w2 = (e3, w3)" by fastforce
  note unf = assms(1) [unfolded installPart_def Let_def 1 2 3 prod.case]
  have undo: "\<exists>e w0 w1 w2 w3 ev. err = Some e \<and>
    attempted start install check (installRequestOf req rb iv) (postCheckOf req rb iv) w e w0 \<and>
    stop 1 w0 = (None, w1) \<and> restore b w1 = (None, w2) \<and> start 1 w2 = (None, w3) \<and> w' = snd (upAudit u ev w3)"
    if "rollback_upgrade u stop start restore now run b e ssx wx = ((r, err), ss', w')"
      "attempted start install check (installRequestOf req rb iv) (postCheckOf req rb iv) w e wx" for e ssx wx
    using rollback_worlds [OF that(1) assms(2)] that(2) by blast
  show ?thesis
  proof (cases e1)
    case (Some m)
    with unf have "\<exists>ssx. rollback_upgrade u stop start restore now run b (UpInstallFailed m) ssx w1 = ((r, err), ss', w')"
      by auto
    with undo show ?thesis using 1 Some by (auto simp: attempted_def)
  next
    case n1: None
    show ?thesis
    proof (cases e2)
      case (Some m)
      with unf n1 have "\<exists>ssx. rollback_upgrade u stop start restore now run b (UpStartFailed m) ssx w2 = ((r, err), ss', w')"
        by auto
      with undo show ?thesis using 1 2 n1 Some by (auto simp: attempted_def)
    next
      case n2: None
      show ?thesis
      proof (cases e3)
        case (Some m)
        with unf n1 n2 have "\<exists>ssx. rollback_upgrade u stop start restore now run b (UpPostInstallFailed m) ssx w3 = ((r, err), ss', w')"
          by auto
        with undo show ?thesis using 1 2 3 n1 n2 Some by (auto simp: attempted_def)
      next
        case None
        with unf n1 n2 assms(2) show ?thesis by (auto simp: upgradeResult_def)
      qed
    qed
  qed
qed

lemma backupPart_worlds:
  assumes "backupPart u takeBackup stop now req run (installPart u stop start restore install check now req rb iv run) ss w =
      ((r, err), ss', w')" "Ur_RolledBack r"
  shows "\<exists>b wa wb e w0 w1 w2 w3 ev. takeBackup (backupRequestOf req (Run_Version run)) w = (Inr b, wa) \<and>
    stop 0 wa = (None, wb) \<and> err = Some e \<and>
    attempted start install check (installRequestOf req rb iv) (postCheckOf req rb iv) wb e w0 \<and>
    stop 1 w0 = (None, w1) \<and> restore b w1 = (None, w2) \<and> start 1 w2 = (None, w3) \<and> w' = snd (upAudit u ev w3)"
proof -
  obtain x wa where 1: "takeBackup (backupRequestOf req (Run_Version run)) w = (x, wa)" by fastforce
  obtain e wb where 2: "stop 0 wa = (e, wb)" by fastforce
  note unf = assms(1) [unfolded backupPart_def Let_def 1 2 prod.case]
  obtain b where b: "x = Inr b" using unf failed_not_rolled_back assms(2) by (cases x) fastforce+
  have e: "e = None" using unf failed_not_rolled_back assms(2) b by (cases e) fastforce+
  from unf b e obtain ssx where "installPart u stop start restore install check now req rb iv run b ssx wb = ((r, err), ss', w')"
    by auto
  from installPart_worlds [OF this assms(2)] 1 2 b e show ?thesis by blast
qed

text \<open>What an attempt keeps, if its parts keep it.\<close>

lemma attempted_keeps:
  assumes "attempted start install check ireq pc w e w'"
    and "\<And>w. f (snd (start 0 w)) = f w" "\<And>w. f (snd (install ireq w)) = f w" "\<And>w. f (snd (check pc w)) = f w"
  shows "f w' = f w"
  using assms(1) unfolding attempted_def by (metis assms(2-4) snd_conv)

context backup_store
begin

lemma undone:
  assumes "backupPart u backup stop now req run (installPart u stop start restore install check now req rb iv run) ss w =
      ((r, err), ss', w')" "Ur_RolledBack r"
    and br: "br = backupRequestOf req (Run_Version run)" and "apart (covers br) (places br)"
    and "\<And>q n w. q \<in> places br \<Longrightarrow> look (snd (stop n w)) q = look w q"
      "\<And>q w. q \<in> places br \<Longrightarrow> look (snd (start 0 w)) q = look w q"
      "\<And>q w. q \<in> places br \<Longrightarrow> look (snd (install (installRequestOf req rb iv) w)) q = look w q"
      "\<And>q c w. q \<in> places br \<Longrightarrow> look (snd (check c w)) q = look w q"
    and "\<And>ev w. look (snd (upAudit u ev w)) = look w"
  shows "\<exists>w2 w3. start 1 w2 = (None, w3) \<and> look w' = look w3 \<and>
    (\<forall>p n. p \<in> covers br \<and> look w p = Some n \<longrightarrow> look w2 p = Some (restoredNode n))"
proof -
  from backupPart_worlds [OF assms(1,2), folded br] obtain b wa wb e w0 w1 w2 w3 ev where
    t: "backup br w = (Inr b, wa)" "stop 0 wa = (None, wb)"
    "attempted start install check (installRequestOf req rb iv) (postCheckOf req rb iv) wb e w0"
    "stop 1 w0 = (None, w1)" "restore b w1 = (None, w2)" "start 1 w2 = (None, w3)" "w' = snd (upAudit u ev w3)"
    by blast
  have "look w1 q = look wa q" if q: "q \<in> places br" for q
  proof -
    have "look w0 q = look wb q"
      by (rule attempted_keeps [OF t(3), where f = "\<lambda>w. look w q"]) (rule assms(6-8) [OF q])+
    with assms(5) [OF q, of 0 wa] assms(5) [OF q, of 1 w0] t(2,4) show ?thesis by (metis snd_conv)
  qed
  then have "look w2 p = Some (restoredNode n)" if "p \<in> covers br" "look w p = Some n" for p n
    by (intro restore_back [OF assms(4) t(1) _ t(5) that]) blast
  with t(6,7) assms(9) show ?thesis by blast
qed

text \<open>A covered file that there was not stays as the attempt left it.\<close>

lemma left_behind:
  assumes "backupPart u backup stop now req run (installPart u stop start restore install check now req rb iv run) ss w =
      ((r, err), ss', w')" "Ur_RolledBack r"
    and br: "br = backupRequestOf req (Run_Version run)" and "apart (covers br) (places br)"
    and "\<And>n w. look (snd (stop n w)) p = look w p" "\<And>n w. look (snd (start n w)) p = look w p"
      "\<And>c w. look (snd (check c w)) p = look w p" "\<And>ev w. look (snd (upAudit u ev w)) p = look w p"
    and "p \<in> covers br" "look w p = None" "\<And>m. err \<noteq> Some (UpInstallFailed m)"
  shows "\<exists>wb wc. install (installRequestOf req rb iv) wb = (None, wc) \<and> look w' p = look wc p"
proof -
  from backupPart_worlds [OF assms(1,2), folded br] obtain b wa wb e w0 w1 w2 w3 ev where
    t: "backup br w = (Inr b, wa)" "stop 0 wa = (None, wb)" "err = Some e"
    "attempted start install check (installRequestOf req rb iv) (postCheckOf req rb iv) wb e w0"
    "stop 1 w0 = (None, w1)" "restore b w1 = (None, w2)" "start 1 w2 = (None, w3)" "w' = snd (upAudit u ev w3)"
    by blast
  from t(3,4) assms(11) obtain wc where wc: "install (installRequestOf req rb iv) wb = (None, wc)"
    "look w0 p = look wc p"
    unfolding attempted_def by (metis assms(6,7) snd_conv)
  have "look w2 p = look w1 p" by (rule restore_absent [OF assms(4) t(1,6) assms(9,10)])
  with wc t assms(5,6,8) show ?thesis by (metis snd_conv)
qed

end


text \<open>An upgrade of the production service that is rolled back got as far as its backup.\<close>

lemma production_rolled_back:
  assumes "Upgrade (productionUpgrader e) now req ss w = ((r, err), ss', w')" "Ur_RolledBack r"
    and "HTTPFetch (Ue_fetchCodec e) (Ue_get e) (Ue_maxBytes e) (Uq_Release req) = Inr rb"
  shows "\<exists>w3 run ssx v. uw_files w3 = uw_files w \<and> Run_Version run = Man_Version (Rb_Manifest rb) \<and>
    backupPart (productionUpgrader e) (\<lambda>req. onFiles (FileStoreBackup (Ue_backupIO e) (Ue_backupDir e) (Ue_backupNow e) req))
      (SystemdRun (Ue_runner e) (Ue_unit e) (Ue_user e) ''stop'') now req run
      (installPart (productionUpgrader e) (SystemdRun (Ue_runner e) (Ue_unit e) (Ue_user e) ''stop'')
        (SystemdRun (Ue_runner e) (Ue_unit e) (Ue_user e) ''start'') (\<lambda>r. onFiles (FileStoreRestore (Ue_restoreIO e) r))
        (\<lambda>req. onFiles (FileInstall (Ue_codec e) (Ue_installIO e) req)) (\<lambda>c w. (Ue_check e c, w))
        now req rb (inventoryOf v) run) ssx w3 = ((r, err), ss', w')"
  using untouched.refused_or_gated [OF _ production_ports(1-6) [of e], of w "uw_files w" "uw_system w" now req ss] assms
  by (auto 0 5)

lemma SystemdRun_files: "uw_files (snd (SystemdRun r unit us act n w)) = snd (r n (systemctlArgv unit us act) (uw_files w))"
  by (simp add: SystemdRun_def Let_def split: prod.split)

lemma onFiles_files: "uw_files (snd (onFiles f w)) = snd (f (uw_files w))"
  by (simp add: onFiles_def split: prod.split)

lemma FileInstall_frame:
  assumes "q \<noteq> Iq_TargetBinaryPath ir" "q \<noteq> tmpPath (Iq_TargetBinaryPath ir)"
    and "blank (Iq_InventoryPath ir) \<or> q \<noteq> Iq_InventoryPath ir \<and> q \<noteq> tmpPath (Iq_InventoryPath ir)"
  shows "snd (FileInstall k io ir fs) q = fs q"
proof -
  have f: "snd (writeFileAtomic io dst data mode fs) q = fs q" if "q \<noteq> dst" "q \<noteq> tmpPath dst" for dst data mode fs
    using write_frame that by (metis prod.collapse)
  obtain x fs1 where w: "writeFileAtomic io (Iq_TargetBinaryPath ir) (Iq_Binary ir) 493 fs = (x, fs1)" by fastforce
  with f assms(1,2) have "fs1 q = fs q" by (metis snd_conv)
  with assms(3) f show ?thesis by (auto simp: FileInstall_def WriteInventory_def w split: option.split)
qed

text \<open>The paths an upgrade writes to: the files its backup covers, and the inventory.\<close>

definition upgradePaths :: "UpgradeRequest \<Rightarrow> string \<Rightarrow> string set" where
  "upgradePaths req version = coveredFiles (backupRequestOf req version) \<union>
     (if blank (Uq_InventoryPath req) then {} else {Uq_InventoryPath req})"

lemma target_covered:
  "\<not> blank (Uq_TargetBinaryPath req) \<Longrightarrow> Uq_TargetBinaryPath req \<in> coveredFiles (backupRequestOf req version)"
  by (force simp: coveredFiles_def backupCandidateFiles_def backupRequestOf_def)

text \<open>
  C33. When a rollback has succeeded, every file the backup covers that there was before the upgrade was
  back with its content and mode (a mode of zero as \<open>0o600\<close>) at the moment the old daemon was started
  again, whatever the new daemon had done to it; the files left are what that start made of those.
  The paths of the upgrade, those of the backup and their temporary names must be apart from each
  other, and no \<open>systemctl\<close> command may touch the directory of the backup.
\<close>

theorem rollback_restores_files:
  assumes "Upgrade (productionUpgrader e) now req ss w = ((r, err), ss', w')" "Ur_RolledBack r"
    and "HTTPFetch (Ue_fetchCodec e) (Ue_get e) (Ue_maxBytes e) (Uq_Release req) = Inr rb"
    and "br = backupRequestOf req (Man_Version (Rb_Manifest rb))"
    and "\<not> blank (Uq_TargetBinaryPath req)"
    and "apart (upgradePaths req (Man_Version (Rb_Manifest rb))) (backupPlaces (Ue_backupDir e) (Ue_backupNow e) br)"
    and "\<And>n argv fs q. q \<in> backupPlaces (Ue_backupDir e) (Ue_backupNow e) br \<Longrightarrow> snd (Ue_runner e n argv fs) q = fs q"
  shows "\<exists>fs. uw_files w' = snd (Ue_runner e 1 (systemctlArgv (Ue_unit e) (Ue_user e) ''start'') fs) \<and>
    (\<forall>p n. p \<in> coveredFiles br \<and> uw_files w p = Some n \<longrightarrow> fs p = Some (restoredNode n))"
proof -
  from production_rolled_back [OF assms(1-3)] obtain w3 run ssx v where
    s: "uw_files w3 = uw_files w" "Run_Version run = Man_Version (Rb_Manifest rb)"
    and b: "backupPart (productionUpgrader e) (\<lambda>req. onFiles (FileStoreBackup (Ue_backupIO e) (Ue_backupDir e) (Ue_backupNow e) req))
      (SystemdRun (Ue_runner e) (Ue_unit e) (Ue_user e) ''stop'') now req run
      (installPart (productionUpgrader e) (SystemdRun (Ue_runner e) (Ue_unit e) (Ue_user e) ''stop'')
        (SystemdRun (Ue_runner e) (Ue_unit e) (Ue_user e) ''start'') (\<lambda>r. onFiles (FileStoreRestore (Ue_restoreIO e) r))
        (\<lambda>req. onFiles (FileInstall (Ue_codec e) (Ue_installIO e) req)) (\<lambda>c w. (Ue_check e c, w))
        now req rb (inventoryOf v) run) ssx w3 = ((r, err), ss', w')" by blast
  let ?H = "backupPlaces (Ue_backupDir e) (Ue_backupNow e) br"
  have br: "br = backupRequestOf req (Run_Version run)" using assms(4) s(2) by simp
  have ap: "apart (coveredFiles br) ?H"
    by (rule apart_mono [OF assms(6)]) (auto simp: upgradePaths_def assms(4))
  have inst: "uw_files (snd (onFiles (FileInstall k io (installRequestOf req rb iv)) w)) q = uw_files w q"
    if "q \<in> ?H" for q k io iv w
    unfolding onFiles_files
  proof (rule FileInstall_frame)
    have away: "q \<noteq> x" "q \<noteq> tmpPath x" if "x \<in> upgradePaths req (Man_Version (Rb_Manifest rb))" for x
      using apartD(1,2) [OF assms(6) that \<open>q \<in> ?H\<close>] by auto
    have t: "Uq_TargetBinaryPath req \<in> upgradePaths req (Man_Version (Rb_Manifest rb))"
      using target_covered [OF assms(5)] by (simp add: upgradePaths_def)
    show "q \<noteq> Iq_TargetBinaryPath (installRequestOf req rb iv)" "q \<noteq> tmpPath (Iq_TargetBinaryPath (installRequestOf req rb iv))"
      using away [OF t] by (simp_all add: installRequestOf_def)
    show "blank (Iq_InventoryPath (installRequestOf req rb iv)) \<or> q \<noteq> Iq_InventoryPath (installRequestOf req rb iv) \<and>
        q \<noteq> tmpPath (Iq_InventoryPath (installRequestOf req rb iv))"
      using away [of "Uq_InventoryPath req"] by (auto simp: upgradePaths_def installRequestOf_def)
  qed
  have "\<exists>w2 w4. SystemdRun (Ue_runner e) (Ue_unit e) (Ue_user e) ''start'' 1 w2 = (None, w4) \<and> uw_files w' = uw_files w4 \<and>
      (\<forall>p n. p \<in> coveredFiles br \<and> uw_files w3 p = Some n \<longrightarrow> uw_files w2 p = Some (restoredNode n))"
    by (rule file_store.undone [OF b assms(2) br ap])
      (simp_all add: SystemdRun_files assms(7) inst production_ports sink_world del: One_nat_def)
  then obtain w2 w4 where w: "SystemdRun (Ue_runner e) (Ue_unit e) (Ue_user e) ''start'' 1 w2 = (None, w4)" "uw_files w' = uw_files w4"
    "\<forall>p n. p \<in> coveredFiles br \<and> uw_files w p = Some n \<longrightarrow> uw_files w2 p = Some (restoredNode n)" by (auto simp: s(1))
  from SystemdRun_files [of "Ue_runner e" "Ue_unit e" "Ue_user e" "''start''" 1 w2] w(1,2)
  have "uw_files w' = snd (Ue_runner e 1 (systemctlArgv (Ue_unit e) (Ue_user e) ''start'') (uw_files w2))"
    by (simp del: One_nat_def)
  with w(3) show ?thesis by blast
qed

text \<open>
  A file that there was not is not removed: after the rollback of a first installation the binary that
  was just refused stays installed.
\<close>

theorem rollback_keeps_new_binary:
  assumes "Upgrade (productionUpgrader e) now req ss w = ((r, err), ss', w')" "Ur_RolledBack r"
    and "HTTPFetch (Ue_fetchCodec e) (Ue_get e) (Ue_maxBytes e) (Uq_Release req) = Inr rb"
    and "br = backupRequestOf req (Man_Version (Rb_Manifest rb))"
    and "\<not> blank (Uq_TargetBinaryPath req)"
    and "apart (upgradePaths req (Man_Version (Rb_Manifest rb))) (backupPlaces (Ue_backupDir e) (Ue_backupNow e) br)"
    and "\<And>n argv fs. snd (Ue_runner e n argv fs) (Uq_TargetBinaryPath req) = fs (Uq_TargetBinaryPath req)"
    and "Uq_InventoryPath req \<noteq> Uq_TargetBinaryPath req" "\<And>m. err \<noteq> Some (UpInstallFailed m)"
    and "uw_files w (Uq_TargetBinaryPath req) = None"
  shows "uw_files w' (Uq_TargetBinaryPath req) = Some (NFile (Rb_Binary rb) 493)"
proof -
  let ?p = "Uq_TargetBinaryPath req"
  from production_rolled_back [OF assms(1-3)] obtain w3 run ssx v where
    s: "uw_files w3 = uw_files w" "Run_Version run = Man_Version (Rb_Manifest rb)"
    and b: "backupPart (productionUpgrader e) (\<lambda>req. onFiles (FileStoreBackup (Ue_backupIO e) (Ue_backupDir e) (Ue_backupNow e) req))
      (SystemdRun (Ue_runner e) (Ue_unit e) (Ue_user e) ''stop'') now req run
      (installPart (productionUpgrader e) (SystemdRun (Ue_runner e) (Ue_unit e) (Ue_user e) ''stop'')
        (SystemdRun (Ue_runner e) (Ue_unit e) (Ue_user e) ''start'') (\<lambda>r. onFiles (FileStoreRestore (Ue_restoreIO e) r))
        (\<lambda>req. onFiles (FileInstall (Ue_codec e) (Ue_installIO e) req)) (\<lambda>c w. (Ue_check e c, w))
        now req rb (inventoryOf v) run) ssx w3 = ((r, err), ss', w')" by blast
  have br: "br = backupRequestOf req (Run_Version run)" using assms(4) s(2) by simp
  have ap: "apart (coveredFiles br) (backupPlaces (Ue_backupDir e) (Ue_backupNow e) br)"
    by (rule apart_mono [OF assms(6)]) (auto simp: upgradePaths_def assms(4))
  have cov: "?p \<in> coveredFiles br" using target_covered [OF assms(5)] assms(4) by simp
  have "\<exists>wb wc. onFiles (FileInstall (Ue_codec e) (Ue_installIO e) (installRequestOf req rb (inventoryOf v))) wb = (None, wc) \<and>
    uw_files w' ?p = uw_files wc ?p"
    by (rule file_store.left_behind [OF b assms(2) br ap _ _ _ _ cov _ assms(9)])
      (simp_all add: SystemdRun_files assms(7,10) production_ports sink_world s(1))
  then obtain wb wc where i: "onFiles (FileInstall (Ue_codec e) (Ue_installIO e) (installRequestOf req rb (inventoryOf v))) wb =
      (None, wc)" and same: "uw_files w' ?p = uw_files wc ?p" by blast
  have "blank (Uq_InventoryPath req) \<or> ?p \<noteq> tmpPath (Uq_InventoryPath req)"
    using apartD(4) [OF assms(6), of ?p "Uq_InventoryPath req"] target_covered [OF assms(5), of "Man_Version (Rb_Manifest rb)"]
    by (auto simp: upgradePaths_def)
  with onFiles_eq [OF i] assms(8) have "uw_files wc ?p = Some (NFile (Rb_Binary rb) 493)"
    by (auto simp: FileInstall_def installRequestOf_def WriteInventory_def split: if_splits option.splits prod.splits
        dest!: write_ok)
  with same show ?thesis by simp
qed

end
