(* ===== verification/UpgradeWitness.thy ===== *)
theory UpgradeWitness
  imports UpgradeRollback
begin

text \<open>The theorems on releases and upgrades, applied at sample releases and machines.\<close>

section \<open>A release\<close>

definition w_codecR :: release_codec where
  "w_codecR = \<lparr>rc_sha256 = (\<lambda>s. replicate 32 (if s = ''bin'' then CHR ''x'' else CHR ''y'')),
     rc_ed25519Verify = (\<lambda>pk payload sig. take 1 pk = take 1 sig),
     rc_attestation = (\<lambda>d. if d = ''att'' then Some \<lparr>Att_PredicateType = ''p'',
         Att_Subjects = [\<lparr>Art_Name = ''d'', Art_SHA256 = hexEncode (replicate 32 (CHR ''x''))\<rparr>],
         Att_SourceCommit = ''c'', Att_BuilderID = ''b'', Att_WorkflowRef = ''r'', Att_WorkflowPath = ''w'',
         Att_SLSALevel = 3, Att_Reproducible = True\<rparr>
       else if d = ''own'' then Some \<lparr>Att_PredicateType = ''e'',
         Att_Subjects = [\<lparr>Art_Name = ''d'', Art_SHA256 = hexEncode (replicate 32 (CHR ''x''))\<rparr>],
         Att_SourceCommit = ''c'', Att_BuilderID = ''e'', Att_WorkflowRef = ''e'', Att_WorkflowPath = ''e'',
         Att_SLSALevel = 0, Att_Reproducible = False\<rparr>
       else None),
     rc_sbom = (\<lambda>d. Some \<lparr>Sbom_SchemaVersion = 1, Sbom_Format = [],
       Sbom_Packages = [\<lparr>Pkg_Name = ''p'', Pkg_Version = ''1'', Pkg_PURL = []\<rparr>], Sbom_Vulnerabilities = []\<rparr>),
     rc_inventory = (\<lambda>_. ''i''), rc_loadInventory = (\<lambda>_. None)\<rparr>"

definition w_manifest :: Manifest where
  "w_manifest = \<lparr>Man_SchemaVersion = 1, Man_Version = ''2.0'', Man_Channel = [],
     Man_Artifact = \<lparr>Art_Name = ''d'', Art_SHA256 = hexEncode (replicate 32 (CHR ''x''))\<rparr>, Man_SourceCommit = ''c'',
     Man_Signing = \<lparr>Sig_KeyID = ''k'', Sig_Identity = ''h'', Sig_Algorithm = ''ed25519''\<rparr>,
     Man_Provenance = \<lparr>Prov_BuilderID = ''b'', Prov_WorkflowRef = ''r'', Prov_WorkflowPath = ''w'',
       Prov_MinSLSALevel = 0, Prov_RequireReproducible = None\<rparr>,
     Man_Compatibility = \<lparr>Compat_MinDesktopVersion = ''1.2'', Compat_MinAPIVersion = []\<rparr>\<rparr>"

definition w_keys :: "TrustedKey list" where
  "w_keys = [\<lparr>Key_KeyID = ''k'', Key_Identity = ''h'', Key_Public = replicate 32 (CHR ''s'')\<rparr>]"

definition w_noOverride :: Override where
  "w_noOverride = \<lparr>Ovr_Enabled = False, Ovr_Actor = [], Ovr_Reason = [], Ovr_At = 0\<rparr>"

definition w_override :: Override where
  "w_override = \<lparr>Ovr_Enabled = True, Ovr_Actor = ''a'', Ovr_Reason = ''r'', Ovr_At = 0\<rparr>"

definition w_noAck :: SBOMAcknowledgement where
  "w_noAck = \<lparr>Ack_Accepted = False, Ack_Actor = [], Ack_Reason = [], Ack_At = 0\<rparr>"

definition w_vreq :: "string \<Rightarrow> Override \<Rightarrow> VerifyRequest" where
  "w_vreq binary ov = \<lparr>Vr_Manifest = w_manifest, Vr_Binary = binary, Vr_Signature = replicate 64 (CHR ''s''),
     Vr_Attestation = ''att'', Vr_SBOM = ''o'',
     Vr_CVEDatabase = \<lparr>Cve_SchemaVersion = 1, Cve_GeneratedAt = [], Cve_Records = []\<rparr>,
     Vr_Override = ov, Vr_SBOMAcknowledgement = w_noAck\<rparr>"

definition w_verifier :: "unit Verifier" where
  "w_verifier = \<lparr>Vf_TrustedKeys = w_keys, Vf_Audit = None\<rparr>"

definition w_digest :: string where
  "w_digest = ''sha256:'' @ hexEncode (replicate 32 (CHR ''x''))"

definition w_att :: Attestation where
  "w_att = \<lparr>Att_PredicateType = ''p'',
     Att_Subjects = [\<lparr>Art_Name = ''d'', Art_SHA256 = hexEncode (replicate 32 (CHR ''x''))\<rparr>],
     Att_SourceCommit = ''c'', Att_BuilderID = ''b'', Att_WorkflowRef = ''r'', Att_WorkflowPath = ''w'',
     Att_SLSALevel = 3, Att_Reproducible = True\<rparr>"

definition w_bill :: SBOM where
  "w_bill = \<lparr>Sbom_SchemaVersion = 1, Sbom_Format = [],
     Sbom_Packages = [\<lparr>Pkg_Name = ''p'', Pkg_Version = ''1'', Pkg_PURL = []\<rparr>], Sbom_Vulnerabilities = []\<rparr>"

lemma w_parts: "rel_normalizeDigest (Art_SHA256 (Man_Artifact w_manifest)) = Some w_digest"
  "Manifest_validate w_manifest = None" "DigestBytes w_codecR ''bin'' = w_digest"
  "verifySignature w_codecR w_keys w_manifest w_digest (replicate 64 (CHR ''s'')) = None"
  "verifyAttestation w_manifest w_att w_digest = None"
  "parseAttestation w_codecR ''att'' = Inr w_att" "parseSBOM w_codecR s = Inr w_bill"
  by code_simp+

lemma w_vreq_digest: "manifestDigest (w_vreq b ov) = Some w_digest"
  by (simp add: manifestDigest_def w_vreq_def w_parts)

lemma w_genuine: "genuine w_codecR w_keys (w_vreq ''bin'' ov) w_digest w_att w_bill"
  by (simp add: genuine_def w_vreq_def w_parts verifySignature_iff [symmetric] verifyAttestation_iff [symmetric])

lemma w_policy: "CVEDatabase_validate (Vr_CVEDatabase (w_vreq b ov)) = None"
  "policyFindings w_bill (Vr_CVEDatabase (w_vreq b ov)) = []"
  by (code_simp, code_simp)

definition w_good :: "time \<Rightarrow> VerificationResult" where
  "w_good t = accepted w_codecR t (w_vreq ''bin'' w_noOverride) w_digest w_att []"

lemma w_good_status: "Ver_Status (w_good t) = StatusVerified"
  by (simp add: w_good_def accepted_def Let_def)

lemma w_accepts:
  "Vf_TrustedKeys v = w_keys \<Longrightarrow> Verify w_codecR v t (w_vreq ''bin'' w_noOverride) w = ((w_good t, None), w)"
  unfolding Verify_accepts using w_vreq_digest w_genuine w_policy
  by (intro disjI1 exI [of _ w_digest] exI [of _ w_att] exI [of _ w_bill])
    (simp add: w_good_def policyCleared_def)

definition w_bad :: VerificationResult where
  "w_bad = overridden w_codecR 1000 (w_vreq ''evil'' w_override) w_digest [diag ''checksum_mismatch'' ''critical''] w_att"

lemma w_overrides: "Verify w_codecR w_verifier 1000 (w_vreq ''evil'' w_override) () = ((w_bad, None), ())"
proof -
  have "DigestBytes w_codecR ''evil'' \<noteq> w_digest" by code_simp
  then have "releaseChecks w_codecR w_keys (w_vreq ''evil'' w_override) w_digest =
      ([(diag ''checksum_mismatch'' ''critical'', RelChecksumMismatch)], w_att, Some w_bill)"
    by (simp add: releaseChecks_def w_vreq_def w_parts)
  moreover have "Override_valid (Vr_Override (w_vreq ''evil'' w_override))" by code_simp
  ultimately show ?thesis
    unfolding Verify_accepts using w_vreq_digest [of "''evil''" w_override]
    by (intro disjI2 exI [of _ w_digest]) (auto simp: w_bad_def overrideAudited_def w_verifier_def Verifier_audit_def)
qed

theorem signature_leaves_policy_open_witness:
  "\<exists>r'. Verify w_codecR w_verifier 1000 (reissued (w_vreq ''bin'' w_noOverride) ''e'' ''9.9''
       \<lparr>Compat_MinDesktopVersion = [], Compat_MinAPIVersion = []\<rparr> ''own'') () = ((r', None), ()) \<and>
     Ver_Status r' = StatusVerified \<and> map_option Inv_Version (Ver_Inventory r') = Some ''9.9''"
proof -
  have v: "Verify w_codecR w_verifier 1000 (w_vreq ''bin'' w_noOverride) () = ((w_good 1000, None), ())"
    by (rule w_accepts) (simp add: w_verifier_def)
  have "rc_attestation w_codecR ''own'' = Some (ownAttestation (w_vreq ''bin'' w_noOverride) ''e'')" by code_simp
  moreover have "\<not> blank ''e''" "\<not> blank ''9.9''" by code_simp+
  moreover have "Ver_Status (w_good 1000) \<noteq> StatusOverride" by (simp add: w_good_status)
  ultimately show ?thesis using signature_leaves_policy_open [OF v] w_good_status by metis
qed

theorem override_records_other_digest_witness:
  "map_option Inv_Checksum (Ver_Inventory w_bad) = Some (''sha256:'' @ hexEncode (replicate 32 (CHR ''x'')))"
proof -
  have "Ver_Status w_bad = StatusOverride" by (simp add: w_bad_def overridden_def)
  moreover have "DigestBytes w_codecR (Vr_Binary (w_vreq ''evil'' w_override)) \<noteq> w_digest" by code_simp
  ultimately show ?thesis
    using override_records_other_digest [OF w_overrides _ w_vreq_digest] unfolding w_digest_def by blast
qed

section \<open>An upgrade\<close>

definition w_uenv :: "string option \<Rightarrow> upgrade_env" where
  "w_uenv checked = \<lparr>Ue_codec = w_codecR,
     Ue_fetchCodec = \<lparr>fc_manifest = (\<lambda>_. Some w_manifest), fc_cveDatabase = (\<lambda>_. None)\<rparr>,
     Ue_get = (\<lambda>url. if url = ''b'' then HttpReply 200 ''bin'' else if url = ''a'' then HttpReply 200 ''att''
       else if url = ''s'' then HttpReply 200 (replicate 64 (CHR ''s'')) else HttpReply 200 ''o''),
     Ue_maxBytes = 64, Ue_trustedKeys = w_keys, Ue_backupDir = ''/b'', Ue_backupNow = 0, Ue_unit = [], Ue_user = False,
     Ue_runner = (\<lambda>_ _ fs. (None, fs)), Ue_check = (\<lambda>_. checked), Ue_backupIO = (\<lambda>_. IoOk),
     Ue_installIO = (\<lambda>_. IoOk), Ue_restoreIO = (\<lambda>_. IoOk), Ue_releaseAuditFault = None, Ue_auditFault = (\<lambda>_. None)\<rparr>"

definition w_ureq :: UpgradeRequest where
  "w_ureq = \<lparr>Uq_SchemaVersion = 1, Uq_Release = \<lparr>Loc_BinaryURL = ''b'', Loc_ManifestURL = ''m'',
       Loc_SignatureURL = ''s'', Loc_AttestationURL = ''a'', Loc_SBOMURL = ''o'', Loc_CVEDatabaseURL = []\<rparr>,
     Uq_TargetBinaryPath = ''/d'', Uq_InventoryPath = [], Uq_DatabasePath = ''/q'', Uq_ConfigPaths = [],
     Uq_BackupDir = [], Uq_CurrentDesktopVersion = ''v1.3'', Uq_CurrentAPIVersion = [], Uq_ExpectedVersion = [],
     Uq_Override = w_noOverride, Uq_SBOMAcknowledgement = w_noAck, Uq_Actor = [], Uq_Reason = [], Uq_Force = False\<rparr>"

definition w_machine :: "node option \<Rightarrow> upgrade_world" where
  "w_machine binary = \<lparr>uw_files = [''/q'' \<mapsto> NFile ''rows'' 384] (''/d'' := binary), uw_system = [], uw_releaseAudit = [], uw_audit = []\<rparr>"

definition w_bundle :: ReleaseBundle where
  "w_bundle = \<lparr>Rb_Manifest = w_manifest, Rb_Binary = ''bin'', Rb_Signature = replicate 64 (CHR ''s''),
     Rb_Attestation = ''att'', Rb_SBOM = ''o'',
     Rb_CVEDatabase = \<lparr>Cve_SchemaVersion = 1, Cve_GeneratedAt = [], Cve_Records = []\<rparr>\<rparr>"

abbreviation w_upgrade where
  "w_upgrade checked binary \<equiv>
     Upgrade (productionUpgrader (w_uenv checked)) (\<lambda>_. 1000) w_ureq NewService (w_machine binary)"

lemma w_fetch: "HTTPFetch (Ue_fetchCodec (w_uenv c)) (Ue_get (w_uenv c)) (Ue_maxBytes (w_uenv c)) (Uq_Release w_ureq) = Inr w_bundle"
proof -
  have "HTTPFetch \<lparr>fc_manifest = (\<lambda>_. Some w_manifest), fc_cveDatabase = (\<lambda>_. None)\<rparr>
     (\<lambda>url. if url = ''b'' then HttpReply 200 ''bin'' else if url = ''a'' then HttpReply 200 ''att''
       else if url = ''s'' then HttpReply 200 (replicate 64 (CHR ''s'')) else HttpReply 200 ''o'') 64 (Uq_Release w_ureq) =
     Inr w_bundle" by code_simp
  then show ?thesis by (simp add: w_uenv_def)
qed


lemma w_request: "verifyRequestOf w_ureq w_bundle = w_vreq ''bin'' w_noOverride"
  by (simp add: verifyRequestOf_def w_ureq_def w_bundle_def w_vreq_def)

lemma w_valid: "validateUpgrade (productionUpgrader (w_uenv c)) w_ureq = None"
proof -
  have "\<not> blank (Uq_TargetBinaryPath w_ureq)" by code_simp
  then show ?thesis by (simp add: validateUpgrade_def production_ports) (simp add: w_ureq_def)
qed

lemma w_compatible: "checkCompatibility w_manifest (Uq_CurrentDesktopVersion w_ureq) (Uq_CurrentAPIVersion w_ureq) = None"
  by code_simp

abbreviation w_stop where "w_stop c \<equiv> SystemdRun (Ue_runner (w_uenv c)) (Ue_unit (w_uenv c)) (Ue_user (w_uenv c)) ''stop''"

abbreviation w_start where "w_start c \<equiv> SystemdRun (Ue_runner (w_uenv c)) (Ue_unit (w_uenv c)) (Ue_user (w_uenv c)) ''start''"

lemma w_gated: "\<exists>ss w3 run. uw_files w3 = uw_files (w_machine b) \<and> uw_system w3 = [] \<and> Run_Version run = ''2.0'' \<and>
  w_upgrade c b = backupPart (productionUpgrader (w_uenv c))
    (\<lambda>req. onFiles (FileStoreBackup (Ue_backupIO (w_uenv c)) (Ue_backupDir (w_uenv c)) (Ue_backupNow (w_uenv c)) req))
    (w_stop c) (\<lambda>_. 1000) w_ureq run
    (installPart (productionUpgrader (w_uenv c)) (w_stop c) (w_start c)
      (\<lambda>r. onFiles (FileStoreRestore (Ue_restoreIO (w_uenv c)) r))
      (\<lambda>req. onFiles (FileInstall (Ue_codec (w_uenv c)) (Ue_installIO (w_uenv c)) req))
      (\<lambda>x w. (Ue_check (w_uenv c) x, w)) (\<lambda>_. 1000) w_ureq w_bundle (inventoryOf (w_good 1000)) run) ss w3"
proof -
  have k: "Ue_codec (w_uenv c) = w_codecR" "Vf_TrustedKeys (verifierOf (w_uenv c)) = w_keys"
    by (simp_all add: w_uenv_def verifierOf_def)
  have b: "begin_upgrade (\<lambda>_. 1000) w_ureq NewService \<noteq> None" by (simp add: begin_upgrade_def NewService_def idleState_def)
  then obtain ss where ss: "begin_upgrade (\<lambda>_. 1000) w_ureq NewService = Some ss" by blast
  have m: "Rb_Manifest w_bundle = w_manifest" "Man_Version w_manifest = ''2.0''" by (simp_all add: w_bundle_def w_manifest_def)
  have g: "gatePart u now w_ureq w_bundle run w = (None, w)" if "Run_Verification run = w_good t" for u :: "upgrade_world Upgrader" and now run w t
    using that by (simp add: gatePart_def w_good_status w_compatible m)
  have v: "Verify (Ue_codec (w_uenv c)) (verifierOf (w_uenv c)) t (w_vreq ''bin'' w_noOverride) w = ((w_good t, None), w)" for t w
    unfolding k(1) by (rule w_accepts [OF k(2)])
  define w0 where "w0 = snd (upAudit (productionUpgrader (w_uenv c)) (runEvent
    \<lparr>Run_Actor = firstNonEmpty [Uq_Actor w_ureq, Ovr_Actor (Uq_Override w_ureq), ''operator''],
     Run_Reason = firstNonEmpty [Uq_Reason w_ureq, Ovr_Reason (Uq_Override w_ureq)], Run_Version = [],
     Run_Verification = noVerification\<rparr> 1000 ''daemon.upgrade.started'' ''started'' UpNoData) (w_machine b))"
  have w0: "uw_files w0 = uw_files (w_machine b)" "uw_system w0 = []"
    by (simp_all add: w0_def production_ports sink_world) (simp add: w_machine_def)
  let ?run = "\<lparr>Run_Actor = firstNonEmpty [Uq_Actor w_ureq, Ovr_Actor (Uq_Override w_ureq), ''operator''],
     Run_Reason = firstNonEmpty [Uq_Reason w_ureq, Ovr_Reason (Uq_Override w_ureq)], Run_Version = [],
     Run_Verification = noVerification\<rparr>\<lparr>Run_Version := ''2.0'', Run_Verification := w_good 1000\<rparr>"
  have "Run_Version ?run = ''2.0''" "Run_Verification ?run = w_good 1000" by simp_all
  note g' = g [OF this(2)]
  show ?thesis
    by (intro exI [of _ w0] exI [of _ ?run] exI conjI, rule w0, rule w0, simp)
      (simp only: Upgrade_def w_valid ss production_ports(1-6) option.case prod.case sum.case Let_def w0_def [symmetric]
        w_fetch w_request v m g')
qed

definition w_saved where
  "w_saved b = FileStoreBackup (\<lambda>_. IoOk) ''/b'' 0 (backupRequestOf w_ureq ''2.0'') (uw_files (w_machine b))"

definition w_installed where "w_installed b = writeFileAtomic (\<lambda>_. IoOk) ''/d'' ''bin'' 493 (snd (w_saved b))"

definition w_restored where
  "w_restored b = FileStoreRestore (\<lambda>_. IoOk) (projr (fst (w_saved b))) (snd (w_installed b))"

lemma w_old: "\<not> isl (fst (w_saved (Some (NFile ''old'' 493))))" "fst (w_installed (Some (NFile ''old'' 493))) = None"
  "fst (w_restored (Some (NFile ''old'' 493))) = None"
  by code_simp+

lemma w_none: "\<not> isl (fst (w_saved None))" "fst (w_installed None) = None" "fst (w_restored None) = None"
  by code_simp+


text \<open>The upgrade of the sample machine, when the backup, the install and the restore succeed.\<close>

lemma w_env_fields: "Ue_backupIO (w_uenv c) = (\<lambda>_. IoOk)" "Ue_backupDir (w_uenv c) = ''/b''" "Ue_backupNow (w_uenv c) = 0"
  "Ue_codec (w_uenv c) = w_codecR" "Ue_installIO (w_uenv c) = (\<lambda>_. IoOk)" "Ue_restoreIO (w_uenv c) = (\<lambda>_. IoOk)"
  "Ue_check (w_uenv c) x = c" "snd (Ue_runner (w_uenv c) n argv fs) = fs" "fst (Ue_runner (w_uenv c) n argv fs) = None"
  by (simp_all add: w_uenv_def)

lemma w_install: "FileInstall k io (installRequestOf w_ureq w_bundle iv) fs = writeFileAtomic io ''/d'' ''bin'' 493 fs"
proof -
  have "\<not> blank ''/d''" "blank []" by code_simp+
  then show ?thesis
    by (simp add: FileInstall_def installRequestOf_def w_ureq_def w_bundle_def split: option.split prod.split)
qed

lemma w_runs:
  assumes "\<not> isl (fst (w_saved b))" "fst (w_installed b) = None" "fst (w_restored b) = None"
  shows "uw_system (snd (snd (w_upgrade None b))) \<noteq> []"
    and "Ur_RolledBack (fst (fst (w_upgrade (Some m) b))) \<and> snd (fst (w_upgrade (Some m) b)) = Some (UpPostInstallFailed m)"
proof -
  obtain r fs1 where 1: "FileStoreBackup (\<lambda>_. IoOk) ''/b'' 0 (backupRequestOf w_ureq ''2.0'') (uw_files (w_machine b)) = (Inr r, fs1)"
    using assms(1) unfolding w_saved_def by (metis prod.collapse sum.collapse(2))
  obtain fs2 where 2: "writeFileAtomic (\<lambda>_. IoOk) ''/d'' ''bin'' 493 fs1 = (None, fs2)"
    using assms(2) by (simp add: w_installed_def w_saved_def 1) (metis prod.collapse)
  obtain fs3 where 3: "FileStoreRestore (\<lambda>_. IoOk) r fs2 = (None, fs3)"
    using assms(3) by (simp add: w_restored_def w_installed_def w_saved_def 1 2) (metis prod.collapse)
  have run: "Ue_runner (w_uenv c) n argv fs = (None, fs)" for c n argv fs by (simp add: w_uenv_def)
  note unf = backupPart_def installPart_def rollback_upgrade_def Let_def w_env_fields onFiles_def SystemdRun_def run
    upgradeResult_def production_ports sink_world w_install
  from w_gated [of b None] obtain ss w3 and run' :: upgrade_run where g: "uw_files w3 = uw_files (w_machine b)" "Run_Version run' = ''2.0''"
    "w_upgrade None b = backupPart (productionUpgrader (w_uenv None))
      (\<lambda>req. onFiles (FileStoreBackup (Ue_backupIO (w_uenv None)) (Ue_backupDir (w_uenv None)) (Ue_backupNow (w_uenv None)) req))
      (w_stop None) (\<lambda>_. 1000) w_ureq run'
      (installPart (productionUpgrader (w_uenv None)) (w_stop None) (w_start None)
        (\<lambda>r. onFiles (FileStoreRestore (Ue_restoreIO (w_uenv None)) r))
        (\<lambda>req. onFiles (FileInstall (Ue_codec (w_uenv None)) (Ue_installIO (w_uenv None)) req))
        (\<lambda>x w. (Ue_check (w_uenv None) x, w)) (\<lambda>_. 1000) w_ureq w_bundle (inventoryOf (w_good 1000)) run') ss w3" by blast
  show "uw_system (snd (snd (w_upgrade None b))) \<noteq> []"
    unfolding g(3) by (simp add: unf g(1,2) 1 2)
  from w_gated [of b "Some m"] obtain ss w3 and run' :: upgrade_run where g: "uw_files w3 = uw_files (w_machine b)" "Run_Version run' = ''2.0''"
    "w_upgrade (Some m) b = backupPart (productionUpgrader (w_uenv (Some m)))
      (\<lambda>req. onFiles (FileStoreBackup (Ue_backupIO (w_uenv (Some m))) (Ue_backupDir (w_uenv (Some m))) (Ue_backupNow (w_uenv (Some m))) req))
      (w_stop (Some m)) (\<lambda>_. 1000) w_ureq run'
      (installPart (productionUpgrader (w_uenv (Some m))) (w_stop (Some m)) (w_start (Some m))
        (\<lambda>r. onFiles (FileStoreRestore (Ue_restoreIO (w_uenv (Some m))) r))
        (\<lambda>req. onFiles (FileInstall (Ue_codec (w_uenv (Some m))) (Ue_installIO (w_uenv (Some m))) req))
        (\<lambda>x w. (Ue_check (w_uenv (Some m)) x, w)) (\<lambda>_. 1000) w_ureq w_bundle (inventoryOf (w_good 1000)) run') ss w3" by blast
  show "Ur_RolledBack (fst (fst (w_upgrade (Some m) b))) \<and> snd (fst (w_upgrade (Some m) b)) = Some (UpPostInstallFailed m)"
    unfolding g(3) by (simp add: unf g(1,2) 1 2 3)
qed

lemma w_split: "x = ((fst (fst x), snd (fst x)), fst (snd x), snd (snd x))" by simp

theorem upgrade_refuses_writes_throughout_witness:
  "\<exists>fin mid. fst (snd (w_upgrade None None)) = fin # mid @ NewService \<and> mid \<noteq> [] \<and>
     list_all (\<lambda>s. RefusesWrites s \<and> turnsAway TYPE(upgrade_world) s) mid \<and> \<not> Us_InProgress fin"
proof -
  have "\<not> Us_InProgress (hd NewService)" by (simp add: NewService_def idleState_def)
  from upgrade_refuses_writes_throughout [OF w_split [of "w_upgrade None None"] w_valid this] show ?thesis by blast
qed

theorem upgrade_needs_accepted_release_witness:
  "releaseCleared (w_uenv None) 1000 (w_vreq ''bin'' w_noOverride) (snd (snd (w_upgrade None None)))"
proof -
  let ?x = "w_upgrade None None"
  have x: "?x = (fst ?x, fst (snd ?x), snd (snd ?x))" by simp
  have "uw_system (snd (snd ?x)) \<noteq> uw_system (w_machine None)" using w_runs(1) [OF w_none] by (simp add: w_machine_def)
  then have "uw_files (snd (snd ?x)) \<noteq> uw_files (w_machine None) \<or> uw_system (snd (snd ?x)) \<noteq> uw_system (w_machine None)" ..
  from upgrade_needs_accepted_release [OF x this] show ?thesis unfolding w_fetch by (auto simp: w_request)
qed

lemma w_apart:
  "apart (upgradePaths w_ureq ''2.0'') (backupPlaces ''/b'' 0 (backupRequestOf w_ureq ''2.0''))"
  "''/d'' \<in> coveredFiles (backupRequestOf w_ureq ''2.0'')" "\<not> blank (Uq_TargetBinaryPath w_ureq)"
  by code_simp+

lemma w_version: "Man_Version (Rb_Manifest w_bundle) = ''2.0''" by (simp add: w_bundle_def w_manifest_def)

theorem rollback_restores_files_witness:
  "uw_files (snd (snd (w_upgrade (Some ''bad'') (Some (NFile ''old'' 493))))) ''/d'' = Some (NFile ''old'' 493)"
proof -
  let ?e = "w_uenv (Some ''bad'')" and ?x = "w_upgrade (Some ''bad'') (Some (NFile ''old'' 493))"
  have old: "uw_files (w_machine (Some (NFile ''old'' 493))) ''/d'' = Some (NFile ''old'' 493)" by (simp add: w_machine_def)
  from rollback_restores_files [OF w_split [of ?x] conjunct1 [OF w_runs(2) [OF w_old]] w_fetch refl w_apart(3)]
  obtain fs where "uw_files (snd (snd ?x)) = snd (Ue_runner ?e 1 (systemctlArgv (Ue_unit ?e) (Ue_user ?e) ''start'') fs)"
    "\<forall>p n. p \<in> coveredFiles (backupRequestOf w_ureq ''2.0'') \<and>
       uw_files (w_machine (Some (NFile ''old'' 493))) p = Some n \<longrightarrow> fs p = Some (restoredNode n)"
    using w_apart by (auto simp: w_version w_env_fields simp del: One_nat_def)
  with old w_apart(2) show ?thesis by (simp add: w_env_fields)
qed

theorem rollback_keeps_new_binary_witness:
  "uw_files (snd (snd (w_upgrade (Some ''bad'') None))) ''/d'' = Some (NFile ''bin'' 493)"
proof -
  let ?x = "w_upgrade (Some ''bad'') None"
  have f: "uw_files (w_machine None) (Uq_TargetBinaryPath w_ureq) = None" by (simp add: w_machine_def w_ureq_def)
  have t: "Uq_TargetBinaryPath w_ureq = ''/d''" "Rb_Binary w_bundle = ''bin''" "Uq_InventoryPath w_ureq \<noteq> Uq_TargetBinaryPath w_ureq"
    by (simp_all add: w_ureq_def w_bundle_def)
  from rollback_keeps_new_binary [OF w_split [of ?x] conjunct1 [OF w_runs(2) [OF w_none]] w_fetch refl w_apart(3) _ _ t(3) _ f]
  show ?thesis using w_apart conjunct2 [OF w_runs(2) [OF w_none, of "''bad''"]] by (simp add: w_version w_env_fields t(1,2))
qed

end
