(* ===== verification/Dispatcher.thy ===== *)
theory Dispatcher
  imports SchedMachine
begin

text \<open>
  Package \<open>scheduler\<close>, \<open>scheduler.go\<close>: the dispatcher around the registry. A trigger call lets
  the registry select runs, launches one goroutine per started run and then audits the decisions.
  A goroutine takes a worker slot or gives up when its context is done, calls the runner, records
  the outcome in the registry, gives its slot back and signs off; the last one to sign off wakes
  everybody waiting for the dispatcher to be idle.

  The record holds the fields of \<open>Scheduler\<close> and the goroutines in flight. The runner and the
  audit sink are the interfaces the constructor is given: what a runner returns is an argument of the step
  in which it returns, the sink is a function on a state of its own. The redactor is a function
  from the name of the place and a text to the text that is kept. A context is observed as the
  error it reports at that moment.
\<close>

definition ctxText :: "ctx_err \<Rightarrow> string" where
  "ctxText e = (case e of Canceled \<Rightarrow> ''context canceled'' | DeadlineExceeded \<Rightarrow> ''context deadline exceeded'')"

definition noResult :: RunResult where
  "noResult = \<lparr>Res_WakeAgent = False, Res_Silent = False, Res_Context = []\<rparr>"

text \<open>
  Where a goroutine stands: at the select between a slot and its context, in the runner, with an
  outcome to record, unwinding from a panic of the store, or with nothing left but its deferred
  calls.
\<close>

datatype place = Selecting | Calling | Returned RunResult "string option" | Unwinding string | Settled

record Goroutine =
  g_run :: Run
  g_place :: place
  g_slot :: bool
  g_ctx :: ctx
  g_runCtx :: ctx
  g_timeout :: duration

type_synonym 'a audit_sink = "ctx \<Rightarrow> Decision \<Rightarrow> 'a \<Rightarrow> string option \<times> 'a"

record ('w, 'a) Scheduler =
  d_reg :: "'w SchedReg"
  d_audit :: "'a audit_sink option"
  d_sink :: 'a
  d_redactor :: "(string \<Rightarrow> string \<Rightarrow> string) option"
  d_logger :: bool
  d_log :: "(string \<times> sched_err) list"
  d_workers :: int
  d_busy :: int
  d_rootDone :: bool
  d_stopped :: bool
  d_completionTimeout :: duration
  d_active :: int
  d_waiters :: "nat list"
  d_woken :: "nat list"
  d_nextWaiter :: nat
  d_selected :: "Run list"
  d_live :: "(nat \<times> Goroutine) list"
  d_next :: nat

record ('w, 'a) SchedulerConfig =
  Cfg_Registry :: "'w SchedReg option"
  Cfg_Runner :: bool
  Cfg_AuditSink :: "'a audit_sink option"
  Cfg_MaxWorkers :: int
  Cfg_RootDone :: bool
  Cfg_CompletionTimeout :: duration
  Cfg_Redactor :: "(string \<Rightarrow> string \<Rightarrow> string) option"
  Cfg_Logger :: bool

definition NewScheduler :: "('w, 'a) SchedulerConfig \<Rightarrow> 'a \<Rightarrow> sched_err + ('w, 'a) Scheduler" where
  "NewScheduler cfg sink =
     (case Cfg_Registry cfg of None \<Rightarrow> Inl SErrInvalidState
      | Some reg \<Rightarrow>
          if \<not> Cfg_Runner cfg then Inl SErrInvalidState
          else Inr \<lparr>d_reg = reg, d_audit = Cfg_AuditSink cfg, d_sink = sink,
            d_redactor = Cfg_Redactor cfg, d_logger = Cfg_Logger cfg, d_log = [],
            d_workers = (if Cfg_MaxWorkers cfg \<le> 0 then 4 else Cfg_MaxWorkers cfg), d_busy = 0,
            d_rootDone = Cfg_RootDone cfg, d_stopped = False,
            d_completionTimeout =
              (if Cfg_CompletionTimeout cfg \<le> 0 then 5000000000 else Cfg_CompletionTimeout cfg),
            d_active = 0, d_waiters = [], d_woken = [], d_nextWaiter = 0,
            d_selected = [], d_live = [], d_next = 0\<rparr>)"

section \<open>Redaction and completion\<close>

definition redactPanicMessage :: "('w, 'a) Scheduler \<Rightarrow> string \<Rightarrow> string" where
  "redactPanicMessage s msg =
     (case d_redactor s of None \<Rightarrow> msg | Some f \<Rightarrow> f ''scheduler.panic'' msg)"

definition redactRunError :: "('w, 'a) Scheduler \<Rightarrow> string option \<Rightarrow> string option" where
  "redactRunError s runErr = (case runErr of None \<Rightarrow> None
     | Some msg \<Rightarrow> (case d_redactor s of None \<Rightarrow> runErr
         | Some f \<Rightarrow> let redacted = f ''scheduler.run_error'' msg
                    in if redacted = msg then runErr else Some redacted))"

text \<open>
  The completion runs under a context of its own, which is late when the completion timeout has
  passed before the registry is entered.
\<close>

definition completionCtx :: "('w, 'a) Scheduler \<Rightarrow> bool \<Rightarrow> ctx" where
  "completionCtx s late = (if d_completionTimeout s > 0 \<and> late then Some DeadlineExceeded else None)"

definition completeRun ::
  "'w state_saver \<Rightarrow> bool \<Rightarrow> time \<Rightarrow> string \<Rightarrow> RunResult \<Rightarrow> string option \<Rightarrow> ('w, 'a) Scheduler
     \<Rightarrow> ('w, 'a) Scheduler" where
  "completeRun sv late now rid result runErr s =
     (case CompleteRun sv (completionCtx s late) now rid result (redactRunError s runErr) (d_reg s) of
        (Inl e, r) \<Rightarrow> s\<lparr>d_reg := r, d_log := (if d_logger s then d_log s @ [(rid, e)] else d_log s)\<rparr>
      | (Inr _, r) \<Rightarrow> s\<lparr>d_reg := r\<rparr>)"

text \<open>
  A store whose \<open>Save\<close> panics: \<open>CompleteRun\<close> has changed the registry in memory, the deferred
  unlock runs, nothing is saved and nothing is logged. It happens only when the save is reached.
\<close>

definition reachesSave :: "string \<Rightarrow> 'w SchedReg \<Rightarrow> bool" where
  "reachesSave rid r = (case map_of (sruns r) rid of None \<Rightarrow> False | Some run \<Rightarrow> Run_Status run = RunStatusRunning)"

definition completionPanics ::
  "time \<Rightarrow> string \<Rightarrow> RunResult \<Rightarrow> string option \<Rightarrow> ('w, 'a) Scheduler \<Rightarrow> ('w, 'a) Scheduler" where
  "completionPanics now rid result runErr s =
     s\<lparr>d_reg := snd (CompleteRun (\<lambda>_ _ w. (None, w)) None now rid result (redactRunError s runErr) (d_reg s))\<rparr>"

section \<open>Waiting for the dispatcher to be idle\<close>

definition startActive :: "('w, 'a) Scheduler \<Rightarrow> ('w, 'a) Scheduler" where
  "startActive s = s\<lparr>d_active := d_active s + 1\<rparr>"

definition finishRun :: "('w, 'a) Scheduler \<Rightarrow> ('w, 'a) Scheduler" where
  "finishRun s =
     (let n = (if d_active s > 0 then d_active s - 1 else d_active s) in
      if n = 0 \<and> d_waiters s \<noteq> []
      then s\<lparr>d_active := n, d_waiters := [], d_woken := d_woken s @ d_waiters s\<rparr>
      else s\<lparr>d_active := n\<rparr>)"

definition registerWaiter :: "('w, 'a) Scheduler \<Rightarrow> nat option \<times> ('w, 'a) Scheduler" where
  "registerWaiter s =
     (if d_active s = 0 then (None, s)
      else (Some (d_nextWaiter s), s\<lparr>d_waiters := d_waiters s @ [d_nextWaiter s],
              d_nextWaiter := d_nextWaiter s + 1\<rparr>))"

definition cancelWaiter :: "nat \<Rightarrow> ctx_err \<Rightarrow> ('w, 'a) Scheduler \<Rightarrow> ctx \<times> ('w, 'a) Scheduler" where
  "cancelWaiter w e s =
     (if w \<in> set (d_waiters s)
      then (Some e, s\<lparr>d_waiters := remove1 w (d_waiters s), d_woken := d_woken s @ [w]\<rparr>)
      else (None, s))"

definition Scheduler_Stop :: "('w, 'a) Scheduler \<Rightarrow> ('w, 'a) Scheduler" where
  "Scheduler_Stop s = s\<lparr>d_stopped := True\<rparr>"

section \<open>Launching and auditing\<close>

text \<open>
  The context of a goroutine is done from the start when the caller's is, when the root context
  is, or when the dispatcher has been stopped.
\<close>

definition dispatchContext :: "ctx \<Rightarrow> ('w, 'a) Scheduler \<Rightarrow> ctx" where
  "dispatchContext c s = (case c of Some e \<Rightarrow> Some e
     | None \<Rightarrow> if d_rootDone s \<or> d_stopped s then Some Canceled else None)"

definition dispatch :: "ctx \<Rightarrow> Run \<Rightarrow> ('w, 'a) Scheduler \<Rightarrow> ('w, 'a) Scheduler" where
  "dispatch c run s =
     (let s1 = startActive s;
          g = \<lparr>g_run = run, g_place = Selecting, g_slot = False, g_ctx = dispatchContext c s1,
               g_runCtx = None, g_timeout = 0\<rparr>
      in s1\<lparr>d_live := d_live s1 @ [(d_next s1, g)], d_next := d_next s1 + 1\<rparr>)"

definition recordAudit :: "ctx \<Rightarrow> Decision \<Rightarrow> ('w, 'a) Scheduler \<Rightarrow> string option \<times> ('w, 'a) Scheduler" where
  "recordAudit c decision s = (case d_audit s of None \<Rightarrow> (None, s)
     | Some sink \<Rightarrow> if \<not> Dec_Audit decision then (None, s)
         else case sink c decision (d_sink s) of (e, w) \<Rightarrow> (e, s\<lparr>d_sink := w\<rparr>))"

fun recordAuditDecisions ::
  "ctx \<Rightarrow> Decision list \<Rightarrow> ('w, 'a) Scheduler \<Rightarrow> string list \<times> ('w, 'a) Scheduler" where
  "recordAuditDecisions c [] s = ([], s)"
| "recordAuditDecisions c (d # ds) s = (case recordAudit c d s of (e, s1) \<Rightarrow>
     case recordAuditDecisions c ds s1 of (es, s2) \<Rightarrow>
       ((case e of None \<Rightarrow> es | Some m \<Rightarrow> m # es), s2))"

text \<open>
  The trigger calls. A call fails with the registry's error, or returns its decisions together
  with the audit errors and, for a tick, the error of recording its duration.
\<close>

record trigger_result =
  Tr_Decisions :: "Decision list"
  Tr_AuditErrs :: "string list"
  Tr_TickErr :: "sched_err option"

definition Scheduler_Tick ::
  "'w state_saver \<Rightarrow> ctx \<Rightarrow> time \<Rightarrow> ctx \<Rightarrow> ctx \<Rightarrow> duration \<Rightarrow> ('w, 'a) Scheduler
     \<Rightarrow> (sched_err + trigger_result) \<times> ('w, 'a) Scheduler" where
  "Scheduler_Tick sv c now ca ct took s =
     (case SelectDue sv c now 0 (d_reg s) of
        (Inl e, r) \<Rightarrow> (Inl e, s\<lparr>d_reg := r\<rparr>)
      | (Inr (runs, decisions), r) \<Rightarrow>
          let s1 = fold (dispatch c) runs (s\<lparr>d_reg := r\<rparr>) in
          case recordAuditDecisions ca decisions s1 of (es, s2) \<Rightarrow>
          case RecordTickDuration sv ct took (d_reg s2) of (te, r2) \<Rightarrow>
            (Inr \<lparr>Tr_Decisions = decisions, Tr_AuditErrs = es, Tr_TickErr = te\<rparr>, s2\<lparr>d_reg := r2\<rparr>))"

definition Scheduler_RunNow ::
  "'w state_saver \<Rightarrow> ctx \<Rightarrow> time \<Rightarrow> string \<Rightarrow> ctx \<Rightarrow> ('w, 'a) Scheduler
     \<Rightarrow> (sched_err + trigger_result) \<times> ('w, 'a) Scheduler" where
  "Scheduler_RunNow sv c now jid ca s =
     (case RunNow sv c now jid (d_reg s) of
        (Inl e, r) \<Rightarrow> (Inl e, s\<lparr>d_reg := r\<rparr>)
      | (Inr (run, decision), r) \<Rightarrow>
          let s0 = s\<lparr>d_reg := r\<rparr>;
              s1 = (if Dec_Outcome decision = OutcomeStarted then dispatch c run s0 else s0)
          in case recordAudit ca decision s1 of (e, s2) \<Rightarrow>
            (Inr \<lparr>Tr_Decisions = [decision], Tr_AuditErrs = (case e of None \<Rightarrow> [] | Some m \<Rightarrow> [m]),
                  Tr_TickErr = None\<rparr>, s2))"

definition Scheduler_EmitEvent ::
  "'w state_saver \<Rightarrow> ctx \<Rightarrow> time \<Rightarrow> string \<Rightarrow> string \<Rightarrow> payload \<Rightarrow> ctx \<Rightarrow> ('w, 'a) Scheduler
     \<Rightarrow> (sched_err + trigger_result) \<times> ('w, 'a) Scheduler" where
  "Scheduler_EmitEvent sv c now et ek data ca s =
     (case EmitEvent sv c now et ek data (d_reg s) of
        (Inl e, r) \<Rightarrow> (Inl e, s\<lparr>d_reg := r\<rparr>)
      | (Inr (runs, decisions), r) \<Rightarrow>
          let s1 = fold (dispatch c) runs (s\<lparr>d_reg := r\<rparr>) in
          case recordAuditDecisions ca decisions s1 of (es, s2) \<Rightarrow>
            (Inr \<lparr>Tr_Decisions = decisions, Tr_AuditErrs = es, Tr_TickErr = None\<rparr>, s2))"

section \<open>The goroutines\<close>

definition runTimeout :: "ctx \<Rightarrow> 'w SchedReg \<Rightarrow> string \<Rightarrow> duration" where
  "runTimeout c r jid = (case GetJob c jid r of Inl _ \<Rightarrow> nsPerMinute
     | Inr job \<Rightarrow> if Def_Timeout (SJ_Definition job) \<le> 0 then nsPerMinute
                 else Def_Timeout (SJ_Definition job))"

definition setG :: "nat \<Rightarrow> Goroutine \<Rightarrow> ('w, 'a) Scheduler \<Rightarrow> ('w, 'a) Scheduler" where
  "setG i g s = s\<lparr>d_live := AList.update i g (d_live s)\<rparr>"

text \<open>The context of a goroutine and the one derived from it for the runner are done together.\<close>

definition cancelG :: "ctx_err \<Rightarrow> Goroutine \<Rightarrow> Goroutine" where
  "cancelG e g = g\<lparr>g_ctx := (if g_ctx g = None then Some e else g_ctx g),
     g_runCtx := (if g_place g = Calling \<and> g_runCtx g = None then Some e else g_runCtx g)\<rparr>"

definition acquireG :: "'w SchedReg \<Rightarrow> Goroutine \<Rightarrow> Goroutine" where
  "acquireG r g = g\<lparr>g_place := Calling, g_slot := True, g_runCtx := g_ctx g,
     g_timeout := runTimeout (g_ctx g) r (Run_JobID (g_run g))\<rparr>"

definition returnG :: "RunResult \<Rightarrow> string option \<Rightarrow> Goroutine \<Rightarrow> Goroutine" where
  "returnG result err g = g\<lparr>g_place := Returned result
     (if err = None then map_option ctxText (g_runCtx g) else err)\<rparr>"

definition panicG :: "('w, 'a) Scheduler \<Rightarrow> string \<Rightarrow> Goroutine \<Rightarrow> Goroutine" where
  "panicG s msg g = g\<lparr>g_place := Returned noResult
     (Some (''scheduler: runner panic recovered: '' @ redactPanicMessage s msg))\<rparr>"

definition unwindErr :: "('w, 'a) Scheduler \<Rightarrow> string \<Rightarrow> string option" where
  "unwindErr s msg = Some (''scheduler: dispatch panic recovered: '' @ redactPanicMessage s msg)"

text \<open>
  The steps. Operator calls and trigger calls reach the registry at any moment; a trigger call
  selects its runs in one step and dispatches them one by one later. The other steps are those of
  goroutine \<open>i\<close>, of a caller waiting, of the shutdown and of the contexts. A step that its guard
  forbids is \<open>None\<close>.
\<close>

datatype dstep_op =
    DManage sched_op
  | DTick ctx time
  | DNow ctx time string
  | DEvent ctx time string string payload
  | DDispatch ctx nat
  | DCallerDone nat ctx_err
  | DPropagate nat
  | DAcquire nat
  | DGiveUp nat
  | DDeadline nat
  | DReturn nat RunResult "string option"
  | DPanic nat string
  | DComplete nat time bool
  | DStorePanics nat time string
  | DRelease nat
  | DRecover nat time bool
  | DRecoverPanics nat time
  | DFinish nat
  | DWait
  | DStopWaiting nat ctx_err
  | DStop
  | DRootDone

definition managing :: "sched_op \<Rightarrow> bool" where
  "managing x = (case x of SImport _ _ _ \<Rightarrow> True | SPause _ _ _ \<Rightarrow> True | SResume _ _ _ \<Rightarrow> True
     | SRemove _ _ \<Rightarrow> True | STick _ _ \<Rightarrow> True | _ \<Rightarrow> False)"

definition selected :: "(sched_err + batch) \<times> 'w SchedReg \<Rightarrow> ('w, 'a) Scheduler \<Rightarrow> ('w, 'a) Scheduler" where
  "selected res s = (case res of (Inl _, r) \<Rightarrow> s\<lparr>d_reg := r\<rparr>
     | (Inr (runs, _), r) \<Rightarrow> s\<lparr>d_reg := r, d_selected := d_selected s @ runs\<rparr>)"

definition nowBatch :: "(sched_err + Run \<times> Decision) \<times> 'w SchedReg \<Rightarrow> (sched_err + batch) \<times> 'w SchedReg" where
  "nowBatch res = (case res of (Inl e, r) \<Rightarrow> (Inl e, r)
     | (Inr (run, d), r) \<Rightarrow> (Inr (if Dec_Outcome d = OutcomeStarted then [run] else [], [d]), r))"

fun registryStep :: "'w state_saver \<Rightarrow> dstep_op \<Rightarrow> ('w, 'a) Scheduler \<Rightarrow> ('w, 'a) Scheduler option" where
  "registryStep sv (DManage x) s =
     (if managing x then Some (s\<lparr>d_reg := sched_step sv x (d_reg s)\<rparr>) else None)"
| "registryStep sv (DTick c now) s = Some (selected (SelectDue sv c now 0 (d_reg s)) s)"
| "registryStep sv (DNow c now jid) s = Some (selected (nowBatch (RunNow sv c now jid (d_reg s))) s)"
| "registryStep sv (DEvent c now et ek data) s = Some (selected (EmitEvent sv c now et ek data (d_reg s)) s)"
| "registryStep sv (DDispatch c n) s =
     (if n < length (d_selected s)
      then Some (dispatch c (d_selected s ! n)
             (s\<lparr>d_selected := take n (d_selected s) @ drop (Suc n) (d_selected s)\<rparr>))
      else None)"
| "registryStep sv DWait s = Some (snd (registerWaiter s))"
| "registryStep sv (DStopWaiting w e) s = Some (snd (cancelWaiter w e s))"
| "registryStep sv DStop s = Some (Scheduler_Stop s)"
| "registryStep sv DRootDone s = Some (s\<lparr>d_rootDone := True\<rparr>)"
| "registryStep sv _ s = None"

fun goroutineStep ::
  "'w state_saver \<Rightarrow> dstep_op \<Rightarrow> nat \<Rightarrow> Goroutine \<Rightarrow> ('w, 'a) Scheduler \<Rightarrow> ('w, 'a) Scheduler option" where
  "goroutineStep sv (DCallerDone _ e) i g s = Some (setG i (cancelG e g) s)"
| "goroutineStep sv (DPropagate _) i g s =
     (if d_stopped s \<or> d_rootDone s then Some (setG i (cancelG Canceled g) s) else None)"
| "goroutineStep sv (DAcquire _) i g s =
     (if g_place g = Selecting \<and> d_busy s < d_workers s
      then Some ((setG i (acquireG (d_reg s) g) s)\<lparr>d_busy := d_busy s + 1\<rparr>) else None)"
| "goroutineStep sv (DGiveUp _) i g s =
     (if g_place g = Selecting
      then map_option (\<lambda>e. setG i (g\<lparr>g_place := Returned noResult (Some (ctxText e))\<rparr>) s) (g_ctx g)
      else None)"
| "goroutineStep sv (DDeadline _) i g s =
     (if g_place g = Calling \<and> g_timeout g > 0
      then Some (setG i (g\<lparr>g_runCtx := (if g_runCtx g = None then Some DeadlineExceeded else g_runCtx g)\<rparr>) s)
      else None)"
| "goroutineStep sv (DReturn _ result err) i g s =
     (if g_place g = Calling then Some (setG i (returnG result err g) s) else None)"
| "goroutineStep sv (DPanic _ msg) i g s =
     (if g_place g = Calling then Some (setG i (panicG s msg g) s) else None)"
| "goroutineStep sv (DComplete _ now late) i g s = (case g_place g of
      Returned result err \<Rightarrow>
        Some (setG i (g\<lparr>g_place := Settled\<rparr>) (completeRun sv late now (Run_ID (g_run g)) result err s))
    | _ \<Rightarrow> None)"
| "goroutineStep sv (DStorePanics _ now msg) i g s = (case g_place g of
      Returned result err \<Rightarrow>
        if reachesSave (Run_ID (g_run g)) (d_reg s)
        then Some (setG i (g\<lparr>g_place := Unwinding msg\<rparr>)
               (completionPanics now (Run_ID (g_run g)) result err s))
        else None
    | _ \<Rightarrow> None)"
| "goroutineStep sv (DRelease _) i g s =
     (if g_slot g \<and> (case g_place g of Settled \<Rightarrow> True | Unwinding _ \<Rightarrow> True | _ \<Rightarrow> False)
      then Some ((setG i (g\<lparr>g_slot := False\<rparr>) s)\<lparr>d_busy := d_busy s - 1\<rparr>) else None)"
| "goroutineStep sv (DRecover _ now late) i g s = (case g_place g of
      Unwinding msg \<Rightarrow>
        if g_slot g then None
        else Some (setG i (g\<lparr>g_place := Settled\<rparr>)
               (completeRun sv late now (Run_ID (g_run g)) noResult (unwindErr s msg) s))
    | _ \<Rightarrow> None)"
| "goroutineStep sv (DRecoverPanics _ now) i g s = (case g_place g of
      Unwinding msg \<Rightarrow>
        if g_slot g \<or> \<not> reachesSave (Run_ID (g_run g)) (d_reg s) then None
        else Some (setG i (g\<lparr>g_place := Settled\<rparr>)
               (completionPanics now (Run_ID (g_run g)) noResult (unwindErr s msg) s))
    | _ \<Rightarrow> None)"
| "goroutineStep sv (DFinish _) i g s =
     (if g_place g = Settled \<and> \<not> g_slot g
      then Some (finishRun (s\<lparr>d_live := AList.delete i (d_live s)\<rparr>)) else None)"
| "goroutineStep sv _ i g s = None"

fun stepGoroutine :: "dstep_op \<Rightarrow> nat option" where
  "stepGoroutine (DCallerDone i _) = Some i"
| "stepGoroutine (DPropagate i) = Some i"
| "stepGoroutine (DAcquire i) = Some i"
| "stepGoroutine (DGiveUp i) = Some i"
| "stepGoroutine (DDeadline i) = Some i"
| "stepGoroutine (DReturn i _ _) = Some i"
| "stepGoroutine (DPanic i _) = Some i"
| "stepGoroutine (DComplete i _ _) = Some i"
| "stepGoroutine (DStorePanics i _ _) = Some i"
| "stepGoroutine (DRelease i) = Some i"
| "stepGoroutine (DRecover i _ _) = Some i"
| "stepGoroutine (DRecoverPanics i _) = Some i"
| "stepGoroutine (DFinish i) = Some i"
| "stepGoroutine _ = None"

definition dstep :: "'w state_saver \<Rightarrow> dstep_op \<Rightarrow> ('w, 'a) Scheduler \<Rightarrow> ('w, 'a) Scheduler option" where
  "dstep sv x s = (case stepGoroutine x of None \<Rightarrow> registryStep sv x s
     | Some i \<Rightarrow> (case map_of (d_live s) i of None \<Rightarrow> None | Some g \<Rightarrow> goroutineStep sv x i g s))"

fun dsteps :: "'w state_saver \<Rightarrow> dstep_op list \<Rightarrow> ('w, 'a) Scheduler \<Rightarrow> ('w, 'a) Scheduler option" where
  "dsteps sv [] s = Some s"
| "dsteps sv (x # xs) s = (case dstep sv x s of None \<Rightarrow> None | Some s' \<Rightarrow> dsteps sv xs s')"

end
