(* ===== verification/DispatcherProps.thy ===== *)
theory DispatcherProps
  imports Dispatcher
begin

text \<open>
  The dispatcher's bookkeeping: the count of active runs is the number of goroutines, the used
  slots are the goroutines holding one and never exceed the workers, and nobody is left waiting on
  an idle dispatcher. From every reachable state the dispatcher can drain, and what it drains is
  settled in the registry.
\<close>

section \<open>Association lists of goroutines\<close>

lemma length_update: "map_of m i = Some g0 \<Longrightarrow> length (AList.update i g m) = length m"
  by (induction m) (auto split: if_splits)

lemma length_delete: "distinct (keys m) \<Longrightarrow> map_of m i = Some g \<Longrightarrow>
    int (length (AList.delete i m)) = int (length m) - 1"
proof (induction m)
  case (Cons e m)
  show ?case
  proof (cases "fst e = i")
    case True
    with Cons.prems have "AList.delete i m = m" by (intro delete_id) auto
    with True show ?thesis by simp
  next
    case False
    with Cons show ?thesis by (cases e) auto
  qed
qed simp

definition slots :: "(nat \<times> Goroutine) list \<Rightarrow> int" where
  "slots m = int (length (filter (\<lambda>e. g_slot (snd e)) m))"

lemma slots_update: "distinct (keys m) \<Longrightarrow> map_of m i = Some g0 \<Longrightarrow>
    slots (AList.update i g m) = slots m - of_bool (g_slot g0) + of_bool (g_slot g)"
proof (induction m)
  case (Cons e m)
  show ?case
  proof (cases "fst e = i")
    case True
    with Cons.prems show ?thesis by (cases e) (simp add: slots_def)
  next
    case False
    with Cons show ?thesis by (cases e) (auto simp: slots_def)
  qed
qed simp

lemma slots_delete: "distinct (keys m) \<Longrightarrow> map_of m i = Some g \<Longrightarrow> \<not> g_slot g \<Longrightarrow>
    slots (AList.delete i m) = slots m"
proof (induction m)
  case (Cons e m)
  show ?case
  proof (cases "fst e = i")
    case True
    with Cons.prems have "AList.delete i m = m" by (intro delete_id) auto
    with True Cons.prems show ?thesis by (cases e) (simp add: slots_def)
  next
    case False
    with Cons show ?thesis by (cases e) (auto simp: slots_def)
  qed
qed simp

lemma delete_update [simp]: "AList.delete i (AList.update i g m) = AList.delete i m"
  by (induction m) auto

lemma keyed: "distinct (keys m) \<Longrightarrow> h \<in> snd ` set m \<Longrightarrow> \<exists>j. map_of m j = Some h"
  by (metis imageE map_of_is_SomeI prod.collapse)

section \<open>The invariant\<close>

text \<open>A goroutine at the select holds no slot, one in the runner holds one.\<close>

definition slot_fits :: "Goroutine \<Rightarrow> bool" where
  "slot_fits g \<longleftrightarrow> (case g_place g of Selecting \<Rightarrow> \<not> g_slot g | Calling \<Rightarrow> g_slot g | _ \<Rightarrow> True)"

definition live_ok :: "('w, 'a) Scheduler \<Rightarrow> bool" where
  "live_ok s \<longleftrightarrow> distinct (keys (d_live s)) \<and> (\<forall>i\<in>set (keys (d_live s)). i < d_next s) \<and>
     (\<forall>g\<in>snd ` set (d_live s). slot_fits g)"

definition disp_ok :: "('w, 'a) Scheduler \<Rightarrow> bool" where
  "disp_ok s \<longleftrightarrow> live_ok s \<and> 0 < d_workers s \<and> d_active s = int (length (d_live s)) \<and>
     d_busy s = slots (d_live s) \<and> d_busy s \<le> d_workers s \<and> (d_waiters s = [] \<or> 0 < d_active s)"

lemma NewScheduler_ok: "NewScheduler cfg w = Inr s \<Longrightarrow> disp_ok s"
  by (auto simp: NewScheduler_def disp_ok_def live_ok_def slots_def split: option.splits if_splits)

lemma setG_fields [simp]:
  "d_workers (setG i g s) = d_workers s" "d_busy (setG i g s) = d_busy s"
  "d_active (setG i g s) = d_active s" "d_waiters (setG i g s) = d_waiters s"
  "d_woken (setG i g s) = d_woken s" "d_next (setG i g s) = d_next s"
  "d_selected (setG i g s) = d_selected s" "d_reg (setG i g s) = d_reg s"
  "d_stopped (setG i g s) = d_stopped s" "d_nextWaiter (setG i g s) = d_nextWaiter s"
  "d_live (setG i g s) = AList.update i g (d_live s)"
  by (simp_all add: setG_def)

lemma live_ok_cong:
  "d_live t = d_live s \<Longrightarrow> d_next t = d_next s \<Longrightarrow> live_ok t = live_ok s"
  by (simp add: live_ok_def)

lemma live_ok_setG:
  assumes "live_ok s" "map_of (d_live s) i = Some g0" "slot_fits g"
    and t: "d_live t = AList.update i g (d_live s)" "d_next t = d_next s"
  shows "live_ok t"
proof -
  have k: "set (keys (d_live t)) = set (keys (d_live s))"
    using assms(2) t by (auto simp: dom_map_of_conv_image_fst [symmetric] update_conv dest: map_of_SomeD intro: rev_image_eqI)
  have d: "distinct (keys (d_live t))"
    using assms(1) t by (simp add: live_ok_def distinct_update)
  have "h \<in> snd ` set (d_live t) \<Longrightarrow> slot_fits h" for h
  proof -
    assume "h \<in> snd ` set (d_live t)"
    with keyed [OF d] obtain j where "map_of (d_live t) j = Some h" by blast
    with t have "h = g \<or> map_of (d_live s) j = Some h" by (auto simp: update_conv split: if_splits)
    with assms(1,3) show ?thesis by (force simp: live_ok_def dest: map_of_SomeD)
  qed
  with k d assms(1) t show ?thesis by (simp add: live_ok_def)
qed

text \<open>The one shape of a goroutine's step but the last: replace the goroutine, adjust the slots.\<close>

lemma disp_ok_move:
  assumes "disp_ok s" "map_of (d_live s) i = Some g0" "slot_fits g"
    and t: "d_live t = AList.update i g (d_live s)" "d_next t = d_next s" "d_workers t = d_workers s"
      "d_active t = d_active s" "d_waiters t = d_waiters s"
    and b: "d_busy t = d_busy s - of_bool (g_slot g0) + of_bool (g_slot g)" "d_busy t \<le> d_workers s"
  shows "disp_ok t"
  using assms live_ok_setG [OF _ assms(2,3) t(1,2)]
  by (auto simp: disp_ok_def live_ok_def length_update slots_update)

lemma completion_fields [simp]:
  "d_live (completeRun sv late now rid res e s) = d_live s"
  "d_next (completeRun sv late now rid res e s) = d_next s"
  "d_workers (completeRun sv late now rid res e s) = d_workers s"
  "d_busy (completeRun sv late now rid res e s) = d_busy s"
  "d_active (completeRun sv late now rid res e s) = d_active s"
  "d_waiters (completeRun sv late now rid res e s) = d_waiters s"
  "d_woken (completeRun sv late now rid res e s) = d_woken s"
  "d_selected (completeRun sv late now rid res e s) = d_selected s"
  "d_stopped (completeRun sv late now rid res e s) = d_stopped s"
  "d_live (completionPanics now rid res e s) = d_live s"
  "d_next (completionPanics now rid res e s) = d_next s"
  "d_workers (completionPanics now rid res e s) = d_workers s"
  "d_busy (completionPanics now rid res e s) = d_busy s"
  "d_active (completionPanics now rid res e s) = d_active s"
  "d_waiters (completionPanics now rid res e s) = d_waiters s"
  "d_woken (completionPanics now rid res e s) = d_woken s"
  "d_selected (completionPanics now rid res e s) = d_selected s"
  "d_stopped (completionPanics now rid res e s) = d_stopped s"
  by (auto simp: completeRun_def completionPanics_def split: prod.splits sum.splits)

lemma disp_ok_cong:
  "disp_ok s \<Longrightarrow> d_live t = d_live s \<Longrightarrow> d_next t = d_next s \<Longrightarrow> d_workers t = d_workers s \<Longrightarrow>
    d_busy t = d_busy s \<Longrightarrow> d_active t = d_active s \<Longrightarrow> d_waiters t = d_waiters s \<Longrightarrow> disp_ok t"
  using live_ok_cong [of t s] by (auto simp: disp_ok_def)

lemma disp_ok_dispatch: "disp_ok s \<Longrightarrow> disp_ok (dispatch c run s)"
  by (auto simp: disp_ok_def live_ok_def dispatch_def startActive_def slots_def slot_fits_def Let_def)

lemma selected_ok: "disp_ok s \<Longrightarrow> disp_ok (selected res s)"
  by (rule disp_ok_cong [of s]) (auto simp: selected_def split: prod.split sum.split)

lemma disp_ok_wait:
  "disp_ok s \<Longrightarrow> disp_ok (snd (registerWaiter s))" "disp_ok s \<Longrightarrow> disp_ok (snd (cancelWaiter w e s))"
  by (auto simp: registerWaiter_def cancelWaiter_def disp_ok_def live_ok_def)

lemma registryStep_ok:
  assumes ok: "disp_ok s" and st: "registryStep sv x s = Some t"
  shows "disp_ok t"
proof (cases x)
  case (DDispatch c n)
  with ok st show ?thesis
    by (auto split: if_splits intro!: disp_ok_dispatch intro: disp_ok_cong)
next
  case (DManage y)
  with ok st show ?thesis by (auto split: if_splits intro: disp_ok_cong)
qed (use ok st in \<open>auto simp: Scheduler_Stop_def intro: selected_ok disp_ok_wait disp_ok_cong\<close>)

lemma disp_ok_finish:
  assumes "disp_ok s" "map_of (d_live s) i = Some g" "\<not> g_slot g"
  shows "disp_ok (finishRun (s\<lparr>d_live := AList.delete i (d_live s)\<rparr>))"
proof -
  have "live_ok (s\<lparr>d_live := AList.delete i (d_live s)\<rparr>)"
    using assms distinct_keys_delete [of "d_live s" i]
    by (auto simp: disp_ok_def live_ok_def AList.delete_eq)
  moreover have "int (length (AList.delete i (d_live s))) = int (length (d_live s)) - 1"
    "slots (AList.delete i (d_live s)) = slots (d_live s)"
    using assms by (auto simp: disp_ok_def live_ok_def intro: length_delete slots_delete)
  ultimately show ?thesis
    using assms by (auto simp: disp_ok_def live_ok_def finishRun_def Let_def dest: map_of_SomeD)
qed

lemma place_fits [simp]:
  "slot_fits (cancelG e g) = slot_fits g" "g_slot (cancelG e g) = g_slot g"
  "slot_fits (acquireG r g)" "g_slot (acquireG r g)"
  "slot_fits (returnG res err g)" "g_slot (returnG res err g) = g_slot g"
  "slot_fits (panicG s msg g)" "g_slot (panicG s msg g) = g_slot g"
  "slot_fits (g\<lparr>g_runCtx := c\<rparr>) = slot_fits g"
  "slot_fits (g\<lparr>g_place := Returned res err\<rparr>)" "slot_fits (g\<lparr>g_place := Settled\<rparr>)"
  "slot_fits (g\<lparr>g_place := Unwinding msg\<rparr>)"
  by (simp_all add: slot_fits_def cancelG_def acquireG_def returnG_def panicG_def split: place.split)

lemma slot_fitsD: "disp_ok s \<Longrightarrow> map_of (d_live s) i = Some g \<Longrightarrow> slot_fits g"
  by (force simp: disp_ok_def live_ok_def dest: map_of_SomeD)

lemma goroutineStep_ok:
  assumes ok: "disp_ok s" and g: "map_of (d_live s) i = Some g" and st: "goroutineStep sv x i g s = Some t"
  shows "disp_ok t"
proof -
  note move = disp_ok_move [OF ok g]
  have fit: "slot_fits g" by (rule slot_fitsD [OF ok g])
  have le: "d_busy s \<le> d_workers s" using ok by (simp add: disp_ok_def)
  show ?thesis
  proof (cases x)
    case (DFinish j)
    with st ok g show ?thesis by (auto split: if_splits intro: disp_ok_finish)
  next
    case (DAcquire j)
    with st fit show ?thesis
      by (auto simp: slot_fits_def [of g] split: if_splits intro!: move [of "acquireG (d_reg s) g"])
  next
    case (DRelease j)
    with st le have "g_slot g" "slot_fits (g\<lparr>g_slot := False\<rparr>)"
      "t = (setG i (g\<lparr>g_slot := False\<rparr>) s)\<lparr>d_busy := d_busy s - 1\<rparr>"
      by (auto simp: slot_fits_def split: if_splits place.splits)
    with le show ?thesis by (auto intro!: move [of "g\<lparr>g_slot := False\<rparr>"])
  next
    case (DCallerDone j e)
    with st fit le show ?thesis by (auto intro!: move [of "cancelG e g"])
  next
    case (DPropagate j)
    with st fit le show ?thesis by (auto split: if_splits intro!: move [of "cancelG Canceled g"])
  next
    case (DDeadline j)
    define h where "h = g\<lparr>g_runCtx := (if g_runCtx g = None then Some DeadlineExceeded else g_runCtx g)\<rparr>"
    from DDeadline st have "t = setG i h s" by (auto simp: h_def split: if_splits)
    moreover have "slot_fits h" "g_slot h = g_slot g" using fit by (auto simp: h_def)
    ultimately show ?thesis using le by (intro move [of h]) simp_all
  qed (use st le in \<open>auto split: if_splits place.splits intro!: move\<close>)
qed

lemma dstep_ok: "disp_ok s \<Longrightarrow> dstep sv x s = Some t \<Longrightarrow> disp_ok t"
  by (auto simp: dstep_def split: option.splits intro: registryStep_ok goroutineStep_ok)

lemma dsteps_ok: "disp_ok s \<Longrightarrow> dsteps sv xs s = Some t \<Longrightarrow> disp_ok t"
  by (induction xs arbitrary: s) (auto split: option.splits dest: dstep_ok)

section \<open>Draining\<close>

definition running :: "('w, 'a) Scheduler \<Rightarrow> string set" where
  "running s = {k. reachesSave k (d_reg s)}"

lemma CompleteRun_sruns:
  assumes "reachesSave rid r"
  shows "\<exists>run. Run_Status run \<noteq> RunStatusRunning \<and> sruns (snd (CompleteRun sv None now rid res e r)) =
    sruns (pruneTerminalRuns (settleJob now res e run (setRun rid run r)))"
proof -
  from assms obtain x where x: "map_of (sruns r) rid = Some x" "Run_Status x = RunStatusRunning"
    by (auto simp: reachesSave_def split: option.splits)
  have p: "sched_persist sv None q = (er, r4) \<Longrightarrow> sr_state r4 = sr_state q" for q er r4
    using sched_persist_state [of sv None q] by simp
  from x have "sruns (snd (CompleteRun sv None now rid res e r)) =
      sruns (pruneTerminalRuns (settleJob now res e (completedRun now res e x) (setRun rid (completedRun now res e x) r)))"
    by (auto simp: CompleteRun_def Let_def split: prod.split option.split dest!: p)
  moreover have "Run_Status (completedRun now res e x) \<noteq> RunStatusRunning"
    by (simp add: completedRun_def split: option.split)
  ultimately show ?thesis by blast
qed

lemma CompleteRun_idle: "\<not> reachesSave rid r \<Longrightarrow> snd (CompleteRun sv c now rid res e r) = r"
  by (auto simp: CompleteRun_def reachesSave_def split: option.split)

lemma CompleteRun_late: "snd (CompleteRun sv (Some x) now rid res e r) = r"
  by (simp add: CompleteRun_def)

lemma CompleteRun_running:
  "\<not> reachesSave rid (snd (CompleteRun sv None now rid res e r))"
  "reachesSave k (snd (CompleteRun sv c now rid res e r)) \<Longrightarrow> reachesSave k r"
proof -
  have *: "reachesSave k (snd (CompleteRun sv None now rid res e r)) \<Longrightarrow> reachesSave k r \<and> k \<noteq> rid" for k
  proof (cases "reachesSave rid r")
    case True
    assume k: "reachesSave k (snd (CompleteRun sv None now rid res e r))"
    from CompleteRun_sruns [OF True, of sv now res e] obtain run
      where run: "Run_Status run \<noteq> RunStatusRunning"
        "sruns (snd (CompleteRun sv None now rid res e r)) =
         sruns (pruneTerminalRuns (settleJob now res e run (setRun rid run r)))" by blast
    from k obtain x where x: "Run_Status x = RunStatusRunning"
      "map_of (sruns (pruneTerminalRuns (settleJob now res e run (setRun rid run r)))) k = Some x"
      unfolding reachesSave_def run(2) by (auto split: option.splits)
    from prune_runs_submap [OF x(2)] x(1) run(1) show ?thesis
      by (auto simp: settleJob_fields reachesSave_def setRun_def update_conv split: if_splits)
  qed (auto simp: CompleteRun_idle)
  from * show "\<not> reachesSave rid (snd (CompleteRun sv None now rid res e r))" by blast
  from * show "reachesSave k (snd (CompleteRun sv c now rid res e r)) \<Longrightarrow> reachesSave k r"
    by (cases c) (auto simp: CompleteRun_late)
qed

lemma completeRun_reg [simp]:
  "d_reg (completeRun sv late now rid res e s) =
     snd (CompleteRun sv (completionCtx s late) now rid res (redactRunError s e) (d_reg s))"
  by (auto simp: completeRun_def split: prod.splits sum.splits)

lemma running_complete:
  "rid \<notin> running (completeRun sv False now rid res e s)"
  "running (completeRun sv late now rid res e s) \<subseteq> running s"
  by (auto simp: running_def completionCtx_def CompleteRun_running(1) dest: CompleteRun_running(2))

lemma running_setG [simp]: "running (setG i g s) = running s"
  by (simp add: running_def)

text \<open>Goroutine \<open>i\<close> can be brought to its end on its own, and the registry only loses running runs.\<close>

definition drives :: "'w state_saver \<Rightarrow> nat \<Rightarrow> ('w, 'a) Scheduler \<Rightarrow> ('w, 'a) Scheduler \<Rightarrow> bool" where
  "drives sv i s t \<longleftrightarrow> (\<exists>ys. dsteps sv ys s = Some t) \<and> d_live t = AList.delete i (d_live s) \<and>
     d_selected t = d_selected s \<and> running t \<subseteq> running s"

lemma drives_step:
  assumes "dstep sv x s = Some s1" "d_live s1 = AList.update i g (d_live s)"
    and "d_selected s1 = d_selected s" "running s1 \<subseteq> running s" "drives sv i s1 t"
  shows "drives sv i s t"
proof -
  from assms(5) obtain ys where "dsteps sv ys s1 = Some t" by (auto simp: drives_def)
  with assms(1) have "dsteps sv (x # ys) s = Some t" by simp
  then have "\<exists>zs. dsteps sv zs s = Some t" ..
  with assms show ?thesis by (auto simp: drives_def)
qed

lemma finishRun_fields [simp]:
  "d_live (finishRun s) = d_live s" "d_selected (finishRun s) = d_selected s"
  "d_reg (finishRun s) = d_reg s" "d_next (finishRun s) = d_next s"
  "set (d_waiters (finishRun s)) \<union> set (d_woken (finishRun s)) = set (d_waiters s) \<union> set (d_woken s)"
  by (auto simp: finishRun_def Let_def)

lemma drive_ended:
  assumes "map_of (d_live s) i = Some g" "g_place g = Settled" "\<not> g_slot g"
  shows "\<exists>t. drives sv i s t"
proof -
  let ?t = "finishRun (s\<lparr>d_live := AList.delete i (d_live s)\<rparr>)"
  from assms have "dsteps sv [DFinish i] s = Some ?t" by (simp add: dstep_def)
  then have "\<exists>ys. dsteps sv ys s = Some ?t" ..
  then have "drives sv i s ?t" by (simp add: drives_def running_def)
  then show ?thesis ..
qed

lemma drive_settled:
  assumes "map_of (d_live s) i = Some g" "g_place g = Settled"
  shows "\<exists>t. drives sv i s t"
proof (cases "g_slot g")
  case True
  let ?g = "g\<lparr>g_slot := False\<rparr>"
  let ?s = "(setG i ?g s)\<lparr>d_busy := d_busy s - 1\<rparr>"
  from True assms have st: "dstep sv (DRelease i) s = Some ?s" by (simp add: dstep_def)
  from assms drive_ended [of ?s i ?g sv] obtain t where "drives sv i ?s t" by (auto simp: update_conv)
  with drives_step [OF st, of i ?g] show ?thesis by (auto simp: running_def)
next
  case False
  with drive_ended assms show ?thesis by blast
qed

text \<open>From a completion on.\<close>

lemma drive_completed:
  assumes st: "dstep sv x s = Some (setG i (g\<lparr>g_place := Settled\<rparr>) (completeRun sv False now (Run_ID (g_run g)) res e s))"
  shows "\<exists>t. drives sv i s t \<and> Run_ID (g_run g) \<notin> running t"
proof -
  let ?s = "setG i (g\<lparr>g_place := Settled\<rparr>) (completeRun sv False now (Run_ID (g_run g)) res e s)"
  from drive_settled [of ?s i "g\<lparr>g_place := Settled\<rparr>" sv] obtain t where t: "drives sv i ?s t"
    by (auto simp: update_conv)
  moreover have "running ?s \<subseteq> running s" "Run_ID (g_run g) \<notin> running ?s"
    by (simp_all add: running_complete)
  ultimately show ?thesis
    using drives_step [OF st, of i "g\<lparr>g_place := Settled\<rparr>" t] by (auto simp: drives_def)
qed

lemma drive_before:
  assumes st: "dstep sv x s = Some s1" and "d_live s1 = AList.update i g1 (d_live s)"
    and "d_selected s1 = d_selected s" "d_reg s1 = d_reg s"
    and "\<exists>t. drives sv i s1 t \<and> k \<notin> running t"
  shows "\<exists>t. drives sv i s t \<and> k \<notin> running t"
  using drives_step [OF st assms(2,3)] assms(4,5) by (auto simp: running_def)

lemma drive_returned:
  assumes "map_of (d_live s) i = Some g" "g_place g = Returned res e"
  shows "\<exists>t. drives sv i s t \<and> Run_ID (g_run g) \<notin> running t"
  by (rule drive_completed [of sv "DComplete i 0 False" s i g 0 res e]) (simp add: dstep_def assms)

lemma drive_calling:
  assumes "map_of (d_live s) i = Some g" "g_place g = Calling"
  shows "\<exists>t. drives sv i s t \<and> Run_ID (g_run g) \<notin> running t"
proof -
  let ?g = "returnG noResult None g"
  have run: "g_run ?g = g_run g" by (simp add: returnG_def)
  have "\<exists>t. drives sv i (setG i ?g s) t \<and> Run_ID (g_run ?g) \<notin> running t"
    by (rule drive_returned) (simp_all add: update_conv returnG_def)
  with drive_before [of sv "DReturn i noResult None" s "setG i ?g s" i ?g] show ?thesis
    by (simp add: dstep_def assms run)
qed

lemma drive_unwinding:
  assumes "map_of (d_live s) i = Some g" "g_place g = Unwinding msg"
  shows "\<exists>t. drives sv i s t \<and> Run_ID (g_run g) \<notin> running t"
proof -
  have free: "\<exists>t. drives sv i s t \<and> Run_ID (g_run g) \<notin> running t"
    if "map_of (d_live s) i = Some g" "g_place g = Unwinding msg" "\<not> g_slot g" for g s
    by (rule drive_completed [of sv "DRecover i 0 False" s i g 0 noResult "unwindErr s msg"])
      (simp add: dstep_def that)
  show ?thesis
  proof (cases "g_slot g")
    case True
    let ?g = "g\<lparr>g_slot := False\<rparr>"
    let ?s = "(setG i ?g s)\<lparr>d_busy := d_busy s - 1\<rparr>"
    have "\<exists>t. drives sv i ?s t \<and> Run_ID (g_run ?g) \<notin> running t"
      by (rule free) (simp_all add: update_conv assms)
    with drive_before [of sv "DRelease i" s ?s i ?g] True show ?thesis
      by (simp add: dstep_def assms)
  qed (use free assms in blast)
qed

lemma drive_selecting:
  assumes "map_of (d_live s) i = Some g" "g_place g = Selecting" "d_busy s < d_workers s"
  shows "\<exists>t. drives sv i s t \<and> Run_ID (g_run g) \<notin> running t"
proof -
  let ?g = "acquireG (d_reg s) g"
  let ?s = "(setG i ?g s)\<lparr>d_busy := d_busy s + 1\<rparr>"
  have run: "g_run ?g = g_run g" by (simp add: acquireG_def)
  have "\<exists>t. drives sv i ?s t \<and> Run_ID (g_run ?g) \<notin> running t"
    by (rule drive_calling) (simp_all add: update_conv acquireG_def)
  with drive_before [of sv "DAcquire i" s ?s i ?g] show ?thesis
    by (simp add: dstep_def assms run)
qed

lemma drive_some:
  assumes ok: "disp_ok s" and live: "d_live s \<noteq> []"
  shows "\<exists>i g t. map_of (d_live s) i = Some g \<and> drives sv i s t \<and>
    (g_place g = Settled \<or> Run_ID (g_run g) \<notin> running t)"
proof -
  have dis: "distinct (keys (d_live s))" using ok by (simp add: disp_ok_def live_ok_def)
  have "\<exists>i g. map_of (d_live s) i = Some g \<and> (g_place g \<noteq> Selecting \<or> d_busy s < d_workers s)"
  proof (cases "filter (\<lambda>e. g_slot (snd e)) (d_live s)")
    case Nil
    then have "d_busy s < d_workers s" using ok by (simp add: disp_ok_def slots_def)
    with live show ?thesis by (cases "d_live s") auto
  next
    case (Cons e es)
    then have e: "e \<in> set (d_live s)" "g_slot (snd e)" by (auto simp: filter_eq_Cons_iff)
    with dis have "map_of (d_live s) (fst e) = Some (snd e)" by (metis map_of_is_SomeI prod.collapse)
    moreover from slot_fitsD [OF ok this] e(2) have "g_place (snd e) \<noteq> Selecting" by (auto simp: slot_fits_def)
    ultimately show ?thesis by blast
  qed
  then obtain i g where g: "map_of (d_live s) i = Some g" "g_place g \<noteq> Selecting \<or> d_busy s < d_workers s" by blast
  have "\<exists>t. drives sv i s t \<and> (g_place g = Settled \<or> Run_ID (g_run g) \<notin> running t)"
  proof (cases "g_place g")
    case Settled
    with drive_settled [OF g(1) Settled] show ?thesis by blast
  next
    case Selecting
    with drive_selecting [OF g(1) Selecting] g(2) show ?thesis by blast
  next
    case Calling
    with drive_calling [OF g(1) Calling] show ?thesis by blast
  next
    case (Returned res e)
    with drive_returned [OF g(1) Returned] show ?thesis by blast
  next
    case (Unwinding msg)
    with drive_unwinding [OF g(1) Unwinding] show ?thesis by blast
  qed
  with g(1) show ?thesis by blast
qed

lemma dsteps_append:
  "dsteps sv xs s = Some t \<Longrightarrow> dsteps sv ys t = Some u \<Longrightarrow> dsteps sv (xs @ ys) s = Some u"
  by (induction xs arbitrary: s) (auto split: option.splits)

lemma drain_live:
  assumes "disp_ok s"
  shows "\<exists>ys t. dsteps sv ys s = Some t \<and> d_live t = [] \<and> d_selected t = d_selected s \<and> running t \<subseteq> running s \<and>
    (\<forall>g\<in>snd ` set (d_live s). g_place g = Settled \<or> Run_ID (g_run g) \<notin> running t)"
  using assms
proof (induction "length (d_live s)" arbitrary: s rule: less_induct)
  case less
  show ?case
  proof (cases "d_live s")
    case Nil
    then show ?thesis by (intro exI [of _ "[]"] exI [of _ s]) simp
  next
    case Cons
    then have "d_live s \<noteq> []" by simp
    from drive_some [OF less.prems this, of sv] obtain i g t where
      g: "map_of (d_live s) i = Some g" "drives sv i s t" "g_place g = Settled \<or> Run_ID (g_run g) \<notin> running t" by blast
    then obtain xs where xs: "dsteps sv xs s = Some t" by (auto simp: drives_def)
    have ok: "disp_ok t" by (rule dsteps_ok [OF less.prems xs])
    have dis: "distinct (keys (d_live s))" using less.prems by (simp add: disp_ok_def live_ok_def)
    have live: "d_live t = AList.delete i (d_live s)" using g(2) by (simp add: drives_def)
    with length_delete [OF dis g(1)] have "length (d_live t) < length (d_live s)" by simp
    from less.hyps [OF this ok] obtain ys u where u: "dsteps sv ys t = Some u" "d_live u = []"
      "d_selected u = d_selected t" "running u \<subseteq> running t"
      "\<forall>g\<in>snd ` set (d_live t). g_place g = Settled \<or> Run_ID (g_run g) \<notin> running u" by blast
    have "h = g \<or> h \<in> snd ` set (d_live t)" if h: "h \<in> snd ` set (d_live s)" for h
    proof -
      from keyed [OF dis h] obtain j where j: "map_of (d_live s) j = Some h" by blast
      with live have "j \<noteq> i \<Longrightarrow> map_of (d_live t) j = Some h" by simp
      with j g(1) show ?thesis by (cases "j = i") (force dest: map_of_SomeD)+
    qed
    with u g have "\<forall>g\<in>snd ` set (d_live s). g_place g = Settled \<or> Run_ID (g_run g) \<notin> running u" by blast
    moreover have "running u \<subseteq> running s" "d_selected u = d_selected s" using u g(2) by (auto simp: drives_def)
    ultimately show ?thesis using dsteps_append [OF xs u(1)] u(2) by blast
  qed
qed

lemma dispatch_fields [simp]:
  "d_reg (dispatch c run s) = d_reg s" "d_selected (dispatch c run s) = d_selected s"
  "d_stopped (dispatch c run s) = d_stopped s" "d_next (dispatch c run s) = d_next s + 1"
  "d_waiters (dispatch c run s) = d_waiters s" "d_woken (dispatch c run s) = d_woken s"
  by (simp_all add: dispatch_def startActive_def Let_def)

lemma dispatch_live:
  "\<exists>g. d_live (dispatch c run s) = d_live s @ [(d_next s, g)] \<and> g_run g = run \<and> g_place g = Selecting"
  by (simp add: dispatch_def startActive_def Let_def)

lemma launch_all:
  "\<exists>ys t new. dsteps sv ys s = Some t \<and> d_selected t = [] \<and> d_reg t = d_reg s \<and> d_live t = d_live s @ new \<and>
     map (\<lambda>e. g_run (snd e)) new = d_selected s \<and> (\<forall>g\<in>snd ` set new. g_place g = Selecting)"
proof (induction "d_selected s" arbitrary: s)
  case Nil
  then show ?case by (intro exI [of _ "[]"] exI [of _ s]) simp
next
  case (Cons run runs)
  let ?s = "dispatch None run (s\<lparr>d_selected := runs\<rparr>)"
  from Cons.hyps(2) have st: "dstep sv (DDispatch None 0) s = Some ?s"
    by (simp add: dstep_def flip: Cons.hyps(2))
  obtain g where g: "d_live ?s = d_live s @ [(d_next s, g)]" "g_run g = run" "g_place g = Selecting"
    using dispatch_live [of None run "s\<lparr>d_selected := runs\<rparr>"] by auto
  from Cons.hyps(1) [of ?s] obtain ys t new where t: "dsteps sv ys ?s = Some t" "d_selected t = []"
    "d_reg t = d_reg s" "d_live t = d_live ?s @ new" "map (\<lambda>e. g_run (snd e)) new = runs"
    "\<forall>g\<in>snd ` set new. g_place g = Selecting" by auto
  from st t(1) have "dsteps sv (DDispatch None 0 # ys) s = Some t" by simp
  moreover have "d_live t = d_live s @ (d_next s, g) # new" using t(4) g(1) by simp
  moreover have "map (\<lambda>e. g_run (snd e)) ((d_next s, g) # new) = d_selected s"
    using t(5) g(2) Cons.hyps(2) by simp
  moreover have "\<forall>h\<in>snd ` set ((d_next s, g) # new). g_place h = Selecting" using t(6) g(3) by simp
  ultimately show ?case using t(2,3) by blast
qed

lemma waiting_step:
  assumes "dstep sv x s = Some t"
  shows "set (d_waiters s) \<union> set (d_woken s) \<subseteq> set (d_waiters t) \<union> set (d_woken t)"
proof (cases "stepGoroutine x")
  case None
  with assms have "registryStep sv x s = Some t" by (simp add: dstep_def)
  then show ?thesis
    by (cases x) (auto simp: selected_def registerWaiter_def cancelWaiter_def Scheduler_Stop_def
        split: if_splits prod.splits sum.splits)
next
  case (Some i)
  with assms obtain g where "goroutineStep sv x i g s = Some t" by (auto simp: dstep_def split: option.splits)
  then show ?thesis
  proof (cases x)
    case (DFinish j)
    with \<open>goroutineStep sv x i g s = Some t\<close> have "t = finishRun (s\<lparr>d_live := AList.delete i (d_live s)\<rparr>)"
      by (auto split: if_splits)
    with finishRun_fields(5) [of "s\<lparr>d_live := AList.delete i (d_live s)\<rparr>"] show ?thesis by simp
  qed (auto split: if_splits place.splits)
qed

lemma waiting_steps:
  "dsteps sv xs s = Some t \<Longrightarrow> set (d_waiters s) \<union> set (d_woken s) \<subseteq> set (d_waiters t) \<union> set (d_woken t)"
proof (induction xs arbitrary: s)
  case (Cons x xs)
  then obtain u where "dstep sv x s = Some u" "dsteps sv xs u = Some t" by (auto split: option.splits)
  with waiting_step Cons.IH show ?case by blast
qed simp

text \<open>The runs the dispatcher still has to settle: selected ones and those of its unfinished goroutines.\<close>

definition owed :: "('w, 'a) Scheduler \<Rightarrow> string list" where
  "owed s = map Run_ID (d_selected s @ map (\<lambda>e. g_run (snd e)) (filter (\<lambda>e. g_place (snd e) \<noteq> Settled) (d_live s)))"

lemma owed_cases:
  "k \<in> set (owed s) \<Longrightarrow> d_live t = d_live s @ new \<Longrightarrow> map (\<lambda>e. g_run (snd e)) new = d_selected s \<Longrightarrow>
    \<forall>g\<in>snd ` set new. g_place g = Selecting \<Longrightarrow>
    \<exists>g\<in>snd ` set (d_live t). Run_ID (g_run g) = k \<and> g_place g \<noteq> Settled"
proof -
  assume k: "k \<in> set (owed s)" and t: "d_live t = d_live s @ new" "map (\<lambda>e. g_run (snd e)) new = d_selected s"
    "\<forall>g\<in>snd ` set new. g_place g = Selecting"
  from k t(2) have "(\<exists>e\<in>set new. Run_ID (g_run (snd e)) = k) \<or>
      (\<exists>e\<in>set (d_live s). Run_ID (g_run (snd e)) = k \<and> g_place (snd e) \<noteq> Settled)"
    unfolding owed_def t(2) [symmetric] by auto
  then show ?thesis
  proof (elim disjE bexE conjE)
    fix e assume "e \<in> set new" "Run_ID (g_run (snd e)) = k"
    with t(1,3) show ?thesis by (intro bexI [of _ "snd e"]) auto
  next
    fix e assume "e \<in> set (d_live s)" "Run_ID (g_run (snd e)) = k" "g_place (snd e) \<noteq> Settled"
    with t(1) show ?thesis by (intro bexI [of _ "snd e"]) auto
  qed
qed

section \<open>The properties\<close>

text \<open>
  C35. However trigger calls, goroutines, waiters and the shutdown interleave, at most as
  many runner calls are in progress as there are workers, the count of active runs is the number
  of goroutines in flight, and while somebody waits some goroutine is still in flight.
\<close>

theorem dispatcher_accounting:
  assumes "NewScheduler cfg sink = Inr s0" and "dsteps sv xs s0 = Some s"
  shows "int (length (filter (\<lambda>e. g_place (snd e) = Calling) (d_live s))) \<le> d_workers s \<and>
    d_active s = int (length (d_live s)) \<and> (d_waiters s = [] \<or> 0 < length (d_live s))"
proof -
  from assms have ok: "disp_ok s" by (blast intro: dsteps_ok NewScheduler_ok)
  then have fits: "\<forall>e\<in>set (d_live s). slot_fits (snd e)" by (auto simp: disp_ok_def live_ok_def)
  have "length (filter (\<lambda>e. g_place (snd e) = Calling) m) \<le> length (filter (\<lambda>e. g_slot (snd e)) m)"
    if "\<forall>e\<in>set m. slot_fits (snd e)" for m :: "(nat \<times> Goroutine) list"
    using that by (induction m) (auto simp: slot_fits_def)
  from this [OF fits] ok show ?thesis by (auto simp: disp_ok_def slots_def)
qed

text \<open>
  C36. From every state the dispatcher can reach, it can come to rest provided runners return and
  completions enter the registry in time: every selected run is dispatched, every goroutine
  finishes, everybody who was waiting is woken, and no run that was owed an outcome is still
  running in the registry, whether its runner was called, its store panicked or it was waiting for
  a worker.
\<close>

theorem dispatcher_can_drain:
  assumes "NewScheduler cfg sink = Inr s0" and "dsteps sv xs s0 = Some s"
  shows "\<exists>ys t. dsteps sv ys s = Some t \<and> d_live t = [] \<and> d_selected t = [] \<and> d_active t = 0 \<and>
    set (d_waiters s) \<subseteq> set (d_woken t) \<and> set (owed s) \<inter> {k. reachesSave k (d_reg t)} = {}"
proof -
  from assms have ok: "disp_ok s" by (blast intro: dsteps_ok NewScheduler_ok)
  from launch_all [of sv s] obtain ys t new where t: "dsteps sv ys s = Some t" "d_selected t = []"
    "d_live t = d_live s @ new" "map (\<lambda>e. g_run (snd e)) new = d_selected s"
    "\<forall>g\<in>snd ` set new. g_place g = Selecting" by blast
  from drain_live [OF dsteps_ok [OF ok t(1)], of sv] obtain zs u where u: "dsteps sv zs t = Some u"
    "d_live u = []" "d_selected u = []" "\<forall>g\<in>snd ` set (d_live t). g_place g = Settled \<or> Run_ID (g_run g) \<notin> running u"
    using t(2) by auto
  have all: "dsteps sv (ys @ zs) s = Some u" by (rule dsteps_append [OF t(1) u(1)])
  from dsteps_ok [OF ok all] u(2) have "d_active u = 0" "d_waiters u = []" by (auto simp: disp_ok_def)
  moreover from this waiting_steps [OF all] have "set (d_waiters s) \<subseteq> set (d_woken u)" by auto
  moreover have "set (owed s) \<inter> {k. reachesSave k (d_reg u)} = {}"
  proof -
    have "k \<notin> running u" if "k \<in> set (owed s)" for k
      using owed_cases [OF that t(3,4,5)] u(4) by blast
    then show ?thesis by (auto simp: running_def)
  qed
  ultimately show ?thesis using all u(2,3) by blast
qed

end
