(* ===== verification/DispatcherRaces.thy ===== *)
theory DispatcherRaces
  imports DispatcherProps SchedWitness
begin

text \<open>
  What the dispatcher does when things go wrong around it: a shutdown before a dispatch, a save
  that fails during a tick, a run that outlives its lease. At the end, concrete dispatchers for
  the hypotheses of this theory and of \<open>DispatcherProps\<close>.
\<close>

section \<open>Dispatching after the stop\<close>

text \<open>A goroutine that was born with its context done, and what that means at every later place.\<close>

definition doomed :: "Goroutine \<Rightarrow> bool" where
  "doomed g \<longleftrightarrow> g_ctx g \<noteq> None \<and> (g_place g = Calling \<longrightarrow> g_runCtx g \<noteq> None) \<and>
     (\<forall>res. g_place g \<noteq> Returned res None)"

lemma doomed_moves:
  "doomed g \<Longrightarrow> doomed (cancelG e g)" "doomed g \<Longrightarrow> doomed (acquireG r g)"
  "doomed g \<Longrightarrow> g_place g = Calling \<Longrightarrow> doomed (returnG res err g)" "doomed g \<Longrightarrow> doomed (panicG s msg g)"
  "doomed g \<Longrightarrow> doomed (g\<lparr>g_runCtx := (if g_runCtx g = None then Some e else g_runCtx g)\<rparr>)"
  "doomed g \<Longrightarrow> doomed (g\<lparr>g_place := Settled\<rparr>)" "doomed g \<Longrightarrow> doomed (g\<lparr>g_place := Unwinding msg\<rparr>)"
  "doomed g \<Longrightarrow> doomed (g\<lparr>g_slot := b\<rparr>)" "doomed g \<Longrightarrow> doomed (g\<lparr>g_place := Returned res (Some m)\<rparr>)"
  by (auto simp: doomed_def cancelG_def acquireG_def returnG_def panicG_def)

definition doomed_at :: "nat \<Rightarrow> ('w, 'a) Scheduler \<Rightarrow> bool" where
  "doomed_at i s \<longleftrightarrow> i < d_next s \<and> (\<forall>g. map_of (d_live s) i = Some g \<longrightarrow> doomed g)"

lemma doomed_at_cong:
  "doomed_at i s \<Longrightarrow> d_live t = d_live s \<Longrightarrow> d_next t = d_next s \<Longrightarrow> doomed_at i t"
  by (simp add: doomed_at_def)

lemma doomed_at_setG:
  assumes "doomed_at i s" "i = j \<Longrightarrow> doomed h" "d_live u = d_live s" "d_next u = d_next s"
  shows "doomed_at i (setG j h u)" "doomed_at i ((setG j h u)\<lparr>d_busy := n\<rparr>)"
  using assms by (auto simp: doomed_at_def update_conv)

lemma doomed_at_dispatch: "doomed_at i s \<Longrightarrow> doomed_at i (dispatch c run s)"
  by (auto simp: doomed_at_def dispatch_def startActive_def Let_def split: option.splits)

lemma doomed_registry: "doomed_at i s \<Longrightarrow> registryStep sv x s = Some t \<Longrightarrow> doomed_at i t"
proof (cases x)
  case (DDispatch c n)
  moreover assume "doomed_at i s" "registryStep sv x s = Some t"
  ultimately show ?thesis
    by (auto split: if_splits intro!: doomed_at_dispatch intro: doomed_at_cong)
qed (auto simp: selected_def registerWaiter_def cancelWaiter_def Scheduler_Stop_def
    split: if_splits prod.splits sum.splits elim!: doomed_at_cong)

lemma doomed_goroutine:
  assumes i: "doomed_at i s" and g: "map_of (d_live s) j = Some g" and st: "goroutineStep sv x j g s = Some t"
  shows "doomed_at i t"
proof -
  have d: "i = j \<Longrightarrow> doomed g" using i g by (simp add: doomed_at_def)
  show ?thesis
  proof (cases x)
    case (DFinish k)
    with st have t: "d_live t = AList.delete j (d_live s)" "d_next t = d_next s" by (auto split: if_splits)
    with i show ?thesis by (auto simp: doomed_at_def AList.delete_conv split: if_splits)
  next
    case (DDeadline k)
    define h where "h = g\<lparr>g_runCtx := (if g_runCtx g = None then Some DeadlineExceeded else g_runCtx g)\<rparr>"
    from DDeadline st have "t = setG j h s" by (auto simp: h_def split: if_splits)
    moreover have "i = j \<Longrightarrow> doomed h" using d by (auto simp: h_def doomed_def)
    ultimately show ?thesis by (simp add: doomed_at_setG [OF i])
  qed (use st in \<open>auto split: if_splits place.splits intro!: doomed_at_setG [OF i] intro: doomed_moves d\<close>)
qed

lemma doomed_steps: "doomed_at i s \<Longrightarrow> dsteps sv xs s = Some t \<Longrightarrow> doomed_at i t"
proof (induction xs arbitrary: s)
  case (Cons x xs)
  from Cons.prems(2) obtain u where u: "dstep sv x s = Some u" "dsteps sv xs u = Some t"
    by (auto split: option.splits)
  with Cons.prems(1) have "doomed_at i u"
    by (auto simp: dstep_def split: option.splits intro: doomed_registry doomed_goroutine)
  with Cons.IH u(2) show ?case by blast
qed simp

text \<open>
  A run dispatched after \<open>Stop\<close> is never recorded as a success: whatever happens later, and even
  when its runner is called and reports success, its goroutine has an error to record.
\<close>

theorem stopped_dispatch_never_succeeds:
  assumes "NewScheduler cfg sink = Inr s0" and "dsteps sv ws s0 = Some s" and "d_stopped s"
    and "dsteps sv (DDispatch c n # xs) s = Some t" and "map_of (d_live t) (d_next s) = Some g"
  shows "g_place g \<noteq> Returned res None"
proof -
  from assms have "live_ok s" by (auto simp: disp_ok_def dest: dsteps_ok [OF NewScheduler_ok])
  then have new: "map_of (d_live s) (d_next s) = None" by (auto simp: live_ok_def map_of_eq_None_iff)
  from assms(4) obtain u where u: "dstep sv (DDispatch c n) s = Some u" "dsteps sv xs u = Some t"
    by (auto split: option.splits)
  from u(1) new assms(3) have "doomed_at (d_next s) u"
    by (auto simp: dstep_def doomed_at_def doomed_def dispatch_def dispatchContext_def startActive_def Let_def
        split: if_splits option.splits)
  with doomed_steps u(2) have "doomed_at (d_next s) t" by blast
  with assms(5) show ?thesis by (simp add: doomed_at_def doomed_def)
qed

section \<open>A tick whose save fails\<close>

lemma SelectDue_no_expired:
  assumes "\<not> list_ex (\<lambda>e. expiredRun now (snd e)) (sruns r)"
    and "selectLoop 0 now (sortedJobIDs (sjobs r)) ([], []) r = (b, r2)"
  shows "SelectDue sv None now 0 r = (if snd b = [] then (Inr ([], []), r2)
    else sched_return sv None b (pruneTerminalRuns r2))"
  using assms by (simp add: SelectDue_def reclaimExpiredLeases_def)

text \<open>
  When no lease has expired and the save of a tick fails, the registry is left as after a
  successful tick, with the selected runs running under a lease and the schedules advanced, yet no
  run is dispatched and no decision is audited.
\<close>

theorem failed_tick_orphans_runs:
  assumes "\<not> list_ex (\<lambda>e. expiredRun now (snd e)) (sruns (d_reg s))"
    and "SelectDue (\<lambda>_ _ w. (None, w)) None now 0 (d_reg s) = (Inr (runs, d # ds), r)"
    and "\<And>st w. fst (sv None st w) = Some e"
    and "Scheduler_Tick sv None now ca ct took s = (res, t)"
  shows "res = Inl e \<and> sr_state (d_reg t) = sr_state r \<and> d_live t = d_live s \<and> d_sink t = d_sink s"
proof -
  obtain b r2 where b: "selectLoop 0 now (sortedJobIDs (sjobs (d_reg s))) ([], []) (d_reg s) = (b, r2)"
    by (metis surj_pair)
  note sel = SelectDue_no_expired [OF assms(1) b]
  from assms(2) have ne: "snd b \<noteq> []" and st: "sr_state r = sr_state (pruneTerminalRuns r2)"
    by (auto simp: sel sched_return_def sched_persist_def split: if_splits)
  obtain w where w: "sv None (sr_state (pruneTerminalRuns r2)) (sr_store (pruneTerminalRuns r2)) = (Some e, w)"
    using assms(3) by (metis prod.collapse)
  from assms(4) ne show ?thesis
    by (auto simp: Scheduler_Tick_def sel sched_return_def sched_persist_def w st)
qed

section \<open>A run that outlives its lease\<close>

text \<open>A job that runs one at a time, for up to ten minutes, under leases of one minute.\<close>

definition slow_def :: Definition where
  "slow_def = (sample_def ''slow'' ScheduleOnDemand)\<lparr>Def_MaxConcurrency := 1, Def_Timeout := 10 * nsPerMinute\<rparr>"

definition sample_cfg :: "(State, Decision list) SchedulerConfig" where
  "sample_cfg = \<lparr>Cfg_Registry = Some sample_base, Cfg_Runner = True,
     Cfg_AuditSink = Some (\<lambda>c d log. (None, log @ [d])), Cfg_MaxWorkers = 2, Cfg_RootDone = False,
     Cfg_CompletionTimeout = 0, Cfg_Redactor = None, Cfg_Logger = True\<rparr>"

definition sample_dispatcher :: "(State, Decision list) Scheduler" where
  "sample_dispatcher = (case NewScheduler sample_cfg [] of Inr s \<Rightarrow> s)"

definition overrun_ops :: "dstep_op list" where
  "overrun_ops = [DManage (SImport None noon slow_def), DNow None noon ''slow'', DDispatch None 0, DAcquire 0,
     DNow None (noon + nsPerMinute) ''slow'', DDispatch None 0, DAcquire 1]"

definition late_ops :: "dstep_op list" where
  "late_ops = overrun_ops @ [DReturn 0 no_result None, DComplete 0 (noon + 2 * nsPerMinute) False]"

text \<open>What the theorem reads of a dispatcher.\<close>

definition places :: "('w, 'a) Scheduler \<Rightarrow> (string \<times> place) list" where
  "places s = map (\<lambda>e. (Run_JobID (g_run (snd e)), g_place (snd e))) (d_live s)"

definition outcomes :: "('w, 'a) Scheduler \<Rightarrow> RunStatus list" where
  "outcomes s = map (\<lambda>e. Run_Status (snd e)) (sruns (d_reg s))"

definition limits :: "('w, 'a) Scheduler \<Rightarrow> int list" where
  "limits s = map (\<lambda>e. Def_MaxConcurrency (SJ_Definition (snd e))) (sjobs (d_reg s))"

text \<open>
  A lease is not renewed while its run is in the runner. A trigger after the lease time therefore
  starts a second runner of a job whose concurrency is limited to one, and the result of the first,
  returned before its own timeout, is refused by the registry.
\<close>

theorem overrunning_job_overlaps:
  "map_option (\<lambda>s. (limits s, places s, outcomes s)) (dsteps MemoryStore_Save overrun_ops sample_dispatcher) =
     Some ([1], [(''slow'', Calling), (''slow'', Calling)], [RunStatusInterrupted, RunStatusRunning]) \<and>
   map_option (\<lambda>s. (places s, outcomes s, map snd (d_log s)))
       (dsteps MemoryStore_Save late_ops sample_dispatcher) =
     Some ([(''slow'', Settled), (''slow'', Calling)], [RunStatusInterrupted, RunStatusRunning], [SErrInvalidState])"
  by (intro conjI; code_simp)

section \<open>Witnesses\<close>

lemma sample_new: "NewScheduler sample_cfg [] = Inr sample_dispatcher"
  by (simp add: sample_dispatcher_def NewScheduler_def sample_cfg_def)

lemma overrun_places:
  "map_option (\<lambda>s. (places s, d_waiters s)) (dsteps MemoryStore_Save (overrun_ops @ [DWait]) sample_dispatcher) =
    Some ([(''slow'', Calling), (''slow'', Calling)], [0])"
  by code_simp

theorem dispatcher_accounting_witness:
  "\<exists>s. dsteps MemoryStore_Save (overrun_ops @ [DWait]) sample_dispatcher = Some s \<and> d_active s = 2"
proof -
  from overrun_places obtain s where s: "dsteps MemoryStore_Save (overrun_ops @ [DWait]) sample_dispatcher = Some s"
    "places s = [(''slow'', Calling), (''slow'', Calling)]" by auto
  from s(2) have "length (d_live s) = 2" by (simp add: places_def flip: length_map [of "\<lambda>e. (Run_JobID (g_run (snd e)), g_place (snd e))"])
  with dispatcher_accounting [OF sample_new s(1)] s(1) show ?thesis by auto
qed

theorem dispatcher_can_drain_witness:
  "\<exists>s ys t. dsteps MemoryStore_Save (overrun_ops @ [DWait]) sample_dispatcher = Some s \<and>
     dsteps MemoryStore_Save ys s = Some t \<and> d_live t = [] \<and> 0 \<in> set (d_woken t)"
proof -
  from overrun_places obtain s where s: "dsteps MemoryStore_Save (overrun_ops @ [DWait]) sample_dispatcher = Some s"
    "d_waiters s = [0]" by auto
  from dispatcher_can_drain [OF sample_new s(1)] s show ?thesis by auto
qed

definition stopped_ops :: "dstep_op list" where
  "stopped_ops = [DManage (SImport None noon slow_def), DNow None noon ''slow'', DStop]"

definition stopped_more :: "dstep_op list" where
  "stopped_more = [DDispatch None 0, DAcquire 0, DReturn 0 no_result None]"

lemma stopped_places:
  "map_option (\<lambda>s. (d_stopped s, d_next s)) (dsteps MemoryStore_Save stopped_ops sample_dispatcher) = Some (True, 0)"
  "map_option places (dsteps MemoryStore_Save (stopped_ops @ [DDispatch None 0, DAcquire 0]) sample_dispatcher) =
    Some [(''slow'', Calling)]"
  "map_option (\<lambda>t. map fst (d_live t)) (dsteps MemoryStore_Save (stopped_ops @ stopped_more) sample_dispatcher) =
    Some [0]"
  by code_simp+

theorem stopped_dispatch_never_succeeds_witness:
  "\<exists>s t g. dsteps MemoryStore_Save stopped_ops sample_dispatcher = Some s \<and>
     dsteps MemoryStore_Save stopped_more s = Some t \<and> map_of (d_live t) 0 = Some g \<and> g_place g \<noteq> Returned no_result None"
proof -
  have split: "dsteps MemoryStore_Save (xs @ ys) u = Option.bind (dsteps MemoryStore_Save xs u) (dsteps MemoryStore_Save ys)"
    for xs ys and u :: "(State, Decision list) Scheduler"
    by (induction xs arbitrary: u) (auto split: option.split)
  from stopped_places(1) obtain s where s: "dsteps MemoryStore_Save stopped_ops sample_dispatcher = Some s"
    "d_stopped s" "d_next s = 0" by auto
  from stopped_places(3) s(1) have "map_option (\<lambda>t. map fst (d_live t)) (dsteps MemoryStore_Save stopped_more s) = Some [0]"
    by (simp only: split bind.bind_lunit)
  then obtain t where t: "dsteps MemoryStore_Save stopped_more s = Some t" "map fst (d_live t) = [0]" by auto
  from t(2) obtain g where g: "map_of (d_live t) 0 = Some g" by (cases "d_live t") auto
  from g s(3) have "map_of (d_live t) (d_next s) = Some g" by simp
  with stopped_dispatch_never_succeeds [OF sample_new s(1,2), of None 0 "tl stopped_more" t g no_result] t(1)
  have "g_place g \<noteq> Returned no_result None" by (simp only: stopped_more_def list.sel simp_thms)
  with s(1) t(1) g show ?thesis by blast
qed

definition tick_dispatcher :: "(State, Decision list) Scheduler" where
  "tick_dispatcher = sample_dispatcher\<lparr>d_reg := sample_after two_jobs\<rparr>"

lemma tick_facts:
  "\<not> list_ex (\<lambda>e. expiredRun (noon + nsPerMinute) (snd e)) (sruns (d_reg tick_dispatcher))"
  "(case SelectDue (\<lambda>_ _ w. (None, w)) None (noon + nsPerMinute) 0 (d_reg tick_dispatcher) of
      (Inr (runs, ds), r) \<Rightarrow> (map Dec_Outcome ds, map (\<lambda>e. Run_Status (snd e)) (sruns r)) | _ \<Rightarrow> ([], [])) =
    ([OutcomeStarted], [RunStatusRunning])"
  by code_simp+

theorem failed_tick_orphans_runs_witness:
  "\<exists>res t. Scheduler_Tick (\<lambda>_ _ w. (Some (SErrIO ''sync''), w)) None (noon + nsPerMinute) None None 0 tick_dispatcher = (res, t) \<and>
     d_live t = [] \<and> d_sink t = [] \<and> outcomes t = [RunStatusRunning]"
proof -
  obtain q r where q: "SelectDue (\<lambda>_ _ w. (None, w)) None (noon + nsPerMinute) 0 (d_reg tick_dispatcher) = (q, r)"
    by (metis surj_pair)
  with tick_facts(2) obtain runs d ds where sel: "SelectDue (\<lambda>_ _ w. (None, w)) None (noon + nsPerMinute) 0
      (d_reg tick_dispatcher) = (Inr (runs, d # ds), r)" "map (\<lambda>e. Run_Status (snd e)) (sruns r) = [RunStatusRunning]"
    by (cases q) (auto split: prod.splits)
  obtain res t where t: "Scheduler_Tick (\<lambda>_ _ w. (Some (SErrIO ''sync''), w)) None (noon + nsPerMinute) None None 0
      tick_dispatcher = (res, t)" by (metis surj_pair)
  from failed_tick_orphans_runs [OF tick_facts(1) sel(1) _ t] sel(2) t show ?thesis
    by (auto simp: outcomes_def tick_dispatcher_def sample_dispatcher_def NewScheduler_def sample_cfg_def)
qed

end
