(* ===== verification/GoDuration.thy ===== *)
theory GoDuration
  imports GoStrings
begin

text \<open>
  Durations as text: \<open>time.ParseDuration\<close> and \<open>Duration.String\<close>, and the trimming and extension
  functions the definition files need. The value of a decimal fraction goes through floating
  point in Go; it is the argument \<open>frac\<close>, from the digits read, their number and the unit to nanoseconds.
\<close>

section \<open>Trimming and extensions\<close>

definition Trim :: "char list \<Rightarrow> string \<Rightarrow> string" where
  "Trim cutset s = rev (dropWhile (\<lambda>c. c \<in> set cutset) (rev (dropWhile (\<lambda>c. c \<in> set cutset) s)))"

definition TrimPrefix :: "string \<Rightarrow> string \<Rightarrow> string" where
  "TrimPrefix s p = (case CutPrefix s p of None \<Rightarrow> s | Some t \<Rightarrow> t)"

definition Ext :: "string \<Rightarrow> string" where
  "Ext path = (let base = rev (takeWhile (\<lambda>c. c \<noteq> CHR ''/'') (rev path));
                   suffix = rev (takeWhile (\<lambda>c. c \<noteq> CHR ''.'') (rev base))
               in if CHR ''.'' \<in> set base then CHR ''.'' # suffix else [])"

lemma Trim_outside:
  assumes "s \<noteq> [] \<Longrightarrow> hd s \<notin> set cutset \<and> last s \<notin> set cutset"
  shows "Trim cutset s = s"
proof (cases "s = []")
  case False
  have stop: "t \<noteq> [] \<Longrightarrow> hd t \<notin> set cutset \<Longrightarrow> dropWhile (\<lambda>c. c \<in> set cutset) t = t" for t
    by (cases t) auto
  from False assms stop [of s] stop [of "rev s"] show ?thesis by (simp add: Trim_def hd_rev)
qed (simp add: Trim_def)

section \<open>Parsing\<close>

definition durationUnits :: "(string \<times> int) list" where
  "durationUnits = [(''ns'', 1), (''us'', 1000), ([CHR 0xC2, CHR 0xB5, CHR ''s''], 1000),
     ([CHR 0xCE, CHR 0xBC, CHR ''s''], 1000), (''ms'', 1000000), (''s'', 1000000000),
     (''m'', 60000000000), (''h'', 3600000000000)]"

text \<open>The whole part of a segment: at most 2 ^ 63.\<close>

definition leadingInt :: "string \<Rightarrow> (int \<times> string) option" where
  "leadingInt s = (let v = digits_val (takeWhile is_digit s)
     in if v > 2 ^ 63 then None else Some (v, dropWhile is_digit s))"

text \<open>The digits of a fraction, as long as they fit; the rest is skipped.\<close>

definition fractionStep :: "int \<times> nat \<times> bool \<Rightarrow> char \<Rightarrow> int \<times> nat \<times> bool" where
  "fractionStep st c = (case st of (f, k, over) \<Rightarrow>
     if over then st
     else if f > (2 ^ 63 - 1) div 10 then (f, k, True)
     else let y = f * 10 + digit_val c in if y > 2 ^ 63 then (f, k, True) else (y, k + 1, False))"

definition leadingFraction :: "string \<Rightarrow> (int \<times> nat) \<times> string" where
  "leadingFraction s = (case foldl fractionStep (0, 0, False) (takeWhile is_digit s) of
     (f, k, _) \<Rightarrow> ((f, k), dropWhile is_digit s))"

definition unitChar :: "char \<Rightarrow> bool" where
  "unitChar c \<longleftrightarrow> c \<noteq> CHR ''.'' \<and> \<not> is_digit c"

text \<open>The value of a number and its unit.\<close>

definition segmentValue :: "(int \<Rightarrow> nat \<Rightarrow> int \<Rightarrow> int) \<Rightarrow> int \<Rightarrow> int \<times> nat \<Rightarrow> int \<Rightarrow> int option" where
  "segmentValue frac v fk u =
     (if v > 2 ^ 63 div u then None
      else let w = v * u + (if fst fk > 0 then frac (fst fk) (snd fk) u else 0)
           in if fst fk > 0 \<and> w > 2 ^ 63 then None else Some w)"

definition durationSegment :: "(int \<Rightarrow> nat \<Rightarrow> int \<Rightarrow> int) \<Rightarrow> string \<Rightarrow> (int \<times> string) option" where
  "durationSegment frac s =
     (if s = [] \<or> \<not> (hd s = CHR ''.'' \<or> is_digit (hd s)) then None
      else case leadingInt s of None \<Rightarrow> None
      | Some (v, s1) \<Rightarrow>
          let pre = (length s1 \<noteq> length s);
              dotted = (s1 \<noteq> [] \<and> hd s1 = CHR ''.'');
              (fk, s2) = (if dotted then leadingFraction (tl s1) else ((0, 0), s1));
              post = (dotted \<and> length s2 \<noteq> length (tl s1))
          in if \<not> pre \<and> \<not> post then None
             else case map_of durationUnits (takeWhile unitChar s2) of None \<Rightarrow> None
             | Some u \<Rightarrow> map_option (\<lambda>w. (w, dropWhile unitChar s2)) (segmentValue frac v fk u))"

lemma segment_shorter: "durationSegment frac s = Some (w, rest) \<Longrightarrow> length rest < length s"
proof -
  assume s: "durationSegment frac s = Some (w, rest)"
  have "map_of durationUnits [] = None" by (simp add: durationUnits_def)
  then have shorter: "map_of durationUnits (takeWhile unitChar t) = Some u \<Longrightarrow> length (dropWhile unitChar t) < length t" for t u
    by (cases t) (auto simp: le_imp_less_Suc length_dropWhile_le split: if_splits)
  have frac: "leadingFraction t = (fk, t') \<Longrightarrow> length t' \<le> length t" for t fk t'
    by (auto simp: leadingFraction_def length_dropWhile_le split: prod.splits)
  have int: "leadingInt s = Some (v, t) \<Longrightarrow> length t \<le> length s" for v t
    by (auto simp: leadingInt_def Let_def length_dropWhile_le split: if_splits)
  from s show ?thesis
    by (auto simp: durationSegment_def Let_def split: if_splits option.splits prod.splits
        dest!: shorter frac int)
qed

function durationSegments :: "(int \<Rightarrow> nat \<Rightarrow> int \<Rightarrow> int) \<Rightarrow> string \<Rightarrow> int \<Rightarrow> int option" where
  "durationSegments frac s d =
     (if s = [] then Some d
      else case durationSegment frac s of None \<Rightarrow> None
      | Some (v, rest) \<Rightarrow> if d + v > 2 ^ 63 then None else durationSegments frac rest (d + v))"
  by pat_completeness auto
termination by (relation "measure (\<lambda>(_, s, _). length s)") (auto dest: segment_shorter)

declare durationSegments.simps [simp del]

definition ParseDuration :: "(int \<Rightarrow> nat \<Rightarrow> int \<Rightarrow> int) \<Rightarrow> string \<Rightarrow> duration option" where
  "ParseDuration frac raw =
     (let signed = (raw \<noteq> [] \<and> (hd raw = CHR ''-'' \<or> hd raw = CHR ''+''));
          neg = (signed \<and> hd raw = CHR ''-'');
          s = (if signed then tl raw else raw)
      in if s = ''0'' then Some 0
         else if s = [] then None
         else case durationSegments frac s 0 of None \<Rightarrow> None
         | Some d \<Rightarrow> if neg then Some (wrap64 (- d)) else if d > 2 ^ 63 - 1 then None else Some d)"

section \<open>Printing\<close>

definition fracPart :: "nat \<Rightarrow> nat \<Rightarrow> string" where
  "fracPart v prec = (let ds = rev (dropWhile (\<lambda>c. c = CHR ''0'') (rev (pad_dec prec (v mod 10 ^ prec))))
     in if v mod 10 ^ prec = 0 then [] else CHR ''.'' # ds)"

definition Duration_String :: "duration \<Rightarrow> string" where
  "Duration_String d =
     (let u = nat \<bar>d\<bar>;
          body = (if u = 0 then ''0s''
            else if u < 1000 then dec_digits u @ ''ns''
            else if u < 1000000 then dec_digits (u div 1000) @ fracPart u 3 @ [CHR 0xC2, CHR 0xB5, CHR ''s'']
            else if u < 1000000000 then dec_digits (u div 1000000) @ fracPart u 6 @ ''ms''
            else let t = u div 1000000000;
                     secs = dec_digits (t mod 60) @ fracPart u 9 @ ''s'';
                     mins = t div 60
                 in if mins = 0 then secs
                    else let ms = dec_digits (mins mod 60) @ ''m'' @ secs; hours = mins div 60
                         in if hours = 0 then ms else dec_digits hours @ ''h'' @ ms)
      in if d < 0 then CHR ''-'' # body else body)"

section \<open>One unit, printed and parsed\<close>

lemma digits_split:
  "unitChar u \<Longrightarrow> takeWhile is_digit (dec_digits n @ u # us) = dec_digits n"
  "unitChar u \<Longrightarrow> dropWhile is_digit (dec_digits n @ u # us) = u # us"
  using dec_digits_all [of n] by (auto simp: unitChar_def list_all_iff)

lemma ParseDuration_one:
  assumes u: "map_of durationUnits u = Some k" "u \<noteq> []" "list_all unitChar u"
    and n: "0 < n" "int n * k < 2 ^ 63"
  shows "ParseDuration frac (dec_digits n @ u) = Some (int n * k)"
proof -
  obtain c cs where c: "u = c # cs" using u(2) by (cases u) auto
  with u(3) have uc: "unitChar c" by simp
  have k: "k \<in> {1, 1000, 1000000, 1000000000, 60000000000, 3600000000000}"
    using map_of_SomeD [OF u(1)] by (auto simp: durationUnits_def)
  then have k0: "0 < k" by auto
  have lim: "int n * k \<le> 2 ^ 63" using n(2) by simp
  from zdiv_mono1 [OF this k0] k0 have "int n \<le> 2 ^ 63 div k" by simp
  moreover have "int n \<le> int n * k" using k0 by (simp add: mult_le_cancel_left1)
  ultimately have v: "int n \<le> 2 ^ 63" "\<not> int n > 2 ^ 63 div k" using lim by linarith+
  obtain d ds where d: "dec_digits n = d # ds" by (cases "dec_digits n") auto
  with dec_digits_all [of n] have dig: "is_digit d" by simp
  have "leadingInt (dec_digits n @ u) = Some (int n, u)"
    using v by (simp add: leadingInt_def c digits_split [OF uc] digits_val_dec_digits Let_def)
  moreover have all: "takeWhile unitChar cs = cs" "dropWhile unitChar cs = []"
    and dot: "c \<noteq> CHR ''.''"
    using u(3) by (auto simp: c list_all_iff takeWhile_eq_all_conv unitChar_def)
  ultimately have seg: "durationSegment frac (dec_digits n @ u) = Some (int n * k, [])"
    using u(1) uc dig v by (simp add: durationSegment_def d c Let_def segmentValue_def all dot)
  have "d \<noteq> CHR ''-''" "d \<noteq> CHR ''+''" using dig by (auto simp: is_digit_def)
  moreover have "dec_digits n @ u \<noteq> ''0''" using c d by auto
  moreover have "durationSegments frac (dec_digits n @ u) 0 = Some (int n * k)"
    using n by (subst durationSegments.simps) (simp add: seg durationSegments.simps)
  ultimately show ?thesis using n by (simp add: ParseDuration_def d c Let_def)
qed

end
