(* ===== verification/DefFiles.thy ===== *)
theory DefFiles
  imports SchedRegistry GoDuration
begin

text \<open>
  Package \<open>scheduler\<close>, \<open>definitions.go\<close>, and \<open>pruneOrphanTmpFiles\<close> of \<open>store.go\<close>: job definitions
  on disk. A definition file is JSON, or lines of keys and values in the small part of YAML that
  the package reads; schedules, repeats and durations are text in it.

  The text of JSON documents is written and read by two functions \<open>enc\<close> and \<open>dec\<close>, as
  \<open>encoding/json\<close> does between a \<open>DefinitionDisk\<close> and bytes. The directory is a list of entries in
  name order, which is the order \<open>os.ReadDir\<close> gives.
\<close>

section \<open>Enumerations, durations, repeats and schedules as text\<close>

definition JobKind_of :: "string \<Rightarrow> JobKind" where
  "JobKind_of s = (if s = ''deterministic'' then KindDeterministic else if s = ''gated_agent'' then KindGatedAgent
     else if s = ''orchestrator_chat'' then KindOrchestratorChat
     else if s = ''external_webhook'' then KindExternalWebhook else KindOther s)"

definition MisfirePolicy_of :: "string \<Rightarrow> MisfirePolicy" where
  "MisfirePolicy_of s = (if s = ''skip'' then MisfireSkip else if s = ''run_once'' then MisfireRunOnce
     else if s = ''catch_up_bounded'' then MisfireCatchUpBounded else MisfireOther s)"

definition RetryPolicy_of :: "string \<Rightarrow> RetryPolicy" where
  "RetryPolicy_of s = (if s = ''none'' then RetryNone else if s = ''fixed'' then RetryFixed
     else if s = ''exponential'' then RetryExponential else RetryOther s)"

type_synonym fraction_fn = "int \<Rightarrow> nat \<Rightarrow> int \<Rightarrow> int"

definition nsPerHour :: int where
  "nsPerHour = 3600000000000"

text \<open>Days are counted with \<open>int\<close> and multiplied in 64 bits.\<close>

definition parseDuration :: "fraction_fn \<Rightarrow> string \<Rightarrow> sched_err + duration" where
  "parseDuration frac raw0 =
     (let raw = TrimSpace raw0 in
      if HasSuffix raw ''d'' then
        (case Atoi (TrimSuffix raw ''d'') of
           Some n \<Rightarrow> if n \<le> 0 then Inl SErrInvalidDefinition else Inr (wrap64 (wrap64 (n * 24) * nsPerHour))
         | None \<Rightarrow> Inl SErrInvalidDefinition)
      else case ParseDuration frac raw of
         Some d \<Rightarrow> if d \<le> 0 then Inl SErrInvalidDefinition else Inr d
       | None \<Rightarrow> Inl SErrInvalidDefinition)"

definition parseOptionalDuration :: "fraction_fn \<Rightarrow> string \<Rightarrow> sched_err + duration" where
  "parseOptionalDuration frac raw = (if TrimSpace raw = [] then Inr 0 else parseDuration frac raw)"

definition fmtSigned :: "int \<Rightarrow> string" where
  "fmtSigned n = (if n < 0 then CHR ''-'' # dec_digits (nat \<bar>n\<bar>) else dec_digits (nat n))"

definition durationString :: "duration \<Rightarrow> string" where
  "durationString d =
     (if d = 0 then []
      else if d mod nsPerDay = 0 then fmtSigned (d div nsPerDay) @ ''d''
      else if d mod nsPerHour = 0 then fmtSigned (d div nsPerHour) @ ''h''
      else if d mod nsPerMinute = 0 then fmtSigned (d div nsPerMinute) @ ''m''
      else if d mod nsPerSecond = 0 then fmtSigned (d div nsPerSecond) @ ''s''
      else Duration_String d)"

definition RepeatCount :: "int \<Rightarrow> Repeat" where
  "RepeatCount n = \<lparr>Rep_Forever = False, Rep_Limit = n\<rparr>"

definition parseRepeat :: "string \<Rightarrow> sched_err + Repeat" where
  "parseRepeat raw0 =
     (let raw = TrimSpace raw0 in
      if raw = [] \<or> raw = ''forever'' then Inr RepeatForever
      else case Atoi raw of None \<Rightarrow> Inl SErrInvalidDefinition
        | Some n \<Rightarrow> if n < 0 then Inl SErrInvalidDefinition else Inr (RepeatCount n))"

definition repeatString :: "Repeat \<Rightarrow> string" where
  "repeatString r = (if Rep_Forever r \<or> Rep_Limit r = 0 then ''forever'' else fmtSigned (Rep_Limit r))"

definition newSchedule :: "ScheduleType \<Rightarrow> Schedule" where
  "newSchedule ty = \<lparr>Sch_Type = ty, Sch_Cron = [], Sch_Interval = 0, Sch_Event = []\<rparr>"

definition ParseSchedule :: "fraction_fn \<Rightarrow> string \<Rightarrow> sched_err + Schedule" where
  "ParseSchedule frac raw0 =
     (let raw = TrimSpace raw0 in
      if raw = [] \<or> raw = ''on demand'' \<or> raw = ''on_demand'' then Inr (newSchedule ScheduleOnDemand)
      else case CutPrefix raw ''every '' of
        Some rest \<Rightarrow> (case parseDuration frac rest of Inl e \<Rightarrow> Inl e
          | Inr d \<Rightarrow> Inr ((newSchedule ScheduleInterval)\<lparr>Sch_Interval := d\<rparr>))
      | None \<Rightarrow> (case CutPrefix raw ''on event:'' of
          Some rest \<Rightarrow> let event = TrimSpace rest in
            if event = [] then Inl SErrInvalidDefinition
            else Inr ((newSchedule ScheduleEvent)\<lparr>Sch_Event := event\<rparr>)
        | None \<Rightarrow> (case parsedCron raw of Inl e \<Rightarrow> Inl e
            | Inr _ \<Rightarrow> Inr ((newSchedule ScheduleCron)\<lparr>Sch_Cron := raw\<rparr>))))"

definition Schedule_String :: "Schedule \<Rightarrow> string" where
  "Schedule_String s = (case Sch_Type s of
      ScheduleInterval \<Rightarrow> ''every '' @ durationString (Sch_Interval s)
    | ScheduleEvent \<Rightarrow> ''on event: '' @ Sch_Event s
    | ScheduleOnDemand \<Rightarrow> ''on demand''
    | ScheduleCron \<Rightarrow> Sch_Cron s
    | ScheduleOther _ \<Rightarrow> [])"

section \<open>The document\<close>

record DefinitionDisk =
  Disk_ID :: string
  Disk_Name :: string
  Disk_Kind :: JobKind
  Disk_Version :: int
  Disk_Schedule :: string
  Disk_ProjectScope :: string
  Disk_EnabledToolsets :: "string list"
  Disk_CapabilitiesRequired :: "string list"
  Disk_CapabilitiesOptional :: "string list"
  Disk_Script :: string
  Disk_Skills :: "string list"
  Disk_Prompt :: string
  Disk_Deliver :: string
  Disk_Repeat :: string
  Disk_Paused :: bool
  Disk_Timeout :: string
  Disk_MaxConcurrency :: int
  Disk_MisfirePolicy :: MisfirePolicy
  Disk_RetryPolicy :: RetryPolicy
  Disk_DeadLetterAfter :: int
  Disk_AuditAlways :: "bool option"
  Disk_Extra :: "(string \<times> string) list"

definition emptyDisk :: DefinitionDisk where
  "emptyDisk = \<lparr>Disk_ID = [], Disk_Name = [], Disk_Kind = KindOther [], Disk_Version = 0, Disk_Schedule = [],
     Disk_ProjectScope = [], Disk_EnabledToolsets = [], Disk_CapabilitiesRequired = [],
     Disk_CapabilitiesOptional = [], Disk_Script = [], Disk_Skills = [], Disk_Prompt = [], Disk_Deliver = [],
     Disk_Repeat = [], Disk_Paused = False, Disk_Timeout = [], Disk_MaxConcurrency = 0,
     Disk_MisfirePolicy = MisfireOther [], Disk_RetryPolicy = RetryOther [], Disk_DeadLetterAfter = 0,
     Disk_AuditAlways = None, Disk_Extra = []\<rparr>"

definition toDefinition :: "fraction_fn \<Rightarrow> DefinitionDisk \<Rightarrow> sched_err + Definition" where
  "toDefinition frac d =
     (case parseOptionalDuration frac (Disk_Timeout d) of Inl e \<Rightarrow> Inl e | Inr timeout \<Rightarrow>
      case parseRepeat (Disk_Repeat d) of Inl e \<Rightarrow> Inl e | Inr repeat \<Rightarrow>
      case ParseSchedule frac (Disk_Schedule d) of Inl e \<Rightarrow> Inl e | Inr schedule \<Rightarrow>
      let def0 = Definition_normalized \<lparr>Def_ID = Disk_ID d, Def_Name = Disk_Name d, Def_Kind = Disk_Kind d,
            Def_Version = Disk_Version d, Def_Revision = 0, Def_Schedule = schedule,
            Def_ProjectScope = Disk_ProjectScope d, Def_EnabledToolsets = Disk_EnabledToolsets d,
            Def_CapabilitiesRequired = Disk_CapabilitiesRequired d,
            Def_CapabilitiesOptional = Disk_CapabilitiesOptional d, Def_Script = Disk_Script d,
            Def_Skills = Disk_Skills d, Def_Prompt = Disk_Prompt d, Def_Deliver = Disk_Deliver d,
            Def_Repeat = repeat, Def_Paused = Disk_Paused d, Def_Timeout = timeout,
            Def_MaxConcurrency = Disk_MaxConcurrency d, Def_MisfirePolicy = Disk_MisfirePolicy d,
            Def_RetryPolicy = Disk_RetryPolicy d, Def_DeadLetterAfter = Disk_DeadLetterAfter d,
            Def_AuditAlways = False, Def_MisfireGrace = 0\<rparr>;
          def1 = (case Disk_AuditAlways d of None \<Rightarrow> def0 | Some b \<Rightarrow> def0\<lparr>Def_AuditAlways := b\<rparr>)
      in case Definition_Validate def1 of Some e \<Rightarrow> Inl e | None \<Rightarrow> Inr def1)"

text \<open>What \<open>WriteDefinitionFile\<close> puts into the document.\<close>

definition diskOf :: "Definition \<Rightarrow> DefinitionDisk" where
  "diskOf d = \<lparr>Disk_ID = Def_ID d, Disk_Name = Def_Name d, Disk_Kind = Def_Kind d,
     Disk_Version = Def_Version d, Disk_Schedule = Schedule_String (Def_Schedule d),
     Disk_ProjectScope = Def_ProjectScope d, Disk_EnabledToolsets = Def_EnabledToolsets d,
     Disk_CapabilitiesRequired = Def_CapabilitiesRequired d,
     Disk_CapabilitiesOptional = Def_CapabilitiesOptional d, Disk_Script = Def_Script d,
     Disk_Skills = Def_Skills d, Disk_Prompt = Def_Prompt d, Disk_Deliver = Def_Deliver d,
     Disk_Repeat = repeatString (Def_Repeat d), Disk_Paused = Def_Paused d,
     Disk_Timeout = durationString (Def_Timeout d), Disk_MaxConcurrency = Def_MaxConcurrency d,
     Disk_MisfirePolicy = Def_MisfirePolicy d, Disk_RetryPolicy = Def_RetryPolicy d,
     Disk_DeadLetterAfter = Def_DeadLetterAfter d, Disk_AuditAlways = None, Disk_Extra = []\<rparr>"

section \<open>The YAML lines\<close>

abbreviation quotes :: "char list" where
  "quotes \<equiv> [CHR ''\"'', CHR 0x27]"

definition parseFlowList :: "string \<Rightarrow> string list" where
  "parseFlowList raw0 =
     (let raw = TrimSuffix (TrimPrefix (TrimSpace raw0) ''['') '']'' in
      if TrimSpace raw = [] then []
      else filter (\<lambda>p. p \<noteq> []) (map (\<lambda>p. Trim quotes (TrimSpace p)) (Split raw (CHR '',''))))"

definition yamlInt :: "string \<Rightarrow> (int \<Rightarrow> DefinitionDisk) \<Rightarrow> sched_err + DefinitionDisk" where
  "yamlInt value f = (case Atoi value of None \<Rightarrow> Inl (SErrIO ''atoi'') | Some n \<Rightarrow> Inr (f n))"

definition yamlField :: "string \<Rightarrow> string \<Rightarrow> DefinitionDisk \<Rightarrow> sched_err + DefinitionDisk" where
  "yamlField key value disk =
     (if key = ''id'' then Inr (disk\<lparr>Disk_ID := value\<rparr>)
      else if key = ''name'' then Inr (disk\<lparr>Disk_Name := value\<rparr>)
      else if key = ''kind'' then Inr (disk\<lparr>Disk_Kind := JobKind_of value\<rparr>)
      else if key = ''version'' then yamlInt value (\<lambda>n. disk\<lparr>Disk_Version := n\<rparr>)
      else if key = ''schedule'' then Inr (disk\<lparr>Disk_Schedule := value\<rparr>)
      else if key = ''project_scope'' then Inr (disk\<lparr>Disk_ProjectScope := value\<rparr>)
      else if key = ''enabled_toolsets'' then Inr (disk\<lparr>Disk_EnabledToolsets := parseFlowList value\<rparr>)
      else if key = ''capabilities_required'' then Inr (disk\<lparr>Disk_CapabilitiesRequired := parseFlowList value\<rparr>)
      else if key = ''capabilities_optional'' then Inr (disk\<lparr>Disk_CapabilitiesOptional := parseFlowList value\<rparr>)
      else if key = ''script'' then Inr (disk\<lparr>Disk_Script := value\<rparr>)
      else if key = ''skills'' then Inr (disk\<lparr>Disk_Skills := parseFlowList value\<rparr>)
      else if key = ''prompt'' then Inr (disk\<lparr>Disk_Prompt := value\<rparr>)
      else if key = ''deliver'' then Inr (disk\<lparr>Disk_Deliver := value\<rparr>)
      else if key = ''repeat'' then Inr (disk\<lparr>Disk_Repeat := value\<rparr>)
      else if key = ''paused'' then Inr (disk\<lparr>Disk_Paused := (value = ''true'')\<rparr>)
      else if key = ''timeout'' then Inr (disk\<lparr>Disk_Timeout := value\<rparr>)
      else if key = ''max_concurrency'' then yamlInt value (\<lambda>n. disk\<lparr>Disk_MaxConcurrency := n\<rparr>)
      else if key = ''misfire_policy'' then Inr (disk\<lparr>Disk_MisfirePolicy := MisfirePolicy_of value\<rparr>)
      else if key = ''retry_policy'' then Inr (disk\<lparr>Disk_RetryPolicy := RetryPolicy_of value\<rparr>)
      else if key = ''dead_letter_after'' then yamlInt value (\<lambda>n. disk\<lparr>Disk_DeadLetterAfter := n\<rparr>)
      else if key = ''audit_always'' then Inr (disk\<lparr>Disk_AuditAlways := Some (value = ''true'')\<rparr>)
      else Inr disk)"

fun yamlLines :: "string list \<Rightarrow> DefinitionDisk \<Rightarrow> sched_err + DefinitionDisk" where
  "yamlLines [] disk = Inr disk"
| "yamlLines (raw # ls) disk =
     (let line = TrimSpace raw in
      if line = [] \<or> HasPrefix line ''#'' then yamlLines ls disk
      else case Cut line (CHR '':'') of None \<Rightarrow> Inl SErrInvalidDefinition
      | Some (key, value) \<Rightarrow>
          (case yamlField (TrimSpace key) (Trim quotes (TrimSpace value)) disk of
             Inl e \<Rightarrow> Inl e | Inr disk' \<Rightarrow> yamlLines ls disk'))"

definition parseSimpleYAML :: "string \<Rightarrow> sched_err + DefinitionDisk" where
  "parseSimpleYAML data = yamlLines (Split data (CHR 0x0A)) emptyDisk"

section \<open>Files\<close>

datatype def_fault = DMkdirFault | DOpenFault | DWriteFault | DSyncFault | DCloseFault | DRenameFault
  | DDirOpenFault

record def_entry =
  de_dir :: bool
  de_data :: string
  de_readFault :: bool
  de_stuck :: bool
  de_mtime :: time

record def_dir =
  dd_path :: string
  dd_exists :: bool
  dd_listFault :: bool
  dd_entries :: "(string \<times> def_entry) list"
  dd_faults :: "def_fault option list"

definition orphan :: "time \<Rightarrow> string \<times> def_entry \<Rightarrow> bool" where
  "orphan cutoff e \<longleftrightarrow> Contains (fst e) ''.tmp.'' \<and> \<not> de_stuck (snd e) \<and> de_mtime (snd e) < cutoff"

definition pruneOrphanTmpFiles :: "duration \<Rightarrow> time \<Rightarrow> def_dir \<Rightarrow> def_dir" where
  "pruneOrphanTmpFiles minAge now w =
     (if dd_path w = [] \<or> dd_path w = ''.'' \<or> \<not> dd_exists w \<or> dd_listFault w then w
      else w\<lparr>dd_entries := filter (\<lambda>e. \<not> orphan (now - minAge) e) (dd_entries w)\<rparr>)"

definition LoadDefinitionFile ::
  "fraction_fn \<Rightarrow> (string \<Rightarrow> DefinitionDisk option) \<Rightarrow> ctx \<Rightarrow> string \<Rightarrow> def_dir \<Rightarrow> sched_err + Definition" where
  "LoadDefinitionFile frac dec c name w = (case c of Some e \<Rightarrow> Inl (SErrCtx e) | None \<Rightarrow>
     (case map_of (dd_entries w) name of None \<Rightarrow> Inl (SErrIO ''open'')
      | Some f \<Rightarrow>
          if de_dir f \<or> de_readFault f then Inl (SErrIO ''read'')
          else let ext = ToLower (Ext name) in
            if ext = ''.json'' then
              (case dec (de_data f) of None \<Rightarrow> Inl (SErrIO ''json'') | Some disk \<Rightarrow> toDefinition frac disk)
            else if ext = ''.yaml'' \<or> ext = ''.yml'' then
              (case parseSimpleYAML (de_data f) of Inl e \<Rightarrow> Inl e | Inr disk \<Rightarrow> toDefinition frac disk)
            else Inl SErrInvalidDefinition))"

fun loadEntries ::
  "fraction_fn \<Rightarrow> (string \<Rightarrow> DefinitionDisk option) \<Rightarrow> ctx \<Rightarrow> (string \<times> def_entry) list \<Rightarrow> def_dir
     \<Rightarrow> Definition list \<Rightarrow> sched_err + Definition list" where
  "loadEntries frac dec c [] w defs = Inr defs"
| "loadEntries frac dec c (e # es) w defs =
     (let ext = ToLower (Ext (fst e)) in
      if de_dir (snd e) \<or> (ext \<noteq> ''.json'' \<and> ext \<noteq> ''.yaml'' \<and> ext \<noteq> ''.yml'')
      then loadEntries frac dec c es w defs
      else case LoadDefinitionFile frac dec c (fst e) w of Inl x \<Rightarrow> Inl x
        | Inr d \<Rightarrow> loadEntries frac dec c es w (defs @ [d]))"

definition LoadDefinitions ::
  "fraction_fn \<Rightarrow> (string \<Rightarrow> DefinitionDisk option) \<Rightarrow> ctx \<Rightarrow> time \<Rightarrow> def_dir
     \<Rightarrow> (sched_err + Definition list) \<times> def_dir" where
  "LoadDefinitions frac dec c now w = (case c of Some e \<Rightarrow> (Inl (SErrCtx e), w) | None \<Rightarrow>
     let w1 = pruneOrphanTmpFiles nsPerHour now w in
     if \<not> dd_exists w1 then (Inr [], w1)
     else if dd_listFault w1 then (Inl (SErrIO ''readdir''), w1)
     else (loadEntries frac dec c (dd_entries w1) w1 [], w1))"

definition putEntry :: "string \<Rightarrow> def_entry \<Rightarrow> (string \<times> def_entry) list \<Rightarrow> (string \<times> def_entry) list" where
  "putEntry name f es = (if name \<in> set (keys es) then AList.update name f es
     else takeWhile (\<lambda>e. fst e < name) es @ (name, f) # dropWhile (\<lambda>e. fst e < name) es)"

text \<open>
  The temporary file is gone after every outcome: renamed, removed, or never created. A fault
  of the last open leaves the new file in place and reports an error.
\<close>

definition WriteDefinitionFile ::
  "(DefinitionDisk \<Rightarrow> string) \<Rightarrow> ctx \<Rightarrow> time \<Rightarrow> string \<Rightarrow> Definition \<Rightarrow> def_dir \<Rightarrow> sched_err option \<times> def_dir" where
  "WriteDefinitionFile enc c now name d w = (case c of Some e \<Rightarrow> (Some (SErrCtx e), w) | None \<Rightarrow>
     let data = enc (diskOf d) @ [CHR 0x0A];
         fault = (case dd_faults w of [] \<Rightarrow> None | f # _ \<Rightarrow> f);
         w0 = w\<lparr>dd_faults := (case dd_faults w of [] \<Rightarrow> [] | _ # fs \<Rightarrow> fs)\<rparr>;
         w1 = w0\<lparr>dd_exists := True\<rparr>;
         f = \<lparr>de_dir = False, de_data = data, de_readFault = False, de_stuck = False, de_mtime = now\<rparr>;
         w2 = w1\<lparr>dd_entries := putEntry name f (dd_entries w1)\<rparr>
     in case fault of
          None \<Rightarrow> (None, w2)
        | Some DDirOpenFault \<Rightarrow> (Some (SErrIO ''syncdir''), w2)
        | Some DMkdirFault \<Rightarrow> (Some (SErrIO ''mkdir''), w0)
        | Some DOpenFault \<Rightarrow> (Some (SErrIO ''open''), w1)
        | Some DWriteFault \<Rightarrow> (Some (SErrIO ''write''), w1)
        | Some DSyncFault \<Rightarrow> (Some (SErrIO ''sync''), w1)
        | Some DCloseFault \<Rightarrow> (Some (SErrIO ''close''), w1)
        | Some DRenameFault \<Rightarrow> (Some (SErrIO ''rename''), w1))"

end
