(* ===== verification/DefProps.thy ===== *)
theory DefProps
  imports DefFiles
begin

text \<open>
  Definition files: durations, repeats and schedules survive printing and parsing, a definition
  that is written and loaded comes back normalised, and day counts are multiplied without a check.
\<close>

section \<open>Durations and repeats\<close>

lemma digit_plain: "is_digit c \<Longrightarrow> plain_char c"
  by (rule printable_plain) (auto simp: is_digit_def printable_def)

lemma digits_hd: "plain_char (hd (dec_digits n))"
  using dec_digits_all [of n] by (cases "dec_digits n") (auto intro: digit_plain)

lemma trim_ends: "s \<noteq> [] \<Longrightarrow> plain_char (hd s) \<Longrightarrow> plain_char (last s) \<Longrightarrow> TrimSpace s = s"
  by (rule TrimSpace_plain) auto

lemma trim_number: "plain_char u \<Longrightarrow> TrimSpace (dec_digits n @ [u]) = dec_digits n @ [u]"
  by (rule trim_ends) (auto simp: digits_hd)

lemma digits_last: "plain_char (last (dec_digits n))"
  using dec_digits_all [of n] by (metis dec_digits_nonempty digit_plain last_in_set list_all_iff)

lemma trim_digits: "TrimSpace (dec_digits n) = dec_digits n"
  by (rule trim_ends) (auto simp: digits_hd digits_last)

lemma Atoi_digits: "int n < 2 ^ 63 \<Longrightarrow> Atoi (dec_digits n) = Some (int n)"
proof -
  assume n: "int n < 2 ^ 63"
  obtain d ds where d: "dec_digits n = d # ds" by (cases "dec_digits n") auto
  with dec_digits_all [of n] have "d \<noteq> CHR ''-''" "d \<noteq> CHR ''+''" by (auto simp: is_digit_def)
  with d n dec_digits_all [of n] digits_val_dec_digits [of n] show ?thesis by (simp add: Atoi_def Let_def)
qed

lemma unit_plain: "plain_char (CHR ''d'')" "plain_char (CHR ''h'')" "plain_char (CHR ''m'')" "plain_char (CHR ''s'')"
  by (auto intro!: printable_plain simp: printable_def)

lemma parse_days:
  assumes "0 < n" "int n < 2 ^ 63"
  shows "parseDuration frac (dec_digits n @ ''d'') = Inr (wrap64 (wrap64 (int n * 24) * nsPerHour))"
proof -
  have "HasSuffix (dec_digits n @ ''d'') ''d''" by (auto simp: HasSuffix_iff)
  with assms show ?thesis by (simp add: parseDuration_def trim_number unit_plain Atoi_digits Let_def)
qed

lemma parse_unit:
  assumes "map_of durationUnits [u] = Some k" "plain_char u" "unitChar u" "u \<noteq> CHR ''d''" "0 < n" "int n * k < 2 ^ 63"
    "0 < k"
  shows "parseDuration frac (dec_digits n @ [u]) = Inr (int n * k)"
proof -
  have "\<not> HasSuffix (dec_digits n @ [u]) ''d''" using assms(4) by (auto simp: HasSuffix_iff)
  with ParseDuration_one [OF assms(1) _ _ assms(5,6), of frac] assms show ?thesis
    by (simp add: parseDuration_def trim_number not_le)
qed

lemma duration_reads_back:
  assumes d: "0 < d" "d < 2 ^ 63" "d mod nsPerSecond = 0"
  shows "parseDuration frac (durationString d) = Inr d"
proof -
  have part: "fmtSigned (d div k) = dec_digits (nat (d div k)) \<and> 0 < nat (d div k) \<and> int (nat (d div k)) * k = d"
    if k: "d mod k = 0" "0 < k" for k
  proof -
    from k have m: "d div k * k = d" by (simp add: dvd_eq_mod_eq_0)
    with d(1) k(2) have "0 < d div k" by (metis zero_less_mult_pos2)
    with m show ?thesis by (simp add: fmtSigned_def)
  qed
  have rest: "parseDuration frac (fmtSigned (d div k) @ [u]) = Inr d"
    if k: "d mod k = 0" "0 < k" "map_of durationUnits [u] = Some k" "plain_char u" "unitChar u" "u \<noteq> CHR ''d''" for k u
  proof -
    from part [OF k(1,2)] have p: "fmtSigned (d div k) = dec_digits (nat (d div k))"
      "0 < nat (d div k)" "int (nat (d div k)) * k = d" by blast+
    with parse_unit [OF k(3-6) p(2), of frac] k(2) d(2) show ?thesis by (simp only: p)
  qed
  have days: "parseDuration frac (fmtSigned (d div nsPerDay) @ ''d'') = Inr d" if "d mod nsPerDay = 0"
  proof -
    from part [OF that] have p: "fmtSigned (d div nsPerDay) = dec_digits (nat (d div nsPerDay))"
      "0 < nat (d div nsPerDay)" "int (nat (d div nsPerDay)) * nsPerDay = d" by (auto simp: nsPerDay_def)
    then have le: "int (nat (d div nsPerDay)) * 24 < 2 ^ 63" "int (nat (d div nsPerDay)) * 24 * nsPerHour = d"
      using d(2) by (auto simp: nsPerDay_def nsPerHour_def)
    then have "wrap64 (int (nat (d div nsPerDay)) * 24) = int (nat (d div nsPerDay)) * 24" "wrap64 d = d"
      using d by (auto intro!: wrap64_small)
    with parse_days [OF p(2), of frac] le p(1) show ?thesis by simp
  qed
  show ?thesis
    using d rest [of nsPerHour "CHR ''h''"] rest [of nsPerMinute "CHR ''m''"] rest [of nsPerSecond "CHR ''s''"] days
    by (simp add: durationString_def unit_plain durationUnits_def nsPerHour_def nsPerMinute_def nsPerSecond_def
        unitChar_def is_digit_def)
qed

lemma duration_text: "0 < d \<Longrightarrow> d mod nsPerSecond = 0 \<Longrightarrow>
    durationString d \<noteq> [] \<and> plain_char (hd (durationString d)) \<and> plain_char (last (durationString d))"
  by (auto simp: durationString_def fmtSigned_def unit_plain digits_hd pos_imp_zdiv_neg_iff nsPerDay_def
      nsPerHour_def nsPerMinute_def nsPerSecond_def)

lemma repeat_reads_back:
  assumes "if Rep_Forever r then Rep_Limit r = 0 else 0 \<le> Rep_Limit r \<and> Rep_Limit r < 2 ^ 63"
  shows "parseRepeat (repeatString r) = Inr (if r = \<lparr>Rep_Forever = False, Rep_Limit = 0\<rparr> then RepeatForever else r)"
proof (cases "Rep_Forever r \<or> Rep_Limit r = 0")
  case True
  moreover have "TrimSpace ''forever'' = ''forever''" by code_simp
  ultimately show ?thesis using assms by (cases r) (auto simp: repeatString_def parseRepeat_def RepeatForever_def)
next
  case False
  with assms have n: "0 < Rep_Limit r" "Rep_Limit r < 2 ^ 63" "\<not> Rep_Forever r" by (auto split: if_splits)
  let ?s = "dec_digits (nat (Rep_Limit r))"
  have "is_digit (hd ?s)" using dec_digits_all [of "nat (Rep_Limit r)"] by (cases ?s) auto
  then have "?s \<noteq> ''forever''" by (auto simp: is_digit_def)
  with n Atoi_digits [of "nat (Rep_Limit r)"] show ?thesis
    by (cases r) (simp add: repeatString_def parseRepeat_def fmtSigned_def trim_digits RepeatCount_def)
qed

section \<open>Schedules\<close>

text \<open>A text that trimming leaves alone because no byte at its ends can belong to a space.\<close>

definition plain_ends :: "string \<Rightarrow> bool" where
  "plain_ends s \<longleftrightarrow> s \<noteq> [] \<and> plain_char (hd s) \<and> plain_char (last s)"

lemma plain_ends_trim: "plain_ends s \<Longrightarrow> TrimSpace s = s"
  by (rule trim_ends) (auto simp: plain_ends_def)

definition printable_schedule :: "Schedule \<Rightarrow> bool" where
  "printable_schedule s = (case Sch_Type s of
      ScheduleInterval \<Rightarrow> s = (newSchedule ScheduleInterval)\<lparr>Sch_Interval := Sch_Interval s\<rparr> \<and>
        Sch_Interval s mod nsPerSecond = 0 \<and> Sch_Interval s < 2 ^ 63
    | ScheduleEvent \<Rightarrow> s = (newSchedule ScheduleEvent)\<lparr>Sch_Event := Sch_Event s\<rparr> \<and> plain_ends (Sch_Event s)
    | ScheduleOnDemand \<Rightarrow> s = newSchedule ScheduleOnDemand
    | ScheduleCron \<Rightarrow> s = (newSchedule ScheduleCron)\<lparr>Sch_Cron := Sch_Cron s\<rparr> \<and> plain_ends (Sch_Cron s)
    | ScheduleOther _ \<Rightarrow> False)"

lemma first_field:
  assumes "list_all plain_char w" "w \<noteq> []"
  shows "\<exists>fs. Fields (w @ CHR '' '' # s) = w # fs"
proof -
  have sp: "space_len go_spaces (CHR '' '' # t) = 1" for t by (simp add: space_len_def go_spaces_def)
  from fields_plain [OF assms(1), of "[]" "CHR '' '' # s"] assms(2) show ?thesis
    by (simp add: Fields_def sp)
qed

lemma not_cron_word:
  assumes "list_all plain_char w" "w \<noteq> []" "parseCronField w 0 59 = Some (Inl e)"
  shows "\<exists>e. parsedCron (w @ CHR '' '' # s) = Inl e"
proof -
  obtain fs where "Fields (w @ CHR '' '' # s) = w # fs" using first_field [OF assms(1,2)] by blast
  with assms(3) have "parseCron (w @ CHR '' '' # s) = Some (Inl e) \<or> parseCron (w @ CHR '' '' # s) = Some (Inl CronFiveFields)"
    by (simp add: parseCron_def bindField_def split: list.split)
  then show ?thesis by (auto simp: parsedCron_def)
qed

lemma cron_not_words:
  assumes "parsedCron c = Inr x"
  shows "CutPrefix c ''every '' = None" "CutPrefix c ''on event:'' = None" "c \<noteq> []" "c \<noteq> ''on demand''" "c \<noteq> ''on_demand''"
proof -
  have w: "list_all plain_char ''every''" "list_all plain_char ''on''" by code_simp+
  have f: "parseCronField ''every'' 0 59 = Some (Inl CronNumber)" "parseCronField ''on'' 0 59 = Some (Inl CronNumber)"
    by code_simp+
  have "c \<noteq> ''every'' @ CHR '' '' # s" "c \<noteq> ''on'' @ CHR '' '' # s" for s
    using not_cron_word [OF w(1) _ f(1), of s] not_cron_word [OF w(2) _ f(2), of s] assms by auto
  then show "CutPrefix c ''every '' = None" "CutPrefix c ''on event:'' = None" "c \<noteq> ''on demand''"
    by (auto simp: CutPrefix_def HasPrefix_iff)
  have "parseCron [] = Some (Inl CronFiveFields)" "parseCron ''on_demand'' = Some (Inl CronFiveFields)" by code_simp+
  then show "c \<noteq> []" "c \<noteq> ''on_demand''" using assms by (auto simp: parsedCron_def)
qed

lemma words_plain: "plain_char (CHR ''e'')" "plain_char (CHR ''o'')"
  by (auto intro!: printable_plain simp: printable_def)

lemma schedule_reads_back:
  assumes p: "printable_schedule s" and v: "Schedule_Validate s = None"
  shows "ParseSchedule frac (Schedule_String s) = Inr s"
proof (cases "Sch_Type s")
  case ScheduleCron
  with p have s: "s = (newSchedule ScheduleCron)\<lparr>Sch_Cron := Sch_Cron s\<rparr>" "plain_ends (Sch_Cron s)"
    by (auto simp: printable_schedule_def)
  from v ScheduleCron obtain x where x: "parsedCron (Sch_Cron s) = Inr x"
    by (auto simp: Schedule_Validate_def split: sum.splits)
  from cron_not_words [OF x] x plain_ends_trim [OF s(2)] s(1) ScheduleCron show ?thesis
    by (simp add: Schedule_String_def ParseSchedule_def Let_def)
next
  case ScheduleInterval
  with p v have s: "s = (newSchedule ScheduleInterval)\<lparr>Sch_Interval := Sch_Interval s\<rparr>"
    "Sch_Interval s mod nsPerSecond = 0" "Sch_Interval s < 2 ^ 63" "0 < Sch_Interval s"
    by (auto simp: printable_schedule_def Schedule_Validate_def split: if_splits)
  let ?d = "durationString (Sch_Interval s)"
  from duration_text [OF s(4,2)] have "TrimSpace (''every '' @ ?d) = ''every '' @ ?d"
    by (intro trim_ends) (auto simp: words_plain)
  with duration_reads_back [OF s(4,3,2), of frac] s(1) ScheduleInterval show ?thesis
    by (simp add: Schedule_String_def ParseSchedule_def Let_def CutPrefix_def HasPrefix_def)
next
  case ScheduleEvent
  with p have s: "s = (newSchedule ScheduleEvent)\<lparr>Sch_Event := Sch_Event s\<rparr>" "plain_ends (Sch_Event s)"
    by (auto simp: printable_schedule_def)
  then have "TrimSpace (''on event: '' @ Sch_Event s) = ''on event: '' @ Sch_Event s"
    by (intro trim_ends) (auto simp: words_plain plain_ends_def)
  with s(2) plain_ends_trim [OF s(2)] TrimSpace_blank [of "Sch_Event s"] s(1) ScheduleEvent show ?thesis
    by (simp add: Schedule_String_def ParseSchedule_def Let_def CutPrefix_def HasPrefix_def plain_ends_def)
next
  case ScheduleOnDemand
  moreover have "TrimSpace ''on demand'' = ''on demand''" by code_simp
  ultimately show ?thesis using p
    by (simp add: Schedule_String_def ParseSchedule_def printable_schedule_def)
qed (use p in \<open>simp add: printable_schedule_def\<close>)

section \<open>Whole definitions\<close>

definition writable :: "Definition \<Rightarrow> bool" where
  "writable d \<longleftrightarrow> Definition_Validate (Definition_normalized d) = None \<and> printable_schedule (Def_Schedule d) \<and>
     Def_Timeout d mod nsPerSecond = 0 \<and> Def_Timeout d < 2 ^ 63 \<and>
     (if Rep_Forever (Def_Repeat d) then Rep_Limit (Def_Repeat d) = 0 else Rep_Limit (Def_Repeat d) < 2 ^ 63)"

text \<open>What a definition is after it has been written and loaded.\<close>

definition reloaded :: "Definition \<Rightarrow> Definition" where
  "reloaded d = (Definition_normalized d)\<lparr>Def_Revision := 0, Def_MisfireGrace := nsPerMinute\<rparr>"

lemma Validate_parts:
  "Definition_Validate d = None \<Longrightarrow>
    Schedule_Validate (Def_Schedule d) = None \<and> 0 \<le> Def_Timeout d \<and> 0 \<le> Rep_Limit (Def_Repeat d)"
  by (simp add: Definition_Validate_def split: if_split_asm option.split_asm)

lemma validated:
  assumes "Definition_Validate (Definition_normalized d) = None"
  shows "Schedule_Validate (Def_Schedule d) = None \<and> 0 \<le> Def_Timeout d \<and>
    (Rep_Forever (Def_Repeat d) \<or> 0 \<le> Rep_Limit (Def_Repeat d))"
  using Validate_parts [OF assms] by (auto simp: Definition_normalized_def split: if_split_asm)

lemma Validate_grace:
  "Definition_Validate d = None \<Longrightarrow> 0 \<le> g \<Longrightarrow> Definition_Validate (d\<lparr>Def_Revision := n, Def_MisfireGrace := g\<rparr>) = None"
  by (simp add: Definition_Validate_def split: if_split_asm option.split_asm)

lemma rebuilt:
  "\<lparr>Def_ID = Def_ID d, Def_Name = Def_Name d, Def_Kind = Def_Kind d, Def_Version = Def_Version d, Def_Revision = 0,
     Def_Schedule = Def_Schedule d, Def_ProjectScope = Def_ProjectScope d, Def_EnabledToolsets = Def_EnabledToolsets d,
     Def_CapabilitiesRequired = Def_CapabilitiesRequired d, Def_CapabilitiesOptional = Def_CapabilitiesOptional d,
     Def_Script = Def_Script d, Def_Skills = Def_Skills d, Def_Prompt = Def_Prompt d, Def_Deliver = Def_Deliver d,
     Def_Repeat = r, Def_Paused = Def_Paused d, Def_Timeout = Def_Timeout d, Def_MaxConcurrency = Def_MaxConcurrency d,
     Def_MisfirePolicy = Def_MisfirePolicy d, Def_RetryPolicy = Def_RetryPolicy d,
     Def_DeadLetterAfter = Def_DeadLetterAfter d, Def_AuditAlways = False, Def_MisfireGrace = 0\<rparr> =
   d\<lparr>Def_Revision := 0, Def_MisfireGrace := 0, Def_AuditAlways := False, Def_Repeat := r\<rparr>"
  by (cases d) simp

lemma disk_reads_back:
  assumes w: "writable d"
  shows "toDefinition frac (diskOf d) = Inr (reloaded d)"
proof -
  from w validated [of d] have v: "Schedule_Validate (Def_Schedule d) = None" "0 \<le> Def_Timeout d"
    "Rep_Forever (Def_Repeat d) \<or> 0 \<le> Rep_Limit (Def_Repeat d)" by (auto simp: writable_def)
  have t: "parseOptionalDuration frac (durationString (Def_Timeout d)) = Inr (Def_Timeout d)"
  proof (cases "Def_Timeout d = 0")
    case True
    moreover have "TrimSpace [] = []" by code_simp
    ultimately show ?thesis by (simp add: parseOptionalDuration_def durationString_def)
  next
    case False
    with v w duration_text [of "Def_Timeout d"] duration_reads_back [of "Def_Timeout d" frac]
    show ?thesis by (auto simp: parseOptionalDuration_def trim_ends writable_def)
  qed
  from w v(3) have r: "parseRepeat (repeatString (Def_Repeat d)) =
      Inr (if Def_Repeat d = \<lparr>Rep_Forever = False, Rep_Limit = 0\<rparr> then RepeatForever else Def_Repeat d)"
    by (intro repeat_reads_back) (auto simp: writable_def)
  from w have s: "ParseSchedule frac (Schedule_String (Def_Schedule d)) = Inr (Def_Schedule d)"
    by (intro schedule_reads_back v(1)) (simp add: writable_def)
  from w have ok: "Definition_Validate (reloaded d) = None"
    unfolding reloaded_def by (intro Validate_grace) (simp_all add: writable_def nsPerMinute_def)
  have "Definition_normalized (d\<lparr>Def_Revision := 0, Def_MisfireGrace := 0, Def_AuditAlways := False,
      Def_Repeat := (if Def_Repeat d = \<lparr>Rep_Forever = False, Rep_Limit = 0\<rparr> then RepeatForever else Def_Repeat d)\<rparr>) =
    reloaded d"
    by (rule Definition.equality) (simp_all add: Definition_normalized_def reloaded_def RepeatForever_def)
  with ok show ?thesis
    by (simp only: toDefinition_def diskOf_def DefinitionDisk.simps t r s sum.case rebuilt Let_def option.case)
qed

section \<open>The properties\<close>

text \<open>
  C40. A definition whose text form is exact, written to a JSON file and loaded from it, comes back
  normalised; only its revision and its misfire grace, which the document does not hold, are reset.
\<close>

theorem definition_file_roundtrip:
  assumes "writable d" and "ToLower (Ext name) = ''.json''"
    and "dec (enc (diskOf d) @ [CHR 0x0A]) = Some (diskOf d)"
    and "WriteDefinitionFile enc None now name d w = (None, w')"
  shows "LoadDefinitionFile frac dec None name w' = Inr (reloaded d)"
proof -
  have put: "map_of (putEntry name f es) name = Some f" for f es
  proof (cases "name \<in> set (keys es)")
    case False
    then have "name \<notin> set (keys (takeWhile (\<lambda>e. fst e < name) es))" by (auto dest: set_takeWhileD)
    then have "map_of (takeWhile (\<lambda>e. fst e < name) es) name = None" by (simp add: map_of_eq_None_iff)
    with False show ?thesis by (simp add: putEntry_def map_add_def)
  qed (simp add: putEntry_def)
  from assms(4) have "\<exists>f. dd_entries w' = putEntry name f (dd_entries w) \<and> \<not> de_dir f \<and> \<not> de_readFault f \<and>
      de_data f = enc (diskOf d) @ [CHR 0x0A]"
    by (auto simp: WriteDefinitionFile_def Let_def split: list.splits option.splits def_fault.splits)
  with put assms(2,3) disk_reads_back [OF assms(1)] show ?thesis
    by (auto simp: LoadDefinitionFile_def Let_def)
qed

text \<open>
  The number of days of a duration is multiplied in 64 bits without a check: up to 106751 days the
  value is exact, beyond that it is another one, and a schedule of 213504 days is accepted as one
  of less than 26 minutes.
\<close>

theorem day_durations_wrap:
  assumes "0 < n" and "int n < 2 ^ 63"
  shows "parseDuration frac (dec_digits n @ ''d'') = Inr (wrap64 (int n * nsPerDay)) \<and>
    (wrap64 (int n * nsPerDay) = int n * nsPerDay) = (n \<le> 106751) \<and>
    ParseSchedule frac ''every 213504d'' = Inr ((newSchedule ScheduleInterval)\<lparr>Sch_Interval := 1526290448384\<rparr>)"
proof -
  have w: "wrap64 (wrap64 (int m * 24) * nsPerHour) = wrap64 (int m * nsPerDay)" for m
  proof (rule wrap64_cong)
    have "wrap64 (int m * 24) * nsPerHour mod 2 ^ 64 = int m * 24 * nsPerHour mod 2 ^ 64"
      by (rule mod_mult_cong [OF wrap64_mod refl])
    then show "wrap64 (int m * 24) * nsPerHour mod 2 ^ 64 = int m * nsPerDay mod 2 ^ 64"
      by (simp add: nsPerHour_def nsPerDay_def mult.commute)
  qed
  have exact: "(wrap64 (int n * nsPerDay) = int n * nsPerDay) = (n \<le> 106751)"
  proof (cases "n \<le> 106751")
    case True
    then have "int n * nsPerDay < 2 ^ 63" by (simp add: nsPerDay_def)
    with True show ?thesis by (simp add: wrap64_small nsPerDay_def)
  next
    case False
    then have "2 ^ 63 \<le> int n * nsPerDay" by (simp add: nsPerDay_def)
    moreover have "wrap64 (int n * nsPerDay) < 2 ^ 63" by (simp add: wrap64_def)
    ultimately show ?thesis using False by linarith
  qed
  have "dec_digits 213504 = ''213504''" by (simp add: dec_digits.simps digit_char_def; code_simp)
  moreover have "wrap64 (int 213504 * nsPerDay) = 1526290448384" by (simp add: wrap64_def nsPerDay_def)
  ultimately have p: "parseDuration frac ''213504d'' = Inr 1526290448384"
    using parse_days [of 213504 frac] w [of 213504] by (simp only:) simp
  have "TrimSpace ''every 213504d'' = ''every 213504d''" by code_simp
  with p have "ParseSchedule frac ''every 213504d'' = Inr ((newSchedule ScheduleInterval)\<lparr>Sch_Interval := 1526290448384\<rparr>)"
    by (simp add: ParseSchedule_def Let_def CutPrefix_def HasPrefix_def)
  with exact parse_days [OF assms, of frac] w [of n] show ?thesis by simp
qed

section \<open>Witnesses\<close>

definition sample_file_def :: Definition where
  "sample_file_def = \<lparr>Def_ID = ''nightly'', Def_Name = ''Nightly'', Def_Kind = KindDeterministic, Def_Version = 1,
     Def_Revision = 3, Def_Schedule = (newSchedule ScheduleInterval)\<lparr>Sch_Interval := 6 * nsPerHour\<rparr>, Def_ProjectScope = [],
     Def_EnabledToolsets = [''git''], Def_CapabilitiesRequired = [], Def_CapabilitiesOptional = [],
     Def_Script = ''sweep.sh'', Def_Skills = [], Def_Prompt = [], Def_Deliver = [],
     Def_Repeat = RepeatCount 5, Def_Paused = True, Def_Timeout = 90 * nsPerSecond, Def_MaxConcurrency = 0,
     Def_MisfirePolicy = MisfireSkip, Def_RetryPolicy = RetryNone, Def_DeadLetterAfter = 3,
     Def_AuditAlways = True, Def_MisfireGrace = 5 * nsPerMinute\<rparr>"

theorem definition_file_roundtrip_witness:
  "\<exists>w'. WriteDefinitionFile (\<lambda>_. ''{}'') None 7 ''nightly.json'' sample_file_def
       \<lparr>dd_path = ''jobs'', dd_exists = False, dd_listFault = False, dd_entries = [], dd_faults = []\<rparr> = (None, w') \<and>
     LoadDefinitionFile (\<lambda>_ _ _. 0) (\<lambda>_. Some (diskOf sample_file_def)) None ''nightly.json'' w' = Inr (reloaded sample_file_def)"
proof -
  let ?dir = "\<lparr>dd_path = ''jobs'', dd_exists = False, dd_listFault = False, dd_entries = [], dd_faults = []\<rparr>"
  obtain e w' where wr: "WriteDefinitionFile (\<lambda>_. ''{}'') None 7 ''nightly.json'' sample_file_def ?dir = (e, w')"
    by (metis surj_pair)
  then have "e = None" by (auto simp: WriteDefinitionFile_def Let_def)
  moreover have "writable sample_file_def" "ToLower (Ext ''nightly.json'') = ''.json''" by code_simp+
  ultimately show ?thesis using definition_file_roundtrip [OF _ _ _ wr [unfolded \<open>e = None\<close>]] wr by simp
qed

theorem day_durations_wrap_witness:
  "parseDuration (\<lambda>_ _ _. 0) (dec_digits 106752 @ ''d'') = Inr (wrap64 (106752 * nsPerDay)) \<and>
     wrap64 (106752 * nsPerDay) \<noteq> 106752 * nsPerDay"
  using day_durations_wrap [of 106752 "\<lambda>_ _ _. 0"] by simp

end
