(* ===== verification/GoStamp.thy ===== *)
theory GoStamp
  imports GoTime
begin

text \<open>The time layouts of RFC 3339 in UTC, with seconds and with the fraction without trailing zeros.\<close>

definition clockText :: "time \<Rightarrow> string" where
  "clockText t = fmtInt 4 (Year t) @ ''-'' @ fmtInt 2 (Month t) @ ''-'' @ fmtInt 2 (Day t) @ ''T'' @
     fmtInt 2 (Hour t) @ '':'' @ fmtInt 2 (Minute t) @ '':'' @ fmtInt 2 (Second t)"

definition fractionText :: "int \<Rightarrow> string" where
  "fractionText n = (if n = 0 then []
     else CHR ''.'' # rev (dropWhile (\<lambda>c. c = CHR ''0'') (rev (pad_dec 9 (nat n)))))"

definition rfc3339 :: "time \<Rightarrow> string" where
  "rfc3339 t = clockText t @ ''Z''"

definition rfc3339Nano :: "time \<Rightarrow> string" where
  "rfc3339Nano t = clockText t @ fractionText (Nanosecond t) @ ''Z''"

end
