(* ===== verification/Capabilities.thy ===== *)
theory Capabilities
  imports GoStamp GoStrings
begin

text \<open>
  Package \<open>capabilities\<close> (\<open>types.go\<close>, \<open>registry.go\<close>, \<open>fixture.go\<close>, \<open>http.go\<close>): what the tools of the
  machine can do. Probes deliver a report per tool; features declare the capabilities they need,
  and the registry decides how a feature is rendered.

  A probe is a function outside the package: the registry keeps it as a name of type \<open>'p\<close>, and a
  sweep is given what each probe returns. A nil map of capabilities is \<open>None\<close>. Errors keep what
  was wrong without its text.
\<close>

section \<open>Types\<close>

datatype cap_err = CErrInvalidTool | CErrNilProbe | CErrEmptySource | CErrNoTime | CErrNilMap | CErrEmptyID
  | CErrStatus | CErrFeatureID | CErrContract | CErrNotRegistered | CErrPanic | CErrSchema | CErrEnvelope
  | CErrKey | CErrRead | CErrParse

datatype CapStatus = CStatusOK | CStatusDegraded | CStatusMissing | CStatusBlockedByPolicy | CStatusUntested
  | CStatusOther string

definition CapStatus_Valid :: "CapStatus \<Rightarrow> bool" where
  "CapStatus_Valid s = (case s of CStatusOther _ \<Rightarrow> False | _ \<Rightarrow> True)"

definition KnownClosedTools :: "string list" where
  "KnownClosedTools = [''ntm'', ''br'', ''bv'', ''agent_mail'', ''git'', ''ru'', ''caam'', ''caut'', ''dcg'', ''casr'',
     ''pt'', ''srp'', ''sbh'', ''ubs'', ''jsm'', ''jfp'', ''oracle'', ''rch'', ''rano'', ''vps'']"

definition IsHealthTool :: "string \<Rightarrow> bool" where
  "IsHealthTool tool \<longleftrightarrow> length tool > 7 \<and> take 7 tool = ''health_''"

definition ToolID_Valid :: "string \<Rightarrow> bool" where
  "ToolID_Valid tool \<longleftrightarrow> IsHealthTool tool \<or> tool \<in> set KnownClosedTools"

record Capability =
  Cp_Status :: CapStatus
  Cp_Fallback :: string
  Cp_Transport :: string
  Cp_Notes :: string

record ToolReport =
  Tl_Tool :: string
  Tl_Version :: string
  Tl_Source :: string
  Tl_Capabilities :: "(string \<times> Capability) list option"
  Tl_LastCheckedAt :: string
  Tl_FixturesVersion :: string

definition capsOf :: "ToolReport \<Rightarrow> (string \<times> Capability) list" where
  "capsOf r = (case Tl_Capabilities r of None \<Rightarrow> [] | Some m \<Rightarrow> m)"

fun capsValidate :: "(string \<times> Capability) list \<Rightarrow> cap_err option" where
  "capsValidate [] = None"
| "capsValidate ((cid, c) # cs) =
     (if cid = [] then Some CErrEmptyID else if \<not> CapStatus_Valid (Cp_Status c) then Some CErrStatus
      else capsValidate cs)"

definition ToolReport_Validate :: "ToolReport \<Rightarrow> cap_err option" where
  "ToolReport_Validate r =
     (if \<not> ToolID_Valid (Tl_Tool r) then Some CErrInvalidTool
      else if Tl_Source r = [] then Some CErrEmptySource
      else if Tl_LastCheckedAt r = [] then Some CErrNoTime
      else case Tl_Capabilities r of None \<Rightarrow> Some CErrNilMap | Some m \<Rightarrow> capsValidate m)"

record CapabilityRegistry =
  Cs_SchemaVersion :: int
  Cs_SnapshotAt :: string
  Cs_DaemonAPIVersion :: string
  Cs_FixturesVersion :: string
  Cs_Tools :: "(string \<times> ToolReport) list"

fun toolsValidate :: "(string \<times> ToolReport) list \<Rightarrow> cap_err option" where
  "toolsValidate [] = None"
| "toolsValidate ((tool, r) # rs) =
     (if tool \<noteq> Tl_Tool r then Some CErrKey
      else case ToolReport_Validate r of Some e \<Rightarrow> Some e | None \<Rightarrow> toolsValidate rs)"

definition CapabilityRegistry_Validate :: "CapabilityRegistry \<Rightarrow> cap_err option" where
  "CapabilityRegistry_Validate s =
     (if Cs_SchemaVersion s \<noteq> 1 then Some CErrSchema
      else if Cs_SnapshotAt s = [] \<or> Cs_DaemonAPIVersion s = [] then Some CErrEnvelope
      else toolsValidate (Cs_Tools s))"

datatype IfMissingRequired = BlockJob | RunReadOnly | EmitDiagnostic | RequiredOther string
datatype IfMissingOptional = ContinueWithWarning | SuppressRelatedDetections | OptionalOther string
datatype ActivityBehavior = ActivitySilent | ActivityDiagnosticsOnly | ActivityPanelWarning | ActivityOther string

record DegradedModeContract =
  Dm_IfMissingRequired :: IfMissingRequired
  Dm_IfMissingOptional :: IfMissingOptional
  Dm_ActivityBehavior :: ActivityBehavior

definition Contract_Validate :: "DegradedModeContract \<Rightarrow> cap_err option" where
  "Contract_Validate c =
     (if (case Dm_IfMissingRequired c of RequiredOther _ \<Rightarrow> True | _ \<Rightarrow> False) \<or>
         (case Dm_IfMissingOptional c of OptionalOther _ \<Rightarrow> True | _ \<Rightarrow> False) \<or>
         (case Dm_ActivityBehavior c of ActivityOther _ \<Rightarrow> True | _ \<Rightarrow> False)
      then Some CErrContract else None)"

record FeatureRequirement =
  Fr_FeatureID :: string
  Fr_CapabilitiesRequired :: "string list"
  Fr_CapabilitiesOptional :: "string list"
  Fr_DegradedMode :: DegradedModeContract

definition Feature_Validate :: "FeatureRequirement \<Rightarrow> cap_err option" where
  "Feature_Validate f = (if Fr_FeatureID f = [] then Some CErrFeatureID else Contract_Validate (Fr_DegradedMode f))"

section \<open>The registry\<close>

record 'p CapReg =
  cr_daemonAPIVersion :: string
  cr_fixturesVersion :: string
  cr_probes :: "(string \<times> 'p) list"
  cr_reports :: "(string \<times> ToolReport) list"
  cr_features :: "(string \<times> FeatureRequirement) list"

definition NewCapabilities :: "string \<Rightarrow> cap_err + 'p CapReg" where
  "NewCapabilities v = (if v = [] then Inl CErrPanic
     else Inr \<lparr>cr_daemonAPIVersion = v, cr_fixturesVersion = [], cr_probes = [], cr_reports = [], cr_features = []\<rparr>)"

definition SetFixturesVersion :: "string \<Rightarrow> 'p CapReg \<Rightarrow> 'p CapReg" where
  "SetFixturesVersion tag r = r\<lparr>cr_fixturesVersion := tag\<rparr>"

definition RegisterProbe :: "string \<Rightarrow> 'p option \<Rightarrow> 'p CapReg \<Rightarrow> cap_err option \<times> 'p CapReg" where
  "RegisterProbe tool probe r =
     (if \<not> ToolID_Valid tool then (Some CErrInvalidTool, r)
      else case probe of None \<Rightarrow> (Some CErrNilProbe, r)
        | Some p \<Rightarrow> (None, r\<lparr>cr_probes := AList.update tool p (cr_probes r)\<rparr>))"

definition SetReport :: "ToolReport \<Rightarrow> 'p CapReg \<Rightarrow> cap_err option \<times> 'p CapReg" where
  "SetReport rep r = (case ToolReport_Validate rep of Some e \<Rightarrow> (Some e, r)
     | None \<Rightarrow> (None, r\<lparr>cr_reports := AList.update (Tl_Tool rep) rep (cr_reports r)\<rparr>))"

definition RegisterFeature :: "FeatureRequirement \<Rightarrow> 'p CapReg \<Rightarrow> cap_err option \<times> 'p CapReg" where
  "RegisterFeature f r = (case Feature_Validate f of Some e \<Rightarrow> (Some e, r)
     | None \<Rightarrow> (None, r\<lparr>cr_features := AList.update (Fr_FeatureID f) f (cr_features r)\<rparr>))"

text \<open>
  A sweep copies the probes and the clock under the lock, runs the probes without it, and merges
  the reports under the lock again; other methods come between the phases.
\<close>

datatype probe_result = ProbeErr string | ProbeNil | ProbeReport ToolReport

definition failedReport :: "string \<Rightarrow> string \<Rightarrow> string \<Rightarrow> string \<Rightarrow> ToolReport" where
  "failedReport tool source now notes = \<lparr>Tl_Tool = tool, Tl_Version = [], Tl_Source = source,
     Tl_Capabilities = Some [(''__probe__'', \<lparr>Cp_Status = CStatusMissing, Cp_Fallback = [], Cp_Transport = [],
       Cp_Notes = notes\<rparr>)],
     Tl_LastCheckedAt = now, Tl_FixturesVersion = []\<rparr>"

definition freshReport :: "string \<Rightarrow> string \<Rightarrow> probe_result \<Rightarrow> ToolReport" where
  "freshReport now tool res = (case res of
      ProbeErr e \<Rightarrow> failedReport tool ''probe-error'' now (''probe error: '' @ e)
    | ProbeNil \<Rightarrow> failedReport tool ''probe-nil'' now ''probe returned nil report''
    | ProbeReport rep \<Rightarrow> rep\<lparr>Tl_LastCheckedAt := (if Tl_LastCheckedAt rep = [] then now else Tl_LastCheckedAt rep),
        Tl_Tool := tool\<rparr>)"

definition sweep :: "string \<Rightarrow> ('p \<Rightarrow> probe_result) \<Rightarrow> (string \<times> 'p) list \<Rightarrow> (string \<times> ToolReport) list" where
  "sweep now run probes = map (\<lambda>(tool, p). (tool, freshReport now tool (run p))) probes"

definition mergeReports :: "(string \<times> ToolReport) list \<Rightarrow> 'p CapReg \<Rightarrow> 'p CapReg" where
  "mergeReports fresh r = r\<lparr>cr_reports := fold (\<lambda>(tool, rep). AList.update tool rep) fresh (cr_reports r)\<rparr>"

definition Probe :: "time \<Rightarrow> ('p \<Rightarrow> probe_result) \<Rightarrow> 'p CapReg \<Rightarrow> 'p CapReg" where
  "Probe now run r = mergeReports (sweep (rfc3339 now) run (cr_probes r)) r"

definition Snapshot :: "time \<Rightarrow> 'p CapReg \<Rightarrow> CapabilityRegistry" where
  "Snapshot now r = \<lparr>Cs_SchemaVersion = 1, Cs_SnapshotAt = rfc3339 now,
     Cs_DaemonAPIVersion = cr_daemonAPIVersion r, Cs_FixturesVersion = cr_fixturesVersion r,
     Cs_Tools = map (\<lambda>(tool, rep). (tool, rep\<lparr>Tl_Capabilities := Some (capsOf rep)\<rparr>)) (cr_reports r)\<rparr>"

definition LookupCapability :: "string \<Rightarrow> string \<Rightarrow> 'p CapReg \<Rightarrow> Capability option" where
  "LookupCapability tool capID r = (case map_of (cr_reports r) tool of None \<Rightarrow> None
     | Some rep \<Rightarrow> map_of (capsOf rep) capID)"

section \<open>References and decisions\<close>

definition toolFromCapRef :: "string \<Rightarrow> string option" where
  "toolFromCapRef ref = (case Cut ref (CHR ''.'') of None \<Rightarrow> None
     | Some (tool, rest) \<Rightarrow> if tool = [] \<or> rest = [] \<or> \<not> ToolID_Valid tool then None else Some tool)"

text \<open>An unknown reference, for which the code returns missing and false, is \<open>None\<close>.\<close>

definition lookupStatus :: "'p CapReg \<Rightarrow> string \<Rightarrow> CapStatus option" where
  "lookupStatus r ref = (case toolFromCapRef ref of None \<Rightarrow> None
     | Some tool \<Rightarrow> (case map_of (cr_reports r) tool of None \<Rightarrow> None
         | Some rep \<Rightarrow> map_option Cp_Status (map_of (capsOf rep) ref)))"

definition LookupCapabilityStatus :: "'p CapReg option \<Rightarrow> string \<Rightarrow> CapStatus option" where
  "LookupCapabilityStatus r ref = (case r of None \<Rightarrow> None | Some q \<Rightarrow> lookupStatus q ref)"

datatype FeatureRender = RenderAvailable | RenderDegraded | RenderUnavailable | RenderBlockedByPolicy

record FeatureDecision =
  Fd_FeatureID :: string
  Fd_Render :: FeatureRender
  Fd_MissingRequired :: "string list"
  Fd_MissingOptional :: "string list"
  Fd_BlockedByPolicy :: "string list"
  Fd_DegradedReasons :: "string list"
  Fd_ContractAction :: IfMissingRequired
  Fd_ActivityBehavior :: ActivityBehavior
  Fd_OptionalAction :: IfMissingOptional

definition absent :: "CapStatus option \<Rightarrow> bool" where
  "absent s \<longleftrightarrow> s = None \<or> s = Some CStatusMissing \<or> s = Some CStatusUntested"

definition requiredStep :: "'p CapReg \<Rightarrow> string \<Rightarrow> FeatureDecision \<Rightarrow> FeatureDecision" where
  "requiredStep r ref dec =
     (let s = lookupStatus r ref in
      if absent s then dec\<lparr>Fd_MissingRequired := Fd_MissingRequired dec @ [ref],
        Fd_Render := (if Fd_Render dec \<noteq> RenderBlockedByPolicy then RenderUnavailable else Fd_Render dec)\<rparr>
      else if s = Some CStatusBlockedByPolicy then dec\<lparr>Fd_BlockedByPolicy := Fd_BlockedByPolicy dec @ [ref],
        Fd_Render := RenderBlockedByPolicy\<rparr>
      else if s = Some CStatusDegraded then dec\<lparr>Fd_DegradedReasons := Fd_DegradedReasons dec @ [ref],
        Fd_Render := (if Fd_Render dec = RenderAvailable then RenderDegraded else Fd_Render dec)\<rparr>
      else dec)"

definition optionalStep :: "'p CapReg \<Rightarrow> string \<Rightarrow> FeatureDecision \<Rightarrow> FeatureDecision" where
  "optionalStep r ref dec =
     (let s = lookupStatus r ref in
      if absent s then dec\<lparr>Fd_MissingOptional := Fd_MissingOptional dec @ [ref]\<rparr>
      else if s = Some CStatusDegraded then dec\<lparr>Fd_DegradedReasons := Fd_DegradedReasons dec @ [ref],
        Fd_Render := (if Fd_Render dec = RenderAvailable then RenderDegraded else Fd_Render dec)\<rparr>
      else dec)"

definition newDecision :: "string \<Rightarrow> FeatureRequirement \<Rightarrow> FeatureDecision" where
  "newDecision fid f = \<lparr>Fd_FeatureID = fid, Fd_Render = RenderAvailable, Fd_MissingRequired = [],
     Fd_MissingOptional = [], Fd_BlockedByPolicy = [], Fd_DegradedReasons = [],
     Fd_ContractAction = Dm_IfMissingRequired (Fr_DegradedMode f),
     Fd_ActivityBehavior = Dm_ActivityBehavior (Fr_DegradedMode f),
     Fd_OptionalAction = Dm_IfMissingOptional (Fr_DegradedMode f)\<rparr>"

definition Determine :: "string \<Rightarrow> 'p CapReg \<Rightarrow> cap_err + FeatureDecision" where
  "Determine fid r = (case map_of (cr_features r) fid of None \<Rightarrow> Inl CErrNotRegistered
     | Some f \<Rightarrow>
         let d1 = fold (requiredStep r) (Fr_CapabilitiesRequired f) (newDecision fid f);
             d2 = fold (optionalStep r) (Fr_CapabilitiesOptional f) d1
         in Inr (d2\<lparr>Fd_MissingRequired := sort (Fd_MissingRequired d2),
               Fd_MissingOptional := sort (Fd_MissingOptional d2),
               Fd_BlockedByPolicy := sort (Fd_BlockedByPolicy d2),
               Fd_DegradedReasons := sort (Fd_DegradedReasons d2)\<rparr>))"

section \<open>Fixtures\<close>

record FixtureMeta =
  Fm_Scenario :: string
  Fm_FixturesVersion :: string
  Fm_CapturedAt :: string
  Fm_Source :: string

text \<open>A file of a scenario: unreadable, not the JSON expected, or its document.\<close>

datatype 'd doc = DocUnreadable | DocMalformed | DocOf 'd

type_synonym raw_caps = "(string \<times> (string \<times> Capability) list option) list"

fun fixtureReports :: "FixtureMeta \<Rightarrow> raw_caps \<Rightarrow> cap_err + ToolReport list" where
  "fixtureReports m [] = Inr []"
| "fixtureReports m ((toolKey, caps) # rest) =
     (let tool = (if toolKey = ''health'' then ''health_generic'' else toolKey) in
      if \<not> ToolID_Valid tool then fixtureReports m rest
      else
        let rep = \<lparr>Tl_Tool = tool, Tl_Version = [], Tl_Source = ''fixture'',
              Tl_Capabilities = Some (case caps of None \<Rightarrow> [] | Some cs \<Rightarrow> cs),
              Tl_LastCheckedAt = Fm_CapturedAt m, Tl_FixturesVersion = Fm_FixturesVersion m\<rparr>
        in case ToolReport_Validate rep of Some e \<Rightarrow> Inl e
           | None \<Rightarrow> (case fixtureReports m rest of Inl e \<Rightarrow> Inl e | Inr rs \<Rightarrow> Inr (rep # rs)))"

definition LoadCapabilitySnapshot ::
  "FixtureMeta doc \<Rightarrow> raw_caps doc \<Rightarrow> cap_err + ToolReport list \<times> FixtureMeta" where
  "LoadCapabilitySnapshot metaDoc capDoc =
     (case metaDoc of DocUnreadable \<Rightarrow> Inl CErrRead | DocMalformed \<Rightarrow> Inl CErrParse
      | DocOf meta0 \<Rightarrow>
          if Fm_FixturesVersion meta0 = [] then Inl CErrEnvelope
          else
            let meta = (if Fm_CapturedAt meta0 = [] then meta0\<lparr>Fm_CapturedAt := ''1970-01-01T00:00:00Z''\<rparr> else meta0)
            in case capDoc of DocUnreadable \<Rightarrow> Inl CErrRead | DocMalformed \<Rightarrow> Inl CErrParse
               | DocOf raw \<Rightarrow> (case fixtureReports meta raw of Inl e \<Rightarrow> Inl e | Inr rs \<Rightarrow> Inr (rs, meta)))"

fun setReports :: "ToolReport list \<Rightarrow> 'p CapReg \<Rightarrow> cap_err option \<times> 'p CapReg" where
  "setReports [] r = (None, r)"
| "setReports (rep # reps) r = (case SetReport rep r of (Some e, r') \<Rightarrow> (Some e, r') | (None, r') \<Rightarrow> setReports reps r')"

definition LoadFixtureBacked :: "FixtureMeta doc \<Rightarrow> raw_caps doc \<Rightarrow> 'p CapReg \<Rightarrow> cap_err option \<times> 'p CapReg" where
  "LoadFixtureBacked metaDoc capDoc r = (case LoadCapabilitySnapshot metaDoc capDoc of Inl e \<Rightarrow> (Some e, r)
     | Inr (reports, meta) \<Rightarrow> setReports reports (SetFixturesVersion (Fm_FixturesVersion meta) r))"

section \<open>The two endpoints\<close>

record MigrationSignal =
  Ms_SchemaVersion :: int
  Ms_AppliedAt :: string
  Ms_Pending :: "string list"
  Ms_Phase :: string

record CompatibilityReport =
  Co_SchemaVersion :: int
  Co_DaemonAPIVersion :: string
  Co_MinDesktopVersion :: string
  Co_EventSchemaVersions :: "(string \<times> int) list"
  Co_MigrationState :: MigrationSignal
  Co_Capabilities :: "CapabilityRegistry option"
  Co_UnsupportedClientWarnings :: "string list"

text \<open>An answer: a document with its status, or a problem with its status and code.\<close>

datatype 'd answer = AnswerDoc int 'd | AnswerProblem int string

definition writeCapabilityJSON :: "('d \<Rightarrow> bool) \<Rightarrow> int \<Rightarrow> 'd \<Rightarrow> 'd answer" where
  "writeCapabilityJSON encodes status payload =
     (if encodes payload then AnswerDoc status payload else AnswerProblem 500 ''daemon.encoding_failed'')"

definition HandleCapabilities ::
  "(CapabilityRegistry \<Rightarrow> bool) \<Rightarrow> string \<Rightarrow> time \<Rightarrow> 'p CapReg \<Rightarrow> CapabilityRegistry answer" where
  "HandleCapabilities encodes meth now r =
     (if meth \<noteq> ''GET'' then AnswerProblem 405 ''capabilities.method_not_allowed''
      else writeCapabilityJSON encodes 200 (Snapshot now r))"

definition HandleCompatibility ::
  "(CompatibilityReport \<Rightarrow> bool) \<Rightarrow> (CapabilityRegistry \<Rightarrow> CompatibilityReport option) \<Rightarrow> string \<Rightarrow> time
     \<Rightarrow> 'p CapReg \<Rightarrow> CompatibilityReport answer" where
  "HandleCompatibility encodes compose meth now r =
     (if meth \<noteq> ''GET'' then AnswerProblem 405 ''compatibility.method_not_allowed''
      else let snap = Snapshot now r in
        case compose snap of None \<Rightarrow> AnswerProblem 500 ''compatibility.composer_returned_nil''
        | Some report \<Rightarrow> writeCapabilityJSON encodes 200
            (report\<lparr>Co_SchemaVersion := 1, Co_Capabilities := Some snap\<rparr>))"

definition StaticCompose ::
  "string \<Rightarrow> (string \<times> int) list \<Rightarrow> MigrationSignal \<Rightarrow> CapabilityRegistry option \<Rightarrow> CompatibilityReport option" where
  "StaticCompose minDesktop versions migration reg = map_option (\<lambda>q.
     \<lparr>Co_SchemaVersion = 1, Co_DaemonAPIVersion = Cs_DaemonAPIVersion q, Co_MinDesktopVersion = minDesktop,
      Co_EventSchemaVersions = versions, Co_MigrationState = migration, Co_Capabilities = reg,
      Co_UnsupportedClientWarnings = []\<rparr>) reg"

end
