(* ===== verification/CapabilityProps.thy ===== *)
theory CapabilityProps
  imports Capabilities SchedMachine
begin

text \<open>
  What the capability registry decides, and how the scheduler's gate relates to it through the
  adapter of \<open>cmd/hoopoe/tending_capabilities.go\<close>.
\<close>

section \<open>The adapter of the scheduler\<close>

definition schedulerStatus :: "CapStatus \<Rightarrow> CapabilityStatus" where
  "schedulerStatus s = (case s of CStatusOK \<Rightarrow> CapabilityStatusOK | CStatusDegraded \<Rightarrow> CapabilityStatusDegraded
     | CStatusMissing \<Rightarrow> CapabilityStatusMissing | CStatusBlockedByPolicy \<Rightarrow> CapabilityStatusBlockedByPolicy
     | CStatusUntested \<Rightarrow> CapabilityStatusUntested | CStatusOther t \<Rightarrow> CapabilityStatusOther t)"

definition schedulerLookup :: "'p CapReg option \<Rightarrow> string \<Rightarrow> CapabilityStatus option" where
  "schedulerLookup a ref = (case a of None \<Rightarrow> None
     | Some r \<Rightarrow> map_option schedulerStatus (LookupCapabilityStatus (Some r) ref))"

definition usable :: "CapStatus option \<Rightarrow> bool" where
  "usable s \<longleftrightarrow> s = Some CStatusOK \<or> s = Some CStatusDegraded"

lemma capReasons_empty:
  "capReasons look refs = [] \<longleftrightarrow> (\<forall>ref\<in>set refs. TrimSpace ref = [] \<or> capProblem look (TrimSpace ref) = None)"
  by (induction refs) (auto simp: Let_def split: option.splits)

lemma capProblem_usable: "capProblem (schedulerLookup (Some r)) ref = None \<longleftrightarrow> usable (lookupStatus r ref)"
  by (auto simp: capProblem_def schedulerLookup_def LookupCapabilityStatus_def schedulerStatus_def usable_def
      split: option.split CapStatus.split)

section \<open>The decision\<close>

text \<open>The render that the lists of a decision call for, most severe first.\<close>

definition verdict :: "FeatureDecision \<Rightarrow> FeatureRender" where
  "verdict d = (if Fd_BlockedByPolicy d \<noteq> [] then RenderBlockedByPolicy
     else if Fd_MissingRequired d \<noteq> [] then RenderUnavailable
     else if Fd_DegradedReasons d \<noteq> [] then RenderDegraded else RenderAvailable)"

lemma step_verdict:
  "Fd_Render d = verdict d \<Longrightarrow> Fd_Render (requiredStep r ref d) = verdict (requiredStep r ref d)"
  "Fd_Render d = verdict d \<Longrightarrow> Fd_Render (optionalStep r ref d) = verdict (optionalStep r ref d)"
  by (auto simp: requiredStep_def optionalStep_def verdict_def Let_def)

lemma fold_verdict:
  "Fd_Render d = verdict d \<Longrightarrow> Fd_Render (fold (requiredStep r) refs d) = verdict (fold (requiredStep r) refs d)"
  "Fd_Render d = verdict d \<Longrightarrow> Fd_Render (fold (optionalStep r) refs d) = verdict (fold (optionalStep r) refs d)"
  by (induction refs arbitrary: d) (auto dest: step_verdict)

abbreviation isBlocked :: "'p CapReg \<Rightarrow> string \<Rightarrow> bool" where
  "isBlocked r ref \<equiv> lookupStatus r ref = Some CStatusBlockedByPolicy"

abbreviation isDegraded :: "'p CapReg \<Rightarrow> string \<Rightarrow> bool" where
  "isDegraded r ref \<equiv> lookupStatus r ref = Some CStatusDegraded"

lemma required_lists:
  "Fd_MissingRequired (fold (requiredStep r) refs d) = Fd_MissingRequired d @ filter (\<lambda>ref. absent (lookupStatus r ref)) refs"
  "Fd_BlockedByPolicy (fold (requiredStep r) refs d) = Fd_BlockedByPolicy d @ filter (isBlocked r) refs"
  "Fd_DegradedReasons (fold (requiredStep r) refs d) = Fd_DegradedReasons d @ filter (isDegraded r) refs"
  "Fd_MissingOptional (fold (requiredStep r) refs d) = Fd_MissingOptional d"
  by (induction refs arbitrary: d) (auto simp: requiredStep_def absent_def Let_def)

lemma optional_lists:
  "Fd_MissingOptional (fold (optionalStep r) refs d) = Fd_MissingOptional d @ filter (\<lambda>ref. absent (lookupStatus r ref)) refs"
  "Fd_DegradedReasons (fold (optionalStep r) refs d) = Fd_DegradedReasons d @ filter (isDegraded r) refs"
  "Fd_MissingRequired (fold (optionalStep r) refs d) = Fd_MissingRequired d"
  "Fd_BlockedByPolicy (fold (optionalStep r) refs d) = Fd_BlockedByPolicy d"
  by (induction refs arbitrary: d) (auto simp: optionalStep_def absent_def Let_def)

lemma Determine_lists:
  assumes "map_of (cr_features r) fid = Some f" and "Determine fid r = Inr d"
  shows "Fd_MissingRequired d = sort (filter (\<lambda>ref. absent (lookupStatus r ref)) (Fr_CapabilitiesRequired f))"
    and "Fd_BlockedByPolicy d = sort (filter (isBlocked r) (Fr_CapabilitiesRequired f))"
    and "Fd_MissingOptional d = sort (filter (\<lambda>ref. absent (lookupStatus r ref)) (Fr_CapabilitiesOptional f))"
    and "Fd_DegradedReasons d = sort (filter (isDegraded r) (Fr_CapabilitiesRequired f @ Fr_CapabilitiesOptional f))"
    and "Fd_Render d = verdict d"
proof -
  let ?e = "fold (optionalStep r) (Fr_CapabilitiesOptional f)
    (fold (requiredStep r) (Fr_CapabilitiesRequired f) (newDecision fid f))"
  have d: "d = ?e\<lparr>Fd_MissingRequired := sort (Fd_MissingRequired ?e), Fd_MissingOptional := sort (Fd_MissingOptional ?e),
      Fd_BlockedByPolicy := sort (Fd_BlockedByPolicy ?e), Fd_DegradedReasons := sort (Fd_DegradedReasons ?e)\<rparr>"
    using assms by (simp add: Determine_def Let_def)
  have "Fd_Render (newDecision fid f) = verdict (newDecision fid f)" by (simp add: newDecision_def verdict_def)
  from fold_verdict(2) [OF fold_verdict(1) [OF this]] have "Fd_Render ?e = verdict ?e" .
  moreover have "sort xs = [] \<longleftrightarrow> xs = []" for xs :: "string list" by (metis set_sort set_empty)
  ultimately show "Fd_Render d = verdict d" by (simp add: d verdict_def)
  show "Fd_MissingRequired d = sort (filter (\<lambda>ref. absent (lookupStatus r ref)) (Fr_CapabilitiesRequired f))"
    "Fd_BlockedByPolicy d = sort (filter (isBlocked r) (Fr_CapabilitiesRequired f))"
    "Fd_MissingOptional d = sort (filter (\<lambda>ref. absent (lookupStatus r ref)) (Fr_CapabilitiesOptional f))"
    "Fd_DegradedReasons d = sort (filter (isDegraded r) (Fr_CapabilitiesRequired f @ Fr_CapabilitiesOptional f))"
    by (simp_all add: d optional_lists required_lists newDecision_def)
qed

text \<open>
  The decision on a feature lists exactly the absent, blocked and degraded capabilities, sorted, and
  its render is the most severe one they call for: a blocked requirement before an absent one,
  that before any degraded capability.
\<close>

theorem determine_verdict:
  assumes "map_of (cr_features r) fid = Some f" and "Determine fid r = Inr d"
  shows "Fd_MissingRequired d = sort (filter (\<lambda>ref. absent (lookupStatus r ref)) (Fr_CapabilitiesRequired f)) \<and>
    Fd_BlockedByPolicy d = sort (filter (isBlocked r) (Fr_CapabilitiesRequired f)) \<and>
    Fd_MissingOptional d = sort (filter (\<lambda>ref. absent (lookupStatus r ref)) (Fr_CapabilitiesOptional f)) \<and>
    Fd_DegradedReasons d = sort (filter (isDegraded r) (Fr_CapabilitiesRequired f @ Fr_CapabilitiesOptional f)) \<and>
    Fd_Render d = verdict d"
  by (intro conjI Determine_lists [OF assms])

text \<open>
  C37. The scheduler's gate lets a job pass exactly when the registry renders a feature of the same
  requirements as available or degraded, as long as the references are not empty and carry no blanks around them, and
  the statuses on record are known ones.
\<close>

theorem gate_follows_determine:
  assumes "map_of (cr_features r) fid = Some f" and "Determine fid r = Inr d"
    and "\<forall>ref\<in>set (Fr_CapabilitiesRequired f). TrimSpace ref = ref \<and> ref \<noteq> []"
    and "\<forall>ref\<in>set (Fr_CapabilitiesRequired f). \<forall>s. lookupStatus r ref = Some s \<longrightarrow> CapStatus_Valid s"
  shows "capReasons (schedulerLookup (Some r)) (Fr_CapabilitiesRequired f) = [] \<longleftrightarrow>
    Fd_Render d = RenderAvailable \<or> Fd_Render d = RenderDegraded"
proof -
  note lists = Determine_lists [OF assms(1,2)]
  have "capReasons (schedulerLookup (Some r)) (Fr_CapabilitiesRequired f) = [] \<longleftrightarrow>
      (\<forall>ref\<in>set (Fr_CapabilitiesRequired f). usable (lookupStatus r ref))"
    using assms(3) by (auto simp: capReasons_empty capProblem_usable)
  also have "\<dots> \<longleftrightarrow> (\<forall>ref\<in>set (Fr_CapabilitiesRequired f). \<not> absent (lookupStatus r ref) \<and> \<not> isBlocked r ref)"
  proof (intro ball_cong refl)
    fix ref assume ref: "ref \<in> set (Fr_CapabilitiesRequired f)"
    show "usable (lookupStatus r ref) \<longleftrightarrow> \<not> absent (lookupStatus r ref) \<and> \<not> isBlocked r ref"
    proof (cases "lookupStatus r ref")
      case (Some s)
      with assms(4) ref have "CapStatus_Valid s" by blast
      with Some show ?thesis by (cases s) (auto simp: usable_def absent_def CapStatus_Valid_def)
    qed (simp add: usable_def absent_def)
  qed
  also have "\<dots> \<longleftrightarrow> Fd_MissingRequired d = [] \<and> Fd_BlockedByPolicy d = []"
  proof -
    have "sort xs = [] \<longleftrightarrow> xs = []" for xs :: "string list" by (metis set_sort set_empty)
    then show ?thesis unfolding lists(1,2) by (auto simp: filter_empty_conv)
  qed
  finally show ?thesis by (auto simp: lists(5) verdict_def)
qed

text \<open>
  With the registry wired in, a run is started only if every capability its job requires is on
  record there as usable.
\<close>

theorem started_run_has_capabilities:
  assumes "resolveDue job t now s = ((run, d), s')" and "Dec_Outcome d = OutcomeStarted"
    and "sr_capabilities s = Some (schedulerLookup (Some caps))"
  shows "TrimSpace ` set (Def_CapabilitiesRequired (SJ_Definition job)) \<subseteq> {[]} \<union> {ref. usable (lookupStatus caps ref)}"
proof -
  from resolveDue_resolved [OF assms(1)] assms(2) have "evaluateRequiredCapabilities s job = []"
    by (simp add: startable_def)
  with assms(3) show ?thesis
    by (auto simp: evaluateRequiredCapabilities_def capReasons_empty capProblem_usable)
qed

section \<open>Where the registry misleads\<close>

definition probed :: "CapStatus \<Rightarrow> unit CapReg" where
  "probed st = Probe 0 (\<lambda>_. ProbeReport \<lparr>Tl_Tool = [], Tl_Version = [], Tl_Source = ''cli'',
       Tl_Capabilities = Some [(''git.push'', \<lparr>Cp_Status = st, Cp_Fallback = [], Cp_Transport = [], Cp_Notes = []\<rparr>)],
       Tl_LastCheckedAt = [], Tl_FixturesVersion = []\<rparr>)
     \<lparr>cr_daemonAPIVersion = ''v1'', cr_fixturesVersion = [], cr_probes = [(''git'', ())], cr_reports = [],
      cr_features = [(''stage.push'', \<lparr>Fr_FeatureID = ''stage.push'', Fr_CapabilitiesRequired = [''git.push''],
        Fr_CapabilitiesOptional = [], Fr_DegradedMode = \<lparr>Dm_IfMissingRequired = BlockJob,
          Dm_IfMissingOptional = ContinueWithWarning, Dm_ActivityBehavior = ActivitySilent\<rparr>\<rparr>)]\<rparr>"

text \<open>
  A probe's report is stored without being validated; a status outside the enumeration then makes
  the feature available, while the scheduler refuses the same requirement.
\<close>

theorem unvalidated_status_is_available:
  "map_sum id Fd_Render (Determine ''stage.push'' (probed (CStatusOther ''''))) = Inr RenderAvailable \<and>
   capReasons (schedulerLookup (Some (probed (CStatusOther '''')))) [''git.push''] = [(''git.push'', CapUnrecognized '''')]"
  by (intro conjI; code_simp)

definition healthFixture :: "raw_caps doc" where
  "healthFixture = DocOf [(''health'', Some [(''health.coverage'',
     \<lparr>Cp_Status = CStatusOK, Cp_Fallback = [], Cp_Transport = [], Cp_Notes = []\<rparr>)])]"

definition fixtureBacked :: "unit CapReg" where
  "fixtureBacked = (case NewCapabilities ''v1'' of Inr r \<Rightarrow>
     snd (LoadFixtureBacked (DocOf \<lparr>Fm_Scenario = ''healthy-hour'', Fm_FixturesVersion = ''1'', Fm_CapturedAt = [],
       Fm_Source = []\<rparr>) healthFixture r))"

text \<open>
  The fixtures list health capabilities under the tool \<open>health\<close>, which the loader renames to
  \<open>health_generic\<close> without renaming the references: no reference reaches them.
\<close>

theorem fixture_health_unreachable:
  "lookupStatus r (''health.'' @ name) = None \<and>
   map fst (Cs_Tools (Snapshot 0 fixtureBacked)) = [''health_generic''] \<and>
   map_option Cp_Status (LookupCapability ''health_generic'' ''health.coverage'' fixtureBacked) = Some CStatusOK \<and>
   lookupStatus fixtureBacked ''health_generic.coverage'' = None"
proof (intro conjI)
  have "Cut (''health.'' @ name) (CHR ''.'') = Some (''health'', name)"
    using Cut_sep [of "CHR ''.''" "''health''" name] by simp
  moreover have "\<not> ToolID_Valid ''health''" by code_simp
  ultimately show "lookupStatus r (''health.'' @ name) = None"
    by (simp add: lookupStatus_def toolFromCapRef_def)
qed code_simp+

section \<open>Witnesses\<close>

lemma probed_facts:
  "map_of (cr_features (probed CStatusDegraded)) ''stage.push'' = Some (snd (hd (cr_features (probed CStatusDegraded))))"
  "Fr_CapabilitiesRequired (snd (hd (cr_features (probed CStatusDegraded)))) = [''git.push'']"
  "lookupStatus (probed CStatusDegraded) ''git.push'' = Some CStatusDegraded" "TrimSpace ''git.push'' = ''git.push''"
  "map_sum id Fd_Render (Determine ''stage.push'' (probed CStatusDegraded)) = Inr RenderDegraded"
  by code_simp+

lemma probed_decision:
  "\<exists>d. Determine ''stage.push'' (probed CStatusDegraded) = Inr d \<and> Fd_Render d = RenderDegraded"
  using probed_facts(5) by (cases "Determine ''stage.push'' (probed CStatusDegraded)") auto

theorem determine_verdict_witness:
  "\<exists>d. Determine ''stage.push'' (probed CStatusDegraded) = Inr d \<and> verdict d = RenderDegraded"
proof -
  obtain d where d: "Determine ''stage.push'' (probed CStatusDegraded) = Inr d" "Fd_Render d = RenderDegraded"
    using probed_decision by blast
  with determine_verdict [OF probed_facts(1) d(1)] show ?thesis by metis
qed

theorem gate_follows_determine_witness:
  "capReasons (schedulerLookup (Some (probed CStatusDegraded))) [''git.push''] = []"
proof -
  obtain d where d: "Determine ''stage.push'' (probed CStatusDegraded) = Inr d" "Fd_Render d = RenderDegraded"
    using probed_decision by blast
  from gate_follows_determine [OF probed_facts(1) d(1)] d(2) probed_facts(2-4) show ?thesis
    by (simp add: CapStatus_Valid_def)
qed

end
