(* ===== verification/ProjectGates.thy ===== *)
theory ProjectGates
  imports GoTime GoStrings ApprovalTypes
begin

text \<open>
  Package \<open>projects/gates\<close>: the facts collected about a project, the eight gates with their checks,
  the life cycle of a project with the gates each transition requires, and the decision on a
  transition with the problem and the audit event it carries. The enums are those of
  \<open>packages/schemas/go/schemas.gen.go\<close>; a string that is none of them is kept under the last constructor.
  The clock is read at several places; \<open>clk\<close> gives the successive readings.
\<close>

section \<open>Life cycle and gates\<close>

datatype LifecycleState = LcImported | LcPlanning | LcPlanFinalized | LcBeadsCreated | LcBeadsFinalized
  | LcSwarmRunning | LcHardeningRounds | LcQualityGates | LcCompleted | LcOther string

datatype ProjectGate = VpsReady | ProjectImported | PlanLocked | GtBeadsCreated | GtBeadsFinalized
  | LaunchReady | HardeningReady | ShipReady | GateOther string

definition Lifecycle_Valid :: "LifecycleState \<Rightarrow> bool" where
  "Lifecycle_Valid s = (case s of LcOther _ \<Rightarrow> False | _ \<Rightarrow> True)"

definition ProjectGate_Valid :: "ProjectGate \<Rightarrow> bool" where
  "ProjectGate_Valid g = (case g of GateOther _ \<Rightarrow> False | _ \<Rightarrow> True)"

definition lifecycleText :: "LifecycleState \<Rightarrow> string" where
  "lifecycleText s = (case s of LcImported \<Rightarrow> ''imported'' | LcPlanning \<Rightarrow> ''planning''
     | LcPlanFinalized \<Rightarrow> ''plan_finalized'' | LcBeadsCreated \<Rightarrow> ''beads_created''
     | LcBeadsFinalized \<Rightarrow> ''beads_finalized'' | LcSwarmRunning \<Rightarrow> ''swarm_running''
     | LcHardeningRounds \<Rightarrow> ''hardening_rounds'' | LcQualityGates \<Rightarrow> ''quality_gates''
     | LcCompleted \<Rightarrow> ''completed'' | LcOther t \<Rightarrow> t)"

definition gateText :: "ProjectGate \<Rightarrow> string" where
  "gateText g = (case g of VpsReady \<Rightarrow> ''vps_ready'' | ProjectImported \<Rightarrow> ''project_imported''
     | PlanLocked \<Rightarrow> ''plan_locked'' | GtBeadsCreated \<Rightarrow> ''beads_created''
     | GtBeadsFinalized \<Rightarrow> ''beads_finalized'' | LaunchReady \<Rightarrow> ''launch_ready''
     | HardeningReady \<Rightarrow> ''hardening_ready'' | ShipReady \<Rightarrow> ''ship_ready'' | GateOther t \<Rightarrow> t)"

section \<open>Facts\<close>

record VPSFacts =
  Vf_SSHVerified :: bool
  Vf_DaemonReachable :: bool
  Vf_ACFSInstalled :: bool
  Vf_ACFSSkipped :: bool
  Vf_ToolVersions :: "(string \<times> string) list"
  Vf_ToolVersionsRecorded :: bool

record ProjectFacts =
  Pf_GitRepoPresent :: bool
  Pf_Branch :: string
  Pf_BranchKnown :: bool
  Pf_AgentsMDPresent :: bool
  Pf_HoopoeInitialized :: bool
  Pf_ToolDetectionDone :: bool

record PlanFacts =
  Nf_PlanID :: string
  Nf_Locked :: bool
  Nf_SelfContained :: bool
  Nf_DecisionsExplicit :: bool
  Nf_TestingStrategyPresent :: bool
  Nf_UnresolvedDecisionsAccepted :: bool

record BeadsCreatedFacts =
  Bc_LinkedPlanBeads :: int
  Bc_IssuesJSONLFlushed :: bool
  Bc_ConversionArtifactsSaved :: bool
  Bc_ArtifactIDs :: "string list"

record BeadsFinalizedFacts =
  Bf_CoverageChecked :: bool
  Bf_DependenciesChecked :: bool
  Bf_ReadySetSufficient :: bool
  Bf_ReadyCount :: int
  Bf_ClarityAcceptable :: bool
  Bf_TestabilityAcceptable :: bool

record LaunchFacts =
  Lf_NTMHealthy :: bool
  Lf_AgentMailHealthy :: bool
  Lf_BVRobotHealthy :: bool
  Lf_BRReadyNonempty :: bool
  Lf_BRReadyCount :: int
  Lf_IntentionallyScoped :: bool
  Lf_BuildQueuePolicySet :: bool

record HardeningFacts =
  Hf_ImplementationClosedOrDeferred :: bool
  Hf_NoStuckInProgress :: bool
  Hf_InProgressCount :: int
  Hf_StuckCount :: int
  Hf_ReviewPromptsAvailable :: bool

record ShipFacts =
  Sf_TestsBuildsPass :: bool
  Sf_TestBuildExceptions :: "string list"
  Sf_CodeHealthPass :: bool
  Sf_FollowUpBeads :: "string list"
  Sf_GitSynced :: bool
  Sf_BeadsSynced :: bool

record GateSnapshot =
  Gs_ProjectID :: string
  Gs_CurrentState :: LifecycleState
  Gs_CheckedAt :: time
  Gs_VPS :: VPSFacts
  Gs_Project :: ProjectFacts
  Gs_Plan :: PlanFacts
  Gs_BeadsCreated :: BeadsCreatedFacts
  Gs_BeadsFinalized :: BeadsFinalizedFacts
  Gs_Launch :: LaunchFacts
  Gs_Hardening :: HardeningFacts
  Gs_Ship :: ShipFacts

section \<open>Checks\<close>

definition hasTrimmed :: "string list \<Rightarrow> bool" where
  "hasTrimmed items \<longleftrightarrow> list_ex (\<lambda>item. TrimSpace item \<noteq> []) items"

definition hasToolVersions :: "VPSFacts \<Rightarrow> bool" where
  "hasToolVersions f \<longleftrightarrow> Vf_ToolVersionsRecorded f \<or>
     list_ex (\<lambda>(name, version). TrimSpace name \<noteq> [] \<and> TrimSpace version \<noteq> []) (Vf_ToolVersions f)"

definition branchKnown :: "ProjectFacts \<Rightarrow> bool" where
  "branchKnown f \<longleftrightarrow> Pf_BranchKnown f \<or> TrimSpace (Pf_Branch f) \<noteq> []"

record checkDefinition =
  chk_id :: string
  chk_detail :: string
  chk_ok :: "GateSnapshot \<Rightarrow> bool"

record gateDefinition =
  gd_gate :: ProjectGate
  gd_label :: string
  gd_checks :: "checkDefinition list"

abbreviation chk :: "string \<Rightarrow> string \<Rightarrow> (GateSnapshot \<Rightarrow> bool) \<Rightarrow> checkDefinition" where
  "chk i d p \<equiv> \<lparr>chk_id = i, chk_detail = d, chk_ok = p\<rparr>"

definition gateDefinitions :: "gateDefinition list" where
  "gateDefinitions =
    [\<lparr>gd_gate = VpsReady, gd_label = ''VPS ready'', gd_checks =
       [chk ''vps.ssh_verified'' ''SSH has not been verified for the VPS'' (\<lambda>s. Vf_SSHVerified (Gs_VPS s)),
        chk ''vps.daemon_reachable'' ''Hoopoe daemon is not reachable on the VPS'' (\<lambda>s. Vf_DaemonReachable (Gs_VPS s)),
        chk ''vps.acfs_resolved'' ''ACFS must be installed or intentionally skipped''
          (\<lambda>s. Vf_ACFSInstalled (Gs_VPS s) \<or> Vf_ACFSSkipped (Gs_VPS s)),
        chk ''vps.tool_versions_recorded'' ''tool versions have not been recorded'' (\<lambda>s. hasToolVersions (Gs_VPS s))]\<rparr>,
     \<lparr>gd_gate = ProjectImported, gd_label = ''Project imported'', gd_checks =
       [chk ''git.repo_present'' ''no git repository at project root'' (\<lambda>s. Pf_GitRepoPresent (Gs_Project s)),
        chk ''git.branch_known'' ''project branch is unknown'' (\<lambda>s. branchKnown (Gs_Project s)),
        chk ''agents.md'' ''AGENTS.md is missing'' (\<lambda>s. Pf_AgentsMDPresent (Gs_Project s)),
        chk ''hoopoe.dir'' ''.hoopoe/ is not initialized'' (\<lambda>s. Pf_HoopoeInitialized (Gs_Project s)),
        chk ''tools.detected'' ''tool detection has not completed'' (\<lambda>s. Pf_ToolDetectionDone (Gs_Project s))]\<rparr>,
     \<lparr>gd_gate = PlanLocked, gd_label = ''Plan locked'', gd_checks =
       [chk ''plan.locked'' ''plan is not locked'' (\<lambda>s. Nf_Locked (Gs_Plan s)),
        chk ''plan.self_contained'' ''plan is not self-contained'' (\<lambda>s. Nf_SelfContained (Gs_Plan s)),
        chk ''plan.decisions_explicit'' ''major decisions are not explicit'' (\<lambda>s. Nf_DecisionsExplicit (Gs_Plan s)),
        chk ''plan.testing_strategy_present'' ''testing strategy is missing'' (\<lambda>s. Nf_TestingStrategyPresent (Gs_Plan s)),
        chk ''plan.unresolved_decisions_accepted'' ''unresolved decisions must be listed or accepted''
          (\<lambda>s. Nf_UnresolvedDecisionsAccepted (Gs_Plan s))]\<rparr>,
     \<lparr>gd_gate = GtBeadsCreated, gd_label = ''Beads created'', gd_checks =
       [chk ''br.beads_linked_to_plan'' ''br has no beads linked to the plan'' (\<lambda>s. Bc_LinkedPlanBeads (Gs_BeadsCreated s) > 0),
        chk ''beads.issues_jsonl_flushed'' ''.beads/issues.jsonl has not been flushed''
          (\<lambda>s. Bc_IssuesJSONLFlushed (Gs_BeadsCreated s)),
        chk ''beads.conversion_artifacts_saved'' ''bead conversion artifacts are not saved''
          (\<lambda>s. Bc_ConversionArtifactsSaved (Gs_BeadsCreated s) \<or> hasTrimmed (Bc_ArtifactIDs (Gs_BeadsCreated s)))]\<rparr>,
     \<lparr>gd_gate = GtBeadsFinalized, gd_label = ''Beads finalized'', gd_checks =
       [chk ''beads.coverage_checked'' ''plan-to-bead coverage has not been checked''
          (\<lambda>s. Bf_CoverageChecked (Gs_BeadsFinalized s)),
        chk ''beads.dependencies_checked'' ''bead dependencies have not been checked''
          (\<lambda>s. Bf_DependenciesChecked (Gs_BeadsFinalized s)),
        chk ''beads.ready_set_sufficient'' ''ready bead set is not sufficient''
          (\<lambda>s. Bf_ReadySetSufficient (Gs_BeadsFinalized s) \<or> Bf_ReadyCount (Gs_BeadsFinalized s) > 0),
        chk ''beads.clarity_acceptable'' ''bead clarity is not acceptable'' (\<lambda>s. Bf_ClarityAcceptable (Gs_BeadsFinalized s)),
        chk ''beads.testability_acceptable'' ''bead testability is not acceptable''
          (\<lambda>s. Bf_TestabilityAcceptable (Gs_BeadsFinalized s))]\<rparr>,
     \<lparr>gd_gate = LaunchReady, gd_label = ''Launch ready'', gd_checks =
       [chk ''ntm.healthy'' ''NTM is not healthy'' (\<lambda>s. Lf_NTMHealthy (Gs_Launch s)),
        chk ''agent_mail.healthy'' ''Agent Mail is not healthy'' (\<lambda>s. Lf_AgentMailHealthy (Gs_Launch s)),
        chk ''bv.robot_healthy'' ''bv robot surface is not healthy'' (\<lambda>s. Lf_BVRobotHealthy (Gs_Launch s)),
        chk ''br.ready_nonempty_or_intentionally_scoped''
          ''br ready --json is empty and scope was not intentionally accepted''
          (\<lambda>s. Lf_BRReadyNonempty (Gs_Launch s) \<or> Lf_BRReadyCount (Gs_Launch s) > 0 \<or> Lf_IntentionallyScoped (Gs_Launch s)),
        chk ''build_queue.policy_set'' ''build queue policy is not set'' (\<lambda>s. Lf_BuildQueuePolicySet (Gs_Launch s))]\<rparr>,
     \<lparr>gd_gate = HardeningReady, gd_label = ''Hardening ready'', gd_checks =
       [chk ''implementation.closed_or_deferred'' ''implementation beads are not closed or intentionally deferred''
          (\<lambda>s. Hf_ImplementationClosedOrDeferred (Gs_Hardening s)),
        chk ''beads.no_stuck_in_progress'' ''stuck in-progress beads are present''
          (\<lambda>s. Hf_NoStuckInProgress (Gs_Hardening s) \<and> Hf_StuckCount (Gs_Hardening s) = 0),
        chk ''review.prompts_available'' ''review prompts are not available'' (\<lambda>s. Hf_ReviewPromptsAvailable (Gs_Hardening s))]\<rparr>,
     \<lparr>gd_gate = ShipReady, gd_label = ''Ship ready'', gd_checks =
       [chk ''tests_builds.pass_or_exceptions'' ''tests/builds have not passed and no exceptions are documented''
          (\<lambda>s. Sf_TestsBuildsPass (Gs_Ship s) \<or> hasTrimmed (Sf_TestBuildExceptions (Gs_Ship s))),
        chk ''code_health.pass_or_followups'' ''code health gates have not passed and no follow-up beads exist''
          (\<lambda>s. Sf_CodeHealthPass (Gs_Ship s) \<or> hasTrimmed (Sf_FollowUpBeads (Gs_Ship s))),
        chk ''git.synced'' ''Git is not synced'' (\<lambda>s. Sf_GitSynced (Gs_Ship s)),
        chk ''beads.synced'' ''beads are not synced'' (\<lambda>s. Sf_BeadsSynced (Gs_Ship s))]\<rparr>]"

definition canonicalGateOrder :: "ProjectGate list" where
  "canonicalGateOrder = [VpsReady, ProjectImported, PlanLocked, GtBeadsCreated, GtBeadsFinalized, LaunchReady,
     HardeningReady, ShipReady]"

definition transitionDefinitions :: "((LifecycleState \<times> LifecycleState) \<times> ProjectGate list) list" where
  "transitionDefinitions =
    [((LcImported, LcPlanning), [VpsReady, ProjectImported]),
     ((LcPlanning, LcPlanFinalized), [VpsReady, PlanLocked]),
     ((LcPlanFinalized, LcBeadsCreated), [VpsReady, GtBeadsCreated]),
     ((LcBeadsCreated, LcBeadsFinalized), [VpsReady, GtBeadsFinalized]),
     ((LcBeadsFinalized, LcSwarmRunning), [VpsReady, LaunchReady]),
     ((LcSwarmRunning, LcHardeningRounds), [VpsReady, HardeningReady]),
     ((LcHardeningRounds, LcQualityGates), [VpsReady, ShipReady]),
     ((LcQualityGates, LcCompleted), [VpsReady, ShipReady])]"

definition RequiredGates :: "LifecycleState \<Rightarrow> LifecycleState \<Rightarrow> ProjectGate list option" where
  "RequiredGates from to = map_of transitionDefinitions (from, to)"

section \<open>Evaluation\<close>

datatype gate_err = GErrInvalidInput | GErrUnknownGate

record GateCheck =
  Gc_Id :: string
  Gc_Ok :: bool
  Gc_Detail :: "string option"

record ReadinessGate =
  Rg_Gate :: ProjectGate
  Rg_Satisfied :: bool
  Rg_Checks :: "GateCheck list"
  Rg_BlockingCount :: int

record ProjectReadiness =
  Pr_SchemaVersion :: int
  Pr_ProjectId :: string
  Pr_CheckedAt :: time
  Pr_CurrentLifecycleState :: "LifecycleState option"
  Pr_Gates :: "ReadinessGate list"

definition noReadiness :: ProjectReadiness where
  "noReadiness = \<lparr>Pr_SchemaVersion = 0, Pr_ProjectId = [], Pr_CheckedAt = 0, Pr_CurrentLifecycleState = None,
     Pr_Gates = []\<rparr>"

definition gateDefinitionFor :: "ProjectGate \<Rightarrow> gateDefinition option" where
  "gateDefinitionFor g = find (\<lambda>d. gd_gate d = g) gateDefinitions"

definition evaluateCheck :: "GateSnapshot \<Rightarrow> checkDefinition \<Rightarrow> GateCheck" where
  "evaluateCheck s c = \<lparr>Gc_Id = chk_id c, Gc_Ok = chk_ok c s,
     Gc_Detail = (if chk_ok c s then None else Some (chk_detail c))\<rparr>"

definition EvaluateGate :: "GateSnapshot \<Rightarrow> ProjectGate \<Rightarrow> gate_err + ReadinessGate" where
  "EvaluateGate s g = (case gateDefinitionFor g of None \<Rightarrow> Inl GErrUnknownGate
     | Some d \<Rightarrow>
         let checks = map (evaluateCheck s) (gd_checks d);
             blocking = length (filter (\<lambda>c. \<not> Gc_Ok c) checks)
         in Inr \<lparr>Rg_Gate = g, Rg_Satisfied = (blocking = 0), Rg_Checks = checks, Rg_BlockingCount = int blocking\<rparr>)"

definition selectedGates :: "ProjectGate list \<Rightarrow> gate_err + (ProjectGate \<Rightarrow> bool) option" where
  "selectedGates filters = (if filters = [] then Inr None
     else if list_ex (\<lambda>g. \<not> ProjectGate_Valid g) filters then Inl GErrUnknownGate
     else Inr (Some (\<lambda>g. g \<in> set filters)))"

fun evaluateLoop :: "GateSnapshot \<Rightarrow> (ProjectGate \<Rightarrow> bool) option \<Rightarrow> ProjectGate list \<Rightarrow> gate_err + ReadinessGate list" where
  "evaluateLoop s selected [] = Inr []"
| "evaluateLoop s selected (g # gs) =
     (if selected \<noteq> None \<and> \<not> the selected g then evaluateLoop s selected gs
      else case EvaluateGate s g of Inl e \<Rightarrow> Inl e
        | Inr r \<Rightarrow> (case evaluateLoop s selected gs of Inl e \<Rightarrow> Inl e | Inr rs \<Rightarrow> Inr (r # rs)))"

definition EvaluateGates :: "time \<Rightarrow> GateSnapshot \<Rightarrow> ProjectGate list \<Rightarrow> gate_err + ProjectReadiness" where
  "EvaluateGates now s filters =
     (let projectID = TrimSpace (Gs_ProjectID s) in
      if projectID = [] then Inl GErrInvalidInput
      else case selectedGates filters of Inl e \<Rightarrow> Inl e
        | Inr selected \<Rightarrow>
            (case evaluateLoop s selected canonicalGateOrder of Inl e \<Rightarrow> Inl e
             | Inr gates \<Rightarrow> Inr \<lparr>Pr_SchemaVersion = 1, Pr_ProjectId = projectID,
                 Pr_CheckedAt = (if isZero (Gs_CheckedAt s) then now else Gs_CheckedAt s),
                 Pr_CurrentLifecycleState = (if Lifecycle_Valid (Gs_CurrentState s) then Some (Gs_CurrentState s) else None),
                 Pr_Gates = gates\<rparr>))"

section \<open>Identifiers\<close>

text \<open>
  \<open>sanitizeID\<close> keeps the allowed characters and replaces every run of others by one dash. The code
  walks over code points, the model over bytes: no byte of a longer code point is allowed, and a run
  gives one dash either way. Packages \<open>gates\<close> and \<open>swarm/flip\<close> differ in the characters allowed.
\<close>

definition alnum :: "char \<Rightarrow> bool" where
  "alnum c \<longleftrightarrow> (let n = (of_char c :: nat) in (97 \<le> n \<and> n \<le> 122) \<or> (65 \<le> n \<and> n \<le> 90) \<or> (48 \<le> n \<and> n \<le> 57))"

fun dashRuns :: "(char \<Rightarrow> bool) \<Rightarrow> bool \<Rightarrow> string \<Rightarrow> string" where
  "dashRuns allowed lastDash [] = []"
| "dashRuns allowed lastDash (c # cs) =
     (if allowed c then c # dashRuns allowed False cs
      else if lastDash then dashRuns allowed True cs else CHR ''-'' # dashRuns allowed True cs)"

definition trimDashes :: "string \<Rightarrow> string" where
  "trimDashes s = rev (dropWhile (\<lambda>c. c = CHR ''-'') (rev (dropWhile (\<lambda>c. c = CHR ''-'') s)))"

definition gateIDChar :: "char \<Rightarrow> bool" where
  "gateIDChar c \<longleftrightarrow> alnum c \<or> c \<in> set ''_-.:''"

definition sanitizeID :: "string \<Rightarrow> string" where
  "sanitizeID value = (let out = trimDashes (dashRuns gateIDChar False (TrimSpace value)) in
     if out = [] then ''event'' else out)"

section \<open>Transitions\<close>

record GateTransitionRequest =
  Tr_ProjectID :: string
  Tr_From :: LifecycleState
  Tr_To :: LifecycleState
  Tr_Actor :: Actor
  Tr_Reason :: string
  Tr_CorrelationID :: string
  Tr_CausationID :: string
  Tr_At :: time

text \<open>The fields of a problem that the package sets; the others stay nil.\<close>

record Problem =
  Pb_Type :: string
  Pb_Code :: string
  Pb_Title :: string
  Pb_Status :: int
  Pb_Detail :: "string option"
  Pb_Instance :: "string option"
  Pb_CorrelationId :: "string option"
  Pb_Retryable :: "bool option"
  Pb_Capability :: "string option"

record TransitionAuditEvent =
  Ta_SchemaVersion :: int
  Ta_EventID :: string
  Ta_ProjectID :: string
  Ta_Action :: string
  Ta_Result :: string
  Ta_Actor :: Actor
  Ta_From :: LifecycleState
  Ta_To :: LifecycleState
  Ta_RequiredGates :: "ProjectGate list"
  Ta_BlockingGate :: "ProjectGate option"
  Ta_MissingCheckIDs :: "string list"
  Ta_Reason :: string
  Ta_CorrelationID :: string
  Ta_CausationID :: string
  Ta_At :: time

record TransitionDecision =
  Td_Allowed :: bool
  Td_RequiredGates :: "ProjectGate list"
  Td_Readiness :: ProjectReadiness
  Td_BlockingGate :: "ReadinessGate option"
  Td_Problem :: "Problem option"
  Td_AuditEvent :: TransitionAuditEvent

text \<open>\<open>UnixNano\<close> counts from 1 January 1970 in 64 bits.\<close>

definition UnixNano :: "time \<Rightarrow> int" where
  "UnixNano t = wrap64 (t - 719162 * nsPerDay)"

fun joinComma :: "string list \<Rightarrow> string" where
  "joinComma [] = []"
| "joinComma [s] = s"
| "joinComma (s # t # ss) = s @ '', '' @ joinComma (t # ss)"

definition missingCheckIDs :: "ReadinessGate \<Rightarrow> string list" where
  "missingCheckIDs g = map Gc_Id (filter (\<lambda>c. \<not> Gc_Ok c) (Rg_Checks g))"

definition transitionProblemID :: "string \<Rightarrow> time \<Rightarrow> string" where
  "transitionProblemID code at = sanitizeID (code @ '':'' @ fmtInt 1 (UnixNano at))"

definition transitionEventID ::
  "string \<Rightarrow> LifecycleState \<Rightarrow> LifecycleState \<Rightarrow> time \<Rightarrow> string \<Rightarrow> string" where
  "transitionEventID projectID from to at correlationID =
     (let trimmed = TrimSpace correlationID in
      if trimmed \<noteq> [] then sanitizeID trimmed
      else sanitizeID (''gate-transition:'' @ projectID @ '':'' @ lifecycleText from @ '':'' @ lifecycleText to @ '':'' @
        fmtInt 1 (UnixNano at)))"

definition transitionCorrelationID :: "string \<Rightarrow> GateTransitionRequest \<Rightarrow> time \<Rightarrow> string" where
  "transitionCorrelationID projectID req at =
     (let trimmed = TrimSpace (Tr_CorrelationID req) in
      if trimmed \<noteq> [] then trimmed else transitionEventID projectID (Tr_From req) (Tr_To req) at [])"

definition transitionProblem ::
  "int \<Rightarrow> string \<Rightarrow> string \<Rightarrow> string \<Rightarrow> string \<Rightarrow> string \<Rightarrow> time \<Rightarrow> string \<Rightarrow> Problem" where
  "transitionProblem status code title ptype detail gate at correlationID =
     (let eid0 = sanitizeID (TrimSpace correlationID);
          eid = (if eid0 = [] then transitionProblemID code at else eid0)
      in \<lparr>Pb_Type = ptype, Pb_Code = code, Pb_Title = title, Pb_Status = status, Pb_Detail = Some detail,
          Pb_Instance = Some (''urn:hoopoe:incident:'' @ eid), Pb_CorrelationId = Some eid,
          Pb_Retryable = Some (status = 422 \<or> status = 409),
          Pb_Capability = (if gate = [] then None else Some gate)\<rparr>)"

definition gateAuditEvent ::
  "GateSnapshot \<Rightarrow> GateTransitionRequest \<Rightarrow> string \<Rightarrow> string \<Rightarrow> ProjectGate list \<Rightarrow> ProjectGate option \<Rightarrow> string list
     \<Rightarrow> time \<Rightarrow> TransitionAuditEvent" where
  "gateAuditEvent s req action result required blocking missing at =
     (let eid = transitionEventID (Gs_ProjectID s) (Tr_From req) (Tr_To req) at (Tr_CorrelationID req);
          cid = TrimSpace (Tr_CorrelationID req)
      in \<lparr>Ta_SchemaVersion = 1, Ta_EventID = eid, Ta_ProjectID = Gs_ProjectID s, Ta_Action = action,
          Ta_Result = result, Ta_Actor = Tr_Actor req, Ta_From = Tr_From req, Ta_To = Tr_To req,
          Ta_RequiredGates = required, Ta_BlockingGate = blocking, Ta_MissingCheckIDs = missing,
          Ta_Reason = TrimSpace (Tr_Reason req), Ta_CorrelationID = (if cid = [] then eid else cid),
          Ta_CausationID = TrimSpace (Tr_CausationID req), Ta_At = at\<rparr>)"

definition rejectedDecision ::
  "time \<Rightarrow> GateSnapshot \<Rightarrow> GateTransitionRequest \<Rightarrow> ProjectGate list \<Rightarrow> ReadinessGate option \<Rightarrow> Problem \<Rightarrow> time
     \<Rightarrow> TransitionDecision" where
  "rejectedDecision now s req required blocking problem at =
     \<lparr>Td_Allowed = False, Td_RequiredGates = required,
      Td_Readiness = (if required = [] then noReadiness
        else case EvaluateGates now s required of Inl _ \<Rightarrow> noReadiness | Inr r \<Rightarrow> r),
      Td_BlockingGate = blocking, Td_Problem = Some problem,
      Td_AuditEvent = gateAuditEvent s req ''project.lifecycle_transition_rejected'' ''failure'' required
        (map_option Rg_Gate blocking) (case blocking of None \<Rightarrow> [] | Some g \<Rightarrow> missingCheckIDs g) at\<rparr>"

definition invalidTransition :: "string \<Rightarrow> time \<Rightarrow> string \<Rightarrow> Problem" where
  "invalidTransition detail at cid = transitionProblem 400 ''project.invalid_lifecycle_transition''
     ''Invalid lifecycle transition'' ''urn:hoopoe:projects/invalid-lifecycle-transition'' detail [] at cid"

definition conflictProblem :: "GateSnapshot \<Rightarrow> GateTransitionRequest \<Rightarrow> time \<Rightarrow> string \<Rightarrow> Problem" where
  "conflictProblem s req at cid = transitionProblem 409 ''project.lifecycle_conflict'' ''Lifecycle state conflict''
     ''urn:hoopoe:projects/lifecycle-conflict''
     (''project is currently '' @ lifecycleText (Gs_CurrentState s) @ ''; transition expected current state '' @
       lifecycleText (Tr_From req)) [] at cid"

definition blockedProblem :: "ReadinessGate \<Rightarrow> GateTransitionRequest \<Rightarrow> time \<Rightarrow> string \<Rightarrow> Problem" where
  "blockedProblem g req at cid = transitionProblem 422 ''project.gate_blocked'' ''Project gate blocked''
     ''urn:hoopoe:projects/gate-blocked''
     (''transition '' @ lifecycleText (Tr_From req) @ '' -> '' @ lifecycleText (Tr_To req) @ '' is blocked by gate '' @
       gateText (Rg_Gate g) @ '': '' @ joinComma (missingCheckIDs g)) (gateText (Rg_Gate g)) at cid"

text \<open>The body of \<open>EvaluateTransition\<close> once the project, the instant and the correlation id are settled.\<close>

definition decideTransition ::
  "(nat \<Rightarrow> time) \<Rightarrow> GateSnapshot \<Rightarrow> GateTransitionRequest \<Rightarrow> time \<Rightarrow> string \<Rightarrow> gate_err + TransitionDecision" where
  "decideTransition clk s req at cid =
     (if \<not> Lifecycle_Valid (Tr_From req) \<or> \<not> Lifecycle_Valid (Tr_To req) then
        Inr (rejectedDecision (clk 1) s req [] None
          (invalidTransition ''from and to must be known project lifecycle states'' at cid) at)
      else case RequiredGates (Tr_From req) (Tr_To req) of
        None \<Rightarrow> Inr (rejectedDecision (clk 1) s req [] None
          (invalidTransition (''transition '' @ lifecycleText (Tr_From req) @ '' -> '' @ lifecycleText (Tr_To req) @
             '' is not an allowed adjacent project lifecycle transition'') at cid) at)
      | Some required \<Rightarrow>
          if Lifecycle_Valid (Gs_CurrentState s) \<and> Gs_CurrentState s \<noteq> Tr_From req then
            Inr (rejectedDecision (clk 1) s req required None (conflictProblem s req at cid) at)
          else
            let s1 = s\<lparr>Gs_CurrentState := Tr_From req\<rparr>
            in case EvaluateGates (clk 1) s1 required of Inl e \<Rightarrow> Inl e
               | Inr readiness \<Rightarrow>
                   (case find (\<lambda>g. \<not> Rg_Satisfied g) (Pr_Gates readiness) of
                      Some g \<Rightarrow> Inr (rejectedDecision (clk 2) s1 req required (Some g) (blockedProblem g req at cid) at)
                    | None \<Rightarrow> Inr \<lparr>Td_Allowed = True, Td_RequiredGates = required, Td_Readiness = readiness,
                        Td_BlockingGate = None, Td_Problem = None,
                        Td_AuditEvent = gateAuditEvent s1 req ''project.lifecycle_transition_allowed'' ''success''
                          required None [] at\<rparr>))"

definition EvaluateTransition ::
  "(nat \<Rightarrow> time) \<Rightarrow> GateSnapshot \<Rightarrow> GateTransitionRequest \<Rightarrow> gate_err + TransitionDecision" where
  "EvaluateTransition clk s0 req =
     (let projectID = (if TrimSpace (Tr_ProjectID req) = [] then TrimSpace (Gs_ProjectID s0)
            else TrimSpace (Tr_ProjectID req));
          at = (if \<not> isZero (Tr_At req) then Tr_At req
            else if isZero (Gs_CheckedAt s0) then clk 0 else Gs_CheckedAt s0)
      in if projectID = [] then Inl GErrInvalidInput
         else decideTransition clk (s0\<lparr>Gs_ProjectID := projectID\<rparr>) req at (transitionCorrelationID projectID req at))"

section \<open>The tables as they are published\<close>

definition gateTable :: "(ProjectGate \<times> string \<times> string list) list" where
  "gateTable = map (\<lambda>d. (gd_gate d, gd_label d, map chk_id (gd_checks d))) gateDefinitions"

end
