(* ===== verification/Flip.thy ===== *)
theory Flip
  imports ProjectGates GoStamp GoPath GoEncoding GoDuration
begin

text \<open>
  Package \<open>swarm/flip\<close>: the change of a project from the implementation swarm to hardening. \<open>BuildPlan\<close>
  passes the gate, waits for the agents to drain, writes a snapshot of the implementation, and
  switches the tending jobs; \<open>EvaluateReturn\<close> decides on going back.

  SHA-256, the JSON texts and reading a snapshot are parameters (\<open>flip_codec\<close>). Files are a map
  from paths to contents. \<open>sort.Slice\<close> may order equal elements in any way; the model keeps their order.
\<close>

section \<open>Types\<close>

datatype flip_err = FErrInvalidInput | FErrInvalidResolution | FErrSnapshotMismatch | FErrGate gate_err
  | FErrEncode | FErrMkdir | FErrWrite | FErrRead | FErrDecode

datatype FlipState = StateRefused | StateDraining | StateAwaitingDrainResolution | StateCompleted

datatype DrainState = DrainComplete | DrainInProgress | DrainAwaitingResolution

datatype BeadStatus = BeadUnset | BeadInProgress | BeadCompleted | BeadClosed | BeadDeferred | BeadOther string

datatype DrainResolution = ResolutionCarryToHardening | ResolutionDefer | ResolutionOther string

datatype PatchAction = PatchPause | PatchResume | PatchCreate | PatchRetune | PatchNoChange

record OverrideApproval =
  Oa_ApprovalID :: string
  Oa_Approved :: bool
  Oa_Reason :: string
  Oa_Actor :: Actor
  Oa_DecidedAt :: time

record FlipGateDecision =
  Fg_Satisfied :: bool
  Fg_OverrideAccepted :: bool
  Fg_ApprovalID :: string
  Fg_MissingCheckIDs :: "string list"
  Fg_Readiness :: ProjectReadiness
  Fg_Problem :: "Problem option"

record InFlightBead =
  If_BeadID :: string
  If_AgentID :: string
  If_Status :: BeadStatus
  If_StartedAt :: time
  If_LastActivityAt :: time

record DrainInput =
  Di_GraceStartedAt :: time
  Di_Now :: time
  Di_GraceWindow :: duration
  Di_InFlight :: "InFlightBead list"
  Di_Resolutions :: "(string \<times> DrainResolution) list"

record DrainChoice =
  Dc_BeadID :: string
  Dc_AgentID :: string
  Dc_Choices :: "string list"
  Dc_GraceExpired :: bool
  Dc_Deadline :: time

record DrainResolutionRecord =
  Dr_BeadID :: string
  Dr_AgentID :: string
  Dr_Resolution :: DrainResolution

record DrainReport =
  Dn_State :: DrainState
  Dn_InFlightCount :: int
  Dn_CompletedCount :: int
  Dn_UnresolvedCount :: int
  Dn_CarryCount :: int
  Dn_DeferCount :: int
  Dn_GraceStartedAt :: time
  Dn_GraceEndsAt :: time
  Dn_GraceRemaining :: duration
  Dn_RequiredChoices :: "DrainChoice list"
  Dn_Resolved :: "DrainResolutionRecord list"

record BeadSnapshot =
  Bs_Status :: string
  Bs_AssignedAgentID :: string
  Bs_UpdatedAt :: time

record AgentSnapshot =
  As_LastClaimedBeadID :: string
  As_FinalStatus :: string
  As_LastActivityAt :: time

record BuildQueueSnapshot =
  Bq_Running :: int
  Bq_Queued :: int
  Bq_Blocked :: bool
  Bq_JobIDs :: "string list"

record BranchPushStatus =
  Bp_Branch :: string
  Bp_LastPushedSHA :: string
  Bp_PushedAt :: time
  Bp_Clean :: bool

text \<open>A nil map and an empty one are told apart where the code does: both are read as \<open>[]\<close> here.\<close>

record ImplementationSnapshot =
  Im_SchemaVersion :: int
  Im_FlipID :: string
  Im_ProjectID :: string
  Im_ImplementationSwarmID :: string
  Im_CapturedAt :: time
  Im_Beads :: "(string \<times> BeadSnapshot) list"
  Im_Agents :: "(string \<times> AgentSnapshot) list"
  Im_MailThreadIndexHashes :: "(string \<times> string) list"
  Im_BuildQueue :: BuildQueueSnapshot
  Im_PushStatus :: "(string \<times> BranchPushStatus) list"
  Im_FirstSequence :: int
  Im_LastSequence :: int
  Im_Metadata :: "(string \<times> string) list"

record SnapshotManifest =
  Sm_SchemaVersion :: int
  Sm_FlipID :: string
  Sm_ProjectID :: string
  Sm_ArtifactID :: string
  Sm_Path :: string
  Sm_SHA256 :: string
  Sm_SizeBytes :: int
  Sm_FieldCount :: int
  Sm_WrittenAt :: time

record ReviewAgentSpec =
  Ra_Role :: string
  Ra_Harness :: string
  Ra_Count :: int

record HardeningLaunchSpec =
  Hl_SwarmID :: string
  Hl_ReviewTopicID :: string
  Hl_KickoffPromptTemplateID :: string
  Hl_KickoffPromptVersion :: string
  Hl_Composition :: "ReviewAgentSpec list"
  Hl_Skills :: "string list"
  Hl_Round0AutoStart :: bool
  Hl_FindingLedgerInitialized :: bool
  Hl_Metadata :: "(string \<times> string) list"

record TendingJob =
  Tj_ID :: string
  Tj_Paused :: bool
  Tj_Cadence :: duration
  Tj_Mode :: string

record TendingSwitchPlan =
  Ts_Pause :: "string list"
  Ts_Activate :: "TendingJob list"
  Ts_Retune :: "(string \<times> duration) list"

record TendingJobPatch =
  Tp_JobID :: string
  Tp_Action :: PatchAction
  Tp_FromPaused :: bool
  Tp_ToPaused :: bool
  Tp_FromCadence :: duration
  Tp_ToCadence :: duration

record TendingSwitchResult =
  Tw_IdempotencyKey :: string
  Tw_Jobs :: "TendingJob list"
  Tw_Patches :: "TendingJobPatch list"
  Tw_PausedCount :: int
  Tw_ActivatedCount :: int
  Tw_RetunedCount :: int
  Tw_Warnings :: "string list"

record UIFlipEvent =
  Ui_SchemaVersion :: int
  Ui_EventID :: string
  Ui_Type :: string
  Ui_ProjectID :: string
  Ui_FlipID :: string
  Ui_ImplementationSwarmID :: string
  Ui_HardeningSwarmID :: string
  Ui_Route :: string
  Ui_ActiveStage :: string
  Ui_SwarmMode :: string
  Ui_SwarmStatePill :: string
  Ui_BeadBoardFilters :: "string list"
  Ui_ConvergenceMounted :: bool
  Ui_At :: time

record UIState =
  Us_ProjectID :: string
  Us_ActiveStage :: string
  Us_Route :: string
  Us_SwarmMode :: string
  Us_SwarmStatePill :: string
  Us_BeadBoardFilters :: "string list"
  Us_ConvergenceMounted :: bool
  Us_AppliedEventID :: string

record FlipAuditEvent =
  Fa_SchemaVersion :: int
  Fa_EventID :: string
  Fa_Action :: string
  Fa_Result :: string
  Fa_ProjectID :: string
  Fa_FlipID :: string
  Fa_ImplementationSwarmID :: string
  Fa_HardeningSwarmID :: string
  Fa_Actor :: Actor
  Fa_CorrelationID :: string
  Fa_At :: time
  Fa_Data :: "(string \<times> string) list"

record FlipRequest =
  Fq_FlipID :: string
  Fq_ProjectID :: string
  Fq_ImplementationSwarmID :: string
  Fq_Actor :: Actor
  Fq_GateSnapshot :: GateSnapshot
  Fq_Override :: "OverrideApproval option"
  Fq_Drain :: DrainInput
  Fq_Snapshot :: ImplementationSnapshot
  Fq_SnapshotRoot :: string
  Fq_Hardening :: HardeningLaunchSpec
  Fq_TendingJobs :: "TendingJob list"
  Fq_TendingPlan :: TendingSwitchPlan
  Fq_Now :: time
  Fq_ReversibilityWindow :: duration
  Fq_Metadata :: "(string \<times> string) list"

text \<open>The parts of a plan that a branch leaves unset are \<open>None\<close>.\<close>

record FlipPlan =
  Pl_SchemaVersion :: int
  Pl_FlipID :: string
  Pl_ProjectID :: string
  Pl_ImplementationSwarmID :: string
  Pl_HardeningSwarmID :: string
  Pl_State :: FlipState
  Pl_StartedAt :: time
  Pl_CompletedAt :: "time option"
  Pl_ReversibleUntil :: "time option"
  Pl_Gate :: "FlipGateDecision option"
  Pl_Drain :: "DrainReport option"
  Pl_Snapshot :: "SnapshotManifest option"
  Pl_Hardening :: "HardeningLaunchSpec option"
  Pl_Tending :: "TendingSwitchResult option"
  Pl_UI :: "UIFlipEvent option"
  Pl_Problem :: "Problem option"
  Pl_Audit :: "FlipAuditEvent list"
  Pl_Metadata :: "(string \<times> string) list"

record ReturnDecision =
  Rt_Allowed :: bool
  Rt_RequiresApproval :: bool
  Rt_Reason :: string
  Rt_ReversibleUntil :: time
  Rt_CarryBackBeads :: "string list"
  Rt_RestoreImplementationJobs :: bool
  Rt_HaltHardeningSwarm :: bool
  Rt_ApprovalAction :: "CommandSpec option"

record flip_codec =
  fl_snapshotJSON :: "ImplementationSnapshot \<Rightarrow> string option"
  fl_readSnapshot :: "string \<Rightarrow> ImplementationSnapshot option"
  fl_jobsJSON :: "TendingJob list \<Rightarrow> string option"
  fl_sha256 :: "string \<Rightarrow> string"

section \<open>Helpers\<close>

definition flipIDChar :: "char \<Rightarrow> bool" where
  "flipIDChar c \<longleftrightarrow> alnum c \<or> c \<in> set ''_-.''"

definition flipSanitizeID :: "string \<Rightarrow> string" where
  "flipSanitizeID value = trimDashes (dashRuns flipIDChar False (TrimSpace value))"

definition uniqueSortedStrings :: "string list \<Rightarrow> string list" where
  "uniqueSortedStrings values = sort (remdups (filter (\<lambda>v. v \<noteq> []) (map TrimSpace values)))"

definition normalizeDuration :: "duration \<Rightarrow> duration \<Rightarrow> duration" where
  "normalizeDuration value fallback = (if value \<le> 0 then fallback else value)"

definition DefaultDrainGrace :: duration where
  "DefaultDrainGrace = 10 * nsPerMinute"

definition DefaultReversibilityWindow :: duration where
  "DefaultReversibilityWindow = 24 * 60 * nsPerMinute"

definition generatedFlipID :: "flip_codec \<Rightarrow> string \<Rightarrow> string \<Rightarrow> time \<Rightarrow> string" where
  "generatedFlipID c projectID swarmID at = ''flip-'' @ hexEncode (take 6
     (fl_sha256 c (projectID @ [CHR 0x00] @ swarmID @ [CHR 0x00] @ rfc3339Nano at)))"

definition missingGateCheckIDs :: "ReadinessGate \<Rightarrow> string list" where
  "missingGateCheckIDs g = sort (missingCheckIDs g)"

definition gateBlockedProblem :: "string \<Rightarrow> string list \<Rightarrow> Problem" where
  "gateBlockedProblem flipID missing = \<lparr>Pb_Type = ''urn:hoopoe:swarms/hardening-gate-blocked'',
     Pb_Code = ''project.gate_blocked'', Pb_Title = ''Hardening gate blocked'', Pb_Status = 422,
     Pb_Detail = Some (''hardening_ready gate is blocked'' @ (if missing = [] then [] else '': '' @ joinComma missing)),
     Pb_Instance = Some (''urn:hoopoe:incident:'' @ flipSanitizeID flipID),
     Pb_CorrelationId = Some (flipSanitizeID flipID), Pb_Retryable = Some True,
     Pb_Capability = Some ''hardening_ready''\<rparr>"

definition flipAuditEvent ::
  "string \<Rightarrow> string \<Rightarrow> Actor \<Rightarrow> string \<Rightarrow> string \<Rightarrow> string \<Rightarrow> string \<Rightarrow> time \<Rightarrow> (string \<times> string) list \<Rightarrow> FlipAuditEvent" where
  "flipAuditEvent action result actor projectID flipID implID hardID at data =
     \<lparr>Fa_SchemaVersion = 1, Fa_EventID = flipSanitizeID (flipID @ '':'' @ action), Fa_Action = action,
      Fa_Result = result, Fa_ProjectID = projectID, Fa_FlipID = flipID, Fa_ImplementationSwarmID = implID,
      Fa_HardeningSwarmID = hardID, Fa_Actor = actor, Fa_CorrelationID = flipID, Fa_At = at, Fa_Data = data\<rparr>"

section \<open>Gate and drain\<close>

definition EvaluateHardeningGate ::
  "GateSnapshot \<Rightarrow> string \<Rightarrow> string \<Rightarrow> OverrideApproval option \<Rightarrow> time \<Rightarrow> flip_err + FlipGateDecision" where
  "EvaluateHardeningGate s0 projectID flipID override now =
     (let pid = TrimSpace projectID;
          s = s0\<lparr>Gs_ProjectID := pid, Gs_CheckedAt := (if isZero (Gs_CheckedAt s0) then now else Gs_CheckedAt s0)\<rparr>
      in if pid = [] then Inl FErrInvalidInput
         else case EvaluateGates now s [HardeningReady] of Inl e \<Rightarrow> Inl (FErrGate e)
         | Inr readiness \<Rightarrow>
           (case Pr_Gates readiness of
              [gate] \<Rightarrow>
                let dec = \<lparr>Fg_Satisfied = Rg_Satisfied gate, Fg_OverrideAccepted = False, Fg_ApprovalID = [],
                      Fg_MissingCheckIDs = [], Fg_Readiness = readiness, Fg_Problem = None\<rparr>;
                    blocked = dec\<lparr>Fg_MissingCheckIDs := missingGateCheckIDs gate\<rparr>
                in if Rg_Satisfied gate then Inr dec
                   else (case override of
                      Some o' \<Rightarrow>
                        if Oa_Approved o' then
                          if TrimSpace (Oa_ApprovalID o') = [] \<or> \<not> ActorKind_Valid (Actor_Kind (Oa_Actor o'))
                          then Inl FErrInvalidInput
                          else Inr (blocked\<lparr>Fg_Satisfied := True, Fg_OverrideAccepted := True,
                            Fg_ApprovalID := TrimSpace (Oa_ApprovalID o')\<rparr>)
                        else Inr (blocked\<lparr>Fg_Problem := Some (gateBlockedProblem flipID (missingGateCheckIDs gate))\<rparr>)
                    | None \<Rightarrow> Inr (blocked\<lparr>Fg_Problem := Some (gateBlockedProblem flipID (missingGateCheckIDs gate))\<rparr>))
            | _ \<Rightarrow> Inl FErrInvalidInput))"

definition normalizeInFlightBead :: "InFlightBead \<Rightarrow> flip_err + InFlightBead \<times> bool" where
  "normalizeInFlightBead b0 =
     (let b = b0\<lparr>If_BeadID := TrimSpace (If_BeadID b0), If_AgentID := TrimSpace (If_AgentID b0),
            If_Status := (if If_Status b0 = BeadUnset then BeadInProgress else If_Status b0)\<rparr>
      in if If_BeadID b = [] then Inl FErrInvalidInput
         else case If_Status b of BeadInProgress \<Rightarrow> Inr (b, True) | BeadCompleted \<Rightarrow> Inr (b, False)
           | BeadClosed \<Rightarrow> Inr (b, False) | BeadDeferred \<Rightarrow> Inr (b, False) | _ \<Rightarrow> Inl FErrInvalidInput)"

definition resolveBead :: "InFlightBead \<Rightarrow> DrainResolution \<Rightarrow> DrainReport \<Rightarrow> flip_err + DrainReport" where
  "resolveBead b res r =
     (let r' = r\<lparr>Dn_Resolved := Dn_Resolved r @
            [\<lparr>Dr_BeadID = If_BeadID b, Dr_AgentID = If_AgentID b, Dr_Resolution = res\<rparr>]\<rparr>
      in case res of ResolutionCarryToHardening \<Rightarrow> Inr (r'\<lparr>Dn_CarryCount := Dn_CarryCount r + 1\<rparr>)
         | ResolutionDefer \<Rightarrow> Inr (r'\<lparr>Dn_DeferCount := Dn_DeferCount r + 1\<rparr>)
         | ResolutionOther _ \<Rightarrow> Inl FErrInvalidResolution)"

definition unresolvedBead :: "InFlightBead \<Rightarrow> time \<Rightarrow> time \<Rightarrow> DrainReport \<Rightarrow> DrainReport" where
  "unresolvedBead b now ends r =
     (let r' = r\<lparr>Dn_UnresolvedCount := Dn_UnresolvedCount r + 1\<rparr>
      in if now < ends then r'\<lparr>Dn_State := DrainInProgress\<rparr>
         else r'\<lparr>Dn_State := DrainAwaitingResolution, Dn_RequiredChoices := Dn_RequiredChoices r @
           [\<lparr>Dc_BeadID = If_BeadID b, Dc_AgentID = If_AgentID b, Dc_Choices = [''carry_to_hardening'', ''defer''],
             Dc_GraceExpired = True, Dc_Deadline = ends\<rparr>]\<rparr>)"

fun drainLoop ::
  "(string \<times> DrainResolution) list \<Rightarrow> time \<Rightarrow> time \<Rightarrow> InFlightBead list \<Rightarrow> DrainReport \<Rightarrow> flip_err + DrainReport" where
  "drainLoop resolutions now ends [] r = Inr r"
| "drainLoop resolutions now ends (b # bs) r =
     (case normalizeInFlightBead b of Inl e \<Rightarrow> Inl e
      | Inr (n, False) \<Rightarrow> drainLoop resolutions now ends bs (r\<lparr>Dn_CompletedCount := Dn_CompletedCount r + 1\<rparr>)
      | Inr (n, True) \<Rightarrow>
          let r1 = r\<lparr>Dn_InFlightCount := Dn_InFlightCount r + 1\<rparr>
          in case map_of resolutions (If_BeadID n) of
               Some res \<Rightarrow> (case resolveBead n res r1 of Inl e \<Rightarrow> Inl e
                 | Inr r2 \<Rightarrow> drainLoop resolutions now ends bs r2)
             | None \<Rightarrow> drainLoop resolutions now ends bs (unresolvedBead n now ends r1))"

definition EvaluateDrain :: "time \<Rightarrow> DrainInput \<Rightarrow> time \<Rightarrow> flip_err + DrainReport" where
  "EvaluateDrain wall input fallbackNow =
     (let now = (if \<not> isZero (Di_Now input) then Di_Now input else if isZero fallbackNow then wall else fallbackNow);
          started = (if isZero (Di_GraceStartedAt input) then now else Di_GraceStartedAt input);
          ends = started + normalizeDuration (Di_GraceWindow input) DefaultDrainGrace;
          r0 = \<lparr>Dn_State = DrainComplete, Dn_InFlightCount = 0, Dn_CompletedCount = 0, Dn_UnresolvedCount = 0,
            Dn_CarryCount = 0, Dn_DeferCount = 0, Dn_GraceStartedAt = started, Dn_GraceEndsAt = ends,
            Dn_GraceRemaining = max 0 (go_sub ends now), Dn_RequiredChoices = [], Dn_Resolved = []\<rparr>
      in case drainLoop (Di_Resolutions input) now ends (Di_InFlight input) r0 of Inl e \<Rightarrow> Inl e
         | Inr r \<Rightarrow> Inr (r\<lparr>Dn_Resolved := sort_key Dr_BeadID (Dn_Resolved r),
             Dn_RequiredChoices := sort_key Dc_BeadID (Dn_RequiredChoices r),
             Dn_State := (if Dn_UnresolvedCount r = 0 then DrainComplete else Dn_State r)\<rparr>))"

section \<open>Snapshots\<close>

definition flipNormalizeSnapshot :: "time \<Rightarrow> ImplementationSnapshot \<Rightarrow> ImplementationSnapshot" where
  "flipNormalizeSnapshot wall s = s\<lparr>Im_SchemaVersion := 1, Im_ProjectID := TrimSpace (Im_ProjectID s),
     Im_FlipID := TrimSpace (Im_FlipID s), Im_ImplementationSwarmID := TrimSpace (Im_ImplementationSwarmID s),
     Im_CapturedAt := (if isZero (Im_CapturedAt s) then wall else Im_CapturedAt s),
     Im_BuildQueue := (Im_BuildQueue s)\<lparr>Bq_JobIDs := uniqueSortedStrings (Bq_JobIDs (Im_BuildQueue s))\<rparr>\<rparr>"

definition marshalSnapshot :: "flip_codec \<Rightarrow> ImplementationSnapshot \<Rightarrow> flip_err + string" where
  "marshalSnapshot c s = (case fl_snapshotJSON c s of None \<Rightarrow> Inl FErrEncode | Some d \<Rightarrow> Inr (d @ [CHR 0x0A]))"

definition snapshotFieldCount :: "ImplementationSnapshot \<Rightarrow> int" where
  "snapshotFieldCount s = int (length (Im_Beads s) + length (Im_Agents s) + length (Im_MailThreadIndexHashes s) +
     length (Im_PushStatus s) + length (Bq_JobIDs (Im_BuildQueue s)) + 2)"

definition ManifestForSnapshot ::
  "flip_codec \<Rightarrow> time \<Rightarrow> ImplementationSnapshot \<Rightarrow> string \<Rightarrow> time \<Rightarrow> flip_err + SnapshotManifest" where
  "ManifestForSnapshot c wall s path writtenAt =
     (let n = flipNormalizeSnapshot wall s in
      case marshalSnapshot c n of Inl e \<Rightarrow> Inl e
      | Inr data \<Rightarrow>
          let sum = fl_sha256 c data in
          Inr \<lparr>Sm_SchemaVersion = 1, Sm_FlipID = Im_FlipID n, Sm_ProjectID = Im_ProjectID n,
            Sm_ArtifactID = ''hardening-snapshot:'' @ Im_FlipID n @ '':'' @ hexEncode (take 8 sum), Sm_Path = path,
            Sm_SHA256 = hexEncode sum, Sm_SizeBytes = int (length data), Sm_FieldCount = snapshotFieldCount n,
            Sm_WrittenAt = (if \<not> isZero writtenAt then writtenAt
              else if \<not> isZero (Im_CapturedAt n) then Im_CapturedAt n else wall)\<rparr>)"

text \<open>What may go wrong: the directory cannot be made, or the write leaves only a part.\<close>

datatype snap_fault = SnapOk | SnapMkdir | SnapWrite string

type_synonym snap_files = "string \<Rightarrow> string option"

definition snapshotPath :: "string \<Rightarrow> string \<Rightarrow> string \<Rightarrow> string" where
  "snapshotPath root projectID flipID = JoinPath (JoinPath root
     (projectID @ ''/hardening-snapshots/'' @ flipID)) ''implementation-state.json''"

definition WriteImplementationSnapshot ::
  "flip_codec \<Rightarrow> snap_fault \<Rightarrow> time \<Rightarrow> string \<Rightarrow> ImplementationSnapshot \<Rightarrow> time \<Rightarrow> snap_files
     \<Rightarrow> (flip_err + SnapshotManifest) \<times> snap_files" where
  "WriteImplementationSnapshot c io wall root0 s writtenAt fs =
     (let root = TrimSpace root0; n = flipNormalizeSnapshot wall s in
      if root = [] \<or> Im_ProjectID n = [] \<or> Im_FlipID n = [] then (Inl FErrInvalidInput, fs)
      else case marshalSnapshot c n of Inl e \<Rightarrow> (Inl e, fs)
      | Inr data \<Rightarrow>
          let path = snapshotPath root (Im_ProjectID n) (Im_FlipID n) in
          (case io of SnapMkdir \<Rightarrow> (Inl FErrMkdir, fs)
           | SnapWrite part \<Rightarrow> (Inl FErrWrite, fs(path \<mapsto> part))
           | SnapOk \<Rightarrow> (ManifestForSnapshot c wall n path writtenAt, fs(path \<mapsto> data))))"

definition ReadImplementationSnapshot ::
  "flip_codec \<Rightarrow> time \<Rightarrow> string \<Rightarrow> snap_files \<Rightarrow> flip_err + ImplementationSnapshot \<times> SnapshotManifest" where
  "ReadImplementationSnapshot c wall path0 fs =
     (let path = TrimSpace path0 in
      if path = [] then Inl FErrInvalidInput
      else case fs path of None \<Rightarrow> Inl FErrRead
      | Some data \<Rightarrow> (case fl_readSnapshot c data of None \<Rightarrow> Inl FErrDecode
          | Some s \<Rightarrow> (case ManifestForSnapshot c wall s path 0 of Inl e \<Rightarrow> Inl e
              | Inr m \<Rightarrow> Inr (flipNormalizeSnapshot wall s, m))))"

text \<open>\<open>strings.EqualFold\<close> with a text of hexadecimal digits, which have no case partners beyond ASCII.\<close>

definition lowerASCII :: "char \<Rightarrow> char" where
  "lowerASCII ch = (if CHR ''A'' \<le> ch \<and> ch \<le> CHR ''Z'' then char_of (of_char ch + 32 :: nat) else ch)"

definition EqualFoldASCII :: "string \<Rightarrow> string \<Rightarrow> bool" where
  "EqualFoldASCII a b \<longleftrightarrow> map lowerASCII a = map lowerASCII b"

definition VerifySnapshot :: "flip_codec \<Rightarrow> time \<Rightarrow> string \<Rightarrow> string \<Rightarrow> snap_files \<Rightarrow> flip_err + SnapshotManifest" where
  "VerifySnapshot c wall path expected fs = (case ReadImplementationSnapshot c wall path fs of Inl e \<Rightarrow> Inl e
     | Inr (_, m) \<Rightarrow> if EqualFoldASCII (Sm_SHA256 m) (TrimSpace expected) then Inr m else Inl FErrSnapshotMismatch)"

section \<open>Launch and tending jobs\<close>

definition NormalizeHardeningSpec :: "string \<Rightarrow> string \<Rightarrow> HardeningLaunchSpec \<Rightarrow> HardeningLaunchSpec" where
  "NormalizeHardeningSpec projectID0 flipID0 h =
     (let projectID = flipSanitizeID projectID0; flipID = flipSanitizeID flipID0;
          orElse = (\<lambda>v d. if TrimSpace v = [] then d else v)
      in h\<lparr>Hl_SwarmID := orElse (Hl_SwarmID h) (''hardening-'' @ flipID),
        Hl_ReviewTopicID := orElse (Hl_ReviewTopicID h) (''review-'' @ projectID @ ''-'' @ flipID),
        Hl_KickoffPromptTemplateID := orElse (Hl_KickoffPromptTemplateID h) ''swarm-kickoff-hardening'',
        Hl_KickoffPromptVersion := orElse (Hl_KickoffPromptVersion h) ''1'',
        Hl_Composition := (if Hl_Composition h = [] then
            [\<lparr>Ra_Role = ''fresh_eyes'', Ra_Harness = ''claude-code'', Ra_Count = 1\<rparr>,
             \<lparr>Ra_Role = ''cross_agent_reviewer'', Ra_Harness = ''codex-cli'', Ra_Count = 2\<rparr>]
          else Hl_Composition h),
        Hl_Skills := uniqueSortedStrings (if Hl_Skills h = [] then [''vibing-with-ntm'', ''ntm'', ''ubs'']
          else Hl_Skills h),
        Hl_Round0AutoStart := True, Hl_FindingLedgerInitialized := True\<rparr>)"

definition DefaultTendingSwitchPlan :: TendingSwitchPlan where
  "DefaultTendingSwitchPlan = \<lparr>Ts_Pause = [''drift-check''],
     Ts_Activate =
       [\<lparr>Tj_ID = ''review-round-driver'', Tj_Paused = False, Tj_Cadence = nsPerMinute, Tj_Mode = ''hardening''\<rparr>,
        \<lparr>Tj_ID = ''finding-triage-helper'', Tj_Paused = False, Tj_Cadence = 2 * nsPerMinute, Tj_Mode = ''hardening''\<rparr>,
        \<lparr>Tj_ID = ''convergence-watcher'', Tj_Paused = False, Tj_Cadence = 2 * nsPerMinute, Tj_Mode = ''hardening''\<rparr>],
     Ts_Retune = [(''tend-swarm'', 2 * nsPerMinute)]\<rparr>"

definition TendingPlan_Empty :: "TendingSwitchPlan \<Rightarrow> bool" where
  "TendingPlan_Empty p \<longleftrightarrow> Ts_Pause p = [] \<and> Ts_Activate p = [] \<and> Ts_Retune p = []"

type_synonym job_map = "(string \<times> TendingJob) list"

fun collectJobs :: "TendingJob list \<Rightarrow> job_map \<Rightarrow> flip_err + job_map" where
  "collectJobs [] jobs = Inr jobs"
| "collectJobs (j # js) jobs =
     (let i = TrimSpace (Tj_ID j) in
      if i = [] \<or> map_of jobs i \<noteq> None then Inl FErrInvalidInput
      else collectJobs js (AList.update i (j\<lparr>Tj_ID := i\<rparr>) jobs))"

record switch_state =
  ss_jobs :: job_map
  ss_patches :: "TendingJobPatch list"
  ss_paused :: int
  ss_activated :: int
  ss_retuned :: int
  ss_warnings :: "string list"

definition patch :: "string \<Rightarrow> PatchAction \<Rightarrow> TendingJobPatch" where
  "patch i a = \<lparr>Tp_JobID = i, Tp_Action = a, Tp_FromPaused = False, Tp_ToPaused = False, Tp_FromCadence = 0,
     Tp_ToCadence = 0\<rparr>"

definition pauseStep :: "string \<Rightarrow> switch_state \<Rightarrow> switch_state" where
  "pauseStep i s = (case map_of (ss_jobs s) i of
      None \<Rightarrow> s\<lparr>ss_warnings := ss_warnings s @ [''pause target not found: '' @ i]\<rparr>
    | Some job \<Rightarrow> if Tj_Paused job then s
        else s\<lparr>ss_patches := ss_patches s @ [(patch i PatchPause)\<lparr>Tp_ToPaused := True\<rparr>], ss_paused := ss_paused s + 1,
          ss_jobs := AList.update i (job\<lparr>Tj_Paused := True\<rparr>) (ss_jobs s)\<rparr>)"

text \<open>An activated job that exists: resumed, retuned and given the mode, each where it differs.\<close>

definition activateExisting :: "string \<Rightarrow> TendingJob \<Rightarrow> TendingJob \<Rightarrow> switch_state \<Rightarrow> switch_state" where
  "activateExisting i job old s =
     (let resume = Tj_Paused old \<and> \<not> Tj_Paused job;
          retune = Tj_Cadence job > 0 \<and> Tj_Cadence old \<noteq> Tj_Cadence job
      in s\<lparr>ss_patches := ss_patches s @
             (if resume then [(patch i PatchResume)\<lparr>Tp_FromPaused := True\<rparr>] else []) @
             (if retune then [(patch i PatchRetune)\<lparr>Tp_FromCadence := Tj_Cadence old, Tp_ToCadence := Tj_Cadence job\<rparr>]
              else []),
           ss_activated := ss_activated s + (if resume then 1 else 0),
           ss_retuned := ss_retuned s + (if retune then 1 else 0),
           ss_jobs := AList.update i (old\<lparr>Tj_Paused := (if resume then False else Tj_Paused old),
             Tj_Cadence := (if retune then Tj_Cadence job else Tj_Cadence old),
             Tj_Mode := (if Tj_Mode job \<noteq> [] then Tj_Mode job else Tj_Mode old)\<rparr>) (ss_jobs s)\<rparr>)"

definition activateStep :: "TendingJob \<Rightarrow> switch_state \<Rightarrow> flip_err + switch_state" where
  "activateStep job0 s =
     (let i = TrimSpace (Tj_ID job0); job = job0\<lparr>Tj_ID := i\<rparr> in
      if i = [] then Inl FErrInvalidInput
      else case map_of (ss_jobs s) i of
        None \<Rightarrow> Inr (s\<lparr>ss_patches := ss_patches s @
            [(patch i PatchCreate)\<lparr>Tp_ToPaused := Tj_Paused job, Tp_ToCadence := Tj_Cadence job\<rparr>],
          ss_activated := ss_activated s + 1, ss_jobs := AList.update i job (ss_jobs s)\<rparr>)
      | Some old \<Rightarrow> Inr (activateExisting i job old s))"

definition retuneStep :: "string \<Rightarrow> duration \<Rightarrow> switch_state \<Rightarrow> flip_err + switch_state" where
  "retuneStep i cadence s =
     (if cadence \<le> 0 then Inl FErrInvalidInput
      else case map_of (ss_jobs s) i of
        None \<Rightarrow> Inr (s\<lparr>ss_warnings := ss_warnings s @ [''retune target not found: '' @ i]\<rparr>)
      | Some job \<Rightarrow> if Tj_Cadence job = cadence then Inr s
          else Inr (s\<lparr>ss_patches := ss_patches s @
              [(patch i PatchRetune)\<lparr>Tp_FromCadence := Tj_Cadence job, Tp_ToCadence := cadence\<rparr>],
            ss_retuned := ss_retuned s + 1, ss_jobs := AList.update i (job\<lparr>Tj_Cadence := cadence\<rparr>) (ss_jobs s)\<rparr>))"

fun foldSteps :: "('a \<Rightarrow> 's \<Rightarrow> flip_err + 's) \<Rightarrow> 'a list \<Rightarrow> 's \<Rightarrow> flip_err + 's" where
  "foldSteps f [] s = Inr s"
| "foldSteps f (x # xs) s = (case f x s of Inl e \<Rightarrow> Inl e | Inr s' \<Rightarrow> foldSteps f xs s')"

definition sortedTendingJobs :: "job_map \<Rightarrow> TendingJob list" where
  "sortedTendingJobs jobs = map (\<lambda>i. the (map_of jobs i)) (sort (keys jobs))"

definition tendingIdempotencyKey :: "flip_codec \<Rightarrow> TendingJob list \<Rightarrow> string" where
  "tendingIdempotencyKey c jobs = (case fl_jobsJSON c jobs of None \<Rightarrow> ''tending-switch:unhashable''
     | Some data \<Rightarrow> ''tending-switch:'' @ hexEncode (take 8 (fl_sha256 c data)))"

definition SwitchTendingJobs :: "flip_codec \<Rightarrow> TendingJob list \<Rightarrow> TendingSwitchPlan \<Rightarrow> flip_err + TendingSwitchResult" where
  "SwitchTendingJobs c current plan0 =
     (let plan = (if TendingPlan_Empty plan0 then DefaultTendingSwitchPlan else plan0) in
      case collectJobs current [] of Inl e \<Rightarrow> Inl e
      | Inr jobs \<Rightarrow>
          let s0 = \<lparr>ss_jobs = jobs, ss_patches = [], ss_paused = 0, ss_activated = 0, ss_retuned = 0, ss_warnings = []\<rparr>;
              s1 = fold pauseStep (uniqueSortedStrings (Ts_Pause plan)) s0
          in case foldSteps activateStep (sort_key Tj_ID (Ts_Activate plan)) s1 of Inl e \<Rightarrow> Inl e
             | Inr s2 \<Rightarrow>
               (case foldSteps (\<lambda>i. retuneStep i (the (map_of (Ts_Retune plan) i))) (sort (keys (Ts_Retune plan))) s2 of
                  Inl e \<Rightarrow> Inl e
                | Inr s3 \<Rightarrow>
                    let out = sortedTendingJobs (ss_jobs s3) in
                    Inr \<lparr>Tw_IdempotencyKey = tendingIdempotencyKey c out, Tw_Jobs = out, Tw_Patches = ss_patches s3,
                      Tw_PausedCount = ss_paused s3, Tw_ActivatedCount = ss_activated s3,
                      Tw_RetunedCount = ss_retuned s3, Tw_Warnings = sort (ss_warnings s3)\<rparr>))"

section \<open>User interface events\<close>

definition BuildUIFlipEvent :: "time \<Rightarrow> string \<Rightarrow> string \<Rightarrow> string \<Rightarrow> string \<Rightarrow> time \<Rightarrow> UIFlipEvent" where
  "BuildUIFlipEvent wall projectID flipID implID hardID at =
     \<lparr>Ui_SchemaVersion = 1,
      Ui_EventID = flipSanitizeID (''ui:'' @ TrimSpace flipID @ '':hardening_flip_completed''),
      Ui_Type = ''hardening_flip_completed'', Ui_ProjectID = TrimSpace projectID, Ui_FlipID = TrimSpace flipID,
      Ui_ImplementationSwarmID = TrimSpace implID, Ui_HardeningSwarmID = TrimSpace hardID,
      Ui_Route = ''/projects/'' @ TrimSpace projectID @ ''/hardening'', Ui_ActiveStage = ''04'',
      Ui_SwarmMode = ''hardening'', Ui_SwarmStatePill = ''Hardening (round 0)'',
      Ui_BeadBoardFilters = [''in_review'', ''needs_human''], Ui_ConvergenceMounted = True,
      Ui_At = (if isZero at then wall else at)\<rparr>"

definition newerEvent :: "UIFlipEvent \<Rightarrow> UIFlipEvent option \<Rightarrow> UIFlipEvent option" where
  "newerEvent ev latest =
     (if Ui_Type ev \<noteq> ''hardening_flip_completed'' then latest
      else case latest of None \<Rightarrow> Some ev
        | Some l \<Rightarrow> if Ui_At ev > Ui_At l \<or> Ui_At ev = Ui_At l \<and> Ui_EventID ev > Ui_EventID l then Some ev else latest)"

definition CoalesceUIFlipEvents :: "UIFlipEvent list \<Rightarrow> UIState" where
  "CoalesceUIFlipEvents events = (case fold newerEvent events None of
      None \<Rightarrow> \<lparr>Us_ProjectID = [], Us_ActiveStage = [], Us_Route = [], Us_SwarmMode = [], Us_SwarmStatePill = [],
        Us_BeadBoardFilters = [], Us_ConvergenceMounted = False, Us_AppliedEventID = []\<rparr>
    | Some l \<Rightarrow> \<lparr>Us_ProjectID = Ui_ProjectID l, Us_ActiveStage = Ui_ActiveStage l, Us_Route = Ui_Route l,
        Us_SwarmMode = Ui_SwarmMode l, Us_SwarmStatePill = Ui_SwarmStatePill l,
        Us_BeadBoardFilters = Ui_BeadBoardFilters l, Us_ConvergenceMounted = Ui_ConvergenceMounted l,
        Us_AppliedEventID = Ui_EventID l\<rparr>)"

section \<open>The plan\<close>

definition flipStart :: "flip_codec \<Rightarrow> FlipRequest \<Rightarrow> time \<Rightarrow> string \<Rightarrow> string \<Rightarrow> FlipPlan" where
  "flipStart c req now projectID implID =
     (let flipID = (if TrimSpace (Fq_FlipID req) = [] then generatedFlipID c projectID implID now
            else TrimSpace (Fq_FlipID req))
      in \<lparr>Pl_SchemaVersion = 1, Pl_FlipID = flipID, Pl_ProjectID = projectID, Pl_ImplementationSwarmID = implID,
          Pl_HardeningSwarmID = [], Pl_State = StateDraining, Pl_StartedAt = now, Pl_CompletedAt = None,
          Pl_ReversibleUntil = None, Pl_Gate = None, Pl_Drain = None, Pl_Snapshot = None, Pl_Hardening = None,
          Pl_Tending = None, Pl_UI = None, Pl_Problem = None,
          Pl_Audit = [flipAuditEvent ''hardening_flip_initiated'' ''started'' (Fq_Actor req) projectID flipID implID [] now
            [(''drainGrace'', Duration_String (normalizeDuration (Di_GraceWindow (Fq_Drain req)) DefaultDrainGrace))]],
          Pl_Metadata = Fq_Metadata req\<rparr>)"

definition refuse :: "FlipGateDecision \<Rightarrow> FlipPlan \<Rightarrow> FlipPlan" where
  "refuse gate p = p\<lparr>Pl_State := StateRefused, Pl_Problem := Fg_Problem gate,
     Pl_Audit := (case Pl_Audit p of [] \<Rightarrow> []
       | a # as \<Rightarrow> a\<lparr>Fa_Result := ''rejected'', Fa_Data := AList.update ''missingCheckIds''
           (Join (Fg_MissingCheckIDs gate) (CHR '','')) (Fa_Data a)\<rparr> # as)\<rparr>"

definition addAudit :: "string \<Rightarrow> string \<Rightarrow> Actor \<Rightarrow> string \<Rightarrow> time \<Rightarrow> (string \<times> string) list \<Rightarrow> FlipPlan \<Rightarrow> FlipPlan" where
  "addAudit action result actor hardID now data p = p\<lparr>Pl_Audit := Pl_Audit p @
     [flipAuditEvent action result actor (Pl_ProjectID p) (Pl_FlipID p) (Pl_ImplementationSwarmID p) hardID now data]\<rparr>"

definition takeSnapshot ::
  "flip_codec \<Rightarrow> snap_fault \<Rightarrow> time \<Rightarrow> FlipRequest \<Rightarrow> time \<Rightarrow> FlipPlan \<Rightarrow> snap_files
     \<Rightarrow> (flip_err + SnapshotManifest) \<times> snap_files" where
  "takeSnapshot c io wall req now p fs =
     (let s0 = (Fq_Snapshot req)\<lparr>Im_SchemaVersion := 1, Im_ProjectID := Pl_ProjectID p, Im_FlipID := Pl_FlipID p,
            Im_ImplementationSwarmID := Pl_ImplementationSwarmID p\<rparr>;
          s = s0\<lparr>Im_CapturedAt := (if isZero (Im_CapturedAt s0) then now else Im_CapturedAt s0)\<rparr>
      in if TrimSpace (Fq_SnapshotRoot req) \<noteq> []
         then WriteImplementationSnapshot c io wall (Fq_SnapshotRoot req) s now fs
         else (ManifestForSnapshot c wall s [] now, fs))"

definition finishFlip ::
  "flip_codec \<Rightarrow> time \<Rightarrow> FlipRequest \<Rightarrow> time \<Rightarrow> DrainReport \<Rightarrow> SnapshotManifest \<Rightarrow> FlipPlan \<Rightarrow> flip_err + FlipPlan" where
  "finishFlip c wall req now drain manifest p0 =
     (let hardening = NormalizeHardeningSpec (Pl_ProjectID p0) (Pl_FlipID p0) (Fq_Hardening req);
          p = p0\<lparr>Pl_Snapshot := Some manifest, Pl_Hardening := Some hardening,
            Pl_HardeningSwarmID := Hl_SwarmID hardening\<rparr>;
          tplan = (if TendingPlan_Empty (Fq_TendingPlan req) then DefaultTendingSwitchPlan else Fq_TendingPlan req)
      in case SwitchTendingJobs c (Fq_TendingJobs req) tplan of Inl e \<Rightarrow> Inl e
         | Inr tending \<Rightarrow> Inr (addAudit ''hardening_flip_completed'' ''success'' (Fq_Actor req) (Hl_SwarmID hardening) now
             [(''snapshotArtifactId'', Sm_ArtifactID manifest), (''carryCount'', fmtInt 1 (Dn_CarryCount drain)),
              (''deferCount'', fmtInt 1 (Dn_DeferCount drain)),
              (''tendingPatches'', fmtInt 1 (int (length (Tw_Patches tending))))]
             (p\<lparr>Pl_Tending := Some tending,
               Pl_UI := Some (BuildUIFlipEvent wall (Pl_ProjectID p) (Pl_FlipID p) (Pl_ImplementationSwarmID p)
                 (Hl_SwarmID hardening) now),
               Pl_CompletedAt := Some now,
               Pl_ReversibleUntil := Some (now + normalizeDuration (Fq_ReversibilityWindow req) DefaultReversibilityWindow),
               Pl_State := StateCompleted\<rparr>)))"

definition afterDrain ::
  "flip_codec \<Rightarrow> snap_fault \<Rightarrow> time \<Rightarrow> FlipRequest \<Rightarrow> time \<Rightarrow> DrainReport \<Rightarrow> FlipPlan \<Rightarrow> snap_files
     \<Rightarrow> (flip_err + FlipPlan) \<times> snap_files" where
  "afterDrain c io wall req now drain p fs =
     (case Dn_State drain of
        DrainInProgress \<Rightarrow> (Inr (addAudit ''hardening_flip_drain_waiting'' ''waiting'' (Fq_Actor req) [] now
          [(''inFlight'', fmtInt 1 (Dn_InFlightCount drain))] (p\<lparr>Pl_State := StateDraining\<rparr>)), fs)
      | DrainAwaitingResolution \<Rightarrow> (Inr (addAudit ''hardening_flip_drain_needs_resolution'' ''waiting'' (Fq_Actor req) [] now
          [(''unresolved'', fmtInt 1 (Dn_UnresolvedCount drain))] (p\<lparr>Pl_State := StateAwaitingDrainResolution\<rparr>)), fs)
      | DrainComplete \<Rightarrow> (case takeSnapshot c io wall req now p fs of (Inl e, fs') \<Rightarrow> (Inl e, fs')
          | (Inr manifest, fs') \<Rightarrow> (finishFlip c wall req now drain manifest p, fs')))"

definition BuildPlan ::
  "flip_codec \<Rightarrow> snap_fault \<Rightarrow> time \<Rightarrow> FlipRequest \<Rightarrow> snap_files \<Rightarrow> (flip_err + FlipPlan) \<times> snap_files" where
  "BuildPlan c io wall req fs =
     (let now = (if isZero (Fq_Now req) then wall else Fq_Now req);
          projectID = (if TrimSpace (Fq_ProjectID req) = [] then TrimSpace (Gs_ProjectID (Fq_GateSnapshot req))
            else TrimSpace (Fq_ProjectID req));
          implID = TrimSpace (Fq_ImplementationSwarmID req);
          p0 = flipStart c req now projectID implID
      in if projectID = [] \<or> implID = [] \<or> \<not> ActorKind_Valid (Actor_Kind (Fq_Actor req)) then (Inl FErrInvalidInput, fs)
         else case EvaluateHardeningGate (Fq_GateSnapshot req) projectID (Pl_FlipID p0) (Fq_Override req) now of
           Inl e \<Rightarrow> (Inl e, fs)
         | Inr gate \<Rightarrow>
             let p1 = p0\<lparr>Pl_Gate := Some gate\<rparr> in
             if \<not> Fg_Satisfied gate then (Inr (refuse gate p1), fs)
             else case EvaluateDrain wall (Fq_Drain req) now of Inl e \<Rightarrow> (Inl e, fs)
             | Inr drain \<Rightarrow> afterDrain c io wall req now drain (p1\<lparr>Pl_Drain := Some drain\<rparr>) fs)"

definition EvaluateReturn :: "time \<Rightarrow> FlipPlan \<Rightarrow> time \<Rightarrow> string list \<Rightarrow> ReturnDecision" where
  "EvaluateReturn wall p now0 beads =
     (let now = (if isZero now0 then wall else now0);
          until = (case Pl_ReversibleUntil p of None \<Rightarrow> 0 | Some t \<Rightarrow> t);
          dec = \<lparr>Rt_Allowed = True, Rt_RequiresApproval = False, Rt_Reason = ''within reversibility window'',
            Rt_ReversibleUntil = until, Rt_CarryBackBeads = uniqueSortedStrings beads,
            Rt_RestoreImplementationJobs = True, Rt_HaltHardeningSwarm = True, Rt_ApprovalAction = None\<rparr>
      in if isZero until \<or> now > until then
           dec\<lparr>Rt_Allowed := False, Rt_RequiresApproval := True,
             Rt_Reason := ''reversibility window expired; approval required'',
             Rt_ApprovalAction := Some \<lparr>Cmd_Args = None, Cmd_IdempotencyKey = Some (''return:'' @ Pl_FlipID p),
               Cmd_Kind = ''swarm.return_to_implementation'', Cmd_Postconditions = None, Cmd_Preconditions = None,
               Cmd_Target = Some [(''projectId'', JStr (Pl_ProjectID p)), (''flipId'', JStr (Pl_FlipID p)),
                 (''hardeningSwarmId'', JStr (Pl_HardeningSwarmID p))]\<rparr>\<rparr>
         else dec)"

end
