(* ===== verification/GateProps.thy ===== *)
theory GateProps
  imports ProjectGates
begin

text \<open>
  When a transition of the life cycle is allowed, that no stage is passed without its gates, and how
  a refusal names its audit event.
\<close>

section \<open>Sanitised identifiers\<close>

lemma dashRuns_id: "list_all allowed s \<Longrightarrow> dashRuns allowed b s = s"
  by (induction s arbitrary: b) auto

lemma dashRuns_allowed: "allowed (CHR ''-'') \<Longrightarrow> list_all allowed (dashRuns allowed b s)"
  by (induction allowed b s rule: dashRuns.induct) auto

lemma trimDashes_middle: "\<exists>p q. s = p @ trimDashes s @ q"
proof -
  let ?d = "\<lambda>c. c = CHR ''-''" and ?t = "dropWhile (\<lambda>c. c = CHR ''-'') s"
  have "?t = trimDashes s @ rev (takeWhile ?d (rev ?t))"
    unfolding trimDashes_def by (metis rev_append rev_rev_ident takeWhile_dropWhile_id)
  then show ?thesis by (metis takeWhile_dropWhile_id)
qed

lemma trimDashes_all: "list_all P s \<Longrightarrow> list_all P (trimDashes s)"
  using trimDashes_middle [of s] by (metis list_all_append)

lemma dropWhile_hd: "dropWhile (\<lambda>c. c = x) s \<noteq> [] \<Longrightarrow> hd (dropWhile (\<lambda>c. c = x) s) \<noteq> x"
  by (rule hd_dropWhile)

lemma trimDashes_ends:
  assumes "trimDashes s \<noteq> []"
  shows "hd (trimDashes s) \<noteq> CHR ''-'' \<and> last (trimDashes s) \<noteq> CHR ''-''"
proof -
  let ?d = "\<lambda>c. c = CHR ''-''"
  define t where "t = dropWhile ?d s"
  have trim: "trimDashes s = rev (dropWhile ?d (rev t))" by (simp add: trimDashes_def t_def)
  have split: "t = trimDashes s @ rev (takeWhile ?d (rev t))"
    unfolding trim by (metis rev_append rev_rev_ident takeWhile_dropWhile_id)
  have "hd t = hd (trimDashes s)" by (subst split) (simp add: assms)
  moreover have "t \<noteq> []" using assms trim by auto
  then have "hd t \<noteq> CHR ''-''" unfolding t_def by (rule dropWhile_hd)
  moreover have "dropWhile ?d (rev t) \<noteq> []" using assms trim by simp
  then have "last (trimDashes s) \<noteq> CHR ''-''" unfolding trim by (simp add: last_rev dropWhile_hd)
  ultimately show ?thesis by simp
qed

lemma trimDashes_id:
  assumes "s \<noteq> [] \<Longrightarrow> hd s \<noteq> CHR ''-'' \<and> last s \<noteq> CHR ''-''"
  shows "trimDashes s = s"
proof (cases "s = []")
  case False
  with assms have "dropWhile (\<lambda>c. c = CHR ''-'') s = s" by (cases s) auto
  moreover from False assms have "dropWhile (\<lambda>c. c = CHR ''-'') (rev s) = rev s"
    by (metis (mono_tags, lifting) dropWhile_eq_self_iff hd_rev)
  ultimately show ?thesis by (simp add: trimDashes_def)
qed (simp add: trimDashes_def)

lemma alnum_printable: "alnum c \<Longrightarrow> printable c"
  by (auto simp: alnum_def printable_def Let_def)

lemma sanitised_stable:
  assumes "allowed (CHR ''-'')" and "\<And>c. allowed c \<Longrightarrow> printable c"
  shows "trimDashes (dashRuns allowed False (TrimSpace (trimDashes (dashRuns allowed b s)))) =
    trimDashes (dashRuns allowed b s)"
proof -
  let ?o = "trimDashes (dashRuns allowed b s)"
  have a: "list_all allowed ?o" by (intro trimDashes_all dashRuns_allowed assms(1))
  then have "TrimSpace ?o = ?o"
    by (intro TrimSpace_plain) (simp_all add: list_all_iff printable_plain assms(2))
  with a show ?thesis by (simp add: dashRuns_id trimDashes_id trimDashes_ends)
qed

lemma gateIDChar_printable: "gateIDChar c \<Longrightarrow> printable c"
  using alnum_printable by (auto simp: gateIDChar_def printable_def)

lemma sanitizeID_idem [simp]: "sanitizeID (sanitizeID s) = sanitizeID s"
proof -
  have "sanitizeID ''event'' = ''event''" by code_simp
  moreover have "gateIDChar (CHR ''-'')" by (simp add: gateIDChar_def)
  note sanitised_stable [of gateIDChar, OF this gateIDChar_printable]
  ultimately show ?thesis by (simp add: sanitizeID_def Let_def)
qed

lemma sanitizeID_trim [simp]: "sanitizeID (TrimSpace s) = sanitizeID s"
  by (simp add: sanitizeID_def)

lemma sanitizeID_nonempty [simp]: "sanitizeID s \<noteq> []"
  by (simp add: sanitizeID_def Let_def)

section \<open>Gates\<close>

definition gateOpen :: "GateSnapshot \<Rightarrow> ProjectGate \<Rightarrow> bool" where
  "gateOpen s g \<longleftrightarrow> (\<exists>d\<in>set gateDefinitions. gd_gate d = g \<and> list_all (\<lambda>c. chk_ok c s) (gd_checks d))"

lemma gateDefinitionFor_valid:
  "ProjectGate_Valid g \<Longrightarrow> \<exists>d. gateDefinitionFor g = Some d \<and> d \<in> set gateDefinitions \<and> gd_gate d = g"
  by (cases g) (auto simp: ProjectGate_Valid_def gateDefinitionFor_def gateDefinitions_def)

lemma gateDefinitions_unique:
  "d \<in> set gateDefinitions \<Longrightarrow> e \<in> set gateDefinitions \<Longrightarrow> gd_gate d = gd_gate e \<Longrightarrow> d = e"
proof -
  have "distinct (map gd_gate gateDefinitions)" by (simp add: gateDefinitions_def)
  then show "d \<in> set gateDefinitions \<Longrightarrow> e \<in> set gateDefinitions \<Longrightarrow> gd_gate d = gd_gate e \<Longrightarrow> d = e"
    by (metis distinct_map inj_onD)
qed

definition evaluated :: "GateSnapshot \<Rightarrow> ProjectGate \<Rightarrow> ReadinessGate" where
  "evaluated s g = projr (EvaluateGate s g)"

lemma EvaluateGate_valid:
  assumes "ProjectGate_Valid g"
  shows "EvaluateGate s g = Inr (evaluated s g)" and "Rg_Gate (evaluated s g) = g"
    and "Rg_Satisfied (evaluated s g) \<longleftrightarrow> gateOpen s g"
proof -
  obtain d where d: "gateDefinitionFor g = Some d" "d \<in> set gateDefinitions" "gd_gate d = g"
    using gateDefinitionFor_valid [OF assms] by blast
  then have "gateOpen s g \<longleftrightarrow> list_all (\<lambda>c. chk_ok c s) (gd_checks d)"
    using gateDefinitions_unique unfolding gateOpen_def by blast
  with d show "EvaluateGate s g = Inr (evaluated s g)" "Rg_Gate (evaluated s g) = g"
    "Rg_Satisfied (evaluated s g) \<longleftrightarrow> gateOpen s g"
    by (auto simp: evaluated_def EvaluateGate_def Let_def evaluateCheck_def filter_empty_conv list_all_iff)
qed

lemma canonical_valid: "g \<in> set canonicalGateOrder \<longleftrightarrow> ProjectGate_Valid g"
  by (cases g) (auto simp: canonicalGateOrder_def ProjectGate_Valid_def)

lemma evaluateLoop_valid:
  "list_all ProjectGate_Valid gs \<Longrightarrow>
    evaluateLoop s (Some P) gs = Inr (map (evaluated s) (filter P gs))"
  by (induction gs) (auto simp: EvaluateGate_valid(1))

lemma EvaluateGates_selected:
  assumes "TrimSpace (Gs_ProjectID s) \<noteq> []" and "fs \<noteq> []" and "list_all ProjectGate_Valid fs"
  shows "EvaluateGates now s fs = Inr \<lparr>Pr_SchemaVersion = 1, Pr_ProjectId = TrimSpace (Gs_ProjectID s),
     Pr_CheckedAt = (if isZero (Gs_CheckedAt s) then now else Gs_CheckedAt s),
     Pr_CurrentLifecycleState = (if Lifecycle_Valid (Gs_CurrentState s) then Some (Gs_CurrentState s) else None),
     Pr_Gates = map (evaluated s) (filter (\<lambda>g. g \<in> set fs) canonicalGateOrder)\<rparr>"
proof -
  have "list_all ProjectGate_Valid canonicalGateOrder" by (simp add: list_all_iff canonical_valid)
  with assms show ?thesis
    by (auto simp: EvaluateGates_def selectedGates_def Let_def evaluateLoop_valid list_all_iff list_ex_iff)
qed

lemma gateOpen_cong [simp]:
  "gateOpen (s\<lparr>Gs_CurrentState := x\<rparr>) g = gateOpen s g" "gateOpen (s\<lparr>Gs_ProjectID := i\<rparr>) g = gateOpen s g"
  by (simp_all add: gateOpen_def gateDefinitions_def)

section \<open>Transitions\<close>

definition stages :: "LifecycleState list" where
  "stages = [LcImported, LcPlanning, LcPlanFinalized, LcBeadsCreated, LcBeadsFinalized, LcSwarmRunning,
     LcHardeningRounds, LcQualityGates, LcCompleted]"

definition stageGates :: "ProjectGate list" where
  "stageGates = [ProjectImported, PlanLocked, GtBeadsCreated, GtBeadsFinalized, LaunchReady, HardeningReady,
     ShipReady, ShipReady]"

lemma all_less_8: "(\<forall>i<8. P i) \<longleftrightarrow> P 0 \<and> P 1 \<and> P 2 \<and> P 3 \<and> P 4 \<and> P 5 \<and> P 6 \<and> P (7::nat)"
  by (auto simp: numeral_eq_Suc All_less_Suc)

lemma transitionDefinitions_stages:
  "transitionDefinitions = map (\<lambda>i. ((stages ! i, stages ! Suc i), [VpsReady, stageGates ! i])) [0..<8]"
  by (simp add: upt_rec transitionDefinitions_def stages_def stageGates_def)

lemma stages_inj: "i < 9 \<Longrightarrow> j < 9 \<Longrightarrow> stages ! i = stages ! j \<Longrightarrow> i = j"
proof -
  have "distinct stages" "length stages = 9" by (simp_all add: stages_def)
  then show "i < 9 \<Longrightarrow> j < 9 \<Longrightarrow> stages ! i = stages ! j \<Longrightarrow> i = j" by (simp add: nth_eq_iff_index_eq)
qed

lemma stage_valid: "i < 8 \<Longrightarrow> Lifecycle_Valid (stages ! i) \<and> Lifecycle_Valid (stages ! Suc i)"
proof -
  have "\<forall>i<8. Lifecycle_Valid (stages ! i) \<and> Lifecycle_Valid (stages ! Suc i)"
    by (simp add: all_less_8 stages_def Lifecycle_Valid_def)
  then show "i < 8 \<Longrightarrow> Lifecycle_Valid (stages ! i) \<and> Lifecycle_Valid (stages ! Suc i)" by blast
qed

lemma stageGate_valid: "i < 8 \<Longrightarrow> ProjectGate_Valid (stageGates ! i) \<and> stageGates ! i \<noteq> VpsReady"
proof -
  have "\<forall>i<8. ProjectGate_Valid (stageGates ! i) \<and> stageGates ! i \<noteq> VpsReady"
    by (simp add: all_less_8 stageGates_def ProjectGate_Valid_def)
  then show "i < 8 \<Longrightarrow> ProjectGate_Valid (stageGates ! i) \<and> stageGates ! i \<noteq> VpsReady" by blast
qed

lemma RequiredGates_stage: "i < 8 \<Longrightarrow> RequiredGates (stages ! i) (stages ! Suc i) = Some [VpsReady, stageGates ! i]"
proof -
  have "distinct (map fst transitionDefinitions)" by (simp add: transitionDefinitions_def)
  moreover have "((stages ! i, stages ! Suc i), [VpsReady, stageGates ! i]) \<in> set transitionDefinitions" if "i < 8"
    using that by (auto simp: transitionDefinitions_stages)
  ultimately show "i < 8 \<Longrightarrow> RequiredGates (stages ! i) (stages ! Suc i) = Some [VpsReady, stageGates ! i]"
    unfolding RequiredGates_def by (rule map_of_is_SomeI)
qed

lemma RequiredGates_Some:
  assumes "RequiredGates from to = Some gs"
  obtains i where "i < 8" "from = stages ! i" "to = stages ! Suc i" "gs = [VpsReady, stageGates ! i]"
  using map_of_SomeD [OF assms [unfolded RequiredGates_def]] by (auto simp: transitionDefinitions_stages)

definition atState :: "GateSnapshot \<Rightarrow> LifecycleState \<Rightarrow> bool" where
  "atState s st \<longleftrightarrow> \<not> Lifecycle_Valid (Gs_CurrentState s) \<or> Gs_CurrentState s = st"

lemma required_gates_open:
  assumes "i < 8" and "TrimSpace (Gs_ProjectID s) \<noteq> []"
    and "EvaluateGates now s [VpsReady, stageGates ! i] = Inr r"
  shows "find (\<lambda>g. \<not> Rg_Satisfied g) (Pr_Gates r) = None \<longleftrightarrow> gateOpen s VpsReady \<and> gateOpen s (stageGates ! i)"
proof -
  have v: "ProjectGate_Valid VpsReady" by (simp add: ProjectGate_Valid_def)
  have "Pr_Gates r = map (evaluated s) (filter (\<lambda>g. g \<in> {VpsReady, stageGates ! i}) canonicalGateOrder)"
    using assms(3) EvaluateGates_selected [OF assms(2), of "[VpsReady, stageGates ! i]" now] v stageGate_valid [OF assms(1)]
    by (auto simp del: filter.simps)
  then have "find (\<lambda>g. \<not> Rg_Satisfied g) (Pr_Gates r) = None \<longleftrightarrow>
      (\<forall>g. ProjectGate_Valid g \<and> g \<in> {VpsReady, stageGates ! i} \<longrightarrow> Rg_Satisfied (evaluated s g))"
    by (auto simp: find_None_iff canonical_valid)
  also have "\<dots> \<longleftrightarrow> gateOpen s VpsReady \<and> gateOpen s (stageGates ! i)"
    using v stageGate_valid [OF assms(1)] by (auto simp: EvaluateGate_valid(3))
  finally show ?thesis .
qed

lemma rejected_not_allowed [simp]: "\<not> Td_Allowed (rejectedDecision now s req required blocking problem at)"
  by (simp add: rejectedDecision_def)

lemma decide_iff:
  assumes "decideTransition clk s req at cid = Inr d" and pid: "TrimSpace (Gs_ProjectID s) \<noteq> []"
  shows "Td_Allowed d \<longleftrightarrow> (\<exists>i<8. Tr_From req = stages ! i \<and> Tr_To req = stages ! Suc i \<and> atState s (stages ! i) \<and>
    gateOpen s VpsReady \<and> gateOpen s (stageGates ! i))"
proof (cases "RequiredGates (Tr_From req) (Tr_To req)")
  case None
  then have "\<not> (\<exists>i<8. Tr_From req = stages ! i \<and> Tr_To req = stages ! Suc i)" using RequiredGates_stage by force
  moreover from assms None have "\<not> Td_Allowed d" by (auto simp: decideTransition_def split: if_split_asm)
  ultimately show ?thesis by blast
next
  case (Some gs)
  then obtain i where i: "i < 8" "Tr_From req = stages ! i" "Tr_To req = stages ! Suc i" "gs = [VpsReady, stageGates ! i]"
    by (rule RequiredGates_Some)
  have uniq: "j = i" if "j < 8" "Tr_From req = stages ! j" for j using stages_inj [of i j] i that by simp
  note valid = stage_valid [OF i(1)]
  show ?thesis
  proof (cases "atState s (Tr_From req)")
    case False
    with assms Some i valid have "\<not> Td_Allowed d"
      by (auto simp: decideTransition_def atState_def split: if_split_asm)
    with False show ?thesis by (metis uniq i(2))
  next
    case True
    let ?s = "s\<lparr>Gs_CurrentState := Tr_From req\<rparr>"
    from pid have ts: "TrimSpace (Gs_ProjectID ?s) \<noteq> []" by simp
    from EvaluateGates_selected [OF ts, of gs "clk 1"] i stageGate_valid [OF i(1)]
    obtain r where r: "EvaluateGates (clk 1) ?s gs = Inr r" by (auto simp: ProjectGate_Valid_def)
    from assms Some True i(2,3) valid r have "Td_Allowed d \<longleftrightarrow> find (\<lambda>g. \<not> Rg_Satisfied g) (Pr_Gates r) = None"
      by (auto simp: decideTransition_def atState_def Let_def split: option.split_asm)
    also have "\<dots> \<longleftrightarrow> gateOpen s VpsReady \<and> gateOpen s (stageGates ! i)"
      using required_gates_open [OF i(1) ts r [unfolded i(4)]] by simp
    finally show ?thesis using True i uniq by metis
  qed
qed

lemma EvaluateTransition_decides:
  assumes "EvaluateTransition clk s req = Inr d"
  obtains pid at where "TrimSpace pid \<noteq> []"
    "decideTransition clk (s\<lparr>Gs_ProjectID := pid\<rparr>) req at (transitionCorrelationID pid req at) = Inr d"
proof -
  let ?pid = "if TrimSpace (Tr_ProjectID req) = [] then TrimSpace (Gs_ProjectID s) else TrimSpace (Tr_ProjectID req)"
  have "?pid \<noteq> []"
  proof
    assume "?pid = []"
    with assms show False by (simp add: EvaluateTransition_def Let_def)
  qed
  then have "TrimSpace ?pid \<noteq> []" by (cases "TrimSpace (Tr_ProjectID req) = []") simp_all
  moreover from assms \<open>?pid \<noteq> []\<close>
  have "\<exists>at. decideTransition clk (s\<lparr>Gs_ProjectID := ?pid\<rparr>) req at (transitionCorrelationID ?pid req at) = Inr d"
    unfolding EvaluateTransition_def Let_def by (metis (no_types))
  ultimately show ?thesis using that by blast
qed

lemma allowed_iff:
  assumes "EvaluateTransition clk s req = Inr d"
  shows "Td_Allowed d \<longleftrightarrow> (\<exists>i<8. Tr_From req = stages ! i \<and> Tr_To req = stages ! Suc i \<and> atState s (stages ! i) \<and>
    gateOpen s VpsReady \<and> gateOpen s (stageGates ! i))"
proof -
  from assms obtain pid at where "TrimSpace pid \<noteq> []"
    "decideTransition clk (s\<lparr>Gs_ProjectID := pid\<rparr>) req at (transitionCorrelationID pid req at) = Inr d"
    by (rule EvaluateTransition_decides)
  then show ?thesis using decide_iff [of clk "s\<lparr>Gs_ProjectID := pid\<rparr>" req at "transitionCorrelationID pid req at" d]
    by (simp add: atState_def)
qed

text \<open>
  A transition is allowed exactly when it goes from one stage of the life cycle to the next, the
  project is not known to be in another stage, and every check of the VPS gate and of the gate of
  that stage holds.
\<close>

theorem transition_allowed_iff:
  assumes "EvaluateTransition clk s req = Inr d"
  shows "Td_Allowed d \<longleftrightarrow> (\<exists>i<8. Tr_From req = stages ! i \<and> Tr_To req = stages ! Suc i \<and> atState s (stages ! i) \<and>
    gateOpen s VpsReady \<and> gateOpen s (stageGates ! i))"
  using assms by (rule allowed_iff)

text \<open>An audit event and the problem of the same decision belong together: the problem carries its id.\<close>

lemma problem_event:
  "Pb_CorrelationId (transitionProblem st code title ptype detail gate at (transitionCorrelationID pid req at)) =
   Some (transitionEventID pid (Tr_From req) (Tr_To req) at (Tr_CorrelationID req))"
  by (simp add: transitionProblem_def transitionCorrelationID_def transitionEventID_def Let_def TrimSpace_def [of "[]"])

definition namesEvent :: "TransitionDecision \<Rightarrow> bool" where
  "namesEvent d \<longleftrightarrow> map_option Pb_CorrelationId (Td_Problem d) = Some (Some (Ta_EventID (Td_AuditEvent d))) \<and>
     Ta_Result (Td_AuditEvent d) = ''failure''"

lemma namesEvent_rejected:
  "namesEvent (rejectedDecision now s req required blocking
     (transitionProblem st code title ptype detail gate at (transitionCorrelationID (Gs_ProjectID s) req at)) at)"
  "namesEvent (rejectedDecision now (s\<lparr>Gs_CurrentState := x\<rparr>) req required blocking
     (transitionProblem st code title ptype detail gate at (transitionCorrelationID (Gs_ProjectID s) req at)) at)"
  by (simp_all add: namesEvent_def rejectedDecision_def gateAuditEvent_def Let_def problem_event)

lemma decide_event:
  assumes "decideTransition clk s req at (transitionCorrelationID (Gs_ProjectID s) req at) = Inr d" and "\<not> Td_Allowed d"
  shows "namesEvent d"
  using assms unfolding decideTransition_def Let_def invalidTransition_def conflictProblem_def blockedProblem_def
  by (auto simp: namesEvent_rejected split: if_split_asm option.split_asm sum.split_asm)

theorem refusal_names_event:
  assumes "EvaluateTransition clk s req = Inr d" and "\<not> Td_Allowed d"
  shows "map_option Pb_CorrelationId (Td_Problem d) = Some (Some (Ta_EventID (Td_AuditEvent d))) \<and>
    Ta_Result (Td_AuditEvent d) = ''failure''"
proof -
  from assms(1) obtain pid at where
    "decideTransition clk (s\<lparr>Gs_ProjectID := pid\<rparr>) req at (transitionCorrelationID pid req at) = Inr d"
    by (rule EvaluateTransition_decides)
  with decide_event [of clk "s\<lparr>Gs_ProjectID := pid\<rparr>" req at d] assms(2) show ?thesis
    by (simp add: namesEvent_def)
qed

section \<open>Runs of the life cycle\<close>

text \<open>
  A project starts imported; a caller that records an allowed transition on a snapshot of the current
  state brings it to the target.
\<close>

inductive lifecycle :: "(GateSnapshot \<times> GateTransitionRequest) list \<Rightarrow> LifecycleState \<Rightarrow> bool" where
  lc_start: "lifecycle [] LcImported"
| lc_step: "lifecycle hs (Gs_CurrentState s) \<Longrightarrow> EvaluateTransition clk s req = Inr d \<Longrightarrow> Td_Allowed d \<Longrightarrow>
    lifecycle (hs @ [(s, req)]) (Tr_To req)"

text \<open>
  C38. A project that has come to a stage by allowed transitions has passed every stage before it, each
  with its gates open at the time: no gate can be skipped.
\<close>

theorem lifecycle_passes_gates:
  assumes "lifecycle hs st"
  shows "length hs \<le> 8 \<and> st = stages ! length hs \<and>
    (\<forall>i\<in>{..<length hs}. gateOpen (fst (hs ! i)) VpsReady \<and> gateOpen (fst (hs ! i)) (stageGates ! i))"
  using assms
proof (induction rule: lifecycle.induct)
  case lc_start
  then show ?case by (simp add: stages_def)
next
  case (lc_step hs s clk req d)
  from allowed_iff [OF lc_step(2)] lc_step(3)
  obtain i where i: "i < 8" "Tr_From req = stages ! i" "Tr_To req = stages ! Suc i" "atState s (stages ! i)"
    "gateOpen s VpsReady" "gateOpen s (stageGates ! i)" by blast
  have len: "length hs < 9" and cur: "Gs_CurrentState s = stages ! length hs" using lc_step.IH by auto
  have "\<forall>j<9. Lifecycle_Valid (stages ! j)"
    by (simp add: numeral_eq_Suc All_less_Suc stages_def Lifecycle_Valid_def)
  with len cur have "Lifecycle_Valid (Gs_CurrentState s)" by simp
  with i(4) cur have "stages ! length hs = stages ! i" by (simp add: atState_def)
  with len i(1) have "length hs = i" by (intro stages_inj) simp_all
  with i lc_step.IH show ?case by (auto simp: nth_append less_Suc_eq)
qed

section \<open>Witnesses\<close>

definition readySnapshot :: "LifecycleState \<Rightarrow> GateSnapshot" where
  "readySnapshot st = \<lparr>Gs_ProjectID = ''p'', Gs_CurrentState = st, Gs_CheckedAt = 5,
     Gs_VPS = \<lparr>Vf_SSHVerified = True, Vf_DaemonReachable = True, Vf_ACFSInstalled = False, Vf_ACFSSkipped = True,
       Vf_ToolVersions = [(''br'', ''1'')], Vf_ToolVersionsRecorded = False\<rparr>,
     Gs_Project = \<lparr>Pf_GitRepoPresent = True, Pf_Branch = ''main'', Pf_BranchKnown = False, Pf_AgentsMDPresent = True,
       Pf_HoopoeInitialized = True, Pf_ToolDetectionDone = True\<rparr>,
     Gs_Plan = \<lparr>Nf_PlanID = ''n'', Nf_Locked = True, Nf_SelfContained = True, Nf_DecisionsExplicit = True,
       Nf_TestingStrategyPresent = True, Nf_UnresolvedDecisionsAccepted = False\<rparr>,
     Gs_BeadsCreated = \<lparr>Bc_LinkedPlanBeads = 3, Bc_IssuesJSONLFlushed = True, Bc_ConversionArtifactsSaved = True,
       Bc_ArtifactIDs = []\<rparr>,
     Gs_BeadsFinalized = \<lparr>Bf_CoverageChecked = True, Bf_DependenciesChecked = True, Bf_ReadySetSufficient = False,
       Bf_ReadyCount = 1, Bf_ClarityAcceptable = True, Bf_TestabilityAcceptable = True\<rparr>,
     Gs_Launch = \<lparr>Lf_NTMHealthy = True, Lf_AgentMailHealthy = True, Lf_BVRobotHealthy = True,
       Lf_BRReadyNonempty = True, Lf_BRReadyCount = 1, Lf_IntentionallyScoped = False, Lf_BuildQueuePolicySet = True\<rparr>,
     Gs_Hardening = \<lparr>Hf_ImplementationClosedOrDeferred = True, Hf_NoStuckInProgress = True, Hf_InProgressCount = 0,
       Hf_StuckCount = 0, Hf_ReviewPromptsAvailable = True\<rparr>,
     Gs_Ship = \<lparr>Sf_TestsBuildsPass = True, Sf_TestBuildExceptions = [], Sf_CodeHealthPass = True,
       Sf_FollowUpBeads = [], Sf_GitSynced = True, Sf_BeadsSynced = True\<rparr>\<rparr>"

definition moveRequest :: "LifecycleState \<Rightarrow> LifecycleState \<Rightarrow> GateTransitionRequest" where
  "moveRequest from to = \<lparr>Tr_ProjectID = [], Tr_From = from, Tr_To = to,
     Tr_Actor = \<lparr>Actor_Kind = ActorKindUser, Actor_Id = None, Actor_DisplayName = None\<rparr>, Tr_Reason = [],
     Tr_CorrelationID = ''a/b'', Tr_CausationID = [], Tr_At = 0\<rparr>"

lemma move_outcomes:
  "map_sum id Td_Allowed (EvaluateTransition (\<lambda>_. 0) (readySnapshot LcImported) (moveRequest LcImported LcPlanning)) = Inr True"
  "map_sum id Td_Allowed (EvaluateTransition (\<lambda>_. 0) (readySnapshot LcPlanning) (moveRequest LcPlanning LcPlanFinalized)) = Inr False"
  by code_simp+

lemma move_allowed:
  "\<exists>d. EvaluateTransition (\<lambda>_. 0) (readySnapshot LcImported) (moveRequest LcImported LcPlanning) = Inr d \<and> Td_Allowed d"
  using move_outcomes(1)
  by (cases "EvaluateTransition (\<lambda>_. 0) (readySnapshot LcImported) (moveRequest LcImported LcPlanning)") auto

lemma move_refused:
  "\<exists>d. EvaluateTransition (\<lambda>_. 0) (readySnapshot LcPlanning) (moveRequest LcPlanning LcPlanFinalized) = Inr d \<and> \<not> Td_Allowed d"
  using move_outcomes(2)
  by (cases "EvaluateTransition (\<lambda>_. 0) (readySnapshot LcPlanning) (moveRequest LcPlanning LcPlanFinalized)") auto

theorem transition_allowed_iff_witness:
  "gateOpen (readySnapshot LcImported) ProjectImported"
proof -
  obtain d where d: "EvaluateTransition (\<lambda>_. 0) (readySnapshot LcImported) (moveRequest LcImported LcPlanning) = Inr d"
    "Td_Allowed d" using move_allowed by blast
  with transition_allowed_iff [OF d(1)] obtain i where i: "i < 8" "LcImported = stages ! i"
    "gateOpen (readySnapshot LcImported) (stageGates ! i)"
    by (auto simp: moveRequest_def)
  have "i = 0" using stages_inj [of i 0] i(1,2) by (simp add: stages_def)
  with i(3) show ?thesis by (simp add: stageGates_def)
qed

theorem refusal_names_event_witness:
  "\<exists>d. EvaluateTransition (\<lambda>_. 0) (readySnapshot LcPlanning) (moveRequest LcPlanning LcPlanFinalized) = Inr d \<and>
     map_option Pb_CorrelationId (Td_Problem d) = Some (Some (Ta_EventID (Td_AuditEvent d)))"
  using move_refused refusal_names_event by blast

theorem lifecycle_passes_gates_witness:
  "lifecycle [(readySnapshot LcImported, moveRequest LcImported LcPlanning)] LcPlanning \<and>
   gateOpen (readySnapshot LcImported) VpsReady \<and> gateOpen (readySnapshot LcImported) ProjectImported"
proof -
  obtain d where d: "EvaluateTransition (\<lambda>_. 0) (readySnapshot LcImported) (moveRequest LcImported LcPlanning) = Inr d"
    "Td_Allowed d" using move_allowed by blast
  have "lifecycle [] (Gs_CurrentState (readySnapshot LcImported))" by (simp add: readySnapshot_def lc_start)
  from lc_step [OF this d] have run: "lifecycle [(readySnapshot LcImported, moveRequest LcImported LcPlanning)] LcPlanning"
    by (simp add: moveRequest_def)
  with lifecycle_passes_gates [OF run] show ?thesis by (simp add: stageGates_def)
qed

end
