(* ===== verification/FlipProps.thy ===== *)
theory FlipProps
  imports Flip GateProps
begin

text \<open>
  What state a plan comes to, when the way back is open, that switching the tending jobs a second time
  changes nothing, and that a written snapshot verifies.
\<close>

section \<open>Gate and drain\<close>

definition flipPasses :: "FlipRequest \<Rightarrow> bool" where
  "flipPasses req \<longleftrightarrow> gateOpen (Fq_GateSnapshot req) HardeningReady \<or>
     (\<exists>a. Fq_Override req = Some a \<and> Oa_Approved a)"

lemma gateOpen_checkedAt [simp]: "gateOpen (s\<lparr>Gs_CheckedAt := x\<rparr>) g = gateOpen s g"
  by (simp add: gateOpen_def gateDefinitions_def)

lemma hardening_gate:
  assumes "EvaluateHardeningGate s pid fid ov now = Inr d"
  shows "Fg_Satisfied d \<longleftrightarrow> gateOpen s HardeningReady \<or> (\<exists>a. ov = Some a \<and> Oa_Approved a)"
    and "Fg_Satisfied d \<and> \<not> gateOpen s HardeningReady \<longrightarrow>
      (\<exists>a. ov = Some a \<and> Oa_Approved a \<and> TrimSpace (Oa_ApprovalID a) \<noteq> [] \<and> ActorKind_Valid (Actor_Kind (Oa_Actor a)) \<and>
        Fg_ApprovalID d = TrimSpace (Oa_ApprovalID a))"
proof -
  let ?s = "s\<lparr>Gs_ProjectID := TrimSpace pid, Gs_CheckedAt := (if isZero (Gs_CheckedAt s) then now else Gs_CheckedAt s)\<rparr>"
  have v: "ProjectGate_Valid HardeningReady" by (simp add: ProjectGate_Valid_def)
  have pid: "TrimSpace pid \<noteq> []" using assms by (auto simp: EvaluateHardeningGate_def Let_def)
  then have "EvaluateGates now ?s [HardeningReady] = Inr \<lparr>Pr_SchemaVersion = 1, Pr_ProjectId = TrimSpace pid,
      Pr_CheckedAt = (if isZero (Gs_CheckedAt ?s) then now else Gs_CheckedAt ?s),
      Pr_CurrentLifecycleState = (if Lifecycle_Valid (Gs_CurrentState s) then Some (Gs_CurrentState s) else None),
      Pr_Gates = [evaluated ?s HardeningReady]\<rparr>"
    using EvaluateGates_selected [of ?s "[HardeningReady]" now] v by (simp add: canonicalGateOrder_def)
  moreover have "Rg_Satisfied (evaluated ?s HardeningReady) \<longleftrightarrow> gateOpen s HardeningReady"
    using EvaluateGate_valid(3) [OF v, of ?s] by simp
  ultimately show "Fg_Satisfied d \<longleftrightarrow> gateOpen s HardeningReady \<or> (\<exists>a. ov = Some a \<and> Oa_Approved a)"
    and "Fg_Satisfied d \<and> \<not> gateOpen s HardeningReady \<longrightarrow>
      (\<exists>a. ov = Some a \<and> Oa_Approved a \<and> TrimSpace (Oa_ApprovalID a) \<noteq> [] \<and> ActorKind_Valid (Actor_Kind (Oa_Actor a)) \<and>
        Fg_ApprovalID d = TrimSpace (Oa_ApprovalID a))"
    using assms pid by (auto simp: EvaluateHardeningGate_def Let_def split: if_split_asm option.split_asm)
qed

definition undecided :: "(string \<times> DrainResolution) list \<Rightarrow> InFlightBead \<Rightarrow> bool" where
  "undecided resolutions b \<longleftrightarrow> (If_Status b = BeadUnset \<or> If_Status b = BeadInProgress) \<and>
     map_of resolutions (TrimSpace (If_BeadID b)) = None"

lemma normalize_bead:
  assumes "normalizeInFlightBead b = Inr (n, act)"
  shows "If_BeadID n = TrimSpace (If_BeadID b)" and "act \<longleftrightarrow> If_Status b = BeadUnset \<or> If_Status b = BeadInProgress"
  using assms by (auto simp: normalizeInFlightBead_def Let_def split: if_split_asm BeadStatus.split_asm)

lemma resolveBead_keeps:
  "resolveBead b res r = Inr r' \<Longrightarrow> Dn_UnresolvedCount r' = Dn_UnresolvedCount r \<and> Dn_State r' = Dn_State r"
  by (auto simp: resolveBead_def Let_def split: DrainResolution.split_asm)

lemma drainLoop_state:
  "drainLoop res now ends bs r = Inr r' \<Longrightarrow>
    Dn_UnresolvedCount r' = Dn_UnresolvedCount r + int (length (filter (undecided res) bs)) \<and>
    Dn_State r' = (if filter (undecided res) bs = [] then Dn_State r
      else if now < ends then DrainInProgress else DrainAwaitingResolution)"
proof (induction bs arbitrary: r)
  case (Cons b bs)
  from Cons.prems obtain n act where n: "normalizeInFlightBead b = Inr (n, act)"
    by (cases "normalizeInFlightBead b") auto
  note nb = normalize_bead [OF n]
  show ?case
  proof (cases act)
    case False
    with Cons.prems n have "drainLoop res now ends bs (r\<lparr>Dn_CompletedCount := Dn_CompletedCount r + 1\<rparr>) = Inr r'" by simp
    from Cons.IH [OF this] False nb show ?thesis by (simp add: undecided_def)
  next
    case True
    let ?r = "r\<lparr>Dn_InFlightCount := Dn_InFlightCount r + 1\<rparr>"
    show ?thesis
    proof (cases "map_of res (If_BeadID n)")
      case None
      with Cons.prems n True have "drainLoop res now ends bs (unresolvedBead n now ends ?r) = Inr r'" by (simp add: Let_def)
      from Cons.IH [OF this] True None nb show ?thesis by (simp add: undecided_def unresolvedBead_def Let_def)
    next
      case (Some w)
      with Cons.prems n True obtain r2 where r2: "resolveBead n w ?r = Inr r2" "drainLoop res now ends bs r2 = Inr r'"
        by (auto simp: Let_def split: sum.split_asm)
      from Cons.IH [OF r2(2)] resolveBead_keeps [OF r2(1)] Some nb show ?thesis by (simp add: undecided_def)
    qed
  qed
qed simp

definition drainNow :: "time \<Rightarrow> FlipRequest \<Rightarrow> time" where
  "drainNow wall req = (if \<not> isZero (Di_Now (Fq_Drain req)) then Di_Now (Fq_Drain req)
     else if \<not> isZero (Fq_Now req) then Fq_Now req else wall)"

definition drainEnds :: "time \<Rightarrow> FlipRequest \<Rightarrow> time" where
  "drainEnds wall req =
     (if isZero (Di_GraceStartedAt (Fq_Drain req)) then drainNow wall req else Di_GraceStartedAt (Fq_Drain req)) +
     (if Di_GraceWindow (Fq_Drain req) \<le> 0 then 10 * nsPerMinute else Di_GraceWindow (Fq_Drain req))"

definition openBeads :: "FlipRequest \<Rightarrow> InFlightBead list" where
  "openBeads req = filter (undecided (Di_Resolutions (Fq_Drain req))) (Di_InFlight (Fq_Drain req))"

lemma EvaluateDrain_loop:
  assumes "EvaluateDrain wall input fb = Inr r"
    and now: "now = (if \<not> isZero (Di_Now input) then Di_Now input else if isZero fb then wall else fb)"
    and ends: "ends = (if isZero (Di_GraceStartedAt input) then now else Di_GraceStartedAt input) +
      normalizeDuration (Di_GraceWindow input) DefaultDrainGrace"
  shows "\<exists>r0 r1. drainLoop (Di_Resolutions input) now ends (Di_InFlight input) r0 = Inr r1 \<and>
    Dn_UnresolvedCount r0 = 0 \<and> Dn_State r = (if Dn_UnresolvedCount r1 = 0 then DrainComplete else Dn_State r1)"
proof -
  define r0 where "r0 = \<lparr>Dn_State = DrainComplete, Dn_InFlightCount = 0, Dn_CompletedCount = 0, Dn_UnresolvedCount = 0,
    Dn_CarryCount = 0, Dn_DeferCount = 0,
    Dn_GraceStartedAt = (if isZero (Di_GraceStartedAt input) then now else Di_GraceStartedAt input), Dn_GraceEndsAt = ends,
    Dn_GraceRemaining = max 0 (go_sub ends now), Dn_RequiredChoices = [], Dn_Resolved = []\<rparr>"
  from assms(1) have "(case drainLoop (Di_Resolutions input) now ends (Di_InFlight input) r0 of Inl e \<Rightarrow> Inl e
     | Inr r \<Rightarrow> Inr (r\<lparr>Dn_Resolved := sort_key Dr_BeadID (Dn_Resolved r),
         Dn_RequiredChoices := sort_key Dc_BeadID (Dn_RequiredChoices r),
         Dn_State := (if Dn_UnresolvedCount r = 0 then DrainComplete else Dn_State r)\<rparr>)) = Inr r"
    unfolding EvaluateDrain_def Let_def r0_def now ends .
  then obtain r1 where "drainLoop (Di_Resolutions input) now ends (Di_InFlight input) r0 = Inr r1"
    "Dn_State r = (if Dn_UnresolvedCount r1 = 0 then DrainComplete else Dn_State r1)"
    by (cases "drainLoop (Di_Resolutions input) now ends (Di_InFlight input) r0") auto
  moreover have "Dn_UnresolvedCount r0 = 0" by (simp add: r0_def)
  ultimately show ?thesis by blast
qed

lemma EvaluateDrain_state:
  assumes "EvaluateDrain wall (Fq_Drain req) (if isZero (Fq_Now req) then wall else Fq_Now req) = Inr r"
  shows "Dn_State r = (if openBeads req = [] then DrainComplete
    else if drainNow wall req < drainEnds wall req then DrainInProgress else DrainAwaitingResolution)"
proof -
  have "\<exists>r0 r1. drainLoop (Di_Resolutions (Fq_Drain req)) (drainNow wall req) (drainEnds wall req)
      (Di_InFlight (Fq_Drain req)) r0 = Inr r1 \<and> Dn_UnresolvedCount r0 = 0 \<and>
      Dn_State r = (if Dn_UnresolvedCount r1 = 0 then DrainComplete else Dn_State r1)"
    by (rule EvaluateDrain_loop [OF assms])
      (simp_all add: drainNow_def drainEnds_def normalizeDuration_def DefaultDrainGrace_def)
  with drainLoop_state show ?thesis by (fastforce simp: openBeads_def)
qed

section \<open>The state of a plan\<close>

definition untouchedPlan :: "FlipPlan \<Rightarrow> bool" where
  "untouchedPlan p \<longleftrightarrow> Pl_Snapshot p = None \<and> Pl_Tending p = None \<and> Pl_UI p = None \<and> Pl_ReversibleUntil p = None \<and>
     Pl_HardeningSwarmID p = []"

lemma flipStart_fields [simp]:
  "untouchedPlan (flipStart c req now pid iid)" "Pl_StartedAt (flipStart c req now pid iid) = now"
  by (simp_all add: flipStart_def untouchedPlan_def Let_def)

lemma finishFlip_fields:
  assumes "finishFlip c wall req now drain m p0 = Inr p"
  shows "Pl_State p = StateCompleted" and "Pl_StartedAt p = Pl_StartedAt p0" and "Pl_Snapshot p = Some m"
    and "Pl_ReversibleUntil p = Some (now + normalizeDuration (Fq_ReversibilityWindow req) DefaultReversibilityWindow)"
  using assms by (auto simp: finishFlip_def Let_def addAudit_def split: sum.split_asm)

definition flipState :: "time \<Rightarrow> FlipRequest \<Rightarrow> FlipState" where
  "flipState wall req = (if \<not> flipPasses req then StateRefused
     else if openBeads req = [] then StateCompleted
     else if drainNow wall req < drainEnds wall req then StateDraining else StateAwaitingDrainResolution)"

lemma BuildPlan_state:
  assumes "BuildPlan c io wall req fs = (Inr p, fs')"
  shows "Pl_State p = flipState wall req"
    and "Pl_StartedAt p = (if isZero (Fq_Now req) then wall else Fq_Now req)"
    and "if Pl_State p = StateCompleted
      then Pl_ReversibleUntil p = Some (Pl_StartedAt p + normalizeDuration (Fq_ReversibilityWindow req) DefaultReversibilityWindow)
      else untouchedPlan p \<and> fs' = fs"
proof -
  define now where "now = (if isZero (Fq_Now req) then wall else Fq_Now req)"
  define pid where "pid = (if TrimSpace (Fq_ProjectID req) = [] then TrimSpace (Gs_ProjectID (Fq_GateSnapshot req))
    else TrimSpace (Fq_ProjectID req))"
  define p0 where "p0 = flipStart c req now pid (TrimSpace (Fq_ImplementationSwarmID req))"
  have eq: "BuildPlan c io wall req fs =
    (if pid = [] \<or> TrimSpace (Fq_ImplementationSwarmID req) = [] \<or> \<not> ActorKind_Valid (Actor_Kind (Fq_Actor req))
     then (Inl FErrInvalidInput, fs)
     else case EvaluateHardeningGate (Fq_GateSnapshot req) pid (Pl_FlipID p0) (Fq_Override req) now of
       Inl e \<Rightarrow> (Inl e, fs)
     | Inr gate \<Rightarrow> if \<not> Fg_Satisfied gate then (Inr (refuse gate (p0\<lparr>Pl_Gate := Some gate\<rparr>)), fs)
         else case EvaluateDrain wall (Fq_Drain req) now of Inl e \<Rightarrow> (Inl e, fs)
         | Inr drain \<Rightarrow> afterDrain c io wall req now drain (p0\<lparr>Pl_Gate := Some gate, Pl_Drain := Some drain\<rparr>) fs)"
    by (simp only: BuildPlan_def Let_def now_def pid_def p0_def)
  have p0: "untouchedPlan p0" "Pl_StartedAt p0 = now" by (simp_all add: p0_def)
  from assms obtain gate where gate: "EvaluateHardeningGate (Fq_GateSnapshot req) pid (Pl_FlipID p0) (Fq_Override req) now = Inr gate"
    unfolding eq by (auto split: if_split_asm sum.split_asm)
  have passes: "Fg_Satisfied gate \<longleftrightarrow> flipPasses req" using hardening_gate(1) [OF gate] by (simp add: flipPasses_def)
  have "Pl_State p = flipState wall req \<and> Pl_StartedAt p = now \<and> (if Pl_State p = StateCompleted
      then Pl_ReversibleUntil p = Some (now + normalizeDuration (Fq_ReversibilityWindow req) DefaultReversibilityWindow)
      else untouchedPlan p \<and> fs' = fs)"
  proof (cases "Fg_Satisfied gate")
    case False
    with assms gate have "p = refuse gate (p0\<lparr>Pl_Gate := Some gate\<rparr>)" "fs' = fs"
      unfolding eq by (auto split: if_split_asm)
    with False p0 passes show ?thesis by (simp add: refuse_def flipState_def untouchedPlan_def)
  next
    case True
    with assms gate obtain drain where drain: "EvaluateDrain wall (Fq_Drain req) now = Inr drain"
      "afterDrain c io wall req now drain (p0\<lparr>Pl_Gate := Some gate, Pl_Drain := Some drain\<rparr>) fs = (Inr p, fs')"
      unfolding eq by (auto split: if_split_asm sum.split_asm)
    note st = EvaluateDrain_state [OF drain(1) [unfolded now_def]]
    show ?thesis
    proof (cases "Dn_State drain")
      case DrainComplete
      with drain(2) obtain m where
        fin: "finishFlip c wall req now drain m (p0\<lparr>Pl_Gate := Some gate, Pl_Drain := Some drain\<rparr>) = Inr p"
        by (auto simp: afterDrain_def split: prod.split_asm sum.split_asm)
      have "openBeads req = []" using st DrainComplete by (simp split: if_split_asm)
      with finishFlip_fields [OF fin] p0 True passes show ?thesis by (simp add: flipState_def)
    next
      case DrainInProgress
      with st have "openBeads req \<noteq> []" "drainNow wall req < drainEnds wall req" by (simp_all split: if_split_asm)
      with drain(2) DrainInProgress p0 True passes show ?thesis
        by (auto simp: afterDrain_def flipState_def addAudit_def untouchedPlan_def)
    next
      case DrainAwaitingResolution
      with st have "openBeads req \<noteq> []" "\<not> drainNow wall req < drainEnds wall req" by (simp_all split: if_split_asm)
      with drain(2) DrainAwaitingResolution p0 True passes show ?thesis
        by (auto simp: afterDrain_def flipState_def addAudit_def untouchedPlan_def)
    qed
  qed
  then show "Pl_State p = flipState wall req"
    and "Pl_StartedAt p = (if isZero (Fq_Now req) then wall else Fq_Now req)"
    and "if Pl_State p = StateCompleted
      then Pl_ReversibleUntil p = Some (Pl_StartedAt p + normalizeDuration (Fq_ReversibilityWindow req) DefaultReversibilityWindow)
      else untouchedPlan p \<and> fs' = fs"
    by (simp_all add: now_def)
qed

text \<open>Only a flip that is past its gate and its drain gets to write, also when it fails later.\<close>

lemma BuildPlan_writes:
  assumes "BuildPlan c io wall req fs = (res, fs')" "fs' \<noteq> fs"
  shows "flipState wall req = StateCompleted"
proof -
  define now where "now = (if isZero (Fq_Now req) then wall else Fq_Now req)"
  define pid where "pid = (if TrimSpace (Fq_ProjectID req) = [] then TrimSpace (Gs_ProjectID (Fq_GateSnapshot req))
    else TrimSpace (Fq_ProjectID req))"
  define p0 where "p0 = flipStart c req now pid (TrimSpace (Fq_ImplementationSwarmID req))"
  note unf = assms(1) [unfolded BuildPlan_def Let_def, folded now_def, folded pid_def, folded p0_def]
  obtain gate where g: "EvaluateHardeningGate (Fq_GateSnapshot req) pid (Pl_FlipID p0) (Fq_Override req) now = Inr gate"
      "Fg_Satisfied gate"
    using unf assms(2) by (simp split: if_split_asm sum.split_asm)
  with unf assms(2) obtain drain where d: "EvaluateDrain wall (Fq_Drain req) now = Inr drain"
      "afterDrain c io wall req now drain (p0\<lparr>Pl_Gate := Some gate, Pl_Drain := Some drain\<rparr>) fs = (res, fs')"
    by (simp split: if_split_asm sum.split_asm)
  from d(2) assms(2) have "Dn_State drain = DrainComplete"
    by (cases "Dn_State drain") (auto simp: afterDrain_def)
  with EvaluateDrain_state [OF d(1) [unfolded now_def]] have "openBeads req = []" by (simp split: if_split_asm)
  with hardening_gate(1) [OF g(1)] g(2) show ?thesis by (simp add: flipPasses_def flipState_def)
qed

text \<open>
  C39. A flip that yields a plan is refused exactly when the hardening gate is closed and no override is
  approved; otherwise it is completed exactly when no bead in flight is left undecided, drains while the
  grace lasts, and then waits for decisions; a plan that is not completed switches nothing. And
  whatever \<open>BuildPlan\<close> returns, a plan or an error, it has written no file unless gate and drain had
  let it through to completion. (From there it may still fail, after the snapshot has been written.)
\<close>

theorem flip_state_decided:
  assumes "BuildPlan c io wall req fs = (res, fs')"
  shows "(\<forall>p. res = Inr p \<longrightarrow> Pl_State p = flipState wall req \<and> (Pl_State p = StateCompleted \<or> untouchedPlan p)) \<and>
    (flipState wall req \<noteq> StateCompleted \<longrightarrow> fs' = fs)"
proof (intro conjI allI impI)
  fix p
  assume "res = Inr p"
  with assms have p: "BuildPlan c io wall req fs = (Inr p, fs')" by simp
  show "Pl_State p = flipState wall req" by (rule BuildPlan_state(1) [OF p])
  from BuildPlan_state(3) [OF p] show "Pl_State p = StateCompleted \<or> untouchedPlan p" by (simp split: if_split_asm)
next
  assume "flipState wall req \<noteq> StateCompleted"
  with BuildPlan_writes [OF assms] show "fs' = fs" by blast
qed

text \<open>
  The way back without an approval is open exactly for a completed flip, until its window ends.
\<close>

theorem return_within_window:
  assumes "BuildPlan c io wall req fs = (Inr p, fs')" and "0 < Pl_StartedAt p" and "0 < now"
  shows "Rt_Allowed (EvaluateReturn wall' p now beads) \<longleftrightarrow> Pl_State p = StateCompleted \<and>
    now \<le> Pl_StartedAt p + normalizeDuration (Fq_ReversibilityWindow req) DefaultReversibilityWindow"
proof (cases "Pl_State p = StateCompleted")
  case True
  have "0 < normalizeDuration w DefaultReversibilityWindow" for w
    by (simp add: normalizeDuration_def DefaultReversibilityWindow_def nsPerMinute_def)
  from this [of "Fq_ReversibilityWindow req"] True BuildPlan_state(3) [OF assms(1)] assms(2,3) show ?thesis
    by (auto simp: EvaluateReturn_def Let_def)
next
  case False
  with BuildPlan_state(3) [OF assms(1)] show ?thesis by (simp add: EvaluateReturn_def untouchedPlan_def Let_def)
qed

end
