(* ===== verification/FlipJobs.thy ===== *)
theory FlipJobs
  imports FlipProps
begin

text \<open>
  Switching the tending jobs twice is switching them once, and a written snapshot verifies;
  then the witnesses of these and of \<open>FlipProps\<close>.
\<close>

section \<open>Folds that may fail\<close>

lemma foldSteps_keeps:
  assumes "foldSteps f xs s = Inr s'" and "P s"
    and "\<And>x t t'. x \<in> set xs \<Longrightarrow> f x t = Inr t' \<Longrightarrow> P t \<Longrightarrow> P t'"
  shows "P s'"
  using assms by (induction f xs s rule: foldSteps.induct) (auto split: sum.split_asm)

lemma foldSteps_settles:
  assumes "foldSteps f xs s = Inr s'" and "distinct (map key xs)"
    and "\<And>x t t'. f x t = Inr t' \<Longrightarrow> Q x t'"
    and "\<And>x y t t'. f x t = Inr t' \<Longrightarrow> key x \<noteq> key y \<Longrightarrow> Q y t \<Longrightarrow> Q y t'"
  shows "\<forall>x\<in>set xs. Q x s'"
  using assms(1,2)
proof (induction xs arbitrary: s)
  case (Cons x xs)
  from Cons.prems(1) obtain t where t: "f x s = Inr t" "foldSteps f xs t = Inr s'" by (auto split: sum.split_asm)
  have "Q x s'"
    by (rule foldSteps_keeps [where P = "Q x", OF t(2) assms(3) [OF t(1)]])
      (use Cons.prems(2) assms(4) in \<open>auto simp: image_iff\<close>)
  with Cons.IH [OF t(2)] Cons.prems(2) show ?case by simp
qed simp

lemma foldSteps_steady:
  assumes "P s" and "\<And>x t. x \<in> set xs \<Longrightarrow> P t \<Longrightarrow> \<exists>t'. f x t = Inr t' \<and> P t'"
  shows "\<exists>s'. foldSteps f xs s = Inr s' \<and> P s'"
  using assms
proof (induction xs arbitrary: s)
  case (Cons x xs)
  from Cons.prems obtain t where t: "f x s = Inr t" "P t" by (metis list.set_intros(1))
  from Cons.IH [OF t(2)] Cons.prems(2) have "\<exists>s'. foldSteps f xs t = Inr s' \<and> P s'" by simp
  with t(1) show ?case by simp
qed simp

lemma fold_as_steps: "foldSteps (\<lambda>x s. Inr (g x s)) xs s = Inr (fold g xs s)"
  by (induction xs arbitrary: s) auto

section \<open>Maps of jobs\<close>

lemma update_same [simp]: "map_of m i = Some v \<Longrightarrow> AList.update i v m = m"
  by (induction m) (auto split: if_split_asm)

definition keyed :: "job_map \<Rightarrow> bool" where
  "keyed m \<longleftrightarrow> distinct (keys m) \<and> (\<forall>i j. map_of m i = Some j \<longrightarrow> Tj_ID j = i \<and> i \<noteq> [] \<and> TrimSpace i = i)"

lemma jobs_keyed_update: "keyed m \<Longrightarrow> Tj_ID j = i \<Longrightarrow> i \<noteq> [] \<Longrightarrow> TrimSpace i = i \<Longrightarrow> keyed (AList.update i j m)"
  by (auto simp: keyed_def)

lemma collectJobs_keyed: "collectJobs js m = Inr m' \<Longrightarrow> keyed m \<Longrightarrow> keyed m'"
  by (induction js m rule: collectJobs.induct) (auto simp: Let_def jobs_keyed_update split: if_split_asm)

lemma same_id [simp]: "j\<lparr>Tj_ID := Tj_ID j\<rparr> = j"
  by (cases j) simp

lemma collectJobs_clean:
  assumes "\<forall>j\<in>set js. Tj_ID j \<noteq> [] \<and> TrimSpace (Tj_ID j) = Tj_ID j \<and> map_of m (Tj_ID j) = None"
    and "distinct (map Tj_ID js)"
  shows "\<exists>m'. collectJobs js m = Inr m' \<and> map_of m' = map_of m ++ map_of (map (\<lambda>j. (Tj_ID j, j)) js)"
  using assms
proof (induction js arbitrary: m)
  case (Cons j js)
  let ?m = "AList.update (Tj_ID j) j m"
  have clean: "\<forall>k\<in>set js. Tj_ID k \<noteq> [] \<and> TrimSpace (Tj_ID k) = Tj_ID k \<and> map_of ?m (Tj_ID k) = None"
    using Cons.prems by (auto simp: image_iff)
  moreover have "distinct (map Tj_ID js)" using Cons.prems(2) by simp
  ultimately obtain m' where m': "collectJobs js ?m = Inr m'" "map_of m' = map_of ?m ++ map_of (map (\<lambda>j. (Tj_ID j, j)) js)"
    using Cons.IH [of ?m] by blast
  have "map_of ?m ++ map_of (map (\<lambda>j. (Tj_ID j, j)) js) = map_of m ++ map_of (map (\<lambda>j. (Tj_ID j, j)) (j # js))"
  proof -
    have "Tj_ID j \<notin> dom (map_of (map (\<lambda>j. (Tj_ID j, j)) js))"
      using Cons.prems(2) by (auto simp: dom_map_of_conv_image_fst)
    then show ?thesis by (simp add: map_add_upd_left)
  qed
  with m'(2) have "map_of m' = map_of m ++ map_of (map (\<lambda>j. (Tj_ID j, j)) (j # js))" by (rule trans)
  moreover have "collectJobs (j # js) m = Inr m'" using m'(1) Cons.prems(1) by simp
  ultimately show ?case by blast
qed simp

lemma sortedTendingJobs_list:
  assumes "keyed m"
  shows "map (\<lambda>j. (Tj_ID j, j)) (sortedTendingJobs m) = map (\<lambda>i. (i, the (map_of m i))) (sort (keys m))"
proof -
  have "Tj_ID (the (map_of m i)) = i" if "i \<in> set (keys m)" for i
    using assms that by (cases "map_of m i") (auto simp: keyed_def map_of_eq_None_iff)
  then show ?thesis by (simp add: sortedTendingJobs_def)
qed

lemma collect_sorted:
  assumes "keyed m"
  shows "\<exists>m'. collectJobs (sortedTendingJobs m) [] = Inr m' \<and> map_of m' = map_of m \<and> keyed m'"
proof -
  note list = sortedTendingJobs_list [OF assms]
  have ids: "map Tj_ID (sortedTendingJobs m) = sort (keys m)"
    using arg_cong [OF list, of "map fst"] by (simp add: comp_def)
  have good: "i \<noteq> [] \<and> TrimSpace i = i" if "i \<in> set (keys m)" for i
    using assms that by (cases "map_of m i") (auto simp: keyed_def map_of_eq_None_iff)
  have "Tj_ID j \<in> set (keys m)" if "j \<in> set (sortedTendingJobs m)" for j
    using that ids by (metis image_eqI image_set set_sort)
  with good have "\<forall>j\<in>set (sortedTendingJobs m). Tj_ID j \<noteq> [] \<and> TrimSpace (Tj_ID j) = Tj_ID j \<and> map_of [] (Tj_ID j) = (None :: TendingJob option)"
    by simp
  moreover have "distinct (map Tj_ID (sortedTendingJobs m))" using assms by (simp add: ids keyed_def)
  ultimately obtain m' where m': "collectJobs (sortedTendingJobs m) [] = Inr m'"
    "map_of m' = map_of (map (\<lambda>j. (Tj_ID j, j)) (sortedTendingJobs m))"
    using collectJobs_clean [of "sortedTendingJobs m" "[]"] by auto
  have "map_of m' = map_of m"
    unfolding m'(2) list
    by (auto simp: fun_eq_iff map_of_map_restrict restrict_map_def map_of_eq_None_iff)
      (metis domIff dom_map_of_conv_image_fst option.collapse)
  moreover have "keyed m'" using collectJobs_keyed [OF m'(1)] by (simp add: keyed_def)
  ultimately show ?thesis using m'(1) by blast
qed

lemma sortedTendingJobs_cong:
  assumes "keyed m" "keyed m'" "map_of m' = map_of m"
  shows "sortedTendingJobs m' = sortedTendingJobs m"
proof -
  have "set (keys m') = set (keys m)" using assms(3) by (metis dom_map_of_conv_image_fst list.set_map)
  then have "sort (keys m') = sort (keys m)"
    using assms(1,2) by (intro sorted_distinct_set_unique) (auto simp: keyed_def)
  with assms(3) show ?thesis by (simp add: sortedTendingJobs_def)
qed

section \<open>The steps of a switch\<close>

definition paused :: "string \<Rightarrow> switch_state \<Rightarrow> bool" where
  "paused i s \<longleftrightarrow> (\<forall>j. map_of (ss_jobs s) i = Some j \<longrightarrow> Tj_Paused j)"

definition active :: "TendingJob \<Rightarrow> switch_state \<Rightarrow> bool" where
  "active a s \<longleftrightarrow> TrimSpace (Tj_ID a) \<noteq> [] \<and> (\<exists>j. map_of (ss_jobs s) (TrimSpace (Tj_ID a)) = Some j \<and>
     (Tj_Paused j \<longrightarrow> Tj_Paused a) \<and> (Tj_Cadence a > 0 \<longrightarrow> Tj_Cadence j = Tj_Cadence a) \<and>
     (Tj_Mode a \<noteq> [] \<longrightarrow> Tj_Mode j = Tj_Mode a))"

definition tuned :: "string \<Rightarrow> duration \<Rightarrow> switch_state \<Rightarrow> bool" where
  "tuned i c s \<longleftrightarrow> 0 < c \<and> (\<forall>j. map_of (ss_jobs s) i = Some j \<longrightarrow> Tj_Cadence j = c)"

definition keyedState :: "switch_state \<Rightarrow> bool" where
  "keyedState s \<longleftrightarrow> keyed (ss_jobs s)"

lemma keyed_job: "keyed m \<Longrightarrow> map_of m i = Some j \<Longrightarrow> Tj_ID j = i \<and> i \<noteq> [] \<and> TrimSpace i = i"
  by (auto simp: keyed_def)

lemma keyed_set: "keyed m \<Longrightarrow> map_of m i = Some old \<Longrightarrow> Tj_ID j = Tj_ID old \<Longrightarrow> keyed (AList.update i j m)"
  using keyed_job by (intro jobs_keyed_update) fastforce+

lemma pauseStep_keyed: "keyedState s \<Longrightarrow> keyedState (pauseStep i s)"
  by (auto simp: pauseStep_def keyedState_def keyed_set split: option.split)

lemma pauseStep_facts:
  "paused i (pauseStep i s)" "i \<noteq> k \<Longrightarrow> paused k s \<Longrightarrow> paused k (pauseStep i s)"
  by (auto simp: pauseStep_def paused_def split: option.split)

lemma activateStep_cases:
  assumes "activateStep a s = Inr s'"
  shows "\<exists>v. TrimSpace (Tj_ID a) \<noteq> [] \<and> ss_jobs s' = AList.update (TrimSpace (Tj_ID a)) v (ss_jobs s) \<and>
    (Tj_ID v = TrimSpace (Tj_ID a) \<or> (\<exists>old. map_of (ss_jobs s) (TrimSpace (Tj_ID a)) = Some old \<and> Tj_ID v = Tj_ID old)) \<and>
    (Tj_Paused v \<longrightarrow> Tj_Paused a) \<and> (Tj_Cadence a > 0 \<longrightarrow> Tj_Cadence v = Tj_Cadence a) \<and>
    (Tj_Mode a \<noteq> [] \<longrightarrow> Tj_Mode v = Tj_Mode a)"
proof (cases "map_of (ss_jobs s) (TrimSpace (Tj_ID a))")
  case None
  with assms show ?thesis
    by (intro exI [of _ "a\<lparr>Tj_ID := TrimSpace (Tj_ID a)\<rparr>"]) (auto simp: activateStep_def Let_def split: if_split_asm)
next
  case (Some old)
  let ?resume = "Tj_Paused old \<and> \<not> Tj_Paused a" and ?retune = "Tj_Cadence a > 0 \<and> Tj_Cadence old \<noteq> Tj_Cadence a"
  let ?v = "old\<lparr>Tj_Paused := (if ?resume then False else Tj_Paused old),
    Tj_Cadence := (if ?retune then Tj_Cadence a else Tj_Cadence old),
    Tj_Mode := (if Tj_Mode a \<noteq> [] then Tj_Mode a else Tj_Mode old)\<rparr>"
  from assms Some have i: "TrimSpace (Tj_ID a) \<noteq> []" by (auto simp: activateStep_def Let_def split: if_split_asm)
  with assms Some have "s' = activateExisting (TrimSpace (Tj_ID a)) (a\<lparr>Tj_ID := TrimSpace (Tj_ID a)\<rparr>) old s"
    by (simp add: activateStep_def Let_def)
  then have "ss_jobs s' = AList.update (TrimSpace (Tj_ID a)) ?v (ss_jobs s)"
    by (simp add: activateExisting_def Let_def del: update_same split del: if_split cong: if_cong)
  with i Some show ?thesis by (intro exI [of _ ?v]) auto
qed

lemma activateStep_facts:
  assumes "activateStep a s = Inr s'"
  shows "keyedState s \<Longrightarrow> keyedState s'" "active a s'"
    "TrimSpace (Tj_ID a) \<noteq> TrimSpace (Tj_ID b) \<Longrightarrow> active b s \<Longrightarrow> active b s'"
    "TrimSpace (Tj_ID a) \<noteq> i \<Longrightarrow> paused i s \<Longrightarrow> paused i s'"
  using activateStep_cases [OF assms]
  by (auto simp: keyedState_def active_def paused_def keyed_set jobs_keyed_update split: if_split_asm)

lemma retuneStep_cases:
  assumes "retuneStep i c s = Inr s'"
  obtains "0 < c" "ss_jobs s' = ss_jobs s" "\<forall>j. map_of (ss_jobs s) i = Some j \<longrightarrow> Tj_Cadence j = c"
  | old where "0 < c" "map_of (ss_jobs s) i = Some old" "ss_jobs s' = AList.update i (old\<lparr>Tj_Cadence := c\<rparr>) (ss_jobs s)"
  using assms by (auto simp: retuneStep_def split: if_split_asm option.split_asm)

lemma retuneStep_facts:
  assumes "retuneStep i c s = Inr s'"
  shows "keyedState s \<Longrightarrow> keyedState s'" "tuned i c s'"
    "i \<noteq> k \<Longrightarrow> tuned k d s \<Longrightarrow> tuned k d s'" "paused k s \<Longrightarrow> paused k s'"
    "i \<noteq> TrimSpace (Tj_ID b) \<Longrightarrow> active b s \<Longrightarrow> active b s'"
  using assms
  by (auto elim!: retuneStep_cases simp: keyedState_def active_def paused_def tuned_def keyed_set split: if_split_asm)

definition steady :: "job_map \<Rightarrow> switch_state \<Rightarrow> bool" where
  "steady m s \<longleftrightarrow> ss_jobs s = m \<and> ss_patches s = []"

lemma pause_steady: "steady m s \<Longrightarrow> paused i s \<Longrightarrow> steady m (pauseStep i s)"
  by (auto simp: steady_def paused_def pauseStep_def split: option.split)

lemma same_job [simp]: "j\<lparr>Tj_Paused := Tj_Paused j, Tj_Cadence := Tj_Cadence j, Tj_Mode := Tj_Mode j\<rparr> = j"
  by (cases j) simp

lemma activate_steady:
  assumes "steady m s" and "active a s"
  shows "\<exists>s'. activateStep a s = Inr s' \<and> steady m s'"
proof -
  from assms(2) obtain j where j: "map_of (ss_jobs s) (TrimSpace (Tj_ID a)) = Some j" "Tj_Paused j \<longrightarrow> Tj_Paused a"
    "Tj_Cadence a > 0 \<longrightarrow> Tj_Cadence j = Tj_Cadence a" "Tj_Mode a \<noteq> [] \<longrightarrow> Tj_Mode j = Tj_Mode a"
    "TrimSpace (Tj_ID a) \<noteq> []" by (auto simp: active_def)
  then have same: "j\<lparr>Tj_Paused := Tj_Paused j, Tj_Cadence := Tj_Cadence j,
      Tj_Mode := (if Tj_Mode a \<noteq> [] then Tj_Mode a else Tj_Mode j)\<rparr> = j" by (cases j) auto
  have "steady m (activateExisting (TrimSpace (Tj_ID a)) (a\<lparr>Tj_ID := TrimSpace (Tj_ID a)\<rparr>) j s)"
    using assms(1) j same by (auto simp: steady_def activateExisting_def Let_def)
  with j show ?thesis by (simp add: activateStep_def Let_def)
qed

lemma retune_steady: "steady m s \<Longrightarrow> tuned i c s \<Longrightarrow> \<exists>s'. retuneStep i c s = Inr s' \<and> steady m s'"
  by (auto simp: steady_def tuned_def retuneStep_def split: option.split)

section \<open>Switching twice\<close>

definition effectivePlan :: "TendingSwitchPlan \<Rightarrow> TendingSwitchPlan" where
  "effectivePlan p = (if TendingPlan_Empty p then DefaultTendingSwitchPlan else p)"

text \<open>No job is both activated and paused or retuned, and none is activated twice.\<close>

definition separatePlan :: "TendingSwitchPlan \<Rightarrow> bool" where
  "separatePlan p \<longleftrightarrow> distinct (keys (Ts_Retune p)) \<and> distinct (map (\<lambda>a. TrimSpace (Tj_ID a)) (Ts_Activate p)) \<and>
     (\<forall>a\<in>set (Ts_Activate p). TrimSpace (Tj_ID a) \<notin> set (uniqueSortedStrings (Ts_Pause p)) \<union> set (keys (Ts_Retune p)))"

definition switched :: "TendingSwitchPlan \<Rightarrow> switch_state \<Rightarrow> flip_err + switch_state" where
  "switched p s0 =
     (case foldSteps activateStep (sort_key Tj_ID (Ts_Activate p)) (fold pauseStep (uniqueSortedStrings (Ts_Pause p)) s0) of
        Inl e \<Rightarrow> Inl e
      | Inr s2 \<Rightarrow> foldSteps (\<lambda>i. retuneStep i (the (map_of (Ts_Retune p) i))) (sort (keys (Ts_Retune p))) s2)"

definition startState :: "job_map \<Rightarrow> switch_state" where
  "startState m = \<lparr>ss_jobs = m, ss_patches = [], ss_paused = 0, ss_activated = 0, ss_retuned = 0, ss_warnings = []\<rparr>"

lemma SwitchTendingJobs_switched:
  "SwitchTendingJobs c current p = (case collectJobs current [] of Inl e \<Rightarrow> Inl e
     | Inr jobs \<Rightarrow> (case switched (effectivePlan p) (startState jobs) of Inl e \<Rightarrow> Inl e
         | Inr s3 \<Rightarrow> Inr \<lparr>Tw_IdempotencyKey = tendingIdempotencyKey c (sortedTendingJobs (ss_jobs s3)),
             Tw_Jobs = sortedTendingJobs (ss_jobs s3), Tw_Patches = ss_patches s3, Tw_PausedCount = ss_paused s3,
             Tw_ActivatedCount = ss_activated s3, Tw_RetunedCount = ss_retuned s3, Tw_Warnings = sort (ss_warnings s3)\<rparr>))"
  by (simp add: SwitchTendingJobs_def switched_def startState_def effectivePlan_def Let_def split: sum.split)

definition settled :: "TendingSwitchPlan \<Rightarrow> switch_state \<Rightarrow> bool" where
  "settled p s \<longleftrightarrow> (\<forall>i\<in>set (uniqueSortedStrings (Ts_Pause p)). paused i s) \<and> (\<forall>a\<in>set (Ts_Activate p). active a s) \<and>
     (\<forall>i\<in>set (keys (Ts_Retune p)). tuned i (the (map_of (Ts_Retune p) i)) s)"

lemma uniqueSorted_distinct [simp]: "distinct (uniqueSortedStrings v)"
  by (simp add: uniqueSortedStrings_def)

lemma distinct_sort_key: "distinct (map f xs) \<Longrightarrow> distinct (map f (sort_key k xs))"
  by (metis distinct_map distinct_sort set_sort)

lemma switched_settles:
  assumes p: "separatePlan p" and run: "switched p (startState m) = Inr s" and m: "keyed m"
  shows "settled p s \<and> keyedState s"
proof -
  let ?ps = "uniqueSortedStrings (Ts_Pause p)" and ?as = "sort_key Tj_ID (Ts_Activate p)"
    and ?rs = "sort (keys (Ts_Retune p))"
  let ?tune = "\<lambda>i. retuneStep i (the (map_of (Ts_Retune p) i))"
  let ?s1 = "fold pauseStep ?ps (startState m)"
  from run obtain s2 where s2: "foldSteps activateStep ?as ?s1 = Inr s2" "foldSteps ?tune ?rs s2 = Inr s"
    by (auto simp: switched_def split: sum.split_asm)
  note f1 = fold_as_steps [of pauseStep ?ps "startState m"]
  have "keyedState ?s1"
    by (rule foldSteps_keeps [where P = keyedState, OF f1])
      (use m pauseStep_keyed in \<open>auto simp: keyedState_def startState_def\<close>)
  then have "keyedState s2"
    by (rule foldSteps_keeps [where P = keyedState, OF s2(1)]) (rule activateStep_facts(1))
  then have "keyedState s"
    by (rule foldSteps_keeps [where P = keyedState, OF s2(2)]) (rule retuneStep_facts(1))
  moreover have "paused i s" if i: "i \<in> set ?ps" for i
  proof -
    have "\<forall>i\<in>set ?ps. paused i ?s1"
      by (rule foldSteps_settles [where key = id, OF f1]) (auto simp: pauseStep_facts)
    then have "paused i ?s1" using i by blast
    then have "paused i s2"
      by (rule foldSteps_keeps [where P = "paused i", OF s2(1)])
        (use p i in \<open>auto simp: separatePlan_def intro: activateStep_facts(4)\<close>)
    then show ?thesis
      by (rule foldSteps_keeps [where P = "paused i", OF s2(2)]) (rule retuneStep_facts(4))
  qed
  moreover have "active a s" if a: "a \<in> set (Ts_Activate p)" for a
  proof -
    have "\<forall>a\<in>set ?as. active a s2"
      by (rule foldSteps_settles [where key = "\<lambda>a. TrimSpace (Tj_ID a)", OF s2(1)])
        (use p in \<open>auto simp: separatePlan_def intro: distinct_sort_key activateStep_facts(2,3)\<close>)
    then have "active a s2" using a by simp
    moreover have "TrimSpace (Tj_ID a) \<notin> set ?rs" using p a by (auto simp: separatePlan_def)
    ultimately show ?thesis
      by (elim foldSteps_keeps [where P = "active a", OF s2(2)]) (metis retuneStep_facts(5))
  qed
  moreover have "\<forall>i\<in>set ?rs. tuned i (the (map_of (Ts_Retune p) i)) s"
    by (rule foldSteps_settles [where key = id, OF s2(2)])
      (use p in \<open>auto simp: separatePlan_def intro: retuneStep_facts(2,3)\<close>)
  ultimately show ?thesis by (auto simp: settled_def)
qed

lemma settled_steady:
  assumes "settled p (startState m)"
  shows "\<exists>s. switched p (startState m) = Inr s \<and> steady m s"
proof -
  let ?P = "steady m"
  have up: "paused i (startState m) \<Longrightarrow> paused i t" "active a (startState m) \<Longrightarrow> active a t"
    "tuned i c (startState m) \<Longrightarrow> tuned i c t" if "steady m t" for t i a c
    using that by (simp_all add: steady_def startState_def paused_def active_def tuned_def)
  have facts: "\<forall>i\<in>set (uniqueSortedStrings (Ts_Pause p)). paused i (startState m)"
    "\<forall>a\<in>set (sort_key Tj_ID (Ts_Activate p)). active a (startState m)"
    "\<forall>i\<in>set (sort (keys (Ts_Retune p))). tuned i (the (map_of (Ts_Retune p) i)) (startState m)"
    using assms by (simp_all add: settled_def)
  have s0: "steady m (startState m)" by (simp add: steady_def startState_def)
  have "\<exists>s'. foldSteps (\<lambda>x s. Inr (pauseStep x s)) (uniqueSortedStrings (Ts_Pause p)) (startState m) = Inr s' \<and> ?P s'"
    by (rule foldSteps_steady [where P = ?P, OF s0]) (use facts(1) up(1) pause_steady in blast)
  then have s1: "?P (fold pauseStep (uniqueSortedStrings (Ts_Pause p)) (startState m))" by (simp add: fold_as_steps)
  have "\<exists>s'. foldSteps activateStep (sort_key Tj_ID (Ts_Activate p))
      (fold pauseStep (uniqueSortedStrings (Ts_Pause p)) (startState m)) = Inr s' \<and> ?P s'"
    by (rule foldSteps_steady [where P = ?P, OF s1]) (use facts(2) up(2) activate_steady in blast)
  then obtain s2 where s2: "foldSteps activateStep (sort_key Tj_ID (Ts_Activate p))
      (fold pauseStep (uniqueSortedStrings (Ts_Pause p)) (startState m)) = Inr s2" "?P s2" by blast
  have "\<exists>s'. foldSteps (\<lambda>i. retuneStep i (the (map_of (Ts_Retune p) i))) (sort (keys (Ts_Retune p))) s2 = Inr s' \<and> ?P s'"
    by (rule foldSteps_steady [where P = ?P, OF s2(2)]) (use facts(3) up(3) retune_steady in blast)
  with s2(1) show ?thesis by (simp add: switched_def)
qed

text \<open>
  Applying the plan again to the jobs a switch has left makes no patch, leaves the jobs and gives
  the same idempotency key, as long as the plan does not ask for two things of one job.
\<close>

theorem tending_switch_idempotent:
  assumes "SwitchTendingJobs c current p = Inr r" and "separatePlan (effectivePlan p)"
  shows "\<exists>r'. SwitchTendingJobs c (Tw_Jobs r) p = Inr r' \<and> Tw_Patches r' = [] \<and> Tw_Jobs r' = Tw_Jobs r \<and>
    Tw_IdempotencyKey r' = Tw_IdempotencyKey r"
proof -
  from assms(1) obtain m s where m: "collectJobs current [] = Inr m" and s: "switched (effectivePlan p) (startState m) = Inr s"
    and r: "Tw_Jobs r = sortedTendingJobs (ss_jobs s)" "Tw_IdempotencyKey r = tendingIdempotencyKey c (sortedTendingJobs (ss_jobs s))"
    by (auto simp: SwitchTendingJobs_switched split: sum.split_asm)
  have "keyed m" using collectJobs_keyed [OF m] by (simp add: keyed_def)
  from switched_settles [OF assms(2) s this] have st: "settled (effectivePlan p) s" "keyed (ss_jobs s)"
    by (simp_all add: keyedState_def)
  from collect_sorted [OF st(2)] obtain m' where m': "collectJobs (Tw_Jobs r) [] = Inr m'" "map_of m' = map_of (ss_jobs s)"
    "keyed m'" unfolding r by blast
  from st(1) m'(2) have "settled (effectivePlan p) (startState m')"
    by (simp add: settled_def paused_def active_def tuned_def startState_def)
  then obtain s' where "switched (effectivePlan p) (startState m') = Inr s'" "steady m' s'" using settled_steady by blast
  with m'(1) sortedTendingJobs_cong [OF st(2) m'(3,2)] r show ?thesis
    by (simp add: SwitchTendingJobs_switched steady_def)
qed

section \<open>Snapshots\<close>

lemma uniqueSorted_idem [simp]: "uniqueSortedStrings (uniqueSortedStrings v) = uniqueSortedStrings v"
proof -
  have "map TrimSpace (uniqueSortedStrings v) = uniqueSortedStrings v"
    by (auto simp: uniqueSortedStrings_def intro!: map_idI)
  moreover have "filter (\<lambda>v. v \<noteq> []) (uniqueSortedStrings v) = uniqueSortedStrings v"
    by (auto simp: uniqueSortedStrings_def intro!: filter_True)
  moreover have "sorted (uniqueSortedStrings v)" by (simp add: uniqueSortedStrings_def)
  ultimately show ?thesis
    unfolding uniqueSortedStrings_def [of "uniqueSortedStrings v"] by (simp add: sorted_sort_id)
qed

lemma flip_normalize_idem:
  "wall \<noteq> 0 \<Longrightarrow> flipNormalizeSnapshot wall' (flipNormalizeSnapshot wall s) = flipNormalizeSnapshot wall s"
  by (simp add: flipNormalizeSnapshot_def)

lemma hexEncode_digits: "set (hexEncode s) \<subseteq> set hexDigits"
proof -
  have "\<forall>n<16. nib n \<in> set hexDigits" by (simp add: numeral_eq_Suc All_less_Suc nib_def hexDigits_def)
  moreover have "(of_char ch :: nat) div 16 < 16" for ch
    using byte_bound [of ch] by (intro less_mult_imp_div_less) simp
  moreover have "(of_char ch :: nat) mod 16 < 16" for ch by simp
  ultimately show ?thesis by (auto simp: hexEncode_def)
qed

lemma TrimSpace_hex: "TrimSpace (hexEncode s) = hexEncode s"
proof -
  have "\<forall>c\<in>set hexDigits. printable c" by (simp add: hexDigits_def printable_def)
  then have "plain_char c" if "c \<in> set (hexEncode s)" for c
    using that hexEncode_digits [of s] printable_plain by blast
  then show ?thesis by (intro TrimSpace_plain) simp_all
qed

lemma Clean_stays_rooted: "HasPrefix p ''/'' \<Longrightarrow> HasPrefix (Clean p) ''/''"
  by (simp add: Clean_def Let_def HasPrefix_def)

lemma snapshotPath_trimmed:
  assumes "HasPrefix root ''/''"
  shows "TrimSpace (snapshotPath root pid fid) = snapshotPath root pid fid" and "snapshotPath root pid fid \<noteq> []"
proof -
  let ?dir = "JoinPath root (pid @ ''/hardening-snapshots/'' @ fid)"
  obtain pre where "JoinPath ?dir ''implementation-state.json'' = pre @ ''implementation-state.json''"
    using JoinPath_name [of "''implementation-state.json''" ?dir] by auto
  then have l: "last (snapshotPath root pid fid) = CHR ''n''" by (simp add: snapshotPath_def)
  have "HasPrefix (root @ x) ''/''" for x using assms by (cases root) (auto simp: HasPrefix_def)
  moreover have "root \<noteq> []" using assms by (auto simp: HasPrefix_def)
  ultimately have d: "HasPrefix ?dir ''/''" by (simp add: JoinPath_def Clean_stays_rooted)
  then have "?dir \<noteq> []" "HasPrefix (?dir @ x) ''/''" for x by (cases ?dir; auto simp: HasPrefix_def)+
  then have "HasPrefix (snapshotPath root pid fid) ''/''"
    unfolding snapshotPath_def JoinPath_def [of ?dir] by (simp add: Clean_stays_rooted)
  then have hd: "hd (snapshotPath root pid fid) = CHR ''/''" and "snapshotPath root pid fid \<noteq> []"
    by (cases "snapshotPath root pid fid"; simp add: HasPrefix_def)+
  then show "snapshotPath root pid fid \<noteq> []" by simp
  from hd l show "TrimSpace (snapshotPath root pid fid) = snapshotPath root pid fid"
    by (intro TrimSpace_plain) (simp_all add: printable_plain printable_def)
qed

text \<open>
  A snapshot written under an absolute root is read back and verifies against its manifest, when
  snapshots survive being written as JSON and read back.
\<close>

theorem written_snapshot_verifies:
  assumes "WriteImplementationSnapshot c SnapOk wall root s at fs = (Inr m, fs')"
    and "\<And>x d. fl_snapshotJSON c x = Some d \<Longrightarrow> fl_readSnapshot c (d @ [CHR 0x0A]) = Some x"
    and "HasPrefix (TrimSpace root) ''/''" and "wall \<noteq> 0"
  shows "map_sum id Sm_SHA256 (VerifySnapshot c wall' (Sm_Path m) (Sm_SHA256 m) fs') = Inr (Sm_SHA256 m) \<and>
    map_sum id fst (ReadImplementationSnapshot c wall' (Sm_Path m) fs') = Inr (flipNormalizeSnapshot wall s)"
proof -
  let ?n = "flipNormalizeSnapshot wall s"
  let ?path = "snapshotPath (TrimSpace root) (Im_ProjectID ?n) (Im_FlipID ?n)"
  note same = flip_normalize_idem [OF assms(4)]
  from assms(1) obtain d where d: "fl_snapshotJSON c ?n = Some d" "fs' = fs(?path \<mapsto> d @ [CHR 0x0A])"
    "Sm_Path m = ?path" "Sm_SHA256 m = hexEncode (fl_sha256 c (d @ [CHR 0x0A]))"
    unfolding WriteImplementationSnapshot_def Let_def
    by (auto simp: ManifestForSnapshot_def marshalSnapshot_def same Let_def split: if_split_asm option.split_asm)
  note path = snapshotPath_trimmed [OF assms(3), of "Im_ProjectID ?n" "Im_FlipID ?n"]
  with d path assms(2) [OF d(1)] same show ?thesis
    by (simp add: VerifySnapshot_def ReadImplementationSnapshot_def ManifestForSnapshot_def marshalSnapshot_def
        TrimSpace_hex EqualFoldASCII_def Let_def)
qed

end
