(* ===== verification/FlipWitness.thy ===== *)
theory FlipWitness
  imports FlipJobs
begin

text \<open>The theorems on flips applied at a sample request, and a flip id that leads out of the root.\<close>

section \<open>A sample flip\<close>

definition w_flip :: flip_codec where
  "w_flip = \<lparr>fl_snapshotJSON = (\<lambda>_. Some ''{}''), fl_readSnapshot = (\<lambda>_. None), fl_jobsJSON = (\<lambda>_. Some []),
     fl_sha256 = (\<lambda>_. ''0123456789'')\<rparr>"

definition w_implSnap :: "string \<Rightarrow> ImplementationSnapshot" where
  "w_implSnap fid = \<lparr>Im_SchemaVersion = 1, Im_FlipID = fid, Im_ProjectID = ''p'', Im_ImplementationSwarmID = ''s'',
     Im_CapturedAt = 5, Im_Beads = [], Im_Agents = [], Im_MailThreadIndexHashes = [],
     Im_BuildQueue = \<lparr>Bq_Running = 0, Bq_Queued = 0, Bq_Blocked = False, Bq_JobIDs = [''b'', '' a '', ''b'']\<rparr>,
     Im_PushStatus = [], Im_FirstSequence = 1, Im_LastSequence = 9, Im_Metadata = []\<rparr>"

definition w_launch :: HardeningLaunchSpec where
  "w_launch = \<lparr>Hl_SwarmID = [], Hl_ReviewTopicID = [], Hl_KickoffPromptTemplateID = [], Hl_KickoffPromptVersion = [],
     Hl_Composition = [], Hl_Skills = [], Hl_Round0AutoStart = False, Hl_FindingLedgerInitialized = False, Hl_Metadata = []\<rparr>"

definition w_flipReq :: FlipRequest where
  "w_flipReq = \<lparr>Fq_FlipID = ''f1'', Fq_ProjectID = ''p'', Fq_ImplementationSwarmID = ''s'',
     Fq_Actor = \<lparr>Actor_Kind = ActorKindUser, Actor_Id = None, Actor_DisplayName = None\<rparr>,
     Fq_GateSnapshot = readySnapshot LcSwarmRunning, Fq_Override = None,
     Fq_Drain = \<lparr>Di_GraceStartedAt = 1, Di_Now = 0, Di_GraceWindow = 0,
       Di_InFlight = [\<lparr>If_BeadID = ''b1'', If_AgentID = ''x'', If_Status = BeadInProgress, If_StartedAt = 1, If_LastActivityAt = 1\<rparr>],
       Di_Resolutions = [(''b1'', ResolutionDefer)]\<rparr>,
     Fq_Snapshot = w_implSnap [], Fq_SnapshotRoot = [], Fq_Hardening = w_launch,
     Fq_TendingJobs = [\<lparr>Tj_ID = '' drift-check '', Tj_Paused = False, Tj_Cadence = 3, Tj_Mode = []\<rparr>],
     Fq_TendingPlan = \<lparr>Ts_Pause = [], Ts_Activate = [], Ts_Retune = []\<rparr>, Fq_Now = 7, Fq_ReversibilityWindow = 100,
     Fq_Metadata = []\<rparr>"

lemma w_switch: "\<exists>r. SwitchTendingJobs w_flip (Fq_TendingJobs w_flipReq) (Fq_TendingPlan w_flipReq) = Inr r \<and> length (Tw_Patches r) = 4"
proof -
  have "map_sum id (\<lambda>r. length (Tw_Patches r)) (SwitchTendingJobs w_flip (Fq_TendingJobs w_flipReq) (Fq_TendingPlan w_flipReq)) = Inr 4"
    by code_simp
  then show ?thesis
    by (cases "SwitchTendingJobs w_flip (Fq_TendingJobs w_flipReq) (Fq_TendingPlan w_flipReq)") auto
qed

lemma effective_again: "effectivePlan (effectivePlan p) = effectivePlan p"
  by (simp add: effectivePlan_def TendingPlan_Empty_def DefaultTendingSwitchPlan_def)

text \<open>A flip whose gate is open, whose beads are decided and whose switch succeeds completes.\<close>

lemma BuildPlan_succeeds:
  assumes "TrimSpace (Fq_ProjectID req) = pid" "pid \<noteq> []" "TrimSpace (Fq_ImplementationSwarmID req) \<noteq> []"
    "ActorKind_Valid (Actor_Kind (Fq_Actor req))" "TrimSpace (Fq_FlipID req) = fid" "fid \<noteq> []" "Fq_Now req = now" "now \<noteq> 0"
    and "EvaluateHardeningGate (Fq_GateSnapshot req) pid fid (Fq_Override req) now = Inr gate" "Fg_Satisfied gate"
    and "EvaluateDrain wall (Fq_Drain req) now = Inr drain" "Dn_State drain = DrainComplete"
    and "SwitchTendingJobs c (Fq_TendingJobs req) (effectivePlan (Fq_TendingPlan req)) = Inr r"
    and "TrimSpace (Fq_SnapshotRoot req) = []" "\<And>s. \<exists>d. fl_snapshotJSON c s = Some d"
  shows "\<exists>p. BuildPlan c io wall req fs = (Inr p, fs)"
proof -
  define p0 where "p0 = flipStart c req now pid (TrimSpace (Fq_ImplementationSwarmID req))"
  have fid: "Pl_FlipID p0 = fid" using assms(5,6) by (simp add: p0_def flipStart_def)
  have man: "\<exists>m. ManifestForSnapshot c wall s path at = Inr m" for s path at
  proof -
    obtain d where "fl_snapshotJSON c (flipNormalizeSnapshot wall s) = Some d"
      using assms(15) [of "flipNormalizeSnapshot wall s"] by blast
    then show ?thesis by (simp add: ManifestForSnapshot_def marshalSnapshot_def Let_def)
  qed
  have "\<exists>q. afterDrain c io wall req now drain p fs = (Inr q, fs)" for p
  proof -
    have "\<exists>m. takeSnapshot c io wall req now p fs = (Inr m, fs)"
      unfolding takeSnapshot_def Let_def using assms(14) by (simp add: man)
    then obtain m where m: "takeSnapshot c io wall req now p fs = (Inr m, fs)" by blast
    obtain q where "finishFlip c wall req now drain m p = Inr q"
      using assms(13) by (auto simp: finishFlip_def effectivePlan_def Let_def)
    with m assms(12) show ?thesis by (simp add: afterDrain_def)
  qed
  then show ?thesis
    using assms(1-11) fid by (simp add: BuildPlan_def p0_def [symmetric])
qed

lemma w_flip_parts:
  "TrimSpace ''f1'' = ''f1''" "TrimSpace ''p'' = ''p''" "TrimSpace ''s'' = ''s''" "TrimSpace [] = []"
  "map_sum id Fg_Satisfied (EvaluateHardeningGate (readySnapshot LcSwarmRunning) ''p'' ''f1'' None 7) = Inr True"
  "map_sum id Dn_State (EvaluateDrain 3 (Fq_Drain w_flipReq) 7) = Inr DrainComplete"
  by code_simp+

lemma w_flip_plan:
  "\<exists>p fs'. BuildPlan w_flip SnapOk 3 w_flipReq (\<lambda>_. None) = (Inr p, fs') \<and> Pl_State p = StateCompleted"
proof -
  obtain gate where gate: "EvaluateHardeningGate (readySnapshot LcSwarmRunning) ''p'' ''f1'' None 7 = Inr gate" "Fg_Satisfied gate"
    using w_flip_parts(5) by (cases "EvaluateHardeningGate (readySnapshot LcSwarmRunning) ''p'' ''f1'' None 7") auto
  obtain drain where drain: "EvaluateDrain 3 (Fq_Drain w_flipReq) 7 = Inr drain" "Dn_State drain = DrainComplete"
    using w_flip_parts(6) by (cases "EvaluateDrain 3 (Fq_Drain w_flipReq) 7") auto
  obtain r where r: "SwitchTendingJobs w_flip (Fq_TendingJobs w_flipReq) (Fq_TendingPlan w_flipReq) = Inr r"
    using w_switch by blast
  have "\<exists>p. BuildPlan w_flip SnapOk 3 w_flipReq (\<lambda>_. None) = (Inr p, \<lambda>_. None)"
  proof (rule BuildPlan_succeeds [where pid = "''p''" and fid = "''f1''" and now = 7 and r = r])
    show "EvaluateDrain 3 (Fq_Drain w_flipReq) 7 = Inr drain" by (rule drain(1))
    show "EvaluateHardeningGate (Fq_GateSnapshot w_flipReq) ''p'' ''f1'' (Fq_Override w_flipReq) 7 = Inr gate"
      using gate(1) by (simp add: w_flipReq_def)
    show "SwitchTendingJobs w_flip (Fq_TendingJobs w_flipReq) (effectivePlan (Fq_TendingPlan w_flipReq)) = Inr r"
      using r unfolding SwitchTendingJobs_switched effective_again .
  qed (simp_all add: w_flipReq_def w_flip_parts gate(2) drain(2) w_flip_def ActorKind_Valid_def)
  then obtain p where p: "BuildPlan w_flip SnapOk 3 w_flipReq (\<lambda>_. None) = (Inr p, \<lambda>_. None)" by blast
  have "EvaluateDrain 3 (Fq_Drain w_flipReq) (if isZero (Fq_Now w_flipReq) then 3 else Fq_Now w_flipReq) = Inr drain"
    using drain(1) by (simp add: w_flipReq_def)
  from EvaluateDrain_state [OF this] drain(2) have "openBeads w_flipReq = []" by (auto split: if_split_asm)
  moreover have "flipPasses w_flipReq"
    using hardening_gate(1) [OF gate(1)] gate(2) by (simp add: flipPasses_def w_flipReq_def)
  ultimately show ?thesis using p BuildPlan_state(1) [OF p] by (auto simp: flipState_def)
qed

theorem flip_state_decided_witness:
  "flipState 3 w_flipReq = StateCompleted"
proof -
  obtain p fs' where p: "BuildPlan w_flip SnapOk 3 w_flipReq (\<lambda>_. None) = (Inr p, fs')" "Pl_State p = StateCompleted"
    using w_flip_plan by blast
  from flip_state_decided [OF p(1)] p(2) show ?thesis by simp
qed

theorem return_within_window_witness:
  "\<exists>p fs'. BuildPlan w_flip SnapOk 3 w_flipReq (\<lambda>_. None) = (Inr p, fs') \<and>
     Rt_Allowed (EvaluateReturn 1 p 107 []) \<and> \<not> Rt_Allowed (EvaluateReturn 1 p 108 [])"
proof -
  obtain p fs' where p: "BuildPlan w_flip SnapOk 3 w_flipReq (\<lambda>_. None) = (Inr p, fs')" "Pl_State p = StateCompleted"
    using w_flip_plan by blast
  have s: "Pl_StartedAt p = 7" using BuildPlan_state(2) [OF p(1)] by (simp add: w_flipReq_def)
  have w: "normalizeDuration (Fq_ReversibilityWindow w_flipReq) DefaultReversibilityWindow = 100"
    by (simp add: w_flipReq_def normalizeDuration_def)
  from return_within_window [OF p(1), of 107 1 "[]"] return_within_window [OF p(1), of 108 1 "[]"] p s w
  show ?thesis by simp
qed

lemma w_separate: "separatePlan (effectivePlan (Fq_TendingPlan w_flipReq))"
  by code_simp

theorem tending_switch_idempotent_witness:
  "\<exists>r r'. SwitchTendingJobs w_flip (Fq_TendingJobs w_flipReq) (Fq_TendingPlan w_flipReq) = Inr r \<and> length (Tw_Patches r) = 4 \<and>
     SwitchTendingJobs w_flip (Tw_Jobs r) (Fq_TendingPlan w_flipReq) = Inr r' \<and> Tw_Patches r' = []"
  using w_switch tending_switch_idempotent [OF _ w_separate] by blast

section \<open>Snapshots\<close>

definition w_stored :: ImplementationSnapshot where
  "w_stored = flipNormalizeSnapshot 3 (w_implSnap ''f1'')"

definition w_oneCodec :: flip_codec where
  "w_oneCodec = \<lparr>fl_snapshotJSON = (\<lambda>x. if x = w_stored then Some ''{}'' else None), fl_readSnapshot = (\<lambda>_. Some w_stored),
     fl_jobsJSON = (\<lambda>_. None), fl_sha256 = (\<lambda>_. ''0123456789'')\<rparr>"

theorem written_snapshot_verifies_witness:
  "\<exists>m fs'. WriteImplementationSnapshot w_oneCodec SnapOk 3 '' /data'' (w_implSnap ''f1'') 4 (\<lambda>_. None) = (Inr m, fs') \<and>
     map_sum id Sm_SHA256 (VerifySnapshot w_oneCodec 8 (Sm_Path m) (Sm_SHA256 m) fs') = Inr (Sm_SHA256 m)"
proof -
  have t: "TrimSpace '' /data'' = ''/data''" by code_simp
  have n: "TrimSpace (Im_ProjectID w_stored) \<noteq> []" "Im_ProjectID w_stored \<noteq> []" "Im_FlipID w_stored \<noteq> []"
    by code_simp+
  have i: "flipNormalizeSnapshot 3 w_stored = w_stored" by (simp add: w_stored_def flip_normalize_idem)
  have "\<exists>m fs'. WriteImplementationSnapshot w_oneCodec SnapOk 3 '' /data'' (w_implSnap ''f1'') 4 (\<lambda>_. None) = (Inr m, fs')"
    by (simp add: WriteImplementationSnapshot_def ManifestForSnapshot_def marshalSnapshot_def t n i Let_def
        w_stored_def [symmetric])
      (simp add: w_oneCodec_def ManifestForSnapshot_def marshalSnapshot_def i Let_def)
  then obtain m fs' where w: "WriteImplementationSnapshot w_oneCodec SnapOk 3 '' /data'' (w_implSnap ''f1'') 4 (\<lambda>_. None) = (Inr m, fs')"
    by blast
  have "fl_readSnapshot w_oneCodec (d @ [CHR 0x0A]) = Some x" if "fl_snapshotJSON w_oneCodec x = Some d" for x d
    using that by (simp add: w_oneCodec_def split: if_split_asm)
  from written_snapshot_verifies [OF w this] have "map_sum id Sm_SHA256 (VerifySnapshot w_oneCodec 8 (Sm_Path m) (Sm_SHA256 m) fs') = Inr (Sm_SHA256 m)"
    by (simp add: t HasPrefix_def)
  with w show ?thesis by blast
qed

text \<open>
  The ids of the request become parts of the path as they are, so a flip id with dot-dots puts the
  snapshot outside the root.
\<close>

theorem flip_id_escapes_root:
  "snapshotPath ''/data'' ''p'' ''../../../etc'' = ''/etc/implementation-state.json'' \<and>
   snd (WriteImplementationSnapshot w_flip SnapOk 3 ''/data'' (w_implSnap ''../../../etc'') 4 (\<lambda>_. None))
     ''/etc/implementation-state.json'' = Some [CHR ''{'', CHR ''}'', CHR 0x0A]"
  by (intro conjI; code_simp)

end
