(* ===== verification/Spec2Isabelle.thy ===== *)
theory Spec2Isabelle
  imports JobDurability JobProgress JobLog CronProps SchedWitness ApprovalWitness AuthWitness
    EventWitness AuditWitness PrivWitness MigrationWitness UpgradeWitness
    DispatcherRaces DefProps CapabilityProps FlipWitness
begin

text \<open>
  Verification of the durable core of the Hoopoe daemon (\<open>src/apps/daemon/internal\<close>).

  The daemon plans and runs coding jobs on a machine. Some of its parts keep state that must survive
  restarts and guard what may happen: the registry of durable jobs, the registry of recurring (tending)
  jobs with its cron schedules, the queue of approvals that gates dangerous commands, the pairing
  tokens, sessions and signing secret that decide who may talk to it, the hub of events its clients
  follow, the audit log, the helper that runs the few commands that need root, the migrations of the
  database, and the upgrade of the daemon itself. They are modelled here from the source as functions on explicit states, and proved
  correct.

  \<^bold>\<open>Conventions.\<close> Go strings are byte strings (\<open>string\<close>), \<open>int\<close> values are HOL integers with
  \<open>wrap64\<close> where the code can overflow, instants are nanoseconds (\<open>time\<close>, 0 is the zero time), a
  \<open>context\<close> is \<open>None\<close> while live and otherwise the error it reports, a result that can fail is a
  sum with the error on the left, a map is an association list with distinct keys, and a method is a
  function from the state it locks to its result and the state it leaves. Every method of these
  packages holds the mutex of its object for its whole body, so interleavings of callers are the
  sequences of method calls; \<open>IngestDCG\<close>, which takes the lock twice, is written as its two sections, and
  the event hub, which delivers outside its lock, as a step relation. Clocks, write faults and identifiers are arguments.

  \<^bold>\<open>Prelude\<close> (\<open>GoPrelude\<close>, \<open>GoStrings\<close>, \<open>GoTime\<close>): the Go library functions used (trimming, cutting, \<open>Atoi\<close>,
  decimal rendering, saturating \<open>Sub\<close>, calendar arithmetic in UTC), the identifier check the packages
  share, association-list lemmas, the locale \<open>machine\<close> (an invariant and an order kept by every step
  of a run) and the locale \<open>snapshot_store\<close> (what a snapshot store promises: a save that succeeds is
  what is loaded, one that fails leaves the old document). \<open>JsonlLog\<close> is the append-only log of JSON
  lines that approvals, pairing tokens and sessions keep, with torn and unsynced writes and the line
  limit of the reader; \<open>GoEncoding\<close> has hexadecimal and base64 with their round trips.

  \<^bold>\<open>Durable jobs\<close> (\<open>jobs/types.go\<close>, \<open>jobs/registry.go\<close>, \<open>jobs/log/store.go\<close>): \<open>JobTypes\<close> has the records,
  statuses and the JSON file store with its faults; \<open>JobRegistry\<close> every method of \<open>FileRegistry\<close>;
  \<open>JobLog\<close> the log store. \<open>JobInvariant\<close> proves the invariant of the registry and that every method
  keeps it, \<open>JobProps\<close> finality of outcomes, exclusivity of leases and idempotent creation,
  \<open>JobDurability\<close> recovery, listing, identifiers and what a crash leaves on disk, \<open>JobProgress\<close> that
  no job is stuck.

  \<^bold>\<open>Cron\<close> (\<open>scheduler/cron.go\<close>): \<open>Cron\<close> has the parser and the search for the next run, \<open>CronProps\<close>
  their meaning: totality, the set a field denotes, the day rule, and that the search finds the
  earliest matching minute.

  \<^bold>\<open>Tending jobs\<close> (\<open>scheduler/types.go\<close>, \<open>store.go\<close>, \<open>registry.go\<close>): \<open>SchedTypes\<close> has definitions,
  schedules, runs and both stores, \<open>SchedRegistry\<close> every method of \<open>Registry\<close>, with the capability
  gate and the resolution of a trigger as the code composes them. \<open>SchedInvariant\<close> and \<open>SchedMachine\<close>
  prove the invariant and give the locales \<open>trigger_invariant\<close> and \<open>run_invariant\<close>, by which a
  property of the registry is proved once per shape of step; \<open>SchedProps\<close>, \<open>SchedHistory\<close>,
  \<open>SchedTick\<close> and \<open>SchedOutcomes\<close> use them for the concurrency bound, dead letters, deduplication of
  events, retention, ticks, completion and restart; \<open>SchedWitness\<close> applies them at sample states.

  \<^bold>\<open>Dispatcher\<close> (\<open>scheduler/scheduler.go\<close>): \<open>Dispatcher\<close> has the trigger calls, which let the registry select
  runs, dispatch them and audit the decisions, and the goroutines of dispatched runs as a step
  function (\<open>dstep\<close>) whose steps are the points where other goroutines can come between: taking a
  slot, giving up, the return or panic of the runner, the completion, the deferred calls. A dispatch
  is a step of its own, since trigger calls dispatch outside the registry's lock. \<open>DispatcherProps\<close>
  proves the bookkeeping of slots, active runs and waiters for every interleaving, and that the
  dispatcher can always drain; \<open>DispatcherRaces\<close> what a stop, a failed save and an expired lease
  do, and applies both.

  \<^bold>\<open>Definition files\<close> (\<open>scheduler/definitions.go\<close>): \<open>GoDuration\<close> has \<open>time.ParseDuration\<close> and
  \<open>Duration.String\<close>, \<open>DefFiles\<close> the documents, their YAML subset and the directory of definitions,
  \<open>DefProps\<close> the round trip of a definition through its file, and the wrap-around of day counts.

  \<^bold>\<open>Capabilities\<close> (\<open>capabilities/types.go\<close>, \<open>registry.go\<close>, \<open>fixture.go\<close>, \<open>http.go\<close>): \<open>Capabilities\<close> has the reports
  of the tools, the registry with its probes and features, the decision on a feature, the fixtures
  and the two endpoints. \<open>CapabilityProps\<close> adds the adapter of \<open>cmd/hoopoe/tending_capabilities.go\<close>
  through which the scheduler's gate reads the registry, and proves what a decision says and that
  the gate agrees with it, with the two ways in which they part.

  \<^bold>\<open>Project gates\<close> (\<open>projects/gates/gates.go\<close>): \<open>ProjectGates\<close> has the facts about a project, the eight gates,
  and the decision on a transition of its life cycle; \<open>GateProps\<close> proves when one is allowed, and by
  the relation \<open>lifecycle\<close> that no stage is reached without the gates of those before it.

  \<^bold>\<open>Hardening flip\<close> (\<open>swarm/flip/flip.go\<close>): \<open>Flip\<close> has \<open>BuildPlan\<close>, which asks the hardening gate of
  \<open>ProjectGates\<close>, drains the agents, writes a snapshot and switches the tending jobs, and the way back.
  \<open>FlipProps\<close> proves which state a plan comes to and when it can be undone, \<open>FlipJobs\<close> that a second
  switch changes nothing and that a written snapshot verifies; \<open>FlipWitness\<close> applies them. \<open>GoStamp\<close> has
  the layouts of RFC 3339.

  \<^bold>\<open>Approvals\<close> (\<open>approvals/queue.go\<close>, \<open>file_store.go\<close>, \<open>agent_gate.go\<close>, with the schema types of
  \<open>packages/schemas/go/schemas.gen.go\<close> and the verdict records of \<open>adapters/dcg/dcg.go\<close>):
  \<open>ApprovalTypes\<close> has the records, the locale \<open>approval_store\<close> (the \<open>Store\<close> interface with its laws) and
  the memory store, \<open>ApprovalLog\<close> the store on a \<open>JsonlLog\<close>, both interpretations of the locale;
  \<open>ApprovalQueue\<close> has the methods of \<open>Queue\<close> over any store, \<open>ApprovalIngest\<close> the producers of
  requests. \<open>ApprovalSpec\<close> is the abstract life cycle of approvals; \<open>ApprovalRefine\<close> proves in the
  locale that every operation is a path of that life cycle, whichever saves fail, and
  \<open>ApprovalResults\<close> what the operations answer; \<open>ApprovalProps\<close> states both for the two stores, and
  \<open>ApprovalWitness\<close> applies them.

  \<^bold>\<open>Credentials\<close> (\<open>auth/bootstrap.go\<close>, \<open>pairing_store.go\<close>, \<open>session.go\<close>, \<open>secret_store.go\<close>):
  \<open>AuthPairing\<close> has the pairing tokens as events of a log that every operation replays, \<open>AuthSession\<close>
  the secret file, signed tokens, and the session service with its log and its table in memory.
  \<open>AuthPairingProps\<close> proves the invariant of the replayed log and that a spent token stays spent,
  \<open>AuthSessionProps\<close> that revocation and rotation hold for good and when a bearer verifies;
  \<open>AuthWitness\<close> applies them.

  \<^bold>\<open>Events\<close> (\<open>api/events.go\<close>, the replay and streaming parts of \<open>router.go\<close> and \<open>wire.go\<close>): \<open>EventHub\<close> has
  the hub that numbers events per channel, keeps a window for replay and delivers to subscribers over
  bounded Go channels. Its publishers run outside the lock while they deliver, so besides \<open>Publish\<close> as
  one operation there is a step relation (\<open>hub_reach\<close>) whose steps are single operations on a channel.
  \<open>EventHubProps\<close> proves replay exact and memory bounded under every interleaving, \<open>EventStream\<close> that a
  stream accounts for every event while publishers do not overlap, \<open>EventRaces\<close> that \<open>Publish\<close> is its
  uninterrupted steps and how overlapping publishers, or a marker on the wrong channel, lose an event;
  \<open>EventWitness\<close> applies them.

  \<^bold>\<open>Audit log\<close> (\<open>audit/writer.go\<close>): \<open>AuditIndex\<close> has entries, queries and the index with its tables and
  evictions, and proves a query equal to a scan; \<open>AuditWriter\<close> the writers that share a \<open>JsonlLog\<close>;
  \<open>AuditProps\<close> proves their numbering and what an oversized line does, \<open>AuditWitness\<close> applies them.

  \<^bold>\<open>Setup helper\<close> (\<open>security/privsep\<close> and \<open>apps/daemon/scripts/setup-helper/main.go\<close>): \<open>PrivAllowlist\<close>
  has the allowlist file, its parser and the shapes of arguments, \<open>PrivToken\<close> the signed approval tokens
  and the store of used ones, \<open>PrivEngine\<close> the engine, the command lines it runs, the sudoers rule and
  the program itself. \<open>PrivAllowlistProps\<close> proves the round trip of the file and what the shapes
  accept, \<open>PrivTokenProps\<close> single use and its limit at the expiry, \<open>PrivEngineProps\<close> which commands can
  run, and what a caller that chooses the files can do; \<open>PrivWitness\<close> applies them.

  \<^bold>\<open>Migrations\<close> (\<open>migrations/runner.go\<close>, \<open>backup.go\<close>, \<open>state.go\<close>): \<open>Migrations\<close> has the registry, the runner
  over an abstract database content, the backups with retention, and the reported state.
  \<open>MigrationProps\<close> states the laws of a backup as the locale \<open>backuper\<close>, interpreted on \<open>FileBackup\<close> and
  \<open>FileRestore\<close>, and proves that runs apply a prefix of the missing migrations and that failed runs can
  be resumed; \<open>MigrationWitness\<close> applies them.

  \<^bold>\<open>Upgrades\<close> (\<open>release/verification.go\<close>, \<open>upgrade/service.go\<close>, \<open>io.go\<close>, \<open>http.go\<close>): \<open>Release\<close> has
  the verification of a release, \<open>Upgrade\<close> the service over its interfaces with the list of the states
  its callers can see, \<open>UpgradeFiles\<close> the fetcher, backup store, installer and service manager of the
  daemon on a map of files, and \<open>productionUpgrader\<close>, the service made of them. \<open>ReleaseProps\<close> proves what is
  accepted and what the signature leaves open, \<open>UpgradeProps\<close> that writes are refused throughout and, by
  the locales \<open>quiet_ports\<close> and \<open>steady_ports\<close>, that nothing changes without an accepted release;
  \<open>UpgradeRollback\<close> has the locale \<open>backup_store\<close>, interpreted on the files, and what a rollback brings
  back; \<open>UpgradeWitness\<close> applies them. \<open>GoPath\<close> has the path functions these and the setup helper use.

  \<^bold>\<open>How the parts interact.\<close> The registries and the queue persist through their stores: the two
  registries through a snapshot file written anew by each mutation, the queue through the appended
  log. The scheduler asks the cron expressions for the next run and validates identifiers like the
  job registry does. The agent's gate and the command guard reach the queue only through its
  \<open>Request\<close>, \<open>Deny\<close> and \<open>Check\<close>.

  \<^bold>\<open>Bounds and fuel.\<close> The range loop of the cron parser is a \<open>partial_function\<close>, because with a large
  step its 64-bit addition wraps; that it always returns is the theorem \<open>parse_cron_total\<close>. The search
  for the next run counts minutes down from the code's own horizon of five years, so its fuel is the
  code's bound. All other loops are structural recursions over the lists they walk.

  \<^bold>\<open>Parameters.\<close> Code outside the repository that the modelled code calls is an argument: the JSON
  encoding, Ed25519 and SHA-256 (\<open>release_codec\<close>, \<open>digest\<close>, \<open>q_canonicalJSON\<close>, \<open>q_sha256Hex\<close>), the random identifiers of the
  queue (\<open>gen\<close>, drawn anew by every operation of a run), and \<open>fmt.Sprint\<close>. The approval theorems assume of the digest only that trimming
  blanks leaves it as it is (it is hexadecimal). The credentials take SHA-256, the random draws, and as
  \<open>token_codec\<close> the JSON of claims and HMAC-SHA256, of which the round trip of an issued bearer assumes
  that claims that marshal are read back (\<open>codec_ok\<close>). The hub and the audit log take the redactor and
  the JSON encoder, the audit search its conversions to lower case and text. The dispatcher takes its runner, audit sink and redactor, the
  definition files the JSON text of a document and the floating point of decimal fractions of a duration. Records are taken to survive being written as JSON
  and read back; the log file adds the line limit of its reader as the predicate \<open>fits\<close>.

  \<^bold>\<open>Simplifications.\<close> Counters that the code only ever increments by one are unbounded: the revision of a
  definition and the run and failure counts of a tending job. Texts are taken to be valid UTF-8 where
  they go through JSON, so that a record comes back as it was; \<open>codec_ok\<close> says the same of claims. Every
  run of the migrations opens the database file anew, while the code's handle outlives a restored
  file. \<open>sort.SliceStable\<close> is an insertion sort; the two agree for the transitive orders, and the
  order of audit entries, which is not transitive, only up to twenty entries. Files are maps from
  path strings, without links, aliases or special mode bits. \<open>productionUpgrader\<close> puts the parts of the upgrade
  package together; the daemon's own wiring of them is not in the repository.

  \<^bold>\<open>Not modelled.\<close> The conversions of records to the API schema; the HTTP transport beyond the replay
  endpoint; the adapters that run external programs and parse their output; planning, review,
  health and chaos packages; the desktop application, which is not Go.
\<close>

end
